(* ===== verification/Prelude.thy ===== *)
theory Prelude
  imports Main "HOL-Library.AList" "HOL-Library.Sublist" "HOL-Library.Char_ord"
    "HOL-Library.List_Lexorder" "HOL-Library.Product_Lexorder"
begin

text \<open>
  The shared vocabulary of the development.

  \<^item> Machine integers: \<open>u64\<close>, \<open>usize\<close> (64 bit) and \<open>u32\<close> values are \<^typ>\<open>nat\<close>; every
    operation of the source that saturates or wraps does so explicitly here.
  \<^item> Rust strings: a \<open>String\<close> is its UTF-8 byte sequence, a \<^typ>\<open>string\<close> whose characters are
    bytes, so that \<open>len\<close>, byte offsets and slices are those of the source. \<open>chars()\<close> is
    \<open>utf8_chars\<close>, which cuts the bytes at the lead bytes.
  \<^item> Containers: \<open>IndexMap\<close> and \<open>HashMap\<close> are association lists updated by \<^const>\<open>AList.update\<close>
    (the list order is the iteration order), \<open>BTreeMap\<close> is a sorted association list,
    \<open>BTreeSet\<close> a sorted list updated by \<^const>\<open>insort_insert\<close>. The locale \<open>keyed_map\<close> is their
    common contract.
  \<^item> Emitters: an operation that takes a state and returns the events it emits with the new
    state; an operation that may panic returns an option. The locale \<open>emitter_law\<close> carries a
    property of single emissions to every composition.
\<close>

named_theorems str_defs \<comment> \<open>definitions of the string operations, for evaluation\<close>
named_theorems emit_defs \<comment> \<open>definitions of the emitter combinators\<close>

section \<open>Machine integers\<close>

definition u64_max :: nat where
  "u64_max = 18446744073709551615"

definition u32_modulus :: nat where
  "u32_modulus = 4294967296"

definition sat_add :: "nat \<Rightarrow> nat \<Rightarrow> nat" where
  "sat_add a b = min (a + b) u64_max"

definition sat_mul :: "nat \<Rightarrow> nat \<Rightarrow> nat" where
  "sat_mul a b = min (a * b) u64_max"

section \<open>Strings as UTF-8 byte sequences\<close>

definition byte_val :: "char \<Rightarrow> nat" where
  "byte_val c = of_char c"

definition is_cont :: "char \<Rightarrow> bool" where
  "is_cont c \<longleftrightarrow> 128 \<le> byte_val c \<and> byte_val c < 192"

text \<open>\<open>str::chars\<close>: each lead byte with the continuation bytes that follow it.\<close>

function utf8_chars :: "string \<Rightarrow> string list" where
  "utf8_chars [] = []"
| "utf8_chars (c # cs) = (c # takeWhile is_cont cs) # utf8_chars (dropWhile is_cont cs)"
  by pat_completeness auto
termination
  by (relation "measure length") (auto simp: length_dropWhile_le le_imp_less_Suc)

text \<open>\<open>String::from_utf8\<close>: the well-formed byte sequences (no overlong forms, no surrogates).\<close>

fun valid_utf8_vals :: "nat list \<Rightarrow> bool" where
  "valid_utf8_vals [] = True"
| "valid_utf8_vals (b # bs) =
     (if b < 128 then valid_utf8_vals bs
      else if 194 \<le> b \<and> b \<le> 223 then
        (case bs of c1 # r \<Rightarrow> 128 \<le> c1 \<and> c1 < 192 \<and> valid_utf8_vals r | _ \<Rightarrow> False)
      else if 224 \<le> b \<and> b \<le> 239 then
        (case bs of c1 # c2 # r \<Rightarrow>
            (if b = 224 then 160 else 128) \<le> c1 \<and> c1 < (if b = 237 then 160 else 192)
            \<and> 128 \<le> c2 \<and> c2 < 192 \<and> valid_utf8_vals r
         | _ \<Rightarrow> False)
      else if 240 \<le> b \<and> b \<le> 244 then
        (case bs of c1 # c2 # c3 # r \<Rightarrow>
            (if b = 240 then 144 else 128) \<le> c1 \<and> c1 < (if b = 244 then 144 else 192)
            \<and> 128 \<le> c2 \<and> c2 < 192 \<and> 128 \<le> c3 \<and> c3 < 192 \<and> valid_utf8_vals r
         | _ \<Rightarrow> False)
      else False)"

definition valid_utf8 :: "string \<Rightarrow> bool" where
  "valid_utf8 s = valid_utf8_vals (map byte_val s)"

text \<open>The encodings of the Unicode \<open>White_Space\<close> characters, which \<open>trim\<close> removes.\<close>

definition is_ws_vals :: "nat list \<Rightarrow> bool" where
  "is_ws_vals bs =
     (case bs of
        [a] \<Rightarrow> (9 \<le> a \<and> a \<le> 13) \<or> a = 32
      | [a, b] \<Rightarrow> a = 194 \<and> (b = 133 \<or> b = 160)
      | [a, b, c] \<Rightarrow>
          (a = 225 \<and> b = 154 \<and> c = 128) \<or>
          (a = 226 \<and> b = 128 \<and> ((128 \<le> c \<and> c \<le> 138) \<or> c = 168 \<or> c = 169 \<or> c = 175)) \<or>
          (a = 226 \<and> b = 129 \<and> c = 159) \<or>
          (a = 227 \<and> b = 128 \<and> c = 128)
      | _ \<Rightarrow> False)"

definition is_ws :: "string \<Rightarrow> bool" where
  "is_ws g = is_ws_vals (map byte_val g)"

definition trim_start :: "string \<Rightarrow> string" where
  "trim_start s = concat (dropWhile is_ws (utf8_chars s))"

definition trim_end :: "string \<Rightarrow> string" where
  "trim_end s = concat (rev (dropWhile is_ws (rev (utf8_chars s))))"

definition trim :: "string \<Rightarrow> string" where
  "trim s = trim_end (trim_start s)"

text \<open>\<open>trim_matches\<close> with an ASCII character.\<close>

definition trim_char :: "char \<Rightarrow> string \<Rightarrow> string" where
  "trim_char c s = rev (dropWhile ((=) c) (rev (dropWhile ((=) c) s)))"

definition ascii_lower_char :: "char \<Rightarrow> char" where
  "ascii_lower_char c =
     (if 65 \<le> byte_val c \<and> byte_val c \<le> 90 then char_of (byte_val c + 32) else c)"

definition to_ascii_lowercase :: "string \<Rightarrow> string" where
  "to_ascii_lowercase = map ascii_lower_char"

definition starts_with :: "string \<Rightarrow> string \<Rightarrow> bool" where
  "starts_with s p = prefix p s"

definition ends_with :: "string \<Rightarrow> string \<Rightarrow> bool" where
  "ends_with s p = prefix (rev p) (rev s)"

text \<open>\<open>str::find\<close> with a string pattern: the offset of the first match.\<close>

fun find_str :: "string \<Rightarrow> string \<Rightarrow> nat option" where
  "find_str pat [] = (if pat = [] then Some 0 else None)"
| "find_str pat (c # cs) =
     (if prefix pat (c # cs) then Some 0 else map_option Suc (find_str pat cs))"

definition contains :: "string \<Rightarrow> string \<Rightarrow> bool" where
  "contains s pat = (find_str pat s \<noteq> None)"

text \<open>\<open>str::rfind\<close> with a character pattern: the offset of the last match.\<close>

fun rfind_char :: "char \<Rightarrow> string \<Rightarrow> nat option" where
  "rfind_char c [] = None"
| "rfind_char c (x # xs) =
     (case rfind_char c xs of
        Some i \<Rightarrow> Some (Suc i)
      | None \<Rightarrow> if x = c then Some 0 else None)"

text \<open>\<open>str::replace\<close> with a non-empty pattern: leftmost matches, never overlapping. The counter is
  the number of bytes of the current match still to be skipped.\<close>

fun replace_from :: "nat \<Rightarrow> string \<Rightarrow> string \<Rightarrow> string \<Rightarrow> string" where
  "replace_from k pat rep [] = []"
| "replace_from (Suc k) pat rep (c # cs) = replace_from k pat rep cs"
| "replace_from 0 pat rep (c # cs) =
     (if prefix pat (c # cs) then rep @ replace_from (length pat - 1) pat rep cs
      else c # replace_from 0 pat rep cs)"

definition replace_str :: "string \<Rightarrow> string \<Rightarrow> string \<Rightarrow> string" where
  "replace_str s pat rep = replace_from 0 pat rep s"

text \<open>\<open>str::split\<close> with a character: always at least one piece.\<close>

fun split_char :: "char \<Rightarrow> string \<Rightarrow> string list" where
  "split_char d [] = [[]]"
| "split_char d (c # cs) =
     (if c = d then [] # split_char d cs
      else (case split_char d cs of p # ps \<Rightarrow> (c # p) # ps | [] \<Rightarrow> [[c]]))"

definition newline :: char where
  "newline = CHR 0x0A"

definition carriage_return :: char where
  "carriage_return = CHR 0x0D"

fun join_with :: "string \<Rightarrow> string list \<Rightarrow> string" where
  "join_with sep [] = []"
| "join_with sep [x] = x"
| "join_with sep (x # y # ys) = x @ sep @ join_with sep (y # ys)"

text \<open>\<open>str::lines\<close>: a final line without a terminator is kept as it is, one with a terminator loses
  it and a carriage return before it.\<close>

definition strip_cr :: "string \<Rightarrow> string" where
  "strip_cr l = (if l \<noteq> [] \<and> last l = carriage_return then butlast l else l)"

definition str_lines :: "string \<Rightarrow> string list" where
  "str_lines s =
     (let ps = split_char newline s
      in map strip_cr (butlast ps) @ (if last ps = [] then [] else [last ps]))"

text \<open>Decimal and zero-padded hexadecimal formatting.\<close>

definition digit_char :: "nat \<Rightarrow> char" where
  "digit_char d = char_of (48 + d)"

fun nat_dec :: "nat \<Rightarrow> string" where
  "nat_dec n = (if n < 10 then [digit_char n] else nat_dec (n div 10) @ [digit_char (n mod 10)])"

declare nat_dec.simps [simp del]

definition hex_char :: "nat \<Rightarrow> char" where
  "hex_char d = (if d < 10 then char_of (48 + d) else char_of (87 + d))"

definition hex4 :: "nat \<Rightarrow> string" where
  "hex4 n = [hex_char (n div 4096 mod 16), hex_char (n div 256 mod 16),
             hex_char (n div 16 mod 16), hex_char (n mod 16)]"

lemmas str_op_defs [str_defs] =
  byte_val_def is_cont_def is_ws_def is_ws_vals_def trim_start_def trim_end_def trim_def
  trim_char_def ascii_lower_char_def to_ascii_lowercase_def starts_with_def ends_with_def
  contains_def replace_str_def newline_def carriage_return_def strip_cr_def str_lines_def
  digit_char_def hex_char_def hex4_def

text \<open>\<open>Iterator::find_map\<close>.\<close>

fun find_map :: "('a \<Rightarrow> 'b option) \<Rightarrow> 'a list \<Rightarrow> 'b option" where
  "find_map f [] = None"
| "find_map f (x # xs) = (case f x of Some y \<Rightarrow> Some y | None \<Rightarrow> find_map f xs)"

section \<open>Ordered containers\<close>

definition bt_update :: "'k::linorder \<Rightarrow> 'v \<Rightarrow> ('k \<times> 'v) list \<Rightarrow> ('k \<times> 'v) list" where
  "bt_update k v m =
     takeWhile (\<lambda>p. fst p < k) m @ (k, v) # dropWhile (\<lambda>p. fst p \<le> k) m"

definition bt_delete :: "'k::linorder \<Rightarrow> ('k \<times> 'v) list \<Rightarrow> ('k \<times> 'v) list" where
  "bt_delete k m = filter (\<lambda>p. fst p \<noteq> k) m"

abbreviation bt_sorted :: "('k::linorder \<times> 'v) list \<Rightarrow> bool" where
  "bt_sorted m \<equiv> sorted_wrt (<) (map fst m)"

section \<open>Emitters\<close>

type_synonym ('s, 'e) emitter = "'s \<Rightarrow> 'e list \<times> 's"

definition no_emit :: "('s, 'e) emitter" where
  "no_emit s = ([], s)"

definition modify_emit :: "('s \<Rightarrow> 's) \<Rightarrow> ('s, 'e) emitter" where
  "modify_emit u s = ([], u s)"

definition then_emit :: "('s, 'e) emitter \<Rightarrow> ('s, 'e) emitter \<Rightarrow> ('s, 'e) emitter" where
  "then_emit f g s = (let (a, s1) = f s; (b, s2) = g s1 in (a @ b, s2))"

definition ask_emit :: "('s \<Rightarrow> ('s, 'e) emitter) \<Rightarrow> ('s, 'e) emitter" where
  "ask_emit f s = f s s"

fun each_emit :: "('a \<Rightarrow> ('s, 'e) emitter) \<Rightarrow> 'a list \<Rightarrow> ('s, 'e) emitter" where
  "each_emit f [] = no_emit"
| "each_emit f (x # xs) = then_emit (f x) (each_emit f xs)"

text \<open>An emitter that may panic: \<^const>\<open>None\<close>.\<close>

type_synonym ('s, 'e) pemitter = "'s \<Rightarrow> ('e list \<times> 's) option"

definition total :: "('s, 'e) emitter \<Rightarrow> ('s, 'e) pemitter" where
  "total f s = Some (f s)"

definition pthen :: "('s, 'e) pemitter \<Rightarrow> ('s, 'e) pemitter \<Rightarrow> ('s, 'e) pemitter" where
  "pthen f g s =
     (case f s of
        None \<Rightarrow> None
      | Some (a, s1) \<Rightarrow> map_option (\<lambda>(b, s2). (a @ b, s2)) (g s1))"

definition pask :: "('s \<Rightarrow> ('s, 'e) pemitter) \<Rightarrow> ('s, 'e) pemitter" where
  "pask f s = f s s"

fun peach :: "('a \<Rightarrow> ('s, 'e) pemitter) \<Rightarrow> 'a list \<Rightarrow> ('s, 'e) pemitter" where
  "peach f [] = total no_emit"
| "peach f (x # xs) = pthen (f x) (peach f xs)"

lemmas emit_comb_defs [emit_defs] =
  no_emit_def modify_emit_def then_emit_def ask_emit_def total_def pthen_def pask_def

section \<open>Lemmas: integers\<close>

lemma sat_add_le [simp]: "sat_add a b \<le> u64_max"
  by (simp add: sat_add_def)

lemma sat_add_exact: "a + b \<le> u64_max \<Longrightarrow> sat_add a b = a + b"
  by (simp add: sat_add_def)

lemma sat_add_mono_left: "a \<le> u64_max \<Longrightarrow> a \<le> sat_add a b"
  by (simp add: sat_add_def)

lemma sat_add_0 [simp]: "a \<le> u64_max \<Longrightarrow> sat_add a 0 = a"
  by (simp add: sat_add_def)

section \<open>Lemmas: strings\<close>

lemma concat_utf8_chars [simp]: "concat (utf8_chars s) = s"
  by (induction s rule: utf8_chars.induct) auto

lemma utf8_chars_eq_Nil [simp]: "utf8_chars s = [] \<longleftrightarrow> s = []"
  by (cases s) auto

lemma utf8_chars_nonempty: "g \<in> set (utf8_chars s) \<Longrightarrow> g \<noteq> []"
  by (induction s rule: utf8_chars.induct) auto

text \<open>A text cut after whole characters has exactly those characters.\<close>

lemma takeWhile_append_stop:
  "xs = [] \<or> \<not> P (hd xs) \<Longrightarrow> takeWhile P (ys @ xs) = takeWhile P ys"
  by (induction ys) (cases xs, auto)+

lemma dropWhile_append_stop:
  "xs = [] \<or> \<not> P (hd xs) \<Longrightarrow> dropWhile P (ys @ xs) = dropWhile P ys @ xs"
  by (cases xs) (auto simp: dropWhile_append)

lemma utf8_chars_append:
  "b = [] \<or> \<not> is_cont (hd b) \<Longrightarrow> utf8_chars (a @ b) = utf8_chars a @ utf8_chars b"
proof (induction a rule: utf8_chars.induct)
  case (2 c cs)
  then show ?case
    by (simp add: takeWhile_append_stop dropWhile_append_stop)
qed simp

lemma ends_with_suffix: "ends_with s p \<longleftrightarrow> suffix p s"
  by (simp add: ends_with_def suffix_to_prefix)

lemma is_ws_lead: "is_ws (c # g) \<Longrightarrow> g = [] \<Longrightarrow> byte_val c \<in> {9..13} \<union> {32}"
  by (auto simp: is_ws_def is_ws_vals_def)

lemma is_ws_multi: "is_ws (c # d # g) \<Longrightarrow> byte_val c \<in> {194, 225, 226, 227}"
  by (auto simp: is_ws_def is_ws_vals_def split: list.splits)

lemma not_ws_printable: "33 \<le> byte_val c \<Longrightarrow> byte_val c < 128 \<Longrightarrow> \<not> is_ws (c # g)"
  using is_ws_lead [of c g] is_ws_multi [of c] by (cases g) auto

lemma trim_empty [simp]: "trim [] = []"
  by (simp add: trim_def trim_start_def trim_end_def)

lemma find_str_Some:
  "find_str pat s = Some i \<Longrightarrow> s = take i s @ pat @ drop (i + length pat) s"
proof (induction s arbitrary: i)
  case Nil
  then show ?case by (simp split: if_splits)
next
  case (Cons c cs)
  show ?case
  proof (cases "prefix pat (c # cs)")
    case True
    with Cons.prems have "i = 0" by simp
    with True show ?thesis by (auto simp: prefix_def)
  next
    case False
    with Cons.prems obtain j where j: "find_str pat cs = Some j" "i = Suc j" by auto
    from Cons.IH [OF j(1)] j(2) show ?thesis by simp
  qed
qed

lemma find_str_bound: "find_str pat s = Some i \<Longrightarrow> i + length pat \<le> length s"
proof (induction s arbitrary: i)
  case (Cons c cs)
  then show ?case by (auto split: if_splits dest: prefix_length_le)
qed (simp split: if_splits)

lemma find_str_None: "find_str pat s = None \<longleftrightarrow> \<not> sublist pat s"
  by (induction s) (auto simp: sublist_Cons_right)

lemma find_str_first: "find_str pat s = Some i \<Longrightarrow> j < i \<Longrightarrow> \<not> prefix pat (drop j s)"
proof (induction s arbitrary: i j)
  case (Cons c cs)
  then show ?case by (cases j) (auto split: if_splits)
qed (simp split: if_splits)

lemma contains_sublist: "contains s pat \<longleftrightarrow> sublist pat s"
  by (simp add: contains_def find_str_None)

lemma find_str_absent:
  "pat \<noteq> [] \<Longrightarrow> hd pat \<notin> set s \<Longrightarrow> find_str pat s = None"
  by (induction s) (auto simp: prefix_def neq_Nil_conv)

lemma rfind_char_None: "rfind_char c s = None \<longleftrightarrow> c \<notin> set s"
  by (induction s) (auto split: option.splits)

lemma rfind_char_Some:
  "rfind_char c s = Some i \<Longrightarrow> i < length s \<and> s ! i = c \<and> c \<notin> set (drop (Suc i) s)"
  by (induction s arbitrary: i) (auto split: option.splits if_splits simp: rfind_char_None)

lemma replace_from_absent:
  "pat \<noteq> [] \<Longrightarrow> hd pat \<notin> set s \<Longrightarrow> replace_from 0 pat rep s = s"
  by (induction s) (auto simp: prefix_def neq_Nil_conv)

lemma replace_str_absent:
  "pat \<noteq> [] \<Longrightarrow> hd pat \<notin> set s \<Longrightarrow> replace_str s pat rep = s"
  by (simp add: replace_str_def replace_from_absent)

lemma split_char_nonempty [simp]: "split_char d s \<noteq> []"
  by (induction s) (auto split: list.splits)

lemma join_split_char: "join_with [d] (split_char d s) = s"
proof (induction s)
  case (Cons c cs)
  obtain p ps where "split_char d cs = p # ps"
    by (cases "split_char d cs") auto
  with Cons.IH show ?case by (cases ps) auto
qed simp

lemma split_char_pieces: "p \<in> set (split_char d s) \<Longrightarrow> d \<notin> set p"
proof (induction s arbitrary: p)
  case (Cons c cs)
  then show ?case by (auto split: list.splits if_splits)
qed simp

lemma split_char_no_delim: "d \<notin> set s \<Longrightarrow> split_char d s = [s]"
  by (induction s) auto

lemma split_char_append_delim:
  "d \<notin> set a \<Longrightarrow> split_char d (a @ d # b) = a # split_char d b"
  by (induction a) auto

text \<open>Decimal formatting is injective: the digits determine the number.\<close>

definition undigit :: "char \<Rightarrow> nat" where
  "undigit c = byte_val c - 48"

definition undec :: "string \<Rightarrow> nat" where
  "undec s = foldl (\<lambda>n c. 10 * n + undigit c) 0 s"

lemma undigit_digit [simp]: "d < 10 \<Longrightarrow> undigit (digit_char d) = d"
  by (simp add: undigit_def digit_char_def byte_val_def)

lemma undec_nat_dec: "undec (nat_dec n) = n"
proof (induction n rule: nat_dec.induct)
  case (1 n)
  show ?case
  proof (cases "n < 10")
    case True
    then show ?thesis by (subst nat_dec.simps) (simp add: undec_def)
  next
    case False
    with 1 have "undec (nat_dec (n div 10)) = n div 10" by simp
    with False show ?thesis by (subst nat_dec.simps) (simp add: undec_def)
  qed
qed

lemma nat_dec_inject [simp]: "nat_dec m = nat_dec n \<longleftrightarrow> m = n"
  by (metis undec_nat_dec)

lemma nat_dec_digits: "c \<in> set (nat_dec n) \<Longrightarrow> \<exists>d < 10. c = digit_char d"
proof (induction n rule: nat_dec.induct)
  case (1 n)
  show ?case
  proof (cases "n < 10")
    case True
    with "1.prems" show ?thesis by (subst (asm) nat_dec.simps) auto
  next
    case False
    with "1.prems" have "c \<in> set (nat_dec (n div 10)) \<or> c = digit_char (n mod 10)"
      by (subst (asm) nat_dec.simps) auto
    then show ?thesis
    proof
      assume "c \<in> set (nat_dec (n div 10))"
      with False show ?thesis by (rule 1)
    next
      assume "c = digit_char (n mod 10)"
      then show ?thesis by (intro exI [of _ "n mod 10"]) simp
    qed
  qed
qed

lemma digit_char_val: "d < 10 \<Longrightarrow> byte_val (digit_char d) = 48 + d"
  by (simp add: digit_char_def byte_val_def)

lemma nat_dec_no_punct:
  "CHR '':'' \<notin> set (nat_dec n)" "CHR ''_'' \<notin> set (nat_dec n)"
  by (auto dest!: nat_dec_digits arg_cong [where f = byte_val] simp: digit_char_val)
     (auto simp: byte_val_def)

section \<open>Lemmas: ordered containers\<close>

locale keyed_map =
  fixes emp :: "'m"
    and upd :: "'k \<Rightarrow> 'v \<Rightarrow> 'm \<Rightarrow> 'm"
    and del :: "'k \<Rightarrow> 'm \<Rightarrow> 'm"
    and look :: "'m \<Rightarrow> 'k \<Rightarrow> 'v option"
    and ok :: "'m \<Rightarrow> bool"
  assumes look_emp: "look emp k = None"
    and look_upd: "ok m \<Longrightarrow> look (upd k v m) j = (if j = k then Some v else look m j)"
    and look_del: "ok m \<Longrightarrow> look (del k m) j = (if j = k then None else look m j)"
    and ok_emp: "ok emp"
    and ok_upd: "ok m \<Longrightarrow> ok (upd k v m)"
    and ok_del: "ok m \<Longrightarrow> ok (del k m)"
begin

lemma insert_lookup: "ok m \<Longrightarrow> look (upd k v m) k = Some v"
  by (simp add: look_upd)

lemma insert_frame: "ok m \<Longrightarrow> j \<noteq> k \<Longrightarrow> look (upd k v m) j = look m j"
  by (simp add: look_upd)

lemma remove_lookup: "ok m \<Longrightarrow> look (del k m) k = None"
  by (simp add: look_del)

lemma insert_remove_lookup: "ok m \<Longrightarrow> look (del k (upd k v m)) j = (if j = k then None else look m j)"
  by (simp add: look_del look_upd ok_upd)

end

text \<open>\<open>IndexMap\<close> (and \<open>HashMap\<close>, whose iteration order is unspecified): updating in place, appending
  a new key at the end, removing with the order of the others kept.\<close>

lemma update_snoc: "k \<notin> fst ` set m \<Longrightarrow> AList.update k v m = m @ [(k, v)]"
  by (induction m) auto

interpretation index_map: keyed_map "[]" AList.update AList.delete map_of
  "\<lambda>m. distinct (map fst m)"
  by unfold_locales
     (auto simp: update_conv' delete_conv' distinct_update distinct_delete)

lemma bt_update_Cons:
  "bt_update k v (p # m) =
     (if fst p < k then p # bt_update k v m
      else if fst p = k then (k, v) # dropWhile (\<lambda>q. fst q \<le> k) m
      else (k, v) # p # m)"
  by (auto simp: bt_update_def)

lemma dropWhile_above: "\<forall>x \<in> set m. k < fst x \<Longrightarrow> dropWhile (\<lambda>q. fst q \<le> (k::'k::linorder)) m = m"
  by (cases m) auto

lemma bt_update_keys:
  "bt_sorted m \<Longrightarrow> set (map fst (bt_update k v m)) = insert k (fst ` set m)"
proof (induction m)
  case (Cons p m)
  then show ?case
    by (cases "fst p" k rule: linorder_cases) (auto simp: bt_update_Cons dropWhile_above)
qed (simp add: bt_update_def)

lemma bt_sorted_update: "bt_sorted m \<Longrightarrow> bt_sorted (bt_update k v m)"
proof (induction m)
  case (Cons p m)
  show ?case
  proof (cases "fst p" k rule: linorder_cases)
    case less
    with Cons bt_update_keys [of m k v] show ?thesis
      by (auto simp: bt_update_Cons)
  next
    case equal
    with Cons show ?thesis by (auto simp: bt_update_Cons dropWhile_above)
  next
    case greater
    with Cons show ?thesis by (auto simp: bt_update_Cons)
  qed
qed (simp add: bt_update_def)

lemma map_of_bt_update:
  "bt_sorted m \<Longrightarrow> map_of (bt_update k v m) j = (if j = k then Some v else map_of m j)"
proof (induction m)
  case (Cons p m)
  show ?case
  proof (cases "fst p" k rule: linorder_cases)
    case less
    with Cons show ?thesis by (cases p) (auto simp: bt_update_Cons)
  next
    case equal
    with Cons show ?thesis by (cases p) (auto simp: bt_update_Cons dropWhile_above)
  next
    case greater
    then show ?thesis by (cases p) (auto simp: bt_update_Cons)
  qed
qed (simp add: bt_update_def)

lemma map_of_bt_delete: "map_of (bt_delete k m) j = (if j = k then None else map_of m j)"
  by (induction m) (auto simp: bt_delete_def)

lemma bt_sorted_delete: "bt_sorted m \<Longrightarrow> bt_sorted (bt_delete k m)"
  by (induction m) (auto simp: bt_delete_def)

interpretation btree_map: keyed_map "[]" bt_update bt_delete map_of bt_sorted
  by unfold_locales
     (simp_all add: map_of_bt_update map_of_bt_delete bt_sorted_update bt_sorted_delete)

lemma bt_delete_keys: "set (map fst (bt_delete k m)) = fst ` set m - {k}"
  by (auto simp: bt_delete_def)

lemma set_insort_insert [simp]: "set (insort_insert x xs) = insert x (set xs)"
  by (auto simp: insort_insert_key_def set_insort_key)

lemma sorted_insort_insert_strict:
  "sorted_wrt (<) (xs :: 'a::linorder list) \<Longrightarrow> sorted_wrt (<) (insort_insert x xs)"
  by (simp add: strict_sorted_iff insort_insert_key_def distinct_insort sorted_insort)

section \<open>Lemmas: emitters\<close>

lemma fst_snd_then_emit:
  "fst (then_emit f g s) = fst (f s) @ fst (g (snd (f s)))"
  "snd (then_emit f g s) = snd (g (snd (f s)))"
  by (simp_all add: then_emit_def split: prod.splits)

lemma no_emit_simps [simp]: "fst (no_emit s) = []" "snd (no_emit s) = s"
  by (simp_all add: no_emit_def)

lemma modify_emit_simps [simp]: "fst (modify_emit u s) = []" "snd (modify_emit u s) = u s"
  by (simp_all add: modify_emit_def)

lemma ask_emit_app [simp]: "ask_emit f s = f s s"
  by (simp add: ask_emit_def)

lemma pask_app [simp]: "pask f s = f s s"
  by (simp add: pask_def)

lemma total_app [simp]: "total f s = Some (f s)"
  by (simp add: total_def)

lemma pthen_Some:
  "pthen f g s = Some (es, t) \<longleftrightarrow>
     (\<exists>a s1 b. f s = Some (a, s1) \<and> g s1 = Some (b, t) \<and> es = a @ b)"
  by (auto simp: pthen_def split: option.splits)

lemma pthen_total: "pthen (total f) (total g) = total (then_emit f g)"
  by (simp add: fun_eq_iff pthen_def then_emit_def split: prod.splits)

text \<open>
  A trace law \<open>R s es t\<close> relates a state, the events emitted from it and the state reached. A law
  that holds of the silent step and is closed under concatenation holds of a composed operation
  as soon as it holds of its parts. Every property below of \<open>what one call emits\<close> is such a law.
\<close>

locale emitter_law =
  fixes R :: "'s \<Rightarrow> 'e list \<Rightarrow> 's \<Rightarrow> bool"
  assumes silent: "R s [] s"
    and compose: "R s a t \<Longrightarrow> R t b u \<Longrightarrow> R s (a @ b) u"
begin

definition lawful :: "('s, 'e) emitter \<Rightarrow> bool" where
  "lawful f \<longleftrightarrow> (\<forall>s. R s (fst (f s)) (snd (f s)))"

lemma lawfulI: "(\<And>s. R s (fst (f s)) (snd (f s))) \<Longrightarrow> lawful f"
  by (simp add: lawful_def)

lemma lawfulD: "lawful f \<Longrightarrow> R s (fst (f s)) (snd (f s))"
  by (simp add: lawful_def)

lemma lawful_app: "lawful f \<Longrightarrow> f s = (es, t) \<Longrightarrow> R s es t"
  using lawfulD [of f s] by simp

lemma lawful_no [intro, simp]: "lawful no_emit"
  by (simp add: lawful_def silent)

lemma lawful_modify: "(\<And>s. R s [] (u s)) \<Longrightarrow> lawful (modify_emit u)"
  by (simp add: lawful_def)

lemma lawful_then [intro]: "lawful f \<Longrightarrow> lawful g \<Longrightarrow> lawful (then_emit f g)"
  by (auto simp: lawful_def fst_snd_then_emit intro: compose)

lemma lawful_ask [intro]: "(\<And>s. lawful (f s)) \<Longrightarrow> lawful (ask_emit f)"
  by (simp add: lawful_def)

lemma lawful_ask_at: "(\<And>s. R s (fst (f s s)) (snd (f s s))) \<Longrightarrow> lawful (ask_emit f)"
  by (simp add: lawful_def)

lemma lawful_each [intro]: "(\<And>x. lawful (f x)) \<Longrightarrow> lawful (each_emit f xs)"
  by (induction xs) auto

lemma lawful_if [intro]: "lawful f \<Longrightarrow> lawful g \<Longrightarrow> lawful (if b then f else g)"
  by simp

lemma lawful_option [intro]:
  "lawful f \<Longrightarrow> (\<And>x. lawful (g x)) \<Longrightarrow> lawful (case v of None \<Rightarrow> f | Some x \<Rightarrow> g x)"
  by (cases v) auto

text \<open>The same for emitters that may panic: the law holds of every run that returns.\<close>

definition plawful :: "('s, 'e) pemitter \<Rightarrow> bool" where
  "plawful f \<longleftrightarrow> (\<forall>s es t. f s = Some (es, t) \<longrightarrow> R s es t)"

lemma plawfulI: "(\<And>s es t. f s = Some (es, t) \<Longrightarrow> R s es t) \<Longrightarrow> plawful f"
  by (simp add: plawful_def)

lemma plawfulD: "plawful f \<Longrightarrow> f s = Some (es, t) \<Longrightarrow> R s es t"
  by (simp add: plawful_def)

lemma plawful_total [intro]: "lawful f \<Longrightarrow> plawful (total f)"
  by (auto simp: plawful_def intro: lawful_app)

lemma plawful_then [intro]: "plawful f \<Longrightarrow> plawful g \<Longrightarrow> plawful (pthen f g)"
  unfolding plawful_def pthen_Some by (metis compose)

lemma plawful_ask [intro]: "(\<And>s. plawful (f s)) \<Longrightarrow> plawful (pask f)"
  by (simp add: plawful_def)

lemma plawful_each [intro]: "(\<And>x. plawful (f x)) \<Longrightarrow> plawful (peach f xs)"
  by (induction xs) auto

lemma plawful_if [intro]: "plawful f \<Longrightarrow> plawful g \<Longrightarrow> plawful (if b then f else g)"
  by simp

lemma plawful_option [intro]:
  "plawful f \<Longrightarrow> (\<And>x. plawful (g x)) \<Longrightarrow> plawful (case v of None \<Rightarrow> f | Some x \<Rightarrow> g x)"
  by (cases v) auto

end

end
