(* ===== verification/Json.thy ===== *)
theory Json
  imports Prelude
begin

text \<open>
  JSON values and the two library calls the program makes on them.

  \<open>serde_json::Value\<close> is the datatype \<open>json\<close>; an object is an insertion-ordered map
  (\<open>serde_json\<close> is built with \<open>indexmap\<close>, see \<open>Cargo.lock\<close>), so an association list with distinct
  keys. Text parsing, printing and floating-point parsing are library code: they are the fields of
  the parameter record \<open>serde\<close>, and a lemma that relies on one of them names the law it needs.
\<close>

type_synonym f64 = nat \<comment> \<open>the IEEE bit pattern; never computed with\<close>

datatype number = PosInt nat | NegInt int | Float f64

datatype json =
    JNull
  | JBool bool
  | JNumber number
  | JString string
  | JArray "json list"
  | JObject "(string \<times> json) list"

record serde =
  from_str :: "string \<Rightarrow> json option"
  to_string :: "json \<Rightarrow> string option"
  parse_f64 :: "string \<Rightarrow> f64 option" \<comment> \<open>\<open>parse::<f64>\<close>, then \<open>Number::from_f64\<close>\<close>

definition empty_json_object :: json where
  "empty_json_object = JObject []"

text \<open>\<open>Value::get\<close> with a string key and \<open>Value::as_str\<close>.\<close>

definition json_get :: "json \<Rightarrow> string \<Rightarrow> json option" where
  "json_get j k = (case j of JObject m \<Rightarrow> map_of m k | _ \<Rightarrow> None)"

definition as_str :: "json \<Rightarrow> string option" where
  "as_str j = (case j of JString s \<Rightarrow> Some s | _ \<Rightarrow> None)"

text \<open>\<open>parse::<u64>\<close> and \<open>parse::<i64>\<close> of the standard library: an optional sign and one or more
  ASCII digits, the value within the type's range.\<close>

definition is_digit :: "char \<Rightarrow> bool" where
  "is_digit c \<longleftrightarrow> 48 \<le> byte_val c \<and> byte_val c \<le> 57"

definition parse_digits :: "string \<Rightarrow> nat option" where
  "parse_digits s = (if s \<noteq> [] \<and> list_all is_digit s then Some (undec s) else None)"

definition parse_u64 :: "string \<Rightarrow> nat option" where
  "parse_u64 s =
     (case parse_digits (case s of c # r \<Rightarrow> if c = CHR ''+'' then r else s | [] \<Rightarrow> s) of
        Some n \<Rightarrow> if n \<le> u64_max then Some n else None
      | None \<Rightarrow> None)"

definition parse_i64 :: "string \<Rightarrow> int option" where
  "parse_i64 s =
     (case s of
        [] \<Rightarrow> None
      | c # r \<Rightarrow>
          if c = CHR ''-'' then
            (case parse_digits r of
               Some n \<Rightarrow> if n \<le> 9223372036854775808 then Some (- int n) else None
             | None \<Rightarrow> None)
          else
            (case parse_digits (if c = CHR ''+'' then r else s) of
               Some n \<Rightarrow> if n \<le> 9223372036854775807 then Some (int n) else None
             | None \<Rightarrow> None))"

definition number_of_i64 :: "int \<Rightarrow> number" where
  "number_of_i64 i = (if 0 \<le> i then PosInt (nat i) else NegInt i)"

section \<open>Lemmas\<close>

lemma json_get_simps [simp]:
  "json_get (JObject m) k = map_of m k"
  "json_get (JString s) k = None"
  "json_get JNull k = None"
  "json_get (JBool b) k = None"
  "json_get (JNumber n) k = None"
  "json_get (JArray xs) k = None"
  by (simp_all add: json_get_def)

lemma as_str_simps [simp]:
  "as_str (JString s) = Some s"
  "as_str (JObject m) = None"
  "as_str JNull = None"
  "as_str (JBool b) = None"
  "as_str (JNumber n) = None"
  "as_str (JArray xs) = None"
  by (simp_all add: as_str_def)

lemma parse_u64_bound: "parse_u64 s = Some n \<Longrightarrow> n \<le> u64_max"
  by (auto simp: parse_u64_def split: option.splits if_splits)

lemma nat_dec_nonempty: "nat_dec n \<noteq> []"
  by (subst nat_dec.simps) simp

lemma is_digit_nat_dec: "list_all is_digit (nat_dec n)"
  by (auto simp: list_all_iff is_digit_def digit_char_val dest!: nat_dec_digits)

lemma parse_u64_nat_dec: "n \<le> u64_max \<Longrightarrow> parse_u64 (nat_dec n) = Some n"
proof -
  assume n: "n \<le> u64_max"
  obtain c r where cr: "nat_dec n = c # r"
    using nat_dec_nonempty [of n] by (cases "nat_dec n") auto
  with is_digit_nat_dec [of n] have "c \<noteq> CHR ''+''"
    by (auto simp: is_digit_def byte_val_def)
  with cr n is_digit_nat_dec [of n] undec_nat_dec [of n] show ?thesis
    by (simp add: parse_u64_def parse_digits_def)
qed

end
