(* ===== verification/Types.thy ===== *)
theory Types
  imports Json
begin

text \<open>
  The data the components exchange: token accounting (\<open>src/usage.rs\<close>), stream blocks
  (\<open>src/state/stream_block.rs\<close>), the API types (\<open>crates/vexcoder-api-types\<close>), user-interface updates
  (\<open>src/runtime/update.rs\<close>) and the runtime envelope with its signals
  (\<open>src/runtime/json_handoff.rs\<close>). Struct fields carry a prefix where the source reuses a name;
  a constructor carries a suffix where two enums share one.
\<close>

section \<open>Token accounting\<close>

record pulse_tokens =
  pt_input :: nat
  pt_output :: nat
  pt_estimated :: bool
  pt_cache_creation_input_tokens :: nat
  pt_cache_read_input_tokens :: nat

definition pulse_tokens_default :: pulse_tokens where
  "pulse_tokens_default =
     \<lparr>pt_input = 0, pt_output = 0, pt_estimated = False,
      pt_cache_creation_input_tokens = 0, pt_cache_read_input_tokens = 0\<rparr>"

definition is_zero :: "pulse_tokens \<Rightarrow> bool" where
  "is_zero t \<longleftrightarrow> pt_input t = 0 \<and> pt_output t = 0
     \<and> pt_cache_creation_input_tokens t = 0 \<and> pt_cache_read_input_tokens t = 0"

record session_tokens =
  st_input :: nat
  st_output :: nat
  st_last_input :: nat
  st_last_output :: nat
  st_last_estimated :: bool
  st_estimated :: bool
  st_cache_creation_input_tokens :: nat
  st_cache_read_input_tokens :: nat
  st_last_cache_creation_input_tokens :: nat
  st_last_cache_read_input_tokens :: nat

definition session_tokens_default :: session_tokens where
  "session_tokens_default =
     \<lparr>st_input = 0, st_output = 0, st_last_input = 0, st_last_output = 0,
      st_last_estimated = False, st_estimated = False,
      st_cache_creation_input_tokens = 0, st_cache_read_input_tokens = 0,
      st_last_cache_creation_input_tokens = 0, st_last_cache_read_input_tokens = 0\<rparr>"

definition record_pulse :: "session_tokens \<Rightarrow> pulse_tokens \<Rightarrow> session_tokens" where
  "record_pulse s p =
     s\<lparr>st_input := sat_add (st_input s) (pt_input p),
       st_output := sat_add (st_output s) (pt_output p),
       st_last_input := pt_input p,
       st_last_output := pt_output p,
       st_last_estimated := pt_estimated p,
       st_estimated := st_estimated s \<or> pt_estimated p,
       st_cache_creation_input_tokens :=
         sat_add (st_cache_creation_input_tokens s) (pt_cache_creation_input_tokens p),
       st_cache_read_input_tokens :=
         sat_add (st_cache_read_input_tokens s) (pt_cache_read_input_tokens p),
       st_last_cache_creation_input_tokens := pt_cache_creation_input_tokens p,
       st_last_cache_read_input_tokens := pt_cache_read_input_tokens p\<rparr>"

definition session_tokens_reset :: "session_tokens \<Rightarrow> session_tokens" where
  "session_tokens_reset s = session_tokens_default"

definition has_completed_turns :: "session_tokens \<Rightarrow> bool" where
  "has_completed_turns s \<longleftrightarrow>
     0 < st_input s \<or> 0 < st_output s \<or> 0 < st_last_input s \<or> 0 < st_last_output s"

definition last_pulse :: "session_tokens \<Rightarrow> pulse_tokens" where
  "last_pulse s =
     \<lparr>pt_input = st_last_input s, pt_output = st_last_output s,
      pt_estimated = st_last_estimated s,
      pt_cache_creation_input_tokens = st_last_cache_creation_input_tokens s,
      pt_cache_read_input_tokens = st_last_cache_read_input_tokens s\<rparr>"

definition estimate_tokens :: "string \<Rightarrow> nat" where
  "estimate_tokens text =
     (let chars = length (utf8_chars text)
      in if chars = 0 then 0 else (chars + 3) div 4)"

section \<open>Stream blocks\<close>

datatype tool_status =
  Pending | WaitingApproval | Executing | Complete | Error_status | Cancelled_status

datatype stream_block =
    Thinking (sb_content: string) (sb_collapsed: bool)
  | ToolCall (sb_id: string) (sb_name: string) (sb_input: json) (sb_status: tool_status)
  | ToolResult (sb_tool_call_id: string) (sb_output: string) (sb_is_error: bool)
  | FinalText (sb_content: string)

datatype assistant_phase = Thinking_phase | Final_phase

section \<open>API types\<close>

record stream_prompt_progress =
  pp_total :: "nat option"
  pp_cache :: "nat option"
  pp_processed :: "nat option"
  pp_time_ms :: "f64 option"

record stream_timings =
  tm_cache_n :: "nat option"
  tm_prompt_n :: "nat option"
  tm_prompt_ms :: "f64 option"
  tm_prompt_per_token_ms :: "f64 option"
  tm_prompt_per_second :: "f64 option"
  tm_predicted_n :: "nat option"
  tm_predicted_ms :: "f64 option"
  tm_predicted_per_token_ms :: "f64 option"
  tm_predicted_per_second :: "f64 option"

record stream_chunk_metadata =
  md_object :: "string option"
  md_created :: "nat option"
  md_system_fingerprint :: "string option"
  md_service_tier :: "string option"
  md_choice_index :: "nat option"
  md_logprobs :: "json option"
  md_prompt_progress :: "stream_prompt_progress option"
  md_timings :: "stream_timings option"

record tool_use_metadata =
  tu_call_type :: "string option"
  tu_choice_index :: "nat option"

datatype content_block =
    TextContent string "json list option"
  | ToolUseContent string string json "tool_use_metadata option"
  | ToolResultContent string string bool
  | ThinkingContent string string
  | ThinkingDataContent string
  | ServerToolUseContent string string json
  | WebSearchToolResultContent string json

record prompt_token_details =
  ptd_cached_tokens :: "nat option"
  ptd_audio_tokens :: "nat option"

record completion_token_details =
  ctd_reasoning_tokens :: "nat option"
  ctd_audio_tokens :: "nat option"
  ctd_accepted_prediction_tokens :: "nat option"
  ctd_rejected_prediction_tokens :: "nat option"

record prefix_cache_stats =
  pcs_cache_hit :: bool
  pcs_cache_read_tokens :: "nat option"
  pcs_cache_creation_tokens :: "nat option"
  pcs_prefix_fingerprint :: "string option"

record api_usage =
  au_input_tokens :: "nat option"
  au_output_tokens :: "nat option"
  au_total_tokens :: "nat option"
  au_cache_creation_input_tokens :: "nat option"
  au_cache_read_input_tokens :: "nat option"
  au_cache_creation :: "json option"
  au_service_tier :: "string option"
  au_web_search_requests :: "nat option"
  au_inference_geo :: "string option"
  au_prompt_tokens_details :: "prompt_token_details option"
  au_completion_tokens_details :: "completion_token_details option"
  au_prefix_cache :: "prefix_cache_stats option"

section \<open>User-interface updates\<close>

text \<open>The response channel of an approval request carries no data the model reads.\<close>

record tool_approval_request =
  tar_tool_name :: string
  tar_input_preview :: string

record validation_output =
  vo_label :: string
  vo_exit_code :: int
  vo_stdout_tail :: string
  vo_stderr_tail :: string
  vo_stdout_tail_limited :: bool
  vo_stderr_tail_limited :: bool

record validation_result =
  vr_passed :: bool
  vr_outputs :: "validation_output list"

datatype edit_loop_outcome =
    Success_outcome bool bool
  | MaxTurnsReached_outcome "string option"
  | ApprovalDenied_outcome
  | Cancelled_loop_outcome

datatype ui_update =
    TranscriptLine_ui string
  | StreamDelta string
  | StreamBlockStart nat stream_block
  | StreamBlockDelta nat string
  | ToolCallArgumentsUpdated string "string option" json
  | StreamBlockComplete nat
  | ToolApprovalRequest_ui tool_approval_request
  | ServerMetadata_ui stream_chunk_metadata
  | CommandSessionStarted nat string
  | CommandSessionAttached nat "nat option"
  | EditLoopComplete edit_loop_outcome "validation_result option"
  | CommandSessionFinished nat
  | PulseComplete
  | Error_ui string
  | ContextCompacted nat nat string

section \<open>The runtime envelope\<close>

datatype envelope_source = Model | Runtime | UserRequest | System

record validation_output_envelope =
  ve_label :: string
  ve_exit_code :: int
  ve_stdout_tail :: string
  ve_stderr_tail :: string

record token_usage_envelope =
  tue_input :: nat
  tue_output :: nat
  tue_estimated :: bool
  tue_cache_creation_input :: nat
  tue_cache_read_input :: nat

datatype runtime_signal =
    PulseStart "string option"
  | TranscriptLine string
  | TranscriptBlockStart nat stream_block
  | TranscriptBlockDelta nat string
  | TranscriptBlockComplete nat
  | ToolCallStatusUpdated string tool_status
  | TranscriptBlockPhaseUpdated nat assistant_phase bool
  | ToolCallStarted string string json tool_status string
  | ToolCallArgumentsDelta string "string option" string tool_status "json option" bool
  | ToolCallCompleted string "string option" tool_status "string option" string "nat option" string
  | ToolCallFailed string "string option" tool_status "string option" string "nat option" string
  | ApprovalRequest string string "string option"
  | ApprovalResolved string string bool
  | ValidationResult bool "validation_output_envelope list"
  | ServerMetadata stream_chunk_metadata
  | UsageUpdated token_usage_envelope
  | PulseEnd string "token_usage_envelope option" "string list"
  | Error_signal string string bool
  | MaxTurnsReached nat

record runtime_envelope =
  env_version :: nat
  env_task_id :: string
  env_pulse :: nat
  env_seq :: nat
  env_frame_id :: string
  env_emitted_at :: string
  env_source :: envelope_source
  env_request_id :: "string option"
  env_parent_frame_id :: "string option"
  env_signal :: runtime_signal

datatype runtime_request =
    SubmitInput string "string option" string
  | Interrupt string string
  | ApproveCapability string string string string
  | DenyCapability string string string

fun request_id :: "runtime_request \<Rightarrow> string" where
  "request_id (SubmitInput r t i) = r"
| "request_id (Interrupt r t) = r"
| "request_id (ApproveCapability r t c s) = r"
| "request_id (DenyCapability r t c) = r"

record pulse_end_context =
  pec_usage :: "token_usage_envelope option"
  pec_changed_files :: "string list"

definition pulse_end_context_default :: pulse_end_context where
  "pulse_end_context_default = \<lparr>pec_usage = None, pec_changed_files = []\<rparr>"

section \<open>Session totals\<close>

text \<open>Recording pulses one after another.\<close>

definition record_pulses :: "session_tokens \<Rightarrow> pulse_tokens list \<Rightarrow> session_tokens" where
  "record_pulses = foldl record_pulse"

lemma record_pulses_snoc: "record_pulses s (ps @ [p]) = record_pulse (record_pulses s ps) p"
  by (simp add: record_pulses_def)

lemma sat_add_assoc_sum: "sat_add (min a u64_max) b = min (a + b) u64_max"
  by (simp add: sat_add_def min_def)

lemma record_pulses_input:
  "st_input (record_pulses session_tokens_default ps) = min (sum_list (map pt_input ps)) u64_max"
proof (induction ps rule: rev_induct)
  case Nil
  show ?case by (simp add: record_pulses_def session_tokens_default_def)
next
  case (snoc p ps)
  then show ?case by (simp add: record_pulses_snoc record_pulse_def sat_add_assoc_sum)
qed

lemma record_pulses_output:
  "st_output (record_pulses session_tokens_default ps) = min (sum_list (map pt_output ps)) u64_max"
proof (induction ps rule: rev_induct)
  case Nil
  show ?case by (simp add: record_pulses_def session_tokens_default_def)
next
  case (snoc p ps)
  then show ?case by (simp add: record_pulses_snoc record_pulse_def sat_add_assoc_sum)
qed

lemma record_pulses_estimated:
  "st_estimated (record_pulses session_tokens_default ps) \<longleftrightarrow> (\<exists>p \<in> set ps. pt_estimated p)"
proof (induction ps rule: rev_induct)
  case Nil
  show ?case by (simp add: record_pulses_def session_tokens_default_def)
next
  case (snoc p ps)
  then show ?case by (auto simp: record_pulses_snoc record_pulse_def)
qed

lemma last_pulse_record: "last_pulse (record_pulse s p) = p"
  by (cases p) (simp add: last_pulse_def record_pulse_def)

end
