(* ===== verification/Evidence.thy ===== *)
theory Evidence
  imports Types
begin

text \<open>
  The evidence a turn leaves behind (\<open>src/pulse_evidence.rs\<close>): the records of a turn, the files a
  tool call changed, the commands it stands for, and the repair of missing or repeated step ids in
  a restored history.
\<close>

section \<open>Records\<close>

record command_evidence =
  ce_program :: string
  ce_exit_code :: "int option"
  ce_interrupted :: bool

record turn_evidence_record =
  ter_pulse :: nat
  ter_input :: string
  ter_response :: string
  ter_instructions_path :: "string option"
  ter_changed_files :: "string list"
  ter_command_history :: "command_evidence list"
  ter_tokens :: pulse_tokens

record summary_record =
  sr_summary :: bool
  sr_status :: string
  sr_task_id :: string
  sr_total_turns :: nat
  sr_instructions_path :: "string option"
  sr_changed_files :: "string list"
  sr_session_tasks :: "string list"

record tool_invocation_summary =
  ti_step_id :: nat
  ti_name :: string
  ti_outcome :: string

record turn_evidence_state =
  tes_input :: string
  tes_response :: string
  tes_changed_files :: "string list"
  tes_command_history :: "command_evidence list"
  tes_tool_invocations :: "tool_invocation_summary list"
  tes_tokens :: pulse_tokens

section \<open>Step ids of a restored history\<close>

text \<open>The inner loop \<open>while !seen.insert(next)\<close>. It does not return when every id from \<open>next\<close> to the
  largest \<open>u64\<close> has been seen, since the increment saturates: \<^const>\<open>None\<close>.\<close>

partial_function (option) skip_seen :: "nat list \<Rightarrow> nat \<Rightarrow> nat option" where
  "skip_seen seen n = (if n \<in> set seen then skip_seen seen (sat_add n 1) else Some n)"

declare skip_seen.simps [code]

text \<open>One invocation: the ids seen so far, the next id to hand out.\<close>

definition assign_step ::
  "tool_invocation_summary \<Rightarrow> nat list \<times> nat
     \<Rightarrow> (tool_invocation_summary \<times> nat list \<times> nat) option" where
  "assign_step invocation st =
     (case st of (seen, next_step_id) \<Rightarrow>
        if ti_step_id invocation = 0 \<or> ti_step_id invocation \<in> set seen then
          (case skip_seen seen next_step_id of
             None \<Rightarrow> None
           | Some n \<Rightarrow>
               Some (invocation\<lparr>ti_step_id := n\<rparr>, n # seen, max n (sat_add n 1)))
        else
          Some (invocation, ti_step_id invocation # seen, max next_step_id (sat_add (ti_step_id invocation) 1)))"

fun assign_steps ::
  "tool_invocation_summary list \<Rightarrow> nat list \<times> nat
     \<Rightarrow> (tool_invocation_summary list \<times> nat list \<times> nat) option" where
  "assign_steps [] st = Some ([], st)"
| "assign_steps (i # is) st =
     (case assign_step i st of
        None \<Rightarrow> None
      | Some (i', st') \<Rightarrow> map_option (\<lambda>(is', st''). (i' # is', st'')) (assign_steps is st'))"

fun assign_pulses ::
  "turn_evidence_state list \<Rightarrow> nat list \<times> nat
     \<Rightarrow> (turn_evidence_state list \<times> nat list \<times> nat) option" where
  "assign_pulses [] st = Some ([], st)"
| "assign_pulses (p # ps) st =
     (case assign_steps (tes_tool_invocations p) st of
        None \<Rightarrow> None
      | Some (is', st') \<Rightarrow>
          map_option (\<lambda>(ps', st''). (p\<lparr>tes_tool_invocations := is'\<rparr> # ps', st''))
            (assign_pulses ps st'))"

definition normalize_tool_invocation_step_ids ::
  "turn_evidence_state list \<Rightarrow> turn_evidence_state list option" where
  "normalize_tool_invocation_step_ids pulses = map_option fst (assign_pulses pulses ([], 1))"

section \<open>Changed files and command evidence\<close>

definition first_string_field :: "json \<Rightarrow> string list \<Rightarrow> string option" where
  "first_string_field input keys =
     (case map_option trim
             (find_map (\<lambda>key. Option.bind (json_get input key) as_str) keys) of
        None \<Rightarrow> None
      | Some v \<Rightarrow> if v = [] then None else Some v)"

definition note_path :: "string list \<Rightarrow> json \<Rightarrow> string list \<Rightarrow> string list" where
  "note_path keys input changed_files =
     (case first_string_field input keys of
        None \<Rightarrow> changed_files
      | Some path \<Rightarrow> insort_insert path changed_files)"

definition note_changed_files_from_tool_call ::
  "string list \<Rightarrow> string \<Rightarrow> json \<Rightarrow> string list" where
  "note_changed_files_from_tool_call changed_files name input =
     (if name \<in> {''write_file'', ''apply_patch'', ''edit_file'', ''git_add''} then
        note_path [''path'', ''file_path'', ''file'', ''filename''] input changed_files
      else if name = ''rename_file'' then
        fold (\<lambda>key. note_path [key] input)
          [''old_path'', ''from'', ''source_path'', ''new_path'', ''to'', ''target_path'']
          changed_files
      else changed_files)"

definition git_program :: "string \<Rightarrow> string option" where
  "git_program name =
     (if name = ''git_status'' then Some ''git status''
      else if name = ''git_diff'' then Some ''git diff''
      else if name = ''git_log'' then Some ''git log''
      else if name = ''git_show'' then Some ''git show''
      else if name = ''git_add'' then Some ''git add''
      else if name = ''git_commit'' then Some ''git commit''
      else None)"

definition command_evidence_from_tool_result :: "string \<Rightarrow> bool \<Rightarrow> command_evidence option" where
  "command_evidence_from_tool_result name is_error =
     map_option (\<lambda>program. \<lparr>ce_program = program,
                   ce_exit_code = Some (if is_error then 1 else 0), ce_interrupted = False\<rparr>)
       (git_program name)"

section \<open>Lemmas: step ids\<close>

lemma skip_seen_result:
  assumes "skip_seen seen n = Some m"
  shows "m \<notin> set seen \<and> (n \<le> u64_max \<longrightarrow> n \<le> m \<and> m \<le> u64_max)"
proof (rule skip_seen.raw_induct [OF _ assms])
  fix f :: "nat list \<Rightarrow> nat \<Rightarrow> nat option" and seen n m
  assume IH: "\<And>seen n m. f seen n = Some m \<Longrightarrow>
      m \<notin> set seen \<and> (n \<le> u64_max \<longrightarrow> n \<le> m \<and> m \<le> u64_max)"
    and r: "(if n \<in> set seen then f seen (sat_add n 1) else Some n) = Some m"
  show "m \<notin> set seen \<and> (n \<le> u64_max \<longrightarrow> n \<le> m \<and> m \<le> u64_max)"
    using r IH [of seen "sat_add n 1" m] sat_add_mono_left [of n 1]
    by (auto split: if_splits)
qed

lemma skip_seen_returns:
  assumes "m \<notin> set seen" "n \<le> m" "m \<le> u64_max"
  shows "\<exists>k \<le> m. skip_seen seen n = Some k"
  using assms(2)
proof (induction "m - n" arbitrary: n)
  case 0
  with assms show ?case by (subst skip_seen.simps) simp
next
  case (Suc d)
  show ?case
  proof (cases "n \<in> set seen")
    case True
    with Suc.prems assms have "n < m" by (metis nat_less_le)
    with assms(3) have *: "sat_add n 1 = Suc n" by (simp add: sat_add_def)
    from Suc.hyps(2) \<open>n < m\<close> have "d = m - Suc n" by simp
    with Suc.hyps(1) \<open>n < m\<close> obtain k where "k \<le> m" "skip_seen seen (Suc n) = Some k"
      by fastforce
    with True * show ?thesis by (subst skip_seen.simps) simp
  next
    case False
    with Suc.prems show ?thesis by (subst skip_seen.simps) simp
  qed
qed

lemma skip_seen_hangs: "u64_max \<in> set seen \<Longrightarrow> skip_seen seen u64_max = None"
  using skip_seen_result [of seen u64_max]
  by (cases "skip_seen seen u64_max") (auto dest: le_antisym)

text \<open>The next id is positive and within \<open>u64\<close>, every id seen is a positive \<open>u64\<close>.\<close>

definition steps_ok :: "nat list \<times> nat \<Rightarrow> bool" where
  "steps_ok st \<longleftrightarrow> 0 < snd st \<and> snd st \<le> u64_max \<and> set (fst st) \<subseteq> {1..u64_max}"

lemma u64_max_pos [simp]: "0 < u64_max" "Suc 0 \<le> u64_max" "(u64_max = 0) = False"
  by (simp_all add: u64_max_def)

definition fresh_ids :: "nat list \<Rightarrow> nat list \<Rightarrow> nat list \<Rightarrow> bool" where
  "fresh_ids seen ids seen' \<longleftrightarrow>
     distinct ids \<and> set ids \<inter> set seen = {} \<and> 0 \<notin> set ids \<and> set seen' = set ids \<union> set seen"

lemma assign_step_ok:
  assumes "assign_step i st = Some (i', st')" "steps_ok st" "ti_step_id i \<le> u64_max"
  shows "steps_ok st' \<and> fresh_ids (fst st) [ti_step_id i'] (fst st')
     \<and> ti_name i' = ti_name i \<and> ti_outcome i' = ti_outcome i"
proof -
  obtain seen n where st: "st = (seen, n)" by (cases st)
  show ?thesis
  proof (cases "ti_step_id i = 0 \<or> ti_step_id i \<in> set seen")
    case True
    with assms(1) st obtain m where m: "skip_seen seen n = Some m"
      "i' = i\<lparr>ti_step_id := m\<rparr>" "st' = (m # seen, max m (sat_add m 1))"
      by (auto simp: assign_step_def split: option.splits)
    with skip_seen_result [OF m(1)] assms(2) st show ?thesis
      by (auto simp: steps_ok_def fresh_ids_def)
  next
    case False
    with assms(1) st have "i' = i" "st' = (ti_step_id i # seen, max n (sat_add (ti_step_id i) 1))"
      by (auto simp: assign_step_def)
    with False assms(2,3) st show ?thesis
      by (simp add: steps_ok_def fresh_ids_def less_max_iff_disj)
  qed
qed

lemma fresh_ids_append:
  "fresh_ids s a t \<Longrightarrow> fresh_ids t b u \<Longrightarrow> fresh_ids s (a @ b) u"
  by (auto simp: fresh_ids_def)

lemma assign_steps_ok:
  "assign_steps is st = Some (is', st') \<Longrightarrow> steps_ok st \<Longrightarrow> \<forall>i \<in> set is. ti_step_id i \<le> u64_max \<Longrightarrow>
     steps_ok st' \<and> fresh_ids (fst st) (map ti_step_id is') (fst st')
     \<and> map ti_name is' = map ti_name is \<and> map ti_outcome is' = map ti_outcome is"
proof (induction "is" arbitrary: st is')
  case Nil
  then show ?case by (auto simp: fresh_ids_def)
next
  case (Cons i "is")
  from Cons.prems(1) obtain i1 st1 is1 where
    step: "assign_step i st = Some (i1, st1)" and rest: "assign_steps is st1 = Some (is1, st')"
    and is': "is' = i1 # is1"
    by (auto split: option.splits)
  note 1 = assign_step_ok [OF step Cons.prems(2)]
  with Cons.IH [OF rest] Cons.prems(3) fresh_ids_append [of "fst st" "[ti_step_id i1]" "fst st1"]
  show ?case by (simp add: is')
qed

definition step_ids :: "turn_evidence_state list \<Rightarrow> nat list" where
  "step_ids ps = concat (map (\<lambda>p. map ti_step_id (tes_tool_invocations p)) ps)"

definition erase_ids :: "turn_evidence_state list \<Rightarrow> turn_evidence_state list" where
  "erase_ids ps = map (\<lambda>p. p\<lparr>tes_tool_invocations :=
     map (\<lambda>i. i\<lparr>ti_step_id := 0\<rparr>) (tes_tool_invocations p)\<rparr>) ps"

lemma erase_eq:
  fixes a b :: "tool_invocation_summary list"
  shows "map ti_name a = map ti_name b \<Longrightarrow> map ti_outcome a = map ti_outcome b \<Longrightarrow>
    map (\<lambda>i. i\<lparr>ti_step_id := 0\<rparr>) a = map (\<lambda>i. i\<lparr>ti_step_id := 0\<rparr>) b"
proof (induction a arbitrary: b)
  case (Cons x xs)
  then obtain y ys where "b = y # ys" by (cases b) auto
  with Cons show ?case by (cases x; cases y) simp
qed simp

lemma assign_pulses_ok:
  "assign_pulses ps st = Some (ps', st') \<Longrightarrow> steps_ok st \<Longrightarrow> \<forall>i \<in> set (step_ids ps). i \<le> u64_max \<Longrightarrow>
     steps_ok st' \<and> fresh_ids (fst st) (step_ids ps') (fst st') \<and> erase_ids ps' = erase_ids ps"
proof (induction ps arbitrary: st ps')
  case Nil
  then show ?case by (auto simp: fresh_ids_def step_ids_def)
next
  case (Cons p ps)
  from Cons.prems(1) obtain is1 st1 ps1 where
    step: "assign_steps (tes_tool_invocations p) st = Some (is1, st1)"
    and rest: "assign_pulses ps st1 = Some (ps1, st')"
    and ps': "ps' = p\<lparr>tes_tool_invocations := is1\<rparr> # ps1"
    by (auto split: option.splits)
  have bnd: "\<forall>i \<in> set (tes_tool_invocations p). ti_step_id i \<le> u64_max"
    "\<forall>i \<in> set (step_ids ps). i \<le> u64_max"
    using Cons.prems(3) by (auto simp: step_ids_def)
  note 1 = assign_steps_ok [OF step Cons.prems(2) bnd(1)]
  with Cons.IH [OF rest _ bnd(2)] fresh_ids_append [of "fst st" _ "fst st1" _ "fst st'"]
    erase_eq [of is1 "tes_tool_invocations p"]
  show ?case by (simp add: ps' step_ids_def erase_ids_def)
qed

section \<open>Properties\<close>

text \<open>The repair returns while the largest id leaves room for one more id per invocation.\<close>

definition room :: "nat \<Rightarrow> nat list \<times> nat \<Rightarrow> bool" where
  "room b st \<longleftrightarrow> set (fst st) \<subseteq> {..b} \<and> snd st \<le> Suc b"

lemma assign_step_returns:
  assumes "room b st" "ti_step_id i \<le> b" "b < u64_max"
  shows "\<exists>i' st'. assign_step i st = Some (i', st') \<and> room (Suc b) st'"
proof -
  obtain seen n where st: "st = (seen, n)" by (cases st)
  have "\<exists>k \<le> Suc b. skip_seen seen n = Some k"
    using assms(1,3) by (intro skip_seen_returns) (auto simp: room_def st)
  then obtain k where "k \<le> Suc b" "skip_seen seen n = Some k" by blast
  with assms show ?thesis
    by (auto simp: assign_step_def room_def st sat_add_def)
qed

lemma assign_steps_returns:
  "room b st \<Longrightarrow> \<forall>i \<in> set is. ti_step_id i \<le> b \<Longrightarrow> b + length is \<le> u64_max \<Longrightarrow>
     \<exists>is' st'. assign_steps is st = Some (is', st') \<and> room (b + length is) st'"
proof (induction "is" arbitrary: b st)
  case (Cons i "is")
  then obtain i' st1 where 1: "assign_step i st = Some (i', st1)" "room (Suc b) st1"
    using assign_step_returns [of b st i] by auto
  from Cons.IH [OF 1(2)] Cons.prems obtain is' st' where
    "assign_steps is st1 = Some (is', st')" "room (Suc b + length is) st'"
    by fastforce
  with 1 show ?case by simp
qed simp

lemma assign_pulses_returns:
  "room b st \<Longrightarrow> \<forall>i \<in> set (step_ids ps). i \<le> b \<Longrightarrow> b + length (step_ids ps) \<le> u64_max \<Longrightarrow>
     \<exists>ps' st'. assign_pulses ps st = Some (ps', st') \<and> room (b + length (step_ids ps)) st'"
proof (induction ps arbitrary: b st)
  case (Cons p ps)
  let ?n = "length (tes_tool_invocations p)"
  from Cons.prems obtain is' st1 where
    1: "assign_steps (tes_tool_invocations p) st = Some (is', st1)" "room (b + ?n) st1"
    using assign_steps_returns [of b st "tes_tool_invocations p"] by (auto simp: step_ids_def)
  have "\<forall>i \<in> set (step_ids ps). i \<le> b + ?n" "b + ?n + length (step_ids ps) \<le> u64_max"
    using Cons.prems by (fastforce simp: step_ids_def intro: trans_le_add1)+
  from Cons.IH [OF 1(2) this] obtain ps' st' where
    "assign_pulses ps st1 = Some (ps', st')" "room (b + ?n + length (step_ids ps)) st'"
    by blast
  with 1 show ?case by (simp add: step_ids_def add.assoc)
qed (simp add: step_ids_def)

text \<open>
  While the largest step id leaves room for one more id per
  invocation, the repair of a restored history returns; then all step ids of all pulses are
  distinct and non-zero, and nothing but step ids has changed.
\<close>

theorem restored_step_ids_unique:
  assumes "\<forall>i \<in> set (step_ids pulses). i \<le> b" and "b + length (step_ids pulses) \<le> u64_max"
  shows "\<exists>pulses'. normalize_tool_invocation_step_ids pulses = Some pulses'
     \<and> distinct (step_ids pulses') \<and> 0 \<notin> set (step_ids pulses')
     \<and> erase_ids pulses' = erase_ids pulses"
proof -
  have "room b ([], 1)" by (simp add: room_def)
  from assign_pulses_returns [OF this assms] obtain ps' st'
    where r: "assign_pulses pulses ([], 1) = Some (ps', st')" by blast
  have "\<forall>i \<in> set (step_ids pulses). i \<le> u64_max" using assms by fastforce
  from assign_pulses_ok [OF r _ this] r show ?thesis
    by (simp add: steps_ok_def fresh_ids_def normalize_tool_invocation_step_ids_def)
qed

definition evidence_with_ids :: "nat list \<Rightarrow> turn_evidence_state" where
  "evidence_with_ids ids =
     \<lparr>tes_input = [], tes_response = [], tes_changed_files = [], tes_command_history = [],
      tes_tool_invocations =
        map (\<lambda>i. \<lparr>ti_step_id = i, ti_name = ''read_file'', ti_outcome = ''ok''\<rparr>) ids,
      tes_tokens = pulse_tokens_default\<rparr>"

theorem restored_step_ids_unique_witness:
  "\<exists>pulses'. normalize_tool_invocation_step_ids [evidence_with_ids [0, 2], evidence_with_ids [2]]
       = Some pulses'
     \<and> distinct (step_ids pulses') \<and> 0 \<notin> set (step_ids pulses')
     \<and> erase_ids pulses' = erase_ids [evidence_with_ids [0, 2], evidence_with_ids [2]]"
  by (rule restored_step_ids_unique [where b = 2])
     (simp_all add: step_ids_def evidence_with_ids_def u64_max_def)

text \<open>
  A history whose invocations repeat the largest \<open>u64\<close> step id makes
  the repair loop for ever, since the candidate id saturates at an id already taken.
\<close>

theorem restored_step_ids_hang:
  "normalize_tool_invocation_step_ids [evidence_with_ids [u64_max, u64_max]] = None"
proof -
  have "max (Suc 0) u64_max = u64_max" by (simp add: u64_max_def)
  then show ?thesis
    by (simp add: normalize_tool_invocation_step_ids_def evidence_with_ids_def assign_step_def
        sat_add_def skip_seen_hangs)
qed

lemma note_path_mono: "set changed \<subseteq> set (note_path keys input changed)"
  by (auto simp: note_path_def split: option.splits)

lemma note_path_sorted:
  "sorted_wrt (<) changed \<Longrightarrow> sorted_wrt (<) (note_path keys input changed)"
  by (auto simp: note_path_def sorted_insort_insert_strict split: option.splits)

lemma note_paths_sorted:
  "sorted_wrt (<) changed \<Longrightarrow> sorted_wrt (<) (fold (\<lambda>key. note_path [key] input) ks changed)"
  by (induction ks arbitrary: changed) (simp_all add: note_path_sorted)

lemma note_paths_mono: "set changed \<subseteq> set (fold (\<lambda>key. note_path [key] input) ks changed)"
proof (induction ks arbitrary: changed)
  case (Cons k ks)
  from Cons [of "note_path [k] input changed"] note_path_mono [of changed "[k]" input]
  show ?case by simp
qed simp

lemma note_changed_files_sorted:
  "sorted_wrt (<) changed \<Longrightarrow> sorted_wrt (<) (note_changed_files_from_tool_call changed name input)"
  by (simp add: note_changed_files_from_tool_call_def note_path_sorted note_paths_sorted
      del: fold.simps)

lemma note_changed_files_mono:
  "set changed \<subseteq> set (note_changed_files_from_tool_call changed name input)"
  unfolding note_changed_files_from_tool_call_def
  using note_path_mono note_paths_mono by (simp del: fold.simps)

end
