(* ===== verification/Delta_Accumulator.thy ===== *)
theory Delta_Accumulator
  imports Types
begin

text \<open>
  The accumulator of streamed tool-call arguments (\<open>src/runtime/delta_accumulator.rs\<close>).

  The mutex-protected \<open>HashMap\<close> is an association list, whose order stands for the map's iteration
  order; each operation takes the lock once, so it is one atomic step on the state. \<open>Instant::now()\<close>
  is an argument. An operation returns its result, the peer deltas it hands to the channel
  (\<open>publish_signal\<close> drops them where there is no channel) and the new state.
\<close>

section \<open>State\<close>

definition MAX_STORED_PARTIAL_BYTES :: nat where
  "MAX_STORED_PARTIAL_BYTES = 65536"

definition MAX_TOOL_DELTA_QUEUE_DEPTH :: nat where
  "MAX_TOOL_DELTA_QUEUE_DEPTH = 32"

definition DEFAULT_DELTA_ACCUMULATOR_MEMORY_WATERMARK_BYTES :: nat where
  "DEFAULT_DELTA_ACCUMULATOR_MEMORY_WATERMARK_BYTES = 256 * 1024 * 1024"

datatype peer_delta =
    ToolStart string string string
  | ToolDelta string string string
  | ToolFinish string string
  | PartialArgsTruncated string string nat

record tool_state =
  ts_id :: string
  ts_task_id :: string
  ts_name :: string
  ts_partial_args :: string
  ts_partial_args_truncated :: bool
  ts_finished :: bool
  ts_delta_queue :: "string list"
  ts_last_activity :: nat

type_synonym tool_map = "(string \<times> tool_state) list"

record accumulator =
  acc_state :: tool_map
  acc_peer_updates :: bool \<comment> \<open>whether a peer channel is attached\<close>
  memory_watermark_bytes :: nat

datatype accumulation_error =
  UnknownId string | DuplicateId string | MalformedPartial | MemoryPressure

definition new_with_peer_updates :: "nat \<Rightarrow> bool \<Rightarrow> accumulator" where
  "new_with_peer_updates w p =
     \<lparr>acc_state = [], acc_peer_updates = p, memory_watermark_bytes = w\<rparr>"

section \<open>The JSON prefix check\<close>

text \<open>The loop runs over bytes: every character it distinguishes is ASCII, and a byte of a longer
  encoding is none of them.\<close>

record scan =
  sc_brace_depth :: int
  sc_bracket_depth :: int
  sc_in_string :: bool
  sc_escaped :: bool

definition scan_start :: scan where
  "scan_start = \<lparr>sc_brace_depth = 0, sc_bracket_depth = 0, sc_in_string = False, sc_escaped = False\<rparr>"

definition scan_char :: "scan \<Rightarrow> char \<Rightarrow> scan option" where
  "scan_char s ch =
     (if sc_in_string s then
        (if sc_escaped s then Some (s\<lparr>sc_escaped := False\<rparr>)
         else if ch = CHR 0x5C then Some (s\<lparr>sc_escaped := True\<rparr>)
         else if ch = CHR 0x22 then Some (s\<lparr>sc_in_string := False\<rparr>)
         else Some s)
      else if ch = CHR 0x22 then Some (s\<lparr>sc_in_string := True\<rparr>)
      else if ch = CHR ''{'' then Some (s\<lparr>sc_brace_depth := sc_brace_depth s + 1\<rparr>)
      else if ch = CHR ''}'' then
        (if sc_brace_depth s - 1 < 0 then None
         else Some (s\<lparr>sc_brace_depth := sc_brace_depth s - 1\<rparr>))
      else if ch = CHR ''['' then Some (s\<lparr>sc_bracket_depth := sc_bracket_depth s + 1\<rparr>)
      else if ch = CHR '']'' then
        (if sc_bracket_depth s - 1 < 0 then None
         else Some (s\<lparr>sc_bracket_depth := sc_bracket_depth s - 1\<rparr>))
      else Some s)"

fun scan_str :: "scan \<Rightarrow> string \<Rightarrow> scan option" where
  "scan_str s [] = Some s"
| "scan_str s (c # cs) = (case scan_char s c of None \<Rightarrow> None | Some s' \<Rightarrow> scan_str s' cs)"

definition is_valid_json_prefix :: "string \<Rightarrow> string \<Rightarrow> bool" where
  "is_valid_json_prefix existing incoming = (scan_str scan_start (existing @ incoming) \<noteq> None)"

section \<open>Operations\<close>

definition tool_memory :: "string \<times> tool_state \<Rightarrow> nat" where
  "tool_memory p =
     length (fst p) + length (ts_task_id (snd p)) + length (ts_name (snd p))
     + length (ts_partial_args (snd p)) + sum_list (map length (ts_delta_queue (snd p))) + 128"

definition estimate_memory_usage :: "tool_map \<Rightarrow> nat" where
  "estimate_memory_usage m = sum_list (map tool_memory m)"

text \<open>\<open>Iterator::min_by_key\<close> returns the first of several minimal elements.\<close>

fun first_min :: "('a \<Rightarrow> nat) \<Rightarrow> 'a list \<Rightarrow> 'a option" where
  "first_min f [] = None"
| "first_min f (x # xs) =
     (case first_min f xs of
        None \<Rightarrow> Some x
      | Some y \<Rightarrow> if f x \<le> f y then Some x else Some y)"

definition drop_oldest_pending :: "tool_map \<Rightarrow> tool_map" where
  "drop_oldest_pending m =
     (case first_min (\<lambda>p. ts_last_activity (snd p)) (filter (\<lambda>p. \<not> ts_finished (snd p)) m) of
        None \<Rightarrow> m
      | Some (oldest_id, _) \<Rightarrow> AList.delete oldest_id m)"

definition publish_signal :: "accumulator \<Rightarrow> peer_delta \<Rightarrow> peer_delta list" where
  "publish_signal acc delta = (if acc_peer_updates acc then [delta] else [])"

definition start_tool ::
  "nat \<Rightarrow> string \<Rightarrow> string \<Rightarrow> string \<Rightarrow> accumulator
     \<Rightarrow> (accumulation_error + unit) \<times> peer_delta list \<times> accumulator" where
  "start_tool now tid task_id name acc =
     (let m = acc_state acc; w = memory_watermark_bytes acc in
      if map_of m tid \<noteq> None then (Inl (DuplicateId tid), [], acc)
      else
        let m1 = (if estimate_memory_usage m > w then drop_oldest_pending m else m) in
        if estimate_memory_usage m > w \<and> estimate_memory_usage m1 > w
        then (Inl MemoryPressure, [], acc\<lparr>acc_state := m1\<rparr>)
        else
          (Inr (), publish_signal acc (ToolStart tid task_id name),
           acc\<lparr>acc_state := AList.update tid
             \<lparr>ts_id = tid, ts_task_id = task_id, ts_name = name, ts_partial_args = [],
              ts_partial_args_truncated = False, ts_finished = False, ts_delta_queue = [],
              ts_last_activity = now\<rparr> m1\<rparr>))"

text \<open>The character loop of \<open>accumulate\<close>; the flag tells whether it set off the truncation signal.\<close>

fun push_partial :: "string list \<Rightarrow> tool_state \<Rightarrow> tool_state \<times> bool" where
  "push_partial [] e = (e, False)"
| "push_partial (ch # chs) e =
     (if sat_add (length (ts_partial_args e)) (length ch) > MAX_STORED_PARTIAL_BYTES then
        (if \<not> ts_partial_args_truncated e
         then (e\<lparr>ts_partial_args_truncated := True\<rparr>, True)
         else (e, False))
      else push_partial chs (e\<lparr>ts_partial_args := ts_partial_args e @ ch\<rparr>))"

definition push_queue :: "string \<Rightarrow> string list \<Rightarrow> string list" where
  "push_queue delta q =
     (if length q = MAX_TOOL_DELTA_QUEUE_DEPTH then tl q else q) @ [delta]"

definition accumulate ::
  "nat \<Rightarrow> string \<Rightarrow> string \<Rightarrow> accumulator
     \<Rightarrow> (accumulation_error + unit) \<times> peer_delta list \<times> accumulator" where
  "accumulate now tid partial_json acc =
     (case map_of (acc_state acc) tid of
        None \<Rightarrow> (Inl (UnknownId tid), [], acc)
      | Some entry \<Rightarrow>
          if \<not> is_valid_json_prefix (ts_partial_args entry) partial_json
          then (Inl MalformedPartial, [], acc)
          else
            let (entry1, truncated) =
                  push_partial (utf8_chars partial_json)
                    (entry\<lparr>ts_last_activity := now,
                           ts_delta_queue := push_queue partial_json (ts_delta_queue entry)\<rparr>);
                m1 = AList.update tid entry1 (acc_state acc);
                m2 = (if estimate_memory_usage m1 > memory_watermark_bytes acc
                      then drop_oldest_pending m1 else m1);
                task_id = (case map_of m2 tid of Some st \<Rightarrow> ts_task_id st | None \<Rightarrow> [])
            in (Inr (),
                publish_signal acc (ToolDelta tid task_id partial_json) @
                (if truncated
                 then publish_signal acc
                   (PartialArgsTruncated tid (ts_task_id entry) MAX_STORED_PARTIAL_BYTES)
                 else []),
                acc\<lparr>acc_state := m2\<rparr>))"

definition finish :: "nat \<Rightarrow> string \<Rightarrow> accumulator \<Rightarrow> peer_delta list \<times> accumulator" where
  "finish now tid acc =
     (case map_of (acc_state acc) tid of
        None \<Rightarrow> ([], acc)
      | Some entry \<Rightarrow>
          (publish_signal acc (ToolFinish tid (ts_task_id entry)),
           acc\<lparr>acc_state := AList.update tid
             (entry\<lparr>ts_finished := True, ts_last_activity := now\<rparr>) (acc_state acc)\<rparr>))"

text \<open>\<open>Instant - Duration\<close> panics when the result is before the clock's origin: \<^const>\<open>None\<close>.\<close>

definition cleanup_finished :: "nat \<Rightarrow> nat \<Rightarrow> accumulator \<Rightarrow> (nat \<times> accumulator) option" where
  "cleanup_finished now older_than acc =
     (if now < older_than then None
      else
        let cutoff = now - older_than;
            m = filter (\<lambda>p. \<not> ts_finished (snd p) \<or> ts_last_activity (snd p) > cutoff)
                  (acc_state acc)
        in Some (length (acc_state acc) - length m, acc\<lparr>acc_state := m\<rparr>))"

definition cleanup_task :: "string \<Rightarrow> accumulator \<Rightarrow> nat \<times> accumulator" where
  "cleanup_task task_id acc =
     (let m = filter (\<lambda>p. ts_task_id (snd p) \<noteq> task_id) (acc_state acc)
      in (length (acc_state acc) - length m, acc\<lparr>acc_state := m\<rparr>))"

section \<open>The invariant\<close>

definition tool_ok :: "string \<Rightarrow> tool_state \<Rightarrow> bool" where
  "tool_ok k e \<longleftrightarrow> ts_id e = k
     \<and> length (ts_partial_args e) \<le> MAX_STORED_PARTIAL_BYTES
     \<and> length (ts_delta_queue e) \<le> MAX_TOOL_DELTA_QUEUE_DEPTH
     \<and> is_valid_json_prefix (ts_partial_args e) []"

definition acc_ok :: "accumulator \<Rightarrow> bool" where
  "acc_ok acc \<longleftrightarrow> distinct (map fst (acc_state acc))
     \<and> (\<forall>p \<in> set (acc_state acc). tool_ok (fst p) (snd p))"

section \<open>Lemmas: the prefix check\<close>

lemma scan_str_append:
  "scan_str s (a @ b) = (case scan_str s a of None \<Rightarrow> None | Some s' \<Rightarrow> scan_str s' b)"
  by (induction a arbitrary: s) (auto split: option.splits)

lemma valid_prefix_down:
  "is_valid_json_prefix a (b @ c) \<Longrightarrow> is_valid_json_prefix a b"
  by (auto simp: is_valid_json_prefix_def scan_str_append split: option.splits)

lemma valid_prefix_assoc: "is_valid_json_prefix (a @ b) c = is_valid_json_prefix a (b @ c)"
  by (simp add: is_valid_json_prefix_def)

lemma valid_prefix_cong: "is_valid_json_prefix (a @ b) [] = is_valid_json_prefix a b"
  by (simp add: is_valid_json_prefix_def)

section \<open>Lemmas: eviction\<close>

lemma first_min_None: "first_min f xs = None \<longleftrightarrow> xs = []"
  by (cases xs) (auto split: option.splits)

lemma first_min_Some:
  "first_min f xs = Some x \<Longrightarrow> x \<in> set xs \<and> (\<forall>y \<in> set xs. f x \<le> f y)"
proof (induction xs arbitrary: x)
  case (Cons y ys)
  then show ?case
    by (cases "first_min f ys") (fastforce simp: first_min_None split: if_splits)+
qed simp

lemma drop_oldest_subset: "set (drop_oldest_pending m) \<subseteq> set m"
  by (auto simp: drop_oldest_pending_def AList.delete_eq split: option.splits)

lemma drop_oldest_distinct:
  "distinct (map fst m) \<Longrightarrow> distinct (map fst (drop_oldest_pending m))"
  by (auto simp: drop_oldest_pending_def distinct_delete split: option.splits)

section \<open>Lemmas: pushing characters\<close>

lemma push_partial_frame:
  "push_partial cs e = (e', b) \<Longrightarrow>
     ts_id e' = ts_id e \<and> ts_task_id e' = ts_task_id e \<and> ts_name e' = ts_name e
     \<and> ts_finished e' = ts_finished e \<and> ts_delta_queue e' = ts_delta_queue e
     \<and> ts_last_activity e' = ts_last_activity e"
  by (induction cs e arbitrary: e' b rule: push_partial.induct) (auto split: if_splits)

lemma push_partial_args:
  "push_partial cs e = (e', b) \<Longrightarrow>
     \<exists>k. ts_partial_args e' = ts_partial_args e @ concat (take k cs)"
proof (induction cs e arbitrary: e' b rule: push_partial.induct)
  case (1 e)
  then show ?case by auto
next
  case (2 ch chs e)
  show ?case
  proof (cases "sat_add (length (ts_partial_args e)) (length ch) > MAX_STORED_PARTIAL_BYTES")
    case True
    with 2(2) show ?thesis by (auto split: if_splits intro!: exI [of _ 0])
  next
    case False
    from 2(1) [OF False] False 2(2) obtain k where
      "ts_partial_args e' = (ts_partial_args e @ ch) @ concat (take k chs)"
      by auto
    then show ?thesis by (intro exI [of _ "Suc k"]) simp
  qed
qed

lemma push_partial_bound:
  "push_partial cs e = (e', b) \<Longrightarrow>
     length (ts_partial_args e) \<le> MAX_STORED_PARTIAL_BYTES \<Longrightarrow>
     length (ts_partial_args e') \<le> MAX_STORED_PARTIAL_BYTES"
proof (induction cs e arbitrary: e' b rule: push_partial.induct)
  case (2 ch chs e)
  then show ?case
    by (auto split: if_splits simp: sat_add_def min_def u64_max_def MAX_STORED_PARTIAL_BYTES_def)
qed simp

lemma push_partial_fits:
  "length (ts_partial_args e) + length (concat cs) \<le> MAX_STORED_PARTIAL_BYTES \<Longrightarrow>
     push_partial cs e = (e\<lparr>ts_partial_args := ts_partial_args e @ concat cs\<rparr>, False)"
proof (induction cs arbitrary: e)
  case (Cons c cs)
  then show ?case
    by (simp add: sat_add_def min_def u64_max_def MAX_STORED_PARTIAL_BYTES_def)
qed simp

lemma push_partial_valid:
  assumes "push_partial (utf8_chars p) e = (e', b)"
    and "is_valid_json_prefix (ts_partial_args e) p"
  shows "is_valid_json_prefix (ts_partial_args e') []"
proof -
  from push_partial_args [OF assms(1)] obtain k where
    k: "ts_partial_args e' = ts_partial_args e @ concat (take k (utf8_chars p))"
    by blast
  have "p = concat (take k (utf8_chars p)) @ concat (drop k (utf8_chars p))"
    by (metis append_take_drop_id concat_append concat_utf8_chars)
  with assms(2) have "is_valid_json_prefix (ts_partial_args e) (concat (take k (utf8_chars p)))"
    by (metis valid_prefix_down)
  with k show ?thesis by (simp add: valid_prefix_cong)
qed

lemma push_queue_bound:
  "length q \<le> MAX_TOOL_DELTA_QUEUE_DEPTH \<Longrightarrow>
     length (push_queue d q) \<le> MAX_TOOL_DELTA_QUEUE_DEPTH"
  by (cases q) (auto simp: push_queue_def MAX_TOOL_DELTA_QUEUE_DEPTH_def)

section \<open>Lemmas: the invariant is kept\<close>

lemma acc_okI:
  "distinct (map fst m) \<Longrightarrow> (\<And>k e. (k, e) \<in> set m \<Longrightarrow> tool_ok k e) \<Longrightarrow>
     acc_ok (acc\<lparr>acc_state := m\<rparr>)"
  by (auto simp: acc_ok_def)

lemma acc_ok_lookup: "acc_ok acc \<Longrightarrow> map_of (acc_state acc) k = Some e \<Longrightarrow> tool_ok k e"
  by (auto simp: acc_ok_def dest: map_of_SomeD)

lemma update_in: "p \<in> set (AList.update k v m) \<Longrightarrow> p = (k, v) \<or> p \<in> set m"
  by (induction m) (auto split: if_splits)

lemma acc_ok_update:
  "acc_ok acc \<Longrightarrow> tool_ok k e \<Longrightarrow> acc_ok (acc\<lparr>acc_state := AList.update k e (acc_state acc)\<rparr>)"
  by (rule acc_okI) (auto simp: acc_ok_def distinct_update dest!: update_in)

lemma acc_ok_drop:
  "acc_ok acc \<Longrightarrow> acc_ok (acc\<lparr>acc_state := drop_oldest_pending (acc_state acc)\<rparr>)"
  by (rule acc_okI)
     (auto simp: acc_ok_def drop_oldest_distinct dest!: drop_oldest_subset [THEN subsetD])

lemma acc_ok_filter:
  "acc_ok acc \<Longrightarrow> acc_ok (acc\<lparr>acc_state := filter Q (acc_state acc)\<rparr>)"
  by (rule acc_okI) (auto simp: acc_ok_def intro: distinct_map_filter)

lemma acc_ok_start_tool: "acc_ok acc \<Longrightarrow> acc_ok (snd (snd (start_tool now tid task name acc)))"
proof -
  assume ok: "acc_ok acc"
  let ?m = "if estimate_memory_usage (acc_state acc) > memory_watermark_bytes acc
            then drop_oldest_pending (acc_state acc) else acc_state acc"
  let ?e = "\<lparr>ts_id = tid, ts_task_id = task, ts_name = name, ts_partial_args = [],
      ts_partial_args_truncated = False, ts_finished = False, ts_delta_queue = [],
      ts_last_activity = now\<rparr>"
  from ok have m: "acc_ok (acc\<lparr>acc_state := ?m\<rparr>)" by (simp add: acc_ok_drop)
  have "tool_ok tid ?e" by (simp add: tool_ok_def is_valid_json_prefix_def)
  from acc_ok_update [OF m this] m ok show ?thesis
    by (auto simp: start_tool_def Let_def)
qed

lemma acc_ok_accumulate: "acc_ok acc \<Longrightarrow> acc_ok (snd (snd (accumulate now tid p acc)))"
proof (cases "map_of (acc_state acc) tid")
  case (Some e)
  assume ok: "acc_ok acc"
  show ?thesis
  proof (cases "is_valid_json_prefix (ts_partial_args e) p")
    case True
    let ?e0 = "e\<lparr>ts_last_activity := now, ts_delta_queue := push_queue p (ts_delta_queue e)\<rparr>"
    obtain e1 b where push: "push_partial (utf8_chars p) ?e0 = (e1, b)" by fastforce
    from ok Some have "tool_ok tid e" by (rule acc_ok_lookup)
    with push push_partial_frame [OF push] push_partial_bound [OF push]
      push_partial_valid [OF push] push_queue_bound [of "ts_delta_queue e" p] True
    have "tool_ok tid e1" by (auto simp: tool_ok_def)
    with ok have m1: "acc_ok (acc\<lparr>acc_state := AList.update tid e1 (acc_state acc)\<rparr>)"
      by (rule acc_ok_update)
    from acc_ok_drop [OF m1] m1 Some True push show ?thesis
      by (simp add: accumulate_def Let_def)
  qed (use ok Some in \<open>simp add: accumulate_def\<close>)
qed (simp add: accumulate_def)

lemma acc_ok_finish: "acc_ok acc \<Longrightarrow> acc_ok (snd (finish now tid acc))"
proof (cases "map_of (acc_state acc) tid")
  case (Some e)
  assume ok: "acc_ok acc"
  with Some have "tool_ok tid e" by (blast intro: acc_ok_lookup)
  then have "tool_ok tid (e\<lparr>ts_finished := True, ts_last_activity := now\<rparr>)"
    by (simp add: tool_ok_def)
  with ok Some show ?thesis by (simp add: finish_def acc_ok_update)
qed (simp add: finish_def)

section \<open>The accumulator as a state machine\<close>

text \<open>One rule per public operation; the clock readings and arguments are arbitrary.\<close>

inductive acc_step :: "accumulator \<Rightarrow> accumulator \<Rightarrow> bool" where
  step_start: "acc_step acc (snd (snd (start_tool now tid task name acc)))"
| step_accumulate: "acc_step acc (snd (snd (accumulate now tid p acc)))"
| step_finish: "acc_step acc (snd (finish now tid acc))"
| step_cleanup_finished: "cleanup_finished now d acc = Some (n, acc') \<Longrightarrow> acc_step acc acc'"
| step_cleanup_task: "acc_step acc (snd (cleanup_task task acc))"

inductive acc_reachable :: "accumulator \<Rightarrow> bool" where
  acc_init: "acc_reachable (new_with_peer_updates w p)"
| acc_next: "acc_reachable acc \<Longrightarrow> acc_step acc acc' \<Longrightarrow> acc_reachable acc'"

lemma acc_step_ok: "acc_step acc acc' \<Longrightarrow> acc_ok acc \<Longrightarrow> acc_ok acc'"
proof (induction rule: acc_step.induct)
  case (step_cleanup_finished now d acc n acc')
  then show ?case
    by (auto simp: cleanup_finished_def Let_def acc_ok_filter split: if_splits)
qed (auto simp: acc_ok_start_tool acc_ok_accumulate acc_ok_finish acc_ok_filter
    cleanup_task_def Let_def)

lemma acc_reachable_ok: "acc_reachable acc \<Longrightarrow> acc_ok acc"
  by (induction rule: acc_reachable.induct)
     (auto simp: acc_ok_def new_with_peer_updates_def dest: acc_step_ok [unfolded acc_ok_def])

text \<open>
  In every state the accumulator can reach, each tool call is stored
  under its own id and only once, its stored arguments fill at most 65536 bytes, its delta queue
  holds at most 32 deltas, and its stored arguments never close a brace or bracket they did not
  open.
\<close>

theorem accumulator_invariant:
  assumes "acc_reachable acc" and "map_of (acc_state acc) k = Some e"
  shows "distinct (map fst (acc_state acc)) \<and> ts_id e = k
    \<and> length (ts_partial_args e) \<le> 65536 \<and> length (ts_delta_queue e) \<le> 32
    \<and> is_valid_json_prefix (ts_partial_args e) []"
  using acc_reachable_ok [OF assms(1)] acc_ok_lookup [OF acc_reachable_ok [OF assms(1)] assms(2)]
  by (simp add: acc_ok_def tool_ok_def MAX_STORED_PARTIAL_BYTES_def MAX_TOOL_DELTA_QUEUE_DEPTH_def)

text \<open>The invariant at work: a call started and fed one delta.\<close>

theorem accumulator_invariant_witness:
  "\<exists>acc e. acc_reachable acc \<and> map_of (acc_state acc) ''t1'' = Some e
     \<and> ts_partial_args e = ''{'' \<and> length (ts_partial_args e) \<le> 65536"
proof -
  let ?a0 = "new_with_peer_updates 1000 True"
  let ?a1 = "snd (snd (start_tool 1 ''t1'' ''task'' ''read_file'' ?a0))"
  let ?a2 = "snd (snd (accumulate 2 ''t1'' ''{'' ?a1))"
  have "acc_reachable ?a1" by (rule acc_next [OF acc_init step_start])
  then have r: "acc_reachable ?a2" by (rule acc_next [OF _ step_accumulate])
  obtain e where e: "map_of (acc_state ?a2) ''t1'' = Some e" "ts_partial_args e = ''{''"
    by (simp add: accumulate_def start_tool_def new_with_peer_updates_def Let_def
        is_valid_json_prefix_def scan_char_def scan_start_def estimate_memory_usage_def
        tool_memory_def push_queue_def MAX_TOOL_DELTA_QUEUE_DEPTH_def sat_add_def
        MAX_STORED_PARTIAL_BYTES_def)
  from r e accumulator_invariant [OF r e(1)] show ?thesis by blast
qed

section \<open>Eviction and memory\<close>

text \<open>
  Under memory pressure the accumulator drops exactly one tool call,
  an unfinished one that has been idle the longest, and it drops none when every call has finished.
\<close>

theorem drop_oldest_pending_spec:
  "(if \<exists>p \<in> set m. \<not> ts_finished (snd p)
    then \<exists>k e. (k, e) \<in> set m \<and> \<not> ts_finished e
      \<and> drop_oldest_pending m = AList.delete k m
      \<and> {p \<in> set m. \<not> ts_finished (snd p) \<and> ts_last_activity (snd p) < ts_last_activity e} = {}
    else drop_oldest_pending m = m)"
proof (cases "first_min (\<lambda>p. ts_last_activity (snd p)) (filter (\<lambda>p. \<not> ts_finished (snd p)) m)")
  case None
  then show ?thesis by (auto simp: drop_oldest_pending_def first_min_None filter_empty_conv)
next
  case (Some p)
  obtain k e where p: "p = (k, e)" by fastforce
  from first_min_Some [OF Some] p have "(k, e) \<in> set m \<and> \<not> ts_finished e
      \<and> (\<forall>q \<in> set m. \<not> ts_finished (snd q) \<longrightarrow> ts_last_activity e \<le> ts_last_activity (snd q))"
    by auto
  with Some p show ?thesis
    by (auto simp: drop_oldest_pending_def intro!: exI [of _ k] exI [of _ e] bexI [of _ "(k, e)"])
qed

lemma estimate_update_present:
  "map_of m k = Some e \<Longrightarrow>
     estimate_memory_usage (AList.update k e' m) + tool_memory (k, e)
       = estimate_memory_usage m + tool_memory (k, e')"
  by (induction m) (auto simp: estimate_memory_usage_def)

lemma estimate_update_absent:
  "map_of m k = None \<Longrightarrow>
     estimate_memory_usage (AList.update k e m) = estimate_memory_usage m + tool_memory (k, e)"
  by (induction m) (auto simp: estimate_memory_usage_def split: if_splits)

lemma drop_oldest_absent: "map_of m k = None \<Longrightarrow> map_of (drop_oldest_pending m) k = None"
  using drop_oldest_subset [of m] by (auto simp: map_of_eq_None_iff)

text \<open>
  A tool call that is admitted leaves the estimated memory at most the
  watermark plus the size of the new, still empty entry; one that is refused for memory pressure
  leaves it above the watermark with the call not stored.
\<close>

theorem start_tool_memory_bound:
  assumes "start_tool now tid task name acc = (r, sigs, acc')"
  shows "(r = Inr () \<longrightarrow> estimate_memory_usage (acc_state acc')
        \<le> memory_watermark_bytes acc + length tid + length task + length name + 128)
    \<and> (r = Inl MemoryPressure \<longrightarrow>
        memory_watermark_bytes acc < estimate_memory_usage (acc_state acc')
        \<and> map_of (acc_state acc') tid = None)"
proof (cases "map_of (acc_state acc) tid")
  case (Some e)
  with assms show ?thesis by (auto simp: start_tool_def)
next
  case None
  let ?w = "memory_watermark_bytes acc"
  let ?m = "if estimate_memory_usage (acc_state acc) > ?w
            then drop_oldest_pending (acc_state acc) else acc_state acc"
  have absent: "map_of ?m tid = None" using None by (simp add: drop_oldest_absent)
  show ?thesis
  proof (cases "estimate_memory_usage ?m > ?w")
    case True
    then have "estimate_memory_usage (acc_state acc) > ?w" by (auto split: if_splits)
    with True None assms absent show ?thesis by (auto simp: start_tool_def Let_def)
  next
    case False
    with None assms have "r = Inr ()" and "\<exists>e. acc_state acc' = AList.update tid e ?m
        \<and> tool_memory (tid, e) = length tid + length task + length name + 128"
      by (auto simp: start_tool_def Let_def tool_memory_def split: if_splits)
    with False estimate_update_absent [OF absent] show ?thesis by auto
  qed
qed

theorem start_tool_memory_bound_witness:
  "estimate_memory_usage (acc_state (snd (snd
      (start_tool 1 ''t1'' ''task'' ''ls'' (new_with_peer_updates 1000 True))))) \<le> 1136"
proof -
  let ?acc = "new_with_peer_updates 1000 True"
  obtain r sigs acc' where eq: "start_tool 1 ''t1'' ''task'' ''ls'' ?acc = (r, sigs, acc')"
    by (rule prod_cases3)
  then have "r = Inr ()"
    by (simp add: start_tool_def new_with_peer_updates_def Let_def estimate_memory_usage_def)
  with start_tool_memory_bound [OF eq] eq show ?thesis
    by (simp add: new_with_peer_updates_def)
qed

section \<open>Streaming a whole argument text\<close>

text \<open>A sequence of deltas for one call, each with its clock reading.\<close>

definition accumulate_all :: "string \<Rightarrow> (nat \<times> string) list \<Rightarrow> accumulator \<Rightarrow> accumulator" where
  "accumulate_all tid ds acc =
     foldl (\<lambda>a d. snd (snd (accumulate (fst d) tid (snd d) a))) acc ds"

lemma push_queue_memory:
  "sum_list (map length (push_queue p q)) \<le> sum_list (map length q) + length p"
  by (cases q) (auto simp: push_queue_def)

lemma tool_memory_push:
  "tool_memory (k, e\<lparr>ts_last_activity := now,
      ts_delta_queue := push_queue p (ts_delta_queue e),
      ts_partial_args := ts_partial_args e @ p\<rparr>) \<le> tool_memory (k, e) + 2 * length p"
  using push_queue_memory [of p "ts_delta_queue e"] by (simp add: tool_memory_def)

lemma accumulate_fits:
  assumes look: "map_of (acc_state acc) tid = Some e"
    and valid: "is_valid_json_prefix (ts_partial_args e) p"
    and fits: "length (ts_partial_args e) + length p \<le> MAX_STORED_PARTIAL_BYTES"
    and room: "estimate_memory_usage (acc_state acc) + 2 * length p \<le> memory_watermark_bytes acc"
  shows "\<exists>e1. snd (snd (accumulate now tid p acc)) =
        acc\<lparr>acc_state := AList.update tid e1 (acc_state acc)\<rparr>
      \<and> ts_partial_args e1 = ts_partial_args e @ p
      \<and> ts_partial_args_truncated e1 = ts_partial_args_truncated e
      \<and> estimate_memory_usage (AList.update tid e1 (acc_state acc))
          \<le> estimate_memory_usage (acc_state acc) + 2 * length p"
proof -
  let ?e0 = "e\<lparr>ts_last_activity := now, ts_delta_queue := push_queue p (ts_delta_queue e)\<rparr>"
  let ?e1 = "?e0\<lparr>ts_partial_args := ts_partial_args e @ p\<rparr>"
  have push: "push_partial (utf8_chars p) ?e0 = (?e1, False)"
    using fits by (simp add: push_partial_fits)
  from tool_memory_push [where k = tid and e = e and now = now and p = p] estimate_update_present [OF look, of ?e1]
  have mem: "estimate_memory_usage (AList.update tid ?e1 (acc_state acc))
      \<le> estimate_memory_usage (acc_state acc) + 2 * length p" by linarith
  with room have "\<not> estimate_memory_usage (AList.update tid ?e1 (acc_state acc))
      > memory_watermark_bytes acc" by linarith
  with look valid push mem show ?thesis
    by (intro exI [of _ ?e1]) (simp add: accumulate_def Let_def)
qed

text \<open>
  When the whole argument text of a call fits in 65536 bytes, keeps its
  braces balanced and the accumulator has room for it, then however the text is cut into deltas the
  call ends up storing exactly that text, untruncated, and no other call is touched.
\<close>

theorem accumulate_all_concat:
  assumes "map_of (acc_state acc) tid = Some e"
    and "is_valid_json_prefix (ts_partial_args e) (concat (map snd ds))"
    and "length (ts_partial_args e) + length (concat (map snd ds)) \<le> MAX_STORED_PARTIAL_BYTES"
    and "estimate_memory_usage (acc_state acc) + 2 * length (concat (map snd ds))
           \<le> memory_watermark_bytes acc"
  shows "\<exists>e'. map_of (acc_state (accumulate_all tid ds acc)) tid = Some e'
      \<and> ts_partial_args e' = ts_partial_args e @ concat (map snd ds)
      \<and> ts_partial_args_truncated e' = ts_partial_args_truncated e
      \<and> map_of (acc_state (accumulate_all tid ds acc)) |` (- {tid})
          = map_of (acc_state acc) |` (- {tid})"
  using assms
proof (induction ds arbitrary: acc e)
  case Nil
  then show ?case by (simp add: accumulate_all_def)
next
  case (Cons d ds)
  let ?p = "snd d"
  have valid: "is_valid_json_prefix (ts_partial_args e) ?p"
    using Cons.prems(2) by (auto intro: valid_prefix_down)
  from accumulate_fits [OF Cons.prems(1) valid, of "fst d"] Cons.prems(3,4) obtain e1 where
    acc1: "snd (snd (accumulate (fst d) tid ?p acc)) =
        acc\<lparr>acc_state := AList.update tid e1 (acc_state acc)\<rparr>"
    and args: "ts_partial_args e1 = ts_partial_args e @ ?p"
      "ts_partial_args_truncated e1 = ts_partial_args_truncated e"
    and mem: "estimate_memory_usage (AList.update tid e1 (acc_state acc))
          \<le> estimate_memory_usage (acc_state acc) + 2 * length ?p"
    by auto
  let ?acc1 = "acc\<lparr>acc_state := AList.update tid e1 (acc_state acc)\<rparr>"
  have "map_of (acc_state ?acc1) tid = Some e1" by (simp add: update_conv')
  from Cons.IH [OF this] Cons.prems args mem obtain e' where
    "map_of (acc_state (accumulate_all tid ds ?acc1)) tid = Some e'"
    "ts_partial_args e' = ts_partial_args e1 @ concat (map snd ds)"
    "ts_partial_args_truncated e' = ts_partial_args_truncated e1"
    "map_of (acc_state (accumulate_all tid ds ?acc1)) |` (- {tid}) = map_of (acc_state ?acc1) |` (- {tid})"
    by (auto simp: valid_prefix_assoc)
  moreover have "accumulate_all tid (d # ds) acc = accumulate_all tid ds ?acc1"
    by (simp add: accumulate_all_def acc1)
  moreover have "map_of (acc_state ?acc1) |` (- {tid}) = map_of (acc_state acc) |` (- {tid})"
    by (auto simp: update_conv' restrict_map_def)
  ultimately show ?case using args by simp
qed

theorem accumulate_all_concat_witness:
  "\<exists>e'. map_of (acc_state (accumulate_all ''t1'' [(2, ''{ab''), (3, ''c}'')]
         (snd (snd (start_tool 1 ''t1'' ''task'' ''ls'' (new_with_peer_updates 1000 True))))))
       ''t1'' = Some e' \<and> ts_partial_args e' = ''{abc}''"
proof -
  let ?acc = "snd (snd (start_tool 1 ''t1'' ''task'' ''ls'' (new_with_peer_updates 1000 True)))"
  let ?e = "\<lparr>ts_id = ''t1'', ts_task_id = ''task'', ts_name = ''ls'', ts_partial_args = [],
              ts_partial_args_truncated = False, ts_finished = False, ts_delta_queue = [],
              ts_last_activity = 1\<rparr>"
  have "map_of (acc_state ?acc) ''t1'' = Some ?e"
    and "estimate_memory_usage (acc_state ?acc) + 2 * length (concat [''{ab'', ''c}''])
           \<le> memory_watermark_bytes ?acc"
    by (simp_all add: start_tool_def new_with_peer_updates_def Let_def estimate_memory_usage_def
        tool_memory_def)
  then show ?thesis
    using accumulate_all_concat [of ?acc "''t1''" ?e "[(2, ''{ab''), (3, ''c}'')]"]
    by (auto simp: is_valid_json_prefix_def scan_char_def scan_start_def
        MAX_STORED_PARTIAL_BYTES_def)
qed

end
