(* ===== verification/Text_Normaliser.thy ===== *)
theory Text_Normaliser
  imports Types
begin

text \<open>
  The stream text normaliser (\<open>src/api/stream/text_normaliser.rs\<close>): it cuts model text that arrives
  in arbitrary pieces into plain text and tagged tool calls, in the two notations
  \<open><function=..>..</function>\<close> and \<open><tool_call>{json}</tool_call>\<close>, holding back an incomplete tag.

  A slice whose bounds come from a search in the same text is in range (\<open>find_str_bound\<close>) and written
  with \<^const>\<open>take\<close> and \<^const>\<open>drop\<close>. The one slice that can be out of range, in
  \<open>parse_single_tagged_tool_call\<close>, is \<open>str_range\<close>; the panic it then causes is \<^const>\<open>None\<close>, and
  every caller passes it on.
\<close>

section \<open>Definitions\<close>

datatype normalised_chunk = Text string | TaggedToolCall string json

record stream_text_normaliser =
  pending :: string

definition normaliser_new :: stream_text_normaliser where
  "normaliser_new = \<lparr>pending = []\<rparr>"

definition push_text_chunk :: "string \<Rightarrow> normalised_chunk list" where
  "push_text_chunk text = (if text = [] then [] else [Text text])"

definition strip_tool_call_wrappers :: "string \<Rightarrow> string" where
  "strip_tool_call_wrappers text =
     replace_str (replace_str text ''<tool_call>'' []) ''</tool_call>'' []"

text \<open>\<open>&s[a..b]\<close> with byte offsets: it panics unless the offsets are in order, in range and on
  character boundaries.\<close>

definition is_char_boundary :: "string \<Rightarrow> nat \<Rightarrow> bool" where
  "is_char_boundary s i \<longleftrightarrow> i = length s \<or> (i < length s \<and> \<not> is_cont (s ! i))"

definition str_range :: "string \<Rightarrow> nat \<Rightarrow> nat \<Rightarrow> string option" where
  "str_range s a b =
     (if a \<le> b \<and> is_char_boundary s a \<and> is_char_boundary s b
      then Some (take (b - a) (drop a s)) else None)"

function find_hermes_from :: "string \<Rightarrow> nat \<Rightarrow> nat option" where
  "find_hermes_from text search_from =
     (case find_str ''<tool_call>'' (drop search_from text) of
        None \<Rightarrow> None
      | Some rel \<Rightarrow>
          let found = search_from + rel in
          if starts_with (trim_start (drop (found + 11) text)) ''{'' then Some found
          else find_hermes_from text (found + 1))"
  by pat_completeness auto
termination
  by (relation "measure (\<lambda>(text, i). length text - i)")
     (auto dest!: find_str_bound)

declare find_hermes_from.simps [simp del]

definition find_hermes_json_tool_call :: "string \<Rightarrow> nat option" where
  "find_hermes_json_tool_call text = find_hermes_from text 0"

definition parse_hermes_json_tool_call :: "serde \<Rightarrow> string \<Rightarrow> (string \<times> json) option" where
  "parse_hermes_json_tool_call sj content =
     (case from_str sj content of
        None \<Rightarrow> None
      | Some obj \<Rightarrow>
          (case json_get obj ''name'' of
             None \<Rightarrow> None
           | Some nv \<Rightarrow>
               (case as_str nv of
                  None \<Rightarrow> None
                | Some raw \<Rightarrow>
                    let name = trim raw in
                    if name = [] then None
                    else Some (name,
                      (case json_get obj ''arguments'' of
                         Some (JString s) \<Rightarrow>
                           (case from_str sj s of Some v \<Rightarrow> v | None \<Rightarrow> JObject [])
                       | Some v \<Rightarrow> v
                       | None \<Rightarrow> JObject [])))))"

definition looks_like_partial_tool_tag :: "string \<Rightarrow> bool" where
  "looks_like_partial_tool_tag tag =
     (let low = to_ascii_lowercase tag in
      list_ex (\<lambda>candidate. starts_with candidate low)
        [''<function='', ''<function'', ''</function>'', ''</function'',
         ''<parameter='', ''<parameter'', ''</parameter>'', ''</parameter'',
         ''<tool_call>'', ''<tool_call'', ''</tool_call>'', ''</tool_call''])"

definition split_incomplete_tool_tag_suffix :: "string \<Rightarrow> string \<times> string" where
  "split_incomplete_tool_tag_suffix text =
     (case rfind_char CHR ''<'' text of
        None \<Rightarrow> (text, [])
      | Some last_open \<Rightarrow>
          if looks_like_partial_tool_tag (drop last_open text)
          then (take last_open text, drop last_open text)
          else (text, []))"

definition strip_incomplete_tool_tag_suffix :: "string \<Rightarrow> string" where
  "strip_incomplete_tool_tag_suffix text =
     (case rfind_char CHR ''<'' text of
        None \<Rightarrow> text
      | Some last_open \<Rightarrow>
          if looks_like_partial_tool_tag (drop last_open text) then take last_open text else text)"

definition normalize_tagged_parameter_value :: "string \<Rightarrow> string" where
  "normalize_tagged_parameter_value raw =
     (let v1 = replace_str raw [carriage_return, newline] [newline];
          v2 = (if starts_with v1 [newline] then tl v1 else v1)
      in if ends_with v2 [newline] then butlast v2 else v2)"

definition tagged_parameter_json_value :: "serde \<Rightarrow> string \<Rightarrow> json" where
  "tagged_parameter_json_value sj raw =
     (let v = normalize_tagged_parameter_value raw; trimmed = trim v in
      if trimmed = [] then JString v
      else
        (case (case from_str sj trimmed of
                 Some (JString _) \<Rightarrow> None | Some parsed \<Rightarrow> Some parsed | None \<Rightarrow> None) of
           Some parsed \<Rightarrow> parsed
         | None \<Rightarrow>
             (case parse_u64 trimmed of
                Some n \<Rightarrow> JNumber (PosInt n)
              | None \<Rightarrow>
                  (case parse_i64 trimmed of
                     Some i \<Rightarrow> JNumber (number_of_i64 i)
                   | None \<Rightarrow>
                       (case parse_f64 sj trimmed of
                          Some f \<Rightarrow> JNumber (Float f)
                        | None \<Rightarrow> JString v)))))"

text \<open>A tag's name or key: trimmed, then stripped of double and of single quotes.\<close>

definition unquote :: "string \<Rightarrow> string" where
  "unquote s = trim_char CHR 0x27 (trim_char CHR 0x22 (trim s))"

function parse_tagged_parameters_from ::
  "serde \<Rightarrow> string \<Rightarrow> nat \<Rightarrow> (string \<times> json) list \<Rightarrow> (string \<times> json) list" where
  "parse_tagged_parameters_from sj body cursor input =
     (case find_str ''<parameter='' (drop cursor body) of
        None \<Rightarrow> input
      | Some parameter_rel \<Rightarrow>
          let parameter_start = cursor + parameter_rel; key_start = parameter_start + 11 in
          (case find_str ''>'' (drop key_start body) of
             None \<Rightarrow> input
           | Some key_end_rel \<Rightarrow>
               let key_end = key_start + key_end_rel;
                   key = unquote (take key_end_rel (drop key_start body));
                   value_start = key_end + 1;
                   rest = drop value_start body;
                   (value_end, next_cursor) =
                     (case (find_str ''</parameter>'' rest, find_str ''<parameter='' rest) of
                        (Some close, Some nxt) \<Rightarrow>
                          if nxt < close then (value_start + nxt, value_start + nxt)
                          else (value_start + close, value_start + close + 12)
                      | (Some close, None) \<Rightarrow> (value_start + close, value_start + close + 12)
                      | (None, Some nxt) \<Rightarrow> (value_start + nxt, value_start + nxt)
                      | (None, None) \<Rightarrow> (length body, length body))
               in parse_tagged_parameters_from sj body
                    (max next_cursor (parameter_start + 1))
                    (if key = [] then input
                     else AList.update key
                       (tagged_parameter_json_value sj
                          (take (value_end - value_start) (drop value_start body))) input)))"
  by pat_completeness auto
termination
  by (relation "measure (\<lambda>(sj, body, cursor, input). length body - cursor)")
     (auto dest!: find_str_bound)

declare parse_tagged_parameters_from.simps [simp del]

definition parse_tagged_parameters :: "serde \<Rightarrow> string \<Rightarrow> (string \<times> json) list" where
  "parse_tagged_parameters sj body = parse_tagged_parameters_from sj body 0 []"

text \<open>The outer \<^const>\<open>None\<close> is a panic, the inner one the source's \<open>None\<close>.\<close>

definition parse_single_tagged_tool_call ::
  "serde \<Rightarrow> string \<Rightarrow> (string \<times> json) option option" where
  "parse_single_tagged_tool_call sj raw =
     (case find_str ''>'' (drop 10 raw) of
        None \<Rightarrow> Some None
      | Some name_end_rel \<Rightarrow>
          let name_end = 10 + name_end_rel;
              name = unquote (take name_end_rel (drop 10 raw)) in
          if name = [] then Some None
          else
            (case str_range raw (name_end + 1) (length raw - 11) of
               None \<Rightarrow> None
             | Some body \<Rightarrow>
                 let params = parse_tagged_parameters sj body; trimmed_body = trim body in
                 if params \<noteq> [] then Some (Some (name, JObject params))
                 else
                   (case (if starts_with trimmed_body ''{'' then from_str sj trimmed_body
                          else None) of
                      Some (JObject obj) \<Rightarrow> Some (Some (name, JObject obj))
                    | _ \<Rightarrow> Some (Some (name, JObject params)))))"

function skip_tool_call_closers :: "string \<Rightarrow> string" where
  "skip_tool_call_closers s =
     (if starts_with s ''</tool_call>'' then skip_tool_call_closers (drop 12 s) else s)"
  by pat_completeness auto
termination
  by (relation "measure length") (auto simp: starts_with_def prefix_def)

declare skip_tool_call_closers.simps [simp del]

lemma skip_tool_call_closers_length: "length (skip_tool_call_closers s) \<le> length s"
proof (induction s rule: skip_tool_call_closers.induct)
  case (1 s)
  then show ?case
    by (subst skip_tool_call_closers.simps) (use order_trans in fastforce)
qed

definition hermes_first :: "string \<Rightarrow> nat option" where
  "hermes_first text =
     (case (find_str ''<function='' text, find_hermes_json_tool_call text) of
        (_, None) \<Rightarrow> None
      | (None, Some hs) \<Rightarrow> Some hs
      | (Some fs, Some hs) \<Rightarrow> if hs < fs then Some hs else None)"

definition add_chunks ::
  "normalised_chunk list \<Rightarrow> normalised_chunk list \<times> string \<Rightarrow> normalised_chunk list \<times> string" where
  "add_chunks cs r = (cs @ fst r, snd r)"

text \<open>The loop of \<open>normalise\<close>: from the pending text, the chunks it pushes and the text it leaves
  pending.\<close>

function normalise_loop :: "serde \<Rightarrow> string \<Rightarrow> (normalised_chunk list \<times> string) option" where
  "normalise_loop sj text =
     (case hermes_first text of
        Some hs \<Rightarrow>
          let pre = push_text_chunk (strip_tool_call_wrappers (take hs text));
              remaining = drop hs text in
          (case find_str ''</tool_call>'' remaining of
             None \<Rightarrow> Some (pre, remaining)
           | Some close_rel \<Rightarrow>
               let content = trim (take (close_rel - 11) (drop 11 remaining));
                   call = (case parse_hermes_json_tool_call sj content of
                             Some (name, input) \<Rightarrow> [TaggedToolCall name input] | None \<Rightarrow> [])
               in map_option (add_chunks (pre @ call))
                    (normalise_loop sj (drop (close_rel + 12) remaining)))
      | None \<Rightarrow>
          (case find_str ''<function='' text of
             None \<Rightarrow>
               let (text_prefix, pending_suffix) = split_incomplete_tool_tag_suffix text
               in Some (push_text_chunk (strip_tool_call_wrappers text_prefix), pending_suffix)
           | Some function_start \<Rightarrow>
               let pre = push_text_chunk (strip_tool_call_wrappers (take function_start text));
                   remaining = drop function_start text in
               (case find_str ''</function>'' remaining of
                  None \<Rightarrow> Some (pre, remaining)
                | Some function_close_rel \<Rightarrow>
                    let function_end = function_close_rel + 11;
                        raw_function = take function_end remaining in
                    (case parse_single_tagged_tool_call sj raw_function of
                       None \<Rightarrow> None
                     | Some parsed \<Rightarrow>
                         let call = (case parsed of
                               Some (name, input) \<Rightarrow> [TaggedToolCall name input]
                             | None \<Rightarrow> push_text_chunk (strip_tool_call_wrappers raw_function))
                         in map_option (add_chunks (pre @ call))
                              (normalise_loop sj
                                 (skip_tool_call_closers (drop function_end remaining)))))))"
  by pat_completeness auto
termination
proof (relation "measure (\<lambda>(sj, s). length s)", goal_cases)
  case (3 sj s hs pre remaining close_rel content call)
  then show ?case using find_str_bound [of "''</tool_call>''" "drop hs s" close_rel] by simp
next
  case (2 sj s fs pre remaining rel fe raw parsed call)
  then show ?case
    using find_str_bound [of "''</function>''" "drop fs s" rel]
      skip_tool_call_closers_length [of "drop (rel + 11) (drop fs s)"]
    by simp
qed simp

declare normalise_loop.simps [simp del]

definition normalise ::
  "serde \<Rightarrow> string \<Rightarrow> stream_text_normaliser
     \<Rightarrow> (normalised_chunk list \<times> stream_text_normaliser) option" where
  "normalise sj text n =
     (if text = [] then Some ([], n)
      else map_option (\<lambda>(chunks, p). (chunks, n\<lparr>pending := p\<rparr>))
             (normalise_loop sj (pending n @ text)))"

definition normaliser_finish ::
  "stream_text_normaliser \<Rightarrow> normalised_chunk list \<times> stream_text_normaliser" where
  "normaliser_finish n =
     (push_text_chunk (strip_tool_call_wrappers (strip_incomplete_tool_tag_suffix (pending n))),
      n\<lparr>pending := []\<rparr>)"

section \<open>Lemmas: searching through markup\<close>

lemma find_str_skip:
  "pat \<noteq> [] \<Longrightarrow> hd pat \<notin> set a \<Longrightarrow>
     find_str pat (a @ b) = map_option ((+) (length a)) (find_str pat b)"
proof (induction a)
  case Nil
  then show ?case by (cases "find_str pat b") auto
next
  case (Cons c cs)
  then have "\<not> prefix pat (c # cs @ b)" by (cases pat) auto
  with Cons show ?case by (cases "find_str pat b") auto
qed

lemma find_str_hit: "prefix pat b \<Longrightarrow> find_str pat b = Some 0"
  by (cases b) auto

lemma find_str_extend: "find_str pat a = Some i \<Longrightarrow> find_str pat (a @ b) = Some i"
proof (induction a arbitrary: i)
  case Nil
  then show ?case by (cases b) (auto split: if_splits)
next
  case (Cons c cs)
  show ?case
  proof (cases "prefix pat (c # cs)")
    case True
    then have "prefix pat (c # cs @ b)" by (metis append_Cons prefix_append)
    with Cons.prems True show ?thesis by auto
  next
    case False
    with Cons.prems obtain j where j: "find_str pat cs = Some j" "i = Suc j" by auto
    have "\<not> prefix pat (c # cs @ b)"
    proof
      assume "prefix pat (c # cs @ b)"
      moreover have "length pat \<le> length (c # cs)"
        using find_str_bound [OF j(1)] by simp
      ultimately show False using False
        by (metis append_Cons prefix_def prefix_length_prefix)
    qed
    with Cons.IH [OF j(1)] j(2) show ?thesis by simp
  qed
qed

lemma hermes_none: "find_str ''<tool_call>'' s = None \<Longrightarrow> hermes_first s = None"
  by (simp add: hermes_first_def find_hermes_json_tool_call_def find_hermes_from.simps
      split: option.splits)

lemma strip_wrappers_plain: "CHR ''<'' \<notin> set s \<Longrightarrow> strip_tool_call_wrappers s = s"
  by (simp add: strip_tool_call_wrappers_def replace_str_absent)

lemma normalise_loop_plain:
  "CHR ''<'' \<notin> set s \<Longrightarrow> normalise_loop sj s = Some (push_text_chunk s, [])"
  by (subst normalise_loop.simps)
     (simp add: hermes_none find_str_absent split_incomplete_tool_tag_suffix_def
        rfind_char_None [THEN iffD2] strip_wrappers_plain)

section \<open>Feeding a stream\<close>

text \<open>The pieces of a text block in the order they arrive; a panic stops the stream.\<close>

fun normalise_all ::
  "serde \<Rightarrow> string list \<Rightarrow> stream_text_normaliser
     \<Rightarrow> (normalised_chunk list \<times> stream_text_normaliser) option" where
  "normalise_all sj [] n = Some ([], n)"
| "normalise_all sj (t # ts) n =
     (case normalise sj t n of
        None \<Rightarrow> None
      | Some (cs, n1) \<Rightarrow>
          (case normalise_all sj ts n1 of
             None \<Rightarrow> None
           | Some (ds, n2) \<Rightarrow> Some (cs @ ds, n2)))"

lemma normalise_all_blank: "concat ts = [] \<Longrightarrow> normalise_all sj ts n = Some ([], n)"
  by (induction ts) (auto simp: normalise_def)

text \<open>
  Text without a '<' comes out unchanged, piece by piece, whatever the
  pieces are; nothing is held back and the final flush adds nothing.
\<close>

theorem plain_text_passes_through:
  assumes "CHR ''<'' \<notin> set (concat ts)"
  shows "normalise_all sj ts normaliser_new = Some (concat (map push_text_chunk ts), normaliser_new)
    \<and> fst (normaliser_finish normaliser_new) = []"
proof -
  have "normalise_all sj ts normaliser_new = Some (concat (map push_text_chunk ts), normaliser_new)"
    using assms
  proof (induction ts)
    case (Cons t ts)
    then show ?case
      by (auto simp: normalise_def normaliser_new_def normalise_loop_plain push_text_chunk_def)
  qed simp
  moreover have "fst (normaliser_finish normaliser_new) = []"
    by (simp add: normaliser_finish_def normaliser_new_def strip_incomplete_tool_tag_suffix_def
        strip_wrappers_plain push_text_chunk_def)
  ultimately show ?thesis by simp
qed

theorem plain_text_passes_through_witness:
  "CHR ''<'' \<notin> set (concat [''hel'', ''lo''])
   \<and> normalise_all \<lparr>from_str = (\<lambda>_. None), to_string = (\<lambda>_. None), parse_f64 = (\<lambda>_. None)\<rparr>
       [''hel'', ''lo''] normaliser_new = Some ([Text ''hel'', Text ''lo''], normaliser_new)"
  using plain_text_passes_through [of "[''hel'', ''lo'']"] by (simp add: push_text_chunk_def)

section \<open>Tagged tool calls under any chunking\<close>

definition tagged_parameter_text :: "string \<times> string \<Rightarrow> string" where
  "tagged_parameter_text p = ''<parameter='' @ fst p @ ''>'' @ snd p @ ''</parameter>''"

definition tagged_call_text :: "string \<Rightarrow> (string \<times> string) list \<Rightarrow> string" where
  "tagged_call_text name ps =
     ''<function='' @ name @ ''>'' @ concat (map tagged_parameter_text ps) @ ''</function>''"

definition tag_word :: "string \<Rightarrow> bool" where
  "tag_word s \<longleftrightarrow> s \<noteq> [] \<and> CHR ''<'' \<notin> set s \<and> CHR ''>'' \<notin> set s \<and> unquote s = s"

definition call_ok :: "string \<Rightarrow> (string \<times> string) list \<Rightarrow> bool" where
  "call_ok name ps \<longleftrightarrow> tag_word name \<and> distinct (map fst ps)
     \<and> list_all (\<lambda>p. tag_word (fst p) \<and> CHR ''<'' \<notin> set (snd p)) ps"

lemma parameter_text_find_open:
  "find_str ''<parameter='' (v @ ''</parameter>'' @ r) \<noteq> Some i"
  if "CHR ''<'' \<notin> set v" and "i \<le> length v"
proof -
  have "find_str ''<parameter='' (''</parameter>'' @ r)
      = map_option ((+) 12) (find_str ''<parameter='' r)"
    by (cases "find_str ''<parameter='' r") simp_all
  with that show ?thesis
    by (cases "find_str ''<parameter='' r") (simp_all add: find_str_skip)
qed

lemma parameter_text_find_close:
  "CHR ''<'' \<notin> set v \<Longrightarrow> find_str ''</parameter>'' (v @ ''</parameter>'' @ r) = Some (length v)"
  by (simp add: find_str_skip)

lemma drop_len: "n = length a \<Longrightarrow> drop n (a @ b) = b"
  by simp

lemma parse_parameters_from_step:
  assumes "find_str ''<parameter='' (drop c body) = Some 0"
    and "find_str ''>'' (drop (c + 11) body) = Some kl"
    and "unquote (take kl (drop (c + 11) body)) = k" and "k \<noteq> []"
    and "find_str ''</parameter>'' (drop (c + 12 + kl) body) = Some vl"
    and "\<And>i. find_str ''<parameter='' (drop (c + 12 + kl) body) = Some i \<Longrightarrow> \<not> i < vl"
    and "take vl (drop (c + 12 + kl) body) = v"
  shows "parse_tagged_parameters_from sj body c input =
    parse_tagged_parameters_from sj body (c + 24 + kl + vl)
      (AList.update k (tagged_parameter_json_value sj v) input)"
proof -
  have shift: "c + 11 + kl + 1 = c + 12 + kl" by simp
  show ?thesis
    by (subst parse_tagged_parameters_from.simps, cases "find_str ''<parameter='' (drop (c + 12 + kl) body)")
       (use assms in \<open>simp_all add: Let_def shift max_def algebra_simps\<close>)
qed

lemma parse_parameters_step:
  assumes "tag_word k" and "CHR ''<'' \<notin> set v"
  shows "parse_tagged_parameters_from sj (pre @ tagged_parameter_text (k, v) @ r) (length pre) input
    = parse_tagged_parameters_from sj (pre @ tagged_parameter_text (k, v) @ r)
        (length (pre @ tagged_parameter_text (k, v)))
        (AList.update k (tagged_parameter_json_value sj v) input)"
proof -
  let ?body = "pre @ tagged_parameter_text (k, v) @ r"
  have body: "?body = pre @ ''<parameter='' @ k @ ''>'' @ v @ ''</parameter>'' @ r"
    by (simp add: tagged_parameter_text_def)
  have d0: "drop (length pre) ?body = ''<parameter='' @ k @ ''>'' @ v @ ''</parameter>'' @ r"
    unfolding body by (rule drop_len) simp
  have d1: "drop (length pre + 11) ?body = k @ ''>'' @ v @ ''</parameter>'' @ r"
    unfolding body using drop_len [of _ "pre @ ''<parameter=''"] by simp
  have d2: "drop (length pre + 12 + length k) ?body = v @ ''</parameter>'' @ r"
    unfolding body using drop_len [of "length pre + 12 + length k" "pre @ ''<parameter='' @ k @ ''>''"
      "v @ ''</parameter>'' @ r"] by simp
  have "parse_tagged_parameters_from sj ?body (length pre) input
    = parse_tagged_parameters_from sj ?body (length pre + 24 + length k + length v)
        (AList.update k (tagged_parameter_json_value sj v) input)"
  proof (rule parse_parameters_from_step)
    show "find_str ''<parameter='' (drop (length pre) ?body) = Some 0"
      unfolding d0 by (rule find_str_hit) simp
    show "find_str ''>'' (drop (length pre + 11) ?body) = Some (length k)"
      unfolding d1 using assms(1) by (simp add: find_str_skip tag_word_def)
    show "find_str ''</parameter>'' (drop (length pre + 12 + length k) ?body) = Some (length v)"
      unfolding d2 by (rule parameter_text_find_close [OF assms(2)])
    show "\<not> i < length v"
      if "find_str ''<parameter='' (drop (length pre + 12 + length k) ?body) = Some i" for i
      using that parameter_text_find_open [OF assms(2), of i r] unfolding d2 by linarith
    show "unquote (take (length k) (drop (length pre + 11) ?body)) = k"
      unfolding d1 using assms(1) by (simp add: tag_word_def)
    show "take (length v) (drop (length pre + 12 + length k) ?body) = v"
      unfolding d2 by simp
    show "k \<noteq> []" using assms(1) by (simp add: tag_word_def)
  qed
  moreover have "length (pre @ tagged_parameter_text (k, v)) = length pre + 24 + length k + length v"
    by (simp add: tagged_parameter_text_def)
  ultimately show ?thesis by (simp only:)
qed

lemma parse_parameters_from_text:
  assumes "list_all (\<lambda>p. tag_word (fst p) \<and> CHR ''<'' \<notin> set (snd p)) ps"
    and "distinct (map fst ps)" and "fst ` set input \<inter> fst ` set ps = {}"
  shows "parse_tagged_parameters_from sj (pre @ concat (map tagged_parameter_text ps)) (length pre) input
    = input @ map (\<lambda>p. (fst p, tagged_parameter_json_value sj (snd p))) ps"
  using assms
proof (induction ps arbitrary: pre input)
  case Nil
  then show ?case by (subst parse_tagged_parameters_from.simps) simp
next
  case (Cons p ps)
  obtain k v where p: "p = (k, v)" by fastforce
  let ?in = "AList.update k (tagged_parameter_json_value sj v) input"
  from Cons.prems p have "?in = input @ [(k, tagged_parameter_json_value sj v)]"
    by (intro update_snoc) auto
  with Cons.prems p
    Cons.IH [of "?in" "pre @ tagged_parameter_text (k, v)"]
    parse_parameters_step [of k v sj pre "concat (map tagged_parameter_text ps)" input]
  show ?case by auto
qed

lemma parse_parameters_text:
  "call_ok name ps \<Longrightarrow> parse_tagged_parameters sj (concat (map tagged_parameter_text ps))
     = map (\<lambda>p. (fst p, tagged_parameter_json_value sj (snd p))) ps"
  using parse_parameters_from_text [of ps "[]" sj "[]"]
  by (simp add: call_ok_def parse_tagged_parameters_def)

lemma params_no_close:
  "list_all (\<lambda>p. tag_word (fst p) \<and> CHR ''<'' \<notin> set (snd p)) ps \<Longrightarrow>
     find_str ''</function>'' (concat (map tagged_parameter_text ps) @ ''</function>'')
       = Some (length (concat (map tagged_parameter_text ps)))"
proof (induction ps)
  case (Cons p ps)
  then show ?case
    by (simp add: tagged_parameter_text_def find_str_skip tag_word_def)
qed simp

lemma params_no_hermes:
  "list_all (\<lambda>p. tag_word (fst p) \<and> CHR ''<'' \<notin> set (snd p)) ps \<Longrightarrow>
     find_str ''<tool_call>'' (concat (map tagged_parameter_text ps) @ ''</function>'') = None"
proof (induction ps)
  case (Cons p ps)
  then show ?case
    by (simp add: tagged_parameter_text_def find_str_skip tag_word_def)
qed simp

lemma call_text_close:
  "call_ok name ps \<Longrightarrow> find_str ''</function>'' (tagged_call_text name ps)
     = Some (length (tagged_call_text name ps) - 11)"
  using params_no_close [of ps]
  by (simp add: tagged_call_text_def call_ok_def tag_word_def find_str_skip)

lemma call_text_no_hermes:
  "call_ok name ps \<Longrightarrow> find_str ''<tool_call>'' (tagged_call_text name ps) = None"
  using params_no_hermes [of ps]
  by (simp add: tagged_call_text_def call_ok_def tag_word_def find_str_skip)

lemma call_text_body_start:
  "\<not> is_cont (hd (concat (map tagged_parameter_text ps) @ ''</function>''))"
  by (cases ps) (simp_all add: tagged_parameter_text_def is_cont_def byte_val_def)

lemma call_text_body:
  "str_range (tagged_call_text name ps) (11 + length name) (length (tagged_call_text name ps) - 11)
     = Some (concat (map tagged_parameter_text ps))"
proof -
  let ?b = "concat (map tagged_parameter_text ps)"
  let ?w = "tagged_call_text name ps"
  let ?h = "''<function='' @ name @ ''>''"
  have w: "?w = ?h @ ?b @ ''</function>''" by (simp add: tagged_call_text_def)
  have lh: "length ?h = 11 + length name" by simp
  have lw: "length ?w - 11 = length ?h + length ?b" unfolding w by simp
  have "?w ! (11 + length name) = hd (?b @ ''</function>'')"
    unfolding w lh [symmetric] nth_append_length_plus [where n = 0, simplified]
    by (simp add: hd_conv_nth)
  then have b1: "is_char_boundary ?w (11 + length name)"
    using call_text_body_start [of ps] by (simp add: is_char_boundary_def w)
  have "?w ! (length ?w - 11) = CHR ''<''"
    unfolding lw unfolding w by (simp add: nth_append)
  then have b2: "is_char_boundary ?w (length ?w - 11)"
    by (simp add: is_char_boundary_def is_cont_def byte_val_def w)
  have "take (length ?w - 11 - (11 + length name)) (drop (11 + length name) ?w) = ?b"
    unfolding lw unfolding w lh [symmetric] by simp
  with b1 b2 lw lh show ?thesis by (simp add: str_range_def)
qed

lemma parse_single_call_text:
  assumes "call_ok name ps"
  shows "parse_single_tagged_tool_call sj (tagged_call_text name ps) =
    Some (Some (name, JObject (map (\<lambda>p. (fst p, tagged_parameter_json_value sj (snd p))) ps)))"
proof -
  let ?w = "tagged_call_text name ps"
  let ?b = "concat (map tagged_parameter_text ps)"
  have d: "drop 10 ?w = name @ ''>'' @ ?b @ ''</function>''"
    by (simp add: tagged_call_text_def)
  have f: "find_str ''>'' (drop 10 ?w) = Some (length name)"
    unfolding d using assms by (simp add: find_str_skip call_ok_def tag_word_def)
  have t: "unquote (take (length name) (drop 10 ?w)) = name" and n: "name \<noteq> []"
    unfolding d using assms by (simp_all add: call_ok_def tag_word_def)
  have r: "str_range ?w (10 + length name + 1) (length ?w - 11) = Some ?b"
    using call_text_body [of name ps] by (simp add: add.commute)
  show ?thesis
  proof (cases ps)
    case Nil
    then have "parse_tagged_parameters sj ?b = []" and "trim ?b = []"
      using parse_parameters_text [OF assms, of sj] by auto
    with f t n r Nil show ?thesis
      by (simp add: parse_single_tagged_tool_call_def Let_def starts_with_def)
  next
    case (Cons p ps')
    with f t n r parse_parameters_text [OF assms, of sj] show ?thesis
      by (simp add: parse_single_tagged_tool_call_def Let_def)
  qed
qed

definition parsed_call :: "serde \<Rightarrow> string \<Rightarrow> (string \<times> string) list \<Rightarrow> normalised_chunk" where
  "parsed_call sj name ps =
     TaggedToolCall name (JObject (map (\<lambda>p. (fst p, tagged_parameter_json_value sj (snd p))) ps))"

lemma call_text_start: "find_str ''<function='' (tagged_call_text name ps) = Some 0"
  by (rule find_str_hit) (simp add: tagged_call_text_def)

lemma normalise_loop_call:
  assumes "call_ok name ps"
  shows "normalise_loop sj (tagged_call_text name ps) = Some ([parsed_call sj name ps], [])"
proof -
  let ?w = "tagged_call_text name ps"
  have len: "11 \<le> length ?w" by (simp add: tagged_call_text_def)
  have "normalise_loop sj [] = Some ([], [])"
    by (simp add: normalise_loop_plain push_text_chunk_def)
  moreover have "skip_tool_call_closers [] = []"
    by (subst skip_tool_call_closers.simps) (simp add: starts_with_def)
  ultimately show ?thesis
    using hermes_none [OF call_text_no_hermes [OF assms]] call_text_start [of name ps]
      call_text_close [OF assms] parse_single_call_text [OF assms, of sj] len
    by (subst normalise_loop.simps)
       (simp add: Let_def push_text_chunk_def strip_wrappers_plain add_chunks_def parsed_call_def)
qed

lemma partial_open_tag:
  assumes "n \<in> {1..<10}"
  shows "normalise_loop sj (take n ''<function='') = Some ([], take n ''<function='')"
proof -
  have "n = 1 \<or> n = 2 \<or> n = 3 \<or> n = 4 \<or> n = 5 \<or> n = 6 \<or> n = 7 \<or> n = 8 \<or> n = 9"
    using assms by auto
  moreover have "find_str ''<tool_call>'' (take n ''<function='') = None"
    using calculation by auto
  ultimately show ?thesis
    by (subst normalise_loop.simps, unfold hermes_none)
       (auto simp: split_incomplete_tool_tag_suffix_def looks_like_partial_tool_tag_def
         push_text_chunk_def strip_wrappers_plain str_defs)
qed

lemma normalise_loop_partial_call:
  assumes ok: "call_ok name ps" and w: "a @ b = tagged_call_text name ps"
    and "a \<noteq> []" and "b \<noteq> []"
  shows "normalise_loop sj a = Some ([], a)"
proof (cases "length a < 10")
  case True
  have "a = take (length a) (''<function='' @ name @ ''>'' @ concat (map tagged_parameter_text ps)
      @ ''</function>'')"
    using w by (metis append_eq_conv_conj tagged_call_text_def)
  then have "a = take (length a) ''<function=''"
    using True by (subst (asm) take_append) simp
  moreover have "length a \<in> {1..<10}" using True \<open>a \<noteq> []\<close> by (cases a) auto
  ultimately show ?thesis by (metis partial_open_tag)
next
  case False
  have "prefix ''<function='' (a @ b)" unfolding w by (simp add: tagged_call_text_def)
  with False have "prefix ''<function='' a"
    using prefix_length_prefix [of "''<function=''" "a @ b" a] by auto
  then have start: "find_str ''<function='' a = Some 0" by (rule find_str_hit)
  have herm: "find_str ''<tool_call>'' a = None"
    using call_text_no_hermes [OF ok] w find_str_extend [of "''<tool_call>''" a _ b]
    by (cases "find_str ''<tool_call>'' a") auto
  have close: "find_str ''</function>'' a = None"
  proof (cases "find_str ''</function>'' a")
    case (Some i)
    then have "find_str ''</function>'' (a @ b) = Some i" by (rule find_str_extend)
    then have "i = length (a @ b) - 11" using call_text_close [OF ok] w by simp
    moreover have "i + 11 \<le> length a" using find_str_bound [OF Some] by simp
    ultimately show ?thesis using \<open>b \<noteq> []\<close> by (cases b) auto
  qed
  show ?thesis
    by (subst normalise_loop.simps)
       (simp add: hermes_none [OF herm] start close push_text_chunk_def strip_wrappers_plain)
qed

lemma normalise_all_call:
  assumes "call_ok name ps" and "p @ concat ts = tagged_call_text name ps"
    and "p \<noteq> tagged_call_text name ps"
  shows "normalise_all sj ts \<lparr>pending = p\<rparr> = Some ([parsed_call sj name ps], \<lparr>pending = []\<rparr>)"
  using assms(2,3)
proof (induction ts arbitrary: p)
  case (Cons t ts)
  show ?case
  proof (cases "t = []")
    case True
    with Cons.IH [of p] Cons.prems show ?thesis by (simp add: normalise_def)
  next
    case False
    show ?thesis
    proof (cases "p @ t = tagged_call_text name ps")
      case True
      with Cons.prems have "concat ts = []" by (metis append.assoc append_self_conv concat.simps(2))
      with True False show ?thesis
        by (simp add: normalise_def normalise_loop_call [OF assms(1)] normalise_all_blank)
    next
      case no: False
      with Cons.prems have "normalise_loop sj (p @ t) = Some ([], p @ t)"
        using False by (intro normalise_loop_partial_call [OF assms(1), of _ "concat ts"])
          (auto simp del: concat_eq_Nil_conv)
      with Cons.IH [of "p @ t"] Cons.prems no False show ?thesis by (simp add: normalise_def)
    qed
  qed
qed simp

text \<open>
  A tagged tool call with a proper name, distinct proper parameter keys
  and parameter values free of '<' is recognised as exactly that call, with every parameter in order
  and its value converted, however the stream cuts its text into pieces; no text leaks out, nothing
  stays pending and the normaliser does not panic.
\<close>

theorem tagged_call_any_chunking:
  assumes "call_ok name ps" and "concat ts = tagged_call_text name ps"
  shows "normalise_all sj ts normaliser_new =
    Some ([TaggedToolCall name
             (JObject (map (\<lambda>p. (fst p, tagged_parameter_json_value sj (snd p))) ps))],
          normaliser_new)"
  using normalise_all_call [OF assms(1), of "[]" ts sj] assms(2)
  by (simp add: normaliser_new_def parsed_call_def tagged_call_text_def)

text \<open>A call streamed in four pieces, cut inside its opening tag and inside its closing tag.\<close>

theorem tagged_call_any_chunking_witness:
  "normalise_all \<lparr>from_str = (\<lambda>_. None), to_string = (\<lambda>_. None), parse_f64 = (\<lambda>_. None)\<rparr>
     [''<fun'', ''ction=ls><parameter=path>src'', ''</parameter></func'', ''tion>''] normaliser_new
   = Some ([TaggedToolCall ''ls'' (JObject [(''path'', JString ''src'')])], normaliser_new)"
proof -
  let ?sj = "\<lparr>from_str = (\<lambda>_. None), to_string = (\<lambda>_. None), parse_f64 = (\<lambda>_. None)\<rparr>"
  have ok: "call_ok ''ls'' [(''path'', ''src'')]"
    by (simp add: call_ok_def tag_word_def unquote_def str_defs)
  have v: "tagged_parameter_json_value ?sj ''src'' = JString ''src''"
    by (simp add: tagged_parameter_json_value_def normalize_tagged_parameter_value_def Let_def
        parse_u64_def parse_i64_def parse_digits_def is_digit_def str_defs)
  show ?thesis
    using tagged_call_any_chunking [OF ok, of
        "[''<fun'', ''ction=ls><parameter=path>src'', ''</parameter></func'', ''tion>'']" ?sj] v
    by (simp add: tagged_call_text_def tagged_parameter_text_def)
qed

section \<open>Two defects\<close>

text \<open>
  A model text in which the closing tag follows the function name
  directly, with no '>' after the name, makes the normaliser slice beyond the end and panic, whatever
  the JSON library does.
\<close>

theorem unclosed_function_tag_panics:
  "normalise sj ''<function=ls</function>'' normaliser_new = None"
  by (simp add: normalise_def normaliser_new_def normalise_loop.simps hermes_first_def
      find_hermes_json_tool_call_def find_hermes_from.simps parse_single_tagged_tool_call_def
      str_range_def unquote_def is_char_boundary_def str_defs)

lemma hermes_open_then_blank:
  "normalise sj (''<tool_call>'' @ [newline]) normaliser_new = Some ([Text [newline]], normaliser_new)"
  by (simp add: normalise_def normaliser_new_def normalise_loop.simps hermes_first_def
      find_hermes_json_tool_call_def find_hermes_from.simps split_incomplete_tool_tag_suffix_def
      looks_like_partial_tool_tag_def push_text_chunk_def strip_tool_call_wrappers_def str_defs)

lemma closer_only_pending:
  assumes "CHR ''<'' \<notin> set c"
  shows "normalise_loop sj (c @ ''</tool_call>'') = Some (push_text_chunk c, ''</tool_call>'')"
proof -
  have r: "rfind_char CHR ''<'' (c @ ''</tool_call>'') = Some (length c)"
    using assms by (induction c) auto
  have "find_str ''<tool_call>'' (c @ ''</tool_call>'') = None"
    and "find_str ''<function='' (c @ ''</tool_call>'') = None"
    using assms by (simp_all add: find_str_skip)
  then show ?thesis
    using assms r by (subst normalise_loop.simps)
      (simp add: hermes_none split_incomplete_tool_tag_suffix_def strip_wrappers_plain
        looks_like_partial_tool_tag_def str_defs)
qed

lemma normalise_loop_json_call:
  assumes "hermes_first w = Some 0" and "find_str ''</tool_call>'' w = Some cl"
    and "parse_hermes_json_tool_call sj (trim (take (cl - 11) (drop 11 w))) = Some (name, input)"
    and "drop (cl + 12) w = []"
  shows "normalise_loop sj w = Some ([TaggedToolCall name input], [])"
  using assms
  by (subst normalise_loop.simps)
     (simp add: normalise_loop_plain push_text_chunk_def strip_wrappers_plain add_chunks_def)

text \<open>
  A JSON tool call that the normaliser recognises when its text arrives
  in one piece is lost when the piece ends between the opening tag's line and the JSON: the JSON comes
  out as plain text instead.
\<close>

theorem json_call_lost_when_split:
  assumes "CHR ''<'' \<notin> set (tl c)" and "hd c = CHR ''{''" and "c \<noteq> []"
    and "parse_hermes_json_tool_call sj (trim (newline # c)) = Some (name, input)"
  shows "normalise_all sj [''<tool_call>'' @ [newline] @ c @ ''</tool_call>''] normaliser_new
      = Some ([TaggedToolCall name input], normaliser_new)
    \<and> normalise_all sj [''<tool_call>'' @ [newline], c @ ''</tool_call>''] normaliser_new
      = Some ([Text [newline], Text c], \<lparr>pending = ''</tool_call>''\<rparr>)"
proof -
  obtain r where c: "c = CHR ''{'' # r" using assms(2,3) by (cases c) auto
  with assms(1) have no: "CHR ''<'' \<notin> set c" by simp
  let ?w = "''<tool_call>'' @ [newline] @ c @ ''</tool_call>''"
  have "trim_start (newline # c @ ''</tool_call>'') = c @ ''</tool_call>''"
  proof -
    have "is_ws [newline]" and "\<not> is_cont CHR ''{''"
      by (simp_all add: is_ws_def is_ws_vals_def newline_def is_cont_def byte_val_def)
    moreover have "\<not> is_ws (CHR ''{'' # g)" for g
      by (rule not_ws_printable) (simp_all add: byte_val_def)
    ultimately show ?thesis unfolding c by (simp add: trim_start_def)
  qed
  then have "find_hermes_json_tool_call ?w = Some 0"
    by (simp add: find_hermes_json_tool_call_def find_hermes_from.simps starts_with_def c)
  moreover have "find_str ''<function='' ?w = None"
    using no by (simp add: find_str_skip newline_def)
  ultimately have h: "hermes_first ?w = Some 0" by (simp add: hermes_first_def)
  have cl: "find_str ''</tool_call>'' ?w = Some (12 + length c)"
    using no by (simp add: find_str_skip newline_def)
  have "normalise_loop sj ?w = Some ([TaggedToolCall name input], [])"
    by (rule normalise_loop_json_call [OF h cl]) (simp_all add: assms(4))
  moreover have "normalise sj (c @ ''</tool_call>'') normaliser_new
      = Some ([Text c], \<lparr>pending = ''</tool_call>''\<rparr>)"
    using closer_only_pending [OF no, of sj] assms(3)
    by (simp add: normalise_def normaliser_new_def push_text_chunk_def)
  ultimately show ?thesis
    using hermes_open_then_blank [of sj] by (simp add: normalise_def normaliser_new_def)
qed

text \<open>A library that reads the one document \<open>{1}\<close> as a call of \<open>ls\<close>.\<close>

theorem json_call_lost_when_split_witness:
  "\<exists>sj. normalise_all sj [''<tool_call>'' @ [newline] @ ''{1}'' @ ''</tool_call>''] normaliser_new
      = Some ([TaggedToolCall ''ls'' (JObject [])], normaliser_new)
    \<and> normalise_all sj [''<tool_call>'' @ [newline], ''{1}'' @ ''</tool_call>''] normaliser_new
      = Some ([Text [newline], Text ''{1}''], \<lparr>pending = ''</tool_call>''\<rparr>)"
proof -
  let ?sj = "\<lparr>from_str = (\<lambda>s. if s = ''{1}'' then Some (JObject [(''name'', JString ''ls'')])
      else None), to_string = (\<lambda>_. None), parse_f64 = (\<lambda>_. None)\<rparr>"
  have "parse_hermes_json_tool_call ?sj (trim (newline # ''{1}'')) = Some (''ls'', JObject [])"
    by (simp add: parse_hermes_json_tool_call_def str_defs)
  from json_call_lost_when_split [OF _ _ _ this] show ?thesis by (intro exI [of _ ?sj]) simp
qed

end
