(* ===== verification/Ingress_Data.thy ===== *)
theory Ingress_Data
  imports Text_Normaliser
begin

text \<open>
  The data of the protocol ingress: the messages of the two stream protocols
  (\<open>src/api/stream/provider.rs\<close>, \<open>src/api/stream/chat_compat.rs\<close>) and the per-turn state the
  normalizer keeps for them (\<open>src/runtime/json_handoff/protocol_ingress.rs\<close>). The decoders are
  generated by \<open>derive(Deserialize)\<close> and are parameters of the operations that call them.
\<close>

section \<open>The provider protocol\<close>

record provider_message_start_data =
  pms_id :: string
  pms_message_type :: "string option"
  pms_role :: string
  pms_model :: string
  pms_content :: "json list option"
  pms_stop_reason :: "string option"
  pms_stop_sequence :: "string option"
  pms_usage :: "api_usage option"
  pms_metadata :: "stream_chunk_metadata option"

record provider_message_delta =
  pmd_stop_reason :: "string option"
  pmd_stop_sequence :: "string option"
  pmd_role :: "string option"
  pmd_refusal :: "string option"
  pmd_metadata :: "stream_chunk_metadata option"

record provider_api_stream_error =
  pse_error_type :: string
  pse_message :: string

record provider_delta =
  pd_delta_type :: "string option"
  pd_text :: "string option"
  pd_partial_json :: "string option"
  pd_thinking :: "string option"
  pd_signature :: "string option"
  pd_choice_index :: "nat option"

datatype provider_stream_item =
    MessageStart provider_message_start_data
  | ContentBlockStart nat json
  | ContentBlockDelta nat provider_delta
  | ContentBlockStop nat
  | MessageDelta provider_message_delta "api_usage option"
  | MessageStop
  | Ping
  | Error_item provider_api_stream_error
  | Unknown

section \<open>The chat-compatible protocol\<close>

datatype chat_compat_function_arguments = ArgString string | ArgJson json

record chat_compat_function_delta =
  cf_name :: "string option"
  cf_arguments :: "chat_compat_function_arguments option"

record chat_compat_tool_call_delta =
  ct_index :: "nat option"
  ct_id :: "string option"
  ct_call_type :: "string option"
  ct_function :: "chat_compat_function_delta option"

record chat_compat_delta =
  cd_role :: "string option"
  cd_content :: "string option"
  cd_reasoning_content :: "string option"
  cd_refusal :: "string option"
  cd_tool_calls :: "chat_compat_tool_call_delta list option"

record chat_compat_choice =
  cc_index :: "nat option"
  cc_delta :: chat_compat_delta
  cc_finish_reason :: "string option"
  cc_logprobs :: "json option"

record chat_compat_chunk =
  ck_id :: "string option"
  ck_object :: "string option"
  ck_created :: "nat option"
  ck_model :: "string option"
  ck_system_fingerprint :: "string option"
  ck_service_tier :: "string option"
  ck_prompt_progress :: "stream_prompt_progress option"
  ck_timings :: "stream_timings option"
  ck_choices :: "chat_compat_choice list"
  ck_usage :: "api_usage option"

datatype chat_compat_payload = Done | Chunk chat_compat_chunk

datatype ingress_payload =
    Provider provider_stream_item
  | ChatCompat chat_compat_payload

section \<open>Content blocks of the ingress\<close>

datatype provider_content_block_compat =
    TextCompat string "json list"
  | ToolUseCompat string string json "json option"
  | ToolResultCompat string json bool
  | ThinkingCompat string "string option"
  | ThinkingDataCompat string
  | ServerToolUseCompat string string json
  | WebSearchToolResultCompat string json

datatype provider_content_block =
    PText string
  | PToolUse string string json
  | PToolResult
  | PThinking string
  | PThinkingData string
  | PServerToolUse string string json
  | PWebSearchToolResult

datatype provider_block_delta_t = TextDelta string | ToolArguments string

fun content_block_of_compat :: "provider_content_block_compat \<Rightarrow> provider_content_block" where
  "content_block_of_compat (TextCompat text citations) = PText text"
| "content_block_of_compat (ToolUseCompat i name input metadata) = PToolUse i name input"
| "content_block_of_compat (ToolResultCompat tool_use_id content is_error) = PToolResult"
| "content_block_of_compat (ThinkingCompat thinking signature) = PThinking thinking"
| "content_block_of_compat (ThinkingDataCompat data) = PThinkingData data"
| "content_block_of_compat (ServerToolUseCompat i name input) = PServerToolUse i name input"
| "content_block_of_compat (WebSearchToolResultCompat tool_use_id content) = PWebSearchToolResult"

section \<open>The state of a turn\<close>

datatype tool_call_lifecycle = Discovered | Opened | Closed

record pending_chat_compat_tool_state =
  pc_id :: string
  pc_name :: string
  pc_pending_arguments :: string
  pc_materialized_arguments :: "json option"
  pc_lifecycle :: tool_call_lifecycle

definition pending_chat_compat_default :: pending_chat_compat_tool_state where
  "pending_chat_compat_default =
     \<lparr>pc_id = [], pc_name = [], pc_pending_arguments = [], pc_materialized_arguments = None,
      pc_lifecycle = Discovered\<rparr>"

record protocol_ingress_state =
  pi_turn_started :: bool
  pi_open_blocks :: "nat list"
  pi_turn_tokens :: pulse_tokens
  pi_chat_compat_message_started :: bool
  pi_tagged_text_normalisers :: "(nat \<times> stream_text_normaliser) list"
  pi_next_tagged_tool_block_index :: nat
  pi_chat_compat_tool_lifecycles :: "(nat \<times> pending_chat_compat_tool_state) list"
  pi_has_native_tool_calls :: bool
  pi_chat_compat_stream_terminated :: bool

definition TAGGED_TOOL_BLOCK_START_INDEX :: nat where
  "TAGGED_TOOL_BLOCK_START_INDEX = 1"

definition protocol_ingress_default :: protocol_ingress_state where
  "protocol_ingress_default =
     \<lparr>pi_turn_started = False, pi_open_blocks = [], pi_turn_tokens = pulse_tokens_default,
      pi_chat_compat_message_started = False, pi_tagged_text_normalisers = [],
      pi_next_tagged_tool_block_index = TAGGED_TOOL_BLOCK_START_INDEX,
      pi_chat_compat_tool_lifecycles = [], pi_has_native_tool_calls = False,
      pi_chat_compat_stream_terminated = False\<rparr>"

lemma protocol_ingress_default_simps [simp]:
  "pi_turn_started protocol_ingress_default = False"
  "pi_open_blocks protocol_ingress_default = []"
  "pi_turn_tokens protocol_ingress_default = pulse_tokens_default"
  "pi_chat_compat_message_started protocol_ingress_default = False"
  "pi_tagged_text_normalisers protocol_ingress_default = []"
  "pi_next_tagged_tool_block_index protocol_ingress_default = TAGGED_TOOL_BLOCK_START_INDEX"
  "pi_chat_compat_tool_lifecycles protocol_ingress_default = []"
  "pi_has_native_tool_calls protocol_ingress_default = False"
  "pi_chat_compat_stream_terminated protocol_ingress_default = False"
  by (simp_all add: protocol_ingress_default_def)

end
