(* ===== verification/Normalizer.thy ===== *)
theory Normalizer
  imports Evidence Delta_Accumulator Ingress_Data
begin

text \<open>
  The runtime envelope normalizer (\<open>src/runtime/json_handoff.rs\<close> and
  \<open>src/runtime/json_handoff/tool_calls.rs\<close>): every observable event of a turn becomes one or more
  numbered envelopes.

  Each operation is an emitter on the record \<open>normalizer\<close>. The parameter record \<open>runtime_env\<close> holds
  what the code takes from outside: the clocks, the RFC 3339 formatter of \<open>chrono\<close> and the JSON
  library. Two fields of the state are the model's own: \<open>nz_reads\<close> counts the clock readings, so that
  the \<open>n\<close>-th call of \<open>now()\<close> has a value of its own, and \<open>nz_peer_log\<close> collects what the accumulator
  hands to the peer channel. The \<open>Arc\<close> around the accumulator is dropped: no other owner writes to
  it during an operation.
\<close>

section \<open>State\<close>

record runtime_env =
  utc_now :: "nat \<Rightarrow> int" \<comment> \<open>nanoseconds since the epoch at the n-th reading\<close>
  instant_now :: "nat \<Rightarrow> nat" \<comment> \<open>the monotonic clock\<close>
  to_rfc3339 :: "int \<Rightarrow> string"
  json_lib :: serde

record pending_tool_call =
  ptc_runtime_id :: string
  ptc_name :: string
  ptc_arguments :: json
  ptc_raw_arguments :: string
  ptc_start_frame_id :: string
  ptc_started_at :: int

record pending_tool_call_context =
  pcx_name :: string
  pcx_start_frame_id :: string

record normalizer =
  nz_task_id :: string
  nz_pulse :: nat
  nz_next_seq :: nat
  nz_pending_tool_calls :: "(string \<times> pending_tool_call) list"
  nz_pending_tool_call_contexts :: "(string \<times> pending_tool_call_context) list"
  nz_streaming_tool_call_blocks :: "(nat \<times> string) list"
  nz_block_sources :: "(nat \<times> envelope_source) list"
  nz_turn_changed_files :: "string list"
  nz_tool_id_counter :: nat
  nz_open_final_text_block :: "nat option"
  nz_next_synthetic_block_index :: nat
  nz_delta_accumulator :: "accumulator option"
  nz_protocol_ingress :: protocol_ingress_state
  nz_reads :: nat
  nz_peer_log :: "peer_delta list"

type_synonym handoff = "(normalizer, runtime_envelope) emitter"

definition SYNTHETIC_FINAL_TEXT_BLOCK_START :: nat where
  "SYNTHETIC_FINAL_TEXT_BLOCK_START = 1000000"

definition new_inner :: "string \<Rightarrow> accumulator option \<Rightarrow> normalizer" where
  "new_inner task_id acc =
     \<lparr>nz_task_id = task_id, nz_pulse = 0, nz_next_seq = 1, nz_pending_tool_calls = [],
      nz_pending_tool_call_contexts = [], nz_streaming_tool_call_blocks = [],
      nz_block_sources = [], nz_turn_changed_files = [], nz_tool_id_counter = 0,
      nz_open_final_text_block = None,
      nz_next_synthetic_block_index = SYNTHETIC_FINAL_TEXT_BLOCK_START,
      nz_delta_accumulator = acc, nz_protocol_ingress = protocol_ingress_default,
      nz_reads = 0, nz_peer_log = []\<rparr>"

definition normalizer_new :: "string \<Rightarrow> normalizer" where
  "normalizer_new task_id = new_inner task_id None"

definition new_with_delta_accumulator :: "string \<Rightarrow> accumulator \<Rightarrow> normalizer" where
  "new_with_delta_accumulator task_id acc = new_inner task_id (Some acc)"

section \<open>Clock readings\<close>

definition tick :: "normalizer \<Rightarrow> normalizer" where
  "tick s = s\<lparr>nz_reads := Suc (nz_reads s)\<rparr>"

definition timestamp_string :: "'z runtime_env_scheme \<Rightarrow> int \<Rightarrow> string" where
  "timestamp_string E t = to_rfc3339 E t"

section \<open>Envelopes\<close>

fun source_for_stream_block :: "stream_block \<Rightarrow> envelope_source" where
  "source_for_stream_block (ToolResult i out err) = Runtime"
| "source_for_stream_block (Thinking content collapsed) = Model"
| "source_for_stream_block (ToolCall i name input status) = Model"
| "source_for_stream_block (FinalText content) = Model"

fun source_for_signal :: "runtime_signal \<Rightarrow> envelope_source" where
  "source_for_signal (PulseStart input) = UserRequest"
| "source_for_signal (ApprovalResolved capability scope approved) = UserRequest"
| "source_for_signal (TranscriptLine line) = Runtime"
| "source_for_signal (TranscriptBlockStart index block) = source_for_stream_block block"
| "source_for_signal (TranscriptBlockComplete index) = Model"
| "source_for_signal (ToolCallStarted i name arguments status started_at) = Model"
| "source_for_signal (ToolCallArgumentsDelta i name delta status arguments invalid) = Model"
| "source_for_signal (ServerMetadata metadata) = Model"
| "source_for_signal (UsageUpdated usage) = Model"
| "source_for_signal (TranscriptBlockDelta index delta) = Runtime"
| "source_for_signal (ToolCallStatusUpdated i status) = Runtime"
| "source_for_signal (TranscriptBlockPhaseUpdated index phase streaming) = Runtime"
| "source_for_signal (ToolCallCompleted i name status started completed duration out) = Runtime"
| "source_for_signal (ToolCallFailed i name status started completed duration out) = Runtime"
| "source_for_signal (ApprovalRequest capability scope tool_name) = Runtime"
| "source_for_signal (ValidationResult passed outputs) = Runtime"
| "source_for_signal (PulseEnd status usage changed_files) = Runtime"
| "source_for_signal (Error_signal code message recoverable) = Runtime"
| "source_for_signal (MaxTurnsReached max_turns) = Runtime"

text \<open>The frame id is \<open>evt:{task}:{pulse}:{seq}\<close>.\<close>

definition frame_id :: "string \<Rightarrow> nat \<Rightarrow> nat \<Rightarrow> string" where
  "frame_id task pulse seq = ''evt:'' @ task @ '':'' @ nat_dec pulse @ '':'' @ nat_dec seq"

definition next_envelope_with_source ::
  "'z runtime_env_scheme \<Rightarrow> runtime_signal \<Rightarrow> string option \<Rightarrow> string option
     \<Rightarrow> envelope_source option \<Rightarrow> normalizer \<Rightarrow> runtime_envelope \<times> normalizer" where
  "next_envelope_with_source E signal req parent source s =
     (let seq = nz_next_seq s in
      (\<lparr>env_version = 1, env_task_id = nz_task_id s, env_pulse = nz_pulse s, env_seq = seq,
        env_frame_id = frame_id (nz_task_id s) (nz_pulse s) seq,
        env_emitted_at = timestamp_string E (utc_now E (nz_reads s)),
        env_source = (case source of Some src \<Rightarrow> src | None \<Rightarrow> source_for_signal signal),
        env_request_id = req, env_parent_frame_id = parent, env_signal = signal\<rparr>,
       (tick s)\<lparr>nz_next_seq := sat_add seq 1\<rparr>))"

definition next_envelope_with_context ::
  "'z runtime_env_scheme \<Rightarrow> runtime_signal \<Rightarrow> string option \<Rightarrow> string option
     \<Rightarrow> normalizer \<Rightarrow> runtime_envelope \<times> normalizer" where
  "next_envelope_with_context E signal req parent = next_envelope_with_source E signal req parent None"

definition next_envelope ::
  "'z runtime_env_scheme \<Rightarrow> runtime_signal \<Rightarrow> normalizer \<Rightarrow> runtime_envelope \<times> normalizer" where
  "next_envelope E signal = next_envelope_with_context E signal None None"

text \<open>The same as emitters of one envelope.\<close>

definition emit_one :: "(normalizer \<Rightarrow> runtime_envelope \<times> normalizer) \<Rightarrow> handoff" where
  "emit_one f s = (let (e, s') = f s in ([e], s'))"

definition emit_from ::
  "'z runtime_env_scheme \<Rightarrow> runtime_signal \<Rightarrow> envelope_source option \<Rightarrow> handoff" where
  "emit_from E signal source = emit_one (next_envelope_with_source E signal None None source)"

definition emit_signal :: "'z runtime_env_scheme \<Rightarrow> runtime_signal \<Rightarrow> handoff" where
  "emit_signal E signal = emit_one (next_envelope E signal)"

definition clear_turn :: "normalizer \<Rightarrow> normalizer" where
  "clear_turn s =
     s\<lparr>nz_pending_tool_calls := [], nz_pending_tool_call_contexts := [],
       nz_streaming_tool_call_blocks := [], nz_block_sources := []\<rparr>"

definition reset_for_pulse :: "nat \<Rightarrow> normalizer \<Rightarrow> normalizer" where
  "reset_for_pulse pulse s =
     (clear_turn s)\<lparr>nz_pulse := pulse, nz_turn_changed_files := [],
       nz_open_final_text_block := None,
       nz_next_synthetic_block_index := SYNTHETIC_FINAL_TEXT_BLOCK_START,
       nz_protocol_ingress := protocol_ingress_default\<rparr>"

definition start_pulse :: "'z runtime_env_scheme \<Rightarrow> nat \<Rightarrow> string option \<Rightarrow> handoff" where
  "start_pulse E pulse input s = emit_signal E (PulseStart input) (reset_for_pulse pulse s)"

section \<open>Tool calls\<close>

definition serialize_tool_arguments :: "serde \<Rightarrow> json \<Rightarrow> string" where
  "serialize_tool_arguments sj arguments =
     (if arguments = JObject [] then []
      else (case to_string sj arguments of Some t \<Rightarrow> t | None \<Rightarrow> []))"

text \<open>\<open>format!("tx_{}_{entropy:04x}", count)\<close>; the counter is an \<open>AtomicU32\<close>, which wraps, while the
  returned previous value is incremented with saturation.\<close>

definition tool_call_id_of :: "nat \<Rightarrow> nat \<Rightarrow> string" where
  "tool_call_id_of count entropy = ''tx_'' @ nat_dec count @ ''_'' @ hex4 entropy"

definition tool_count :: "nat \<Rightarrow> nat" where
  "tool_count c = min (c + 1) (u32_modulus - 1)"

definition nanosecond :: "int \<Rightarrow> nat" where
  "nanosecond t = nat (t mod 1000000000)"

definition tool_entropy :: "int \<Rightarrow> nat \<Rightarrow> nat" where
  "tool_entropy now counter = take_bit 16 (Bit_Operations.xor (nanosecond now) counter)"

definition generate_tool_call_id ::
  "'z runtime_env_scheme \<Rightarrow> normalizer \<Rightarrow> string \<times> normalizer" where
  "generate_tool_call_id E s =
     (let now = utc_now E (nz_reads s);
          c = nz_tool_id_counter s
      in (tool_call_id_of (tool_count c) (tool_entropy now c),
          (tick s)\<lparr>nz_tool_id_counter := (c + 1) mod u32_modulus\<rparr>))"

text \<open>Calls into the accumulator: nothing happens without one.\<close>

definition with_accumulator ::
  "'z runtime_env_scheme \<Rightarrow> (nat \<Rightarrow> accumulator \<Rightarrow> 'r \<times> peer_delta list \<times> accumulator)
     \<Rightarrow> normalizer \<Rightarrow> 'r option \<times> normalizer" where
  "with_accumulator E f s =
     (case nz_delta_accumulator s of
        None \<Rightarrow> (None, s)
      | Some acc \<Rightarrow>
          (let (r, peers, acc') = f (instant_now E (nz_reads s)) acc
           in (Some r, (tick s)\<lparr>nz_delta_accumulator := Some acc',
                         nz_peer_log := nz_peer_log s @ peers\<rparr>)))"

definition start_tool_accumulator ::
  "'z runtime_env_scheme \<Rightarrow> string \<Rightarrow> string \<Rightarrow> normalizer \<Rightarrow> normalizer" where
  "start_tool_accumulator E tid name s =
     snd (with_accumulator E (\<lambda>now. start_tool now tid (nz_task_id s) name) s)"

definition seed_tool_accumulator ::
  "'z runtime_env_scheme \<Rightarrow> string \<Rightarrow> json \<Rightarrow> normalizer \<Rightarrow> normalizer" where
  "seed_tool_accumulator E tid arguments s =
     (case to_string (json_lib E) arguments of
        None \<Rightarrow> s
      | Some serialized \<Rightarrow>
          if serialized = ''{}'' then s
          else snd (with_accumulator E (\<lambda>now. accumulate now tid serialized) s))"

definition accumulate_tool_delta ::
  "'z runtime_env_scheme \<Rightarrow> string \<Rightarrow> string \<Rightarrow> normalizer \<Rightarrow> accumulation_error option \<times> normalizer" where
  "accumulate_tool_delta E tid delta s =
     (case with_accumulator E (\<lambda>now. accumulate now tid delta) s of
        (Some (Inl error), s') \<Rightarrow> (Some error, s')
      | (_, s') \<Rightarrow> (None, s'))"

definition finish_tool_accumulator ::
  "'z runtime_env_scheme \<Rightarrow> string \<Rightarrow> normalizer \<Rightarrow> normalizer" where
  "finish_tool_accumulator E tid s =
     snd (with_accumulator E (\<lambda>now acc. ((), finish now tid acc)) s)"

definition finish_pending_tool_accumulations ::
  "'z runtime_env_scheme \<Rightarrow> normalizer \<Rightarrow> normalizer" where
  "finish_pending_tool_accumulations E s =
     fold (\<lambda>p. finish_tool_accumulator E (ptc_runtime_id (snd p))) (nz_pending_tool_calls s) s"

text \<open>The common part of \<open>record_tool_call\<close> and \<open>normalize_grammar_tool_call\<close>; the key of the pending
  entry is the caller's id, or the runtime id where there is none.\<close>

definition register_tool_call ::
  "'z runtime_env_scheme \<Rightarrow> string option \<Rightarrow> string \<Rightarrow> json \<Rightarrow> normalizer
     \<Rightarrow> runtime_envelope \<times> normalizer" where
  "register_tool_call E source_id name arguments s =
     (let (runtime_id, s1) = generate_tool_call_id E s;
          started_at = utc_now E (nz_reads s1);
          (envelope, s2) = next_envelope E
             (ToolCallStarted runtime_id name arguments Pending (timestamp_string E started_at))
             (tick s1);
          key = (case source_id of Some k \<Rightarrow> k | None \<Rightarrow> runtime_id);
          call = \<lparr>ptc_runtime_id = runtime_id, ptc_name = name, ptc_arguments = arguments,
                  ptc_raw_arguments = serialize_tool_arguments (json_lib E) arguments,
                  ptc_start_frame_id = env_frame_id envelope, ptc_started_at = started_at\<rparr>;
          s3 = s2\<lparr>nz_pending_tool_calls := AList.update key call (nz_pending_tool_calls s2),
                  nz_pending_tool_call_contexts :=
                    AList.update runtime_id
                      \<lparr>pcx_name = name, pcx_start_frame_id = env_frame_id envelope\<rparr>
                      (nz_pending_tool_call_contexts s2)\<rparr>
      in (envelope,
          seed_tool_accumulator E runtime_id arguments
            (start_tool_accumulator E runtime_id name s3)))"

definition record_tool_call ::
  "'z runtime_env_scheme \<Rightarrow> string \<Rightarrow> string \<Rightarrow> json \<Rightarrow> handoff" where
  "record_tool_call E source_id name arguments =
     emit_one (register_tool_call E (Some source_id) name arguments)"

definition normalize_grammar_tool_call :: "'z runtime_env_scheme \<Rightarrow> json \<Rightarrow> handoff" where
  "normalize_grammar_tool_call E tool_call_value =
     (case Option.bind (json_get tool_call_value ''name'') as_str of
        None \<Rightarrow> no_emit
      | Some name \<Rightarrow>
          emit_one (register_tool_call E None name
            (case json_get tool_call_value ''arguments'' of
               Some arguments \<Rightarrow> arguments
             | None \<Rightarrow> empty_json_object)))"

text \<open>\<open>signed_duration_since(...).num_milliseconds().max(0)\<close>, which truncates towards zero.\<close>

definition duration_ms :: "int \<Rightarrow> int \<Rightarrow> nat" where
  "duration_ms completed_at started_at = nat (completed_at - started_at) div 1000000"

definition result_signal ::
  "bool \<Rightarrow> string \<Rightarrow> string option \<Rightarrow> string option \<Rightarrow> string \<Rightarrow> nat option \<Rightarrow> string
     \<Rightarrow> runtime_signal" where
  "result_signal is_error tid name started_at completed_at duration output =
     (if is_error
      then ToolCallFailed tid name Error_status started_at completed_at duration output
      else ToolCallCompleted tid name Complete started_at completed_at duration output)"

definition record_tool_result ::
  "'z runtime_env_scheme \<Rightarrow> string \<Rightarrow> string \<Rightarrow> bool \<Rightarrow> handoff" where
  "record_tool_result E source_id output is_error s =
     (let completed_at = utc_now E (nz_reads s);
          completed_at_value = timestamp_string E completed_at;
          s1 = tick s in
      case map_of (nz_pending_tool_calls s1) source_id of
        Some call \<Rightarrow>
          (let s2 = s1\<lparr>nz_pending_tool_calls :=
                        AList.delete source_id (nz_pending_tool_calls s1),
                      nz_pending_tool_call_contexts :=
                        AList.delete (ptc_runtime_id call) (nz_pending_tool_call_contexts s1)\<rparr>;
               s3 = finish_tool_accumulator E (ptc_runtime_id call) s2;
               s4 = (if is_error then s3
                     else s3\<lparr>nz_turn_changed_files :=
                       note_changed_files_from_tool_call (nz_turn_changed_files s3)
                         (ptc_name call) (ptc_arguments call)\<rparr>)
           in emit_one
                (next_envelope_with_context E
                  (result_signal is_error (ptc_runtime_id call) (Some (ptc_name call))
                     (Some (timestamp_string E (ptc_started_at call))) completed_at_value
                     (Some (duration_ms completed_at (ptc_started_at call))) output)
                  None (Some (ptc_start_frame_id call))) s4)
      | None \<Rightarrow>
          emit_signal E
            (result_signal is_error source_id None None completed_at_value None output) s1)"

text \<open>\<open>append_pending_tool_delta\<close>: the first pending call with the given runtime id, in map order.\<close>

fun append_to_call ::
  "serde \<Rightarrow> string \<Rightarrow> string \<Rightarrow> (string \<times> pending_tool_call) list
     \<Rightarrow> json option \<times> (string \<times> pending_tool_call) list" where
  "append_to_call sj tid delta [] = (None, [])"
| "append_to_call sj tid delta ((k, p) # ps) =
     (if ptc_runtime_id p = tid then
        (let raw = ptc_raw_arguments p @ delta;
             parsed = (case from_str sj raw of Some j \<Rightarrow> Some j | None \<Rightarrow> from_str sj (trim raw))
         in case parsed of
              Some j \<Rightarrow> (Some j, (k, p\<lparr>ptc_raw_arguments := raw, ptc_arguments := j\<rparr>) # ps)
            | None \<Rightarrow> (None, (k, p\<lparr>ptc_raw_arguments := raw\<rparr>) # ps))
      else (let (r, ps') = append_to_call sj tid delta ps in (r, (k, p) # ps')))"

definition append_pending_tool_delta ::
  "'z runtime_env_scheme \<Rightarrow> string \<Rightarrow> string \<Rightarrow> normalizer \<Rightarrow> json option \<times> normalizer" where
  "append_pending_tool_delta E tid delta s =
     (let (r, calls) = append_to_call (json_lib E) tid delta (nz_pending_tool_calls s)
      in (r, s\<lparr>nz_pending_tool_calls := calls\<rparr>))"

definition record_tool_call_arguments_delta ::
  "'z runtime_env_scheme \<Rightarrow> string \<Rightarrow> string \<Rightarrow> handoff" where
  "record_tool_call_arguments_delta E tid delta s =
     (let cx = map_of (nz_pending_tool_call_contexts s) tid;
          (err, s1) = accumulate_tool_delta E tid delta s;
          (arguments, s2) = append_pending_tool_delta E tid delta s1
      in emit_one
           (next_envelope_with_context E
             (ToolCallArgumentsDelta tid (map_option pcx_name cx) delta Pending arguments
                (err = Some MalformedPartial))
             None (map_option pcx_start_frame_id cx)) s2)"

definition resolve_changed_files :: "string list \<Rightarrow> normalizer \<Rightarrow> string list" where
  "resolve_changed_files changed_files s =
     (if changed_files = [] then nz_turn_changed_files s else changed_files)"

section \<open>Blocks\<close>

fun normalize_content_block :: "'z runtime_env_scheme \<Rightarrow> content_block \<Rightarrow> handoff" where
  "normalize_content_block E (ToolUseContent i name input metadata) = record_tool_call E i name input"
| "normalize_content_block E (ServerToolUseContent i name input) = record_tool_call E i name input"
| "normalize_content_block E (ToolResultContent tool_use_id content is_error) =
     record_tool_result E tool_use_id content is_error"
| "normalize_content_block E (TextContent text citations) = no_emit"
| "normalize_content_block E (ThinkingContent thinking signature) = no_emit"
| "normalize_content_block E (ThinkingDataContent data) = no_emit"
| "normalize_content_block E (WebSearchToolResultContent tool_use_id content) = no_emit"

fun normalize_stream_block :: "'z runtime_env_scheme \<Rightarrow> stream_block \<Rightarrow> handoff" where
  "normalize_stream_block E (ToolCall i name input status) = record_tool_call E i name input"
| "normalize_stream_block E (ToolResult i output is_error) = record_tool_result E i output is_error"
| "normalize_stream_block E (Thinking content collapsed) = no_emit"
| "normalize_stream_block E (FinalText content) = no_emit"

fun normalize_tool_call_array :: "'z runtime_env_scheme \<Rightarrow> json \<Rightarrow> handoff" where
  "normalize_tool_call_array E (JArray items) = each_emit (normalize_grammar_tool_call E) items"
| "normalize_tool_call_array E (JObject m) = normalize_grammar_tool_call E (JObject m)"
| "normalize_tool_call_array E JNull = no_emit"
| "normalize_tool_call_array E (JBool b) = no_emit"
| "normalize_tool_call_array E (JNumber n) = no_emit"
| "normalize_tool_call_array E (JString t) = no_emit"

definition close_open_final_text_block :: "'z runtime_env_scheme \<Rightarrow> handoff" where
  "close_open_final_text_block E s =
     (case nz_open_final_text_block s of
        None \<Rightarrow> ([], s)
      | Some index \<Rightarrow>
          emit_from E (TranscriptBlockComplete index) (map_of (nz_block_sources s) index)
            (s\<lparr>nz_open_final_text_block := None,
               nz_block_sources := AList.delete index (nz_block_sources s)\<rparr>))"

definition ensure_open_final_text_block ::
  "'z runtime_env_scheme \<Rightarrow> normalizer \<Rightarrow> nat \<times> runtime_envelope list \<times> normalizer" where
  "ensure_open_final_text_block E s =
     (case nz_open_final_text_block s of
        Some index \<Rightarrow> (index, [], s)
      | None \<Rightarrow>
          (let index = nz_next_synthetic_block_index s;
               s1 = s\<lparr>nz_next_synthetic_block_index := sat_add index 1,
                      nz_open_final_text_block := Some index,
                      nz_block_sources := AList.update index Model (nz_block_sources s)\<rparr>
           in (index, emit_from E (TranscriptBlockStart index (FinalText [])) (Some Model) s1)))"

section \<open>Requests and the end of a turn\<close>

fun approval_resolution_signal :: "runtime_request \<Rightarrow> runtime_signal option" where
  "approval_resolution_signal (ApproveCapability r t capability scope) =
     Some (ApprovalResolved capability scope True)"
| "approval_resolution_signal (DenyCapability r t capability) =
     Some (ApprovalResolved capability ''once'' False)"
| "approval_resolution_signal (SubmitInput r t input) = None"
| "approval_resolution_signal (Interrupt r t) = None"

definition normalize_runtime_request :: "'z runtime_env_scheme \<Rightarrow> runtime_request \<Rightarrow> handoff" where
  "normalize_runtime_request E request =
     (case approval_resolution_signal request of
        None \<Rightarrow> no_emit
      | Some signal \<Rightarrow>
          emit_one (next_envelope_with_context E signal (Some (request_id request)) None))"

definition capability_name_for_tool :: "string \<Rightarrow> string option" where
  "capability_name_for_tool tool_name =
     (if tool_name \<in> {''read_file'', ''list_files'', ''list_directory'', ''list_dir'', ''glob_files'',
           ''search'', ''search_files'', ''search_content'', ''find_files'', ''git_status'',
           ''git_diff'', ''git_log'', ''git_show''} then Some ''read-file''
      else if tool_name \<in> {''write_file'', ''edit_file'', ''rename_file''} then Some ''write-file''
      else if tool_name \<in> {''apply_patch'', ''git_add'', ''git_commit''} then Some ''apply-patch''
      else if tool_name = ''run_command'' then Some ''run-command''
      else None)"

definition approval_request_signal :: "tool_approval_request \<Rightarrow> runtime_signal" where
  "approval_request_signal request =
     ApprovalRequest
       (case capability_name_for_tool (tar_tool_name request) of
          Some capability \<Rightarrow> capability | None \<Rightarrow> ''unknown'')
       ''once'' (Some (tar_tool_name request))"

text \<open>Ending a turn: the pending accumulations are finished, then the tables of the turn cleared.\<close>

definition finish_turn_with_status ::
  "'z runtime_env_scheme \<Rightarrow> string \<Rightarrow> pulse_end_context \<Rightarrow> handoff" where
  "finish_turn_with_status E status turn_end =
     ask_emit (\<lambda>s0.
       then_emit (modify_emit (finish_pending_tool_accumulations E))
         (then_emit (close_open_final_text_block E)
           (then_emit (modify_emit clear_turn)
             (emit_signal E (PulseEnd status (pec_usage turn_end)
               (resolve_changed_files (pec_changed_files turn_end) s0))))))"

definition complete_turn :: "'z runtime_env_scheme \<Rightarrow> pulse_end_context \<Rightarrow> handoff" where
  "complete_turn E = finish_turn_with_status E ''completed''"

definition emit_cancelled :: "'z runtime_env_scheme \<Rightarrow> pulse_end_context \<Rightarrow> handoff" where
  "emit_cancelled E = finish_turn_with_status E ''cancelled''"

definition end_failed :: "'z runtime_env_scheme \<Rightarrow> runtime_signal list \<Rightarrow> pulse_end_context \<Rightarrow> handoff" where
  "end_failed E before turn_end =
     ask_emit (\<lambda>s0.
       then_emit (modify_emit (clear_turn \<circ> finish_pending_tool_accumulations E))
         (then_emit (each_emit (emit_signal E) before)
           (emit_signal E (PulseEnd ''failed'' (pec_usage turn_end)
              (resolve_changed_files (pec_changed_files turn_end) s0)))))"

definition emit_error ::
  "'z runtime_env_scheme \<Rightarrow> string \<Rightarrow> string \<Rightarrow> bool \<Rightarrow> pulse_end_context \<Rightarrow> handoff" where
  "emit_error E code message recoverable turn_end =
     then_emit (close_open_final_text_block E)
       (then_emit (emit_signal E (Error_signal code message recoverable))
         (if recoverable then no_emit else end_failed E [] turn_end))"

definition emit_max_turns_reached ::
  "'z runtime_env_scheme \<Rightarrow> nat \<Rightarrow> pulse_end_context \<Rightarrow> handoff" where
  "emit_max_turns_reached E max_turns turn_end =
     then_emit (close_open_final_text_block E)
       (end_failed E [MaxTurnsReached max_turns] turn_end)"

section \<open>User-interface updates\<close>

definition open_block :: "'z runtime_env_scheme \<Rightarrow> nat \<Rightarrow> stream_block \<Rightarrow> handoff" where
  "open_block E index block s =
     emit_from E (TranscriptBlockStart index block) (Some (source_for_stream_block block))
       (s\<lparr>nz_block_sources :=
            AList.update index (source_for_stream_block block) (nz_block_sources s)\<rparr>)"

definition track_streaming_block :: "nat \<Rightarrow> stream_block \<Rightarrow> normalizer \<Rightarrow> normalizer" where
  "track_streaming_block index block s =
     (case block of
        ToolCall i name input status \<Rightarrow>
          (case map_of (nz_pending_tool_calls s) i of
             Some call \<Rightarrow>
               s\<lparr>nz_streaming_tool_call_blocks :=
                   AList.update index (ptc_runtime_id call) (nz_streaming_tool_call_blocks s)\<rparr>
           | None \<Rightarrow> s)
      | _ \<Rightarrow> s)"

definition stream_block_start :: "'z runtime_env_scheme \<Rightarrow> nat \<Rightarrow> stream_block \<Rightarrow> handoff" where
  "stream_block_start E index block =
     then_emit (close_open_final_text_block E)
       (then_emit (open_block E index block)
         (then_emit (normalize_stream_block E block)
           (modify_emit (track_streaming_block index block))))"

definition stream_block_delta :: "'z runtime_env_scheme \<Rightarrow> nat \<Rightarrow> string \<Rightarrow> handoff" where
  "stream_block_delta E index delta =
     ask_emit (\<lambda>s.
       then_emit
         (emit_from E (TranscriptBlockDelta index delta) (map_of (nz_block_sources s) index))
         (case map_of (nz_streaming_tool_call_blocks s) index of
            Some runtime_id \<Rightarrow> record_tool_call_arguments_delta E runtime_id delta
          | None \<Rightarrow> no_emit))"

definition stream_block_complete :: "'z runtime_env_scheme \<Rightarrow> nat \<Rightarrow> handoff" where
  "stream_block_complete E index =
     ask_emit (\<lambda>s0.
       then_emit
         (modify_emit (\<lambda>s.
            case map_of (nz_streaming_tool_call_blocks s) index of
              Some runtime_id \<Rightarrow>
                finish_tool_accumulator E runtime_id
                  (s\<lparr>nz_streaming_tool_call_blocks :=
                       AList.delete index (nz_streaming_tool_call_blocks s)\<rparr>)
            | None \<Rightarrow> s))
         (then_emit
           (modify_emit (\<lambda>s. s\<lparr>nz_block_sources := AList.delete index (nz_block_sources s)\<rparr>))
           (emit_from E (TranscriptBlockComplete index) (map_of (nz_block_sources s0) index))))"

definition stream_delta :: "'z runtime_env_scheme \<Rightarrow> string \<Rightarrow> handoff" where
  "stream_delta E text s =
     (let (index, start, s1) = ensure_open_final_text_block E s;
          (es, s2) = emit_from E (TranscriptBlockDelta index text)
                       (map_of (nz_block_sources s1) index) s1
      in (start @ es, s2))"

definition turn_end_or_default :: "pulse_end_context option \<Rightarrow> pulse_end_context" where
  "turn_end_or_default turn_end =
     (case turn_end of Some c \<Rightarrow> c | None \<Rightarrow> pulse_end_context_default)"

fun normalize_ui_update ::
  "'z runtime_env_scheme \<Rightarrow> ui_update \<Rightarrow> pulse_end_context option \<Rightarrow> handoff" where
  "normalize_ui_update E (TranscriptLine_ui line) turn_end =
     then_emit (close_open_final_text_block E) (emit_signal E (TranscriptLine line))"
| "normalize_ui_update E (StreamDelta text) turn_end = stream_delta E text"
| "normalize_ui_update E (StreamBlockStart index block) turn_end = stream_block_start E index block"
| "normalize_ui_update E (StreamBlockDelta index delta) turn_end = stream_block_delta E index delta"
| "normalize_ui_update E (StreamBlockComplete index) turn_end = stream_block_complete E index"
| "normalize_ui_update E PulseComplete turn_end = complete_turn E (turn_end_or_default turn_end)"
| "normalize_ui_update E (Error_ui message) turn_end =
     emit_error E ''runtime_error'' message False (turn_end_or_default turn_end)"
| "normalize_ui_update E (ToolApprovalRequest_ui request) turn_end =
     then_emit (close_open_final_text_block E) (emit_signal E (approval_request_signal request))"
| "normalize_ui_update E (ServerMetadata_ui metadata) turn_end = emit_signal E (ServerMetadata metadata)"
| "normalize_ui_update E (CommandSessionStarted session cmd) turn_end = no_emit"
| "normalize_ui_update E (CommandSessionAttached session pid) turn_end = no_emit"
| "normalize_ui_update E (CommandSessionFinished session) turn_end = no_emit"
| "normalize_ui_update E (ToolCallArgumentsUpdated i name arguments) turn_end = no_emit"
| "normalize_ui_update E (EditLoopComplete outcome validation) turn_end = no_emit"
| "normalize_ui_update E (ContextCompacted a b c) turn_end = no_emit"

end
