(* ===== verification/Normalizer_Laws.thy ===== *)
theory Normalizer_Laws
  imports Normalizer
begin

text \<open>
  What the normalizer guarantees of the envelopes it emits: the numbering of frames, the identity of
  tool calls, their correlation with results, the assembly of streamed arguments and the state after
  the end of a turn. A law of single emissions is carried to every operation by an interpretation of
  \<open>emitter_law\<close>.
\<close>

section \<open>Frames: what an operation leaves alone\<close>

lemma tick_simps [simp]:
  "nz_task_id (tick s) = nz_task_id s"
  "nz_pulse (tick s) = nz_pulse s"
  "nz_next_seq (tick s) = nz_next_seq s"
  "nz_pending_tool_calls (tick s) = nz_pending_tool_calls s"
  "nz_pending_tool_call_contexts (tick s) = nz_pending_tool_call_contexts s"
  "nz_streaming_tool_call_blocks (tick s) = nz_streaming_tool_call_blocks s"
  "nz_block_sources (tick s) = nz_block_sources s"
  "nz_turn_changed_files (tick s) = nz_turn_changed_files s"
  "nz_tool_id_counter (tick s) = nz_tool_id_counter s"
  "nz_open_final_text_block (tick s) = nz_open_final_text_block s"
  "nz_next_synthetic_block_index (tick s) = nz_next_synthetic_block_index s"
  "nz_delta_accumulator (tick s) = nz_delta_accumulator s"
  "nz_protocol_ingress (tick s) = nz_protocol_ingress s"
  by (simp_all add: tick_def)

text \<open>Two states that agree on everything but the accumulator, the clock and the peer log.\<close>

definition same_tables :: "normalizer \<Rightarrow> normalizer \<Rightarrow> bool" where
  "same_tables s t \<longleftrightarrow>
     t = s\<lparr>nz_delta_accumulator := nz_delta_accumulator t, nz_reads := nz_reads t,
           nz_peer_log := nz_peer_log t\<rparr>"

lemma same_tables_refl [simp]: "same_tables s s"
  by (simp add: same_tables_def)

lemma same_tables_trans: "same_tables s t \<Longrightarrow> same_tables t u \<Longrightarrow> same_tables s u"
  by (cases s; cases t; cases u) (simp add: same_tables_def)

lemma same_tablesD:
  assumes "same_tables s t"
  shows "nz_task_id t = nz_task_id s" "nz_pulse t = nz_pulse s" "nz_next_seq t = nz_next_seq s"
    "nz_pending_tool_calls t = nz_pending_tool_calls s"
    "nz_pending_tool_call_contexts t = nz_pending_tool_call_contexts s"
    "nz_streaming_tool_call_blocks t = nz_streaming_tool_call_blocks s"
    "nz_block_sources t = nz_block_sources s"
    "nz_turn_changed_files t = nz_turn_changed_files s"
    "nz_tool_id_counter t = nz_tool_id_counter s"
    "nz_open_final_text_block t = nz_open_final_text_block s"
    "nz_next_synthetic_block_index t = nz_next_synthetic_block_index s"
    "nz_protocol_ingress t = nz_protocol_ingress s"
  using assms by (cases s; cases t; simp add: same_tables_def)+

lemma same_tables_with_accumulator: "same_tables s (snd (with_accumulator E f s))"
  by (simp add: with_accumulator_def same_tables_def tick_def split: option.splits prod.splits)

lemma same_tables_tick: "same_tables s (tick s)"
  by (simp add: same_tables_def tick_def)

lemma same_tables_start: "same_tables s (start_tool_accumulator E tid name s)"
  by (simp add: start_tool_accumulator_def same_tables_with_accumulator)

lemma same_tables_seed: "same_tables s (seed_tool_accumulator E tid arguments s)"
  by (simp add: seed_tool_accumulator_def same_tables_with_accumulator split: option.splits)

lemma same_tables_finish: "same_tables s (finish_tool_accumulator E tid s)"
  by (simp add: finish_tool_accumulator_def same_tables_with_accumulator)

lemma same_tables_accumulate: "same_tables s (snd (accumulate_tool_delta E tid delta s))"
proof -
  have "snd (accumulate_tool_delta E tid delta s)
      = snd (with_accumulator E (\<lambda>now. accumulate now tid delta) s)"
    by (simp add: accumulate_tool_delta_def split: prod.splits option.splits sum.splits)
  then show ?thesis by (simp add: same_tables_with_accumulator)
qed

lemma same_tables_finish_fold:
  "same_tables s (fold (\<lambda>p. finish_tool_accumulator E (ptc_runtime_id (snd p))) ps s)"
  by (induction ps arbitrary: s)
     (auto intro: same_tables_trans [OF same_tables_finish])

lemma same_tables_finish_pending: "same_tables s (finish_pending_tool_accumulations E s)"
  by (simp add: finish_pending_tool_accumulations_def same_tables_finish_fold)

lemmas accumulator_frames [simp] =
  same_tablesD [OF same_tables_start] same_tablesD [OF same_tables_seed]
  same_tablesD [OF same_tables_finish] same_tablesD [OF same_tables_accumulate]
  same_tablesD [OF same_tables_finish_pending]

lemma append_pending_frame [simp]:
  "nz_task_id (snd (append_pending_tool_delta E tid delta s)) = nz_task_id s"
  "nz_pulse (snd (append_pending_tool_delta E tid delta s)) = nz_pulse s"
  "nz_next_seq (snd (append_pending_tool_delta E tid delta s)) = nz_next_seq s"
  "nz_tool_id_counter (snd (append_pending_tool_delta E tid delta s)) = nz_tool_id_counter s"
  "nz_open_final_text_block (snd (append_pending_tool_delta E tid delta s))
     = nz_open_final_text_block s"
  "nz_protocol_ingress (snd (append_pending_tool_delta E tid delta s)) = nz_protocol_ingress s"
  "nz_block_sources (snd (append_pending_tool_delta E tid delta s)) = nz_block_sources s"
  "nz_streaming_tool_call_blocks (snd (append_pending_tool_delta E tid delta s))
     = nz_streaming_tool_call_blocks s"
  by (simp_all add: append_pending_tool_delta_def split: prod.splits)

lemma clear_turn_simps [simp]:
  "nz_task_id (clear_turn s) = nz_task_id s"
  "nz_pulse (clear_turn s) = nz_pulse s"
  "nz_next_seq (clear_turn s) = nz_next_seq s"
  "nz_tool_id_counter (clear_turn s) = nz_tool_id_counter s"
  "nz_open_final_text_block (clear_turn s) = nz_open_final_text_block s"
  "nz_turn_changed_files (clear_turn s) = nz_turn_changed_files s"
  "nz_protocol_ingress (clear_turn s) = nz_protocol_ingress s"
  "nz_pending_tool_calls (clear_turn s) = []"
  "nz_pending_tool_call_contexts (clear_turn s) = []"
  "nz_streaming_tool_call_blocks (clear_turn s) = []"
  "nz_block_sources (clear_turn s) = []"
  by (simp_all add: clear_turn_def)

lemma reset_for_pulse_simps [simp]:
  "nz_task_id (reset_for_pulse p s) = nz_task_id s"
  "nz_pulse (reset_for_pulse p s) = p"
  "nz_next_seq (reset_for_pulse p s) = nz_next_seq s"
  "nz_tool_id_counter (reset_for_pulse p s) = nz_tool_id_counter s"
  "nz_open_final_text_block (reset_for_pulse p s) = None"
  "nz_protocol_ingress (reset_for_pulse p s) = protocol_ingress_default"
  "nz_pending_tool_calls (reset_for_pulse p s) = []"
  "nz_streaming_tool_call_blocks (reset_for_pulse p s) = []"
  by (simp_all add: reset_for_pulse_def)

lemma track_streaming_block_simps [simp]:
  "nz_task_id (track_streaming_block i b s) = nz_task_id s"
  "nz_pulse (track_streaming_block i b s) = nz_pulse s"
  "nz_next_seq (track_streaming_block i b s) = nz_next_seq s"
  "nz_tool_id_counter (track_streaming_block i b s) = nz_tool_id_counter s"
  "nz_open_final_text_block (track_streaming_block i b s) = nz_open_final_text_block s"
  "nz_protocol_ingress (track_streaming_block i b s) = nz_protocol_ingress s"
  "nz_block_sources (track_streaming_block i b s) = nz_block_sources s"
  "nz_pending_tool_calls (track_streaming_block i b s) = nz_pending_tool_calls s"
  by (simp_all add: track_streaming_block_def split: stream_block.splits option.splits)

section \<open>The numbering of envelopes\<close>

definition stamped :: "runtime_envelope \<Rightarrow> bool" where
  "stamped e \<longleftrightarrow> env_version e = 1
     \<and> env_frame_id e = frame_id (env_task_id e) (env_pulse e) (env_seq e)"

definition numbered :: "normalizer \<Rightarrow> runtime_envelope list \<Rightarrow> normalizer \<Rightarrow> bool" where
  "numbered s es t \<longleftrightarrow>
     nz_task_id t = nz_task_id s
     \<and> (\<forall>e \<in> set es. stamped e \<and> env_task_id e = nz_task_id s)
     \<and> (nz_next_seq s + length es \<le> u64_max \<longrightarrow>
          map env_seq es = [nz_next_seq s ..< nz_next_seq s + length es]
          \<and> nz_next_seq t = nz_next_seq s + length es)"

interpretation seq: emitter_law numbered
proof
  fix s show "numbered s [] s" by (simp add: numbered_def)
next
  fix s a t b u
  assume 1: "numbered s a t" and 2: "numbered t b u"
  have "[nz_next_seq s ..< nz_next_seq s + length a]
      @ [nz_next_seq s + length a ..< nz_next_seq s + length a + length b]
      = [nz_next_seq s ..< nz_next_seq s + length a + length b]"
    by (metis le_add1 upt_add_eq_append)
  with 1 2 show "numbered s (a @ b) u" by (auto simp: numbered_def add.assoc)
qed

lemma numbered_envelope:
  "next_envelope_with_source E signal req parent source s = (e, t) \<Longrightarrow> numbered s [e] t"
  by (auto simp: numbered_def stamped_def next_envelope_with_source_def Let_def sat_add_def)

text \<open>A step that neither emits nor touches the counter.\<close>

lemma numbered_silent:
  "nz_task_id t = nz_task_id s \<Longrightarrow> nz_next_seq t = nz_next_seq s \<Longrightarrow> numbered s [] t"
  by (simp add: numbered_def)

lemma numbered_from:
  "numbered s1 es t \<Longrightarrow> nz_task_id s1 = nz_task_id s \<Longrightarrow> nz_next_seq s1 = nz_next_seq s \<Longrightarrow>
     numbered s es t"
  by (simp add: numbered_def)

lemma numbered_to:
  "numbered s es t \<Longrightarrow> nz_task_id t' = nz_task_id t \<Longrightarrow> nz_next_seq t' = nz_next_seq t \<Longrightarrow>
     numbered s es t'"
  by (simp add: numbered_def)

lemma numbered_emit_one:
  "numbered s (fst (emit_one (next_envelope_with_source E signal req parent source) s))
     (snd (emit_one (next_envelope_with_source E signal req parent source) s))"
  by (auto simp: emit_one_def split: prod.splits intro: numbered_envelope)

lemma lawful_emit_from [intro, simp]: "seq.lawful (emit_from E signal source)"
  unfolding emit_from_def by (rule seq.lawfulI) (rule numbered_emit_one)

lemma lawful_emit_signal [intro, simp]: "seq.lawful (emit_signal E signal)"
  unfolding emit_signal_def next_envelope_def next_envelope_with_context_def
  by (rule seq.lawfulI) (rule numbered_emit_one)

lemma lawful_emit_context [intro, simp]:
  "seq.lawful (emit_one (next_envelope_with_context E signal req parent))"
  unfolding next_envelope_with_context_def by (rule seq.lawfulI) (rule numbered_emit_one)

lemma lawful_modify_frame:
  "(\<And>s. nz_task_id (u s) = nz_task_id s) \<Longrightarrow> (\<And>s. nz_next_seq (u s) = nz_next_seq s) \<Longrightarrow>
     seq.lawful (modify_emit u)"
  by (rule seq.lawful_modify) (simp add: numbered_silent)

text \<open>An emitter run from a changed state.\<close>

lemma lawful_after:
  assumes "seq.lawful f" and "\<And>s. nz_task_id (u s) = nz_task_id s"
    and "\<And>s. nz_next_seq (u s) = nz_next_seq s"
  shows "seq.lawful (\<lambda>s. f (u s))"
  by (rule seq.lawfulI) (rule numbered_from [OF seq.lawfulD [OF assms(1)]], simp_all add: assms)

lemma lawful_start_pulse: "seq.lawful (start_pulse E pulse input)"
  unfolding start_pulse_def by (rule lawful_after) simp_all

lemma lawful_register:
  "seq.lawful (emit_one (register_tool_call E source_id name arguments))"
proof (rule seq.lawfulI)
  fix s
  obtain tid s1 where gen: "generate_tool_call_id E s = (tid, s1)" by fastforce
  define sig where "sig = ToolCallStarted tid name arguments Pending
     (timestamp_string E (utc_now E (nz_reads s1)))"
  obtain e s2 where nx: "next_envelope E sig (tick s1) = (e, s2)" by fastforce
  have "numbered (tick s1) [e] s2"
    using nx by (simp add: next_envelope_def next_envelope_with_context_def numbered_envelope)
  moreover have "nz_task_id s1 = nz_task_id s" "nz_next_seq s1 = nz_next_seq s"
    using gen by (auto simp: generate_tool_call_id_def Let_def)
  ultimately have "numbered s [e] s2" by (auto intro: numbered_from)
  then show "numbered s (fst (emit_one (register_tool_call E source_id name arguments) s))
      (snd (emit_one (register_tool_call E source_id name arguments) s))"
    by (simp add: emit_one_def register_tool_call_def gen nx [unfolded sig_def]
        numbered_to Let_def)
qed

lemma lawful_record_tool_call [simp]: "seq.lawful (record_tool_call E source_id name arguments)"
  by (simp add: record_tool_call_def lawful_register)

lemma lawful_grammar [simp]: "seq.lawful (normalize_grammar_tool_call E v)"
  unfolding normalize_grammar_tool_call_def by (intro seq.lawful_option) (auto simp: lawful_register)

lemma lawful_record_tool_result [simp]: "seq.lawful (record_tool_result E source_id output is_error)"
  by (rule seq.lawfulI)
     (auto simp: record_tool_result_def Let_def split: option.splits
       intro!: numbered_from [OF seq.lawfulD [OF lawful_emit_context]]
         numbered_from [OF seq.lawfulD [OF lawful_emit_signal]])

lemma lawful_arguments_delta [simp]: "seq.lawful (record_tool_call_arguments_delta E tid delta)"
proof (rule seq.lawfulI)
  fix s
  obtain err s1 where 1: "accumulate_tool_delta E tid delta s = (err, s1)" by fastforce
  obtain r s2 where 2: "append_pending_tool_delta E tid delta s1 = (r, s2)" by fastforce
  have "nz_task_id s2 = nz_task_id s" "nz_next_seq s2 = nz_next_seq s"
    using append_pending_frame(1,3) [of E tid delta s1] same_tablesD(1,3)
      [OF same_tables_accumulate, of E tid delta s] 1 2 by simp_all
  then show "numbered s (fst (record_tool_call_arguments_delta E tid delta s))
      (snd (record_tool_call_arguments_delta E tid delta s))"
    unfolding record_tool_call_arguments_delta_def Let_def 1 2 prod.case
    by (intro numbered_from [OF seq.lawfulD [OF lawful_emit_context]]) simp_all
qed

lemma lawful_stream_block [simp]: "seq.lawful (normalize_stream_block E b)"
  by (cases b) simp_all

lemma lawful_content_block [simp]: "seq.lawful (normalize_content_block E b)"
  by (cases b) simp_all

lemma lawful_tool_call_array [simp]: "seq.lawful (normalize_tool_call_array E v)"
  by (cases v) (simp_all add: seq.lawful_each)

lemma lawful_close_final [simp]: "seq.lawful (close_open_final_text_block E)"
  by (rule seq.lawfulI)
     (auto simp: close_open_final_text_block_def numbered_silent split: option.splits
       intro!: numbered_from [OF seq.lawfulD [OF lawful_emit_from]])

lemma lawful_request [simp]: "seq.lawful (normalize_runtime_request E r)"
  unfolding normalize_runtime_request_def by (intro seq.lawful_option) simp_all

lemma lawful_end_turn [simp]: "seq.lawful (finish_turn_with_status E status turn_end)"
  unfolding finish_turn_with_status_def
  by (intro seq.lawful_ask seq.lawful_then lawful_modify_frame) simp_all

lemma lawful_end_failed [simp]: "seq.lawful (end_failed E sigs turn_end)"
  unfolding end_failed_def
  by (intro seq.lawful_ask seq.lawful_then seq.lawful_each lawful_modify_frame) simp_all

lemma lawful_error [simp]: "seq.lawful (emit_error E code message recoverable turn_end)"
  unfolding emit_error_def by (intro seq.lawful_then seq.lawful_if) simp_all

lemma lawful_max_turns [simp]: "seq.lawful (emit_max_turns_reached E n turn_end)"
  unfolding emit_max_turns_reached_def by (intro seq.lawful_then) simp_all

lemma lawful_open_block [simp]: "seq.lawful (open_block E index block)"
  unfolding open_block_def by (rule lawful_after) simp_all

lemma lawful_block_start [simp]: "seq.lawful (stream_block_start E index block)"
  unfolding stream_block_start_def by (intro seq.lawful_then lawful_modify_frame) simp_all

lemma lawful_block_delta [simp]: "seq.lawful (stream_block_delta E index delta)"
  unfolding stream_block_delta_def
  by (intro seq.lawful_ask seq.lawful_then seq.lawful_option) simp_all

lemma lawful_block_complete [simp]: "seq.lawful (stream_block_complete E index)"
  unfolding stream_block_complete_def
  by (intro seq.lawful_ask seq.lawful_then lawful_modify_frame) (simp_all split: option.splits)

lemma lawful_stream_delta [simp]: "seq.lawful (stream_delta E text)"
proof (rule seq.lawfulI)
  fix s
  obtain i start s1 where 1: "ensure_open_final_text_block E s = (i, start, s1)"
    by (metis prod_cases3)
  have "numbered s start s1"
  proof (cases "nz_open_final_text_block s")
    case None
    let ?u = "s\<lparr>nz_next_synthetic_block_index := sat_add (nz_next_synthetic_block_index s) 1,
      nz_open_final_text_block := Some (nz_next_synthetic_block_index s),
      nz_block_sources := AList.update (nz_next_synthetic_block_index s) Model (nz_block_sources s)\<rparr>"
    have "numbered ?u start s1"
      using 1 None
      by (auto simp: ensure_open_final_text_block_def Let_def
          intro: seq.lawful_app [OF lawful_emit_from])
    then show ?thesis by (rule numbered_from) simp_all
  next
    case (Some j)
    with 1 show ?thesis by (simp add: ensure_open_final_text_block_def seq.silent)
  qed
  then show "numbered s (fst (stream_delta E text s)) (snd (stream_delta E text s))"
    unfolding stream_delta_def 1 Let_def prod.case
    by (auto split: prod.splits intro: seq.compose seq.lawful_app [OF lawful_emit_from])
qed

lemma lawful_ui_update [simp]: "seq.lawful (normalize_ui_update E u turn_end)"
  by (cases u) (auto simp: complete_turn_def)

section \<open>Sequences of operations\<close>

datatype handoff_op =
    StartPulse nat "string option"
  | UiUpdate ui_update "pulse_end_context option"
  | Request runtime_request
  | ContentBlockOp content_block
  | StreamBlockOp stream_block
  | ToolCallArray json
  | ErrorOp string string bool pulse_end_context
  | MaxTurnsOp nat pulse_end_context
  | CancelOp pulse_end_context
  | SignalOp runtime_signal

fun run_op :: "'z runtime_env_scheme \<Rightarrow> handoff_op \<Rightarrow> handoff" where
  "run_op E (StartPulse pulse input) = start_pulse E pulse input"
| "run_op E (UiUpdate u turn_end) = normalize_ui_update E u turn_end"
| "run_op E (Request r) = normalize_runtime_request E r"
| "run_op E (ContentBlockOp b) = normalize_content_block E b"
| "run_op E (StreamBlockOp b) = normalize_stream_block E b"
| "run_op E (ToolCallArray v) = normalize_tool_call_array E v"
| "run_op E (ErrorOp code message recoverable turn_end) =
     emit_error E code message recoverable turn_end"
| "run_op E (MaxTurnsOp n turn_end) = emit_max_turns_reached E n turn_end"
| "run_op E (CancelOp turn_end) = emit_cancelled E turn_end"
| "run_op E (SignalOp signal) = emit_signal E signal"

definition run_ops :: "'z runtime_env_scheme \<Rightarrow> handoff_op list \<Rightarrow> handoff" where
  "run_ops E ops = each_emit (run_op E) ops"

lemma lawful_run_op: "seq.lawful (run_op E op)"
  by (cases op) (simp_all add: lawful_start_pulse emit_cancelled_def)

lemma lawful_run_ops: "seq.lawful (run_ops E ops)"
  unfolding run_ops_def by (rule seq.lawful_each) (rule lawful_run_op)

text \<open>Frame ids of one task determine the pulse and the sequence number.\<close>

lemma append_colon_inject:
  "CHR '':'' \<notin> set a \<Longrightarrow> CHR '':'' \<notin> set b \<Longrightarrow> a @ '':'' @ x = b @ '':'' @ y \<Longrightarrow> a = b \<and> x = y"
  by (induction a arbitrary: b) (auto simp: Cons_eq_append_conv append_eq_Cons_conv)

lemma frame_id_inject: "frame_id t p n = frame_id t q m \<longleftrightarrow> p = q \<and> n = m"
proof
  assume "frame_id t p n = frame_id t q m"
  then have "nat_dec p @ '':'' @ nat_dec n = nat_dec q @ '':'' @ nat_dec m"
    by (simp add: frame_id_def)
  from append_colon_inject [OF nat_dec_no_punct(1) nat_dec_no_punct(1) this] show "p = q \<and> n = m"
    by simp
qed simp

lemma numbered_distinct_frames:
  assumes "numbered s es t" "nz_next_seq s + length es \<le> u64_max"
  shows "distinct (map env_frame_id es)"
proof -
  have "distinct (map env_seq es)" using assms by (simp add: numbered_def)
  moreover have "inj_on env_frame_id (set es)"
    if "inj_on env_seq (set es)"
    using assms(1) that
    by (auto simp: numbered_def stamped_def frame_id_inject inj_on_def)
  ultimately show ?thesis by (simp add: distinct_map)
qed

text \<open>
  Whatever operations of the normalizer itself are applied to a fresh one, in whatever order, the envelopes it emits carry the sequence numbers 1, 2, 3, ... without gap or repetition, the task
  id of the normalizer and pairwise different frame ids, up to the saturation of the 64-bit counter.
\<close>

theorem envelopes_numbered:
  assumes "run_ops E ops (new_inner task acc) = (es, s)" and "length es < u64_max"
  shows "map env_seq es = [1 ..< Suc (length es)]
     \<and> distinct (map env_frame_id es)
     \<and> (\<forall>e \<in> set es. env_task_id e = task \<and> stamped e)
     \<and> nz_next_seq s = Suc (length es)"
proof -
  have n: "numbered (new_inner task acc) es s"
    by (rule seq.lawful_app [OF lawful_run_ops assms(1)])
  have "nz_next_seq (new_inner task acc) = 1" "nz_task_id (new_inner task acc) = task"
    by (simp_all add: new_inner_def)
  with n assms(2) numbered_distinct_frames [OF n] show ?thesis
    by (simp add: numbered_def)
qed

text \<open>A concrete environment: both clocks advance by a millisecond per reading.\<close>

definition sample_serde :: serde where
  "sample_serde =
     \<lparr>from_str = (\<lambda>t. if t = ''{}'' then Some (JObject [])
        else if t = ''{1}'' then Some (JObject [(''path'', JString ''a'')]) else None),
      to_string = (\<lambda>j. if j = JObject [] then Some ''{}'' else Some ''[]''),
      parse_f64 = (\<lambda>t. None)\<rparr>"

definition sample_env :: runtime_env where
  "sample_env =
     \<lparr>utc_now = (\<lambda>n. 1000000 * int n), instant_now = (\<lambda>n. n), to_rfc3339 = (\<lambda>t. ''T''),
      json_lib = sample_serde\<rparr>"

lemmas eval_defs =
  run_ops_def emit_defs start_pulse_def emit_signal_def emit_from_def emit_one_def
  next_envelope_def next_envelope_with_context_def next_envelope_with_source_def Let_def
  new_inner_def reset_for_pulse_def clear_turn_def tick_def stream_delta_def
  ensure_open_final_text_block_def close_open_final_text_block_def timestamp_string_def
  complete_turn_def finish_turn_with_status_def finish_pending_tool_accumulations_def
  turn_end_or_default_def pulse_end_context_default_def resolve_changed_files_def
  sat_add_def u64_max_def

theorem envelopes_numbered_witness:
  "case run_ops sample_env [StartPulse 1 None, UiUpdate (StreamDelta ''hi'') None,
       UiUpdate PulseComplete None] (new_inner ''t'' None) of
     (es, s) \<Rightarrow> length es = 5 \<and> map env_seq es = [1 ..< Suc (length es)]
       \<and> distinct (map env_frame_id es)
       \<and> (\<forall>e \<in> set es. env_task_id e = ''t'' \<and> stamped e)
       \<and> nz_next_seq s = Suc (length es)"
proof -
  define r where "r = run_ops sample_env [StartPulse 1 None, UiUpdate (StreamDelta ''hi'') None,
       UiUpdate PulseComplete None] (new_inner ''t'' None)"
  have len: "length (fst r) = 5"
    unfolding r_def by (simp add: eval_defs)
  obtain es s where es: "r = (es, s)" by fastforce
  with len have "length es < u64_max" by (simp add: u64_max_def)
  from envelopes_numbered [OF es [unfolded r_def] this] len show ?thesis
    unfolding r_def [symmetric] by (simp add: es)
qed

end
