(* ===== verification/Tool_Call_Laws.thy ===== *)
theory Tool_Call_Laws
  imports Normalizer_Laws
begin

text \<open>
  The life of a tool call in the normalizer: every call gets an id of its own, its streamed argument
  fragments are assembled in order, and its result is reported under that id with the frame of the
  start event as parent.
\<close>

section \<open>Identity\<close>

fun signal_started :: "runtime_signal \<Rightarrow> string list" where
  "signal_started (ToolCallStarted tid name arguments status started_at) = [tid]"
| "signal_started _ = []"

definition started_ids :: "runtime_envelope list \<Rightarrow> string list" where
  "started_ids es = concat (map (signal_started \<circ> env_signal) es)"

lemma started_ids_simps [simp]:
  "started_ids [] = []" "started_ids (a @ b) = started_ids a @ started_ids b"
  "started_ids (e # es) = signal_started (env_signal e) @ started_ids es"
  by (simp_all add: started_ids_def)

text \<open>Every pending call has an id handed out by the counter.\<close>

definition ids_below :: "normalizer \<Rightarrow> bool" where
  "ids_below s \<longleftrightarrow>
     (\<forall>p \<in> set (nz_pending_tool_calls s).
        \<exists>k h. ptc_runtime_id (snd p) = tool_call_id_of k h \<and> k \<le> nz_tool_id_counter s)"

definition issued :: "normalizer \<Rightarrow> runtime_envelope list \<Rightarrow> normalizer \<Rightarrow> bool" where
  "issued s es t \<longleftrightarrow>
     (let c = nz_tool_id_counter s; n = length (started_ids es) in
      c + n < u32_modulus \<longrightarrow>
        nz_tool_id_counter t = c + n
        \<and> list_all2 (\<lambda>tid k. \<exists>h. tid = tool_call_id_of k h) (started_ids es) [Suc c ..< Suc (c + n)]
        \<and> (ids_below s \<longrightarrow> ids_below t))"

interpretation tool_ids: emitter_law issued
proof
  fix s show "issued s [] s" by (simp add: issued_def)
next
  fix s a t b u
  assume 1: "issued s a t" and 2: "issued t b u"
  let ?c = "nz_tool_id_counter s" and ?m = "length (started_ids a)"
    and ?n = "length (started_ids b)"
  have "[Suc ?c ..< Suc (?c + ?m)] @ [Suc (?c + ?m) ..< Suc (?c + ?m + ?n)]
      = [Suc ?c ..< Suc (?c + (?m + ?n))]"
    using upt_add_eq_append [of "Suc ?c" "Suc (?c + ?m)" ?n] by (simp add: add.assoc)
  note range = this
  show "issued s (a @ b) u"
    unfolding issued_def Let_def
  proof (intro impI)
    assume bound: "?c + length (started_ids (a @ b)) < u32_modulus"
    from 1 bound have a: "nz_tool_id_counter t = ?c + ?m" "ids_below s \<longrightarrow> ids_below t"
      "list_all2 (\<lambda>tid k. \<exists>h. tid = tool_call_id_of k h) (started_ids a) [Suc ?c ..< Suc (?c + ?m)]"
      by (simp_all add: issued_def Let_def del: upt_Suc)
    from 2 bound a(1) have b: "nz_tool_id_counter u = ?c + ?m + ?n" "ids_below t \<longrightarrow> ids_below u"
      "list_all2 (\<lambda>tid k. \<exists>h. tid = tool_call_id_of k h) (started_ids b)
         [Suc (?c + ?m) ..< Suc (?c + ?m + ?n)]"
      by (simp_all add: issued_def Let_def del: upt_Suc)
    from list_all2_appendI [OF a(3) b(3)] a(1,2) b(1,2) range
    show "nz_tool_id_counter u = ?c + length (started_ids (a @ b))
        \<and> list_all2 (\<lambda>tid k. \<exists>h. tid = tool_call_id_of k h) (started_ids (a @ b))
            [Suc ?c ..< Suc (?c + length (started_ids (a @ b)))]
        \<and> (ids_below s \<longrightarrow> ids_below u)"
      by (simp add: add.assoc del: upt_Suc)
  qed
qed

definition runtime_ids :: "normalizer \<Rightarrow> string set" where
  "runtime_ids s = (ptc_runtime_id \<circ> snd) ` set (nz_pending_tool_calls s)"

lemma ids_below_alt:
  "ids_below s \<longleftrightarrow> runtime_ids s \<subseteq> {tool_call_id_of k h | k h. k \<le> nz_tool_id_counter s}"
  by (auto simp: ids_below_def runtime_ids_def image_subset_iff)

text \<open>A step that starts no call and forgets calls at most.\<close>

definition quiet_at :: "normalizer \<Rightarrow> runtime_envelope list \<times> normalizer \<Rightarrow> bool" where
  "quiet_at s r \<longleftrightarrow> started_ids (fst r) = []
     \<and> nz_tool_id_counter (snd r) = nz_tool_id_counter s \<and> runtime_ids (snd r) \<subseteq> runtime_ids s"

definition quiet :: "handoff \<Rightarrow> bool" where
  "quiet f \<longleftrightarrow> (\<forall>s. quiet_at s (f s))"

lemmas quiet_defs = quiet_def quiet_at_def

lemma quiet_issued [intro]: "quiet f \<Longrightarrow> tool_ids.lawful f"
proof (rule tool_ids.lawfulI)
  fix s
  assume "quiet f"
  then have "started_ids (fst (f s)) = []" "nz_tool_id_counter (snd (f s)) = nz_tool_id_counter s"
    "runtime_ids (snd (f s)) \<subseteq> runtime_ids s"
    by (simp_all add: quiet_defs)
  then show "issued s (fst (f s)) (snd (f s))"
    by (auto simp: issued_def ids_below_alt Let_def)
qed

lemma quiet_from:
  "quiet f \<Longrightarrow> nz_tool_id_counter s1 = nz_tool_id_counter s \<Longrightarrow> runtime_ids s1 \<subseteq> runtime_ids s \<Longrightarrow>
     quiet_at s (f s1)"
  unfolding quiet_defs by (metis subset_trans)

lemma quiet_no [simp]: "quiet no_emit"
  by (simp add: quiet_defs)

lemma quiet_then: "quiet f \<Longrightarrow> quiet g \<Longrightarrow> quiet (then_emit f g)"
  unfolding quiet_defs fst_snd_then_emit by fastforce

lemma quiet_modify:
  "(\<And>s. nz_tool_id_counter (u s) = nz_tool_id_counter s) \<Longrightarrow>
   (\<And>s. runtime_ids (u s) \<subseteq> runtime_ids s) \<Longrightarrow> quiet (modify_emit u)"
  by (simp add: quiet_defs)

lemma quiet_ask: "(\<And>s. quiet (f s)) \<Longrightarrow> quiet (ask_emit f)"
  by (simp add: quiet_def)

lemma quiet_each: "(\<And>x. x \<in> set xs \<Longrightarrow> quiet (f x)) \<Longrightarrow> quiet (each_emit f xs)"
  by (induction xs) (simp_all add: quiet_then)

lemma quiet_after:
  "quiet f \<Longrightarrow> (\<And>s. nz_tool_id_counter (u s) = nz_tool_id_counter s) \<Longrightarrow>
   (\<And>s. runtime_ids (u s) \<subseteq> runtime_ids s) \<Longrightarrow> quiet (\<lambda>s. f (u s))"
  unfolding quiet_def [of "\<lambda>s. f (u s)"] by (simp add: quiet_from)

lemma next_envelope_frame:
  "next_envelope_with_source E signal req parent source s = (e, t) \<Longrightarrow>
     env_signal e = signal \<and> env_request_id e = req \<and> env_parent_frame_id e = parent
     \<and> t = (tick s)\<lparr>nz_next_seq := sat_add (nz_next_seq s) 1\<rparr>"
  by (auto simp: next_envelope_with_source_def Let_def)

lemma quiet_envelope:
  "signal_started signal = [] \<Longrightarrow>
     quiet (emit_one (next_envelope_with_source E signal req parent source))"
  by (simp add: quiet_defs emit_one_def next_envelope_with_source_def Let_def runtime_ids_def)

lemma quiet_emits:
  "signal_started signal = [] \<Longrightarrow> quiet (emit_from E signal source)"
  "signal_started signal = [] \<Longrightarrow> quiet (emit_signal E signal)"
  "signal_started signal = [] \<Longrightarrow> quiet (emit_one (next_envelope_with_context E signal req parent))"
  by (simp_all add: emit_from_def emit_signal_def next_envelope_def next_envelope_with_context_def
      quiet_envelope)

lemma runtime_ids_frames [simp]:
  "runtime_ids (clear_turn s) = {}"
  "runtime_ids (reset_for_pulse p s) = {}"
  "runtime_ids (finish_pending_tool_accumulations E s) = runtime_ids s"
  "runtime_ids (finish_tool_accumulator E tid s) = runtime_ids s"
  "runtime_ids (track_streaming_block i b s) = runtime_ids s"
  "runtime_ids (s\<lparr>nz_block_sources := bs\<rparr>) = runtime_ids s"
  "runtime_ids (s\<lparr>nz_streaming_tool_call_blocks := ss\<rparr>) = runtime_ids s"
  by (simp_all add: runtime_ids_def)

lemma append_to_call_ids:
  "map (ptc_runtime_id \<circ> snd) (snd (append_to_call sj tid delta ps)) = map (ptc_runtime_id \<circ> snd) ps"
  by (induction ps) (auto simp: Let_def split: option.splits prod.splits)

lemma runtime_ids_append [simp]:
  "runtime_ids (snd (append_pending_tool_delta E tid delta s)) = runtime_ids s"
proof -
  have "runtime_ids (snd (append_pending_tool_delta E tid delta s))
      = set (map (ptc_runtime_id \<circ> snd)
          (snd (append_to_call (json_lib E) tid delta (nz_pending_tool_calls s))))"
    by (simp add: append_pending_tool_delta_def runtime_ids_def split: prod.splits)
  then show ?thesis by (simp add: append_to_call_ids runtime_ids_def)
qed

lemma quiet_arguments_delta: "quiet (record_tool_call_arguments_delta E tid delta)"
proof -
  have "quiet_at s (record_tool_call_arguments_delta E tid delta s)" for s
  proof -
    obtain err s1 where 1: "accumulate_tool_delta E tid delta s = (err, s1)" by fastforce
    obtain r s2 where 2: "append_pending_tool_delta E tid delta s1 = (r, s2)" by fastforce
    have "nz_tool_id_counter s1 = nz_tool_id_counter s" "runtime_ids s1 = runtime_ids s"
      using same_tablesD(4,9) [OF same_tables_accumulate, of E tid delta s] 1
      by (simp_all add: runtime_ids_def)
    moreover have "nz_tool_id_counter s2 = nz_tool_id_counter s1" "runtime_ids s2 = runtime_ids s1"
      using append_pending_frame(4) [of E tid delta s1] runtime_ids_append [of E tid delta s1] 2
      by simp_all
    ultimately show ?thesis
      unfolding record_tool_call_arguments_delta_def Let_def 1 2 prod.case
      by (intro quiet_from quiet_emits) simp_all
  qed
  then show ?thesis by (simp add: quiet_def)
qed

lemma runtime_ids_delete:
  "runtime_ids (s\<lparr>nz_pending_tool_calls := AList.delete k (nz_pending_tool_calls s'),
     nz_pending_tool_call_contexts := cs\<rparr>)
     \<subseteq> (ptc_runtime_id \<circ> snd) ` set (nz_pending_tool_calls s')"
  by (auto simp: runtime_ids_def AList.delete_eq)

lemma result_signal_started [simp]: "signal_started (result_signal b tid n st c d out) = []"
  by (simp add: result_signal_def)

lemma quiet_tool_result: "quiet (record_tool_result E source_id output is_error)"
proof -
  have "quiet_at s (record_tool_result E source_id output is_error s)" for s
  proof (cases "map_of (nz_pending_tool_calls s) source_id")
    case None
    have "runtime_ids (tick s) = runtime_ids s" by (simp add: runtime_ids_def)
    with None show ?thesis
      by (auto simp: record_tool_result_def Let_def intro!: quiet_from quiet_emits)
  next
    case (Some call)
    let ?s2 = "(tick s)\<lparr>nz_pending_tool_calls := AList.delete source_id (nz_pending_tool_calls s),
        nz_pending_tool_call_contexts :=
          AList.delete (ptc_runtime_id call) (nz_pending_tool_call_contexts s)\<rparr>"
    have "runtime_ids ?s2 \<subseteq> runtime_ids s"
      using runtime_ids_delete [where s = "tick s" and s' = s and k = source_id] by (simp add: runtime_ids_def)
    moreover have "runtime_ids (t\<lparr>nz_turn_changed_files := fs\<rparr>) = runtime_ids t" for t fs
      by (simp add: runtime_ids_def)
    ultimately show ?thesis
      using Some
      by (cases is_error)
         (simp_all add: record_tool_result_def Let_def quiet_from quiet_emits)
  qed
  then show ?thesis by (simp add: quiet_def)
qed

lemma quiet_close_final: "quiet (close_open_final_text_block E)"
  unfolding quiet_def close_open_final_text_block_def
proof
  fix s
  show "quiet_at s (case nz_open_final_text_block s of None \<Rightarrow> ([], s)
      | Some index \<Rightarrow> emit_from E (TranscriptBlockComplete index) (map_of (nz_block_sources s) index)
          (s\<lparr>nz_open_final_text_block := None,
             nz_block_sources := AList.delete index (nz_block_sources s)\<rparr>))"
    by (cases "nz_open_final_text_block s")
       (auto simp: quiet_at_def [of _ "([], s)" for s] runtime_ids_def intro!: quiet_from quiet_emits)
qed

lemma quiet_end_turn: "quiet (finish_turn_with_status E status turn_end)"
  unfolding finish_turn_with_status_def
  by (intro quiet_ask quiet_then quiet_modify quiet_close_final quiet_emits) simp_all

lemma quiet_end_failed:
  "\<forall>sig \<in> set sigs. signal_started sig = [] \<Longrightarrow> quiet (end_failed E sigs turn_end)"
  unfolding end_failed_def
  by (intro quiet_ask quiet_then quiet_modify quiet_each quiet_emits) simp_all

lemma quiet_error: "quiet (emit_error E code message recoverable turn_end)"
  unfolding emit_error_def
  by (cases recoverable) (simp_all add: quiet_then quiet_close_final quiet_emits quiet_end_failed)

lemma quiet_max_turns: "quiet (emit_max_turns_reached E n turn_end)"
  unfolding emit_max_turns_reached_def
  by (intro quiet_then quiet_close_final quiet_end_failed) simp

lemma quiet_stream_delta: "quiet (stream_delta E text)"
  by (simp add: quiet_defs stream_delta_def ensure_open_final_text_block_def emit_from_def emit_one_def
      next_envelope_with_source_def Let_def runtime_ids_def split: option.splits)

lemma quiet_block_delta: "quiet (stream_block_delta E index delta)"
  unfolding stream_block_delta_def
  by (intro quiet_ask quiet_then quiet_emits)
     (simp_all add: quiet_arguments_delta split: option.splits)

lemma quiet_block_complete: "quiet (stream_block_complete E index)"
  unfolding stream_block_complete_def
  by (intro quiet_ask quiet_then quiet_emits quiet_modify) (simp_all split: option.splits)

lemma quiet_open_block: "quiet (open_block E index block)"
  unfolding open_block_def by (rule quiet_after) (simp_all add: quiet_emits)

text \<open>Only the registration of a call hands out an id.\<close>

lemma register_tool_call_shape:
  assumes "register_tool_call E source_id name arguments s = (e, t)"
  obtains tid h started where
    "tid = tool_call_id_of (tool_count (nz_tool_id_counter s)) h"
    "env_signal e = ToolCallStarted tid name arguments Pending (timestamp_string E started)"
    "env_parent_frame_id e = None"
    "nz_tool_id_counter t = (nz_tool_id_counter s + 1) mod u32_modulus"
    "nz_pending_tool_calls t =
       AList.update (case source_id of Some k \<Rightarrow> k | None \<Rightarrow> tid)
         \<lparr>ptc_runtime_id = tid, ptc_name = name, ptc_arguments = arguments,
          ptc_raw_arguments = serialize_tool_arguments (json_lib E) arguments,
          ptc_start_frame_id = env_frame_id e, ptc_started_at = started\<rparr>
         (nz_pending_tool_calls s)"
    "nz_pending_tool_call_contexts t =
       AList.update tid \<lparr>pcx_name = name, pcx_start_frame_id = env_frame_id e\<rparr>
         (nz_pending_tool_call_contexts s)"
    "nz_streaming_tool_call_blocks t = nz_streaming_tool_call_blocks s"
    "nz_block_sources t = nz_block_sources s"
proof -
  let ?h = "tool_entropy (utc_now E (nz_reads s)) (nz_tool_id_counter s)"
  let ?tid = "tool_call_id_of (tool_count (nz_tool_id_counter s)) ?h"
  let ?started = "utc_now E (Suc (nz_reads s))"
  obtain e' s2 where nx: "next_envelope E (ToolCallStarted ?tid name arguments Pending
      (timestamp_string E ?started))
      (tick ((tick s)\<lparr>nz_tool_id_counter := (nz_tool_id_counter s + 1) mod u32_modulus\<rparr>)) = (e', s2)"
    by fastforce
  let ?s3 = "s2\<lparr>nz_pending_tool_calls :=
      AList.update (case source_id of Some k \<Rightarrow> k | None \<Rightarrow> ?tid)
        \<lparr>ptc_runtime_id = ?tid, ptc_name = name, ptc_arguments = arguments,
         ptc_raw_arguments = serialize_tool_arguments (json_lib E) arguments,
         ptc_start_frame_id = env_frame_id e', ptc_started_at = ?started\<rparr>
        (nz_pending_tool_calls s2),
      nz_pending_tool_call_contexts :=
        AList.update ?tid \<lparr>pcx_name = name, pcx_start_frame_id = env_frame_id e'\<rparr>
          (nz_pending_tool_call_contexts s2)\<rparr>"
  have "nz_reads (tick s) = Suc (nz_reads s)" by (simp add: tick_def)
  with assms nx have et: "e = e'"
    "t = seed_tool_accumulator E ?tid arguments (start_tool_accumulator E ?tid name ?s3)"
    by (auto simp: register_tool_call_def generate_tool_call_id_def Let_def)
  from nx have s2: "env_signal e' = ToolCallStarted ?tid name arguments Pending
       (timestamp_string E ?started)" "env_parent_frame_id e' = None"
    "s2 = (tick (tick ((tick s)\<lparr>nz_tool_id_counter := (nz_tool_id_counter s + 1) mod u32_modulus\<rparr>)))
       \<lparr>nz_next_seq := sat_add (nz_next_seq s) 1\<rparr>"
    by (auto simp: next_envelope_def next_envelope_with_context_def dest!: next_envelope_frame)
  show ?thesis
    by (rule that [of ?tid ?h ?started]) (simp_all add: et s2)
qed

lemma issued_register: "tool_ids.lawful (emit_one (register_tool_call E source_id name arguments))"
proof (rule tool_ids.lawfulI)
  fix s
  obtain e t where r: "register_tool_call E source_id name arguments s = (e, t)" by fastforce
  obtain tid h started where shape:
    "tid = tool_call_id_of (tool_count (nz_tool_id_counter s)) h"
    "env_signal e = ToolCallStarted tid name arguments Pending (timestamp_string E started)"
    "nz_tool_id_counter t = (nz_tool_id_counter s + 1) mod u32_modulus"
    "runtime_ids t \<subseteq> insert tid (runtime_ids s)"
  proof (rule register_tool_call_shape [OF r], goal_cases)
    case (1 tid h started)
    have "runtime_ids t \<subseteq> insert tid (runtime_ids s)"
      unfolding runtime_ids_def 1(6) image_comp [symmetric]
      by (auto dest!: update_in)
    with 1 show ?case by blast
  qed
  have "tool_count c = Suc c" if "c + 1 < u32_modulus" for c
    using that by (simp add: tool_count_def)
  note count = this
  have mono: "insert (tool_call_id_of (Suc c) h) {tool_call_id_of k h | k h. k \<le> c}
      \<subseteq> {tool_call_id_of k h | k h. k \<le> Suc c}" for c
    by (auto intro: le_SucI)
  have "issued s [e] t"
    unfolding issued_def Let_def ids_below_alt
  proof (intro impI conjI)
    assume "nz_tool_id_counter s + length (started_ids [e]) < u32_modulus"
    then have c: "Suc (nz_tool_id_counter s) < u32_modulus" using shape(2) by simp
    then show "nz_tool_id_counter t = nz_tool_id_counter s + length (started_ids [e])"
      using shape(2,3) by simp
    show "list_all2 (\<lambda>tid k. \<exists>h. tid = tool_call_id_of k h) (started_ids [e])
        [Suc (nz_tool_id_counter s) ..< Suc (nz_tool_id_counter s + length (started_ids [e]))]"
      using c shape(1,2) count by auto
    assume "runtime_ids s \<subseteq> {tool_call_id_of k h | k h. k \<le> nz_tool_id_counter s}"
    then have "runtime_ids t
        \<subseteq> insert tid {tool_call_id_of k h | k h. k \<le> nz_tool_id_counter s}"
      using shape(4) by blast
    also have "\<dots> \<subseteq> {tool_call_id_of k h | k h. k \<le> Suc (nz_tool_id_counter s)}"
      using mono c count shape(1) by simp
    finally show "runtime_ids t \<subseteq> {tool_call_id_of k h | k h. k \<le> nz_tool_id_counter t}"
      using c shape(3) by simp
  qed
  then show "issued s (fst (emit_one (register_tool_call E source_id name arguments) s))
      (snd (emit_one (register_tool_call E source_id name arguments) s))"
    by (simp add: emit_one_def r)
qed

lemma issued_record_tool_call: "tool_ids.lawful (record_tool_call E source_id name arguments)"
  by (simp add: record_tool_call_def issued_register)

lemma issued_grammar: "tool_ids.lawful (normalize_grammar_tool_call E v)"
  unfolding normalize_grammar_tool_call_def
  by (intro tool_ids.lawful_option) (auto simp: issued_register)

lemma issued_stream_block: "tool_ids.lawful (normalize_stream_block E b)"
  by (cases b) (auto simp: issued_record_tool_call intro: quiet_issued quiet_tool_result)

lemma issued_content_block: "tool_ids.lawful (normalize_content_block E b)"
  by (cases b) (auto simp: issued_record_tool_call intro: quiet_issued quiet_tool_result)

lemma issued_array: "tool_ids.lawful (normalize_tool_call_array E v)"
  by (cases v) (auto simp: issued_grammar intro: tool_ids.lawful_each)

lemma issued_block_start: "tool_ids.lawful (stream_block_start E index block)"
  unfolding stream_block_start_def
  by (intro tool_ids.lawful_then issued_stream_block)
     (auto intro!: quiet_issued quiet_close_final quiet_open_block quiet_modify)

lemma issued_ui_update: "tool_ids.lawful (normalize_ui_update E u turn_end)"
proof (cases u)
  case (StreamBlockStart i b)
  then show ?thesis by (simp add: issued_block_start)
qed (auto intro!: quiet_issued quiet_then quiet_close_final quiet_emits quiet_stream_delta
      quiet_block_delta quiet_block_complete quiet_end_turn quiet_error
      simp: complete_turn_def approval_request_signal_def)

text \<open>Operations that do not pass a foreign start event through.\<close>

fun no_foreign_start :: "handoff_op \<Rightarrow> bool" where
  "no_foreign_start (SignalOp signal) = (signal_started signal = [])"
| "no_foreign_start _ = True"

lemma quiet_request: "quiet (normalize_runtime_request E r)"
  by (cases r) (simp_all add: normalize_runtime_request_def quiet_emits)

lemma quiet_start_pulse: "quiet (start_pulse E p input)"
  unfolding start_pulse_def by (rule quiet_after) (simp_all add: quiet_emits)

lemma issued_run_op: "no_foreign_start op \<Longrightarrow> tool_ids.lawful (run_op E op)"
  by (cases op)
     (auto simp: issued_ui_update issued_content_block issued_stream_block issued_array
        emit_cancelled_def
       intro!: quiet_issued quiet_request quiet_start_pulse quiet_error quiet_max_turns
        quiet_end_turn quiet_emits)

lemma issued_run_ops: "\<forall>op \<in> set ops. no_foreign_start op \<Longrightarrow> tool_ids.lawful (run_ops E ops)"
  unfolding run_ops_def
  by (induction ops) (auto intro!: tool_ids.lawful_then issued_run_op)

lemma append_sep_inject:
  "c \<notin> set a \<Longrightarrow> c \<notin> set b \<Longrightarrow> a @ c # x = b @ c # y \<Longrightarrow> a = b"
proof (induction a arbitrary: b)
  case (Cons d a)
  then show ?case by (cases b) auto
qed (auto simp: Cons_eq_append_conv)

lemma tool_call_id_count: "tool_call_id_of k h = tool_call_id_of m g \<Longrightarrow> k = m"
  using append_sep_inject [of "CHR ''_''" "nat_dec k" "nat_dec m" "hex4 h" "hex4 g"]
  by (simp add: tool_call_id_of_def nat_dec_no_punct)

lemma issued_distinct:
  assumes "list_all2 (\<lambda>tid k. \<exists>h. tid = tool_call_id_of k h) ids ks" "distinct ks"
  shows "distinct ids"
  using assms
proof (induction rule: list_all2_induct)
  case (Cons x xs y ys)
  have "x \<noteq> z" if "z \<in> set xs" for z
  proof -
    from that obtain i where i: "i < length xs" "xs ! i = z" by (auto simp: in_set_conv_nth)
    with list_all2_nthD [OF Cons(2)] obtain h where z: "z = tool_call_id_of (ys ! i) h" by auto
    from i list_all2_lengthD [OF Cons(2)] have "ys ! i \<in> set ys" by simp
    with Cons.prems have "ys ! i \<noteq> y" by auto
    moreover from Cons(1) obtain g where "x = tool_call_id_of y g" by blast
    ultimately show ?thesis using z tool_call_id_count by metis
  qed
  with Cons show ?case by auto
qed simp

text \<open>
  Whatever operations are applied to a fresh normalizer, no two tool calls
  it announces carry the same id, as long as fewer than \<open>2^32\<close> calls are announced.
\<close>

theorem tool_call_ids_unique:
  assumes "run_ops E ops (new_inner task acc) = (es, s)"
    and "\<forall>op \<in> set ops. no_foreign_start op"
    and "length (started_ids es) < u32_modulus"
  shows "distinct (started_ids es)"
proof -
  have "issued (new_inner task acc) es s"
    by (rule tool_ids.lawful_app [OF issued_run_ops [OF assms(2)] assms(1)])
  moreover have "nz_tool_id_counter (new_inner task acc) = 0" by (simp add: new_inner_def)
  ultimately have "list_all2 (\<lambda>tid k. \<exists>h. tid = tool_call_id_of k h) (started_ids es)
      [1 ..< Suc (length (started_ids es))]"
    using assms(3) by (simp add: issued_def Let_def del: upt_Suc)
  then show ?thesis by (rule issued_distinct) simp
qed

theorem tool_call_ids_unique_witness:
  "case run_ops sample_env
      [StartPulse 1 None, ContentBlockOp (ToolUseContent ''a'' ''search'' (JObject []) None),
       ContentBlockOp (ToolUseContent ''a'' ''search'' (JObject []) None)] (new_inner ''t'' None) of
     (es, s) \<Rightarrow> length (started_ids es) = 2 \<and> distinct (started_ids es)"
proof -
  let ?ops = "[StartPulse 1 None, ContentBlockOp (ToolUseContent ''a'' ''search'' (JObject []) None),
       ContentBlockOp (ToolUseContent ''a'' ''search'' (JObject []) None)]"
  define r where "r = run_ops sample_env ?ops (new_inner ''t'' None)"
  have len: "length (started_ids (fst r)) = 2"
    unfolding r_def
    by (simp add: eval_defs record_tool_call_def register_tool_call_def generate_tool_call_id_def
        split: prod.splits)
  obtain es s where es: "r = (es, s)" by fastforce
  with len have "length (started_ids es) < u32_modulus" by (simp add: u32_modulus_def)
  from tool_call_ids_unique [OF es [unfolded r_def] _ this] len show ?thesis
    unfolding r_def [symmetric] by (simp add: es)
qed

section \<open>Correlation of results\<close>

definition call_key :: "pending_tool_call \<Rightarrow> string \<times> string \<times> string \<times> int" where
  "call_key p = (ptc_runtime_id p, ptc_name p, ptc_start_frame_id p, ptc_started_at p)"

definition keeps_call :: "string \<Rightarrow> normalizer \<Rightarrow> runtime_envelope list \<Rightarrow> normalizer \<Rightarrow> bool" where
  "keeps_call sid s es t \<longleftrightarrow>
     map_option call_key (map_of (nz_pending_tool_calls t) sid)
       = map_option call_key (map_of (nz_pending_tool_calls s) sid)"

interpretation keeps: emitter_law "keeps_call sid" for sid
  by unfold_locales (simp_all add: keeps_call_def)

lemma pending_emits [simp]:
  "nz_pending_tool_calls (snd (emit_from E signal source s)) = nz_pending_tool_calls s"
  "nz_pending_tool_calls (snd (emit_signal E signal s)) = nz_pending_tool_calls s"
  "nz_pending_tool_calls (snd (emit_one (next_envelope_with_context E signal req parent) s))
     = nz_pending_tool_calls s"
  by (simp_all add: emit_from_def emit_signal_def emit_one_def next_envelope_def
      next_envelope_with_context_def next_envelope_with_source_def Let_def)

lemma pending_close [simp]:
  "nz_pending_tool_calls (snd (close_open_final_text_block E s)) = nz_pending_tool_calls s"
  by (simp add: close_open_final_text_block_def split: option.splits)

lemma keeps_emits [simp]:
  "keeps.lawful sid (emit_from E signal source)"
  "keeps.lawful sid (emit_signal E signal)"
  "keeps.lawful sid (emit_one (next_envelope_with_context E signal req parent))"
  "keeps.lawful sid (close_open_final_text_block E)"
  by (rule keeps.lawfulI, simp add: keeps_call_def)+

lemma append_to_call_keys:
  "map_option call_key (map_of (snd (append_to_call sj tid delta ps)) k)
     = map_option call_key (map_of ps k)"
  by (induction ps) (auto simp: Let_def call_key_def split: option.splits prod.splits)

lemma keeps_arguments_delta [simp]:
  "keeps.lawful sid (record_tool_call_arguments_delta E tid delta)"
proof (rule keeps.lawfulI)
  fix s
  obtain err s1 where 1: "accumulate_tool_delta E tid delta s = (err, s1)" by fastforce
  obtain r s2 where 2: "append_pending_tool_delta E tid delta s1 = (r, s2)" by fastforce
  have "nz_pending_tool_calls s1 = nz_pending_tool_calls s"
    using same_tablesD(4) [OF same_tables_accumulate, of E tid delta s] 1 by simp
  moreover have "nz_pending_tool_calls s2
      = snd (append_to_call (json_lib E) tid delta (nz_pending_tool_calls s1))"
    using 2 by (auto simp: append_pending_tool_delta_def split: prod.splits)
  ultimately show "keeps_call sid s (fst (record_tool_call_arguments_delta E tid delta s))
      (snd (record_tool_call_arguments_delta E tid delta s))"
    by (simp add: record_tool_call_arguments_delta_def Let_def 1 2 keeps_call_def
        append_to_call_keys)
qed

lemma keeps_record_tool_call: "i \<noteq> sid \<Longrightarrow> keeps.lawful sid (record_tool_call E i name arguments)"
proof (rule keeps.lawfulI)
  fix s
  assume "i \<noteq> sid"
  obtain e t where r: "register_tool_call E (Some i) name arguments s = (e, t)" by fastforce
  obtain c where "nz_pending_tool_calls t = AList.update i c (nz_pending_tool_calls s)"
    by (rule register_tool_call_shape [OF r]) simp
  with r \<open>i \<noteq> sid\<close> show "keeps_call sid s (fst (record_tool_call E i name arguments s))
      (snd (record_tool_call E i name arguments s))"
    by (simp add: record_tool_call_def emit_one_def keeps_call_def update_conv')
qed

lemma keeps_record_tool_result: "i \<noteq> sid \<Longrightarrow> keeps.lawful sid (record_tool_result E i output is_error)"
  by (rule keeps.lawfulI)
     (simp add: record_tool_result_def Let_def keeps_call_def delete_conv' split: option.splits)

fun block_avoids :: "string \<Rightarrow> stream_block \<Rightarrow> bool" where
  "block_avoids sid (ToolCall i name input status) = (i \<noteq> sid)"
| "block_avoids sid (ToolResult i output is_error) = (i \<noteq> sid)"
| "block_avoids sid _ = True"

fun content_avoids :: "string \<Rightarrow> content_block \<Rightarrow> bool" where
  "content_avoids sid (ToolUseContent i name input metadata) = (i \<noteq> sid)"
| "content_avoids sid (ServerToolUseContent i name input) = (i \<noteq> sid)"
| "content_avoids sid (ToolResultContent i content is_error) = (i \<noteq> sid)"
| "content_avoids sid _ = True"

text \<open>Operations that neither end the turn nor concern the call \<open>sid\<close>.\<close>

fun op_avoids :: "string \<Rightarrow> handoff_op \<Rightarrow> bool" where
  "op_avoids sid (UiUpdate u turn_end) =
     (case u of PulseComplete \<Rightarrow> False | Error_ui m \<Rightarrow> False
      | StreamBlockStart i b \<Rightarrow> block_avoids sid b | _ \<Rightarrow> True)"
| "op_avoids sid (Request r) = True"
| "op_avoids sid (ContentBlockOp b) = content_avoids sid b"
| "op_avoids sid (StreamBlockOp b) = block_avoids sid b"
| "op_avoids sid (ErrorOp code message recoverable turn_end) = recoverable"
| "op_avoids sid (SignalOp signal) = True"
| "op_avoids sid _ = False"

lemma keeps_stream_block: "block_avoids sid b \<Longrightarrow> keeps.lawful sid (normalize_stream_block E b)"
  by (cases b) (simp_all add: keeps_record_tool_call keeps_record_tool_result)

lemma keeps_content_block: "content_avoids sid b \<Longrightarrow> keeps.lawful sid (normalize_content_block E b)"
  by (cases b) (simp_all add: keeps_record_tool_call keeps_record_tool_result)

lemma keeps_open_block [simp]: "keeps.lawful sid (open_block E index block)"
  by (rule keeps.lawfulI) (simp add: open_block_def keeps_call_def)

lemma keeps_modify_same:
  "(\<And>s. nz_pending_tool_calls (u s) = nz_pending_tool_calls s) \<Longrightarrow> keeps.lawful sid (modify_emit u)"
  by (rule keeps.lawful_modify) (simp add: keeps_call_def)

lemma keeps_block_start:
  "block_avoids sid b \<Longrightarrow> keeps.lawful sid (stream_block_start E index b)"
  unfolding stream_block_start_def
  by (intro keeps.lawful_then keeps_stream_block keeps_modify_same) simp_all

lemma keeps_block_delta [simp]: "keeps.lawful sid (stream_block_delta E index delta)"
  unfolding stream_block_delta_def
  by (intro keeps.lawful_ask keeps.lawful_then keeps.lawful_option) simp_all

lemma keeps_block_complete [simp]: "keeps.lawful sid (stream_block_complete E index)"
  unfolding stream_block_complete_def
  by (intro keeps.lawful_ask keeps.lawful_then keeps_modify_same) (simp_all split: option.splits)

lemma keeps_stream_delta [simp]: "keeps.lawful sid (stream_delta E text)"
  by (rule keeps.lawfulI)
     (simp add: stream_delta_def ensure_open_final_text_block_def emit_from_def emit_one_def
      next_envelope_with_source_def Let_def keeps_call_def split: option.splits)

lemma keeps_request [simp]: "keeps.lawful sid (normalize_runtime_request E r)"
  unfolding normalize_runtime_request_def by (intro keeps.lawful_option) simp_all

lemma keeps_run_op: "op_avoids sid op \<Longrightarrow> keeps.lawful sid (run_op E op)"
proof (cases op)
  case (UiUpdate u turn_end)
  assume "op_avoids sid op"
  with UiUpdate show ?thesis by (cases u) (auto simp: keeps_block_start)
next
  case (ErrorOp code message recoverable turn_end)
  assume "op_avoids sid op"
  with ErrorOp show ?thesis by (auto simp: emit_error_def intro!: keeps.lawful_then)
qed (simp_all add: keeps_stream_block keeps_content_block)

lemma keeps_run_ops: "\<forall>op \<in> set ops. op_avoids sid op \<Longrightarrow> keeps.lawful sid (run_ops E ops)"
  unfolding run_ops_def by (induction ops) (auto intro!: keeps.lawful_then keeps_run_op)

text \<open>
  Once a call is recorded under the id \<open>sid\<close> of the provider, then,
  whatever happens meanwhile that neither ends the turn nor reuses \<open>sid\<close>, its result is reported in
  one envelope that carries the id and name announced at the start, the start time, a failed or
  completed status according to the outcome, and the frame id of the start event as parent; after it
  no call is pending under \<open>sid\<close>.
\<close>

theorem tool_result_correlates:
  assumes "record_tool_call E sid name arguments s = (es, s1)"
    and "run_ops E ops s1 = (ms, s2)" and "\<forall>op \<in> set ops. op_avoids sid op"
    and "record_tool_result E sid out is_error s2 = (rs, s3)"
  shows "\<exists>start result tid started completed duration.
     es = [start] \<and> rs = [result]
     \<and> env_signal start = ToolCallStarted tid name arguments Pending started
     \<and> env_signal result = result_signal is_error tid (Some name) (Some started) completed
         (Some duration) out
     \<and> env_parent_frame_id result = Some (env_frame_id start)
     \<and> map_of (nz_pending_tool_calls s3) sid = None"
proof -
  obtain e where es: "es = [e]" and reg: "register_tool_call E (Some sid) name arguments s = (e, s1)"
    using assms(1) by (auto simp: record_tool_call_def emit_one_def split: prod.splits)
  obtain tid started where
    sig: "env_signal e = ToolCallStarted tid name arguments Pending (timestamp_string E started)"
    and key: "map_option call_key (map_of (nz_pending_tool_calls s1) sid)
      = Some (tid, name, env_frame_id e, started)"
    by (rule register_tool_call_shape [OF reg]) (simp add: update_conv' call_key_def)
  have "keeps_call sid s1 ms s2"
    by (rule keeps.lawful_app [OF keeps_run_ops [OF assms(3)] assms(2)])
  with key obtain call where call: "map_of (nz_pending_tool_calls s2) sid = Some call"
    and ck: "call_key call = (tid, name, env_frame_id e, started)"
    by (auto simp: keeps_call_def)
  let ?sig = "result_signal is_error tid (Some name) (Some (timestamp_string E started))
     (timestamp_string E (utc_now E (nz_reads s2)))
     (Some (duration_ms (utc_now E (nz_reads s2)) started)) out"
  obtain u where run: "emit_one (next_envelope_with_context E ?sig None (Some (env_frame_id e))) u
       = (rs, s3)"
    and u: "map_of (nz_pending_tool_calls u) sid = None"
    using assms(4) call ck
    by (cases is_error)
       (auto simp: record_tool_result_def Let_def call_key_def delete_conv')
  obtain r where r: "rs = [r]" "env_signal r = ?sig" "env_parent_frame_id r = Some (env_frame_id e)"
    using run by (auto simp: emit_one_def next_envelope_with_context_def next_envelope_with_source_def
        Let_def)
  have "map_of (nz_pending_tool_calls s3) sid = None"
    using u pending_emits(3) [of E ?sig None "Some (env_frame_id e)" u] run by simp
  with es sig r show ?thesis by auto
qed

theorem tool_result_correlates_witness:
  "\<exists>start result tid started completed duration.
     fst (record_tool_call sample_env ''a'' ''search'' (JObject []) (new_inner ''t'' None)) = [start]
     \<and> fst (record_tool_result sample_env ''a'' ''found'' False
         (snd (run_ops sample_env [UiUpdate (StreamDelta ''hi'') None]
           (snd (record_tool_call sample_env ''a'' ''search'' (JObject []) (new_inner ''t'' None))))))
         = [result]
     \<and> env_signal start = ToolCallStarted tid ''search'' (JObject []) Pending started
     \<and> env_signal result = result_signal False tid (Some ''search'') (Some started) completed
         (Some duration) ''found''
     \<and> env_parent_frame_id result = Some (env_frame_id start)
     \<and> map_of (nz_pending_tool_calls (snd (record_tool_result sample_env ''a'' ''found'' False
         (snd (run_ops sample_env [UiUpdate (StreamDelta ''hi'') None]
           (snd (record_tool_call sample_env ''a'' ''search'' (JObject [])
             (new_inner ''t'' None)))))))) ''a'' = None"
  by (rule tool_result_correlates [OF surjective_pairing surjective_pairing _ surjective_pairing])
     simp

section \<open>Assembly of streamed arguments\<close>

text \<open>The pending call \<open>c\<close> under \<open>sid\<close> is the only one with its runtime id.\<close>

definition sole_call :: "string \<Rightarrow> pending_tool_call \<Rightarrow> (string \<times> pending_tool_call) list \<Rightarrow> bool" where
  "sole_call sid c ps \<longleftrightarrow> map_of ps sid = Some c
     \<and> (\<forall>p \<in> set ps. ptc_runtime_id (snd p) = ptc_runtime_id c \<longrightarrow> fst p = sid)"

definition parse_arguments :: "serde \<Rightarrow> string \<Rightarrow> json option" where
  "parse_arguments sj raw =
     (case from_str sj raw of Some j \<Rightarrow> Some j | None \<Rightarrow> from_str sj (trim raw))"

definition appended :: "serde \<Rightarrow> string \<Rightarrow> pending_tool_call \<Rightarrow> pending_tool_call" where
  "appended sj delta c =
     (let raw = ptc_raw_arguments c @ delta in
      case parse_arguments sj raw of
        Some j \<Rightarrow> c\<lparr>ptc_raw_arguments := raw, ptc_arguments := j\<rparr>
      | None \<Rightarrow> c\<lparr>ptc_raw_arguments := raw\<rparr>)"

lemma appended_simps [simp]:
  "ptc_runtime_id (appended sj delta c) = ptc_runtime_id c"
  "ptc_raw_arguments (appended sj delta c) = ptc_raw_arguments c @ delta"
  "parse_arguments sj (ptc_raw_arguments c @ delta) = Some j \<Longrightarrow>
     ptc_arguments (appended sj delta c) = j"
  by (simp_all add: appended_def Let_def split: option.splits)

lemma append_to_call_sole:
  "sole_call sid c ps \<Longrightarrow>
     append_to_call sj (ptc_runtime_id c) delta ps
       = (parse_arguments sj (ptc_raw_arguments c @ delta), AList.update sid (appended sj delta c) ps)"
proof (induction ps)
  case (Cons p ps)
  obtain k q where p: "p = (k, q)" by (cases p)
  show ?case
  proof (cases "ptc_runtime_id q = ptc_runtime_id c")
    case True
    with Cons.prems p have "k = sid" "q = c" by (auto simp: sole_call_def)
    with p show ?thesis
      by (simp add: appended_def parse_arguments_def Let_def split: option.splits)
  next
    case False
    with Cons.prems p have "k \<noteq> sid" by (auto simp: sole_call_def)
    with Cons.prems p have "sole_call sid c ps" by (auto simp: sole_call_def)
    from Cons.IH [OF this] False p \<open>k \<noteq> sid\<close> show ?thesis by simp
  qed
qed (simp add: sole_call_def)

lemma sole_call_update:
  "sole_call sid c ps \<Longrightarrow> ptc_runtime_id d = ptc_runtime_id c \<Longrightarrow> sole_call sid d (AList.update sid d ps)"
  by (auto simp: sole_call_def update_conv' dest!: update_in)

text \<open>A block that streams the arguments of the call \<open>c\<close>.\<close>

definition streams :: "nat \<Rightarrow> string \<Rightarrow> pending_tool_call \<Rightarrow> normalizer \<Rightarrow> bool" where
  "streams i sid c s \<longleftrightarrow> map_of (nz_streaming_tool_call_blocks s) i = Some (ptc_runtime_id c)
     \<and> sole_call sid c (nz_pending_tool_calls s)"

lemma streaming_emits [simp]:
  "nz_streaming_tool_call_blocks (snd (emit_from E signal source s)) = nz_streaming_tool_call_blocks s"
  "nz_streaming_tool_call_blocks (snd (emit_one (next_envelope_with_context E signal req parent) s))
     = nz_streaming_tool_call_blocks s"
  by (simp_all add: emit_from_def emit_one_def next_envelope_with_context_def
      next_envelope_with_source_def Let_def)

lemma block_delta_streams:
  assumes "streams i sid c s"
  shows "streams i sid (appended (json_lib E) delta c) (snd (stream_block_delta E i delta s))"
    and "\<exists>name invalid. env_signal (last (fst (stream_block_delta E i delta s)))
       = ToolCallArgumentsDelta (ptc_runtime_id c) name delta Pending
           (parse_arguments (json_lib E) (ptc_raw_arguments c @ delta)) invalid"
proof -
  let ?tid = "ptc_runtime_id c"
  define s1 where
    "s1 = snd (emit_from E (TranscriptBlockDelta i delta) (map_of (nz_block_sources s) i) s)"
  have s1: "streams i sid c s1"
    using assms by (simp add: streams_def s1_def)
  obtain err s2 where acc: "accumulate_tool_delta E ?tid delta s1 = (err, s2)" by fastforce
  have s2: "nz_pending_tool_calls s2 = nz_pending_tool_calls s1"
    "nz_streaming_tool_call_blocks s2 = nz_streaming_tool_call_blocks s1"
    using same_tablesD(4,6) [OF same_tables_accumulate, of E ?tid delta s1] acc by simp_all
  have sole: "sole_call sid c (nz_pending_tool_calls s1)" using s1 by (simp add: streams_def)
  note app = append_to_call_sole [OF sole, of "json_lib E" delta]
  note upd = sole_call_update [OF sole, of "appended (json_lib E) delta c"]
  let ?cx = "map_of (nz_pending_tool_call_contexts s1) ?tid"
  let ?s3 = "s2\<lparr>nz_pending_tool_calls :=
      AList.update sid (appended (json_lib E) delta c) (nz_pending_tool_calls s1)\<rparr>"
  let ?em = "emit_one (next_envelope_with_context E (ToolCallArgumentsDelta ?tid
      (map_option pcx_name ?cx) delta Pending
      (parse_arguments (json_lib E) (ptc_raw_arguments c @ delta)) (err = Some MalformedPartial))
      None (map_option pcx_start_frame_id ?cx)) ?s3"
  have rec: "record_tool_call_arguments_delta E ?tid delta s1 = ?em"
    by (simp add: record_tool_call_arguments_delta_def Let_def acc append_pending_tool_delta_def
        app s2)
  have run: "fst (stream_block_delta E i delta s) = fst (emit_from E (TranscriptBlockDelta i delta)
      (map_of (nz_block_sources s) i) s) @ fst ?em" "snd (stream_block_delta E i delta s) = snd ?em"
    using assms rec [unfolded s1_def]
    by (simp_all add: stream_block_delta_def fst_snd_then_emit streams_def s1_def)
  show "streams i sid (appended (json_lib E) delta c) (snd (stream_block_delta E i delta s))"
    using s1 s2 upd by (simp add: run streams_def)
  show "\<exists>name invalid. env_signal (last (fst (stream_block_delta E i delta s)))
       = ToolCallArgumentsDelta ?tid name delta Pending
           (parse_arguments (json_lib E) (ptc_raw_arguments c @ delta)) invalid"
    by (simp add: run emit_one_def next_envelope_with_context_def next_envelope_with_source_def
        Let_def)
qed

abbreviation stream_deltas :: "'z runtime_env_scheme \<Rightarrow> nat \<Rightarrow> string list \<Rightarrow> handoff" where
  "stream_deltas E i ds \<equiv> each_emit (\<lambda>d. normalize_ui_update E (StreamBlockDelta i d) None) ds"

lemma each_emit_snoc: "each_emit f (xs @ [x]) s = then_emit (each_emit f xs) (f x) s"
proof (induction xs arbitrary: s)
  case Nil
  show ?case by (simp add: then_emit_def no_emit_def split: prod.splits)
next
  case (Cons y ys)
  then show ?case by (simp add: then_emit_def Let_def split: prod.splits)
qed

lemma stream_deltas_assemble:
  assumes "streams i sid c s" "ptc_raw_arguments c = []"
  shows "\<exists>d. streams i sid d (snd (stream_deltas E i ds s))
     \<and> ptc_raw_arguments d = concat ds \<and> ptc_runtime_id d = ptc_runtime_id c
     \<and> (\<forall>j. ds \<noteq> [] \<longrightarrow> parse_arguments (json_lib E) (concat ds) = Some j \<longrightarrow>
          ptc_arguments d = j
          \<and> (\<exists>name invalid. env_signal (last (fst (stream_deltas E i ds s)))
              = ToolCallArgumentsDelta (ptc_runtime_id c) name (last ds) Pending (Some j) invalid))"
proof (induction ds rule: rev_induct)
  case Nil
  with assms show ?case by (intro exI [of _ c]) simp
next
  case (snoc x xs)
  then obtain d where d: "streams i sid d (snd (stream_deltas E i xs s))"
    "ptc_raw_arguments d = concat xs" "ptc_runtime_id d = ptc_runtime_id c"
    by blast
  let ?t = "snd (stream_deltas E i xs s)"
  note 1 = block_delta_streams [OF d(1), of E x]
  have ne: "fst (stream_block_delta E i x ?t) \<noteq> []"
    by (simp add: stream_block_delta_def fst_snd_then_emit emit_from_def emit_one_def
        next_envelope_with_source_def Let_def)
  from 1 d ne show ?case
    by (intro exI [of _ "appended (json_lib E) x d"])
       (auto simp: each_emit_snoc fst_snd_then_emit)
qed

text \<open>Opening a block for a call with empty arguments starts an empty accumulation.\<close>

lemma block_start_streams:
  assumes "ids_below s" "Suc (nz_tool_id_counter s) < u32_modulus"
  shows "\<exists>c. streams i sid c (snd (stream_block_start E i (ToolCall sid name (JObject []) status) s))
     \<and> ptc_raw_arguments c = [] \<and> ptc_name c = name"
proof -
  define s2 where "s2 = snd (open_block E i (ToolCall sid name (JObject []) status)
      (snd (close_open_final_text_block E s)))"
  have frame: "nz_pending_tool_calls s2 = nz_pending_tool_calls s"
    "nz_tool_id_counter s2 = nz_tool_id_counter s"
  proof -
    show "nz_pending_tool_calls s2 = nz_pending_tool_calls s"
      by (simp add: s2_def open_block_def)
    show "nz_tool_id_counter s2 = nz_tool_id_counter s"
      using quiet_then [OF quiet_close_final [of E]
          quiet_open_block [of E i "ToolCall sid name (JObject []) status"]]
      by (simp add: s2_def quiet_defs fst_snd_then_emit)
  qed
  obtain e t where reg: "register_tool_call E (Some sid) name (JObject []) s2 = (e, t)" by fastforce
  have run: "snd (stream_block_start E i (ToolCall sid name (JObject []) status) s)
      = track_streaming_block i (ToolCall sid name (JObject []) status) t"
    by (simp add: stream_block_start_def fst_snd_then_emit s2_def [symmetric] record_tool_call_def
        emit_one_def reg)
  show ?thesis
  proof (rule register_tool_call_shape [OF reg], goal_cases)
    case (1 tid h started)
    let ?c = "\<lparr>ptc_runtime_id = tid, ptc_name = name, ptc_arguments = JObject [],
       ptc_raw_arguments = serialize_tool_arguments (json_lib E) (JObject []),
       ptc_start_frame_id = env_frame_id e, ptc_started_at = started\<rparr>"
    have pend: "nz_pending_tool_calls t = AList.update sid ?c (nz_pending_tool_calls s)"
      using 1(5) frame(1) by simp
    have tid: "tid = tool_call_id_of (Suc (nz_tool_id_counter s)) h"
      using 1(1) frame(2) assms(2) by (simp add: tool_count_def)
    have fresh: "ptc_runtime_id (snd p) \<noteq> tid" if p: "p \<in> set (nz_pending_tool_calls s)" for p
    proof
      assume eq: "ptc_runtime_id (snd p) = tid"
      from assms(1) p obtain k g where "ptc_runtime_id (snd p) = tool_call_id_of k g"
        "k \<le> nz_tool_id_counter s"
        unfolding ids_below_def by blast
      with eq tid show False by (auto dest: tool_call_id_count)
    qed
    have "sole_call sid ?c (nz_pending_tool_calls t)"
      unfolding sole_call_def pend using fresh by (auto simp: update_conv' dest!: update_in)
    then have "streams i sid ?c (track_streaming_block i (ToolCall sid name (JObject []) status) t)"
      by (simp add: streams_def track_streaming_block_def pend update_conv')
    then show ?case
      by (intro exI [of _ ?c]) (simp add: run serialize_tool_arguments_def)
  qed
qed

text \<open>
  When a tool call is opened with empty arguments and its argument
  text then arrives in any number of fragments, the pending call holds the concatenation of the
  fragments in order, its arguments are the JSON value that text denotes, and the last fragment is
  announced together with that value.
\<close>

theorem streamed_arguments_assembled:
  assumes "ids_below s" and "Suc (nz_tool_id_counter s) < u32_modulus"
    and "normalize_ui_update E (StreamBlockStart i (ToolCall sid name (JObject []) status)) None s
      = (es0, s0)"
    and "stream_deltas E i ds s0 = (es, s1)" and "ds \<noteq> []"
    and "from_str (json_lib E) (concat ds) = Some j"
  shows "\<exists>c n invalid. map_of (nz_pending_tool_calls s1) sid = Some c
     \<and> ptc_raw_arguments c = concat ds \<and> ptc_arguments c = j
     \<and> env_signal (last es)
         = ToolCallArgumentsDelta (ptc_runtime_id c) n (last ds) Pending (Some j) invalid"
proof -
  obtain c where c: "streams i sid c s0" "ptc_raw_arguments c = []"
    using block_start_streams [OF assms(1,2), of i sid E name status] assms(3) by auto
  have parse: "parse_arguments (json_lib E) (concat ds) = Some j"
    using assms(6) by (simp add: parse_arguments_def)
  from stream_deltas_assemble [OF c, of E ds] assms(4,5) parse obtain d where
    "streams i sid d s1" "ptc_raw_arguments d = concat ds" "ptc_runtime_id d = ptc_runtime_id c"
    "ptc_arguments d = j"
    "\<exists>n invalid. env_signal (last es)
       = ToolCallArgumentsDelta (ptc_runtime_id c) n (last ds) Pending (Some j) invalid"
    by auto
  then show ?thesis by (intro exI [of _ d]) (auto simp: streams_def sole_call_def)
qed

theorem streamed_arguments_assembled_witness:
  "\<exists>c n invalid.
     map_of (nz_pending_tool_calls (snd (stream_deltas sample_env 3 [''{1'', ''}'']
       (snd (normalize_ui_update sample_env
          (StreamBlockStart 3 (ToolCall ''a'' ''read_file'' (JObject []) Pending)) None
          (new_inner ''t'' None)))))) ''a'' = Some c
     \<and> ptc_raw_arguments c = concat [''{1'', ''}'']
     \<and> ptc_arguments c = JObject [(''path'', JString ''a'')]
     \<and> env_signal (last (fst (stream_deltas sample_env 3 [''{1'', ''}'']
       (snd (normalize_ui_update sample_env
          (StreamBlockStart 3 (ToolCall ''a'' ''read_file'' (JObject []) Pending)) None
          (new_inner ''t'' None))))))
         = ToolCallArgumentsDelta (ptc_runtime_id c) n (last [''{1'', ''}'']) Pending
             (Some (JObject [(''path'', JString ''a'')])) invalid"
  by (rule streamed_arguments_assembled [OF _ _ surjective_pairing surjective_pairing])
     (simp_all add: ids_below_def new_inner_def u32_modulus_def sample_env_def sample_serde_def)

end
