(* ===== verification/Derived.thy ===== *)
theory Derived
  imports Normalizer_Laws
begin

text \<open>
  The batch records derived from a trace of envelopes (\<open>src/runtime/json_handoff/derived.rs\<close> and
  \<open>derive_batch_records\<close> of \<open>src/runtime/json_handoff.rs\<close>), and the end-to-end property of the handoff:
  the response text of the derived record is the text that was streamed.
\<close>

section \<open>Token usage\<close>

definition token_usage_from_turn_tokens :: "pulse_tokens \<Rightarrow> token_usage_envelope option" where
  "token_usage_from_turn_tokens tokens =
     (if is_zero tokens then None
      else Some \<lparr>tue_input = pt_input tokens, tue_output = pt_output tokens,
                 tue_estimated = pt_estimated tokens,
                 tue_cache_creation_input = pt_cache_creation_input_tokens tokens,
                 tue_cache_read_input = pt_cache_read_input_tokens tokens\<rparr>)"

definition turn_tokens_from_usage :: "token_usage_envelope \<Rightarrow> pulse_tokens" where
  "turn_tokens_from_usage usage =
     \<lparr>pt_input = tue_input usage, pt_output = tue_output usage,
      pt_estimated = tue_estimated usage,
      pt_cache_creation_input_tokens = tue_cache_creation_input usage,
      pt_cache_read_input_tokens = tue_cache_read_input usage\<rparr>"

section \<open>The state of a derived turn\<close>

record derived_turn_state =
  dt_pulse :: nat
  dt_input :: string
  dt_transcript_response :: string
  dt_pending_final_text_blocks :: "(nat \<times> string) list"
  dt_changed_files :: "string list"
  dt_command_history :: "command_evidence list"
  dt_tokens :: pulse_tokens

definition derived_turn_default :: derived_turn_state where
  "derived_turn_default =
     \<lparr>dt_pulse = 0, dt_input = [], dt_transcript_response = [], dt_pending_final_text_blocks = [],
      dt_changed_files = [], dt_command_history = [], dt_tokens = pulse_tokens_default\<rparr>"

definition start_final_text_block :: "nat \<Rightarrow> string \<Rightarrow> derived_turn_state \<Rightarrow> derived_turn_state" where
  "start_final_text_block index content d =
     d\<lparr>dt_pending_final_text_blocks :=
         AList.update index content (dt_pending_final_text_blocks d)\<rparr>"

definition append_final_text_delta :: "nat \<Rightarrow> string \<Rightarrow> derived_turn_state \<Rightarrow> derived_turn_state" where
  "append_final_text_delta index delta d =
     (case map_of (dt_pending_final_text_blocks d) index of
        Some content \<Rightarrow>
          d\<lparr>dt_pending_final_text_blocks :=
              AList.update index (content @ delta) (dt_pending_final_text_blocks d)\<rparr>
      | None \<Rightarrow> d)"

definition complete_final_text_block :: "nat \<Rightarrow> derived_turn_state \<Rightarrow> derived_turn_state" where
  "complete_final_text_block index d =
     (case map_of (dt_pending_final_text_blocks d) index of
        Some content \<Rightarrow>
          d\<lparr>dt_pending_final_text_blocks :=
              AList.delete index (dt_pending_final_text_blocks d),
            dt_transcript_response := dt_transcript_response d @ content\<rparr>
      | None \<Rightarrow> d)"

definition flush_open_final_text_blocks :: "derived_turn_state \<Rightarrow> derived_turn_state" where
  "flush_open_final_text_blocks d =
     d\<lparr>dt_pending_final_text_blocks := [],
       dt_transcript_response :=
         dt_transcript_response d @ concat (map snd (dt_pending_final_text_blocks d))\<rparr>"

definition into_record :: "derived_turn_state \<Rightarrow> string option \<Rightarrow> turn_evidence_record" where
  "into_record d0 instructions_path =
     (let d = flush_open_final_text_blocks d0 in
      \<lparr>ter_pulse = dt_pulse d, ter_input = dt_input d, ter_response = dt_transcript_response d,
       ter_instructions_path = instructions_path, ter_changed_files = dt_changed_files d,
       ter_command_history = dt_command_history d, ter_tokens = dt_tokens d\<rparr>)"

section \<open>Derivation\<close>

definition note_command :: "string option \<Rightarrow> tool_status \<Rightarrow> derived_turn_state \<Rightarrow> derived_turn_state" where
  "note_command tool_name status d =
     (case Option.bind tool_name
             (\<lambda>name. command_evidence_from_tool_result name (status = Error_status)) of
        Some evidence \<Rightarrow> d\<lparr>dt_command_history := dt_command_history d @ [evidence]\<rparr>
      | None \<Rightarrow> d)"

text \<open>The effect of a signal on the current turn.\<close>

fun turn_step :: "runtime_signal \<Rightarrow> derived_turn_state \<Rightarrow> derived_turn_state" where
  "turn_step (TranscriptBlockStart index (FinalText content)) = start_final_text_block index content"
| "turn_step (TranscriptBlockDelta index delta) = append_final_text_delta index delta"
| "turn_step (TranscriptBlockComplete index) = complete_final_text_block index"
| "turn_step (ToolCallCompleted i tool_name status a b c out) = note_command tool_name status"
| "turn_step (ToolCallFailed i tool_name status a b c out) = note_command tool_name status"
| "turn_step _ = id"

record derivation =
  dv_pulses :: "turn_evidence_record list"
  dv_current_turn :: "derived_turn_state option"
  dv_task_id :: "string option"
  dv_last_status :: "string option"
  dv_all_changed_files :: "string list"
  dv_max_turns_reached :: bool

definition derivation_start :: derivation where
  "derivation_start =
     \<lparr>dv_pulses = [], dv_current_turn = None, dv_task_id = None, dv_last_status = None,
      dv_all_changed_files = [], dv_max_turns_reached = False\<rparr>"

definition close_turn :: "string option \<Rightarrow> derivation \<Rightarrow> derivation" where
  "close_turn path v =
     (case dv_current_turn v of
        Some d \<Rightarrow> v\<lparr>dv_pulses := dv_pulses v @ [into_record d path], dv_current_turn := None\<rparr>
      | None \<Rightarrow> v)"

definition add_files :: "string list \<Rightarrow> string list \<Rightarrow> string list" where
  "add_files files changed = fold insort_insert files changed"

definition end_turn ::
  "string option \<Rightarrow> string \<Rightarrow> token_usage_envelope option \<Rightarrow> string list \<Rightarrow> derivation \<Rightarrow> derivation" where
  "end_turn path status usage changed_files v =
     (case dv_current_turn v of
        Some d \<Rightarrow>
          v\<lparr>dv_pulses := dv_pulses v @
              [into_record (d\<lparr>dt_changed_files := changed_files,
                 dt_tokens := (case usage of Some u \<Rightarrow> turn_tokens_from_usage u
                               | None \<Rightarrow> pulse_tokens_default)\<rparr>) path],
            dv_current_turn := None,
            dv_last_status := Some status,
            dv_all_changed_files := add_files changed_files (dv_all_changed_files v)\<rparr>
      | None \<Rightarrow> v)"

definition derive_step :: "string option \<Rightarrow> runtime_envelope \<Rightarrow> derivation \<Rightarrow> derivation" where
  "derive_step path e v0 =
     (let v = (case dv_task_id v0 of None \<Rightarrow> v0\<lparr>dv_task_id := Some (env_task_id e)\<rparr> | Some _ \<Rightarrow> v0) in
      case env_signal e of
        PulseStart input \<Rightarrow>
          (close_turn path v)\<lparr>dv_current_turn :=
             Some (derived_turn_default\<lparr>dt_pulse := env_pulse e,
               dt_input := (case input of Some i \<Rightarrow> i | None \<Rightarrow> [])\<rparr>)\<rparr>
      | PulseEnd status usage changed_files \<Rightarrow> end_turn path status usage changed_files v
      | MaxTurnsReached n \<Rightarrow> v\<lparr>dv_max_turns_reached := True\<rparr>
      | signal \<Rightarrow> v\<lparr>dv_current_turn := map_option (turn_step signal) (dv_current_turn v)\<rparr>)"

record derived_batch_records =
  dbr_pulses :: "turn_evidence_record list"
  dbr_summary :: "summary_record option"
  dbr_max_turns_reached :: bool

definition derive_batch_records ::
  "runtime_envelope list \<Rightarrow> string option \<Rightarrow> derived_batch_records" where
  "derive_batch_records envelopes path =
     (let v = fold (derive_step path) envelopes derivation_start;
          all_changed = (case dv_current_turn v of
                           Some d \<Rightarrow> add_files (dt_changed_files d) (dv_all_changed_files v)
                         | None \<Rightarrow> dv_all_changed_files v);
          v' = close_turn path v
      in \<lparr>dbr_pulses = dv_pulses v',
          dbr_summary =
            (case (dv_task_id v, dv_last_status v) of
               (Some task_id, Some status) \<Rightarrow>
                 Some \<lparr>sr_summary = True, sr_status = status, sr_task_id = task_id,
                       sr_total_turns = length (dv_pulses v'), sr_instructions_path = path,
                       sr_changed_files = all_changed, sr_session_tasks = []\<rparr>
             | _ \<Rightarrow> None),
          dbr_max_turns_reached = dv_max_turns_reached v\<rparr>)"

section \<open>Lemmas: the text seen so far\<close>

definition feed :: "runtime_envelope list \<Rightarrow> derived_turn_state \<Rightarrow> derived_turn_state" where
  "feed es d = fold (turn_step \<circ> env_signal) es d"

lemma feed_simps [simp]:
  "feed [] d = d" "feed (e # es) d = feed es (turn_step (env_signal e) d)"
  "feed (a @ b) d = feed b (feed a d)"
  by (simp_all add: feed_def)

definition full_text :: "derived_turn_state \<Rightarrow> string" where
  "full_text d = dt_transcript_response d @ concat (map snd (dt_pending_final_text_blocks d))"

text \<open>The derived turn has exactly the final text block the normalizer holds open.\<close>

definition view :: "normalizer \<Rightarrow> derived_turn_state \<Rightarrow> bool" where
  "view s d \<longleftrightarrow>
     SYNTHETIC_FINAL_TEXT_BLOCK_START \<le> nz_next_synthetic_block_index s
     \<and> nz_next_synthetic_block_index s \<le> u64_max
     \<and> (case nz_open_final_text_block s of
          None \<Rightarrow> dt_pending_final_text_blocks d = []
        | Some i \<Rightarrow> SYNTHETIC_FINAL_TEXT_BLOCK_START \<le> i
            \<and> (\<exists>t. dt_pending_final_text_blocks d = [(i, t)]))"

definition same_turn :: "derived_turn_state \<Rightarrow> derived_turn_state \<Rightarrow> bool" where
  "same_turn d d' \<longleftrightarrow> dt_pulse d' = dt_pulse d \<and> dt_input d' = dt_input d"

fun mid_turn :: "runtime_signal \<Rightarrow> bool" where
  "mid_turn (PulseStart input) = False"
| "mid_turn (PulseEnd status usage files) = False"
| "mid_turn (MaxTurnsReached n) = False"
| "mid_turn _ = True"

text \<open>A run that shows the text \<open>tx\<close>.\<close>

definition shows_text :: "string \<Rightarrow> normalizer \<Rightarrow> runtime_envelope list \<Rightarrow> normalizer \<Rightarrow> bool" where
  "shows_text tx s es t \<longleftrightarrow>
     (\<forall>d. view s d \<longrightarrow>
        view t (feed es d) \<and> full_text (feed es d) = full_text d @ tx \<and> same_turn d (feed es d))
     \<and> (\<forall>e \<in> set es. mid_turn (env_signal e))"

interpretation text_law: emitter_law "shows_text []"
proof
  fix s show "shows_text [] s [] s" by (simp add: shows_text_def same_turn_def)
next
  fix s a t b u
  assume "shows_text [] s a t" "shows_text [] t b u"
  then show "shows_text [] s (a @ b) u"
    unfolding shows_text_def same_turn_def by (auto 0 3)
qed

lemma shows_text_append:
  "shows_text x s a t \<Longrightarrow> shows_text y t b u \<Longrightarrow> shows_text (x @ y) s (a @ b) u"
  unfolding shows_text_def same_turn_def by (auto 0 3)

fun is_final_text :: "stream_block \<Rightarrow> bool" where
  "is_final_text (FinalText content) = True"
| "is_final_text _ = False"

text \<open>Signals that do not touch a synthetic final text block.\<close>

fun inert :: "runtime_signal \<Rightarrow> bool" where
  "inert (PulseStart input) = False"
| "inert (PulseEnd status usage files) = False"
| "inert (MaxTurnsReached n) = False"
| "inert (TranscriptBlockStart i b) = (\<not> is_final_text b)"
| "inert (TranscriptBlockDelta i delta) = (i < SYNTHETIC_FINAL_TEXT_BLOCK_START)"
| "inert (TranscriptBlockComplete i) = (i < SYNTHETIC_FINAL_TEXT_BLOCK_START)"
| "inert _ = True"

definition same_text :: "derived_turn_state \<Rightarrow> derived_turn_state \<Rightarrow> bool" where
  "same_text d d' \<longleftrightarrow> dt_transcript_response d' = dt_transcript_response d
     \<and> dt_pending_final_text_blocks d' = dt_pending_final_text_blocks d \<and> same_turn d d'"

lemma same_text_refl [simp]: "same_text d d"
  by (simp add: same_text_def same_turn_def)

lemma same_text_note [simp]: "same_text d (note_command n st d)"
  by (simp add: note_command_def same_text_def same_turn_def split: option.splits)

lemma view_low_index:
  "view s d \<Longrightarrow> i < SYNTHETIC_FINAL_TEXT_BLOCK_START \<Longrightarrow>
     map_of (dt_pending_final_text_blocks d) i = None"
  by (auto simp: view_def split: option.splits)

lemma inert_step: "inert sig \<Longrightarrow> view s d \<Longrightarrow> same_text d (turn_step sig d)"
proof (cases sig)
  case (TranscriptBlockStart i b)
  assume "inert sig"
  with TranscriptBlockStart show ?thesis by (cases b) simp_all
qed (auto simp: append_final_text_delta_def complete_final_text_block_def view_low_index)

lemma view_same_text:
  "view s d \<Longrightarrow> same_text d d' \<Longrightarrow>
   nz_open_final_text_block t = nz_open_final_text_block s \<Longrightarrow>
   nz_next_synthetic_block_index t = nz_next_synthetic_block_index s \<Longrightarrow> view t d'"
  by (cases "nz_open_final_text_block s") (simp_all add: view_def same_text_def)

lemma shows_inert:
  assumes "inert sig" "nz_open_final_text_block s1 = nz_open_final_text_block s"
    "nz_next_synthetic_block_index s1 = nz_next_synthetic_block_index s"
  shows "shows_text [] s (fst (emit_one (next_envelope_with_source E sig req parent source) s1))
     (snd (emit_one (next_envelope_with_source E sig req parent source) s1))"
proof -
  have "same_text d (turn_step sig d)" "full_text (turn_step sig d) = full_text d" if "view s d" for d
    using inert_step [OF assms(1) that] by (simp_all add: full_text_def same_text_def)
  moreover have "mid_turn sig"
    using assms(1) by (cases sig) simp_all
  ultimately show ?thesis
    using assms(2,3)
    by (auto simp: shows_text_def emit_one_def next_envelope_with_source_def Let_def same_text_def
        intro: view_same_text)
qed

text \<open>A step that emits nothing and keeps the final text block.\<close>

lemma shows_silent:
  "nz_open_final_text_block t = nz_open_final_text_block s \<Longrightarrow>
   nz_next_synthetic_block_index t = nz_next_synthetic_block_index s \<Longrightarrow> shows_text [] s [] t"
  by (auto simp: shows_text_def same_turn_def view_def)

lemma synthetic_emits [simp]:
  "nz_open_final_text_block (snd (emit_one (next_envelope_with_source E sig req parent source) s))
     = nz_open_final_text_block s"
  "nz_next_synthetic_block_index (snd (emit_one (next_envelope_with_source E sig req parent source) s))
     = nz_next_synthetic_block_index s"
  by (simp_all add: emit_one_def next_envelope_with_source_def Let_def)

lemmas emit_unfolds = emit_from_def emit_signal_def next_envelope_def next_envelope_with_context_def

lemma text_emits [simp]:
  "inert sig \<Longrightarrow> text_law.lawful (emit_from E sig source)"
  "inert sig \<Longrightarrow> text_law.lawful (emit_signal E sig)"
  "inert sig \<Longrightarrow> text_law.lawful (emit_one (next_envelope_with_context E sig req parent))"
  by (rule text_law.lawfulI, simp add: emit_unfolds shows_inert)+

lemma text_modify:
  "(\<And>s. nz_open_final_text_block (u s) = nz_open_final_text_block s) \<Longrightarrow>
   (\<And>s. nz_next_synthetic_block_index (u s) = nz_next_synthetic_block_index s) \<Longrightarrow>
     text_law.lawful (modify_emit u)"
  by (rule text_law.lawful_modify) (simp add: shows_silent)

lemma text_close_final [simp]: "text_law.lawful (close_open_final_text_block E)"
proof (rule text_law.lawfulI)
  fix s
  show "shows_text [] s (fst (close_open_final_text_block E s)) (snd (close_open_final_text_block E s))"
  proof (cases "nz_open_final_text_block s")
    case None
    then show ?thesis by (simp add: close_open_final_text_block_def text_law.silent)
  next
    case (Some i)
    then show ?thesis
      by (auto simp: close_open_final_text_block_def emit_from_def emit_one_def
          next_envelope_with_source_def Let_def shows_text_def view_def complete_final_text_block_def
          full_text_def same_turn_def)
  qed
qed

lemma synthetic_register:
  "register_tool_call E k name arguments s = (e, t) \<Longrightarrow>
     nz_open_final_text_block t = nz_open_final_text_block s
     \<and> nz_next_synthetic_block_index t = nz_next_synthetic_block_index s
     \<and> (\<exists>tid st. env_signal e = ToolCallStarted tid name arguments Pending st)"
  by (auto simp: register_tool_call_def generate_tool_call_id_def next_envelope_def
      next_envelope_with_context_def next_envelope_with_source_def Let_def)

lemma text_register [simp]: "text_law.lawful (record_tool_call E k name arguments)"
proof (rule text_law.lawfulI)
  fix s
  obtain e t where r: "register_tool_call E (Some k) name arguments s = (e, t)" by fastforce
  from synthetic_register [OF r]
  show "shows_text [] s (fst (record_tool_call E k name arguments s))
      (snd (record_tool_call E k name arguments s))"
    by (auto simp: record_tool_call_def emit_one_def r shows_text_def same_turn_def view_def
        split: option.splits)
qed

lemma inert_result [simp]: "inert (result_signal is_error tid n st c d out)"
  by (simp add: result_signal_def)

lemma text_result [simp]: "text_law.lawful (record_tool_result E k out is_error)"
  by (rule text_law.lawfulI)
     (auto simp: record_tool_result_def Let_def emit_unfolds split: option.splits
       intro!: shows_inert)

lemma text_stream_block [simp]: "text_law.lawful (normalize_stream_block E b)"
  by (cases b) simp_all

lemma text_arguments_delta [simp]: "text_law.lawful (record_tool_call_arguments_delta E tid delta)"
proof (rule text_law.lawfulI)
  fix s
  obtain err s1 where 1: "accumulate_tool_delta E tid delta s = (err, s1)" by fastforce
  obtain r s2 where 2: "append_pending_tool_delta E tid delta s1 = (r, s2)" by fastforce
  have "nz_open_final_text_block s2 = nz_open_final_text_block s"
    "nz_next_synthetic_block_index s2 = nz_next_synthetic_block_index s"
    using same_tablesD(10,11) [OF same_tables_accumulate, of E tid delta s] 1 2
    by (auto simp: append_pending_tool_delta_def split: prod.splits)
  then show "shows_text [] s (fst (record_tool_call_arguments_delta E tid delta s))
      (snd (record_tool_call_arguments_delta E tid delta s))"
    by (auto simp: record_tool_call_arguments_delta_def Let_def 1 2 next_envelope_with_context_def
        intro!: shows_inert)
qed

lemma text_open_block: "\<not> is_final_text b \<Longrightarrow> text_law.lawful (open_block E i b)"
  by (rule text_law.lawfulI) (simp add: open_block_def emit_from_def shows_inert)

lemma text_block_start: "\<not> is_final_text b \<Longrightarrow> text_law.lawful (stream_block_start E i b)"
  unfolding stream_block_start_def
  by (intro text_law.lawful_then text_modify)
     (simp_all add: text_open_block track_streaming_block_def split: stream_block.splits option.splits)

lemma text_block_delta:
  "i < SYNTHETIC_FINAL_TEXT_BLOCK_START \<Longrightarrow> text_law.lawful (stream_block_delta E i delta)"
  unfolding stream_block_delta_def
  by (intro text_law.lawful_ask text_law.lawful_then text_law.lawful_option) simp_all

lemma text_block_complete:
  "i < SYNTHETIC_FINAL_TEXT_BLOCK_START \<Longrightarrow> text_law.lawful (stream_block_complete E i)"
  unfolding stream_block_complete_def
  by (intro text_law.lawful_ask text_law.lawful_then text_modify)
     (simp_all split: option.splits)

lemma shows_stream_delta:
  "shows_text tx s (fst (stream_delta E tx s)) (snd (stream_delta E tx s))"
proof (cases "nz_open_final_text_block s")
  case None
  then show ?thesis
    by (auto simp: stream_delta_def ensure_open_final_text_block_def emit_from_def emit_one_def
        next_envelope_with_source_def Let_def shows_text_def view_def start_final_text_block_def
        append_final_text_delta_def full_text_def same_turn_def sat_add_def)
next
  case (Some i)
  then show ?thesis
    by (auto simp: stream_delta_def ensure_open_final_text_block_def emit_from_def emit_one_def
        next_envelope_with_source_def Let_def shows_text_def view_def
        append_final_text_delta_def full_text_def same_turn_def)
qed

section \<open>End to end\<close>

text \<open>Updates of a running turn whose block indices stay below the synthetic range.\<close>

fun plain_update :: "ui_update \<Rightarrow> bool" where
  "plain_update PulseComplete = False"
| "plain_update (Error_ui m) = False"
| "plain_update (StreamBlockStart i b) =
     (i < SYNTHETIC_FINAL_TEXT_BLOCK_START \<and> \<not> is_final_text b)"
| "plain_update (StreamBlockDelta i delta) = (i < SYNTHETIC_FINAL_TEXT_BLOCK_START)"
| "plain_update (StreamBlockComplete i) = (i < SYNTHETIC_FINAL_TEXT_BLOCK_START)"
| "plain_update _ = True"

fun streamed_text :: "ui_update \<Rightarrow> string" where
  "streamed_text (StreamDelta tx) = tx"
| "streamed_text _ = []"

lemma shows_update:
  "plain_update u \<Longrightarrow> shows_text (streamed_text u) s (fst (normalize_ui_update E u te s))
     (snd (normalize_ui_update E u te s))"
proof (cases u)
  case (StreamDelta tx)
  then show ?thesis by (simp add: shows_stream_delta)
qed (auto simp: text_block_start text_block_delta text_block_complete approval_request_signal_def
      text_law.silent
      intro!: text_law.lawfulD text_law.lawful_then)

lemma shows_updates:
  "\<forall>u \<in> set us. plain_update u \<Longrightarrow>
     shows_text (concat (map streamed_text us)) s
       (fst (run_ops E (map (\<lambda>u. UiUpdate u None) us) s))
       (snd (run_ops E (map (\<lambda>u. UiUpdate u None) us) s))"
proof (induction us arbitrary: s)
  case Nil
  show ?case by (simp add: run_ops_def text_law.silent)
next
  case (Cons u us)
  then show ?case
    using shows_text_append [OF shows_update [of u s E None] Cons.IH]
    by (simp add: run_ops_def fst_snd_then_emit)
qed

lemma fold_derive_mid:
  "\<forall>e \<in> set es. mid_turn (env_signal e) \<Longrightarrow> dv_current_turn v = Some d \<Longrightarrow> dv_task_id v = Some task \<Longrightarrow>
     fold (derive_step path) es v = v\<lparr>dv_current_turn := Some (feed es d)\<rparr>"
proof (induction es arbitrary: v d)
  case (Cons e es)
  have "derive_step path e v = v\<lparr>dv_current_turn := Some (turn_step (env_signal e) d)\<rparr>"
    using Cons.prems by (cases "env_signal e") (simp_all add: derive_step_def)
  with Cons show ?case by simp
qed simp

lemma each_emit_append:
  "each_emit f (xs @ ys) s = then_emit (each_emit f xs) (each_emit f ys) s"
proof (induction xs arbitrary: s)
  case Nil
  show ?case by (simp add: then_emit_def no_emit_def split: prod.splits)
next
  case (Cons y ys)
  then show ?case by (simp add: then_emit_def Let_def split: prod.splits)
qed

lemma complete_turn_emits:
  obtains cl e usage files u where "fst (complete_turn E te s) = cl @ [e]"
    "env_signal e = PulseEnd ''completed'' usage files" "shows_text [] s cl u"
proof -
  let ?s1 = "finish_pending_tool_accumulations E s"
  have "shows_text [] s [] ?s1" by (simp add: shows_silent)
  from text_law.compose [OF this text_law.lawfulD [OF text_close_final [of E], where s = ?s1]]
  have "shows_text [] s (fst (close_open_final_text_block E ?s1))
      (snd (close_open_final_text_block E ?s1))" by simp
  then show ?thesis
    by (rule that [of _ _ "pec_usage te" "resolve_changed_files (pec_changed_files te) s",
          rotated 2])
       (simp add: complete_turn_def finish_turn_with_status_def fst_snd_then_emit emit_unfolds
        emit_one_def next_envelope_with_source_def Let_def, simp)
qed

text \<open>
  C22 [streamed_text_reaches_record]: a turn is started, any updates follow (text deltas interleaved
  with transcript lines, approval requests, metadata, thinking and tool blocks) and the turn is
  completed; then the batch record derived from the emitted envelopes consists of that one turn, with
  its number and input, and its response is the concatenation of all streamed text deltas in order;
  the summary reports one completed turn of the task.
\<close>

theorem streamed_text_reaches_record:
  assumes "run_ops E (StartPulse p input # map (\<lambda>u. UiUpdate u None) us @ [UiUpdate PulseComplete te]) s
      = (es, t)"
    and "\<forall>u \<in> set us. plain_update u"
  shows "\<exists>r sm. dbr_pulses (derive_batch_records es path) = [r]
     \<and> ter_response r = concat (map streamed_text us)
     \<and> ter_pulse r = p \<and> ter_input r = (case input of Some i \<Rightarrow> i | None \<Rightarrow> [])
     \<and> dbr_summary (derive_batch_records es path) = Some sm
     \<and> sr_status sm = ''completed'' \<and> sr_task_id sm = nz_task_id s \<and> sr_total_turns sm = 1
     \<and> \<not> dbr_max_turns_reached (derive_batch_records es path)"
proof -
  define s1 where "s1 = snd (start_pulse E p input s)"
  define s2 where "s2 = snd (run_ops E (map (\<lambda>u. UiUpdate u None) us) s1)"
  define mid where "mid = fst (run_ops E (map (\<lambda>u. UiUpdate u None) us) s1)"
  obtain e1 where e1: "fst (start_pulse E p input s) = [e1]" "env_signal e1 = PulseStart input"
    "env_pulse e1 = p" "env_task_id e1 = nz_task_id s"
    by (simp add: start_pulse_def emit_signal_def emit_one_def next_envelope_def
        next_envelope_with_context_def next_envelope_with_source_def Let_def)
  obtain cl e2 usage files u where fin: "fst (complete_turn E (turn_end_or_default te) s2) = cl @ [e2]"
    "env_signal e2 = PulseEnd ''completed'' usage files" "shows_text [] s2 cl u"
    by (rule complete_turn_emits)
  let ?d0 = "derived_turn_default\<lparr>dt_pulse := p,
      dt_input := (case input of Some i \<Rightarrow> i | None \<Rightarrow> [])\<rparr>"
  have es: "es = e1 # mid @ cl @ [e2]"
    using arg_cong [OF assms(1), of fst] fin(1) e1(1)
    by (simp add: run_ops_def each_emit_append fst_snd_then_emit mid_def s1_def s2_def)
  have "view s1 ?d0"
    by (simp add: s1_def start_pulse_def emit_unfolds view_def derived_turn_default_def
        reset_for_pulse_def SYNTHETIC_FINAL_TEXT_BLOCK_START_def u64_max_def)
  moreover have sh: "shows_text (concat (map streamed_text us)) s1 (mid @ cl) u"
    using shows_text_append [OF shows_updates [OF assms(2), where s = s1 and E = E],
        of "[]" cl u] fin(3) by (simp add: mid_def s2_def)
  ultimately have full: "full_text (feed (mid @ cl) ?d0) = concat (map streamed_text us)"
    "same_turn ?d0 (feed (mid @ cl) ?d0)"
    by (auto simp: shows_text_def full_text_def derived_turn_default_def)
  let ?v1 = "derivation_start\<lparr>dv_task_id := Some (nz_task_id s), dv_current_turn := Some ?d0\<rparr>"
  have v1: "derive_step path e1 derivation_start = ?v1"
    by (simp add: derive_step_def e1 close_turn_def derivation_start_def)
  have v2: "fold (derive_step path) (mid @ cl) ?v1
      = ?v1\<lparr>dv_current_turn := Some (feed (mid @ cl) ?d0)\<rparr>"
    using sh by (intro fold_derive_mid) (simp_all add: shows_text_def)
  have v3: "fold (derive_step path) es derivation_start
      = end_turn path ''completed'' usage files
          (?v1\<lparr>dv_current_turn := Some (feed (mid @ cl) ?d0)\<rparr>)"
    using v1 v2 by (simp add: es derive_step_def fin(2) derivation_start_def)
  define d where "d = feed (mid @ cl) ?d0"
  have "dt_pulse d = p" "dt_input d = (case input of Some i \<Rightarrow> i | None \<Rightarrow> [])"
    "dt_transcript_response d @ concat (map snd (dt_pending_final_text_blocks d))
       = concat (map streamed_text us)"
    using full by (simp_all add: d_def full_text_def same_turn_def)
  then show ?thesis
    unfolding derive_batch_records_def v3 d_def [symmetric] Let_def
    by (simp add: end_turn_def close_turn_def derivation_start_def into_record_def
        flush_open_final_text_blocks_def)
qed

theorem streamed_text_reaches_record_witness:
  "\<exists>r sm. dbr_pulses (derive_batch_records (fst (run_ops sample_env (StartPulse 1 (Some ''q'') #
         map (\<lambda>u. UiUpdate u None) [StreamDelta ''he'', TranscriptLine_ui ''x'', StreamDelta ''llo'']
         @ [UiUpdate PulseComplete None]) (new_inner ''t'' None))) None) = [r]
     \<and> ter_response r
         = concat (map streamed_text [StreamDelta ''he'', TranscriptLine_ui ''x'', StreamDelta ''llo''])
     \<and> ter_pulse r = 1 \<and> ter_input r = (case Some ''q'' of Some i \<Rightarrow> i | None \<Rightarrow> [])
     \<and> dbr_summary (derive_batch_records (fst (run_ops sample_env (StartPulse 1 (Some ''q'') #
         map (\<lambda>u. UiUpdate u None) [StreamDelta ''he'', TranscriptLine_ui ''x'', StreamDelta ''llo'']
         @ [UiUpdate PulseComplete None]) (new_inner ''t'' None))) None) = Some sm
     \<and> sr_status sm = ''completed'' \<and> sr_task_id sm = nz_task_id (new_inner ''t'' None)
     \<and> sr_total_turns sm = 1
     \<and> \<not> dbr_max_turns_reached (derive_batch_records (fst (run_ops sample_env
         (StartPulse 1 (Some ''q'') #
         map (\<lambda>u. UiUpdate u None) [StreamDelta ''he'', TranscriptLine_ui ''x'', StreamDelta ''llo'']
         @ [UiUpdate PulseComplete None]) (new_inner ''t'' None))) None)"
  by (rule streamed_text_reaches_record [OF surjective_pairing]) simp

end
