(* ===== verification/Protocol_Ingress.thy ===== *)
theory Protocol_Ingress
  imports Derived
begin

text \<open>
  The protocol ingress of the normalizer (\<open>src/runtime/json_handoff/protocol_ingress.rs\<close>): items of the
  provider protocol and chunks of the chat-compatible protocol become envelopes.

  An operation that may panic returns an option: the text normaliser can fail on a malformed tag, and
  the diagnosis of an undecodable block cuts its text at a fixed byte. The typed decoders generated by
  \<open>derive(Deserialize)\<close> extend the environment record. Tracing and span attributes are dropped.

  In the source the functions that open and close blocks are mutually recursive with those that emit
  normalised text. A block opened for a tagged call carries no text and the final flush of a
  normaliser yields text only, so the recursion is never taken twice; the definitions follow that
  order and the lemmas \<open>open_tool_use\<close> and \<open>close_block_unfold\<close> restate the source's equations.
\<close>

section \<open>Environment\<close>

record ingress_env = runtime_env +
  decode_content_block :: "json \<Rightarrow> string + provider_content_block_compat"
  decode_stream_item :: "string \<Rightarrow> string + provider_stream_item"
  decode_chat_chunk :: "string \<Rightarrow> chat_compat_chunk option"
  decode_envelope :: "string \<Rightarrow> runtime_envelope option"

type_synonym ingress = "(normalizer, runtime_envelope) pemitter"

definition MAX_TOOL_CALL_INDEX :: nat where
  "MAX_TOOL_CALL_INDEX = 1024"

definition upd_ingress ::
  "(protocol_ingress_state \<Rightarrow> protocol_ingress_state) \<Rightarrow> normalizer \<Rightarrow> normalizer" where
  "upd_ingress f s = s\<lparr>nz_protocol_ingress := f (nz_protocol_ingress s)\<rparr>"

section \<open>Decoding\<close>

definition decode_provider_content_block ::
  "'z ingress_env_scheme \<Rightarrow> json \<Rightarrow> string + provider_content_block" where
  "decode_provider_content_block E v =
     (let block_type = (case Option.bind (json_get v ''type'') as_str of
                          Some t \<Rightarrow> t | None \<Rightarrow> ''<missing>'')
      in case decode_content_block E v of
           Inr b \<Rightarrow> Inr (content_block_of_compat b)
         | Inl err \<Rightarrow> Inl (''type='' @ block_type @ '': '' @ err))"

fun provider_stream_block ::
  "provider_content_block \<Rightarrow> (stream_block \<times> string option) option" where
  "provider_stream_block (PText text) = Some (Thinking [] False, Some text)"
| "provider_stream_block (PThinking thinking) = Some (Thinking [] False, Some thinking)"
| "provider_stream_block (PThinkingData data) = Some (Thinking [] False, Some data)"
| "provider_stream_block (PToolUse i name input) = Some (ToolCall i name input Pending, None)"
| "provider_stream_block (PServerToolUse i name input) = Some (ToolCall i name input Pending, None)"
| "provider_stream_block PToolResult = None"
| "provider_stream_block PWebSearchToolResult = None"

definition non_empty :: "string option \<Rightarrow> string option" where
  "non_empty v = (case v of Some t \<Rightarrow> if t = [] then None else Some t | None \<Rightarrow> None)"

definition provider_block_delta :: "provider_delta \<Rightarrow> provider_block_delta_t option" where
  "provider_block_delta delta =
     (case non_empty (pd_text delta) of
        Some t \<Rightarrow> Some (TextDelta t)
      | None \<Rightarrow>
          (case non_empty (pd_thinking delta) of
             Some t \<Rightarrow> Some (TextDelta t)
           | None \<Rightarrow> map_option ToolArguments (non_empty (pd_partial_json delta))))"

definition message_start_metadata ::
  "stream_chunk_metadata option \<Rightarrow> stream_chunk_metadata option" where
  "message_start_metadata metadata =
     (case metadata of
        None \<Rightarrow> None
      | Some m0 \<Rightarrow>
          (let m = m0\<lparr>md_prompt_progress := None, md_timings := None\<rparr> in
           if md_object m \<noteq> None \<or> md_created m \<noteq> None \<or> md_system_fingerprint m \<noteq> None
              \<or> md_service_tier m \<noteq> None \<or> md_choice_index m \<noteq> None \<or> md_logprobs m \<noteq> None
           then Some m else None))"

definition chat_compat_metadata ::
  "chat_compat_chunk \<Rightarrow> nat option \<Rightarrow> json option \<Rightarrow> stream_chunk_metadata option" where
  "chat_compat_metadata chunk choice_index logprobs =
     (let m = \<lparr>md_object = ck_object chunk, md_created = ck_created chunk,
               md_system_fingerprint = ck_system_fingerprint chunk,
               md_service_tier = ck_service_tier chunk, md_choice_index = choice_index,
               md_logprobs = logprobs, md_prompt_progress = ck_prompt_progress chunk,
               md_timings = ck_timings chunk\<rparr>
      in if md_object m \<noteq> None \<or> md_created m \<noteq> None \<or> md_system_fingerprint m \<noteq> None
            \<or> md_service_tier m \<noteq> None \<or> md_choice_index m \<noteq> None \<or> md_logprobs m \<noteq> None
            \<or> md_prompt_progress m \<noteq> None \<or> md_timings m \<noteq> None
         then Some m else None)"

definition or_zero :: "nat option \<Rightarrow> nat" where
  "or_zero v = (case v of Some n \<Rightarrow> n | None \<Rightarrow> 0)"

definition token_usage_from_api_usage :: "api_usage \<Rightarrow> token_usage_envelope option" where
  "token_usage_from_api_usage usage =
     (let u = \<lparr>tue_input = or_zero (au_input_tokens usage),
               tue_output = or_zero (au_output_tokens usage), tue_estimated = False,
               tue_cache_creation_input = or_zero (au_cache_creation_input_tokens usage),
               tue_cache_read_input = or_zero (au_cache_read_input_tokens usage)\<rparr>
      in if tue_input u \<noteq> 0 \<or> tue_output u \<noteq> 0 \<or> tue_cache_creation_input u \<noteq> 0
            \<or> tue_cache_read_input u \<noteq> 0
         then Some u else None)"

definition sat_add_opt :: "nat \<Rightarrow> nat option \<Rightarrow> nat" where
  "sat_add_opt n v = (case v of Some m \<Rightarrow> sat_add n m | None \<Rightarrow> n)"

definition accumulate_turn_tokens :: "api_usage \<Rightarrow> pulse_tokens \<Rightarrow> pulse_tokens" where
  "accumulate_turn_tokens usage t =
     t\<lparr>pt_input := sat_add_opt (pt_input t) (au_input_tokens usage),
       pt_output := sat_add_opt (pt_output t) (au_output_tokens usage),
       pt_cache_creation_input_tokens :=
         sat_add_opt (pt_cache_creation_input_tokens t) (au_cache_creation_input_tokens usage),
       pt_cache_read_input_tokens :=
         sat_add_opt (pt_cache_read_input_tokens t) (au_cache_read_input_tokens usage)\<rparr>"

section \<open>Starting a turn\<close>

definition ensure_protocol_ingress_turn_started :: "'z ingress_env_scheme \<Rightarrow> handoff" where
  "ensure_protocol_ingress_turn_started E =
     ask_emit (\<lambda>s.
       if pi_turn_started (nz_protocol_ingress s) then no_emit
       else then_emit (start_pulse E 1 None)
              (modify_emit (upd_ingress (\<lambda>p. p\<lparr>pi_turn_started := True\<rparr>))))"

section \<open>Blocks\<close>

definition needs_text_normaliser :: "provider_content_block \<Rightarrow> bool" where
  "needs_text_normaliser b =
     (case b of PText t \<Rightarrow> True | PThinking t \<Rightarrow> True | PThinkingData d \<Rightarrow> True | _ \<Rightarrow> False)"

definition normaliser_at :: "nat \<Rightarrow> protocol_ingress_state \<Rightarrow> stream_text_normaliser" where
  "normaliser_at index p =
     (case map_of (pi_tagged_text_normalisers p) index of Some n \<Rightarrow> n | None \<Rightarrow> normaliser_new)"

text \<open>The part of \<open>open_provider_stream_block\<close> before the initial text is applied.\<close>

definition begin_provider_block ::
  "'z ingress_env_scheme \<Rightarrow> nat \<Rightarrow> provider_content_block \<Rightarrow> handoff" where
  "begin_provider_block E index content_block =
     (case provider_stream_block content_block of
        None \<Rightarrow> no_emit
      | Some (block, initial_delta) \<Rightarrow>
          then_emit (ensure_protocol_ingress_turn_started E)
            (then_emit
              (modify_emit (upd_ingress (\<lambda>p.
                 p\<lparr>pi_open_blocks := insort_insert index (pi_open_blocks p),
                   pi_tagged_text_normalisers :=
                     (if needs_text_normaliser content_block
                      then bt_update index (normaliser_at index p) (pi_tagged_text_normalisers p)
                      else pi_tagged_text_normalisers p)\<rparr>)))
              (normalize_ui_update E (StreamBlockStart index block) None)))"

definition emit_text_chunk :: "'z ingress_env_scheme \<Rightarrow> nat \<Rightarrow> normalised_chunk \<Rightarrow> handoff" where
  "emit_text_chunk E index chunk =
     (case chunk of
        Text text \<Rightarrow> normalize_ui_update E (StreamBlockDelta index text) None
      | TaggedToolCall name input \<Rightarrow> no_emit)"

definition close_provider_stream_block :: "'z ingress_env_scheme \<Rightarrow> nat \<Rightarrow> handoff" where
  "close_provider_stream_block E index =
     ask_emit (\<lambda>s.
       if index \<notin> set (pi_open_blocks (nz_protocol_ingress s)) then no_emit
       else
         then_emit
           (modify_emit (upd_ingress (\<lambda>p.
              p\<lparr>pi_open_blocks := removeAll index (pi_open_blocks p),
                pi_tagged_text_normalisers := bt_delete index (pi_tagged_text_normalisers p)\<rparr>)))
           (then_emit
             (case map_of (pi_tagged_text_normalisers (nz_protocol_ingress s)) index of
                Some n \<Rightarrow> each_emit (emit_text_chunk E index) (fst (normaliser_finish n))
              | None \<Rightarrow> no_emit)
             (normalize_ui_update E (StreamBlockComplete index) None)))"

definition emit_tagged_tool_call_from_text ::
  "'z ingress_env_scheme \<Rightarrow> string \<Rightarrow> json \<Rightarrow> handoff" where
  "emit_tagged_tool_call_from_text E name input =
     ask_emit (\<lambda>s.
       if pi_has_native_tool_calls (nz_protocol_ingress s) then no_emit
       else
         (let index = pi_next_tagged_tool_block_index (nz_protocol_ingress s) in
          then_emit
            (modify_emit (upd_ingress (\<lambda>p. p\<lparr>pi_next_tagged_tool_block_index := sat_add index 1\<rparr>)))
            (then_emit
              (begin_provider_block E index (PToolUse (''toolu_tagged_'' @ nat_dec index) name input))
              (close_provider_stream_block E index))))"

definition emit_normalised_provider_chunk ::
  "'z ingress_env_scheme \<Rightarrow> nat \<Rightarrow> normalised_chunk \<Rightarrow> handoff" where
  "emit_normalised_provider_chunk E index chunk =
     (case chunk of
        Text text \<Rightarrow> normalize_ui_update E (StreamBlockDelta index text) None
      | TaggedToolCall name input \<Rightarrow> emit_tagged_tool_call_from_text E name input)"

definition emit_normalised_provider_chunks ::
  "'z ingress_env_scheme \<Rightarrow> nat \<Rightarrow> normalised_chunk list \<Rightarrow> handoff" where
  "emit_normalised_provider_chunks E index chunks =
     each_emit (emit_normalised_provider_chunk E index) chunks"

definition apply_normalised_provider_text ::
  "'z ingress_env_scheme \<Rightarrow> nat \<Rightarrow> string \<Rightarrow> ingress" where
  "apply_normalised_provider_text E index delta =
     pask (\<lambda>s.
       case normalise (json_lib E) delta (normaliser_at index (nz_protocol_ingress s)) of
         None \<Rightarrow> (\<lambda>_. None)
       | Some (chunks, n) \<Rightarrow>
           total (then_emit
             (modify_emit (upd_ingress (\<lambda>p.
                p\<lparr>pi_tagged_text_normalisers := bt_update index n (pi_tagged_text_normalisers p)\<rparr>)))
             (emit_normalised_provider_chunks E index chunks)))"

definition open_provider_stream_block ::
  "'z ingress_env_scheme \<Rightarrow> nat \<Rightarrow> provider_content_block \<Rightarrow> ingress" where
  "open_provider_stream_block E index content_block =
     pthen (total (begin_provider_block E index content_block))
       (case non_empty (Option.bind (provider_stream_block content_block) snd) of
          None \<Rightarrow> total no_emit
        | Some delta \<Rightarrow>
            if needs_text_normaliser content_block
            then apply_normalised_provider_text E index delta
            else total (normalize_ui_update E (StreamBlockDelta index delta) None))"

fun block_delta_text :: "provider_block_delta_t \<Rightarrow> string" where
  "block_delta_text (TextDelta t) = t"
| "block_delta_text (ToolArguments t) = t"

fun is_text_delta :: "provider_block_delta_t \<Rightarrow> bool" where
  "is_text_delta (TextDelta t) = True"
| "is_text_delta (ToolArguments t) = False"

text \<open>A text delta for a block that was never opened opens a thinking block.\<close>

definition ensure_text_block :: "'z ingress_env_scheme \<Rightarrow> nat \<Rightarrow> handoff" where
  "ensure_text_block E index =
     ask_emit (\<lambda>s.
       if index \<in> set (pi_open_blocks (nz_protocol_ingress s)) then no_emit
       else then_emit
         (modify_emit (upd_ingress (\<lambda>p.
            p\<lparr>pi_open_blocks := insort_insert index (pi_open_blocks p)\<rparr>)))
         (normalize_ui_update E (StreamBlockStart index (Thinking [] False)) None))"

definition apply_provider_stream_delta ::
  "'z ingress_env_scheme \<Rightarrow> nat \<Rightarrow> provider_block_delta_t \<Rightarrow> ingress" where
  "apply_provider_stream_delta E index block_delta =
     (let delta = block_delta_text block_delta in
      if delta = [] then total no_emit
      else
        pthen (total (ensure_protocol_ingress_turn_started E))
          (if is_text_delta block_delta
           then pthen (total (ensure_text_block E index))
                  (apply_normalised_provider_text E index delta)
           else total (normalize_ui_update E (StreamBlockDelta index delta) None)))"

section \<open>Metadata and usage\<close>

definition emit_provider_metadata :: "'z ingress_env_scheme \<Rightarrow> stream_chunk_metadata \<Rightarrow> handoff" where
  "emit_provider_metadata E metadata =
     then_emit (ensure_protocol_ingress_turn_started E)
       (normalize_ui_update E (ServerMetadata_ui metadata) None)"

definition emit_provider_usage :: "'z ingress_env_scheme \<Rightarrow> api_usage \<Rightarrow> handoff" where
  "emit_provider_usage E usage =
     then_emit
       (modify_emit (upd_ingress (\<lambda>p.
          p\<lparr>pi_turn_tokens := accumulate_turn_tokens usage (pi_turn_tokens p)\<rparr>)))
       (then_emit (ensure_protocol_ingress_turn_started E)
         (case token_usage_from_api_usage usage of
            Some u \<Rightarrow> emit_signal E (UsageUpdated u)
          | None \<Rightarrow> no_emit))"

definition emit_opt :: "('a \<Rightarrow> handoff) \<Rightarrow> 'a option \<Rightarrow> handoff" where
  "emit_opt f v = (case v of Some x \<Rightarrow> f x | None \<Rightarrow> no_emit)"

section \<open>The end of a turn\<close>

definition finish_protocol_ingress_turn :: "'z ingress_env_scheme \<Rightarrow> handoff" where
  "finish_protocol_ingress_turn E =
     ask_emit (\<lambda>s0.
       if \<not> pi_turn_started (nz_protocol_ingress s0) then no_emit
       else
         then_emit (modify_emit (upd_ingress (\<lambda>p. p\<lparr>pi_tagged_text_normalisers := []\<rparr>)))
         (then_emit
           (each_emit (\<lambda>(index, n).
              emit_normalised_provider_chunks E index (fst (normaliser_finish n)))
              (pi_tagged_text_normalisers (nz_protocol_ingress s0)))
         (ask_emit (\<lambda>s1.
            then_emit (modify_emit (upd_ingress (\<lambda>p. p\<lparr>pi_open_blocks := []\<rparr>)))
            (then_emit
              (each_emit (\<lambda>index. normalize_ui_update E (StreamBlockComplete index) None)
                 (pi_open_blocks (nz_protocol_ingress s1)))
            (ask_emit (\<lambda>s2.
               then_emit
                 (modify_emit (upd_ingress (\<lambda>p. p\<lparr>pi_turn_tokens := pulse_tokens_default\<rparr>)))
                 (then_emit
                   (normalize_ui_update E PulseComplete
                      (Some \<lparr>pec_usage = token_usage_from_turn_tokens
                               (pi_turn_tokens (nz_protocol_ingress s2)),
                             pec_changed_files = []\<rparr>))
                   (modify_emit (upd_ingress (\<lambda>p. protocol_ingress_default)))))))))))"

section \<open>The provider protocol\<close>

definition decode_error_message :: "nat \<Rightarrow> string \<Rightarrow> string" where
  "decode_error_message index err =
     ''failed to decode provider content_block_start item at index '' @ nat_dec index @ '': '' @ err"

text \<open>The diagnosis slices the raw text at byte 512, which panics inside a character.\<close>

definition log_raw_payload :: "'z ingress_env_scheme \<Rightarrow> json \<Rightarrow> string option" where
  "log_raw_payload E v =
     (let raw = (case to_string (json_lib E) v of Some t \<Rightarrow> t | None \<Rightarrow> ''<non-serializable>'') in
      if length raw > 512 then str_range raw 0 512 else Some raw)"

fun normalize_provider_stream_item ::
  "'z ingress_env_scheme \<Rightarrow> provider_stream_item \<Rightarrow> ingress" where
  "normalize_provider_stream_item E (MessageStart message) =
     total (then_emit
       (emit_opt (emit_provider_metadata E) (message_start_metadata (pms_metadata message)))
       (emit_opt (emit_provider_usage E) (pms_usage message)))"
| "normalize_provider_stream_item E (ContentBlockStart index content_block) =
     (case decode_provider_content_block E content_block of
        Inr block \<Rightarrow> open_provider_stream_block E index block
      | Inl err \<Rightarrow>
          (case log_raw_payload E content_block of
             None \<Rightarrow> (\<lambda>_. None)
           | Some raw \<Rightarrow>
               total (emit_signal E (Error_signal ''provider_content_block_start_decode''
                 (decode_error_message index err) True))))"
| "normalize_provider_stream_item E (ContentBlockDelta index delta) =
     (case provider_block_delta delta of
        Some d \<Rightarrow> apply_provider_stream_delta E index d
      | None \<Rightarrow> total no_emit)"
| "normalize_provider_stream_item E (ContentBlockStop index) =
     total (close_provider_stream_block E index)"
| "normalize_provider_stream_item E (MessageDelta delta usage) =
     total (then_emit
       (emit_opt (emit_provider_metadata E) (pmd_metadata delta))
       (emit_opt (emit_provider_usage E) usage))"
| "normalize_provider_stream_item E MessageStop = total no_emit"
| "normalize_provider_stream_item E Ping = total no_emit"
| "normalize_provider_stream_item E Unknown = total no_emit"
| "normalize_provider_stream_item E (Error_item error) =
     total (emit_signal E (Error_signal (pse_error_type error) (pse_message error) True))"

section \<open>The chat-compatible protocol\<close>

definition emit_chat_compat_message_start ::
  "'z ingress_env_scheme \<Rightarrow> chat_compat_chunk \<Rightarrow> handoff" where
  "emit_chat_compat_message_start E chunk =
     ask_emit (\<lambda>s.
       (let role = find_map (\<lambda>c. cd_role (cc_delta c)) (ck_choices chunk);
            metadata = chat_compat_metadata chunk None None in
        if pi_chat_compat_message_started (nz_protocol_ingress s) then no_emit
        else if \<not> (ck_id chunk \<noteq> None \<or> ck_model chunk \<noteq> None \<or> role \<noteq> None \<or> metadata \<noteq> None)
        then no_emit
        else
          then_emit
            (modify_emit (upd_ingress (\<lambda>p.
               p\<lparr>pi_chat_compat_message_started := True,
                 pi_chat_compat_stream_terminated :=
                   (if role \<noteq> None then False else pi_chat_compat_stream_terminated p)\<rparr>)))
            (emit_opt (emit_provider_metadata E) (message_start_metadata metadata))))"

definition push_serialized :: "serde \<Rightarrow> json option \<Rightarrow> string \<Rightarrow> string" where
  "push_serialized sj v acc =
     (case Option.bind v (to_string sj) of Some t \<Rightarrow> acc @ t | None \<Rightarrow> acc)"

definition merge_arguments ::
  "serde \<Rightarrow> chat_compat_function_arguments \<Rightarrow> pending_chat_compat_tool_state
     \<Rightarrow> pending_chat_compat_tool_state" where
  "merge_arguments sj arguments st =
     (case arguments of
        ArgString t \<Rightarrow>
          st\<lparr>pc_pending_arguments :=
               push_serialized sj (pc_materialized_arguments st) (pc_pending_arguments st) @ t,
             pc_materialized_arguments := None\<rparr>
      | ArgJson v \<Rightarrow>
          if pc_lifecycle st = Discovered \<and> pc_pending_arguments st = [] then
            st\<lparr>pc_materialized_arguments := Some v\<rparr>
          else
            (case to_string sj v of
               None \<Rightarrow> st
             | Some serialized \<Rightarrow>
                 st\<lparr>pc_pending_arguments :=
                      push_serialized sj (pc_materialized_arguments st) (pc_pending_arguments st)
                      @ serialized,
                    pc_materialized_arguments := None\<rparr>))"

definition merge_function ::
  "serde \<Rightarrow> chat_compat_function_delta \<Rightarrow> pending_chat_compat_tool_state
     \<Rightarrow> pending_chat_compat_tool_state" where
  "merge_function sj f st0 =
     (let st = (case non_empty (cf_name f) of Some n \<Rightarrow> st0\<lparr>pc_name := n\<rparr> | None \<Rightarrow> st0) in
      case cf_arguments f of Some a \<Rightarrow> merge_arguments sj a st | None \<Rightarrow> st)"

definition merge_tool_delta ::
  "serde \<Rightarrow> chat_compat_tool_call_delta \<Rightarrow> pending_chat_compat_tool_state
     \<Rightarrow> pending_chat_compat_tool_state" where
  "merge_tool_delta sj tool_call st0 =
     (let st = (case non_empty (ct_id tool_call) of Some i \<Rightarrow> st0\<lparr>pc_id := i\<rparr> | None \<Rightarrow> st0) in
      case ct_function tool_call of Some f \<Rightarrow> merge_function sj f st | None \<Rightarrow> st)"

text \<open>A named call is opened once; then its collected argument text is handed on.\<close>

definition open_discovered ::
  "nat \<Rightarrow> pending_chat_compat_tool_state
     \<Rightarrow> provider_content_block option \<times> pending_chat_compat_tool_state" where
  "open_discovered block_index st =
     (if pc_lifecycle st = Discovered \<and> pc_name st \<noteq> [] then
        (Some (PToolUse
           (if pc_id st = [] then ''toolu_chat_compat_'' @ nat_dec block_index else pc_id st)
           (pc_name st)
           (case pc_materialized_arguments st of Some v \<Rightarrow> v | None \<Rightarrow> empty_json_object)),
         st\<lparr>pc_lifecycle := Opened, pc_materialized_arguments := None\<rparr>)
      else (None, st))"

definition take_partial ::
  "pending_chat_compat_tool_state \<Rightarrow> string option \<times> pending_chat_compat_tool_state" where
  "take_partial st =
     (if pc_lifecycle st = Opened \<and> pc_pending_arguments st \<noteq> []
      then (Some (pc_pending_arguments st), st\<lparr>pc_pending_arguments := []\<rparr>)
      else (None, st))"

definition lifecycle_at :: "nat \<Rightarrow> protocol_ingress_state \<Rightarrow> pending_chat_compat_tool_state" where
  "lifecycle_at i p =
     (case map_of (pi_chat_compat_tool_lifecycles p) i of
        Some st \<Rightarrow> st | None \<Rightarrow> pending_chat_compat_default)"

definition tool_block_index :: "chat_compat_tool_call_delta \<Rightarrow> nat" where
  "tool_block_index tool_call = sat_add (min (or_zero (ct_index tool_call)) MAX_TOOL_CALL_INDEX) 1"

definition apply_chat_compat_tool_delta ::
  "'z ingress_env_scheme \<Rightarrow> chat_compat_tool_call_delta \<Rightarrow> ingress" where
  "apply_chat_compat_tool_delta E tool_call =
     pask (\<lambda>s.
       (let p = nz_protocol_ingress s;
            block_index = tool_block_index tool_call;
            st0 = lifecycle_at block_index p in
        if pi_chat_compat_stream_terminated p then total no_emit
        else if pc_lifecycle st0 = Closed then total no_emit
        else
          (let (start_block, st2) =
                 open_discovered block_index (merge_tool_delta (json_lib E) tool_call st0);
               (partial_json, st3) = take_partial st2
           in
             pthen
               (total (modify_emit (upd_ingress (\<lambda>p.
                  p\<lparr>pi_chat_compat_tool_lifecycles :=
                      bt_update block_index st3 (pi_chat_compat_tool_lifecycles p)\<rparr>))))
             (pthen
               (case start_block of
                  None \<Rightarrow> total no_emit
                | Some content_block \<Rightarrow>
                    pthen
                      (total (modify_emit (upd_ingress (\<lambda>p. p\<lparr>pi_has_native_tool_calls := True\<rparr>))))
                      (open_provider_stream_block E block_index content_block))
               (case partial_json of
                  None \<Rightarrow> total no_emit
                | Some t \<Rightarrow> apply_provider_stream_delta E block_index (ToolArguments t))))))"

definition close_lifecycle ::
  "pending_chat_compat_tool_state \<Rightarrow> pending_chat_compat_tool_state" where
  "close_lifecycle st = st\<lparr>pc_lifecycle := Closed\<rparr>"

definition close_chat_compat_tool_blocks :: "'z ingress_env_scheme \<Rightarrow> handoff" where
  "close_chat_compat_tool_blocks E =
     ask_emit (\<lambda>s.
       then_emit
         (modify_emit (upd_ingress (\<lambda>p.
            p\<lparr>pi_chat_compat_tool_lifecycles :=
                map (\<lambda>(i, st). (i, close_lifecycle st)) (pi_chat_compat_tool_lifecycles p)\<rparr>)))
         (each_emit (close_provider_stream_block E)
           (map fst (filter (\<lambda>(i, st). pc_lifecycle st = Opened)
              (pi_chat_compat_tool_lifecycles (nz_protocol_ingress s))))))"

definition text_delta_opt :: "'z ingress_env_scheme \<Rightarrow> string option \<Rightarrow> ingress" where
  "text_delta_opt E v =
     (case v of Some t \<Rightarrow> apply_provider_stream_delta E 0 (TextDelta t) | None \<Rightarrow> total no_emit)"

definition normalize_choice ::
  "'z ingress_env_scheme \<Rightarrow> chat_compat_chunk \<Rightarrow> chat_compat_choice \<Rightarrow> ingress" where
  "normalize_choice E chunk choice =
     (let delta = cc_delta choice;
          metadata = chat_compat_metadata chunk (cc_index choice) (cc_logprobs choice);
          has_server_progress =
            (case metadata of
               Some m \<Rightarrow> md_prompt_progress m \<noteq> None \<or> md_timings m \<noteq> None
             | None \<Rightarrow> False)
      in
        pthen (text_delta_opt E (cd_content delta))
        (pthen (text_delta_opt E (cd_reasoning_content delta))
        (pthen
          (case cd_tool_calls delta of
             Some calls \<Rightarrow> peach (apply_chat_compat_tool_delta E) calls
           | None \<Rightarrow> total no_emit)
        (total (then_emit
          (if cd_refusal delta \<noteq> None \<or> cc_finish_reason choice \<noteq> None
              \<or> cc_logprobs choice \<noteq> None \<or> has_server_progress
           then emit_opt (emit_provider_metadata E) metadata
           else no_emit)
          (if cc_finish_reason choice \<noteq> None
           then close_chat_compat_tool_blocks E
           else no_emit))))))"

definition normalize_chat_compat_chunk ::
  "'z ingress_env_scheme \<Rightarrow> chat_compat_chunk \<Rightarrow> ingress" where
  "normalize_chat_compat_chunk E chunk0 =
     (let chunk = chunk0\<lparr>ck_usage := None\<rparr> in
      pthen (total (emit_chat_compat_message_start E chunk0))
      (pthen
        (case ck_usage chunk0 of
           None \<Rightarrow> total no_emit
         | Some usage0 \<Rightarrow>
             (let usage = (if au_service_tier usage0 = None
                           then usage0\<lparr>au_service_tier := ck_service_tier chunk\<rparr> else usage0) in
              total (then_emit
                (emit_opt (emit_provider_metadata E) (chat_compat_metadata chunk None None))
                (emit_provider_usage E usage))))
        (peach (normalize_choice E chunk) (ck_choices chunk))))"

fun normalize_chat_compat_payload ::
  "'z ingress_env_scheme \<Rightarrow> chat_compat_payload \<Rightarrow> ingress" where
  "normalize_chat_compat_payload E Done =
     total (then_emit (close_chat_compat_tool_blocks E)
       (modify_emit (upd_ingress (\<lambda>p.
          p\<lparr>pi_chat_compat_message_started := False, pi_chat_compat_stream_terminated := True,
            pi_chat_compat_tool_lifecycles := []\<rparr>))))"
| "normalize_chat_compat_payload E (Chunk chunk) = normalize_chat_compat_chunk E chunk"

section \<open>Protocol errors\<close>

text \<open>The envelope that starts the turn is discarded here, so the sequence number after it is skipped.\<close>

definition emit_protocol_ingress_error ::
  "'z ingress_env_scheme \<Rightarrow> string \<Rightarrow> string \<Rightarrow> handoff" where
  "emit_protocol_ingress_error E code message s =
     emit_signal E (Error_signal code message True)
       (snd (ensure_protocol_ingress_turn_started E s))"

definition protocol_stream_terminated :: "normalizer \<Rightarrow> bool" where
  "protocol_stream_terminated s = pi_chat_compat_stream_terminated (nz_protocol_ingress s)"

section \<open>Payloads\<close>

fun adapt_payload :: "'z ingress_env_scheme \<Rightarrow> ingress_payload \<Rightarrow> ingress" where
  "adapt_payload E (Provider item) = normalize_provider_stream_item E item"
| "adapt_payload E (ChatCompat payload) = normalize_chat_compat_payload E payload"

definition run_payloads :: "'z ingress_env_scheme \<Rightarrow> ingress_payload list \<Rightarrow> ingress" where
  "run_payloads E ps = peach (adapt_payload E) ps"

section \<open>The equations of the source\<close>

lemma open_tool_use:
  "open_provider_stream_block E index (PToolUse i name input)
     = total (begin_provider_block E index (PToolUse i name input))"
  by (simp add: fun_eq_iff open_provider_stream_block_def non_empty_def pthen_def no_emit_def
      split: prod.splits)

lemma finish_chunks_text:
  "c \<in> set (fst (normaliser_finish n)) \<Longrightarrow> \<exists>t. c = Text t"
  by (auto simp: normaliser_finish_def push_text_chunk_def split: if_splits)

lemma emit_finish_chunks:
  "each_emit (emit_text_chunk E index) (fst (normaliser_finish n))
     = emit_normalised_provider_chunks E index (fst (normaliser_finish n))"
proof -
  have "each_emit (emit_text_chunk E index) cs = each_emit (emit_normalised_provider_chunk E index) cs"
    if "\<forall>c \<in> set cs. \<exists>t. c = Text t" for cs
    using that
    by (induction cs) (auto simp: emit_text_chunk_def emit_normalised_provider_chunk_def)
  then show ?thesis
    using finish_chunks_text by (simp add: emit_normalised_provider_chunks_def)
qed

lemma close_block_unfold:
  assumes "index \<in> set (pi_open_blocks (nz_protocol_ingress s))"
  shows "close_provider_stream_block E index s =
     then_emit
       (modify_emit (upd_ingress (\<lambda>p.
          p\<lparr>pi_open_blocks := removeAll index (pi_open_blocks p),
            pi_tagged_text_normalisers := bt_delete index (pi_tagged_text_normalisers p)\<rparr>)))
       (then_emit
         (case map_of (pi_tagged_text_normalisers (nz_protocol_ingress s)) index of
            Some n \<Rightarrow> emit_normalised_provider_chunks E index (fst (normaliser_finish n))
          | None \<Rightarrow> no_emit)
         (normalize_ui_update E (StreamBlockComplete index) None)) s"
  using assms
  by (simp add: close_provider_stream_block_def emit_finish_chunks cong: option.case_cong)

end
