(* ===== verification/Protocol_Laws.thy ===== *)
theory Protocol_Laws
  imports Protocol_Ingress Tool_Call_Laws
begin

text \<open>
  What the protocol ingress guarantees: the numbering of its envelopes, the agreement of its set of
  open blocks with the block events a consumer sees, and the end of a turn.
\<close>

section \<open>Numbering\<close>

lemma upd_ingress_simps [simp]:
  "nz_protocol_ingress (upd_ingress f s) = f (nz_protocol_ingress s)"
  "nz_task_id (upd_ingress f s) = nz_task_id s"
  "nz_pulse (upd_ingress f s) = nz_pulse s"
  "nz_next_seq (upd_ingress f s) = nz_next_seq s"
  "nz_tool_id_counter (upd_ingress f s) = nz_tool_id_counter s"
  "nz_open_final_text_block (upd_ingress f s) = nz_open_final_text_block s"
  "nz_next_synthetic_block_index (upd_ingress f s) = nz_next_synthetic_block_index s"
  "nz_pending_tool_calls (upd_ingress f s) = nz_pending_tool_calls s"
  "nz_pending_tool_call_contexts (upd_ingress f s) = nz_pending_tool_call_contexts s"
  "nz_streaming_tool_call_blocks (upd_ingress f s) = nz_streaming_tool_call_blocks s"
  "nz_block_sources (upd_ingress f s) = nz_block_sources s"
  by (simp_all add: upd_ingress_def)

lemma lawful_upd_ingress [simp]: "seq.lawful (modify_emit (upd_ingress f))"
  by (rule lawful_modify_frame) simp_all

lemma lawful_ensure_started [simp]: "seq.lawful (ensure_protocol_ingress_turn_started E)"
  unfolding ensure_protocol_ingress_turn_started_def
  by (intro seq.lawful_ask seq.lawful_if seq.lawful_then) (simp_all add: lawful_start_pulse)

lemma lawful_begin [simp]: "seq.lawful (begin_provider_block E index b)"
  unfolding begin_provider_block_def
  by (cases "provider_stream_block b") (auto intro!: seq.lawful_then split: prod.splits)

lemma lawful_text_chunk [simp]: "seq.lawful (emit_text_chunk E index c)"
  by (cases c) (simp_all add: emit_text_chunk_def)

lemma lawful_close [simp]: "seq.lawful (close_provider_stream_block E index)"
  unfolding close_provider_stream_block_def
  by (intro seq.lawful_ask seq.lawful_if seq.lawful_then seq.lawful_option seq.lawful_each) simp_all

lemma lawful_tagged [simp]: "seq.lawful (emit_tagged_tool_call_from_text E name input)"
  unfolding emit_tagged_tool_call_from_text_def Let_def
  by (intro seq.lawful_ask seq.lawful_if seq.lawful_then) simp_all

lemma lawful_chunk [simp]: "seq.lawful (emit_normalised_provider_chunk E index c)"
  by (cases c) (simp_all add: emit_normalised_provider_chunk_def)

lemma lawful_chunks [simp]: "seq.lawful (emit_normalised_provider_chunks E index cs)"
  unfolding emit_normalised_provider_chunks_def by (intro seq.lawful_each) simp

lemma plawful_none [simp]: "seq.plawful (\<lambda>_. None)"
  by (simp add: seq.plawful_def)

lemma plawful_apply_text [simp]: "seq.plawful (apply_normalised_provider_text E index delta)"
  unfolding apply_normalised_provider_text_def
  by (intro seq.plawful_ask seq.plawful_option)
     (auto split: prod.splits intro!: seq.plawful_total seq.lawful_then)

lemma plawful_open [simp]: "seq.plawful (open_provider_stream_block E index b)"
  unfolding open_provider_stream_block_def
  by (intro seq.plawful_then seq.plawful_option seq.plawful_if seq.plawful_total) simp_all

lemma lawful_ensure_text_block [simp]: "seq.lawful (ensure_text_block E index)"
  unfolding ensure_text_block_def
  by (intro seq.lawful_ask seq.lawful_if seq.lawful_then) simp_all

lemma plawful_apply_delta [simp]: "seq.plawful (apply_provider_stream_delta E index d)"
  unfolding apply_provider_stream_delta_def Let_def
  by (intro seq.plawful_then seq.plawful_if seq.plawful_total) simp_all

lemma lawful_metadata [simp]: "seq.lawful (emit_provider_metadata E m)"
  unfolding emit_provider_metadata_def by (intro seq.lawful_then) simp_all

lemma lawful_usage [simp]: "seq.lawful (emit_provider_usage E u)"
  unfolding emit_provider_usage_def by (intro seq.lawful_then seq.lawful_option) simp_all

lemma lawful_emit_opt: "(\<And>x. seq.lawful (f x)) \<Longrightarrow> seq.lawful (emit_opt f v)"
  unfolding emit_opt_def by (intro seq.lawful_option) simp_all

lemma lawful_finish_turn [simp]: "seq.lawful (finish_protocol_ingress_turn E)"
  unfolding finish_protocol_ingress_turn_def
  by (intro seq.lawful_ask seq.lawful_if seq.lawful_then seq.lawful_each)
     (auto simp: case_prod_beta simp del: normalize_ui_update.simps)

lemma plawful_item [simp]: "seq.plawful (normalize_provider_stream_item E item)"
  by (cases item)
     (auto intro!: seq.plawful_total seq.lawful_then lawful_emit_opt seq.plawful_option
       split: sum.splits)

lemma lawful_message_start [simp]: "seq.lawful (emit_chat_compat_message_start E chunk)"
  unfolding emit_chat_compat_message_start_def Let_def
  by (intro seq.lawful_ask seq.lawful_if seq.lawful_then lawful_emit_opt) simp_all

lemma plawful_tool_delta [simp]: "seq.plawful (apply_chat_compat_tool_delta E tc)"
  unfolding apply_chat_compat_tool_delta_def Let_def case_prod_beta
  by (intro seq.plawful_ask seq.plawful_if seq.plawful_then seq.plawful_option seq.plawful_total)
     simp_all

lemma lawful_close_tools [simp]: "seq.lawful (close_chat_compat_tool_blocks E)"
  unfolding close_chat_compat_tool_blocks_def
  by (intro seq.lawful_ask seq.lawful_then seq.lawful_each) simp_all

lemma plawful_text_opt [simp]: "seq.plawful (text_delta_opt E v)"
  unfolding text_delta_opt_def by (intro seq.plawful_option) auto

lemma plawful_choice [simp]: "seq.plawful (normalize_choice E chunk choice)"
  unfolding normalize_choice_def Let_def
  by (intro seq.plawful_then seq.plawful_option seq.plawful_total seq.plawful_each seq.lawful_then
      seq.lawful_if lawful_emit_opt) simp_all

lemma plawful_chunk [simp]: "seq.plawful (normalize_chat_compat_chunk E chunk)"
  unfolding normalize_chat_compat_chunk_def Let_def
  by (intro seq.plawful_then seq.plawful_option seq.plawful_total seq.plawful_each seq.lawful_then
      lawful_emit_opt) simp_all

lemma plawful_payload [simp]: "seq.plawful (normalize_chat_compat_payload E payload)"
  by (cases payload) (auto intro!: seq.plawful_total seq.lawful_then)

section \<open>The set of open blocks\<close>

text \<open>What a consumer of the envelopes takes to be open.\<close>

fun block_event :: "runtime_signal \<Rightarrow> nat set \<Rightarrow> nat set" where
  "block_event (TranscriptBlockStart i b) X = insert i X"
| "block_event (TranscriptBlockComplete i) X = X - {i}"
| "block_event (PulseStart input) X = {}"
| "block_event _ X = X"

definition track :: "runtime_envelope list \<Rightarrow> nat set \<Rightarrow> nat set" where
  "track es X = fold (block_event \<circ> env_signal) es X"

lemma track_simps [simp]:
  "track [] X = X" "track (e # es) X = track es (block_event (env_signal e) X)"
  "track (a @ b) X = track b (track a X)"
  by (simp_all add: track_def)

fun block_neutral :: "runtime_signal \<Rightarrow> bool" where
  "block_neutral (TranscriptBlockStart i b) = False"
| "block_neutral (TranscriptBlockComplete i) = False"
| "block_neutral (PulseStart input) = False"
| "block_neutral _ = True"

text \<open>The handoff operations leave the ingress state alone.\<close>

definition keeps_ingress :: "normalizer \<Rightarrow> runtime_envelope list \<Rightarrow> normalizer \<Rightarrow> bool" where
  "keeps_ingress s es t \<longleftrightarrow>
     nz_protocol_ingress t = nz_protocol_ingress s
     \<and> (nz_open_final_text_block s = None \<longrightarrow> nz_open_final_text_block t = None)
     \<and> (\<forall>e \<in> set es. block_neutral (env_signal e))"

interpretation apart: emitter_law keeps_ingress
  by unfold_locales (auto simp: keeps_ingress_def)

lemma track_neutral: "\<forall>e \<in> set es. block_neutral (env_signal e) \<Longrightarrow> track es X = X"
proof (induction es)
  case (Cons e es)
  then have "block_event (env_signal e) X = X" by (cases "env_signal e") simp_all
  with Cons show ?case by simp
qed simp

lemma apart_envelope:
  "block_neutral sig \<Longrightarrow> nz_protocol_ingress s1 = nz_protocol_ingress s \<Longrightarrow>
   nz_open_final_text_block s1 = nz_open_final_text_block s \<Longrightarrow>
     keeps_ingress s (fst (emit_one (next_envelope_with_source E sig req parent source) s1))
       (snd (emit_one (next_envelope_with_source E sig req parent source) s1))"
  by (simp add: keeps_ingress_def emit_one_def next_envelope_with_source_def Let_def)

lemma apart_emits [simp]:
  "block_neutral sig \<Longrightarrow> apart.lawful (emit_from E sig source)"
  "block_neutral sig \<Longrightarrow> apart.lawful (emit_signal E sig)"
  "block_neutral sig \<Longrightarrow> apart.lawful (emit_one (next_envelope_with_context E sig req parent))"
  by (rule apart.lawfulI, simp add: emit_unfolds apart_envelope)+

lemma apart_register [simp]: "apart.lawful (record_tool_call E k name arguments)"
proof (rule apart.lawfulI)
  fix s
  obtain e t where r: "register_tool_call E (Some k) name arguments s = (e, t)" by fastforce
  then have "nz_protocol_ingress t = nz_protocol_ingress s"
    by (auto simp: register_tool_call_def generate_tool_call_id_def next_envelope_def
        next_envelope_with_context_def next_envelope_with_source_def Let_def)
  with synthetic_register [OF r]
  show "keeps_ingress s (fst (record_tool_call E k name arguments s))
      (snd (record_tool_call E k name arguments s))"
    by (auto simp: record_tool_call_def emit_one_def r keeps_ingress_def)
qed

lemma neutral_result [simp]: "block_neutral (result_signal is_error tid n st c d out)"
  by (simp add: result_signal_def)

lemma apart_result [simp]: "apart.lawful (record_tool_result E k out is_error)"
  by (rule apart.lawfulI)
     (auto simp: record_tool_result_def Let_def emit_unfolds split: option.splits
       intro!: apart_envelope)

lemma apart_stream_block [simp]: "apart.lawful (normalize_stream_block E b)"
  by (cases b) simp_all

lemma apart_arguments_delta [simp]: "apart.lawful (record_tool_call_arguments_delta E tid delta)"
proof (rule apart.lawfulI)
  fix s
  obtain err s1 where 1: "accumulate_tool_delta E tid delta s = (err, s1)" by fastforce
  obtain r s2 where 2: "append_pending_tool_delta E tid delta s1 = (r, s2)" by fastforce
  have "nz_protocol_ingress s2 = nz_protocol_ingress s"
    "nz_open_final_text_block s2 = nz_open_final_text_block s"
    using same_tablesD(10,12) [OF same_tables_accumulate, of E tid delta s] 1 2
    by (auto simp: append_pending_tool_delta_def split: prod.splits)
  then show "keeps_ingress s (fst (record_tool_call_arguments_delta E tid delta s))
      (snd (record_tool_call_arguments_delta E tid delta s))"
    by (auto simp: record_tool_call_arguments_delta_def Let_def 1 2 next_envelope_with_context_def
        intro!: apart_envelope)
qed

lemma apart_block_delta [simp]: "apart.lawful (stream_block_delta E i delta)"
  unfolding stream_block_delta_def
  by (intro apart.lawful_ask apart.lawful_then apart.lawful_option) simp_all

lemma apart_text_chunk [simp]: "apart.lawful (emit_text_chunk E index c)"
  by (cases c) (simp_all add: emit_text_chunk_def)

text \<open>The two operations with a block event: it is the first respectively the last they emit.\<close>

lemma block_start_events:
  assumes "nz_open_final_text_block s = None"
  shows "track (fst (stream_block_start E i b s)) X = insert i X"
    and "nz_protocol_ingress (snd (stream_block_start E i b s)) = nz_protocol_ingress s"
    and "nz_open_final_text_block (snd (stream_block_start E i b s)) = None"
proof -
  let ?s1 = "snd (open_block E i b s)"
  have close: "close_open_final_text_block E s = ([], s)"
    using assms by (simp add: close_open_final_text_block_def)
  have one: "fst (open_block E i b s) = [e] \<Longrightarrow> env_signal e = TranscriptBlockStart i b" for e
    by (auto simp: open_block_def emit_from_def emit_one_def next_envelope_with_source_def Let_def)
  obtain e where e: "fst (open_block E i b s) = [e]"
    by (simp add: open_block_def emit_from_def emit_one_def next_envelope_with_source_def Let_def)
  have s1: "nz_protocol_ingress ?s1 = nz_protocol_ingress s" "nz_open_final_text_block ?s1 = None"
    using assms
    by (simp_all add: open_block_def emit_from_def emit_one_def next_envelope_with_source_def Let_def)
  note rest = apart.lawfulD [OF apart_stream_block [of E b], of ?s1, unfolded keeps_ingress_def]
  from rest e one [OF e] show "track (fst (stream_block_start E i b s)) X = insert i X"
    by (simp add: stream_block_start_def fst_snd_then_emit close track_neutral)
  from rest s1 show "nz_protocol_ingress (snd (stream_block_start E i b s)) = nz_protocol_ingress s"
    "nz_open_final_text_block (snd (stream_block_start E i b s)) = None"
    by (simp_all add: stream_block_start_def fst_snd_then_emit close)
qed

lemma block_complete_events:
  "track (fst (stream_block_complete E i s)) X = X - {i}"
  "nz_protocol_ingress (snd (stream_block_complete E i s)) = nz_protocol_ingress s"
  "nz_open_final_text_block (snd (stream_block_complete E i s)) = nz_open_final_text_block s"
  by (simp_all add: stream_block_complete_def fst_snd_then_emit emit_from_def emit_one_def
      next_envelope_with_source_def Let_def split: option.splits)

definition open_set :: "normalizer \<Rightarrow> nat set" where
  "open_set s = set (pi_open_blocks (nz_protocol_ingress s))"

definition tracks :: "normalizer \<Rightarrow> runtime_envelope list \<Rightarrow> normalizer \<Rightarrow> bool" where
  "tracks s es t \<longleftrightarrow>
     (nz_open_final_text_block s = None \<longrightarrow>
        nz_open_final_text_block t = None \<and> open_set t = track es (open_set s))"

interpretation blocks: emitter_law tracks
  by unfold_locales (auto simp: tracks_def)

lemma blocks_apart: "apart.lawful f \<Longrightarrow> blocks.lawful f"
  unfolding apart.lawful_def blocks.lawful_def keeps_ingress_def tracks_def open_set_def
  by (simp add: track_neutral)

lemma blocks_upd:
  "(\<And>p. set (pi_open_blocks (f p)) = set (pi_open_blocks p)) \<Longrightarrow>
     blocks.lawful (modify_emit (upd_ingress f))"
  by (rule blocks.lawful_modify) (simp add: tracks_def open_set_def)

lemma blocks_ensure_started [simp]: "blocks.lawful (ensure_protocol_ingress_turn_started E)"
proof (rule blocks.lawfulI)
  fix s
  show "tracks s (fst (ensure_protocol_ingress_turn_started E s))
      (snd (ensure_protocol_ingress_turn_started E s))"
    by (simp add: ensure_protocol_ingress_turn_started_def fst_snd_then_emit tracks_def open_set_def
        start_pulse_def emit_unfolds emit_one_def next_envelope_with_source_def Let_def)
qed

text \<open>Entering an index and announcing its block.\<close>

lemma blocks_open:
  assumes "\<And>p. set (pi_open_blocks (f p)) = insert i (set (pi_open_blocks p))"
  shows "blocks.lawful (then_emit (modify_emit (upd_ingress f)) (stream_block_start E i b))"
  by (rule blocks.lawfulI)
     (simp add: tracks_def open_set_def fst_snd_then_emit block_start_events assms)

lemma blocks_begin [simp]: "blocks.lawful (begin_provider_block E i b)"
  unfolding begin_provider_block_def
  by (cases "provider_stream_block b")
     (auto intro!: blocks.lawful_then blocks_open split: prod.splits)

lemma blocks_close [simp]: "blocks.lawful (close_provider_stream_block E i)"
proof (rule blocks.lawfulI)
  fix s :: normalizer
  let ?f = "\<lambda>p. p\<lparr>pi_open_blocks := removeAll i (pi_open_blocks p),
      pi_tagged_text_normalisers := bt_delete i (pi_tagged_text_normalisers p)\<rparr>"
  let ?g = "case map_of (pi_tagged_text_normalisers (nz_protocol_ingress s)) i of
      Some n \<Rightarrow> each_emit (emit_text_chunk E i) (fst (normaliser_finish n)) | None \<Rightarrow> no_emit"
  have "apart.lawful ?g" by (intro apart.lawful_option apart.lawful_each) simp_all
  note g = apart.lawfulD [OF this, of "upd_ingress ?f s", unfolded keeps_ingress_def]
  show "tracks s (fst (close_provider_stream_block E i s)) (snd (close_provider_stream_block E i s))"
  proof (cases "i \<in> open_set s")
    case True
    then have run: "close_provider_stream_block E i s =
        then_emit (modify_emit (upd_ingress ?f))
          (then_emit ?g (stream_block_complete E i)) s"
      by (simp add: close_provider_stream_block_def open_set_def)
    from g show ?thesis
      unfolding run tracks_def open_set_def
      by (simp add: fst_snd_then_emit block_complete_events track_neutral set_removeAll)
  next
    case False
    then show ?thesis
      by (simp add: close_provider_stream_block_def open_set_def blocks.silent)
  qed
qed

lemma blocks_tagged [simp]: "blocks.lawful (emit_tagged_tool_call_from_text E name input)"
  unfolding emit_tagged_tool_call_from_text_def Let_def
  by (intro blocks.lawful_ask blocks.lawful_if blocks.lawful_then blocks_upd) simp_all

lemma blocks_chunk [simp]: "blocks.lawful (emit_normalised_provider_chunk E i c)"
  by (cases c) (simp_all add: emit_normalised_provider_chunk_def blocks_apart)

lemma blocks_chunks [simp]: "blocks.lawful (emit_normalised_provider_chunks E i cs)"
  unfolding emit_normalised_provider_chunks_def by (intro blocks.lawful_each) simp

lemma blocks_none [simp]: "blocks.plawful (\<lambda>_. None)"
  by (simp add: blocks.plawful_def)

lemma blocks_apply_text [simp]: "blocks.plawful (apply_normalised_provider_text E i delta)"
  unfolding apply_normalised_provider_text_def
  by (intro blocks.plawful_ask blocks.plawful_option)
     (auto split: prod.splits intro!: blocks.plawful_total blocks.lawful_then blocks_upd)

lemma blocks_open_block [simp]: "blocks.plawful (open_provider_stream_block E i b)"
  unfolding open_provider_stream_block_def
  by (intro blocks.plawful_then blocks.plawful_option blocks.plawful_if blocks.plawful_total)
     (simp_all add: blocks_apart)

lemma blocks_ensure_text_block [simp]: "blocks.lawful (ensure_text_block E i)"
  unfolding ensure_text_block_def
  by (intro blocks.lawful_ask blocks.lawful_if) (auto intro!: blocks_open)

lemma blocks_apply_delta [simp]: "blocks.plawful (apply_provider_stream_delta E i d)"
  unfolding apply_provider_stream_delta_def Let_def
  by (intro blocks.plawful_then blocks.plawful_if blocks.plawful_total) (simp_all add: blocks_apart)

lemma blocks_metadata [simp]: "blocks.lawful (emit_provider_metadata E m)"
  unfolding emit_provider_metadata_def by (intro blocks.lawful_then) (simp_all add: blocks_apart)

lemma blocks_usage [simp]: "blocks.lawful (emit_provider_usage E u)"
  unfolding emit_provider_usage_def
  by (intro blocks.lawful_then blocks.lawful_option blocks_upd) (simp_all add: blocks_apart)

lemma blocks_emit_opt: "(\<And>x. blocks.lawful (f x)) \<Longrightarrow> blocks.lawful (emit_opt f v)"
  unfolding emit_opt_def by (intro blocks.lawful_option) simp_all

lemma blocks_item [simp]: "blocks.plawful (normalize_provider_stream_item E item)"
  by (cases item)
     (auto simp: blocks_apart intro!: blocks.plawful_total blocks.lawful_then blocks_emit_opt
       blocks.plawful_option split: sum.splits)

lemma blocks_message_start [simp]: "blocks.lawful (emit_chat_compat_message_start E chunk)"
  unfolding emit_chat_compat_message_start_def Let_def
  by (intro blocks.lawful_ask blocks.lawful_if blocks.lawful_then blocks_emit_opt blocks_upd)
     simp_all

lemma blocks_tool_delta [simp]: "blocks.plawful (apply_chat_compat_tool_delta E tc)"
  unfolding apply_chat_compat_tool_delta_def Let_def case_prod_beta
  by (intro blocks.plawful_ask blocks.plawful_if blocks.plawful_then blocks.plawful_option
      blocks.plawful_total) (simp_all add: blocks_upd)

lemma blocks_close_tools [simp]: "blocks.lawful (close_chat_compat_tool_blocks E)"
  unfolding close_chat_compat_tool_blocks_def
  by (intro blocks.lawful_ask blocks.lawful_then blocks.lawful_each blocks_upd) simp_all

lemma blocks_text_opt [simp]: "blocks.plawful (text_delta_opt E v)"
  unfolding text_delta_opt_def by (intro blocks.plawful_option) auto

lemma blocks_choice [simp]: "blocks.plawful (normalize_choice E chunk choice)"
  unfolding normalize_choice_def Let_def
  by (intro blocks.plawful_then blocks.plawful_option blocks.plawful_total blocks.plawful_each
      blocks.lawful_then blocks.lawful_if blocks_emit_opt) simp_all

lemma blocks_compat_chunk [simp]: "blocks.plawful (normalize_chat_compat_chunk E chunk)"
  unfolding normalize_chat_compat_chunk_def Let_def
  by (intro blocks.plawful_then blocks.plawful_option blocks.plawful_total blocks.plawful_each
      blocks.lawful_then blocks_emit_opt) simp_all

lemma blocks_payload [simp]: "blocks.plawful (normalize_chat_compat_payload E payload)"
  by (cases payload) (auto intro!: blocks.plawful_total blocks.lawful_then blocks_upd)

section \<open>Runs of the ingress\<close>

lemma plawful_run: "seq.plawful (run_payloads E ps)"
proof -
  have "seq.plawful (adapt_payload E p)" for p by (cases p) simp_all
  then show ?thesis unfolding run_payloads_def by (rule seq.plawful_each)
qed

lemma blocks_run: "blocks.plawful (run_payloads E ps)"
proof -
  have "blocks.plawful (adapt_payload E p)" for p by (cases p) simp_all
  then show ?thesis unfolding run_payloads_def by (rule blocks.plawful_each)
qed

text \<open>A concrete environment: every content block decodes to the same tool call.\<close>

definition sample_ingress :: ingress_env where
  "sample_ingress =
     \<lparr>utc_now = utc_now sample_env, instant_now = instant_now sample_env,
      to_rfc3339 = to_rfc3339 sample_env, json_lib = sample_serde,
      decode_content_block = (\<lambda>v. Inr (ToolUseCompat ''a'' ''search'' (JObject []) None)),
      decode_stream_item = (\<lambda>t. Inl ''not an item''), decode_chat_chunk = (\<lambda>t. None),
      decode_envelope = (\<lambda>t. None)\<rparr>"

abbreviation sample_payloads :: "ingress_payload list" where
  "sample_payloads \<equiv> [Provider (ContentBlockStart 0 JNull), Provider Ping]"

lemmas ingress_eval_defs =
  decode_provider_content_block_def begin_provider_block_def
  ensure_protocol_ingress_turn_started_def normalizer_new_def eval_defs stream_block_start_def
  open_block_def record_tool_call_def register_tool_call_def generate_tool_call_id_def
  start_tool_accumulator_def seed_tool_accumulator_def with_accumulator_def upd_ingress_def
  track_streaming_block_def

lemma sample_run:
  "\<exists>es s fs t. run_payloads sample_ingress sample_payloads (normalizer_new ''t'') = Some (es, s)
     \<and> finish_protocol_ingress_turn sample_ingress s = (fs, t)
     \<and> pi_turn_started (nz_protocol_ingress s) \<and> length (es @ fs) = 5"
  by (simp add: run_payloads_def open_tool_use ingress_eval_defs insort_insert_key_def
      needs_text_normaliser_def sample_ingress_def sample_serde_def sample_env_def
      finish_protocol_ingress_turn_def stream_block_complete_def finish_tool_accumulator_def
      split: prod.splits)

text \<open>
  Whatever payloads of the two protocols a stream delivers, the
  envelopes of the stream and of its finishing turn carry the sequence numbers 1, 2, 3, ... and
  pairwise different frame ids.
\<close>

theorem protocol_envelopes_numbered:
  assumes "run_payloads E ps (normalizer_new task) = Some (es, s)"
    and "finish_protocol_ingress_turn E s = (fs, t)" and "length (es @ fs) < u64_max"
  shows "map env_seq (es @ fs) = [1 ..< Suc (length (es @ fs))]
     \<and> distinct (map env_frame_id (es @ fs))"
proof -
  have "numbered (normalizer_new task) (es @ fs) t"
    by (rule seq.compose [OF seq.plawfulD [OF plawful_run assms(1)]
          seq.lawful_app [OF lawful_finish_turn assms(2)]])
  moreover have "nz_next_seq (normalizer_new task) = 1"
    by (simp add: normalizer_new_def new_inner_def)
  ultimately show ?thesis
    using assms(3) numbered_distinct_frames [of "normalizer_new task" "es @ fs" t]
    by (simp add: numbered_def)
qed

theorem protocol_envelopes_numbered_witness:
  "\<exists>es s fs t. run_payloads sample_ingress sample_payloads (normalizer_new ''t'') = Some (es, s)
     \<and> finish_protocol_ingress_turn sample_ingress s = (fs, t) \<and> length (es @ fs) = 5
     \<and> map env_seq (es @ fs) = [1 ..< Suc (length (es @ fs))]
     \<and> distinct (map env_frame_id (es @ fs))"
proof -
  obtain es s fs t where
    run: "run_payloads sample_ingress sample_payloads (normalizer_new ''t'') = Some (es, s)"
      "finish_protocol_ingress_turn sample_ingress s = (fs, t)" "length (es @ fs) = 5"
    using sample_run by blast
  have "length (es @ fs) < u64_max" unfolding run(3) by (simp add: u64_max_def)
  from protocol_envelopes_numbered [OF run(1,2) this] run show ?thesis by blast
qed

section \<open>Every operation of a normalizer\<close>

text \<open>The operations of the normalizer and of its protocol ingress, as its users call them.\<close>

datatype normalizer_op =
  Handoff_op handoff_op
| Payload_op ingress_payload
| Finish_op
| Ingress_error_op string string

fun run_normalizer_op :: "'z ingress_env_scheme \<Rightarrow> normalizer_op \<Rightarrow> ingress" where
  "run_normalizer_op E (Handoff_op op) = total (run_op E op)"
| "run_normalizer_op E (Payload_op p) = adapt_payload E p"
| "run_normalizer_op E Finish_op = total (finish_protocol_ingress_turn E)"
| "run_normalizer_op E (Ingress_error_op code message) = total (emit_protocol_ingress_error E code message)"

fun is_ingress_error :: "normalizer_op \<Rightarrow> bool" where
  "is_ingress_error (Ingress_error_op code message) = True"
| "is_ingress_error op = False"

fun run_normalizer :: "'z ingress_env_scheme \<Rightarrow> normalizer_op list \<Rightarrow> ingress" where
  "run_normalizer E [] s = Some ([], s)"
| "run_normalizer E (op # ops) s =
     (case run_normalizer_op E op s of
        None \<Rightarrow> None
      | Some (es, t) \<Rightarrow> map_option (\<lambda>(fs, u). (es @ fs, u)) (run_normalizer E ops t))"

text \<open>Increasing numbers, of which at most \<open>k\<close> are left out.\<close>

definition spaced :: "nat \<Rightarrow> normalizer \<Rightarrow> runtime_envelope list \<Rightarrow> normalizer \<Rightarrow> bool" where
  "spaced k s es t \<longleftrightarrow>
     nz_task_id t = nz_task_id s \<and> (\<forall>e \<in> set es. stamped e \<and> env_task_id e = nz_task_id s)
     \<and> (nz_next_seq s + length es + k \<le> u64_max \<longrightarrow>
          sorted_wrt (<) (map env_seq es)
          \<and> (\<forall>e \<in> set es. nz_next_seq s \<le> env_seq e \<and> env_seq e < nz_next_seq t)
          \<and> nz_next_seq s + length es \<le> nz_next_seq t \<and> nz_next_seq t \<le> nz_next_seq s + length es + k)"

lemma spaced_numbered: 
  assumes "numbered s es t"
  shows "spaced 0 s es t"
proof -
  have "\<forall>e \<in> set es. nz_next_seq s \<le> env_seq e \<and> env_seq e < nz_next_seq t" 
    if "nz_next_seq s + length es \<le> u64_max"
  proof -
    have "env_seq ` set es = set [nz_next_seq s ..< nz_next_seq t]"
      using assms that by (metis list.set_map numbered_def)
    then show ?thesis by auto
  qed
  with assms show ?thesis by (auto simp: spaced_def numbered_def)
qed

lemma spaced_compose:
  assumes "spaced k s a t" and "spaced l t b u"
  shows "spaced (k + l) s (a @ b) u"
proof -
  have "sorted_wrt (<) (map env_seq (a @ b))
      \<and> (\<forall>e \<in> set (a @ b). nz_next_seq s \<le> env_seq e \<and> env_seq e < nz_next_seq u)
      \<and> nz_next_seq s + length (a @ b) \<le> nz_next_seq u \<and> nz_next_seq u \<le> nz_next_seq s + length (a @ b) + (k + l)"
    if room: "nz_next_seq s + length (a @ b) + (k + l) \<le> u64_max"
  proof -
    have 1: "sorted_wrt (<) (map env_seq a)" "\<forall>e \<in> set a. nz_next_seq s \<le> env_seq e \<and> env_seq e < nz_next_seq t"
      "nz_next_seq s + length a \<le> nz_next_seq t" "nz_next_seq t \<le> nz_next_seq s + length a + k"
      using assms(1) room by (auto simp: spaced_def)
    then have 2: "sorted_wrt (<) (map env_seq b)" "\<forall>e \<in> set b. nz_next_seq t \<le> env_seq e \<and> env_seq e < nz_next_seq u"
      "nz_next_seq t + length b \<le> nz_next_seq u" "nz_next_seq u \<le> nz_next_seq t + length b + l"
      using assms(2) room by (auto simp: spaced_def)
    from 1 2 show ?thesis by (fastforce simp: sorted_wrt_append)
  qed
  then show ?thesis using assms by (auto simp: spaced_def)
qed

lemma ingress_error_spaced: "spaced 1 s (fst (emit_protocol_ingress_error E code message s)) (snd (emit_protocol_ingress_error E code message s))"
proof -
  let ?s1 = "snd (ensure_protocol_ingress_turn_started E s)"
  have start: "numbered s (fst (ensure_protocol_ingress_turn_started E s)) ?s1"
    by (rule seq.lawfulD) simp
  have "length (fst (ensure_protocol_ingress_turn_started E s)) \<le> 1"
    by (simp add: ensure_protocol_ingress_turn_started_def emit_defs start_pulse_def emit_signal_def emit_from_def
        emit_one_def case_prod_unfold Let_def)
  then have "spaced 1 s [] ?s1"
    using start by (auto simp: spaced_def numbered_def)
  moreover have "spaced 0 ?s1 (fst (emit_signal E (Error_signal code message True) ?s1))
      (snd (emit_signal E (Error_signal code message True) ?s1))"
    by (rule spaced_numbered, rule seq.lawfulD) simp
  ultimately show ?thesis
    using spaced_compose by (fastforce simp: emit_protocol_ingress_error_def)
qed

lemma regular_op_numbered:
  "\<not> is_ingress_error op \<Longrightarrow> run_normalizer_op E op s = Some (es, t) \<Longrightarrow> numbered s es t"
proof (cases op)
  case (Payload_op p)
  assume "run_normalizer_op E op s = Some (es, t)"
  moreover have "seq.plawful (adapt_payload E p)" by (cases p) simp_all
  ultimately show ?thesis using Payload_op seq.plawfulD by fastforce
qed (auto intro: seq.lawful_app [OF lawful_run_op] seq.lawful_app [OF lawful_finish_turn])

lemma op_spaced:
  assumes "run_normalizer_op E op s = Some (es, t)"
  shows "spaced (if is_ingress_error op then 1 else 0) s es t"
proof (cases "is_ingress_error op")
  case True
  then obtain code message where "op = Ingress_error_op code message" by (cases op) auto
  with assms ingress_error_spaced [of s E code message] show ?thesis by simp
next
  case False
  with regular_op_numbered [OF False assms] show ?thesis by (simp add: spaced_numbered)
qed

lemma run_spaced:
  "run_normalizer E ops s = Some (es, t) \<Longrightarrow> spaced (length (filter is_ingress_error ops)) s es t"
proof (induction ops arbitrary: s es)
  case Nil
  then show ?case by (auto intro: spaced_numbered simp: numbered_def)
next
  case (Cons op ops)
  then obtain a s1 b where "run_normalizer_op E op s = Some (a, s1)" "run_normalizer E ops s1 = Some (b, t)" "es = a @ b"
    by (auto split: option.splits)
  with spaced_compose [OF op_spaced Cons.IH] show ?case by fastforce
qed

lemma regular_run_numbered:
  "\<not> list_ex is_ingress_error ops \<Longrightarrow> run_normalizer E ops s = Some (es, t) \<Longrightarrow> numbered s es t"
proof (induction ops arbitrary: s es)
  case Nil
  then show ?case by (simp add: numbered_def)
next
  case (Cons op ops)
  then obtain a s1 b where run: "run_normalizer_op E op s = Some (a, s1)" "run_normalizer E ops s1 = Some (b, t)" "es = a @ b"
    by (auto split: option.splits)
  have "numbered s a s1" using regular_op_numbered [OF _ run(1)] Cons.prems(1) by simp
  moreover have "numbered s1 b t" using Cons.IH [OF _ run(2)] Cons.prems(1) by simp
  ultimately show ?case unfolding run(3) by (rule seq.compose)
qed

text \<open>
  C21 [normalizer_numbers_envelopes]. Whatever operations are applied to a fresh normalizer, its own and those of its
  protocol ingress, in whatever order: the envelopes it hands out carry strictly increasing sequence numbers, its task
  id, and pairwise different frame ids made of both; the numbers run through 1, 2, 3, ... but for at most one that
  is left out by each ingress error (which discards the start of the turn it opens), and without an ingress error none is.
  All this up to the saturation of the 64-bit counter.
\<close>

theorem normalizer_numbers_envelopes:
  assumes "run_normalizer E ops (new_inner task acc) = Some (es, s)"
    and "length es + length (filter is_ingress_error ops) < u64_max"
  shows "sorted_wrt (<) (map env_seq es)
    \<and> distinct (map env_frame_id es)
    \<and> (\<forall>e \<in> set es. env_task_id e = task \<and> stamped e \<and> 1 \<le> env_seq e \<and> env_seq e < nz_next_seq s)
    \<and> nz_next_seq s \<le> Suc (length es) + length (filter is_ingress_error ops)
    \<and> (\<not> list_ex is_ingress_error ops \<longrightarrow> map env_seq es = [1 ..< Suc (length es)])"
proof -
  have start: "nz_next_seq (new_inner task acc) = 1" "nz_task_id (new_inner task acc) = task"
    by (simp_all add: new_inner_def)
  have sp: "spaced (length (filter is_ingress_error ops)) (new_inner task acc) es s"
    using assms(1) by (rule run_spaced)
  then have seqs: "sorted_wrt (<) (map env_seq es)"
    and stamps: "\<forall>e \<in> set es. env_task_id e = task \<and> stamped e \<and> 1 \<le> env_seq e \<and> env_seq e < nz_next_seq s"
    and upto: "nz_next_seq s \<le> Suc (length es) + length (filter is_ingress_error ops)"
    using assms(2) by (auto simp: spaced_def start)
  have "distinct (map env_seq es)" using seqs by (simp add: strict_sorted_iff)
  moreover have "inj_on env_frame_id (set es)" if "inj_on env_seq (set es)"
    using stamps that by (auto simp: stamped_def frame_id_inject inj_on_def)
  ultimately have "distinct (map env_frame_id es)" by (simp add: distinct_map)
  moreover have "map env_seq es = [1 ..< Suc (length es)]" if "\<not> list_ex is_ingress_error ops"
    using regular_run_numbered [OF that assms(1)] assms(2) by (simp add: numbered_def start)
  ultimately show ?thesis using seqs stamps upto by blast
qed

theorem normalizer_numbers_envelopes_witness:
  "\<exists>es s. run_normalizer sample_ingress
      [Ingress_error_op ''a'' ''b'', Handoff_op (UiUpdate (StreamDelta ''hi'') None)] (new_inner ''t'' None) = Some (es, s)
    \<and> sorted_wrt (<) (map env_seq es) \<and> map env_seq es = [2, 3, 4]"
proof -
  have "case run_normalizer sample_ingress
      [Ingress_error_op ''a'' ''b'', Handoff_op (UiUpdate (StreamDelta ''hi'') None)] (new_inner ''t'' None) of
      Some (es, s) \<Rightarrow> map env_seq es = [2, 3, 4] | None \<Rightarrow> False"
    by (simp add: emit_protocol_ingress_error_def total_def sample_ingress_def sample_env_def ingress_eval_defs split: prod.splits)
  then obtain es s where run: "run_normalizer sample_ingress
      [Ingress_error_op ''a'' ''b'', Handoff_op (UiUpdate (StreamDelta ''hi'') None)] (new_inner ''t'' None) = Some (es, s)"
    and seqs: "map env_seq es = [2, 3, 4]"
    by (auto split: option.splits)
  from seqs have "length es = 3" by (metis length_map length_Cons list.size(3) numeral_3_eq_3)
  then have "sorted_wrt (<) (map env_seq es)"
    using normalizer_numbers_envelopes [OF run] by (simp add: u64_max_def)
  with run seqs show ?thesis by (intro exI conjI)
qed

section \<open>The end of a turn closes every block\<close>

lemma completes_events:
  "track (fst (each_emit (\<lambda>i. stream_block_complete E i) is s)) X = X - set is"
  "nz_protocol_ingress (snd (each_emit (\<lambda>i. stream_block_complete E i) is s)) = nz_protocol_ingress s"
  "nz_open_final_text_block (snd (each_emit (\<lambda>i. stream_block_complete E i) is s))
     = nz_open_final_text_block s"
  by (induction "is" arbitrary: s X)
     (auto simp: fst_snd_then_emit block_complete_events)

lemma complete_turn_events:
  assumes "nz_open_final_text_block s = None"
  obtains e files where "fst (complete_turn E te s) = [e]"
    "env_signal e = PulseEnd ''completed'' (pec_usage te) files"
    "nz_protocol_ingress (snd (complete_turn E te s)) = nz_protocol_ingress s"
    "nz_open_final_text_block (snd (complete_turn E te s)) = None"
proof -
  have close: "close_open_final_text_block E u = ([], u)"
    if "nz_open_final_text_block u = None" for u
    using that by (simp add: close_open_final_text_block_def)
  show ?thesis
    using assms
    by (intro that [of _ "resolve_changed_files (pec_changed_files te) s"])
       (simp add: complete_turn_def finish_turn_with_status_def fst_snd_then_emit close emit_unfolds
        emit_one_def next_envelope_with_source_def Let_def, simp_all add: complete_turn_def
        finish_turn_with_status_def fst_snd_then_emit close emit_unfolds emit_one_def
        next_envelope_with_source_def Let_def)
qed

lemma finish_turn_events:
  assumes "nz_open_final_text_block s = None" "pi_turn_started (nz_protocol_ingress s)"
  obtains fs e usage files where "fst (finish_protocol_ingress_turn E s) = fs @ [e]"
    "env_signal e = PulseEnd ''completed'' usage files"
    "track (fs @ [e]) (open_set s) = {}"
    "nz_protocol_ingress (snd (finish_protocol_ingress_turn E s)) = protocol_ingress_default"
    "nz_open_final_text_block (snd (finish_protocol_ingress_turn E s)) = None"
proof -
  define s1 where "s1 = upd_ingress (\<lambda>p. p\<lparr>pi_tagged_text_normalisers := []\<rparr>) s"
  let ?chunks = "each_emit (\<lambda>(index, n).
      emit_normalised_provider_chunks E index (fst (normaliser_finish n)))
      (pi_tagged_text_normalisers (nz_protocol_ingress s))"
  have "blocks.lawful ?chunks" by (intro blocks.lawful_each) (simp add: case_prod_beta)
  note chunks = blocks.lawfulD [OF this, of s1, unfolded tracks_def]
  define s2 where "s2 = upd_ingress (\<lambda>p. p\<lparr>pi_open_blocks := []\<rparr>) (snd (?chunks s1))"
  let ?is = "pi_open_blocks (nz_protocol_ingress (snd (?chunks s1)))"
  let ?completes = "each_emit (\<lambda>i. stream_block_complete E i) ?is"
  define s3 where "s3 = upd_ingress (\<lambda>p. p\<lparr>pi_turn_tokens := pulse_tokens_default\<rparr>)
      (snd (?completes s2))"
  let ?te = "\<lparr>pec_usage = token_usage_from_turn_tokens
        (pi_turn_tokens (nz_protocol_ingress (snd (?completes s2)))), pec_changed_files = []\<rparr>"
  have s1: "nz_open_final_text_block s1 = None" "open_set s1 = open_set s"
    using assms(1) by (simp_all add: s1_def open_set_def)
  with chunks have c: "nz_open_final_text_block (snd (?chunks s1)) = None"
    "set ?is = track (fst (?chunks s1)) (open_set s)"
    by (simp_all add: open_set_def)
  then have "nz_open_final_text_block s3 = None" by (simp add: s3_def s2_def completes_events)
  then obtain e files where e: "fst (complete_turn E ?te s3) = [e]"
    "env_signal e = PulseEnd ''completed'' (pec_usage ?te) files"
    "nz_open_final_text_block (snd (complete_turn E ?te s3)) = None"
    by (rule complete_turn_events)
  have run: "fst (finish_protocol_ingress_turn E s)
      = (fst (?chunks s1) @ fst (?completes s2)) @ [e]"
    "nz_protocol_ingress (snd (finish_protocol_ingress_turn E s)) = protocol_ingress_default"
    "nz_open_final_text_block (snd (finish_protocol_ingress_turn E s)) = None"
    using assms(2) e(1,3)
    by (simp_all add: finish_protocol_ingress_turn_def fst_snd_then_emit turn_end_or_default_def
        flip: s1_def s2_def s3_def)
  show ?thesis
    by (rule that [OF run(1) e(2) _ run(2,3)]) (simp add: completes_events c e(2))
qed

text \<open>
  C24 [protocol_turn_closes_blocks]: at every moment of a stream the blocks its consumer has seen
  opened and not completed are exactly the blocks the ingress holds open; and when the stream ends
  during a turn, the finishing envelopes complete every one of them, the last of them reports the end
  of the turn, and the ingress is back in its initial state.
\<close>

theorem protocol_turn_closes_blocks:
  assumes "run_payloads E ps (normalizer_new task) = Some (es, s)"
    and "finish_protocol_ingress_turn E s = (fs, t)"
  shows "track es {} = set (pi_open_blocks (nz_protocol_ingress s))
     \<and> (pi_turn_started (nz_protocol_ingress s) \<longrightarrow>
          track (es @ fs) {} = {}
          \<and> (\<exists>usage files. env_signal (last fs) = PulseEnd ''completed'' usage files)
          \<and> nz_protocol_ingress t = protocol_ingress_default)"
proof -
  have "nz_open_final_text_block (normalizer_new task) = None"
    "open_set (normalizer_new task) = {}"
    by (simp_all add: normalizer_new_def new_inner_def open_set_def)
  with blocks.plawfulD [OF blocks_run assms(1)]
  have s: "nz_open_final_text_block s = None" "open_set s = track es {}"
    by (simp_all add: tracks_def)
  moreover have "track (es @ fs) {} = {}
      \<and> (\<exists>usage files. env_signal (last fs) = PulseEnd ''completed'' usage files)
      \<and> nz_protocol_ingress t = protocol_ingress_default"
    if "pi_turn_started (nz_protocol_ingress s)"
    by (rule finish_turn_events [OF s(1) that, of E]) (use assms(2) s(2) in auto)
  ultimately show ?thesis by (simp add: open_set_def)
qed

theorem protocol_turn_closes_blocks_witness:
  "\<exists>es s fs t. run_payloads sample_ingress sample_payloads (normalizer_new ''t'') = Some (es, s)
     \<and> finish_protocol_ingress_turn sample_ingress s = (fs, t)
     \<and> pi_turn_started (nz_protocol_ingress s)
     \<and> track es {} = set (pi_open_blocks (nz_protocol_ingress s))
     \<and> track (es @ fs) {} = {} \<and> nz_protocol_ingress t = protocol_ingress_default"
proof -
  obtain es s fs t where
    run: "run_payloads sample_ingress sample_payloads (normalizer_new ''t'') = Some (es, s)"
      "finish_protocol_ingress_turn sample_ingress s = (fs, t)"
      "pi_turn_started (nz_protocol_ingress s)"
    using sample_run by blast
  from protocol_turn_closes_blocks [OF run(1,2)] run show ?thesis by blast
qed

end
