(* ===== verification/Chat_Compat_Laws.thy ===== *)
theory Chat_Compat_Laws
  imports Protocol_Laws
begin

text \<open>
  Token usage and chat-compatible tool calls over a whole stream: what is accumulated once the turn
  has started, and what is lost when the first message of a stream starts the turn itself.
\<close>

section \<open>Token usage\<close>

lemma ensure_started_noop:
  "pi_turn_started (nz_protocol_ingress s) \<Longrightarrow> ensure_protocol_ingress_turn_started E s = ([], s)"
  by (simp add: ensure_protocol_ingress_turn_started_def no_emit_def)

lemma ingress_emit_signal [simp]:
  "nz_protocol_ingress (snd (emit_signal E sig s)) = nz_protocol_ingress s"
  by (simp add: emit_unfolds emit_one_def next_envelope_with_source_def Let_def)

lemma usage_ingress:
  assumes "pi_turn_started (nz_protocol_ingress s)"
  shows "nz_protocol_ingress (snd (emit_provider_usage E u s))
     = (nz_protocol_ingress s)\<lparr>pi_turn_tokens :=
          accumulate_turn_tokens u (pi_turn_tokens (nz_protocol_ingress s))\<rparr>"
  using assms
  by (simp add: emit_provider_usage_def fst_snd_then_emit ensure_started_noop split: option.splits)

lemma usages_ingress:
  "pi_turn_started (nz_protocol_ingress s) \<Longrightarrow>
     nz_protocol_ingress (snd (each_emit (emit_provider_usage E) us s))
       = (nz_protocol_ingress s)\<lparr>pi_turn_tokens :=
            fold accumulate_turn_tokens us (pi_turn_tokens (nz_protocol_ingress s))\<rparr>"
  by (induction us arbitrary: s) (simp_all add: fst_snd_then_emit usage_ingress)

lemma sat_add_opt_min: "sat_add_opt (min a u64_max) v = min (a + or_zero v) u64_max"
  by (simp add: sat_add_opt_def or_zero_def sat_add_def min_def split: option.splits)

definition saturated_sum :: "(api_usage \<Rightarrow> nat option) \<Rightarrow> api_usage list \<Rightarrow> nat" where
  "saturated_sum f us = min (sum_list (map (or_zero \<circ> f) us)) u64_max"

lemma fold_accumulate:
  "fold accumulate_turn_tokens us pulse_tokens_default
     = \<lparr>pt_input = saturated_sum au_input_tokens us, pt_output = saturated_sum au_output_tokens us,
        pt_estimated = False,
        pt_cache_creation_input_tokens = saturated_sum au_cache_creation_input_tokens us,
        pt_cache_read_input_tokens = saturated_sum au_cache_read_input_tokens us\<rparr>"
proof (induction us rule: rev_induct)
  case Nil
  show ?case by (simp add: pulse_tokens_default_def saturated_sum_def)
next
  case (snoc u us)
  then show ?case
    by (simp add: accumulate_turn_tokens_def saturated_sum_def sat_add_opt_min)
qed

text \<open>Finishing a turn with no open block and no buffered text.\<close>

lemma finish_idle:
  assumes "nz_open_final_text_block s = None" "pi_turn_started (nz_protocol_ingress s)"
    "pi_tagged_text_normalisers (nz_protocol_ingress s) = []"
    "pi_open_blocks (nz_protocol_ingress s) = []"
  obtains e files where "fst (finish_protocol_ingress_turn E s) = [e]"
    "env_signal e = PulseEnd ''completed''
       (token_usage_from_turn_tokens (pi_turn_tokens (nz_protocol_ingress s))) files"
proof -
  let ?u = "upd_ingress (\<lambda>p. p\<lparr>pi_turn_tokens := pulse_tokens_default\<rparr>)
      (upd_ingress (\<lambda>p. p\<lparr>pi_open_blocks := []\<rparr>)
        (upd_ingress (\<lambda>p. p\<lparr>pi_tagged_text_normalisers := []\<rparr>) s))"
  let ?te = "\<lparr>pec_usage = token_usage_from_turn_tokens (pi_turn_tokens (nz_protocol_ingress s)),
      pec_changed_files = []\<rparr>"
  have "nz_open_final_text_block ?u = None" using assms(1) by simp
  then obtain e files where e: "fst (complete_turn E ?te ?u) = [e]"
    "env_signal e = PulseEnd ''completed'' (pec_usage ?te) files"
    by (rule complete_turn_events)
  have "fst (finish_protocol_ingress_turn E s) = [e]"
    using assms e(1)
    by (simp add: finish_protocol_ingress_turn_def fst_snd_then_emit turn_end_or_default_def)
  then show ?thesis by (rule that) (simp add: e(2))
qed

text \<open>
  From the moment the turn has started, the usage reports of the provider are
  added up field by field, saturating at the largest \<open>u64\<close>, and the end-of-turn envelope carries the
  totals.
\<close>

theorem turn_usage_totals:
  assumes "pi_turn_started (nz_protocol_ingress s)" "nz_open_final_text_block s = None"
    and "pi_turn_tokens (nz_protocol_ingress s) = pulse_tokens_default"
    and "pi_tagged_text_normalisers (nz_protocol_ingress s) = []"
    and "pi_open_blocks (nz_protocol_ingress s) = []"
    and "each_emit (emit_provider_usage E) us s = (es, t)"
  shows "\<exists>files. env_signal (last (fst (finish_protocol_ingress_turn E t)))
     = PulseEnd ''completed''
         (token_usage_from_turn_tokens
            \<lparr>pt_input = saturated_sum au_input_tokens us,
             pt_output = saturated_sum au_output_tokens us, pt_estimated = False,
             pt_cache_creation_input_tokens = saturated_sum au_cache_creation_input_tokens us,
             pt_cache_read_input_tokens = saturated_sum au_cache_read_input_tokens us\<rparr>) files"
proof -
  have "blocks.lawful (each_emit (emit_provider_usage E) us)" by (intro blocks.lawful_each) simp
  with assms(2,6) have fin: "nz_open_final_text_block t = None"
    by (auto simp: tracks_def dest: blocks.lawful_app)
  have t: "nz_protocol_ingress t = (nz_protocol_ingress s)\<lparr>pi_turn_tokens :=
      fold accumulate_turn_tokens us pulse_tokens_default\<rparr>"
    using usages_ingress [OF assms(1), of E us] assms(3,6) by simp
  show ?thesis
    by (rule finish_idle [OF fin, of E]) (use assms(1,4,5) t in \<open>auto simp: fold_accumulate\<close>)
qed

definition sample_usage :: "nat \<Rightarrow> nat \<Rightarrow> api_usage" where
  "sample_usage i out =
     \<lparr>au_input_tokens = Some i, au_output_tokens = Some out, au_total_tokens = None,
      au_cache_creation_input_tokens = None, au_cache_read_input_tokens = None,
      au_cache_creation = None, au_service_tier = None, au_web_search_requests = None,
      au_inference_geo = None, au_prompt_tokens_details = None,
      au_completion_tokens_details = None, au_prefix_cache = None\<rparr>"

definition started_normalizer :: normalizer where
  "started_normalizer =
     upd_ingress (\<lambda>p. p\<lparr>pi_turn_started := True\<rparr>) (normalizer_new ''t'')"

lemma started_normalizer_simps [simp]:
  "nz_protocol_ingress started_normalizer = protocol_ingress_default\<lparr>pi_turn_started := True\<rparr>"
  "nz_open_final_text_block started_normalizer = None"
  "nz_pending_tool_calls started_normalizer = []"
  "nz_tool_id_counter started_normalizer = 0"
  by (simp_all add: started_normalizer_def normalizer_new_def new_inner_def)

theorem turn_usage_totals_witness:
  "\<exists>files. env_signal (last (fst (finish_protocol_ingress_turn sample_ingress
       (snd (each_emit (emit_provider_usage sample_ingress) [sample_usage 10 2, sample_usage 5 7]
          started_normalizer)))))
     = PulseEnd ''completed''
         (token_usage_from_turn_tokens
            \<lparr>pt_input = saturated_sum au_input_tokens [sample_usage 10 2, sample_usage 5 7],
             pt_output = saturated_sum au_output_tokens [sample_usage 10 2, sample_usage 5 7],
             pt_estimated = False,
             pt_cache_creation_input_tokens =
               saturated_sum au_cache_creation_input_tokens [sample_usage 10 2, sample_usage 5 7],
             pt_cache_read_input_tokens =
               saturated_sum au_cache_read_input_tokens [sample_usage 10 2, sample_usage 5 7]\<rparr>) files"
  by (rule turn_usage_totals [OF _ _ _ _ _ surjective_pairing]) simp_all

text \<open>
  When a stream opens with a message that carries usage but no metadata, the
  usage is announced but does not reach the end-of-turn envelope: starting the turn discards it.
\<close>

theorem first_usage_lost:
  assumes "pms_metadata m = None" "pms_usage m = Some u"
    and "token_usage_from_api_usage u = Some tokens"
    and "run_payloads E [Provider (MessageStart m)] (normalizer_new task) = Some (es, s)"
  shows "(\<exists>e \<in> set es. env_signal e = UsageUpdated tokens)
     \<and> (\<exists>files. env_signal (last (fst (finish_protocol_ingress_turn E s)))
          = PulseEnd ''completed'' None files)"
proof -
  have run: "(es, s) = emit_provider_usage E u (normalizer_new task)"
    using assms
    by (simp add: run_payloads_def pthen_def message_start_metadata_def emit_opt_def then_emit_def
        no_emit_def split: prod.splits)
  have s: "nz_open_final_text_block s = None"
    "nz_protocol_ingress s = protocol_ingress_default\<lparr>pi_turn_started := True\<rparr>"
    using run [THEN arg_cong, of snd] assms(3)
    by (simp_all add: emit_provider_usage_def fst_snd_then_emit
        ensure_protocol_ingress_turn_started_def normalizer_new_def new_inner_def start_pulse_def
        emit_unfolds emit_one_def next_envelope_with_source_def Let_def)
  have "\<exists>e \<in> set es. env_signal e = UsageUpdated tokens"
    using run [THEN arg_cong, of fst] assms(3)
    by (simp add: emit_provider_usage_def fst_snd_then_emit emit_unfolds emit_one_def
        next_envelope_with_source_def Let_def)
  moreover have "\<exists>files. env_signal (last (fst (finish_protocol_ingress_turn E s)))
      = PulseEnd ''completed'' None files"
    by (rule finish_idle [OF s(1), of E])
       (auto simp: s(2) token_usage_from_turn_tokens_def is_zero_def pulse_tokens_default_def)
  ultimately show ?thesis by blast
qed

definition sample_message :: provider_message_start_data where
  "sample_message =
     \<lparr>pms_id = ''m'', pms_message_type = None, pms_role = ''assistant'', pms_model = ''x'',
      pms_content = None, pms_stop_reason = None, pms_stop_sequence = None,
      pms_usage = Some (sample_usage 10 2), pms_metadata = None\<rparr>"

theorem first_usage_lost_witness:
  "\<exists>es s tokens. run_payloads sample_ingress [Provider (MessageStart sample_message)]
       (normalizer_new ''t'') = Some (es, s)
     \<and> tue_input tokens = 10
     \<and> (\<exists>e \<in> set es. env_signal e = UsageUpdated tokens)
     \<and> (\<exists>files. env_signal (last (fst (finish_protocol_ingress_turn sample_ingress s)))
          = PulseEnd ''completed'' None files)"
proof -
  obtain es s where run: "run_payloads sample_ingress [Provider (MessageStart sample_message)]
      (normalizer_new ''t'') = Some (es, s)"
    by (cases "run_payloads sample_ingress [Provider (MessageStart sample_message)]
          (normalizer_new ''t'')")
       (auto simp: run_payloads_def pthen_def split: prod.splits)
  obtain tokens where tok: "token_usage_from_api_usage (sample_usage 10 2) = Some tokens"
    "tue_input tokens = 10"
    by (simp add: token_usage_from_api_usage_def sample_usage_def or_zero_def Let_def)
  from first_usage_lost [OF _ _ tok(1) run] run tok(2) show ?thesis
    by (auto simp: sample_message_def)
qed

section \<open>Chat-compatible tool calls\<close>

definition name_delta :: "nat \<Rightarrow> string \<Rightarrow> string \<Rightarrow> chat_compat_tool_call_delta" where
  "name_delta i cid name =
     \<lparr>ct_index = Some i, ct_id = Some cid, ct_call_type = Some ''function'',
      ct_function = Some \<lparr>cf_name = Some name, cf_arguments = None\<rparr>\<rparr>"

definition arguments_delta :: "nat \<Rightarrow> string \<Rightarrow> chat_compat_tool_call_delta" where
  "arguments_delta i fragment =
     \<lparr>ct_index = Some i, ct_id = None, ct_call_type = None,
      ct_function = Some \<lparr>cf_name = None, cf_arguments = Some (ArgString fragment)\<rparr>\<rparr>"

definition block_of :: "nat \<Rightarrow> nat" where
  "block_of i = sat_add (min i MAX_TOOL_CALL_INDEX) 1"

definition opened_state :: "string \<Rightarrow> string \<Rightarrow> pending_chat_compat_tool_state" where
  "opened_state cid name =
     \<lparr>pc_id = cid, pc_name = name, pc_pending_arguments = [], pc_materialized_arguments = None,
      pc_lifecycle = Opened\<rparr>"

text \<open>The call is open and its arguments are streamed into the pending call \<open>c\<close>.\<close>

definition chat_streams ::
  "nat \<Rightarrow> string \<Rightarrow> string \<Rightarrow> pending_tool_call \<Rightarrow> normalizer \<Rightarrow> bool" where
  "chat_streams i cid name c s \<longleftrightarrow>
     pi_turn_started (nz_protocol_ingress s)
     \<and> \<not> pi_chat_compat_stream_terminated (nz_protocol_ingress s)
     \<and> bt_sorted (pi_chat_compat_tool_lifecycles (nz_protocol_ingress s))
     \<and> map_of (pi_chat_compat_tool_lifecycles (nz_protocol_ingress s)) (block_of i)
         = Some (opened_state cid name)
     \<and> streams (block_of i) cid c s"

lemma pthen_total_app: "pthen (total f) g s = map_option (\<lambda>(b, t). (fst (f s) @ b, t)) (g (snd (f s)))"
  by (simp add: pthen_def split: prod.splits)

lemma ingress_block_delta [simp]:
  "nz_protocol_ingress (snd (stream_block_delta E i delta s)) = nz_protocol_ingress s"
  using apart.lawfulD [OF apart_block_delta [of E i delta], of s] by (simp add: keeps_ingress_def)

lemma streams_upd_ingress [simp]: "streams i sid c (upd_ingress f s) = streams i sid c s"
  by (simp add: streams_def)

lemma arguments_delta_step:
  assumes "chat_streams i cid name c s" "fragment \<noteq> []"
  obtains es t where "apply_chat_compat_tool_delta E (arguments_delta i fragment) s = Some (es, t)"
    "chat_streams i cid name (appended (json_lib E) fragment c) t"
    "\<exists>n invalid. env_signal (last es) = ToolCallArgumentsDelta (ptc_runtime_id c) n fragment Pending
       (parse_arguments (json_lib E) (ptc_raw_arguments c @ fragment)) invalid"
proof -
  let ?u = "upd_ingress (\<lambda>p. p\<lparr>pi_chat_compat_tool_lifecycles :=
      bt_update (block_of i) (opened_state cid name) (pi_chat_compat_tool_lifecycles p)\<rparr>) s"
  have st: "lifecycle_at (block_of i) (nz_protocol_ingress s) = opened_state cid name"
    using assms(1) by (simp add: chat_streams_def lifecycle_at_def)
  have bi: "tool_block_index (arguments_delta i fragment) = block_of i"
    by (simp add: tool_block_index_def arguments_delta_def or_zero_def block_of_def)
  have merged: "open_discovered (block_of i)
       (merge_tool_delta (json_lib E) (arguments_delta i fragment) (opened_state cid name))
      = (None, (opened_state cid name)\<lparr>pc_pending_arguments := fragment\<rparr>)"
    "take_partial ((opened_state cid name)\<lparr>pc_pending_arguments := fragment\<rparr>)
      = (Some fragment, opened_state cid name)"
    using assms(2)
    by (simp_all add: merge_tool_delta_def merge_function_def merge_arguments_def push_serialized_def
        arguments_delta_def non_empty_def opened_state_def open_discovered_def take_partial_def)
  have run: "apply_chat_compat_tool_delta E (arguments_delta i fragment) s
      = Some (stream_block_delta E (block_of i) fragment ?u)"
    using assms(2) assms(1) [unfolded chat_streams_def]
    unfolding apply_chat_compat_tool_delta_def Let_def pask_app bi st merged prod.case
    by (simp add: pthen_total_app opened_state_def apply_provider_stream_delta_def
        ensure_started_noop Let_def)
  have u: "streams (block_of i) cid c ?u" using assms(1) by (simp add: chat_streams_def)
  obtain es t where es: "stream_block_delta E (block_of i) fragment ?u = (es, t)" by fastforce
  show ?thesis
  proof (rule that)
    show "apply_chat_compat_tool_delta E (arguments_delta i fragment) s = Some (es, t)"
      by (simp add: run es)
    show "chat_streams i cid name (appended (json_lib E) fragment c) t"
      using block_delta_streams(1) [OF u, of E fragment] assms(1)
        ingress_block_delta [of E "block_of i" fragment ?u]
      by (simp add: es chat_streams_def map_of_bt_update bt_sorted_update)
    show "\<exists>n invalid. env_signal (last es) = ToolCallArgumentsDelta (ptc_runtime_id c) n fragment
        Pending (parse_arguments (json_lib E) (ptc_raw_arguments c @ fragment)) invalid"
      using block_delta_streams(2) [OF u, of E fragment] by (simp add: es)
  qed
qed

lemma peach_snoc:
  "peach f (xs @ [x]) s = (case peach f xs s of None \<Rightarrow> None
     | Some (a, t) \<Rightarrow> map_option (\<lambda>(b, u). (a @ b, u)) (f x t))"
proof (induction xs arbitrary: s)
  case Nil
  show ?case by (simp add: pthen_def no_emit_def case_prod_beta option.map_ident split: option.splits)
next
  case (Cons y ys)
  then show ?case
    by (auto simp: pthen_def option.map_comp comp_def case_prod_beta split: option.splits prod.splits)
qed

lemma arguments_deltas_assemble:
  assumes "chat_streams i cid name c s" "ptc_raw_arguments c = []" "\<forall>d \<in> set ds. d \<noteq> []"
  shows "\<exists>es t d. peach (apply_chat_compat_tool_delta E) (map (arguments_delta i) ds) s = Some (es, t)
     \<and> chat_streams i cid name d t \<and> ptc_raw_arguments d = concat ds
     \<and> (ds \<noteq> [] \<longrightarrow> (\<forall>j. parse_arguments (json_lib E) (concat ds) = Some j \<longrightarrow> ptc_arguments d = j))"
  using assms(3)
proof (induction ds rule: rev_induct)
  case Nil
  with assms(1,2) show ?case by (auto simp: no_emit_def)
next
  case (snoc x xs)
  then obtain es t d where IH:
    "peach (apply_chat_compat_tool_delta E) (map (arguments_delta i) xs) s = Some (es, t)"
    "chat_streams i cid name d t" "ptc_raw_arguments d = concat xs"
    by auto
  from snoc.prems have "x \<noteq> []" by simp
  then obtain es2 t2 where
    "apply_chat_compat_tool_delta E (arguments_delta i x) t = Some (es2, t2)"
    "chat_streams i cid name (appended (json_lib E) x d) t2"
    by (rule arguments_delta_step [OF IH(2), of x E])
  with IH show ?case
    by (intro exI [of _ "es @ es2"] exI [of _ t2] exI [of _ "appended (json_lib E) x d"])
       (simp add: peach_snoc)
qed

text \<open>The ingress is ready for a call at \<open>i\<close> that it has not met.\<close>

definition awaits_call :: "nat \<Rightarrow> normalizer \<Rightarrow> bool" where
  "awaits_call i s \<longleftrightarrow>
     nz_open_final_text_block s = None
     \<and> \<not> pi_chat_compat_stream_terminated (nz_protocol_ingress s)
     \<and> bt_sorted (pi_chat_compat_tool_lifecycles (nz_protocol_ingress s))
     \<and> map_of (pi_chat_compat_tool_lifecycles (nz_protocol_ingress s)) (block_of i) = None
     \<and> ids_below s \<and> Suc (nz_tool_id_counter s) < u32_modulus"

lemma ids_below_upd [simp]: "ids_below (upd_ingress f s) = ids_below s"
  by (simp add: ids_below_def)

lemma name_delta_run:
  assumes "awaits_call i s" "cid \<noteq> []" "name \<noteq> []"
  shows "apply_chat_compat_tool_delta E (name_delta i cid name) s =
     Some (begin_provider_block E (block_of i) (PToolUse cid name (JObject []))
       (upd_ingress (\<lambda>p. p\<lparr>pi_has_native_tool_calls := True\<rparr>)
         (upd_ingress (\<lambda>p. p\<lparr>pi_chat_compat_tool_lifecycles :=
            bt_update (block_of i) (opened_state cid name) (pi_chat_compat_tool_lifecycles p)\<rparr>) s)))"
proof -
  have st: "lifecycle_at (block_of i) (nz_protocol_ingress s) = pending_chat_compat_default"
    using assms(1) by (simp add: awaits_call_def lifecycle_at_def)
  have bi: "tool_block_index (name_delta i cid name) = block_of i"
    by (simp add: tool_block_index_def name_delta_def or_zero_def block_of_def)
  have merged: "open_discovered (block_of i)
       (merge_tool_delta (json_lib E) (name_delta i cid name) pending_chat_compat_default)
      = (Some (PToolUse cid name (JObject [])), opened_state cid name)"
    "take_partial (opened_state cid name) = (None, opened_state cid name)"
    using assms(2,3)
    by (simp_all add: merge_tool_delta_def merge_function_def name_delta_def non_empty_def
        opened_state_def open_discovered_def take_partial_def pending_chat_compat_default_def
        empty_json_object_def)
  show ?thesis
    using assms(1) [unfolded awaits_call_def]
    unfolding apply_chat_compat_tool_delta_def Let_def pask_app bi st merged prod.case
    by (simp add: pthen_total_app pending_chat_compat_default_def open_tool_use no_emit_def
        pthen_def modify_emit_def split: prod.splits)
qed

lemma name_delta_opens:
  assumes "awaits_call i s" "pi_turn_started (nz_protocol_ingress s)" "cid \<noteq> []" "name \<noteq> []"
  obtains es t c where "apply_chat_compat_tool_delta E (name_delta i cid name) s = Some (es, t)"
    "chat_streams i cid name c t" "ptc_raw_arguments c = []"
proof -
  define u where "u = upd_ingress (\<lambda>p. p\<lparr>pi_open_blocks := insort_insert (block_of i) (pi_open_blocks p)\<rparr>)
     (upd_ingress (\<lambda>p. p\<lparr>pi_has_native_tool_calls := True\<rparr>)
       (upd_ingress (\<lambda>p. p\<lparr>pi_chat_compat_tool_lifecycles :=
          bt_update (block_of i) (opened_state cid name) (pi_chat_compat_tool_lifecycles p)\<rparr>) s))"
  have u: "nz_open_final_text_block u = None" "ids_below u" "Suc (nz_tool_id_counter u) < u32_modulus"
    using assms(1) by (simp_all add: u_def awaits_call_def)
  have run: "snd (begin_provider_block E (block_of i) (PToolUse cid name (JObject []))
       (upd_ingress (\<lambda>p. p\<lparr>pi_has_native_tool_calls := True\<rparr>)
         (upd_ingress (\<lambda>p. p\<lparr>pi_chat_compat_tool_lifecycles :=
            bt_update (block_of i) (opened_state cid name) (pi_chat_compat_tool_lifecycles p)\<rparr>) s)))
      = snd (stream_block_start E (block_of i) (ToolCall cid name (JObject []) Pending) u)"
    using assms(2)
    by (simp add: begin_provider_block_def fst_snd_then_emit ensure_started_noop
        needs_text_normaliser_def u_def)
  obtain c where c: "streams (block_of i) cid c
      (snd (stream_block_start E (block_of i) (ToolCall cid name (JObject []) Pending) u))"
    "ptc_raw_arguments c = []"
    using block_start_streams [OF u(2,3), of "block_of i" cid E name Pending] by blast
  note ing = block_start_events(2) [OF u(1), of E "block_of i" "ToolCall cid name (JObject []) Pending"]
  show ?thesis
  proof (rule that [OF _ _ c(2)])
    show "apply_chat_compat_tool_delta E (name_delta i cid name) s =
        Some (fst (begin_provider_block E (block_of i) (PToolUse cid name (JObject []))
       (upd_ingress (\<lambda>p. p\<lparr>pi_has_native_tool_calls := True\<rparr>)
         (upd_ingress (\<lambda>p. p\<lparr>pi_chat_compat_tool_lifecycles :=
            bt_update (block_of i) (opened_state cid name) (pi_chat_compat_tool_lifecycles p)\<rparr>) s))),
        snd (stream_block_start E (block_of i) (ToolCall cid name (JObject []) Pending) u))"
      using name_delta_run [OF assms(1,3,4), of E] run by (simp add: prod_eq_iff)
    show "chat_streams i cid name c
        (snd (stream_block_start E (block_of i) (ToolCall cid name (JObject []) Pending) u))"
      using assms(1,2) c(1) ing
      by (simp add: chat_streams_def awaits_call_def u_def map_of_bt_update bt_sorted_update)
  qed
qed

text \<open>
  C25 [chat_tool_call_assembled]: in a started turn, a tool call announced by id and name whose
  arguments then arrive in any number of non-empty fragments never makes the ingress fail, and
  afterwards the pending call holds the concatenation of the fragments and, when that text is JSON,
  the value it denotes; the call is still open under its block index.
\<close>

theorem chat_tool_call_assembled:
  assumes "awaits_call i s" "pi_turn_started (nz_protocol_ingress s)" "cid \<noteq> []" "name \<noteq> []"
    and "ds \<noteq> []" "\<forall>d \<in> set ds. d \<noteq> []" "from_str (json_lib E) (concat ds) = Some j"
  shows "\<exists>es t c. peach (apply_chat_compat_tool_delta E)
       (name_delta i cid name # map (arguments_delta i) ds) s = Some (es, t)
     \<and> map_of (nz_pending_tool_calls t) cid = Some c
     \<and> ptc_raw_arguments c = concat ds \<and> ptc_arguments c = j
     \<and> map_of (pi_chat_compat_tool_lifecycles (nz_protocol_ingress t)) (block_of i)
         = Some (opened_state cid name)"
proof -
  obtain es1 s1 c1 where open1: "apply_chat_compat_tool_delta E (name_delta i cid name) s = Some (es1, s1)"
    "chat_streams i cid name c1 s1" "ptc_raw_arguments c1 = []"
    by (rule name_delta_opens [OF assms(1-4), of E])
  from arguments_deltas_assemble [OF open1(2,3) assms(6), of E] obtain es2 t d where rest:
    "peach (apply_chat_compat_tool_delta E) (map (arguments_delta i) ds) s1 = Some (es2, t)"
    "chat_streams i cid name d t" "ptc_raw_arguments d = concat ds"
    "\<forall>j. parse_arguments (json_lib E) (concat ds) = Some j \<longrightarrow> ptc_arguments d = j"
    using assms(5) by auto
  from assms(7) rest(4) have "ptc_arguments d = j" by (simp add: parse_arguments_def)
  with open1 rest show ?thesis
    by (intro exI [of _ "es1 @ es2"] exI [of _ t] exI [of _ d])
       (simp add: pthen_def chat_streams_def streams_def sole_call_def)
qed

theorem chat_tool_call_assembled_witness:
  "\<exists>es t c. peach (apply_chat_compat_tool_delta sample_ingress)
       (name_delta 0 ''c1'' ''read_file'' # map (arguments_delta 0) [''{1'', ''}''])
       started_normalizer = Some (es, t)
     \<and> map_of (nz_pending_tool_calls t) ''c1'' = Some c
     \<and> ptc_raw_arguments c = concat [''{1'', ''}'']
     \<and> ptc_arguments c = JObject [(''path'', JString ''a'')]
     \<and> map_of (pi_chat_compat_tool_lifecycles (nz_protocol_ingress t)) (block_of 0)
         = Some (opened_state ''c1'' ''read_file'')"
  by (rule chat_tool_call_assembled)
     (simp_all add: awaits_call_def ids_below_def u32_modulus_def sample_ingress_def sample_serde_def)

text \<open>
  When the announcement of a tool call is itself the first event of
  the stream, starting the turn discards what the ingress has just recorded of the call, and the
  argument fragments that follow are swallowed: they produce no envelope.
\<close>

theorem first_tool_call_forgotten:
  assumes "awaits_call i s" "\<not> pi_turn_started (nz_protocol_ingress s)" "cid \<noteq> []" "name \<noteq> []"
    and "apply_chat_compat_tool_delta E (name_delta i cid name) s = Some (es, t)"
  shows "pi_chat_compat_tool_lifecycles (nz_protocol_ingress t) = []
     \<and> (\<exists>u. apply_chat_compat_tool_delta E (arguments_delta i fragment) t = Some ([], u))"
proof -
  define v where "v = upd_ingress (\<lambda>p. p\<lparr>pi_open_blocks := insort_insert (block_of i) (pi_open_blocks p)\<rparr>)
     (snd (ensure_protocol_ingress_turn_started E
       (upd_ingress (\<lambda>p. p\<lparr>pi_has_native_tool_calls := True\<rparr>)
         (upd_ingress (\<lambda>p. p\<lparr>pi_chat_compat_tool_lifecycles :=
            bt_update (block_of i) (opened_state cid name) (pi_chat_compat_tool_lifecycles p)\<rparr>) s))))"
  have v: "nz_open_final_text_block v = None"
    "nz_protocol_ingress v = protocol_ingress_default\<lparr>pi_turn_started := True,
       pi_open_blocks := [block_of i]\<rparr>"
    using assms(2)
    by (simp_all add: v_def ensure_protocol_ingress_turn_started_def fst_snd_then_emit
        start_pulse_def emit_unfolds emit_one_def next_envelope_with_source_def Let_def
        insort_insert_key_def)
  have "t = snd (stream_block_start E (block_of i) (ToolCall cid name (JObject []) Pending) v)"
    using assms(5) name_delta_run [OF assms(1,3,4), of E]
    by (simp add: begin_provider_block_def fst_snd_then_emit needs_text_normaliser_def v_def
        prod_eq_iff)
  then have t: "nz_protocol_ingress t = protocol_ingress_default\<lparr>pi_turn_started := True,
       pi_open_blocks := [block_of i]\<rparr>"
    using block_start_events(2) [OF v(1)] v(2) by simp
  have "\<exists>u. apply_chat_compat_tool_delta E (arguments_delta i fragment) t = Some ([], u)"
    unfolding apply_chat_compat_tool_delta_def Let_def pask_app
    by (simp add: t lifecycle_at_def pending_chat_compat_default_def arguments_delta_def
        merge_tool_delta_def merge_function_def merge_arguments_def push_serialized_def non_empty_def
        open_discovered_def take_partial_def pthen_total_app pthen_def no_emit_def
        modify_emit_def)
  with t show ?thesis by simp
qed

theorem first_tool_call_forgotten_witness:
  "\<exists>es t u. apply_chat_compat_tool_delta sample_ingress (name_delta 0 ''c1'' ''read_file'')
       (normalizer_new ''t'') = Some (es, t)
     \<and> pi_chat_compat_tool_lifecycles (nz_protocol_ingress t) = []
     \<and> apply_chat_compat_tool_delta sample_ingress (arguments_delta 0 ''{1}'') t = Some ([], u)"
proof -
  have aw: "awaits_call 0 (normalizer_new ''t'')"
    "\<not> pi_turn_started (nz_protocol_ingress (normalizer_new ''t''))"
    by (simp_all add: awaits_call_def ids_below_def u32_modulus_def normalizer_new_def new_inner_def)
  obtain es t where run: "apply_chat_compat_tool_delta sample_ingress
      (name_delta 0 ''c1'' ''read_file'') (normalizer_new ''t'') = Some (es, t)"
    using name_delta_run [OF aw(1), of "''c1''" "''read_file''" sample_ingress] by fastforce
  from first_tool_call_forgotten [OF aw _ _ run, of "''{1}''"] run show ?thesis by auto
qed

end
