(* ===== verification/Stream_Parser.thy ===== *)
theory Stream_Parser
  imports Protocol_Ingress
begin

text \<open>
  The stream parser (\<open>src/api/stream.rs\<close>, \<open>src/api/stream/sse_framing.rs\<close>,
  \<open>src/api/stream/ingress_adapter.rs\<close>): bytes in arbitrary chunks are cut into server-sent-event
  frames, each frame is decoded and passed through or adapted.

  The fields that decoding a frame reads and writes form the record \<open>session\<close>; the buffer with its
  flags is around it. A result is \<^const>\<open>None\<close> for a panic, \<open>Some (Inl e, st)\<close> for \<open>Err\<close> and
  \<open>Some (Inr es, st)\<close> for \<open>Ok\<close>, in each case with the state the call leaves. The process-wide counter
  of stream task ids is the field \<open>se_next_task\<close>. Bytes are characters.
\<close>

section \<open>State\<close>

definition MAX_SSE_BUFFER_BYTES :: nat where
  "MAX_SSE_BUFFER_BYTES = 1048576"

datatype stream_output_mode = Undecided | RuntimeEnvelope_mode | ProtocolAdapter_mode

record session =
  se_last_frame_id :: "string option"
  se_reconnect_delay_ms :: "nat option"
  se_output_mode :: stream_output_mode
  se_protocol_adapter :: "normalizer option"
  se_next_task :: nat

record stream_parser =
  sp_buffer :: string
  sp_bom_checked :: bool
  sp_overflowed :: bool
  sp_session :: session

definition session_new :: "nat \<Rightarrow> session" where
  "session_new n =
     \<lparr>se_last_frame_id = None, se_reconnect_delay_ms = None, se_output_mode = Undecided,
      se_protocol_adapter = None, se_next_task = n\<rparr>"

definition stream_parser_new :: "nat \<Rightarrow> stream_parser" where
  "stream_parser_new n =
     \<lparr>sp_buffer = [], sp_bom_checked = False, sp_overflowed = False, sp_session = session_new n\<rparr>"

datatype sse_error = FromUtf8Error

section \<open>The adapter\<close>

definition next_stream_task_id :: "session \<Rightarrow> string \<times> session" where
  "next_stream_task_id ss =
     (''api_stream_'' @ nat_dec (se_next_task ss),
      ss\<lparr>se_next_task := (se_next_task ss + 1) mod (u64_max + 1)\<rparr>)"

definition protocol_adapter_mut :: "session \<Rightarrow> normalizer \<times> session" where
  "protocol_adapter_mut ss =
     (case se_protocol_adapter ss of
        Some n \<Rightarrow> (n, ss)
      | None \<Rightarrow> (let (task, ss1) = next_stream_task_id ss; n = normalizer_new task
                 in (n, ss1\<lparr>se_protocol_adapter := Some n\<rparr>)))"

definition with_adapter :: "handoff \<Rightarrow> session \<Rightarrow> runtime_envelope list \<times> session" where
  "with_adapter f ss =
     (let (n, ss1) = protocol_adapter_mut ss; (es, n') = f n
      in (es, ss1\<lparr>se_protocol_adapter := Some n'\<rparr>))"

definition finish_stream :: "'z ingress_env_scheme \<Rightarrow> session \<Rightarrow> runtime_envelope list \<times> session" where
  "finish_stream E ss =
     (if se_output_mode ss \<noteq> ProtocolAdapter_mode then ([], ss)
      else with_adapter (finish_protocol_ingress_turn E) ss)"

text \<open>In passthrough mode an error is reported by a normalizer of its own.\<close>

definition protocol_stream_error_envelope ::
  "'z ingress_env_scheme \<Rightarrow> string \<Rightarrow> string \<Rightarrow> session \<Rightarrow> runtime_envelope list \<times> session" where
  "protocol_stream_error_envelope E code message ss =
     (if se_output_mode ss = RuntimeEnvelope_mode then
        (let (task, ss1) = next_stream_task_id ss;
             n = snd (start_pulse E 1 None (normalizer_new task))
         in (fst (emit_signal E (Error_signal code message True) n), ss1))
      else
        with_adapter (emit_protocol_ingress_error E code message)
          (ss\<lparr>se_output_mode := ProtocolAdapter_mode\<rparr>))"

definition adapt_protocol_payload ::
  "'z ingress_env_scheme \<Rightarrow> ingress_payload \<Rightarrow> session \<Rightarrow> (runtime_envelope list \<times> session) option" where
  "adapt_protocol_payload E payload ss =
     (if se_output_mode ss = RuntimeEnvelope_mode then
        Some (protocol_stream_error_envelope E ''mixed_sse_protocol''
          ''received provider or chat-compatible stream data after RuntimeEnvelope passthrough began'' ss)
      else
        (let (n, ss1) = protocol_adapter_mut (ss\<lparr>se_output_mode := ProtocolAdapter_mode\<rparr>)
         in map_option (\<lambda>(es, n'). (es, ss1\<lparr>se_protocol_adapter := Some n'\<rparr>)) (adapt_payload E payload n)))"

definition enter_runtime_envelope_mode ::
  "'z ingress_env_scheme \<Rightarrow> runtime_envelope \<Rightarrow> session \<Rightarrow> runtime_envelope list \<times> session" where
  "enter_runtime_envelope_mode E envelope ss =
     (if se_output_mode ss = ProtocolAdapter_mode then
        protocol_stream_error_envelope E ''mixed_sse_protocol''
          ''received RuntimeEnvelope passthrough after provider or chat-compatible adaptation began'' ss
      else ([envelope], ss\<lparr>se_output_mode := RuntimeEnvelope_mode\<rparr>))"

definition stream_terminated :: "session \<Rightarrow> bool" where
  "stream_terminated ss =
     (case se_protocol_adapter ss of Some n \<Rightarrow> protocol_stream_terminated n | None \<Rightarrow> False)"

section \<open>Decoding a frame\<close>

definition parse_chat_compat_chunk ::
  "'z ingress_env_scheme \<Rightarrow> string \<Rightarrow> chat_compat_payload option" where
  "parse_chat_compat_chunk E json_data =
     (if json_data = ''[DONE]'' then Some Done
      else map_option Chunk (decode_chat_chunk E json_data))"

definition decode_protocol_frame ::
  "'z ingress_env_scheme \<Rightarrow> string option \<Rightarrow> string \<Rightarrow> ingress_payload" where
  "decode_protocol_frame E frame_kind json_data =
     (if frame_kind = Some ''ping'' then Provider Ping
      else
        (case decode_stream_item E json_data of
           Inr item \<Rightarrow> Provider item
         | Inl err \<Rightarrow>
             (case parse_chat_compat_chunk E json_data of
                Some payload \<Rightarrow> ChatCompat payload
              | None \<Rightarrow>
                  Provider (Error_item \<lparr>pse_error_type = ''sse_parse_error'', pse_message = err\<rparr>))))"

definition decode_frame_payload ::
  "'z ingress_env_scheme \<Rightarrow> string option \<Rightarrow> string \<Rightarrow> session
     \<Rightarrow> (runtime_envelope list \<times> session) option" where
  "decode_frame_payload E frame_kind json_data ss =
     (if json_data = [] then Some ([], ss)
      else
        (case decode_envelope E json_data of
           Some envelope \<Rightarrow> Some (enter_runtime_envelope_mode E envelope ss)
         | None \<Rightarrow> adapt_protocol_payload E (decode_protocol_frame E frame_kind json_data) ss))"

definition process_sse_frame ::
  "'z ingress_env_scheme \<Rightarrow> string \<Rightarrow> string \<Rightarrow> session
     \<Rightarrow> (runtime_envelope list \<times> session) option" where
  "process_sse_frame E frame_kind data =
     decode_frame_payload E (if frame_kind \<noteq> [] then Some frame_kind else None) data"

definition strip_single_leading_space :: "string \<Rightarrow> string" where
  "strip_single_leading_space v = (case v of c # r \<Rightarrow> if c = CHR '' '' then r else v | [] \<Rightarrow> v)"

definition strip_prefix_str :: "string \<Rightarrow> string \<Rightarrow> string option" where
  "strip_prefix_str p line = (if prefix p line then Some (drop (length p) line) else None)"

definition normalise_sse_line_endings :: "string \<Rightarrow> string" where
  "normalise_sse_line_endings frame =
     replace_str (replace_str frame [carriage_return, newline] [newline]) [carriage_return] [newline]"

definition looks_like_raw_json_payload :: "'z ingress_env_scheme \<Rightarrow> string \<Rightarrow> bool" where
  "looks_like_raw_json_payload E text =
     (let trimmed = trim text in
      trimmed \<noteq> [] \<and>
      (trimmed = ''[DONE]'' \<or>
       ((starts_with trimmed ''{'' \<or> starts_with trimmed ''['')
        \<and> from_str (json_lib E) trimmed \<noteq> None)))"

definition sse_frame_without_data_should_error :: "'z ingress_env_scheme \<Rightarrow> string \<Rightarrow> bool" where
  "sse_frame_without_data_should_error E frame =
     list_ex (looks_like_raw_json_payload E)
       (filter (\<lambda>line. line \<noteq> [] \<and> \<not> starts_with line '':'')
         (map trim (split_char newline frame)))"

record frame_fields =
  ff_kind :: "string option"
  ff_data :: "string list"
  ff_session :: session

definition frame_line :: "string \<Rightarrow> frame_fields \<Rightarrow> frame_fields" where
  "frame_line line f =
     (if line = [] \<or> starts_with line '':'' then f
      else
        (case strip_prefix_str ''event:'' line of
           Some rest \<Rightarrow> f\<lparr>ff_kind := Some (strip_single_leading_space rest)\<rparr>
         | None \<Rightarrow>
        (case strip_prefix_str ''data:'' line of
           Some rest \<Rightarrow> f\<lparr>ff_data := ff_data f @ [strip_single_leading_space rest]\<rparr>
         | None \<Rightarrow>
        (case strip_prefix_str ''id:'' line of
           Some rest \<Rightarrow>
             (let val = strip_single_leading_space rest in
              if CHR 0x00 \<in> set val then f
              else f\<lparr>ff_session := (ff_session f)\<lparr>se_last_frame_id := Some val\<rparr>\<rparr>)
         | None \<Rightarrow>
             if line = ''id'' then f\<lparr>ff_session := (ff_session f)\<lparr>se_last_frame_id := Some []\<rparr>\<rparr>
             else
               (case Option.bind (strip_prefix_str ''retry:'' line)
                       (\<lambda>rest. parse_u64 (strip_single_leading_space rest)) of
                  Some ms \<Rightarrow> f\<lparr>ff_session := (ff_session f)\<lparr>se_reconnect_delay_ms := Some ms\<rparr>\<rparr>
                | None \<Rightarrow> f)))))"

definition parse_lines :: "string list \<Rightarrow> session \<Rightarrow> frame_fields" where
  "parse_lines lines ss = fold frame_line lines \<lparr>ff_kind = None, ff_data = [], ff_session = ss\<rparr>"

definition raw_payload_message :: string where
  "raw_payload_message =
     ''received a non-SSE payload without a data field; raw JSON chunk streams are unsupported''"

definition parse_sse_frame_bytes ::
  "'z ingress_env_scheme \<Rightarrow> string \<Rightarrow> session
     \<Rightarrow> ((sse_error + runtime_envelope list) \<times> session) option" where
  "parse_sse_frame_bytes E frame_bytes ss =
     (if \<not> valid_utf8 frame_bytes then Some (Inl FromUtf8Error, ss)
      else
        (let normalised = normalise_sse_line_endings frame_bytes;
             f = parse_lines (split_char newline normalised) ss in
         if ff_data f = [] then
           (if sse_frame_without_data_should_error E normalised then
              (let (es, ss') = protocol_stream_error_envelope E ''sse_parse_error''
                                 raw_payload_message (ff_session f)
               in Some (Inr es, ss'))
            else Some (Inr [], ff_session f))
         else
           map_option (\<lambda>(es, ss'). (Inr es, ss'))
             (decode_frame_payload E (ff_kind f) (join_with [newline] (ff_data f)) (ff_session f))))"

section \<open>Framing\<close>

text \<open>The length of a line terminator at the front.\<close>

fun terminator_len :: "string \<Rightarrow> nat option" where
  "terminator_len [] = None"
| "terminator_len (c # cs) =
     (if c = newline then Some 1
      else if c = carriage_return
      then (case cs of d # ds \<Rightarrow> if d = newline then Some 2 else Some 1 | [] \<Rightarrow> Some 1)
      else None)"

lemma terminator_len_pos: "terminator_len s = Some n \<Longrightarrow> 0 < n \<and> n \<le> length s"
  by (cases s) (auto split: if_splits list.splits)

text \<open>The scan for two adjacent terminators, over the rest of the buffer from \<open>index\<close> on.\<close>

function find_delimiter_from :: "nat \<Rightarrow> string \<Rightarrow> (nat \<times> nat) option" where
  "find_delimiter_from index [] = None"
| "find_delimiter_from index (c # cs) =
     (case terminator_len (c # cs) of
        None \<Rightarrow> find_delimiter_from (index + 1) cs
      | Some first_len \<Rightarrow>
          (case terminator_len (drop first_len (c # cs)) of
             Some second_len \<Rightarrow> Some (index, first_len + second_len)
           | None \<Rightarrow> find_delimiter_from (index + first_len) (drop first_len (c # cs))))"
  by pat_completeness auto
termination
  by (relation "measure (\<lambda>(i, s). length s)")
     (auto simp del: terminator_len.simps dest: terminator_len_pos)

definition find_sse_frame_delimiter :: "string \<Rightarrow> (nat \<times> nat) option" where
  "find_sse_frame_delimiter buffer = find_delimiter_from 0 buffer"

definition UTF8_BOM :: string where
  "UTF8_BOM = [CHR 0xEF, CHR 0xBB, CHR 0xBF]"

definition strip_utf8_bom_once :: "stream_parser \<Rightarrow> stream_parser" where
  "strip_utf8_bom_once st =
     (let buffer = sp_buffer st; prefix_len = min (length buffer) (length UTF8_BOM) in
      if sp_bom_checked st then st
      else if prefix UTF8_BOM buffer
      then st\<lparr>sp_buffer := drop (length UTF8_BOM) buffer, sp_bom_checked := True\<rparr>
      else if buffer = [] then st
      else if prefix_len = length UTF8_BOM \<or> take prefix_len buffer \<noteq> take prefix_len UTF8_BOM
      then st\<lparr>sp_bom_checked := True\<rparr>
      else st)"

lemma delimiter_pos:
  "find_delimiter_from i s = Some (p, d) \<Longrightarrow> i \<le> p \<and> 0 < d \<and> p + d \<le> i + length s"
proof (induction i s rule: find_delimiter_from.induct)
  case (2 i c cs)
  show ?case
  proof (cases "terminator_len (c # cs)")
    case None
    with 2 show ?thesis by fastforce
  next
    case (Some n)
    note n = terminator_len_pos [OF this]
    show ?thesis
    proof (cases "terminator_len (drop n (c # cs))")
      case None
      with Some 2 n show ?thesis by fastforce
    next
      case m: (Some m)
      with Some 2 n terminator_len_pos [OF m] show ?thesis by fastforce
    qed
  qed
qed simp

text \<open>The loop of \<open>process\<close>: the buffer is drained before the frame is decoded, and decoding does not
  touch it.\<close>

function process_loop ::
  "'z ingress_env_scheme \<Rightarrow> string \<Rightarrow> session
     \<Rightarrow> ((sse_error + runtime_envelope list) \<times> string \<times> session) option" where
  "process_loop E buffer ss =
     (case find_sse_frame_delimiter buffer of
        None \<Rightarrow> Some (Inr [], buffer, ss)
      | Some (pos, delim_len) \<Rightarrow>
          (case parse_sse_frame_bytes E (take pos buffer) ss of
             None \<Rightarrow> None
           | Some (Inl err, ss') \<Rightarrow> Some (Inl err, drop (pos + delim_len) buffer, ss')
           | Some (Inr es, ss') \<Rightarrow>
               (case process_loop E (drop (pos + delim_len) buffer) ss' of
                  None \<Rightarrow> None
                | Some (Inl err, r) \<Rightarrow> Some (Inl err, r)
                | Some (Inr es', r) \<Rightarrow> Some (Inr (es @ es'), r))))"
  by pat_completeness auto
termination
proof (relation "measure (\<lambda>(E, buffer, ss). length buffer)", goal_cases)
  case (2 E buffer ss x2 x y x2a xa ya x2b)
  then show ?case
    using delimiter_pos [of 0 buffer x y] by (auto simp: find_sse_frame_delimiter_def)
qed simp

declare process_loop.simps [simp del]

definition overflow_message :: string where
  "overflow_message =
     ''SSE intra-frame buffer exceeded 1048576 bytes without a frame delimiter; ''
     @ ''the upstream stream may be malformed''"

definition sse_overflow_frame ::
  "'z ingress_env_scheme \<Rightarrow> session \<Rightarrow> runtime_envelope list \<times> session" where
  "sse_overflow_frame E ss = protocol_stream_error_envelope E ''sse_buffer_overflow'' overflow_message ss"

definition process ::
  "'z ingress_env_scheme \<Rightarrow> string \<Rightarrow> stream_parser
     \<Rightarrow> ((sse_error + runtime_envelope list) \<times> stream_parser) option" where
  "process E chunk st =
     (if sp_overflowed st then
        (let (es, ss) = sse_overflow_frame E (sp_session st) in Some (Inr es, st\<lparr>sp_session := ss\<rparr>))
      else if sat_add (length (sp_buffer st)) (length chunk) > MAX_SSE_BUFFER_BYTES then
        (let (es, ss) = sse_overflow_frame E (sp_session st)
         in Some (Inr es, st\<lparr>sp_overflowed := True, sp_session := ss\<rparr>))
      else
        (let st1 = strip_utf8_bom_once (st\<lparr>sp_buffer := sp_buffer st @ chunk\<rparr>) in
         map_option (\<lambda>(r, buffer, ss). (r, st1\<lparr>sp_buffer := buffer, sp_session := ss\<rparr>))
           (process_loop E (sp_buffer st1) (sp_session st1))))"

text \<open>Feeding chunks one after another, until one of them fails.\<close>

fun feed_chunks ::
  "'z ingress_env_scheme \<Rightarrow> string list \<Rightarrow> stream_parser
     \<Rightarrow> ((sse_error + runtime_envelope list) \<times> stream_parser) option" where
  "feed_chunks E [] st = Some (Inr [], st)"
| "feed_chunks E (c # cs) st =
     (case process E c st of
        None \<Rightarrow> None
      | Some (Inl err, st') \<Rightarrow> Some (Inl err, st')
      | Some (Inr es, st') \<Rightarrow>
          (case feed_chunks E cs st' of
             None \<Rightarrow> None
           | Some (Inl err, r) \<Rightarrow> Some (Inl err, r)
           | Some (Inr es', r) \<Rightarrow> Some (Inr (es @ es'), r)))"

end
