(* ===== verification/Stream_Laws.thy ===== *)
theory Stream_Laws
  imports Stream_Parser Protocol_Laws
begin

text \<open>
  What the stream parser guarantees: the envelopes do not depend on how the network cuts the stream
  into chunks, the buffer is bounded, an overflow is final, and the two output modes exclude each
  other.
\<close>

section \<open>Terminators\<close>

definition is_term :: "char \<Rightarrow> bool" where
  "is_term c \<longleftrightarrow> c = newline \<or> c = carriage_return"

definition strip_terms :: "string \<Rightarrow> string" where
  "strip_terms s = dropWhile is_term s"

lemma newline_neq_cr [simp]: "newline \<noteq> carriage_return" "carriage_return \<noteq> newline"
  by (simp_all add: newline_def carriage_return_def)

lemma strip_terms_simps [simp]:
  "strip_terms [] = []"
  "is_term c \<Longrightarrow> strip_terms (c # s) = strip_terms s"
  "\<not> is_term c \<Longrightarrow> strip_terms (c # s) = c # s"
  by (simp_all add: strip_terms_def)

lemma strip_terms_idem [simp]: "strip_terms (strip_terms s) = strip_terms s"
  by (simp add: strip_terms_def)

lemma strip_terms_append: "strip_terms (a @ b) = (if strip_terms a = [] then strip_terms b else strip_terms a @ b)"
  by (induction a) (auto simp: strip_terms_def)

lemma strip_terms_hd: "strip_terms s = c # r \<Longrightarrow> \<not> is_term c"
  unfolding strip_terms_def using hd_dropWhile [of is_term s] by force

lemma terminator_len_None: "terminator_len s = None \<longleftrightarrow> s = [] \<or> \<not> is_term (hd s)"
  by (cases s) (auto simp: is_term_def split: list.splits)

lemma terminator_drop_strip:
  "terminator_len s = Some n \<Longrightarrow> strip_terms (drop n s) = strip_terms s"
  by (cases s) (auto simp: is_term_def split: if_splits list.splits)

lemma terminator_len_take:
  "terminator_len s = Some n \<Longrightarrow> list_all is_term (take n s)"
  by (cases s) (auto simp: is_term_def split: if_splits list.splits)

lemma terminator_append:
  "terminator_len s = Some n \<Longrightarrow> terminator_len (s @ b) = Some n
     \<or> (n = 1 \<and> s = [carriage_return] \<and> (\<exists>b'. b = newline # b') \<and> terminator_len (s @ b) = Some 2)"
  by (cases s; cases b) (auto split: if_splits list.splits)

lemma terminator_append_None:
  "s \<noteq> [] \<Longrightarrow> terminator_len s = None \<Longrightarrow> terminator_len (s @ b) = None"
  by (simp add: terminator_len_None)

declare terminator_len.simps [simp del] find_delimiter_from.simps(2) [simp del]

section \<open>Delimiters\<close>

lemma find_shift:
  "find_delimiter_from i s = map_option (\<lambda>(p, d). (i + p, d)) (find_delimiter_from 0 s)"
proof (induction "length s" arbitrary: i s rule: less_induct)
  case less
  show ?case
  proof (cases s)
    case (Cons c cs)
    show ?thesis
    proof (cases "terminator_len (c # cs)")
      case None
      from less [of cs "Suc i"] less [of cs 1] Cons None show ?thesis
        by (cases "find_delimiter_from 0 cs")
           (auto simp: find_delimiter_from.simps(2))
    next
      case (Some n)
      let ?r = "drop n (c # cs)"
      have "length ?r < length s" using terminator_len_pos [OF Some] Cons by simp
      from less [OF this, of "i + n"] less [OF this, of n] Cons Some show ?thesis
        by (cases "find_delimiter_from 0 ?r"; cases "terminator_len ?r")
           (auto simp: find_delimiter_from.simps(2))
    qed
  qed simp
qed

abbreviation find_delim :: "string \<Rightarrow> (nat \<times> nat) option" where
  "find_delim \<equiv> find_delimiter_from 0"

lemma find_delim_plain:
  "\<not> is_term c \<Longrightarrow> find_delim (c # s) = map_option (\<lambda>(p, d). (Suc p, d)) (find_delim s)"
proof -
  assume "\<not> is_term c"
  then have "terminator_len (c # s) = None" by (simp add: terminator_len_None)
  then show ?thesis using find_shift [of 1 s] by (simp add: find_delimiter_from.simps(2))
qed

lemma find_delim_two:
  "terminator_len s = Some n \<Longrightarrow> terminator_len (drop n s) = Some m \<Longrightarrow> find_delim s = Some (0, n + m)"
  by (cases s) (simp_all add: find_delimiter_from.simps(2) terminator_len.simps(1))

lemma find_delim_one:
  "terminator_len s = Some n \<Longrightarrow> terminator_len (drop n s) = None \<Longrightarrow>
     find_delim s = map_option (\<lambda>(p, d). (n + p, d)) (find_delim (drop n s))"
  using find_shift [of n "drop n s"]
  by (cases s) (simp_all add: find_delimiter_from.simps(2) terminator_len.simps(1))

text \<open>More bytes after a delimiter leave it in place, except that a line feed may join a final
  carriage return.\<close>

lemma find_delim_append:
  "find_delim s = Some (p, d) \<Longrightarrow> find_delim (s @ b) = Some (p, d)
     \<or> (p + d = length s \<and> (\<exists>b'. b = newline # b') \<and> find_delim (s @ b) = Some (p, Suc d))"
proof (induction "length s" arbitrary: s p d rule: less_induct)
  case less
  show ?case
  proof (cases "terminator_len s")
    case None
    with less.prems obtain c cs where s: "s = c # cs" "\<not> is_term c"
      by (cases s) (auto simp: terminator_len_None)
    with less.prems obtain q where q: "find_delim cs = Some (q, d)" "p = Suc q"
      by (auto simp: find_delim_plain)
    from less.hyps [OF _ q(1)] s q(2) show ?thesis by (auto simp: find_delim_plain)
  next
    case n: (Some n)
    show ?thesis
    proof (cases "terminator_len (drop n s)")
      case None
      with n less.prems obtain q where q: "find_delim (drop n s) = Some (q, d)" "p = n + q"
        by (auto simp: find_delim_one)
      then have ne: "drop n s \<noteq> []" by auto
      then have n1: "terminator_len (s @ b) = Some n"
        using terminator_append [OF n, of b] by auto
      have ap: "drop n (s @ b) = drop n s @ b" using ne by simp
      have "terminator_len (drop n (s @ b)) = None"
        unfolding ap by (rule terminator_append_None [OF ne None])
      note one = find_delim_one [OF n1 this, unfolded ap]
      have "length (drop n s) < length s"
        using terminator_len_pos [OF n] by (metis diff_less length_drop less_le_trans)
      from less.hyps [OF this q(1)] one q(2) show ?thesis
        using terminator_len_pos [OF n] by auto
    next
      case m: (Some m)
      with n less.prems have pd: "p = 0" "d = n + m" by (simp_all add: find_delim_two)
      have ne: "drop n s \<noteq> []" using m by (auto simp: terminator_len.simps(1))
      then have n1: "terminator_len (s @ b) = Some n"
        using terminator_append [OF n, of b] by auto
      have ap: "drop n (s @ b) = drop n s @ b" using ne by simp
      from terminator_append [OF m, of b] show ?thesis
      proof
        assume "terminator_len (drop n s @ b) = Some m"
        with n1 ap pd show ?thesis by (simp add: find_delim_two)
      next
        assume *: "m = 1 \<and> drop n s = [carriage_return] \<and> (\<exists>b'. b = newline # b')
            \<and> terminator_len (drop n s @ b) = Some 2"
        then have "length s = n + 1"
          by (metis One_nat_def add.commute length_drop length_Cons list.size(3) plus_1_eq_Suc
              less_imp_le_nat add_diff_inverse_nat diff_is_0_eq' nat.distinct(1) not_less)
        with * n1 ap pd show ?thesis by (auto simp: find_delim_two)
      qed
    qed
  qed
qed

lemma find_delim_bounds: "find_delim s = Some (p, d) \<Longrightarrow> 0 < d \<and> p + d \<le> length s"
  using delimiter_pos [of 0 s p d] by simp

section \<open>Frames\<close>

function frames_of :: "string \<Rightarrow> string list \<times> string" where
  "frames_of w =
     (case find_delim w of
        None \<Rightarrow> ([], w)
      | Some (p, d) \<Rightarrow> (let (fs, r) = frames_of (drop (p + d) w) in (take p w # fs, r)))"
  by pat_completeness auto
termination
  by (relation "measure length") (auto dest!: find_delim_bounds)

declare frames_of.simps [simp del]

text \<open>The frames with leading line ends and blank frames removed.\<close>

function sframes :: "string \<Rightarrow> string list \<times> string" where
  "sframes w =
     (let v = strip_terms w in
      case find_delim v of
        None \<Rightarrow> ([], v)
      | Some (p, d) \<Rightarrow> (let (fs, r) = sframes (drop (p + d) v) in (take p v # fs, r)))"
  by pat_completeness auto
termination
proof (relation "measure length", goal_cases)
  case (2 w v x p d)
  then have "0 < d \<and> p + d \<le> length v" by (auto dest!: find_delim_bounds)
  moreover have "length v \<le> length w" using 2(1) by (simp add: strip_terms_def length_dropWhile_le)
  ultimately show ?case by auto
qed simp

declare sframes.simps [simp del]

lemma sframes_strip: "sframes (strip_terms w) = sframes w"
  by (subst (1 2) sframes.simps) simp

lemma sframes_Nil [simp]: "sframes [] = ([], [])"
  by (subst sframes.simps) simp

lemma sframes_rest: "strip_terms (snd (sframes w)) = snd (sframes w)"
proof (induction w rule: sframes.induct)
  case (1 w)
  show ?case
    by (subst (1 2) sframes.simps)
       (auto simp: Let_def case_prod_beta split: option.splits intro: "1.IH" [OF refl])
qed

lemma sframes_append:
  "sframes (a @ b) = (let (fs, r) = sframes a; (gs, r') = sframes (r @ b) in (fs @ gs, r'))"
proof (induction "length a" arbitrary: a rule: less_induct)
  case less
  let ?v = "strip_terms a"
  have ap: "sframes (a @ b) = sframes (?v @ b)"
    using sframes_strip [of "a @ b"] sframes_strip [of "?v @ b"] sframes_strip [of b]
    by (cases "?v = []") (simp_all add: strip_terms_append)
  show ?case
  proof (cases "find_delim ?v")
    case None
    then have "sframes a = ([], ?v)" by (subst sframes.simps) simp
    with ap show ?thesis by (simp split: prod.splits)
  next
    case (Some pd)
    obtain p d where pd: "pd = (p, d)" by (cases pd)
    note fd = Some [unfolded pd]
    from fd have ne: "?v \<noteq> []" by auto
    have st: "strip_terms (?v @ b) = ?v @ b" using ne by (simp add: strip_terms_append)
    let ?r = "drop (p + d) ?v"
    have sa: "sframes a = (take p ?v # fst (sframes ?r), snd (sframes ?r))"
      by (subst sframes.simps) (simp add: fd case_prod_beta Let_def)
    have "length ?v \<le> length a" by (simp add: strip_terms_def length_dropWhile_le)
    then have len: "length ?r < length a" using find_delim_bounds [OF fd] by auto
    have bnd: "p + d \<le> length ?v" "p \<le> length ?v" using find_delim_bounds [OF fd] by auto
    have sab: "sframes (?v @ b) = (take p ?v # fst (sframes (?r @ b)), snd (sframes (?r @ b)))"
      using find_delim_append [OF fd, of b]
    proof
      assume "find_delim (?v @ b) = Some (p, d)"
      with bnd show ?thesis by (subst sframes.simps) (simp add: st case_prod_beta Let_def)
    next
      assume *: "p + d = length ?v \<and> (\<exists>b'. b = newline # b') \<and> find_delim (?v @ b) = Some (p, Suc d)"
      then obtain b' where b': "b = newline # b'" by blast
      have "sframes (newline # b') = sframes b'"
        using sframes_strip [of "newline # b'"] sframes_strip [of b'] by (simp add: is_term_def)
      with * bnd b' show ?thesis
        by (subst sframes.simps) (simp add: st [unfolded b'] case_prod_beta Let_def)
    qed
    from less [OF len] show ?thesis by (simp add: ap sab sa case_prod_beta)
  qed
qed

section \<open>Decoding ignores leading line ends\<close>

lemma replace_from_simps:
  "replace_str [] pat rep = []"
  "prefix pat (c # s) \<Longrightarrow> replace_str (c # s) pat rep = rep @ replace_from (length pat - 1) pat rep s"
  "\<not> prefix pat (c # s) \<Longrightarrow> replace_str (c # s) pat rep = c # replace_str s pat rep"
  by (simp_all add: replace_str_def)

lemma crlf_replace:
  "replace_str (newline # s) [carriage_return, newline] [newline]
     = newline # replace_str s [carriage_return, newline] [newline]"
  "replace_str (carriage_return # newline # s) [carriage_return, newline] [newline]
     = newline # replace_str s [carriage_return, newline] [newline]"
  "s = [] \<or> hd s \<noteq> newline \<Longrightarrow> replace_str (carriage_return # s) [carriage_return, newline] [newline]
     = carriage_return # replace_str s [carriage_return, newline] [newline]"
  by (cases s; auto simp: replace_str_def)+

lemma cr_replace:
  "replace_str (c # s) [carriage_return] [newline]
     = (if c = carriage_return then newline else c) # replace_str s [carriage_return] [newline]"
  by (simp add: replace_str_def)

definition content_lines :: "string \<Rightarrow> string list" where
  "content_lines f = filter (\<lambda>l. l \<noteq> []) (split_char newline (normalise_sse_line_endings f))"

lemma content_lines_term: "is_term c \<Longrightarrow> content_lines (c # f) = content_lines f"
proof -
  assume "is_term c"
  then consider "c = newline" | f' where "c = carriage_return" "f = newline # f'"
    | "c = carriage_return" "f = [] \<or> hd f \<noteq> newline"
    unfolding is_term_def by (cases f) auto
  then show ?thesis
    by cases (simp_all add: content_lines_def normalise_sse_line_endings_def crlf_replace cr_replace)
qed

lemma frame_line_blank [simp]: "frame_line [] f = f"
  by (simp add: frame_line_def)

lemma parse_lines_content:
  "parse_lines ls ss = parse_lines (filter (\<lambda>l. l \<noteq> []) ls) ss"
proof -
  have "fold frame_line ls f = fold frame_line (filter (\<lambda>l. l \<noteq> []) ls) f" for f
    by (induction ls arbitrary: f) simp_all
  then show ?thesis by (simp add: parse_lines_def)
qed

lemma should_error_content:
  "sse_frame_without_data_should_error E n \<longleftrightarrow>
     list_ex (looks_like_raw_json_payload E)
       (filter (\<lambda>line. line \<noteq> [] \<and> \<not> starts_with line '':'')
         (map trim (filter (\<lambda>l. l \<noteq> []) (split_char newline n))))"
proof -
  have "filter (\<lambda>line. line \<noteq> [] \<and> \<not> starts_with line '':'') (map trim ls)
      = filter (\<lambda>line. line \<noteq> [] \<and> \<not> starts_with line '':'')
          (map trim (filter (\<lambda>l. l \<noteq> []) ls))" for ls
    by (induction ls) auto
  then show ?thesis by (simp add: sse_frame_without_data_should_error_def)
qed

lemma valid_utf8_term: "is_term c \<Longrightarrow> valid_utf8 (c # f) = valid_utf8 f"
  by (auto simp: valid_utf8_def is_term_def newline_def carriage_return_def byte_val_def)

lemma parse_frame_content:
  "valid_utf8 f = valid_utf8 g \<Longrightarrow> content_lines f = content_lines g \<Longrightarrow>
     parse_sse_frame_bytes E f ss = parse_sse_frame_bytes E g ss"
  unfolding parse_sse_frame_bytes_def Let_def
    parse_lines_content [of "split_char newline (normalise_sse_line_endings f)"]
    parse_lines_content [of "split_char newline (normalise_sse_line_endings g)"]
    should_error_content content_lines_def
  by simp

lemma parse_frame_term:
  "is_term c \<Longrightarrow> parse_sse_frame_bytes E (c # f) ss = parse_sse_frame_bytes E f ss"
  by (rule parse_frame_content) (simp_all add: valid_utf8_term content_lines_term)

lemma parse_frame_terms:
  "list_all is_term t \<Longrightarrow> parse_sse_frame_bytes E (t @ f) ss = parse_sse_frame_bytes E f ss"
  by (induction t) (simp_all add: parse_frame_term)

lemma parse_frame_blank: "parse_sse_frame_bytes E [] ss = Some (Inr [], ss)"
  by (simp add: parse_sse_frame_bytes_def valid_utf8_def normalise_sse_line_endings_def
      replace_from_simps parse_lines_def sse_frame_without_data_should_error_def)

section \<open>The loop as a fold over frames\<close>

fun parse_frames ::
  "'z ingress_env_scheme \<Rightarrow> string list \<Rightarrow> session \<Rightarrow> (runtime_envelope list \<times> session) option" where
  "parse_frames E [] ss = Some ([], ss)"
| "parse_frames E (f # fs) ss =
     (case parse_sse_frame_bytes E f ss of
        Some (Inr es, ss') \<Rightarrow> map_option (\<lambda>(es', t). (es @ es', t)) (parse_frames E fs ss')
      | _ \<Rightarrow> None)"

lemma parse_frames_append:
  "parse_frames E (a @ b) ss =
     (case parse_frames E a ss of
        None \<Rightarrow> None
      | Some (es, ss') \<Rightarrow> map_option (\<lambda>(es', t). (es @ es', t)) (parse_frames E b ss'))"
proof (induction a arbitrary: ss)
  case Nil
  show ?case by (simp add: case_prod_beta option.map_id)
next
  case (Cons f a)
  then show ?case
    by (auto simp: option.map_comp comp_def case_prod_beta split: option.splits sum.splits prod.splits)
qed

text \<open>A result that is \<open>Ok\<close>.\<close>

definition ok :: "((sse_error + 'a) \<times> 's) option \<Rightarrow> ('a \<times> 's) option" where
  "ok r = (case r of Some (Inr es, st) \<Rightarrow> Some (es, st) | _ \<Rightarrow> None)"

lemma ok_simps [simp]: "ok None = None" "ok (Some (Inl e, st)) = None" "ok (Some (Inr es, st)) = Some (es, st)"
  by (simp_all add: ok_def)

lemma process_loop_frames:
  "ok (process_loop E w ss) =
     map_option (\<lambda>(es, t). (es, snd (frames_of w), t)) (parse_frames E (fst (frames_of w)) ss)"
proof (induction w arbitrary: ss rule: frames_of.induct)
  case (1 w)
  show ?case
  proof (cases "find_delim w")
    case None
    then show ?thesis
      by (subst process_loop.simps, subst (1 2) frames_of.simps)
         (simp add: find_sse_frame_delimiter_def)
  next
    case (Some pd)
    obtain p d where pd: "pd = (p, d)" by (cases pd)
    let ?r = "drop (p + d) w"
    have fr: "frames_of w = (take p w # fst (frames_of ?r), snd (frames_of ?r))"
      by (subst frames_of.simps) (simp add: Some pd case_prod_beta Let_def)
    have IH: "ok (process_loop E ?r ss) =
        map_option (\<lambda>(es, t). (es, snd (frames_of ?r), t)) (parse_frames E (fst (frames_of ?r)) ss)" for ss
      using "1.IH" [OF Some pd [symmetric]] by simp
    have pl: "process_loop E w ss =
       (case parse_sse_frame_bytes E (take p w) ss of
             None \<Rightarrow> None
           | Some (Inl err, ss') \<Rightarrow> Some (Inl err, ?r, ss')
           | Some (Inr es, ss') \<Rightarrow>
               (case process_loop E ?r ss' of
                  None \<Rightarrow> None
                | Some (Inl err, r) \<Rightarrow> Some (Inl err, r)
                | Some (Inr es', r) \<Rightarrow> Some (Inr (es @ es'), r)))"
      by (subst process_loop.simps) (simp add: find_sse_frame_delimiter_def Some pd)
    show ?thesis
    proof (cases "ok (parse_sse_frame_bytes E (take p w) ss)")
      case None
      then show ?thesis
        by (auto simp: pl fr ok_def split: option.splits sum.splits prod.splits)
    next
      case (Some a)
      obtain es ss' where "a = (es, ss')" by (cases a)
      with Some have a: "parse_sse_frame_bytes E (take p w) ss = Some (Inr es, ss')"
        by (auto simp: ok_def split: option.splits sum.splits)
      show ?thesis
        using IH [of ss']
        by (cases "parse_frames E (fst (frames_of ?r)) ss'")
           (auto simp: pl fr a ok_def split: option.splits sum.splits prod.splits)
    qed
  qed
qed

lemma frames_of_sframes:
  "parse_frames E (fst (frames_of w)) ss = parse_frames E (fst (sframes w)) ss
   \<and> strip_terms (snd (frames_of w)) = snd (sframes w)"
proof (induction "length w" arbitrary: w ss rule: less_induct)
  case less
  have step: "parse_frames E (fst (frames_of w)) ss = parse_frames E (fst (sframes w)) ss
     \<and> strip_terms (snd (frames_of w)) = snd (sframes w)"
    if w: "w = t @ v" and t: "list_all is_term t" and v: "strip_terms v = v"
      and fd: "find_delim w = map_option (\<lambda>(p, d). (length t + p, d)) (find_delim v)" for t v
  proof -
    have "strip_terms t = []" using t by (simp add: strip_terms_def list_all_iff)
    then have sw: "strip_terms w = v" by (simp add: w strip_terms_append v)
    show ?thesis
    proof (cases "find_delim v")
      case None
      with fd sw show ?thesis
        by (subst (1 2) frames_of.simps, subst (1 2) sframes.simps) simp
    next
      case (Some pd)
      obtain p d where pd: "find_delim v = Some (p, d)" using Some by (cases pd) simp
      let ?r = "drop (p + d) v"
      have dr: "drop (length t + p + d) w = ?r" "take (length t + p) w = t @ take p v"
        by (simp_all add: w)
      have fr: "frames_of w = ((t @ take p v) # fst (frames_of ?r), snd (frames_of ?r))"
        by (subst frames_of.simps) (simp add: fd pd dr case_prod_beta Let_def)
      have sf: "sframes w = (take p v # fst (sframes ?r), snd (sframes ?r))"
        by (subst sframes.simps) (simp add: sw pd case_prod_beta Let_def)
      have "length ?r < length w" using find_delim_bounds [OF pd] by (auto simp: w)
      from less [OF this] show ?thesis
        by (simp add: fr sf parse_frame_terms [OF t] split: option.splits sum.splits)
    qed
  qed
  show ?case
  proof (cases "terminator_len w")
    case None
    then have "strip_terms w = w" by (cases w) (auto simp: terminator_len_None)
    then show ?thesis by (intro step [of "[]" w]) (simp_all add: option.map_id case_prod_beta)
  next
    case n: (Some n)
    show ?thesis
    proof (cases "terminator_len (drop n w)")
      case None
      then have v: "strip_terms (drop n w) = drop n w"
        by (cases "drop n w") (auto simp: terminator_len_None)
      have "length (take n w) = n" using terminator_len_pos [OF n] by simp
      with find_delim_one [OF n None] v terminator_len_take [OF n] show ?thesis
        by (intro step [of "take n w" "drop n w"]) simp_all
    next
      case m: (Some m)
      let ?r = "drop (n + m) w"
      have st: "strip_terms ?r = strip_terms w"
        using terminator_drop_strip [OF n] terminator_drop_strip [OF m] by (simp add: add.commute)
      have fr: "frames_of w = ([] # fst (frames_of ?r), snd (frames_of ?r))"
        by (subst frames_of.simps) (simp add: find_delim_two [OF n m] case_prod_beta Let_def)
      have sf: "sframes w = sframes ?r"
        using sframes_strip [of w] sframes_strip [of ?r] st by simp
      have "length ?r < length w"
        using terminator_len_pos [OF n] by (metis diff_less length_drop less_le_trans add_gr_0)
      from less [OF this] show ?thesis
        by (simp add: fr sf parse_frame_blank option.map_id case_prod_beta)
    qed
  qed
qed

section \<open>Chunking\<close>

text \<open>The stream without its byte order mark; nothing is decided while it is a proper prefix of one.\<close>

definition effective :: "string \<Rightarrow> string" where
  "effective x =
     (if strict_prefix x UTF8_BOM then []
      else if prefix UTF8_BOM x then drop (length UTF8_BOM) x else x)"

lemma bom_prefix_cases:
  assumes "\<not> strict_prefix b UTF8_BOM" "\<not> prefix UTF8_BOM b"
  shows "b \<noteq> [] \<and> (min (length b) (length UTF8_BOM) = length UTF8_BOM
     \<or> take (min (length b) (length UTF8_BOM)) b \<noteq> take (min (length b) (length UTF8_BOM)) UTF8_BOM)"
proof -
  have "b \<noteq> []" using assms(1) by (auto simp: UTF8_BOM_def strict_prefix_def)
  moreover have "take (length b) UTF8_BOM \<noteq> b" if "length b < length UTF8_BOM"
    using assms that by (metis prefix_order.le_less take_is_prefix prefix_order.dual_order.refl)
  ultimately show ?thesis by (cases "length b < length UTF8_BOM") (auto simp: min_def)
qed

lemma strip_bom_unchecked:
  assumes "\<not> sp_bom_checked st"
  shows "strip_utf8_bom_once st =
     (if strict_prefix (sp_buffer st) UTF8_BOM then st
      else st\<lparr>sp_buffer := effective (sp_buffer st), sp_bom_checked := True\<rparr>)"
proof (cases "strict_prefix (sp_buffer st) UTF8_BOM")
  case True
  then have p: "prefix (sp_buffer st) UTF8_BOM" "length (sp_buffer st) < length UTF8_BOM"
    by (auto simp: strict_prefix_def prefix_length_less prefix_def)
  then have "\<not> prefix UTF8_BOM (sp_buffer st)" by (auto dest: prefix_length_le)
  moreover have "take (length (sp_buffer st)) UTF8_BOM = sp_buffer st"
    using p(1) by (metis append_eq_conv_conj prefix_def)
  ultimately show ?thesis
    using True p(2) assms by (simp add: strip_utf8_bom_once_def Let_def min_def)
next
  case False
  show ?thesis
  proof (cases "prefix UTF8_BOM (sp_buffer st)")
    case True
    with False assms show ?thesis by (simp add: strip_utf8_bom_once_def Let_def effective_def)
  next
    case no: False
    with bom_prefix_cases [OF False no] False assms show ?thesis
      by (auto simp: strip_utf8_bom_once_def Let_def effective_def)
  qed
qed

lemma strip_bom_checked: "sp_bom_checked st \<Longrightarrow> strip_utf8_bom_once st = st"
  by (simp add: strip_utf8_bom_once_def Let_def)

lemma effective_append:
  assumes "\<not> strict_prefix x UTF8_BOM"
  shows "\<not> strict_prefix (x @ c) UTF8_BOM" "effective (x @ c) = effective x @ c"
proof -
  show no: "\<not> strict_prefix (x @ c) UTF8_BOM"
    using assms by (metis append_prefixD prefix_order.le_less prefix_order.less_irrefl
        prefix_order.less_le_trans prefixI prefix_order.dual_order.strict_implies_order
        prefix_order.dual_order.strict_trans2)
  show "effective (x @ c) = effective x @ c"
  proof (cases "prefix UTF8_BOM x")
    case True
    then have "prefix UTF8_BOM (x @ c)" "length UTF8_BOM \<le> length x"
      by (auto dest: prefix_length_le)
    with True assms no show ?thesis by (simp add: effective_def)
  next
    case False
    have "\<not> prefix UTF8_BOM (x @ c)"
    proof
      assume "prefix UTF8_BOM (x @ c)"
      then have "prefix UTF8_BOM x \<or> prefix x UTF8_BOM"
        by (metis prefix_same_cases prefixI)
      with False assms show False by (auto simp: prefix_order.le_less)
    qed
    with False assms no show ?thesis by (simp add: effective_def)
  qed
qed

lemma bom_no_delim: "strict_prefix x UTF8_BOM \<Longrightarrow> find_delim x = None"
proof -
  assume "strict_prefix x UTF8_BOM"
  then have "x = [] \<or> x = [CHR 0xEF] \<or> x = [CHR 0xEF, CHR 0xBB]"
    by (auto simp: UTF8_BOM_def strict_prefix_def prefix_Cons)
  then show ?thesis
    by (auto simp: find_delim_plain is_term_def newline_def carriage_return_def)
qed

definition parsed :: "'z ingress_env_scheme \<Rightarrow> nat \<Rightarrow> string \<Rightarrow> (runtime_envelope list \<times> session) option" where
  "parsed E n x = parse_frames E (fst (sframes (effective x))) (session_new n)"

text \<open>The parser after the bytes \<open>x\<close>.\<close>

definition after :: "string \<Rightarrow> session \<Rightarrow> stream_parser \<Rightarrow> bool" where
  "after x ss st \<longleftrightarrow>
     \<not> sp_overflowed st \<and> sp_session st = ss \<and> length (sp_buffer st) \<le> length x
     \<and> (if strict_prefix x UTF8_BOM then \<not> sp_bom_checked st \<and> sp_buffer st = x
        else sp_bom_checked st \<and> strip_terms (sp_buffer st) = snd (sframes (effective x)))"

lemma ok_map:
  "ok (map_option (\<lambda>(r, b, ss). (r, f b ss)) x) = map_option (\<lambda>(es, b, ss). (es, f b ss)) (ok x)"
  by (auto simp: ok_def split: option.splits sum.splits prod.splits)

lemma process_within:
  assumes "\<not> sp_overflowed st" "length (sp_buffer st) + length c \<le> MAX_SSE_BUFFER_BYTES"
  defines "st1 \<equiv> strip_utf8_bom_once (st\<lparr>sp_buffer := sp_buffer st @ c\<rparr>)"
  shows "ok (process E c st) =
     map_option (\<lambda>(es, t). (es, st1\<lparr>sp_buffer := snd (frames_of (sp_buffer st1)), sp_session := t\<rparr>))
       (parse_frames E (fst (sframes (sp_buffer st1))) (sp_session st1))"
proof -
  have "sat_add (length (sp_buffer st)) (length c) \<le> MAX_SSE_BUFFER_BYTES"
    using assms(2) by (simp add: sat_add_def)
  then have "process E c st = map_option (\<lambda>(r, buffer, ss). (r, st1\<lparr>sp_buffer := buffer, sp_session := ss\<rparr>))
      (process_loop E (sp_buffer st1) (sp_session st1))"
    using assms(1) by (simp add: process_def st1_def Let_def)
  then show ?thesis
    by (cases "parse_frames E (fst (sframes (sp_buffer st1))) (sp_session st1)")
       (auto simp: ok_map process_loop_frames frames_of_sframes)
qed

lemma frames_of_length: "length (snd (frames_of w)) \<le> length w"
proof (induction w rule: frames_of.induct)
  case (1 w)
  show ?case
    by (subst frames_of.simps)
       (auto simp: Let_def case_prod_beta split: option.splits dest!: "1.IH" [OF _ refl])
qed

lemma after_step:
  assumes "parsed E n x = Some (es, ss)" "after x ss st"
    and "length (x @ c) \<le> MAX_SSE_BUFFER_BYTES"
  shows "(case parsed E n (x @ c) of
       None \<Rightarrow> ok (process E c st) = None
     | Some (es', ss') \<Rightarrow> \<exists>more st'. es' = es @ more \<and> ok (process E c st) = Some (more, st')
         \<and> after (x @ c) ss' st')"
proof -
  define st1 where "st1 = strip_utf8_bom_once (st\<lparr>sp_buffer := sp_buffer st @ c\<rparr>)"
  have "\<not> sp_overflowed st" "length (sp_buffer st) + length c \<le> MAX_SSE_BUFFER_BYTES"
    using assms(2,3) by (auto simp: after_def)
  note run = process_within [OF this, of E, folded st1_def]
  have st1: "sp_session st1 = ss" "\<not> sp_overflowed st1"
    using assms(2) by (auto simp: st1_def strip_utf8_bom_once_def Let_def after_def)
  have key: "parsed E n (x @ c) = map_option (\<lambda>(m, t). (es @ m, t))
        (parse_frames E (fst (sframes (sp_buffer st1))) ss)
     \<and> length (sp_buffer st1) \<le> length (x @ c)
     \<and> (if strict_prefix (x @ c) UTF8_BOM
         then \<not> sp_bom_checked st1 \<and> frames_of (sp_buffer st1) = ([], x @ c)
         else sp_bom_checked st1
           \<and> snd (sframes (sp_buffer st1)) = snd (sframes (effective (x @ c))))"
  proof (cases "strict_prefix x UTF8_BOM")
    case True
    then have new: "es = []" "ss = session_new n" "sp_buffer st = x" "\<not> sp_bom_checked st"
      using assms(1,2) by (auto simp: parsed_def effective_def after_def)
    show ?thesis
    proof (cases "strict_prefix (x @ c) UTF8_BOM")
      case True
      then have "st1 = st\<lparr>sp_buffer := x @ c\<rparr>"
        using new by (simp add: st1_def strip_bom_unchecked)
      moreover have "frames_of (x @ c) = ([], x @ c)"
        using bom_no_delim [OF True] by (subst frames_of.simps) simp
      moreover have "fst (sframes (x @ c)) = []"
      proof -
        have "hd (x @ c) = CHR 0xEF" if "x @ c \<noteq> []"
          using True that by (auto simp: UTF8_BOM_def strict_prefix_def prefix_Cons)
        then have "strip_terms (x @ c) = x @ c"
          by (cases "x @ c") (auto simp: is_term_def newline_def carriage_return_def)
        then show ?thesis using bom_no_delim [OF True] by (subst sframes.simps) simp
      qed
      ultimately show ?thesis
        using True new by (simp add: parsed_def effective_def)
    next
      case False
      then have "st1 = st\<lparr>sp_buffer := effective (x @ c), sp_bom_checked := True\<rparr>"
        using new by (simp add: st1_def strip_bom_unchecked)
      with False new show ?thesis
        by (auto simp: parsed_def option.map_id case_prod_beta effective_def)
    qed
  next
    case False
    then have old: "sp_bom_checked st" "strip_terms (sp_buffer st) = snd (sframes (effective x))"
      "length (sp_buffer st) \<le> length x"
      using assms(2) by (auto simp: after_def)
    have b: "st1 = st\<lparr>sp_buffer := sp_buffer st @ c\<rparr>"
      using old(1) by (simp add: st1_def strip_bom_checked)
    have "sframes (sp_buffer st @ c) = sframes (strip_terms (sp_buffer st) @ c)"
      using sframes_strip [of "sp_buffer st @ c"] sframes_strip [of "strip_terms (sp_buffer st) @ c"]
        sframes_strip [of c]
      by (cases "strip_terms (sp_buffer st) = []") (simp_all add: strip_terms_append)
    then have "sframes (sp_buffer st @ c) = sframes (snd (sframes (effective x)) @ c)"
      by (simp add: old(2))
    with effective_append [OF False, of c] sframes_append [of "effective x" c] assms(1) False b old
    show ?thesis by (simp add: parsed_def parse_frames_append case_prod_beta)
  qed
  show ?thesis
  proof (cases "parse_frames E (fst (sframes (sp_buffer st1))) ss")
    case None
    with key run st1 show ?thesis by simp
  next
    case (Some mt)
    obtain m t where mt: "mt = (m, t)" by (cases mt)
    have "after (x @ c) t (st1\<lparr>sp_buffer := snd (frames_of (sp_buffer st1)), sp_session := t\<rparr>)"
      using key st1 frames_of_length [of "sp_buffer st1"]
        frames_of_sframes [THEN conjunct2, of "sp_buffer st1"]
      by (auto simp: after_def split: if_splits)
    with key run st1 Some mt show ?thesis by simp
  qed
qed

lemma feed_snoc:
  "ok (feed_chunks E (cs @ [c]) st) =
     (case ok (feed_chunks E cs st) of
        None \<Rightarrow> None
      | Some (es, st') \<Rightarrow> map_option (\<lambda>(es', t). (es @ es', t)) (ok (process E c st')))"
proof (induction cs arbitrary: st)
  case Nil
  show ?case by (auto simp: ok_def split: option.splits sum.splits prod.splits)
next
  case (Cons x xs)
  show ?case
  proof (cases "ok (process E x st)")
    case None
    then show ?thesis by (auto simp: ok_def split: option.splits sum.splits prod.splits)
  next
    case (Some a)
    obtain es st' where "a = (es, st')" by (cases a)
    with Some have "process E x st = Some (Inr es, st')"
      by (auto simp: ok_def split: option.splits sum.splits)
    with Cons [of st'] show ?thesis
      by (auto simp: ok_def split: option.splits sum.splits prod.splits)
  qed
qed

lemma feed_parsed:
  "length (concat cs) \<le> MAX_SSE_BUFFER_BYTES \<Longrightarrow>
     (case parsed E n (concat cs) of
        None \<Rightarrow> ok (feed_chunks E cs (stream_parser_new n)) = None
      | Some (es, ss) \<Rightarrow> \<exists>st. ok (feed_chunks E cs (stream_parser_new n)) = Some (es, st)
          \<and> after (concat cs) ss st)"
proof (induction cs rule: rev_induct)
  case Nil
  have "strict_prefix [] UTF8_BOM" by (simp add: UTF8_BOM_def)
  then show ?case by (simp add: parsed_def effective_def after_def stream_parser_new_def)
next
  case (snoc c cs)
  then have len: "length (concat cs) \<le> MAX_SSE_BUFFER_BYTES"
    "length (concat cs @ c) \<le> MAX_SSE_BUFFER_BYTES" by simp_all
  show ?case
  proof (cases "parsed E n (concat cs)")
    case None
    then have "\<not> strict_prefix (concat cs) UTF8_BOM" by (auto simp: parsed_def effective_def)
    from effective_append [OF this, of c] None sframes_append [of "effective (concat cs)" c]
    have "parsed E n (concat cs @ c) = None"
      by (simp add: parsed_def parse_frames_append case_prod_beta)
    with None snoc.IH [OF len(1)] show ?thesis by (simp add: feed_snoc)
  next
    case (Some a)
    obtain es ss where a: "a = (es, ss)" by (cases a)
    with snoc.IH [OF len(1)] Some obtain st where
      st: "ok (feed_chunks E cs (stream_parser_new n)) = Some (es, st)" "after (concat cs) ss st"
      by auto
    from after_step [OF Some [unfolded a] st(2) len(2)] st(1) show ?thesis
      by (auto simp: feed_snoc split: option.splits)
  qed
qed

text \<open>
  C20 [sse_chunking_invariant]: the envelopes a byte stream yields, and the state of the stream after
  it, do not depend on how the stream is cut into chunks: line ends, delimiters, multi-byte
  characters and the byte order mark may be split anywhere. (The stream fits the buffer limit, and one
  of the two cuts is processed without a decoding error.)
\<close>

theorem sse_chunking_invariant:
  assumes "concat cs = concat ds" and "length (concat cs) \<le> MAX_SSE_BUFFER_BYTES"
    and "feed_chunks E cs (stream_parser_new n) = Some (Inr es, st)"
  shows "\<exists>st'. feed_chunks E ds (stream_parser_new n) = Some (Inr es, st')
     \<and> sp_session st' = sp_session st"
proof -
  have "ok (feed_chunks E cs (stream_parser_new n)) = Some (es, st)" using assms(3) by simp
  with feed_parsed [OF assms(2), of E n] have p: "parsed E n (concat cs) = Some (es, sp_session st)"
    by (auto simp: after_def split: option.splits)
  have "length (concat ds) \<le> MAX_SSE_BUFFER_BYTES" using assms(1,2) by simp
  from feed_parsed [OF this, of E n] p assms(1) obtain st' where
    "ok (feed_chunks E ds (stream_parser_new n)) = Some (es, st')" "sp_session st' = sp_session st"
    by (auto simp: after_def)
  then show ?thesis
    by (auto simp: ok_def split: option.splits sum.splits prod.splits)
qed

lemmas stream_eval_defs =
  process_def stream_parser_new_def session_new_def sat_add_def u64_max_def
  MAX_SSE_BUFFER_BYTES_def strip_utf8_bom_once_def UTF8_BOM_def Let_def process_loop.simps
  find_sse_frame_delimiter_def find_delimiter_from.simps terminator_len.simps newline_def
  carriage_return_def parse_sse_frame_bytes_def valid_utf8_def byte_val_def
  normalise_sse_line_endings_def replace_str_def parse_lines_def frame_line_def starts_with_def
  strip_prefix_str_def strip_single_leading_space_def decode_frame_payload_def
  adapt_protocol_payload_def decode_protocol_frame_def parse_chat_compat_chunk_def
  sample_ingress_def protocol_adapter_mut_def next_stream_task_id_def emit_signal_def emit_one_def
  next_envelope_def next_envelope_with_context_def next_envelope_with_source_def

lemma sample_feed:
  "\<exists>es st. feed_chunks sample_ingress [''data:x'' @ [newline, newline]] (stream_parser_new 1)
     = Some (Inr es, st) \<and> length es = 1 \<and> sp_buffer st = []"
  by (simp add: stream_eval_defs)

theorem sse_chunking_invariant_witness:
  "\<exists>es st st'. length es = 1
     \<and> feed_chunks sample_ingress [''data:x'' @ [newline, newline]] (stream_parser_new 1)
         = Some (Inr es, st)
     \<and> feed_chunks sample_ingress [''da'', ''ta:x'' @ [newline], [newline]] (stream_parser_new 1)
         = Some (Inr es, st')
     \<and> sp_session st' = sp_session st"
proof -
  obtain es st where run: "feed_chunks sample_ingress [''data:x'' @ [newline, newline]]
      (stream_parser_new 1) = Some (Inr es, st)" "length es = 1"
    using sample_feed by blast
  have "concat [''data:x'' @ [newline, newline]] = concat [''da'', ''ta:x'' @ [newline], [newline]]"
    "length (concat [''data:x'' @ [newline, newline]]) \<le> MAX_SSE_BUFFER_BYTES"
    by (simp_all add: MAX_SSE_BUFFER_BYTES_def)
  from sse_chunking_invariant [OF this run(1)] run show ?thesis by blast
qed

section \<open>The buffer\<close>

lemma process_loop_length:
  "process_loop E w ss = Some (r, buffer, ss') \<Longrightarrow> length buffer \<le> length w"
proof (induction E w ss arbitrary: r buffer ss' rule: process_loop.induct)
  case (1 E w ss)
  show ?case
  proof (cases "find_sse_frame_delimiter w")
    case None
    with "1.prems" show ?thesis by (subst (asm) process_loop.simps) simp
  next
    case (Some pd)
    obtain p d where pd: "pd = (p, d)" by (cases pd)
    let ?r = "drop (p + d) w"
    consider e s1 where "parse_sse_frame_bytes E (take p w) ss = Some (Inl e, s1)" "buffer = ?r"
      | es s1 r' where "parse_sse_frame_bytes E (take p w) ss = Some (Inr es, s1)"
        "process_loop E ?r s1 = Some (r', buffer, ss')"
      using "1.prems"
      by (subst (asm) process_loop.simps)
         (auto simp: Some pd split: option.splits sum.splits prod.splits)
    then show ?thesis
    proof cases
      case 1
      then show ?thesis by simp
    next
      case (2 es s1 r')
      from "1.IH" [OF Some pd [symmetric] 2(1) refl refl 2(2)] show ?thesis by simp
    qed
  qed
qed

lemma strip_bom_simps [simp]:
  "sp_overflowed (strip_utf8_bom_once st) = sp_overflowed st"
  "sp_session (strip_utf8_bom_once st) = sp_session st"
  "length (sp_buffer (strip_utf8_bom_once st)) \<le> length (sp_buffer st)"
  by (simp_all add: strip_utf8_bom_once_def Let_def)

definition buffer_ok :: "stream_parser \<Rightarrow> bool" where
  "buffer_ok st \<longleftrightarrow> length (sp_buffer st) \<le> MAX_SSE_BUFFER_BYTES"

lemma process_buffer_ok:
  assumes "process E c st = Some (r, st')" "buffer_ok st"
  shows "buffer_ok st'"
proof -
  consider "sp_overflowed st" | "\<not> sp_overflowed st"
      "sat_add (length (sp_buffer st)) (length c) > MAX_SSE_BUFFER_BYTES"
    | "\<not> sp_overflowed st" "sat_add (length (sp_buffer st)) (length c) \<le> MAX_SSE_BUFFER_BYTES"
    by force
  then show ?thesis
  proof cases
    case 3
    let ?st1 = "strip_utf8_bom_once (st\<lparr>sp_buffer := sp_buffer st @ c\<rparr>)"
    from 3 assms(1) obtain buffer ss where
      "process_loop E (sp_buffer ?st1) (sp_session ?st1) = Some (r, buffer, ss)"
      "st' = ?st1\<lparr>sp_buffer := buffer, sp_session := ss\<rparr>"
      by (auto simp: process_def Let_def)
    moreover have "length (sp_buffer ?st1) \<le> length (sp_buffer st) + length c"
      using strip_bom_simps(3) [of "st\<lparr>sp_buffer := sp_buffer st @ c\<rparr>"] by simp
    moreover have "length (sp_buffer st) + length c \<le> MAX_SSE_BUFFER_BYTES"
      using 3(2) by (auto simp: sat_add_def MAX_SSE_BUFFER_BYTES_def u64_max_def)
    ultimately show ?thesis using process_loop_length by (fastforce simp: buffer_ok_def)
  qed (use assms in \<open>auto simp: process_def buffer_ok_def split: prod.splits\<close>)
qed

lemma feed_buffer_ok:
  "feed_chunks E cs st = Some (r, st') \<Longrightarrow> buffer_ok st \<Longrightarrow> buffer_ok st'"
proof (induction cs arbitrary: st r)
  case (Cons c cs)
  then show ?case
    by (auto split: option.splits sum.splits prod.splits dest: process_buffer_ok)
qed simp

lemma error_envelope_signal:
  "\<exists>e. fst (protocol_stream_error_envelope E code message ss) = [e]
     \<and> env_signal e = Error_signal code message True"
  by (auto simp: protocol_stream_error_envelope_def with_adapter_def emit_protocol_ingress_error_def
      emit_unfolds emit_one_def next_envelope_with_source_def Let_def split: prod.splits)

text \<open>
  Whatever is fed to a new parser, its buffer never exceeds the limit; and
  once the limit was hit, every further chunk yields exactly one overflow error and leaves the buffer
  alone.
\<close>

theorem sse_buffer_bounded:
  assumes "feed_chunks E cs (stream_parser_new n) = Some (r, st)"
  shows "length (sp_buffer st) \<le> MAX_SSE_BUFFER_BYTES
     \<and> (sp_overflowed st \<longrightarrow>
          (\<exists>e st'. process E chunk st = Some (Inr [e], st')
             \<and> env_signal e = Error_signal ''sse_buffer_overflow'' overflow_message True
             \<and> sp_overflowed st' \<and> sp_buffer st' = sp_buffer st))"
proof -
  have "buffer_ok (stream_parser_new n)" by (simp add: buffer_ok_def stream_parser_new_def)
  from feed_buffer_ok [OF assms this] have "length (sp_buffer st) \<le> MAX_SSE_BUFFER_BYTES"
    by (simp add: buffer_ok_def)
  moreover have "\<exists>e st'. process E chunk st = Some (Inr [e], st')
      \<and> env_signal e = Error_signal ''sse_buffer_overflow'' overflow_message True
      \<and> sp_overflowed st' \<and> sp_buffer st' = sp_buffer st" if "sp_overflowed st"
    using that error_envelope_signal [of E "''sse_buffer_overflow''" overflow_message "sp_session st"]
    by (auto simp: process_def sse_overflow_frame_def Let_def split: prod.splits)
  ultimately show ?thesis by blast
qed

theorem sse_buffer_bounded_witness:
  "\<exists>es st. feed_chunks sample_ingress [''data:x'' @ [newline, newline]] (stream_parser_new 1)
       = Some (Inr es, st)
     \<and> length (sp_buffer st) \<le> MAX_SSE_BUFFER_BYTES
     \<and> (sp_overflowed st \<longrightarrow>
          (\<exists>e st'. process sample_ingress ''y'' st = Some (Inr [e], st')
             \<and> env_signal e = Error_signal ''sse_buffer_overflow'' overflow_message True
             \<and> sp_overflowed st' \<and> sp_buffer st' = sp_buffer st))"
proof -
  obtain es st where run: "feed_chunks sample_ingress [''data:x'' @ [newline, newline]]
      (stream_parser_new 1) = Some (Inr es, st)"
    using sample_feed by blast
  from sse_buffer_bounded [OF run, of "''y''"] run show ?thesis by blast
qed

section \<open>The output mode\<close>

definition mode_kept :: "session \<Rightarrow> session \<Rightarrow> bool" where
  "mode_kept ss ss' \<longleftrightarrow> se_output_mode ss = Undecided \<or> se_output_mode ss' = se_output_mode ss"

lemma adapter_mode:
  "protocol_adapter_mut ss = (n, ss1) \<Longrightarrow> se_output_mode ss1 = se_output_mode ss"
  by (auto simp: protocol_adapter_mut_def next_stream_task_id_def Let_def split: option.splits)

lemma with_adapter_mode: "se_output_mode (snd (with_adapter f ss)) = se_output_mode ss"
  by (auto simp: with_adapter_def split: prod.splits dest: adapter_mode)

lemma error_envelope_mode:
  "se_output_mode (snd (protocol_stream_error_envelope E code message ss)) =
     (if se_output_mode ss = RuntimeEnvelope_mode then RuntimeEnvelope_mode else ProtocolAdapter_mode)"
  by (auto simp: protocol_stream_error_envelope_def with_adapter_mode next_stream_task_id_def)

lemma frame_line_mode:
  "se_output_mode (ff_session (frame_line l f)) = se_output_mode (ff_session f)"
  by (auto simp: frame_line_def Let_def split: option.splits)

lemma parse_lines_mode: "se_output_mode (ff_session (parse_lines ls ss)) = se_output_mode ss"
proof -
  have "se_output_mode (ff_session (fold frame_line ls f)) = se_output_mode (ff_session f)" for f
    by (induction ls arbitrary: f) (simp_all add: frame_line_mode)
  then show ?thesis by (simp add: parse_lines_def)
qed

text \<open>
  Once a stream is in a mode it stays in it. In passthrough mode a frame
  that is not an envelope yields one \<open>mixed_sse_protocol\<close> error, in adapter mode a frame that is an
  envelope does; no envelope of the other kind gets through.
\<close>

theorem sse_modes_exclusive:
  assumes "json_data \<noteq> []" and "decode_frame_payload E kind json_data ss = Some (es, ss')"
  shows "(se_output_mode ss \<noteq> Undecided \<longrightarrow> se_output_mode ss' = se_output_mode ss)
     \<and> (se_output_mode ss' \<noteq> Undecided)
     \<and> (se_output_mode ss = RuntimeEnvelope_mode \<and> decode_envelope E json_data = None
        \<or> se_output_mode ss = ProtocolAdapter_mode \<and> decode_envelope E json_data \<noteq> None \<longrightarrow>
          (\<exists>e message. es = [e] \<and> env_signal e = Error_signal ''mixed_sse_protocol'' message True))
     \<and> (se_output_mode ss = RuntimeEnvelope_mode \<longrightarrow>
          (\<forall>envelope. decode_envelope E json_data = Some envelope \<longrightarrow> es = [envelope]))"
proof (cases "decode_envelope E json_data")
  case None
  show ?thesis
  proof (cases "se_output_mode ss = RuntimeEnvelope_mode")
    case True
    let ?r = "protocol_stream_error_envelope E ''mixed_sse_protocol''
      ''received provider or chat-compatible stream data after RuntimeEnvelope passthrough began'' ss"
    have "(es, ss') = ?r"
      using True None assms by (simp add: decode_frame_payload_def adapt_protocol_payload_def)
    with error_envelope_signal [of E "''mixed_sse_protocol''"] error_envelope_mode [of E _ _ ss] True None
    show ?thesis by (metis (no_types, lifting) fst_conv snd_conv option.distinct(1)
          stream_output_mode.distinct(1,3,5))
  next
    case False
    then have "se_output_mode ss' = ProtocolAdapter_mode"
      using None assms
      by (auto simp: decode_frame_payload_def adapt_protocol_payload_def split: prod.splits
          dest!: adapter_mode)
    with False None show ?thesis by (cases "se_output_mode ss") auto
  qed
next
  case (Some envelope)
  show ?thesis
  proof (cases "se_output_mode ss = ProtocolAdapter_mode")
    case True
    let ?r = "protocol_stream_error_envelope E ''mixed_sse_protocol''
      ''received RuntimeEnvelope passthrough after provider or chat-compatible adaptation began'' ss"
    have "(es, ss') = ?r"
      using True Some assms by (simp add: decode_frame_payload_def enter_runtime_envelope_mode_def)
    with error_envelope_signal [of E "''mixed_sse_protocol''"] error_envelope_mode [of E _ _ ss] True
    show ?thesis by (metis (no_types, lifting) fst_conv snd_conv stream_output_mode.distinct(1,3,5))
  next
    case False
    with Some assms have "es = [envelope]" "se_output_mode ss' = RuntimeEnvelope_mode"
      by (auto simp: decode_frame_payload_def enter_runtime_envelope_mode_def)
    with False Some show ?thesis by (cases "se_output_mode ss") auto
  qed
qed

theorem sse_modes_exclusive_witness:
  "\<exists>es ss' e message. decode_frame_payload sample_ingress None ''x''
       ((session_new 1)\<lparr>se_output_mode := RuntimeEnvelope_mode\<rparr>) = Some (es, ss')
     \<and> se_output_mode ss' = RuntimeEnvelope_mode
     \<and> es = [e] \<and> env_signal e = Error_signal ''mixed_sse_protocol'' message True"
proof -
  let ?ss = "(session_new 1)\<lparr>se_output_mode := RuntimeEnvelope_mode\<rparr>"
  have dec: "decode_envelope sample_ingress ''x'' = None" by (simp add: sample_ingress_def)
  obtain es ss' where run: "decode_frame_payload sample_ingress None ''x'' ?ss = Some (es, ss')"
    by (cases "decode_frame_payload sample_ingress None ''x'' ?ss")
       (auto simp: decode_frame_payload_def adapt_protocol_payload_def dec)
  from sse_modes_exclusive [OF _ run] run dec show ?thesis by simp
qed

end
