(* ===== verification/Approval.thy ===== *)
theory Approval
  imports Types
begin

text \<open>
  The approval policy (\<open>src/runtime/approval.rs\<close>, with the two parsers of
  \<open>src/runtime/task_document/model.rs\<close>): which capability is allowed, asked for or denied.

  The environment variable, the file system and the TOML decoder are the parameter record \<open>policy_env\<close>;
  the decoder's result is the table of optional strings that the source's \<open>CapabilityTable\<close> holds. The
  messages the loader prints are dropped.
\<close>

section \<open>Capabilities and scopes\<close>

datatype capability = ReadFile | WriteFile | ApplyPatch | RunCommand | McpTool | Network | Browser

datatype approval_scope = Once | Task | Session

datatype policy_action = Allow | Prompt approval_scope | Deny

definition parse_capability :: "string \<Rightarrow> string + capability" where
  "parse_capability s =
     (let t = trim s in
      if t \<in> {''read_file'', ''read-file''} then Inr ReadFile
      else if t \<in> {''write_file'', ''write-file''} then Inr WriteFile
      else if t \<in> {''apply_patch'', ''apply-patch''} then Inr ApplyPatch
      else if t \<in> {''run_command'', ''run-command''} then Inr RunCommand
      else if t \<in> {''mcp_tool'', ''mcp-tool''} then Inr McpTool
      else if t = ''network'' then Inr Network
      else if t = ''browser'' then Inr Browser
      else Inl (''unknown capability: '' @ t))"

definition parse_scope :: "string \<Rightarrow> string + approval_scope" where
  "parse_scope s =
     (let t = trim s in
      if t = ''once'' then Inr Once
      else if t = ''task'' then Inr Task
      else if t = ''session'' then Inr Session
      else Inl (''unknown scope: '' @ t))"

section \<open>The policy file\<close>

record file_approval_policy =
  fp_rules :: "(capability \<times> policy_action) list"

record capability_table =
  ct_read_file :: "string option"
  ct_write_file :: "string option"
  ct_apply_patch :: "string option"
  ct_run_command :: "string option"
  ct_mcp_tool :: "string option"
  ct_network :: "string option"
  ct_browser :: "string option"

record policy_env =
  policy_file_var :: "string option"
  path_exists :: "string \<Rightarrow> bool"
  read_policy_file :: "string \<Rightarrow> string option"
  toml_policy :: "string \<Rightarrow> capability_table option"

datatype policy_error = ReadFailed string | ParseFailed string

definition default_rules :: "(capability \<times> policy_action) list" where
  "default_rules =
     fold (\<lambda>(c, a). AList.update c a)
       [(ReadFile, Allow), (WriteFile, Prompt Once), (ApplyPatch, Prompt Once),
        (RunCommand, Prompt Once), (McpTool, Prompt Once), (Network, Prompt Once),
        (Browser, Prompt Once)] []"

definition parse_toml_value :: "string \<Rightarrow> policy_action option" where
  "parse_toml_value value =
     (let v = to_ascii_lowercase (trim value) in
      if v = ''allow'' then Some Allow
      else if v = ''deny'' then Some Deny
      else if v = ''once'' then Some (Prompt Once)
      else if v = ''task'' then Some (Prompt Task)
      else if v = ''session'' then Some (Prompt Session)
      else None)"

definition file_approval_policy_default :: file_approval_policy where
  "file_approval_policy_default = \<lparr>fp_rules = default_rules\<rparr>"

definition evaluate :: "file_approval_policy \<Rightarrow> capability \<Rightarrow> policy_action" where
  "evaluate policy capability =
     (case map_of (fp_rules policy) capability of Some action \<Rightarrow> action | None \<Rightarrow> Prompt Once)"

definition table_entries :: "capability_table \<Rightarrow> (capability \<times> string option) list" where
  "table_entries t =
     [(ReadFile, ct_read_file t), (WriteFile, ct_write_file t), (ApplyPatch, ct_apply_patch t),
      (RunCommand, ct_run_command t), (McpTool, ct_mcp_tool t), (Network, ct_network t),
      (Browser, ct_browser t)]"

definition apply_entry :: "capability \<times> string option \<Rightarrow> file_approval_policy \<Rightarrow> file_approval_policy" where
  "apply_entry entry policy =
     (case Option.bind (snd entry) parse_toml_value of
        Some action \<Rightarrow> policy\<lparr>fp_rules := AList.update (fst entry) action (fp_rules policy)\<rparr>
      | None \<Rightarrow> policy)"

definition load_from_file :: "policy_env \<Rightarrow> string \<Rightarrow> policy_error + file_approval_policy" where
  "load_from_file V path =
     (case read_policy_file V path of
        None \<Rightarrow> Inl (ReadFailed path)
      | Some content \<Rightarrow>
          (case toml_policy V content of
             None \<Rightarrow> Inl (ParseFailed path)
           | Some config \<Rightarrow> Inr (fold apply_entry (table_entries config) file_approval_policy_default)))"

definition policy_path :: "policy_env \<Rightarrow> string" where
  "policy_path V = (case policy_file_var V of Some p \<Rightarrow> p | None \<Rightarrow> ''.vex/policy.toml'')"

definition load_policy_from_env :: "policy_env \<Rightarrow> file_approval_policy" where
  "load_policy_from_env V =
     (if path_exists V (policy_path V) then
        (case load_from_file V (policy_path V) of
           Inr policy \<Rightarrow> policy
         | Inl err \<Rightarrow> file_approval_policy_default)
      else file_approval_policy_default)"

section \<open>What a policy decides\<close>

text \<open>The value the policy file gives a capability, if there is a readable file.\<close>

definition configured :: "policy_env \<Rightarrow> capability \<Rightarrow> string option" where
  "configured V c =
     (if path_exists V (policy_path V)
      then Option.bind (Option.bind (read_policy_file V (policy_path V)) (toml_policy V))
             (\<lambda>t. Option.bind (map_of (table_entries t) c) id)
      else None)"

definition default_action :: "capability \<Rightarrow> policy_action" where
  "default_action c = (if c = ReadFile then Allow else Prompt Once)"

lemma evaluate_default: "evaluate file_approval_policy_default c = default_action c"
  by (cases c)
     (simp_all add: evaluate_def file_approval_policy_default_def default_rules_def default_action_def)

lemma evaluate_apply_entry:
  "evaluate (apply_entry (k, v) policy) c =
     (if c = k then (case Option.bind v parse_toml_value of Some a \<Rightarrow> a | None \<Rightarrow> evaluate policy c)
      else evaluate policy c)"
  by (auto simp: evaluate_def apply_entry_def update_conv' split: option.splits)

lemma evaluate_fold:
  assumes "distinct (map fst es)"
  shows "evaluate (fold apply_entry es policy) c =
    (case Option.bind (Option.bind (map_of es c) id) parse_toml_value of
       Some a \<Rightarrow> a | None \<Rightarrow> evaluate policy c)"
  using assms
proof (induction es arbitrary: policy)
  case (Cons e es)
  obtain k v where e: "e = (k, v)" by (cases e)
  have "map_of es k = None" using Cons.prems e by (auto simp: map_of_eq_None_iff)
  with Cons e show ?case
    by (cases "c = k") (simp_all add: evaluate_apply_entry cong: option.case_cong)
qed simp

lemma evaluate_loaded:
  assumes "load_from_file V p = Inr policy"
  shows "\<exists>content t. read_policy_file V p = Some content \<and> toml_policy V content = Some t
    \<and> evaluate policy c =
        (case Option.bind (Option.bind (map_of (table_entries t) c) id) parse_toml_value of
           Some action \<Rightarrow> action | None \<Rightarrow> default_action c)"
proof -
  have "distinct (map fst (table_entries t))" for t
    by (simp add: table_entries_def)
  from evaluate_fold [OF this] assms show ?thesis
    by (auto simp: load_from_file_def evaluate_default split: option.splits)
qed

lemma load_fails:
  "load_from_file V p = Inl err
     \<longleftrightarrow> read_policy_file V p = None \<and> err = ReadFailed p
       \<or> Option.bind (read_policy_file V p) (toml_policy V) = None \<and> read_policy_file V p \<noteq> None
         \<and> err = ParseFailed p"
  by (auto simp: load_from_file_def split: option.splits)

lemma evaluate_from_env:
  "evaluate (load_policy_from_env V) c =
     (if Option.bind (configured V c) parse_toml_value = None then default_action c
      else the (Option.bind (configured V c) parse_toml_value))"
proof (cases "path_exists V (policy_path V)")
  case True
  show ?thesis
  proof (cases "load_from_file V (policy_path V)")
    case (Inl err)
    with True show ?thesis
      by (auto simp: load_policy_from_env_def configured_def evaluate_default load_from_file_def
          split: option.splits)
  next
    case (Inr policy)
    from evaluate_loaded [OF this, of c] obtain content t where
      "read_policy_file V (policy_path V) = Some content" "toml_policy V content = Some t"
      "evaluate policy c =
        (case Option.bind (Option.bind (map_of (table_entries t) c) id) parse_toml_value of
           Some action \<Rightarrow> action | None \<Rightarrow> default_action c)"
      by blast
    with True Inr show ?thesis
      by (auto simp: load_policy_from_env_def configured_def split: option.splits)
  qed
qed (simp add: load_policy_from_env_def configured_def evaluate_default)

text \<open>
  The action the loaded policy takes for a capability is the one its
  policy file writes for it, when there is a file that can be read and decoded and the value is one of
  the five known words in any case and spacing; otherwise it is the default: reading files is allowed and
  everything else asks once. A broken or missing file, or an unknown word, never widens the permissions.
\<close>

theorem policy_decides:
  "evaluate (load_policy_from_env V) c =
     (case Option.bind (configured V c) parse_toml_value of
        Some action \<Rightarrow> action | None \<Rightarrow> default_action c)"
  by (simp add: evaluate_from_env split: option.split)

text \<open>
  C33 [allow_is_explicit]. A capability other than reading files is allowed without asking
  only where the policy file writes the word \<open>allow\<close> for that very capability.
\<close>

theorem allow_is_explicit:
  assumes "evaluate (load_policy_from_env V) c = Allow" and "c \<noteq> ReadFile"
  shows "\<exists>v. configured V c = Some v \<and> to_ascii_lowercase (trim v) = ''allow''"
proof -
  from assms have "Option.bind (configured V c) parse_toml_value = Some Allow"
    by (auto simp: evaluate_from_env default_action_def split: if_splits)
  then show ?thesis
    by (auto simp: bind_eq_Some_conv parse_toml_value_def Let_def split: if_splits)
qed

definition allow_network_env :: policy_env where
  "allow_network_env =
     \<lparr>policy_file_var = None, path_exists = (\<lambda>p. p = ''.vex/policy.toml''),
      read_policy_file = (\<lambda>p. Some ''network''),
      toml_policy = (\<lambda>content. Some
        \<lparr>ct_read_file = None, ct_write_file = Some ''task'', ct_apply_patch = None,
         ct_run_command = None, ct_mcp_tool = None, ct_network = Some '' Allow'',
         ct_browser = None\<rparr>)\<rparr>"

lemma allow_network_evaluates: "evaluate (load_policy_from_env allow_network_env) Network = Allow"
  by code_simp

theorem allow_is_explicit_witness:
  "\<exists>v. configured allow_network_env Network = Some v \<and> to_ascii_lowercase (trim v) = ''allow''"
  by (rule allow_is_explicit [OF allow_network_evaluates]) simp

end
