(* ===== verification/Task_State.thy ===== *)
theory Task_State
  imports Approval Evidence
begin

text \<open>
  The persistent state of a task: session tasks (\<open>src/runtime/session_task.rs\<close>), the task state
  (\<open>src/runtime/task_state/mod.rs\<close>), the join index (\<open>src/runtime/task_state/join_index.rs\<close>) and the
  working-set record (\<open>src/runtime/task_state/working_set.rs\<close>).

  Each reading of the clock (\<open>now_millis()\<close>, \<open>Utc::now()\<close>) and the random part of an identifier are
  arguments. Reading and writing the files is not modelled; a sidecar that was read is an argument.
\<close>

section \<open>Session tasks\<close>

datatype session_task_status =
    Pending_task | Running_task | Blocked_task | Failed_task | Cancelled_task | Completed_task

fun is_live :: "session_task_status \<Rightarrow> bool" where
  "is_live Pending_task = True"
| "is_live Running_task = True"
| "is_live Blocked_task = True"
| "is_live _ = False"

record session_task =
  stk_id :: string
  stk_parent_task_id :: string
  stk_agent_id :: string
  stk_prompt :: string
  stk_lifecycle_state :: session_task_status
  stk_worktree_path :: "string option"
  stk_started_at :: "nat option"
  stk_updated_at :: nat
  stk_last_heartbeat :: "nat option"
  stk_handoff_summary :: "string option"
  stk_supersedes :: "string list"

definition session_task_new ::
  "string \<Rightarrow> nat \<Rightarrow> string \<Rightarrow> string \<Rightarrow> string \<Rightarrow> string option \<Rightarrow> session_task" where
  "session_task_new uuid now parent_task_id agent_id prompt worktree_path =
     \<lparr>stk_id = parent_task_id @ ''-'' @ agent_id @ ''-'' @ uuid,
      stk_parent_task_id = parent_task_id, stk_agent_id = agent_id, stk_prompt = prompt,
      stk_lifecycle_state = Pending_task, stk_worktree_path = worktree_path,
      stk_started_at = None, stk_updated_at = now, stk_last_heartbeat = None,
      stk_handoff_summary = None, stk_supersedes = []\<rparr>"

definition stamp_join_supersedes :: "session_task list \<Rightarrow> bool \<Rightarrow> session_task \<Rightarrow> session_task" where
  "stamp_join_supersedes existing sequential_continuation t =
     t\<lparr>stk_supersedes :=
         (if sequential_continuation then map stk_id existing
          else map stk_id (filter (\<lambda>e. stk_agent_id e = stk_agent_id t) existing))\<rparr>"

definition transition_to :: "nat \<Rightarrow> nat \<Rightarrow> session_task_status \<Rightarrow> session_task \<Rightarrow> session_task" where
  "transition_to now1 now2 status t =
     (if stk_started_at t = None \<and> status = Running_task then t\<lparr>stk_started_at := Some now1\<rparr> else t)
       \<lparr>stk_lifecycle_state := status, stk_updated_at := now2\<rparr>"

definition record_heartbeat :: "nat \<Rightarrow> session_task \<Rightarrow> session_task" where
  "record_heartbeat now t = t\<lparr>stk_last_heartbeat := Some now, stk_updated_at := now\<rparr>"

definition set_handoff_summary :: "nat \<Rightarrow> string \<Rightarrow> session_task \<Rightarrow> session_task" where
  "set_handoff_summary now summary t = t\<lparr>stk_handoff_summary := Some summary, stk_updated_at := now\<rparr>"

section \<open>Task state\<close>

datatype task_status =
    Ready | Running | AwaitingApproval | Cancelling | Completed_tstatus | Failed_tstatus
  | Cancelled_tstatus | MaxTurnsReached_tstatus

fun task_status_display :: "task_status \<Rightarrow> string" where
  "task_status_display Ready = ''ready''"
| "task_status_display Running = ''running''"
| "task_status_display AwaitingApproval = ''awaiting_approval''"
| "task_status_display Cancelling = ''cancelling''"
| "task_status_display Completed_tstatus = ''completed''"
| "task_status_display Failed_tstatus = ''failed''"
| "task_status_display Cancelled_tstatus = ''cancelled''"
| "task_status_display MaxTurnsReached_tstatus = ''max_turns_reached''"

record conversation_checkpoint =
  cc_message_count :: nat
  cc_summary :: string

record interrupted_command =
  ic_program :: string
  ic_interrupted_at :: string

record session_note =
  sn_content :: string
  sn_created_at_turn :: nat

record context_compaction_record =
  ccr_turn_index :: nat
  ccr_messages_before :: nat
  ccr_messages_after :: nat
  ccr_summary :: string

record cache_usage_stats =
  cus_total_cache_creation_tokens :: nat
  cus_total_cache_read_tokens :: nat

record task_state =
  ts_id :: string
  ts_status :: task_status
  ts_parent_task_id :: "string option"
  ts_agent_id :: "string option"
  ts_worktree_path :: "string option"
  ts_started_at :: "nat option"
  ts_updated_at :: nat
  ts_last_heartbeat :: "nat option"
  ts_handoff_summary :: "string option"
  ts_active_grants :: "(capability \<times> approval_scope) list"
  ts_changed_files :: "string list"
  ts_command_history :: "command_evidence list"
  ts_conversation_snapshot :: conversation_checkpoint
  ts_interrupted_sessions :: "interrupted_command list"
  ts_branch_name :: "string option"
  ts_instructions_path :: "string option"
  ts_pulses :: "turn_evidence_state list"
  ts_plan :: "string option"
  ts_session_notes :: "session_note list"
  ts_context_compaction :: "context_compaction_record list"
  ts_cache_usage :: cache_usage_stats
  ts_session_tasks :: "session_task list"

definition task_state_new :: "nat \<Rightarrow> string \<Rightarrow> task_state" where
  "task_state_new now i =
     \<lparr>ts_id = i, ts_status = Ready, ts_parent_task_id = None, ts_agent_id = None,
      ts_worktree_path = None, ts_started_at = Some now, ts_updated_at = now,
      ts_last_heartbeat = None, ts_handoff_summary = None, ts_active_grants = [],
      ts_changed_files = [], ts_command_history = [],
      ts_conversation_snapshot = \<lparr>cc_message_count = 0, cc_summary = []\<rparr>,
      ts_interrupted_sessions = [], ts_branch_name = None, ts_instructions_path = None,
      ts_pulses = [], ts_plan = None, ts_session_notes = [], ts_context_compaction = [],
      ts_cache_usage = \<lparr>cus_total_cache_creation_tokens = 0, cus_total_cache_read_tokens = 0\<rparr>,
      ts_session_tasks = []\<rparr>"

definition touch :: "nat \<Rightarrow> task_state \<Rightarrow> task_state" where
  "touch now s = s\<lparr>ts_updated_at := now\<rparr>"

definition task_record_heartbeat :: "nat \<Rightarrow> task_state \<Rightarrow> task_state" where
  "task_record_heartbeat now s = s\<lparr>ts_last_heartbeat := Some now, ts_updated_at := now\<rparr>"

definition add_session_task :: "nat \<Rightarrow> session_task \<Rightarrow> task_state \<Rightarrow> task_state" where
  "add_session_task now t s = touch now (s\<lparr>ts_session_tasks := ts_session_tasks s @ [t]\<rparr>)"

definition find_session_task :: "string \<Rightarrow> task_state \<Rightarrow> session_task option" where
  "find_session_task i s = List.find (\<lambda>t. stk_id t = i) (ts_session_tasks s)"

text \<open>\<open>session_task_mut\<close>: the first task with the id is changed in place.\<close>

fun update_first :: "('a \<Rightarrow> bool) \<Rightarrow> ('a \<Rightarrow> 'a) \<Rightarrow> 'a list \<Rightarrow> 'a list" where
  "update_first p f [] = []"
| "update_first p f (x # xs) = (if p x then f x # xs else x # update_first p f xs)"

definition update_session_task_status ::
  "nat \<Rightarrow> nat \<Rightarrow> nat \<Rightarrow> string \<Rightarrow> session_task_status \<Rightarrow> task_state \<Rightarrow> bool \<times> task_state" where
  "update_session_task_status now1 now2 now3 i status s =
     (if find_session_task i s = None then (False, s)
      else (True, touch now3 (s\<lparr>ts_session_tasks :=
              update_first (\<lambda>t. stk_id t = i) (transition_to now1 now2 status) (ts_session_tasks s)\<rparr>)))"

text \<open>What \<open>TaskState::load\<close> repairs in the decoded file.\<close>

definition repair_command :: "command_evidence \<Rightarrow> command_evidence" where
  "repair_command c = (if ce_exit_code c = None then c\<lparr>ce_interrupted := True\<rparr> else c)"

definition repair_loaded :: "nat \<Rightarrow> task_state \<Rightarrow> task_state option" where
  "repair_loaded now s =
     (let s1 = s\<lparr>ts_command_history := map repair_command (ts_command_history s)\<rparr>;
          s2 = (if ts_updated_at s1 = 0 then s1\<lparr>ts_updated_at := now\<rparr> else s1)
      in map_option (\<lambda>ps. s2\<lparr>ts_pulses := ps\<rparr>) (normalize_tool_invocation_step_ids (ts_pulses s2)))"

end
