(* ===== verification/Task_Document.thy ===== *)
theory Task_Document
  imports Task_State
begin

text \<open>
  The live task document and the condenser that writes it (\<open>src/runtime/task_document/model.rs\<close>,
  \<open>src/runtime/task_document/condenser.rs\<close>): runtime signals become numbered entries of the active turn, a
  finished turn becomes part of the history.

  Each reading of the clock is an argument. \<open>begin_turn\<close> panics when a turn is open: \<^const>\<open>None\<close>.
\<close>

section \<open>The document\<close>

datatype model_backend_kind = LocalRuntime | ApiServer

datatype pulse_tool_policy = Default_policy | TestsOnlyMutations

record assistant_block_entry =
  ab_block_index :: nat
  ab_phase :: assistant_phase
  ab_content :: string
  ab_collapsed :: bool
  ab_streaming :: bool

record approval_document =
  ad_step_id :: nat
  ad_capability :: capability
  ad_scope :: approval_scope
  ad_tool_name :: "string option"
  ad_input_preview :: string

record command_session_document =
  cs_session_id :: nat
  cs_command :: string
  cs_pid :: "nat option"
  cs_status :: string
  cs_output_tail :: "string list"

datatype pulse_outcome =
  Completed_outcome | Failed_outcome string | Cancelled_outcome | MaxTurnsReached_pulse

datatype notice_severity = Info | Warning | Error_severity

datatype pulse_entry =
    UserInput_entry nat string
  | AssistantBlock_entry nat assistant_block_entry
  | ToolCall_entry nat string string json tool_status
  | ToolResult_entry nat string "string option" string bool
  | ApprovalRequest_entry nat approval_document
  | ApprovalResolved_entry nat capability approval_scope bool
  | CommandSession_entry nat command_session_document
  | SystemNotice_entry nat string notice_severity

record task_error_state =
  te_message :: string
  te_recoverable :: bool

record task_info =
  inf_id :: string
  inf_status :: task_status
  inf_parent_task_id :: "string option"
  inf_agent_id :: "string option"
  inf_worktree_path :: "string option"
  inf_branch_name :: "string option"
  inf_instructions_path :: "string option"
  inf_model_name :: string
  inf_model_backend :: model_backend_kind
  inf_model_url :: string
  inf_started_at_ms :: "nat option"
  inf_updated_at_ms :: nat
  inf_last_heartbeat_ms :: "nat option"
  inf_active_grants :: "(capability \<times> approval_scope) list"
  inf_next_step_id :: nat

record active_turn_document =
  at_turn_index :: nat
  at_input :: string
  at_entries :: "pulse_entry list"
  at_started_at_ms :: nat
  at_ttft_ms :: "nat option"
  at_prompt_progress :: "stream_prompt_progress option"
  at_timings :: "stream_timings option"
  at_pending_approval :: "approval_document option"
  at_command_sessions :: "(nat \<times> command_session_document) list"
  at_changed_files :: "string list"
  at_command_history :: "command_evidence list"
  at_tool_policy :: pulse_tool_policy
  at_cancel_pending :: bool

record turn_document =
  tn_turn_index :: nat
  tn_input :: string
  tn_entries :: "pulse_entry list"
  tn_outcome :: pulse_outcome
  tn_changed_files :: "string list"
  tn_command_history :: "command_evidence list"
  tn_tokens :: pulse_tokens
  tn_started_at_ms :: nat
  tn_completed_at_ms :: nat
  tn_ttft_ms :: "nat option"
  tn_timings :: "stream_timings option"

record task_document =
  td_info :: task_info
  td_completed_turns :: "turn_document list"
  td_active_pulse :: "active_turn_document option"
  td_session_notes :: "session_note list"
  td_context_compaction :: "context_compaction_record list"
  td_session_tasks :: "session_task list"
  td_last_error :: "task_error_state option"

record task_mutation_summary =
  ms_task_status_changed :: bool
  ms_active_turn_changed :: bool
  ms_appended_rows :: nat
  ms_selected_step_id :: "nat option"
  ms_approval_changed :: bool

definition no_mutation :: task_mutation_summary where
  "no_mutation =
     \<lparr>ms_task_status_changed = False, ms_active_turn_changed = False, ms_appended_rows = 0,
      ms_selected_step_id = None, ms_approval_changed = False\<rparr>"

fun entry_step_id :: "pulse_entry \<Rightarrow> nat" where
  "entry_step_id (UserInput_entry step_id t) = step_id"
| "entry_step_id (AssistantBlock_entry step_id b) = step_id"
| "entry_step_id (ToolCall_entry step_id i n v st) = step_id"
| "entry_step_id (ToolResult_entry step_id i n v e) = step_id"
| "entry_step_id (ApprovalRequest_entry step_id a) = step_id"
| "entry_step_id (ApprovalResolved_entry step_id c s a) = step_id"
| "entry_step_id (CommandSession_entry step_id s) = step_id"
| "entry_step_id (SystemNotice_entry step_id m s) = step_id"

section \<open>Turns\<close>

text \<open>\<open>alloc_step\<close>: the id handed out and the counter after it.\<close>

definition alloc_step :: "nat \<Rightarrow> nat \<times> nat" where
  "alloc_step counter = (counter, sat_add counter 1)"

definition begin_task :: "task_info \<Rightarrow> task_document" where
  "begin_task info =
     \<lparr>td_info = info, td_completed_turns = [], td_active_pulse = None, td_session_notes = [],
      td_context_compaction = [], td_session_tasks = [], td_last_error = None\<rparr>"

definition begin_turn ::
  "string \<Rightarrow> nat \<Rightarrow> pulse_tool_policy \<Rightarrow> task_document \<Rightarrow> task_document option" where
  "begin_turn input started_at_ms tool_policy doc =
     (if td_active_pulse doc \<noteq> None then None
      else
        (let turn_index = length (td_completed_turns doc);
             (step_id, counter) = alloc_step (inf_next_step_id (td_info doc))
         in Some (doc\<lparr>td_info := (td_info doc)\<lparr>inf_status := Running,
                       inf_updated_at_ms := started_at_ms, inf_next_step_id := counter\<rparr>,
                    td_active_pulse := Some
                      \<lparr>at_turn_index = turn_index, at_input = input,
                       at_entries = [UserInput_entry step_id input],
                       at_started_at_ms = started_at_ms, at_ttft_ms = None,
                       at_prompt_progress = None, at_timings = None, at_pending_approval = None,
                       at_command_sessions = [], at_changed_files = [], at_command_history = [],
                       at_tool_policy = tool_policy, at_cancel_pending = False\<rparr>\<rparr>)))"

fun stop_streaming :: "pulse_entry \<Rightarrow> pulse_entry" where
  "stop_streaming (AssistantBlock_entry step_id b) = AssistantBlock_entry step_id (b\<lparr>ab_streaming := False\<rparr>)"
| "stop_streaming e = e"

fun status_of_outcome :: "pulse_outcome \<Rightarrow> task_status" where
  "status_of_outcome Completed_outcome = Ready"
| "status_of_outcome (Failed_outcome m) = Failed_tstatus"
| "status_of_outcome Cancelled_outcome = Cancelled_tstatus"
| "status_of_outcome MaxTurnsReached_pulse = MaxTurnsReached_tstatus"

definition finish_turn ::
  "pulse_outcome \<Rightarrow> pulse_tokens \<Rightarrow> nat \<Rightarrow> task_document \<Rightarrow> task_mutation_summary \<times> task_document" where
  "finish_turn outcome tokens completed_at_ms doc =
     (case td_active_pulse doc of
        None \<Rightarrow> (no_mutation, doc)
      | Some active \<Rightarrow>
          (no_mutation\<lparr>ms_task_status_changed := True, ms_active_turn_changed := True\<rparr>,
           doc\<lparr>td_active_pulse := None,
               td_info := (td_info doc)\<lparr>inf_status := status_of_outcome outcome,
                                      inf_updated_at_ms := completed_at_ms\<rparr>,
               td_completed_turns := td_completed_turns doc @
                 [\<lparr>tn_turn_index = at_turn_index active, tn_input = at_input active,
                   tn_entries = map stop_streaming (at_entries active), tn_outcome = outcome,
                   tn_changed_files = at_changed_files active,
                   tn_command_history = at_command_history active, tn_tokens = tokens,
                   tn_started_at_ms = at_started_at_ms active,
                   tn_completed_at_ms = completed_at_ms, tn_ttft_ms = at_ttft_ms active,
                   tn_timings = at_timings active\<rparr>]\<rparr>))"

section \<open>Runtime signals\<close>

text \<open>Appending an entry with a new step id to the active turn.\<close>

definition push_entry ::
  "(nat \<Rightarrow> pulse_entry) \<Rightarrow> active_turn_document \<Rightarrow> task_document \<Rightarrow> task_document" where
  "push_entry entry active doc =
     (let (step_id, counter) = alloc_step (inf_next_step_id (td_info doc)) in
      doc\<lparr>td_info := (td_info doc)\<lparr>inf_next_step_id := counter\<rparr>,
          td_active_pulse := Some (active\<lparr>at_entries := at_entries active @ [entry step_id]\<rparr>)\<rparr>)"

definition set_active :: "active_turn_document \<Rightarrow> task_document \<Rightarrow> task_document" where
  "set_active active doc = doc\<lparr>td_active_pulse := Some active\<rparr>"

fun is_block :: "nat \<Rightarrow> pulse_entry \<Rightarrow> bool" where
  "is_block index (AssistantBlock_entry step_id b) \<longleftrightarrow> ab_block_index b = index"
| "is_block index _ \<longleftrightarrow> False"

fun map_block ::
  "(assistant_block_entry \<Rightarrow> assistant_block_entry) \<Rightarrow> pulse_entry \<Rightarrow> pulse_entry" where
  "map_block f (AssistantBlock_entry step_id b) = AssistantBlock_entry step_id (f b)"
| "map_block f e = e"

text \<open>The last block with the index is changed, where there is one.\<close>

definition update_block_content ::
  "nat \<Rightarrow> (assistant_block_entry \<Rightarrow> assistant_block_entry) \<Rightarrow> active_turn_document
     \<Rightarrow> active_turn_document" where
  "update_block_content block_index mutate active =
     active\<lparr>at_entries :=
       rev (update_first (is_block block_index) (map_block mutate) (rev (at_entries active)))\<rparr>"

fun is_call :: "string \<Rightarrow> pulse_entry \<Rightarrow> bool" where
  "is_call tool_call_id (ToolCall_entry step_id i n v st) \<longleftrightarrow> i = tool_call_id"
| "is_call tool_call_id _ \<longleftrightarrow> False"

fun set_call_status :: "tool_status \<Rightarrow> pulse_entry \<Rightarrow> pulse_entry" where
  "set_call_status status (ToolCall_entry step_id i n v st) = ToolCall_entry step_id i n v status"
| "set_call_status status e = e"

definition update_call_status ::
  "string \<Rightarrow> tool_status \<Rightarrow> active_turn_document \<Rightarrow> active_turn_document" where
  "update_call_status tool_call_id status active =
     active\<lparr>at_entries := update_first (is_call tool_call_id) (set_call_status status) (at_entries active)\<rparr>"

definition turn_changed :: task_mutation_summary where
  "turn_changed = no_mutation\<lparr>ms_active_turn_changed := True\<rparr>"

definition row_appended :: task_mutation_summary where
  "row_appended = turn_changed\<lparr>ms_appended_rows := 1\<rparr>"

definition approval_mutation :: task_mutation_summary where
  "approval_mutation = turn_changed\<lparr>ms_approval_changed := True, ms_task_status_changed := True\<rparr>"

text \<open>The phase, text and folding of a block that gets an entry of its own.\<close>

fun block_parts :: "stream_block \<Rightarrow> (assistant_phase \<times> string \<times> bool) option" where
  "block_parts (Thinking content collapsed) = Some (Thinking_phase, content, collapsed)"
| "block_parts (FinalText content) = Some (Final_phase, content, False)"
| "block_parts _ = None"

definition resolve_grant ::
  "capability \<Rightarrow> approval_scope \<Rightarrow> bool \<Rightarrow> (capability \<times> approval_scope) list
     \<Rightarrow> (capability \<times> approval_scope) list" where
  "resolve_grant capability scope approved grants =
     (if approved then (if scope = Once then grants else AList.update capability scope grants)
      else AList.delete capability grants)"

definition tool_result_applied ::
  "string \<Rightarrow> string option \<Rightarrow> string \<Rightarrow> tool_status \<Rightarrow> bool \<Rightarrow> active_turn_document
     \<Rightarrow> task_document \<Rightarrow> task_mutation_summary \<times> task_document" where
  "tool_result_applied tool_call_id tool_name out status is_error active doc =
     (row_appended,
      push_entry (\<lambda>step_id. ToolResult_entry step_id tool_call_id tool_name out is_error)
        (update_call_status tool_call_id status active) doc)"

text \<open>The effect on a document with an active turn; \<^const>\<open>None\<close> is the early return.\<close>

fun apply_to_turn ::
  "nat \<Rightarrow> runtime_signal \<Rightarrow> active_turn_document \<Rightarrow> task_document
     \<Rightarrow> (task_mutation_summary \<times> task_document) option" where
  "apply_to_turn now (TranscriptLine line) active doc =
     Some (row_appended, push_entry (\<lambda>step_id. SystemNotice_entry step_id line Info) active doc)"
| "apply_to_turn now (TranscriptBlockStart index block) active doc =
     (case block_parts block of
        None \<Rightarrow> None
      | Some (phase, content, collapsed) \<Rightarrow>
          Some (row_appended,
            push_entry (\<lambda>step_id. AssistantBlock_entry step_id
              \<lparr>ab_block_index = index, ab_phase = phase, ab_content = content,
               ab_collapsed = collapsed, ab_streaming = True\<rparr>) active doc))"
| "apply_to_turn now (TranscriptBlockDelta index delta) active doc =
     (let a1 = update_block_content index (\<lambda>b. b\<lparr>ab_content := ab_content b @ delta\<rparr>) active;
          a2 = (if at_ttft_ms a1 = None then a1\<lparr>at_ttft_ms := Some (now - at_started_at_ms a1)\<rparr> else a1)
      in Some (turn_changed, set_active a2 doc))"
| "apply_to_turn now (TranscriptBlockComplete index) active doc =
     Some (turn_changed,
       set_active (update_block_content index (\<lambda>b. b\<lparr>ab_streaming := False\<rparr>) active) doc)"
| "apply_to_turn now (ToolCallStatusUpdated tool_call_id status) active doc =
     Some (if list_ex (is_call tool_call_id) (at_entries active) then turn_changed else no_mutation,
       set_active (update_call_status tool_call_id status active) doc)"
| "apply_to_turn now (TranscriptBlockPhaseUpdated index phase streaming) active doc =
     Some (turn_changed,
       set_active (update_block_content index
         (\<lambda>b. b\<lparr>ab_phase := phase, ab_streaming := streaming\<rparr>) active) doc)"
| "apply_to_turn now (ToolCallStarted tool_call_id tool_name arguments status started_at) active doc =
     Some (row_appended\<lparr>ms_selected_step_id := Some (fst (alloc_step (inf_next_step_id (td_info doc))))\<rparr>,
       push_entry (\<lambda>step_id. ToolCall_entry step_id tool_call_id tool_name arguments status) active doc)"
| "apply_to_turn now (ToolCallCompleted tool_call_id tool_name status a b c out) active doc =
     Some (tool_result_applied tool_call_id tool_name out status False active doc)"
| "apply_to_turn now (ToolCallFailed tool_call_id tool_name status a b c out) active doc =
     Some (tool_result_applied tool_call_id tool_name out status True active doc)"
| "apply_to_turn now (ApprovalRequest cap sc tool_name) active doc =
     Some (case (parse_capability cap, parse_scope sc) of
        (Inr capability, Inr scope) \<Rightarrow>
          (let step_id = fst (alloc_step (inf_next_step_id (td_info doc)));
               approval = \<lparr>ad_step_id = step_id, ad_capability = capability, ad_scope = scope,
                           ad_tool_name = tool_name, ad_input_preview = []\<rparr>;
               doc1 = push_entry (\<lambda>step_id. ApprovalRequest_entry step_id approval)
                        (active\<lparr>at_pending_approval := Some approval\<rparr>) doc
           in (approval_mutation,
               doc1\<lparr>td_info := (td_info doc1)\<lparr>inf_status := AwaitingApproval\<rparr>\<rparr>))
      | _ \<Rightarrow> (no_mutation, doc))"
| "apply_to_turn now (ApprovalResolved cap sc approved) active doc =
     Some (case (parse_capability cap, parse_scope sc) of
        (Inr capability, Inr scope) \<Rightarrow>
          (let doc1 = push_entry (\<lambda>step_id. ApprovalResolved_entry step_id capability scope approved)
                        (active\<lparr>at_pending_approval := None\<rparr>) doc
           in (approval_mutation,
               doc1\<lparr>td_info := (td_info doc1)\<lparr>
                      inf_active_grants :=
                        resolve_grant capability scope approved (inf_active_grants (td_info doc1)),
                      inf_status := Running\<rparr>\<rparr>))
      | _ \<Rightarrow> (no_mutation, doc))"
| "apply_to_turn now (ServerMetadata metadata) active doc =
     (let a1 = (case md_prompt_progress metadata of
                  Some p \<Rightarrow> active\<lparr>at_prompt_progress := Some p\<rparr> | None \<Rightarrow> active);
          a2 = (case md_timings metadata of Some t \<Rightarrow> a1\<lparr>at_timings := Some t\<rparr> | None \<Rightarrow> a1)
      in Some (turn_changed, set_active a2 doc))"
| "apply_to_turn now (PulseEnd status usage changed_files) active doc =
     (let files = fold insort_insert changed_files (at_changed_files active)
      in Some (no_mutation\<lparr>ms_active_turn_changed := (length files \<noteq> length (at_changed_files active))\<rparr>,
           set_active (active\<lparr>at_changed_files := files\<rparr>) doc))"
| "apply_to_turn now _ active doc = Some (no_mutation, doc)"

text \<open>The signals that do not need a turn.\<close>

fun apply_to_task :: "runtime_signal \<Rightarrow> task_document \<Rightarrow> task_mutation_summary \<times> task_document" where
  "apply_to_task (Error_signal code message recoverable) doc =
     (let doc1 = doc\<lparr>td_last_error := Some \<lparr>te_message = message, te_recoverable = recoverable\<rparr>\<rparr>
      in if recoverable then (no_mutation, doc1)
         else (no_mutation\<lparr>ms_task_status_changed := True\<rparr>,
               doc1\<lparr>td_info := (td_info doc1)\<lparr>inf_status := Failed_tstatus\<rparr>\<rparr>))"
| "apply_to_task (MaxTurnsReached max_turns) doc =
     (no_mutation\<lparr>ms_task_status_changed := True\<rparr>,
      doc\<lparr>td_info := (td_info doc)\<lparr>inf_status := MaxTurnsReached_tstatus\<rparr>\<rparr>)"
| "apply_to_task _ doc = (no_mutation, doc)"

fun needs_turn :: "runtime_signal \<Rightarrow> bool" where
  "needs_turn (Error_signal code message recoverable) = False"
| "needs_turn (MaxTurnsReached max_turns) = False"
| "needs_turn _ = True"

definition apply_runtime_signal ::
  "nat \<Rightarrow> nat \<Rightarrow> runtime_signal \<Rightarrow> task_document \<Rightarrow> task_mutation_summary \<times> task_document" where
  "apply_runtime_signal now1 now2 signal doc =
     (case (if needs_turn signal
            then (case td_active_pulse doc of
                    None \<Rightarrow> Some (no_mutation, doc)
                  | Some active \<Rightarrow> apply_to_turn now1 signal active doc)
            else Some (apply_to_task signal doc)) of
        None \<Rightarrow> (no_mutation, doc)
      | Some (summary, doc') \<Rightarrow>
          (summary, doc'\<lparr>td_info := (td_info doc')\<lparr>inf_updated_at_ms := now2\<rparr>\<rparr>))"

end
