(* ===== verification/Task_Document_Laws.thy ===== *)
theory Task_Document_Laws
  imports Task_Document
begin

text \<open>
  What the condenser guarantees of every document it writes: the numbering of the entries, the state
  of a pending approval, the history of finished turns, the grants, and the text of a streamed block.
\<close>

section \<open>Documents that can arise\<close>

inductive doc_step :: "task_document \<Rightarrow> task_document \<Rightarrow> bool" where
  step_begin: "begin_turn input started_at_ms tool_policy doc = Some doc' \<Longrightarrow> doc_step doc doc'"
| step_signal: "doc_step doc (snd (apply_runtime_signal now1 now2 signal doc))"
| step_finish: "doc_step doc (snd (finish_turn outcome tokens completed_at_ms doc))"

definition all_entries :: "task_document \<Rightarrow> pulse_entry list" where
  "all_entries doc =
     concat (map tn_entries (td_completed_turns doc))
     @ (case td_active_pulse doc of None \<Rightarrow> [] | Some a \<Rightarrow> at_entries a)"

definition entry_ids :: "task_document \<Rightarrow> nat list" where
  "entry_ids doc = map entry_step_id (all_entries doc)"

definition next_id :: "task_document \<Rightarrow> nat" where
  "next_id doc = inf_next_step_id (td_info doc)"

section \<open>Entries\<close>

lemma update_first_map:
  "(\<And>x. g (f x) = g x) \<Longrightarrow> map g (update_first p f xs) = map g xs"
  by (induction xs) auto

lemma set_update_first: "set (update_first p f xs) \<subseteq> set xs \<union> f ` set xs"
  by (induction xs) auto

lemma update_first_keeps: "x \<in> set xs \<Longrightarrow> \<not> p x \<Longrightarrow> x \<in> set (update_first p f xs)"
  by (induction xs) auto

lemma map_block_step_id [simp]: "entry_step_id (map_block f e) = entry_step_id e"
  by (cases e) simp_all

lemma set_call_status_step_id [simp]: "entry_step_id (set_call_status st e) = entry_step_id e"
  by (cases e) simp_all

lemma stop_streaming_step_id [simp]: "entry_step_id (stop_streaming e) = entry_step_id e"
  by (cases e) simp_all

lemma update_block_ids [simp]:
  "map entry_step_id (at_entries (update_block_content i f a)) = map entry_step_id (at_entries a)"
proof -
  have "map entry_step_id (update_first (is_block i) (map_block f) (rev (at_entries a)))
      = map entry_step_id (rev (at_entries a))"
    by (rule update_first_map) simp
  then show ?thesis
    by (simp add: update_block_content_def rev_map [symmetric])
qed

lemma update_call_ids [simp]:
  "map entry_step_id (at_entries (update_call_status i st a)) = map entry_step_id (at_entries a)"
  by (simp add: update_call_status_def update_first_map)

lemma update_turn_frame [simp]:
  "at_turn_index (update_block_content i f a) = at_turn_index a"
  "at_turn_index (update_call_status j st a) = at_turn_index a"
  "at_pending_approval (update_block_content i f a) = at_pending_approval a"
  "at_pending_approval (update_call_status j st a) = at_pending_approval a"
  by (simp_all add: update_block_content_def update_call_status_def)

text \<open>An approval request is never rewritten.\<close>

lemma update_keeps_request [simp]:
  "ApprovalRequest_entry n ap \<in> set (at_entries a)
     \<Longrightarrow> ApprovalRequest_entry n ap \<in> set (at_entries (update_block_content i f a))"
  "ApprovalRequest_entry n ap \<in> set (at_entries a)
     \<Longrightarrow> ApprovalRequest_entry n ap \<in> set (at_entries (update_call_status j st a))"
  by (auto simp: update_block_content_def update_call_status_def intro: update_first_keeps)

lemma update_keeps_resolution [simp]:
  "ApprovalResolved_entry n c sc b \<in> set (at_entries a)
     \<Longrightarrow> ApprovalResolved_entry n c sc b \<in> set (at_entries (update_block_content i f a))"
  "ApprovalResolved_entry n c sc b \<in> set (at_entries a)
     \<Longrightarrow> ApprovalResolved_entry n c sc b \<in> set (at_entries (update_call_status j st a))"
  by (auto simp: update_block_content_def update_call_status_def intro: update_first_keeps)

lemmas turn_defs = push_entry_def set_active_def alloc_step_def tool_result_applied_def Let_def

section \<open>The effect of a step\<close>

definition ids_grow :: "task_document \<Rightarrow> task_document \<Rightarrow> bool" where
  "ids_grow doc doc' \<longleftrightarrow>
     entry_ids doc' = entry_ids doc \<and> next_id doc' = next_id doc
     \<or> entry_ids doc' = entry_ids doc @ [next_id doc] \<and> next_id doc' = sat_add (next_id doc) 1"

lemma apply_to_turn_ids:
  assumes "td_active_pulse doc = Some a" and "apply_to_turn now signal a doc = Some (m, doc')"
  shows "ids_grow doc doc'"
  using assms
  by (cases signal)
     (auto simp: ids_grow_def entry_ids_def next_id_def all_entries_def turn_defs
       split: option.splits sum.splits prod.splits if_splits)

lemma apply_to_task_ids: "ids_grow doc (snd (apply_to_task signal doc))"
  by (cases signal) (auto simp: ids_grow_def entry_ids_def next_id_def all_entries_def Let_def)

lemma set_updated_ids [simp]:
  "ids_grow doc (doc'\<lparr>td_info := (td_info doc')\<lparr>inf_updated_at_ms := n\<rparr>\<rparr>) = ids_grow doc doc'"
  by (simp add: ids_grow_def entry_ids_def next_id_def all_entries_def)

lemma ids_grow_refl [simp]: "ids_grow doc doc"
  by (simp add: ids_grow_def)

lemma apply_runtime_signal_ids: "ids_grow doc (snd (apply_runtime_signal now1 now2 signal doc))"
  using apply_to_turn_ids apply_to_task_ids [of doc signal]
  by (fastforce simp: apply_runtime_signal_def split: option.splits prod.splits)

lemma finish_turn_ids: "ids_grow doc (snd (finish_turn outcome tokens t doc))"
  by (auto simp: finish_turn_def ids_grow_def entry_ids_def next_id_def all_entries_def comp_def
      split: option.split)

lemma begin_turn_ids: "begin_turn input t pol doc = Some doc' \<Longrightarrow> ids_grow doc doc'"
  by (auto simp: begin_turn_def ids_grow_def entry_ids_def next_id_def all_entries_def alloc_step_def
      Let_def split: if_splits)

lemma doc_step_ids: "doc_step doc doc' \<Longrightarrow> ids_grow doc doc'"
  by (induction rule: doc_step.induct)
     (simp_all add: begin_turn_ids apply_runtime_signal_ids finish_turn_ids)

section \<open>The invariant\<close>

text \<open>Step ids are strictly increasing and below the next one, as long as the counter has not
  saturated.\<close>

definition ids_ok :: "task_document \<Rightarrow> bool" where
  "ids_ok doc \<longleftrightarrow>
     (next_id doc < u64_max
        \<longrightarrow> sorted_wrt (<) (entry_ids doc) \<and> (\<forall>i \<in> set (entry_ids doc). i < next_id doc))"

text \<open>A pending approval is the subject of an entry of the turn, and a task that awaits an approval has
  one pending.\<close>

definition approval_ok :: "task_document \<Rightarrow> bool" where
  "approval_ok doc \<longleftrightarrow>
     (case td_active_pulse doc of
        None \<Rightarrow> inf_status (td_info doc) \<noteq> AwaitingApproval
      | Some a \<Rightarrow>
          (case at_pending_approval a of
             None \<Rightarrow> inf_status (td_info doc) \<noteq> AwaitingApproval
           | Some ap \<Rightarrow> ApprovalRequest_entry (ad_step_id ap) ap \<in> set (at_entries a)))"

fun is_streaming :: "pulse_entry \<Rightarrow> bool" where
  "is_streaming (AssistantBlock_entry n b) = ab_streaming b"
| "is_streaming _ = False"

text \<open>Turns are numbered by their position and nothing in a finished turn still streams.\<close>

definition history_ok :: "task_document \<Rightarrow> bool" where
  "history_ok doc \<longleftrightarrow>
     map tn_turn_index (td_completed_turns doc) = [0..<length (td_completed_turns doc)]
     \<and> (\<forall>a. td_active_pulse doc = Some a \<longrightarrow> at_turn_index a = length (td_completed_turns doc))
     \<and> (\<forall>t \<in> set (td_completed_turns doc). \<forall>e \<in> set (tn_entries t). \<not> is_streaming e)"

definition doc_ok :: "task_document \<Rightarrow> bool" where
  "doc_ok doc \<longleftrightarrow> ids_ok doc \<and> approval_ok doc \<and> history_ok doc"

lemma ids_grow_ok:
  assumes "ids_grow doc doc'" and "ids_ok doc"
  shows "ids_ok doc'"
  using assms by (auto simp: ids_grow_def ids_ok_def sat_add_def sorted_wrt_append less_SucI)

lemma apply_to_turn_ok:
  assumes "td_active_pulse doc = Some a" and "apply_to_turn now signal a doc = Some (m, doc')"
    and "approval_ok doc"
  shows "approval_ok doc'"
  using assms
  by (cases signal)
     (auto simp: approval_ok_def turn_defs split: option.splits sum.splits prod.splits if_splits)

lemma apply_to_turn_history:
  assumes "td_active_pulse doc = Some a" and "apply_to_turn now signal a doc = Some (m, doc')"
  shows "td_completed_turns doc' = td_completed_turns doc
    \<and> (\<exists>a'. td_active_pulse doc' = Some a' \<and> at_turn_index a' = at_turn_index a)"
  using assms
  by (cases signal) (auto simp: turn_defs split: option.splits sum.splits prod.splits if_splits)

lemma apply_to_task_frame:
  "td_completed_turns (snd (apply_to_task signal doc)) = td_completed_turns doc
    \<and> td_active_pulse (snd (apply_to_task signal doc)) = td_active_pulse doc
    \<and> (inf_status (td_info (snd (apply_to_task signal doc))) = AwaitingApproval
         \<longrightarrow> inf_status (td_info doc) = AwaitingApproval)"
  by (cases signal) (auto simp: Let_def)

lemma set_updated_ok [simp]:
  "approval_ok (doc\<lparr>td_info := (td_info doc)\<lparr>inf_updated_at_ms := n\<rparr>\<rparr>) = approval_ok doc"
  "history_ok (doc\<lparr>td_info := (td_info doc)\<lparr>inf_updated_at_ms := n\<rparr>\<rparr>) = history_ok doc"
  by (simp_all add: approval_ok_def history_ok_def split: option.split)

text \<open>A signal acts on the turn, on the task, or not at all.\<close>

lemma apply_runtime_signal_cases:
  obtains "snd (apply_runtime_signal now1 now2 signal doc) = doc"
  | a m doc' where "td_active_pulse doc = Some a" "apply_to_turn now1 signal a doc = Some (m, doc')"
      "snd (apply_runtime_signal now1 now2 signal doc)
        = doc'\<lparr>td_info := (td_info doc')\<lparr>inf_updated_at_ms := now2\<rparr>\<rparr>"
  | doc' where "doc' = snd (apply_to_task signal doc) \<or> doc' = doc"
      "snd (apply_runtime_signal now1 now2 signal doc)
        = doc'\<lparr>td_info := (td_info doc')\<lparr>inf_updated_at_ms := now2\<rparr>\<rparr>"
  by (fastforce simp: apply_runtime_signal_def split: option.splits prod.splits if_splits)

lemma apply_runtime_signal_approval:
  assumes "approval_ok doc"
  shows "approval_ok (snd (apply_runtime_signal now1 now2 signal doc))"
proof (cases rule: apply_runtime_signal_cases [of now1 now2 signal doc])
  case 1
  with assms show ?thesis by simp
next
  case (2 a m doc')
  from apply_to_turn_ok [OF 2(1,2) assms] 2(3) show ?thesis by simp
next
  case (3 doc')
  from apply_to_task_frame [of signal doc] 3 assms show ?thesis
    by (auto simp: approval_ok_def split: option.splits)
qed

lemma apply_runtime_signal_history:
  assumes "history_ok doc"
  shows "history_ok (snd (apply_runtime_signal now1 now2 signal doc))"
proof (cases rule: apply_runtime_signal_cases [of now1 now2 signal doc])
  case 1
  with assms show ?thesis by simp
next
  case (2 a m doc')
  from apply_to_turn_history [OF 2(1,2)] 2(1,3) assms show ?thesis by (auto simp: history_ok_def)
next
  case (3 doc')
  from apply_to_task_frame [of signal doc] 3 assms show ?thesis by (auto simp: history_ok_def)
qed

lemma status_of_outcome_settled [simp]: "status_of_outcome outcome \<noteq> AwaitingApproval"
  by (cases outcome) simp_all

lemma stop_streaming_stops [simp]: "\<not> is_streaming (stop_streaming e)"
  by (cases e) simp_all

lemma doc_step_approval: "doc_step doc doc' \<Longrightarrow> approval_ok doc \<Longrightarrow> approval_ok doc'"
proof (induction rule: doc_step.induct)
  case (step_begin input started_at_ms tool_policy doc doc')
  then show ?case by (auto simp: begin_turn_def approval_ok_def alloc_step_def Let_def split: if_splits option.splits)
next
  case (step_finish doc outcome tokens completed_at_ms)
  then show ?case by (auto simp: finish_turn_def approval_ok_def split: option.splits)
qed (simp add: apply_runtime_signal_approval)

lemma doc_step_history: "doc_step doc doc' \<Longrightarrow> history_ok doc \<Longrightarrow> history_ok doc'"
proof (induction rule: doc_step.induct)
  case (step_begin input started_at_ms tool_policy doc doc')
  then show ?case by (auto simp: begin_turn_def history_ok_def alloc_step_def Let_def split: if_splits)
next
  case (step_finish doc outcome tokens completed_at_ms)
  then show ?case by (auto simp: finish_turn_def history_ok_def split: option.splits)
qed (simp add: apply_runtime_signal_history)

lemma doc_step_ok: "doc_step doc doc' \<Longrightarrow> doc_ok doc \<Longrightarrow> doc_ok doc'"
  using ids_grow_ok [OF doc_step_ids] doc_step_approval doc_step_history unfolding doc_ok_def by blast

lemma begin_task_ok: "inf_status info \<noteq> AwaitingApproval \<Longrightarrow> doc_ok (begin_task info)"
  by (simp add: doc_ok_def ids_ok_def approval_ok_def history_ok_def begin_task_def entry_ids_def
      all_entries_def)

section \<open>Grants\<close>

text \<open>A resolution recorded in the document.\<close>

definition resolved_in :: "task_document \<Rightarrow> capability \<Rightarrow> approval_scope \<Rightarrow> bool" where
  "resolved_in doc c sc \<longleftrightarrow> (\<exists>n. ApprovalResolved_entry n c sc True \<in> set (all_entries doc))"

definition grant_of :: "task_document \<Rightarrow> capability \<Rightarrow> approval_scope option" where
  "grant_of doc = map_of (inf_active_grants (td_info doc))"

definition backed_step :: "task_document \<Rightarrow> task_document \<Rightarrow> bool" where
  "backed_step doc doc' \<longleftrightarrow>
     (\<forall>c sc. resolved_in doc c sc \<longrightarrow> resolved_in doc' c sc)
     \<and> (\<forall>c sc. grant_of doc' c = Some sc
          \<longrightarrow> grant_of doc c = Some sc \<or> resolved_in doc' c sc \<and> sc \<noteq> Once)"

lemmas backed_defs = backed_step_def resolved_in_def grant_of_def all_entries_def

lemma resolve_grant_lookup:
  "map_of (resolve_grant c sc approved grants) c' =
     (if c' = c then (if approved then (if sc = Once then map_of grants c else Some sc) else None)
      else map_of grants c')"
  by (simp add: resolve_grant_def update_conv' delete_conv')

lemma apply_to_turn_keeps:
  assumes "td_active_pulse doc = Some a" and "apply_to_turn now signal a doc = Some (m, doc')"
    and "ApprovalResolved_entry n c sc b \<in> set (all_entries doc)"
  shows "ApprovalResolved_entry n c sc b \<in> set (all_entries doc')"
  using assms
  by (cases signal)
     (auto simp: all_entries_def turn_defs split: option.splits sum.splits prod.splits if_splits)

lemma apply_to_turn_grants:
  assumes "td_active_pulse doc = Some a" and "apply_to_turn now signal a doc = Some (m, doc')"
  shows "grant_of doc' = grant_of doc
    \<or> (\<exists>c sc approved. grant_of doc' = map_of (resolve_grant c sc approved (inf_active_grants (td_info doc)))
        \<and> ApprovalResolved_entry (next_id doc) c sc approved \<in> set (all_entries doc'))"
proof (cases "\<exists>cap sc approved. signal = ApprovalResolved cap sc approved")
  case True
  with assms show ?thesis
    by (fastforce simp: grant_of_def next_id_def all_entries_def turn_defs split: sum.splits)
next
  case False
  with assms have "grant_of doc' = grant_of doc"
    by (cases signal)
       (auto simp: grant_of_def turn_defs split: option.splits sum.splits prod.splits if_splits)
  then show ?thesis ..
qed

lemma apply_to_turn_backed:
  assumes "td_active_pulse doc = Some a" and "apply_to_turn now signal a doc = Some (m, doc')"
  shows "backed_step doc doc'"
proof -
  have "grant_of doc c = Some sc \<or> resolved_in doc' c sc \<and> sc \<noteq> Once" if "grant_of doc' c = Some sc" for c sc
    using apply_to_turn_grants [OF assms] that
    by (auto simp: resolve_grant_lookup resolved_in_def grant_of_def split: if_splits)
  with apply_to_turn_keeps [OF assms] show ?thesis
    unfolding backed_step_def resolved_in_def by blast
qed

lemma apply_to_task_backed: "backed_step doc (snd (apply_to_task signal doc))"
  by (cases signal) (auto simp: backed_defs Let_def)

lemma set_updated_backed [simp]:
  "backed_step doc (doc'\<lparr>td_info := (td_info doc')\<lparr>inf_updated_at_ms := n\<rparr>\<rparr>) = backed_step doc doc'"
  by (simp add: backed_defs)

lemma backed_step_refl [simp]: "backed_step doc doc"
  by (simp add: backed_step_def)

lemma stop_streaming_resolution [simp]:
  "ApprovalResolved_entry n c sc b \<in> stop_streaming ` es \<longleftrightarrow> ApprovalResolved_entry n c sc b \<in> es"
proof
  assume "ApprovalResolved_entry n c sc b \<in> stop_streaming ` es"
  then obtain e where "e \<in> es" "stop_streaming e = ApprovalResolved_entry n c sc b" by auto
  then show "ApprovalResolved_entry n c sc b \<in> es" by (cases e) auto
next
  assume "ApprovalResolved_entry n c sc b \<in> es"
  then show "ApprovalResolved_entry n c sc b \<in> stop_streaming ` es" by (rule rev_image_eqI) simp
qed

lemma doc_step_backed: "doc_step doc doc' \<Longrightarrow> backed_step doc doc'"
proof (induction rule: doc_step.induct)
  case (step_begin input started_at_ms tool_policy doc doc')
  then have "set (all_entries doc) \<subseteq> set (all_entries doc')" "grant_of doc' = grant_of doc"
    by (auto simp: begin_turn_def all_entries_def grant_of_def alloc_step_def Let_def split: if_splits)
  then show ?case unfolding backed_step_def resolved_in_def by auto
next
  case (step_signal doc now1 now2 signal)
  show ?case
  proof (cases rule: apply_runtime_signal_cases [of now1 now2 signal doc])
    case (2 a m doc')
    with apply_to_turn_backed [OF 2(1,2)] show ?thesis by simp
  next
    case (3 doc')
    with apply_to_task_backed [of doc signal] show ?thesis by auto
  qed simp
next
  case (step_finish doc outcome tokens completed_at_ms)
  show ?case by (auto simp: finish_turn_def backed_defs split: option.splits)
qed

lemma backed_step_trans:
  "backed_step doc doc1 \<Longrightarrow> backed_step doc1 doc2 \<Longrightarrow> backed_step doc doc2"
  unfolding backed_step_def by blast

lemma doc_steps_backed: "doc_step\<^sup>*\<^sup>* doc doc' \<Longrightarrow> backed_step doc doc'"
  by (induction rule: rtranclp_induct) (auto intro: backed_step_trans doc_step_backed)

section \<open>The text of a streamed block\<close>

fun entry_text :: "pulse_entry \<Rightarrow> string" where
  "entry_text (AssistantBlock_entry n b) = ab_content b"
| "entry_text _ = []"

text \<open>The text of the latest block with the index in the active turn.\<close>

definition block_text :: "nat \<Rightarrow> task_document \<Rightarrow> string option" where
  "block_text i doc =
     Option.bind (td_active_pulse doc) (\<lambda>a.
       case filter (is_block i) (rev (at_entries a)) of [] \<Rightarrow> None | e # es \<Rightarrow> Some (entry_text e))"

fun delta_for :: "nat \<Rightarrow> runtime_signal \<Rightarrow> string" where
  "delta_for i (TranscriptBlockDelta j delta) = (if j = i then delta else [])"
| "delta_for i _ = []"

fun starts_block :: "nat \<Rightarrow> runtime_signal \<Rightarrow> bool" where
  "starts_block i (TranscriptBlockStart j block) \<longleftrightarrow> j = i"
| "starts_block i _ \<longleftrightarrow> False"

text \<open>Signals one after another, each with the two clock readings it may take.\<close>

fun run_signals :: "(nat \<times> nat \<times> runtime_signal) list \<Rightarrow> task_document \<Rightarrow> task_document" where
  "run_signals [] doc = doc"
| "run_signals ((now1, now2, signal) # rest) doc =
     run_signals rest (snd (apply_runtime_signal now1 now2 signal doc))"

lemma filter_update_other:
  "(\<And>x. p x \<Longrightarrow> \<not> q x \<and> \<not> q (f x)) \<Longrightarrow> filter q (update_first p f xs) = filter q xs"
  by (induction xs) auto

lemma filter_update_same:
  "(\<And>x. p x \<Longrightarrow> p (f x)) \<Longrightarrow>
     filter p (update_first p f xs) = (case filter p xs of [] \<Rightarrow> [] | e # es \<Rightarrow> f e # es)"
  by (induction xs) auto

lemma is_block_map:
  "(\<And>b. ab_block_index (f b) = ab_block_index b) \<Longrightarrow> is_block i (map_block f e) = is_block i e"
  by (cases e) simp_all

lemma is_block_unique: "is_block i e \<Longrightarrow> is_block j e \<Longrightarrow> i = j"
  by (cases e) auto

lemma filter_update_block:
  assumes "\<And>b. ab_block_index (f b) = ab_block_index b"
  shows "filter (is_block i) (rev (at_entries (update_block_content j f a))) =
    (if i = j
     then (case filter (is_block i) (rev (at_entries a)) of [] \<Rightarrow> [] | e # es \<Rightarrow> map_block f e # es)
     else filter (is_block i) (rev (at_entries a)))"
proof (cases "i = j")
  case True
  then show ?thesis
    by (simp add: update_block_content_def filter_update_same is_block_map [OF assms])
next
  case False
  then have "\<not> is_block i x \<and> \<not> is_block i (map_block f x)" if "is_block j x" for x
    using that is_block_unique by (auto simp: is_block_map [OF assms])
  with False show ?thesis
    by (simp add: update_block_content_def filter_update_other)
qed

lemma filter_update_call [simp]:
  "filter (is_block i) (rev (at_entries (update_call_status j st a))) =
     filter (is_block i) (rev (at_entries a))"
proof -
  have "\<not> is_block i x \<and> \<not> is_block i (set_call_status st x)" if "is_call j x" for x
    using that by (cases x) auto
  then have "filter (is_block i) (update_first (is_call j) (set_call_status st) (at_entries a))
      = filter (is_block i) (at_entries a)"
    by (rule filter_update_other)
  then show ?thesis by (simp add: update_call_status_def rev_filter [symmetric])
qed

lemma filter_head: "filter p xs = e # es \<Longrightarrow> p e"
  by (simp add: filter_eq_Cons_iff) blast

lemma apply_to_turn_text:
  assumes "td_active_pulse doc = Some a" and "apply_to_turn now signal a doc = Some (m, doc')"
    and "\<not> starts_block i signal" and "block_text i doc = Some t"
  shows "block_text i doc' = Some (t @ delta_for i signal)"
proof -
  obtain e es where e: "filter (is_block i) (rev (at_entries a)) = e # es" "entry_text e = t"
    using assms(1,4) by (auto simp: block_text_def split: list.splits)
  obtain n b where b: "e = AssistantBlock_entry n b" "ab_content b = t"
    using filter_head [OF e(1)] e(2) by (cases e) auto
  show ?thesis
    using assms(1-3) e(1) b
    by (cases signal)
       (auto simp: block_text_def turn_defs filter_update_block
         split: option.splits sum.splits prod.splits if_splits)
qed

lemma apply_runtime_signal_text:
  assumes "\<not> starts_block i signal" and "block_text i doc = Some t"
  shows "block_text i (snd (apply_runtime_signal now1 now2 signal doc)) = Some (t @ delta_for i signal)"
proof (cases "td_active_pulse doc")
  case None
  with assms(2) show ?thesis by (simp add: block_text_def)
next
  case (Some a)
  have "block_text i (doc'\<lparr>td_info := (td_info doc')\<lparr>inf_updated_at_ms := now2\<rparr>\<rparr>) = block_text i doc'" for doc'
    by (simp add: block_text_def)
  moreover have "block_text i (snd (apply_to_task signal doc)) = Some (t @ delta_for i signal)"
    if "\<not> needs_turn signal"
    using that assms(2) apply_to_task_frame [of signal doc]
    by (cases signal) (simp_all add: block_text_def)
  moreover have "delta_for i signal = []" if "apply_to_turn now1 signal a doc = None"
    using that by (cases signal) (auto simp: Let_def)
  ultimately show ?thesis
    using apply_to_turn_text [OF Some _ assms] assms(2) Some
    by (auto simp: apply_runtime_signal_def split: option.splits prod.splits)
qed

lemma run_signals_text:
  "\<forall>(now1, now2, signal) \<in> set sigs. \<not> starts_block i signal \<Longrightarrow> block_text i doc = Some t
     \<Longrightarrow> block_text i (run_signals sigs doc) = Some (t @ concat (map (delta_for i \<circ> snd \<circ> snd) sigs))"
  by (induction sigs arbitrary: doc t rule: list.induct)
     (auto simp: apply_runtime_signal_text)

section \<open>Guarantees\<close>

text \<open>From any document, new or restored, the entries of the whole history grow at the end, by entries with strictly
  increasing step ids from the next one on.\<close>

definition grown_from :: "task_document \<Rightarrow> task_document \<Rightarrow> bool" where
  "grown_from doc0 doc \<longleftrightarrow>
     (\<exists>added. entry_ids doc = entry_ids doc0 @ added
        \<and> (next_id doc < u64_max \<longrightarrow>
             next_id doc0 \<le> next_id doc
             \<and> sorted_wrt (<) added \<and> (\<forall>i \<in> set added. next_id doc0 \<le> i \<and> i < next_id doc)))"

lemma grown_from_refl: "grown_from doc doc"
  by (simp add: grown_from_def)

lemma grown_from_step:
  assumes "grown_from doc0 doc" and "ids_grow doc doc'"
  shows "grown_from doc0 doc'"
proof (cases "entry_ids doc' = entry_ids doc \<and> next_id doc' = next_id doc")
  case True
  with assms(1) show ?thesis by (simp add: grown_from_def)
next
  case False
  obtain added where grown: "entry_ids doc = entry_ids doc0 @ added"
    "next_id doc < u64_max \<longrightarrow> next_id doc0 \<le> next_id doc
       \<and> sorted_wrt (<) added \<and> (\<forall>i \<in> set added. next_id doc0 \<le> i \<and> i < next_id doc)"
    using assms(1) by (auto simp: grown_from_def)
  have new: "entry_ids doc' = entry_ids doc0 @ (added @ [next_id doc])" "next_id doc' = sat_add (next_id doc) 1"
    using assms(2) grown(1) False by (auto simp: ids_grow_def)
  have "next_id doc < u64_max \<and> next_id doc' = Suc (next_id doc)" if "next_id doc' < u64_max"
    using that new(2) by (simp add: sat_add_def)
  with grown(2) have "next_id doc' < u64_max \<longrightarrow> next_id doc0 \<le> next_id doc'
      \<and> sorted_wrt (<) (added @ [next_id doc]) \<and> (\<forall>i \<in> set (added @ [next_id doc]). next_id doc0 \<le> i \<and> i < next_id doc')"
    by (auto simp: sorted_wrt_append less_SucI)
  with new(1) show ?thesis unfolding grown_from_def by blast
qed

lemma doc_steps_grow: "doc_step\<^sup>*\<^sup>* doc0 doc \<Longrightarrow> grown_from doc0 doc"
  by (induction rule: rtranclp_induct) (auto intro: grown_from_refl grown_from_step doc_step_ids)

lemma doc_steps_approval: "doc_step\<^sup>*\<^sup>* doc0 doc \<Longrightarrow> approval_ok doc0 \<Longrightarrow> approval_ok doc"
  by (induction rule: rtranclp_induct) (auto intro: doc_step_approval)

lemma doc_steps_history: "doc_step\<^sup>*\<^sup>* doc0 doc \<Longrightarrow> history_ok doc0 \<Longrightarrow> history_ok doc"
  by (induction rule: rtranclp_induct) (auto intro: doc_step_history)

lemma doc_steps_ok: "doc_step\<^sup>*\<^sup>* doc0 doc \<Longrightarrow> doc_ok doc0 \<Longrightarrow> doc_ok doc"
  by (induction rule: rtranclp_induct) (auto intro: doc_step_ok)

text \<open>
  C29 [grants_are_backed]. Every grant of the task was there when the task began or is
  backed by an entry of its history that records an approval of the same capability with the same
  scope; an approval for one time never becomes a grant.
\<close>

theorem grants_are_backed:
  assumes "doc_step\<^sup>*\<^sup>* (begin_task info) doc"
    and "map_of (inf_active_grants (td_info doc)) c = Some sc"
    and "map_of (inf_active_grants info) c \<noteq> Some sc"
  shows "sc \<noteq> Once \<and> (\<exists>n. ApprovalResolved_entry n c sc True \<in> set (all_entries doc))"
  using doc_steps_backed [OF assms(1)] assms(2,3)
  by (auto simp: backed_step_def grant_of_def resolved_in_def begin_task_def)

text \<open>
  When a text block starts in the active turn, then after any
  further signals, as long as none starts another block with its index, the entry of the block holds
  its initial text and every delta addressed to it, in order. Deltas of other blocks, tool calls, approvals
  and errors in between change nothing.
\<close>

theorem block_text_assembled:
  assumes "td_active_pulse doc \<noteq> None"
    and "\<forall>(now1, now2, signal) \<in> set sigs. \<not> starts_block i signal"
  shows "block_text i (run_signals ((now1, now2, TranscriptBlockStart i (FinalText content)) # sigs) doc)
    = Some (content @ concat (map (delta_for i \<circ> snd \<circ> snd) sigs))"
proof -
  have "block_text i (snd (apply_runtime_signal now1 now2 (TranscriptBlockStart i (FinalText content)) doc))
      = Some content"
    using assms(1) by (auto simp: apply_runtime_signal_def block_text_def push_entry_def alloc_step_def)
  from run_signals_text [OF assms(2) this] show ?thesis by simp
qed

lemma parse_demo: "parse_capability ''network'' = Inr Network" "parse_scope ''task'' = Inr Task"
  by code_simp+

definition demo_info :: task_info where
  "demo_info =
     \<lparr>inf_id = ''t'', inf_status = Ready, inf_parent_task_id = None, inf_agent_id = None,
      inf_worktree_path = None, inf_branch_name = None, inf_instructions_path = None,
      inf_model_name = [], inf_model_backend = ApiServer, inf_model_url = [],
      inf_started_at_ms = None, inf_updated_at_ms = 0, inf_last_heartbeat_ms = None,
      inf_active_grants = [], inf_next_step_id = 1\<rparr>"

definition demo_turn :: task_document where
  "demo_turn = the (begin_turn ''hi'' 5 Default_policy (begin_task demo_info))"

definition demo_awaiting :: task_document where
  "demo_awaiting =
     snd (apply_runtime_signal 6 7 (ApprovalRequest ''network'' ''task'' None) demo_turn)"

definition demo_stream :: "(nat \<times> nat \<times> runtime_signal) list" where
  "demo_stream =
     [(2, 2, TranscriptBlockDelta 0 ''he''), (3, 3, TranscriptBlockStart 1 (Thinking ''x'' True)),
      (4, 4, TranscriptBlockDelta 1 ''y''), (5, 5, TranscriptBlockDelta 0 ''llo'')]"

definition demo_granted :: task_document where
  "demo_granted =
     snd (apply_runtime_signal 8 9 (ApprovalResolved ''network'' ''task'' True) demo_awaiting)"

lemmas demo_defs = demo_granted_def demo_awaiting_def demo_turn_def demo_info_def
  apply_runtime_signal_def begin_turn_def begin_task_def push_entry_def alloc_step_def Let_def

lemma demo_turn_step: "doc_step (begin_task demo_info) demo_turn"
  by (rule step_begin [of "''hi''" 5 Default_policy])
     (simp add: demo_turn_def begin_turn_def begin_task_def alloc_step_def)

lemma demo_awaiting_reached: "doc_step\<^sup>*\<^sup>* (begin_task demo_info) demo_awaiting"
  using demo_turn_step step_signal [of demo_turn] unfolding demo_awaiting_def
  by (meson converse_rtranclp_into_rtranclp r_into_rtranclp)

lemma demo_granted_reached: "doc_step\<^sup>*\<^sup>* (begin_task demo_info) demo_granted"
  unfolding demo_granted_def
  by (rule rtranclp.rtrancl_into_rtrancl [OF demo_awaiting_reached step_signal])

lemma demo_awaiting_status: "inf_status (td_info demo_awaiting) = AwaitingApproval"
  by (simp add: demo_defs parse_demo)

lemma demo_grant: "map_of (inf_active_grants (td_info demo_granted)) Network = Some Task"
  by (simp add: demo_defs parse_demo resolve_grant_def)

theorem grants_are_backed_witness:
  "Task \<noteq> Once
   \<and> (\<exists>n. ApprovalResolved_entry n Network Task True \<in> set (all_entries demo_granted))"
  by (rule grants_are_backed [OF demo_granted_reached demo_grant]) (simp add: demo_info_def)

theorem block_text_assembled_witness:
  "block_text 0 (run_signals ((1, 1, TranscriptBlockStart 0 (FinalText ''> '')) # demo_stream) demo_turn)
    = Some ''> hello''"
  using block_text_assembled [of demo_turn demo_stream 0 1 1 "''> ''"]
  by (simp add: demo_stream_def demo_turn_def begin_turn_def begin_task_def alloc_step_def)

end
