(* ===== verification/Permutations.thy ===== *)
theory Permutations
  imports Prelude "HOL-Library.Multiset"
begin

text \<open>
  Sorting by distinct keys: the result depends only on what is sorted, so the iteration order of a hash map and the
  order of an input list do not matter.
\<close>

lemma sort_key_unique:
  assumes "mset xs = mset ys" and "sorted_wrt (<) (map f ys)"
  shows "sort_key f xs = ys"
proof (rule map_sorted_distinct_set_unique)
  have d: "distinct (map f ys)" and s: "sorted (map f ys)"
    using assms(2) by (simp_all add: strict_sorted_iff)
  have "mset (map f xs) = mset (map f ys)" using assms(1) by simp
  with d have "distinct (map f xs)" by (metis mset_eq_imp_distinct_iff)
  then show "distinct (map f (sort_key f xs))"
    by (metis mset_eq_imp_distinct_iff mset_map mset_sort)
  show "set (sort_key f xs) = set ys" using assms(1) by (metis mset_eq_setD set_sort)
  then show "inj_on f (set (sort_key f xs) \<union> set ys)" using d by (simp add: distinct_map)
qed (use assms in \<open>simp_all add: strict_sorted_iff\<close>)

lemma sort_key_perm:
  assumes "mset xs = mset ys" and "distinct (map f xs)"
  shows "sort_key f xs = sort_key f ys"
proof -
  have "distinct (map f ys)" using assms by (metis mset_eq_imp_distinct_iff mset_map)
  then have "distinct (map f (sort_key f ys))"
    by (metis mset_eq_imp_distinct_iff mset_map mset_sort)
  then have "sorted_wrt (<) (map f (sort_key f ys))" by (simp add: strict_sorted_iff)
  with assms(1) show ?thesis by (intro sort_key_unique) simp_all
qed

end
