(* ===== verification/Task_Bridge.thy ===== *)
theory Task_Bridge
  imports Task_Document_Laws Permutations
begin

text \<open>
  The bridge between the live document and the persisted task state
  (\<open>src/runtime/task_document/task_state_bridge.rs\<close>): the snapshot, its restoration, and the projection of a
  document into a working-set record.

  The order in which a \<open>HashMap\<close> yields its values is unspecified: it is the parameter \<open>hash_order\<close>, of
  which the lemmas use only that it permutes the entries.
\<close>

section \<open>From entries to evidence\<close>

fun final_text_of :: "pulse_entry \<Rightarrow> string" where
  "final_text_of (AssistantBlock_entry step_id b) = (if ab_phase b = Final_phase then ab_content b else [])"
| "final_text_of _ = []"

definition extract_final_text :: "pulse_entry list \<Rightarrow> string" where
  "extract_final_text entries = concat (map final_text_of entries)"

definition summarize_tool_outcome :: "string \<Rightarrow> bool \<Rightarrow> string" where
  "summarize_tool_outcome out is_error =
     (if \<not> is_error then ''ok''
      else
        (let lowered = to_ascii_lowercase out in
         if contains lowered ''denied'' then ''denied''
         else if contains lowered ''cancel'' then ''cancelled''
         else ''error''))"

fun outcome_from_status :: "tool_status \<Rightarrow> string" where
  "outcome_from_status Complete = ''ok''"
| "outcome_from_status Cancelled_status = ''cancelled''"
| "outcome_from_status Error_status = ''error''"
| "outcome_from_status _ = ''pending''"

definition tool_status_from_outcome :: "string \<Rightarrow> tool_status" where
  "tool_status_from_outcome outcome =
     (let lowered = to_ascii_lowercase outcome in
      if contains lowered ''cancel'' then Cancelled_status
      else if contains lowered ''denied'' \<or> contains lowered ''error'' \<or> contains lowered ''fail''
      then Error_status
      else if lowered = ''ok'' then Complete
      else Pending)"

type_synonym open_call = "nat \<times> string \<times> tool_status"

text \<open>One entry: the calls without a result and the invocations collected.\<close>

fun collect_entry ::
  "pulse_entry \<Rightarrow> (string \<times> open_call) list \<times> tool_invocation_summary list
     \<Rightarrow> (string \<times> open_call) list \<times> tool_invocation_summary list" where
  "collect_entry (ToolCall_entry step_id i name input status) (calls, invocations) =
     (AList.update i (step_id, name, status) calls, invocations)"
| "collect_entry (ToolResult_entry step_id tool_call_id tool_name out is_error) (calls, invocations) =
     (case map_of calls tool_call_id of
        None \<Rightarrow> (calls, invocations)
      | Some (call_step, name, status) \<Rightarrow>
          (AList.delete tool_call_id calls,
           invocations @ [\<lparr>ti_step_id = call_step, ti_name = name,
                           ti_outcome = summarize_tool_outcome out is_error\<rparr>]))"
| "collect_entry _ st = st"

definition pending_invocation :: "string \<times> open_call \<Rightarrow> tool_invocation_summary" where
  "pending_invocation kv =
     (case kv of (k, step_id, name, status) \<Rightarrow>
        \<lparr>ti_step_id = step_id, ti_name = name, ti_outcome = outcome_from_status status\<rparr>)"

type_synonym hash_order = "(string \<times> open_call) list \<Rightarrow> (string \<times> open_call) list"

definition extract_tool_invocations :: "hash_order \<Rightarrow> pulse_entry list \<Rightarrow> tool_invocation_summary list" where
  "extract_tool_invocations order entries =
     (let (calls, invocations) = fold collect_entry entries ([], [])
      in sort_key ti_step_id (invocations @ map pending_invocation (order calls)))"

definition turn_evidence :: "hash_order \<Rightarrow> turn_document \<Rightarrow> turn_evidence_state" where
  "turn_evidence order pulse =
     \<lparr>tes_input = tn_input pulse, tes_response = extract_final_text (tn_entries pulse),
      tes_changed_files = tn_changed_files pulse, tes_command_history = tn_command_history pulse,
      tes_tool_invocations = extract_tool_invocations order (tn_entries pulse),
      tes_tokens = tn_tokens pulse\<rparr>"

definition persistable_snapshot :: "hash_order \<Rightarrow> task_document \<Rightarrow> task_state" where
  "persistable_snapshot order doc =
     \<lparr>ts_id = inf_id (td_info doc), ts_status = inf_status (td_info doc),
      ts_parent_task_id = inf_parent_task_id (td_info doc), ts_agent_id = inf_agent_id (td_info doc),
      ts_worktree_path = inf_worktree_path (td_info doc),
      ts_started_at = inf_started_at_ms (td_info doc), ts_updated_at = inf_updated_at_ms (td_info doc),
      ts_last_heartbeat = inf_last_heartbeat_ms (td_info doc), ts_handoff_summary = None,
      ts_active_grants = inf_active_grants (td_info doc),
      ts_changed_files = concat (map tn_changed_files (td_completed_turns doc)),
      ts_command_history = concat (map tn_command_history (td_completed_turns doc)),
      ts_conversation_snapshot =
        \<lparr>cc_message_count = length (td_completed_turns doc), cc_summary = []\<rparr>,
      ts_interrupted_sessions = [], ts_branch_name = inf_branch_name (td_info doc),
      ts_instructions_path = inf_instructions_path (td_info doc),
      ts_pulses = map (turn_evidence order) (td_completed_turns doc), ts_plan = None,
      ts_session_notes = td_session_notes doc, ts_context_compaction = td_context_compaction doc,
      ts_cache_usage = \<lparr>cus_total_cache_creation_tokens = 0, cus_total_cache_read_tokens = 0\<rparr>,
      ts_session_tasks = td_session_tasks doc\<rparr>"

section \<open>From evidence to entries\<close>

text \<open>The tool calls of a restored turn, after the step id used last.\<close>

fun restored_calls :: "nat \<Rightarrow> tool_invocation_summary list \<Rightarrow> pulse_entry list" where
  "restored_calls step [] = []"
| "restored_calls step (invocation # rest) =
     (let step_id = max (ti_step_id invocation) (sat_add step 1) in
      ToolCall_entry step_id (''restored-'' @ nat_dec (ti_step_id invocation)) (ti_name invocation)
        (JObject []) (tool_status_from_outcome (ti_outcome invocation))
      # restored_calls step_id rest)"

definition entries_from_evidence :: "nat \<Rightarrow> turn_evidence_state \<Rightarrow> pulse_entry list" where
  "entries_from_evidence base_step evidence =
     (let step = sat_mul base_step 1000; step1 = sat_add step 1 in
      [UserInput_entry step (tes_input evidence)]
      @ (if tes_response evidence = [] then []
         else [AssistantBlock_entry step1
                 \<lparr>ab_block_index = 0, ab_phase = Final_phase, ab_content = tes_response evidence,
                  ab_collapsed = False, ab_streaming = False\<rparr>])
      @ restored_calls step1 (tes_tool_invocations evidence))"

definition restored_turn :: "nat \<times> turn_evidence_state \<Rightarrow> turn_document" where
  "restored_turn iv =
     (case iv of (turn_index, evidence) \<Rightarrow>
        \<lparr>tn_turn_index = turn_index, tn_input = tes_input evidence,
         tn_entries = entries_from_evidence turn_index evidence, tn_outcome = Completed_outcome,
         tn_changed_files = tes_changed_files evidence,
         tn_command_history = tes_command_history evidence, tn_tokens = tes_tokens evidence,
         tn_started_at_ms = 0, tn_completed_at_ms = 0, tn_ttft_ms = None, tn_timings = None\<rparr>)"

definition max_or_zero :: "nat list \<Rightarrow> nat" where
  "max_or_zero ns = fold max ns 0"

definition restore_from_snapshot :: "task_state \<Rightarrow> task_document" where
  "restore_from_snapshot s =
     (let completed_turns = map restored_turn (List.enumerate 0 (ts_pulses s));
          next_step_id =
            sat_add (max_or_zero (map entry_step_id (concat (map tn_entries completed_turns)))) 1
      in
        \<lparr>td_info =
           \<lparr>inf_id = ts_id s, inf_status = ts_status s, inf_parent_task_id = ts_parent_task_id s,
            inf_agent_id = ts_agent_id s, inf_worktree_path = ts_worktree_path s,
            inf_branch_name = ts_branch_name s, inf_instructions_path = ts_instructions_path s,
            inf_model_name = [], inf_model_backend = LocalRuntime, inf_model_url = [],
            inf_started_at_ms = ts_started_at s, inf_updated_at_ms = ts_updated_at s,
            inf_last_heartbeat_ms = ts_last_heartbeat s, inf_active_grants = ts_active_grants s,
            inf_next_step_id = next_step_id\<rparr>,
         td_completed_turns = completed_turns, td_active_pulse = None,
         td_session_notes = ts_session_notes s, td_context_compaction = ts_context_compaction s,
         td_session_tasks = ts_session_tasks s, td_last_error = None\<rparr>)"

end
