(* ===== verification/Task_Bridge_Laws.thy ===== *)
theory Task_Bridge_Laws
  imports Task_Bridge
begin

text \<open>
  What survives when a task is saved, restored and saved again, and which step ids a restored document
  carries.
\<close>

section \<open>Restored tool calls\<close>

text \<open>The invocations a restored turn yields when it is saved again.\<close>

fun restored_invocations :: "nat \<Rightarrow> tool_invocation_summary list \<Rightarrow> tool_invocation_summary list" where
  "restored_invocations step [] = []"
| "restored_invocations step (i # is) =
     (let step_id = max (ti_step_id i) (sat_add step 1) in
      \<lparr>ti_step_id = step_id, ti_name = ti_name i,
       ti_outcome = outcome_from_status (tool_status_from_outcome (ti_outcome i))\<rparr>
      # restored_invocations step_id is)"

definition call_key :: "tool_invocation_summary \<Rightarrow> string" where
  "call_key i = ''restored-'' @ nat_dec (ti_step_id i)"

lemma call_key_inject [simp]: "call_key i = call_key j \<longleftrightarrow> ti_step_id i = ti_step_id j"
  by (simp add: call_key_def)

lemma restored_calls_Cons:
  "restored_calls step (i # is) =
     ToolCall_entry (max (ti_step_id i) (sat_add step 1)) (call_key i) (ti_name i) (JObject [])
       (tool_status_from_outcome (ti_outcome i))
     # restored_calls (max (ti_step_id i) (sat_add step 1)) is"
  by (simp add: call_key_def Let_def)

lemma pending_invocation_simp [simp]:
  "pending_invocation (k, step_id, name, status) =
     \<lparr>ti_step_id = step_id, ti_name = name, ti_outcome = outcome_from_status status\<rparr>"
  by (simp add: pending_invocation_def)

lemma collect_restored:
  assumes "distinct (map ti_step_id is)" and "\<forall>i \<in> set is. call_key i \<notin> fst ` set calls"
  shows "\<exists>more. fold collect_entry (restored_calls step is) (calls, invs) = (calls @ more, invs)
    \<and> map pending_invocation more = restored_invocations step is"
  using assms
proof (induction "is" arbitrary: step calls)
  case Nil
  show ?case by (simp add: exI [of _ "[]"])
next
  case (Cons i "is")
  let ?sid = "max (ti_step_id i) (sat_add step 1)"
  let ?call = "(call_key i, ?sid, ti_name i, tool_status_from_outcome (ti_outcome i))"
  have "\<forall>j \<in> set is. call_key j \<notin> fst ` set (calls @ [?call])"
  proof
    fix j assume "j \<in> set is"
    moreover with Cons.prems(1) have "ti_step_id j \<noteq> ti_step_id i" by (simp add: image_iff) metis
    ultimately show "call_key j \<notin> fst ` set (calls @ [?call])" using Cons.prems(2) by simp
  qed
  with Cons.IH [of "calls @ [?call]" ?sid] Cons.prems(1) obtain more where
    "fold collect_entry (restored_calls ?sid is) (calls @ [?call], invs) = (calls @ ?call # more, invs)"
    "map pending_invocation more = restored_invocations ?sid is"
    by auto
  with Cons.prems(2) show ?case
    by (intro exI [of _ "?call # more"])
       (simp add: restored_calls_Cons update_snoc Let_def del: restored_calls.simps)
qed

text \<open>No saturation happens below the bound.\<close>

lemma restored_increasing:
  assumes "step \<le> M" and "\<forall>i \<in> set is. ti_step_id i \<le> M" and "M + length is < u64_max"
  shows "sorted_wrt (<) (map ti_step_id (restored_invocations step is))
    \<and> (\<forall>i \<in> set (restored_invocations step is). step < ti_step_id i \<and> ti_step_id i \<le> M + length is)"
  using assms
proof (induction "is" arbitrary: step M)
  case (Cons i "is")
  let ?sid = "max (ti_step_id i) (sat_add step 1)"
  have sid: "step < ?sid" "?sid \<le> M + 1"
    using Cons.prems by (auto simp: sat_add_def)
  have "sorted_wrt (<) (map ti_step_id (restored_invocations ?sid is))
    \<and> (\<forall>i \<in> set (restored_invocations ?sid is). ?sid < ti_step_id i \<and> ti_step_id i \<le> M + 1 + length is)"
    using Cons.prems sid(2) by (intro Cons.IH) auto
  with sid show ?case by (fastforce simp: Let_def)
qed simp

section \<open>Restored documents\<close>

text \<open>Evidence of a realistic size: the invocations of a turn have ids of their own (the loader makes
  them so), and neither they nor the number of turns come near the end of the 64-bit range.\<close>

definition restorable :: "turn_evidence_state list \<Rightarrow> bool" where
  "restorable pulses \<longleftrightarrow>
     length pulses \<le> 2 ^ 32
     \<and> (\<forall>p \<in> set pulses.
          distinct (map ti_step_id (tes_tool_invocations p))
          \<and> length (tes_tool_invocations p) \<le> 2 ^ 32
          \<and> (\<forall>i \<in> set (tes_tool_invocations p). ti_step_id i \<le> 2 ^ 62))"

lemma base_step_small:
  "i < length pulses \<Longrightarrow> length pulses \<le> 2 ^ 32 \<Longrightarrow> sat_mul i 1000 = i * 1000 \<and> i * 1000 + 1 \<le> 2 ^ 62"
  by (simp add: sat_mul_def u64_max_def)

lemma restored_turn_invocations:
  assumes "restorable pulses" and "i < length pulses"
  shows "sorted_wrt (<) (map ti_step_id
      (restored_invocations (sat_add (sat_mul i 1000) 1) (tes_tool_invocations (pulses ! i))))
    \<and> (\<forall>v \<in> set (restored_invocations (sat_add (sat_mul i 1000) 1) (tes_tool_invocations (pulses ! i))).
         ti_step_id v \<le> 2 ^ 62 + 2 ^ 32)"
proof -
  have "pulses ! i \<in> set pulses" using assms(2) by simp
  with assms(1) have p: "length (tes_tool_invocations (pulses ! i)) \<le> 2 ^ 32"
    "\<forall>v \<in> set (tes_tool_invocations (pulses ! i)). ti_step_id v \<le> 2 ^ 62" "length pulses \<le> 2 ^ 32"
    by (auto simp: restorable_def)
  from base_step_small [OF assms(2) p(3)]
  have "sat_add (sat_mul i 1000) 1 \<le> 2 ^ 62" by (auto simp: sat_add_def)
  from restored_increasing [OF this p(2)] p(1) show ?thesis
    by (fastforce simp: u64_max_def)
qed

lemma restored_turn_evidence:
  assumes order: "\<forall>xs. mset (order xs) = mset xs"
    and "restorable pulses" and "i < length pulses"
  shows "turn_evidence order (restored_turn (i, pulses ! i)) =
    (pulses ! i)\<lparr>tes_tool_invocations :=
       restored_invocations (sat_add (sat_mul i 1000) 1) (tes_tool_invocations (pulses ! i))\<rparr>"
proof -
  let ?p = "pulses ! i"
  let ?step = "sat_add (sat_mul i 1000) 1"
  have "distinct (map ti_step_id (tes_tool_invocations ?p))"
    using assms(2,3) by (auto simp: restorable_def)
  from collect_restored [OF this, of "[]" ?step "[]"] obtain calls where
    calls: "fold collect_entry (restored_calls ?step (tes_tool_invocations ?p)) ([], []) = (calls, [])"
    "map pending_invocation calls = restored_invocations ?step (tes_tool_invocations ?p)"
    by auto
  have "mset (map pending_invocation (order calls))
      = mset (restored_invocations ?step (tes_tool_invocations ?p))"
    using order calls(2) [symmetric] by simp
  from sort_key_unique [OF this conjunct1 [OF restored_turn_invocations [OF assms(2,3)]]]
  have "extract_tool_invocations order (entries_from_evidence i ?p)
      = restored_invocations ?step (tes_tool_invocations ?p)"
    by (simp add: extract_tool_invocations_def entries_from_evidence_def Let_def calls(1)
        del: One_nat_def)
  moreover have "final_text_of e = []" if "e \<in> set (restored_calls step is)" for e step "is"
    using that by (induction "is" arbitrary: step) (auto simp: Let_def)
  then have "concat (map final_text_of (restored_calls step is)) = []" for step "is"
    by (simp add: concat_eq_Nil_conv)
  then have "extract_final_text (entries_from_evidence i ?p) = tes_response ?p"
    by (simp add: extract_final_text_def entries_from_evidence_def Let_def)
  ultimately show ?thesis
    by (simp add: turn_evidence_def restored_turn_def)
qed

lemma status_outcome_status [simp]:
  "tool_status_from_outcome (outcome_from_status (tool_status_from_outcome x)) = tool_status_from_outcome x"
proof -
  have "tool_status_from_outcome x \<in> {Complete, Cancelled_status, Error_status, Pending}"
    by (simp add: tool_status_from_outcome_def Let_def)
  moreover have "tool_status_from_outcome ''ok'' = Complete"
    "tool_status_from_outcome ''cancelled'' = Cancelled_status"
    "tool_status_from_outcome ''error'' = Error_status"
    "tool_status_from_outcome ''pending'' = Pending"
    by code_simp+
  ultimately show ?thesis by auto
qed

text \<open>What a turn's evidence tells: the name and the class of the outcome of each tool call, in order.\<close>

definition call_view :: "tool_invocation_summary \<Rightarrow> string \<times> tool_status" where
  "call_view i = (ti_name i, tool_status_from_outcome (ti_outcome i))"

lemma restored_view: "map call_view (restored_invocations step is) = map call_view is"
  by (induction "is" arbitrary: step) (simp_all add: Let_def call_view_def)

lemma max_or_zero_ge: "n \<in> set ns \<Longrightarrow> n \<le> max_or_zero ns"
  unfolding max_or_zero_def by (metis List.finite_set Max_ge insertI2 list.simps(15) Max.set_eq_fold)

lemma max_or_zero_le: "(\<And>n. n \<in> set ns \<Longrightarrow> n \<le> b) \<Longrightarrow> max_or_zero ns \<le> b"
  unfolding max_or_zero_def by (metis Max.set_eq_fold Max_in List.finite_set insert_iff list.distinct(1)
    list.simps(15) set_empty2 zero_le)

lemma restored_call_ids:
  "map entry_step_id (restored_calls step is) = map ti_step_id (restored_invocations step is)"
  by (induction "is" arbitrary: step) (simp_all add: Let_def)

lemma restored_turns_conv:
  "map f (map restored_turn (List.enumerate 0 pulses))
     = map (\<lambda>i. f (restored_turn (i, pulses ! i))) [0..<length pulses]"
  by (rule nth_equalityI) (simp_all add: nth_enumerate_eq)

lemma restored_entry_bound:
  assumes "restorable pulses" and "i < length pulses" and "e \<in> set (entries_from_evidence i (pulses ! i))"
  shows "entry_step_id e \<le> 2 ^ 62 + 2 ^ 32"
proof -
  let ?step = "sat_add (sat_mul i 1000) 1"
  have "length pulses \<le> 2 ^ 32" using assms(1) by (simp add: restorable_def)
  from base_step_small [OF assms(2) this]
  have "sat_mul i 1000 \<le> 2 ^ 62" "?step \<le> 2 ^ 62" by (auto simp: sat_add_def)
  moreover have "entry_step_id e \<le> 2 ^ 62 + 2 ^ 32"
    if "e \<in> set (restored_calls ?step (tes_tool_invocations (pulses ! i)))"
  proof -
    from that have "entry_step_id e
        \<in> set (map ti_step_id (restored_invocations ?step (tes_tool_invocations (pulses ! i))))"
      unfolding restored_call_ids [symmetric] by simp
    with restored_turn_invocations [OF assms(1,2)] show ?thesis by (auto simp del: One_nat_def)
  qed
  ultimately show ?thesis
    using assms(3) by (auto simp: entries_from_evidence_def Let_def split: if_splits)
qed

section \<open>Guarantees\<close>

text \<open>
  C32 [snapshot_round_trip]. A task state that is restored to a live document and saved
  again keeps its identity, status, grants, notes, compactions and session tasks, and for every turn the
  input, the response, the changed files, the commands, the tokens, and the names and outcome classes of
  its tool calls in their order, whatever the iteration order of the hash map that collects them.
\<close>

theorem snapshot_round_trip:
  assumes "\<forall>xs. mset (order xs) = mset xs" and "restorable (ts_pulses s)"
    and "s' = persistable_snapshot order (restore_from_snapshot s)"
  shows "ts_id s' = ts_id s \<and> ts_status s' = ts_status s \<and> ts_active_grants s' = ts_active_grants s
    \<and> ts_parent_task_id s' = ts_parent_task_id s \<and> ts_agent_id s' = ts_agent_id s
    \<and> ts_session_notes s' = ts_session_notes s \<and> ts_context_compaction s' = ts_context_compaction s
    \<and> ts_session_tasks s' = ts_session_tasks s \<and> ts_updated_at s' = ts_updated_at s
    \<and> map (\<lambda>p. (tes_input p, tes_response p, tes_changed_files p, tes_command_history p, tes_tokens p,
                map call_view (tes_tool_invocations p))) (ts_pulses s')
      = map (\<lambda>p. (tes_input p, tes_response p, tes_changed_files p, tes_command_history p, tes_tokens p,
                map call_view (tes_tool_invocations p))) (ts_pulses s)"
proof -
  have "ts_pulses s' = map (turn_evidence order) (map restored_turn (List.enumerate 0 (ts_pulses s)))"
    by (simp add: assms(3) persistable_snapshot_def restore_from_snapshot_def Let_def)
  then have len: "length (ts_pulses s') = length (ts_pulses s)"
    and nth: "\<And>i. i < length (ts_pulses s) \<Longrightarrow> ts_pulses s' ! i = (ts_pulses s ! i)\<lparr>tes_tool_invocations :=
       restored_invocations (sat_add (sat_mul i 1000) 1) (tes_tool_invocations (ts_pulses s ! i))\<rparr>"
    by (simp_all add: nth_enumerate_eq restored_turn_evidence [OF assms(1,2)] del: One_nat_def)
  have "map (\<lambda>p. (tes_input p, tes_response p, tes_changed_files p, tes_command_history p, tes_tokens p,
                map call_view (tes_tool_invocations p))) (ts_pulses s')
      = map (\<lambda>p. (tes_input p, tes_response p, tes_changed_files p, tes_command_history p, tes_tokens p,
                map call_view (tes_tool_invocations p))) (ts_pulses s)"
    by (rule nth_equalityI) (simp_all add: len nth restored_view del: One_nat_def)
  then show ?thesis
    by (simp add: assms(3) persistable_snapshot_def restore_from_snapshot_def Let_def)
qed

text \<open>
  The step counter of a restored document is above the step id
  of every restored entry, so that entries added after a resume do not repeat an id.
\<close>

theorem restored_counter_fresh:
  assumes "restorable (ts_pulses s)" and "e \<in> set (all_entries (restore_from_snapshot s))"
  shows "entry_step_id e < inf_next_step_id (td_info (restore_from_snapshot s))"
proof -
  let ?ids = "map entry_step_id
    (concat (map tn_entries (map restored_turn (List.enumerate 0 (ts_pulses s)))))"
  have all: "set ?ids = entry_step_id ` set (all_entries (restore_from_snapshot s))"
    by (simp add: all_entries_def restore_from_snapshot_def Let_def)
  have "n \<le> 2 ^ 62 + 2 ^ 32" if "n \<in> set ?ids" for n
    using that restored_entry_bound [OF assms(1)]
    unfolding restored_turns_conv by (auto simp: restored_turn_def)
  then have "max_or_zero ?ids \<le> 2 ^ 62 + 2 ^ 32" by (rule max_or_zero_le)
  then have "max_or_zero ?ids < u64_max" by (simp add: u64_max_def del: map_map)
  moreover have "entry_step_id e \<le> max_or_zero ?ids"
    using assms(2) all by (intro max_or_zero_ge) blast
  ultimately show ?thesis
    by (simp add: restore_from_snapshot_def Let_def sat_add_def)
qed

section \<open>Documents of new and of restored tasks\<close>

lemma restored_turns_settled:
  "history_ok (restore_from_snapshot s)"
proof -
  have "\<not> is_streaming e" if "e \<in> set (restored_calls step invocations)" for e step invocations
    using that by (induction step invocations rule: restored_calls.induct) (auto simp: Let_def)
  then have "\<not> is_streaming e" if "e \<in> set (entries_from_evidence i p)" for e i p
    using that by (auto simp: entries_from_evidence_def Let_def split: if_splits)
  moreover have "map tn_turn_index (map restored_turn (List.enumerate 0 ps)) = [0..<length ps]" for ps
    by (auto simp: restored_turn_def case_prod_unfold enumerate_eq_zip intro: nth_equalityI)
  ultimately show ?thesis
    by (auto simp: history_ok_def restore_from_snapshot_def Let_def restored_turn_def case_prod_unfold)
qed

lemma restored_ids_below:
  assumes "next_id (restore_from_snapshot s) < u64_max" and "i \<in> set (entry_ids (restore_from_snapshot s))"
  shows "i < next_id (restore_from_snapshot s)"
proof -
  let ?ids = "map entry_step_id (concat (map tn_entries (map restored_turn (List.enumerate 0 (ts_pulses s)))))"
  have "i \<in> set ?ids"
    using assms(2) by (simp add: entry_ids_def all_entries_def restore_from_snapshot_def Let_def)
  then have "i \<le> max_or_zero ?ids" by (rule max_or_zero_ge)
  moreover have "next_id (restore_from_snapshot s) = sat_add (max_or_zero ?ids) 1"
    by (simp add: next_id_def restore_from_snapshot_def Let_def)
  ultimately show ?thesis using assms(1) by (simp add: sat_add_def)
qed

text \<open>
  C23 [documents_stay_well_formed]. Take the document of a new task or of a restored one, and any sequence of
  turns, signals and turn ends from there. The finished turns are numbered by their position and none of their
  blocks is still streaming. The step ids of the entries that were added are strictly increasing, above those of every
  entry the document began with, and all are below the next one (until the 64-bit counter saturates); so in the document of a
  new task all ids are strictly increasing. (Among themselves the entries of a restored document can share an id, see
  \<open>restored_ids_collide\<close>.) If the task did not await an approval at the start, then whenever it awaits one there is an
  open turn with that approval pending and recorded as an entry.
\<close>

theorem documents_stay_well_formed:
  assumes "(\<exists>info. doc0 = begin_task info) \<or> (\<exists>s. doc0 = restore_from_snapshot s)"
    and "doc_step\<^sup>*\<^sup>* doc0 doc"
  shows "history_ok doc
    \<and> (\<exists>added. entry_ids doc = entry_ids doc0 @ added
         \<and> (next_id doc < u64_max \<longrightarrow>
              sorted_wrt (<) added \<and> (\<forall>i \<in> set (entry_ids doc0). \<forall>k \<in> set added. i < k)
              \<and> (\<forall>i \<in> set (entry_ids doc). i < next_id doc)))
    \<and> ((\<exists>info. doc0 = begin_task info) \<longrightarrow> entry_ids doc0 = [])
    \<and> (inf_status (td_info doc0) \<noteq> AwaitingApproval \<longrightarrow> approval_ok doc)"
proof -
  have fresh: "entry_ids (begin_task info) = []" "history_ok (begin_task info)" for info
    by (simp_all add: entry_ids_def all_entries_def begin_task_def history_ok_def)
  have "td_active_pulse doc0 = None"
    using assms(1) by (auto simp: begin_task_def restore_from_snapshot_def Let_def)
  then have "approval_ok doc" if "inf_status (td_info doc0) \<noteq> AwaitingApproval"
    using that by (intro doc_steps_approval [OF assms(2)]) (simp add: approval_ok_def)
  moreover have "history_ok doc"
    using assms(1) fresh(2) restored_turns_settled by (intro doc_steps_history [OF assms(2)]) auto
  moreover have below: "\<forall>i \<in> set (entry_ids doc0). i < next_id doc0" if "next_id doc0 < u64_max"
    using assms(1) that fresh(1) restored_ids_below by auto
  obtain added where added: "entry_ids doc = entry_ids doc0 @ added"
    and ids: "next_id doc < u64_max \<longrightarrow> next_id doc0 \<le> next_id doc
      \<and> sorted_wrt (<) added \<and> (\<forall>i \<in> set added. next_id doc0 \<le> i \<and> i < next_id doc)"
    using doc_steps_grow [OF assms(2)] unfolding grown_from_def by blast
  have "sorted_wrt (<) added \<and> (\<forall>i \<in> set (entry_ids doc0). \<forall>k \<in> set added. i < k)
      \<and> (\<forall>i \<in> set (entry_ids doc). i < next_id doc)" if "next_id doc < u64_max"
    using ids that below by (fastforce simp: added)
  moreover note fresh added
  ultimately show ?thesis by blast
qed

definition long_first_turn :: "turn_evidence_state list" where
  "long_first_turn =
     [\<lparr>tes_input = ''a'', tes_response = ''b'', tes_changed_files = [], tes_command_history = [],
       tes_tool_invocations =
         [\<lparr>ti_step_id = 3, ti_name = ''read_file'', ti_outcome = ''ok''\<rparr>,
          \<lparr>ti_step_id = 1000, ti_name = ''run'', ti_outcome = ''denied''\<rparr>],
       tes_tokens = pulse_tokens_default\<rparr>,
      \<lparr>tes_input = ''c'', tes_response = [], tes_changed_files = [], tes_command_history = [],
       tes_tool_invocations = [], tes_tokens = pulse_tokens_default\<rparr>]"

definition long_state :: task_state where
  "long_state = (task_state_new 0 ''t'')\<lparr>ts_pulses := long_first_turn\<rparr>"

text \<open>
  Restored turns are numbered from a thousand times their index:
  a turn with a tool call at step 1000, followed by another turn, gives the tool call and the input of the
  next turn the same step id.
\<close>

theorem restored_ids_collide:
  "\<not> distinct (map entry_step_id (all_entries (restore_from_snapshot long_state)))"
  by (simp add: all_entries_def restore_from_snapshot_def long_state_def long_first_turn_def
      restored_turn_def entries_from_evidence_def sat_mul_def sat_add_def u64_max_def Let_def
      task_state_new_def)

lemma long_state_restorable: "restorable (ts_pulses long_state)"
  by (simp add: restorable_def long_state_def long_first_turn_def)

theorem snapshot_round_trip_witness:
  "map (map call_view \<circ> tes_tool_invocations)
     (ts_pulses (persistable_snapshot rev (restore_from_snapshot long_state)))
   = [[(''read_file'', Complete), (''run'', Error_status)], []]"
proof -
  have "call_view \<lparr>ti_step_id = 3, ti_name = ''read_file'', ti_outcome = ''ok''\<rparr> = (''read_file'', Complete)"
    "call_view \<lparr>ti_step_id = 1000, ti_name = ''run'', ti_outcome = ''denied''\<rparr> = (''run'', Error_status)"
    by code_simp+
  then have "map (map call_view \<circ> tes_tool_invocations) (ts_pulses long_state)
      = [[(''read_file'', Complete), (''run'', Error_status)], []]"
    by (simp add: long_state_def long_first_turn_def)
  moreover have "map (map call_view \<circ> tes_tool_invocations)
      (ts_pulses (persistable_snapshot rev (restore_from_snapshot long_state)))
    = map (map call_view \<circ> tes_tool_invocations) (ts_pulses long_state)"
    using snapshot_round_trip [of rev, OF _ long_state_restorable refl]
    by (auto dest: arg_cong [where f = "map (snd \<circ> snd \<circ> snd \<circ> snd \<circ> snd)"] simp: comp_def)
  ultimately show ?thesis by simp
qed

theorem restored_counter_fresh_witness:
  "entry_step_id (UserInput_entry 1000 ''c'')
     < inf_next_step_id (td_info (restore_from_snapshot long_state))"
  by (rule restored_counter_fresh [OF long_state_restorable])
     (simp add: all_entries_def restore_from_snapshot_def long_state_def long_first_turn_def
      restored_turn_def entries_from_evidence_def sat_mul_def sat_add_def u64_max_def Let_def
      task_state_new_def)

lemma long_state_next: "next_id (restore_from_snapshot long_state) = 1001"
  by (simp add: next_id_def restore_from_snapshot_def long_state_def long_first_turn_def max_or_zero_def
      restored_turn_def entries_from_evidence_def sat_mul_def sat_add_def u64_max_def Let_def task_state_new_def)

theorem documents_stay_well_formed_witness:
  "\<exists>doc added. begin_turn ''next'' 5 Default_policy (restore_from_snapshot long_state) = Some doc
     \<and> entry_ids doc = entry_ids (restore_from_snapshot long_state) @ added \<and> added = [1001]
     \<and> history_ok doc \<and> approval_ok doc
     \<and> list_all (\<lambda>i. i < 1001) (entry_ids (restore_from_snapshot long_state))"
proof -
  let ?doc0 = "restore_from_snapshot long_state"
  have start: "td_active_pulse ?doc0 = None" "inf_status (td_info ?doc0) \<noteq> AwaitingApproval"
    by (simp_all add: restore_from_snapshot_def Let_def long_state_def task_state_new_def)
  then obtain doc where doc: "begin_turn ''next'' 5 Default_policy ?doc0 = Some doc"
    by (simp add: begin_turn_def Let_def alloc_step_def)
  from begin_turn_ids [OF doc] have next_ids: "entry_ids doc = entry_ids ?doc0 @ [1001]" "next_id doc = 1002"
    using doc start by (auto simp: ids_grow_def long_state_next sat_add_def u64_max_def begin_turn_def
        entry_ids_def all_entries_def Let_def alloc_step_def next_id_def [symmetric] split: if_splits)
  have reached: "doc_step\<^sup>*\<^sup>* ?doc0 doc" using step_begin [OF doc] by blast
  from documents_stay_well_formed [OF disjI2 [OF exI [of _ long_state, OF refl]] reached]
  obtain added where "history_ok doc" "approval_ok doc" "entry_ids doc = entry_ids ?doc0 @ added"
    "\<forall>i \<in> set (entry_ids ?doc0). \<forall>k \<in> set added. i < k"
    using start(2) next_ids(2) by (auto simp: u64_max_def)
  with doc next_ids(1) show ?thesis by (auto simp: list_all_iff)
qed

end
