(* ===== verification/Working_Set.thy ===== *)
theory Working_Set
  imports Task_Bridge
begin

text \<open>
  The working-set record and the join index: the sidecars of a task
  (\<open>src/runtime/task_state/working_set.rs\<close>, \<open>src/runtime/task_state/join_index.rs\<close>) and the condenser
  operations that write them (\<open>src/runtime/task_document/task_state_bridge.rs\<close>).

  Reading a sidecar gives an error, nothing or a record, and saving it may fail: both outcomes are arguments
  of the operations. A path is its text; two paths are the same key when their components agree, as in the
  ordering of \<open>PathBuf\<close> on Unix.
\<close>

section \<open>Paths as map keys\<close>

text \<open>The components of a path with the rank of their kind: root, current directory (kept only in front),
  parent directory, name.\<close>

definition component :: "string \<Rightarrow> nat \<times> string" where
  "component part = (if part = ''..'' then (2, []) else (3, part))"

definition path_components :: "string \<Rightarrow> (nat \<times> string) list" where
  "path_components path =
     (let parts = split_char (CHR ''/'') path;
          names = map component (filter (\<lambda>p. p \<noteq> [] \<and> p \<noteq> ''.'') parts)
      in if starts_with path ''/'' then (0, []) # names
         else if parts \<noteq> [] \<and> hd parts = ''.'' then (1, []) # names
         else names)"

section \<open>The working-set record\<close>

record recorded_decision =
  rd_rationale :: string
  rd_source_reference :: string

record path_change =
  pc_path :: string
  pc_git_identity :: string

record working_set_record =
  ws_schema_version :: nat
  ws_updated_at :: int
  ws_objective :: string
  ws_constraints :: "string list"
  ws_decisions :: "recorded_decision list"
  ws_changed_paths :: "path_change list"
  ws_verified_results :: "string list"
  ws_unresolved_questions :: "string list"
  ws_active_plan :: string
  ws_next_action :: string

definition WORKING_SET_SCHEMA_VERSION :: nat where
  "WORKING_SET_SCHEMA_VERSION = 1"

definition working_set_new :: "int \<Rightarrow> string \<Rightarrow> working_set_record" where
  "working_set_new now objective =
     \<lparr>ws_schema_version = WORKING_SET_SCHEMA_VERSION, ws_updated_at = now, ws_objective = objective,
      ws_constraints = [], ws_decisions = [], ws_changed_paths = [], ws_verified_results = [],
      ws_unresolved_questions = [], ws_active_plan = [], ws_next_action = []\<rparr>"

definition retain_durable_objective ::
  "working_set_record \<Rightarrow> working_set_record \<Rightarrow> working_set_record" where
  "retain_durable_objective prior r =
     (if trim (ws_objective prior) = [] then r else r\<lparr>ws_objective := ws_objective prior\<rparr>)"

definition has_reference :: "string \<Rightarrow> recorded_decision list \<Rightarrow> bool" where
  "has_reference reference ds = list_ex (\<lambda>d. rd_source_reference d = reference) ds"

definition retain_decision :: "recorded_decision \<Rightarrow> recorded_decision list \<Rightarrow> recorded_decision list" where
  "retain_decision d ds =
     (if trim (rd_source_reference d) = [] then ds
      else if has_reference (rd_source_reference d) ds then ds
      else ds @ [d])"

definition retain_referenced_decisions ::
  "working_set_record \<Rightarrow> working_set_record \<Rightarrow> working_set_record" where
  "retain_referenced_decisions prior r =
     r\<lparr>ws_decisions := fold retain_decision (ws_decisions prior) (ws_decisions r)\<rparr>"

definition line :: "string \<Rightarrow> string" where
  "line s = s @ [newline]"

definition push_labeled_line :: "string \<Rightarrow> string \<Rightarrow> string" where
  "push_labeled_line label value =
     (let v = trim value in if v = [] then [] else line (label @ '': '' @ v))"

definition push_string_list :: "string \<Rightarrow> string list \<Rightarrow> string" where
  "push_string_list label values =
     (let vs = filter (\<lambda>v. v \<noteq> []) (map trim values) in
      if vs = [] then [] else line (label @ '':'') @ concat (map (\<lambda>v. line (''- '' @ v)) vs))"

definition annotated :: "string \<Rightarrow> string \<Rightarrow> string" where
  "annotated body note =
     line (''- '' @ body @ (if trim note = [] then [] else '' ('' @ trim note @ '')''))"

definition as_prompt_block :: "working_set_record \<Rightarrow> string" where
  "as_prompt_block r =
     line ''[working-set record: start]''
     @ push_labeled_line ''objective'' (ws_objective r)
     @ push_string_list ''constraints'' (ws_constraints r)
     @ (if ws_decisions r = [] then []
        else line ''decisions:''
          @ concat (map (\<lambda>d. annotated (trim (rd_rationale d)) (rd_source_reference d)) (ws_decisions r)))
     @ (if ws_changed_paths r = [] then []
        else line ''changed_paths:''
          @ concat (map (\<lambda>c. annotated (pc_path c) (pc_git_identity c)) (ws_changed_paths r)))
     @ push_string_list ''verified_results'' (ws_verified_results r)
     @ push_string_list ''unresolved_questions'' (ws_unresolved_questions r)
     @ push_labeled_line ''active_plan'' (ws_active_plan r)
     @ push_labeled_line ''next_action'' (ws_next_action r)
     @ ''[working-set record: end]''"

section \<open>Projection of a document\<close>

definition nonblank :: "string \<Rightarrow> string option" where
  "nonblank s = (if trim s = [] then None else Some (trim s))"

definition nonempty_active_input :: "task_document \<Rightarrow> string option" where
  "nonempty_active_input doc = Option.bind (td_active_pulse doc) (nonblank \<circ> at_input)"

definition or_else :: "'a option \<Rightarrow> 'a option \<Rightarrow> 'a option" where
  "or_else a b = (case a of Some x \<Rightarrow> Some x | None \<Rightarrow> b)"

definition or_empty :: "string option \<Rightarrow> string" where
  "or_empty a = (case a of Some s \<Rightarrow> s | None \<Rightarrow> [])"

definition first_user_input :: "task_document \<Rightarrow> string" where
  "first_user_input doc =
     or_empty (or_else (find_map (nonblank \<circ> tn_input) (td_completed_turns doc)) (nonempty_active_input doc))"

definition last_user_input :: "task_document \<Rightarrow> string" where
  "last_user_input doc =
     or_empty (or_else (nonempty_active_input doc)
       (find_map (nonblank \<circ> tn_input) (rev (td_completed_turns doc))))"

definition note_changed_path ::
  "string \<Rightarrow> ((nat \<times> string) list \<times> string) list \<Rightarrow> ((nat \<times> string) list \<times> string) list" where
  "note_changed_path path m =
     (if map_of m (path_components path) = None then bt_update (path_components path) path m else m)"

definition document_changed_files :: "task_document \<Rightarrow> string list" where
  "document_changed_files doc =
     concat (map tn_changed_files (td_completed_turns doc))
     @ (case td_active_pulse doc of None \<Rightarrow> [] | Some a \<Rightarrow> at_changed_files a)"

definition unique_changed_paths :: "task_document \<Rightarrow> path_change list" where
  "unique_changed_paths doc =
     map (\<lambda>(k, path). \<lparr>pc_path = path, pc_git_identity = []\<rparr>)
       (fold note_changed_path (document_changed_files doc) [])"

definition verified_results :: "task_document \<Rightarrow> string list" where
  "verified_results doc =
     filter (\<lambda>t. trim t \<noteq> [])
       (map (extract_final_text \<circ> tn_entries) (td_completed_turns doc)
        @ (case td_active_pulse doc of None \<Rightarrow> [] | Some a \<Rightarrow> [extract_final_text (at_entries a)]))"

definition plan_of_note :: "session_note \<Rightarrow> string option" where
  "plan_of_note n =
     (let content = trim (sn_content n) in
      if starts_with content ''[plan]'' then nonblank (drop 6 content) else None)"

definition last_opt :: "'a list \<Rightarrow> 'a option" where
  "last_opt xs = (if xs = [] then None else Some (last xs))"

definition active_plan :: "task_document \<Rightarrow> string" where
  "active_plan doc =
     or_empty (or_else (find_map plan_of_note (rev (td_session_notes doc)))
       (last_opt (verified_results doc)))"

definition project_working_set :: "int \<Rightarrow> task_document \<Rightarrow> working_set_record" where
  "project_working_set now doc =
     (working_set_new now (first_user_input doc))\<lparr>
       ws_constraints := filter (\<lambda>c. c \<noteq> []) (map (trim \<circ> sn_content) (td_session_notes doc)),
       ws_changed_paths := unique_changed_paths doc,
       ws_verified_results := verified_results doc,
       ws_active_plan := active_plan doc,
       ws_next_action := last_user_input doc\<rparr>"

definition write_working_set ::
  "int \<Rightarrow> 'e + working_set_record option \<Rightarrow> (working_set_record \<Rightarrow> 'e option) \<Rightarrow> task_document
     \<Rightarrow> 'e + working_set_record" where
  "write_working_set now loaded save doc =
     (let fresh = project_working_set now doc in
      case loaded of
        Inl err \<Rightarrow> Inl err
      | Inr prior \<Rightarrow>
          (let r = (case prior of
                      Some p \<Rightarrow> retain_referenced_decisions p (retain_durable_objective p fresh)
                    | None \<Rightarrow> fresh)
           in case save r of Some err \<Rightarrow> Inl err | None \<Rightarrow> Inr r))"

end
