(* ===== verification/Join_Index.thy ===== *)
theory Join_Index
  imports Working_Set
begin

text \<open>
  The join index of a parent task (\<open>src/runtime/task_state/join_index.rs\<close>): the handoffs of session
  tasks, of which an entry replaced by another is not live, and the condenser operation that records the live
  ones as decisions of the working set. The lemmas show that replacement is permanent and that
  what a reader of the working set finds under a reference never changes.
\<close>

section \<open>Definitions\<close>

record live_join_entry =
  je_id :: string
  je_agent_id :: string
  je_body :: string
  je_supersedes :: "string list"

record join_index =
  ji_schema_version :: nat
  ji_entries :: "(string \<times> live_join_entry) list"

definition JOIN_INDEX_SCHEMA_VERSION :: nat where
  "JOIN_INDEX_SCHEMA_VERSION = 1"

definition join_index_new :: join_index where
  "join_index_new = \<lparr>ji_schema_version = JOIN_INDEX_SCHEMA_VERSION, ji_entries = []\<rparr>"

definition add_superseded :: "string \<Rightarrow> string list \<Rightarrow> string list" where
  "add_superseded i existing = (if i \<in> set existing then existing else existing @ [i])"

definition post :: "string \<Rightarrow> string \<Rightarrow> string \<Rightarrow> string list \<Rightarrow> join_index \<Rightarrow> join_index" where
  "post i agent_id body supersedes index =
     (let entry = (case map_of (ji_entries index) i of
                     Some e \<Rightarrow> e
                   | None \<Rightarrow> \<lparr>je_id = i, je_agent_id = agent_id, je_body = body, je_supersedes = []\<rparr>)
      in index\<lparr>ji_entries := bt_update i
           (entry\<lparr>je_agent_id := agent_id, je_body := body,
                  je_supersedes := fold add_superseded supersedes (je_supersedes entry)\<rparr>)
           (ji_entries index)\<rparr>)"

definition live_entries :: "join_index \<Rightarrow> live_join_entry list" where
  "live_entries index =
     filter (\<lambda>e. \<not> list_ex (\<lambda>other. je_id e \<in> set (je_supersedes other)) (map snd (ji_entries index)))
       (map snd (ji_entries index))"

definition evidence_decision ::
  "live_join_entry \<Rightarrow> recorded_decision list \<Rightarrow> recorded_decision list" where
  "evidence_decision e ds =
     (if trim (je_id e) = [] then ds
      else if has_reference (je_id e) ds then ds
      else ds @ [\<lparr>rd_rationale = je_body e, rd_source_reference = je_id e\<rparr>])"

definition record_join_evidence ::
  "int \<Rightarrow> 'e + working_set_record option \<Rightarrow> (working_set_record \<Rightarrow> 'e option)
     \<Rightarrow> live_join_entry list \<Rightarrow> 'e + working_set_record" where
  "record_join_evidence now loaded save entries =
     (case loaded of
        Inl err \<Rightarrow> Inl err
      | Inr prior \<Rightarrow>
          (let r0 = (case prior of Some p \<Rightarrow> p | None \<Rightarrow> working_set_new now []);
               r = r0\<lparr>ws_decisions := fold evidence_decision entries (ws_decisions r0)\<rparr>
           in case save r of Some err \<Rightarrow> Inl err | None \<Rightarrow> Inr r))"

section \<open>The index\<close>

definition index_ok :: "join_index \<Rightarrow> bool" where
  "index_ok index \<longleftrightarrow>
     bt_sorted (ji_entries index)
     \<and> (\<forall>k e. map_of (ji_entries index) k = Some e \<longrightarrow> je_id e = k \<and> distinct (je_supersedes e))"

lemma fold_add_superseded:
  "set (fold add_superseded xs ys) = set xs \<union> set ys"
  "distinct ys \<Longrightarrow> distinct (fold add_superseded xs ys)"
  by (induction xs arbitrary: ys) (auto simp: add_superseded_def)

lemma index_lookup:
  "index_ok index \<Longrightarrow> (k, e) \<in> set (ji_entries index) \<longleftrightarrow> map_of (ji_entries index) k = Some e"
  by (simp add: index_ok_def strict_sorted_iff)

lemma index_entry:
  "index_ok index \<Longrightarrow> map_of (ji_entries index) k = Some e \<Longrightarrow> je_id e = k \<and> distinct (je_supersedes e)"
  by (simp add: index_ok_def)

text \<open>An id is superseded when some entry names it.\<close>

definition superseded :: "join_index \<Rightarrow> string \<Rightarrow> bool" where
  "superseded index i \<longleftrightarrow> (\<exists>k e. map_of (ji_entries index) k = Some e \<and> i \<in> set (je_supersedes e))"

lemma live_entries_iff:
  assumes "index_ok index"
  shows "e \<in> set (live_entries index)
    \<longleftrightarrow> map_of (ji_entries index) (je_id e) = Some e \<and> \<not> superseded index (je_id e)"
proof -
  have snd_iff: "e \<in> snd ` set (ji_entries index) \<longleftrightarrow> (\<exists>k. map_of (ji_entries index) k = Some e)" for e
    using index_lookup [OF assms] by force
  have "list_ex (\<lambda>other. i \<in> set (je_supersedes other)) (map snd (ji_entries index)) \<longleftrightarrow> superseded index i" for i
    unfolding list_ex_iff set_map superseded_def by (metis snd_iff)
  moreover have "(\<exists>k. map_of (ji_entries index) k = Some e) \<longleftrightarrow> map_of (ji_entries index) (je_id e) = Some e"
    using index_entry [OF assms] by metis
  ultimately show ?thesis by (simp add: live_entries_def snd_iff)
qed

lemma live_entries_distinct:
  assumes "index_ok index"
  shows "distinct (map je_id (live_entries index))"
proof -
  have "map je_id (map snd (ji_entries index)) = map fst (ji_entries index)"
    using index_entry [OF assms] index_lookup [OF assms] by (auto simp: list.map_comp)
  moreover have "distinct (map fst (ji_entries index))"
    using assms by (simp add: index_ok_def strict_sorted_iff)
  ultimately have "distinct (map je_id (map snd (ji_entries index)))" by (simp del: map_map)
  then show ?thesis unfolding live_entries_def by (rule distinct_map_filter)
qed

definition posted :: "join_index \<Rightarrow> string \<Rightarrow> string \<Rightarrow> string \<Rightarrow> string list \<Rightarrow> live_join_entry" where
  "posted index i agent_id body supersedes =
     \<lparr>je_id = i, je_agent_id = agent_id, je_body = body,
      je_supersedes = fold add_superseded supersedes
        (case map_of (ji_entries index) i of Some e \<Rightarrow> je_supersedes e | None \<Rightarrow> [])\<rparr>"

lemma lookup_post:
  assumes "index_ok index"
  shows "map_of (ji_entries (post i agent_id body supersedes index)) k =
    (if k = i then Some (posted index i agent_id body supersedes) else map_of (ji_entries index) k)"
  using assms index_entry [OF assms, of i]
  by (auto simp: post_def posted_def Let_def index_ok_def map_of_bt_update split: option.splits)

lemma index_ok_new: "index_ok join_index_new"
  by (simp add: index_ok_def join_index_new_def)

lemma posted_supersedes:
  assumes "index_ok index"
  shows "set (je_supersedes (posted index i agent_id body supersedes)) = set supersedes
      \<union> (case map_of (ji_entries index) i of Some e \<Rightarrow> set (je_supersedes e) | None \<Rightarrow> {})"
    "distinct (je_supersedes (posted index i agent_id body supersedes))"
  using index_entry [OF assms, of i]
  by (auto simp: posted_def fold_add_superseded split: option.splits)

lemma index_ok_post:
  assumes "index_ok index"
  shows "index_ok (post i agent_id body supersedes index)"
proof -
  have "bt_sorted (ji_entries (post i agent_id body supersedes index))"
    using assms by (simp add: index_ok_def post_def Let_def bt_sorted_update)
  with posted_supersedes(2) [OF assms] index_entry [OF assms] show ?thesis
    by (simp add: index_ok_def lookup_post [OF assms] posted_def)
qed

lemma superseded_post:
  assumes "index_ok index"
  shows "superseded (post i agent_id body supersedes index) x
    \<longleftrightarrow> superseded index x \<or> x \<in> set supersedes" (is "?new \<longleftrightarrow> ?old \<or> ?added")
proof
  assume ?new
  then show "?old \<or> ?added"
    unfolding superseded_def lookup_post [OF assms]
    by (auto simp: posted_supersedes [OF assms] split: if_splits option.splits)
next
  assume "?old \<or> ?added"
  then show ?new
  proof
    assume ?old
    then obtain k e where "map_of (ji_entries index) k = Some e" "x \<in> set (je_supersedes e)"
      by (auto simp: superseded_def)
    then show ?new
      unfolding superseded_def lookup_post [OF assms]
      by (cases "k = i") (auto simp: posted_supersedes [OF assms] intro: exI [of _ k])
  next
    assume ?added
    then show ?new
      unfolding superseded_def lookup_post [OF assms]
      by (auto simp: posted_supersedes [OF assms] intro: exI [of _ i])
  qed
qed

section \<open>Decisions of the working set\<close>

text \<open>What a reader finds under a reference: the first decision with it.\<close>

definition decision_at :: "recorded_decision list \<Rightarrow> string \<Rightarrow> recorded_decision option" where
  "decision_at ds = map_of (map (\<lambda>d. (rd_source_reference d, d)) ds)"

lemma decision_at_append:
  "decision_at (ds @ es) x = (case decision_at ds x of Some d \<Rightarrow> Some d | None \<Rightarrow> decision_at es x)"
  by (simp add: decision_at_def map_add_def split: option.split)

lemma decision_at_simps [simp]:
  "decision_at [] x = None"
  "decision_at (d # ds) x = (if rd_source_reference d = x then Some d else decision_at ds x)"
  by (simp_all add: decision_at_def)

lemma has_reference_iff: "has_reference x ds \<longleftrightarrow> decision_at ds x \<noteq> None"
  by (force simp: has_reference_def list_ex_iff decision_at_def map_of_eq_None_iff)

lemma decision_at_retain:
  "trim x \<noteq> [] \<Longrightarrow> decision_at (fold retain_decision ds acc) x =
     (case decision_at acc x of Some d \<Rightarrow> Some d | None \<Rightarrow> decision_at ds x)"
  by (induction ds arbitrary: acc)
     (auto simp: retain_decision_def has_reference_iff decision_at_append split: option.splits)

lemma decision_at_evidence:
  "decision_at ds x = Some d \<Longrightarrow> decision_at (fold evidence_decision es ds) x = Some d"
  by (induction es arbitrary: ds)
     (auto simp: evidence_decision_def decision_at_append)

text \<open>The two operations that write the sidecar; a save that fails leaves the file as it was.\<close>

datatype sidecar_op = Write_working_set int task_document | Join_evidence int "live_join_entry list"

definition sidecar_step ::
  "sidecar_op \<times> bool \<Rightarrow> working_set_record option \<Rightarrow> working_set_record option" where
  "sidecar_step opf sidecar =
     (let save = (\<lambda>r. if snd opf then None else Some ()) in
      case (case fst opf of
              Write_working_set now doc \<Rightarrow> write_working_set now (Inr sidecar) save doc
            | Join_evidence now entries \<Rightarrow> record_join_evidence now (Inr sidecar) save entries) of
        Inr r \<Rightarrow> Some r
      | Inl err \<Rightarrow> sidecar)"

definition durable :: "working_set_record \<Rightarrow> working_set_record \<Rightarrow> bool" where
  "durable r r' \<longleftrightarrow>
     (trim (ws_objective r) \<noteq> [] \<longrightarrow> ws_objective r' = ws_objective r)
     \<and> (\<forall>x d. trim x \<noteq> [] \<longrightarrow> decision_at (ws_decisions r) x = Some d
          \<longrightarrow> decision_at (ws_decisions r') x = Some d)"

lemma durable_refl [simp]: "durable r r"
  by (simp add: durable_def)

lemma durable_trans: "durable r r1 \<Longrightarrow> durable r1 r2 \<Longrightarrow> durable r r2"
  by (auto simp: durable_def)

lemma sidecar_step_durable: "\<exists>r'. sidecar_step opf (Some r) = Some r' \<and> durable r r'"
proof (cases "snd opf")
  case False
  then show ?thesis
    by (auto simp: sidecar_step_def write_working_set_def record_join_evidence_def Let_def
        split: sidecar_op.split)
next
  case True
  then show ?thesis
    by (cases "fst opf")
       (auto simp: sidecar_step_def write_working_set_def record_join_evidence_def Let_def durable_def
         retain_referenced_decisions_def retain_durable_objective_def decision_at_retain
         project_working_set_def working_set_new_def decision_at_evidence)
qed

text \<open>
  Once a working set has an objective it keeps it, and what is recorded under a
  reference stays the same record, through any sequence of working-set writes (each projecting some
  document) and join evidence, including writes that fail.
\<close>

theorem working_set_durable:
  "\<exists>r'. fold sidecar_step ops (Some r) = Some r'
    \<and> (trim (ws_objective r) \<noteq> [] \<longrightarrow> ws_objective r' = ws_objective r)
    \<and> (\<forall>x d. trim x \<noteq> [] \<and> decision_at (ws_decisions r) x = Some d
         \<longrightarrow> decision_at (ws_decisions r') x = Some d)"
proof -
  have "\<exists>r'. fold sidecar_step ops (Some r) = Some r' \<and> durable r r'"
  proof (induction ops arbitrary: r)
    case (Cons opf ops)
    obtain r1 where "sidecar_step opf (Some r) = Some r1" "durable r r1"
      using sidecar_step_durable by blast
    with Cons.IH [of r1] show ?case by (auto intro: durable_trans)
  qed simp
  then show ?thesis by (auto simp: durable_def)
qed

definition demo_record :: working_set_record where
  "demo_record =
     (working_set_new 0 ''ship'')\<lparr>
       ws_decisions := [\<lparr>rd_rationale = ''a'', rd_source_reference = ''m1''\<rparr>]\<rparr>"

definition demo_entry :: live_join_entry where
  "demo_entry = \<lparr>je_id = ''m1'', je_agent_id = ''b'', je_body = ''other'', je_supersedes = []\<rparr>"

lemma demo_trims: "trim ''ship'' \<noteq> []" "trim ''m1'' \<noteq> []"
  by code_simp+

theorem working_set_durable_witness:
  "\<exists>r'. fold sidecar_step
      [(Join_evidence 1 [demo_entry], True), (Write_working_set 2 (begin_task demo_info), True),
       (Join_evidence 3 [], False)] (Some demo_record) = Some r'
    \<and> ws_objective r' = ''ship''
    \<and> decision_at (ws_decisions r') ''m1'' = Some \<lparr>rd_rationale = ''a'', rd_source_reference = ''m1''\<rparr>"
proof -
  have "trim (ws_objective demo_record) \<noteq> []"
    and "decision_at (ws_decisions demo_record) ''m1''
      = Some \<lparr>rd_rationale = ''a'', rd_source_reference = ''m1''\<rparr>"
    and "ws_objective demo_record = ''ship''"
    by (simp_all add: demo_record_def working_set_new_def demo_trims)
  with demo_trims(2) working_set_durable [of "[(Join_evidence 1 [demo_entry], True),
      (Write_working_set 2 (begin_task demo_info), True), (Join_evidence 3 [], False)]" demo_record]
  show ?thesis by metis
qed

end
