(* ===== verification/Subtasks.thy ===== *)
theory Subtasks
  imports Join_Index
begin

text \<open>
  The subtask orchestrator (\<open>src/app/subtask_orchestrator/mod.rs\<close>, data from \<open>src/agents.rs\<close>): a team of agents
  works for a parent task, all at once or one after another, and their handoffs are joined.

  The parent's state file, the join index and the working set are arguments and results; a failing read
  or lease is an error value. Acquiring a worktree lease (git and the file system), creating the directory and
  writing the parent's file, the identifiers and the clock are the parameter record \<open>orchestrator_env\<close>; the
  identifier and the clock readings of a task are those of the position it takes in the list of tasks. A result
  with a state is a state that was written; when the directory cannot be created or the file cannot be written,
  the result is the error and the file is not the new state.
\<close>

section \<open>Teams\<close>

datatype isolation_policy = Shared | Worktree

datatype team_scheduler = FanOutJoin | Sequential

record agent_profile =
  agp_name :: string
  agp_profile :: string
  agp_isolation :: isolation_policy
  agp_max_parallel_tasks :: nat
  agp_allowed_capabilities :: "string list"

record team_definition =
  tm_name :: string
  tm_members :: "string list"
  tm_scheduler :: team_scheduler

record orchestrator_env =
  oe_uuid :: "nat \<Rightarrow> string"
  oe_clock :: "nat \<Rightarrow> nat"
  oe_touch_clock :: "nat \<Rightarrow> nat"
  oe_lease :: "string \<Rightarrow> string + string"
  oe_create_dir :: "string option" \<comment> \<open>the error of creating the directory of the states\<close>
  oe_save :: "task_state \<Rightarrow> string option" \<comment> \<open>the error of writing a state\<close>

datatype orchestrator_error =
  NoMembers string | AgentNotFound string | LeaseFailed string | LoadFailed string | DirFailed string | SaveFailed string

record join_summary =
  jsm_message_id :: string
  jsm_agent_id :: string
  jsm_summary :: string
  jsm_supersedes :: "string list"

record join_outcome =
  jo_all_done :: bool
  jo_completed :: nat
  jo_failed :: nat
  jo_cancelled :: nat
  jo_summaries :: "join_summary list"

definition find_agent :: "agent_profile list \<Rightarrow> string \<Rightarrow> orchestrator_error + agent_profile" where
  "find_agent agents name =
     (case List.find (\<lambda>a. agp_name a = name) agents of
        Some a \<Rightarrow> Inr a
      | None \<Rightarrow> Inl (AgentNotFound name))"

text \<open>Creating the session task of one member and adding it to the parent.\<close>

definition spawn_member ::
  "orchestrator_env \<Rightarrow> string \<Rightarrow> agent_profile list \<Rightarrow> string \<Rightarrow> bool \<Rightarrow> string \<Rightarrow> task_state
     \<Rightarrow> orchestrator_error + string \<times> task_state" where
  "spawn_member E parent_task_id agents prompt sequential member_name state =
     (case find_agent agents member_name of
        Inl err \<Rightarrow> Inl err
      | Inr agent \<Rightarrow>
          (let n = length (ts_session_tasks state);
               t = stamp_join_supersedes (ts_session_tasks state) sequential
                     (session_task_new (oe_uuid E n) (oe_clock E n) parent_task_id member_name prompt None)
           in case (if agp_isolation agent = Worktree
                    then (case oe_lease E (stk_id t) of
                            Inl err \<Rightarrow> Inl (LeaseFailed err)
                          | Inr path \<Rightarrow> Inr (t\<lparr>stk_worktree_path := Some path\<rparr>))
                    else Inr t) of
                Inl err \<Rightarrow> Inl err
              | Inr t' \<Rightarrow> Inr (stk_id t, add_session_task (oe_touch_clock E n) t' state)))"

fun spawn_members ::
  "orchestrator_env \<Rightarrow> string \<Rightarrow> agent_profile list \<Rightarrow> string \<Rightarrow> bool \<Rightarrow> string list \<Rightarrow> task_state
     \<Rightarrow> orchestrator_error + string list \<times> task_state" where
  "spawn_members E parent agents prompt sequential [] state = Inr ([], state)"
| "spawn_members E parent agents prompt sequential (name # names) state =
     (case spawn_member E parent agents prompt sequential name state of
        Inl err \<Rightarrow> Inl err
      | Inr (i, state') \<Rightarrow>
          (case spawn_members E parent agents prompt sequential names state' of
             Inl err \<Rightarrow> Inl err
           | Inr (ids, state'') \<Rightarrow> Inr (i # ids, state'')))"

text \<open>\<open>parent_state.save(\<dots>)?\<close>: the result stands when the new state of the parent was written.\<close>

definition saved :: "orchestrator_env \<Rightarrow> 'a \<Rightarrow> task_state \<Rightarrow> orchestrator_error + 'a" where
  "saved E r state = (case oe_save E state of Some err \<Rightarrow> Inl (SaveFailed err) | None \<Rightarrow> Inr r)"

text \<open>\<open>loaded\<close> is what reading the parent's state file gives, nothing when there is no file.\<close>

definition schedule_team ::
  "orchestrator_env \<Rightarrow> nat \<Rightarrow> string \<Rightarrow> team_definition \<Rightarrow> agent_profile list \<Rightarrow> string
     \<Rightarrow> (string + task_state) option \<Rightarrow> orchestrator_error + string list \<times> task_state" where
  "schedule_team E now parent_task_id team agents prompt loaded =
     (if tm_members team = [] then Inl (NoMembers (tm_name team))
      else
        (case loaded of
           Some (Inl err) \<Rightarrow> Inl (LoadFailed err)
         | _ \<Rightarrow>
             (let state = (case loaded of Some (Inr s) \<Rightarrow> s | _ \<Rightarrow> task_state_new now parent_task_id);
                  members_to_create =
                    (case tm_scheduler team of
                       FanOutJoin \<Rightarrow> tm_members team
                     | Sequential \<Rightarrow> take 1 (tm_members team))
              in case spawn_members E parent_task_id agents prompt (tm_scheduler team = Sequential)
                        members_to_create state of
                   Inl err \<Rightarrow> Inl err
                 | Inr (ids, state') \<Rightarrow>
                     (case oe_create_dir E of
                        Some err \<Rightarrow> Inl (DirFailed err)
                      | None \<Rightarrow> saved E (ids, state') state'))))"

text \<open>The scan of \<open>advance_sequential\<close>: the first member without a task, unless a task before it is live.\<close>

fun next_member :: "session_task list \<Rightarrow> string list \<Rightarrow> string option" where
  "next_member tasks [] = None"
| "next_member tasks (name # names) =
     (case List.find (\<lambda>t. stk_agent_id t = name) tasks of
        None \<Rightarrow> Some name
      | Some t \<Rightarrow> if is_live (stk_lifecycle_state t) then None else next_member tasks names)"

definition advance_sequential ::
  "orchestrator_env \<Rightarrow> string \<Rightarrow> team_definition \<Rightarrow> agent_profile list \<Rightarrow> string \<Rightarrow> string + task_state
     \<Rightarrow> orchestrator_error + (string \<times> task_state) option" where
  "advance_sequential E parent_task_id team agents prompt loaded =
     (case loaded of
        Inl err \<Rightarrow> Inl (LoadFailed err)
      | Inr state \<Rightarrow>
          (case next_member (ts_session_tasks state) (tm_members team) of
             None \<Rightarrow> Inr None
           | Some name \<Rightarrow>
               (case spawn_member E parent_task_id agents prompt True name state of
                  Inl err \<Rightarrow> Inl err
                | Inr (i, state') \<Rightarrow> saved E (Some (i, state')) state')))"

section \<open>Joining\<close>

text \<open>The ids of the earlier tasks of the same agent that handed something over.\<close>

definition production_supersedes :: "session_task \<Rightarrow> session_task list \<Rightarrow> string list" where
  "production_supersedes task all =
     (if list_ex (\<lambda>c. stk_id c = stk_id task) all then
        fold (\<lambda>prior ids.
            if stk_lifecycle_state prior = Completed_task \<and> stk_handoff_summary prior \<noteq> None
               \<and> stk_agent_id prior = stk_agent_id task \<and> stk_id prior \<notin> set ids
            then ids @ [stk_id prior] else ids)
          (takeWhile (\<lambda>c. stk_id c \<noteq> stk_id task) all) (stk_supersedes task)
      else stk_supersedes task)"

definition count_task :: "session_task_status \<Rightarrow> session_task list \<Rightarrow> nat" where
  "count_task status tasks = length (filter (\<lambda>t. stk_lifecycle_state t = status) tasks)"

definition summary_of_task :: "session_task list \<Rightarrow> session_task \<Rightarrow> join_summary option" where
  "summary_of_task all task =
     (if stk_lifecycle_state task = Completed_task
      then map_option (\<lambda>summary.
             \<lparr>jsm_message_id = stk_id task, jsm_agent_id = stk_agent_id task, jsm_summary = summary,
              jsm_supersedes = production_supersedes task all\<rparr>) (stk_handoff_summary task)
      else None)"

definition poll_fan_out_join :: "task_state \<Rightarrow> join_outcome option" where
  "poll_fan_out_join state =
     (let tasks = ts_session_tasks state in
      if tasks = [] then None
      else if list_ex (is_live \<circ> stk_lifecycle_state) tasks then None
      else Some
        \<lparr>jo_all_done = True, jo_completed = count_task Completed_task tasks,
         jo_failed = count_task Failed_task tasks, jo_cancelled = count_task Cancelled_task tasks,
         jo_summaries = List.map_filter (summary_of_task tasks) tasks\<rparr>)"

definition post_summary :: "join_summary \<Rightarrow> join_index \<Rightarrow> join_index" where
  "post_summary s = post (jsm_message_id s) (jsm_agent_id s) (jsm_summary s) (jsm_supersedes s)"

definition format_live_handoff :: "live_join_entry list \<Rightarrow> string" where
  "format_live_handoff entries =
     join_with [newline]
       (map (\<lambda>e. if je_agent_id e = [] then je_body e
                 else ''['' @ je_agent_id e @ '']: '' @ je_body e) entries)"

text \<open>\<open>apply_join_outcome\<close> with readable files: the index, the parent's state and the working set before and
  after, and the live entries.\<close>

definition apply_join_outcome ::
  "int \<Rightarrow> nat \<Rightarrow> join_outcome \<Rightarrow> join_index option \<times> task_state \<times> working_set_record option
     \<Rightarrow> live_join_entry list \<times> join_index option \<times> task_state \<times> working_set_record option" where
  "apply_join_outcome now now_ms outcome st =
     (case st of (index, state, working_set) \<Rightarrow>
        if jo_summaries outcome = [] then ([], st)
        else
          (let merge = fold post_summary (jo_summaries outcome)
                         (case index of Some i \<Rightarrow> i | None \<Rightarrow> join_index_new);
               live = live_entries merge;
               state' = touch now_ms (state\<lparr>ts_handoff_summary := Some (format_live_handoff live)\<rparr>);
               ws = record_join_evidence now (Inr working_set) (\<lambda>r. None :: unit option) live
           in (live, Some merge, state', (case ws of Inr r \<Rightarrow> Some r | Inl err \<Rightarrow> working_set))))"

definition live_session_task_count :: "task_state \<Rightarrow> nat" where
  "live_session_task_count state =
     length (filter (is_live \<circ> stk_lifecycle_state) (ts_session_tasks state))"

definition is_team_schedule_exhausted :: "team_definition \<Rightarrow> task_state \<Rightarrow> bool" where
  "is_team_schedule_exhausted team state =
     list_all (\<lambda>name.
       list_ex (\<lambda>t. stk_agent_id t = name \<and> \<not> is_live (stk_lifecycle_state t)) (ts_session_tasks state))
       (tm_members team)"

end
