(* ===== verification/Subtask_Laws.thy ===== *)
theory Subtask_Laws
  imports Subtasks
begin

text \<open>
  What the orchestrator guarantees: a sequential team works in the order of its members, one at a time, and
  gets to its end; a join keeps exactly the latest handoff of each agent, or the very last one of a sequential
  team.
\<close>

section \<open>The sequential schedule\<close>

text \<open>The states of a parent task whose team is scheduled sequentially: the first task is scheduled, the
  orchestrator advances, and a live task changes its status.\<close>

inductive seq_reachable ::
  "orchestrator_env \<Rightarrow> string \<Rightarrow> team_definition \<Rightarrow> agent_profile list \<Rightarrow> string \<Rightarrow> task_state \<Rightarrow> bool"
  for E parent team agents prompt where
  seq_start: "tm_scheduler team = Sequential \<Longrightarrow>
     schedule_team E now parent team agents prompt None = Inr (ids, state) \<Longrightarrow>
     seq_reachable E parent team agents prompt state"
| seq_advance: "seq_reachable E parent team agents prompt state \<Longrightarrow>
     advance_sequential E parent team agents prompt (Inr state) = Inr (Some (i, state')) \<Longrightarrow>
     seq_reachable E parent team agents prompt state'"
| seq_update: "seq_reachable E parent team agents prompt state \<Longrightarrow>
     find_session_task i state = Some t \<Longrightarrow> is_live (stk_lifecycle_state t) \<Longrightarrow>
     seq_reachable E parent team agents prompt
       (snd (update_session_task_status now1 now2 now3 i status state))"

abbreviation live_task :: "session_task \<Rightarrow> bool" where
  "live_task t \<equiv> is_live (stk_lifecycle_state t)"

definition seq_ok :: "string list \<Rightarrow> session_task list \<Rightarrow> bool" where
  "seq_ok members tasks \<longleftrightarrow>
     length tasks \<le> length members
     \<and> map stk_agent_id tasks = take (length tasks) members
     \<and> (\<forall>t \<in> set (butlast tasks). \<not> live_task t)"

lemma find_agent_nth:
  assumes "distinct (map f xs)" and "k < length xs"
  shows "List.find (\<lambda>x. f x = f (xs ! k)) xs = Some (xs ! k)"
proof -
  have "f (xs ! j) \<noteq> f (xs ! k)" if "j < k" for j
    using assms that by (auto simp: distinct_conv_nth)
  with assms(2) show ?thesis by (auto simp: find_Some_iff)
qed

lemma next_member_skip:
  "\<forall>a \<in> set as. \<exists>t. List.find (\<lambda>t. stk_agent_id t = a) tasks = Some t \<and> \<not> live_task t
     \<Longrightarrow> next_member tasks (as @ bs) = next_member tasks bs"
  by (induction as) auto

lemma seq_ok_find:
  assumes "seq_ok members tasks" and "distinct members" and "k < length tasks"
  shows "List.find (\<lambda>t. stk_agent_id t = members ! k) tasks = Some (tasks ! k)"
proof -
  have "distinct (map stk_agent_id tasks)"
    using assms by (simp add: seq_ok_def)
  moreover have "members ! k = stk_agent_id (tasks ! k)"
    using assms by (metis length_map nth_map nth_take seq_ok_def)
  ultimately show ?thesis using find_agent_nth [of stk_agent_id tasks k] assms(3) by simp
qed

lemma next_member_seq:
  assumes ok: "seq_ok members tasks" and "distinct members"
  shows "next_member tasks members =
    (if (\<exists>t \<in> set tasks. live_task t) \<or> length members \<le> length tasks then None
     else Some (members ! length tasks))"
proof -
  let ?n = "length tasks"
  have split: "members = take k members @ drop k members" for k by simp
  have skip: "next_member tasks members = next_member tasks (drop k members)"
    if "k \<le> ?n" "\<forall>j < k. \<not> live_task (tasks ! j)" for k
  proof -
    have "\<forall>a \<in> set (take k members). \<exists>t. List.find (\<lambda>t. stk_agent_id t = a) tasks = Some t \<and> \<not> live_task t"
    proof
      fix a assume "a \<in> set (take k members)"
      then obtain j where "j < k" "a = members ! j" by (auto simp: in_set_conv_nth)
      with that seq_ok_find [OF assms, of j]
      show "\<exists>t. List.find (\<lambda>t. stk_agent_id t = a) tasks = Some t \<and> \<not> live_task t" by auto
    qed
    from next_member_skip [OF this, of "drop k members"] show ?thesis by simp
  qed
  show ?thesis
  proof (cases "\<exists>t \<in> set tasks. live_task t")
    case True
    then obtain m where m: "m < ?n" "live_task (tasks ! m)" by (metis in_set_conv_nth)
    have dead: "\<not> live_task (tasks ! j)" if "j < ?n - 1" for j
      using ok that by (metis length_butlast nth_butlast nth_mem seq_ok_def)
    have "m = ?n - 1"
    proof (rule ccontr)
      assume "m \<noteq> ?n - 1"
      with m(1) have "m < ?n - 1" by simp
      with dead m(2) show False by simp
    qed
    with m dead have "next_member tasks members = next_member tasks (drop m members)"
      by (intro skip) auto
    also have "drop m members = members ! m # drop (Suc m) members"
      using m ok by (simp add: Cons_nth_drop_Suc seq_ok_def)
    finally show ?thesis using True seq_ok_find [OF assms m(1)] m(2) by simp
  next
    case False
    then have "next_member tasks members = next_member tasks (drop ?n members)"
      by (intro skip) auto
    moreover have "next_member tasks (drop ?n members) = Some (members ! ?n)" if "?n < length members"
    proof -
      have "members ! ?n \<notin> stk_agent_id ` set tasks"
      proof
        assume "members ! ?n \<in> stk_agent_id ` set tasks"
        then have "members ! ?n \<in> set (take ?n members)" using ok by (metis seq_ok_def set_map)
        with assms(2) that show False by (auto simp: in_set_conv_nth nth_eq_iff_index_eq)
      qed
      then have "List.find (\<lambda>t. stk_agent_id t = members ! ?n) tasks = None"
        unfolding find_None_iff by (metis image_eqI)
      with that show ?thesis by (simp add: Cons_nth_drop_Suc [symmetric])
    qed
    ultimately show ?thesis using False by auto
  qed
qed

lemma spawn_member_tasks:
  assumes "spawn_member E parent agents prompt sequential name state = Inr (i, state')"
  shows "\<exists>t. ts_session_tasks state' = ts_session_tasks state @ [t] \<and> stk_agent_id t = name
    \<and> stk_lifecycle_state t = Pending_task \<and> stk_id t = i
    \<and> stk_supersedes t = stk_supersedes (stamp_join_supersedes (ts_session_tasks state) sequential t)"
  using assms
  by (auto simp: spawn_member_def Let_def add_session_task_def touch_def session_task_new_def
      stamp_join_supersedes_def split: sum.splits if_splits)

lemma seq_ok_snoc:
  assumes "seq_ok members tasks" and "length tasks < length members" and "\<forall>t \<in> set tasks. \<not> live_task t"
    and "stk_agent_id t = members ! length tasks"
  shows "seq_ok members (tasks @ [t])"
  using assms by (auto simp: seq_ok_def take_Suc_conv_app_nth)

lemma update_first_snoc:
  "\<forall>x \<in> set xs. \<not> p x \<Longrightarrow> update_first p f (xs @ [y]) = xs @ [if p y then f y else y]"
  by (induction xs) auto

lemma find_butlast:
  assumes "List.find p xs = Some x" and "\<forall>y \<in> set (butlast xs). \<not> q y" and "q x"
  shows "\<exists>ys. xs = ys @ [x] \<and> (\<forall>y \<in> set ys. \<not> p y)"
proof -
  obtain k where k: "k < length xs" "xs ! k = x" "\<forall>j < k. \<not> p (xs ! j)"
    using assms(1) by (auto simp: find_Some_iff)
  have "k = length xs - 1"
  proof (rule ccontr)
    assume "k \<noteq> length xs - 1"
    with k have "x \<in> set (butlast xs)" by (metis Suc_pred' in_set_conv_nth length_butlast
      less_antisym less_nat_zero_code nat_neq_iff nth_butlast)
    with assms(2,3) show False by blast
  qed
  with k have "xs = butlast xs @ [x]" "\<forall>y \<in> set (butlast xs). \<not> p y"
    by (metis append_butlast_last_id last_conv_nth less_nat_zero_code list.size(3),
        metis in_set_conv_nth length_butlast nth_butlast)
  then show ?thesis by blast
qed

lemma seq_ok_update:
  assumes "seq_ok members (ts_session_tasks state)" and "find_session_task i state = Some t"
    and "live_task t"
  shows "seq_ok members
    (ts_session_tasks (snd (update_session_task_status now1 now2 now3 i status state)))"
proof -
  have "\<forall>y \<in> set (butlast (ts_session_tasks state)). \<not> live_task y"
    using assms(1) by (simp add: seq_ok_def)
  from find_butlast [OF assms(2) [unfolded find_session_task_def] this assms(3)] obtain ys where
    ys: "ts_session_tasks state = ys @ [t]" "\<forall>y \<in> set ys. stk_id y \<noteq> i"
    by blast
  have "stk_id t = i" using assms(2) by (auto simp: find_session_task_def find_Some_iff)
  with ys assms show ?thesis
    by (simp add: update_session_task_status_def touch_def update_first_snoc seq_ok_def
        transition_to_def)
qed

lemma seq_reachable_ok:
  assumes "seq_reachable E parent team agents prompt state" and "distinct (tm_members team)"
  shows "seq_ok (tm_members team) (ts_session_tasks state)"
  using assms(1)
proof (induction rule: seq_reachable.induct)
  case (seq_start now ids state)
  then obtain name names where m: "tm_members team = name # names"
    and "spawn_members E parent agents prompt True [name] (task_state_new now parent) = Inr (ids, state)"
    by (cases "tm_members team") (auto simp: schedule_team_def saved_def split: sum.splits option.splits)
  then obtain i where "spawn_member E parent agents prompt True name (task_state_new now parent) = Inr (i, state)"
    by (auto split: sum.splits)
  from spawn_member_tasks [OF this] m show ?case
    by (auto simp: task_state_new_def seq_ok_def)
next
  case (seq_advance state i state')
  from seq_advance.hyps(2) obtain name where
    name: "next_member (ts_session_tasks state) (tm_members team) = Some name"
    and spawn: "spawn_member E parent agents prompt True name state = Inr (i, state')"
    by (auto simp: advance_sequential_def saved_def split: option.splits sum.splits)
  from name next_member_seq [OF seq_advance.IH assms(2)] spawn_member_tasks [OF spawn] show ?case
    by (auto intro!: seq_ok_snoc [OF seq_advance.IH] split: if_splits)
next
  case (seq_update state i t now1 now2 now3 status)
  from seq_ok_update [OF seq_update.IH seq_update.hyps(2,3)] show ?case .
qed

section \<open>Joins\<close>

definition hands_over :: "session_task \<Rightarrow> bool" where
  "hands_over t \<longleftrightarrow> stk_lifecycle_state t = Completed_task \<and> stk_handoff_summary t \<noteq> None"

text \<open>Each task was stamped against the tasks before it when it was created.\<close>

definition tasks_stamped :: "bool \<Rightarrow> session_task list \<Rightarrow> bool" where
  "tasks_stamped sequential tasks \<longleftrightarrow>
     (\<forall>j < length tasks.
        stk_supersedes (tasks ! j)
          = stk_supersedes (stamp_join_supersedes (take j tasks) sequential (tasks ! j)))"

lemma set_fold_collect:
  "set (fold (\<lambda>p ids. if c p \<and> g p \<notin> set ids then ids @ [g p] else ids) ps ids)
     = set ids \<union> {g p | p. p \<in> set ps \<and> c p}"
  by (induction ps arbitrary: ids) auto

lemma takeWhile_take:
  "k < length xs \<Longrightarrow> \<not> p (xs ! k) \<Longrightarrow> set (takeWhile p xs) \<subseteq> set (take k xs)"
proof -
  assume "k < length xs" "\<not> p (xs ! k)"
  then have "length (takeWhile p xs) \<le> k"
    by (metis leI nth_mem set_takeWhileD takeWhile_nth)
  then show ?thesis by (metis set_take_subset_set_take takeWhile_eq_take)
qed

lemma production_supersedes_stamped:
  assumes "tasks_stamped sequential tasks" and "j < length tasks"
  shows "set (production_supersedes (tasks ! j) tasks) =
    {stk_id (tasks ! i) | i. i < j \<and> (sequential \<or> stk_agent_id (tasks ! i) = stk_agent_id (tasks ! j))}"
    (is "_ = ?earlier")
proof -
  have "stk_supersedes (tasks ! j)
      = stk_supersedes (stamp_join_supersedes (take j tasks) sequential (tasks ! j))"
    using assms unfolding tasks_stamped_def by blast
  moreover have earlier: "set (take j tasks) = (!) tasks ` {0..<j}"
    using assms(2) by (simp add: nth_image)
  ultimately have stamped: "set (stk_supersedes (tasks ! j)) = ?earlier"
    by (auto simp: stamp_join_supersedes_def)
  have "list_ex (\<lambda>c. stk_id c = stk_id (tasks ! j)) tasks"
    using assms(2) by (auto simp: list_ex_iff)
  then have "set (production_supersedes (tasks ! j) tasks) = ?earlier \<union>
    {stk_id p | p. p \<in> set (takeWhile (\<lambda>c. stk_id c \<noteq> stk_id (tasks ! j)) tasks)
       \<and> stk_lifecycle_state p = Completed_task \<and> stk_handoff_summary p \<noteq> None
       \<and> stk_agent_id p = stk_agent_id (tasks ! j)}"
    unfolding production_supersedes_def stamped [symmetric]
    using set_fold_collect [where c = "\<lambda>p. stk_lifecycle_state p = Completed_task
      \<and> stk_handoff_summary p \<noteq> None \<and> stk_agent_id p = stk_agent_id (tasks ! j)" and g = stk_id]
    by simp
  moreover have "set (takeWhile (\<lambda>c. stk_id c \<noteq> stk_id (tasks ! j)) tasks) \<subseteq> set (take j tasks)"
    using assms(2) by (intro takeWhile_take) auto
  then have "{stk_id p | p. p \<in> set (takeWhile (\<lambda>c. stk_id c \<noteq> stk_id (tasks ! j)) tasks)
       \<and> stk_lifecycle_state p = Completed_task \<and> stk_handoff_summary p \<noteq> None
       \<and> stk_agent_id p = stk_agent_id (tasks ! j)} \<subseteq> ?earlier"
    unfolding earlier by fastforce
  ultimately show ?thesis by blast
qed

lemma posts_ok: "index_ok index \<Longrightarrow> index_ok (fold post_summary ss index)"
  by (induction ss arbitrary: index) (simp_all add: post_summary_def index_ok_post)

lemma posts_superseded:
  "index_ok index \<Longrightarrow> superseded (fold post_summary ss index) x
     \<longleftrightarrow> superseded index x \<or> (\<exists>s \<in> set ss. x \<in> set (jsm_supersedes s))"
  by (induction ss arbitrary: index) (auto simp: post_summary_def index_ok_post superseded_post)

lemma posts_dom:
  "index_ok index \<Longrightarrow> dom (map_of (ji_entries (fold post_summary ss index)))
     = dom (map_of (ji_entries index)) \<union> jsm_message_id ` set ss"
proof (induction ss arbitrary: index)
  case (Cons s ss)
  have "dom (map_of (ji_entries (post_summary s index))) = insert (jsm_message_id s) (dom (map_of (ji_entries index)))"
    by (auto simp: post_summary_def lookup_post [OF Cons.prems] split: if_splits)
  with Cons show ?case by (simp add: post_summary_def index_ok_post)
qed simp

lemma live_ids:
  assumes "index_ok index"
  shows "je_id ` set (live_entries index)
    = {x. x \<in> dom (map_of (ji_entries index)) \<and> \<not> superseded index x}"
proof (intro set_eqI iffI)
  fix x assume "x \<in> je_id ` set (live_entries index)"
  then show "x \<in> {x. x \<in> dom (map_of (ji_entries index)) \<and> \<not> superseded index x}"
    by (auto simp: live_entries_iff [OF assms])
next
  fix x assume x: "x \<in> {x. x \<in> dom (map_of (ji_entries index)) \<and> \<not> superseded index x}"
  then obtain e where "map_of (ji_entries index) x = Some e" by auto
  moreover from this have "je_id e = x" using index_entry [OF assms] by blast
  ultimately show "x \<in> je_id ` set (live_entries index)"
    using x by (intro image_eqI [of _ _ e]) (simp_all add: live_entries_iff [OF assms])
qed

definition task_summary :: "session_task list \<Rightarrow> session_task \<Rightarrow> join_summary" where
  "task_summary tasks t =
     \<lparr>jsm_message_id = stk_id t, jsm_agent_id = stk_agent_id t, jsm_summary = the (stk_handoff_summary t),
      jsm_supersedes = production_supersedes t tasks\<rparr>"

lemma summary_of_task_conv:
  "summary_of_task tasks t = (if hands_over t then Some (task_summary tasks t) else None)"
  by (auto simp: summary_of_task_def hands_over_def task_summary_def)

lemma summaries_of_tasks:
  "set (List.map_filter (summary_of_task tasks) ts) = task_summary tasks ` {t \<in> set ts. hands_over t}"
  by (induction ts) (auto simp: map_filter_simps summary_of_task_conv)

lemma handing_over_nth:
  "{t \<in> set tasks. hands_over t} = (!) tasks ` {j. j < length tasks \<and> hands_over (tasks ! j)}"
  by (auto simp: in_set_conv_nth)

definition joined_index :: "session_task list \<Rightarrow> join_index" where
  "joined_index tasks = fold post_summary (List.map_filter (summary_of_task tasks) tasks) join_index_new"

lemma joined_index_ok: "index_ok (joined_index tasks)"
  by (simp add: joined_index_def posts_ok index_ok_new)

lemma joined_dom:
  "x \<in> dom (map_of (ji_entries (joined_index tasks)))
     \<longleftrightarrow> (\<exists>i < length tasks. hands_over (tasks ! i) \<and> x = stk_id (tasks ! i))"
  unfolding joined_index_def posts_dom [OF index_ok_new] summaries_of_tasks handing_over_nth
  by (auto simp: join_index_new_def task_summary_def image_image)

lemma joined_superseded:
  assumes "tasks_stamped sequential tasks"
  shows "superseded (joined_index tasks) x \<longleftrightarrow> (\<exists>j < length tasks. hands_over (tasks ! j)
      \<and> (\<exists>i < j. x = stk_id (tasks ! i)
           \<and> (sequential \<or> stk_agent_id (tasks ! i) = stk_agent_id (tasks ! j))))"
  unfolding joined_index_def posts_superseded [OF index_ok_new] summaries_of_tasks handing_over_nth
  using production_supersedes_stamped [OF assms]
  by (fastforce simp: superseded_def join_index_new_def task_summary_def)

section \<open>Guarantees\<close>

text \<open>
  Under the sequential scheduler the tasks of a team with distinct members
  are those of its first members in their order, at most one of them is live, and only the last one.
\<close>

theorem sequential_schedule_in_order:
  assumes "seq_reachable E parent team agents prompt state" and "distinct (tm_members team)"
  shows "map stk_agent_id (ts_session_tasks state)
      = take (length (ts_session_tasks state)) (tm_members team)
    \<and> live_session_task_count state \<le> 1
    \<and> (\<forall>t \<in> set (butlast (ts_session_tasks state)). \<not> is_live (stk_lifecycle_state t))"
proof -
  have ok: "seq_ok (tm_members team) (ts_session_tasks state)"
    using assms by (rule seq_reachable_ok)
  have "live_session_task_count state \<le> 1"
  proof (cases "ts_session_tasks state" rule: rev_cases)
    case (snoc ts t)
    with ok have "filter (is_live \<circ> stk_lifecycle_state) ts = []"
      by (auto simp: seq_ok_def filter_empty_conv)
    with snoc show ?thesis by (simp add: live_session_task_count_def)
  qed (simp add: live_session_task_count_def)
  with ok show ?thesis by (simp add: seq_ok_def)
qed

text \<open>
  C30 [sequential_schedule_progresses]. When no task of a sequential team is live, the schedule is exhausted and
  advancing does nothing more, or advancing starts the task of the next member, or fails because the state with
  that task could not be written, and a later attempt starts from the same state: with distinct members, agents for
  all of them and working leases, a team of n members is exhausted once n tasks have ended.
\<close>

theorem sequential_schedule_progresses:
  assumes "seq_reachable E parent team agents prompt state" and "distinct (tm_members team)"
    and "live_session_task_count state = 0"
    and "\<forall>m \<in> set (tm_members team). \<exists>a. find_agent agents m = Inr a"
    and "\<forall>i. \<exists>path. oe_lease E i = Inr path"
  shows "if length (ts_session_tasks state) = length (tm_members team)
    then is_team_schedule_exhausted team state
      \<and> advance_sequential E parent team agents prompt (Inr state) = Inr None
    else \<exists>i state' t. advance_sequential E parent team agents prompt (Inr state)
          = (case oe_save E state' of None \<Rightarrow> Inr (Some (i, state')) | Some err \<Rightarrow> Inl (SaveFailed err))
      \<and> ts_session_tasks state' = ts_session_tasks state @ [t]
      \<and> stk_agent_id t = tm_members team ! length (ts_session_tasks state)
      \<and> is_live (stk_lifecycle_state t)"
proof -
  let ?ts = "ts_session_tasks state" and ?ms = "tm_members team"
  have ok: "seq_ok ?ms ?ts" using assms(1,2) by (rule seq_reachable_ok)
  have dead: "\<forall>t \<in> set ?ts. \<not> live_task t"
    using assms(3) by (auto simp: live_session_task_count_def filter_empty_conv)
  show ?thesis
  proof (cases "length ?ts = length ?ms")
    case True
    then have "set ?ms = stk_agent_id ` set ?ts" using ok by (metis seq_ok_def set_map take_all_iff order_refl)
    with dead have "is_team_schedule_exhausted team state"
      by (auto simp: is_team_schedule_exhausted_def list_all_iff list_ex_iff)
    with True next_member_seq [OF ok assms(2)] show ?thesis by (simp add: advance_sequential_def)
  next
    case False
    with ok have less: "length ?ts < length ?ms" by (simp add: seq_ok_def)
    with next_member_seq [OF ok assms(2)] dead
    have name: "next_member ?ts ?ms = Some (?ms ! length ?ts)" by auto
    obtain a where a: "find_agent agents (?ms ! length ?ts) = Inr a" using assms(4) less by force
    obtain i state' where spawn:
      "spawn_member E parent agents prompt True (?ms ! length ?ts) state = Inr (i, state')"
    proof -
      obtain path where "oe_lease E (stk_id (stamp_join_supersedes ?ts True (session_task_new
          (oe_uuid E (length ?ts)) (oe_clock E (length ?ts)) parent (?ms ! length ?ts) prompt None))) = Inr path"
        using assms(5) by blast
      with a that show thesis by (cases "agp_isolation a") (auto simp: spawn_member_def Let_def)
    qed
    then have "advance_sequential E parent team agents prompt (Inr state)
        = (case oe_save E state' of None \<Rightarrow> Inr (Some (i, state')) | Some err \<Rightarrow> Inl (SaveFailed err))"
      using name by (simp add: advance_sequential_def saved_def split: option.split)
    moreover from spawn_member_tasks [OF spawn] obtain t where
      "ts_session_tasks state' = ?ts @ [t]" "stk_agent_id t = ?ms ! length ?ts" "live_task t" by auto
    ultimately show ?thesis using False by (simp only: if_False) blast
  qed
qed

text \<open>
  When a team is done, the join keeps exactly the handoffs that no later handoff
  replaces: for each agent the latest one, and of a sequential team the very last one, whichever tasks failed or were
  cancelled in between.
\<close>

theorem join_keeps_latest:
  assumes "poll_fan_out_join state = Some outcome" and "tasks = ts_session_tasks state"
    and "distinct (map stk_id tasks)" and "tasks_stamped sequential tasks"
  shows "je_id ` set (fst (apply_join_outcome now now_ms outcome (None, state, ws))) =
    {stk_id (tasks ! i) | i. i < length tasks \<and> hands_over (tasks ! i)
       \<and> \<not> (\<exists>j. i < j \<and> j < length tasks \<and> hands_over (tasks ! j)
             \<and> (sequential \<or> stk_agent_id (tasks ! i) = stk_agent_id (tasks ! j)))}"
proof -
  have "jo_summaries outcome = List.map_filter (summary_of_task tasks) tasks"
    using assms(1,2) by (auto simp: poll_fan_out_join_def Let_def split: if_splits)
  then have live: "fst (apply_join_outcome now now_ms outcome (None, state, ws)) = live_entries (joined_index tasks)"
    by (simp add: apply_join_outcome_def Let_def join_index_new_def live_entries_def joined_index_def)
  have same: "i = i'" if "i < length tasks" "i' < length tasks" "stk_id (tasks ! i) = stk_id (tasks ! i')" for i i'
    using that assms(3) by (auto simp: distinct_conv_nth)
  show ?thesis
    unfolding live live_ids [OF joined_index_ok] joined_dom joined_superseded [OF assms(4)]
  proof (intro set_eqI iffI, goal_cases)
    case (1 x)
    then show ?case by blast
  next
    case (2 x)
    then obtain i where i: "i < length tasks" "hands_over (tasks ! i)" "x = stk_id (tasks ! i)"
      "\<not> (\<exists>j. i < j \<and> j < length tasks \<and> hands_over (tasks ! j)
             \<and> (sequential \<or> stk_agent_id (tasks ! i) = stk_agent_id (tasks ! j)))" by blast
    have "i' = i" if "i' < j" "j < length tasks" "x = stk_id (tasks ! i')" for i' j
      using that i(1,3) by (intro same) auto
    with i show ?case by blast
  qed
qed

section \<open>A team of two\<close>

definition demo_team :: team_definition where
  "demo_team = \<lparr>tm_name = ''duo'', tm_members = [''a'', ''b''], tm_scheduler = Sequential\<rparr>"

definition demo_agent :: "string \<Rightarrow> agent_profile" where
  "demo_agent name =
     \<lparr>agp_name = name, agp_profile = ''default'', agp_isolation = Worktree, agp_max_parallel_tasks = 1,
      agp_allowed_capabilities = []\<rparr>"

definition demo_env :: orchestrator_env where
  "demo_env =
     \<lparr>oe_uuid = (\<lambda>n. nat_dec n), oe_clock = (\<lambda>n. n), oe_touch_clock = (\<lambda>n. n),
      oe_lease = (\<lambda>i. Inr (''wt/'' @ i)), oe_create_dir = None, oe_save = (\<lambda>state. None)\<rparr>"

definition demo_scheduled :: task_state where
  "demo_scheduled =
     snd (projr (schedule_team demo_env 0 ''p'' demo_team [demo_agent ''a'', demo_agent ''b''] ''go'' None))"

definition demo_first_done :: task_state where
  "demo_first_done = snd (update_session_task_status 5 6 7 ''p-a-0'' Completed_task demo_scheduled)"

lemmas team_defs = demo_scheduled_def schedule_team_def demo_team_def demo_agent_def demo_env_def
  spawn_member_def find_agent_def session_task_new_def stamp_join_supersedes_def add_session_task_def
  touch_def task_state_new_def saved_def Let_def

lemma demo_dec: "nat_dec 0 = ''0''"
  by code_simp

lemma demo_scheduled_reachable:
  "seq_reachable demo_env ''p'' demo_team [demo_agent ''a'', demo_agent ''b''] ''go'' demo_scheduled"
  by (rule seq_start [of _ _ 0 _ _ _ "[''p-a-0'']"]) (simp_all add: team_defs demo_dec)

lemma demo_first_done_reachable:
  "seq_reachable demo_env ''p'' demo_team [demo_agent ''a'', demo_agent ''b''] ''go'' demo_first_done"
  unfolding demo_first_done_def
  by (rule seq_update [OF demo_scheduled_reachable, of "''p-a-0''" "hd (ts_session_tasks demo_scheduled)"])
     (simp_all add: team_defs demo_dec find_session_task_def)

lemma demo_first_done_tasks:
  "map (\<lambda>t. (stk_agent_id t, stk_lifecycle_state t)) (ts_session_tasks demo_first_done)
     = [(''a'', Completed_task)]"
  by (simp add: demo_first_done_def update_session_task_status_def find_session_task_def transition_to_def
      team_defs demo_dec)

theorem sequential_schedule_in_order_witness:
  "map stk_agent_id (ts_session_tasks demo_scheduled)
     = take (length (ts_session_tasks demo_scheduled)) (tm_members demo_team)
   \<and> ts_session_tasks demo_scheduled \<noteq> []"
  using sequential_schedule_in_order [OF demo_scheduled_reachable]
  by (simp add: team_defs)

theorem sequential_schedule_progresses_witness:
  "\<exists>i state' t. advance_sequential demo_env ''p'' demo_team [demo_agent ''a'', demo_agent ''b''] ''go''
       (Inr demo_first_done) = Inr (Some (i, state'))
     \<and> ts_session_tasks state' = ts_session_tasks demo_first_done @ [t] \<and> stk_agent_id t = ''b''"
proof -
  obtain t where t: "ts_session_tasks demo_first_done = [t]" "stk_lifecycle_state t = Completed_task"
    using demo_first_done_tasks by (auto simp: map_eq_Cons_conv)
  have members: "tm_members demo_team = [''a'', ''b'']" by (simp add: demo_team_def)
  have "live_session_task_count demo_first_done = 0"
    using t by (simp add: live_session_task_count_def)
  moreover have "\<forall>m \<in> set (tm_members demo_team). \<exists>a. find_agent [demo_agent ''a'', demo_agent ''b''] m = Inr a"
    by (simp add: members find_agent_def demo_agent_def)
  moreover have "\<forall>i. \<exists>path. oe_lease demo_env i = Inr path" "oe_save demo_env s = None" for s
    by (simp_all add: demo_env_def)
  ultimately show ?thesis
    using sequential_schedule_progresses [OF demo_first_done_reachable] t(1)
    by (auto simp: members)
qed

definition demo_task :: "string \<Rightarrow> string \<Rightarrow> session_task list \<Rightarrow> session_task" where
  "demo_task uuid agent earlier =
     (stamp_join_supersedes earlier False (session_task_new uuid 0 ''p'' agent ''go'' None))\<lparr>
       stk_lifecycle_state := Completed_task, stk_handoff_summary := Some uuid\<rparr>"

definition demo_tasks :: "session_task list" where
  "demo_tasks =
     (let t1 = demo_task ''1'' ''a'' []; t2 = demo_task ''2'' ''b'' [t1]
      in [t1, t2, demo_task ''3'' ''a'' [t1, t2]])"

theorem join_keeps_latest_witness:
  "\<exists>outcome. poll_fan_out_join ((task_state_new 0 ''p'')\<lparr>ts_session_tasks := demo_tasks\<rparr>) = Some outcome
   \<and> stk_id (demo_tasks ! 2) \<in> je_id ` set (fst (apply_join_outcome 0 0 outcome
        (None, (task_state_new 0 ''p'')\<lparr>ts_session_tasks := demo_tasks\<rparr>, None)))
   \<and> stk_id (demo_tasks ! 0) \<notin> je_id ` set (fst (apply_join_outcome 0 0 outcome
        (None, (task_state_new 0 ''p'')\<lparr>ts_session_tasks := demo_tasks\<rparr>, None)))"
proof -
  let ?state = "(task_state_new 0 ''p'')\<lparr>ts_session_tasks := demo_tasks\<rparr>"
  note defs = demo_tasks_def demo_task_def stamp_join_supersedes_def session_task_new_def Let_def
  obtain outcome where o: "poll_fan_out_join ?state = Some outcome"
    by (auto simp: poll_fan_out_join_def defs)
  have d: "distinct (map stk_id demo_tasks)" by (simp add: defs)
  have s: "tasks_stamped False demo_tasks"
    by (auto simp: tasks_stamped_def defs less_Suc_eq numeral_eq_Suc)
  have h: "length demo_tasks = 3" "hands_over (demo_tasks ! 2)" "hands_over (demo_tasks ! 0)"
    "stk_agent_id (demo_tasks ! 2) = stk_agent_id (demo_tasks ! 0)"
    by (simp_all add: defs hands_over_def)
  have inj: "stk_id (demo_tasks ! i) = stk_id (demo_tasks ! j) \<Longrightarrow> i < 3 \<Longrightarrow> j < 3 \<Longrightarrow> i = j" for i j
    using d h(1) by (auto simp: distinct_conv_nth)
  from join_keeps_latest [OF o _ d s, of 0 0 None] o h show ?thesis
    by (auto 0 3 dest: inj)
qed

end
