(* ===== verification/Prefix_Manager.thy ===== *)
theory Prefix_Manager
  imports Json Permutations
begin

text \<open>
  The shared prompt prefixes (\<open>src/runtime/multiplex_prefix.rs\<close>): a prefix is brought to a normal form, its
  fingerprint is a hash of that form, and a bounded cache keeps the forms by fingerprint, dropping the
  oldest. The JSON printer and the hash function are the parameter record \<open>prefix_env\<close>.

  The cache is specified by the interface \<open>bounded_fifo\<close>, a list of the latest insertions, and the code's pair
  of a hash map and a queue is shown to implement it.
\<close>

section \<open>Definitions\<close>

record prefix_env =
  pe_serde :: serde
  pe_xxh3_128 :: "string \<Rightarrow> nat"

record tool_descriptor =
  tld_name :: string
  tld_schema :: json

record shared_prefix =
  spx_system_prompt :: string
  spx_tools :: "tool_descriptor list"
  spx_workspace_context :: string

definition FINGERPRINT_VERSION :: nat where
  "FINGERPRINT_VERSION = 2"

fun thin_json_value :: "json \<Rightarrow> json" where
  "thin_json_value (JArray items) = JArray (map thin_json_value items)"
| "thin_json_value (JObject m) = JObject (sort_key fst (map (\<lambda>(k, v). (k, thin_json_value v)) m))"
| "thin_json_value v = v"

definition thin_json_string :: "serde \<Rightarrow> json \<Rightarrow> string" where
  "thin_json_string sj v =
     (case to_string sj (thin_json_value v) of Some s \<Rightarrow> s | None \<Rightarrow> ''null'')"

definition normalise_prompt :: "string \<Rightarrow> string" where
  "normalise_prompt input = join_with [newline] (map trim_end (str_lines input))"

text \<open>The sort key of a tool and its JSON form.\<close>

definition tool_key :: "serde \<Rightarrow> tool_descriptor \<Rightarrow> string \<times> string" where
  "tool_key sj t = (tld_name t, thin_json_string sj (thin_json_value (tld_schema t)))"

definition tool_json :: "tool_descriptor \<Rightarrow> json" where
  "tool_json t = JObject [(''name'', JString (tld_name t)), (''schema'', thin_json_value (tld_schema t))]"

definition implemented_value :: "serde \<Rightarrow> shared_prefix \<Rightarrow> json" where
  "implemented_value sj p =
     JObject
       [(''system_prompt'', JString (normalise_prompt (spx_system_prompt p))),
        (''tools'', JArray (map tool_json (sort_key (tool_key sj) (spx_tools p)))),
        (''workspace_context'', JString (trim_end (spx_workspace_context p)))]"

definition implemented_json :: "prefix_env \<Rightarrow> shared_prefix \<Rightarrow> string" where
  "implemented_json V p = thin_json_string (pe_serde V) (implemented_value (pe_serde V) p)"

definition hex32 :: "nat \<Rightarrow> string" where
  "hex32 n = map (\<lambda>i. hex_char (n div 16 ^ (31 - i) mod 16)) [0..<32]"

definition fingerprint :: "prefix_env \<Rightarrow> shared_prefix \<Rightarrow> string" where
  "fingerprint V p =
     ''v'' @ nat_dec FINGERPRINT_VERSION @ ''-'' @ hex32 (pe_xxh3_128 V (implemented_json V p))"

record prefix_manager =
  pm_capacity :: nat
  pm_entries :: "(string \<times> string) list"
  pm_insertion_order :: "string list"

definition prefix_manager_new :: "nat \<Rightarrow> prefix_manager" where
  "prefix_manager_new capacity =
     \<lparr>pm_capacity = max capacity 1, pm_entries = [], pm_insertion_order = []\<rparr>"

text \<open>The eviction loop: the queue is popped while it is full.\<close>

fun evict :: "nat \<Rightarrow> string list \<Rightarrow> (string \<times> string) list \<Rightarrow> string list \<times> (string \<times> string) list" where
  "evict capacity [] entries = ([], entries)"
| "evict capacity (oldest # rest) entries =
     (if length (oldest # rest) \<ge> capacity then evict capacity rest (AList.delete oldest entries)
      else (oldest # rest, entries))"

definition prefix_insert :: "string \<Rightarrow> string \<Rightarrow> prefix_manager \<Rightarrow> prefix_manager" where
  "prefix_insert fp blob m =
     (if map_of (pm_entries m) fp \<noteq> None then m
      else
        (let (order, entries) = evict (pm_capacity m) (pm_insertion_order m) (pm_entries m)
         in m\<lparr>pm_insertion_order := order @ [fp], pm_entries := AList.update fp blob entries\<rparr>))"

definition prefix_get :: "string \<Rightarrow> prefix_manager \<Rightarrow> string option" where
  "prefix_get fp m = map_of (pm_entries m) fp"

definition prefix_contains :: "string \<Rightarrow> prefix_manager \<Rightarrow> bool" where
  "prefix_contains fp m \<longleftrightarrow> map_of (pm_entries m) fp \<noteq> None"

definition prefix_len :: "prefix_manager \<Rightarrow> nat" where
  "prefix_len m = length (pm_entries m)"

definition register :: "prefix_env \<Rightarrow> shared_prefix \<Rightarrow> prefix_manager \<Rightarrow> string \<times> prefix_manager" where
  "register V p m =
     (let fp = fingerprint V p in
      if map_of (pm_entries m) fp \<noteq> None then (fp, m)
      else (fp, prefix_insert fp (implemented_json V p) m))"

section \<open>The interface of a bounded cache\<close>

text \<open>The specification: the entries in the order of insertion, of which the latest are kept.\<close>

definition fifo_insert :: "nat \<Rightarrow> 'k \<Rightarrow> 'v \<Rightarrow> ('k \<times> 'v) list \<Rightarrow> ('k \<times> 'v) list" where
  "fifo_insert capacity k v xs =
     (if k \<in> fst ` set xs then xs else drop (Suc (length xs) - capacity) xs @ [(k, v)])"

locale bounded_fifo =
  fixes start :: 'c
    and ins :: "'k \<Rightarrow> 'v \<Rightarrow> 'c \<Rightarrow> 'c"
    and get :: "'k \<Rightarrow> 'c \<Rightarrow> 'v option"
    and size_of :: "'c \<Rightarrow> nat"
    and capacity :: nat
    and abs :: "'c \<Rightarrow> ('k \<times> 'v) list"
    and invar :: "'c \<Rightarrow> bool"
  assumes capacity_pos: "0 < capacity"
    and invar_start: "invar start"
    and abs_start: "abs start = []"
    and invar_ins: "invar c \<Longrightarrow> invar (ins k v c)"
    and abs_ins: "invar c \<Longrightarrow> abs (ins k v c) = fifo_insert capacity k v (abs c)"
    and get_abs: "invar c \<Longrightarrow> get k c = map_of (abs c) k"
    and size_abs: "invar c \<Longrightarrow> size_of c = length (abs c)"
begin

definition run :: "('k \<times> 'v) list \<Rightarrow> 'c" where
  "run ops = fold (\<lambda>(k, v). ins k v) ops start"

lemma run_snoc: "run (ops @ [(k, v)]) = ins k v (run ops)"
  by (simp add: run_def)

lemma run_invar: "invar (run ops)"
proof (induction ops rule: rev_induct)
  case (snoc op ops)
  then show ?case by (cases op) (simp add: run_snoc invar_ins)
qed (simp add: run_def invar_start)

lemma abs_run: "abs (run ops) = fold (\<lambda>(k, v). fifo_insert capacity k v) ops []"
proof (induction ops rule: rev_induct)
  case (snoc op ops)
  then show ?case by (cases op) (simp add: run_snoc abs_ins run_invar)
qed (simp add: run_def abs_start)

lemma run_bounded: "size_of (run ops) \<le> capacity"
proof (induction ops rule: rev_induct)
  case Nil
  show ?case using size_abs [OF invar_start] abs_start by (simp add: run_def)
next
  case (snoc op ops)
  obtain k v where "op = (k, v)" by (cases op)
  with snoc size_abs [OF run_invar] abs_ins [OF run_invar] capacity_pos show ?case
    by (auto simp: run_snoc fifo_insert_def size_abs invar_ins run_invar)
qed

text \<open>The latest insertions of new keys are all there, as many as fit.\<close>

lemma recent_kept:
  assumes "distinct (map fst ops)" and "length ops \<le> capacity" and "(k, v) \<in> set ops"
  shows "get k (run ops) = Some v"
proof -
  have "abs (run ops) = ops"
    using assms(1,2)
  proof (induction ops rule: rev_induct)
    case (snoc op ops)
    then show ?case by (cases op) (auto simp: run_snoc abs_ins run_invar fifo_insert_def)
  qed (simp add: run_def abs_start)
  with assms show ?thesis by (simp add: get_abs run_invar)
qed

end

section \<open>The code implements the interface\<close>

definition pm_abs :: "prefix_manager \<Rightarrow> (string \<times> string) list" where
  "pm_abs m = map (\<lambda>k. (k, the (map_of (pm_entries m) k))) (pm_insertion_order m)"

definition pm_ok :: "nat \<Rightarrow> prefix_manager \<Rightarrow> bool" where
  "pm_ok capacity m \<longleftrightarrow>
     pm_capacity m = capacity \<and> distinct (pm_insertion_order m) \<and> distinct (map fst (pm_entries m))
     \<and> set (pm_insertion_order m) = fst ` set (pm_entries m)"

lemma evict_conv:
  assumes "0 < capacity"
  shows "evict capacity order entries =
    (drop (Suc (length order) - capacity) order,
     filter (\<lambda>e. fst e \<notin> set (take (Suc (length order) - capacity) order)) entries)"
proof (induction order arbitrary: entries)
  case (Cons oldest rest)
  show ?case
  proof (cases "capacity \<le> length (oldest # rest)")
    case True
    then have "Suc (length (oldest # rest)) - capacity = Suc (Suc (length rest) - capacity)"
      by simp
    with Cons True show ?thesis
      by (simp add: AList.delete_eq case_prod_beta' conj_commute eq_commute [of _ oldest])
  qed simp
qed simp

lemma pm_lookup_in:
  "pm_ok c m \<Longrightarrow> map_of (pm_entries m) k = None \<longleftrightarrow> k \<notin> set (pm_insertion_order m)"
  by (simp add: pm_ok_def map_of_eq_None_iff)

lemma map_of_filter_key: "p k \<Longrightarrow> map_of (filter (\<lambda>e. p (fst e)) m) k = map_of m k"
  by (induction m) auto

lemma prefix_insert_new:
  assumes "pm_ok c m" and "0 < c" and "k \<notin> set (pm_insertion_order m)"
    and "n = Suc (length (pm_insertion_order m)) - c"
  shows "prefix_insert k v m =
    m\<lparr>pm_insertion_order := drop n (pm_insertion_order m) @ [k],
      pm_entries := filter (\<lambda>e. fst e \<notin> set (take n (pm_insertion_order m))) (pm_entries m) @ [(k, v)]\<rparr>"
proof -
  have "k \<notin> fst ` set (pm_entries m)" using assms(1,3) by (simp add: pm_ok_def)
  then have "AList.update k v (filter (\<lambda>e. fst e \<notin> set (take n (pm_insertion_order m))) (pm_entries m))
      = filter (\<lambda>e. fst e \<notin> set (take n (pm_insertion_order m))) (pm_entries m) @ [(k, v)]"
    by (intro update_snoc) auto
  with assms pm_lookup_in [OF assms(1)] show ?thesis
    by (simp add: prefix_insert_def evict_conv pm_ok_def)
qed

lemma prefix_insert_ok:
  assumes "pm_ok c m" and "0 < c"
  shows "pm_ok c (prefix_insert k v m)"
proof (cases "k \<in> set (pm_insertion_order m)")
  case True
  then have "prefix_insert k v m = m" using pm_lookup_in [OF assms(1)] by (auto simp: prefix_insert_def)
  with assms show ?thesis by simp
next
  case False
  define n where "n = Suc (length (pm_insertion_order m)) - c"
  have order: "distinct (pm_insertion_order m)" "set (pm_insertion_order m) = fst ` set (pm_entries m)"
    using assms(1) by (simp_all add: pm_ok_def)
  have "set (drop n (pm_insertion_order m)) = set (pm_insertion_order m) - set (take n (pm_insertion_order m))"
    using order(1) by (metis append_take_drop_id distinct_append Diff_cancel Un_Diff Un_empty_left
      Diff_triv inf_commute set_append)
  with order have "set (drop n (pm_insertion_order m))
      = fst ` {e \<in> set (pm_entries m). fst e \<notin> set (take n (pm_insertion_order m))}"
    by auto
  with False assms order show ?thesis
    by (auto simp: prefix_insert_new [OF assms False n_def] pm_ok_def distinct_map_filter
        dest: in_set_dropD in_set_takeD)
qed

lemma prefix_insert_abs:
  assumes "pm_ok c m" and "0 < c"
  shows "pm_abs (prefix_insert k v m) = fifo_insert c k v (pm_abs m)"
proof (cases "k \<in> set (pm_insertion_order m)")
  case True
  then have "prefix_insert k v m = m" using pm_lookup_in [OF assms(1)] by (auto simp: prefix_insert_def)
  with True show ?thesis by (force simp: fifo_insert_def pm_abs_def)
next
  case False
  define n where "n = Suc (length (pm_insertion_order m)) - c"
  let ?kept = "filter (\<lambda>e. fst e \<notin> set (take n (pm_insertion_order m))) (pm_entries m)"
  have new: "k \<notin> fst ` set (pm_entries m)" using assms(1) False by (simp add: pm_ok_def)
  have disj: "j \<notin> set (take n (pm_insertion_order m))" if "j \<in> set (drop n (pm_insertion_order m))" for j
    using assms(1) that unfolding pm_ok_def
    by (metis append_take_drop_id disjoint_iff distinct_append)
  have kept: "map_of (?kept @ [(k, v)]) j = map_of (pm_entries m) j"
    if "j \<in> set (drop n (pm_insertion_order m))" for j
  proof -
    have "j \<noteq> k" using that False by (auto dest: in_set_dropD)
    moreover have "map_of ?kept j = map_of (pm_entries m) j"
      using disj [OF that] by (rule map_of_filter_key)
    ultimately show ?thesis by (simp add: map_add_def split: option.split)
  qed
  have "map_of (?kept @ [(k, v)]) k = Some v"
  proof -
    have "map_of ?kept k = None" using new by (auto simp: map_of_eq_None_iff)
    then show ?thesis by (simp add: map_add_def)
  qed
  with kept False show ?thesis
    by (auto simp: prefix_insert_new [OF assms False n_def] pm_abs_def fifo_insert_def drop_map n_def)
qed

interpretation prefix_cache: bounded_fifo "prefix_manager_new cap" prefix_insert prefix_get prefix_len
    "max cap 1" pm_abs "pm_ok (max cap 1)"
  for cap
proof
  fix m k
  assume ok: "pm_ok (max cap 1) m"
  have "map_of (map (\<lambda>k. (k, the (map_of (pm_entries m) k))) (pm_insertion_order m)) k
      = (if k \<in> set (pm_insertion_order m) then Some (the (map_of (pm_entries m) k)) else None)"
    by (simp add: map_of_map_restrict restrict_map_def)
  with pm_lookup_in [OF ok] show "prefix_get k m = map_of (pm_abs m) k"
    by (auto simp: prefix_get_def pm_abs_def)
  have "length (pm_insertion_order m) = card (fst ` set (pm_entries m))"
    using ok by (metis distinct_card pm_ok_def)
  also have "\<dots> = length (pm_entries m)"
    using ok by (metis distinct_card length_map list.set_map pm_ok_def)
  finally show "prefix_len m = length (pm_abs m)" by (simp add: prefix_len_def pm_abs_def)
next
  show "pm_ok (max cap 1) (prefix_manager_new cap)" "pm_abs (prefix_manager_new cap) = []"
    by (simp_all add: pm_ok_def pm_abs_def prefix_manager_new_def)
qed (simp_all add: prefix_insert_abs prefix_insert_ok)

section \<open>Order of keys and tools\<close>

text \<open>The same JSON value up to the order of object keys.\<close>

inductive reordered :: "json \<Rightarrow> json \<Rightarrow> bool" where
  reordered_refl: "reordered v v"
| reordered_array: "list_all2 reordered xs ys \<Longrightarrow> reordered (JArray xs) (JArray ys)"
| reordered_object:
    "list_all2 (\<lambda>e f. fst e = fst f \<and> reordered (snd e) (snd f)) m m' \<Longrightarrow> mset m' = mset m''
       \<Longrightarrow> distinct (map fst m) \<Longrightarrow> reordered (JObject m) (JObject m'')"

lemma thin_reordered: "reordered v w \<Longrightarrow> thin_json_value v = thin_json_value w"
proof (induction rule: reordered.induct)
  case (reordered_array xs ys)
  then have "map thin_json_value xs = map thin_json_value ys"
    by (induction rule: list_all2_induct) auto
  then show ?case by simp
next
  case (reordered_object m m' m'')
  from reordered_object.IH have eq: "map (\<lambda>(k, v). (k, thin_json_value v)) m
      = map (\<lambda>(k, v). (k, thin_json_value v)) m'" and keys: "map fst m = map fst m'"
    by (induction rule: list_all2_induct) auto
  have fst_thin: "map fst (map (\<lambda>(k, v). (k, thin_json_value v)) xs) = map fst xs" for xs
    by (simp add: case_prod_beta')
  have "sort_key fst (map (\<lambda>(k, v). (k, thin_json_value v)) m')
      = sort_key fst (map (\<lambda>(k, v). (k, thin_json_value v)) m'')"
    by (rule sort_key_perm)
       (use reordered_object.hyps in \<open>simp_all add: keys fst_thin del: map_map\<close>)
  with eq show ?case by simp
qed simp

definition same_tool :: "tool_descriptor \<Rightarrow> tool_descriptor \<Rightarrow> bool" where
  "same_tool t u \<longleftrightarrow> tld_name t = tld_name u \<and> reordered (tld_schema t) (tld_schema u)"

lemma insort_key_map_pair:
  "insort_key fst (f x, g x) (map (\<lambda>t. (f t, g t)) xs) = map (\<lambda>t. (f t, g t)) (insort_key f x xs)"
  by (induction xs) auto

lemma map_tool_sort:
  "map tool_json (sort_key (tool_key sj) ts)
     = map (\<lambda>(k, j). j) (sort_key fst (map (\<lambda>t. (tool_key sj t, tool_json t)) ts))"
proof -
  have "sort_key fst (map (\<lambda>t. (tool_key sj t, tool_json t)) ts)
      = map (\<lambda>t. (tool_key sj t, tool_json t)) (sort_key (tool_key sj) ts)"
    by (induction ts) (simp_all add: insort_key_map_pair)
  then show ?thesis by simp
qed

lemma same_tools_map:
  "list_all2 same_tool ts us \<Longrightarrow>
     map (\<lambda>t. (tool_key sj t, tool_json t)) ts = map (\<lambda>t. (tool_key sj t, tool_json t)) us
     \<and> map tld_name ts = map tld_name us"
  by (induction rule: list_all2_induct)
     (auto simp: same_tool_def tool_key_def tool_json_def thin_reordered)

lemma tools_order_free:
  assumes "list_all2 same_tool ts us" and "mset us = mset us'" and "distinct (map tld_name ts)"
  shows "map tool_json (sort_key (tool_key sj) ts) = map tool_json (sort_key (tool_key sj) us')"
proof -
  have "distinct (map fst (map (\<lambda>t. (tool_key sj t, tool_json t)) ts))"
  proof -
    have "map tld_name ts = map fst (map (tool_key sj) ts)" by (simp add: tool_key_def)
    from assms(3) [unfolded this] have "distinct (map (tool_key sj) ts)"
      unfolding distinct_map [of fst] by (rule conjunct1)
    then show ?thesis by (simp add: comp_def)
  qed
  moreover have "mset (map (\<lambda>t. (tool_key sj t, tool_json t)) ts)
      = mset (map (\<lambda>t. (tool_key sj t, tool_json t)) us')"
    unfolding same_tools_map [OF assms(1), THEN conjunct1] using assms(2) by simp
  ultimately have "sort_key fst (map (\<lambda>t. (tool_key sj t, tool_json t)) ts)
      = sort_key fst (map (\<lambda>t. (tool_key sj t, tool_json t)) us')"
    by (intro sort_key_perm)
  then show ?thesis unfolding map_tool_sort by (rule arg_cong)
qed

section \<open>Guarantees\<close>

text \<open>
  The prefix cache behaves like the list of its insertions in which an insertion of a
  known fingerprint changes nothing and only the latest entries are kept: it refines that specification, its
  lookups are those of the list, and it never holds more than its capacity (at least one).
\<close>

theorem prefix_cache_is_fifo:
  "pm_abs (fold (\<lambda>(fp, blob). prefix_insert fp blob) ops (prefix_manager_new cap))
     = fold (\<lambda>(fp, blob). fifo_insert (max cap 1) fp blob) ops []
   \<and> prefix_get k (fold (\<lambda>(fp, blob). prefix_insert fp blob) ops (prefix_manager_new cap))
     = map_of (fold (\<lambda>(fp, blob). fifo_insert (max cap 1) fp blob) ops []) k
   \<and> prefix_len (fold (\<lambda>(fp, blob). prefix_insert fp blob) ops (prefix_manager_new cap)) \<le> max cap 1"
  using prefix_cache.abs_run [of cap ops] prefix_cache.get_abs [OF prefix_cache.run_invar [of cap ops]]
    prefix_cache.run_bounded [of cap ops]
  by (simp add: prefix_cache.run_def)

text \<open>
  The fingerprint of a prefix does not depend on the order in which its tools are
  listed nor on the order of the keys in their schemas, whatever the printer and the hash function, when the
  tools have names of their own.
\<close>

theorem fingerprint_order_free:
  assumes "list_all2 same_tool (spx_tools p) us" and "mset us = mset us'"
    and "distinct (map tld_name (spx_tools p))"
  shows "fingerprint V p = fingerprint V (p\<lparr>spx_tools := us'\<rparr>)"
  using tools_order_free [OF assms]
  by (simp add: fingerprint_def implemented_json_def implemented_value_def)

definition demo_tools :: "tool_descriptor list" where
  "demo_tools =
     [\<lparr>tld_name = ''read'', tld_schema = JObject [(''a'', JNull), (''b'', JBool True)]\<rparr>,
      \<lparr>tld_name = ''write'', tld_schema = JNull\<rparr>]"

definition demo_prefix :: shared_prefix where
  "demo_prefix = \<lparr>spx_system_prompt = ''hi'', spx_tools = demo_tools, spx_workspace_context = []\<rparr>"

definition demo_prefix_env :: prefix_env where
  "demo_prefix_env =
     \<lparr>pe_serde = \<lparr>from_str = (\<lambda>s. None), to_string = (\<lambda>v. Some ''j''), parse_f64 = (\<lambda>s. None)\<rparr>,
      pe_xxh3_128 = length\<rparr>"

theorem fingerprint_order_free_witness:
  "fingerprint demo_prefix_env demo_prefix = fingerprint demo_prefix_env (demo_prefix\<lparr>spx_tools :=
     [\<lparr>tld_name = ''write'', tld_schema = JNull\<rparr>,
      \<lparr>tld_name = ''read'', tld_schema = JObject [(''b'', JBool True), (''a'', JNull)]\<rparr>]\<rparr>)"
proof (rule fingerprint_order_free)
  have "reordered (JObject [(''a'', JNull), (''b'', JBool True)]) (JObject [(''b'', JBool True), (''a'', JNull)])"
    by (rule reordered_object [of _ "[(''a'', JNull), (''b'', JBool True)]"]) (auto intro: reordered_refl)
  then show "list_all2 same_tool (spx_tools demo_prefix)
      [\<lparr>tld_name = ''read'', tld_schema = JObject [(''b'', JBool True), (''a'', JNull)]\<rparr>,
       \<lparr>tld_name = ''write'', tld_schema = JNull\<rparr>]"
    by (simp add: demo_prefix_def demo_tools_def same_tool_def reordered_refl)
qed (simp_all add: demo_prefix_def demo_tools_def)

end
