(* ===== verification/History.thy ===== *)
theory History
  imports Evidence
begin

text \<open>
  The message history of a conversation (\<open>src/state/conversation/history.rs\<close>): pruning, compaction, and the
  condensation of old tool results, which keep the history within the model's context window.

  The message list of the conversation manager is an argument and a result of each operation; of the
  client only whether its endpoint is local is used, and it is an argument. Environment variables are a function from
  names to values. \<open>Display\<close> of a JSON value is the parameter \<open>display\<close>. Products of \<open>usize\<close> wrap.
\<close>

section \<open>Messages\<close>

datatype message_content = TextMessage string | Blocks "content_block list"

record api_message =
  am_role :: string
  am_content :: message_content
  am_cache_hint :: "string option"

record history_limits =
  hl_max_assistant_history_chars :: nat
  hl_max_tool_result_history_chars :: nat
  hl_max_api_messages :: nat

record compaction_config =
  cfg_enabled :: bool
  cfg_threshold_percent :: nat
  cfg_keep_recent_turns :: nat
  cfg_summary_max_tokens :: nat

definition user_role :: string where
  "user_role = ''user''"

definition tool_result_prefix :: string where
  "tool_result_prefix = ''tool_result ''"

definition tool_error_prefix :: string where
  "tool_error_prefix = ''tool_error ''"

definition text_protocol_tool_result_message :: "string \<Rightarrow> bool" where
  "text_protocol_tool_result_message s =
     list_ex (\<lambda>l. let trimmed = trim_start l in
       starts_with trimmed tool_result_prefix \<or> starts_with trimmed tool_error_prefix) (str_lines s)"

fun is_tool_result_block :: "content_block \<Rightarrow> bool" where
  "is_tool_result_block (ToolResultContent i c e) = True"
| "is_tool_result_block _ = False"

definition message_contains_tool_result :: "api_message \<Rightarrow> bool" where
  "message_contains_tool_result message =
     (case am_content message of
        Blocks blocks \<Rightarrow> list_ex is_tool_result_block blocks
      | TextMessage s \<Rightarrow> text_protocol_tool_result_message s)"

text \<open>A message the user wrote.\<close>

definition user_turn :: "api_message \<Rightarrow> bool" where
  "user_turn message \<longleftrightarrow> am_role message = user_role \<and> \<not> message_contains_tool_result message"

section \<open>Condensing tool results\<close>

definition CONDENSED_TOOL_RESULT_LINES :: nat where
  "CONDENSED_TOOL_RESULT_LINES = 5"

definition more_lines :: string where
  "more_lines = ''more lines)''"

definition more_lines_note :: "nat \<Rightarrow> string" where
  "more_lines_note n = ''('' @ nat_dec n @ '' more lines)''"

definition truncate_to_lines :: "string \<Rightarrow> nat \<Rightarrow> string" where
  "truncate_to_lines s max_lines =
     (let ls = str_lines s in
      if ls \<noteq> [] \<and> ends_with (last ls) more_lines then s
      else if length ls \<le> max_lines then s
      else join_with [newline] (take max_lines ls) @ [newline] @ more_lines_note (length ls - max_lines))"

record condense_state =
  cd_out :: string
  cd_since_header :: nat
  cd_remaining :: nat
  cd_in_tool_result :: bool

definition condense_start :: condense_state where
  "condense_start = \<lparr>cd_out = [], cd_since_header = 0, cd_remaining = 0, cd_in_tool_result = False\<rparr>"

definition push_line :: "string \<Rightarrow> condense_state \<Rightarrow> condense_state" where
  "push_line l st = st\<lparr>cd_out := cd_out st @ [newline] @ l\<rparr>"

definition push_separated :: "string \<Rightarrow> condense_state \<Rightarrow> condense_state" where
  "push_separated l st = st\<lparr>cd_out := (if cd_out st = [] then [] else cd_out st @ [newline]) @ l\<rparr>"

definition flush_remaining :: "condense_state \<Rightarrow> condense_state" where
  "flush_remaining st =
     (if cd_in_tool_result st \<and> cd_remaining st > 0
      then (push_line (more_lines_note (cd_remaining st)) st)\<lparr>cd_remaining := 0\<rparr>
      else st)"

definition condense_line :: "string \<Rightarrow> condense_state \<Rightarrow> condense_state" where
  "condense_line l st =
     (if ends_with l more_lines \<and> starts_with l ''('' then
        (if cd_in_tool_result st then push_line l st else push_separated l st)
      else if starts_with l tool_result_prefix \<or> starts_with l tool_error_prefix then
        push_line l ((flush_remaining st)\<lparr>cd_in_tool_result := True, cd_since_header := 0\<rparr>)
      else if cd_in_tool_result st then
        (let st1 = st\<lparr>cd_since_header := cd_since_header st + 1\<rparr> in
         if cd_since_header st1 \<le> CONDENSED_TOOL_RESULT_LINES then push_line l st1
         else st1\<lparr>cd_remaining := cd_remaining st1 + 1\<rparr>)
      else push_separated l st)"

definition condense_text_protocol_tool_results :: "string \<Rightarrow> string" where
  "condense_text_protocol_tool_results s =
     (let out = cd_out (flush_remaining (fold condense_line (str_lines s) condense_start)) in
      if starts_with out [newline] \<and> \<not> starts_with s [newline] then tl out else out)"

fun condense_block :: "content_block \<Rightarrow> content_block" where
  "condense_block (ToolResultContent i content e) =
     ToolResultContent i (truncate_to_lines content CONDENSED_TOOL_RESULT_LINES) e"
| "condense_block b = b"

text \<open>One message; the test on its text differs between the two callers.\<close>

definition condense_message :: "(string \<Rightarrow> bool) \<Rightarrow> api_message \<Rightarrow> api_message" where
  "condense_message is_result message =
     (if am_role message \<noteq> user_role then message
      else
        (case am_content message of
           Blocks blocks \<Rightarrow> message\<lparr>am_content := Blocks (map condense_block blocks)\<rparr>
         | TextMessage s \<Rightarrow>
             if is_result s
             then message\<lparr>am_content := TextMessage (condense_text_protocol_tool_results s)\<rparr>
             else message))"

definition condense_all_tool_results_for_overflow :: "api_message list \<Rightarrow> api_message list" where
  "condense_all_tool_results_for_overflow = map (condense_message text_protocol_tool_result_message)"

text \<open>The position of the n-th last message with a property, counting from the end; \<open>d\<close> when there are fewer.\<close>

fun nth_last_from :: "('a \<Rightarrow> bool) \<Rightarrow> nat \<Rightarrow> 'a list \<Rightarrow> nat \<Rightarrow> nat \<Rightarrow> nat" where
  "nth_last_from p n [] count d = d"
| "nth_last_from p n (x # xs) count d =
     (if p x
      then (if count + 1 \<ge> n then length xs else nth_last_from p n xs (count + 1) d)
      else nth_last_from p n xs count d)"

definition turn_boundary :: "('a \<Rightarrow> bool) \<Rightarrow> nat \<Rightarrow> 'a list \<Rightarrow> nat \<Rightarrow> nat" where
  "turn_boundary p n messages d = nth_last_from p n (rev messages) 0 d"

definition condense_old_tool_results :: "nat \<Rightarrow> api_message list \<Rightarrow> api_message list" where
  "condense_old_tool_results keep_turns messages =
     (let len = length messages;
          boundary = turn_boundary (\<lambda>m. am_role m = user_role) keep_turns messages len
      in if boundary \<ge> len \<or> boundary = 0 then messages
         else map (condense_message (\<lambda>s. contains s tool_result_prefix \<or> contains s tool_error_prefix))
                (take boundary messages) @ drop boundary messages)"

section \<open>Pruning\<close>

text \<open>The scan for the next message of the user, from \<open>keep_start\<close> on; an anchor stops it.\<close>

function scan_keep_start :: "nat option \<Rightarrow> api_message list \<Rightarrow> nat \<Rightarrow> nat" where
  "scan_keep_start anchor messages keep_start =
     (if keep_start < length messages then
        (if anchor = Some keep_start then keep_start
         else if user_turn (messages ! keep_start) then keep_start
         else scan_keep_start anchor messages (keep_start + 1))
      else keep_start)"
  by pat_completeness auto
termination
  by (relation "measure (\<lambda>(a, ms, k). length ms - k)") auto

declare scan_keep_start.simps [simp del]

definition prune_keep_start :: "nat \<Rightarrow> nat \<Rightarrow> api_message list \<Rightarrow> nat" where
  "prune_keep_start max_api_messages preserve_index messages =
     (let len = length messages;
          target_keep_start = len - max_api_messages;
          keep_preserve_anchor =
            (preserve_index < target_keep_start \<and> target_keep_start - preserve_index \<le> 2);
          start = (if keep_preserve_anchor then preserve_index else target_keep_start);
          scanned = scan_keep_start (if keep_preserve_anchor then Some preserve_index else None)
                      messages start;
          clamped = max scanned target_keep_start
      in if clamped \<ge> len then min start (len - 1) else clamped)"

definition prune_message_history_preserving ::
  "nat \<Rightarrow> nat \<Rightarrow> api_message list \<Rightarrow> nat \<times> api_message list" where
  "prune_message_history_preserving max_api_messages preserve_index messages =
     (if messages = [] then (0, messages)
      else if length messages \<le> max_api_messages
      then (min preserve_index (length messages - 1), messages)
      else
        (let keep_start = prune_keep_start max_api_messages preserve_index messages
         in if keep_start > 0 then (preserve_index - keep_start, drop keep_start messages)
            else (preserve_index, messages)))"

definition overflow_keep_start :: "nat \<Rightarrow> nat option \<Rightarrow> api_message list \<Rightarrow> nat" where
  "overflow_keep_start keep_messages preserve_index messages =
     (let len = length messages;
          target_keep_start = len - keep_messages;
          keep_preserve_anchor =
            (case preserve_index of Some i \<Rightarrow> i < target_keep_start | None \<Rightarrow> False);
          start = (if keep_preserve_anchor then the preserve_index else target_keep_start);
          scanned = scan_keep_start (if keep_preserve_anchor then preserve_index else None) messages start
      in if scanned \<ge> len then min start (len - 1) else scanned)"

definition index_or_zero :: "nat option \<Rightarrow> nat" where
  "index_or_zero p = (case p of Some i \<Rightarrow> i | None \<Rightarrow> 0)"

definition compact_for_context_overflow_inner ::
  "nat \<Rightarrow> nat option \<Rightarrow> api_message list \<Rightarrow> nat \<times> api_message list" where
  "compact_for_context_overflow_inner keep preserve messages0 =
     (if messages0 = [] then (0, messages0)
      else
        (let keep_messages = max keep 1;
             messages = condense_all_tool_results_for_overflow messages0;
             len = length messages
         in if len \<le> keep_messages then (min (index_or_zero preserve) (len - 1), messages)
            else
              (let preserve_index = map_option (\<lambda>i. min i (len - 1)) preserve;
                   keep_start = overflow_keep_start keep_messages preserve_index messages
               in if keep_start > 0 \<and> keep_start < len
                  then (index_or_zero preserve_index - keep_start, drop keep_start messages)
                  else (index_or_zero preserve_index, messages))))"

definition compact_for_context_overflow_preserving ::
  "nat \<Rightarrow> nat \<Rightarrow> api_message list \<Rightarrow> nat \<times> api_message list" where
  "compact_for_context_overflow_preserving keep_messages preserve_index =
     compact_for_context_overflow_inner keep_messages (Some preserve_index)"

section \<open>Proactive compaction\<close>

definition usize_mul :: "nat \<Rightarrow> nat \<Rightarrow> nat" where
  "usize_mul a b = (a * b) mod (u64_max + 1)"

fun block_length :: "(json \<Rightarrow> string) \<Rightarrow> content_block \<Rightarrow> nat" where
  "block_length display (TextContent s c) = length s"
| "block_length display (ToolUseContent i n input m) = length (display input)"
| "block_length display (ToolResultContent i content e) = length content"
| "block_length display _ = 0"

definition content_length :: "(json \<Rightarrow> string) \<Rightarrow> message_content \<Rightarrow> nat" where
  "content_length display content =
     (case content of
        TextMessage s \<Rightarrow> length s
      | Blocks blocks \<Rightarrow> sum_list (map (block_length display) blocks))"

definition estimate_history_tokens :: "(json \<Rightarrow> string) \<Rightarrow> api_message list \<Rightarrow> nat" where
  "estimate_history_tokens display messages =
     sum_list (map (content_length display \<circ> am_content) messages) div 4"

definition should_compact_proactively ::
  "(json \<Rightarrow> string) \<Rightarrow> compaction_config \<Rightarrow> nat \<Rightarrow> api_message list \<Rightarrow> bool" where
  "should_compact_proactively display config context_window_tokens messages =
     (if \<not> cfg_enabled config \<or> context_window_tokens = 0 then False
      else estimate_history_tokens display messages
             > usize_mul context_window_tokens (cfg_threshold_percent config) div 100)"

definition effective_proactive_compaction_config ::
  "bool \<Rightarrow> compaction_config \<Rightarrow> bool \<Rightarrow> compaction_config" where
  "effective_proactive_compaction_config is_local config requires_tool_evidence =
     (if cfg_enabled config \<or> \<not> is_local \<or> \<not> requires_tool_evidence then config
      else \<lparr>cfg_enabled = True, cfg_threshold_percent = 60, cfg_keep_recent_turns = 1,
            cfg_summary_max_tokens = 384\<rparr>)"

definition should_force_local_handoff_compaction ::
  "bool \<Rightarrow> compaction_config \<Rightarrow> bool \<Rightarrow> api_message list \<Rightarrow> bool" where
  "should_force_local_handoff_compaction is_local config requires_tool_evidence messages \<longleftrightarrow>
     \<not> cfg_enabled config \<and> is_local \<and> requires_tool_evidence \<and> length messages \<ge> 2"

definition summary_intro :: string where
  "summary_intro = ''[conversation summary] ''"

definition summary_guidance :: string where
  "summary_guidance =
     ''Use the summary only as background context. Treat the current request below as authoritative and do not ''
     @ ''continue earlier file targets unless the current request asks for them.''"

definition current_request :: string where
  "current_request = ''[current request]'' @ [newline]"

definition with_summary :: "string \<Rightarrow> string \<Rightarrow> string" where
  "with_summary summary s =
     summary_intro @ summary @ [newline, newline] @ summary_guidance @ [newline, newline]
     @ current_request @ s"

definition add_summary :: "string \<Rightarrow> api_message list \<Rightarrow> api_message list" where
  "add_summary summary messages =
     (case messages of
        [] \<Rightarrow> []
      | first # rest \<Rightarrow>
          (case am_content first of
             TextMessage s \<Rightarrow>
               if summary \<noteq> [] \<and> user_turn first
               then first\<lparr>am_content := TextMessage (with_summary summary s)\<rparr> # rest
               else messages
           | Blocks b \<Rightarrow> messages))"

definition compact_with_summary :: "nat \<Rightarrow> string \<Rightarrow> api_message list \<Rightarrow> nat \<times> api_message list" where
  "compact_with_summary keep_recent_turns summary messages =
     (let boundary = turn_boundary user_turn keep_recent_turns messages 0 in
      if messages = [] \<or> boundary = 0 then (0, messages)
      else (boundary, add_summary summary (drop boundary messages)))"

definition first_nonblank :: "(string \<Rightarrow> bool) \<Rightarrow> string \<Rightarrow> string option" where
  "first_nonblank p s = List.find (\<lambda>l. l \<noteq> [] \<and> p l) (map trim (str_lines s))"

definition split_once :: "string \<Rightarrow> string \<Rightarrow> (string \<times> string) option" where
  "split_once s pat = map_option (\<lambda>i. (take i s, drop (i + length pat) s)) (find_str pat s)"

definition summary_user_text_line :: "string \<Rightarrow> string option" where
  "summary_user_text_line s =
     (case split_once s current_request of
        Some (before, request) \<Rightarrow> first_nonblank (\<lambda>l. True) request
      | None \<Rightarrow>
          first_nonblank (\<lambda>l. \<not> starts_with l ''[conversation summary]''
            \<and> \<not> starts_with l ''Use the summary only as background context.''
            \<and> \<not> starts_with l ''Treat the current request below as authoritative'') s)"

definition first_line :: "string \<Rightarrow> string option" where
  "first_line s = (case str_lines s of [] \<Rightarrow> None | l # ls \<Rightarrow> Some l)"

fun block_summary :: "content_block \<Rightarrow> string option" where
  "block_summary (TextContent s c) = first_line s"
| "block_summary (ToolUseContent i name input m) = Some (''[tool: '' @ name @ '']'')"
| "block_summary (ToolResultContent i content e) = first_line content"
| "block_summary _ = None"

definition message_summary :: "api_message \<Rightarrow> string" where
  "message_summary message =
     (case (case am_content message of
              TextMessage s \<Rightarrow> summary_user_text_line s
            | Blocks blocks \<Rightarrow> find_map block_summary blocks) of
        Some l \<Rightarrow> l | None \<Rightarrow> [])"

text \<open>The entries that fit: the loop ends at the first one that does not.\<close>

fun collect_summaries :: "nat \<Rightarrow> nat \<Rightarrow> api_message list \<Rightarrow> string list" where
  "collect_summaries max_bytes bytes [] = []"
| "collect_summaries max_bytes bytes (message # rest) =
     (if \<not> user_turn message then collect_summaries max_bytes bytes rest
      else if message_summary message = [] then collect_summaries max_bytes bytes rest
      else
        (let entry = ''- '' @ am_role message @ '': '' @ message_summary message;
             bytes' = bytes + length entry
         in if bytes' > max_bytes then [] else entry # collect_summaries max_bytes bytes' rest))"

definition build_heuristic_summary :: "api_message list \<Rightarrow> nat \<Rightarrow> nat \<Rightarrow> string" where
  "build_heuristic_summary messages keep_recent_turns max_tokens =
     (let boundary = turn_boundary user_turn keep_recent_turns messages 0 in
      if messages = [] \<or> boundary = 0 then []
      else join_with [newline]
             (collect_summaries (usize_mul max_tokens 4) 0 (take boundary messages)))"

definition run_proactive_compaction ::
  "(json \<Rightarrow> string) \<Rightarrow> bool \<Rightarrow> compaction_config \<Rightarrow> nat \<Rightarrow> bool \<Rightarrow> api_message list
     \<Rightarrow> (nat \<times> nat \<times> string) option \<times> api_message list" where
  "run_proactive_compaction display is_local compaction context_window_tokens requires_tool_evidence messages =
     (let config = effective_proactive_compaction_config is_local compaction requires_tool_evidence in
      if \<not> should_force_local_handoff_compaction is_local compaction requires_tool_evidence messages
         \<and> \<not> should_compact_proactively display config context_window_tokens messages
      then (None, messages)
      else
        (let keep = cfg_keep_recent_turns config;
             summary = build_heuristic_summary messages keep (cfg_summary_max_tokens config);
             (removed, messages') = compact_with_summary keep summary messages
         in if removed = 0 then (None, messages')
            else (Some (length messages, length messages', summary), messages')))"

section \<open>Limits and truncation\<close>

definition clamp :: "nat \<Rightarrow> nat \<Rightarrow> nat \<Rightarrow> nat" where
  "clamp v low high = (if v < low then low else if v > high then high else v)"

definition parse_env :: "(string \<Rightarrow> string option) \<Rightarrow> string \<Rightarrow> nat option" where
  "parse_env env key = Option.bind (env key) (parse_u64 \<circ> trim)"

definition env_override_usize ::
  "(string \<Rightarrow> string option) \<Rightarrow> string \<Rightarrow> nat \<Rightarrow> nat \<Rightarrow> nat \<Rightarrow> nat" where
  "env_override_usize env key dflt low high =
     (case parse_env env key of Some v \<Rightarrow> clamp v low high | None \<Rightarrow> dflt)"

definition resolve_history_limits :: "(string \<Rightarrow> string option) \<Rightarrow> bool \<Rightarrow> history_limits" where
  "resolve_history_limits env is_local =
     \<lparr>hl_max_assistant_history_chars =
        env_override_usize env ''VEX_MAX_ASSISTANT_HISTORY_CHARS'' (if is_local then 1200 else 3000) 200 20000,
      hl_max_tool_result_history_chars =
        env_override_usize env ''VEX_MAX_TOOL_RESULT_HISTORY_CHARS'' (if is_local then 2500 else 6000) 200 40000,
      hl_max_api_messages =
        env_override_usize env ''VEX_MAX_API_MESSAGES'' (if is_local then 14 else 32) 4 128\<rparr>"

definition resolve_tool_timeout :: "(string \<Rightarrow> string option) \<Rightarrow> bool \<Rightarrow> nat" where
  "resolve_tool_timeout env is_local =
     clamp (case parse_env env ''VEX_TOOL_TIMEOUT_SECS'' of
              Some v \<Rightarrow> v | None \<Rightarrow> if is_local then 20 else 60) 2 300"

definition resolve_max_tool_rounds :: "(string \<Rightarrow> string option) \<Rightarrow> bool \<Rightarrow> nat" where
  "resolve_max_tool_rounds env is_local =
     clamp (case parse_env env ''VEX_MAX_TOOL_ROUNDS'' of
              Some v \<Rightarrow> v | None \<Rightarrow> if is_local then 12 else 24) 2 64"

definition resolve_history_keep_turns :: "(string \<Rightarrow> string option) \<Rightarrow> nat" where
  "resolve_history_keep_turns env = env_override_usize env ''VEX_HISTORY_KEEP_TURNS'' 10 2 64"

definition omitted_note :: "nat \<Rightarrow> string" where
  "omitted_note n =
     [newline] @ ''...['' @ nat_dec n @ '' chars omitted]...'' @ [newline]"

definition truncate_for_history :: "string \<Rightarrow> nat \<Rightarrow> string" where
  "truncate_for_history s max_chars =
     (let chars = utf8_chars s; char_count = length chars in
      if max_chars = 0 then []
      else if char_count \<le> max_chars then s
      else
        (let indicator = omitted_note (char_count - max_chars);
             indicator_len = length (utf8_chars indicator)
         in if indicator_len \<ge> max_chars then concat (take max_chars chars)
            else
              (let available = max_chars - indicator_len;
                   keep_head = available div 2;
                   keep_suffix = available - keep_head
               in concat (take keep_head chars) @ indicator @ concat (drop (char_count - keep_suffix) chars))))"

end
