(* ===== verification/Text_Util.thy ===== *)
theory Text_Util
  imports Text_Normaliser
begin

text \<open>
  Cutting texts at character boundaries (\<open>src/runtime/text_util.rs\<close>), and what a boundary means for the
  characters on its two sides.
\<close>

section \<open>Characters\<close>

text \<open>
  Characters of a UTF-8 string: what taking and dropping characters does to the bytes, and that
  trimming twice is trimming once.
\<close>

text \<open>Characters as \<open>chars()\<close> yields them: a first byte and the continuation bytes after it.\<close>

definition is_char :: "string \<Rightarrow> bool" where
  "is_char c \<longleftrightarrow> c \<noteq> [] \<and> list_all is_cont (tl c)"

definition leads :: "string \<Rightarrow> bool" where
  "leads s \<longleftrightarrow> s = [] \<or> \<not> is_cont (hd s)"

lemma utf8_chars_lead: "leads b \<Longrightarrow> utf8_chars (a @ b) = utf8_chars a @ utf8_chars b"
  by (simp add: leads_def utf8_chars_append)

lemma set_tlD: "x \<in> set (tl xs) \<Longrightarrow> x \<in> set xs"
  by (cases xs) auto

lemma utf8_chars_concat:
  assumes "\<forall>c \<in> set cs. is_char c" and "\<forall>c \<in> set (tl cs). leads c"
  shows "utf8_chars (concat cs) = cs"
  using assms
proof (induction cs)
  case (Cons c cs)
  obtain x xs where c: "c = x # xs" "list_all is_cont xs"
    using Cons.prems(1) by (cases c) (auto simp: is_char_def)
  have "leads (concat cs)" using Cons.prems by (cases cs) (auto simp: leads_def is_char_def)
  then have "utf8_chars (c @ concat cs) = utf8_chars c @ utf8_chars (concat cs)"
    by (rule utf8_chars_lead)
  moreover have "utf8_chars c = [c]"
    using c by (simp add: list_all_iff takeWhile_eq_all_conv [THEN iffD2] dropWhile_eq_Nil_conv [THEN iffD2])
  moreover have "utf8_chars (concat cs) = cs"
    using Cons.prems by (intro Cons.IH) (auto dest: set_tlD)
  ultimately show ?case by simp
qed simp

lemma utf8_chars_wf: "(\<forall>c \<in> set (utf8_chars s). is_char c) \<and> (\<forall>c \<in> set (tl (utf8_chars s)). leads c)"
proof (induction s rule: utf8_chars.induct)
  case (2 c cs)
  have "leads d" if "d \<in> set (utf8_chars (dropWhile is_cont cs))" for d
  proof (cases "dropWhile is_cont cs")
    case Nil
    with that show ?thesis by simp
  next
    case (Cons x xs)
    then have "\<not> is_cont x" by (metis hd_dropWhile list.distinct(1) list.sel(1))
    with 2 that Cons show ?thesis by (auto simp: leads_def)
  qed
  with 2 show ?case by (auto simp: is_char_def list_all_iff dest: set_takeWhileD)
qed simp

lemma utf8_chars_take:
  "utf8_chars (concat (take k (utf8_chars s))) = take k (utf8_chars s)"
  using utf8_chars_wf [of s] by (intro utf8_chars_concat) (auto dest: in_set_takeD simp: tl_take)

lemma utf8_chars_drop:
  assumes "0 < k"
  shows "utf8_chars (concat (drop k (utf8_chars s))) = drop k (utf8_chars s)"
    and "leads (concat (drop k (utf8_chars s)))"
proof -
  have sub: "set (drop k (utf8_chars s)) \<subseteq> set (tl (utf8_chars s))"
    using assms by (metis Suc_pred drop_Suc set_drop_subset)
  with utf8_chars_wf [of s]
  have wf: "\<forall>c \<in> set (drop k (utf8_chars s)). is_char c \<and> leads c"
    by (auto dest: in_set_dropD)
  then show "utf8_chars (concat (drop k (utf8_chars s))) = drop k (utf8_chars s)"
    by (intro utf8_chars_concat) (auto dest: set_tlD)
  from wf show "leads (concat (drop k (utf8_chars s)))"
    by (cases "drop k (utf8_chars s)") (auto simp: leads_def is_char_def)
qed

lemma dropWhile_conv_drop: "\<exists>k. dropWhile P xs = drop k xs"
  by (metis dropWhile_eq_drop)

lemma rev_dropWhile_rev_conv_take: "\<exists>k. rev (dropWhile P (rev xs)) = take k xs"
  by (metis dropWhile_eq_drop rev_drop rev_rev_ident length_rev)

lemma utf8_chars_drop_all: "utf8_chars (concat (drop k (utf8_chars s))) = drop k (utf8_chars s)"
  by (cases "k = 0") (auto simp: utf8_chars_drop concat_utf8_chars)

lemma utf8_chars_trim_start: "utf8_chars (trim_start s) = dropWhile is_ws (utf8_chars s)"
  using dropWhile_conv_drop [of is_ws "utf8_chars s"] by (auto simp: trim_start_def utf8_chars_drop_all)

lemma utf8_chars_trim_end: "utf8_chars (trim_end s) = rev (dropWhile is_ws (rev (utf8_chars s)))"
  using rev_dropWhile_rev_conv_take [of is_ws "utf8_chars s"] by (auto simp: trim_end_def utf8_chars_take)

lemma utf8_chars_trim:
  "utf8_chars (trim s) = rev (dropWhile is_ws (rev (dropWhile is_ws (utf8_chars s))))"
  by (simp add: trim_def utf8_chars_trim_end utf8_chars_trim_start)

lemma dropWhile_both_idem:
  fixes P f defines "f \<equiv> \<lambda>xs. rev (dropWhile P (rev (dropWhile P xs)))"
  shows "f (f xs) = f xs"
proof -
  let ?ys = "dropWhile P xs"
  have "dropWhile P (f xs) = f xs"
  proof (cases "f xs")
    case (Cons y ys)
    obtain k where "f xs = take k ?ys" using rev_dropWhile_rev_conv_take unfolding f_def by blast
    then have "y = hd ?ys" "?ys \<noteq> []" using Cons by (cases ?ys; cases k; auto)+
    then have "\<not> P y" using hd_dropWhile by blast
    then show ?thesis using Cons by simp
  qed simp
  then show ?thesis unfolding f_def by (simp add: dropWhile_idem)
qed

lemma trim_idem: "trim (trim s) = trim s"
proof -
  have "utf8_chars (trim (trim s)) = utf8_chars (trim s)"
    by (simp add: utf8_chars_trim dropWhile_both_idem)
  then show ?thesis by (metis concat_utf8_chars)
qed

section \<open>Words\<close>

text \<open>\<open>split_whitespace\<close>: the characters, and the word that is being read.\<close>

fun split_ws :: "string list \<Rightarrow> string \<Rightarrow> string list" where
  "split_ws [] word = (if word = '''' then [] else [word])"
| "split_ws (c # cs) word =
     (if is_ws c then (if word = '''' then [] else [word]) @ split_ws cs '''' else split_ws cs (word @ c))"

text \<open>\<open>strip_prefix\<close>.\<close>

definition strip_start :: "string \<Rightarrow> string \<Rightarrow> string option" where
  "strip_start p s = (if prefix p s then Some (drop (length p) s) else None)"

section \<open>Cutting texts\<close>

text \<open>\<open>trim_end_matches\<close> with a character.\<close>

definition trim_end_char :: "char \<Rightarrow> string \<Rightarrow> string" where
  "trim_end_char c s = rev (dropWhile ((=) c) (rev s))"

function char_start_at_most :: "string \<Rightarrow> nat \<Rightarrow> nat" where
  "char_start_at_most s boundary =
     (if boundary > 0 \<and> \<not> is_char_boundary s boundary then char_start_at_most s (boundary - 1) else boundary)"
  by pat_completeness auto
termination by (relation "measure snd") auto

function char_start_at_least :: "string \<Rightarrow> nat \<Rightarrow> nat" where
  "char_start_at_least s start =
     (if start < length s \<and> \<not> is_char_boundary s start then char_start_at_least s (start + 1) else start)"
  by pat_completeness auto
termination by (relation "measure (\<lambda>(s, start). length s - start)") auto

declare char_start_at_most.simps [simp del] char_start_at_least.simps [simp del]

definition truncate_head_bytes :: "string \<Rightarrow> nat \<Rightarrow> string \<times> bool" where
  "truncate_head_bytes s max_bytes =
     (if length s \<le> max_bytes then (s, False) else (take (char_start_at_most s max_bytes) s, True))"

definition truncate_tail_bytes :: "string \<Rightarrow> nat \<Rightarrow> string \<times> bool" where
  "truncate_tail_bytes s max_bytes =
     (if length s \<le> max_bytes then (s, False)
      else (drop (char_start_at_least s (length s - max_bytes)) s, True))"

section \<open>Boundaries\<close>

lemma char_start_at_most_le: "char_start_at_most s n \<le> n"
proof (induction s n rule: char_start_at_most.induct)
  case (1 s n)
  show ?case
  proof (cases "n > 0 \<and> \<not> is_char_boundary s n")
    case True
    with 1 [OF True] show ?thesis by (simp add: char_start_at_most.simps [of s n])
  next
    case False
    then show ?thesis by (auto simp: char_start_at_most.simps [of s n])
  qed
qed

lemma boundary_leads: "is_char_boundary s i \<Longrightarrow> leads (drop i s)"
  by (auto simp: is_char_boundary_def leads_def hd_drop_conv_nth)

lemma boundary_iff: "is_char_boundary s i \<longleftrightarrow> i \<le> length s \<and> leads (drop i s)"
  by (auto simp: is_char_boundary_def leads_def hd_drop_conv_nth)

lemma boundary_end [simp]: "is_char_boundary s (length s)"
  by (simp add: is_char_boundary_def)

lemma boundary_le: "is_char_boundary s i \<Longrightarrow> i \<le> length s"
  by (auto simp: is_char_boundary_def)

lemma boundary_0: "leads s \<Longrightarrow> is_char_boundary s 0"
  by (cases s) (auto simp: is_char_boundary_def leads_def)

lemma char_start_at_most_boundary:
  "leads s \<Longrightarrow> n \<le> length s \<Longrightarrow> is_char_boundary s (char_start_at_most s n)"
proof (induction s n rule: char_start_at_most.induct)
  case (1 s n)
  then show ?case
    by (auto simp: char_start_at_most.simps [of s n] boundary_0)
qed

lemma char_start_at_most_id: "is_char_boundary s n \<Longrightarrow> char_start_at_most s n = n"
  by (subst char_start_at_most.simps) simp

text \<open>Between the start that is found and the position asked for there are only continuation bytes.\<close>

lemma char_start_at_most_greatest:
  "is_char_boundary s k \<Longrightarrow> k \<le> n \<Longrightarrow> k \<le> char_start_at_most s n"
proof (induction s n rule: char_start_at_most.induct)
  case (1 s n)
  then show ?case
  proof (cases "n > 0 \<and> \<not> is_char_boundary s n")
    case True
    with 1(2,3) have "k \<le> n - 1" by (cases "k = n") auto
    with 1(1) [OF True 1(2)] True show ?thesis by (simp add: char_start_at_most.simps [of s n])
  next
    case False
    with 1(3) show ?thesis by (auto simp: char_start_at_most.simps [of s n])
  qed
qed

end
