(* ===== verification/History_Laws.thy ===== *)
theory History_Laws
  imports History Text_Util
begin

text \<open>
  What the history operations guarantee: a pruned history is a bounded suffix, the current request survives an
  overflow compaction, a proactive compaction keeps the recent turns, and truncated text keeps its bound.
\<close>

section \<open>The scan\<close>

lemma scan_keep_start_ge: "k \<le> scan_keep_start anchor messages k"
  by (induction anchor messages k rule: scan_keep_start.induct)
     (subst scan_keep_start.simps, auto)

lemma scan_keep_start_le: "scan_keep_start anchor messages k \<le> max k (length messages)"
  by (induction anchor messages k rule: scan_keep_start.induct)
     (subst scan_keep_start.simps, auto)

lemma scan_keep_start_hit:
  "scan_keep_start anchor messages k < length messages \<Longrightarrow>
     anchor = Some (scan_keep_start anchor messages k)
     \<or> user_turn (messages ! scan_keep_start anchor messages k)"
  by (induction anchor messages k rule: scan_keep_start.induct)
     (subst (asm) (2) scan_keep_start.simps, subst (1 2) scan_keep_start.simps, auto split: if_splits)

text \<open>A message of the user at or after the start stops the scan.\<close>

lemma scan_keep_start_stops:
  "k \<le> j \<Longrightarrow> j < length messages \<Longrightarrow> user_turn (messages ! j) \<Longrightarrow> scan_keep_start anchor messages k \<le> j"
proof (induction anchor messages k rule: scan_keep_start.induct)
  case (1 anchor messages k)
  show ?case
  proof (cases "k = j")
    case True
    with 1 show ?thesis by (subst scan_keep_start.simps) auto
  next
    case False
    with 1 show ?thesis by (subst scan_keep_start.simps) auto
  qed
qed

lemma scan_keep_start_anchor: "k < length messages \<Longrightarrow> scan_keep_start (Some k) messages k = k"
  by (subst scan_keep_start.simps) simp

section \<open>Condensing\<close>

lemma condense_user_turn: "user_turn m \<Longrightarrow> condense_message text_protocol_tool_result_message m = m"
proof -
  assume u: "user_turn m"
  have "map condense_block blocks = blocks" if "\<not> list_ex is_tool_result_block blocks" for blocks
  proof (rule map_idI)
    fix b assume "b \<in> set blocks"
    with that have "\<not> is_tool_result_block b" by (auto simp: list_ex_iff)
    then show "condense_block b = b" by (cases b) simp_all
  qed
  with u show ?thesis
    by (auto simp: user_turn_def condense_message_def message_contains_tool_result_def
        split: message_content.splits)
qed

lemma condense_all_nth:
  "i < length messages \<Longrightarrow> user_turn (messages ! i)
     \<Longrightarrow> condense_all_tool_results_for_overflow messages ! i = messages ! i"
  by (simp add: condense_all_tool_results_for_overflow_def condense_user_turn)

lemma condense_all_length [simp]:
  "length (condense_all_tool_results_for_overflow messages) = length messages"
  by (simp add: condense_all_tool_results_for_overflow_def)

section \<open>Pruning and overflow compaction\<close>

text \<open>Where the kept part of a pruned history starts.\<close>

lemma prune_short:
  "length messages \<le> max_messages \<Longrightarrow> p < length messages
     \<Longrightarrow> prune_message_history_preserving max_messages p messages = (p, messages)"
  by (auto simp: prune_message_history_preserving_def)

lemma prune_long:
  "max_messages < length messages \<Longrightarrow>
     prune_message_history_preserving max_messages p messages
       = (p - prune_keep_start max_messages p messages, drop (prune_keep_start max_messages p messages) messages)"
  by (auto simp: prune_message_history_preserving_def Let_def)

lemma prune_keep_start_bounds:
  assumes "0 < max_messages" and "max_messages < length messages"
  shows "length messages - max_messages \<le> prune_keep_start max_messages p messages"
    and "prune_keep_start max_messages p messages < length messages"
proof -
  let ?target = "length messages - max_messages"
  have target: "?target < length messages" using assms by auto
  have "length messages - max_messages \<le> prune_keep_start max_messages p messages
    \<and> prune_keep_start max_messages p messages < length messages"
  proof (cases "p < ?target \<and> ?target - p \<le> 2")
    case True
    with target have "scan_keep_start (Some p) messages p = p" by (simp add: scan_keep_start_anchor)
    with True target show ?thesis by (simp add: prune_keep_start_def Let_def)
  next
    case False
    with target show ?thesis by (auto simp: prune_keep_start_def Let_def)
  qed
  then show "length messages - max_messages \<le> prune_keep_start max_messages p messages"
    "prune_keep_start max_messages p messages < length messages" by auto
qed

text \<open>
  Pruning keeps a suffix of the history of at most the allowed number of messages,
  never an empty one, and the index it returns is that of the same message where that message is kept.
\<close>

theorem prune_history_bounded:
  assumes "prune_message_history_preserving max_messages p messages = (i, messages')"
    and "0 < max_messages" and "p < length messages"
  shows "\<exists>k < length messages. messages' = drop k messages \<and> length messages' \<le> max_messages
    \<and> i < length messages' \<and> (k \<le> p \<longrightarrow> messages' ! i = messages ! p)"
proof (cases "length messages \<le> max_messages")
  case True
  with assms prune_short [of messages max_messages p] show ?thesis by (intro exI [of _ 0]) auto
next
  case False
  then have long: "max_messages < length messages" by simp
  with assms(1) have "messages' = drop (prune_keep_start max_messages p messages) messages"
    "i = p - prune_keep_start max_messages p messages"
    by (simp_all add: prune_long)
  with prune_keep_start_bounds [OF assms(2) long, of p] assms(3) long show ?thesis
    by (intro exI [of _ "prune_keep_start max_messages p messages"]) auto
qed

section \<open>Overflow compaction\<close>

lemma compact_short:
  "length messages \<le> max keep 1 \<Longrightarrow> p < length messages
     \<Longrightarrow> compact_for_context_overflow_preserving keep p messages
       = (p, condense_all_tool_results_for_overflow messages)"
  by (auto simp: compact_for_context_overflow_preserving_def compact_for_context_overflow_inner_def
      index_or_zero_def Let_def)

lemma compact_long:
  assumes "max keep 1 < length messages" and "p < length messages"
    and "k = overflow_keep_start (max keep 1) (Some p) (condense_all_tool_results_for_overflow messages)"
    and "k < length messages"
  shows "compact_for_context_overflow_preserving keep p messages
    = (p - k, drop k (condense_all_tool_results_for_overflow messages))"
proof -
  have "min p (length messages - 1) = p" using assms(2) by simp
  with assms show ?thesis
    by (auto simp: compact_for_context_overflow_preserving_def compact_for_context_overflow_inner_def
        index_or_zero_def Let_def)
qed

lemma overflow_keep_start_bounds:
  assumes "p < length messages" and "user_turn (messages ! p)" and "0 < keep" and "keep < length messages"
  shows "overflow_keep_start keep (Some p) messages \<le> p
    \<and> (length messages - overflow_keep_start keep (Some p) messages \<le> keep
       \<or> overflow_keep_start keep (Some p) messages = p)"
proof (cases "p < length messages - keep")
  case True
  with assms(1) show ?thesis
    by (simp add: overflow_keep_start_def Let_def scan_keep_start_anchor)
next
  case False
  then have "scan_keep_start None messages (length messages - keep) \<le> p"
    using assms by (intro scan_keep_start_stops) auto
  moreover have "length messages - keep \<le> scan_keep_start None messages (length messages - keep)"
    by (rule scan_keep_start_ge)
  ultimately show ?thesis
    using False assms(1) by (auto simp: overflow_keep_start_def Let_def)
qed

lemma compact_start:
  assumes "compact_for_context_overflow_preserving keep p messages = (i, messages')"
    and "p < length messages" and "user_turn (messages ! p)"
  shows "\<exists>k \<le> p. messages' = drop k (condense_all_tool_results_for_overflow messages) \<and> i = p - k
    \<and> (length messages' \<le> max keep 1 \<or> i = 0)"
proof (cases "length messages \<le> max keep 1")
  case True
  with assms compact_short [OF True assms(2)] show ?thesis by (intro exI [of _ 0]) auto
next
  case False
  let ?ms = "condense_all_tool_results_for_overflow messages"
  let ?k = "overflow_keep_start (max keep 1) (Some p) ?ms"
  have "user_turn (?ms ! p)" using condense_all_nth [OF assms(2,3)] assms(3) by simp
  with False assms(2) have k: "?k \<le> p" "length messages - ?k \<le> max keep 1 \<or> ?k = p"
    using overflow_keep_start_bounds [of p ?ms "max keep 1"] by auto
  have "max keep 1 < length messages" "?k < length messages" using False k(1) assms(2) by auto
  from compact_long [OF this(1) assms(2) refl this(2)] assms(1)
  have "i = p - ?k" "messages' = drop ?k ?ms" by auto
  with k show ?thesis by (intro exI [of _ ?k]) auto
qed

text \<open>
  C31 [overflow_keeps_request]. When the history is compacted because the context overflowed, the message of the
  user that the caller asks to preserve is kept unchanged, at the index that is returned; the rest is
  dropped from the front only.
\<close>

theorem overflow_keeps_request:
  assumes "compact_for_context_overflow_preserving keep p messages = (i, messages')"
    and "p < length messages" and "user_turn (messages ! p)"
  shows "i < length messages' \<and> messages' ! i = messages ! p
    \<and> drop i messages' = drop p (condense_all_tool_results_for_overflow messages)
    \<and> (length messages' \<le> max keep 1 \<or> i = 0)"
proof -
  from compact_start [OF assms] obtain k where k: "k \<le> p"
    "messages' = drop k (condense_all_tool_results_for_overflow messages)" "i = p - k"
    "length messages' \<le> max keep 1 \<or> i = 0" by blast
  with assms(2) condense_all_nth [OF assms(2,3)] show ?thesis by auto
qed

section \<open>Proactive compaction\<close>

lemma nth_last_from_cases:
  assumes "c < n"
  shows "length (filter p xs) + c < n \<and> nth_last_from p n xs c d = d
    \<or> (\<exists>ys x zs. xs = ys @ x # zs \<and> p x \<and> length (filter p ys) + c + 1 = n
        \<and> nth_last_from p n xs c d = length zs)"
  using assms
proof (induction xs arbitrary: c)
  case (Cons x xs)
  show ?case
  proof (cases "p x \<and> n \<le> c + 1")
    case True
    with Cons.prems show ?thesis by (intro disjI2 exI [of _ "[]"] exI [of _ x] exI [of _ xs]) simp
  next
    case False
    let ?c = "if p x then c + 1 else c"
    have "?c < n" using False Cons.prems by auto
    from Cons.IH [OF this] False show ?thesis
    proof (elim disjE exE conjE, goal_cases)
      case (2 ys y zs)
      then show ?case by (intro disjI2 exI [of _ "x # ys"] exI [of _ y] exI [of _ zs]) auto
    qed auto
  qed
qed simp

lemma turn_boundary_pos:
  assumes "k = turn_boundary p n messages 0" and "0 < k" and "0 < n"
  shows "k < length messages \<and> p (messages ! k) \<and> length (filter p (drop k messages)) = n"
proof -
  from nth_last_from_cases [OF assms(3), of p "rev messages" 0] assms(1,2) obtain ys x zs where
    split: "rev messages = ys @ x # zs" "p x" "length (filter p ys) + 1 = n" "k = length zs"
    by (auto simp: turn_boundary_def)
  then have "messages = rev zs @ x # rev ys" by (metis append.assoc append_Cons append_Nil rev.simps(2)
    rev_append rev_rev_ident)
  with split show ?thesis by (simp add: nth_append rev_filter [symmetric])
qed

text \<open>
  A compaction with a summary either does nothing or drops the front of the
  history so that exactly the requested number of user turns is left: the rest starts with a message of the
  user, to whose text the summary is prepended, and every later message is unchanged.
\<close>

theorem compaction_keeps_recent_turns:
  assumes "compact_with_summary keep summary messages = (removed, messages')" and "0 < keep"
  shows "removed = 0 \<and> messages' = messages
    \<or> (\<exists>first. removed < length messages \<and> user_turn (messages ! removed)
        \<and> length (filter user_turn (drop removed messages)) = keep
        \<and> messages' = first # drop (Suc removed) messages
        \<and> am_role first = am_role (messages ! removed)
        \<and> (first = messages ! removed
           \<or> (\<exists>t. am_content (messages ! removed) = TextMessage t
                 \<and> am_content first = TextMessage (with_summary summary t))))"
proof (cases "removed = 0")
  case True
  with assms(1) show ?thesis by (auto simp: compact_with_summary_def Let_def split: if_splits)
next
  case False
  with assms(1) have k: "removed = turn_boundary user_turn keep messages 0"
    and m: "messages' = add_summary summary (drop removed messages)"
    by (auto simp: compact_with_summary_def Let_def split: if_splits)
  from turn_boundary_pos [OF k] False assms(2)
  have b: "removed < length messages" "user_turn (messages ! removed)"
    "length (filter user_turn (drop removed messages)) = keep" by auto
  have "drop removed messages = messages ! removed # drop (Suc removed) messages"
    using b(1) by (simp add: Cons_nth_drop_Suc)
  with m obtain first where "messages' = first # drop (Suc removed) messages"
    "am_role first = am_role (messages ! removed)"
    "first = messages ! removed \<or> (\<exists>t. am_content (messages ! removed) = TextMessage t
                 \<and> am_content first = TextMessage (with_summary summary t))"
    by (auto simp: add_summary_def split: message_content.splits if_splits)
  with b show ?thesis by blast
qed

section \<open>Truncation\<close>

text \<open>
  Text truncated for the history has exactly the allowed number of characters when it was
  longer and is unchanged otherwise; no multi-byte character is cut, and where the note about the omission fits,
  the text is a beginning, the note and an end of the original.
\<close>

theorem truncation_exact:
  "length (utf8_chars (truncate_for_history s n)) = min n (length (utf8_chars s))
   \<and> (length (utf8_chars s) \<le> n \<longrightarrow> n = 0 \<or> truncate_for_history s n = s)"
proof (cases "n = 0 \<or> length (utf8_chars s) \<le> n")
  case True
  then show ?thesis by (auto simp: truncate_for_history_def Let_def)
next
  case False
  let ?cs = "utf8_chars s" and ?ind = "omitted_note (length (utf8_chars s) - n)"
  let ?room = "n - length (utf8_chars ?ind)"
  show ?thesis
  proof (cases "n \<le> length (utf8_chars ?ind)")
    case True
    with False show ?thesis by (auto simp: truncate_for_history_def Let_def utf8_chars_take)
  next
    case fits: False
    let ?rear = "drop (length ?cs - (?room - ?room div 2)) ?cs"
    have pos: "0 < length ?cs - (?room - ?room div 2)" using False by auto
    have "leads (?ind @ concat ?rear)"
      by (simp add: omitted_note_def leads_def is_cont_def newline_def byte_val_def)
    then have "utf8_chars (concat (take (?room div 2) ?cs) @ ?ind @ concat ?rear)
        = take (?room div 2) ?cs @ utf8_chars ?ind @ ?rear"
      using utf8_chars_drop [OF pos]
      by (simp add: utf8_chars_lead utf8_chars_take)
    moreover have "truncate_for_history s n = concat (take (?room div 2) ?cs) @ ?ind @ concat ?rear"
      using False fits by (simp add: truncate_for_history_def Let_def ac_simps)
    ultimately show ?thesis using False fits by (simp add: min_def)
  qed
qed

section \<open>Concrete histories\<close>

definition demo_user :: api_message where
  "demo_user = \<lparr>am_role = user_role, am_content = Blocks [TextContent ''q'' None], am_cache_hint = None\<rparr>"

definition demo_assistant :: api_message where
  "demo_assistant =
     \<lparr>am_role = ''assistant'', am_content = Blocks [ToolUseContent ''1'' ''ls'' JNull None], am_cache_hint = None\<rparr>"

definition demo_result :: api_message where
  "demo_result =
     \<lparr>am_role = user_role, am_content = Blocks [ToolResultContent ''1'' ''out'' False], am_cache_hint = None\<rparr>"

lemma demo_turns: "user_turn demo_user" "\<not> user_turn demo_assistant" "\<not> user_turn demo_result"
  by (simp_all add: user_turn_def demo_user_def demo_assistant_def demo_result_def
      message_contains_tool_result_def user_role_def)

definition demo_history :: "api_message list" where
  "demo_history = [demo_user, demo_assistant, demo_result, demo_user, demo_assistant]"

lemma demo_prune: "prune_message_history_preserving 2 3 demo_history = (0, drop 3 demo_history)"
  by (simp add: prune_message_history_preserving_def prune_keep_start_def demo_history_def
      scan_keep_start.simps demo_turns Let_def)

theorem prune_history_bounded_witness:
  "\<exists>k < length demo_history. drop 3 demo_history = drop k demo_history
    \<and> length (drop 3 demo_history) \<le> 2 \<and> 0 < length (drop 3 demo_history)
    \<and> (k \<le> 3 \<longrightarrow> drop 3 demo_history ! 0 = demo_history ! 3)"
  by (rule prune_history_bounded [OF demo_prune]) (simp_all add: demo_history_def)

definition demo_overflow :: "nat \<times> api_message list" where
  "demo_overflow = compact_for_context_overflow_preserving 1 3 demo_history"

theorem overflow_keeps_request_witness:
  "snd demo_overflow ! fst demo_overflow = demo_user"
  using overflow_keeps_request [of 1 3 demo_history "fst demo_overflow" "snd demo_overflow"]
  by (simp add: demo_overflow_def demo_history_def demo_turns)

lemma demo_boundary: "turn_boundary user_turn 1 demo_history 0 = 3"
  by (simp add: turn_boundary_def demo_history_def demo_turns)

lemma demo_compaction:
  "compact_with_summary 1 ''s'' demo_history = (3, add_summary ''s'' (drop 3 demo_history))"
  using demo_boundary by (simp add: compact_with_summary_def demo_history_def)

theorem compaction_keeps_recent_turns_witness:
  "\<exists>first. length (filter user_turn (drop 3 demo_history)) = 1
    \<and> add_summary ''s'' (drop 3 demo_history) = first # drop 4 demo_history"
  using compaction_keeps_recent_turns [OF demo_compaction] by auto

theorem truncation_exact_witness:
  "length (utf8_chars (truncate_for_history ''abc'' 2)) = 2 \<and> truncate_for_history ''abc'' 5 = ''abc''"
proof -
  have "length (utf8_chars ''abc'') = 3" by code_simp
  with truncation_exact [of "''abc''" 2] truncation_exact [of "''abc''" 5] show ?thesis by simp
qed

text \<open>Pruning near the anchor does not look for a message of the user: the kept part starts with the result of
  a tool call that is dropped, although a message of the user follows.\<close>

theorem prune_anchor_misaligned:
  "snd (prune_message_history_preserving 3 0 demo_history) = [demo_result, demo_user, demo_assistant]"
  by (simp add: prune_message_history_preserving_def prune_keep_start_def demo_history_def
      scan_keep_start.simps demo_turns Let_def)

end
