(* ===== verification/Tool_Paths.thy ===== *)
theory Tool_Paths
  imports Json
begin

text \<open>
  The path guard of the file tools (\<open>src/tools/operator/core.rs\<close>). A tool names a file by a string that
  the language model wrote; \<open>resolve_path\<close> decides whether the tool may touch it.

  Paths of the standard library on Unix: \<open>components\<close> parses the text, and a \<open>PathBuf\<close> is the list of
  its components, which is what comparison, \<open>starts_with\<close>, \<open>parent\<close> and \<open>push\<close> look at. The file
  system is a parameter: a record \<open>disk\<close> of queries and system calls on an arbitrary state, symbolic
  links included, because \<open>canonicalize\<close> is one of its fields.
\<close>

section \<open>Paths\<close>

datatype component = RootDir | CurDir | ParentDir | Normal string

type_synonym path = "component list"

definition piece_component :: "string \<Rightarrow> path" where
  "piece_component p =
     (if p = '''' \<or> p = ''.'' then [] else if p = ''..'' then [ParentDir] else [Normal p])"

text \<open>\<open>Path::components\<close>: repeated and trailing separators vanish, a dot only counts at the start.\<close>

definition components :: "string \<Rightarrow> path" where
  "components s =
     (case split_char CHR ''/'' s of
        p # ps \<Rightarrow>
          (if ps \<noteq> [] \<and> p = '''' then [RootDir]
           else if p = ''.'' then [CurDir] else piece_component p) @ concat (map piece_component ps)
      | [] \<Rightarrow> [])"

fun component_text :: "component \<Rightarrow> string" where
  "component_text RootDir = ''/''"
| "component_text CurDir = ''.''"
| "component_text ParentDir = ''..''"
| "component_text (Normal seg) = seg"

definition display_path :: "path \<Rightarrow> string" where
  "display_path p =
     (case p of
        RootDir # rest \<Rightarrow> ''/'' @ join_with ''/'' (map component_text rest)
      | _ \<Rightarrow> join_with ''/'' (map component_text p))"

definition is_absolute :: "path \<Rightarrow> bool" where
  "is_absolute p \<longleftrightarrow> p \<noteq> [] \<and> hd p = RootDir"

text \<open>\<open>Path::join\<close>: an absolute path replaces the base.\<close>

definition join :: "path \<Rightarrow> path \<Rightarrow> path" where
  "join p q = (if is_absolute q \<or> p = [] then q else p @ dropWhile ((=) CurDir) q)"

definition parent :: "path \<Rightarrow> path option" where
  "parent p = (if p = [] \<or> last p = RootDir then None else Some (butlast p))"

definition pop :: "path \<Rightarrow> path" where
  "pop p = (case parent p of Some q \<Rightarrow> q | None \<Rightarrow> p)"

text \<open>\<open>Path::with_extension\<close>: the part of the file name after its last dot is replaced; a name whose
  only dot is its first character has no extension.\<close>

definition file_stem :: "string \<Rightarrow> string" where
  "file_stem name =
     (case rfind_char CHR ''.'' name of Some i \<Rightarrow> if i = 0 then name else take i name | None \<Rightarrow> name)"

definition with_extension :: "string \<Rightarrow> path \<Rightarrow> path" where
  "with_extension ext p =
     (if p = [] then p
      else (case last p of
              Normal name \<Rightarrow> butlast p @ [Normal (file_stem name @ ''.'' @ ext)]
            | _ \<Rightarrow> p))"

section \<open>The file system\<close>

record io_error =
  io_not_found :: bool
  io_message :: string

record file_fingerprint =
  fp_len :: nat
  fp_modified :: nat

datatype dir_listing =
    Read_dir_failed
  | Iteration_failed
  | Dir_entries "(string \<times> bool option) list"
      \<comment> \<open>names, and for each whether it is a directory, if that can be found out\<close>

record 'd disk =
  dk_exists :: "'d \<Rightarrow> path \<Rightarrow> bool"
  dk_is_dir :: "'d \<Rightarrow> path \<Rightarrow> bool"
  dk_is_file :: "'d \<Rightarrow> path \<Rightarrow> bool"
  dk_canonicalize :: "'d \<Rightarrow> path \<Rightarrow> path option"
  dk_read_to_string :: "'d \<Rightarrow> path \<Rightarrow> io_error + string"
  dk_fingerprint :: "'d \<Rightarrow> path \<Rightarrow> file_fingerprint option"
  dk_read_dir :: "'d \<Rightarrow> path \<Rightarrow> dir_listing"
  dk_write :: "path \<Rightarrow> string \<Rightarrow> 'd \<Rightarrow> (io_error + unit) \<times> 'd"
  dk_rename :: "path \<Rightarrow> path \<Rightarrow> 'd \<Rightarrow> (io_error + unit) \<times> 'd"
  dk_create_dir_all :: "path \<Rightarrow> 'd \<Rightarrow> (io_error + unit) \<times> 'd"

section \<open>The operator\<close>

record tool_operator =
  op_working_dir :: path
  op_canonical_working_dir :: path

definition tool_operator_new :: "'d disk \<Rightarrow> 'd \<Rightarrow> path \<Rightarrow> tool_operator" where
  "tool_operator_new D d working_dir =
     \<lparr>op_working_dir = working_dir,
      op_canonical_working_dir =
        (case dk_canonicalize D d working_dir of Some p \<Rightarrow> p | None \<Rightarrow> working_dir)\<rparr>"

function nearest_existing_ancestor :: "(path \<Rightarrow> bool) \<Rightarrow> path \<Rightarrow> path option" where
  "nearest_existing_ancestor ex p =
     (if ex p then Some p
      else case parent p of Some q \<Rightarrow> nearest_existing_ancestor ex q | None \<Rightarrow> None)"
  by pat_completeness auto
termination
  by (relation "measure (\<lambda>(ex, p). length p)") (auto simp: parent_def split: if_splits)

declare nearest_existing_ancestor.simps [simp del]

definition no_parent_error :: string where
  "no_parent_error = ''Security error: could not find an existing parent path''"

definition canonicalize_error :: "path \<Rightarrow> string" where
  "canonicalize_error p = ''Failed to canonicalize '' @ display_path p"

definition escape_error :: "path \<Rightarrow> string" where
  "escape_error p =
     ''Security error: path escapes working directory via symlink or traversal: '' @ display_path p"

definition ensure_path_is_within_workspace :: "'d disk \<Rightarrow> 'd \<Rightarrow> tool_operator \<Rightarrow> path \<Rightarrow> string + unit" where
  "ensure_path_is_within_workspace D d oper p =
     (case (if dk_exists D d p then Some p else nearest_existing_ancestor (dk_exists D d) p) of
        None \<Rightarrow> Inl no_parent_error
      | Some guard_path \<Rightarrow>
          (case dk_canonicalize D d guard_path of
             None \<Rightarrow> Inl (canonicalize_error guard_path)
           | Some canonical_guard \<Rightarrow>
               if prefix (op_canonical_working_dir oper) canonical_guard then Inr ()
               else Inl (escape_error p)))"

fun normalize_component :: "nat \<Rightarrow> component \<Rightarrow> path \<Rightarrow> path" where
  "normalize_component base CurDir out = out"
| "normalize_component base (Normal seg) out = out @ [Normal seg]"
| "normalize_component base ParentDir out = (if base < length out then pop out else out)"
| "normalize_component base RootDir out = [RootDir]"

definition normalize_path :: "tool_operator \<Rightarrow> path \<Rightarrow> path" where
  "normalize_path oper p = fold (normalize_component (length (op_working_dir oper))) p []"

definition absolute_error :: "string \<Rightarrow> string" where
  "absolute_error p = ''Security error: absolute or platform-specific path not allowed: '' @ p"

definition traversal_error :: "string \<Rightarrow> string" where
  "traversal_error p = ''Security error: path traversal detected: '' @ p"

definition backslash :: char where
  "backslash = CHR 0x5C"

definition resolve_path :: "'d disk \<Rightarrow> 'd \<Rightarrow> tool_operator \<Rightarrow> string \<Rightarrow> string + path" where
  "resolve_path D d oper path0 =
     (let p = trim path0
      in if p = '''' then Inl ''Path cannot be empty''
         else if starts_with p ''/'' \<or> backslash \<in> set p then Inl (absolute_error p)
         else if ParentDir \<in> set (components p) then Inl (traversal_error p)
         else
           let normalized = normalize_path oper (join (op_working_dir oper) (components p))
           in (case ensure_path_is_within_workspace D d oper normalized of
                 Inl e \<Rightarrow> Inl e
               | Inr _ \<Rightarrow> Inr normalized))"

definition non_empty_trimmed :: "string \<Rightarrow> string option" where
  "non_empty_trimmed s = (let t = trim s in if t = '''' then None else Some t)"

definition resolve_optional_path :: "'d disk \<Rightarrow> 'd \<Rightarrow> tool_operator \<Rightarrow> string option \<Rightarrow> string + path" where
  "resolve_optional_path D d oper p =
     (case Option.bind p non_empty_trimmed of
        None \<Rightarrow> Inr (op_working_dir oper)
      | Some s \<Rightarrow> if s = ''.'' then Inr (op_working_dir oper) else resolve_path D d oper s)"

definition path_to_repo_relative_string :: "path \<Rightarrow> string" where
  "path_to_repo_relative_string p = map (\<lambda>c. if c = backslash then CHR ''/'' else c) (display_path p)"

definition strip_path_prefix :: "path \<Rightarrow> path \<Rightarrow> path option" where
  "strip_path_prefix base p = (if prefix base p then Some (drop (length base) p) else None)"

definition to_workspace_relative_display :: "tool_operator \<Rightarrow> path \<Rightarrow> string" where
  "to_workspace_relative_display oper p =
     (case strip_path_prefix (op_working_dir oper) p of
        Some rel \<Rightarrow> path_to_repo_relative_string rel
      | None \<Rightarrow> path_to_repo_relative_string p)"

definition sanitize_git_pathspec :: "'d disk \<Rightarrow> 'd \<Rightarrow> tool_operator \<Rightarrow> string \<Rightarrow> string + string" where
  "sanitize_git_pathspec D d oper path0 =
     (case non_empty_trimmed path0 of
        None \<Rightarrow> Inl ''Path cannot be empty''
      | Some p \<Rightarrow>
          if p = ''.'' then Inr p
          else (case resolve_path D d oper p of
                  Inl e \<Rightarrow> Inl e
                | Inr resolved \<Rightarrow>
                    (case strip_path_prefix (op_working_dir oper) resolved of
                       None \<Rightarrow> Inl ''Path escapes working directory''
                     | Some rel \<Rightarrow> Inr (path_to_repo_relative_string rel))))"

end
