(* ===== verification/Tool_Files.thy ===== *)
theory Tool_Files
  imports Tool_Paths "HOL-Library.List_Lexorder"
begin

text \<open>
  The file tools of the operator (\<open>src/tools/operator/file_ops.rs\<close>, \<open>src/tools/operator/git_ops.rs\<close>) and
  the ledger of the ranges read in this turn (\<open>src/tools/pulse_ledger.rs\<close>), which \<open>edit_file\<close> uses to
  choose between several occurrences of a snippet. The state is the file system and the ledger; an
  error is the message that reaches the model.
\<close>

section \<open>The ledger of reads\<close>

record located_read =
  lr_path :: path
  lr_start_line :: nat
  lr_end_line :: nat
  lr_fingerprint :: file_fingerprint

definition MAX_PULSE_LEDGER_ENTRIES :: nat where
  "MAX_PULSE_LEDGER_ENTRIES = 64"

definition record_pulse_read ::
  "path \<Rightarrow> nat \<Rightarrow> nat \<Rightarrow> file_fingerprint \<Rightarrow> located_read list \<Rightarrow> located_read list" where
  "record_pulse_read p start_line end_line fp entries =
     (let pushed = filter (\<lambda>e. lr_path e \<noteq> p) entries
                   @ [\<lparr>lr_path = p, lr_start_line = start_line, lr_end_line = end_line, lr_fingerprint = fp\<rparr>]
      in drop (length pushed - MAX_PULSE_LEDGER_ENTRIES) pushed)"

definition find_pulse_read :: "'d disk \<Rightarrow> 'd \<Rightarrow> located_read list \<Rightarrow> path \<Rightarrow> located_read option" where
  "find_pulse_read D d entries p =
     (case dk_fingerprint D d p of
        None \<Rightarrow> None
      | Some current \<Rightarrow> find (\<lambda>e. lr_path e = p \<and> lr_fingerprint e = current) (rev entries))"

section \<open>State and reading\<close>

record 'd tool_world =
  tw_disk :: 'd
  tw_ledger :: "located_read list"
  tw_refreshed :: "string list" \<comment> \<open>the requests to update the search index\<close>

type_synonym ('d, 'a) tool_call = "'d tool_world \<Rightarrow> (string + 'a) \<times> 'd tool_world"

definition read_error :: string where
  "read_error = ''Failed to read file''"

definition directory_error :: "string \<Rightarrow> string \<Rightarrow> string" where
  "directory_error tool p = tool @ '' expected a file path, got a directory: '' @ p"

definition read_file :: "'d disk \<Rightarrow> tool_operator \<Rightarrow> string \<Rightarrow> 'd \<Rightarrow> string + string" where
  "read_file D oper p d =
     (case resolve_path D d oper p of
        Inl e \<Rightarrow> Inl e
      | Inr resolved \<Rightarrow>
          if dk_is_dir D d resolved then Inl (directory_error ''read_file'' p)
          else (case dk_read_to_string D d resolved of Inl _ \<Rightarrow> Inl read_error | Inr s \<Rightarrow> Inr s))"

definition pad_left :: "nat \<Rightarrow> string \<Rightarrow> string" where
  "pad_left w s = replicate (w - length s) CHR '' '' @ s"

definition numbered_line :: "nat \<Rightarrow> string \<Rightarrow> string" where
  "numbered_line n l = pad_left 5 (nat_dec n) @ [CHR 0x09] @ l"

definition past_end_note :: "nat \<Rightarrow> nat \<Rightarrow> string" where
  "past_end_note n_lines user_offset =
     ''(file has '' @ nat_dec n_lines @ '' lines, offset '' @ nat_dec user_offset @ '' is past end)''"

definition range_header :: "nat \<Rightarrow> nat \<Rightarrow> nat \<Rightarrow> string" where
  "range_header start stop n_lines =
     (if 0 < start \<or> stop < n_lines
      then ''(showing lines '' @ nat_dec (start + 1) @ ''-'' @ nat_dec stop @ '' of ''
             @ nat_dec n_lines @ '')'' @ [newline]
      else '''')"

text \<open>The sum of the start and a huge limit overflows \<open>usize\<close>; whether that is checked or wraps to an
  end before the start, the call panics, which is \<open>None\<close>.\<close>

definition render_range :: "string \<Rightarrow> nat option \<Rightarrow> nat option \<Rightarrow> string option" where
  "render_range content offset limit =
     (let user_offset = (case offset of Some k \<Rightarrow> k | None \<Rightarrow> 1);
          start = user_offset - 1;
          ls = str_lines content;
          n_lines = length ls
      in if n_lines \<le> start then Some (past_end_note n_lines user_offset)
         else if (case limit of Some k \<Rightarrow> u64_max < start + k | None \<Rightarrow> False) then None
         else
           let stop = (case limit of Some k \<Rightarrow> min (start + k) n_lines | None \<Rightarrow> n_lines);
               selected = map (\<lambda>(i, l). numbered_line (start + i + 1) l)
                            (enumerate 0 (take (stop - start) (drop start ls)))
           in Some (range_header start stop n_lines @ join_with [newline] selected))"

definition read_file_range ::
  "'d disk \<Rightarrow> tool_operator \<Rightarrow> string \<Rightarrow> nat option \<Rightarrow> nat option \<Rightarrow> 'd \<Rightarrow> (string + string) option" where
  "read_file_range D oper p offset limit d =
     (case resolve_path D d oper p of
        Inl e \<Rightarrow> Some (Inl e)
      | Inr resolved \<Rightarrow>
          if dk_is_dir D d resolved then Some (Inl (directory_error ''read_file'' p))
          else (case dk_read_to_string D d resolved of
                  Inl _ \<Rightarrow> Some (Inl read_error)
                | Inr content \<Rightarrow> map_option Inr (render_range content offset limit)))"

definition read_file_if_exists :: "'d disk \<Rightarrow> tool_operator \<Rightarrow> string \<Rightarrow> 'd \<Rightarrow> string + string option" where
  "read_file_if_exists D oper p d =
     (case resolve_path D d oper p of
        Inl e \<Rightarrow> Inl e
      | Inr resolved \<Rightarrow>
          if dk_is_dir D d resolved then Inl (directory_error ''read_file'' p)
          else (case dk_read_to_string D d resolved of
                  Inr content \<Rightarrow> Inr (Some content)
                | Inl e \<Rightarrow> if io_not_found e then Inr None else Inl read_error))"

definition existing_path :: "'d disk \<Rightarrow> tool_operator \<Rightarrow> string \<Rightarrow> 'd \<Rightarrow> string + path option" where
  "existing_path D oper p d =
     (case resolve_path D d oper p of
        Inl e \<Rightarrow> Inl e
      | Inr resolved \<Rightarrow> Inr (if dk_exists D d resolved then Some resolved else None))"

section \<open>Writing\<close>

record pending_patch =
  pp_diff :: string
  pp_new_content :: string
  pp_path :: path

datatype write_file_outcome = Written | Pending_patch pending_patch

text \<open>The rendering of a line difference is the function \<open>hunks\<close>, which calls the library
  \<open>similar\<close>.\<close>

definition propose_patch ::
  "'d disk \<Rightarrow> (string \<Rightarrow> string \<Rightarrow> string) \<Rightarrow> tool_operator \<Rightarrow> string \<Rightarrow> string \<Rightarrow> string \<Rightarrow> 'd
   \<Rightarrow> string + pending_patch" where
  "propose_patch D hunks oper p old_content new_content d =
     (case resolve_path D d oper p of
        Inl e \<Rightarrow> Inl e
      | Inr resolved \<Rightarrow>
          if dk_is_dir D d resolved then Inl (directory_error ''propose_patch'' p)
          else Inr \<lparr>pp_diff = hunks old_content new_content, pp_new_content = new_content,
                    pp_path = resolved\<rparr>)"

definition write_file ::
  "'d disk \<Rightarrow> (string \<Rightarrow> string \<Rightarrow> string) \<Rightarrow> tool_operator \<Rightarrow> string \<Rightarrow> string \<Rightarrow> 'd
   \<Rightarrow> (string + write_file_outcome) \<times> 'd" where
  "write_file D hunks oper p content d =
     (case resolve_path D d oper p of
        Inl e \<Rightarrow> (Inl e, d)
      | Inr resolved \<Rightarrow>
          if dk_is_dir D d resolved then (Inl (directory_error ''write_file'' p), d)
          else if dk_exists D d resolved then
            (map_sum (\<lambda>e. e) Pending_patch
               (propose_patch D hunks oper p
                  (case dk_read_to_string D d resolved of Inr s \<Rightarrow> s | Inl _ \<Rightarrow> '''') content d), d)
          else
            (case (case parent resolved of
                     Some dir \<Rightarrow> dk_create_dir_all D dir d
                   | None \<Rightarrow> (Inr (), d)) of
               (Inl e, d1) \<Rightarrow> (Inl (io_message e), d1)
             | (Inr _, d1) \<Rightarrow>
                 (case dk_write D resolved content d1 of
                    (Inl _, d2) \<Rightarrow> (Inl ''Failed to write file'', d2)
                  | (Inr _, d2) \<Rightarrow> (Inr Written, d2))))"

definition temp_path :: "path \<Rightarrow> path" where
  "temp_path p = with_extension ''tmp'' p"

definition apply_patch :: "'d disk \<Rightarrow> tool_operator \<Rightarrow> pending_patch \<Rightarrow> 'd \<Rightarrow> (string + unit) \<times> 'd" where
  "apply_patch D oper pending d =
     (case ensure_path_is_within_workspace D d oper (pp_path pending) of
        Inl e \<Rightarrow> (Inl e, d)
      | Inr _ \<Rightarrow>
          let temp = temp_path (pp_path pending)
          in (case dk_write D temp (pp_new_content pending) d of
                (Inl _, d1) \<Rightarrow> (Inl (''Failed to write temp file: '' @ display_path temp), d1)
              | (Inr _, d1) \<Rightarrow>
                  (case dk_rename D temp (pp_path pending) d1 of
                     (Inl _, d2) \<Rightarrow> (Inl (''Failed to apply patch to: '' @ display_path (pp_path pending)), d2)
                   | (Inr _, d2) \<Rightarrow> (Inr (), d2))))"

section \<open>Editing\<close>

definition MAX_EDIT_SNIPPET_CHARS :: nat where
  "MAX_EDIT_SNIPPET_CHARS = 2000"

definition MAX_EDIT_SNIPPET_LINES :: nat where
  "MAX_EDIT_SNIPPET_LINES = 80"

definition EDIT_ANCHOR_LINE_PAD :: nat where
  "EDIT_ANCHOR_LINE_PAD = 3"

text \<open>\<open>str::match_indices\<close> with a non-empty pattern: leftmost matches, never overlapping. The counter is
  the number of bytes of the current match still to be skipped.\<close>

fun match_indices_from :: "nat \<Rightarrow> nat \<Rightarrow> string \<Rightarrow> string \<Rightarrow> nat list" where
  "match_indices_from i k pat [] = []"
| "match_indices_from i (Suc k) pat (c # cs) = match_indices_from (Suc i) k pat cs"
| "match_indices_from i 0 pat (c # cs) =
     (if prefix pat (c # cs) then i # match_indices_from (Suc i) (length pat - 1) pat cs
      else match_indices_from (Suc i) 0 pat cs)"

definition match_indices :: "string \<Rightarrow> string \<Rightarrow> nat list" where
  "match_indices pat s = match_indices_from 0 0 pat s"

definition replace_at :: "nat \<Rightarrow> string \<Rightarrow> string \<Rightarrow> string \<Rightarrow> string" where
  "replace_at offset old_str new_str content =
     take offset content @ new_str @ drop (offset + length old_str) content"

text \<open>\<open>replacen\<close> with count 1.\<close>

definition replace_first :: "string \<Rightarrow> string \<Rightarrow> string \<Rightarrow> string" where
  "replace_first old_str new_str content =
     (case match_indices old_str content of
        [] \<Rightarrow> content
      | i # _ \<Rightarrow> replace_at i old_str new_str content)"

text \<open>The scan of \<open>anchored_unique_replacement\<close> keeps the position up to which newlines were counted
  and the current line; a second candidate ends it without a result.\<close>

fun anchored_candidate ::
  "nat \<Rightarrow> nat \<Rightarrow> string \<Rightarrow> nat \<Rightarrow> nat \<Rightarrow> nat option \<Rightarrow> nat list \<Rightarrow> nat option" where
  "anchored_candidate window_start window_end content scanned_to current_line found [] = found"
| "anchored_candidate window_start window_end content scanned_to current_line found (offset # offsets) =
     (let current_line =
            current_line + length (filter ((=) newline) (take (offset - scanned_to) (drop scanned_to content)))
      in if window_start \<le> current_line \<and> current_line \<le> window_end
         then (case found of
                 Some _ \<Rightarrow> None
               | None \<Rightarrow> anchored_candidate window_start window_end content offset current_line (Some offset) offsets)
         else anchored_candidate window_start window_end content offset current_line found offsets)"

definition anchored_unique_replacement ::
  "located_read option \<Rightarrow> string \<Rightarrow> string \<Rightarrow> string \<Rightarrow> string option" where
  "anchored_unique_replacement anchor content old_str new_str =
     (case anchor of
        None \<Rightarrow> None
      | Some a \<Rightarrow>
          map_option (\<lambda>offset. replace_at offset old_str new_str content)
            (anchored_candidate (lr_start_line a - EDIT_ANCHOR_LINE_PAD)
               (sat_add (lr_end_line a) EDIT_ANCHOR_LINE_PAD) content 0 1 None
               (match_indices old_str content)))"

definition too_large_snippets :: "string \<Rightarrow> string \<Rightarrow> bool" where
  "too_large_snippets old_str new_str \<longleftrightarrow>
     MAX_EDIT_SNIPPET_CHARS < length (utf8_chars old_str)
     \<or> MAX_EDIT_SNIPPET_CHARS < length (utf8_chars new_str)
     \<or> MAX_EDIT_SNIPPET_LINES < length (str_lines old_str)
     \<or> MAX_EDIT_SNIPPET_LINES < length (str_lines new_str)"

definition too_large_error :: string where
  "too_large_error =
     ''edit_file requires focused snippets; old_str/new_str are too large (max ''
     @ nat_dec MAX_EDIT_SNIPPET_CHARS @ '' chars or '' @ nat_dec MAX_EDIT_SNIPPET_LINES @ '' lines each)''"

text \<open>What the edit makes of the content: the new content or the error.\<close>

definition edit_content :: "located_read option \<Rightarrow> string \<Rightarrow> string \<Rightarrow> string \<Rightarrow> string + string" where
  "edit_content anchor content old_str new_str =
     (if trim old_str = '''' then Inl ''edit_file requires a non-empty old_str''
      else if too_large_snippets old_str new_str then Inl too_large_error
      else if old_str = content then
        Inl ''edit_file refuses full-file replacement; provide a focused old_str snippet instead''
      else
        let occurrences = length (match_indices old_str content)
        in if occurrences = 0 then Inl (''String '' @ [CHR 0x27] @ old_str @ [CHR 0x27] @ '' not found in file'')
           else if occurrences = 1 then Inr (replace_first old_str new_str content)
           else (case anchored_unique_replacement anchor content old_str new_str of
                   Some new_content \<Rightarrow> Inr new_content
                 | None \<Rightarrow> Inl (''String '' @ [CHR 0x27] @ old_str @ [CHR 0x27] @ '' appears ''
                                 @ nat_dec occurrences @ '' times; must be unique'')))"

definition edit_file :: "'d disk \<Rightarrow> tool_operator \<Rightarrow> string \<Rightarrow> string \<Rightarrow> string \<Rightarrow> ('d, unit) tool_call" where
  "edit_file D oper p old_str new_str w =
     (let d = tw_disk w
      in case resolve_path D d oper p of
           Inl e \<Rightarrow> (Inl e, w)
         | Inr resolved \<Rightarrow>
             if dk_is_dir D d resolved then (Inl (directory_error ''edit_file'' p), w)
             else
               (case dk_read_to_string D d resolved of
                  Inl _ \<Rightarrow> (Inl ''Failed to read file for edit'', w)
                | Inr content \<Rightarrow>
                    (case edit_content (find_pulse_read D d (tw_ledger w) resolved) content old_str new_str of
                       Inl e \<Rightarrow> (Inl e, w)
                     | Inr new_content \<Rightarrow>
                         (case dk_write D resolved new_content d of
                            (Inl _, d1) \<Rightarrow> (Inl ''Failed to edit file'', w\<lparr>tw_disk := d1\<rparr>)
                          | (Inr _, d1) \<Rightarrow> (Inr (), w\<lparr>tw_disk := d1\<rparr>)))))"

definition rename_file :: "'d disk \<Rightarrow> tool_operator \<Rightarrow> string \<Rightarrow> string \<Rightarrow> 'd \<Rightarrow> (string + string) \<times> 'd" where
  "rename_file D oper old_path new_path d =
     (case resolve_path D d oper old_path of
        Inl e \<Rightarrow> (Inl e, d)
      | Inr src \<Rightarrow>
          (case resolve_path D d oper new_path of
             Inl e \<Rightarrow> (Inl e, d)
           | Inr dst \<Rightarrow>
               if \<not> dk_exists D d src then
                 (Inl (''Failed to rename file: source '' @ [CHR 0x27] @ old_path @ [CHR 0x27] @ '' does not exist''), d)
               else if src = dst then (Inr (''Source and target are the same: '' @ old_path), d)
               else
                 (case (case parent dst of
                          Some dir \<Rightarrow> dk_create_dir_all D dir d
                        | None \<Rightarrow> (Inr (), d)) of
                    (Inl _, d1) \<Rightarrow> (Inl ''Failed to create destination directory'', d1)
                  | (Inr _, d1) \<Rightarrow>
                      (case dk_rename D src dst d1 of
                         (Inl _, d2) \<Rightarrow> (Inl ''Failed to rename file'', d2)
                       | (Inr _, d2) \<Rightarrow> (Inr (''Renamed '' @ old_path @ '' -> '' @ new_path), d2)))))"

section \<open>Listing\<close>

definition skipped_directories :: "string list" where
  "skipped_directories =
     [''target'', ''node_modules'', ''__pycache__'', ''.venv'', ''venv'', ''build'', ''dist'']"

definition should_skip_list_entry :: "path \<Rightarrow> path \<Rightarrow> string \<Rightarrow> bool" where
  "should_skip_list_entry root working_dir name =
     (if starts_with name ''.'' then True
      else if root \<noteq> working_dir then False
      else name \<in> set skipped_directories)"

text \<open>The loop over the sorted entries, up to the limit. The order of a directory's entries is that of
  their paths, which is the order of the bytes of their names.\<close>

fun list_entries ::
  "tool_operator \<Rightarrow> path \<Rightarrow> nat \<Rightarrow> (string \<times> bool option) list \<Rightarrow> string list \<Rightarrow> string + string list" where
  "list_entries oper root limit [] acc = Inr acc"
| "list_entries oper root limit ((name, kind) # rest) acc =
     (if should_skip_list_entry root (op_working_dir oper) name
      then list_entries oper root limit rest acc
      else (case kind of
              None \<Rightarrow> Inl (''Failed to inspect '' @ display_path (root @ [Normal name]))
            | Some is_directory \<Rightarrow>
                let acc = acc @ [to_workspace_relative_display oper (root @ [Normal name])
                                 @ (if is_directory then ''/'' else '''')]
                in if limit \<le> length acc then Inr acc
                   else list_entries oper root limit rest acc))"

definition byte_key :: "string \<Rightarrow> nat list" where
  "byte_key s = map byte_val s"

definition list_files :: "'d disk \<Rightarrow> tool_operator \<Rightarrow> string option \<Rightarrow> nat \<Rightarrow> 'd \<Rightarrow> string + string" where
  "list_files D oper p max_entries d =
     (case resolve_optional_path D d oper p of
        Inl e \<Rightarrow> Inl e
      | Inr root \<Rightarrow>
          let limit = min (max max_entries 1) 2000;
              entries =
                (if dk_is_file D d root then Inr [to_workspace_relative_display oper root]
                 else (case dk_read_dir D d root of
                         Read_dir_failed \<Rightarrow> Inl (''Failed to read directory '' @ display_path root)
                       | Iteration_failed \<Rightarrow> Inl (''Failed to list entries in '' @ display_path root)
                       | Dir_entries es \<Rightarrow> list_entries oper root limit (sort_key (\<lambda>e. byte_key (fst e)) es) []))
          in (case entries of
                Inl e \<Rightarrow> Inl e
              | Inr [] \<Rightarrow> Inr ''(no files found)''
              | Inr es \<Rightarrow> Inr (join_with [newline] es)))"

end
