(* ===== verification/Tool_Routing.thy ===== *)
theory Tool_Routing
  imports Tool_Files Task_Document
begin

text \<open>
  From a tool call of the model to an operation of the operator: the arguments
  (\<open>src/state/conversation/tools/routing.rs\<close>), the limits (\<open>tools/config.rs\<close>), the classes of tools
  (\<open>tools/formatting.rs\<close>), and the guards that refuse a call before it runs
  (\<open>tools/validation.rs\<close>). The read-only search tools, which rest on the libraries for globs, ignore
  files and string search, are the parameter \<open>tv_query\<close> of the dispatch (\<open>Workspace_Walk\<close> models them); git is the parameter \<open>tv_git\<close>.
\<close>

section \<open>Arguments\<close>

definition first_tool_string :: "json \<Rightarrow> string list \<Rightarrow> string option" where
  "first_tool_string input keys = find_map (\<lambda>key. Option.bind (json_get input key) as_str) keys"

definition as_u64 :: "json \<Rightarrow> nat option" where
  "as_u64 j = (case j of JNumber (PosInt n) \<Rightarrow> Some n | _ \<Rightarrow> None)"

definition as_bool :: "json \<Rightarrow> bool option" where
  "as_bool j = (case j of JBool b \<Rightarrow> Some b | _ \<Rightarrow> None)"

definition usize_of_value :: "json \<Rightarrow> nat option" where
  "usize_of_value j =
     (case j of
        JNumber _ \<Rightarrow> as_u64 j
      | JString s \<Rightarrow> parse_u64 (trim s)
      | _ \<Rightarrow> None)"

definition first_tool_usize :: "json \<Rightarrow> string list \<Rightarrow> nat option" where
  "first_tool_usize input keys = find_map (\<lambda>key. Option.bind (json_get input key) usize_of_value) keys"

definition missing_argument_error :: "string \<Rightarrow> string \<Rightarrow> string" where
  "missing_argument_error tool key =
     tool @ '' requires a non-empty '' @ [CHR 0x27] @ key @ [CHR 0x27] @ '' string argument''"

definition or_blank :: "string option \<Rightarrow> string" where
  "or_blank x = (case x of Some s \<Rightarrow> s | None \<Rightarrow> '''')"

definition required_tool_string_any :: "json \<Rightarrow> string \<Rightarrow> string \<Rightarrow> string list \<Rightarrow> string + string" where
  "required_tool_string_any input tool accepted_key keys =
     (let v = or_blank (map_option trim (first_tool_string input keys))
      in if v = '''' then Inl (missing_argument_error tool accepted_key) else Inr v)"

definition required_tool_string_any_preserve :: "json \<Rightarrow> string \<Rightarrow> string \<Rightarrow> string list \<Rightarrow> string + string" where
  "required_tool_string_any_preserve input tool accepted_key keys =
     (let v = or_blank (first_tool_string input keys)
      in if v = '''' then Inl (missing_argument_error tool accepted_key) else Inr v)"

definition required_tool_string :: "json \<Rightarrow> string \<Rightarrow> string \<Rightarrow> string + string" where
  "required_tool_string input tool key = required_tool_string_any input tool key [key]"

section \<open>Limits\<close>

definition env_usize :: "(string \<Rightarrow> string option) \<Rightarrow> string \<Rightarrow> nat option" where
  "env_usize env key = Option.bind (env key) parse_u64"

definition clamp_usize :: "nat \<Rightarrow> nat \<Rightarrow> nat \<Rightarrow> nat" where
  "clamp_usize lo hi n = min (max n lo) hi"

definition read_file_max_lines :: "(string \<Rightarrow> string option) \<Rightarrow> nat" where
  "read_file_max_lines env =
     (case env_usize env ''VEX_READ_FILE_MAX_LINES'' of
        Some explicit \<Rightarrow> explicit
      | None \<Rightarrow>
          let max_tokens = (case env_usize env ''VEX_MAX_TOKENS'' of Some n \<Rightarrow> n | None \<Rightarrow> 4096)
          in clamp_usize 50 10000 (max_tokens div 200))"

definition write_file_diff_preferred_above_lines :: "(string \<Rightarrow> string option) \<Rightarrow> nat" where
  "write_file_diff_preferred_above_lines env =
     (case env_usize env ''VEX_DIFF_PREFERRED_ABOVE_LINES'' of
        Some n \<Rightarrow> clamp_usize 10 10000 n
      | None \<Rightarrow> 200)"

definition write_file_max_lines :: "(string \<Rightarrow> string option) \<Rightarrow> nat" where
  "write_file_max_lines env =
     (case env_usize env ''VEX_WRITE_FILE_MAX_LINES'' of
        Some n \<Rightarrow> clamp_usize 10 10000 n
      | None \<Rightarrow> 500)"

definition text_stats :: "string \<Rightarrow> nat \<times> nat" where
  "text_stats s = (length (utf8_chars s), max (length (str_lines s)) (if s = '''' then 0 else 1))"

section \<open>Classes of tools\<close>

definition read_only_tool_names :: "string list" where
  "read_only_tool_names =
     [''read_file'', ''search'', ''search_files'', ''search_content'', ''find_files'', ''codebase_search'',
      ''list_files'', ''list_directory'', ''list_dir'', ''glob_files'', ''git_status'', ''git_diff'',
      ''git_log'', ''git_show'']"

definition is_read_only_tool_name :: "string \<Rightarrow> bool" where
  "is_read_only_tool_name name \<longleftrightarrow> name \<in> set read_only_tool_names"

definition confirmed_tool_names :: "string list" where
  "confirmed_tool_names =
     [''write_file'', ''apply_patch'', ''edit_file'', ''rename_file'', ''git_add'', ''git_commit'',
      ''run_command'', ''run_shell_command'', ''bash'', ''call_command'', ''call_bash'']"

definition tool_requires_confirmation :: "string \<Rightarrow> bool" where
  "tool_requires_confirmation name \<longleftrightarrow> starts_with name ''mcp.'' \<or> name \<in> set confirmed_tool_names"

section \<open>Guards\<close>

definition path_keys :: "string list" where
  "path_keys = [''path'', ''file_path'', ''file'', ''filename'']"

definition old_path_keys :: "string list" where
  "old_path_keys = [''old_path'', ''from'', ''source_path'']"

definition new_path_keys :: "string list" where
  "new_path_keys = [''new_path'', ''to'', ''target_path'']"

definition missing_string :: "json \<Rightarrow> string list \<Rightarrow> bool" where
  "missing_string input keys =
     (case first_tool_string input keys of None \<Rightarrow> True | Some v \<Rightarrow> trim v = '''')"

definition need_path_prompt :: "string \<Rightarrow> string" where
  "need_path_prompt action =
     ''I need the target file path before '' @ action
     @ ''. Please provide an explicit path like `src/calculator.rs`. No file changes were made.''"

definition need_both_paths_prompt :: string where
  "need_both_paths_prompt =
     ''I need both source and destination file paths before renaming. ''
     @ ''Please provide `old_path` and `new_path`. No file changes were made.''"

definition need_read_path_prompt :: string where
  "need_read_path_prompt =
     ''I need an explicit file path before reading a file. If the user referenced a file with `@` or a ''
     @ ''`[file: ...]` block, extract that exact path and reuse the embedded content when it is ''
     @ ''sufficient; otherwise call `read_file` or `search_files` with that concrete path for targeted ''
     @ ''inspection. Do not invent a substitute filename or retry without a non-empty `path`. ''
     @ ''No file changes were made.''"

definition missing_mutating_location_prompt :: "string \<Rightarrow> json \<Rightarrow> string option" where
  "missing_mutating_location_prompt name input =
     (if name = ''write_file'' then
        (if missing_string input path_keys then Some (need_path_prompt ''creating a file'') else None)
      else if name = ''apply_patch'' then
        (if missing_string input path_keys then Some (need_path_prompt ''applying a patch'') else None)
      else if name = ''edit_file'' then
        (if missing_string input path_keys then Some (need_path_prompt ''editing a file'') else None)
      else if name = ''rename_file'' then
        (if missing_string input old_path_keys \<or> missing_string input new_path_keys
         then Some need_both_paths_prompt else None)
      else None)"

definition missing_read_only_location_prompt :: "string \<Rightarrow> json \<Rightarrow> string option" where
  "missing_read_only_location_prompt name input =
     (if name = ''read_file'' \<and> missing_string input path_keys then Some need_read_path_prompt else None)"

definition READ_ONLY_HINTS :: "string list" where
  "READ_ONLY_HINTS =
     [''show'', ''read'', ''list'', ''count'', ''how many'', ''read-only'', ''read only'', ''readonly'',
      ''review only'', ''no changes'', ''without changes'', ''do not change'', ''don'' @ [CHR 0x27] @ ''t change'',
      ''do not modify'', ''don'' @ [CHR 0x27] @ ''t modify'', ''what is in'', ''what'' @ [CHR 0x27] @ ''s in'',
      ''whats in'', ''content of'', ''status'', ''diff'', ''log'', ''cat'', ''display'', ''print'']"

definition MUTATING_HINTS :: "string list" where
  "MUTATING_HINTS =
     [''write'', ''edit'', ''update'', ''create'', ''add'', ''delete'', ''remove'', ''rename'', ''move'',
      ''commit'', ''stage'', ''patch'', ''apply'', ''implement'', ''refactor'', ''fix'', ''push'', ''rebase'']"

definition is_ascii_alphanumeric :: "char \<Rightarrow> bool" where
  "is_ascii_alphanumeric c \<longleftrightarrow>
     is_digit c \<or> (65 \<le> byte_val c \<and> byte_val c \<le> 90) \<or> (97 \<le> byte_val c \<and> byte_val c \<le> 122)"

text \<open>The character before and after a match: an ASCII alphanumeric character is one byte, and the
  bytes of any other character are not alphanumeric, so the neighbouring byte decides.\<close>

definition word_match_at :: "string \<Rightarrow> string \<Rightarrow> nat \<Rightarrow> bool" where
  "word_match_at normalized hint start \<longleftrightarrow>
     (start = 0 \<or> \<not> is_ascii_alphanumeric (normalized ! (start - 1)))
     \<and> (length normalized \<le> start + length hint
        \<or> \<not> is_ascii_alphanumeric (normalized ! (start + length hint)))"

definition contains_hint :: "string \<Rightarrow> string \<Rightarrow> bool" where
  "contains_hint normalized hint = list_ex (word_match_at normalized hint) (match_indices hint normalized)"

definition is_read_only_user_request :: "(string \<Rightarrow> string option) \<Rightarrow> string \<Rightarrow> bool" where
  "is_read_only_user_request env input =
     (if env ''VEX_FORCE_MUTATING_TURN'' = Some ''1'' then False
      else
        let normalized = to_ascii_lowercase input
        in list_ex (contains_hint normalized) READ_ONLY_HINTS
           \<and> \<not> list_ex (contains_hint normalized) MUTATING_HINTS)"

definition read_only_block_prompt :: "string \<Rightarrow> string" where
  "read_only_block_prompt tool_name =
     ''Blocked mutating tool call `'' @ tool_name
     @ ''` because this request appears read-only. Use read-only tools (`read_file`, `search_files`, ''
     @ ''`list_files`, `list_dir`, `glob_files`, `git_status`, `git_diff`, `git_log`, `git_show`) and ''
     @ ''answer from those results. No file changes were made.''"

definition mutating_tool_read_only_conflict_prompt ::
  "(string \<Rightarrow> string option) \<Rightarrow> string \<Rightarrow> string \<Rightarrow> string option" where
  "mutating_tool_read_only_conflict_prompt env user_input tool_name =
     (if \<not> tool_requires_confirmation tool_name \<or> \<not> is_read_only_user_request env user_input then None
      else Some (read_only_block_prompt tool_name))"

definition strip_str_prefix :: "string \<Rightarrow> string \<Rightarrow> string option" where
  "strip_str_prefix p s = (if prefix p s then Some (drop (length p) s) else None)"

definition after_first :: "string \<Rightarrow> string \<Rightarrow> string option" where
  "after_first sep s = map_option (\<lambda>i. drop (i + length sep) s) (find_str sep s)"

definition patch_line_path :: "string \<Rightarrow> string option" where
  "patch_line_path line =
     (case (case strip_str_prefix ''+++ b/'' line of
              Some p \<Rightarrow> Some p
            | None \<Rightarrow>
                (case strip_str_prefix ''--- a/'' line of
                   Some p \<Rightarrow> Some p
                 | None \<Rightarrow> Option.bind (strip_str_prefix ''diff --git a/'' line) (after_first '' b/''))) of
        None \<Rightarrow> None
      | Some p \<Rightarrow>
          let normalized = trim p
          in if normalized = '''' \<or> normalized = ''/dev/null'' then None else Some normalized)"

definition extract_apply_patch_target_path :: "string \<Rightarrow> string option" where
  "extract_apply_patch_target_path content = find_map patch_line_path (str_lines content)"

definition mutating_tool_target_paths :: "string \<Rightarrow> json \<Rightarrow> string list" where
  "mutating_tool_target_paths tool_name input =
     (if tool_name = ''write_file'' \<or> tool_name = ''edit_file''
      then List.map_filter (\<lambda>x. x) [first_tool_string input path_keys]
      else if tool_name = ''apply_patch''
      then List.map_filter (\<lambda>x. x)
             [first_tool_string input path_keys,
              Option.bind (first_tool_string input [''content'', ''patch'', ''diff''])
                extract_apply_patch_target_path]
      else if tool_name = ''rename_file''
      then List.map_filter (\<lambda>x. x)
             [first_tool_string input old_path_keys, first_tool_string input new_path_keys]
      else [])"

definition test_segment :: "string \<Rightarrow> bool" where
  "test_segment s \<longleftrightarrow> s = ''test'' \<or> s = ''tests'' \<or> s = ''__tests__''"

definition test_suffixes :: "string list" where
  "test_suffixes =
     [''_test.rs'', ''_tests.rs'', ''_test.py'', ''_test.go'', ''_test.js'', ''_test.jsx'', ''_test.ts'',
      ''_test.tsx'', ''_spec.rb'']"

definition test_file_name :: "string \<Rightarrow> bool" where
  "test_file_name n \<longleftrightarrow>
     n = ''test.rs'' \<or> n = ''tests.rs'' \<or> starts_with n ''test_'' \<or> starts_with n ''spec_''
     \<or> contains n ''.test.'' \<or> contains n ''.spec.'' \<or> list_ex (ends_with n) test_suffixes"

definition is_test_target_path :: "string \<Rightarrow> bool" where
  "is_test_target_path p =
     (let normalized = to_ascii_lowercase (map (\<lambda>c. if c = backslash then CHR ''/'' else c) (trim p));
          segments = split_char CHR ''/'' normalized
      in if normalized = '''' then False
         else if list_ex test_segment segments then True
         else test_file_name (last segments))"

definition dropped_target_prompt :: "string \<Rightarrow> string" where
  "dropped_target_prompt blocked_path =
     ''Dropped non-test patch target `'' @ blocked_path
     @ ''` for /generate-tests. This command may only modify test files or paths under `test/` or ''
     @ ''`tests/`. Use `/edit` for source-file changes.''"

definition tests_only_mutation_conflict_prompt :: "pulse_tool_policy \<Rightarrow> string \<Rightarrow> json \<Rightarrow> string option" where
  "tests_only_mutation_conflict_prompt policy tool_name input =
     (if policy \<noteq> TestsOnlyMutations then None
      else
        let target_paths = mutating_tool_target_paths tool_name input
        in if target_paths = [] \<or> list_all is_test_target_path target_paths then None
           else Some (dropped_target_prompt
                  (or_blank (List.find (\<lambda>p. \<not> is_test_target_path p) target_paths))))"

end
