(* ===== verification/Tool_Calls.thy ===== *)
theory Tool_Calls
  imports Tool_Routing
begin

text \<open>
  \<open>call_tool_routing_with_config\<close> (\<open>src/state/conversation/tools/routing.rs\<close>) with the git tools
  (\<open>src/tools/operator/git_ops.rs\<close>). A panic of the blocking task is \<open>None\<close>.
\<close>

record git_output =
  go_success :: bool
  go_stdout :: string
  go_stderr :: string

record 'd tool_env =
  tv_disk :: "'d disk"
  tv_env :: "string \<Rightarrow> string option"
  tv_hunks :: "string \<Rightarrow> string \<Rightarrow> string"
  tv_query :: "string \<Rightarrow> json \<Rightarrow> 'd \<Rightarrow> string + string"
  tv_git :: "string list \<Rightarrow> 'd \<Rightarrow> git_output option \<times> 'd"
  tv_search_enabled :: bool

section \<open>Git\<close>

definition run_git :: "'d tool_env \<Rightarrow> string list \<Rightarrow> 'd \<Rightarrow> (string + string) \<times> 'd" where
  "run_git V args d =
     (case tv_git V args d of
        (None, d1) \<Rightarrow> (Inl ''Failed to call git command'', d1)
      | (Some out, d1) \<Rightarrow>
          let stdout = trim (go_stdout out); stderr = trim (go_stderr out)
          in if \<not> go_success out
             then (Inl (''git '' @ join_with '' '' args @ '' failed: ''
                        @ (if stderr = '''' then stdout else stderr)), d1)
             else (Inr (if stdout = '''' then ''OK'' else stdout), d1))"

definition git_with_pathspec ::
  "'d tool_env \<Rightarrow> tool_operator \<Rightarrow> string list \<Rightarrow> string option \<Rightarrow> 'd \<Rightarrow> (string + string) \<times> 'd" where
  "git_with_pathspec V oper args p d =
     (case Option.bind p non_empty_trimmed of
        None \<Rightarrow> run_git V args d
      | Some pathspec \<Rightarrow>
          (case sanitize_git_pathspec (tv_disk V) d oper pathspec of
             Inl e \<Rightarrow> (Inl e, d)
           | Inr spec \<Rightarrow> run_git V (args @ [''--'', spec]) d))"

definition git_status :: "'d tool_env \<Rightarrow> tool_operator \<Rightarrow> bool \<Rightarrow> string option \<Rightarrow> 'd \<Rightarrow> (string + string) \<times> 'd" where
  "git_status V oper short p = git_with_pathspec V oper (''status'' # (if short then [''--short''] else [])) p"

definition git_diff :: "'d tool_env \<Rightarrow> tool_operator \<Rightarrow> bool \<Rightarrow> string option \<Rightarrow> 'd \<Rightarrow> (string + string) \<times> 'd" where
  "git_diff V oper cached p = git_with_pathspec V oper (''diff'' # (if cached then [''--cached''] else [])) p"

definition git_log :: "'d tool_env \<Rightarrow> nat \<Rightarrow> 'd \<Rightarrow> (string + string) \<times> 'd" where
  "git_log V max_count = run_git V [''log'', ''--oneline'', ''-n'' @ nat_dec (clamp_usize 1 100 max_count)]"

definition git_show :: "'d tool_env \<Rightarrow> string \<Rightarrow> 'd \<Rightarrow> (string + string) \<times> 'd" where
  "git_show V revision d =
     (case non_empty_trimmed revision of
        None \<Rightarrow> (Inl (''git_show requires a non-empty '' @ [CHR 0x27] @ ''revision'' @ [CHR 0x27] @ '' field''), d)
      | Some r \<Rightarrow> run_git V [''show'', ''--stat'', ''--oneline'', r] d)"

definition git_add :: "'d tool_env \<Rightarrow> tool_operator \<Rightarrow> string \<Rightarrow> 'd \<Rightarrow> (string + string) \<times> 'd" where
  "git_add V oper p d =
     (case sanitize_git_pathspec (tv_disk V) d oper p of
        Inl e \<Rightarrow> (Inl e, d)
      | Inr spec \<Rightarrow>
          (case run_git V [''add'', ''--'', spec] d of
             (Inl e, d1) \<Rightarrow> (Inl e, d1)
           | (Inr _, d1) \<Rightarrow> (Inr (''Staged '' @ p), d1)))"

definition git_commit :: "'d tool_env \<Rightarrow> string \<Rightarrow> 'd \<Rightarrow> (string + string) \<times> 'd" where
  "git_commit V message d =
     (case non_empty_trimmed message of
        None \<Rightarrow> (Inl (''git_commit requires a non-empty '' @ [CHR 0x27] @ ''message'' @ [CHR 0x27] @ '' field''), d)
      | Some msg \<Rightarrow> run_git V [''commit'', ''-m'', msg, ''--no-gpg-sign''] d)"

section \<open>The calls\<close>

definition refresh_codebase_index :: "'d tool_env \<Rightarrow> string \<Rightarrow> 'd tool_world \<Rightarrow> 'd tool_world" where
  "refresh_codebase_index V p w =
     (if tv_search_enabled V then w\<lparr>tw_refreshed := tw_refreshed w @ [p]\<rparr> else w)"

definition on_disk :: "('d \<Rightarrow> (string + 'a) \<times> 'd) \<Rightarrow> ('d, 'a) tool_call" where
  "on_disk f w = (case f (tw_disk w) of (r, d) \<Rightarrow> (r, w\<lparr>tw_disk := d\<rparr>))"

definition query :: "('d \<Rightarrow> string + 'a) \<Rightarrow> ('d, 'a) tool_call" where
  "query f w = (f (tw_disk w), w)"

text \<open>A required argument, and the rest of the call on its value.\<close>

definition with_arg :: "string + 'b \<Rightarrow> ('b \<Rightarrow> ('d, 'a) tool_call) \<Rightarrow> ('d, 'a) tool_call" where
  "with_arg arg k w = (case arg of Inl e \<Rightarrow> (Inl e, w) | Inr v \<Rightarrow> k v w)"

definition then_call :: "('d, 'b) tool_call \<Rightarrow> ('b \<Rightarrow> ('d, 'a) tool_call) \<Rightarrow> ('d, 'a) tool_call" where
  "then_call c k w = (case c w of (Inl e, w1) \<Rightarrow> (Inl e, w1) | (Inr v, w1) \<Rightarrow> k v w1)"

definition record_read :: "'d tool_env \<Rightarrow> tool_operator \<Rightarrow> string \<Rightarrow> nat option \<Rightarrow> nat \<Rightarrow> 'd tool_world \<Rightarrow> 'd tool_world" where
  "record_read V oper p offset limit w =
     (let D = tv_disk V; d = tw_disk w
      in case existing_path D oper p d of
           Inr (Some resolved) \<Rightarrow>
             if dk_is_dir D d resolved then w
             else (case dk_fingerprint D d resolved of
                     None \<Rightarrow> w
                   | Some fp \<Rightarrow>
                       let start_line = max (case offset of Some k \<Rightarrow> k | None \<Rightarrow> 1) 1;
                           end_line = sat_add start_line (limit - 1)
                       in w\<lparr>tw_ledger := record_pulse_read resolved start_line end_line fp (tw_ledger w)\<rparr>)
         | _ \<Rightarrow> w)"

definition get_u64 :: "json \<Rightarrow> string \<Rightarrow> nat option" where
  "get_u64 input key = Option.bind (json_get input key) as_u64"

definition get_bool :: "json \<Rightarrow> string \<Rightarrow> bool \<Rightarrow> bool" where
  "get_bool input key dflt =
     (case Option.bind (json_get input key) as_bool of Some b \<Rightarrow> b | None \<Rightarrow> dflt)"

definition get_str :: "json \<Rightarrow> string \<Rightarrow> string option" where
  "get_str input key = Option.bind (json_get input key) as_str"

definition read_path_keys :: "string list" where
  "read_path_keys = [''path'', ''file_path'', ''file'']"

definition call_read_file ::
  "'d tool_env \<Rightarrow> tool_operator \<Rightarrow> json \<Rightarrow> 'd tool_world \<Rightarrow> ((string + string) \<times> 'd tool_world) option" where
  "call_read_file V oper input w =
     (case required_tool_string_any input ''read_file'' ''path'' read_path_keys of
        Inl e \<Rightarrow> Some (Inl e, w)
      | Inr p \<Rightarrow>
          let offset = get_u64 input ''offset'';
              effective_limit = (case get_u64 input ''limit'' of
                                   Some n \<Rightarrow> n | None \<Rightarrow> read_file_max_lines (tv_env V))
          in (case read_file_range (tv_disk V) oper p offset (Some effective_limit) (tw_disk w) of
                None \<Rightarrow> None
              | Some (Inl e) \<Rightarrow> Some (Inl e, w)
              | Some (Inr rendered) \<Rightarrow>
                  Some (Inr rendered,
                        if starts_with rendered ''(file has '' then w
                        else record_read V oper p offset effective_limit w)))"

definition stats_text :: "nat \<times> nat \<Rightarrow> string" where
  "stats_text st = nat_dec (fst st) @ '' chars, '' @ nat_dec (snd st) @ '' lines''"

definition change_text :: "nat \<times> nat \<Rightarrow> nat \<times> nat \<Rightarrow> string" where
  "change_text old new =
     nat_dec (fst old) @ '' chars/'' @ nat_dec (snd old) @ '' lines -> ''
     @ nat_dec (fst new) @ '' chars/'' @ nat_dec (snd new) @ '' lines''"

definition too_many_lines_error :: "nat \<Rightarrow> nat \<Rightarrow> string" where
  "too_many_lines_error n_lines max_lines =
     ''write_file rejected: '' @ nat_dec n_lines @ '' lines exceeds the '' @ nat_dec max_lines
     @ ''-line limit. Use apply_patch or edit_file for large files.''"

definition large_file_warning :: "nat \<Rightarrow> nat \<Rightarrow> string" where
  "large_file_warning n_lines threshold =
     [newline] @ ''Warning: file has '' @ nat_dec n_lines @ '' lines (>'' @ nat_dec threshold
     @ ''). Prefer apply_patch or edit_file for large-file edits.''"

definition call_write_file :: "'d tool_env \<Rightarrow> tool_operator \<Rightarrow> json \<Rightarrow> ('d, string) tool_call" where
  "call_write_file V oper input =
     with_arg (required_tool_string_any input ''write_file'' ''path'' read_path_keys) (\<lambda>p.
       let content = or_blank (first_tool_string input [''content'', ''text'']);
           stats = text_stats content;
           max_lines = write_file_max_lines (tv_env V);
           threshold = write_file_diff_preferred_above_lines (tv_env V)
       in if max_lines < snd stats then (\<lambda>w. (Inl (too_many_lines_error (snd stats) max_lines), w))
          else
            then_call (on_disk (write_file (tv_disk V) (tv_hunks V) oper p content)) (\<lambda>outcome w.
              (Inr ((case outcome of
                       Written \<Rightarrow> ''Wrote '' @ p @ '' ('' @ stats_text stats @ '').''
                     | Pending_patch pending \<Rightarrow>
                         ''Pending patch for '' @ p @ ''.'' @ [newline] @ pp_diff pending)
                    @ (if threshold < snd stats then large_file_warning (snd stats) threshold else '''')),
               refresh_codebase_index V p w)))"

definition call_apply_patch :: "'d tool_env \<Rightarrow> tool_operator \<Rightarrow> json \<Rightarrow> ('d, string) tool_call" where
  "call_apply_patch V oper input =
     with_arg (required_tool_string_any input ''apply_patch'' ''path'' read_path_keys) (\<lambda>p.
     with_arg (required_tool_string_any_preserve input ''apply_patch'' ''content''
                 [''content'', ''text'', ''new_content'']) (\<lambda>content.
     then_call (query (read_file_if_exists (tv_disk V) oper p)) (\<lambda>old_content.
     then_call (query (propose_patch (tv_disk V) (tv_hunks V) oper p (or_blank old_content) content)) (\<lambda>pending.
     then_call (on_disk (apply_patch (tv_disk V) oper pending)) (\<lambda>_ w.
       (Inr (''Applied patch to '' @ p @ '' ('' @ stats_text (text_stats content) @ '').''),
        refresh_codebase_index V p w))))))"

definition old_str_keys :: "string list" where
  "old_str_keys = [''old_str'', ''old_text'', ''old_string'', ''find'', ''search'']"

definition new_str_keys :: "string list" where
  "new_str_keys =
     [''new_str'', ''new_text'', ''new_string'', ''replace'', ''replace_with'', ''replacement'']"

definition edit_summary :: "string \<Rightarrow> nat \<times> nat \<Rightarrow> nat \<times> nat \<Rightarrow> string" where
  "edit_summary p old new =
     (if 0 < snd old \<and> snd new = 0 then ''Deleted''
      else if snd old = 0 \<and> 0 < snd new then ''Inserted'' else ''Updated'')
     @ '' snippet in '' @ p @ '' ('' @ change_text old new @ '').''"

definition call_edit_file :: "'d tool_env \<Rightarrow> tool_operator \<Rightarrow> json \<Rightarrow> ('d, string) tool_call" where
  "call_edit_file V oper input =
     with_arg (required_tool_string_any input ''edit_file'' ''path'' path_keys) (\<lambda>p.
     with_arg (required_tool_string_any_preserve input ''edit_file'' ''old_str'' old_str_keys) (\<lambda>old_str.
       let new_str = or_blank (first_tool_string input new_str_keys)
       in then_call (edit_file (tv_disk V) oper p old_str new_str) (\<lambda>_ w.
            (Inr (edit_summary p (text_stats old_str) (text_stats new_str)),
             refresh_codebase_index V p w))))"

definition call_rename_file :: "'d tool_env \<Rightarrow> tool_operator \<Rightarrow> json \<Rightarrow> ('d, string) tool_call" where
  "call_rename_file V oper input =
     with_arg (required_tool_string_any input ''rename_file'' ''old_path'' old_path_keys) (\<lambda>old_path.
     with_arg (required_tool_string_any input ''rename_file'' ''new_path'' new_path_keys) (\<lambda>new_path.
       then_call (on_disk (rename_file (tv_disk V) oper old_path new_path)) (\<lambda>result w.
         (Inr result, refresh_codebase_index V new_path (refresh_codebase_index V old_path w)))))"

definition list_path_keys :: "string list" where
  "list_path_keys = [''path'', ''dir'', ''directory'', ''root'']"

definition list_limit_keys :: "string list" where
  "list_limit_keys = [''max_entries'', ''max_results'', ''limit'']"

definition query_tool_names :: "string list" where
  "query_tool_names =
     [''list_dir'', ''glob_files'', ''search_files'', ''search'', ''search_content'', ''find_files'',
      ''codebase_search'']"

definition call_git_tool :: "'d tool_env \<Rightarrow> tool_operator \<Rightarrow> string \<Rightarrow> json \<Rightarrow> ('d, string) tool_call option" where
  "call_git_tool V oper name input =
     (if name = ''git_status'' then
        Some (on_disk (git_status V oper (get_bool input ''short'' True) (get_str input ''path'')))
      else if name = ''git_diff'' then
        Some (on_disk (git_diff V oper (get_bool input ''cached'' False) (get_str input ''path'')))
      else if name = ''git_log'' then
        Some (on_disk (git_log V (case get_u64 input ''max_count'' of Some n \<Rightarrow> n | None \<Rightarrow> 10)))
      else if name = ''git_show'' then
        Some (with_arg (required_tool_string input name ''revision'') (\<lambda>r. on_disk (git_show V r)))
      else if name = ''git_add'' then
        Some (with_arg (required_tool_string_any input name ''path'' read_path_keys) (\<lambda>p. on_disk (git_add V oper p)))
      else if name = ''git_commit'' then
        Some (with_arg (required_tool_string_any input name ''message'' [''message'', ''msg'', ''commit_message''])
                (\<lambda>m. on_disk (git_commit V m)))
      else None)"

definition call_tool_routing ::
  "'d tool_env \<Rightarrow> tool_operator \<Rightarrow> string \<Rightarrow> json \<Rightarrow> 'd tool_world
   \<Rightarrow> ((string + string) \<times> 'd tool_world) option" where
  "call_tool_routing V oper name input w =
     (if name = ''read_file'' then call_read_file V oper input w
      else if name = ''write_file'' then Some (call_write_file V oper input w)
      else if name = ''apply_patch'' then Some (call_apply_patch V oper input w)
      else if name = ''edit_file'' then Some (call_edit_file V oper input w)
      else if name = ''rename_file'' then Some (call_rename_file V oper input w)
      else if name = ''list_files'' \<or> name = ''list_directory'' then
        Some (query (list_files (tv_disk V) oper (first_tool_string input list_path_keys)
                (case first_tool_usize input list_limit_keys of Some n \<Rightarrow> n | None \<Rightarrow> 100)) w)
      else if name \<in> set query_tool_names then Some (query (tv_query V name input) w)
      else
        (case call_git_tool V oper name input of
           Some call \<Rightarrow> Some (call w)
         | None \<Rightarrow>
             Some (Inl (if name = ''run_command''
                        then ''run_command must call through the async runtime command runner''
                        else ''Unknown tool: '' @ name), w)))"

end
