(* ===== verification/Demo_Disk.thy ===== *)
theory Demo_Disk
  imports Tool_Calls "HOL-Library.AList"
begin

text \<open>
  A small file system for the examples: files by path, directories where files lie below, and symbolic
  links given by a function that is the identity where there is none.
\<close>

type_synonym files = "(path \<times> string) list"

definition no_such_file :: io_error where
  "no_such_file = \<lparr>io_not_found = True, io_message = ''No such file or directory''\<rparr>"

definition has_below :: "files \<Rightarrow> path \<Rightarrow> bool" where
  "has_below d p = list_ex (\<lambda>(q, _). prefix p q \<and> p \<noteq> q) d"

definition demo_disk :: "(path \<Rightarrow> path) \<Rightarrow> files disk" where
  "demo_disk link =
     \<lparr>dk_exists = (\<lambda>d p. map_of d (link p) \<noteq> None \<or> has_below d p),
      dk_is_dir = has_below,
      dk_is_file = (\<lambda>d p. map_of d (link p) \<noteq> None),
      dk_canonicalize = (\<lambda>d p. Some (link p)),
      dk_read_to_string = (\<lambda>d p. case map_of d (link p) of Some s \<Rightarrow> Inr s | None \<Rightarrow> Inl no_such_file),
      dk_fingerprint = (\<lambda>d p. map_option (\<lambda>s. \<lparr>fp_len = length s, fp_modified = 0\<rparr>) (map_of d (link p))),
      dk_read_dir = (\<lambda>d p. Read_dir_failed),
      dk_write = (\<lambda>p s d. (Inr (), AList.update (link p) s d)),
      dk_rename = (\<lambda>p q d. case map_of d p of
          Some s \<Rightarrow> (Inr (), AList.update q s (AList.delete p d))
        | None \<Rightarrow> if link p = p then (Inl no_such_file, d) else (Inr (), d)),
      dk_create_dir_all = (\<lambda>p d. (Inr (), d))\<rparr>"

definition demo_root :: path where
  "demo_root = [RootDir, Normal ''w'']"

definition demo_operator :: tool_operator where
  "demo_operator = \<lparr>op_working_dir = demo_root, op_canonical_working_dir = demo_root\<rparr>"

definition demo_tools :: "(path \<Rightarrow> path) \<Rightarrow> files tool_env" where
  "demo_tools link =
     \<lparr>tv_disk = demo_disk link, tv_env = (\<lambda>_. None), tv_hunks = (\<lambda>_ _. ''diff''),
      tv_query = (\<lambda>_ _ _. Inr ''''), tv_git = (\<lambda>_ d. (None, d)), tv_search_enabled = False\<rparr>"

definition demo_world :: "files \<Rightarrow> files tool_world" where
  "demo_world d = \<lparr>tw_disk = d, tw_ledger = [], tw_refreshed = []\<rparr>"

end
