(* ===== verification/Tool_Safety.thy ===== *)
theory Tool_Safety
  imports Demo_Disk Text_Util
begin

text \<open>
  What the file tools can do to the disk. The path guard: a resolved path is the working directory
  followed by plain names, and its nearest existing ancestor lies inside the real working directory.
  The file tools: whatever the model asks for, the disk is changed only by system calls on guarded paths, on the
  directories above them and on the temporary sibling of a patched file. The git tools: one run of git, with
  arguments of a fixed form whose path is a guarded one; what git does with them is not bounded here.
\<close>

section \<open>Resolved paths\<close>

definition clean_dir :: "path \<Rightarrow> bool" where
  "clean_dir p \<longleftrightarrow> (\<exists>segs. p = RootDir # map Normal segs)"

lemma split_char_head:
  "split_char sep s = [] # ps \<Longrightarrow> ps \<noteq> [] \<Longrightarrow> \<exists>r. s = sep # r"
  by (cases s) (auto split: if_splits list.splits)

lemma piece_component_cases:
  "ParentDir \<notin> set (piece_component p) \<Longrightarrow> \<exists>segs. piece_component p = map Normal segs"
  by (rule exI [of _ "if p = [] \<or> p = ''.'' then [] else [p]"])
    (auto simp: piece_component_def split: if_splits)

lemma pieces_plain:
  "ParentDir \<notin> set (concat (map piece_component ps)) \<Longrightarrow>
   \<exists>segs. concat (map piece_component ps) = map Normal segs"
proof (induction ps)
  case (Cons p ps)
  then obtain a b where "piece_component p = map Normal a" "concat (map piece_component ps) = map Normal b"
    using piece_component_cases [of p] by auto
  then have "concat (map piece_component (p # ps)) = map Normal (a @ b)" by simp
  then show ?case by blast
qed simp

lemma components_relative:
  assumes "\<not> starts_with s ''/''" and "ParentDir \<notin> set (components s)"
  shows "\<exists>segs. components s = map Normal segs \<or> components s = CurDir # map Normal segs"
proof (cases "split_char CHR ''/'' s")
  case (Cons p ps)
  have root: "\<not> (ps \<noteq> [] \<and> p = [])"
    using split_char_head [of "CHR ''/''" s ps] Cons assms(1) by (auto simp: starts_with_def)
  let ?first = "if p = ''.'' then [CurDir] else piece_component p"
  have comps: "components s = ?first @ concat (map piece_component ps)"
    using root by (auto simp: components_def Cons piece_component_def)
  then have "ParentDir \<notin> set (concat (map piece_component ps))" using assms(2) by auto
  then obtain b where b: "concat (map piece_component ps) = map Normal b"
    using pieces_plain by blast
  show ?thesis
  proof (cases "p = ''.''")
    case True
    with comps b show ?thesis by auto
  next
    case False
    then obtain a where "piece_component p = map Normal a"
      using comps assms(2) piece_component_cases [of p] by auto
    then have "components s = map Normal (a @ b)" using comps b False by simp
    then show ?thesis by blast
  qed
qed (simp add: split_char_nonempty)

lemma normalize_normals:
  "fold (normalize_component n) (map Normal segs) out = out @ map Normal segs"
  by (induction segs arbitrary: out) auto

lemma normalize_clean:
  assumes "clean_dir wd"
  shows "fold (normalize_component n) (wd @ map Normal segs) [] = wd @ map Normal segs"
  using assms by (auto simp: clean_dir_def normalize_normals simp flip: map_append)

lemma nearest_existing_ancestor_spec:
  "nearest_existing_ancestor ex p = Some g \<Longrightarrow>
   ex g \<and> prefix g p \<and> (\<forall>r. prefix g r \<and> prefix r p \<and> r \<noteq> g \<longrightarrow> \<not> ex r)"
proof (induction ex p rule: nearest_existing_ancestor.induct)
  case (1 ex p)
  show ?case
  proof (cases "ex p")
    case True
    with "1.prems" show ?thesis
      by (auto simp: nearest_existing_ancestor.simps [of ex p] prefix_order.antisym)
  next
    case False
    with "1.prems" obtain q where q: "parent p = Some q" "nearest_existing_ancestor ex q = Some g"
      by (auto simp: nearest_existing_ancestor.simps [of ex p] split: option.splits)
    then have p: "p = q @ [last p]" by (auto simp: parent_def split: if_splits)
    have IH: "ex g" "prefix g q" "\<And>r. prefix g r \<Longrightarrow> prefix r q \<Longrightarrow> r \<noteq> g \<Longrightarrow> \<not> ex r"
      using "1.IH" [OF False q(1) q(2)] by auto
    have "prefix r q \<or> r = p" if "prefix r p" for r
      using that p prefix_snoc [of r q "last p"] by metis
    with IH False p show ?thesis by (metis prefix_snoc)
  qed
qed

definition inside :: "'d disk \<Rightarrow> 'd \<Rightarrow> tool_operator \<Rightarrow> path \<Rightarrow> bool" where
  "inside D d oper p \<longleftrightarrow> ensure_path_is_within_workspace D d oper p = Inr ()"

lemma inside_iff:
  "inside D d oper p \<longleftrightarrow>
   (\<exists>g c. nearest_existing_ancestor (dk_exists D d) p = Some g \<and> dk_canonicalize D d g = Some c
          \<and> prefix (op_canonical_working_dir oper) c)"
proof -
  have "(if dk_exists D d p then Some p else nearest_existing_ancestor (dk_exists D d) p)
    = nearest_existing_ancestor (dk_exists D d) p"
    by (simp add: nearest_existing_ancestor.simps)
  then show ?thesis
    by (auto simp: inside_def ensure_path_is_within_workspace_def split: option.splits if_splits)
qed

lemma resolve_path_inside: "resolve_path D d oper s = Inr q \<Longrightarrow> inside D d oper q"
  by (auto simp: resolve_path_def Let_def inside_def split: if_splits sum.splits)

text \<open>An accepted path is the normalised working directory followed by plain names.\<close>

lemma resolve_path_plain:
  assumes "resolve_path D d oper s = Inr q"
  shows "\<exists>segs. q = normalize_path oper (op_working_dir oper) @ map Normal segs"
proof -
  let ?p = "trim s" and ?wd = "op_working_dir oper"
  have ok: "\<not> starts_with ?p ''/''" "ParentDir \<notin> set (components ?p)"
    and q: "q = normalize_path oper (join ?wd (components ?p))"
    using assms by (auto simp: resolve_path_def Let_def split: if_splits sum.splits)
  obtain segs where segs: "components ?p = map Normal segs \<or> components ?p = CurDir # map Normal segs"
    using components_relative [OF ok] by blast
  moreover have "\<not> is_absolute (map Normal segs)"
    by (cases segs) (auto simp: is_absolute_def)
  moreover have "dropWhile ((=) CurDir) (map Normal segs) = map Normal segs"
    by (cases segs) auto
  ultimately have "join ?wd (components ?p) = ?wd @ map Normal segs
      \<or> join ?wd (components ?p) = ?wd @ CurDir # map Normal segs"
    by (auto simp: join_def is_absolute_def)
  then have "q = normalize_path oper ?wd @ map Normal segs"
    using q by (auto simp: normalize_path_def normalize_normals)
  then show ?thesis by blast
qed

lemma normalize_clean_dir: "clean_dir (op_working_dir oper) \<Longrightarrow> normalize_path oper (op_working_dir oper) = op_working_dir oper"
  using normalize_clean [of "op_working_dir oper" _ "[]"] by (simp add: normalize_path_def)

section \<open>Effects on the disk\<close>

text \<open>The disks a tool call can leave when it starts on \<open>d0\<close>: system calls on paths that \<open>resolve_path\<close>
  accepted for a string with \<open>P\<close>, on the directory that holds one, and on the temporary sibling of one.\<close>

inductive disk_run :: "'d tool_env \<Rightarrow> tool_operator \<Rightarrow> (string \<Rightarrow> bool) \<Rightarrow> 'd \<Rightarrow> 'd \<Rightarrow> bool"
  for V oper P d0 where
  Start: "disk_run V oper P d0 d0"
| Write: "disk_run V oper P d0 d \<Longrightarrow> resolve_path (tv_disk V) d0 oper s = Inr q \<Longrightarrow> P s \<Longrightarrow>
    disk_run V oper P d0 (snd (dk_write (tv_disk V) q c d))"
| Make_parent: "disk_run V oper P d0 d \<Longrightarrow> resolve_path (tv_disk V) d0 oper s = Inr q \<Longrightarrow> P s \<Longrightarrow>
    parent q = Some dir \<Longrightarrow> disk_run V oper P d0 (snd (dk_create_dir_all (tv_disk V) dir d))"
| Write_temp: "disk_run V oper P d0 d \<Longrightarrow> resolve_path (tv_disk V) d0 oper s = Inr q \<Longrightarrow> P s \<Longrightarrow>
    disk_run V oper P d0 (snd (dk_write (tv_disk V) (temp_path q) c d))"
| Move_temp: "disk_run V oper P d0 d \<Longrightarrow> resolve_path (tv_disk V) d0 oper s = Inr q \<Longrightarrow> P s \<Longrightarrow>
    disk_run V oper P d0 (snd (dk_rename (tv_disk V) (temp_path q) q d))"
| Rename: "disk_run V oper P d0 d \<Longrightarrow> resolve_path (tv_disk V) d0 oper s = Inr q \<Longrightarrow> P s \<Longrightarrow>
    resolve_path (tv_disk V) d0 oper s' = Inr q' \<Longrightarrow> P s' \<Longrightarrow>
    disk_run V oper P d0 (snd (dk_rename (tv_disk V) q q' d))"

text \<open>The arguments the git tools give to git: a fixed form, where a path stands after \<open>--\<close> and is the relative
  form of one the guard accepted, or the dot for the whole working directory.\<close>

definition guarded_pathspec :: "'d disk \<Rightarrow> 'd \<Rightarrow> tool_operator \<Rightarrow> string list \<Rightarrow> bool" where
  "guarded_pathspec D d oper args \<longleftrightarrow>
     args = [] \<or> args = [''--'', ''.'']
     \<or> (\<exists>s q rel. resolve_path D d oper s = Inr q \<and> q = op_working_dir oper @ rel
          \<and> args = [''--'', path_to_repo_relative_string rel])"

definition git_arguments :: "'d disk \<Rightarrow> 'd \<Rightarrow> tool_operator \<Rightarrow> string \<Rightarrow> json \<Rightarrow> string list \<Rightarrow> bool" where
  "git_arguments D d oper name input args \<longleftrightarrow>
     (name = ''git_status'' \<and> (\<exists>opts spec. args = ''status'' # opts @ spec \<and> set opts \<subseteq> {''--short''}
        \<and> guarded_pathspec D d oper spec))
     \<or> (name = ''git_diff'' \<and> (\<exists>opts spec. args = ''diff'' # opts @ spec \<and> set opts \<subseteq> {''--cached''}
        \<and> guarded_pathspec D d oper spec))
     \<or> (name = ''git_log'' \<and> (\<exists>n. 1 \<le> n \<and> n \<le> 100 \<and> args = [''log'', ''--oneline'', ''-n'' @ nat_dec n]))
     \<or> (name = ''git_show'' \<and> (\<exists>revision. required_tool_string input name ''revision'' = Inr revision
        \<and> args = [''show'', ''--stat'', ''--oneline'', trim revision]))
     \<or> (name = ''git_add'' \<and> (\<exists>spec. spec \<noteq> [] \<and> args = ''add'' # spec \<and> guarded_pathspec D d oper spec))
     \<or> (name = ''git_commit'' \<and> (\<exists>msg. args = [''commit'', ''-m'', msg, ''--no-gpg-sign'']))"

lemma write_file_run:
  assumes "P p"
  shows "disk_run V oper P d (snd (write_file (tv_disk V) h oper p content d))"
proof (cases "resolve_path (tv_disk V) d oper p")
  case (Inr q)
  note start = disk_run.Start [of V oper P d]
  have made: "disk_run V oper P d (snd (dk_create_dir_all (tv_disk V) dir d))" if "parent q = Some dir" for dir
    using disk_run.Make_parent [OF start Inr assms that] .
  have "disk_run V oper P d (snd (dk_write (tv_disk V) q content d1))"
    if "disk_run V oper P d d1" for d1
    using disk_run.Write [OF that Inr assms] .
  with made start show ?thesis
    by (auto simp: write_file_def Inr case_prod_unfold split: option.splits sum.splits)
qed (simp add: write_file_def disk_run.Start)

lemma apply_patch_run:
  assumes "resolve_path (tv_disk V) d oper p = Inr q" and "P p" and "pp_path patch = q"
  shows "disk_run V oper P d (snd (apply_patch (tv_disk V) oper patch d))"
proof -
  note start = disk_run.Start [of V oper P d]
  have temp: "disk_run V oper P d (snd (dk_write (tv_disk V) (temp_path q) (pp_new_content patch) d))"
    using disk_run.Write_temp [OF start assms(1,2)] .
  have "disk_run V oper P d (snd (dk_rename (tv_disk V) (temp_path q) q d1))"
    if "disk_run V oper P d d1" for d1
    using disk_run.Move_temp [OF that assms(1,2)] .
  with temp start show ?thesis
    by (auto simp: apply_patch_def Let_def assms(3) case_prod_unfold split: sum.splits)
qed

lemma edit_file_run:
  assumes "P p"
  shows "disk_run V oper P (tw_disk w) (tw_disk (snd (edit_file (tv_disk V) oper p old_str new_str w)))"
proof (cases "resolve_path (tv_disk V) (tw_disk w) oper p")
  case (Inr q)
  note start = disk_run.Start [of V oper P "tw_disk w"]
  have "disk_run V oper P (tw_disk w) (snd (dk_write (tv_disk V) q c (tw_disk w)))" for c
    using disk_run.Write [OF start Inr assms] .
  with start show ?thesis
    by (auto simp: edit_file_def Let_def Inr case_prod_unfold split: sum.splits)
qed (simp add: edit_file_def disk_run.Start)

lemma rename_file_run:
  assumes "P old_path" and "P new_path"
  shows "disk_run V oper P d (snd (rename_file (tv_disk V) oper old_path new_path d))"
proof (cases "resolve_path (tv_disk V) d oper old_path")
  case src: (Inr q)
  show ?thesis
  proof (cases "resolve_path (tv_disk V) d oper new_path")
    case dst: (Inr q')
    note start = disk_run.Start [of V oper P d]
    have made: "disk_run V oper P d (snd (dk_create_dir_all (tv_disk V) dir d))" if "parent q' = Some dir" for dir
      using disk_run.Make_parent [OF start dst assms(2) that] .
    have "disk_run V oper P d (snd (dk_rename (tv_disk V) q q' d1))" if "disk_run V oper P d d1" for d1
      using disk_run.Rename [OF that src assms(1) dst assms(2)] .
    with made start show ?thesis
      by (auto simp: rename_file_def src dst case_prod_unfold split: option.splits sum.splits)
  qed (simp add: rename_file_def src disk_run.Start)
qed (simp add: rename_file_def disk_run.Start)

section \<open>The calls\<close>

text \<open>A call whose effect on the disk is a run from the world it starts in.\<close>

definition confined_at :: "'d tool_env \<Rightarrow> tool_operator \<Rightarrow> (string \<Rightarrow> bool) \<Rightarrow> ('d, 'a) tool_call \<Rightarrow> 'd tool_world \<Rightarrow> bool" where
  "confined_at V oper P c w \<longleftrightarrow> disk_run V oper P (tw_disk w) (tw_disk (snd (c w)))"

lemma confined_with_arg:
  "(\<And>v. arg = Inr v \<Longrightarrow> confined_at V oper P (k v) w) \<Longrightarrow> confined_at V oper P (with_arg arg k) w"
  by (cases arg) (auto simp: confined_at_def with_arg_def disk_run.Start)

lemma confined_query: "confined_at V oper P (query f) w"
  by (simp add: confined_at_def query_def disk_run.Start)

lemma confined_then_query:
  "(\<And>v. f (tw_disk w) = Inr v \<Longrightarrow> confined_at V oper P (k v) w) \<Longrightarrow>
   confined_at V oper P (then_call (query f) k) w"
  by (cases "f (tw_disk w)") (auto simp: confined_at_def then_call_def query_def disk_run.Start)

lemma confined_then:
  assumes "confined_at V oper P c w" and "\<And>v w. tw_disk (snd (k v w)) = tw_disk w"
  shows "confined_at V oper P (then_call c k) w"
  using assms by (auto simp: confined_at_def then_call_def case_prod_unfold split: sum.splits)

lemma confined_on_disk:
  "disk_run V oper P (tw_disk w) (snd (f (tw_disk w))) \<Longrightarrow> confined_at V oper P (on_disk f) w"
  by (simp add: confined_at_def on_disk_def case_prod_unfold)

lemma tw_disk_refresh [simp]: "tw_disk (refresh_codebase_index V p w) = tw_disk w"
  by (simp add: refresh_codebase_index_def)

lemma tw_disk_record_read [simp]: "tw_disk (record_read V oper p offset limit w) = tw_disk w"
  by (auto simp: record_read_def Let_def split: sum.splits option.splits)

definition argument_of :: "json \<Rightarrow> string list \<Rightarrow> string \<Rightarrow> bool" where
  "argument_of input keys p \<longleftrightarrow> map_option trim (first_tool_string input keys) = Some p"

lemma required_argument:
  "required_tool_string_any input tool key keys = Inr p \<Longrightarrow> argument_of input keys p"
  by (auto simp: required_tool_string_any_def argument_of_def or_blank_def Let_def split: if_splits option.splits)

lemma confined_write_file:
  assumes "\<And>p. argument_of input read_path_keys p \<Longrightarrow> P p"
  shows "confined_at V oper P (call_write_file V oper input) w"
  unfolding call_write_file_def Let_def
proof (rule confined_with_arg, goal_cases)
  case (1 p)
  then have "P p" using assms required_argument by blast
  then have "confined_at V oper P (on_disk (write_file (tv_disk V) h oper p c)) w" for h c
    by (intro confined_on_disk write_file_run)
  then show ?case
    by (auto simp: confined_at_def [of _ _ _ "\<lambda>w. (Inl _, w)"] disk_run.Start intro: confined_then)
qed

lemma confined_apply_patch:
  assumes "\<And>p. argument_of input read_path_keys p \<Longrightarrow> P p"
  shows "confined_at V oper P (call_apply_patch V oper input) w"
  unfolding call_apply_patch_def
proof (intro confined_with_arg confined_then_query confined_then confined_on_disk, goal_cases)
  case (1 p content old_content patch)
  have P: "P p" using 1(1) assms required_argument by blast
  obtain q where "resolve_path (tv_disk V) (tw_disk w) oper p = Inr q" "pp_path patch = q"
    using 1(4) by (auto simp: propose_patch_def split: sum.splits if_splits)
  then show ?case using P by (intro apply_patch_run) auto
qed auto

lemma confined_edit_file:
  assumes "\<And>p. argument_of input path_keys p \<Longrightarrow> P p"
  shows "confined_at V oper P (call_edit_file V oper input) w"
  unfolding call_edit_file_def Let_def
proof (intro confined_with_arg confined_then, goal_cases)
  case (1 p old_str)
  then have "P p" using assms required_argument by blast
  then show ?case by (simp add: confined_at_def edit_file_run)
qed auto

lemma confined_rename_file:
  assumes "\<And>p. argument_of input old_path_keys p \<Longrightarrow> P p"
    and "\<And>p. argument_of input new_path_keys p \<Longrightarrow> P p"
  shows "confined_at V oper P (call_rename_file V oper input) w"
  unfolding call_rename_file_def
proof (intro confined_with_arg confined_then confined_on_disk, goal_cases)
  case (1 old_path new_path)
  then have "P old_path" "P new_path" using assms required_argument by blast+
  then show ?case by (rule rename_file_run)
qed auto

text \<open>The git tools.\<close>

definition git_run :: "'d tool_env \<Rightarrow> (string list \<Rightarrow> bool) \<Rightarrow> 'd \<Rightarrow> 'd \<Rightarrow> bool" where
  "git_run V A d d' \<longleftrightarrow> d' = d \<or> (\<exists>args. A args \<and> d' = snd (tv_git V args d))"

lemma run_git_run: "A args \<Longrightarrow> git_run V A d (snd (run_git V args d))"
  by (auto simp: git_run_def run_git_def Let_def case_prod_unfold split: option.splits)

lemma sanitized_pathspec:
  "sanitize_git_pathspec D d oper p = Inr spec \<Longrightarrow> guarded_pathspec D d oper [''--'', spec]"
  by (auto simp: sanitize_git_pathspec_def guarded_pathspec_def strip_path_prefix_def prefix_def
      split: option.splits sum.splits if_splits)

lemma git_pathspec_forms:
  assumes "guarded_pathspec D d oper spec"
  shows "git_arguments D d oper ''git_status'' input ((''status'' # (if short then [''--short''] else [])) @ spec)"
    and "git_arguments D d oper ''git_diff'' input ((''diff'' # (if cached then [''--cached''] else [])) @ spec)"
proof -
  have "\<exists>opts specs. (x # (if b then [y] else [])) @ spec = x # opts @ specs \<and> set opts \<subseteq> {y}
      \<and> guarded_pathspec D d oper specs" for b and x y :: string
    by (rule exI [of _ "if b then [y] else []"], rule exI [of _ spec]) (auto simp: assms)
  note form = this
  show "git_arguments D d oper ''git_status'' input ((''status'' # (if short then [''--short''] else [])) @ spec)"
    unfolding git_arguments_def by (rule disjI1, rule conjI [OF refl form])
  show "git_arguments D d oper ''git_diff'' input ((''diff'' # (if cached then [''--cached''] else [])) @ spec)"
    unfolding git_arguments_def by (rule disjI2, rule disjI1, rule conjI [OF refl form])
qed

lemma git_with_pathspec_run:
  assumes "\<And>spec. guarded_pathspec (tv_disk V) d oper spec \<Longrightarrow> A (args @ spec)"
  shows "git_run V A d (snd (git_with_pathspec V oper args p d))"
proof -
  have "A args" using assms [of "[]"] by (simp add: guarded_pathspec_def)
  then show ?thesis
    using assms [OF sanitized_pathspec]
    by (auto simp: git_with_pathspec_def git_run_def [of V A d d] run_git_run split: option.splits sum.splits)
qed

lemma git_form_log:
  "1 \<le> n \<Longrightarrow> n \<le> 100 \<Longrightarrow> git_arguments D d oper ''git_log'' input [''log'', ''--oneline'', ''-n'' @ nat_dec n]"
  unfolding git_arguments_def by (rule disjI2, rule disjI2, rule disjI1, rule conjI [OF refl], rule exI [of _ n]) (intro conjI refl)

lemma git_form_show:
  "required_tool_string input ''git_show'' ''revision'' = Inr revision \<Longrightarrow>
   git_arguments D d oper ''git_show'' input [''show'', ''--stat'', ''--oneline'', trim revision]"
  unfolding git_arguments_def
  by (rule disjI2, rule disjI2, rule disjI2, rule disjI1, rule conjI [OF refl], rule exI [of _ revision]) (intro conjI refl)

lemma git_form_add:
  "guarded_pathspec D d oper (x # spec) \<Longrightarrow> git_arguments D d oper ''git_add'' input (''add'' # x # spec)"
  unfolding git_arguments_def
  by (rule disjI2, rule disjI2, rule disjI2, rule disjI2, rule disjI1, rule conjI [OF refl], rule exI [of _ "x # spec"])
    (intro conjI refl list.distinct)

lemma git_form_commit:
  "git_arguments D d oper ''git_commit'' input [''commit'', ''-m'', msg, ''--no-gpg-sign'']"
  unfolding git_arguments_def
  by (rule disjI2, rule disjI2, rule disjI2, rule disjI2, rule disjI2, rule conjI [OF refl], rule exI [of _ msg]) (rule refl)

lemma git_run_same: "git_run V A d d"
  by (simp add: git_run_def)

lemma git_log_run: "git_run V (git_arguments D d oper ''git_log'' input) d (snd (git_log V n d))"
  unfolding git_log_def by (rule run_git_run, rule git_form_log) (simp_all add: clamp_usize_def)

lemma git_show_run:
  assumes "required_tool_string input ''git_show'' ''revision'' = Inr r"
  shows "git_run V (git_arguments D d oper ''git_show'' input) d (snd (git_show V r d))"
proof (cases "non_empty_trimmed r")
  case (Some t)
  then have "t = trim r" by (simp add: non_empty_trimmed_def Let_def split: if_splits)
  with Some run_git_run [where A = "git_arguments D d oper ''git_show'' input", OF git_form_show [OF assms]] show ?thesis by (simp add: git_show_def)
qed (simp add: git_show_def git_run_same)

lemma git_add_run: "git_run V (git_arguments (tv_disk V) d oper ''git_add'' input) d (snd (git_add V oper p d))"
proof (cases "sanitize_git_pathspec (tv_disk V) d oper p")
  case (Inr spec)
  have "snd (git_add V oper p d) = snd (run_git V [''add'', ''--'', spec] d)"
    by (simp add: git_add_def Inr split: prod.splits sum.splits)
  then show ?thesis 
    using run_git_run [where A = "git_arguments (tv_disk V) d oper ''git_add'' input",
      OF git_form_add [OF sanitized_pathspec [OF Inr]]] by simp
qed (simp add: git_add_def git_run_same)

lemma git_commit_run: "git_run V (git_arguments D d oper ''git_commit'' input) d (snd (git_commit V m d))"
proof (cases "non_empty_trimmed m")
  case (Some msg)
  have "git_run V (git_arguments D d oper ''git_commit'' input) d (snd (run_git V [''commit'', ''-m'', msg, ''--no-gpg-sign''] d))"
    by (rule run_git_run, rule git_form_commit)
  with Some show ?thesis by (simp add: git_commit_def)
qed (simp add: git_commit_def git_run_same)

lemma git_status_run:
  "git_run V (git_arguments (tv_disk V) d oper ''git_status'' input) d (snd (git_status V oper short p d))"
  unfolding git_status_def by (rule git_with_pathspec_run) (rule git_pathspec_forms(1))

lemma git_diff_run:
  "git_run V (git_arguments (tv_disk V) d oper ''git_diff'' input) d (snd (git_diff V oper cached p d))"
  unfolding git_diff_def by (rule git_with_pathspec_run) (rule git_pathspec_forms(2))

text \<open>A call whose effect on the disk is one run of git.\<close>

definition runs_git :: "'d tool_env \<Rightarrow> tool_operator \<Rightarrow> string \<Rightarrow> json \<Rightarrow> 'd tool_world \<Rightarrow> ('d, 'a) tool_call \<Rightarrow> bool" where
  "runs_git V oper name input w c \<longleftrightarrow>
     git_run V (git_arguments (tv_disk V) (tw_disk w) oper name input) (tw_disk w) (tw_disk (snd (c w)))"

lemma runs_git_on_disk:
  "git_run V (git_arguments (tv_disk V) (tw_disk w) oper name input) (tw_disk w) (snd (f (tw_disk w))) \<Longrightarrow>
   runs_git V oper name input w (on_disk f)"
  by (simp add: runs_git_def on_disk_def case_prod_unfold)

lemma runs_git_with_arg:
  "(\<And>v. arg = Inr v \<Longrightarrow> runs_git V oper name input w (k v)) \<Longrightarrow> runs_git V oper name input w (with_arg arg k)"
  by (cases arg) (simp_all add: runs_git_def with_arg_def git_run_same)

lemma git_runs_of_call:
  assumes "call_git_tool V oper name input = Some call"
  shows "runs_git V oper name input w call"
  using assms unfolding call_git_tool_def
  by (auto intro!: runs_git_with_arg runs_git_on_disk git_log_run git_show_run git_add_run git_commit_run
        git_status_run git_diff_run split: if_split_asm)

lemma confined_read_file:
  "call_read_file V oper input w = Some (r, w') \<Longrightarrow> tw_disk w' = tw_disk w"
  by (auto simp: call_read_file_def Let_def split: sum.splits option.splits if_splits)

section \<open>Properties\<close>

text \<open>The paths a call names, as the routing reads them from its arguments.\<close>

definition target_argument :: "string \<Rightarrow> json \<Rightarrow> string \<Rightarrow> bool" where
  "target_argument name input p \<longleftrightarrow>
     (name \<in> {''write_file'', ''apply_patch''} \<and> argument_of input read_path_keys p)
     \<or> (name = ''edit_file'' \<and> argument_of input path_keys p)
     \<or> (name = ''rename_file'' \<and> (argument_of input old_path_keys p \<or> argument_of input new_path_keys p))"

lemma target_arguments:
  "argument_of input read_path_keys p \<Longrightarrow> target_argument ''write_file'' input p"
  "argument_of input read_path_keys p \<Longrightarrow> target_argument ''apply_patch'' input p"
  "argument_of input path_keys p \<Longrightarrow> target_argument ''edit_file'' input p"
  "argument_of input old_path_keys p \<Longrightarrow> target_argument ''rename_file'' input p"
  "argument_of input new_path_keys p \<Longrightarrow> target_argument ''rename_file'' input p"
  by (simp_all add: target_argument_def)

definition call_other :: "'d tool_env \<Rightarrow> tool_operator \<Rightarrow> string \<Rightarrow> json \<Rightarrow> ('d, string) tool_call" where
  "call_other V oper name input =
     (if name = ''list_files'' \<or> name = ''list_directory'' then
        query (list_files (tv_disk V) oper (first_tool_string input list_path_keys)
                (case first_tool_usize input list_limit_keys of Some n \<Rightarrow> n | None \<Rightarrow> 100))
      else if name \<in> set query_tool_names then query (tv_query V name input)
      else
        (case call_git_tool V oper name input of
           Some call \<Rightarrow> call
         | None \<Rightarrow>
             query (\<lambda>_. Inl (if name = ''run_command''
                            then ''run_command must call through the async runtime command runner''
                            else ''Unknown tool: '' @ name))))"

lemma routing_files:
  "call_tool_routing V oper ''read_file'' input w = call_read_file V oper input w"
  "call_tool_routing V oper ''write_file'' input w = Some (call_write_file V oper input w)"
  "call_tool_routing V oper ''apply_patch'' input w = Some (call_apply_patch V oper input w)"
  "call_tool_routing V oper ''edit_file'' input w = Some (call_edit_file V oper input w)"
  "call_tool_routing V oper ''rename_file'' input w = Some (call_rename_file V oper input w)"
  by (simp_all add: call_tool_routing_def)

lemma routing_other:
  "name \<noteq> ''read_file'' \<Longrightarrow> name \<noteq> ''write_file'' \<Longrightarrow> name \<noteq> ''apply_patch'' \<Longrightarrow> name \<noteq> ''edit_file'' \<Longrightarrow>
   name \<noteq> ''rename_file'' \<Longrightarrow>
   call_tool_routing V oper name input w = Some (call_other V oper name input w)"
  by (simp add: call_tool_routing_def call_other_def query_def split: option.split)

lemma git_tools_named: "call_git_tool V oper name input = Some call \<Longrightarrow> starts_with name ''git_''"
  by (auto simp: call_git_tool_def starts_with_def split: if_splits)

lemma confined_other:
  assumes "\<not> starts_with name ''git_''"
  shows "confined_at V oper P (call_other V oper name input) w"
  using git_tools_named [of V oper name input] assms
  by (cases "call_git_tool V oper name input") (simp_all add: call_other_def confined_query)

lemma git_tool_runs_git:
  assumes "call_tool_routing V oper name input w = Some (r, w')" and "starts_with name ''git_''"
  shows "git_run V (git_arguments (tv_disk V) (tw_disk w) oper name input) (tw_disk w) (tw_disk w')"
proof -
  obtain rest where name: "name = ''git_'' @ rest"
    using assms(2) by (auto simp: starts_with_def elim: prefixE)
  have apart: "name \<noteq> ''read_file''" "name \<noteq> ''write_file''" "name \<noteq> ''apply_patch''" "name \<noteq> ''edit_file''"
      "name \<noteq> ''rename_file''" "name \<noteq> ''list_files''" "name \<noteq> ''list_directory''" "name \<notin> set query_tool_names"
    by (simp_all add: name query_tool_names_def)
  show ?thesis
  proof (cases "call_git_tool V oper name input")
    case None
    with assms(1) apart have "tw_disk w' = tw_disk w" by (simp add: call_tool_routing_def split: if_splits)
    then show ?thesis by (simp add: git_run_def)
  next
    case (Some call)
    with assms(1) apart have "call w = (r, w')" by (simp add: call_tool_routing_def)
    with git_runs_of_call [OF Some, of w] show ?thesis by (simp add: runs_git_def)
  qed
qed

lemma call_confined:
  assumes call: "call_tool_routing V oper name input w = Some (r, w')"
    and no_git: "\<not> starts_with name ''git_''"
    and P: "\<And>p. target_argument name input p \<Longrightarrow> P p"
  shows "disk_run V oper P (tw_disk w) (tw_disk w')"
proof -
  have confined: "disk_run V oper P (tw_disk w) (tw_disk w')"
    if "confined_at V oper P c w" "Some (c w) = Some (r, w')" for c :: "('a, string) tool_call"
    using that by (auto simp: confined_at_def)
  consider (read) "name = ''read_file''" | (write_it) "name = ''write_file''" | (patch) "name = ''apply_patch''"
    | (edit) "name = ''edit_file''" | (rename) "name = ''rename_file''"
    | (other) "name \<noteq> ''read_file''" "name \<noteq> ''write_file''" "name \<noteq> ''apply_patch''" "name \<noteq> ''edit_file''"
        "name \<noteq> ''rename_file''"
    by blast
  then show ?thesis
  proof cases
    case read
    have "tw_disk w' = tw_disk w"
      using call unfolding read routing_files by (rule confined_read_file)
    then show ?thesis by (simp add: disk_run.Start)
  next
    case write_it
    have "confined_at V oper P (call_write_file V oper input) w"
      by (intro confined_write_file P) (simp add: write_it target_arguments)
    then show ?thesis using call unfolding write_it routing_files by (rule confined)
  next
    case patch
    have "confined_at V oper P (call_apply_patch V oper input) w"
      by (intro confined_apply_patch P) (simp add: patch target_arguments)
    then show ?thesis using call unfolding patch routing_files by (rule confined)
  next
    case edit
    have "confined_at V oper P (call_edit_file V oper input) w"
      by (intro confined_edit_file P) (simp add: edit target_arguments)
    then show ?thesis using call unfolding edit routing_files by (rule confined)
  next
    case rename
    have "confined_at V oper P (call_rename_file V oper input) w"
      by (intro confined_rename_file P) (simp_all add: rename target_arguments)
    then show ?thesis using call unfolding rename routing_files by (rule confined)
  next
    case other
    show ?thesis using confined_other [OF no_git] call unfolding routing_other [OF other] by (rule confined)
  qed
qed

text \<open>
  C3 [resolve_path_confines]. A path the guard accepts is the normalised working directory followed by plain names,
  so it has no parent or root component left; for an absolute working directory without dots that is the directory
  itself. The nearest existing ancestor of the path, followed through every symbolic link, lies in the real working
  directory, and nothing on the way from that ancestor to the path exists. Existing is what \<open>Path::exists\<close> says: it
  follows links, so of a link whose target is missing only the directory that holds the link is judged
  (\<open>dangling_link_accepted\<close>).
\<close>

theorem resolve_path_confines:
  assumes "resolve_path D d oper s = Inr q"
  shows "(\<exists>segs. q = normalize_path oper (op_working_dir oper) @ map Normal segs)
    \<and> (clean_dir (op_working_dir oper) \<longrightarrow> normalize_path oper (op_working_dir oper) = op_working_dir oper)
    \<and> (\<exists>g c. prefix g q \<and> dk_exists D d g \<and> dk_canonicalize D d g = Some c
          \<and> prefix (op_canonical_working_dir oper) c
          \<and> (\<forall>r. prefix g r \<and> prefix r q \<and> dk_exists D d r \<longrightarrow> r = g))"
proof -
  from resolve_path_inside [OF assms] obtain g c
    where "nearest_existing_ancestor (dk_exists D d) q = Some g" "dk_canonicalize D d g = Some c"
      "prefix (op_canonical_working_dir oper) c"
    unfolding inside_iff by blast
  with nearest_existing_ancestor_spec [of "dk_exists D d" q g] resolve_path_plain [OF assms] normalize_clean_dir [of oper]
  show ?thesis by blast
qed

lemma read_only_tools:
  "\<forall>name \<in> set read_only_tool_names. starts_with name ''git_'' \<or> name = ''read_file''
     \<or> name = ''list_files'' \<or> name = ''list_directory'' \<or> name \<in> set query_tool_names"
  by code_simp

lemma query_tools_apart:
  "\<forall>name \<in> insert ''list_files'' (insert ''list_directory'' (set query_tool_names)). name \<noteq> ''read_file''
     \<and> name \<noteq> ''write_file'' \<and> name \<noteq> ''apply_patch'' \<and> name \<noteq> ''edit_file'' \<and> name \<noteq> ''rename_file''"
  by code_simp

text \<open>
  C2 [tool_calls_confined]. Whatever call the router of the operator runs, with whatever arguments (\<open>run_command\<close>,
  \<open>codebase_search\<close> and the tools of other servers run elsewhere): a tool that is not a git tool changes the disk only by writing or renaming paths that the guard accepted for an argument of this very call, by creating the
  directories above such a path, and by writing and moving the temporary sibling of a patched file. A git tool changes it
  only by one run of git, whose arguments have the fixed form of the tool, a path among them being one the guard accepted;
  the revision of \<open>git_show\<close> and what git itself writes are not restricted by the operator. A tool that is classified as
  read-only and is not git leaves the disk as it was.
\<close>

theorem tool_calls_confined:
  assumes "call_tool_routing V oper name input w = Some (r, w')"
  shows "(if starts_with name ''git_''
      then git_run V (git_arguments (tv_disk V) (tw_disk w) oper name input) (tw_disk w) (tw_disk w')
      else disk_run V oper (target_argument name input) (tw_disk w) (tw_disk w'))
    \<and> (is_read_only_tool_name name \<and> \<not> starts_with name ''git_'' \<longrightarrow> tw_disk w' = tw_disk w)"
proof
  show "if starts_with name ''git_''
      then git_run V (git_arguments (tv_disk V) (tw_disk w) oper name input) (tw_disk w) (tw_disk w')
      else disk_run V oper (target_argument name input) (tw_disk w) (tw_disk w')"
    using git_tool_runs_git [OF assms] call_confined [OF assms, of "target_argument name input"] by auto
  show "is_read_only_tool_name name \<and> \<not> starts_with name ''git_'' \<longrightarrow> tw_disk w' = tw_disk w"
  proof
    assume "is_read_only_tool_name name \<and> \<not> starts_with name ''git_''"
    then consider (read) "name = ''read_file''"
      | (list_or_query) "name = ''list_files'' \<or> name = ''list_directory'' \<or> name \<in> set query_tool_names"
      using read_only_tools unfolding is_read_only_tool_name_def by blast
    then show "tw_disk w' = tw_disk w"
    proof cases
      case read
      show ?thesis using assms unfolding read routing_files by (rule confined_read_file)
    next
      case list_or_query
      then have "call_tool_routing V oper name input w = Some (call_other V oper name input w)"
        using query_tools_apart by (intro routing_other) blast+
      moreover have "tw_disk (snd (call_other V oper name input w)) = tw_disk w"
        using list_or_query unfolding call_other_def query_def by (elim disjE) simp_all
      ultimately show ?thesis using assms by (metis option.inject snd_conv)
    qed
  qed
qed

lemma find_map_append: "find_map f xs = Some v \<Longrightarrow> find_map f (xs @ ys) = Some v"
  by (induction xs) (auto split: option.splits)

lemma path_keys_read: "path_keys = read_path_keys @ [''filename'']"
  by (simp add: path_keys_def read_path_keys_def)

lemma is_test_target_trim: "is_test_target_path (trim v) = is_test_target_path v"
  by (simp add: is_test_target_path_def trim_idem)

lemma target_paths_of:
  "mutating_tool_target_paths ''write_file'' input = List.map_filter (\<lambda>x. x) [first_tool_string input path_keys]"
  "mutating_tool_target_paths ''edit_file'' input = List.map_filter (\<lambda>x. x) [first_tool_string input path_keys]"
  "mutating_tool_target_paths ''apply_patch'' input
    = List.map_filter (\<lambda>x. x)
        [first_tool_string input path_keys,
         Option.bind (first_tool_string input [''content'', ''patch'', ''diff'']) extract_apply_patch_target_path]"
  "mutating_tool_target_paths ''rename_file'' input
    = List.map_filter (\<lambda>x. x) [first_tool_string input old_path_keys, first_tool_string input new_path_keys]"
  by (simp_all add: mutating_tool_target_paths_def)

lemma listed_path:
  assumes "first_tool_string input path_keys = Some v"
  shows "v \<in> set (mutating_tool_target_paths ''write_file'' input)"
    and "v \<in> set (mutating_tool_target_paths ''edit_file'' input)"
    and "v \<in> set (mutating_tool_target_paths ''apply_patch'' input)"
  unfolding target_paths_of assms by (simp_all add: map_filter_simps)

lemma listed_rename:
  "first_tool_string input old_path_keys = Some v \<Longrightarrow> v \<in> set (mutating_tool_target_paths ''rename_file'' input)"
  "first_tool_string input new_path_keys = Some v \<Longrightarrow> v \<in> set (mutating_tool_target_paths ''rename_file'' input)"
  unfolding target_paths_of by (simp_all add: map_filter_simps split: option.split)

lemma argument_ofD: "argument_of input keys p \<Longrightarrow> \<exists>v. first_tool_string input keys = Some v \<and> p = trim v"
  by (auto simp: argument_of_def)

lemma longer_keys:
  "first_tool_string input read_path_keys = Some v \<Longrightarrow> first_tool_string input path_keys = Some v"
  unfolding path_keys_read first_tool_string_def by (rule find_map_append)

lemma target_argument_listed:
  assumes "target_argument name input p"
  shows "\<exists>v \<in> set (mutating_tool_target_paths name input). p = trim v"
proof -
  from assms consider (path) "name \<in> {''write_file'', ''apply_patch''}" "argument_of input read_path_keys p"
    | (edit) "name = ''edit_file''" "argument_of input path_keys p"
    | (rename) "name = ''rename_file''" "argument_of input old_path_keys p \<or> argument_of input new_path_keys p"
    unfolding target_argument_def by metis
  then show ?thesis
  proof cases
    case path
    obtain v where v: "first_tool_string input path_keys = Some v" "p = trim v"
      using argument_ofD [OF path(2)] longer_keys by metis
    from path(1) have "v \<in> set (mutating_tool_target_paths name input)"
      using listed_path(1,3) [OF v(1)] by (elim insertE emptyE) (simp_all only:)
    with v(2) show ?thesis by (intro bexI)
  next
    case edit
    obtain v where v: "first_tool_string input path_keys = Some v" "p = trim v"
      using argument_ofD [OF edit(2)] by metis
    show ?thesis unfolding edit(1) using listed_path(2) [OF v(1)] v(2) by (intro bexI)
  next
    case rename
    obtain v where v: "first_tool_string input old_path_keys = Some v \<or> first_tool_string input new_path_keys = Some v"
      "p = trim v"
      using argument_ofD rename(2) by metis
    show ?thesis unfolding rename(1) using v(1) listed_rename v(2) by metis
  qed
qed

lemma tests_only_targets:
  assumes "tests_only_mutation_conflict_prompt TestsOnlyMutations name input = None"
    and "target_argument name input p"
  shows "is_test_target_path p"
proof -
  have "\<forall>v \<in> set (mutating_tool_target_paths name input). is_test_target_path v"
    using assms(1) by (auto simp: tests_only_mutation_conflict_prompt_def Let_def list_all_iff split: if_splits)
  with target_argument_listed [OF assms(2)] show ?thesis by (auto simp: is_test_target_trim)
qed

text \<open>
  C28 [tests_only_confines]. In a turn that may only change tests, a call of a file tool that passes the guard and
  reaches the router of the operator acts on no path but those whose name is that of a test: it changes the disk only by
  system calls on such
  paths, on the directories above them and on the temporary sibling of one, since the guard reads the same arguments the
  tool acts on. The guard judges names, so a link among the tests is followed; and it lets the git tools pass, which
  do at most their one run of git, and \<open>run_command\<close>, which the router does not run.
\<close>

theorem tests_only_confines:
  assumes "tests_only_mutation_conflict_prompt TestsOnlyMutations name input = None"
    and "call_tool_routing V oper name input w = Some (r, w')"
  shows "if starts_with name ''git_''
    then git_run V (git_arguments (tv_disk V) (tw_disk w) oper name input) (tw_disk w) (tw_disk w')
    else disk_run V oper is_test_target_path (tw_disk w) (tw_disk w')"
  using call_confined [OF assms(2) _ tests_only_targets [OF assms(1)]] git_tool_runs_git [OF assms(2)] by auto

section \<open>Examples\<close>

definition demo_tests :: files where
  "demo_tests = [(demo_root @ [Normal ''tests'', Normal ''a''], ''xyx'')]"

definition demo_edit_input :: json where
  "demo_edit_input =
     JObject [(''path'', JString ''tests/a''), (''old_str'', JString ''y''), (''new_str'', JString ''z'')]"

lemma demo_edit_call:
  "call_tool_routing (demo_tools (\<lambda>p. p)) demo_operator ''edit_file'' demo_edit_input (demo_world demo_tests)
     = Some (Inr ''Updated snippet in tests/a (1 chars/1 lines -> 1 chars/1 lines).'',
             demo_world [(demo_root @ [Normal ''tests'', Normal ''a''], ''xzx'')])"
  by code_simp

lemma demo_edit_allowed: "tests_only_mutation_conflict_prompt TestsOnlyMutations ''edit_file'' demo_edit_input = None"
  by code_simp

theorem tool_calls_confined_witness:
  "disk_run (demo_tools (\<lambda>p. p)) demo_operator (target_argument ''edit_file'' demo_edit_input) demo_tests
     [(demo_root @ [Normal ''tests'', Normal ''a''], ''xzx'')]"
  using tool_calls_confined [OF demo_edit_call] by (simp add: demo_world_def starts_with_def)

theorem tests_only_confines_witness:
  "disk_run (demo_tools (\<lambda>p. p)) demo_operator is_test_target_path demo_tests
     [(demo_root @ [Normal ''tests'', Normal ''a''], ''xzx'')]"
  using tests_only_confines [OF demo_edit_allowed demo_edit_call] by (simp add: demo_world_def starts_with_def)

lemma demo_resolve:
  "resolve_path (demo_disk (\<lambda>p. p)) demo_tests demo_operator '' ./tests//b '' = Inr (demo_root @ [Normal ''tests'', Normal ''b''])"
  by code_simp

theorem resolve_path_confines_witness:
  "\<exists>g c. prefix g (demo_root @ [Normal ''tests'', Normal ''b''])
     \<and> dk_canonicalize (demo_disk (\<lambda>p. p)) demo_tests g = Some c
     \<and> prefix (op_canonical_working_dir demo_operator) c"
  using resolve_path_confines [OF demo_resolve] by blast

text \<open>A link whose target is missing does not exist for the guard: the path is accepted, and writing it creates
  the target outside the working directory.\<close>

definition demo_dangling :: "path \<Rightarrow> path" where
  "demo_dangling p = (if p = demo_root @ [Normal ''b''] then [RootDir, Normal ''out''] else p)"

lemma dangling_link_accepted:
  "resolve_path (demo_disk demo_dangling) demo_tests demo_operator ''b'' = Inr (demo_root @ [Normal ''b''])
   \<and> map_option (\<lambda>(r, w'). map_of (tw_disk w') [RootDir, Normal ''out''])
       (call_tool_routing (demo_tools demo_dangling) demo_operator ''write_file''
          (JObject [(''path'', JString ''b''), (''content'', JString ''new'')]) (demo_world demo_tests))
     = Some (Some ''new'')"
  by code_simp

text \<open>The temporary sibling is not guarded: where it is a symbolic link, applying an accepted patch
  overwrites the file it points to, outside the working directory.\<close>

definition demo_link :: "path \<Rightarrow> path" where
  "demo_link p = (if p = demo_root @ [Normal ''a.tmp''] then [RootDir, Normal ''out''] else p)"

definition demo_outside :: files where
  "demo_outside = [([RootDir, Normal ''out''], ''kept''), (demo_root @ [Normal ''a.md''], ''old'')]"

definition demo_patch_input :: json where
  "demo_patch_input = JObject [(''path'', JString ''a.md''), (''content'', JString ''new'')]"

lemma patch_follows_temp_link:
  "resolve_path (demo_disk demo_link) demo_outside demo_operator ''a.tmp''
     = Inl (escape_error (demo_root @ [Normal ''a.tmp'']))
   \<and> map_option (\<lambda>(r, w'). (r, map_of (tw_disk w') [RootDir, Normal ''out'']))
       (call_tool_routing (demo_tools demo_link) demo_operator ''apply_patch'' demo_patch_input (demo_world demo_outside))
     = Some (Inr ''Applied patch to a.md (3 chars, 1 lines).'', Some ''new'')"
  by code_simp

end
