(* ===== verification/Tool_Edits.thy ===== *)
theory Tool_Edits
  imports Demo_Disk
begin

text \<open>
  What \<open>edit_file\<close> does to the content: it replaces one occurrence of the snippet, which is the only one
  in the file or the only one near the lines read last, and nothing else. The ledger that decides it
  keeps at most one entry for a file and at most sixty-four in all.
\<close>

section \<open>The ledger\<close>

definition ledger_ok :: "located_read list \<Rightarrow> bool" where
  "ledger_ok entries \<longleftrightarrow>
     length entries \<le> MAX_PULSE_LEDGER_ENTRIES \<and> distinct (map lr_path entries)"

abbreviation pushed :: "path \<Rightarrow> nat \<Rightarrow> nat \<Rightarrow> file_fingerprint \<Rightarrow> located_read list \<Rightarrow> located_read list" where
  "pushed p a b fp entries \<equiv> filter (\<lambda>e. lr_path e \<noteq> p) entries
     @ [\<lparr>lr_path = p, lr_start_line = a, lr_end_line = b, lr_fingerprint = fp\<rparr>]"

lemma rev_last_entries: "rev (drop (length xs - m) xs) = take m (rev xs)"
  by (cases "m \<le> length xs") (auto simp: rev_drop)

lemma ledger_ok_record:
  assumes "ledger_ok entries"
  shows "ledger_ok (record_pulse_read p a b fp entries)"
proof -
  have "distinct (map lr_path (pushed p a b fp entries))"
    using assms by (auto simp: ledger_ok_def distinct_map_filter)
  then have "distinct (map lr_path (drop k (pushed p a b fp entries)))" for k
    by (simp only: drop_map [symmetric] distinct_drop)
  then show ?thesis by (simp add: ledger_ok_def record_pulse_read_def Let_def del: drop_append)
qed

lemma find_pulse_read_recorded:
  assumes "dk_fingerprint D d p = Some fp"
  shows "find_pulse_read D d (record_pulse_read p a b fp entries) p
    = Some \<lparr>lr_path = p, lr_start_line = a, lr_end_line = b, lr_fingerprint = fp\<rparr>"
proof -
  have "rev (record_pulse_read p a b fp entries)
    = take MAX_PULSE_LEDGER_ENTRIES (rev (pushed p a b fp entries))"
    unfolding record_pulse_read_def Let_def by (rule rev_last_entries)
  then show ?thesis by (simp add: find_pulse_read_def assms MAX_PULSE_LEDGER_ENTRIES_def)
qed

section \<open>Matches\<close>

lemma match_indices_from_spec:
  "j \<in> set (match_indices_from i k pat s) \<Longrightarrow> i + k \<le> j \<and> prefix pat (drop (j - i) s)"
proof (induction i k pat s rule: match_indices_from.induct)
  case (2 i k pat c cs)
  then have "Suc i + k \<le> j \<and> prefix pat (drop (j - Suc i) cs)" by simp
  moreover from this have "j - i = Suc (j - Suc i)" by linarith
  ultimately show ?case by simp
next
  case (3 i pat c cs)
  show ?case
  proof (cases "j = i")
    case True
    with 3 show ?thesis by (fastforce split: if_splits)
  next
    case False
    with 3 have "Suc i \<le> j \<and> prefix pat (drop (j - Suc i) cs)" by (fastforce split: if_splits)
    moreover from this have "j - i = Suc (j - Suc i)" by linarith
    ultimately show ?thesis by simp
  qed
qed simp

lemma match_indices_from_complete:
  "pat \<noteq> [] \<Longrightarrow> prefix pat (drop j s) \<Longrightarrow> k \<le> j \<Longrightarrow>
   \<exists>m \<in> set (match_indices_from i k pat s). m \<le> i + j \<and> i + j < m + length pat"
proof (induction i k pat s arbitrary: j rule: match_indices_from.induct)
  case (2 i k pat c cs)
  then obtain j' where "j = Suc j'" by (cases j) auto
  with 2 show ?case by fastforce
next
  case (3 i pat c cs)
  show ?case
  proof (cases "prefix pat (c # cs)")
    case hit: True
    show ?thesis
    proof (cases "j < length pat")
      case True
      with hit show ?thesis by auto
    next
      case False
      with "3.prems" obtain j' where j': "j = Suc j'" "length pat - 1 \<le> j'" by (cases j) auto
      with "3.IH"(1) [OF hit, of j'] "3.prems" hit show ?thesis by auto
    qed
  next
    case miss: False
    with "3.prems" obtain j' where "j = Suc j'" by (cases j) auto
    with "3.IH"(2) [OF miss, of j'] "3.prems" miss show ?thesis by auto
  qed
qed simp

lemma match_indices_from_sorted: "sorted (match_indices_from i k pat s)"
  by (induction i k pat s rule: match_indices_from.induct)
    (auto dest: match_indices_from_spec)

lemma match_indices_spec: "i \<in> set (match_indices pat s) \<Longrightarrow> prefix pat (drop i s)"
  using match_indices_from_spec [of i 0 0 pat s] by (simp add: match_indices_def)

lemma match_indices_complete:
  "pat \<noteq> [] \<Longrightarrow> prefix pat (drop j s) \<Longrightarrow>
   \<exists>m \<in> set (match_indices pat s). m \<le> j \<and> j < m + length pat"
  using match_indices_from_complete [of pat j s 0 0] by (simp add: match_indices_def)

section \<open>The anchor\<close>

definition line_of :: "string \<Rightarrow> nat \<Rightarrow> nat" where
  "line_of content i = 1 + length (filter ((=) newline) (take i content))"

lemma line_of_step:
  "i \<le> j \<Longrightarrow> line_of content i + length (filter ((=) newline) (take (j - i) (drop i content)))
     = line_of content j"
  by (metis (no_types, lifting) add.assoc filter_append le_add_diff_inverse length_append line_of_def take_add)

definition in_window :: "nat \<Rightarrow> nat \<Rightarrow> string \<Rightarrow> nat \<Rightarrow> bool" where
  "in_window a b content i \<longleftrightarrow> a \<le> line_of content i \<and> line_of content i \<le> b"

lemma anchored_candidate_spec:
  "sorted offsets \<Longrightarrow> \<forall>i \<in> set offsets. scanned \<le> i \<Longrightarrow>
   anchored_candidate a b content scanned (line_of content scanned) found offsets =
     (case found of
        None \<Rightarrow> (case filter (in_window a b content) offsets of [i] \<Rightarrow> Some i | _ \<Rightarrow> None)
      | Some i \<Rightarrow> if filter (in_window a b content) offsets = [] then Some i else None)"
proof (induction offsets arbitrary: scanned found)
  case (Cons i offsets)
  then have step: "line_of content scanned
      + length (filter ((=) newline) (take (i - scanned) (drop scanned content))) = line_of content i"
    by (intro line_of_step) auto
  have IH: "anchored_candidate a b content i (line_of content i) f offsets =
     (case f of
        None \<Rightarrow> (case filter (in_window a b content) offsets of [i] \<Rightarrow> Some i | _ \<Rightarrow> None)
      | Some i \<Rightarrow> if filter (in_window a b content) offsets = [] then Some i else None)" for f
    using Cons.prems by (intro Cons.IH) auto
  have "anchored_candidate a b content scanned (line_of content scanned) found (i # offsets)
    = (if in_window a b content i
       then (case found of Some _ \<Rightarrow> None
             | None \<Rightarrow> anchored_candidate a b content i (line_of content i) (Some i) offsets)
       else anchored_candidate a b content i (line_of content i) found offsets)"
    by (simp add: step in_window_def Let_def)
  then show ?case by (auto simp: IH split: option.splits list.splits)
qed (simp split: option.split)

lemma line_of_0 [simp]: "line_of content 0 = 1"
  by (simp add: line_of_def)

lemma anchored_unique_replacement_spec:
  assumes "anchored_unique_replacement anchor content old_str new_str = Some content'"
  shows "\<exists>a i. anchor = Some a \<and> content' = replace_at i old_str new_str content
    \<and> filter (in_window (lr_start_line a - EDIT_ANCHOR_LINE_PAD)
        (sat_add (lr_end_line a) EDIT_ANCHOR_LINE_PAD) content) (match_indices old_str content) = [i]"
proof -
  have "anchored_candidate a b content 0 1 None (match_indices old_str content)
      = (case filter (in_window a b content) (match_indices old_str content) of
           [i] \<Rightarrow> Some i | _ \<Rightarrow> None)" for a b
    using anchored_candidate_spec [of "match_indices old_str content" 0 a b content None]
    by (simp add: match_indices_def match_indices_from_sorted)
  with assms show ?thesis
    by (auto simp: anchored_unique_replacement_def split: option.splits list.splits)
qed

section \<open>The edit\<close>

text \<open>The occurrence at \<open>i\<close> is the only one: any other position where the snippet matches overlaps it.\<close>

definition sole_occurrence :: "string \<Rightarrow> string \<Rightarrow> nat \<Rightarrow> bool" where
  "sole_occurrence pat content i \<longleftrightarrow>
     (\<forall>j. prefix pat (drop j content) \<longrightarrow> i \<le> j \<and> j < i + length pat)"

definition sole_near_anchor :: "located_read option \<Rightarrow> string \<Rightarrow> string \<Rightarrow> nat \<Rightarrow> bool" where
  "sole_near_anchor anchor pat content i \<longleftrightarrow>
     (\<exists>a. anchor = Some a \<and>
        {j \<in> set (match_indices pat content).
           lr_start_line a - EDIT_ANCHOR_LINE_PAD \<le> line_of content j
           \<and> line_of content j \<le> sat_add (lr_end_line a) EDIT_ANCHOR_LINE_PAD} = {i})"

lemma trim_empty_conv: "trim '''' = ''''"
  by (simp add: trim_def trim_start_def trim_end_def)

lemma edit_content_spec:
  assumes "edit_content anchor content old_str new_str = Inr content'"
  shows "\<exists>i. prefix old_str (drop i content) \<and> content' = replace_at i old_str new_str content
    \<and> (sole_occurrence old_str content i \<or> sole_near_anchor anchor old_str content i)"
proof -
  have old: "old_str \<noteq> []" using assms by (auto simp: edit_content_def trim_empty_conv)
  consider (one) i where "match_indices old_str content = [i]" "content' = replace_first old_str new_str content"
    | (near) "anchored_unique_replacement anchor content old_str new_str = Some content'"
    using assms by (auto simp: edit_content_def Let_def length_Suc_conv split: if_splits option.splits)
  then show ?thesis
  proof cases
    case one
    then have "sole_occurrence old_str content i"
      using match_indices_complete [OF old] by (fastforce simp: sole_occurrence_def)
    with one match_indices_spec [of i old_str content] show ?thesis
      by (auto simp: replace_first_def)
  next
    case near
    then obtain a i where ai: "anchor = Some a" "content' = replace_at i old_str new_str content"
      "filter (in_window (lr_start_line a - EDIT_ANCHOR_LINE_PAD)
        (sat_add (lr_end_line a) EDIT_ANCHOR_LINE_PAD) content) (match_indices old_str content) = [i]"
      using anchored_unique_replacement_spec by blast
    then have window: "{j \<in> set (match_indices old_str content).
        in_window (lr_start_line a - EDIT_ANCHOR_LINE_PAD)
          (sat_add (lr_end_line a) EDIT_ANCHOR_LINE_PAD) content j} = {i}"
      by (metis empty_set list.simps(15) set_filter)
    then have "sole_near_anchor anchor old_str content i"
      using ai(1) by (simp add: sole_near_anchor_def in_window_def)
    moreover have "prefix old_str (drop i content)" using window match_indices_spec by auto
    ultimately show ?thesis using ai(2) by blast
  qed
qed

text \<open>
  C19 [edit_replaces_one]. A successful \<open>edit_file\<close> writes one file, and the content written is the content
  read with one occurrence of the old snippet replaced: the sole occurrence in the file, or the sole one within
  three lines of the range this turn read of the unchanged file. No other byte changes.
\<close>

theorem edit_replaces_one:
  assumes "edit_file D oper p old_str new_str w = (Inr (), w')"
  shows "\<exists>q content before after.
    resolve_path D (tw_disk w) oper p = Inr q
    \<and> dk_read_to_string D (tw_disk w) q = Inr content
    \<and> content = before @ old_str @ after
    \<and> dk_write D q (before @ new_str @ after) (tw_disk w) = (Inr (), tw_disk w')
    \<and> tw_ledger w' = tw_ledger w
    \<and> (sole_occurrence old_str content (length before)
       \<or> sole_near_anchor (find_pulse_read D (tw_disk w) (tw_ledger w) q) old_str content (length before))"
proof -
  obtain q content content' where q: "resolve_path D (tw_disk w) oper p = Inr q"
    "dk_read_to_string D (tw_disk w) q = Inr content"
    "edit_content (find_pulse_read D (tw_disk w) (tw_ledger w) q) content old_str new_str = Inr content'"
    "dk_write D q content' (tw_disk w) = (Inr (), tw_disk w')" "tw_ledger w' = tw_ledger w"
    using assms by (auto simp: edit_file_def Let_def split: sum.splits if_splits prod.splits)
  obtain i where i: "prefix old_str (drop i content)" "content' = replace_at i old_str new_str content"
    "sole_occurrence old_str content i
     \<or> sole_near_anchor (find_pulse_read D (tw_disk w) (tw_ledger w) q) old_str content i"
    using edit_content_spec [OF q(3)] by blast
  obtain after where after: "drop i content = old_str @ after" using i(1) by (auto simp: prefix_def)
  have old: "old_str \<noteq> []" using q(3) by (auto simp: edit_content_def trim_empty_conv)
  have len: "length (take i content) = i"
    using after old by (cases "i \<le> length content") auto
  have "drop (i + length old_str) content = after"
    using after by (metis add.commute append_eq_conv_conj drop_drop)
  then have "content' = take i content @ new_str @ after" by (simp add: i(2) replace_at_def)
  moreover have "content = take i content @ old_str @ after" using after by (metis append_take_drop_id)
  ultimately show ?thesis using q i(3) len by metis
qed

definition demo_file :: files where
  "demo_file = [(demo_root @ [Normal ''a''], ''xyx'')]"

lemma demo_edit:
  "edit_file (demo_disk (\<lambda>p. p)) demo_operator ''a'' ''y'' ''z'' (demo_world demo_file)
     = (Inr (), demo_world [(demo_root @ [Normal ''a''], ''xzx'')])"
  by code_simp

theorem edit_replaces_one_witness:
  "\<exists>q content before after.
    resolve_path (demo_disk (\<lambda>p. p)) demo_file demo_operator ''a'' = Inr q
    \<and> dk_read_to_string (demo_disk (\<lambda>p. p)) demo_file q = Inr content
    \<and> content = before @ ''y'' @ after
    \<and> dk_write (demo_disk (\<lambda>p. p)) q (before @ ''z'' @ after) demo_file
        = (Inr (), [(demo_root @ [Normal ''a''], ''xzx'')])"
  using edit_replaces_one [OF demo_edit] by (auto simp: demo_world_def)

end
