(* ===== verification/Tool_Preview.thy ===== *)
theory Tool_Preview
  imports Tool_Routing History "HOL-Library.AList"
begin

text \<open>
  What the model and the user get to see of a tool call (\<open>src/tool_preview.rs\<close>, \<open>src/edit_diff.rs\<close>) and of
  its result (the formatting of \<open>src/state/conversation/history.rs\<close>). The line difference itself is
  computed by the library \<open>similar\<close>: its groups of operations are the parameter \<open>pv_groups\<close>. The JSON
  printers and the hash of a file's content are parameters too.
\<close>

section \<open>Line differences\<close>

datatype change_tag = Equal_change | Delete_change | Insert_change

record diff_change =
  dc_tag :: change_tag
  dc_old_index :: "nat option"
  dc_new_index :: "nat option"
  dc_value :: string

record diff_op =
  do_old_start :: nat
  do_old_end :: nat
  do_new_start :: nat
  do_new_end :: nat
  do_changes :: "diff_change list"

record preview_env =
  pv_groups :: "string \<Rightarrow> string \<Rightarrow> nat \<Rightarrow> diff_op list list"
  pv_pretty :: "json \<Rightarrow> string option"
  pv_display :: "json \<Rightarrow> string"
  pv_hash :: "string \<Rightarrow> nat"

definition nat_or_0 :: "nat option \<Rightarrow> nat" where
  "nat_or_0 n = (case n of Some k \<Rightarrow> k | None \<Rightarrow> 0)"

definition trim_line_end :: "string \<Rightarrow> string" where
  "trim_line_end s = rev (dropWhile (\<lambda>c. c = newline \<or> c = carriage_return) (rev s))"

definition format_change :: "string \<Rightarrow> diff_change \<Rightarrow> string" where
  "format_change indent ch =
     (let raw = trim_line_end (dc_value ch);
          body = (if raw = '''' then ''<empty>'' else raw)
      in case dc_tag ch of
           Equal_change \<Rightarrow> indent @ nat_dec (nat_or_0 (dc_old_index ch) + 1) @ ''   '' @ body @ [newline]
         | Delete_change \<Rightarrow> indent @ nat_dec (nat_or_0 (dc_old_index ch) + 1) @ '' - '' @ body @ [newline]
         | Insert_change \<Rightarrow> indent @ nat_dec (nat_or_0 (dc_new_index ch) + 1) @ '' + '' @ body @ [newline])"

text \<open>The library returns no empty group.\<close>

definition format_group :: "string \<Rightarrow> diff_op list \<Rightarrow> string" where
  "format_group indent ops =
     (if ops = [] then ''''
      else
        indent @ ''@@ -'' @ nat_dec (do_old_start (hd ops) + 1) @ '',''
        @ nat_dec (do_old_end (last ops) - do_old_start (hd ops))
        @ '' +'' @ nat_dec (do_new_start (hd ops) + 1) @ '',''
        @ nat_dec (do_new_end (last ops) - do_new_start (hd ops)) @ '' @@'' @ [newline]
        @ concat (map (\<lambda>d. concat (map (format_change indent) (do_changes d))) ops))"

definition format_edit_hunks :: "preview_env \<Rightarrow> string \<Rightarrow> string \<Rightarrow> string \<Rightarrow> nat \<Rightarrow> string" where
  "format_edit_hunks E old_str new_str indent context_lines =
     (if old_str = '''' \<and> new_str = '''' then indent @ ''1   <empty>'' @ [newline]
      else
        let groups = pv_groups E old_str new_str context_lines
        in if groups = [] then indent @ ''... no modified lines ...'' @ [newline]
           else join_with (indent @ ''...'' @ [newline]) (map (format_group indent) groups))"

section \<open>Reads of the same file\<close>

type_synonym rollup_cache = "(string \<times> nat \<times> nat \<times> nat) list"

datatype rollup_summary =
    FirstRead nat nat
  | Unchanged nat nat
  | Changed nat nat nat nat

definition content_stats :: "string \<Rightarrow> nat \<times> nat" where
  "content_stats content =
     (length (utf8_chars content), max (length (str_lines content)) (if content = '''' then 0 else 1))"

definition summarize :: "(string \<Rightarrow> nat) \<Rightarrow> string \<Rightarrow> string \<Rightarrow> rollup_cache \<Rightarrow> rollup_summary \<times> rollup_cache" where
  "summarize hash p content cache =
     (let (after_chars, after_lines) = content_stats content;
          after_hash = hash content;
          stored = AList.update p (after_hash, after_chars, after_lines) cache
      in case map_of cache p of
           None \<Rightarrow> (FirstRead after_chars after_lines, stored)
         | Some (prev_hash, prev_chars, prev_lines) \<Rightarrow>
             if prev_hash = after_hash then (Unchanged prev_chars prev_lines, cache)
             else (Changed prev_chars prev_lines after_chars after_lines, stored))"

definition read_file_path :: "json \<Rightarrow> string option" where
  "read_file_path input = first_tool_string input [''path'', ''file_path'', ''file'']"

definition counts_text :: "nat \<Rightarrow> nat \<Rightarrow> string" where
  "counts_text chars n_lines = nat_dec chars @ '' chars, '' @ nat_dec n_lines @ '' lines''"

definition changed_text :: "nat \<Rightarrow> nat \<Rightarrow> nat \<Rightarrow> nat \<Rightarrow> string" where
  "changed_text bc bl ac al =
     nat_dec bc @ '' chars/'' @ nat_dec bl @ '' lines -> '' @ nat_dec ac @ '' chars/'' @ nat_dec al @ '' lines''"

fun format_read_file_rollup_history :: "string \<Rightarrow> rollup_summary \<Rightarrow> string" where
  "format_read_file_rollup_history p (FirstRead c l) =
     ''Read '' @ p @ '': '' @ counts_text c l
     @ ''. Full content omitted; use search_files for targeted string matches.''"
| "format_read_file_rollup_history p (Unchanged c l) =
     ''No changes since last read of '' @ p @ '' ('' @ counts_text c l @ '').''"
| "format_read_file_rollup_history p (Changed bc bl ac al) =
     ''Read '' @ p @ '': content changed ('' @ changed_text bc bl ac al
     @ ''). Full content omitted; use search_files for targeted string matches.''"

definition snapshot_text :: "string \<Rightarrow> string \<Rightarrow> string \<Rightarrow> string" where
  "snapshot_text p summary_message body =
     summary_message @ [newline] @ ''Content for model context:'' @ [newline] @ ''--- '' @ p @ '' ---'' @ [newline]
     @ body @ [newline] @ ''--- end '' @ p @ '' ---''"

fun format_read_file_result_for_model_context :: "string \<Rightarrow> string \<Rightarrow> rollup_summary \<Rightarrow> string" where
  "format_read_file_result_for_model_context p body (Unchanged c l) =
     format_read_file_rollup_history p (Unchanged c l)"
| "format_read_file_result_for_model_context p body (FirstRead c l) =
     snapshot_text p (''Read '' @ p @ '': '' @ counts_text c l @ ''. Snapshot included below for model context.'') body"
| "format_read_file_result_for_model_context p body (Changed bc bl ac al) =
     snapshot_text p (''Read '' @ p @ '': content changed ('' @ changed_text bc bl ac al
                      @ ''). Snapshot included below for model context.'') body"

section \<open>Previews of the input\<close>

definition missing_text :: string where
  "missing_text = ''<missing>''"

definition text_or :: "string \<Rightarrow> string option \<Rightarrow> string" where
  "text_or dflt s = (case s of Some t \<Rightarrow> t | None \<Rightarrow> dflt)"

definition marked_line :: "string \<Rightarrow> char option \<Rightarrow> nat \<Rightarrow> string \<Rightarrow> string" where
  "marked_line indent marker n body =
     indent @ nat_dec n @ (case marker of Some m \<Rightarrow> '' '' @ [m] @ '' '' | None \<Rightarrow> ''   '') @ body @ [newline]"

text \<open>\<open>None\<close> for the number of lines is \<open>usize::MAX\<close>.\<close>

definition preview_lines :: "char option \<Rightarrow> string \<Rightarrow> nat option \<Rightarrow> nat \<Rightarrow> string \<Rightarrow> string" where
  "preview_lines marker s max_lines start_line indent =
     (if s = '''' then marked_line indent marker start_line ''<empty>''
      else
        let ls = str_lines s;
            shown = (case max_lines of Some k \<Rightarrow> take k ls | None \<Rightarrow> ls)
        in concat (map (\<lambda>(i, l). marked_line indent marker (start_line + i) l) (enumerate 0 shown))
           @ (if length shown < length ls
              then indent @ ''... ('' @ nat_dec (length ls - length shown) @ '' more lines)'' @ [newline]
              else ''''))"

definition first_input_u64 :: "json \<Rightarrow> string list \<Rightarrow> nat option" where
  "first_input_u64 input keys = find_map (\<lambda>key. Option.bind (json_get input key) as_u64) keys"

definition edit_old_keys :: "string list" where
  "edit_old_keys = [''old_str'', ''old_text'', ''old_string'', ''find'', ''search'']"

definition edit_new_keys :: "string list" where
  "edit_new_keys =
     [''new_str'', ''new_text'', ''new_string'', ''replace'', ''replace_with'', ''replacement'']"

definition preview_edit_file_input :: "preview_env \<Rightarrow> json \<Rightarrow> string \<Rightarrow> string \<Rightarrow> nat \<Rightarrow> string" where
  "preview_edit_file_input E input summary_indent diff_indent diff_context_lines =
     (let old_str = or_blank (first_tool_string input edit_old_keys);
          new_str = or_blank (first_tool_string input edit_new_keys);
          (old_chars, old_lines) = content_stats old_str;
          (new_chars, new_lines) = content_stats new_str
      in ''path: '' @ text_or missing_text (first_tool_string input path_keys) @ [newline]
         @ summary_indent @ ''change: '' @ changed_text old_chars old_lines new_chars new_lines @ [newline]
         @ format_edit_hunks E old_str new_str diff_indent diff_context_lines)"

definition preview_write_file_input :: "json \<Rightarrow> string \<Rightarrow> char option \<Rightarrow> nat option \<Rightarrow> string" where
  "preview_write_file_input input line_indent marker max_lines =
     (let content = or_blank (first_tool_string input [''content'', ''text'']);
          (chars, n_lines) = content_stats content
      in ''path: '' @ text_or missing_text (read_file_path input) @ [newline]
         @ ''content: '' @ counts_text chars n_lines @ [newline]
         @ preview_lines marker content max_lines 1 line_indent)"

datatype tool_preview_style = Compact | Structured

definition pretty_text :: "preview_env \<Rightarrow> json \<Rightarrow> string" where
  "pretty_text E input = text_or (pv_display E input) (pv_pretty E input)"

definition labelled_u64 :: "string \<Rightarrow> nat option \<Rightarrow> string" where
  "labelled_u64 label n = (case n of Some k \<Rightarrow> [newline] @ label @ '': '' @ nat_dec k | None \<Rightarrow> '''')"

text \<open>\<open>preview_tool_input\<close> for the structured style, tool by tool. An empty object never gets here.\<close>

definition preview_structured :: "preview_env \<Rightarrow> string \<Rightarrow> json \<Rightarrow> nat \<Rightarrow> string" where
  "preview_structured E tool_name input diff_context_lines =
     (if tool_name = ''edit_file'' then preview_edit_file_input E input '''' ''    '' diff_context_lines
      else if tool_name = ''write_file'' then preview_write_file_input input ''    '' (Some CHR ''+'') None
      else if tool_name = ''read_file'' then
        ''path: '' @ text_or missing_text (read_file_path input)
        @ labelled_u64 ''offset'' (Option.bind (json_get input ''offset'') as_u64)
        @ labelled_u64 ''limit'' (Option.bind (json_get input ''limit'') as_u64)
      else if tool_name = ''rename_file'' then
        ''old_path: '' @ text_or missing_text (first_tool_string input old_path_keys) @ [newline]
        @ ''new_path: '' @ text_or missing_text (first_tool_string input new_path_keys)
      else if tool_name \<in> {''list_files'', ''list_directory'', ''list_dir''} then
        ''path: '' @ text_or ''.'' (first_tool_string input [''path'', ''dir'', ''directory'', ''root'']) @ [newline]
        @ ''max_entries: ''
        @ nat_dec (case first_input_u64 input [''max_entries'', ''max_results'', ''limit''] of
                     Some n \<Rightarrow> n | None \<Rightarrow> 100)
      else if tool_name = ''glob_files'' then
        ''pattern: '' @ text_or missing_text (first_tool_string input [''pattern'', ''glob'', ''query'']) @ [newline]
        @ ''max_results: ''
        @ nat_dec (case first_input_u64 input [''max_results'', ''limit'', ''max_entries''] of
                     Some n \<Rightarrow> n | None \<Rightarrow> 50)
      else if tool_name \<in> {''search_files'', ''search''} then
        ''query: '' @ text_or missing_text
            (first_tool_string input [''query'', ''pattern'', ''text'', ''search'', ''needle'']) @ [newline]
        @ (case first_tool_string input [''path'', ''dir'', ''directory'', ''root''] of
             Some p \<Rightarrow> ''path: '' @ p @ [newline] | None \<Rightarrow> '''')
        @ ''max_results: ''
        @ nat_dec (case first_input_u64 input [''max_results'', ''limit'', ''max_entries''] of
                     Some n \<Rightarrow> n | None \<Rightarrow> 30)
      else pretty_text E input)"

definition preview_tool_input :: "preview_env \<Rightarrow> string \<Rightarrow> json \<Rightarrow> tool_preview_style \<Rightarrow> nat \<Rightarrow> string" where
  "preview_tool_input E tool_name input style diff_context_lines =
     (if input = JObject [] then ''...''
      else case style of
          Compact \<Rightarrow>
            if tool_name = ''edit_file'' then preview_edit_file_input E input '''' ''  '' diff_context_lines
            else if tool_name = ''write_file'' then preview_write_file_input input ''  '' (Some CHR ''+'') None
            else pretty_text E input
        | Structured \<Rightarrow> preview_structured E tool_name input diff_context_lines)"

definition DEFAULT_EDIT_DIFF_CONTEXT_LINES :: nat where
  "DEFAULT_EDIT_DIFF_CONTEXT_LINES = 2"

definition tool_input_preview :: "preview_env \<Rightarrow> string \<Rightarrow> json \<Rightarrow> string" where
  "tool_input_preview E tool_name input =
     preview_tool_input E tool_name input Compact DEFAULT_EDIT_DIFF_CONTEXT_LINES"

section \<open>Results for the model\<close>

definition truncate_preview_line :: "string \<Rightarrow> nat \<Rightarrow> string" where
  "truncate_preview_line line max_chars =
     (let chars = utf8_chars line
      in if length chars \<le> max_chars then line else concat (take max_chars chars) @ ''...'')"

definition indent_block :: "string \<Rightarrow> string \<Rightarrow> string" where
  "indent_block s indent = join_with [newline] (map ((@) indent) (str_lines s))"

definition preview_tool_output :: "string \<Rightarrow> string" where
  "preview_tool_output s =
     (let ls = str_lines s
      in if ls = [] then ''<empty>''
         else join_with [newline] (map (\<lambda>l. truncate_preview_line l 160) (take 5 ls))
              @ (if 5 < length ls
                 then [newline] @ ''... ('' @ nat_dec (length ls - 5) @ '' more lines)'' else ''''))"

definition enriched_tool_names :: "string list" where
  "enriched_tool_names =
     [''list_files'', ''list_directory'', ''list_dir'', ''glob_files'', ''find_files'', ''search_files'',
      ''search'', ''search_content'', ''codebase_search'', ''git_status'', ''git_diff'', ''git_log'', ''git_show'']"

definition should_enrich_tool_result :: "string \<Rightarrow> string \<Rightarrow> bool" where
  "should_enrich_tool_result name body =
     (if 240 < length (utf8_chars body) \<or> newline \<in> set body then True
      else name \<in> set enriched_tool_names)"

definition request_text :: "preview_env \<Rightarrow> string \<Rightarrow> json \<Rightarrow> string" where
  "request_text E name input =
     (let request = preview_tool_input E name input Structured DEFAULT_EDIT_DIFF_CONTEXT_LINES
      in if trim request = '''' then ''''
         else [newline] @ ''Request:'' @ [newline] @ indent_block request ''  '')"

definition format_generic_tool_result_for_model_context :: "preview_env \<Rightarrow> string \<Rightarrow> json \<Rightarrow> string \<Rightarrow> string" where
  "format_generic_tool_result_for_model_context E name input body =
     (let (chars, n_lines) = text_stats body
      in ''Tool '' @ name @ '' completed.'' @ request_text E name input
         @ [newline] @ ''Result: '' @ counts_text chars n_lines @ ''.''
         @ (if trim body = '''' then ''''
            else [newline] @ ''Output preview:'' @ [newline] @ indent_block (preview_tool_output body) ''  ''))"

definition tool_error_hint :: "string \<Rightarrow> string option" where
  "tool_error_hint name =
     (if name \<in> {''read_file'', ''list_files'', ''list_directory'', ''list_dir'', ''glob_files''} then
        Some ''Locate the workspace-relative target first, then retry with an explicit path or pattern.''
      else if name \<in> {''search_files'', ''search'', ''search_content'', ''codebase_search''} then
        Some (''Retry with a focused query or a concrete path scope so the next search result is easier ''
              @ ''to use.'')
      else if name \<in> {''write_file'', ''apply_patch'', ''edit_file'', ''rename_file''} then
        Some (''Re-read the target path and retry with a streamlined file edit or patch that preserves ''
              @ ''local style; for Rust, keep the diff rustfmt-consistent.'')
      else if name \<in> {''git_status'', ''git_diff'', ''git_log'', ''git_show''} then
        Some ''Retry with a focused git target if the repository state is larger than expected.''
      else None)"

definition preferred_tool_error_message :: "string \<Rightarrow> json \<Rightarrow> string \<Rightarrow> string" where
  "preferred_tool_error_message name input err = text_or err (missing_read_only_location_prompt name input)"

definition format_tool_error_for_model_context :: "preview_env \<Rightarrow> string \<Rightarrow> json \<Rightarrow> string \<Rightarrow> string" where
  "format_tool_error_for_model_context E name input err =
     (let normalized_error = preferred_tool_error_message name input err;
          error_body = (if missing_read_only_location_prompt name input \<noteq> None then normalized_error
                        else preview_tool_output normalized_error)
      in ''Tool '' @ name @ '' failed.'' @ request_text E name input
         @ [newline] @ ''Error:'' @ [newline] @ indent_block error_body ''  ''
         @ (case tool_error_hint name of
              Some hint \<Rightarrow> [newline] @ ''Suggested next step:'' @ [newline] @ ''  '' @ hint
            | None \<Rightarrow> ''''))"

definition format_tool_result_for_history ::
  "preview_env \<Rightarrow> string \<Rightarrow> json \<Rightarrow> string + string \<Rightarrow> rollup_cache \<Rightarrow> string \<times> rollup_cache" where
  "format_tool_result_for_history E name input result cache =
     (case result of
        Inl err \<Rightarrow> (format_tool_error_for_model_context E name input err, cache)
      | Inr body \<Rightarrow>
          if name = ''read_file'' then
            (let p = text_or missing_text (read_file_path input);
                 (summary, cache') = summarize (pv_hash E) p body cache
             in (format_read_file_result_for_model_context p body summary, cache'))
          else if should_enrich_tool_result name body
          then (format_generic_tool_result_for_model_context E name input body, cache)
          else (body, cache))"

end
