(* ===== verification/Conversation.thy ===== *)
theory Conversation
  imports Tool_Preview Working_Set
begin

text \<open>
  The conversation manager (\<open>src/state/conversation/state.rs\<close>, \<open>streaming.rs\<close>): the messages sent to the
  model, the document of the task, the undo stack, and the updates sent to the front end. The world
  outside (the model, the tools, the user who approves, the clock) is a state \<open>cm_world\<close> that only the
  parameters of \<open>turn_env\<close> look into. \<open>cm_events\<close> is the log of what the manager does to the outside, in
  order: the updates it sends, the approvals it asks for with their answers, the tools it runs, and the requests
  to the model.
\<close>

section \<open>State\<close>

datatype stream_update =
    Delta_update string
  | BlockStart_update nat stream_block
  | BlockDelta_update nat string
  | ToolCallArguments_update string "string option" json
  | BlockComplete_update nat
  | ToolApprovalRequest_update string string
  | TranscriptLine_update string
  | ServerMetadata_update stream_chunk_metadata
  | CommandSessionStarted_update nat string
  | CommandSessionAttached_update nat "nat option"
  | CommandSessionFinished_update nat
  | ContextCompacted_update nat nat string
  | StreamError_update string

datatype turn_event =
    Sent stream_update
  | Answered string json bool
  | Ran_tool string json
  | Ran_hook string string "string list"
  | Posted string
  | Asked "api_message list"

record undo_checkpoint =
  uc_tool_name :: string
  uc_path :: path
  uc_cleanup_path :: "path option"
  uc_previous_content :: "string option"

record 'w conversation =
  cm_api_messages :: "api_message list"
  cm_task_doc :: "task_document option"
  cm_round_entry_start :: nat
  cm_round_stream_block_count :: nat
  cm_tool_call_started_at :: "(string \<times> int) list"
  cm_last_turn_tokens :: pulse_tokens
  cm_read_cache :: rollup_cache
  cm_undo_stack :: "undo_checkpoint list"
  cm_max_undo_checkpoints :: nat
  cm_undo_enabled :: bool
  cm_compaction_config :: compaction_config
  cm_working_set :: "working_set_record option"
  cm_supplementary_prompt :: "string option"
  cm_world :: 'w
  cm_events :: "turn_event list"

datatype tool_policy = Full_policy | Plan_policy | Chat_policy

datatype hook_trigger = PreTool | PostTool

datatype hook_on_fail = Warn_fail | Abort_fail | Ignore_fail

record hook_config =
  hk_trigger :: hook_trigger
  hk_tool :: string
  hk_command :: string
  hk_args :: "string list"
  hk_on_fail :: hook_on_fail

record http_hook_config =
  hh_trigger :: hook_trigger
  hh_tool :: string
  hh_url :: string
  hh_on_fail :: hook_on_fail

text \<open>The sandbox may refuse to wrap the command of a hook.\<close>

datatype hook_outcome = Wrap_error string | Call_error string | Exit_code int

datatype http_result = Http_success | Http_status string | Http_timeout | Http_failed string

record 'w turn_env =
  te_has_channel :: bool
  te_is_local :: bool
  te_structured_mode :: bool
  te_tool_policy :: tool_policy
  te_vars :: "string \<Rightarrow> string option"
  te_context_window :: nat
  te_model_name :: string
  te_preview :: preview_env
  te_json :: "json \<Rightarrow> string"
  te_fingerprint :: "string \<Rightarrow> string option"
  te_hooks :: "hook_config list"
  te_http_hooks :: "http_hook_config list"
  te_working_dir :: path
  te_uuid :: "'w \<Rightarrow> string \<times> 'w"
  te_now_ms :: "'w \<Rightarrow> nat \<times> 'w"
  te_utc_now :: "'w \<Rightarrow> int \<times> 'w" \<comment> \<open>nanoseconds\<close>
  te_rfc3339 :: "int \<Rightarrow> string"
  te_parse_rfc3339 :: "string \<Rightarrow> int option"
  te_stream :: "api_message list \<Rightarrow> 'w \<Rightarrow> (string + (string + runtime_signal) list) \<times> 'w"
  te_answer :: "string \<Rightarrow> string \<Rightarrow> 'w \<Rightarrow> bool \<times> 'w"
  te_tool :: "string \<Rightarrow> json \<Rightarrow> 'w \<Rightarrow> (string + string) \<times> stream_update list \<times> 'w"
    \<comment> \<open>the branch that runs the call: its result, or its error, its timeout or the failed join of its blocking task\<close>
  te_hook_command :: "string \<Rightarrow> string list \<Rightarrow> 'w \<Rightarrow> hook_outcome \<times> 'w"
  te_http_client_error :: "'w \<Rightarrow> string option"
  te_http :: "string \<Rightarrow> string \<Rightarrow> string \<Rightarrow> 'w \<Rightarrow> http_result \<times> 'w"
  te_read_bytes :: "path \<Rightarrow> 'w \<Rightarrow> string option"
  te_clear_ledger :: "'w \<Rightarrow> 'w"

definition emit_stream_update :: "'w turn_env \<Rightarrow> stream_update \<Rightarrow> 'w conversation \<Rightarrow> 'w conversation" where
  "emit_stream_update E u s =
     (if te_has_channel E then s\<lparr>cm_events := cm_events s @ [Sent u]\<rparr> else s)"

definition emit_text_update :: "'w turn_env \<Rightarrow> string \<Rightarrow> 'w conversation \<Rightarrow> 'w conversation" where
  "emit_text_update E t = emit_stream_update E (Delta_update t)"

definition read_now_ms :: "'w turn_env \<Rightarrow> 'w conversation \<Rightarrow> nat \<times> 'w conversation" where
  "read_now_ms E s = (case te_now_ms E (cm_world s) of (t, w) \<Rightarrow> (t, s\<lparr>cm_world := w\<rparr>))"

definition read_utc_now :: "'w turn_env \<Rightarrow> 'w conversation \<Rightarrow> int \<times> 'w conversation" where
  "read_utc_now E s = (case te_utc_now E (cm_world s) of (t, w) \<Rightarrow> (t, s\<lparr>cm_world := w\<rparr>))"

section \<open>The document of the task\<close>

definition ensure_task_doc :: "'w turn_env \<Rightarrow> 'w conversation \<Rightarrow> 'w conversation" where
  "ensure_task_doc E s =
     (case cm_task_doc s of
        Some _ \<Rightarrow> s
      | None \<Rightarrow>
          (let (now, s1) = read_now_ms E s;
               (uuid, w) = te_uuid E (cm_world s1)
           in s1\<lparr>cm_world := w,
                 cm_task_doc := Some (begin_task
                   \<lparr>inf_id = uuid, inf_status = Ready, inf_parent_task_id = None, inf_agent_id = None,
                    inf_worktree_path = None, inf_branch_name = None, inf_instructions_path = None,
                    inf_model_name = te_model_name E,
                    inf_model_backend = (if te_is_local E then LocalRuntime else ApiServer),
                    inf_model_url = '''', inf_started_at_ms = Some now, inf_updated_at_ms = now,
                    inf_last_heartbeat_ms = None, inf_active_grants = [], inf_next_step_id = 0\<rparr>)\<rparr>))"

text \<open>A turn that is still open makes \<open>begin_turn\<close> panic.\<close>

definition begin_turn_doc ::
  "'w turn_env \<Rightarrow> string \<Rightarrow> pulse_tool_policy \<Rightarrow> 'w conversation \<Rightarrow> 'w conversation option" where
  "begin_turn_doc E input policy s =
     (case cm_task_doc s of
        None \<Rightarrow> Some (s\<lparr>cm_round_stream_block_count := 0, cm_tool_call_started_at := []\<rparr>)
      | Some doc \<Rightarrow>
          (let (now, s1) = read_now_ms E s
           in map_option (\<lambda>doc'. s1\<lparr>cm_task_doc := Some doc', cm_round_stream_block_count := 0,
                                    cm_tool_call_started_at := []\<rparr>)
                (begin_turn input now policy doc)))"

definition finish_turn_doc ::
  "'w turn_env \<Rightarrow> pulse_outcome \<Rightarrow> pulse_tokens \<Rightarrow> 'w conversation \<Rightarrow> 'w conversation" where
  "finish_turn_doc E outcome tokens s =
     (case cm_task_doc s of
        None \<Rightarrow> s\<lparr>cm_tool_call_started_at := []\<rparr>
      | Some doc \<Rightarrow>
          (let (now, s1) = read_now_ms E s
           in s1\<lparr>cm_task_doc := Some (snd (finish_turn outcome tokens now doc)),
                 cm_tool_call_started_at := []\<rparr>))"

definition apply_doc_delta :: "'w turn_env \<Rightarrow> runtime_signal \<Rightarrow> 'w conversation \<Rightarrow> 'w conversation" where
  "apply_doc_delta E signal s =
     (case cm_task_doc s of
        None \<Rightarrow> s
      | Some doc \<Rightarrow>
          (let (now1, s1) = read_now_ms E s; (now2, s2) = read_now_ms E s1
           in s2\<lparr>cm_task_doc := Some (snd (apply_runtime_signal now1 now2 signal doc))\<rparr>))"

definition active_turn :: "'w conversation \<Rightarrow> active_turn_document option" where
  "active_turn s = Option.bind (cm_task_doc s) td_active_pulse"

definition active_entries :: "'w conversation \<Rightarrow> pulse_entry list" where
  "active_entries s = (case active_turn s of Some a \<Rightarrow> at_entries a | None \<Rightarrow> [])"

definition advance_round_start :: "'w conversation \<Rightarrow> 'w conversation" where
  "advance_round_start s =
     s\<lparr>cm_round_entry_start := length (active_entries s), cm_round_stream_block_count := 0\<rparr>"

section \<open>Messages\<close>

definition text_message :: "string \<Rightarrow> string \<Rightarrow> string option \<Rightarrow> api_message" where
  "text_message role t hint = \<lparr>am_role = role, am_content = TextMessage t, am_cache_hint = hint\<rparr>"

definition assistant_role :: string where
  "assistant_role = ''assistant''"

definition push_message :: "api_message \<Rightarrow> 'w conversation \<Rightarrow> 'w conversation" where
  "push_message m s = s\<lparr>cm_api_messages := cm_api_messages s @ [m]\<rparr>"

definition push_user_message :: "string \<Rightarrow> string option \<Rightarrow> 'w conversation \<Rightarrow> 'w conversation" where
  "push_user_message input cache_hint = push_message (text_message user_role input cache_hint)"

definition shared_prefix_cache_hint :: "'w turn_env \<Rightarrow> string option \<Rightarrow> string option" where
  "shared_prefix_cache_hint E ctx =
     (case map_option trim ctx of
        Some c \<Rightarrow> if c = '''' then None else te_fingerprint E c
      | None \<Rightarrow> None)"

definition set_supplementary_prompt :: "string option \<Rightarrow> 'w conversation \<Rightarrow> 'w conversation" where
  "set_supplementary_prompt prompt s =
     s\<lparr>cm_supplementary_prompt :=
         (case map_option trim prompt of Some t \<Rightarrow> if t = '''' then None else Some t | None \<Rightarrow> None)\<rparr>"

definition clear_messages :: "'w conversation \<Rightarrow> 'w conversation" where
  "clear_messages s =
     set_supplementary_prompt None
       (s\<lparr>cm_api_messages := [], cm_task_doc := None, cm_round_entry_start := 0,
          cm_round_stream_block_count := 0, cm_tool_call_started_at := [],
          cm_last_turn_tokens := pulse_tokens_default, cm_read_cache := [], cm_working_set := None\<rparr>)"

definition seed_from_working_set :: "working_set_record \<Rightarrow> 'w conversation \<Rightarrow> 'w conversation" where
  "seed_from_working_set r s =
     set_supplementary_prompt (Some (as_prompt_block r)) ((clear_messages s)\<lparr>cm_working_set := Some r\<rparr>)"

definition take_last_turn_tokens :: "'w conversation \<Rightarrow> pulse_tokens \<times> 'w conversation" where
  "take_last_turn_tokens s = (cm_last_turn_tokens s, s\<lparr>cm_last_turn_tokens := pulse_tokens_default\<rparr>)"

section \<open>Undo\<close>

definition push_undo_checkpoint :: "undo_checkpoint \<Rightarrow> 'w conversation \<Rightarrow> 'w conversation" where
  "push_undo_checkpoint cp s =
     (if cm_max_undo_checkpoints s = 0 then s
      else s\<lparr>cm_undo_stack :=
               (if cm_max_undo_checkpoints s \<le> length (cm_undo_stack s)
                then tl (cm_undo_stack s) else cm_undo_stack s) @ [cp]\<rparr>)"

definition pop_undo_checkpoint :: "'w conversation \<Rightarrow> undo_checkpoint option \<times> 'w conversation" where
  "pop_undo_checkpoint s =
     (case cm_undo_stack s of
        [] \<Rightarrow> (None, s)
      | _ \<Rightarrow> (Some (last (cm_undo_stack s)), s\<lparr>cm_undo_stack := butlast (cm_undo_stack s)\<rparr>))"

text \<open>The tools whose effect is remembered, with the argument that names the file and the one that names
  the file to remove.\<close>

definition undo_paths :: "string \<Rightarrow> json \<Rightarrow> (string option \<times> string option) option" where
  "undo_paths tool_name input =
     (if tool_name \<in> {''write_file'', ''apply_patch'', ''edit_file''} then
        Some (first_tool_string input [''path'', ''file_path'', ''file''], None)
      else if tool_name = ''rename_file'' then
        Some (first_tool_string input [''old_path'', ''from'', ''source_path''],
              first_tool_string input [''new_path'', ''to'', ''dest_path''])
      else None)"

definition capture_undo_snapshot ::
  "'w turn_env \<Rightarrow> string \<Rightarrow> json \<Rightarrow> 'w conversation \<Rightarrow> undo_checkpoint option" where
  "capture_undo_snapshot E tool_name input s =
     (case undo_paths tool_name input of
        Some (Some p, cleanup) \<Rightarrow>
          (let abs = join (te_working_dir E) (components p)
           in Some \<lparr>uc_tool_name = tool_name, uc_path = abs,
                    uc_cleanup_path = map_option (\<lambda>c. join (te_working_dir E) (components c)) cleanup,
                    uc_previous_content = te_read_bytes E abs (cm_world s)\<rparr>)
      | _ \<Rightarrow> None)"

section \<open>What the turn did\<close>

definition is_turn_mutation_tool :: "string \<Rightarrow> bool" where
  "is_turn_mutation_tool name \<longleftrightarrow> name \<in> {''write_file'', ''apply_patch'', ''edit_file'', ''rename_file''}"

fun mutation_call_id :: "pulse_entry \<Rightarrow> string option" where
  "mutation_call_id (ToolCall_entry step_id i n v st) = (if is_turn_mutation_tool n then Some i else None)"
| "mutation_call_id _ = None"

fun succeeded_call_id :: "pulse_entry \<Rightarrow> string option" where
  "succeeded_call_id (ToolResult_entry step_id i n v is_error) = (if is_error then None else Some i)"
| "succeeded_call_id _ = None"

definition current_turn_has_successful_mutation :: "'w conversation \<Rightarrow> bool" where
  "current_turn_has_successful_mutation s =
     (case cm_task_doc s of
        None \<Rightarrow> False
      | Some doc \<Rightarrow>
          (let entries = (case td_active_pulse doc of
                            Some a \<Rightarrow> at_entries a
                          | None \<Rightarrow> (if td_completed_turns doc = [] then []
                                     else tn_entries (last (td_completed_turns doc))));
               calls = List.map_filter mutation_call_id entries
           in list_ex (\<lambda>e. case succeeded_call_id e of Some i \<Rightarrow> i \<in> set calls | None \<Rightarrow> False) entries))"

end
