(* ===== verification/Streaming.thy ===== *)
theory Streaming
  imports Conversation
begin

text \<open>
  How streamed blocks and tool results reach the document of the task and the front end
  (\<open>src/state/conversation/streaming.rs\<close>, \<open>src/state/transcript_delta.rs\<close>).
\<close>

section \<open>Blocks\<close>

definition MAX_INLINE_PAD_GAP :: nat where
  "MAX_INLINE_PAD_GAP = 2048"

definition placeholder :: stream_block where
  "placeholder = Thinking '''' True"

definition pad_block :: "'w turn_env \<Rightarrow> nat \<Rightarrow> 'w conversation \<Rightarrow> 'w conversation" where
  "pad_block E pad_index s =
     emit_stream_update E (BlockStart_update pad_index placeholder)
       ((apply_doc_delta E (TranscriptBlockStart pad_index placeholder) s)
          \<lparr>cm_round_stream_block_count := pad_index + 1\<rparr>)"

text \<open>The index comes from the stream, and the next count is a \<open>usize\<close> of 64 bits: in a release build the count after
  the largest index wraps to zero (a debug build panics there).\<close>

definition emit_stream_block_start_update ::
  "'w turn_env \<Rightarrow> nat \<Rightarrow> stream_block \<Rightarrow> 'w conversation \<Rightarrow> 'w conversation" where
  "emit_stream_block_start_update E index block s =
     (let block_count = cm_round_stream_block_count s;
          padded = (if index - block_count \<le> MAX_INLINE_PAD_GAP
                    then fold (pad_block E) [block_count..<index] s else s)
      in emit_stream_update E (BlockStart_update index block)
           (padded\<lparr>cm_round_stream_block_count := (index + 1) mod 2 ^ 64\<rparr>))"

definition record_tool_call_started_at :: "string \<Rightarrow> int \<Rightarrow> 'w conversation \<Rightarrow> 'w conversation" where
  "record_tool_call_started_at tool_call_id started_at s =
     s\<lparr>cm_tool_call_started_at := AList.update tool_call_id started_at (cm_tool_call_started_at s)\<rparr>"

text \<open>Durations in milliseconds, at least zero.\<close>

definition elapsed_ms :: "int \<Rightarrow> int \<Rightarrow> nat" where
  "elapsed_ms started_at completed_at = nat ((completed_at - started_at) div 1000000)"

definition take_tool_call_timing ::
  "'w turn_env \<Rightarrow> string \<Rightarrow> int \<Rightarrow> 'w conversation \<Rightarrow> (string option \<times> nat option) \<times> 'w conversation" where
  "take_tool_call_timing E tool_call_id completed_at s =
     (case map_of (cm_tool_call_started_at s) tool_call_id of
        None \<Rightarrow> ((None, None), s)
      | Some started_at \<Rightarrow>
          ((Some (te_rfc3339 E started_at), Some (elapsed_ms started_at completed_at)),
           s\<lparr>cm_tool_call_started_at := AList.delete tool_call_id (cm_tool_call_started_at s)\<rparr>))"

definition tool_result_signal ::
  "'w turn_env \<Rightarrow> string \<Rightarrow> string option \<Rightarrow> string \<Rightarrow> bool \<Rightarrow> int \<Rightarrow> 'w conversation
   \<Rightarrow> runtime_signal \<times> 'w conversation" where
  "tool_result_signal E tool_call_id tool_name body is_error completed_at s =
     (case take_tool_call_timing E tool_call_id completed_at s of
        ((started_at, dur), s1) \<Rightarrow>
          ((if is_error
            then ToolCallFailed tool_call_id tool_name Error_status started_at (te_rfc3339 E completed_at) dur body
            else ToolCallCompleted tool_call_id tool_name Complete started_at (te_rfc3339 E completed_at) dur body),
           s1))"

definition upsert_turn_block :: "'w turn_env \<Rightarrow> nat \<Rightarrow> stream_block \<Rightarrow> 'w conversation \<Rightarrow> 'w conversation" where
  "upsert_turn_block E index block s =
     emit_stream_block_start_update E index block
       (case block of
          Thinking content collapsed \<Rightarrow> apply_doc_delta E (TranscriptBlockStart index block) s
        | FinalText content \<Rightarrow> apply_doc_delta E (TranscriptBlockStart index block) s
        | ToolCall i name input status \<Rightarrow>
            (let (started_at, s1) = read_utc_now E s
             in apply_doc_delta E (ToolCallStarted i name input status (te_rfc3339 E started_at))
                  (record_tool_call_started_at i started_at s1))
        | ToolResult i body is_error \<Rightarrow> s)"

text \<open>What an increment adds to the text a block already has: the source accepts both increments and
  cumulative text, and takes an increment that extends or repeats the beginning of the block as
  cumulative.\<close>

definition bounded_incremental_suffix :: "string \<Rightarrow> string \<Rightarrow> string" where
  "bounded_incremental_suffix existing incoming =
     (if incoming = '''' then ''''
      else if length existing < length incoming \<and> take (length existing) incoming = existing
      then drop (length existing) incoming
      else if length incoming \<le> length existing \<and> take (length incoming) existing = incoming then ''''
      else incoming)"

fun block_content_at :: "nat \<Rightarrow> pulse_entry \<Rightarrow> string option" where
  "block_content_at index (AssistantBlock_entry step_id b) =
     (if ab_block_index b = index then Some (ab_content b) else None)"
| "block_content_at index _ = None"

definition append_text_delta ::
  "'w turn_env \<Rightarrow> nat \<Rightarrow> string \<Rightarrow> 'w conversation \<Rightarrow> string \<times> 'w conversation" where
  "append_text_delta E index t s =
     (case find_map (block_content_at index) (rev (active_entries s)) of
        None \<Rightarrow> (t, upsert_turn_block E index (Thinking t False) s)
      | Some existing \<Rightarrow>
          (let delta = bounded_incremental_suffix existing t
           in if delta = '''' then ('''', s)
              else (delta,
                    emit_stream_update E (BlockDelta_update index delta)
                      (apply_doc_delta E (TranscriptBlockDelta index delta) s))))"

section \<open>Tool calls\<close>

fun call_block :: "string \<Rightarrow> tool_status \<Rightarrow> pulse_entry \<Rightarrow> stream_block option" where
  "call_block tool_call_id status (ToolCall_entry step_id i n v st) =
     (if i = tool_call_id then Some (ToolCall i n v status) else None)"
| "call_block tool_call_id status _ = None"

fun find_index_from :: "nat \<Rightarrow> ('a \<Rightarrow> 'b option) \<Rightarrow> 'a list \<Rightarrow> (nat \<times> 'b) option" where
  "find_index_from k f [] = None"
| "find_index_from k f (x # xs) =
     (case f x of Some y \<Rightarrow> Some (k, y) | None \<Rightarrow> find_index_from (Suc k) f xs)"

definition set_tool_call_status ::
  "'w turn_env \<Rightarrow> string \<Rightarrow> tool_status \<Rightarrow> 'w conversation \<Rightarrow> 'w conversation" where
  "set_tool_call_status E tool_call_id status s =
     (case find_index_from 0 (call_block tool_call_id status) (active_entries s) of
        None \<Rightarrow> s
      | Some (index, block) \<Rightarrow>
          emit_stream_update E (BlockStart_update index block)
            (apply_doc_delta E (ToolCallStatusUpdated tool_call_id status) s))"

fun call_name :: "string \<Rightarrow> pulse_entry \<Rightarrow> string option" where
  "call_name tool_call_id (ToolCall_entry step_id i n v st) = (if i = tool_call_id then Some n else None)"
| "call_name tool_call_id _ = None"

definition push_tool_result_block ::
  "'w turn_env \<Rightarrow> string \<Rightarrow> string \<Rightarrow> bool \<Rightarrow> 'w conversation \<Rightarrow> 'w conversation" where
  "push_tool_result_block E tool_call_id body is_error s =
     (let tool_name = find_map (call_name tool_call_id) (rev (active_entries s));
          (completed_at, s1) = read_utc_now E s;
          (signal, s2) = tool_result_signal E tool_call_id tool_name body is_error completed_at s1;
          s3 = apply_doc_delta E signal s2;
          index = length (active_entries s3) - 1
      in emit_stream_update E (BlockComplete_update index)
           (emit_stream_update E (BlockStart_update index (ToolResult tool_call_id body is_error)) s3))"

section \<open>Promotion\<close>

fun promotable :: "pulse_entry \<Rightarrow> nat option" where
  "promotable (AssistantBlock_entry step_id b) =
     (if ab_phase b = Thinking_phase \<and> \<not> ab_collapsed b then Some (ab_block_index b) else None)"
| "promotable _ = None"

text \<open>The entries of a turn only grow, so the slice from the start of the round is in range.\<close>

definition promote_block :: "'w turn_env \<Rightarrow> nat \<Rightarrow> 'w conversation \<Rightarrow> 'w conversation" where
  "promote_block E block_index s =
     emit_stream_update E (BlockStart_update block_index (FinalText ''''))
       (apply_doc_delta E (TranscriptBlockPhaseUpdated block_index Final_phase False) s)"

definition promote_thinking_blocks_to_final_text :: "'w turn_env \<Rightarrow> 'w conversation \<Rightarrow> 'w conversation" where
  "promote_thinking_blocks_to_final_text E s =
     fold (promote_block E)
       (List.map_filter promotable (drop (cm_round_entry_start s) (active_entries s))) s"

definition emit_server_metadata_update ::
  "'w turn_env \<Rightarrow> stream_chunk_metadata \<Rightarrow> 'w conversation \<Rightarrow> 'w conversation" where
  "emit_server_metadata_update E md s =
     (if md_prompt_progress md = None \<and> md_timings md = None then s
      else emit_stream_update E (ServerMetadata_update md) s)"

end
