(* ===== verification/Tool_Rounds.thy ===== *)
theory Tool_Rounds
  imports Streaming Tool_Calls
begin

text \<open>
  Running the tools of one round: the approval by the user, the policy and the hooks around a tool
  (\<open>src/state/conversation/tools/mod.rs\<close>), the guards and the bookkeeping around each call
  (\<open>send_message.rs\<close>), and the round whose calls run together (\<open>core.rs\<close>). The calls of such a round are
  polled concurrently; here they run in their order, which is the order of their results.
\<close>

section \<open>Approval and execution\<close>

definition log_event :: "turn_event \<Rightarrow> 'w conversation \<Rightarrow> 'w conversation" where
  "log_event e s = s\<lparr>cm_events := cm_events s @ [e]\<rparr>"

definition request_tool_approval ::
  "'w turn_env \<Rightarrow> string \<Rightarrow> json \<Rightarrow> 'w conversation \<Rightarrow> bool \<times> 'w conversation" where
  "request_tool_approval E name input s =
     (if \<not> te_has_channel E then (True, s)
      else
        (let preview = tool_input_preview (te_preview E) name input;
             s1 = emit_stream_update E (ToolApprovalRequest_update name preview) s;
             (approved, w) = te_answer E name preview (cm_world s1)
         in (approved, log_event (Answered name input approved) (s1\<lparr>cm_world := w\<rparr>))))"

definition shell_aliases :: "string list" where
  "shell_aliases = [''run_shell_command'', ''bash'', ''call_command'', ''call_bash'']"

definition normalize_shell_tool_alias :: "string \<Rightarrow> string" where
  "normalize_shell_tool_alias name = (if name \<in> set shell_aliases then ''run_command'' else name)"

definition READONLY_TOOL_NAMES :: "string list" where
  "READONLY_TOOL_NAMES =
     [''read_file'', ''list_files'', ''list_directory'', ''list_dir'', ''glob_files'', ''search_files'',
      ''search'', ''git_status'', ''git_diff'', ''git_log'', ''git_show'', ''search_content'',
      ''find_files'', ''codebase_search'']"

definition is_readonly_tool :: "string \<Rightarrow> bool" where
  "is_readonly_tool name \<longleftrightarrow> name \<in> set READONLY_TOOL_NAMES"

definition primary_path_keys :: "string list" where
  "primary_path_keys = [''path'', ''file_path'', ''file'', ''filename'', ''old_path'', ''from'']"

text \<open>The first key that is present decides, even when its value is not a string.\<close>

definition primary_path :: "json \<Rightarrow> string" where
  "primary_path input = or_blank (Option.bind (find_map (json_get input) primary_path_keys) as_str)"

definition hook_args :: "hook_config \<Rightarrow> string \<Rightarrow> json \<Rightarrow> string list" where
  "hook_args h tool_name input =
     map (\<lambda>a. replace_str (replace_str a ''{{tool}}'' tool_name) ''{{path}}'' (primary_path input)) (hk_args h)"

definition hook_approval_input :: "string \<Rightarrow> string \<Rightarrow> string list \<Rightarrow> json" where
  "hook_approval_input command tool_name args =
     JObject [(''command'', JString command), (''args'', JArray (map JString args)), (''tool'', JString tool_name)]"

definition int_dec :: "int \<Rightarrow> string" where
  "int_dec i = (if i < 0 then ''-'' @ nat_dec (nat (- i)) else nat_dec (nat i))"

definition quoted :: "string \<Rightarrow> string" where
  "quoted t = [CHR 0x27] @ t @ [CHR 0x27]"

text \<open>\<open>HookOnFail\<close>: only \<open>Abort\<close> turns a failure into an error; a warning is printed and not modelled.\<close>

definition failure_of :: "hook_on_fail \<Rightarrow> string \<Rightarrow> string option" where
  "failure_of on_fail msg = (case on_fail of Abort_fail \<Rightarrow> Some msg | _ \<Rightarrow> None)"

text \<open>One hook; \<open>Some\<close> is the error that ends the call. The refusal of the sandbox is an error at once.\<close>

definition run_hook ::
  "'w turn_env \<Rightarrow> hook_config \<Rightarrow> string \<Rightarrow> json \<Rightarrow> 'w conversation \<Rightarrow> string option \<times> 'w conversation" where
  "run_hook E h tool_name input s =
     (let args = hook_args h tool_name input;
          (approved, s1) = (if te_has_channel E
                            then request_tool_approval E ''run_command'' (hook_approval_input (hk_command h) tool_name args) s
                            else (False, s))
      in if \<not> approved then (None, s1)
         else
           (case te_hook_command E (hk_command h) args (cm_world s1) of
              (outcome, w) \<Rightarrow>
                (let s2 = log_event (Ran_hook tool_name (hk_command h) args) (s1\<lparr>cm_world := w\<rparr>)
                 in case outcome of
                      Wrap_error e \<Rightarrow> (Some e, s1\<lparr>cm_world := w\<rparr>)
                    | Exit_code code \<Rightarrow>
                        ((if code = 0 then None
                          else failure_of (hk_on_fail h)
                                 (''hook '' @ quoted (hk_command h) @ '' failed with exit code '' @ int_dec code)), s2)
                    | Call_error e \<Rightarrow>
                        (failure_of (hk_on_fail h) (''hook '' @ quoted (hk_command h) @ '' failed to call''), s2))))"

fun run_hooks ::
  "'w turn_env \<Rightarrow> hook_config list \<Rightarrow> hook_trigger \<Rightarrow> string \<Rightarrow> json \<Rightarrow> 'w conversation
   \<Rightarrow> string option \<times> 'w conversation" where
  "run_hooks E [] trigger tool_name input s = (None, s)"
| "run_hooks E (h # hs) trigger tool_name input s =
     (if hk_trigger h \<noteq> trigger \<or> hk_tool h \<noteq> tool_name then run_hooks E hs trigger tool_name input s
      else (case run_hook E h tool_name input s of
              (Some e, s1) \<Rightarrow> (Some e, s1)
            | (None, s1) \<Rightarrow> run_hooks E hs trigger tool_name input s1))"

definition http_message :: "string \<Rightarrow> nat \<Rightarrow> http_result \<Rightarrow> string option" where
  "http_message url timeout_ms r =
     (case r of
        Http_success \<Rightarrow> None
      | Http_status st \<Rightarrow> Some (''http_hook '' @ quoted url @ '' responded with status '' @ st)
      | Http_timeout \<Rightarrow> Some (''http_hook '' @ quoted url @ '' timed out after '' @ nat_dec timeout_ms @ ''ms'')
      | Http_failed e \<Rightarrow> Some (''http_hook '' @ quoted url @ '' failed to send: '' @ e))"

fun post_http_hooks ::
  "'w turn_env \<Rightarrow> http_hook_config list \<Rightarrow> hook_trigger \<Rightarrow> string \<Rightarrow> string \<Rightarrow> nat \<Rightarrow> 'w conversation
   \<Rightarrow> string option \<times> 'w conversation" where
  "post_http_hooks E [] trigger tool_name p timeout_ms s = (None, s)"
| "post_http_hooks E (h # hs) trigger tool_name p timeout_ms s =
     (if hh_trigger h \<noteq> trigger \<or> hh_tool h \<noteq> tool_name then post_http_hooks E hs trigger tool_name p timeout_ms s
      else
        (let (r, w) = te_http E (hh_url h) tool_name p (cm_world s);
             s1 = log_event (Posted (hh_url h)) (s\<lparr>cm_world := w\<rparr>)
         in case Option.bind (http_message (hh_url h) timeout_ms r) (failure_of (hh_on_fail h)) of
              Some e \<Rightarrow> (Some e, s1)
            | None \<Rightarrow> post_http_hooks E hs trigger tool_name p timeout_ms s1))"

definition run_http_hooks ::
  "'w turn_env \<Rightarrow> hook_trigger \<Rightarrow> string \<Rightarrow> json \<Rightarrow> nat \<Rightarrow> 'w conversation \<Rightarrow> string option \<times> 'w conversation" where
  "run_http_hooks E trigger tool_name input timeout_secs s =
     (if te_http_hooks E = [] then (None, s)
      else (case te_http_client_error E (cm_world s) of
              Some e \<Rightarrow> (Some e, s)
            | None \<Rightarrow>
                post_http_hooks E (te_http_hooks E) trigger tool_name (primary_path input)
                  (min timeout_secs 5 * 1000) s))"

definition run_all_hooks ::
  "'w turn_env \<Rightarrow> hook_trigger \<Rightarrow> string \<Rightarrow> json \<Rightarrow> nat \<Rightarrow> 'w conversation \<Rightarrow> string option \<times> 'w conversation" where
  "run_all_hooks E trigger name input timeout_secs s =
     (case run_hooks E (te_hooks E) trigger name input s of
        (Some e, s1) \<Rightarrow> (Some e, s1)
      | (None, s1) \<Rightarrow> run_http_hooks E trigger name input timeout_secs s1)"

definition run_tool ::
  "'w turn_env \<Rightarrow> string \<Rightarrow> json \<Rightarrow> 'w conversation \<Rightarrow> (string + string) \<times> 'w conversation" where
  "run_tool E name input s =
     (case te_tool E name input (cm_world s) of
        (result, updates, w) \<Rightarrow>
          (result, fold (emit_stream_update E) updates (log_event (Ran_tool name input) (s\<lparr>cm_world := w\<rparr>))))"

definition execute_tool ::
  "'w turn_env \<Rightarrow> string \<Rightarrow> json \<Rightarrow> nat \<Rightarrow> 'w conversation \<Rightarrow> (string + string) \<times> 'w conversation" where
  "execute_tool E name0 input timeout_secs s =
     (let name = normalize_shell_tool_alias name0 in
      if te_tool_policy E = Chat_policy then (Inl ''tool use is disabled in chat mode'', s)
      else if te_tool_policy E = Plan_policy \<and> \<not> is_readonly_tool name
      then (Inl (''tool '' @ quoted name @ '' is not available in plan (read-only) mode''), s)
      else
        (case run_all_hooks E PreTool name input timeout_secs s of
           (Some e, s1) \<Rightarrow> (Inl e, s1)
         | (None, s1) \<Rightarrow>
             (case run_tool E name input s1 of
                (Inl e, s2) \<Rightarrow> (Inl e, s2)
              | (Inr out, s2) \<Rightarrow>
                  (case run_all_hooks E PostTool name input timeout_secs s2 of
                     (Some e, s3) \<Rightarrow> (Inl e, s3)
                   | (None, s3) \<Rightarrow> (Inr out, s3)))))"

section \<open>Results\<close>

record turn_config =
  tc_user_input :: string
  tc_policy :: pulse_tool_policy
  tc_structured_round :: bool
  tc_max_result_chars :: nat
  tc_timeout_secs :: nat
  tc_require_approval :: bool

record round_results =
  rr_blocks :: "content_block list"
  rr_texts :: "string list"
  rr_anchor :: "(string \<times> nat option) option"

definition emit_tool_error ::
  "'w turn_env \<Rightarrow> turn_config \<Rightarrow> string \<Rightarrow> string \<Rightarrow> string \<Rightarrow> round_results \<times> 'w conversation
   \<Rightarrow> round_results \<times> 'w conversation" where
  "emit_tool_error E cfg tool_name clarification tool_use_id st =
     (case st of (rr, s) \<Rightarrow>
        ((if tc_structured_round cfg
          then rr\<lparr>rr_blocks := rr_blocks rr @
                 [ToolResultContent tool_use_id (truncate_for_history clarification (tc_max_result_chars cfg)) True]\<rparr>
          else rr\<lparr>rr_texts := rr_texts rr @
                 [truncate_for_history (''tool_error '' @ tool_name @ '':'' @ [newline] @ clarification)
                    (tc_max_result_chars cfg)]\<rparr>),
         emit_text_update E clarification s))"

text \<open>A call that is refused: its status, its result block, and the message to the model.\<close>

definition refuse ::
  "'w turn_env \<Rightarrow> turn_config \<Rightarrow> string \<Rightarrow> string \<Rightarrow> string \<Rightarrow> round_results \<times> 'w conversation
   \<Rightarrow> round_results \<times> 'w conversation" where
  "refuse E cfg i name message st =
     (case st of (rr, s) \<Rightarrow>
        emit_tool_error E cfg name message i
          (rr, push_tool_result_block E i message True (set_tool_call_status E i Cancelled_status s)))"

definition result_text :: "string + string \<Rightarrow> string" where
  "result_text r = (case r of Inl e \<Rightarrow> e | Inr t \<Rightarrow> t)"

definition is_err :: "'a + 'b \<Rightarrow> bool" where
  "is_err r = (case r of Inl _ \<Rightarrow> True | Inr _ \<Rightarrow> False)"

definition read_anchor :: "string \<Rightarrow> json \<Rightarrow> string + string \<Rightarrow> round_results \<Rightarrow> round_results" where
  "read_anchor name input result rr =
     (if name = ''read_file'' \<and> \<not> is_err result
      then (case get_str input ''path'' of
              Some p \<Rightarrow> rr\<lparr>rr_anchor := Some (p, get_u64 input ''offset'')\<rparr>
            | None \<Rightarrow> rr)
      else rr)"

text \<open>A call that ran: the status, the result block and the text for the history.\<close>

definition add_result ::
  "'w turn_env \<Rightarrow> turn_config \<Rightarrow> string \<Rightarrow> string \<Rightarrow> json \<Rightarrow> string + string \<Rightarrow> round_results \<times> 'w conversation
   \<Rightarrow> round_results \<times> 'w conversation" where
  "add_result E cfg i name input result st =
     (case st of (rr0, s) \<Rightarrow>
        (let rr = read_anchor name input result rr0;
             s1 = set_tool_call_status E i (if is_err result then Error_status else Complete) s;
             s2 = push_tool_result_block E i (result_text result) (is_err result) s1;
             (formatted, cache) = format_tool_result_for_history (te_preview E) name input result (cm_read_cache s2);
             s3 = s2\<lparr>cm_read_cache := cache\<rparr>;
             history_content = truncate_for_history formatted (tc_max_result_chars cfg)
         in if tc_structured_round cfg
            then (rr\<lparr>rr_blocks := rr_blocks rr @ [ToolResultContent i history_content (is_err result)]\<rparr>, s3)
            else (rr\<lparr>rr_texts := rr_texts rr @
                    [truncate_for_history
                       ((if is_err result then ''tool_error '' else ''tool_result '') @ name @ '':'' @ [newline]
                        @ history_content) (tc_max_result_chars cfg)]\<rparr>, s3)))"

section \<open>One call after the other\<close>

definition em_dash :: string where
  "em_dash = [CHR 0xE2, CHR 0x80, CHR 0x94]"

definition with_anchor_hint :: "string \<Rightarrow> (string \<times> nat option) option \<Rightarrow> string \<Rightarrow> string" where
  "with_anchor_hint name anchor clarification =
     (case anchor of
        Some (last_path, last_offset) \<Rightarrow>
          (if name = ''read_file''
           then clarification @ '' You were most recently reading '' @ quoted last_path
                @ (case last_offset of Some off \<Rightarrow> '' at offset '' @ nat_dec off | None \<Rightarrow> '''')
                @ '' '' @ em_dash @ '' specify that path to continue.''
           else clarification)
      | None \<Rightarrow> clarification)"

definition render_tool_denied_message :: "string \<Rightarrow> string" where
  "render_tool_denied_message tool_name =
     ''Stopped: approval denied for '' @ tool_name
     @ (if tool_requires_confirmation tool_name then ''. No file changes were made.''
        else ''. No tool actions were performed.'')"

text \<open>The guards in their order: the first that objects gives the message.\<close>

definition guard_message ::
  "'w turn_env \<Rightarrow> turn_config \<Rightarrow> (string \<times> nat option) option \<Rightarrow> string \<Rightarrow> json \<Rightarrow> string option" where
  "guard_message E cfg anchor name input =
     (case missing_read_only_location_prompt name input of
        Some clarification \<Rightarrow> Some (with_anchor_hint name anchor clarification)
      | None \<Rightarrow>
          (case missing_mutating_location_prompt name input of
             Some clarification \<Rightarrow> Some clarification
           | None \<Rightarrow>
               (case mutating_tool_read_only_conflict_prompt (te_vars E) (tc_user_input cfg) name of
                  Some read_only_guard \<Rightarrow> Some read_only_guard
                | None \<Rightarrow> tests_only_mutation_conflict_prompt (tc_policy cfg) name input)))"

definition needs_approval :: "turn_config \<Rightarrow> string \<Rightarrow> bool" where
  "needs_approval cfg name \<longleftrightarrow> tc_require_approval cfg \<or> tool_requires_confirmation name"

definition ask_approval ::
  "'w turn_env \<Rightarrow> turn_config \<Rightarrow> string \<Rightarrow> string \<Rightarrow> json \<Rightarrow> 'w conversation \<Rightarrow> bool \<times> 'w conversation" where
  "ask_approval E cfg i name input s =
     (let (approved, s1) =
            (if needs_approval cfg name
             then request_tool_approval E name input (set_tool_call_status E i WaitingApproval s)
             else (True, s))
      in (approved, set_tool_call_status E i (if approved then Executing else Cancelled_status) s1))"

definition run_approved ::
  "'w turn_env \<Rightarrow> turn_config \<Rightarrow> string \<Rightarrow> string \<Rightarrow> json \<Rightarrow> round_results \<times> 'w conversation
   \<Rightarrow> round_results \<times> 'w conversation" where
  "run_approved E cfg i name input st =
     (case st of (rr, s) \<Rightarrow>
        (let undo_snapshot = capture_undo_snapshot E name input s;
             (result, s1) = execute_tool E name input (tc_timeout_secs cfg) s;
             s2 = (case undo_snapshot of
                     Some cp \<Rightarrow> if is_err result then s1 else push_undo_checkpoint cp s1
                   | None \<Rightarrow> s1)
         in add_result E cfg i name input result (rr, s2)))"

definition process_call ::
  "'w turn_env \<Rightarrow> turn_config \<Rightarrow> string \<Rightarrow> string \<Rightarrow> json \<Rightarrow> round_results \<times> 'w conversation
   \<Rightarrow> round_results \<times> 'w conversation" where
  "process_call E cfg i name input st =
     (case st of (rr, s) \<Rightarrow>
        (case guard_message E cfg (rr_anchor rr) name input of
           Some message \<Rightarrow> refuse E cfg i name message st
         | None \<Rightarrow>
             (case ask_approval E cfg i name input s of
                (False, s1) \<Rightarrow>
                  (let denial = render_tool_denied_message name
                   in emit_tool_error E cfg name denial i (rr, push_tool_result_block E i denial True s1))
              | (True, s1) \<Rightarrow> run_approved E cfg i name input (rr, s1))))"

fun process_block ::
  "'w turn_env \<Rightarrow> turn_config \<Rightarrow> content_block \<Rightarrow> round_results \<times> 'w conversation
   \<Rightarrow> round_results \<times> 'w conversation" where
  "process_block E cfg (ToolUseContent i name input md) st = process_call E cfg i name input st"
| "process_block E cfg _ st = st"

section \<open>Calls that run together\<close>

fun tool_use :: "content_block \<Rightarrow> (string \<times> string \<times> json) option" where
  "tool_use (ToolUseContent i name input md) = Some (i, name, input)"
| "tool_use _ = None"

definition tool_uses :: "content_block list \<Rightarrow> (string \<times> string \<times> json) list" where
  "tool_uses blocks = List.map_filter tool_use blocks"

definition parallel_refusal :: "'w turn_env \<Rightarrow> turn_config \<Rightarrow> string \<Rightarrow> json \<Rightarrow> string option" where
  "parallel_refusal E cfg name input =
     (case missing_read_only_location_prompt name input of
        Some m \<Rightarrow> Some m
      | None \<Rightarrow>
          (case missing_mutating_location_prompt name input of
             Some m \<Rightarrow> Some m
           | None \<Rightarrow> mutating_tool_read_only_conflict_prompt (te_vars E) (tc_user_input cfg) name))"

fun run_parallel ::
  "'w turn_env \<Rightarrow> turn_config \<Rightarrow> (string \<times> string \<times> json) list \<Rightarrow> 'w conversation
   \<Rightarrow> (string \<times> string \<times> json \<times> (string + string)) list \<times> 'w conversation" where
  "run_parallel E cfg [] s = ([], s)"
| "run_parallel E cfg ((i, name, input) # calls) s =
     (let (result, s1) = (case parallel_refusal E cfg name input of
                            Some m \<Rightarrow> (Inl m, s)
                          | None \<Rightarrow> execute_tool E name input (tc_timeout_secs cfg) s);
          (rest, s2) = run_parallel E cfg calls s1
      in ((i, name, input, result) # rest, s2))"

definition parallel_snapshots ::
  "'w turn_env \<Rightarrow> (string \<times> string \<times> json) list \<Rightarrow> 'w conversation \<Rightarrow> (string \<times> undo_checkpoint) list" where
  "parallel_snapshots E calls s =
     (if cm_undo_enabled s
      then fold (\<lambda>(i, name, input) snaps.
             case capture_undo_snapshot E name input s of
               Some cp \<Rightarrow> AList.update i cp snaps | None \<Rightarrow> snaps) calls []
      else [])"

fun push_snapshots ::
  "(string \<times> undo_checkpoint) list \<Rightarrow> (string \<times> string \<times> json \<times> (string + string)) list
   \<Rightarrow> 'w conversation \<Rightarrow> 'w conversation" where
  "push_snapshots snaps [] s = s"
| "push_snapshots snaps ((i, name, input, result) # done_calls) s =
     push_snapshots (AList.delete i snaps) done_calls
       (case map_of snaps i of
          Some cp \<Rightarrow> if is_err result then s else push_undo_checkpoint cp s
        | None \<Rightarrow> s)"

definition execute_parallel_tool_round ::
  "'w turn_env \<Rightarrow> turn_config \<Rightarrow> content_block list \<Rightarrow> 'w conversation
   \<Rightarrow> (string \<times> string \<times> json \<times> (string + string)) list \<times> 'w conversation" where
  "execute_parallel_tool_round E cfg blocks s =
     (let calls = tool_uses blocks;
          s1 = fold (\<lambda>(i, _). set_tool_call_status E i Executing) calls s;
          snaps = parallel_snapshots E calls s1;
          (completed, s2) = run_parallel E cfg calls s1
      in (completed, push_snapshots snaps completed s2))"

section \<open>The round\<close>

definition is_read_only_tool_round :: "content_block list \<Rightarrow> bool" where
  "is_read_only_tool_round blocks =
     list_all (\<lambda>b. case tool_use b of Some (i, name, input) \<Rightarrow> is_read_only_tool_name name | None \<Rightarrow> False) blocks"

definition is_mutating_tool_round :: "content_block list \<Rightarrow> bool" where
  "is_mutating_tool_round blocks =
     list_ex (\<lambda>b. case tool_use b of Some (i, name, input) \<Rightarrow> tool_requires_confirmation name | None \<Rightarrow> False) blocks"

definition is_parallel_safe_tool_round :: "content_block list \<Rightarrow> bool" where
  "is_parallel_safe_tool_round blocks \<longleftrightarrow> blocks \<noteq> [] \<and> is_read_only_tool_round blocks"

definition should_parallelize_tool_round :: "content_block list \<Rightarrow> bool \<Rightarrow> bool" where
  "should_parallelize_tool_round blocks require_tool_approval \<longleftrightarrow>
     \<not> require_tool_approval \<and> 1 < length blocks \<and> is_parallel_safe_tool_round blocks"

definition run_tool_round ::
  "'w turn_env \<Rightarrow> turn_config \<Rightarrow> content_block list \<Rightarrow> (string \<times> nat option) option \<Rightarrow> 'w conversation
   \<Rightarrow> round_results \<times> 'w conversation" where
  "run_tool_round E cfg blocks anchor s =
     (let rr = \<lparr>rr_blocks = [], rr_texts = [], rr_anchor = anchor\<rparr>
      in if should_parallelize_tool_round blocks (tc_require_approval cfg)
         then (case execute_parallel_tool_round E cfg blocks s of
                 (completed, s1) \<Rightarrow>
                   fold (\<lambda>(i, name, input, result). add_result E cfg i name input result) completed (rr, s1))
         else fold (process_block E cfg) blocks (rr, s))"

definition push_round_results :: "turn_config \<Rightarrow> round_results \<Rightarrow> 'w conversation \<Rightarrow> 'w conversation" where
  "push_round_results cfg rr s =
     push_message
       (if tc_structured_round cfg
        then \<lparr>am_role = user_role, am_content = Blocks (rr_blocks rr), am_cache_hint = None\<rparr>
        else text_message user_role (join_with [newline, newline] (rr_texts rr)) None) s"

end
