(* ===== verification/Turn_Loop.thy ===== *)
theory Turn_Loop
  imports Tool_Rounds
begin

text \<open>
  One message of the user (\<open>send_message_with_policy\<close> in \<open>src/state/conversation/send_message.rs\<close>): the
  loop that asks the model, reads its stream of signals, runs the tools it calls and sends their results
  back, until the model answers without a call or a limit is reached.
\<close>

section \<open>Policies and messages\<close>

definition TOOL_REQUIRED_HINTS :: "string list" where
  "TOOL_REQUIRED_HINTS =
     [''file'', ''files'', ''directory'', ''directories'', ''tree'', ''repo'', ''repository'', ''cargo.toml'',
      ''readme'', ''docs/'', ''src/'', ''tests/'', ''version'', ''versions'', ''pinned'', ''count'', ''how many'',
      ''list'', ''show'', ''search'', ''find'', ''path'', ''line'', ''content of'', ''what'' @ [CHR 0x27] @ ''s in'',
      ''whats in'', ''what is in'', ''read it again'', ''read again'']"

definition request_requires_tool_evidence :: "string \<Rightarrow> bool" where
  "request_requires_tool_evidence input = list_ex (contains (to_ascii_lowercase input)) TOOL_REQUIRED_HINTS"

definition TOOL_RETRY_INSTRUCTION :: string where
  "TOOL_RETRY_INSTRUCTION =
     ''Your previous answer did not call any tool call. This request requires tool-backed evidence from the ''
     @ ''workspace. Call the appropriate tool now before answering.''"

definition REPEATED_TOOL_ROUND_INSTRUCTION :: string where
  "REPEATED_TOOL_ROUND_INSTRUCTION =
     ''You repeated the same read/search tool call with unchanged arguments. ''
     @ ''Do not repeat identical tool calls. Use existing tool results to answer now. ''
     @ ''Only call a different tool if new evidence is required.''"

definition FINAL_ANSWER_INSTRUCTION :: string where
  "FINAL_ANSWER_INSTRUCTION =
     ''You have reached the tool-call budget for this turn. ''
     @ ''Stop calling tools and write your final answer now using the information already gathered. ''
     @ ''Summarize the relevant findings and respond directly to the user'' @ [CHR 0x27] @ ''s request.''"

definition parse_bool_flag :: "string \<Rightarrow> bool option" where
  "parse_bool_flag s =
     (let t = to_ascii_lowercase (trim s)
      in if t \<in> {''true'', ''1'', ''yes'', ''on''} then Some True
         else if t \<in> {''false'', ''0'', ''no'', ''off''} then Some False else None)"

definition default_tool_approval_enabled :: "bool \<Rightarrow> bool" where
  "default_tool_approval_enabled is_local \<longleftrightarrow> \<not> is_local"

definition tool_approval_enabled :: "(string \<Rightarrow> string option) \<Rightarrow> bool \<Rightarrow> bool" where
  "tool_approval_enabled env is_local =
     (case Option.bind (env ''VEX_TOOL_CONFIRM'') parse_bool_flag of
        Some b \<Rightarrow> b | None \<Rightarrow> default_tool_approval_enabled is_local)"

definition is_context_overflow :: "string \<Rightarrow> bool" where
  "is_context_overflow body =
     (let lower = to_ascii_lowercase body
      in list_ex (contains lower)
           [''exceeds the available context size'', ''exceeds context'', ''context length exceeded'',
            ''maximum context length'', ''context window''])"

definition builtin_supported_git_tools_response :: "string \<Rightarrow> string option" where
  "builtin_supported_git_tools_response input =
     (let normalized = to_ascii_lowercase input
      in if list_ex (contains normalized) [''git tool'', ''git tools'', ''git command'', ''git commands'']
            \<and> list_ex (contains normalized) [''what'', ''which'', ''can you'', ''available'']
         then Some (''Built-in git tools available here: git_status, git_diff, git_log, git_show, ''
                    @ ''git_add, git_commit.'')
         else None)"

definition guard_prefix :: string where
  "guard_prefix = ''[loop guard]''"

definition render_loop_guard_message :: "string \<Rightarrow> string \<Rightarrow> string" where
  "render_loop_guard_message last_assistant_text reason =
     (if trim last_assistant_text = '''' then ''No final assistant answer was produced.'' else last_assistant_text)
     @ [newline, newline] @ guard_prefix @ '' '' @ reason"

definition loop_limit_reason :: "nat \<Rightarrow> string" where
  "loop_limit_reason max_rounds =
     ''Stopped after '' @ nat_dec max_rounds @ '' tool rounds to prevent an infinite loop.''"

definition repeated_tool_reason :: string where
  "repeated_tool_reason =
     ''Repeated identical read/search tool calls detected; stopped to prevent an infinite loop.''"

definition repeated_mutating_reason :: string where
  "repeated_mutating_reason =
     ''Repeated identical mutating tool calls detected; stopped to prevent an infinite loop. ''
     @ ''Verify edit_file arguments include path, old_str, and new_str.''"

definition missing_evidence_reason :: string where
  "missing_evidence_reason =
     ''Model did not call any tool call required to answer this request with workspace evidence.''"

section \<open>Rendering of tool calls\<close>

definition json_value_to_text_protocol_value :: "(json \<Rightarrow> string) \<Rightarrow> json \<Rightarrow> string" where
  "json_value_to_text_protocol_value display v = (case v of JString t \<Rightarrow> t | _ \<Rightarrow> display v)"

definition render_parameter :: "(json \<Rightarrow> string) \<Rightarrow> json \<Rightarrow> string \<Rightarrow> string" where
  "render_parameter display input key =
     ''<parameter='' @ key @ ''>'' @ [newline]
     @ (case json_get input key of Some v \<Rightarrow> json_value_to_text_protocol_value display v | None \<Rightarrow> '''')
     @ [newline] @ ''</parameter>'' @ [newline]"

definition sorted_keys :: "json \<Rightarrow> string list" where
  "sorted_keys input = (case input of JObject m \<Rightarrow> sort_key byte_key (map fst m) | _ \<Rightarrow> [])"

definition render_tool_calls_for_text_protocol :: "(json \<Rightarrow> string) \<Rightarrow> content_block list \<Rightarrow> string" where
  "render_tool_calls_for_text_protocol display blocks =
     join_with [newline]
       (map (\<lambda>(i, name, input).
               ''<function='' @ name @ ''>'' @ [newline]
               @ concat (map (render_parameter display input) (sorted_keys input)) @ ''</function>'')
          (tool_uses blocks))"

definition render_tool_calls_for_history :: "preview_env \<Rightarrow> content_block list \<Rightarrow> string" where
  "render_tool_calls_for_history P blocks =
     join_with [newline]
       (map (\<lambda>(i, name, input).
               let preview = tool_input_preview P name input
               in ''[tool call] '' @ name @ (if trim preview = '''' then '''' else '': '' @ preview))
          (tool_uses blocks))"

definition tool_round_signature :: "(json \<Rightarrow> string) \<Rightarrow> content_block list \<Rightarrow> string list" where
  "tool_round_signature print blocks = map (\<lambda>(i, name, input). name @ '':'' @ print input) (tool_uses blocks)"

section \<open>The stream of one answer\<close>

definition accumulate_usage_envelope :: "token_usage_envelope option \<Rightarrow> pulse_tokens \<Rightarrow> pulse_tokens" where
  "accumulate_usage_envelope usage t =
     (case usage of
        None \<Rightarrow> t
      | Some u \<Rightarrow>
          \<lparr>pt_input = sat_add (pt_input t) (tue_input u), pt_output = sat_add (pt_output t) (tue_output u),
           pt_estimated = (pt_estimated t \<or> tue_estimated u),
           pt_cache_creation_input_tokens =
             sat_add (pt_cache_creation_input_tokens t) (tue_cache_creation_input u),
           pt_cache_read_input_tokens = sat_add (pt_cache_read_input_tokens t) (tue_cache_read_input u)\<rparr>)"

record stream_round =
  sr_text :: string
  sr_tools :: "content_block list"
  sr_positions :: "(string \<times> nat) list"
  sr_pending_blocks :: "nat list"
  sr_block_of_call :: "(string \<times> nat) list"
  sr_call_of_block :: "(nat \<times> string) list"
  sr_completed :: "string list"
  sr_saw_usage :: bool
  sr_saw_native :: bool
  sr_tokens :: pulse_tokens

definition stream_round_start :: "pulse_tokens \<Rightarrow> stream_round" where
  "stream_round_start tokens =
     \<lparr>sr_text = '''', sr_tools = [], sr_positions = [], sr_pending_blocks = [], sr_block_of_call = [],
      sr_call_of_block = [], sr_completed = [], sr_saw_usage = False, sr_saw_native = False,
      sr_tokens = tokens\<rparr>"

definition tagged_prefix :: string where
  "tagged_prefix = ''toolu_tagged_''"

definition place_tool :: "string \<Rightarrow> string \<Rightarrow> json \<Rightarrow> stream_round \<Rightarrow> stream_round" where
  "place_tool i name input sr =
     (let block = ToolUseContent i name input None
      in case map_of (sr_positions sr) i of
           Some p \<Rightarrow> sr\<lparr>sr_tools := (sr_tools sr)[p := block]\<rparr>
         | None \<Rightarrow> sr\<lparr>sr_positions := AList.update i (length (sr_tools sr)) (sr_positions sr),
                     sr_tools := sr_tools sr @ [block]\<rparr>)"

fun rename_tool :: "string option \<Rightarrow> content_block \<Rightarrow> content_block" where
  "rename_tool (Some n) (ToolUseContent i name input md) = ToolUseContent i n input md"
| "rename_tool _ b = b"

fun reinput_tool :: "json option \<Rightarrow> content_block \<Rightarrow> content_block" where
  "reinput_tool (Some v) (ToolUseContent i name input md) = ToolUseContent i name v md"
| "reinput_tool _ b = b"

definition update_tool :: "string \<Rightarrow> string option \<Rightarrow> json option \<Rightarrow> stream_round \<Rightarrow> stream_round" where
  "update_tool i name arguments sr =
     (case map_of (sr_positions sr) i of
        Some p \<Rightarrow> sr\<lparr>sr_tools := (sr_tools sr)[p := reinput_tool arguments (rename_tool name (sr_tools sr ! p))]\<rparr>
      | None \<Rightarrow> sr)"

definition tool_started ::
  "'w turn_env \<Rightarrow> runtime_signal \<Rightarrow> string \<Rightarrow> string \<Rightarrow> json \<Rightarrow> string \<Rightarrow> stream_round \<times> 'w conversation
   \<Rightarrow> stream_round \<times> 'w conversation" where
  "tool_started E signal i name arguments started_at st =
     (case st of (sr, s) \<Rightarrow>
        (let s1 = (case te_parse_rfc3339 E started_at of
                     Some t \<Rightarrow> record_tool_call_started_at i t s | None \<Rightarrow> s);
             (sr1, s2) =
               (case sr_pending_blocks sr of
                  [] \<Rightarrow> (sr, s1)
                | index # rest \<Rightarrow>
                    (sr\<lparr>sr_pending_blocks := rest,
                        sr_block_of_call := AList.update i index (sr_block_of_call sr),
                        sr_call_of_block := AList.update index i (sr_call_of_block sr)\<rparr>,
                     emit_stream_block_start_update E index (ToolCall i name arguments Pending) s1))
         in (place_tool i name arguments sr1, apply_doc_delta E signal s2)))"

definition arguments_changed ::
  "'w turn_env \<Rightarrow> runtime_signal \<Rightarrow> string \<Rightarrow> string option \<Rightarrow> string \<Rightarrow> json option \<Rightarrow> stream_round \<times> 'w conversation
   \<Rightarrow> stream_round \<times> 'w conversation" where
  "arguments_changed E signal i name delta arguments st =
     (case st of (sr, s) \<Rightarrow>
        (let s1 = (case map_of (sr_block_of_call sr) i of
                     Some index \<Rightarrow> emit_stream_update E (BlockDelta_update index delta) s | None \<Rightarrow> s);
             s2 = (case arguments of
                     Some v \<Rightarrow> emit_stream_update E (ToolCallArguments_update i name v) s1 | None \<Rightarrow> s1)
         in (update_tool i name arguments sr, apply_doc_delta E signal s2)))"

definition tool_finished ::
  "'w turn_env \<Rightarrow> runtime_signal \<Rightarrow> string \<Rightarrow> string \<Rightarrow> bool \<Rightarrow> stream_round \<times> 'w conversation
   \<Rightarrow> stream_round \<times> 'w conversation" where
  "tool_finished E signal i body is_error st =
     (case st of (sr, s) \<Rightarrow>
        (sr\<lparr>sr_completed := List.insert i (sr_completed sr)\<rparr>,
         push_tool_result_block E i body is_error (apply_doc_delta E signal s)))"

definition stream_error_text :: "string \<Rightarrow> string \<Rightarrow> string" where
  "stream_error_text code message = ''stream error ('' @ code @ ''): '' @ message"

fun block_start ::
  "'w turn_env \<Rightarrow> nat \<Rightarrow> stream_block \<Rightarrow> stream_round \<times> 'w conversation \<Rightarrow> stream_round \<times> 'w conversation" where
  "block_start E index (ToolCall i n v status) (sr, s) =
     (sr\<lparr>sr_saw_native := (sr_saw_native sr \<or> \<not> starts_with i tagged_prefix),
         sr_pending_blocks := sr_pending_blocks sr @ [index]\<rparr>, s)"
| "block_start E index (ToolResult i body e) (sr, s) =
     (sr, emit_stream_block_start_update E index (ToolResult i body e) s)"
| "block_start E index block (sr, s) = (sr, upsert_turn_block E index block s)"

definition block_delta ::
  "'w turn_env \<Rightarrow> nat \<Rightarrow> string \<Rightarrow> stream_round \<times> 'w conversation \<Rightarrow> stream_round \<times> 'w conversation" where
  "block_delta E index delta st =
     (case st of (sr, s) \<Rightarrow>
        (if map_of (sr_call_of_block sr) index \<noteq> None then (sr, s)
         else (case append_text_delta E index delta s of
                 (appended, s1) \<Rightarrow> (sr\<lparr>sr_text := sr_text sr @ appended\<rparr>, s1))))"

definition block_complete ::
  "'w turn_env \<Rightarrow> runtime_signal \<Rightarrow> nat \<Rightarrow> stream_round \<times> 'w conversation \<Rightarrow> stream_round \<times> 'w conversation" where
  "block_complete E signal index st =
     (case st of (sr, s) \<Rightarrow>
        (sr, emit_stream_update E (BlockComplete_update index)
               (if map_of (sr_call_of_block sr) index \<noteq> None then s else apply_doc_delta E signal s)))"

fun handle_signal ::
  "'w turn_env \<Rightarrow> runtime_signal \<Rightarrow> stream_round \<times> 'w conversation \<Rightarrow> stream_round \<times> 'w conversation" where
  "handle_signal E (PulseStart md) st = st"
| "handle_signal E (TranscriptLine l) (sr, s) =
     (sr, emit_stream_update E (TranscriptLine_update l) (apply_doc_delta E (TranscriptLine l) s))"
| "handle_signal E (TranscriptBlockStart index block) st = block_start E index block st"
| "handle_signal E (TranscriptBlockDelta index delta) st = block_delta E index delta st"
| "handle_signal E (TranscriptBlockComplete index) st =
     block_complete E (TranscriptBlockComplete index) index st"
| "handle_signal E (ToolCallStarted i name arguments status started_at) st =
     tool_started E (ToolCallStarted i name arguments status started_at) i name arguments started_at st"
| "handle_signal E (ToolCallArgumentsDelta i name delta status arguments trimmed) st =
     arguments_changed E (ToolCallArgumentsDelta i name delta status arguments trimmed) i name delta arguments st"
| "handle_signal E (ToolCallCompleted i name status started_at completed_at dur body) st =
     tool_finished E (ToolCallCompleted i name status started_at completed_at dur body) i body False st"
| "handle_signal E (ToolCallFailed i name status started_at completed_at dur body) st =
     tool_finished E (ToolCallFailed i name status started_at completed_at dur body) i body True st"
| "handle_signal E (ServerMetadata md) (sr, s) =
     (sr, apply_doc_delta E (ServerMetadata md) (emit_server_metadata_update E md s))"
| "handle_signal E (UsageUpdated usage) (sr, s) =
     (sr\<lparr>sr_saw_usage := True, sr_tokens := accumulate_usage_envelope (Some usage) (sr_tokens sr)\<rparr>, s)"
| "handle_signal E (PulseEnd status usage changed_files) (sr, s) =
     ((if sr_saw_usage sr then sr
       else sr\<lparr>sr_tokens := accumulate_usage_envelope usage (sr_tokens sr)\<rparr>), s)"
| "handle_signal E (Error_signal code message recoverable) (sr, s) =
     (sr, emit_stream_update E (StreamError_update (stream_error_text code message)) s)"
| "handle_signal E signal (sr, s) = (sr, apply_doc_delta E signal s)"

fun consume ::
  "'w turn_env \<Rightarrow> (string + runtime_signal) list \<Rightarrow> stream_round \<times> 'w conversation
   \<Rightarrow> string option \<times> stream_round \<times> 'w conversation" where
  "consume E [] st = (None, st)"
| "consume E (Inl e # items) st = (Some e, st)"
| "consume E (Inr signal # items) st = consume E items (handle_signal E signal st)"

text \<open>The calls left for the client: those the stream did not complete itself.\<close>

definition open_calls :: "stream_round \<Rightarrow> content_block list" where
  "open_calls sr =
     filter (\<lambda>b. case tool_use b of Some (i, name, input) \<Rightarrow> i \<notin> set (sr_completed sr) | None \<Rightarrow> True) (sr_tools sr)"

section \<open>The rounds of a turn\<close>

record turn_setup =
  tu_user_input :: string
  tu_policy :: pulse_tool_policy
  tu_requires_evidence :: bool
  tu_limits :: history_limits
  tu_timeout_secs :: nat
  tu_max_rounds :: nat
  tu_require_approval :: bool

record turn_loop =
  tl_rounds :: nat
  tl_forced_retries :: nat
  tl_saw_any_tool :: bool
  tl_previous_signature :: "string list option"
  tl_seen_read_only :: "string list list"
  tl_repeated_read_only :: nat
  tl_repeated_mutating :: nat
  tl_nudge_used :: bool
  tl_final_attempted :: bool
  tl_read_anchor :: "(string \<times> nat option) option"
  tl_last_text :: string
  tl_tokens :: pulse_tokens
  tl_overflow_retries :: nat
  tl_preserve_user :: bool
  tl_user_anchor :: nat

definition turn_loop_start :: "bool \<Rightarrow> nat \<Rightarrow> turn_loop" where
  "turn_loop_start preserve anchor =
     \<lparr>tl_rounds = 0, tl_forced_retries = 0, tl_saw_any_tool = False, tl_previous_signature = None,
      tl_seen_read_only = [], tl_repeated_read_only = 0, tl_repeated_mutating = 0, tl_nudge_used = False,
      tl_final_attempted = False, tl_read_anchor = None, tl_last_text = '''',
      tl_tokens = pulse_tokens_default, tl_overflow_retries = 0, tl_preserve_user = preserve,
      tl_user_anchor = anchor\<rparr>"

datatype 'w round_end =
    Finished "string + string" "'w conversation"
  | Again turn_loop "'w conversation"

text \<open>The end of a turn by a guard: the guard's line is shown, the turn is closed.\<close>

definition stop_with_guard ::
  "'w turn_env \<Rightarrow> pulse_outcome \<Rightarrow> pulse_tokens \<Rightarrow> string \<Rightarrow> 'w conversation \<Rightarrow> 'w round_end" where
  "stop_with_guard E outcome tokens msg s =
     (let s1 = (case List.find (\<lambda>l. starts_with l guard_prefix) (str_lines msg) of
                  Some guard_line \<Rightarrow> emit_stream_update E (TranscriptLine_update guard_line) s
                | None \<Rightarrow> s)
      in Finished (Inr msg) (finish_turn_doc E outcome tokens s1))"

definition fail_turn :: "'w turn_env \<Rightarrow> string \<Rightarrow> pulse_tokens \<Rightarrow> 'w conversation \<Rightarrow> 'w round_end" where
  "fail_turn E e tokens s = Finished (Inl e) (finish_turn_doc E (Failed_outcome e) tokens s)"

definition arrow :: string where
  "arrow = [CHR 0xE2, CHR 0x86, CHR 0x92]"

definition overflow_summary :: "nat \<Rightarrow> nat \<Rightarrow> nat \<Rightarrow> string" where
  "overflow_summary before after keep =
     ''compacted '' @ nat_dec before @ '' '' @ arrow @ '' '' @ nat_dec after
     @ '' messages to fit server window (keep '' @ nat_dec keep @ '')''"

definition overflow_keep :: "nat \<Rightarrow> nat" where
  "overflow_keep retries = (if retries = 0 then 4 else if retries = 1 then 2 else 1)"

text \<open>The server refused the messages as too long: compact them and try again, without counting the
  round.\<close>

definition overflow_retry :: "'w turn_env \<Rightarrow> turn_loop \<Rightarrow> 'w conversation \<Rightarrow> 'w round_end" where
  "overflow_retry E lp s =
     (let keep = overflow_keep (tl_overflow_retries lp);
          before = length (cm_api_messages s);
          (index, messages) = compact_for_context_overflow_preserving keep
             (if tl_preserve_user lp then tl_user_anchor lp else before) (cm_api_messages s);
          after = length messages
      in Again (lp\<lparr>tl_user_anchor := (if tl_preserve_user lp then index else tl_user_anchor lp),
                   tl_overflow_retries := tl_overflow_retries lp + 1, tl_rounds := tl_rounds lp - 1\<rparr>)
           (emit_stream_update E (ContextCompacted_update before after (overflow_summary before after keep))
              (s\<lparr>cm_api_messages := messages\<rparr>)))"

text \<open>What the calls of a round say about repetition.\<close>

definition note_calls :: "(json \<Rightarrow> string) \<Rightarrow> content_block list \<Rightarrow> turn_loop \<Rightarrow> turn_loop" where
  "note_calls print blocks lp =
     (if blocks = []
      then lp\<lparr>tl_previous_signature := None, tl_repeated_read_only := 0, tl_repeated_mutating := 0\<rparr>
      else
        (let signature = tool_round_signature print blocks;
             read_only = is_read_only_tool_round blocks
         in lp\<lparr>tl_saw_any_tool := True,
               tl_seen_read_only := (if read_only then List.insert signature (tl_seen_read_only lp)
                                     else tl_seen_read_only lp),
               tl_repeated_read_only :=
                 (if read_only \<and> signature \<in> set (tl_seen_read_only lp) then tl_repeated_read_only lp + 1 else 0),
               tl_repeated_mutating :=
                 (if is_mutating_tool_round blocks \<and> tl_previous_signature lp = Some signature
                  then tl_repeated_mutating lp + 1 else 0),
               tl_previous_signature := Some signature\<rparr>))"

definition has_empty_path_call :: "content_block list \<Rightarrow> bool" where
  "has_empty_path_call blocks =
     list_ex (\<lambda>(i, name, input). name \<in> {''read_file'', ''list_files''}
                               \<and> missing_read_only_location_prompt name input \<noteq> None) (tool_uses blocks)"

datatype repetition = Go_on | Nudge | Stop_repeating

definition repetition_verdict :: "bool \<Rightarrow> nat \<Rightarrow> content_block list \<Rightarrow> turn_loop \<Rightarrow> repetition" where
  "repetition_verdict is_local max_rounds blocks lp =
     (let empty_path = has_empty_path_call blocks;
          repeat_threshold = (if empty_path \<or> is_local then 1 else 2)
      in if tl_repeated_read_only lp < repeat_threshold then Go_on
         else if \<not> tl_nudge_used lp \<and> tl_rounds lp < max_rounds \<and> \<not> empty_path then Nudge
         else Stop_repeating)"

text \<open>The message of the assistant for the history.\<close>

definition assistant_message ::
  "'w turn_env \<Rightarrow> history_limits \<Rightarrow> bool \<Rightarrow> string \<Rightarrow> content_block list \<Rightarrow> api_message" where
  "assistant_message E limits structured t blocks =
     (let limit = hl_max_assistant_history_chars limits
      in if structured
         then \<lparr>am_role = assistant_role,
               am_content = Blocks ((if t = '''' then [] else [TextContent (truncate_for_history t limit) None]) @ blocks),
               am_cache_hint = None\<rparr>
         else text_message assistant_role
                (truncate_for_history
                   (if blocks \<noteq> [] then
                      (let rendered = render_tool_calls_for_history (te_preview E) blocks
                       in if t = '''' then rendered else t @ [newline] @ rendered)
                    else t) limit) None)"

definition turn_config_of :: "turn_setup \<Rightarrow> bool \<Rightarrow> turn_config" where
  "turn_config_of U structured =
     \<lparr>tc_user_input = tu_user_input U, tc_policy = tu_policy U, tc_structured_round = structured,
      tc_max_result_chars = hl_max_tool_result_history_chars (tu_limits U),
      tc_timeout_secs = tu_timeout_secs U, tc_require_approval = tu_require_approval U\<rparr>"

text \<open>An answer without calls ends the turn, unless a local model should have used a tool.\<close>

definition answer_without_calls ::
  "'w turn_env \<Rightarrow> turn_setup \<Rightarrow> turn_loop \<Rightarrow> string \<Rightarrow> 'w conversation \<Rightarrow> 'w round_end" where
  "answer_without_calls E U lp t s =
     (let unsupported = (te_is_local E \<and> tu_requires_evidence U \<and> \<not> tl_saw_any_tool lp)
      in if unsupported \<and> tl_forced_retries lp < 2 \<and> tl_rounds lp < tu_max_rounds U
         then Again (lp\<lparr>tl_forced_retries := tl_forced_retries lp + 1\<rparr>)
                (push_message (text_message user_role TOOL_RETRY_INSTRUCTION None) s)
         else if unsupported
         then stop_with_guard E Completed_outcome (cm_last_turn_tokens s)
                (render_loop_guard_message t missing_evidence_reason) s
         else
           Finished (Inr t)
             (finish_turn_doc E Completed_outcome (tl_tokens lp)
                ((promote_thinking_blocks_to_final_text E s)\<lparr>cm_last_turn_tokens := tl_tokens lp\<rparr>)))"

definition run_calls ::
  "'w turn_env \<Rightarrow> turn_setup \<Rightarrow> turn_loop \<Rightarrow> bool \<Rightarrow> content_block list \<Rightarrow> 'w conversation \<Rightarrow> 'w round_end" where
  "run_calls E U lp structured blocks s =
     (let cfg = turn_config_of U structured;
          (rr, s1) = run_tool_round E cfg blocks (tl_read_anchor lp) s
      in Again (lp\<lparr>tl_read_anchor := rr_anchor rr\<rparr>) (push_round_results cfg rr s1))"

definition use_structured_round :: "'w turn_env \<Rightarrow> bool \<Rightarrow> bool" where
  "use_structured_round E saw_native \<longleftrightarrow>
     te_structured_mode E \<and> te_tool_policy E \<noteq> Chat_policy \<and> (\<not> te_is_local E \<or> saw_native)"

text \<open>After the stream: \<open>t\<close> is the text of the answer and \<open>blocks\<close> are the calls left open.\<close>

definition after_stream ::
  "'w turn_env \<Rightarrow> turn_setup \<Rightarrow> turn_loop \<Rightarrow> bool \<Rightarrow> string \<Rightarrow> content_block list \<Rightarrow> 'w conversation
   \<Rightarrow> 'w round_end" where
  "after_stream E U lp0 structured t blocks s =
     (let lp = note_calls (te_json E) blocks lp0;
          verdict = (if blocks = [] then Go_on else repetition_verdict (te_is_local E) (tu_max_rounds U) blocks lp)
      in if blocks \<noteq> [] \<and> 1 \<le> tl_repeated_mutating lp
         then stop_with_guard E Completed_outcome (cm_last_turn_tokens s)
                (render_loop_guard_message t repeated_mutating_reason) s
         else if verdict = Stop_repeating
         then stop_with_guard E Completed_outcome (cm_last_turn_tokens s)
                (render_loop_guard_message t repeated_tool_reason) s
         else
           (let s1 = push_message (assistant_message E (tu_limits U) structured t blocks) s;
                lp1 = lp\<lparr>tl_last_text := t\<rparr>
            in if verdict = Nudge
               then Again (lp1\<lparr>tl_nudge_used := True\<rparr>)
                      (push_message (text_message user_role REPEATED_TOOL_ROUND_INSTRUCTION None) s1)
               else if blocks = [] then answer_without_calls E U lp1 t s1
               else run_calls E U lp1 structured blocks s1))"

text \<open>The request is logged with the messages it carries.\<close>

definition asked :: "'w conversation \<Rightarrow> 'w \<Rightarrow> 'w conversation" where
  "asked s w = log_event (Asked (cm_api_messages s)) (s\<lparr>cm_world := w\<rparr>)"

definition ask_model ::
  "'w turn_env \<Rightarrow> turn_setup \<Rightarrow> turn_loop \<Rightarrow> 'w conversation \<Rightarrow> 'w round_end" where
  "ask_model E U lp s =
     (case te_stream E (cm_api_messages s) (cm_world s) of
        (Inl e, w) \<Rightarrow>
          (let s1 = asked s w
           in if tl_overflow_retries lp < 3 \<and> is_context_overflow e then overflow_retry E lp s1
              else fail_turn E e (tl_tokens lp) s1)
      | (Inr items, w) \<Rightarrow>
          (case consume E items (stream_round_start (tl_tokens lp), asked s w) of
             (Some e, sr, s1) \<Rightarrow> fail_turn E e (sr_tokens sr) s1
           | (None, sr, s1) \<Rightarrow>
               after_stream E U (lp\<lparr>tl_overflow_retries := 0, tl_tokens := sr_tokens sr\<rparr>)
                 (use_structured_round E (sr_saw_native sr)) (sr_text sr) (open_calls sr) s1))"

definition prune_history :: "turn_setup \<Rightarrow> turn_loop \<Rightarrow> 'w conversation \<Rightarrow> turn_loop \<times> 'w conversation" where
  "prune_history U lp s =
     (case prune_message_history_preserving (hl_max_api_messages (tu_limits U)) (tl_user_anchor lp)
             (cm_api_messages s) of
        (anchor, messages) \<Rightarrow> (lp\<lparr>tl_user_anchor := anchor\<rparr>, s\<lparr>cm_api_messages := messages\<rparr>))"

definition turn_round ::
  "'w turn_env \<Rightarrow> turn_setup \<Rightarrow> turn_loop \<Rightarrow> 'w conversation \<Rightarrow> 'w round_end" where
  "turn_round E U lp0 s0 =
     (case prune_history U lp0 (advance_round_start s0) of
        (lp1, s) \<Rightarrow>
          (let lp = lp1\<lparr>tl_rounds := tl_rounds lp1 + 1\<rparr>
           in if tl_rounds lp \<le> tu_max_rounds U then ask_model E U lp s
              else if \<not> tl_final_attempted lp
              then ask_model E U (lp\<lparr>tl_final_attempted := True\<rparr>)
                     (push_message (text_message user_role FINAL_ANSWER_INSTRUCTION None) s)
              else stop_with_guard E MaxTurnsReached_pulse pulse_tokens_default
                     (render_loop_guard_message (tl_last_text lp) (loop_limit_reason (tu_max_rounds U))) s))"

section \<open>The turn\<close>

text \<open>A round that does not end the turn either counts, or was an overflow that used up a retry.\<close>

lemma after_stream_again:
  "after_stream E U lp structured t blocks s = Again lp' s'
   \<Longrightarrow> tl_final_attempted lp' = tl_final_attempted lp \<and> tl_rounds lp' = tl_rounds lp
     \<and> tl_overflow_retries lp' = tl_overflow_retries lp"
  by (auto simp: after_stream_def note_calls_def stop_with_guard_def answer_without_calls_def run_calls_def Let_def
           split: if_splits prod.splits)

lemma ask_model_again:
  assumes "ask_model E U lp s = Again lp' s'"
  shows "tl_final_attempted lp' = tl_final_attempted lp
         \<and> (tl_rounds lp' = tl_rounds lp \<and> tl_overflow_retries lp' = 0
            \<or> tl_rounds lp' = tl_rounds lp - 1 \<and> tl_overflow_retries lp < 3
              \<and> tl_overflow_retries lp' = Suc (tl_overflow_retries lp))"
proof (cases "te_stream E (cm_api_messages s) (cm_world s)")
  case (Pair r w)
  show ?thesis
  proof (cases r)
    case (Inl e)
    then show ?thesis using assms Pair
      by (auto simp: ask_model_def fail_turn_def overflow_retry_def Let_def split: if_splits prod.splits)
  next
    case (Inr items)
    then show ?thesis using assms Pair
      by (auto simp: ask_model_def fail_turn_def split: prod.splits option.splits dest!: after_stream_again)
  qed
qed

lemma prune_history_keeps:
  assumes "prune_history U lp s = (lp', s')"
  shows "tl_rounds lp' = tl_rounds lp" "tl_final_attempted lp' = tl_final_attempted lp"
    "tl_overflow_retries lp' = tl_overflow_retries lp" "tl_tokens lp' = tl_tokens lp"
    "cm_events s' = cm_events s" "cm_task_doc s' = cm_task_doc s"
  using assms by (auto simp: prune_history_def split: prod.splits)

lemma turn_round_again:
  assumes "turn_round E U lp s = Again lp' s'"
  shows "\<not> (tl_final_attempted lp \<and> tu_max_rounds U \<le> tl_rounds lp)
         \<and> tl_final_attempted lp' = (tl_final_attempted lp \<or> tu_max_rounds U \<le> tl_rounds lp)
         \<and> (tl_rounds lp' = Suc (tl_rounds lp) \<and> tl_overflow_retries lp' = 0
            \<or> tl_rounds lp' = tl_rounds lp \<and> tl_overflow_retries lp < 3
              \<and> tl_overflow_retries lp' = Suc (tl_overflow_retries lp))"
proof (cases "prune_history U lp (advance_round_start s)")
  case (Pair lp1 s1)
  with prune_history_keeps [OF Pair] assms show ?thesis
    by (auto simp: turn_round_def stop_with_guard_def Let_def Suc_le_eq not_less split: if_splits
             dest!: ask_model_again)
qed

function turn_loop_run ::
  "'w turn_env \<Rightarrow> turn_setup \<Rightarrow> turn_loop \<Rightarrow> 'w conversation \<Rightarrow> (string + string) \<times> 'w conversation" where
  "turn_loop_run E U lp s =
     (case turn_round E U lp s of
        Finished result s' \<Rightarrow> (result, s')
      | Again lp' s' \<Rightarrow> turn_loop_run E U lp' s')"
  by pat_completeness auto
termination
  by (relation "measures [\<lambda>(E, U, lp, s). if tl_final_attempted lp then 0 else 1,
                          \<lambda>(E, U, lp, s). tu_max_rounds U - tl_rounds lp,
                          \<lambda>(E, U, lp, s). 3 - tl_overflow_retries lp]")
     (auto dest!: turn_round_again)

declare turn_loop_run.simps [simp del]

definition turn_setup_of :: "'w turn_env \<Rightarrow> string \<Rightarrow> pulse_tool_policy \<Rightarrow> turn_setup" where
  "turn_setup_of E input policy =
     \<lparr>tu_user_input = input, tu_policy = policy,
      tu_requires_evidence = request_requires_tool_evidence input,
      tu_limits = resolve_history_limits (te_vars E) (te_is_local E),
      tu_timeout_secs = resolve_tool_timeout (te_vars E) (te_is_local E),
      tu_max_rounds = resolve_max_tool_rounds (te_vars E) (te_is_local E),
      tu_require_approval = tool_approval_enabled (te_vars E) (te_is_local E)\<rparr>"

definition proactive_summary :: "nat \<Rightarrow> nat \<Rightarrow> string" where
  "proactive_summary before after =
     nat_dec before @ '' '' @ arrow @ '' '' @ nat_dec after @ '' messages (proactive)''"

text \<open>Before the first round: old tool results are condensed and the history is compacted when it is
  long; the answer is whether it was.\<close>

definition prepare_history :: "'w turn_env \<Rightarrow> bool \<Rightarrow> 'w conversation \<Rightarrow> bool \<times> 'w conversation" where
  "prepare_history E requires_evidence s0 =
     (let s = s0\<lparr>cm_api_messages :=
                  condense_old_tool_results (resolve_history_keep_turns (te_vars E)) (cm_api_messages s0)\<rparr>
      in case run_proactive_compaction (te_json E) (te_is_local E) (cm_compaction_config s) (te_context_window E)
                requires_evidence (cm_api_messages s) of
           (Some (before, after, summary), messages) \<Rightarrow>
             (True, emit_stream_update E (ContextCompacted_update before after (proactive_summary before after))
                      (s\<lparr>cm_api_messages := messages\<rparr>))
         | (None, messages) \<Rightarrow> (False, s\<lparr>cm_api_messages := messages\<rparr>))"

text \<open>\<open>None\<close> is the panic of \<open>begin_turn\<close> when the last turn was left open.\<close>

definition start_message ::
  "'w turn_env \<Rightarrow> string \<Rightarrow> pulse_tool_policy \<Rightarrow> string option \<Rightarrow> 'w conversation \<Rightarrow> 'w conversation option" where
  "start_message E input policy ctx s =
     map_option (push_user_message input (shared_prefix_cache_hint E ctx))
       (begin_turn_doc E input policy
          (ensure_task_doc E (s\<lparr>cm_last_turn_tokens := pulse_tokens_default,
                                cm_world := te_clear_ledger E (cm_world s)\<rparr>)))"

definition answer_message ::
  "'w turn_env \<Rightarrow> string \<Rightarrow> pulse_tool_policy \<Rightarrow> 'w conversation \<Rightarrow> (string + string) \<times> 'w conversation" where
  "answer_message E input policy s =
     (case builtin_supported_git_tools_response input of
        Some response \<Rightarrow>
          (Inr response,
           finish_turn_doc E Completed_outcome pulse_tokens_default
             (emit_text_update E response (push_message (text_message assistant_role response None) s)))
      | None \<Rightarrow>
          (let U = turn_setup_of E input policy;
               anchor = length (cm_api_messages s) - 1;
               (preserve, s1) = prepare_history E (tu_requires_evidence U) s
           in turn_loop_run E U (turn_loop_start preserve anchor) s1))"

definition send_message_with_policy ::
  "'w turn_env \<Rightarrow> string \<Rightarrow> pulse_tool_policy \<Rightarrow> string option \<Rightarrow> 'w conversation
   \<Rightarrow> ((string + string) \<times> 'w conversation) option" where
  "send_message_with_policy E input policy ctx s =
     map_option (answer_message E input policy) (start_message E input policy ctx s)"

end
