(* ===== verification/Turn_Steps.thy ===== *)
theory Turn_Steps
  imports Turn_Loop
begin

text \<open>
  The relations between two states of the conversation that hold along a turn. A relation kept by the
  primitive steps (an update sent, a signal applied to the document, a field of the manager changed) is
  kept by everything the manager does with a stream; one that is also kept by a request to the model and
  by a round of calls is kept by the whole turn, up to the closing of the turn's document.
\<close>

section \<open>Reading a stream\<close>

locale turn_steps =
  fixes E :: "'w turn_env"
    and R :: "'w conversation \<Rightarrow> 'w conversation \<Rightarrow> bool"
  assumes trans_steps: "R s t \<Longrightarrow> R t u \<Longrightarrow> R s u"
    and frame: "cm_events t = cm_events s \<Longrightarrow> cm_task_doc t = cm_task_doc s \<Longrightarrow> R s t"
    and sent: "R s (log_event (Sent upd) s)"
    and signal: "cm_task_doc s = Some doc
      \<Longrightarrow> R s (s\<lparr>cm_task_doc := Some (snd (apply_runtime_signal now1 now2 sig doc))\<rparr>)"
begin

lemma refl_steps [simp, intro!]: "R s s"
  by (simp add: frame)

lemma framed: "R s t \<Longrightarrow> cm_events u = cm_events t \<Longrightarrow> cm_task_doc u = cm_task_doc t \<Longrightarrow> R s u"
  by (blast intro: trans_steps frame)

lemma update_steps [intro]:
  assumes "R s t"
  shows "R s (t\<lparr>cm_world := w\<rparr>)" "R s (t\<lparr>cm_round_stream_block_count := n\<rparr>)"
    "R s (t\<lparr>cm_tool_call_started_at := m\<rparr>)" "R s (t\<lparr>cm_api_messages := ms\<rparr>)"
    "R s (t\<lparr>cm_read_cache := c\<rparr>)" "R s (t\<lparr>cm_undo_stack := us\<rparr>)" "R s (t\<lparr>cm_last_turn_tokens := tk\<rparr>)"
    "R s (t\<lparr>cm_round_entry_start := n, cm_round_stream_block_count := k\<rparr>)"
    "R s (t\<lparr>cm_api_messages := ms, cm_read_cache := c\<rparr>)"
  by (rule framed [OF assms]; simp)+

lemma push_message_steps [intro]: "R s t \<Longrightarrow> R s (push_message m t)"
  by (auto simp: push_message_def)

lemma push_undo_steps [intro]: "R s t \<Longrightarrow> R s (push_undo_checkpoint cp t)"
  by (auto simp: push_undo_checkpoint_def)

lemma advance_steps [intro]: "R s t \<Longrightarrow> R s (advance_round_start t)"
  by (auto simp: advance_round_start_def)

lemma emit_steps [intro]: "R s t \<Longrightarrow> R s (emit_stream_update E u t)"
  by (auto simp: emit_stream_update_def log_event_def [symmetric] intro: trans_steps sent)

lemma emit_text_steps [intro]: "R s t \<Longrightarrow> R s (emit_text_update E u t)"
  by (simp add: emit_text_update_def emit_steps)

lemma read_now_steps: "R s t \<Longrightarrow> R s (snd (read_now_ms E t))"
  by (auto simp: read_now_ms_def split: prod.splits)

lemma read_utc_steps: "R s t \<Longrightarrow> R s (snd (read_utc_now E t))"
  by (auto simp: read_utc_now_def split: prod.splits)

lemma fold_steps: "(\<And>x t. R s t \<Longrightarrow> R s (f x t)) \<Longrightarrow> R s t \<Longrightarrow> R s (fold f xs t)"
  by (induction xs arbitrary: t) auto

lemma fold_snd_steps:
  "(\<And>x rr t. R s t \<Longrightarrow> R s (snd (f x (rr, t)))) \<Longrightarrow> R s t \<Longrightarrow> R s (snd (fold f xs (rr, t)))"
proof (induction xs arbitrary: rr t)
  case (Cons x xs)
  from Cons.prems have "R s (snd (f x (rr, t)))" by blast
  with Cons.IH [of "snd (f x (rr, t))" "fst (f x (rr, t))"] Cons.prems(1) show ?case by simp
qed simp

lemma doc_steps [intro]:
  assumes "R s t"
  shows "R s (apply_doc_delta E sig t)"
proof (cases "cm_task_doc t")
  case None
  with assms show ?thesis by (simp add: apply_doc_delta_def)
next
  case (Some doc)
  obtain n1 t1 n2 t2 where r: "read_now_ms E t = (n1, t1)" "read_now_ms E t1 = (n2, t2)" by fastforce
  then have d: "cm_task_doc t2 = Some doc" using Some by (auto simp: read_now_ms_def split: prod.splits)
  have "R s t2" using assms read_now_steps r by (metis snd_conv)
  with d r Some show ?thesis by (auto simp: apply_doc_delta_def intro: trans_steps signal)
qed

lemma pad_steps: "R s t \<Longrightarrow> R s (pad_block E i t)"
  by (simp add: pad_block_def doc_steps emit_steps update_steps)

lemma block_start_update_steps [intro]: "R s t \<Longrightarrow> R s (emit_stream_block_start_update E i b t)"
  by (auto simp: emit_stream_block_start_update_def Let_def intro!: emit_steps update_steps fold_steps pad_steps)

lemma record_started_steps [intro]: "R s t \<Longrightarrow> R s (record_tool_call_started_at i n t)"
  by (simp add: record_tool_call_started_at_def update_steps)

lemma upsert_steps [intro]: "R s t \<Longrightarrow> R s (upsert_turn_block E i b t)"
  by (auto simp: upsert_turn_block_def case_prod_unfold Let_def
           intro!: block_start_update_steps doc_steps record_started_steps read_utc_steps
           split: stream_block.split)

lemma append_text_steps: "R s t \<Longrightarrow> R s (snd (append_text_delta E i d t))"
  by (auto simp: append_text_delta_def Let_def split: option.split)

lemma set_status_steps [intro]: "R s t \<Longrightarrow> R s (set_tool_call_status E i st t)"
  by (auto simp: set_tool_call_status_def split: option.split)

lemma result_signal_steps: "R s t \<Longrightarrow> R s (snd (tool_result_signal E i n b e c t))"
  by (auto simp: tool_result_signal_def take_tool_call_timing_def case_prod_unfold split: option.split)

lemma push_result_steps [intro]: "R s t \<Longrightarrow> R s (push_tool_result_block E i b e t)"
  by (auto simp: push_tool_result_block_def case_prod_unfold Let_def
           intro!: emit_steps doc_steps result_signal_steps read_utc_steps)

lemma promote_steps [intro]: "R s t \<Longrightarrow> R s (promote_thinking_blocks_to_final_text E t)"
  by (auto simp: promote_thinking_blocks_to_final_text_def promote_block_def
           intro!: fold_steps emit_steps doc_steps)

lemma metadata_steps [intro]: "R s t \<Longrightarrow> R s (emit_server_metadata_update E md t)"
  by (auto simp: emit_server_metadata_update_def)

lemma tool_started_steps: "R s t \<Longrightarrow> R s (snd (tool_started E sig i n a at (sr, t)))"
  by (auto simp: tool_started_def Let_def split: option.splits list.splits)

lemma arguments_steps: "R s t \<Longrightarrow> R s (snd (arguments_changed E sig i n d a (sr, t)))"
  by (auto simp: arguments_changed_def Let_def split: option.splits)

lemma finished_steps: "R s t \<Longrightarrow> R s (snd (tool_finished E sig i b e (sr, t)))"
  by (auto simp: tool_finished_def)

lemma block_start_steps: "R s t \<Longrightarrow> R s (snd (block_start E i b (sr, t)))"
  by (cases b) auto

lemma block_delta_steps: "R s t \<Longrightarrow> R s (snd (block_delta E i d (sr, t)))"
  using append_text_steps [of s t i d] by (auto simp: block_delta_def case_prod_unfold split: option.splits)

lemma block_complete_steps: "R s t \<Longrightarrow> R s (snd (block_complete E sig i (sr, t)))"
  by (auto simp: block_complete_def split: option.splits)

lemma handle_signal_steps: "R s t \<Longrightarrow> R s (snd (handle_signal E sig (sr, t)))"
  by (cases sig)
     (auto simp: tool_started_steps arguments_steps finished_steps block_start_steps block_delta_steps
        block_complete_steps)

lemma consume_steps: "R s t \<Longrightarrow> R s (snd (snd (consume E items (sr, t))))"
proof (induction items arbitrary: sr t)
  case (Cons x items)
  show ?case
  proof (cases x)
    case (Inr sig)
    obtain sr' t' where h: "handle_signal E sig (sr, t) = (sr', t')" by fastforce
    with handle_signal_steps [OF Cons.prems] have "R s t'" by (metis snd_conv)
    with Cons.IH Inr h show ?thesis by simp
  qed (use Cons.prems in simp)
qed simp

text \<open>Results of calls.\<close>

lemma emit_error_steps: "R s t \<Longrightarrow> R s (snd (emit_tool_error E cfg n c i (rr, t)))"
  by (auto simp: emit_tool_error_def)

lemma refuse_steps: "R s t \<Longrightarrow> R s (snd (refuse E cfg i n m (rr, t)))"
  by (auto simp: refuse_def intro!: emit_error_steps)

lemma add_result_steps: "R s t \<Longrightarrow> R s (snd (add_result E cfg i n v r (rr, t)))"
  by (auto simp: add_result_def case_prod_unfold Let_def)

lemma push_snapshots_steps: "R s t \<Longrightarrow> R s (push_snapshots snaps calls t)"
proof (induction calls arbitrary: snaps t)
  case (Cons c calls)
  obtain i n v r where c: "c = (i, n, v, r)" by (metis prod_cases4)
  have "R s (case map_of snaps i of Some cp \<Rightarrow> if is_err r then t else push_undo_checkpoint cp t | None \<Rightarrow> t)"
    using Cons.prems by (auto split: option.split)
  with Cons.IH c show ?case by simp
qed simp

lemma push_round_steps [intro]: "R s t \<Longrightarrow> R s (push_round_results cfg rr t)"
  by (auto simp: push_round_results_def)

end

section \<open>Running a round of calls\<close>

text \<open>What a relation must say of the three steps of a call that reach outside: the question to the user,
  the run of a call that passed the guards and was approved, and the run of a call in a parallel round.\<close>

locale call_steps = turn_steps +
  fixes cfg :: turn_config
  assumes asked_user: "R s (snd (ask_approval E cfg i name input s))"
    and approved: "guard_message E cfg anchor name input = None
      \<Longrightarrow> ask_approval E cfg i name input s = (True, t) \<Longrightarrow> R s (snd (execute_tool E name input n t))"
    and together: "\<not> tc_require_approval cfg \<Longrightarrow> is_read_only_tool_name name
      \<Longrightarrow> parallel_refusal E cfg name input = None \<Longrightarrow> R s (snd (execute_tool E name input n s))"
begin

lemma run_approved_steps:
  assumes "R s (snd (execute_tool E name input (tc_timeout_secs cfg) t))"
  shows "R s (snd (run_approved E cfg i name input (rr, t)))"
  using assms
  by (auto simp: run_approved_def case_prod_unfold Let_def intro!: add_result_steps split: option.split)

lemma process_call_steps: "R s (snd (process_call E cfg i name input (rr, s)))"
proof (cases "guard_message E cfg (rr_anchor rr) name input")
  case (Some m)
  then show ?thesis by (simp add: process_call_def refuse_steps)
next
  case None
  obtain ok t where a: "ask_approval E cfg i name input s = (ok, t)" by fastforce
  show ?thesis
  proof (cases ok)
    case True
    with None a approved [OF None] show ?thesis by (simp add: process_call_def run_approved_steps)
  next
    case False
    from asked_user [of s i name input] a have "R s t" by simp
    with False None a show ?thesis
      by (auto simp: process_call_def Let_def intro!: emit_error_steps)
  qed
qed

lemma process_block_steps: "R s t \<Longrightarrow> R s (snd (process_block E cfg b (rr, t)))"
  using trans_steps [OF _ process_call_steps] by (cases b) auto

lemma run_parallel_steps:
  assumes "\<not> tc_require_approval cfg" and "\<forall>(i, name, input) \<in> set calls. is_read_only_tool_name name"
    and "R s t"
  shows "R s (snd (run_parallel E cfg calls t))"
  using assms(2,3)
proof (induction calls arbitrary: t)
  case (Cons c calls)
  obtain i name input where c: "c = (i, name, input)" by (metis prod_cases3)
  let ?t = "snd (case parallel_refusal E cfg name input of
                   Some m \<Rightarrow> (Inl m, t) | None \<Rightarrow> execute_tool E name input (tc_timeout_secs cfg) t)"
  from Cons.prems c have "is_read_only_tool_name name" by simp
  then have "R s ?t"
    using Cons.prems(2) together [OF assms(1)] trans_steps by (auto split: option.split)
  with Cons c show ?case by (auto simp: case_prod_unfold Let_def)
qed simp

lemma tool_uses_read_only:
  "is_read_only_tool_round blocks
   \<Longrightarrow> \<forall>(i, name, input) \<in> set (tool_uses blocks). is_read_only_tool_name name"
  by (fastforce simp: is_read_only_tool_round_def tool_uses_def list_all_iff map_filter_def)

lemma parallel_round_steps:
  assumes "should_parallelize_tool_round blocks (tc_require_approval cfg)"
  shows "R s (snd (execute_parallel_tool_round E cfg blocks s))"
proof -
  let ?s1 = "fold (\<lambda>(i, _). set_tool_call_status E i Executing) (tool_uses blocks) s"
  have "R s ?s1" by (rule fold_steps) auto
  with run_parallel_steps [of "tool_uses blocks" s ?s1] tool_uses_read_only [of blocks] assms
  have "R s (snd (run_parallel E cfg (tool_uses blocks) ?s1))"
    by (simp add: should_parallelize_tool_round_def is_parallel_safe_tool_round_def)
  then show ?thesis
    by (auto simp: execute_parallel_tool_round_def case_prod_unfold Let_def intro!: push_snapshots_steps)
qed

lemma tool_round_steps: "R s (snd (run_tool_round E cfg blocks anchor s))"
proof (cases "should_parallelize_tool_round blocks (tc_require_approval cfg)")
  case True
  with parallel_round_steps [OF True, of s] show ?thesis
    by (auto simp: run_tool_round_def case_prod_unfold Let_def intro!: fold_snd_steps add_result_steps)
next
  case False
  then show ?thesis
    by (auto simp: run_tool_round_def Let_def intro!: fold_snd_steps process_block_steps)
qed

end

text \<open>A relation that does not look at the calls it is about keeps all of these steps.\<close>

fun is_asked :: "turn_event \<Rightarrow> bool" where
  "is_asked (Asked m) \<longleftrightarrow> True"
| "is_asked _ \<longleftrightarrow> False"

locale logged_steps = turn_steps +
  assumes logged: "\<not> is_asked e \<Longrightarrow> R s (log_event e s)"
begin

lemma log_steps [intro]: "\<not> is_asked e \<Longrightarrow> R s t \<Longrightarrow> R s (log_event e t)"
  by (blast intro: trans_steps logged)

lemma request_steps: "R s t \<Longrightarrow> R s (snd (request_tool_approval E n v t))"
  by (auto simp: request_tool_approval_def Let_def split: prod.splits
           intro!: log_steps update_steps emit_steps)

lemma run_hook_steps: "R s t \<Longrightarrow> R s (snd (run_hook E h n v t))"
proof -
  assume t: "R s t"
  let ?args = "hook_args h n v"
  obtain ok t1 where r: "request_tool_approval E ''run_command'' (hook_approval_input (hk_command h) n ?args) t = (ok, t1)"
    by fastforce
  with request_steps [OF t] have "R s t1" by (metis snd_conv)
  with r t show ?thesis
    by (auto simp: run_hook_def Let_def split: hook_outcome.split prod.split if_splits)
qed

lemma run_hooks_steps: "R s t \<Longrightarrow> R s (snd (run_hooks E hs trigger n v t))"
proof (induction hs arbitrary: t)
  case (Cons h hs)
  with run_hook_steps [OF Cons.prems, of h n v] show ?case
    by (cases "run_hook E h n v t") (auto split: option.split)
qed simp

lemma post_http_steps: "R s t \<Longrightarrow> R s (snd (post_http_hooks E hs trigger n p ms t))"
proof (induction hs arbitrary: t)
  case (Cons h hs)
  obtain r w where w: "te_http E (hh_url h) n p (cm_world t) = (r, w)" by fastforce
  from Cons.prems have "R s (log_event (Posted (hh_url h)) (t\<lparr>cm_world := w\<rparr>))" by auto
  with Cons w show ?case by (auto simp: Let_def split: option.split)
qed simp

lemma all_hooks_steps: "R s t \<Longrightarrow> R s (snd (run_all_hooks E trigger n v k t))"
  using run_hooks_steps [of s t "te_hooks E" trigger n v] post_http_steps
  by (cases "run_hooks E (te_hooks E) trigger n v t")
     (auto simp: run_all_hooks_def run_http_hooks_def split: option.split)

lemma run_tool_steps: "R s t \<Longrightarrow> R s (snd (run_tool E n v t))"
  by (auto simp: run_tool_def intro!: fold_steps split: prod.split)

lemma execute_steps:
  assumes "R s t"
  shows "R s (snd (execute_tool E name v k t))"
proof -
  let ?n = "normalize_shell_tool_alias name"
  obtain e t1 where 1: "run_all_hooks E PreTool ?n v k t = (e, t1)" by fastforce
  obtain r t2 where 2: "run_tool E ?n v t1 = (r, t2)" by fastforce
  obtain e' t3 where 3: "run_all_hooks E PostTool ?n v k t2 = (e', t3)" by fastforce
  from all_hooks_steps [OF assms] 1 have a: "R s t1" by (metis snd_conv)
  with run_tool_steps 2 have b: "R s t2" by (metis snd_conv)
  with all_hooks_steps 3 have "R s t3" by (metis snd_conv)
  with assms 1 2 3 a b show ?thesis
    by (auto simp: execute_tool_def Let_def split: option.split sum.split)
qed

lemma ask_steps: "R s t \<Longrightarrow> R s (snd (ask_approval E cfg i n v t))"
  using request_steps [of s "set_tool_call_status E i WaitingApproval t" n v, OF set_status_steps]
  by (auto simp: ask_approval_def Let_def split: prod.splits intro!: set_status_steps)

end

sublocale logged_steps \<subseteq> logged: call_steps E R cfg for cfg
proof
  show "R s (snd (ask_approval E cfg i name input s))" for i name input s
    by (simp add: ask_steps)
  show "R s (snd (execute_tool E name input n t))"
    if "ask_approval E cfg i name input s = (True, t)" for i name input n s t
  proof -
    from ask_steps [OF refl_steps, of s cfg i name input] that have "R s t" by simp
    then show ?thesis by (rule execute_steps)
  qed
  show "R s (snd (execute_tool E name input n s))" for name input n s
    by (simp add: execute_steps)
qed

section \<open>The whole turn\<close>

text \<open>The outcome in the document fits the answer of the call.\<close>

fun outcome_fits :: "string + string \<Rightarrow> pulse_outcome \<Rightarrow> bool" where
  "outcome_fits (Inl e) outcome \<longleftrightarrow> outcome = Failed_outcome e"
| "outcome_fits (Inr t) outcome \<longleftrightarrow> outcome = Completed_outcome \<or> outcome = MaxTurnsReached_pulse"

text \<open>Steps related by \<open>R\<close>, then the closing of the turn.\<close>

definition closes ::
  "'w turn_env \<Rightarrow> ('w conversation \<Rightarrow> 'w conversation \<Rightarrow> bool) \<Rightarrow> 'w conversation
   \<Rightarrow> string + string \<Rightarrow> 'w conversation \<Rightarrow> bool" where
  "closes E R s result s' \<longleftrightarrow>
     (\<exists>t outcome tokens. R s t \<and> outcome_fits result outcome \<and> s' = finish_turn_doc E outcome tokens t)"

fun round_steps ::
  "'w turn_env \<Rightarrow> ('w conversation \<Rightarrow> 'w conversation \<Rightarrow> bool) \<Rightarrow> 'w conversation \<Rightarrow> 'w round_end \<Rightarrow> bool" where
  "round_steps E R s (Again lp s') \<longleftrightarrow> R s s'"
| "round_steps E R s (Finished result s') \<longleftrightarrow> closes E R s result s'"

lemma turn_loop_invariant:
  assumes again: "\<And>lp s lp' s'. P s \<Longrightarrow> turn_round E U lp s = Again lp' s' \<Longrightarrow> P s'"
    and finished: "\<And>lp s result s'. P s \<Longrightarrow> turn_round E U lp s = Finished result s' \<Longrightarrow> Q result s'"
    and start: "P s" and run: "turn_loop_run E U lp s = (result, s')"
  shows "Q result s'"
  using again finished start run
proof (induction E U lp s rule: turn_loop_run.induct)
  case (1 E U lp s)
  show ?case
  proof (cases "turn_round E U lp s")
    case (Finished r t)
    with 1(3-5) show ?thesis by (auto simp: turn_loop_run.simps [of E U lp s])
  next
    case (Again lp' t)
    with 1(2,4,5) show ?thesis
      by (intro 1(1) [OF Again 1(2,3)]) (auto simp: turn_loop_run.simps [of E U lp s])
  qed
qed

locale turn_rest = turn_steps +
  fixes U :: turn_setup
  assumes calls_ran: "R s (snd (run_tool_round E (turn_config_of U structured) blocks anchor s))"
begin

lemma closesI:
  "R s t \<Longrightarrow> outcome_fits result outcome \<Longrightarrow> s' = finish_turn_doc E outcome tokens t
   \<Longrightarrow> closes E R s result s'"
  by (auto simp: closes_def)

lemma stop_steps:
  assumes "R s t" and "outcome_fits (Inr m) outcome"
  shows "round_steps E R s (stop_with_guard E outcome tokens m t)"
  unfolding stop_with_guard_def Let_def round_steps.simps
  by (rule closesI [OF _ assms(2) refl]) (auto simp: assms(1) split: option.split)

lemma fail_steps: "R s t \<Longrightarrow> round_steps E R s (fail_turn E e tokens t)"
  unfolding fail_turn_def round_steps.simps by (rule closesI [OF _ _ refl]) simp_all

lemma overflow_steps: "R s t \<Longrightarrow> round_steps E R s (overflow_retry E lp t)"
  by (auto simp: overflow_retry_def case_prod_unfold Let_def)

lemma answer_steps:
  assumes "R s t"
  shows "round_steps E R s (answer_without_calls E U lp x t)"
proof -
  have "closes E R s (Inr x)
      (finish_turn_doc E Completed_outcome (tl_tokens lp)
        ((promote_thinking_blocks_to_final_text E t)\<lparr>cm_last_turn_tokens := tl_tokens lp\<rparr>))"
    by (rule closesI [OF _ _ refl]) (simp_all add: update_steps promote_steps assms)
  with assms show ?thesis
    by (auto simp: answer_without_calls_def Let_def intro!: stop_steps)
qed

lemma run_calls_steps:
  assumes "R s t"
  shows "round_steps E R s (run_calls E U lp structured blocks t)"
  using trans_steps [OF assms calls_ran]
  by (auto simp: run_calls_def case_prod_unfold Let_def)

lemma after_stream_steps:
  assumes "R s t"
  shows "round_steps E R s (after_stream E U lp structured x blocks t)"
  using assms
  by (auto simp: after_stream_def Let_def intro!: stop_steps answer_steps run_calls_steps)

lemma after_request_steps:
  assumes "te_stream E (cm_api_messages t) (cm_world t) = (r, w)" and a: "R s (asked t w)"
  shows "round_steps E R s (ask_model E U lp t)"
proof (cases r)
  case (Inl e)
  with assms show ?thesis by (auto simp: ask_model_def Let_def intro!: overflow_steps fail_steps)
next
  case (Inr items)
  obtain e sr t1 where c: "consume E items (stream_round_start (tl_tokens lp), asked t w) = (e, sr, t1)"
    by (metis prod_cases3)
  with consume_steps [OF a] have "R s t1" by (metis snd_conv)
  with assms(1) Inr c show ?thesis
    by (auto simp: ask_model_def split: option.split intro!: fail_steps after_stream_steps)
qed

end

locale whole_turn = turn_rest +
  assumes asked_model: "R s (log_event (Asked m) s)"
begin

lemma ask_model_steps:
  assumes "R s t"
  shows "round_steps E R s (ask_model E U lp t)"
proof (cases "te_stream E (cm_api_messages t) (cm_world t)")
  case (Pair r w)
  have "R s (asked t w)"
    unfolding asked_def using assms by (rule trans_steps [OF update_steps(1) asked_model])
  with Pair show ?thesis by (rule after_request_steps)
qed

lemma turn_round_steps:
  assumes "R s t"
  shows "round_steps E R s (turn_round E U lp t)"
proof (cases "prune_history U lp (advance_round_start t)")
  case (Pair lp1 t1)
  have "R s (advance_round_start t)" using assms by (rule advance_steps)
  then have "R s t1" by (rule framed) (simp_all add: prune_history_keeps [OF Pair])
  with Pair show ?thesis
    by (auto simp: turn_round_def Let_def intro!: ask_model_steps stop_steps)
qed

lemma turn_loop_steps:
  assumes "R s t" and "turn_loop_run E U lp t = (result, s')"
  shows "closes E R s result s'"
  using turn_loop_invariant [of "R s" E U "closes E R s"] turn_round_steps assms
  by (metis round_steps.simps)

lemma prepare_steps: "R s (snd (prepare_history E requires s))"
  by (auto simp: prepare_history_def Let_def split: prod.splits option.splits)

lemma answer_message_steps:
  assumes "turn_setup_of E input policy = U" and "answer_message E input policy s = (result, s')"
  shows "closes E R s result s'"
proof (cases "builtin_supported_git_tools_response input")
  case (Some response)
  with assms(2) show ?thesis
    by (auto simp: answer_message_def intro!: closesI [OF _ _ refl])
next
  case None
  obtain p s1 where "prepare_history E (tu_requires_evidence U) s = (p, s1)" by fastforce
  with prepare_steps [of s "tu_requires_evidence U"] None assms show ?thesis
    by (auto simp: answer_message_def Let_def intro: turn_loop_steps)
qed

end

end
