(* ===== verification/Turn_Laws.thy ===== *)
theory Turn_Laws
  imports Turn_Steps "HOL-Library.Multiset"
begin

text \<open>
  What holds of every message sent to the model: the tools and hooks it runs were approved and allowed, the
  number of requests is bounded, the turn is recorded and closed. Each is a relation between states kept by
  the steps of a turn, an instance of the locales of \<open>Turn_Steps\<close>.
\<close>

section \<open>Approved and allowed calls\<close>

text \<open>Reading a log: an approval is a permission to run the tool once, with these arguments; a hook needs a
  permission of its own for its command. \<open>None\<close> is a run without permission, or one that is not allowed.\<close>

fun approval_log ::
  "(string \<Rightarrow> json \<Rightarrow> bool) \<Rightarrow> (string \<Rightarrow> bool) \<Rightarrow> (string \<times> json) multiset \<Rightarrow> turn_event list
   \<Rightarrow> (string \<times> json) multiset option" where
  "approval_log allow must G [] = Some G"
| "approval_log allow must G (Answered n v ok # es) =
     approval_log allow must (if ok then add_mset (normalize_shell_tool_alias n, v) G else G) es"
| "approval_log allow must G (Ran_tool n v # es) =
     (if \<not> allow n v then None
      else if \<not> must n then approval_log allow must G es
      else if (n, v) \<in># G then approval_log allow must (G - {#(n, v)#}) es else None)"
| "approval_log allow must G (Ran_hook tool command args # es) =
     (let v = hook_approval_input command tool args
      in if (''run_command'', v) \<in># G then approval_log allow must (G - {#(''run_command'', v)#}) es else None)"
| "approval_log allow must G (e # es) = approval_log allow must G es"

lemma approval_log_frame:
  "approval_log allow must G es = Some H \<Longrightarrow> approval_log allow must (G + D) es = Some (H + D)"
proof (induction allow must G es rule: approval_log.induct)
  case (3 allow must G n v es)
  then show ?case by (auto simp: split: if_splits)
next
  case (4 allow must G tool command args es)
  then show ?case by (auto simp: Let_def split: if_splits)
qed (auto split: if_splits)

lemma approval_log_append:
  "approval_log allow must G (es @ es') = Option.bind (approval_log allow must G es) (\<lambda>H. approval_log allow must H es')"
  by (induction allow must G es rule: approval_log.induct) (auto simp: Let_def)

lemma approval_log_allowed:
  "approval_log allow must G es = Some H \<Longrightarrow> Ran_tool n v \<in> set es \<Longrightarrow> allow n v"
  by (induction allow must G es rule: approval_log.induct) (auto simp: Let_def split: if_splits)


text \<open>\<open>G\<close> permissions before, at least \<open>H\<close> after.\<close>

definition log_from ::
  "(string \<Rightarrow> json \<Rightarrow> bool) \<Rightarrow> (string \<Rightarrow> bool) \<Rightarrow> (string \<times> json) multiset \<Rightarrow> (string \<times> json) multiset
   \<Rightarrow> 'w conversation \<Rightarrow> 'w conversation \<Rightarrow> bool" where
  "log_from allow must G H s t \<longleftrightarrow>
     (\<exists>es D. cm_events t = cm_events s @ es \<and> approval_log allow must G es = Some (H + D))"

lemma log_from_trans:
  assumes "log_from allow must G H s t" and "log_from allow must H K t u"
  shows "log_from allow must G K s u"
proof -
  from assms(1) obtain es D where 1: "cm_events t = cm_events s @ es" "approval_log allow must G es = Some (H + D)"
    by (auto simp: log_from_def)
  from assms(2) obtain es' D' where 2: "cm_events u = cm_events t @ es'" "approval_log allow must H es' = Some (K + D')"
    by (auto simp: log_from_def)
  from 1 2 approval_log_frame [OF 2(2), of D] show ?thesis
    by (auto simp: log_from_def approval_log_append ac_simps intro!: exI [of _ "es @ es'"])
qed

lemma log_from_frame:
  assumes "log_from allow must {#} {#} s t"
  shows "log_from allow must G G s t"
proof -
  from assms obtain es D where "cm_events t = cm_events s @ es" "approval_log allow must {#} es = Some D"
    by (auto simp: log_from_def)
  with approval_log_frame [OF this(2), of G] show ?thesis
    by (auto simp: log_from_def ac_simps intro!: exI [of _ es])
qed

abbreviation log_ok ::
  "(string \<Rightarrow> json \<Rightarrow> bool) \<Rightarrow> (string \<Rightarrow> bool) \<Rightarrow> 'w conversation \<Rightarrow> 'w conversation \<Rightarrow> bool" where
  "log_ok allow must \<equiv> log_from allow must {#} {#}"

lemma log_from_one:
  "approval_log allow must G [e] = Some (H + D) \<Longrightarrow> log_from allow must G H s (log_event e s)"
  by (auto simp: log_from_def log_event_def)

interpretation log: turn_steps E "log_ok allow must" for E :: "'w turn_env" and allow must
proof
  show "log_ok allow must s u" if "log_ok allow must s t" "log_ok allow must t u" for s t u :: "'w conversation"
    using that by (rule log_from_trans)
  show "log_ok allow must s t" if "cm_events t = cm_events s" "cm_task_doc t = cm_task_doc s"
    for s t :: "'w conversation"
    using that by (auto simp: log_from_def intro!: exI [of _ "[]"])
  show "log_ok allow must s (log_event (Sent upd) s)" for s :: "'w conversation" and upd
    by (rule log_from_one [of _ _ _ _ _ "{#}"]) simp
  show "log_ok allow must s (s\<lparr>cm_task_doc := Some (snd (apply_runtime_signal n1 n2 sig doc))\<rparr>)"
    for s :: "'w conversation" and n1 n2 sig doc
    by (auto simp: log_from_def intro!: exI [of _ "[]"])
qed

lemma log_no_event: "cm_events t = cm_events s \<Longrightarrow> log_from allow must G G s t"
  by (auto simp: log_from_def intro!: exI [of _ "[]"])

lemma run_command_alias [simp]: "normalize_shell_tool_alias ''run_command'' = ''run_command''"
  by code_simp

text \<open>Asking the user, when somebody can answer.\<close>

lemma request_log:
  assumes "te_has_channel E" and "request_tool_approval E name input s = (ok, t)"
  shows "log_from allow must {#} (if ok then {#(normalize_shell_tool_alias name, input)#} else {#}) s t"
proof -
  let ?u = "ToolApprovalRequest_update name (tool_input_preview (te_preview E) name input)"
  have "cm_events t = cm_events s @ [Sent ?u, Answered name input ok]"
    using assms by (auto simp: request_tool_approval_def log_event_def emit_stream_update_def Let_def
                         split: prod.splits)
  then show ?thesis by (auto simp: log_from_def intro!: exI [of _ "[Sent ?u, Answered name input ok]"])
qed

lemma run_hook_log: "log_ok allow must s (snd (run_hook E h tool_name input s))"
proof (cases "te_has_channel E")
  case False
  then show ?thesis by (simp add: run_hook_def log_no_event)
next
  case True
  let ?args = "hook_args h tool_name input"
  let ?v = "hook_approval_input (hk_command h) tool_name ?args"
  let ?G = "{#(''run_command'', ?v)#}"
  obtain ok s1 where r: "request_tool_approval E ''run_command'' ?v s = (ok, s1)" by fastforce
  note q = request_log [OF True r, of allow must]
  show ?thesis
  proof (cases ok)
    case False
    with True r q show ?thesis by (simp add: run_hook_def Let_def)
  next
    case ok: True
    obtain outcome w where c: "te_hook_command E (hk_command h) ?args (cm_world s1) = (outcome, w)" by fastforce
    let ?s1 = "s1\<lparr>cm_world := w\<rparr>"
    let ?s2 = "log_event (Ran_hook tool_name (hk_command h) ?args) ?s1"
    from q ok have "log_from allow must {#} ?G s s1" by simp
    moreover have "log_from allow must ?G ?G s1 ?s1" by (simp add: log_no_event)
    ultimately have a: "log_from allow must {#} ?G s ?s1" by (rule log_from_trans)
    have "log_from allow must ?G {#} ?s1 ?s2" by (rule log_from_one) (simp add: Let_def)
    with a have b: "log_ok allow must s ?s2" by (rule log_from_trans)
    from a have a': "log_ok allow must s ?s1"
      by (auto simp: log_from_def)
    from True r ok c a' b show ?thesis
      by (auto simp: run_hook_def Let_def split: hook_outcome.split)
  qed
qed

lemma run_hooks_log: "log_ok allow must s (snd (run_hooks E hs trigger tool_name input s))"
proof (induction hs arbitrary: s)
  case (Cons h hs)
  show ?case
    using Cons run_hook_log [of allow must s E h tool_name input] log_from_trans
    by (auto split: prod.splits option.splits) blast
qed (simp add: log_no_event)

lemma post_http_log: "log_ok allow must s (snd (post_http_hooks E hs trigger tool_name p ms s))"
proof (induction hs arbitrary: s)
  case (Cons h hs)
  obtain r w where w: "te_http E (hh_url h) tool_name p (cm_world s) = (r, w)" by fastforce
  let ?t = "log_event (Posted (hh_url h)) (s\<lparr>cm_world := w\<rparr>)"
  have t: "log_ok allow must s ?t"
    by (auto simp: log_from_def log_event_def)
  with w Cons [of ?t] Cons [of s] show ?case
    by (auto simp: Let_def split: option.split intro: log_from_trans)
qed (simp add: log_no_event)

lemma all_hooks_log: "log_ok allow must s (snd (run_all_hooks E trigger name input n s))"
proof -
  obtain e t where h: "run_hooks E (te_hooks E) trigger name input s = (e, t)" by fastforce
  with run_hooks_log [of allow must s E "te_hooks E" trigger name input] have a: "log_ok allow must s t" by simp
  have "log_ok allow must t (snd (run_http_hooks E trigger name input n t))"
    by (auto simp: run_http_hooks_def post_http_log log_no_event split: option.split)
  with a h show ?thesis by (auto simp: run_all_hooks_def split: option.split intro: log_from_trans)
qed

definition permission :: "(string \<Rightarrow> bool) \<Rightarrow> string \<Rightarrow> json \<Rightarrow> (string \<times> json) multiset" where
  "permission must n v = (if must n then {#(n, v)#} else {#})"

lemma run_tool_log:
  assumes "allow n v"
  shows "log_from allow must (permission must n v) {#} s (snd (run_tool E n v s))"
proof -
  obtain r us w where t: "te_tool E n v (cm_world s) = (r, us, w)" by (metis prod_cases3)
  let ?t = "log_event (Ran_tool n v) (s\<lparr>cm_world := w\<rparr>)"
  have "log_from allow must (permission must n v) {#} s ?t"
    using assms by (auto simp: log_from_def log_event_def permission_def)
  moreover have "log_ok allow must ?t (fold (emit_stream_update E) us ?t)"
    by (rule log.fold_steps) (auto simp: log_no_event)
  ultimately show ?thesis using t by (auto simp: run_tool_def intro: log_from_trans)
qed

lemma execute_log:
  fixes s :: "'w conversation" and name :: string and allow :: "string \<Rightarrow> json \<Rightarrow> bool"
  defines "n \<equiv> normalize_shell_tool_alias name"
  assumes "te_tool_policy E \<noteq> Chat_policy \<Longrightarrow> (te_tool_policy E = Plan_policy \<Longrightarrow> is_readonly_tool n) \<Longrightarrow> allow n input"
  shows "log_from allow must (permission must n input) {#} s (snd (execute_tool E name input k s))"
proof -
  let ?G = "permission must n input"
  have drop_it: "log_from allow must ?G {#} s t" if "log_from allow must ?G ?G s t" for t :: "'w conversation"
    using that by (auto simp: log_from_def)
  consider "te_tool_policy E = Chat_policy \<or> te_tool_policy E = Plan_policy \<and> \<not> is_readonly_tool n"
    | (runs) "allow n input" "te_tool_policy E \<noteq> Chat_policy" "te_tool_policy E = Plan_policy \<longrightarrow> is_readonly_tool n"
    using assms(2) by auto
  then show ?thesis
  proof cases
    case 1
    then show ?thesis by (auto simp: execute_tool_def n_def intro!: drop_it [unfolded n_def] log_no_event)
  next
    case runs
    obtain e s1 where 1: "run_all_hooks E PreTool n input k s = (e, s1)" by fastforce
    obtain r s2 where 2: "run_tool E n input s1 = (r, s2)" by fastforce
    obtain e' s3 where 3: "run_all_hooks E PostTool n input k s2 = (e', s3)" by fastforce
    from all_hooks_log [of allow must s E PreTool n input k] 1 have a: "log_from allow must ?G ?G s s1"
      by (auto intro: log_from_frame)
    from run_tool_log [of allow n input must s1 E, OF runs(1)] 2 have "log_from allow must ?G {#} s1 s2" by simp
    with a have b: "log_from allow must ?G {#} s s2" by (rule log_from_trans)
    from all_hooks_log [of allow must s2 E PostTool n input k] 3 have "log_ok allow must s2 s3" by simp
    with b have c: "log_from allow must ?G {#} s s3" by (rule log_from_trans)
    have d: "log_from allow must ?G {#} s s1" using a by (rule drop_it)
    from runs(2,3) 1 2 3 b c d show ?thesis
      by (auto simp: execute_tool_def n_def [symmetric] Let_def split: option.split sum.split)
  qed
qed

text \<open>What a turn may run: its user's input and policy, and the policy of the client, decide.\<close>

definition call_allowed :: "'w turn_env \<Rightarrow> string \<Rightarrow> pulse_tool_policy \<Rightarrow> string \<Rightarrow> json \<Rightarrow> bool" where
  "call_allowed E input policy n v \<longleftrightarrow>
     te_tool_policy E \<noteq> Chat_policy
     \<and> (te_tool_policy E = Plan_policy \<longrightarrow> is_readonly_tool n)
     \<and> \<not> (is_read_only_user_request (te_vars E) input \<and> tool_requires_confirmation n)
     \<and> tests_only_mutation_conflict_prompt policy n v = None"

definition must_approve :: "'w turn_env \<Rightarrow> bool \<Rightarrow> string \<Rightarrow> bool" where
  "must_approve E require n \<longleftrightarrow> te_has_channel E \<and> (require \<or> tool_requires_confirmation n)"

lemma alias_confirmed: "tool_requires_confirmation (normalize_shell_tool_alias name) \<Longrightarrow> tool_requires_confirmation name"
proof -
  have "list_all tool_requires_confirmation shell_aliases" by code_simp
  then show "tool_requires_confirmation (normalize_shell_tool_alias name) \<Longrightarrow> tool_requires_confirmation name"
    by (auto simp: normalize_shell_tool_alias_def list_all_iff split: if_splits)
qed

definition file_changing :: "string list" where
  "file_changing = [''write_file'', ''edit_file'', ''apply_patch'', ''rename_file'']"

lemma targets_of_others: "n \<notin> set file_changing \<Longrightarrow> mutating_tool_target_paths n v = []"
  unfolding file_changing_def mutating_tool_target_paths_def list.set by (simp only: insert_iff de_Morgan_disj if_False simp_thms)

lemma tests_only_others: "n \<notin> set file_changing \<Longrightarrow> tests_only_mutation_conflict_prompt policy n v = None"
  by (simp add: tests_only_mutation_conflict_prompt_def targets_of_others)

lemma alias_tests_only:
  assumes "tests_only_mutation_conflict_prompt policy name v = None"
  shows "tests_only_mutation_conflict_prompt policy (normalize_shell_tool_alias name) v = None"
proof -
  have "''run_command'' \<notin> set file_changing" by code_simp
  with assms tests_only_others show ?thesis by (simp add: normalize_shell_tool_alias_def)
qed

lemma read_only_name:
  assumes "is_read_only_tool_name name"
  shows "normalize_shell_tool_alias name = name" "\<not> tool_requires_confirmation name" "name \<notin> set file_changing"
proof -
  have "list_all (\<lambda>n. normalize_shell_tool_alias n = n \<and> \<not> tool_requires_confirmation n \<and> n \<notin> set file_changing)
          read_only_tool_names" by code_simp
  with assms show "normalize_shell_tool_alias name = name" "\<not> tool_requires_confirmation name"
    "name \<notin> set file_changing"
    by (auto simp: is_read_only_tool_name_def list_all_iff)
qed

lemma read_only_conflict:
  "mutating_tool_read_only_conflict_prompt env input n = None
   \<longleftrightarrow> \<not> (is_read_only_user_request env input \<and> tool_requires_confirmation n)"
  by (auto simp: mutating_tool_read_only_conflict_prompt_def)

lemma guard_passed:
  assumes "guard_message E cfg anchor name input = None"
  shows "mutating_tool_read_only_conflict_prompt (te_vars E) (tc_user_input cfg) name = None"
    "tests_only_mutation_conflict_prompt (tc_policy cfg) name input = None"
  using assms by (auto simp: guard_message_def split: option.splits)

lemma ask_log:
  fixes s :: "'w conversation"
  assumes "ask_approval E cfg i name input s = (ok, t)"
  shows "log_from allow (must_approve E (tc_require_approval cfg)) {#}
    (if ok then permission (must_approve E (tc_require_approval cfg)) (normalize_shell_tool_alias name) input else {#}) s t"
proof -
  let ?must = "must_approve E (tc_require_approval cfg)"
  let ?n = "normalize_shell_tool_alias name"
  let ?P = "permission ?must ?n input"
  let ?s0 = "set_tool_call_status E i WaitingApproval s"
  have keep: "log_from allow ?must G G u (set_tool_call_status E i st u)" for u :: "'w conversation" and st G
    by (rule log_from_frame) (rule log.set_status_steps, simp)
  show ?thesis
  proof (cases "needs_approval cfg name \<and> te_has_channel E")
    case True
    obtain ok' s1 where r: "request_tool_approval E name input ?s0 = (ok', s1)" by fastforce
    with True assms have t: "ok' = ok" "t = set_tool_call_status E i (if ok then Executing else Cancelled_status) s1"
      by (auto simp: ask_approval_def Let_def)
    let ?G = "if ok then {#(?n, input)#} else {#}"
    from request_log [of E name input ?s0 ok s1 allow ?must] True r t
    have "log_from allow ?must {#} ?G ?s0 s1" by auto
    with keep [of "{#}" s WaitingApproval] have "log_from allow ?must {#} ?G s s1" by (rule log_from_trans)
    then have "log_from allow ?must {#} ?G s t" unfolding t(2) by (rule log_from_trans) (rule keep)
    then show ?thesis by (auto simp: log_from_def permission_def)
  next
    case False
    then have p: "?P = {#}"
      using alias_confirmed [of name] by (auto simp: permission_def must_approve_def needs_approval_def)
    have "log_ok allow ?must s t"
    proof (cases "needs_approval cfg name")
      case True
      with False assms have "t = set_tool_call_status E i Executing ?s0"
        by (auto simp: ask_approval_def request_tool_approval_def Let_def)
      with log_from_trans [OF keep keep] show ?thesis by blast
    next
      case False
      with assms have "t = set_tool_call_status E i Executing s" by (auto simp: ask_approval_def Let_def)
      with keep show ?thesis by blast
    qed
    with p show ?thesis by simp
  qed
qed

lemma log_from_less: "log_from allow must G H s t \<Longrightarrow> log_from allow must G {#} s t"
  by (auto simp: log_from_def)

interpretation log_calls:
  call_steps E "log_ok (call_allowed E (tc_user_input cfg) (tc_policy cfg)) (must_approve E (tc_require_approval cfg))" cfg
  for E :: "'w turn_env" and cfg
proof
  let ?allow = "call_allowed E (tc_user_input cfg) (tc_policy cfg)"
  let ?must = "must_approve E (tc_require_approval cfg)"
  show "log_ok ?allow ?must s (snd (ask_approval E cfg i name input s))" for s :: "'w conversation" and i name input
    using ask_log [of E cfg i name input s] by (cases "ask_approval E cfg i name input s") (auto intro: log_from_less)
  show "log_ok ?allow ?must s (snd (execute_tool E name input k t))"
    if g: "guard_message E cfg anchor name input = None" and a: "ask_approval E cfg i name input s = (True, t)"
    for s t :: "'w conversation" and anchor i name input k
  proof -
    let ?n = "normalize_shell_tool_alias name"
    from ask_log [OF a, of ?allow] have "log_from ?allow ?must {#} (permission ?must ?n input) s t" by simp
    moreover have "log_from ?allow ?must (permission ?must ?n input) {#} t (snd (execute_tool E name input k t))"
      using guard_passed [OF g] alias_confirmed [of name] alias_tests_only [of "tc_policy cfg" name input]
      by (intro execute_log) (auto simp: call_allowed_def read_only_conflict)
    ultimately show ?thesis by (rule log_from_trans)
  qed
  show "log_ok ?allow ?must s (snd (execute_tool E name input k s))"
    if r: "\<not> tc_require_approval cfg" and n: "is_read_only_tool_name name"
    for s :: "'w conversation" and name input k
  proof -
    have "log_from ?allow ?must (permission ?must name input) {#} s (snd (execute_tool E name input k s))"
      using execute_log [of E name ?allow input ?must s k] read_only_name [OF n] tests_only_others
      by (simp add: call_allowed_def)
    moreover have "permission ?must name input = {#}"
      using r read_only_name(2) [OF n] by (simp add: permission_def must_approve_def)
    ultimately show ?thesis by simp
  qed
qed

interpretation log_turn:
  whole_turn E "log_ok (call_allowed E (tu_user_input U) (tu_policy U)) (must_approve E (tu_require_approval U))" U
  for E :: "'w turn_env" and U
proof
  let ?R = "log_ok (call_allowed E (tu_user_input U) (tu_policy U)) (must_approve E (tu_require_approval U))"
  show "?R s (log_event (Asked m) s)" for s :: "'w conversation" and m
    by (rule log_from_one [of _ _ _ _ _ "{#}"]) simp
  show "?R s (snd (run_tool_round E (turn_config_of U structured) blocks anchor s))"
    for s :: "'w conversation" and structured blocks anchor
    using log_calls.tool_round_steps [where cfg = "turn_config_of U structured" and E = E]
    by (simp add: turn_config_of_def)
qed

section \<open>The document of the turn\<close>

text \<open>What a turn keeps of the document while it runs: the turns before it, and its own input.\<close>

definition turn_view :: "task_document \<Rightarrow> turn_document list \<times> string option" where
  "turn_view doc = (td_completed_turns doc, map_option at_input (td_active_pulse doc))"

definition same_turn :: "'w conversation \<Rightarrow> 'w conversation \<Rightarrow> bool" where
  "same_turn s t \<longleftrightarrow> map_option turn_view (cm_task_doc s) = map_option turn_view (cm_task_doc t)"

lemma push_entry_view: "td_active_pulse doc = Some b \<Longrightarrow> at_input a = at_input b \<Longrightarrow> turn_view (push_entry e a doc) = turn_view doc"
  by (simp add: turn_view_def push_entry_def case_prod_unfold Let_def)

lemma set_active_view: "td_active_pulse doc = Some b \<Longrightarrow> at_input a = at_input b \<Longrightarrow> turn_view (set_active a doc) = turn_view doc"
  by (simp add: turn_view_def set_active_def)

lemma info_view [simp]: "turn_view (doc\<lparr>td_info := i\<rparr>) = turn_view doc"
  by (simp add: turn_view_def)

lemma update_input [simp]: "at_input (update_block_content i f a) = at_input a"
  "at_input (update_call_status c st a) = at_input a"
  by (simp_all add: update_block_content_def update_call_status_def)

lemmas turn_view_simps = push_entry_view set_active_view tool_result_applied_def Let_def

lemma apply_to_turn_view:
  assumes "td_active_pulse doc = Some a" and "apply_to_turn now sig a doc = Some (m, doc')"
  shows "turn_view doc' = turn_view doc"
  using assms by (cases sig) (auto simp: turn_view_simps split: option.splits sum.splits)

lemma apply_to_task_view: "turn_view (snd (apply_to_task sig doc)) = turn_view doc"
  by (cases sig) (auto simp: turn_view_def Let_def)

lemma signal_view: "turn_view (snd (apply_runtime_signal now1 now2 sig doc)) = turn_view doc"
proof (cases rule: apply_runtime_signal_cases [of now1 now2 sig doc])
  case (2 a m doc')
  with apply_to_turn_view [OF 2(1,2)] show ?thesis by simp
next
  case (3 doc')
  with apply_to_task_view [of sig doc] show ?thesis by auto
qed simp

interpretation doc_steps: logged_steps E same_turn for E :: "'w turn_env"
  by unfold_locales (auto simp: same_turn_def signal_view log_event_def)

interpretation doc_turn: whole_turn E same_turn U for E :: "'w turn_env" and U
proof
  show "same_turn s (log_event (Asked m) s)" for s :: "'w conversation" and m
    by (simp add: same_turn_def log_event_def)
  show "same_turn s (snd (run_tool_round E (turn_config_of U structured) blocks anchor s))"
    for s :: "'w conversation" and structured blocks anchor
    by (rule doc_steps.logged.tool_round_steps)
qed


lemma closed_turn:
  assumes "closes E R s result s'" and "\<And>t. R s t \<Longrightarrow> same_turn s t"
    and "cm_task_doc s = Some doc" and "td_active_pulse doc = Some a"
  obtains doc' t where "cm_task_doc s' = Some doc'" "td_active_pulse doc' = None"
    "td_completed_turns doc' = td_completed_turns doc @ [t]" "tn_input t = at_input a"
    "outcome_fits result (tn_outcome t)"
proof -
  from assms(1) obtain t outcome tokens where c: "R s t" "outcome_fits result outcome"
    "s' = finish_turn_doc E outcome tokens t"
    by (auto simp: closes_def)
  from assms(2) [OF c(1)] assms(3) obtain doc1 where d: "cm_task_doc t = Some doc1" "turn_view doc1 = turn_view doc"
    by (cases "cm_task_doc t") (auto simp: same_turn_def)
  with assms(4) obtain a1 where a: "td_active_pulse doc1 = Some a1" "at_input a1 = at_input a"
    "td_completed_turns doc1 = td_completed_turns doc"
    by (auto simp: turn_view_def)
  with d c that show ?thesis
    by (auto simp: finish_turn_doc_def finish_turn_def read_now_ms_def split: prod.splits)
qed

text \<open>The state in which a message starts.\<close>

lemma start_message_open:
  assumes "start_message E input policy ctx s = Some t"
  obtains doc a where "cm_task_doc t = Some doc" "td_active_pulse doc = Some a" "at_input a = input"
    "td_completed_turns doc = (case cm_task_doc s of None \<Rightarrow> [] | Some d \<Rightarrow> td_completed_turns d)"
    "cm_events t = cm_events s"
  using assms
  by (auto simp: start_message_def ensure_task_doc_def begin_turn_doc_def begin_turn_def begin_task_def
        push_user_message_def push_message_def read_now_ms_def alloc_step_def Let_def
      split: option.splits prod.splits if_splits)

lemma send_message_parts:
  assumes "send_message_with_policy E input policy ctx s = Some (result, s')"
  obtains t where "start_message E input policy ctx s = Some t" "answer_message E input policy t = (result, s')"
  using assms by (auto simp: send_message_with_policy_def)

section \<open>The number of requests\<close>

definition requests :: "'w conversation \<Rightarrow> nat" where
  "requests s = length (filter is_asked (cm_events s))"

definition same_requests :: "'w conversation \<Rightarrow> 'w conversation \<Rightarrow> bool" where
  "same_requests s t \<longleftrightarrow> requests t = requests s"

interpretation quiet: logged_steps E same_requests for E :: "'w turn_env"
  by unfold_locales (auto simp: same_requests_def requests_def log_event_def)

interpretation quiet_turn: turn_rest E same_requests U for E :: "'w turn_env" and U
  by unfold_locales (rule quiet.logged.tool_round_steps)

fun end_requests :: "'w round_end \<Rightarrow> nat" where
  "end_requests (Again lp s) = requests s"
| "end_requests (Finished result s) = requests s"

lemma requests_events: "cm_events t = cm_events s \<Longrightarrow> requests t = requests s"
  by (simp add: requests_def)

lemma emit_requests: "requests (emit_stream_update E u s) = requests s" "requests (push_message m s) = requests s"
  by (simp_all add: requests_def emit_stream_update_def push_message_def)

lemma finish_requests: "requests (finish_turn_doc E outcome tokens s) = requests s"
  by (auto simp: finish_turn_doc_def read_now_ms_def intro: requests_events split: option.split prod.split)

lemma round_requests: "round_steps E same_requests s r \<Longrightarrow> end_requests r = requests s"
  by (cases r) (auto simp: closes_def same_requests_def finish_requests)

lemma ask_model_requests: "end_requests (ask_model E U lp s) = Suc (requests s)"
proof (cases "te_stream E (cm_api_messages s) (cm_world s)")
  case (Pair r w)
  from quiet_turn.after_request_steps [OF Pair quiet.refl_steps]
  have "end_requests (ask_model E U lp s) = requests (asked s w)" by (rule round_requests)
  then show ?thesis by (simp add: asked_def requests_def log_event_def)
qed

text \<open>The requests a turn may still make. A round within the limit is asked once and at most three times
  more after an overflow; the last request, for the final answer, is never repeated.\<close>

definition request_budget :: "turn_setup \<Rightarrow> turn_loop \<Rightarrow> nat" where
  "request_budget U lp =
     (if tl_final_attempted lp \<and> tu_max_rounds U \<le> tl_rounds lp then 0
      else Suc (4 * (tu_max_rounds U - tl_rounds lp) - tl_overflow_retries lp))"

lemma stop_requests: "end_requests (stop_with_guard E outcome tokens m s) = requests s"
  by (auto simp: stop_with_guard_def Let_def finish_requests emit_requests split: option.split)

lemma turn_round_requests:
  "end_requests (turn_round E U lp s)
   = requests s + (if tl_final_attempted lp \<and> tu_max_rounds U \<le> tl_rounds lp then 0 else 1)"
proof (cases "prune_history U lp (advance_round_start s)")
  case (Pair lp1 s1)
  have "requests s1 = requests s"
    by (rule requests_events) (simp add: prune_history_keeps(5) [OF Pair] advance_round_start_def)
  with Pair prune_history_keeps(1,2) [OF Pair] show ?thesis
    by (auto simp: turn_round_def Let_def ask_model_requests stop_requests emit_requests)
qed

lemma budget_decreases:
  assumes "turn_round E U lp s = Again lp' s'" and "tl_overflow_retries lp \<le> 3"
  shows "tl_overflow_retries lp' \<le> 3" "request_budget U lp' < request_budget U lp"
  using turn_round_again [OF assms(1)] assms(2) by (auto simp: request_budget_def split: if_splits)

lemma turn_loop_requests:
  assumes "turn_loop_run E U lp s = (result, s')" and "tl_overflow_retries lp \<le> 3"
  shows "requests s' \<le> requests s + request_budget U lp"
  using assms
proof (induction E U lp s rule: turn_loop_run.induct)
  case (1 E U lp s)
  note r = turn_round_requests [of E U lp s]
  show ?case
  proof (cases "turn_round E U lp s")
    case (Finished res t)
    with 1(2) r show ?thesis
      by (auto simp: turn_loop_run.simps [of E U lp s] request_budget_def split: if_splits)
  next
    case (Again lp' t)
    with 1(2) have "turn_loop_run E U lp' t = (result, s')" by (simp add: turn_loop_run.simps [of E U lp s])
    with 1(1) [OF Again] budget_decreases [OF Again 1(3)] have "requests s' \<le> requests t + request_budget U lp'"
      by blast
    with budget_decreases(2) [OF Again 1(3)] r Again show ?thesis by (auto split: if_splits)
  qed
qed

lemma max_rounds_bound: "resolve_max_tool_rounds env is_local \<le> 64"
  by (simp add: resolve_max_tool_rounds_def clamp_def)

lemma answer_requests:
  assumes "answer_message E input policy s = (result, s')"
  shows "requests s' \<le> requests s + 4 * resolve_max_tool_rounds (te_vars E) (te_is_local E) + 1"
proof (cases "builtin_supported_git_tools_response input")
  case (Some m)
  with assms show ?thesis
    by (auto simp: answer_message_def finish_requests emit_text_update_def emit_requests)
next
  case None
  let ?U = "turn_setup_of E input policy"
  obtain p s1 where p: "prepare_history E (tu_requires_evidence ?U) s = (p, s1)" by fastforce
  then have "requests s1 = requests s"
    by (auto simp: prepare_history_def Let_def requests_def emit_stream_update_def
             split: prod.splits option.splits)
  moreover have "requests s' \<le> requests s1 + request_budget ?U (turn_loop_start p (length (cm_api_messages s) - 1))"
    using assms None p
    by (intro turn_loop_requests) (auto simp: answer_message_def Let_def turn_loop_start_def)
  ultimately show ?thesis
    by (simp add: request_budget_def turn_loop_start_def turn_setup_of_def)
qed


lemma message_requests:
  assumes "send_message_with_policy E input policy ctx s = Some (result, s')"
  shows "requests s' \<le> requests s + 4 * resolve_max_tool_rounds (te_vars E) (te_is_local E) + 1"
proof -
  from assms obtain u where u: "start_message E input policy ctx s = Some u"
    "answer_message E input policy u = (result, s')" by (rule send_message_parts)
  from u(1) have "requests u = requests s" by (rule start_message_open) (simp add: requests_def)
  with answer_requests [OF u(2)] show ?thesis by simp
qed

section \<open>An example\<close>

text \<open>A model that asks for one change of a file, then answers; the user approves.\<close>

definition demo_call :: json where
  "demo_call = JObject [(''path'', JString ''a''), (''content'', JString ''b'')]"

definition demo_replies :: "(string + runtime_signal) list list" where
  "demo_replies =
     [[Inr (ToolCallStarted ''c1'' ''write_file'' demo_call Pending '''')],
      [Inr (TranscriptBlockStart 0 (FinalText '''')), Inr (TranscriptBlockDelta 0 ''done'')]]"

definition demo_env :: "nat turn_env" where
  "demo_env =
     \<lparr>te_has_channel = True, te_is_local = False, te_structured_mode = True, te_tool_policy = Full_policy,
      te_vars = (\<lambda>_. None), te_context_window = 0, te_model_name = ''m'',
      te_preview = \<lparr>pv_groups = (\<lambda>_ _ _. []), pv_pretty = (\<lambda>_. None), pv_display = (\<lambda>_. ''''),
                    pv_hash = (\<lambda>_. 0)\<rparr>,
      te_json = (\<lambda>_. ''''), te_fingerprint = (\<lambda>_. None), te_hooks = [], te_http_hooks = [],
      te_working_dir = [RootDir, Normal ''w''], te_uuid = (\<lambda>w. (''t'', w)), te_now_ms = (\<lambda>w. (0, w)),
      te_utc_now = (\<lambda>w. (0, w)), te_rfc3339 = (\<lambda>_. ''''), te_parse_rfc3339 = (\<lambda>_. None),
      te_stream = (\<lambda>ms w. (Inr (if w < 2 then demo_replies ! w else []), w + 1)),
      te_answer = (\<lambda>n p w. (True, w)), te_tool = (\<lambda>n v w. (Inr ''ok'', [], w)),
      te_hook_command = (\<lambda>c as w. (Exit_code 0, w)), te_http_client_error = (\<lambda>w. None),
      te_http = (\<lambda>u n p w. (Http_success, w)), te_read_bytes = (\<lambda>p w. None), te_clear_ledger = (\<lambda>w. w)\<rparr>"

definition demo_conversation :: "nat conversation" where
  "demo_conversation =
     \<lparr>cm_api_messages = [], cm_task_doc = None, cm_round_entry_start = 0, cm_round_stream_block_count = 0,
      cm_tool_call_started_at = [], cm_last_turn_tokens = pulse_tokens_default, cm_read_cache = [],
      cm_undo_stack = [], cm_max_undo_checkpoints = 0, cm_undo_enabled = False,
      cm_compaction_config = \<lparr>cfg_enabled = False, cfg_threshold_percent = 0, cfg_keep_recent_turns = 0,
                              cfg_summary_max_tokens = 0\<rparr>,
      cm_working_set = None, cm_supplementary_prompt = None, cm_world = 0, cm_events = []\<rparr>"

definition demo_result :: "((string + string) \<times> nat conversation) option" where
  "demo_result = send_message_with_policy demo_env ''go'' Default_policy None demo_conversation"

section \<open>Properties\<close>

lemma begin_turn_doc_None:
  "begin_turn_doc E input policy s = None
   \<longleftrightarrow> (case cm_task_doc s of None \<Rightarrow> False | Some doc \<Rightarrow> td_active_pulse doc \<noteq> None)"
  by (cases "cm_task_doc s") (auto simp: begin_turn_doc_def begin_turn_def case_prod_unfold Let_def)

lemma ensured_doc:
  "case cm_task_doc s of
     None \<Rightarrow> (\<exists>info. cm_task_doc (ensure_task_doc E s) = Some (begin_task info))
   | Some doc \<Rightarrow> cm_task_doc (ensure_task_doc E s) = Some doc"
  by (cases "cm_task_doc s") (auto simp: ensure_task_doc_def case_prod_unfold Let_def)

lemma start_message_cases:
  "start_message E input policy ctx s = None
   \<longleftrightarrow> (case cm_task_doc s of None \<Rightarrow> False | Some doc \<Rightarrow> td_active_pulse doc \<noteq> None)"
  using ensured_doc [where E = E and s = "s\<lparr>cm_last_turn_tokens := pulse_tokens_default, cm_world := te_clear_ledger E (cm_world s)\<rparr>"]
  by (cases "cm_task_doc s") (auto simp: start_message_def begin_turn_doc_None begin_task_def)

lemma message_log:
  assumes "send_message_with_policy E input policy ctx s = Some (result, s')"
  shows "log_ok (call_allowed E input policy)
           (must_approve E (tool_approval_enabled (te_vars E) (te_is_local E))) s s'"
    (is "log_ok ?allow ?must s s'")
proof -
  from assms obtain t where t: "start_message E input policy ctx s = Some t"
    "answer_message E input policy t = (result, s')" by (rule send_message_parts)
  let ?U = "turn_setup_of E input policy"
  have u: "tu_user_input ?U = input" "tu_policy ?U = policy"
    "tu_require_approval ?U = tool_approval_enabled (te_vars E) (te_is_local E)"
    by (simp_all add: turn_setup_of_def)
  from log_turn.answer_message_steps [OF refl t(2)]
  have "closes E (log_ok ?allow ?must) t result s'" by (simp only: u)
  then obtain v outcome tokens
    where v: "log_ok ?allow ?must t v" "s' = finish_turn_doc E outcome tokens v"
    by (auto simp: closes_def)
  from t(1) have "cm_events t = cm_events s" by (rule start_message_open)
  then have a: "log_ok ?allow ?must s t" by (rule log_no_event)
  have "cm_events s' = cm_events v"
    unfolding v(2) by (auto simp: finish_turn_doc_def read_now_ms_def split: option.split prod.split)
  then have "log_ok ?allow ?must v s'" by (rule log_no_event)
  with v(1) have "log_ok ?allow ?must t s'" by (rule log_from_trans)
  with a show ?thesis by (rule log_from_trans)
qed

lemma approval_log_any:
  "approval_log allow must G es = Some H \<Longrightarrow> approval_log (\<lambda>n v. True) must G es = Some H"
  by (induction allow must G es rule: approval_log.induct) (auto simp: Let_def split: if_splits)

text \<open>
  C1 [confirmed_calls_are_approved]. When somebody can be asked, a turn runs a tool that needs confirmation (every
  tool, when confirmation is switched on) only after the user has approved that tool with these
  arguments, and a hook only after its command was approved; each approval is used up by one run.
\<close>

theorem confirmed_calls_are_approved:
  assumes "te_has_channel E"
    and "send_message_with_policy E input policy ctx s = Some (result, s')"
  shows "\<exists>es left. cm_events s' = cm_events s @ es
    \<and> approval_log (\<lambda>n v. True)
        (\<lambda>n. tool_approval_enabled (te_vars E) (te_is_local E) \<or> tool_requires_confirmation n) {#} es = Some left"
proof -
  have m: "must_approve E r = (\<lambda>n. r \<or> tool_requires_confirmation n)" for r
    using assms(1) by (simp add: must_approve_def fun_eq_iff)
  from message_log [OF assms(2)] show ?thesis
    unfolding m log_from_def by (blast dest: approval_log_any)
qed

fun event_allowed :: "'w turn_env \<Rightarrow> string \<Rightarrow> pulse_tool_policy \<Rightarrow> turn_event \<Rightarrow> bool" where
  "event_allowed E input policy (Ran_tool n v) \<longleftrightarrow> call_allowed E input policy n v"
| "event_allowed E input policy _ \<longleftrightarrow> True"

lemma events_allowed:
  "approval_log (call_allowed E input policy) must G es = Some H \<Longrightarrow> list_all (event_allowed E input policy) es"
  unfolding list_all_iff
proof
  fix e
  assume "approval_log (call_allowed E input policy) must G es = Some H" and "e \<in> set es"
  then show "event_allowed E input policy e" by (cases e) (auto dest: approval_log_allowed)
qed

text \<open>
  C6 [ran_tools_are_allowed]. A turn runs no tool that its input or its policies forbid: none in chat mode, only
  readers in plan mode, none that needs confirmation when the user asked for no changes, and no change
  outside the tests when only tests may change.
\<close>

theorem ran_tools_are_allowed:
  assumes "send_message_with_policy E input policy ctx s = Some (result, s')"
  shows "list_all (event_allowed E input policy) (drop (length (cm_events s)) (cm_events s'))"
  using message_log [OF assms] by (auto simp: log_from_def events_allowed)

text \<open>
  C5 [turn_is_recorded]. Whatever happens in a message, its turn is closed in the document: the turns before it
  are kept, one turn with its input is added, and its outcome says whether the call failed and how.
\<close>

theorem turn_is_recorded:
  assumes "send_message_with_policy E input policy ctx s = Some (result, s')"
  shows "\<exists>doc t. cm_task_doc s' = Some doc \<and> td_active_pulse doc = None
    \<and> td_completed_turns doc
        = (case cm_task_doc s of None \<Rightarrow> [] | Some d \<Rightarrow> td_completed_turns d) @ [t]
    \<and> tn_input t = input \<and> outcome_fits result (tn_outcome t)"
proof -
  from assms obtain u where u: "start_message E input policy ctx s = Some u"
    "answer_message E input policy u = (result, s')" by (rule send_message_parts)
  from u(1) obtain doc a where d: "cm_task_doc u = Some doc" "td_active_pulse doc = Some a" "at_input a = input"
    "td_completed_turns doc = (case cm_task_doc s of None \<Rightarrow> [] | Some d \<Rightarrow> td_completed_turns d)"
    by (rule start_message_open)
  from doc_turn.answer_message_steps [OF refl u(2)] _ d(1,2) show ?thesis
    by (rule closed_turn) (use d(3,4) in auto)
qed


text \<open>
  C4 [requests_bounded]. A message asks the model at most four times for each of its rounds and once more for the
  final answer, so at most 257 times, whatever the model, the tools and the user do.
\<close>

theorem requests_bounded:
  assumes "send_message_with_policy E input policy ctx s = Some (result, s')"
  shows "requests s' \<le> requests s + 4 * resolve_max_tool_rounds (te_vars E) (te_is_local E) + 1
    \<and> requests s' \<le> requests s + 257"
  using message_requests [OF assms] max_rounds_bound [of "te_vars E" "te_is_local E"] by simp

lemma demo_returns:
  obtains result s' where "send_message_with_policy demo_env ''go'' Default_policy None demo_conversation = Some (result, s')"
proof -
  have "send_message_with_policy demo_env ''go'' Default_policy None demo_conversation \<noteq> None"
    by (simp add: send_message_with_policy_def start_message_cases demo_conversation_def)
  with that show thesis by auto
qed

theorem confirmed_calls_are_approved_witness:
  "\<exists>result s' left. send_message_with_policy demo_env ''go'' Default_policy None demo_conversation = Some (result, s')
    \<and> approval_log (\<lambda>n v. True) (\<lambda>n. True) {#} (cm_events s') = Some left"
proof -
  obtain result s' where r: "send_message_with_policy demo_env ''go'' Default_policy None demo_conversation = Some (result, s')"
    by (rule demo_returns)
  have c: "te_has_channel demo_env" by (simp add: demo_env_def)
  have a: "tool_approval_enabled (te_vars demo_env) (te_is_local demo_env)" by code_simp
  have "cm_events demo_conversation = []" by (simp add: demo_conversation_def)
  with confirmed_calls_are_approved [OF c r] r a show ?thesis by simp
qed

theorem ran_tools_are_allowed_witness:
  "\<exists>result s'. send_message_with_policy demo_env ''go'' Default_policy None demo_conversation = Some (result, s')
    \<and> list_all (event_allowed demo_env ''go'' Default_policy) (cm_events s')"
proof -
  obtain result s' where r: "send_message_with_policy demo_env ''go'' Default_policy None demo_conversation = Some (result, s')"
    by (rule demo_returns)
  have "cm_events demo_conversation = []" by (simp add: demo_conversation_def)
  with ran_tools_are_allowed [OF r] r show ?thesis by simp
qed

theorem turn_is_recorded_witness:
  "\<exists>result s' doc t. send_message_with_policy demo_env ''go'' Default_policy None demo_conversation = Some (result, s')
    \<and> cm_task_doc s' = Some doc \<and> td_completed_turns doc = [t] \<and> tn_input t = ''go''"
proof -
  obtain result s' where r: "send_message_with_policy demo_env ''go'' Default_policy None demo_conversation = Some (result, s')"
    by (rule demo_returns)
  have "cm_task_doc demo_conversation = None" by (simp add: demo_conversation_def)
  with turn_is_recorded [OF r] r show ?thesis by auto
qed

theorem requests_bounded_witness:
  "\<exists>result s'. send_message_with_policy demo_env ''go'' Default_policy None demo_conversation = Some (result, s')
    \<and> requests s' \<le> 257"
proof -
  obtain result s' where r: "send_message_with_policy demo_env ''go'' Default_policy None demo_conversation = Some (result, s')"
    by (rule demo_returns)
  have "requests demo_conversation = 0" by (simp add: demo_conversation_def requests_def)
  with requests_bounded [OF r] r show ?thesis by auto
qed

end
