(* ===== verification/Round_Laws.thy ===== *)
theory Round_Laws
  imports Turn_Laws
begin

text \<open>
  What a round of calls sends back to the model, and what the text of a streamed answer is.
\<close>

section \<open>Every call is answered\<close>

text \<open>What the model is told of a call, as a block and as a text: that a guard objected to this call, that the user
  denied it, or what the tool answered when it ran with the arguments of this call (or was refused before a parallel
  run).\<close>

definition tool_outcome :: "'w turn_env \<Rightarrow> turn_config \<Rightarrow> string \<Rightarrow> json \<Rightarrow> string + string \<Rightarrow> bool" where
  "tool_outcome E cfg name input result \<longleftrightarrow>
     (\<exists>s. fst (execute_tool E name input (tc_timeout_secs cfg) s) = result)
     \<or> (\<exists>m. parallel_refusal E cfg name input = Some m \<and> result = Inl m)"

definition error_answer :: "turn_config \<Rightarrow> string \<times> string \<times> json \<Rightarrow> string \<Rightarrow> content_block \<Rightarrow> string \<Rightarrow> bool" where
  "error_answer cfg c m block t \<longleftrightarrow>
     (case c of (i, name, input) \<Rightarrow>
        block = ToolResultContent i (truncate_for_history m (tc_max_result_chars cfg)) True
        \<and> t = truncate_for_history (''tool_error '' @ name @ '':'' @ [newline] @ m) (tc_max_result_chars cfg))"

definition outcome_answer ::
  "'w turn_env \<Rightarrow> turn_config \<Rightarrow> string \<times> string \<times> json \<Rightarrow> string + string \<Rightarrow> content_block \<Rightarrow> string \<Rightarrow> bool" where
  "outcome_answer E cfg c result block t \<longleftrightarrow>
     (case c of (i, name, input) \<Rightarrow>
        \<exists>cache. let h = truncate_for_history (fst (format_tool_result_for_history (te_preview E) name input result cache))
                          (tc_max_result_chars cfg)
          in block = ToolResultContent i h (is_err result)
             \<and> t = truncate_for_history ((if is_err result then ''tool_error '' else ''tool_result '') @ name @ '':'' @ [newline] @ h)
                     (tc_max_result_chars cfg))"

definition answered :: "'w turn_env \<Rightarrow> turn_config \<Rightarrow> string \<times> string \<times> json \<Rightarrow> content_block \<Rightarrow> string \<Rightarrow> bool" where
  "answered E cfg c block t \<longleftrightarrow>
     (case c of (i, name, input) \<Rightarrow>
        (\<exists>anchor m. guard_message E cfg anchor name input = Some m \<and> error_answer cfg c m block t)
        \<or> (\<exists>s. \<not> fst (ask_approval E cfg i name input s)) \<and> error_answer cfg c (render_tool_denied_message name) block t
        \<or> (\<exists>result. tool_outcome E cfg name input result \<and> outcome_answer E cfg c result block t))"

text \<open>One more result, for one call, in the form of the round.\<close>

definition adds_answer :: "turn_config \<Rightarrow> content_block \<Rightarrow> string \<Rightarrow> round_results \<Rightarrow> round_results \<Rightarrow> bool" where
  "adds_answer cfg block t rr rr' \<longleftrightarrow>
     (if tc_structured_round cfg
      then rr_blocks rr' = rr_blocks rr @ [block] \<and> rr_texts rr' = rr_texts rr
      else rr_texts rr' = rr_texts rr @ [t] \<and> rr_blocks rr' = rr_blocks rr)"

definition one_answer ::
  "'w turn_env \<Rightarrow> turn_config \<Rightarrow> string \<times> string \<times> json \<Rightarrow> round_results \<Rightarrow> round_results \<Rightarrow> bool" where
  "one_answer E cfg c rr rr' \<longleftrightarrow> (\<exists>block t. answered E cfg c block t \<and> adds_answer cfg block t rr rr')"

lemma read_anchor_keeps [simp]:
  "rr_blocks (read_anchor n v r rr) = rr_blocks rr" "rr_texts (read_anchor n v r rr) = rr_texts rr"
  by (simp_all add: read_anchor_def split: option.split)

lemma emit_error_answers:
  obtains block t where "error_answer cfg (i, n, v) m block t"
    "adds_answer cfg block t rr (fst (emit_tool_error E cfg n m i (rr, s)))"
  by (simp add: emit_tool_error_def adds_answer_def error_answer_def)

lemma add_result_answers:
  obtains block t where "outcome_answer E cfg (i, n, v) r block t"
    "adds_answer cfg block t rr (fst (add_result E cfg i n v r (rr, s)))"
proof -
  let ?s2 = "push_tool_result_block E i (result_text r) (is_err r) (set_tool_call_status E i (if is_err r then Error_status else Complete) s)"
  let ?h = "truncate_for_history (fst (format_tool_result_for_history (te_preview E) n v r (cm_read_cache ?s2)))
              (tc_max_result_chars cfg)"
  let ?t = "truncate_for_history ((if is_err r then ''tool_error '' else ''tool_result '') @ n @ '':'' @ [newline] @ ?h)
              (tc_max_result_chars cfg)"
  have "outcome_answer E cfg (i, n, v) r (ToolResultContent i ?h (is_err r)) ?t"
    unfolding outcome_answer_def Let_def prod.case by blast
  moreover have "adds_answer cfg (ToolResultContent i ?h (is_err r)) ?t rr (fst (add_result E cfg i n v r (rr, s)))"
    by (simp add: add_result_def adds_answer_def case_prod_unfold Let_def)
  ultimately show thesis by (rule that)
qed

lemma executed_answers:
  "tool_outcome E cfg n v r \<Longrightarrow> one_answer E cfg (i, n, v) rr (fst (add_result E cfg i n v r (rr, s)))"
  using add_result_answers [of E cfg i n v r rr s] unfolding one_answer_def answered_def by (metis (no_types, lifting) prod.case)

lemma error_answers:
  assumes "(\<exists>anchor. guard_message E cfg anchor n v = Some m)
    \<or> m = render_tool_denied_message n \<and> (\<exists>s. \<not> fst (ask_approval E cfg i n v s))"
  shows "one_answer E cfg (i, n, v) rr (fst (emit_tool_error E cfg n m i (rr, s)))"
proof -
  obtain block t where a: "error_answer cfg (i, n, v) m block t"
    "adds_answer cfg block t rr (fst (emit_tool_error E cfg n m i (rr, s)))" by (rule emit_error_answers)
  from a(1) assms have "answered E cfg (i, n, v) block t" by (auto simp: answered_def)
  with a(2) show ?thesis unfolding one_answer_def by blast
qed

lemma process_call_answers: "one_answer E cfg (i, n, v) rr (fst (process_call E cfg i n v (rr, s)))"
proof (cases "guard_message E cfg (rr_anchor rr) n v")
  case (Some m)
  then have "one_answer E cfg (i, n, v) rr (fst (emit_tool_error E cfg n m i (rr, t)))" for t
    by (blast intro: error_answers)
  with Some show ?thesis by (simp add: process_call_def refuse_def)
next
  case None
  obtain ok s1 where ask: "ask_approval E cfg i n v s = (ok, s1)" by fastforce
  show ?thesis
  proof (cases ok)
    case True
    have "tool_outcome E cfg n v (fst (execute_tool E n v (tc_timeout_secs cfg) s1))"
      by (auto simp: tool_outcome_def)
    from executed_answers [OF this] True None ask show ?thesis
      by (simp add: process_call_def run_approved_def case_prod_unfold Let_def)
  next
    case False
    with ask have "\<not> fst (ask_approval E cfg i n v s)" by simp
    then have "one_answer E cfg (i, n, v) rr (fst (emit_tool_error E cfg n (render_tool_denied_message n) i (rr, t)))" for t
      by (blast intro: error_answers)
    with None ask False show ?thesis by (simp add: process_call_def Let_def)
  qed
qed

text \<open>The results of a list of calls, in their order.\<close>

definition answers ::
  "'w turn_env \<Rightarrow> turn_config \<Rightarrow> (string \<times> string \<times> json) list \<Rightarrow> round_results \<Rightarrow> round_results \<Rightarrow> bool" where
  "answers E cfg cs rr rr' \<longleftrightarrow>
     (if tc_structured_round cfg
      then (\<exists>blocks. rr_blocks rr' = rr_blocks rr @ blocks \<and> list_all2 (\<lambda>c b. \<exists>t. answered E cfg c b t) cs blocks)
           \<and> rr_texts rr' = rr_texts rr
      else (\<exists>ts. rr_texts rr' = rr_texts rr @ ts \<and> list_all2 (\<lambda>c t. \<exists>b. answered E cfg c b t) cs ts)
           \<and> rr_blocks rr' = rr_blocks rr)"

lemma answers_Nil [simp]: "answers E cfg [] rr rr"
  by (simp add: answers_def)

lemma answers_Cons: "one_answer E cfg c rr rr' \<Longrightarrow> answers E cfg cs rr' rr'' \<Longrightarrow> answers E cfg (c # cs) rr rr''"
  by (auto simp: one_answer_def adds_answer_def answers_def list_all2_Cons1 split: if_splits)

lemma tool_uses_simps:
  "tool_uses [] = []"
  "tool_uses (b # blocks) = (case tool_use b of None \<Rightarrow> tool_uses blocks | Some c \<Rightarrow> c # tool_uses blocks)"
  by (simp_all add: tool_uses_def map_filter_def split: option.split)

lemma process_blocks_answer:
  "answers E cfg (tool_uses blocks) rr (fst (fold (process_block E cfg) blocks (rr, s)))"
proof (induction blocks arbitrary: rr s)
  case (Cons b blocks)
  show ?case
  proof (cases "tool_use b")
    case None
    then have "process_block E cfg b (rr, s) = (rr, s)" by (cases b) auto
    with None Cons [of rr s] show ?thesis by (simp add: tool_uses_simps)
  next
    case (Some c)
    obtain i n v where c: "c = (i, n, v)" by (metis prod_cases3)
    with Some have b: "process_block E cfg b (rr, s) = process_call E cfg i n v (rr, s)" by (cases b) auto
    obtain rr1 s1 where p: "process_call E cfg i n v (rr, s) = (rr1, s1)" by fastforce
    from process_call_answers [of E cfg i n v rr s] p have "one_answer E cfg c rr rr1" by (simp add: c)
    from answers_Cons [OF this Cons [of rr1 s1]] Some b p show ?thesis
      by (simp add: tool_uses_simps)
  qed
qed (simp add: tool_uses_simps)

definition completed_call :: "string \<times> string \<times> json \<times> (string + string) \<Rightarrow> string \<times> string \<times> json" where
  "completed_call x = (case x of (i, name, input, result) \<Rightarrow> (i, name, input))"

lemma add_results_answer:
  assumes "\<forall>(i, name, input, result) \<in> set completed. tool_outcome E cfg name input result"
  shows "answers E cfg (map completed_call completed) rr
     (fst (fold (\<lambda>(i, name, input, result). add_result E cfg i name input result) completed (rr, s)))"
  using assms
proof (induction completed arbitrary: rr s)
  case (Cons c completed)
  obtain i n v r where c: "c = (i, n, v, r)" by (metis prod_cases4)
  obtain rr1 s1 where p: "add_result E cfg i n v r (rr, s) = (rr1, s1)" by fastforce
  have "tool_outcome E cfg n v r" using Cons.prems by (simp add: c)
  from executed_answers [OF this, of i rr s] p have "one_answer E cfg (completed_call c) rr rr1"
    by (simp add: c completed_call_def)
  from answers_Cons [OF this Cons.IH [of rr1 s1]] Cons.prems c p show ?case by simp
qed simp

lemma run_parallel_calls:
  "map completed_call (fst (run_parallel E cfg calls s)) = calls
   \<and> (\<forall>(i, name, input, result) \<in> set (fst (run_parallel E cfg calls s)). tool_outcome E cfg name input result)"
proof (induction calls arbitrary: s)
  case (Cons c calls)
  obtain i n v where c: "c = (i, n, v)" by (metis prod_cases3)
  show ?case
  proof (cases "parallel_refusal E cfg n v")
    case None
    obtain r s1 where r: "execute_tool E n v (tc_timeout_secs cfg) s = (r, s1)" by fastforce
    then have "tool_outcome E cfg n v r" unfolding tool_outcome_def by (metis fst_conv)
    with None r c Cons [of s1] show ?thesis by (simp add: case_prod_unfold Let_def completed_call_def)
  next
    case (Some m)
    then have "tool_outcome E cfg n v (Inl m)" by (simp add: tool_outcome_def)
    with Some c Cons [of s] show ?thesis by (simp add: case_prod_unfold Let_def completed_call_def)
  qed
qed simp

text \<open>
  C26 [every_call_is_answered]. The results of a round are one per call, in the order of the calls. As a block each
  carries the id of its call, as a text the name of its tool; and its content is what a guard says of this very call,
  the denial when this call needs an approval and the user did not give it, or what the tool answered when it ran with
  the arguments of this call, formatted and cut, whether the calls ran one after the other or together.
\<close>

theorem every_call_is_answered:
  "(let rr = fst (run_tool_round E cfg blocks anchor s)
    in if tc_structured_round cfg
       then list_all2 (\<lambda>c b. \<exists>t. answered E cfg c b t) (tool_uses blocks) (rr_blocks rr) \<and> rr_texts rr = []
       else list_all2 (\<lambda>c t. \<exists>b. answered E cfg c b t) (tool_uses blocks) (rr_texts rr) \<and> rr_blocks rr = [])"
proof -
  let ?rr = "\<lparr>rr_blocks = [], rr_texts = [], rr_anchor = anchor\<rparr>"
  have "answers E cfg (tool_uses blocks) ?rr (fst (run_tool_round E cfg blocks anchor s))"
  proof (cases "should_parallelize_tool_round blocks (tc_require_approval cfg)")
    case True
    obtain completed s1 where e: "execute_parallel_tool_round E cfg blocks s = (completed, s1)" by fastforce
    then have "map completed_call completed = tool_uses blocks"
      and "\<forall>(i, name, input, result) \<in> set completed. tool_outcome E cfg name input result"
      using run_parallel_calls [of E cfg "tool_uses blocks" "fold (\<lambda>p. set_tool_call_status E (fst p) Executing) (tool_uses blocks) s"]
      by (auto simp: execute_parallel_tool_round_def case_prod_unfold Let_def)
    with True e add_results_answer [of completed E cfg ?rr s1] show ?thesis
      by (simp add: run_tool_round_def)
  next
    case False
    with process_blocks_answer [of E cfg blocks ?rr s] show ?thesis by (simp add: run_tool_round_def)
  qed
  then show ?thesis by (auto simp: answers_def Let_def split: if_splits)
qed

section \<open>Streamed text\<close>

definition add_increment :: "string \<Rightarrow> string \<Rightarrow> string" where
  "add_increment t existing = existing @ bounded_incremental_suffix existing t"

lemma increment_of_longer: "prefix existing t \<Longrightarrow> add_increment t existing = t"
  by (auto simp: add_increment_def bounded_incremental_suffix_def prefix_def)

text \<open>
  From a server that sends the whole text again with each piece, the text of the
  block is exactly the last one it sent.
\<close>

theorem cumulative_text_exact:
  assumes "sorted_wrt prefix pieces"
  shows "fold add_increment pieces '''' = (if pieces = [] then '''' else last pieces)"
proof -
  have "fold add_increment pieces existing = last (existing # pieces)"
    if "sorted_wrt prefix (existing # pieces)" for existing
    using that
  proof (induction pieces arbitrary: existing)
    case (Cons t pieces)
    then show ?case by (simp add: increment_of_longer)
  qed simp
  from this [of "''''"] assms show ?thesis by simp
qed

theorem cumulative_text_exact_witness:
  "fold add_increment [''a'', ''ab'', ''ab'', ''abc''] '''' = ''abc''"
  using cumulative_text_exact [of "[''a'', ''ab'', ''ab'', ''abc'']"] by simp

text \<open>A piece that repeats the beginning of the block is lost when the server sends increments.\<close>

lemma increment_lost: "fold add_increment [''no'', '', '', ''no''] '''' = ''no, ''"
  by code_simp

end
