(* ===== verification/Runtime_Context.thy ===== *)
theory Runtime_Context
  imports Turn_Loop Text_Normaliser
begin

text \<open>
  The runtime around the conversation (\<open>src/runtime/context.rs\<close>): a pulse sends one message and forwards the
  updates of the conversation to the front end, running the text of each block through a stream text
  normaliser of its own. The blocks left open at the end are drained from a hash map, whose order is not
  specified; here it is the order in which they were opened. A panic of the normaliser is \<open>None\<close>.
\<close>

section \<open>Forwarding\<close>

record forward_state =
  fw_blocks :: "(nat \<times> stream_text_normaliser) list"
  fw_normaliser :: stream_text_normaliser

definition forward_start :: forward_state where
  "forward_start = \<lparr>fw_blocks = [], fw_normaliser = normaliser_new\<rparr>"

fun chunk_update :: "nat option \<Rightarrow> normalised_chunk \<Rightarrow> ui_update list" where
  "chunk_update (Some index) (Text t) = [StreamBlockDelta index t]"
| "chunk_update None (Text t) = [StreamDelta t]"
| "chunk_update block_index (TaggedToolCall n v) = []"

definition emit_normalised_chunks :: "nat option \<Rightarrow> normalised_chunk list \<Rightarrow> ui_update list" where
  "emit_normalised_chunks block_index chunks = concat (map (chunk_update block_index) chunks)"

definition emit_block_text ::
  "serde \<Rightarrow> nat \<Rightarrow> string \<Rightarrow> forward_state \<Rightarrow> (ui_update list \<times> forward_state) option" where
  "emit_block_text sj index t fw =
     (case map_of (fw_blocks fw) index of
        None \<Rightarrow> Some ([], fw)
      | Some n \<Rightarrow>
          map_option (\<lambda>(chunks, n'). (emit_normalised_chunks (Some index) chunks,
                                      fw\<lparr>fw_blocks := AList.update index n' (fw_blocks fw)\<rparr>))
            (normalise sj t n))"

definition open_text_block ::
  "serde \<Rightarrow> nat \<Rightarrow> stream_block \<Rightarrow> string \<Rightarrow> forward_state \<Rightarrow> (ui_update list \<times> forward_state) option" where
  "open_text_block sj index block content fw =
     (let fw1 = fw\<lparr>fw_blocks := AList.update index normaliser_new (fw_blocks fw)\<rparr>
      in if content = '''' then Some ([StreamBlockStart index block], fw1)
         else map_option (\<lambda>(us, fw2). (StreamBlockStart index block # us, fw2)) (emit_block_text sj index content fw1))"

fun as_ui_update :: "stream_update \<Rightarrow> ui_update" where
  "as_ui_update (Delta_update t) = StreamDelta t"
| "as_ui_update (BlockStart_update index block) = StreamBlockStart index block"
| "as_ui_update (BlockDelta_update index delta) = StreamBlockDelta index delta"
| "as_ui_update (ToolCallArguments_update i n v) = ToolCallArgumentsUpdated i n v"
| "as_ui_update (BlockComplete_update index) = StreamBlockComplete index"
| "as_ui_update (ToolApprovalRequest_update n p) =
     ToolApprovalRequest_ui \<lparr>tar_tool_name = n, tar_input_preview = p\<rparr>"
| "as_ui_update (TranscriptLine_update l) = TranscriptLine_ui l"
| "as_ui_update (ServerMetadata_update md) = ServerMetadata_ui md"
| "as_ui_update (CommandSessionStarted_update session_id command) = CommandSessionStarted session_id command"
| "as_ui_update (CommandSessionAttached_update session_id pid) = CommandSessionAttached session_id pid"
| "as_ui_update (CommandSessionFinished_update session_id) = CommandSessionFinished session_id"
| "as_ui_update (ContextCompacted_update before after summary) = ContextCompacted before after summary"
| "as_ui_update (StreamError_update msg) = Error_ui msg"

definition close_block :: "nat \<Rightarrow> forward_state \<Rightarrow> ui_update list \<times> forward_state" where
  "close_block index fw =
     (case map_of (fw_blocks fw) index of
        None \<Rightarrow> ([StreamBlockComplete index], fw)
      | Some n \<Rightarrow>
          (emit_normalised_chunks (Some index) (fst (normaliser_finish n)) @ [StreamBlockComplete index],
           fw\<lparr>fw_blocks := AList.delete index (fw_blocks fw)\<rparr>))"

fun forward_conversation_update ::
  "serde \<Rightarrow> stream_update \<Rightarrow> forward_state \<Rightarrow> (ui_update list \<times> forward_state) option" where
  "forward_conversation_update sj (Delta_update t) fw =
     map_option (\<lambda>(chunks, n). (emit_normalised_chunks None chunks, fw\<lparr>fw_normaliser := n\<rparr>))
       (normalise sj t (fw_normaliser fw))"
| "forward_conversation_update sj (BlockStart_update index (Thinking content collapsed)) fw =
     open_text_block sj index (Thinking '''' collapsed) content fw"
| "forward_conversation_update sj (BlockStart_update index (FinalText content)) fw =
     open_text_block sj index (FinalText '''') content fw"
| "forward_conversation_update sj (BlockDelta_update index delta) fw =
     (if map_of (fw_blocks fw) index = None then Some ([StreamBlockDelta index delta], fw)
      else emit_block_text sj index delta fw)"
| "forward_conversation_update sj (BlockComplete_update index) fw = Some (close_block index fw)"
| "forward_conversation_update sj u fw = Some ([as_ui_update u], fw)"

fun forward_updates ::
  "serde \<Rightarrow> stream_update list \<Rightarrow> forward_state \<Rightarrow> (ui_update list \<times> forward_state) option" where
  "forward_updates sj [] fw = Some ([], fw)"
| "forward_updates sj (u # us) fw =
     (case forward_conversation_update sj u fw of
        None \<Rightarrow> None
      | Some (out1, fw1) \<Rightarrow> map_option (\<lambda>(out2, fw2). (out1 @ out2, fw2)) (forward_updates sj us fw1))"

text \<open>The end of a pulse flushes the blocks that are still open; the end of a turn of the edit loop only
  closes them.\<close>

definition drain_finished :: "forward_state \<Rightarrow> ui_update list" where
  "drain_finished fw =
     concat (map (\<lambda>(index, n). emit_normalised_chunks (Some index) (fst (normaliser_finish n))
                               @ [StreamBlockComplete index]) (fw_blocks fw))"

definition drain_closed :: "forward_state \<Rightarrow> ui_update list" where
  "drain_closed fw = map (\<lambda>(index, n). StreamBlockComplete index) (fw_blocks fw)"

section \<open>Prompts and token counts\<close>

definition nonblank_trim :: "string option \<Rightarrow> string option" where
  "nonblank_trim v = (case map_option trim v of Some t \<Rightarrow> if t = '''' then None else Some t | None \<Rightarrow> None)"

definition merge_supplementary_prompt :: "string option \<Rightarrow> string option \<Rightarrow> string option" where
  "merge_supplementary_prompt extra working_set_block =
     (case (nonblank_trim extra, nonblank_trim working_set_block) of
        (Some e, Some b) \<Rightarrow> Some (e @ [newline, newline] @ b)
      | (Some e, None) \<Rightarrow> Some e
      | (None, Some b) \<Rightarrow> Some b
      | (None, None) \<Rightarrow> None)"

definition working_set_prompt_block :: "'w conversation \<Rightarrow> string option" where
  "working_set_prompt_block s = map_option as_prompt_block (cm_working_set s)"

definition set_runtime_prompt :: "string option \<Rightarrow> 'w conversation \<Rightarrow> 'w conversation" where
  "set_runtime_prompt supplementary s =
     set_supplementary_prompt (merge_supplementary_prompt supplementary (working_set_prompt_block s)) s"

definition normalize_turn_tokens :: "string \<Rightarrow> string \<Rightarrow> pulse_tokens \<Rightarrow> pulse_tokens" where
  "normalize_turn_tokens input response turn_tokens =
     (if is_zero turn_tokens
      then pulse_tokens_default\<lparr>pt_input := estimate_tokens input, pt_output := estimate_tokens response,
                                pt_estimated := True\<rparr>
      else turn_tokens)"

fun block_char_count :: "(json \<Rightarrow> string) \<Rightarrow> content_block \<Rightarrow> nat" where
  "block_char_count display (TextContent t c) = length t"
| "block_char_count display (ToolUseContent i n input m) = length i + length n + length (display input)"
| "block_char_count display (ToolResultContent i content e) = length i + length content"
| "block_char_count display (ThinkingContent t signature) = length t + length signature"
| "block_char_count display (ThinkingDataContent data) = length data"
| "block_char_count display (ServerToolUseContent i n input) = length i + length n + length (display input)"
| "block_char_count display (WebSearchToolResultContent i content) = length i + length (display content)"

definition estimate_char_count :: "(json \<Rightarrow> string) \<Rightarrow> api_message list \<Rightarrow> nat" where
  "estimate_char_count display messages =
     sum_list (map (\<lambda>m. length (am_role m)
       + (case am_content m of TextMessage t \<Rightarrow> length t
          | Blocks blocks \<Rightarrow> sum_list (map (block_char_count display) blocks))) messages)"

definition estimate_token_count :: "(json \<Rightarrow> string) \<Rightarrow> api_message list \<Rightarrow> nat" where
  "estimate_token_count display messages = estimate_char_count display messages div 4"

section \<open>Pulses\<close>

record 'w runtime_context =
  rx_conversation :: "'w conversation"
  rx_updates :: "ui_update list"
  rx_session_tokens :: session_tokens

definition emit_ui :: "ui_update list \<Rightarrow> 'w runtime_context \<Rightarrow> 'w runtime_context" where
  "emit_ui us rx = rx\<lparr>rx_updates := rx_updates rx @ us\<rparr>"

definition emit_transcript_line :: "string \<Rightarrow> 'w runtime_context \<Rightarrow> 'w runtime_context" where
  "emit_transcript_line l = emit_ui [TranscriptLine_ui l]"

fun sent_update :: "turn_event \<Rightarrow> stream_update option" where
  "sent_update (Sent u) = Some u"
| "sent_update _ = None"

definition new_updates :: "'w conversation \<Rightarrow> 'w conversation \<Rightarrow> stream_update list" where
  "new_updates s s' = List.map_filter sent_update (drop (length (cm_events s)) (cm_events s'))"

text \<open>The task that sends the message: when it panics, it has cleared the ledger and read the clock.\<close>

definition panicked :: "'w turn_env \<Rightarrow> 'w conversation \<Rightarrow> 'w conversation" where
  "panicked E s =
     snd (read_now_ms E (s\<lparr>cm_last_turn_tokens := pulse_tokens_default,
                           cm_world := te_clear_ledger E (cm_world s)\<rparr>))"

definition send_task ::
  "'w turn_env \<Rightarrow> string \<Rightarrow> string \<Rightarrow> pulse_tool_policy \<Rightarrow> string option \<Rightarrow> 'w conversation
   \<Rightarrow> (string + string) option \<times> 'w conversation" where
  "send_task E join_error input policy ctx s =
     (case send_message_with_policy (E\<lparr>te_has_channel := True\<rparr>) input policy ctx s of
        None \<Rightarrow> (None, panicked E s)
      | Some (result, s') \<Rightarrow> (Some result, s'))"

definition start_pulse_with_policy ::
  "'w turn_env \<Rightarrow> serde \<Rightarrow> string \<Rightarrow> string \<Rightarrow> string option \<Rightarrow> pulse_tool_policy \<Rightarrow> string option
   \<Rightarrow> 'w runtime_context \<Rightarrow> 'w runtime_context option" where
  "start_pulse_with_policy E sj join_error input supplementary policy ctx rx =
     (let s = set_runtime_prompt supplementary (rx_conversation rx);
          (result, s1) = send_task E join_error input policy (nonblank_trim ctx) s;
          (turn_tokens, s2) = (if result = None then (pulse_tokens_default, s1) else take_last_turn_tokens s1)
      in map_option (\<lambda>(out, fw).
           (let rx1 = emit_ui (out @ drain_finished fw) (rx\<lparr>rx_conversation := set_runtime_prompt None s2\<rparr>)
            in case result of
                 Some (Inr response) \<Rightarrow>
                   emit_ui [PulseComplete]
                     (rx1\<lparr>rx_session_tokens :=
                        record_pulse (rx_session_tokens rx1) (normalize_turn_tokens input response turn_tokens)\<rparr>)
               | Some (Inl e) \<Rightarrow> emit_ui [Error_ui e] rx1
               | None \<Rightarrow> emit_ui [Error_ui join_error] rx1))
         (forward_updates sj (new_updates s s1) forward_start))"

text \<open>A cancelled pulse: \<open>s\<close> is the conversation as the aborted task left it, \<open>us\<close> the updates forwarded
  until then.\<close>

definition cancelled_pulse ::
  "serde \<Rightarrow> stream_update list \<Rightarrow> 'w conversation \<Rightarrow> 'w runtime_context \<Rightarrow> 'w runtime_context option" where
  "cancelled_pulse sj us s rx =
     map_option (\<lambda>(out, fw). emit_ui (out @ [PulseComplete]) (rx\<lparr>rx_conversation := set_runtime_prompt None s\<rparr>))
       (forward_updates sj us forward_start)"

definition drive_edit_turn ::
  "'w turn_env \<Rightarrow> serde \<Rightarrow> string \<Rightarrow> string \<Rightarrow> 'w runtime_context
   \<Rightarrow> ((string + bool) \<times> 'w runtime_context) option" where
  "drive_edit_turn E sj join_error input rx =
     (let s = rx_conversation rx;
          (result, s1) = send_task E join_error input Default_policy None s
      in map_option (\<lambda>(out, fw).
           ((case result of
               Some (Inr response) \<Rightarrow> Inr (current_turn_has_successful_mutation s1)
             | Some (Inl e) \<Rightarrow> Inl e
             | None \<Rightarrow> Inl (''edit pulse task failed: '' @ join_error)),
            emit_ui (out @ drain_closed fw) (rx\<lparr>rx_conversation := s1\<rparr>)))
         (forward_updates sj (new_updates s s1) forward_start))"

definition clear_conversation :: "'w runtime_context \<Rightarrow> 'w runtime_context" where
  "clear_conversation rx = rx\<lparr>rx_conversation := clear_messages (rx_conversation rx)\<rparr>"

definition runtime_seed_from_working_set :: "working_set_record \<Rightarrow> 'w runtime_context \<Rightarrow> 'w runtime_context" where
  "runtime_seed_from_working_set r rx = rx\<lparr>rx_conversation := seed_from_working_set r (rx_conversation rx)\<rparr>"

definition runtime_pop_undo_checkpoint :: "'w runtime_context \<Rightarrow> undo_checkpoint option \<times> 'w runtime_context" where
  "runtime_pop_undo_checkpoint rx =
     (case pop_undo_checkpoint (rx_conversation rx) of (cp, s) \<Rightarrow> (cp, rx\<lparr>rx_conversation := s\<rparr>))"

definition reset_session_tokens :: "'w runtime_context \<Rightarrow> 'w runtime_context" where
  "reset_session_tokens rx = rx\<lparr>rx_session_tokens := session_tokens_default\<rparr>"

end
