(* ===== verification/Validation.thy ===== *)
theory Validation
  imports Tool_Rounds Text_Util
begin

text \<open>
  The validation of a workspace (\<open>src/runtime/validation.rs\<close>, \<open>src/runtime/text_util.rs\<close>): the commands of the
  suite, their run in the sandbox, and the report for the next attempt. The commands are started together;
  here they run in their order, which is the order of their outputs. Files, the decoder of the suite's file,
  the sandbox and the processes are parameters.
\<close>

section \<open>The suite\<close>

record validation_command =
  vc_label :: string
  vc_program :: string
  vc_args :: "string list"
  vc_timeout_secs :: nat

record command_request =
  cq_program :: string
  cq_args :: "string list"
  cq_working_dir :: "path option"

record command_result =
  cr_exit_code :: int
  cr_stdout :: string
  cr_stderr :: string

text \<open>What a command that is given a number of seconds comes to.\<close>

datatype command_run = Command_done command_result | Command_failed string | Command_timed_out

datatype git_status_run =
    Git_missing
  | Git_not_started
  | Git_ran bool string string

record 'w validation_env =
  vn_run :: "command_request \<Rightarrow> nat \<Rightarrow> 'w \<Rightarrow> command_run \<times> 'w"
  vn_wrap :: "command_request \<Rightarrow> string + command_request"
  vn_is_file :: "path \<Rightarrow> 'w \<Rightarrow> bool"
  vn_read :: "path \<Rightarrow> 'w \<Rightarrow> string option"
  vn_decode :: "string \<Rightarrow> validation_command list option"
  vn_git_status :: "path \<Rightarrow> path list \<Rightarrow> 'w \<Rightarrow> git_status_run"
  vn_cancelled :: "'w \<Rightarrow> bool"

definition DEFAULT_TIMEOUT_SECS :: nat where
  "DEFAULT_TIMEOUT_SECS = 60"

definition VALIDATION_TAIL_BYTES :: nat where
  "VALIDATION_TAIL_BYTES = 8192"

definition normalize_timeout :: "nat \<Rightarrow> nat" where
  "normalize_timeout timeout_secs = (if timeout_secs = 0 then DEFAULT_TIMEOUT_SECS else timeout_secs)"

definition inferred :: "string \<Rightarrow> string \<Rightarrow> string list \<Rightarrow> validation_command" where
  "inferred label program args =
     \<lparr>vc_label = label, vc_program = program, vc_args = args, vc_timeout_secs = DEFAULT_TIMEOUT_SECS\<rparr>"

definition in_root :: "path \<Rightarrow> string \<Rightarrow> path" where
  "in_root root name = join root (components name)"

definition makefile_has_test_target :: "'w validation_env \<Rightarrow> path \<Rightarrow> 'w \<Rightarrow> bool" where
  "makefile_has_test_target V root w =
     (let makefile = in_root root ''Makefile''
      in vn_is_file V makefile w
         \<and> (case vn_read V makefile w of
              None \<Rightarrow> False
            | Some content \<Rightarrow> list_ex (\<lambda>l. starts_with l ''test:'') (str_lines content)))"

definition infer_from_repo :: "'w validation_env \<Rightarrow> path \<Rightarrow> 'w \<Rightarrow> validation_command list" where
  "infer_from_repo V root w =
     (if vn_is_file V (in_root root ''Cargo.toml'') w
      then [inferred ''cargo check'' ''cargo'' [''check''], inferred ''cargo test'' ''cargo'' [''test'']] else [])
     @ (if vn_is_file V (in_root root ''package.json'') w then [inferred ''npm test'' ''npm'' [''test'']] else [])
     @ (if makefile_has_test_target V root w then [inferred ''make test'' ''make'' [''test'']] else [])"

definition load_validate_toml :: "'w validation_env \<Rightarrow> string \<Rightarrow> validation_command list option" where
  "load_validate_toml V raw =
     map_option (\<lambda>commands.
         map (\<lambda>c. c\<lparr>vc_timeout_secs := normalize_timeout (vc_timeout_secs c)\<rparr>)
           (filter (\<lambda>c. trim (vc_label c) \<noteq> '''' \<and> trim (vc_program c) \<noteq> '''') commands))
       (vn_decode V raw)"

text \<open>A suite file that cannot be read, cannot be decoded or is empty is passed over.\<close>

definition load_or_infer :: "'w validation_env \<Rightarrow> path \<Rightarrow> 'w \<Rightarrow> validation_command list" where
  "load_or_infer V root w =
     (let config_path = in_root root ''.vex/validate.toml'';
          loaded = (if vn_is_file V config_path w then Option.bind (vn_read V config_path w) (load_validate_toml V)
                    else None)
      in case loaded of
           Some (c # cs) \<Rightarrow> c # cs
         | _ \<Rightarrow> infer_from_repo V root w)"

section \<open>Running it\<close>

definition failed_output :: "string \<Rightarrow> string \<Rightarrow> validation_output" where
  "failed_output label stderr =
     \<lparr>vo_label = label, vo_exit_code = -1, vo_stdout_tail = '''', vo_stderr_tail = stderr,
      vo_stdout_tail_limited = False, vo_stderr_tail_limited = False\<rparr>"

definition finished_output :: "string \<Rightarrow> command_result \<Rightarrow> validation_output" where
  "finished_output label r =
     (let (out, out_limited) = truncate_tail_bytes (cr_stdout r) VALIDATION_TAIL_BYTES;
          (err, err_limited) = truncate_tail_bytes (cr_stderr r) VALIDATION_TAIL_BYTES
      in \<lparr>vo_label = label, vo_exit_code = cr_exit_code r, vo_stdout_tail = out, vo_stderr_tail = err,
          vo_stdout_tail_limited = out_limited, vo_stderr_tail_limited = err_limited\<rparr>)"

definition request_of :: "validation_command \<Rightarrow> path option \<Rightarrow> command_request" where
  "request_of c working_dir =
     \<lparr>cq_program = vc_program c, cq_args = vc_args c, cq_working_dir = working_dir\<rparr>"

definition run_validation_command ::
  "'w validation_env \<Rightarrow> path option \<Rightarrow> validation_command \<Rightarrow> 'w \<Rightarrow> validation_output \<times> 'w" where
  "run_validation_command V working_dir c w =
     (let timeout_secs = normalize_timeout (vc_timeout_secs c)
      in if trim (vc_program c) = ''''
         then (failed_output (vc_label c) ''validation command program cannot be empty'', w)
         else
           (case vn_run V (request_of c working_dir) timeout_secs w of
              (Command_done r, w') \<Rightarrow> (finished_output (vc_label c) r, w')
            | (Command_failed e, w') \<Rightarrow>
                (let (err, limited) = truncate_tail_bytes e VALIDATION_TAIL_BYTES
                 in ((failed_output (vc_label c) err)\<lparr>vo_stderr_tail_limited := limited\<rparr>, w'))
            | (Command_timed_out, w') \<Rightarrow>
                (failed_output (vc_label c)
                   (''validation command timed out after '' @ nat_dec timeout_secs @ ''s''), w')))"

definition run_validation_command_with_sandbox ::
  "'w validation_env \<Rightarrow> path option \<Rightarrow> validation_command \<Rightarrow> 'w \<Rightarrow> validation_output \<times> 'w" where
  "run_validation_command_with_sandbox V working_dir c w =
     (let timeout_secs = normalize_timeout (vc_timeout_secs c)
      in case vn_wrap V (request_of c working_dir) of
           Inl e \<Rightarrow> (failed_output (vc_label c) e, w)
         | Inr req \<Rightarrow>
             (case vn_run V req timeout_secs w of
                (Command_done r, w') \<Rightarrow> (finished_output (vc_label c) r, w')
              | (Command_failed e, w') \<Rightarrow> (failed_output (vc_label c) e, w')
              | (Command_timed_out, w') \<Rightarrow>
                  (failed_output (vc_label c) (''timed out after '' @ nat_dec timeout_secs @ ''s''), w')))"

fun run_commands ::
  "(validation_command \<Rightarrow> 'w \<Rightarrow> validation_output \<times> 'w) \<Rightarrow> validation_command list \<Rightarrow> 'w
   \<Rightarrow> validation_output list \<times> 'w" where
  "run_commands run [] w = ([], w)"
| "run_commands run (c # cs) w =
     (let (out, w1) = run c w; (outs, w2) = run_commands run cs w1 in (out # outs, w2))"

definition collect_outputs :: "validation_output list \<Rightarrow> validation_result" where
  "collect_outputs outs = \<lparr>vr_passed = list_all (\<lambda>out. vo_exit_code out = 0) outs, vr_outputs = outs\<rparr>"

definition run_in_dir ::
  "'w validation_env \<Rightarrow> path option \<Rightarrow> validation_command list \<Rightarrow> 'w \<Rightarrow> validation_result \<times> 'w" where
  "run_in_dir V working_dir commands w =
     (case run_commands (run_validation_command V working_dir) commands w of
        (outs, w') \<Rightarrow> (collect_outputs outs, w'))"

definition run_in_dir_with_sandbox ::
  "'w validation_env \<Rightarrow> path option \<Rightarrow> validation_command list \<Rightarrow> 'w \<Rightarrow> validation_result \<times> 'w" where
  "run_in_dir_with_sandbox V working_dir commands w =
     (case run_commands (run_validation_command_with_sandbox V working_dir) commands w of
        (outs, w') \<Rightarrow> (collect_outputs outs, w'))"

section \<open>The report\<close>

definition fence :: string where
  "fence = [CHR 0x60, CHR 0x60, CHR 0x60]"

definition tail_section :: "string \<Rightarrow> string \<Rightarrow> bool \<Rightarrow> string" where
  "tail_section name t limited =
     (if t = '''' then ''''
      else (if limited then ''[showing last 8192 bytes of '' @ name @ '']'' @ [newline] else '''')
           @ name @ '':'' @ [newline] @ fence @ ''text'' @ [newline] @ t
           @ (if ends_with t [newline] then '''' else [newline]) @ fence @ [newline])"

definition output_section :: "validation_output \<Rightarrow> string" where
  "output_section out =
     (if vo_exit_code out = 0 then ''''
      else [newline] @ ''[command: '' @ vo_label out @ '']'' @ [newline]
           @ ''exit_code: '' @ int_dec (vo_exit_code out) @ [newline]
           @ tail_section ''stdout'' (vo_stdout_tail out) (vo_stdout_tail_limited out)
           @ tail_section ''stderr'' (vo_stderr_tail out) (vo_stderr_tail_limited out))"

definition format_for_retry :: "validation_result \<Rightarrow> string" where
  "format_for_retry result =
     (if vr_passed result then ''[validation passed]''
      else ''[validation failed]'' @ [newline] @ concat (map output_section (vr_outputs result)))"

end
