(* ===== verification/Edit_Loop.thy ===== *)
theory Edit_Loop
  imports Runtime_Context Validation
begin

text \<open>
  The edit loop (\<open>src/runtime/edit_loop.rs\<close>): turns that change the workspace, each followed by a
  validation, until one passes or the turns are used up.
\<close>

record edit_loop =
  el_max_turns :: nat
  el_stop_on_clean_validate :: bool
  el_working_dir :: path
  el_last_validation_result :: "validation_result option"

definition DEFAULT_MAX_TURNS :: nat where
  "DEFAULT_MAX_TURNS = 6"

definition HARD_MAX_TURNS :: nat where
  "HARD_MAX_TURNS = 12"

definition clamp_turns :: "nat \<Rightarrow> nat" where
  "clamp_turns pulses = clamp pulses 1 HARD_MAX_TURNS"

definition edit_loop_new :: "path \<Rightarrow> edit_loop" where
  "edit_loop_new dir =
     \<lparr>el_max_turns = DEFAULT_MAX_TURNS, el_stop_on_clean_validate = True, el_working_dir = dir,
      el_last_validation_result = None\<rparr>"

definition with_max_turns :: "nat \<Rightarrow> edit_loop \<Rightarrow> edit_loop" where
  "with_max_turns n el = el\<lparr>el_max_turns := clamp_turns n\<rparr>"

definition check_workspace_dirty :: "'w validation_env \<Rightarrow> path \<Rightarrow> path list \<Rightarrow> 'w \<Rightarrow> string + bool" where
  "check_workspace_dirty V root paths w =
     (case vn_git_status V root paths w of
        Git_missing \<Rightarrow> Inr False
      | Git_not_started \<Rightarrow> Inl ''failed to call git status for workspace-dirty check''
      | Git_ran ok stdout stderr0 \<Rightarrow>
          (let stderr = to_ascii_lowercase stderr0
           in if ok then Inr (trim stdout \<noteq> '''')
              else if contains stderr ''not a git repository'' then Inr False
              else Inl (''git status failed for workspace-dirty check: '' @ trim stderr)))"

definition last_validation_error :: "edit_loop \<Rightarrow> string option" where
  "last_validation_error el =
     (case el_last_validation_result el of
        None \<Rightarrow> None
      | Some result \<Rightarrow>
          (if vr_passed result then None
           else (case List.find (\<lambda>out. vo_exit_code out \<noteq> 0) (vr_outputs result) of
                   Some out \<Rightarrow> Some (vo_label out @ '' exited with '' @ int_dec (vo_exit_code out))
                 | None \<Rightarrow> Some ''validation failed'')))"

definition retry_message :: "string \<Rightarrow> string \<Rightarrow> string" where
  "retry_message instruction retry_context =
     (if retry_context = '''' then instruction else instruction @ [newline, newline] @ retry_context)"

definition no_patch_context :: string where
  "no_patch_context = ''[previous pulse produced no patch; propose and apply a concrete edit]''"

definition pulse_line :: "nat \<Rightarrow> nat \<Rightarrow> string" where
  "pulse_line pulse max_turns = ''[edit loop pulse '' @ nat_dec pulse @ ''/'' @ nat_dec max_turns @ '']''"

type_synonym 'w edit_state = "edit_loop \<times> 'w runtime_context"

datatype 'w pulse_end =
    Loop_ended edit_loop_outcome "'w edit_state"
  | Next_pulse string "'w edit_state"

definition loop_cancelled :: "'w validation_env \<Rightarrow> 'w runtime_context \<Rightarrow> bool" where
  "loop_cancelled V rx = vn_cancelled V (cm_world (rx_conversation rx))"

text \<open>The validation after a turn that changed something.\<close>

definition validate_turn ::
  "'w validation_env \<Rightarrow> validation_command list \<Rightarrow> string \<Rightarrow> bool \<Rightarrow> 'w edit_state \<Rightarrow> 'w pulse_end" where
  "validate_turn V suite retry_context patch_applied st =
     (case st of (el, rx0) \<Rightarrow>
        (let rx = emit_transcript_line ''[edit loop: running validation]'' rx0;
             s = rx_conversation rx;
             (result, w) = run_in_dir_with_sandbox V (Some (el_working_dir el)) suite (cm_world s);
             rx1 = rx\<lparr>rx_conversation := s\<lparr>cm_world := w\<rparr>\<rparr>;
             el1 = el\<lparr>el_last_validation_result := Some result\<rparr>
         in if vr_passed result
            then (let rx2 = emit_transcript_line ''[edit loop: validation passed]'' rx1
                  in if el_stop_on_clean_validate el1 then Loop_ended (Success_outcome patch_applied True) (el1, rx2)
                     else Next_pulse retry_context (el1, rx2))
            else Next_pulse (format_for_retry result)
                   (el1, emit_transcript_line ''[edit loop: validation failed, retrying]'' rx1)))"

definition edit_pulse ::
  "'w turn_env \<Rightarrow> serde \<Rightarrow> string \<Rightarrow> 'w validation_env \<Rightarrow> validation_command list \<Rightarrow> string \<Rightarrow> nat \<Rightarrow> string
   \<Rightarrow> 'w edit_state \<Rightarrow> 'w pulse_end option" where
  "edit_pulse E sj join_error V suite instruction pulse retry_context st =
     (case st of (el, rx) \<Rightarrow>
        (if loop_cancelled V rx then Some (Loop_ended Cancelled_loop_outcome (el, rx))
         else
           (case drive_edit_turn E sj join_error (retry_message instruction retry_context)
                   (emit_transcript_line (pulse_line (pulse + 1) (el_max_turns el)) rx) of
              None \<Rightarrow> None
            | Some (Inl e, rx1) \<Rightarrow>
                Some (Next_pulse (''[previous pulse failed: '' @ e @ '']'')
                        (el, emit_transcript_line (''[edit loop pulse error: '' @ e @ '']'') rx1))
            | Some (Inr patch_applied, rx1) \<Rightarrow>
                Some (if loop_cancelled V rx1 then Loop_ended Cancelled_loop_outcome (el, rx1)
                      else if \<not> patch_applied
                      then Next_pulse no_patch_context
                             (el, emit_transcript_line ''[edit loop: no patch applied, retrying]'' rx1)
                      else validate_turn V suite retry_context patch_applied (el, rx1)))))"

text \<open>The pulses that are left, counted from \<open>pulse\<close>.\<close>

fun edit_pulses ::
  "'w turn_env \<Rightarrow> serde \<Rightarrow> string \<Rightarrow> 'w validation_env \<Rightarrow> validation_command list \<Rightarrow> string \<Rightarrow> nat \<Rightarrow> nat
   \<Rightarrow> string \<Rightarrow> 'w edit_state \<Rightarrow> (edit_loop_outcome \<times> 'w edit_state) option" where
  "edit_pulses E sj join_error V suite instruction pulse 0 retry_context st =
     Some (MaxTurnsReached_outcome (last_validation_error (fst st)), st)"
| "edit_pulses E sj join_error V suite instruction pulse (Suc left) retry_context st =
     (case edit_pulse E sj join_error V suite instruction pulse retry_context st of
        None \<Rightarrow> None
      | Some (Loop_ended outcome st') \<Rightarrow> Some (outcome, st')
      | Some (Next_pulse retry' st') \<Rightarrow>
          edit_pulses E sj join_error V suite instruction (Suc pulse) left retry' st')"

definition dirty_warning :: string where
  "dirty_warning =
     ''[edit loop warning: workspace has uncommitted changes; proceeding without mutating git state]''"

definition warn_if_dirty :: "'w validation_env \<Rightarrow> 'w edit_state \<Rightarrow> 'w edit_state" where
  "warn_if_dirty V st =
     (case st of (el, rx) \<Rightarrow>
        (el, (case check_workspace_dirty V (el_working_dir el) [] (cm_world (rx_conversation rx)) of
                Inr True \<Rightarrow> emit_transcript_line dirty_warning rx
              | Inr False \<Rightarrow> rx
              | Inl e \<Rightarrow> emit_transcript_line
                  (''[edit loop warning: skipped workspace-dirty check: '' @ e @ '']'') rx)))"

definition edit_loop_run ::
  "'w turn_env \<Rightarrow> serde \<Rightarrow> string \<Rightarrow> 'w validation_env \<Rightarrow> string \<Rightarrow> 'w edit_state
   \<Rightarrow> (edit_loop_outcome \<times> 'w edit_state) option" where
  "edit_loop_run E sj join_error V instruction st0 =
     (let st = warn_if_dirty V st0;
          suite = load_or_infer V (el_working_dir (fst st)) (cm_world (rx_conversation (snd st)))
      in edit_pulses E sj join_error V suite instruction 0 (el_max_turns (fst st)) '''' st)"

text \<open>The task of the loop: the prompt of its profile, the loop, and the result for the front end.\<close>

definition start_edit_loop ::
  "'w turn_env \<Rightarrow> serde \<Rightarrow> string \<Rightarrow> 'w validation_env \<Rightarrow> string + string \<Rightarrow> string \<Rightarrow> 'w edit_state
   \<Rightarrow> 'w edit_state option" where
  "start_edit_loop E sj join_error V profile_prompt instruction st =
     (case st of (el, rx) \<Rightarrow>
        (case profile_prompt of
           Inl e \<Rightarrow> Some (el, emit_ui [Error_ui (''edit loop profile error: '' @ e)] rx)
         | Inr prompt \<Rightarrow>
             map_option (\<lambda>(outcome, el1, rx1).
                 (el1, emit_ui [EditLoopComplete outcome (el_last_validation_result el1)]
                         (rx1\<lparr>rx_conversation := set_runtime_prompt None (rx_conversation rx1)\<rparr>)))
               (edit_loop_run E sj join_error V instruction
                  (el, rx\<lparr>rx_conversation := set_runtime_prompt (Some prompt) (rx_conversation rx)\<rparr>))))"

end
