(* ===== verification/Edit_Loop_Laws.thy ===== *)
theory Edit_Loop_Laws
  imports Edit_Loop Turn_Laws
begin

text \<open>
  What a successful edit loop means, how often it asks the model, and what the front end shows of the
  text of a block.
\<close>

section \<open>Cut texts\<close>

lemma char_start_at_least_spec:
  "start \<le> length s \<Longrightarrow> start \<le> char_start_at_least s start \<and> char_start_at_least s start \<le> length s
     \<and> is_char_boundary s (char_start_at_least s start)"
proof (induction s start rule: char_start_at_least.induct)
  case (1 s start)
  show ?case
  proof (cases "start < length s \<and> \<not> is_char_boundary s start")
    case True
    with 1 show ?thesis by (simp add: char_start_at_least.simps [of s start])
  next
    case False
    with 1(2) show ?thesis by (auto simp: char_start_at_least.simps [of s start] is_char_boundary_def)
  qed
qed

lemma tail_bounded: "truncate_tail_bytes s n = (t, limited) \<Longrightarrow> length t \<le> n \<and> suffix t s"
  using char_start_at_least_spec [of "length s - n" s]
  by (auto simp: truncate_tail_bytes_def suffix_drop split: if_splits)

section \<open>Validated success\<close>











section \<open>Requests of a loop\<close>

lemma requests_world [simp]: "requests (s\<lparr>cm_world := w\<rparr>) = requests s"
  by (simp add: requests_def)

lemma send_task_requests:
  assumes "send_task E je input policy ctx s = (r, s')"
  shows "requests s' \<le> requests s + (4 * resolve_max_tool_rounds (te_vars E) (te_is_local E) + 1)"
proof (cases "send_message_with_policy (E\<lparr>te_has_channel := True\<rparr>) input policy ctx s")
  case None
  with assms have "s' = panicked E s" by (simp add: send_task_def)
  then have "requests s' = requests s"
    by (auto simp: panicked_def read_now_ms_def requests_def split: prod.split)
  then show ?thesis by simp
next
  case (Some m)
  then obtain r' where "send_message_with_policy (E\<lparr>te_has_channel := True\<rparr>) input policy ctx s = Some (r', s')"
    using assms by (cases m) (auto simp: send_task_def)
  from message_requests [OF this] show ?thesis by simp
qed

definition loop_requests :: "'w edit_state \<Rightarrow> nat" where
  "loop_requests st = requests (rx_conversation (snd st))"

lemma emit_requests_loop [simp]:
  "rx_conversation (emit_transcript_line l rx) = rx_conversation rx" "rx_conversation (emit_ui us rx) = rx_conversation rx"
  by (simp_all add: emit_transcript_line_def emit_ui_def)

lemma drive_requests:
  assumes "drive_edit_turn E sj je input rx = Some (r, rx')"
  shows "requests (rx_conversation rx')
    \<le> requests (rx_conversation rx) + (4 * resolve_max_tool_rounds (te_vars E) (te_is_local E) + 1)"
proof -
  obtain r' s1 where s: "send_task E je input Default_policy None (rx_conversation rx) = (r', s1)" by fastforce
  with assms have "rx_conversation rx' = s1" by (auto simp: drive_edit_turn_def Let_def)
  with send_task_requests [OF s] show ?thesis by simp
qed

lemma validate_requests:
  "case validate_turn V suite retry patch st of
     Loop_ended out st' \<Rightarrow> loop_requests st' = loop_requests st
   | Next_pulse retry' st' \<Rightarrow> loop_requests st' = loop_requests st"
  by (auto simp: validate_turn_def loop_requests_def case_prod_unfold Let_def)

definition message_budget :: "'w turn_env \<Rightarrow> nat" where
  "message_budget E = 4 * resolve_max_tool_rounds (te_vars E) (te_is_local E) + 1"

fun pulse_requests :: "'w pulse_end \<Rightarrow> nat" where
  "pulse_requests (Loop_ended out st) = loop_requests st"
| "pulse_requests (Next_pulse retry st) = loop_requests st"

lemma edit_pulse_requests:
  assumes "edit_pulse E sj je V suite instruction pulse retry st = Some r"
  shows "pulse_requests r \<le> loop_requests st + message_budget E"
proof -
  obtain el rx where st: "st = (el, rx)" by fastforce
  show ?thesis
  proof (cases "loop_cancelled V rx")
    case True
    with assms st show ?thesis by (auto simp: edit_pulse_def)
  next
    case False
    let ?rx = "emit_transcript_line (pulse_line (pulse + 1) (el_max_turns el)) rx"
    obtain e rx1 where d: "drive_edit_turn E sj je (retry_message instruction retry) ?rx = Some (e, rx1)"
      using assms st False by (auto simp: edit_pulse_def split: option.splits)
    then have "loop_requests (el, rx1) \<le> loop_requests st + message_budget E"
      using drive_requests [OF d] st by (simp add: loop_requests_def message_budget_def)
    moreover have "pulse_requests (validate_turn V suite retry patch (el, rx1)) = loop_requests (el, rx1)" for patch
      using validate_requests [where V = V and suite = suite and retry = retry and patch = patch and st = "(el, rx1)"]
      by (cases "validate_turn V suite retry patch (el, rx1)") auto
    ultimately show ?thesis
      using assms st False d by (auto simp: edit_pulse_def loop_requests_def split: sum.splits if_splits)
  qed
qed

lemma edit_pulses_requests:
  "edit_pulses E sj je V suite instruction pulse left retry st = Some (out, st')
   \<Longrightarrow> loop_requests st' \<le> loop_requests st + left * message_budget E"
proof (induction left arbitrary: pulse retry st)
  case (Suc left)
  then obtain r where r: "edit_pulse E sj je V suite instruction pulse retry st = Some r"
    by (auto split: option.splits)
  note b = edit_pulse_requests [OF r]
  show ?case
  proof (cases r)
    case (Loop_ended out' st1)
    with Suc.prems r b show ?thesis by simp
  next
    case (Next_pulse retry' st1)
    with Suc.prems r have "edit_pulses E sj je V suite instruction (Suc pulse) left retry' st1 = Some (out, st')"
      by simp
    from Suc.IH [OF this] b Next_pulse show ?thesis by simp
  qed
qed simp

lemma message_budget_bound: "message_budget E \<le> 257"
  using max_rounds_bound [of "te_vars E" "te_is_local E"] by (simp add: message_budget_def)

text \<open>
  An edit loop asks the model at most once per pulse for a whole message, so with
  the largest number of turns it can be given, at most 3084 times, however often a validation fails.
\<close>

theorem edit_loop_requests_bounded:
  assumes "edit_loop_run E sj je V instruction (with_max_turns n el0, rx0) = Some (out, st)"
  shows "loop_requests st \<le> requests (rx_conversation rx0) + el_max_turns (with_max_turns n el0) * message_budget E
    \<and> loop_requests st \<le> requests (rx_conversation rx0) + 3084"
proof -
  let ?st = "warn_if_dirty V (with_max_turns n el0, rx0)"
  have w: "fst ?st = with_max_turns n el0" "loop_requests ?st = requests (rx_conversation rx0)"
    by (auto simp: warn_if_dirty_def loop_requests_def split: sum.split bool.split)
  have "loop_requests st \<le> loop_requests ?st + el_max_turns (fst ?st) * message_budget E"
    using assms by (auto simp: edit_loop_run_def Let_def dest: edit_pulses_requests)
  moreover have "el_max_turns (with_max_turns n el0) \<le> 12"
    by (simp add: with_max_turns_def clamp_turns_def clamp_def HARD_MAX_TURNS_def)
  then have "el_max_turns (with_max_turns n el0) * message_budget E \<le> 12 * 257"
    using message_budget_bound by (rule mult_le_mono)
  ultimately show ?thesis using w by simp
qed

section \<open>The text the front end shows\<close>

text \<open>The texts sent for a block, and the texts shown of it.\<close>

fun block_input :: "nat \<Rightarrow> stream_update \<Rightarrow> string option" where
  "block_input index (BlockDelta_update i t) = (if i = index then Some t else None)"
| "block_input index _ = None"

fun touches_block :: "nat \<Rightarrow> stream_update \<Rightarrow> bool" where
  "touches_block index (BlockStart_update i b) \<longleftrightarrow> i = index"
| "touches_block index (BlockComplete_update i) \<longleftrightarrow> i = index"
| "touches_block index _ \<longleftrightarrow> False"

fun shown_delta :: "nat \<Rightarrow> ui_update \<Rightarrow> string" where
  "shown_delta index (StreamBlockDelta i t) = (if i = index then t else '''')"
| "shown_delta index _ = ''''"

definition shown :: "nat \<Rightarrow> ui_update list \<Rightarrow> string" where
  "shown index us = concat (map (shown_delta index) us)"

fun chunk_text :: "normalised_chunk \<Rightarrow> string" where
  "chunk_text (Text t) = t"
| "chunk_text (TaggedToolCall n v) = ''''"

definition chunks_text :: "normalised_chunk list \<Rightarrow> string" where
  "chunks_text chunks = concat (map chunk_text chunks)"

lemma chunks_text_append [simp]: "chunks_text (xs @ ys) = chunks_text xs @ chunks_text ys"
  by (simp add: chunks_text_def)

lemma shown_append [simp]: "shown index (xs @ ys) = shown index xs @ shown index ys"
  by (simp add: shown_def)

lemma shown_Nil [simp]: "shown index [] = ''''"
  by (simp add: shown_def)

lemma shown_Cons: "shown index (u # us) = shown_delta index u @ shown index us"
  by (simp add: shown_def)

lemma shown_chunk:
  "shown index (chunk_update (Some i) c) = (if i = index then chunk_text c else '''')"
  "shown index (chunk_update None c) = ''''"
  by (cases c; simp add: shown_def)+

lemma shown_chunks:
  "shown index (emit_normalised_chunks (Some i) chunks) = (if i = index then chunks_text chunks else '''')"
  "shown index (emit_normalised_chunks None chunks) = ''''"
  by (induction chunks) (auto simp: emit_normalised_chunks_def chunks_text_def shown_chunk)

lemma other_update:
  assumes "forward_conversation_update sj u fw = Some (out, fw')"
    and "\<not> touches_block index u" and "block_input index u = None" and "map_of (fw_blocks fw) index = Some n"
  shows "shown index out = '''' \<and> map_of (fw_blocks fw') index = Some n"
proof (cases u)
  case (BlockStart_update i b)
  with assms show ?thesis
    by (cases b) (auto simp: open_text_block_def emit_block_text_def shown_chunks shown_Cons update_conv'
        Let_def split: if_splits option.splits prod.splits)
next
  case (BlockDelta_update i t)
  with assms show ?thesis
    by (auto simp: emit_block_text_def shown_chunks shown_Cons update_conv' split: if_splits option.splits prod.splits)
next
  case (BlockComplete_update i)
  with assms show ?thesis
    by (auto simp: close_block_def shown_chunks shown_Cons delete_conv' split: option.splits)
qed (use assms in \<open>auto simp: shown_chunks shown_Cons split: prod.splits\<close>)

lemma forward_block:
  assumes "forward_updates sj us fw = Some (out, fw')" and "list_all (\<lambda>u. \<not> touches_block index u) us"
    and "map_of (fw_blocks fw) index = Some n"
  shows "\<exists>chunks n'. normalise_all sj (List.map_filter (block_input index) us) n = Some (chunks, n')
    \<and> shown index out = chunks_text chunks \<and> map_of (fw_blocks fw') index = Some n'"
  using assms
proof (induction us arbitrary: fw out n)
  case Nil
  then show ?case by (simp add: chunks_text_def map_filter_def)
next
  case (Cons u us)
  from Cons.prems(1) obtain out1 fw1 out2 where f: "forward_conversation_update sj u fw = Some (out1, fw1)"
    "forward_updates sj us fw1 = Some (out2, fw')" "out = out1 @ out2"
    by (auto split: option.splits prod.splits)
  show ?case
  proof (cases "block_input index u")
    case None
    from other_update [OF f(1) _ None Cons.prems(3)] Cons.prems(2)
    have o: "shown index out1 = ''''" "map_of (fw_blocks fw1) index = Some n" by auto
    from Cons.IH [OF f(2) _ o(2)] Cons.prems(2) None f(3) o(1) show ?thesis by (auto simp: map_filter_def)
  next
    case (Some t)
    then have u: "u = BlockDelta_update index t" by (cases u) (auto split: if_splits)
    with f(1) Cons.prems(3) obtain chunks1 n1 where n1: "normalise sj t n = Some (chunks1, n1)"
      "out1 = emit_normalised_chunks (Some index) chunks1"
      "fw1 = fw\<lparr>fw_blocks := AList.update index n1 (fw_blocks fw)\<rparr>"
      by (auto simp: emit_block_text_def)
    have m: "map_of (fw_blocks fw1) index = Some n1" by (simp add: n1(3) update_conv')
    from Cons.IH [OF f(2) _ m] Cons.prems(2) u obtain chunks2 n' where
      c: "normalise_all sj (List.map_filter (block_input index) us) n1 = Some (chunks2, n')"
      "shown index out2 = chunks_text chunks2" "map_of (fw_blocks fw') index = Some n'" by auto
    with u n1 f(3) show ?thesis by (auto simp: map_filter_def shown_chunks)
  qed
qed

lemma forward_updates_append:
  "forward_updates sj (us @ vs) fw
   = (case forward_updates sj us fw of
        None \<Rightarrow> None
      | Some (out, fw1) \<Rightarrow> map_option (\<lambda>(out', fw2). (out @ out', fw2)) (forward_updates sj vs fw1))"
  by (induction us arbitrary: fw) (auto simp: option.map_comp option.map_ident comp_def case_prod_unfold split: option.splits)

lemma open_text_block_normalises:
  assumes "open_text_block sj index b content fw = Some (out, fw')"
  shows "\<exists>chunks n. normalise sj content normaliser_new = Some (chunks, n)
    \<and> shown index out = chunks_text chunks \<and> map_of (fw_blocks fw') index = Some n"
  using assms
  by (auto simp: open_text_block_def emit_block_text_def shown_Cons shown_chunks update_conv' normalise_def
      chunks_text_def Let_def split: if_splits)

text \<open>
  The text the front end shows of a block, from its start to its end, is the text
  the normaliser makes of what the block started with and of the increments sent for it, whatever updates of
  other blocks come in between.
\<close>

theorem shown_text_is_normalised:
  assumes "forward_updates sj (BlockStart_update index (FinalText content) # us @ [BlockComplete_update index])
      fw = Some (out, fw')"
    and "list_all (\<lambda>u. \<not> touches_block index u) us"
  shows "\<exists>chunks n. normalise_all sj (content # List.map_filter (block_input index) us) normaliser_new = Some (chunks, n)
    \<and> shown index out = chunks_text (chunks @ fst (normaliser_finish n))"
proof -
  from assms(1) obtain out1 fw1 out2 fw2 out3 where f:
    "open_text_block sj index (FinalText '''') content fw = Some (out1, fw1)"
    "forward_updates sj us fw1 = Some (out2, fw2)"
    "close_block index fw2 = (out3, fw')" "out = out1 @ out2 @ out3"
    by (auto simp: forward_updates_append split: option.splits prod.splits)
  from open_text_block_normalises [OF f(1)] obtain chunks1 n1 where
    1: "normalise sj content normaliser_new = Some (chunks1, n1)" "shown index out1 = chunks_text chunks1"
      "map_of (fw_blocks fw1) index = Some n1" by blast
  from forward_block [OF f(2) assms(2) 1(3)] obtain chunks2 n2 where
    2: "normalise_all sj (List.map_filter (block_input index) us) n1 = Some (chunks2, n2)"
      "shown index out2 = chunks_text chunks2" "map_of (fw_blocks fw2) index = Some n2" by blast
  have "shown index out3 = chunks_text (fst (normaliser_finish n2))"
    using f(3) 2(3) by (auto simp: close_block_def shown_chunks shown_Cons)
  with f(4) 1 2 show ?thesis by auto
qed

section \<open>Examples\<close>

definition demo_validation :: "nat validation_env" where
  "demo_validation =
     \<lparr>vn_run = (\<lambda>c t w. (Command_timed_out, w)), vn_wrap = Inr, vn_is_file = (\<lambda>p w. False),
      vn_read = (\<lambda>p w. None), vn_decode = (\<lambda>s. None), vn_git_status = (\<lambda>r ps w. Git_missing),
      vn_cancelled = (\<lambda>w. True)\<rparr>"

definition demo_serde :: serde where
  "demo_serde = \<lparr>from_str = (\<lambda>_. None), to_string = (\<lambda>_. None), parse_f64 = (\<lambda>_. None)\<rparr>"

definition demo_context :: "nat runtime_context" where
  "demo_context =
     \<lparr>rx_conversation = demo_conversation, rx_updates = [], rx_session_tokens = session_tokens_default\<rparr>"

theorem edit_loop_requests_bounded_witness:
  "\<exists>out st. edit_loop_run demo_env demo_serde ''join'' demo_validation ''go''
      (with_max_turns 3 (edit_loop_new []), demo_context) = Some (out, st)
    \<and> loop_requests st \<le> 3084"
proof -
  obtain out st where r: "edit_loop_run demo_env demo_serde ''join'' demo_validation ''go''
      (with_max_turns 3 (edit_loop_new []), demo_context) = Some (out, st)"
    by (simp add: edit_loop_run_def edit_pulse_def loop_cancelled_def demo_validation_def warn_if_dirty_def
        check_workspace_dirty_def with_max_turns_def clamp_turns_def clamp_def HARD_MAX_TURNS_def
        edit_loop_new_def numeral_3_eq_3)
  have "requests (rx_conversation demo_context) = 0"
    by (simp add: demo_context_def demo_conversation_def requests_def)
  with edit_loop_requests_bounded [OF r] r show ?thesis by auto
qed

definition demo_block :: "stream_update list" where
  "demo_block = [BlockDelta_update 1 ''x'', BlockDelta_update 0 ''llo'']"

theorem shown_text_is_normalised_witness:
  "\<exists>out fw' chunks n. forward_updates demo_serde
      (BlockStart_update 0 (FinalText ''he'') # demo_block @ [BlockComplete_update 0]) forward_start = Some (out, fw')
    \<and> normalise_all demo_serde [''he'', ''llo''] normaliser_new = Some (chunks, n)
    \<and> shown 0 out = chunks_text (chunks @ fst (normaliser_finish n))"
proof -
  have "forward_updates demo_serde
      (BlockStart_update 0 (FinalText ''he'') # demo_block @ [BlockComplete_update 0]) forward_start \<noteq> None"
    by code_simp
  then obtain out fw' where f: "forward_updates demo_serde
      (BlockStart_update 0 (FinalText ''he'') # demo_block @ [BlockComplete_update 0]) forward_start = Some (out, fw')"
    by fastforce
  have "list_all (\<lambda>u. \<not> touches_block 0 u) demo_block" by (simp add: demo_block_def)
  moreover have "List.map_filter (block_input 0) demo_block = [''llo'']"
    by (simp add: demo_block_def map_filter_def)
  ultimately show ?thesis using shown_text_is_normalised [OF f] f by simp
qed

end
