(* ===== verification/Input_Metrics.thy ===== *)
theory Input_Metrics
  imports Text_Util
begin

text \<open>
  How an input text is laid out on rows of a given width (\<open>src/ui/input_metrics.rs\<close>). The display width of a
  character and the segmentation into graphemes are libraries, parameters here. A slice that panics is
  \<open>None\<close>.
\<close>

record display_env =
  de_char_width :: "string \<Rightarrow> nat"
  de_graphemes :: "string \<Rightarrow> string list"
  de_width :: "string \<Rightarrow> nat"

text \<open>\<open>char_indices\<close>: the characters of a text with their byte offsets.\<close>

fun indices_from :: "nat \<Rightarrow> string list \<Rightarrow> (nat \<times> string) list" where
  "indices_from i [] = []"
| "indices_from i (c # cs) = (i, c) # indices_from (i + length c) cs"

definition char_indices :: "string \<Rightarrow> (nat \<times> string) list" where
  "char_indices s = indices_from 0 (utf8_chars s)"

definition clamp_to_char_boundary_left :: "string \<Rightarrow> nat \<Rightarrow> nat" where
  "clamp_to_char_boundary_left s cursor = char_start_at_most s (min cursor (length s))"

section \<open>Rows\<close>

record row_layout =
  vl_spans :: "(nat \<times> nat) list"
  vl_cursor_row :: nat
  vl_cursor_col :: nat

definition row_count :: "row_layout \<Rightarrow> nat" where
  "row_count ly = max (length (vl_spans ly)) 1"

definition row_bounds :: "row_layout \<Rightarrow> nat \<Rightarrow> nat \<times> nat" where
  "row_bounds ly target_row =
     (if target_row < length (vl_spans ly) then vl_spans ly ! target_row
      else if vl_spans ly = [] then (0, 0) else last (vl_spans ly))"

text \<open>The loop over the characters: the rows that are closed, the open row, and the place of the cursor once it
  is known.\<close>

record layout_state =
  ly_spans :: "(nat \<times> nat) list"
  ly_row_start :: nat
  ly_row :: nat
  ly_col :: nat
  ly_cursor :: "(nat \<times> nat) option"

definition layout_start :: layout_state where
  "layout_start = \<lparr>ly_spans = [], ly_row_start = 0, ly_row = 0, ly_col = 0, ly_cursor = None\<rparr>"

definition set_cursor :: "nat \<times> nat \<Rightarrow> layout_state \<Rightarrow> layout_state" where
  "set_cursor place st = (if ly_cursor st = None then st\<lparr>ly_cursor := Some place\<rparr> else st)"

definition close_row :: "nat \<Rightarrow> nat \<Rightarrow> layout_state \<Rightarrow> layout_state" where
  "close_row row_end next_start st =
     st\<lparr>ly_spans := ly_spans st @ [(ly_row_start st, row_end)], ly_row_start := next_start,
        ly_row := ly_row st + 1, ly_col := 0\<rparr>"

definition layout_char :: "display_env \<Rightarrow> nat \<Rightarrow> nat \<Rightarrow> nat \<times> string \<Rightarrow> layout_state \<Rightarrow> layout_state" where
  "layout_char D width cursor ic st =
     (case ic of (i, c) \<Rightarrow>
        (let here = (if cursor \<le> i then set_cursor (ly_row st, ly_col st) st else st)
         in if c = [carriage_return] then here
            else if c = [newline] then close_row i (i + 1) here
            else
              (let wraps = width < ly_col st + de_char_width D c \<and> 0 < ly_col st;
                   st1 = (if cursor = i \<and> wraps then set_cursor (ly_row st + 1, 0) st else here);
                   st2 = (if wraps then close_row i i st1 else st1)
               in st2\<lparr>ly_col := ly_col st2 + de_char_width D c\<rparr>)))"

fun layout_chars :: "display_env \<Rightarrow> nat \<Rightarrow> nat \<Rightarrow> (nat \<times> string) list \<Rightarrow> layout_state \<Rightarrow> layout_state" where
  "layout_chars D width cursor [] st = st"
| "layout_chars D width cursor (ic # ics) st = layout_chars D width cursor ics (layout_char D width cursor ic st)"

definition layout_end :: "nat \<Rightarrow> nat \<Rightarrow> string \<Rightarrow> layout_state \<Rightarrow> row_layout" where
  "layout_end width cursor s st0 =
     (let st = set_cursor (ly_row st0, ly_col st0) st0;
          place = the (ly_cursor st);
          spans = ly_spans st @ [(min (ly_row_start st) (length s), length s)]
      in if width \<le> ly_col st
         then \<lparr>vl_spans = spans @ [(length s, length s)],
               vl_cursor_row = (if cursor = length s then fst place + 1 else fst place),
               vl_cursor_col = (if cursor = length s then 0 else snd place)\<rparr>
         else \<lparr>vl_spans = spans, vl_cursor_row = fst place, vl_cursor_col = snd place\<rparr>)"

definition visual_layout :: "display_env \<Rightarrow> string \<Rightarrow> nat \<Rightarrow> nat \<Rightarrow> row_layout" where
  "visual_layout D s cursor_byte width0 =
     (let width = max width0 1;
          cursor = clamp_to_char_boundary_left s cursor_byte
      in layout_end width cursor s (layout_chars D width cursor (char_indices s) layout_start))"

definition cursor_row_col :: "display_env \<Rightarrow> string \<Rightarrow> nat \<Rightarrow> nat \<Rightarrow> nat \<times> nat" where
  "cursor_row_col D s cursor_byte width =
     (let ly = visual_layout D s cursor_byte width in (vl_cursor_row ly, vl_cursor_col ly))"

definition visual_row_count :: "display_env \<Rightarrow> string \<Rightarrow> nat \<Rightarrow> nat" where
  "visual_row_count D s width = row_count (visual_layout D s (length s) width)"

definition visual_row_bounds :: "display_env \<Rightarrow> string \<Rightarrow> nat \<Rightarrow> nat \<Rightarrow> nat \<times> nat" where
  "visual_row_bounds D s target_row width = row_bounds (visual_layout D s (length s) width) target_row"

fun byte_in_chars :: "display_env \<Rightarrow> nat \<Rightarrow> nat \<Rightarrow> nat \<Rightarrow> (nat \<times> string) list \<Rightarrow> nat" where
  "byte_in_chars D target_col span_end col [] = span_end"
| "byte_in_chars D target_col span_end col ((i, c) # ics) =
     (if target_col \<le> col \<or> target_col < col + de_char_width D c then i
      else byte_in_chars D target_col span_end (col + de_char_width D c) ics)"

definition byte_for_row_col_in_span :: "display_env \<Rightarrow> string \<Rightarrow> nat \<Rightarrow> nat \<Rightarrow> nat \<Rightarrow> nat option" where
  "byte_for_row_col_in_span D s start stop target_col =
     (if stop \<le> start then Some (min start (length s))
      else map_option (\<lambda>row. byte_in_chars D target_col stop 0 (indices_from start (utf8_chars row)))
             (str_range s start stop))"

definition byte_for_row_col :: "display_env \<Rightarrow> row_layout \<Rightarrow> string \<Rightarrow> nat \<Rightarrow> nat \<Rightarrow> nat option" where
  "byte_for_row_col D ly s target_row target_col =
     (case row_bounds ly target_row of (start, stop) \<Rightarrow> byte_for_row_col_in_span D s start stop target_col)"

definition cursor_byte_for_row_col :: "display_env \<Rightarrow> string \<Rightarrow> nat \<Rightarrow> nat \<Rightarrow> nat \<Rightarrow> nat option" where
  "cursor_byte_for_row_col D s target_row target_col width =
     byte_for_row_col D (visual_layout D s (length s) width) s target_row target_col"

definition visual_window_start :: "nat \<Rightarrow> nat \<Rightarrow> nat" where
  "visual_window_start cursor_row visible_rows = sat_add cursor_row 1 - max visible_rows 1"

section \<open>Wrapped lines\<close>

text \<open>The lines in reverse, the last one first, with its width.\<close>

definition wrap_char :: "display_env \<Rightarrow> nat \<Rightarrow> string \<Rightarrow> string list \<times> string \<times> nat \<Rightarrow> string list \<times> string \<times> nat" where
  "wrap_char D width c st =
     (case st of (finished, cur, used) \<Rightarrow>
        if c = [carriage_return] then st
        else if c = [newline] then (finished @ [cur], '''', 0)
        else if width < used + de_char_width D c \<and> 0 < used then (finished @ [cur], c, de_char_width D c)
        else (finished, cur @ c, used + de_char_width D c))"

definition wrap_input_lines :: "display_env \<Rightarrow> string \<Rightarrow> nat \<Rightarrow> string list" where
  "wrap_input_lines D s width0 =
     (case fold (wrap_char D (max width0 1)) (utf8_chars s) ([], '''', 0) of
        (finished, cur, used) \<Rightarrow> finished @ [cur])"

fun take_width :: "display_env \<Rightarrow> nat \<Rightarrow> nat \<Rightarrow> string list \<Rightarrow> string" where
  "take_width D max_width used [] = ''''"
| "take_width D max_width used (g # gs) =
     (if max_width < used + de_width D g \<and> 0 < used then ''''
      else g @ take_width D max_width (used + de_width D g) gs)"

definition truncate_to_display_width :: "display_env \<Rightarrow> string \<Rightarrow> nat \<Rightarrow> string" where
  "truncate_to_display_width D s max_width = take_width D max_width 0 (de_graphemes D s)"

definition display_width :: "display_env \<Rightarrow> string \<Rightarrow> nat" where
  "display_width D s = sum_list (map (de_width D) (de_graphemes D s))"

end
