(* ===== verification/Editor.thy ===== *)
theory Editor
  imports Input_Metrics
begin

text \<open>
  The line editor of the terminal front end (\<open>src/ui/editor/mod.rs\<close>): a text with a cursor, its history, and
  the stacks of undo and redo. An operation that slices or indexes is \<open>None\<close> where the source panics. Keys and
  events are those of the terminal library that the editor distinguishes.
\<close>

definition MAX_INPUT_BYTES :: nat where
  "MAX_INPUT_BYTES = 1048576"

definition prev_char_boundary_in :: "string \<Rightarrow> nat \<Rightarrow> nat" where
  "prev_char_boundary_in s i =
     (let normalized = char_start_at_most s (min i (length s))
      in if normalized = 0 then 0 else char_start_at_most s (normalized - 1))"

text \<open>\<open>buffer[i..].chars().next()\<close>\<close>

definition first_char :: "string \<Rightarrow> nat \<Rightarrow> string option option" where
  "first_char s i =
     map_option (\<lambda>r. case utf8_chars r of [] \<Rightarrow> None | c # cs \<Rightarrow> Some c) (str_range s i (length s))"

definition is_some_ws :: "string option \<Rightarrow> bool" where
  "is_some_ws c = (case c of None \<Rightarrow> False | Some g \<Rightarrow> is_ws g)"

definition first_of_range :: "string \<Rightarrow> nat \<Rightarrow> nat \<Rightarrow> string option option" where
  "first_of_range s a b = map_option (\<lambda>r. case utf8_chars r of [] \<Rightarrow> None | c # cs \<Rightarrow> Some c) (str_range s a b)"

lemma prev_char_boundary_less [termination_simp]: "i \<noteq> 0 \<Longrightarrow> prev_char_boundary_in s i < i"
  using char_start_at_most_le [of s "min i (length s)"]
    char_start_at_most_le [of s "char_start_at_most s (min i (length s)) - 1"]
  by (auto simp: prev_char_boundary_in_def Let_def)

function mention_start :: "string \<Rightarrow> nat \<Rightarrow> nat option" where
  "mention_start s start =
     (if start = 0 then Some 0
      else
        (case first_of_range s (prev_char_boundary_in s start) start of
           None \<Rightarrow> None
         | Some c \<Rightarrow> if is_some_ws c then Some start else mention_start s (prev_char_boundary_in s start)))"
  by pat_completeness auto
termination by (relation "measure snd") (auto intro: prev_char_boundary_less)

declare mention_start.simps [simp del]

fun mention_end :: "string list \<Rightarrow> nat \<Rightarrow> nat" where
  "mention_end [] stop = stop"
| "mention_end (c # cs) stop = (if is_ws c then stop else mention_end cs (stop + length c))"

definition mention_token :: "string \<Rightarrow> nat \<Rightarrow> (nat \<times> nat) option option" where
  "mention_token s probe =
     (case (mention_start s probe, str_range s probe (length s)) of
        (Some start, Some r) \<Rightarrow>
          (let stop = mention_end (utf8_chars r) probe
           in map_option (\<lambda>token. if starts_with token ''@'' then Some (start, stop) else None)
                (str_range s start stop))
      | _ \<Rightarrow> None)"

definition file_mention_range :: "string \<Rightarrow> nat \<Rightarrow> (nat \<times> nat) option option" where
  "file_mention_range s cursor =
     (if s = '''' then Some None
      else
        (let probe = char_start_at_most s (min cursor (length s))
         in case first_char s probe of
              None \<Rightarrow> None
            | Some c \<Rightarrow>
                if probe = length s \<or> is_some_ws c then
                  (if probe = 0 then Some None
                   else
                     (let before = prev_char_boundary_in s probe
                      in case first_char s before of
                           None \<Rightarrow> None
                         | Some c' \<Rightarrow> if is_some_ws c' then Some None else mention_token s before))
                else mention_token s probe))"

section \<open>State\<close>

record editor_rollup =
  er_buffer :: string
  er_cursor :: nat

record input_state =
  is_buffer :: string
  is_cursor :: nat
  is_history :: "string list"
  is_history_index :: "nat option"
  is_history_stash :: "editor_rollup option"
  is_undo_stack :: "editor_rollup list"
  is_redo_stack :: "editor_rollup list"

definition input_state_default :: input_state where
  "input_state_default =
     \<lparr>is_buffer = '''', is_cursor = 0, is_history = [], is_history_index = None, is_history_stash = None,
      is_undo_stack = [], is_redo_stack = []\<rparr>"

datatype input_action = None_action | Submit_action string | Interrupt_action | Quit_action

definition clamp_cursor_to_boundary_left :: "input_state \<Rightarrow> nat \<Rightarrow> nat" where
  "clamp_cursor_to_boundary_left s i = char_start_at_most (is_buffer s) (min i (length (is_buffer s)))"

definition prev_char_boundary :: "input_state \<Rightarrow> nat \<Rightarrow> nat" where
  "prev_char_boundary s i = prev_char_boundary_in (is_buffer s) i"

definition next_char_boundary :: "input_state \<Rightarrow> nat \<Rightarrow> nat option" where
  "next_char_boundary s idx =
     (let i = clamp_cursor_to_boundary_left s idx
      in if length (is_buffer s) \<le> i then Some (length (is_buffer s))
         else map_option (\<lambda>c. case c of Some ch \<Rightarrow> i + length ch | None \<Rightarrow> length (is_buffer s))
                (first_char (is_buffer s) i))"

definition rollup :: "input_state \<Rightarrow> editor_rollup" where
  "rollup s = \<lparr>er_buffer = is_buffer s, er_cursor = is_cursor s\<rparr>"

definition push_undo :: "input_state \<Rightarrow> input_state" where
  "push_undo s = s\<lparr>is_undo_stack := rollup s # is_undo_stack s, is_redo_stack := []\<rparr>"

definition restore :: "editor_rollup \<Rightarrow> input_state \<Rightarrow> input_state" where
  "restore snap s =
     (let s1 = s\<lparr>is_buffer := er_buffer snap\<rparr>
      in s1\<lparr>is_cursor := clamp_cursor_to_boundary_left s1 (er_cursor snap)\<rparr>)"

definition leave_history :: "input_state \<Rightarrow> input_state" where
  "leave_history s = s\<lparr>is_history_index := None, is_history_stash := None\<rparr>"

text \<open>\<open>String::replace_range\<close> and, for an empty range, \<open>String::insert_str\<close>.\<close>

definition str_replace :: "string \<Rightarrow> nat \<Rightarrow> nat \<Rightarrow> string \<Rightarrow> string option" where
  "str_replace s a b v = map_option (\<lambda>_. take a s @ v @ drop b s) (str_range s a b)"

definition put_range :: "nat \<Rightarrow> nat \<Rightarrow> string \<Rightarrow> nat \<Rightarrow> input_state \<Rightarrow> input_state option" where
  "put_range a b v cursor s =
     map_option (\<lambda>buffer. s\<lparr>is_buffer := buffer, is_cursor := cursor\<rparr>) (str_replace (is_buffer s) a b v)"

section \<open>Operations\<close>

definition insert_str :: "string \<Rightarrow> input_state \<Rightarrow> input_state option" where
  "insert_str v s0 =
     (let s = leave_history s0;
          cursor = clamp_cursor_to_boundary_left s (is_cursor s)
      in if MAX_INPUT_BYTES < length (is_buffer s) + length v then Some s
         else put_range cursor cursor v (cursor + length v) (push_undo s))"

definition replace_range :: "nat \<Rightarrow> nat \<Rightarrow> string \<Rightarrow> input_state \<Rightarrow> input_state option" where
  "replace_range start0 end0 v s =
     (let start = clamp_cursor_to_boundary_left s (min start0 end0);
          stop = clamp_cursor_to_boundary_left s (max end0 start)
      in put_range start stop v (start + length v) (push_undo (leave_history s)))"

definition backspace :: "input_state \<Rightarrow> input_state option" where
  "backspace s =
     (let stop = clamp_cursor_to_boundary_left s (is_cursor s)
      in if stop = 0 then Some s
         else (let start = prev_char_boundary s stop
               in put_range start stop '''' start (push_undo (leave_history s))))"

definition delete :: "input_state \<Rightarrow> input_state option" where
  "delete s =
     (let start = clamp_cursor_to_boundary_left s (is_cursor s)
      in if length (is_buffer s) \<le> start then Some s
         else (case next_char_boundary s start of
                 None \<Rightarrow> None
               | Some stop \<Rightarrow> put_range start stop '''' start (push_undo (leave_history s))))"

definition submit :: "input_state \<Rightarrow> string option \<times> input_state" where
  "submit s =
     (let v = trim_end_char carriage_return (trim_end_char newline (is_buffer s))
      in if v = '''' then (None, s)
         else (Some v, (push_undo (leave_history (s\<lparr>is_history := is_history s @ [v]\<rparr>)))
                         \<lparr>is_buffer := '''', is_cursor := 0\<rparr>))"

text \<open>\<open>history[i].clone()\<close> with the cursor at its end.\<close>

definition recall :: "nat \<Rightarrow> input_state \<Rightarrow> input_state option" where
  "recall i s =
     (if i < length (is_history s)
      then Some (s\<lparr>is_history_index := Some i, is_buffer := is_history s ! i,
                   is_cursor := length (is_history s ! i)\<rparr>)
      else None)"

definition history_up :: "input_state \<Rightarrow> input_state option" where
  "history_up s =
     (if is_history s = [] then Some s
      else
        (case is_history_index s of
           None \<Rightarrow> recall (length (is_history s) - 1) (s\<lparr>is_history_stash := Some (rollup s)\<rparr>)
         | Some i \<Rightarrow> recall (if i > 0 then i - 1 else 0) s))"

definition history_down :: "input_state \<Rightarrow> input_state option" where
  "history_down s =
     (case is_history_index s of
        None \<Rightarrow> Some s
      | Some i \<Rightarrow>
          if length (is_history s) \<le> i + 1
          then Some (case is_history_stash s of
                       Some stash \<Rightarrow> restore stash (s\<lparr>is_history_index := None, is_history_stash := None\<rparr>)
                     | None \<Rightarrow> s\<lparr>is_history_index := None, is_buffer := '''', is_cursor := 0\<rparr>)
          else recall (i + 1) s)"

definition undo :: "input_state \<Rightarrow> input_state" where
  "undo s =
     (case is_undo_stack s of
        [] \<Rightarrow> s
      | previous # rest \<Rightarrow>
          restore previous (s\<lparr>is_undo_stack := rest, is_redo_stack := rollup s # is_redo_stack s\<rparr>))"

definition redo :: "input_state \<Rightarrow> input_state" where
  "redo s =
     (case is_redo_stack s of
        [] \<Rightarrow> s
      | following # rest \<Rightarrow>
          restore following (s\<lparr>is_redo_stack := rest, is_undo_stack := rollup s # is_undo_stack s\<rparr>))"

definition move_to_row :: "display_env \<Rightarrow> row_layout \<Rightarrow> nat \<Rightarrow> input_state \<Rightarrow> (bool \<times> input_state) option" where
  "move_to_row D ly row s =
     map_option (\<lambda>i. (True, s\<lparr>is_cursor := i\<rparr>)) (byte_for_row_col D ly (is_buffer s) row (vl_cursor_col ly))"

definition move_cursor_visual_up :: "display_env \<Rightarrow> nat \<Rightarrow> input_state \<Rightarrow> (bool \<times> input_state) option" where
  "move_cursor_visual_up D width s =
     (let ly = visual_layout D (is_buffer s) (is_cursor s) (max width 1)
      in if vl_cursor_row ly = 0 then Some (False, s) else move_to_row D ly (vl_cursor_row ly - 1) s)"

definition move_cursor_visual_down :: "display_env \<Rightarrow> nat \<Rightarrow> input_state \<Rightarrow> (bool \<times> input_state) option" where
  "move_cursor_visual_down D width s =
     (let ly = visual_layout D (is_buffer s) (is_cursor s) (max width 1)
      in if row_count ly - 1 \<le> vl_cursor_row ly then Some (False, s)
         else move_to_row D ly (vl_cursor_row ly + 1) s)"

definition move_cursor_to :: "nat \<Rightarrow> input_state \<Rightarrow> bool \<times> input_state" where
  "move_cursor_to i s = (if is_cursor s = i then (False, s) else (True, s\<lparr>is_cursor := i\<rparr>))"

definition move_cursor_visual_home :: "display_env \<Rightarrow> nat \<Rightarrow> input_state \<Rightarrow> bool \<times> input_state" where
  "move_cursor_visual_home D width s =
     (let row = fst (cursor_row_col D (is_buffer s) (is_cursor s) (max width 1))
      in move_cursor_to (fst (visual_row_bounds D (is_buffer s) row (max width 1))) s)"

definition move_cursor_visual_end :: "display_env \<Rightarrow> nat \<Rightarrow> input_state \<Rightarrow> bool \<times> input_state" where
  "move_cursor_visual_end D width s =
     (let row = fst (cursor_row_col D (is_buffer s) (is_cursor s) (max width 1))
      in move_cursor_to (snd (visual_row_bounds D (is_buffer s) row (max width 1))) s)"

section \<open>Events\<close>

datatype key_code =
    Char_key string | Enter_key | Backspace_key | Delete_key | Left_key | Right_key | Home_key | End_key
  | Up_key | Down_key | Esc_key | Other_key

record key_stroke =
  ks_code :: key_code
  ks_control :: bool
  ks_shift :: bool

datatype input_event = Paste_event string | Key_event key_stroke | Other_event

definition quietly :: "input_state option \<Rightarrow> (input_action \<times> input_state) option" where
  "quietly r = map_option (\<lambda>s. (None_action, s)) r"

fun plain_key :: "key_code \<Rightarrow> bool \<Rightarrow> input_state \<Rightarrow> (input_action \<times> input_state) option" where
  "plain_key Enter_key shift s =
     (if shift then quietly (insert_str [newline] s)
      else (case submit s of (Some v, s') \<Rightarrow> Some (Submit_action v, s') | (None, s') \<Rightarrow> Some (None_action, s')))"
| "plain_key Backspace_key shift s = quietly (backspace s)"
| "plain_key Delete_key shift s = quietly (delete s)"
| "plain_key Left_key shift s = Some (None_action, s\<lparr>is_cursor := prev_char_boundary s (is_cursor s)\<rparr>)"
| "plain_key Right_key shift s =
     map_option (\<lambda>i. (None_action, s\<lparr>is_cursor := i\<rparr>)) (next_char_boundary s (is_cursor s))"
| "plain_key Home_key shift s = Some (None_action, s\<lparr>is_cursor := 0\<rparr>)"
| "plain_key End_key shift s = Some (None_action, s\<lparr>is_cursor := length (is_buffer s)\<rparr>)"
| "plain_key Up_key shift s = quietly (history_up s)"
| "plain_key Down_key shift s = quietly (history_down s)"
| "plain_key (Char_key ch) shift s = quietly (insert_str ch s)"
| "plain_key Esc_key shift s = Some (if is_buffer s = '''' then Submit_action ''esc'' else None_action, s)"
| "plain_key Other_key shift s = Some (None_action, s)"

definition apply_key :: "key_stroke \<Rightarrow> input_state \<Rightarrow> (input_action \<times> input_state) option" where
  "apply_key k s =
     (if ks_code k = Char_key ''d'' \<and> ks_control k then
        (if is_buffer s = '''' then Some (Quit_action, s) else quietly (delete s))
      else if ks_code k = Char_key ''c'' \<and> ks_control k then Some (Interrupt_action, s)
      else if ks_code k = Char_key ''j'' \<and> ks_control k then quietly (insert_str [newline] s)
      else if ks_code k = Char_key ''z'' \<and> ks_control k then Some (None_action, undo s)
      else if ks_code k = Char_key ''y'' \<and> ks_control k then Some (None_action, redo s)
      else plain_key (ks_code k) (ks_shift k) s)"

fun apply_input :: "input_event \<Rightarrow> input_state \<Rightarrow> (input_action \<times> input_state) option" where
  "apply_input (Paste_event t) s = quietly (insert_str t s)"
| "apply_input (Key_event k) s = apply_key k s"
| "apply_input Other_event s = Some (None_action, s)"

end
