(* ===== verification/Editor_Laws.thy ===== *)
theory Editor_Laws
  imports Editor
begin

text \<open>
  The texts of the editor stay well-formed and its cursor stays on a character boundary, so that no operation
  panics; the edits refine those of a pair of character lists; undo and redo are inverse; and the two
  ways of wrapping a text agree.
\<close>

section \<open>Well-formed texts\<close>

lemma is_cont_val: "is_cont c \<longleftrightarrow> 128 \<le> byte_val c \<and> byte_val c < 192"
  by (simp add: is_cont_def)

abbreviation cont_val :: "nat \<Rightarrow> bool" where
  "cont_val b \<equiv> 128 \<le> b \<and> b < 192"

text \<open>The bytes of one character.\<close>

fun one_char :: "nat list \<Rightarrow> bool" where
  "one_char [b] \<longleftrightarrow> b < 128"
| "one_char [b, c1] \<longleftrightarrow> 194 \<le> b \<and> b \<le> 223 \<and> cont_val c1"
| "one_char [b, c1, c2] \<longleftrightarrow> 224 \<le> b \<and> b \<le> 239 \<and> (if b = 224 then 160 else 128) \<le> c1
     \<and> c1 < (if b = 237 then 160 else 192) \<and> cont_val c2"
| "one_char [b, c1, c2, c3] \<longleftrightarrow> 240 \<le> b \<and> b \<le> 244 \<and> (if b = 240 then 144 else 128) \<le> c1
     \<and> c1 < (if b = 244 then 144 else 192) \<and> cont_val c2 \<and> cont_val c3"
| "one_char _ \<longleftrightarrow> False"

lemma one_char_valid: "one_char g \<Longrightarrow> valid_utf8_vals (g @ r) = valid_utf8_vals r"
  by (cases g rule: one_char.cases) auto

lemma one_char_tail: "one_char g \<Longrightarrow> g \<noteq> [] \<and> list_all cont_val (tl g)"
  by (cases g rule: one_char.cases) (auto split: if_splits)

lemma valid_first:
  assumes "valid_utf8_vals (b # bs)"
  shows "\<exists>g r. b # bs = g @ r \<and> one_char g"
proof -
  consider "b < 128" | "194 \<le> b" "b \<le> 223" | "224 \<le> b" "b \<le> 239" | "240 \<le> b" "b \<le> 244"
    using assms by (auto split: if_splits)
  then show ?thesis
  proof cases
    case 1
    then have "b # bs = [b] @ bs \<and> one_char [b]" by simp
    then show ?thesis by blast
  next
    case 2
    with assms obtain c1 r where "bs = c1 # r" "cont_val c1" by (cases bs) auto
    with 2 have "b # bs = [b, c1] @ r \<and> one_char [b, c1]" by simp
    then show ?thesis by blast
  next
    case 3
    with assms obtain c1 c2 r where "bs = c1 # c2 # r" "one_char [b, c1, c2]"
      by (cases bs; cases "tl bs") auto
    then have "b # bs = [b, c1, c2] @ r \<and> one_char [b, c1, c2]" by simp
    then show ?thesis by blast
  next
    case 4
    with assms obtain c1 c2 c3 r where "bs = c1 # c2 # c3 # r" "one_char [b, c1, c2, c3]"
      by (cases bs; cases "tl bs"; cases "tl (tl bs)") auto
    then have "b # bs = [b, c1, c2, c3] @ r \<and> one_char [b, c1, c2, c3]" by simp
    then show ?thesis by blast
  qed
qed

lemma valid_vals_append: "valid_utf8_vals xs \<Longrightarrow> valid_utf8_vals ys \<Longrightarrow> valid_utf8_vals (xs @ ys)"
proof (induction xs rule: length_induct)
  case (1 xs)
  show ?case
  proof (cases xs)
    case (Cons b bs)
    with 1(2) obtain g r where g: "xs = g @ r" "one_char g" using valid_first by blast
    with 1 one_char_tail [OF g(2)] show ?thesis by (simp add: one_char_valid)
  qed (use 1 in simp)
qed

lemma valid_vals_split:
  "valid_utf8_vals (xs @ ys) \<Longrightarrow> ys = [] \<or> \<not> cont_val (hd ys) \<Longrightarrow> valid_utf8_vals xs \<and> valid_utf8_vals ys"
proof (induction xs rule: length_induct)
  case (1 xs)
  then have IH: "length z < length xs \<Longrightarrow> valid_utf8_vals (z @ ys) \<Longrightarrow> valid_utf8_vals z \<and> valid_utf8_vals ys" for z
    by simp
  note hyps = 1(2,3)
  show ?case
  proof (cases xs)
    case (Cons b bs)
    with 1(2) obtain g r where g: "xs @ ys = g @ r" "one_char g" using valid_first [of b "bs @ ys"] by auto
    then consider z where "xs = g @ z" "r = z @ ys" | z where "g = xs @ z" "ys = z @ r"
      by (auto simp: append_eq_append_conv2)
    then show ?thesis
    proof cases
      case 1
      with g(2) \<open>valid_utf8_vals (xs @ ys)\<close> have "valid_utf8_vals (z @ ys)" by (simp add: one_char_valid)
      moreover have "length z < length xs" using 1(1) one_char_tail [OF g(2)] by simp
      ultimately have "valid_utf8_vals z \<and> valid_utf8_vals ys" using IH by simp
      with 1(1) g(2) show ?thesis by (simp add: one_char_valid)
    next
      case 2
      have "z = []"
      proof (rule ccontr)
        assume z: "z \<noteq> []"
        with 2 Cons have "hd ys \<in> set (tl g)" by (cases z) auto
        with one_char_tail [OF g(2)] hyps(2) 2(2) z show False by (auto simp: list_all_iff)
      qed
      with 2 g(2) hyps(1) one_char_valid [OF g(2), of "[]"] show ?thesis by (simp add: one_char_valid)
    qed
  qed (use 1 in simp)
qed

lemma valid_append: "valid_utf8 a \<Longrightarrow> valid_utf8 b \<Longrightarrow> valid_utf8 (a @ b)"
  by (simp add: valid_utf8_def valid_vals_append)

lemma valid_split: "valid_utf8 (a @ b) \<Longrightarrow> leads b \<Longrightarrow> valid_utf8 a \<and> valid_utf8 b"
  using valid_vals_split [of "map byte_val a" "map byte_val b"]
  by (cases "b = []") (simp_all add: valid_utf8_def leads_def is_cont_val hd_map)

lemma valid_leads: "valid_utf8 s \<Longrightarrow> leads s"
  by (cases s) (auto simp: valid_utf8_def leads_def is_cont_val split: if_splits)

lemma valid_Nil [simp]: "valid_utf8 ''''"
  by (simp add: valid_utf8_def)

lemma valid_cut:
  assumes "valid_utf8 s" and "is_char_boundary s i"
  shows "valid_utf8 (take i s) \<and> valid_utf8 (drop i s)"
  using valid_split [of "take i s" "drop i s"] assms by (simp add: boundary_leads)

lemma boundary_in_drop:
  "is_char_boundary s a \<Longrightarrow> is_char_boundary s b \<Longrightarrow> a \<le> b \<Longrightarrow> is_char_boundary (drop a s) (b - a)"
  by (auto simp: boundary_iff)

lemma boundary_Nil [simp]: "is_char_boundary [] 0"
  by (simp add: is_char_boundary_def)

lemma boundary_append: "leads b \<Longrightarrow> is_char_boundary (a @ b) (length a)"
  by (simp add: boundary_iff)

lemma trim_end_char_valid:
  assumes "valid_utf8 s" and "byte_val c < 128"
  shows "valid_utf8 (trim_end_char c s)"
proof -
  have "s = trim_end_char c s @ rev (takeWhile ((=) c) (rev s))"
    by (simp add: trim_end_char_def flip: rev_append)
  moreover have "leads (rev (takeWhile ((=) c) (rev s)))"
  proof (cases "takeWhile ((=) c) (rev s)" rule: rev_cases)
    case (snoc ys y)
    then have "y \<in> set (takeWhile ((=) c) (rev s))" by simp
    then have "y = c" by (auto dest: set_takeWhileD)
    with snoc assms(2) show ?thesis by (simp add: leads_def is_cont_val)
  qed (simp add: leads_def)
  ultimately show ?thesis using assms(1) valid_split by metis
qed

section \<open>The first character\<close>

lemma str_range_Some [simp]:
  "is_char_boundary s a \<Longrightarrow> is_char_boundary s b \<Longrightarrow> a \<le> b \<Longrightarrow> str_range s a b = Some (take (b - a) (drop a s))"
  by (simp add: str_range_def)

text \<open>The next character after a boundary, and the boundary after it.\<close>

lemma chars_from:
  assumes "utf8_chars (drop i s) = c # cs"
  shows "utf8_chars (drop (i + length c) s) = cs \<and> 0 < length c \<and> is_char_boundary s (i + length c)
    \<and> take (length c) (drop i s) = c"
proof -
  from assms obtain x xs where x: "drop i s = x # xs" "c = x # takeWhile is_cont xs"
    "cs = utf8_chars (dropWhile is_cont xs)"
    by (cases "drop i s") auto
  have d: "drop (i + length c) s = dropWhile is_cont xs"
  proof -
    have "drop (i + length c) s = drop (length c) (drop i s)" by (simp add: add.commute)
    then show ?thesis by (simp add: x(1,2) dropWhile_eq_drop)
  qed
  have l: "leads (dropWhile is_cont xs)"
    using hd_dropWhile [of is_cont xs] by (auto simp: leads_def dropWhile_eq_Nil_conv)
  have "i + length c \<le> length s"
  proof -
    have "length (takeWhile is_cont xs) \<le> length xs" by (rule length_takeWhile_le)
    moreover have "length (drop i s) = Suc (length xs)" using x(1) by simp
    ultimately show ?thesis using x(2) by simp
  qed
  moreover have "take (length c) (drop i s) = c"
    using x by (simp add: takeWhile_eq_take [symmetric])
  ultimately show ?thesis using d l x by (simp add: boundary_iff)
qed

section \<open>Layout\<close>

lemma indices_boundaries:
  assumes "is_char_boundary r i" and "(j, c) \<in> set (indices_from (k + i) (utf8_chars (drop i r)))"
  shows "\<exists>j'. j = k + j' \<and> is_char_boundary r j'"
  using assms
proof (induction "utf8_chars (drop i r)" arbitrary: i)
  case (Cons d ds)
  note eq = chars_from [OF Cons.hyps(2) [symmetric]]
  show ?case
  proof (cases "j = k + i")
    case False
    with Cons.prems(2) Cons.hyps(2) have "(j, c) \<in> set (indices_from (k + (i + length d)) ds)"
      by (metis add.assoc indices_from.simps(2) prod.inject set_ConsD)
    with eq Cons.hyps(1) [of "i + length d"] show ?thesis by simp
  qed (use Cons.prems in auto)
qed auto

lemma boundary_of_range:
  assumes "is_char_boundary s a" "is_char_boundary s b" "a \<le> b"
    and "is_char_boundary (take (b - a) (drop a s)) j"
  shows "is_char_boundary s (a + j)"
proof (cases "j < b - a")
  case True
  with assms show ?thesis by (auto simp: is_char_boundary_def)
next
  case False
  with assms have "j = b - a" by (auto simp: is_char_boundary_def)
  with assms show ?thesis by simp
qed

definition span_ok :: "string \<Rightarrow> nat \<times> nat \<Rightarrow> bool" where
  "span_ok s sp \<longleftrightarrow> fst sp \<le> snd sp \<and> is_char_boundary s (fst sp) \<and> is_char_boundary s (snd sp)"

definition layout_ok :: "string \<Rightarrow> nat \<Rightarrow> layout_state \<Rightarrow> bool" where
  "layout_ok s i st \<longleftrightarrow>
     ly_row_start st \<le> i \<and> is_char_boundary s (ly_row_start st) \<and> ly_row st = length (ly_spans st)
     \<and> list_all (span_ok s) (ly_spans st)
     \<and> (case ly_cursor st of None \<Rightarrow> True | Some place \<Rightarrow> fst place \<le> length (ly_spans st))"

lemma layout_char_ok:
  assumes "layout_ok s i st" and "is_char_boundary s i" and "is_char_boundary s (i + length c)"
  shows "layout_ok s (i + length c) (layout_char D width cursor (i, c) st)"
  using assms
  by (auto simp: layout_ok_def layout_char_def set_cursor_def close_row_def span_ok_def Let_def split: option.splits)

lemma layout_chars_ok:
  assumes "is_char_boundary s i" and "layout_ok s i st"
  shows "layout_ok s (length s) (layout_chars D width cursor (indices_from i (utf8_chars (drop i s))) st)"
  using assms
proof (induction "utf8_chars (drop i s)" arbitrary: i st)
  case Nil
  then have "drop i s = []" by (metis utf8_chars_eq_Nil)
  with Nil.prems show ?case by (auto simp: layout_ok_def Nil.hyps [symmetric] dest: boundary_le)
next
  case (Cons c cs)
  note eq = chars_from [OF Cons.hyps(2) [symmetric]]
  let ?st = "layout_char D width cursor (i, c) st"
  have ok: "layout_ok s (i + length c) ?st" using layout_char_ok Cons.prems eq by blast
  with eq Cons.hyps(1) [of "i + length c" ?st]
  have "layout_ok s (length s) (layout_chars D width cursor (indices_from (i + length c) cs) ?st)" by simp
  then show ?case by (simp add: Cons.hyps(2) [symmetric])
qed

definition visual_ok :: "string \<Rightarrow> row_layout \<Rightarrow> bool" where
  "visual_ok s ly \<longleftrightarrow> list_all (span_ok s) (vl_spans ly) \<and> vl_cursor_row ly < length (vl_spans ly)"

lemma visual_layout_ok:
  assumes "leads s"
  shows "visual_ok s (visual_layout D s cursor width)"
proof -
  define c where "c = clamp_to_char_boundary_left s cursor"
  define st where "st = layout_chars D (max width 1) c (char_indices s) layout_start"
  have "layout_ok s 0 layout_start"
    using assms by (simp add: layout_ok_def layout_start_def boundary_0)
  with layout_chars_ok [OF boundary_0 [OF assms]] have ok: "layout_ok s (length s) st"
    by (simp add: st_def char_indices_def)
  then have "visual_ok s (layout_end (max width 1) c s st)"
    by (auto simp: layout_ok_def layout_end_def set_cursor_def visual_ok_def span_ok_def Let_def boundary_le min_def
        split: option.splits)
  then show ?thesis by (simp add: visual_layout_def c_def st_def Let_def)
qed

lemma row_bounds_ok: "visual_ok s ly \<Longrightarrow> span_ok s (row_bounds ly row)"
  by (auto simp: visual_ok_def row_bounds_def list_all_iff list_all_length)

lemma byte_in_chars_cases:
  "byte_in_chars D target stop col ics = stop \<or> byte_in_chars D target stop col ics \<in> fst ` set ics"
  by (induction D target stop col ics rule: byte_in_chars.induct) auto

lemma byte_for_row_col_ok:
  assumes "visual_ok s ly" and "leads s"
  shows "\<exists>i. byte_for_row_col D ly s row col = Some i \<and> is_char_boundary s i"
proof -
  obtain a b where ab: "row_bounds ly row = (a, b)" by fastforce
  with row_bounds_ok [OF assms(1), of row] have ok: "a \<le> b" "is_char_boundary s a" "is_char_boundary s b"
    by (auto simp: span_ok_def)
  show ?thesis
  proof (cases "b \<le> a")
    case True
    with ab ok boundary_le [OF ok(2)] show ?thesis by (simp add: byte_for_row_col_def byte_for_row_col_in_span_def)
  next
    case False
    let ?r = "take (b - a) (drop a s)"
    let ?i = "byte_in_chars D col b 0 (indices_from a (utf8_chars ?r))"
    have r: "leads ?r" using boundary_leads [OF ok(2)] False by (cases "drop a s") (auto simp: leads_def take_Cons')
    have "is_char_boundary s ?i"
    proof (cases "?i = b")
      case False
      then obtain c where "(?i, c) \<in> set (indices_from (a + 0) (utf8_chars (drop 0 ?r)))"
        using byte_in_chars_cases [of D col b 0 "indices_from a (utf8_chars ?r)"] by auto
      from indices_boundaries [OF boundary_0 [OF r] this] obtain j where
        "?i = a + j" "is_char_boundary ?r j" by blast
      with boundary_of_range [OF ok(2,3,1)] show ?thesis by metis
    qed (use ok in simp)
    with ab ok False show ?thesis by (simp add: byte_for_row_col_def byte_for_row_col_in_span_def)
  qed
qed

section \<open>The invariant of the editor\<close>

definition text_ok :: "string \<Rightarrow> nat \<Rightarrow> bool" where
  "text_ok s i \<longleftrightarrow> valid_utf8 s \<and> is_char_boundary s i"

definition rollup_ok :: "editor_rollup \<Rightarrow> bool" where
  "rollup_ok r \<longleftrightarrow> text_ok (er_buffer r) (er_cursor r)"

definition editor_ok :: "input_state \<Rightarrow> bool" where
  "editor_ok s \<longleftrightarrow>
     text_ok (is_buffer s) (is_cursor s)
     \<and> list_all valid_utf8 (is_history s)
     \<and> pred_option (\<lambda>i. i < length (is_history s)) (is_history_index s)
     \<and> pred_option rollup_ok (is_history_stash s)
     \<and> list_all rollup_ok (is_undo_stack s) \<and> list_all rollup_ok (is_redo_stack s)"

lemma editor_okD:
  assumes "editor_ok s"
  shows "valid_utf8 (is_buffer s)" "leads (is_buffer s)" "is_char_boundary (is_buffer s) (is_cursor s)"
    "is_cursor s \<le> length (is_buffer s)"
  using assms by (auto simp: editor_ok_def text_ok_def valid_leads boundary_le)

lemma clamp_ok: "leads (is_buffer s) \<Longrightarrow> is_char_boundary (is_buffer s) (clamp_cursor_to_boundary_left s i)"
  by (simp add: clamp_cursor_to_boundary_left_def char_start_at_most_boundary)

lemma clamp_id: "is_char_boundary (is_buffer s) i \<Longrightarrow> clamp_cursor_to_boundary_left s i = i"
  by (simp add: clamp_cursor_to_boundary_left_def char_start_at_most_id boundary_le min_absorb1)

lemma prev_ok:
  assumes "leads s"
  shows "is_char_boundary s (prev_char_boundary_in s i) \<and> prev_char_boundary_in s i \<le> i"
proof -
  let ?n = "char_start_at_most s (min i (length s))"
  have n: "?n \<le> min i (length s)" by (rule char_start_at_most_le)
  have "char_start_at_most s (?n - 1) \<le> ?n - 1" by (rule char_start_at_most_le)
  with n assms show ?thesis
    by (auto simp: prev_char_boundary_in_def Let_def boundary_0 intro!: char_start_at_most_boundary)
qed

lemma next_ok:
  assumes "leads (is_buffer s)"
  shows "\<exists>j. next_char_boundary s i = Some j \<and> is_char_boundary (is_buffer s) j
    \<and> clamp_cursor_to_boundary_left s i \<le> j"
proof -
  let ?b = "is_buffer s" and ?i = "clamp_cursor_to_boundary_left s i"
  have b: "is_char_boundary ?b ?i" using assms by (rule clamp_ok)
  show ?thesis
  proof (cases "length ?b \<le> ?i")
    case True
    with boundary_le [OF b] show ?thesis by (simp add: next_char_boundary_def Let_def)
  next
    case False
    then obtain c cs where c: "utf8_chars (drop ?i ?b) = c # cs"
      by (cases "utf8_chars (drop ?i ?b)") (use utf8_chars_eq_Nil [of "drop ?i ?b"] in auto)
    with False b chars_from [OF c] show ?thesis
      by (simp add: next_char_boundary_def first_char_def Let_def)
  qed
qed

lemma editor_ok_cursor: "editor_ok s \<Longrightarrow> is_char_boundary (is_buffer s) i \<Longrightarrow> editor_ok (s\<lparr>is_cursor := i\<rparr>)"
  by (simp add: editor_ok_def text_ok_def)

lemma editor_ok_leave: "editor_ok s \<Longrightarrow> editor_ok (leave_history s)"
  by (simp add: editor_ok_def leave_history_def)

lemma rollup_of_ok: "editor_ok s \<Longrightarrow> rollup_ok (rollup s)"
  by (simp add: editor_ok_def rollup_ok_def rollup_def)

lemma editor_ok_push: "editor_ok s \<Longrightarrow> editor_ok (push_undo s)"
  using rollup_of_ok [of s] by (simp add: editor_ok_def push_undo_def)

lemma restore_ok:
  assumes "rollup_ok r" and "editor_ok s"
  shows "editor_ok (restore r s) \<and> rollup (restore r s) = r"
proof -
  have "clamp_cursor_to_boundary_left (s\<lparr>is_buffer := er_buffer r\<rparr>) (er_cursor r) = er_cursor r"
    using assms(1) by (intro clamp_id) (simp add: rollup_ok_def text_ok_def)
  with assms show ?thesis
    by (simp add: restore_def editor_ok_def rollup_ok_def rollup_def Let_def)
qed

text \<open>A replacement between two boundaries.\<close>

lemma put_range_ok:
  assumes "editor_ok s" and "valid_utf8 v" and "a \<le> b"
    and "is_char_boundary (is_buffer s) a" and "is_char_boundary (is_buffer s) b"
  shows "\<exists>s'. put_range a b v (a + length v) s = Some s' \<and> editor_ok s'"
proof -
  let ?t = "take a (is_buffer s)" and ?d = "drop b (is_buffer s)"
  have va: "valid_utf8 ?t" "valid_utf8 ?d"
    using assms editor_okD [OF assms(1)] by (auto dest: valid_cut)
  have "length ?t = a" using boundary_le [OF assms(4)] by simp
  with va have "text_ok (?t @ v @ ?d) (a + length v)"
    using boundary_append [of ?d "?t @ v"] valid_leads [of ?d] assms(2)
    by (simp add: text_ok_def valid_append)
  with assms show ?thesis by (simp add: put_range_def str_replace_def editor_ok_def)
qed

lemma kept_fields [simp]:
  "is_buffer (leave_history s) = is_buffer s" "is_cursor (leave_history s) = is_cursor s"
  "is_buffer (push_undo s) = is_buffer s" "is_cursor (push_undo s) = is_cursor s"
  by (simp_all add: leave_history_def push_undo_def)

lemma clamp_kept [simp]:
  "clamp_cursor_to_boundary_left (leave_history s) = clamp_cursor_to_boundary_left s"
  "clamp_cursor_to_boundary_left (push_undo s) = clamp_cursor_to_boundary_left s"
  by (simp_all add: clamp_cursor_to_boundary_left_def fun_eq_iff)

lemma insert_str_ok:
  assumes "editor_ok s" and "valid_utf8 v"
  shows "\<exists>s'. insert_str v s = Some s' \<and> editor_ok s'"
  using put_range_ok [OF editor_ok_push [OF editor_ok_leave [OF assms(1)]] assms(2)]
    editor_okD [OF assms(1)] editor_ok_leave [OF assms(1)]
  by (simp add: insert_str_def Let_def clamp_ok)

lemma replace_range_ok:
  assumes "editor_ok s" and "valid_utf8 v"
  shows "\<exists>s'. replace_range a b v s = Some s' \<and> editor_ok s'"
proof -
  let ?a = "clamp_cursor_to_boundary_left s (min a b)"
  let ?b = "clamp_cursor_to_boundary_left s (max b ?a)"
  have l: "leads (is_buffer s)" using assms(1) by (rule editor_okD)
  have "is_char_boundary (is_buffer s) ?a" "?a \<le> length (is_buffer s)"
    using l by (simp_all add: clamp_ok boundary_le)
  then have "?a \<le> ?b"
    by (auto simp: clamp_cursor_to_boundary_left_def intro!: char_start_at_most_greatest)
  with put_range_ok [OF editor_ok_push [OF editor_ok_leave [OF assms(1)]] assms(2)] l
  show ?thesis by (simp add: replace_range_def Let_def clamp_ok)
qed

lemma backspace_ok:
  assumes "editor_ok s"
  shows "\<exists>s'. backspace s = Some s' \<and> editor_ok s'"
proof -
  let ?b = "clamp_cursor_to_boundary_left s (is_cursor s)"
  have l: "leads (is_buffer s)" using assms by (rule editor_okD)
  from prev_ok [OF l, of ?b] put_range_ok [OF editor_ok_push [OF editor_ok_leave [OF assms]] valid_Nil, of "prev_char_boundary s ?b" ?b]
  show ?thesis using assms l by (auto simp: backspace_def Let_def clamp_ok prev_char_boundary_def)
qed

lemma delete_ok:
  assumes "editor_ok s"
  shows "\<exists>s'. delete s = Some s' \<and> editor_ok s'"
proof -
  let ?a = "clamp_cursor_to_boundary_left s (is_cursor s)"
  have l: "leads (is_buffer s)" using assms by (rule editor_okD)
  have i: "clamp_cursor_to_boundary_left s ?a = ?a" using l by (simp add: clamp_id clamp_ok)
  from next_ok [OF l, of ?a] obtain j where j: "next_char_boundary s ?a = Some j"
    "is_char_boundary (is_buffer s) j" "?a \<le> j" by (auto simp: i)
  from put_range_ok [OF editor_ok_push [OF editor_ok_leave [OF assms]] valid_Nil, of ?a j] j l
  show ?thesis using assms by (auto simp: delete_def Let_def clamp_ok)
qed

lemma submit_ok:
  assumes "editor_ok s"
  shows "editor_ok (snd (submit s)) \<and> (\<forall>v. fst (submit s) = Some v \<longrightarrow> valid_utf8 v)"
proof -
  have "valid_utf8 (trim_end_char carriage_return (trim_end_char newline (is_buffer s)))"
    using editor_okD(1) [OF assms]
    by (intro trim_end_char_valid) (simp_all add: carriage_return_def newline_def byte_val_def)
  with assms rollup_of_ok [OF assms] show ?thesis
    by (auto simp: submit_def Let_def editor_ok_def push_undo_def leave_history_def rollup_def text_ok_def)
qed

lemma recall_ok: "editor_ok s \<Longrightarrow> i < length (is_history s) \<Longrightarrow> \<exists>s'. recall i s = Some s' \<and> editor_ok s'"
  by (auto simp: recall_def editor_ok_def text_ok_def list_all_length)

lemma history_up_ok:
  assumes "editor_ok s"
  shows "\<exists>s'. history_up s = Some s' \<and> editor_ok s'"
proof (cases "is_history s = []")
  case False
  have "editor_ok (s\<lparr>is_history_stash := Some (rollup s)\<rparr>)"
    using assms rollup_of_ok [OF assms] by (simp add: editor_ok_def)
  moreover have "is_history_index s = Some i \<Longrightarrow> i < length (is_history s)" for i
    using assms by (simp add: editor_ok_def)
  ultimately show ?thesis
    using assms False by (auto simp: history_up_def intro!: recall_ok split: option.split)
qed (use assms in \<open>simp add: history_up_def\<close>)

lemma history_down_ok:
  assumes "editor_ok s"
  shows "\<exists>s'. history_down s = Some s' \<and> editor_ok s'"
proof (cases "is_history_index s")
  case (Some i)
  show ?thesis
  proof (cases "length (is_history s) \<le> i + 1")
    case True
    have base: "editor_ok (s\<lparr>is_history_index := None, is_history_stash := None\<rparr>)"
      using assms by (simp add: editor_ok_def)
    show ?thesis
    proof (cases "is_history_stash s")
      case None
      then have "editor_ok (s\<lparr>is_history_index := None, is_buffer := '''', is_cursor := 0\<rparr>)"
        using assms by (simp add: editor_ok_def text_ok_def is_char_boundary_def)
      with Some True None show ?thesis by (simp add: history_down_def)
    next
      case (Some r)
      then have "rollup_ok r" using assms by (simp add: editor_ok_def)
      with restore_ok [OF _ base] True Some \<open>is_history_index s = Some i\<close> show ?thesis
        by (simp add: history_down_def)
    qed
  qed (use assms Some in \<open>auto simp: history_down_def intro!: recall_ok\<close>)
qed (use assms in \<open>simp add: history_down_def\<close>)

text \<open>Undo and redo move one snapshot between their stacks.\<close>

lemma undo_cases:
  assumes "editor_ok s" and "is_undo_stack s = r # rest"
  shows "editor_ok (undo s) \<and> rollup (undo s) = r \<and> is_redo_stack (undo s) = rollup s # is_redo_stack s"
proof -
  let ?s = "s\<lparr>is_undo_stack := rest, is_redo_stack := rollup s # is_redo_stack s\<rparr>"
  have "rollup_ok r" "editor_ok ?s"
    using assms rollup_of_ok [OF assms(1)] by (simp_all add: editor_ok_def)
  from restore_ok [OF this] assms(2) show ?thesis by (simp add: undo_def restore_def Let_def)
qed

lemma redo_cases:
  assumes "editor_ok s" and "is_redo_stack s = r # rest"
  shows "editor_ok (redo s) \<and> rollup (redo s) = r"
proof -
  let ?s = "s\<lparr>is_redo_stack := rest, is_undo_stack := rollup s # is_undo_stack s\<rparr>"
  have "rollup_ok r" "editor_ok ?s"
    using assms rollup_of_ok [OF assms(1)] by (simp_all add: editor_ok_def)
  from restore_ok [OF this] assms(2) show ?thesis by (simp add: redo_def)
qed

lemma undo_ok: "editor_ok s \<Longrightarrow> editor_ok (undo s)"
  by (cases "is_undo_stack s") (auto simp: undo_cases, simp add: undo_def)

lemma redo_ok: "editor_ok s \<Longrightarrow> editor_ok (redo s)"
  by (cases "is_redo_stack s") (auto simp: redo_cases, simp add: redo_def)

section \<open>Steps of the editor\<close>

datatype editor_step =
    Input_step input_event
  | Visual_up_step nat
  | Visual_down_step nat
  | Visual_home_step nat
  | Visual_end_step nat
  | Replace_step nat nat string

fun editor_run :: "display_env \<Rightarrow> editor_step list \<Rightarrow> input_state \<Rightarrow> input_state option" where
  "editor_run D [] s = Some s"
| "editor_run D (Input_step e # es) s = Option.bind (apply_input e s) (\<lambda>r. editor_run D es (snd r))"
| "editor_run D (Visual_up_step w # es) s = Option.bind (move_cursor_visual_up D w s) (\<lambda>r. editor_run D es (snd r))"
| "editor_run D (Visual_down_step w # es) s = Option.bind (move_cursor_visual_down D w s) (\<lambda>r. editor_run D es (snd r))"
| "editor_run D (Visual_home_step w # es) s = editor_run D es (snd (move_cursor_visual_home D w s))"
| "editor_run D (Visual_end_step w # es) s = editor_run D es (snd (move_cursor_visual_end D w s))"
| "editor_run D (Replace_step a b v # es) s = Option.bind (replace_range a b v s) (editor_run D es)"

fun event_ok :: "input_event \<Rightarrow> bool" where
  "event_ok (Paste_event t) \<longleftrightarrow> valid_utf8 t"
| "event_ok (Key_event k) \<longleftrightarrow> (case ks_code k of Char_key c \<Rightarrow> valid_utf8 c | _ \<Rightarrow> True)"
| "event_ok Other_event \<longleftrightarrow> True"

fun step_ok :: "editor_step \<Rightarrow> bool" where
  "step_ok (Input_step e) \<longleftrightarrow> event_ok e"
| "step_ok (Replace_step a b v) \<longleftrightarrow> valid_utf8 v"
| "step_ok _ \<longleftrightarrow> True"

lemma valid_newline: "valid_utf8 [newline]"
  by (simp add: valid_utf8_def newline_def byte_val_def)

lemma quietly_ok: "\<exists>s'. r = Some s' \<and> editor_ok s' \<Longrightarrow> \<exists>a s'. quietly r = Some (a, s') \<and> editor_ok s'"
  by (auto simp: quietly_def)

lemma plain_key_ok:
  assumes "editor_ok s" and "case k of Char_key c \<Rightarrow> valid_utf8 c | _ \<Rightarrow> True"
  shows "\<exists>a s'. plain_key k shift s = Some (a, s') \<and> editor_ok s'"
proof (cases k)
  case Enter_key
  with assms submit_ok [OF assms(1)] show ?thesis
    by (cases shift; cases "submit s")
      (auto simp: valid_newline intro!: quietly_ok insert_str_ok split: option.split)
next
  case Left_key
  with assms prev_ok [OF editor_okD(2) [OF assms(1)]] show ?thesis
    by (auto simp: prev_char_boundary_def intro!: editor_ok_cursor)
next
  case Right_key
  from next_ok [OF editor_okD(2) [OF assms(1)]] obtain j where
    "next_char_boundary s (is_cursor s) = Some j" "is_char_boundary (is_buffer s) j" by blast
  with assms Right_key show ?thesis by (simp add: editor_ok_cursor)
next
  case Home_key
  with assms boundary_0 [OF editor_okD(2) [OF assms(1)]] show ?thesis by (auto intro!: editor_ok_cursor)
next
  case End_key
  with assms show ?thesis by (auto intro!: editor_ok_cursor)
qed (use assms in \<open>auto intro!: quietly_ok insert_str_ok backspace_ok delete_ok history_up_ok history_down_ok\<close>)

lemma apply_input_ok:
  assumes "editor_ok s" and "event_ok e"
  shows "\<exists>a s'. apply_input e s = Some (a, s') \<and> editor_ok s'"
proof (cases e)
  case (Paste_event t)
  with assms show ?thesis by (auto intro!: quietly_ok insert_str_ok)
next
  case (Key_event k)
  with assms plain_key_ok [OF assms(1), of "ks_code k" "ks_shift k"] show ?thesis
    by (auto simp: apply_key_def undo_ok redo_ok valid_newline intro!: quietly_ok delete_ok insert_str_ok)
qed (use assms in simp)

lemma visual_ok_of: "editor_ok s \<Longrightarrow> visual_ok (is_buffer s) (visual_layout D (is_buffer s) i w)"
  by (simp add: visual_layout_ok editor_okD)

lemma move_to_row_ok:
  assumes "editor_ok s" and "visual_ok (is_buffer s) ly"
  shows "\<exists>b s'. move_to_row D ly row s = Some (b, s') \<and> editor_ok s'"
  using byte_for_row_col_ok [OF assms(2) editor_okD(2) [OF assms(1)]] editor_ok_cursor [OF assms(1)]
  by (metis move_to_row_def option.simps(9))

lemma move_cursor_to_ok:
  "editor_ok s \<Longrightarrow> is_char_boundary (is_buffer s) i \<Longrightarrow> editor_ok (snd (move_cursor_to i s))"
  by (simp add: move_cursor_to_def editor_ok_cursor)

lemma visual_moves_ok:
  assumes "editor_ok s"
  shows "\<exists>b s'. move_cursor_visual_up D w s = Some (b, s') \<and> editor_ok s'"
    and "\<exists>b s'. move_cursor_visual_down D w s = Some (b, s') \<and> editor_ok s'"
    and "editor_ok (snd (move_cursor_visual_home D w s))"
    and "editor_ok (snd (move_cursor_visual_end D w s))"
  using assms row_bounds_ok [OF visual_ok_of [OF assms]]
  by (auto simp: move_cursor_visual_up_def move_cursor_visual_down_def move_cursor_visual_home_def
      move_cursor_visual_end_def Let_def visual_row_bounds_def span_ok_def
      intro!: move_to_row_ok visual_ok_of move_cursor_to_ok)

lemma editor_run_ok:
  "list_all step_ok es \<Longrightarrow> editor_ok s \<Longrightarrow> \<exists>s'. editor_run D es s = Some s' \<and> editor_ok s'"
proof (induction D es s rule: editor_run.induct)
  case (2 D e es s)
  with apply_input_ok [of s e] show ?case by auto
next
  case (3 D w es s)
  with visual_moves_ok(1) [of s D w] show ?case by auto
next
  case (4 D w es s)
  with visual_moves_ok(2) [of s D w] show ?case by auto
next
  case (5 D w es s)
  with visual_moves_ok(3) [of s D w] show ?case by simp
next
  case (6 D w es s)
  with visual_moves_ok(4) [of s D w] show ?case by simp
next
  case (7 D a b v es s)
  with replace_range_ok [of s v a b] show ?case by auto
qed simp

text \<open>
  C34 [editor_type_safe]. Whatever the keys, pastes, moves and completions, the editor never panics: from the empty
  editor every sequence of them ends in a state whose text, history and snapshots are well-formed, with
  the cursor on a character boundary.
\<close>

theorem editor_type_safe:
  assumes "list_all step_ok es"
  shows "\<exists>s. editor_run D es input_state_default = Some s \<and> editor_ok s"
  using editor_run_ok [OF assms, of input_state_default D]
  by (simp add: editor_ok_def input_state_default_def text_ok_def)

section \<open>The editor as a pair of character lists\<close>

type_synonym zipper = "string list \<times> string list"

definition zipper_of :: "input_state \<Rightarrow> zipper" where
  "zipper_of s = (utf8_chars (take (is_cursor s) (is_buffer s)), utf8_chars (drop (is_cursor s) (is_buffer s)))"

definition zip_insert :: "string \<Rightarrow> zipper \<Rightarrow> zipper" where
  "zip_insert v z =
     (if MAX_INPUT_BYTES < length (concat (fst z @ snd z)) + length v then z
      else (fst z @ utf8_chars v, snd z))"

definition zip_left :: "zipper \<Rightarrow> zipper" where
  "zip_left z = (if fst z = [] then z else (butlast (fst z), last (fst z) # snd z))"

definition zip_right :: "zipper \<Rightarrow> zipper" where
  "zip_right z = (case snd z of [] \<Rightarrow> z | c # cs \<Rightarrow> (fst z @ [c], cs))"

fun zip_key :: "key_code \<Rightarrow> bool \<Rightarrow> (zipper \<Rightarrow> zipper) option" where
  "zip_key (Char_key c) shift = Some (zip_insert c)"
| "zip_key Enter_key shift = (if shift then Some (zip_insert [newline]) else None)"
| "zip_key Backspace_key shift = Some (\<lambda>z. (butlast (fst z), snd z))"
| "zip_key Delete_key shift = Some (\<lambda>z. (fst z, tl (snd z)))"
| "zip_key Left_key shift = Some zip_left"
| "zip_key Right_key shift = Some zip_right"
| "zip_key Home_key shift = Some (\<lambda>z. ([], fst z @ snd z))"
| "zip_key End_key shift = Some (\<lambda>z. (fst z @ snd z, []))"
| "zip_key Up_key shift = None"
| "zip_key Down_key shift = None"
| "zip_key Esc_key shift = Some id"
| "zip_key Other_key shift = Some id"

text \<open>The edit of an event; none for the events that submit or bring back another text.\<close>

fun zip_event :: "input_event \<Rightarrow> (zipper \<Rightarrow> zipper) option" where
  "zip_event (Paste_event t) = Some (zip_insert t)"
| "zip_event (Key_event k) =
     (if ks_code k = Char_key ''d'' \<and> ks_control k then zip_key Delete_key False
      else if ks_code k = Char_key ''c'' \<and> ks_control k then Some id
      else if ks_code k = Char_key ''j'' \<and> ks_control k then Some (zip_insert [newline])
      else if ks_code k = Char_key ''z'' \<and> ks_control k then None
      else if ks_code k = Char_key ''y'' \<and> ks_control k then None
      else zip_key (ks_code k) (ks_shift k))"
| "zip_event Other_event = Some id"

lemma chars_split:
  "is_char_boundary s i \<Longrightarrow> utf8_chars s = utf8_chars (take i s) @ utf8_chars (drop i s)"
  using utf8_chars_lead [of "drop i s" "take i s"] by (simp add: boundary_leads)

lemma drop_cut:
  assumes "a \<le> b" shows "drop a s = take (b - a) (drop a s) @ drop b s"
proof -
  have "drop b s = drop (b - a) (drop a s)" using assms by simp
  then show ?thesis by (simp only: append_take_drop_id)
qed

text \<open>The characters between a boundary and the one before it: one.\<close>

lemma prev_char:
  assumes "is_char_boundary s i" and "0 < i" and "leads s"
  shows "\<exists>c. utf8_chars (take i s) = utf8_chars (take (prev_char_boundary_in s i) s) @ [c]
    \<and> utf8_chars (drop (prev_char_boundary_in s i) s) = c # utf8_chars (drop i s)"
proof -
  let ?p = "prev_char_boundary_in s i"
  have p: "is_char_boundary s ?p" using prev_ok [OF assms(3)] by simp
  have lt: "?p < i" using assms(2) by (simp add: prev_char_boundary_less)
  let ?m = "take (i - ?p) (drop ?p s)"
  have i: "i \<le> length s" using assms(1) by (rule boundary_le)
  have m: "drop ?p s = ?m @ drop i s" using lt by (intro drop_cut) simp
  have "take i s = take ?p s @ ?m" using lt i by (metis less_imp_le_nat le_add_diff_inverse take_add)
  moreover have lm: "leads ?m" using boundary_leads [OF p] m lt i by (cases ?m) (auto simp: leads_def)
  ultimately have t: "utf8_chars (take i s) = utf8_chars (take ?p s) @ utf8_chars ?m"
    by (simp add: utf8_chars_lead)
  have d: "utf8_chars (drop ?p s) = utf8_chars ?m @ utf8_chars (drop i s)"
    by (subst m) (rule utf8_chars_lead [OF boundary_leads [OF assms(1)]])
  have "\<exists>c. utf8_chars ?m = [c]"
  proof (cases "utf8_chars ?m")
    case Nil
    then have "?m = []" by (simp only: utf8_chars_eq_Nil)
    with lt i show ?thesis by simp
  next
    case (Cons c cs)
    note next_c = chars_from [where s = ?m and i = 0, simplified, OF Cons]
    show ?thesis
    proof (cases cs)
      case (Cons c' cs')
      from d \<open>utf8_chars ?m = c # cs\<close> have "utf8_chars (drop ?p s) = c # (cs @ utf8_chars (drop i s))" by simp
      from chars_from [OF this] have b: "is_char_boundary s (?p + length c)" by simp
      have "length c < length ?m"
      proof (rule ccontr)
        assume "\<not> length c < length ?m"
        then have "drop (length c) ?m = []" by (simp only: drop_eq_Nil not_less)
        with next_c Cons show False by simp
      qed
      then have "?p + length c \<le> i - 1" using i lt by simp
      from char_start_at_most_greatest [OF b this]
      have "?p + length c \<le> ?p"
        using assms(1,2) i by (simp add: prev_char_boundary_in_def char_start_at_most_id Let_def min_absorb1)
      with next_c show ?thesis by simp
    qed (use \<open>utf8_chars ?m = c # cs\<close> in simp)
  qed
  with t d show ?thesis by auto
qed

lemma zipper_put:
  assumes "put_range a b v c s = Some s'" and "c = a + length v" and "leads v" and "valid_utf8 (is_buffer s)"
  shows "zipper_of s' = (utf8_chars (take a (is_buffer s)) @ utf8_chars v, utf8_chars (drop b (is_buffer s)))"
proof -
  from assms(1) have ab: "a \<le> b" "is_char_boundary (is_buffer s) a" "is_char_boundary (is_buffer s) b"
    and s': "s' = s\<lparr>is_buffer := take a (is_buffer s) @ v @ drop b (is_buffer s), is_cursor := c\<rparr>"
    by (auto simp: put_range_def str_replace_def str_range_def split: if_splits)
  have "length (take a (is_buffer s)) = a" using boundary_le [OF ab(2)] by simp
  with assms(2,3) show ?thesis by (simp add: s' zipper_of_def utf8_chars_lead)
qed

lemma zipper_kept [simp]:
  "zipper_of (leave_history s) = zipper_of s" "zipper_of (push_undo s) = zipper_of s"
  by (simp_all add: zipper_of_def)

lemma zipper_insert:
  assumes "editor_ok s" and "valid_utf8 v" and "insert_str v s = Some s'"
  shows "zipper_of s' = zip_insert v (zipper_of s)"
proof -
  let ?c = "is_cursor s"
  note ok = editor_okD [OF assms(1)]
  have len: "length (concat (fst (zipper_of s) @ snd (zipper_of s))) = length (is_buffer s)"
    using ok(4) by (simp add: zipper_of_def concat_utf8_chars)
  show ?thesis
  proof (cases "MAX_INPUT_BYTES < length (is_buffer s) + length v")
    case True
    with assms(3) have "s' = leave_history s" by (simp add: insert_str_def Let_def)
    with True len show ?thesis by (simp add: zip_insert_def)
  next
    case False
    with assms(3) ok(3) have "put_range ?c ?c v (?c + length v) (push_undo (leave_history s)) = Some s'"
      by (simp add: insert_str_def clamp_id Let_def)
    from zipper_put [OF this refl valid_leads [OF assms(2)]] ok(1) False len
    show ?thesis by (simp add: zip_insert_def) (simp add: zipper_of_def)
  qed
qed

lemma zipper_backspace:
  assumes "editor_ok s" and "backspace s = Some s'"
  shows "zipper_of s' = (butlast (fst (zipper_of s)), snd (zipper_of s))"
proof (cases "is_cursor s = 0")
  case True
  with assms editor_okD(3) [OF assms(1)] show ?thesis by (auto simp: backspace_def clamp_id Let_def zipper_of_def)
next
  case False
  let ?p = "prev_char_boundary_in (is_buffer s) (is_cursor s)"
  note ok = editor_okD [OF assms(1)]
  from assms(2) False ok(3) have "put_range ?p (is_cursor s) '''' ?p (push_undo (leave_history s)) = Some s'"
    by (simp add: backspace_def clamp_id Let_def prev_char_boundary_def)
  from zipper_put [OF this] ok(1) prev_char [OF ok(3) _ ok(2)] False show ?thesis
    by (auto simp: zipper_of_def leads_def)
qed

lemma next_char:
  assumes "is_char_boundary (is_buffer s) i"
  shows "next_char_boundary s i = Some (case utf8_chars (drop i (is_buffer s)) of [] \<Rightarrow> i | c # cs \<Rightarrow> i + length c)"
proof (cases "length (is_buffer s) \<le> i")
  case True
  with assms boundary_le [OF assms] show ?thesis by (simp add: next_char_boundary_def clamp_id Let_def)
next
  case False
  then have "drop i (is_buffer s) \<noteq> []" by simp
  then obtain c cs where "utf8_chars (drop i (is_buffer s)) = c # cs"
    using utf8_chars_eq_Nil [of "drop i (is_buffer s)"] by (meson list.exhaust)
  with False assms boundary_le [OF assms] show ?thesis
    by (simp add: next_char_boundary_def clamp_id first_char_def Let_def)
qed

lemma zipper_delete:
  assumes "editor_ok s" and "delete s = Some s'"
  shows "zipper_of s' = (fst (zipper_of s), tl (snd (zipper_of s)))"
proof (cases "utf8_chars (drop (is_cursor s) (is_buffer s))")
  case Nil
  then have "length (is_buffer s) \<le> is_cursor s" by (metis utf8_chars_eq_Nil drop_eq_Nil)
  with assms editor_okD(3) [OF assms(1)] Nil show ?thesis by (auto simp: delete_def clamp_id Let_def zipper_of_def)
next
  case (Cons c cs)
  note ok = editor_okD [OF assms(1)]
  have "\<not> length (is_buffer s) \<le> is_cursor s" using Cons by auto
  with assms(2) ok(3) Cons
  have "put_range (is_cursor s) (is_cursor s + length c) '''' (is_cursor s) (push_undo (leave_history s)) = Some s'"
    by (simp add: delete_def clamp_id Let_def next_char)
  from zipper_put [OF this] ok(1) chars_from [OF Cons] Cons show ?thesis
    by (simp add: zipper_of_def leads_def)
qed

lemma zipper_moves:
  assumes "editor_ok s"
  shows "zipper_of (s\<lparr>is_cursor := prev_char_boundary s (is_cursor s)\<rparr>) = zip_left (zipper_of s)"
    and "next_char_boundary s (is_cursor s) = Some i \<Longrightarrow> zipper_of (s\<lparr>is_cursor := i\<rparr>) = zip_right (zipper_of s)"
    and "zipper_of (s\<lparr>is_cursor := 0\<rparr>) = ([], fst (zipper_of s) @ snd (zipper_of s))"
    and "zipper_of (s\<lparr>is_cursor := length (is_buffer s)\<rparr>) = (fst (zipper_of s) @ snd (zipper_of s), [])"
proof -
  note ok = editor_okD [OF assms]
  let ?b = "is_buffer s" and ?c = "is_cursor s"
  show "zipper_of (s\<lparr>is_cursor := prev_char_boundary s ?c\<rparr>) = zip_left (zipper_of s)"
  proof (cases "?c = 0")
    case True
    then show ?thesis by (simp add: zip_left_def zipper_of_def prev_char_boundary_def prev_char_boundary_in_def Let_def
        char_start_at_most.simps)
  next
    case False
    with prev_char [OF ok(3) _ ok(2)] show ?thesis by (auto simp: zip_left_def zipper_of_def prev_char_boundary_def)
  qed
  show "zipper_of (s\<lparr>is_cursor := i\<rparr>) = zip_right (zipper_of s)" if "next_char_boundary s ?c = Some i"
  proof (cases "utf8_chars (drop ?c ?b)")
    case Nil
    with that next_char [OF ok(3)] show ?thesis by (simp add: zip_right_def zipper_of_def)
  next
    case (Cons c cs)
    note f = chars_from [OF Cons]
    have "take (?c + length c) ?b = take ?c ?b @ c" using f by (simp add: take_add)
    moreover have "utf8_chars c = [c]"
      using utf8_chars_take [of 1 "drop ?c ?b"] Cons by simp
    moreover have "leads c" using boundary_leads [OF ok(3)] f by (cases "drop ?c ?b"; cases c) (auto simp: leads_def)
    ultimately have "utf8_chars (take (?c + length c) ?b) = utf8_chars (take ?c ?b) @ [c]"
      by (simp add: utf8_chars_lead)
    with that next_char [OF ok(3)] Cons f show ?thesis by (simp add: zip_right_def zipper_of_def)
  qed
  show "zipper_of (s\<lparr>is_cursor := 0\<rparr>) = ([], fst (zipper_of s) @ snd (zipper_of s))"
    "zipper_of (s\<lparr>is_cursor := length ?b\<rparr>) = (fst (zipper_of s) @ snd (zipper_of s), [])"
    using chars_split [OF ok(3)] by (simp_all add: zipper_of_def)
qed

lemma quietly_Some: "quietly r = Some (a, s') \<longleftrightarrow> a = None_action \<and> r = Some s'"
  by (auto simp: quietly_def)

lemma plain_key_refines:
  assumes "editor_ok s" and "zip_key k shift = Some f" and "plain_key k shift s = Some (a, s')"
    and "case k of Char_key c \<Rightarrow> valid_utf8 c | _ \<Rightarrow> True"
  shows "zipper_of s' = f (zipper_of s)"
  using assms
  by (cases k) (auto simp: quietly_Some zipper_insert valid_newline zipper_backspace zipper_delete zipper_moves
      split: if_splits)

text \<open>
  C35 [editor_refines_lists]. On well-formed states the editor is a pair of character lists: typing and pasting append
  to the characters before the cursor, as long as the text stays within its limit, and the deletions and
  moves of the keys are those of the lists.
\<close>

theorem editor_refines_lists:
  assumes "editor_ok s" and "event_ok e" and "zip_event e = Some f"
  shows "\<exists>a s'. apply_input e s = Some (a, s') \<and> editor_ok s' \<and> zipper_of s' = f (zipper_of s)"
proof -
  from apply_input_ok [OF assms(1,2)] obtain a s' where r: "apply_input e s = Some (a, s')" "editor_ok s'" by blast
  have "zipper_of s' = f (zipper_of s)"
  proof (cases e)
    case (Key_event k)
    define ctrl_d where "ctrl_d \<longleftrightarrow> ks_code k = Char_key ''d'' \<and> ks_control k"
    define ctrl_c where "ctrl_c \<longleftrightarrow> ks_code k = Char_key ''c'' \<and> ks_control k"
    define ctrl_j where "ctrl_j \<longleftrightarrow> ks_code k = Char_key ''j'' \<and> ks_control k"
    define ctrl_z where "ctrl_z \<longleftrightarrow> ks_code k = Char_key ''z'' \<and> ks_control k"
    define ctrl_y where "ctrl_y \<longleftrightarrow> ks_code k = Char_key ''y'' \<and> ks_control k"
    note ctrl = ctrl_d_def [symmetric] ctrl_c_def [symmetric] ctrl_j_def [symmetric] ctrl_z_def [symmetric]
      ctrl_y_def [symmetric]
    have k: "apply_key k s = Some (a, s')" using r Key_event by simp
    have f: "zip_event (Key_event k) = Some f" using assms(3) Key_event by simp
    note k = k [unfolded apply_key_def ctrl] and f = f [unfolded zip_event.simps ctrl]
    have c: "case ks_code k of Char_key c \<Rightarrow> valid_utf8 c | _ \<Rightarrow> True" using assms(2) Key_event by simp
    have empty: "zipper_of s = ([], [])" if "is_buffer s = ''''" using that by (simp add: zipper_of_def)
    show ?thesis
    proof (cases "ctrl_d \<or> ctrl_c \<or> ctrl_j \<or> ctrl_z \<or> ctrl_y")
      case True
      with k f assms(1) empty show ?thesis
        by (auto simp: quietly_Some zipper_insert valid_newline zipper_delete split: if_splits)
    next
      case False
      with k f have "plain_key (ks_code k) (ks_shift k) s = Some (a, s')" "zip_key (ks_code k) (ks_shift k) = Some f"
        by simp_all
      with assms(1) c show ?thesis by (intro plain_key_refines)
    qed
  qed (use assms r in \<open>auto simp: quietly_Some zipper_insert\<close>)
  with r show ?thesis by blast
qed

section \<open>Undo and redo\<close>

text \<open>What undo and redo work on.\<close>

definition core :: "input_state \<Rightarrow> editor_rollup \<times> editor_rollup list \<times> editor_rollup list" where
  "core s = (rollup s, is_undo_stack s, is_redo_stack s)"

lemma restore_stacks [simp]:
  "is_undo_stack (restore r s) = is_undo_stack s" "is_redo_stack (restore r s) = is_redo_stack s"
  by (simp_all add: restore_def Let_def)

lemma undo_core:
  assumes "editor_ok s" and "is_undo_stack s = r # rest"
  shows "core (undo s) = (r, rest, rollup s # is_redo_stack s)"
  using undo_cases [OF assms] assms(2) by (simp add: core_def) (simp add: undo_def)

lemma redo_core:
  assumes "editor_ok s" and "is_redo_stack s = r # rest"
  shows "core (redo s) = (r, rollup s # is_undo_stack s, rest)"
  using redo_cases [OF assms] assms(2) by (simp add: core_def) (simp add: redo_def)

lemma redo_undo:
  assumes "editor_ok s" and "is_undo_stack s \<noteq> []"
  shows "core (redo (undo s)) = core s"
proof -
  obtain r rest where u: "is_undo_stack s = r # rest" using assms(2) by (cases "is_undo_stack s") auto
  note c = undo_core [OF assms(1) u]
  with redo_core [OF undo_ok [OF assms(1)]] have
    "core (redo (undo s)) = (rollup s, r # rest, is_redo_stack s)"
    by (simp add: core_def)
  with u show ?thesis by (simp add: core_def)
qed

lemma redo_cong: "editor_ok s \<Longrightarrow> editor_ok t \<Longrightarrow> core s = core t \<Longrightarrow> core (redo s) = core (redo t)"
proof (cases "is_redo_stack s")
  case (Cons r rest)
  assume "editor_ok s" "editor_ok t" "core s = core t"
  with Cons redo_core [of s r rest] redo_core [of t r rest] show ?thesis by (simp add: core_def)
qed (simp add: core_def redo_def)

lemma redo_cong_many:
  "editor_ok s \<Longrightarrow> editor_ok t \<Longrightarrow> core s = core t \<Longrightarrow> core ((redo ^^ n) s) = core ((redo ^^ n) t)"
proof (induction n arbitrary: s t)
  case (Suc n)
  from Suc.IH [OF redo_ok [OF Suc.prems(1)] redo_ok [OF Suc.prems(2)] redo_cong [OF Suc.prems]]
  show ?case by (simp only: funpow_Suc_right o_apply)
qed simp

lemma undo_many_ok: "editor_ok s \<Longrightarrow> editor_ok ((undo ^^ n) s)"
  by (induction n) (auto simp: undo_ok)

lemma undo_many:
  assumes "editor_ok s" and "n \<le> length (is_undo_stack s)"
  shows "fst (core ((undo ^^ n) s)) = (rollup s # is_undo_stack s) ! n
    \<and> is_undo_stack ((undo ^^ n) s) = drop n (is_undo_stack s)"
  using assms(2)
proof (induction n)
  case (Suc n)
  let ?t = "(undo ^^ n) s"
  from Suc have t: "is_undo_stack ?t = drop n (is_undo_stack s)" by simp
  with Suc.prems have "is_undo_stack ?t = (is_undo_stack s ! n) # drop (Suc n) (is_undo_stack s)"
    by (simp add: Cons_nth_drop_Suc)
  from undo_core [OF undo_many_ok [OF assms(1)] this] show ?case by (simp add: core_def)
qed (simp add: core_def)

lemma redo_undo_many:
  assumes "editor_ok s" and "n \<le> length (is_undo_stack s)"
  shows "core ((redo ^^ n) ((undo ^^ n) s)) = core s"
  using assms(2)
proof (induction n)
  case (Suc n)
  let ?t = "(undo ^^ n) s"
  have t: "editor_ok ?t" using assms(1) by (rule undo_many_ok)
  have "is_undo_stack ?t \<noteq> []" using undo_many [OF assms(1), of n] Suc.prems by simp
  with t have "core (redo (undo ?t)) = core ?t" by (rule redo_undo)
  then have "core ((redo ^^ n) (redo (undo ?t))) = core ((redo ^^ n) ?t)"
    using t by (intro redo_cong_many redo_ok undo_ok)
  with Suc show ?case by (simp add: funpow_swap1)
qed simp

text \<open>A run of events each of which records a snapshot of the state before it.\<close>

fun recorded_run :: "input_event list \<Rightarrow> input_state \<Rightarrow> input_state option" where
  "recorded_run [] s = Some s"
| "recorded_run (e # es) s =
     (case apply_input e s of
        None \<Rightarrow> None
      | Some (a, s') \<Rightarrow>
          if is_undo_stack s' = rollup s # is_undo_stack s then recorded_run es s' else None)"

lemma recorded_run_stack:
  "recorded_run es s = Some s' \<Longrightarrow> list_all event_ok es \<Longrightarrow> editor_ok s \<Longrightarrow>
   editor_ok s' \<and> (\<exists>mid. rollup s' # is_undo_stack s' = mid @ rollup s # is_undo_stack s \<and> length mid = length es)"
proof (induction es arbitrary: s)
  case (Cons e es)
  then obtain a t where t: "apply_input e s = Some (a, t)" "is_undo_stack t = rollup s # is_undo_stack s"
    "recorded_run es t = Some s'" by (auto split: option.splits prod.splits if_splits)
  from apply_input_ok [OF Cons.prems(3)] Cons.prems(2) t(1) have "editor_ok t" by fastforce
  from Cons.IH [OF t(3) _ this] Cons.prems(2) obtain mid where
    "editor_ok s'" "rollup s' # is_undo_stack s' = mid @ rollup t # is_undo_stack t" "length mid = length es" by auto
  with t(2) show ?case by (intro conjI exI [where x = "mid @ [rollup t]"]) auto
qed auto

text \<open>
  After any number of edits, as many undos bring back the text and the cursor from before them,
  and as many redos after that the text and the cursor after them.
\<close>

theorem undo_redo_inverse:
  assumes "editor_ok s" and "list_all event_ok es" and "recorded_run es s = Some s'"
  shows "rollup ((undo ^^ length es) s') = rollup s
    \<and> rollup ((redo ^^ length es) ((undo ^^ length es) s')) = rollup s'"
proof -
  from recorded_run_stack [OF assms(3,2,1)] obtain mid where m: "editor_ok s'"
    "rollup s' # is_undo_stack s' = mid @ rollup s # is_undo_stack s" "length mid = length es" by blast
  have l: "length es \<le> length (is_undo_stack s')"
    using arg_cong [OF m(2), of length] m(3) by simp
  have "(rollup s' # is_undo_stack s') ! length es = rollup s"
    unfolding m(2) using m(3) by (simp add: nth_append)
  with undo_many [OF m(1) l] redo_undo_many [OF m(1) l] show ?thesis by (simp add: core_def)
qed

section \<open>Wrapping\<close>

text \<open>The text of a row, without carriage returns.\<close>

definition row_text :: "string \<Rightarrow> nat \<times> nat \<Rightarrow> string" where
  "row_text s sp =
     concat (filter (\<lambda>c. c \<noteq> [carriage_return]) (utf8_chars (take (snd sp - fst sp) (drop (fst sp) s))))"

lemma row_text_empty [simp]: "row_text s (i, i) = ''''"
  by (simp add: row_text_def)

lemma row_text_extend:
  assumes "is_char_boundary s i" and "a \<le> i" and "utf8_chars (drop i s) = c # cs"
  shows "row_text s (a, i + length c) = row_text s (a, i) @ (if c = [carriage_return] then '''' else c)"
proof -
  note f = chars_from [OF assms(3)]
  have d: "drop i s = drop (i - a) (drop a s)" using assms(2) by simp
  have "take (i + length c - a) (drop a s) = take (i - a) (drop a s) @ c"
  proof -
    have "i + length c - a = (i - a) + length c" using assms(2) by simp
    then show ?thesis using f d by (simp add: take_add)
  qed
  moreover have "leads c" using boundary_leads [OF assms(1)] f by (cases "drop i s"; cases c) (auto simp: leads_def)
  moreover have "utf8_chars c = [c]" using utf8_chars_take [of 1 "drop i s"] assms(3) by simp
  ultimately show ?thesis by (simp add: row_text_def utf8_chars_lead)
qed

definition wrap_rel :: "string \<Rightarrow> nat \<Rightarrow> layout_state \<Rightarrow> string list \<times> string \<times> nat \<Rightarrow> bool" where
  "wrap_rel s i st w \<longleftrightarrow> w = (map (row_text s) (ly_spans st), row_text s (ly_row_start st, i), ly_col st)"

lemma set_cursor_kept [simp]:
  "ly_spans (set_cursor p st) = ly_spans st" "ly_row_start (set_cursor p st) = ly_row_start st"
  "ly_col (set_cursor p st) = ly_col st"
  by (simp_all add: set_cursor_def)

lemma wrap_char_rel:
  assumes "is_char_boundary s i" and "utf8_chars (drop i s) = c # cs" and "layout_ok s i st" and "wrap_rel s i st w"
  shows "wrap_rel s (i + length c) (layout_char D width cursor (i, c) st) (wrap_char D width c w)"
proof -
  have "ly_row_start st \<le> i" using assms(3) by (simp add: layout_ok_def)
  note ext = row_text_extend [OF assms(1) this assms(2)] row_text_extend [OF assms(1) order_refl assms(2)]
  have "c = [newline] \<Longrightarrow> length c = 1" by simp
  with assms(4) ext show ?thesis
    by (auto simp: wrap_rel_def layout_char_def wrap_char_def close_row_def Let_def)
qed

lemma wrap_chars_rel:
  assumes "is_char_boundary s i" and "layout_ok s i st" and "wrap_rel s i st w"
  shows "wrap_rel s (length s) (layout_chars D width cursor (indices_from i (utf8_chars (drop i s))) st)
    (fold (wrap_char D width) (utf8_chars (drop i s)) w)"
  using assms
proof (induction "utf8_chars (drop i s)" arbitrary: i st w)
  case Nil
  then have "length s \<le> i" by (metis utf8_chars_eq_Nil drop_eq_Nil)
  with Nil.prems(1) have "i = length s" by (auto dest: boundary_le)
  with Nil show ?case by simp
next
  case (Cons c cs)
  note eq = chars_from [OF Cons.hyps(2) [symmetric]]
  let ?st = "layout_char D width cursor (i, c) st" and ?w = "wrap_char D width c w"
  have "layout_ok s (i + length c) ?st" using layout_char_ok Cons.prems eq by blast
  moreover have "wrap_rel s (i + length c) ?st ?w"
    using wrap_char_rel [OF Cons.prems(1) Cons.hyps(2) [symmetric] Cons.prems(2,3)] .
  ultimately have "wrap_rel s (length s) (layout_chars D width cursor (indices_from (i + length c) cs) ?st)
      (fold (wrap_char D width) cs ?w)"
    using eq Cons.hyps(1) [of "i + length c" ?st ?w] by simp
  then show ?case by (simp add: Cons.hyps(2) [symmetric])
qed

text \<open>
  The lines a text is drawn as are the texts of the rows the cursor is placed by, wherever the
  cursor is; after a full last row the layout has one more row, empty, for the cursor.
\<close>

theorem wrapping_agrees:
  assumes "valid_utf8 s"
  shows "\<exists>spans more. vl_spans (visual_layout D s cursor width) = spans @ more
    \<and> wrap_input_lines D s width = map (row_text s) spans \<and> more \<in> {[], [(length s, length s)]}"
proof -
  define c where "c = clamp_to_char_boundary_left s cursor"
  define wd where "wd = max width 1"
  define st where "st = layout_chars D (wd) c (char_indices s) layout_start"
  have l: "leads s" using assms by (rule valid_leads)
  have ok: "layout_ok s 0 layout_start"
    using l by (simp add: layout_ok_def layout_start_def boundary_0)
  have "wrap_rel s 0 layout_start ([], '''', 0)"
    by (simp add: wrap_rel_def layout_start_def)
  with wrap_chars_rel [OF boundary_0 [OF l] ok]
  have w: "wrap_rel s (length s) st (fold (wrap_char D (wd)) (utf8_chars s) ([], '''', 0))"
    by (simp add: st_def char_indices_def)
  have "layout_ok s (length s) st"
    using layout_chars_ok [OF boundary_0 [OF l] ok] by (simp add: st_def char_indices_def)
  then have m: "min (ly_row_start st) (length s) = ly_row_start st" by (simp add: layout_ok_def)
  have v: "visual_layout D s cursor width = layout_end wd c s st"
    by (simp only: visual_layout_def Let_def wd_def c_def st_def)
  let ?spans = "ly_spans st @ [(ly_row_start st, length s)]"
  have "vl_spans (visual_layout D s cursor width) = ?spans @ (if wd \<le> ly_col st then [(length s, length s)] else [])"
    by (simp add: v layout_end_def m Let_def)
  moreover have "wrap_input_lines D s width = map (row_text s) ?spans"
    using w unfolding wrap_input_lines_def wrap_rel_def wd_def by simp
  moreover have "(if wd \<le> ly_col st then [(length s, length s)] else []) \<in> {[], [(length s, length s)]}" by simp
  ultimately show ?thesis by blast
qed

text \<open>A range given in the wrong order is not swapped: the text is inserted at its smaller end.\<close>

lemma swapped_range_inserts: "b \<le> a \<Longrightarrow> replace_range a b v s = replace_range b b v s"
proof -
  assume ba: "b \<le> a"
  have "clamp_cursor_to_boundary_left s b \<le> b"
    unfolding clamp_cursor_to_boundary_left_def using char_start_at_most_le [of "is_buffer s" "min b (length (is_buffer s))"]
    by simp
  with ba show ?thesis by (simp add: replace_range_def Let_def min_absorb2 max_absorb1)
qed

section \<open>Examples\<close>

definition demo_display :: display_env where
  "demo_display = \<lparr>de_char_width = (\<lambda>c. 1), de_graphemes = utf8_chars, de_width = (\<lambda>g. 1)\<rparr>"

definition demo_key :: "key_code \<Rightarrow> input_event" where
  "demo_key k = Key_event \<lparr>ks_code = k, ks_control = False, ks_shift = False\<rparr>"

theorem editor_type_safe_witness:
  "\<exists>s. editor_run demo_display
      [Input_step (Paste_event ''ab''), Input_step (demo_key Left_key), Visual_up_step 1, Replace_step 2 1 ''c'',
       Input_step (demo_key Enter_key), Input_step (demo_key Up_key)] input_state_default = Some s \<and> editor_ok s"
proof -
  have "list_all step_ok
      [Input_step (Paste_event ''ab''), Input_step (demo_key Left_key), Visual_up_step 1, Replace_step 2 1 ''c'',
       Input_step (demo_key Enter_key), Input_step (demo_key Up_key)]"
    by code_simp
  from editor_type_safe [OF this, of demo_display] show ?thesis .
qed

lemma default_ok: "editor_ok input_state_default"
  by (simp add: editor_ok_def input_state_default_def text_ok_def)

theorem editor_refines_lists_witness:
  "\<exists>a s'. apply_input (Paste_event ''ab'') input_state_default = Some (a, s')
    \<and> zipper_of s' = ([''a'', ''b''], [])"
proof -
  have e: "event_ok (Paste_event ''ab'')" by code_simp
  have z: "zip_event (Paste_event ''ab'') = Some (zip_insert ''ab'')" by (rule zip_event.simps)
  have c: "utf8_chars ''ab'' = [''a'', ''b'']" by code_simp
  have "zip_insert ''ab'' (zipper_of input_state_default) = ([''a'', ''b''], [])"
    unfolding zip_insert_def c zipper_of_def input_state_default_def by (simp add: MAX_INPUT_BYTES_def)
  with editor_refines_lists [OF default_ok e z] show ?thesis by metis
qed

definition demo_editor :: input_state where
  "demo_editor = input_state_default\<lparr>is_buffer := ''ab'', is_cursor := 2\<rparr>"

theorem undo_redo_inverse_witness:
  "\<exists>s'. recorded_run [demo_key Backspace_key, demo_key Backspace_key] demo_editor = Some s'
    \<and> is_buffer s' = '''' \<and> rollup ((undo ^^ 2) s') = rollup demo_editor"
proof -
  have e: "list_all event_ok [demo_key Backspace_key, demo_key Backspace_key]" by (simp add: demo_key_def)
  have "valid_utf8 ''ab''" by code_simp
  then have ok: "editor_ok demo_editor"
    by (simp add: demo_editor_def editor_ok_def input_state_default_def text_ok_def is_char_boundary_def)
  have r: "map_option is_buffer (recorded_run [demo_key Backspace_key, demo_key Backspace_key] demo_editor) = Some ''''"
    by code_simp
  then obtain s' where s': "recorded_run [demo_key Backspace_key, demo_key Backspace_key] demo_editor = Some s'"
    "is_buffer s' = ''''"
    by auto
  from undo_redo_inverse [OF ok e s'(1)] s' show ?thesis by (simp add: numeral_2_eq_2)
qed

theorem wrapping_agrees_witness:
  "\<exists>spans more. vl_spans (visual_layout demo_display ''ab'' 0 1) = spans @ more
    \<and> wrap_input_lines demo_display ''ab'' 1 = map (row_text ''ab'') spans \<and> more \<in> {[], [(2, 2)]}"
proof -
  have "valid_utf8 ''ab''" by code_simp
  from wrapping_agrees [OF this, of demo_display 0 1] show ?thesis by (simp add: numeral_2_eq_2)
qed

end
