(* ===== verification/Tool_Definitions.thy ===== *)
theory Tool_Definitions
  imports Json
begin

text \<open>
  The tools the client offers to the model (\<open>src/api/client/tools.rs\<close>): one JSON object each, with its name,
  its description and the schema of its input.
\<close>

definition read_file_definition :: json where
  "read_file_definition =
     JObject [(''name'', JString ''read_file''),
              (''description'', JString (''Read file content from an explicit non-empty path. For repository ''
                      @ ''overviews, use list_files or codebase_search first. For large files, use ''
                      @ ''offset and limit to read specific line ranges instead of loading the entire ''
                      @ ''file.'')),
              (''input_schema'', JObject [(''type'', JString ''object''),
                       (''properties'', JObject [(''path'', JObject [(''type'', JString ''string''),
                                         (''description'', JString ''Non-empty file path relative to workspace root'')]),
                                (''offset'', JObject [(''type'', JString ''integer''),
                                         (''description'', JString ''Starting line number (1-based). Omit to start from line 1.'')]),
                                (''limit'', JObject [(''type'', JString ''integer''),
                                         (''description'', JString ''Maximum number of lines to return. Omit to read all remaining lines.'')])]),
                       (''required'', JArray [JString ''path''])])]"

definition write_file_definition :: json where
  "write_file_definition =
     JObject [(''name'', JString ''write_file''),
              (''description'', JString (''Write file content. Files that exceed the diff-preferred threshold trigger ''
                      @ ''a warning to prefer apply_patch or edit_file; files that exceed the max ''
                      @ ''line limit are rejected outright. Use apply_patch or edit_file for ''
                      @ ''large-file edits.'')),
              (''input_schema'', JObject [(''type'', JString ''object''),
                       (''properties'', JObject [(''path'', JObject [(''type'', JString ''string'')]),
                                (''content'', JObject [(''type'', JString ''string'')])]),
                       (''required'', JArray [JString ''path'', JString ''content''])])]"

definition apply_patch_definition :: json where
  "apply_patch_definition =
     JObject [(''name'', JString ''apply_patch''),
              (''description'', JString (''Apply the provided full-file content as a patch to an existing workspace ''
                      @ ''path. Keep the resulting diff minimal, preserve surrounding style, and keep ''
                      @ ''Rust edits rustfmt-consistent instead of introducing formatting-only churn.'')),
              (''input_schema'', JObject [(''type'', JString ''object''),
                       (''properties'', JObject [(''path'', JObject [(''type'', JString ''string'')]),
                                (''content'', JObject [(''type'', JString ''string'')])]),
                       (''required'', JArray [JString ''path'', JString ''content''])])]"

definition edit_file_definition :: json where
  "edit_file_definition =
     JObject [(''name'', JString ''edit_file''),
              (''description'', JString (''Edit existing file by replacing one exact, unique snippet (old_str -> ''
                      @ ''new_str). Keep edits tightly scoped, preserve surrounding style, and keep ''
                      @ ''Rust replacements rustfmt-consistent. Do not send entire-file replacements ''
                      @ ''via this tool.'')),
              (''input_schema'', JObject [(''type'', JString ''object''),
                       (''properties'', JObject [(''path'', JObject [(''type'', JString ''string'')]),
                                (''old_str'', JObject [(''type'', JString ''string'')]),
                                (''new_str'', JObject [(''type'', JString ''string'')])]),
                       (''required'', JArray [JString ''path'', JString ''old_str'', JString ''new_str''])])]"

definition rename_file_definition :: json where
  "rename_file_definition =
     JObject [(''name'', JString ''rename_file''),
              (''description'', JString ''Rename or move a file within the workspace.''),
              (''input_schema'', JObject [(''type'', JString ''object''),
                       (''properties'', JObject [(''old_path'', JObject [(''type'', JString ''string'')]),
                                (''new_path'', JObject [(''type'', JString ''string'')])]),
                       (''required'', JArray [JString ''old_path'', JString ''new_path''])])]"

definition list_files_definition :: json where
  "list_files_definition =
     JObject [(''name'', JString ''list_files''),
              (''description'', JString (''List files and directories under a path. Omit path to list the workspace ''
                      @ ''root; prefer this for repo overviews before targeted file reads.'')),
              (''input_schema'', JObject [(''type'', JString ''object''),
                       (''properties'', JObject [(''path'', JObject [(''type'', JString ''string'')]),
                                (''max_entries'', JObject [(''type'', JString ''integer''),
                                         (''minimum'', JNumber (PosInt 1)),
                                         (''maximum'', JNumber (PosInt 2000))])])])]"

definition list_directory_definition :: json where
  "list_directory_definition =
     JObject [(''name'', JString ''list_directory''),
              (''description'', JString (''Alias for list_files. List files and directories under a path, or omit path ''
                      @ ''to list the workspace root.'')),
              (''input_schema'', JObject [(''type'', JString ''object''),
                       (''properties'', JObject [(''path'', JObject [(''type'', JString ''string'')]),
                                (''max_entries'', JObject [(''type'', JString ''integer''),
                                         (''minimum'', JNumber (PosInt 1)),
                                         (''maximum'', JNumber (PosInt 2000))])])])]"

definition list_dir_definition :: json where
  "list_dir_definition =
     JObject [(''name'', JString ''list_dir''),
              (''description'', JString (''List immediate contents of a workspace directory. Not recursive. Respects ''
                      @ ''.gitignore.'')),
              (''input_schema'', JObject [(''type'', JString ''object''),
                       (''properties'', JObject [(''path'', JObject [(''type'', JString ''string'')]),
                                (''max_entries'', JObject [(''type'', JString ''integer''),
                                         (''minimum'', JNumber (PosInt 1)),
                                         (''maximum'', JNumber (PosInt 500))])])])]"

definition glob_files_definition :: json where
  "glob_files_definition =
     JObject [(''name'', JString ''glob_files''),
              (''description'', JString (''Return workspace-relative file paths matching a glob pattern. Use * for ''
                      @ ''single-segment wildcards and ** for cross-directory matches. Respects ''
                      @ ''.gitignore.'')),
              (''input_schema'', JObject [(''type'', JString ''object''),
                       (''properties'', JObject [(''pattern'', JObject [(''type'', JString ''string'')]),
                                (''max_results'', JObject [(''type'', JString ''integer''),
                                         (''minimum'', JNumber (PosInt 1)),
                                         (''maximum'', JNumber (PosInt 200))])]),
                       (''required'', JArray [JString ''pattern''])])]"

definition search_files_definition :: json where
  "search_files_definition =
     JObject [(''name'', JString ''search_files''),
              (''description'', JString (''Search text across files and return matching lines. Respects .gitignore.'')),
              (''input_schema'', JObject [(''type'', JString ''object''),
                       (''properties'', JObject [(''query'', JObject [(''type'', JString ''string'')]),
                                (''path'', JObject [(''type'', JString ''string'')]),
                                (''max_results'', JObject [(''type'', JString ''integer''),
                                         (''minimum'', JNumber (PosInt 1)),
                                         (''maximum'', JNumber (PosInt 200))])]),
                       (''required'', JArray [JString ''query''])])]"

definition search_definition :: json where
  "search_definition =
     JObject [(''name'', JString ''search''),
              (''description'', JString (''Alias for search_files. Search text across files and return matching lines.'')),
              (''input_schema'', JObject [(''type'', JString ''object''),
                       (''properties'', JObject [(''query'', JObject [(''type'', JString ''string'')]),
                                (''path'', JObject [(''type'', JString ''string'')]),
                                (''max_results'', JObject [(''type'', JString ''integer''),
                                         (''minimum'', JNumber (PosInt 1)),
                                         (''maximum'', JNumber (PosInt 200))])]),
                       (''required'', JArray [JString ''query''])])]"

definition git_status_definition :: json where
  "git_status_definition =
     JObject [(''name'', JString ''git_status''),
              (''description'', JString ''Show git repository status.''),
              (''input_schema'', JObject [(''type'', JString ''object''),
                       (''properties'', JObject [(''short'', JObject [(''type'', JString ''boolean'')]),
                                (''path'', JObject [(''type'', JString ''string'')])])])]"

definition git_diff_definition :: json where
  "git_diff_definition =
     JObject [(''name'', JString ''git_diff''),
              (''description'', JString ''Show git diff for working tree or staged changes.''),
              (''input_schema'', JObject [(''type'', JString ''object''),
                       (''properties'', JObject [(''cached'', JObject [(''type'', JString ''boolean'')]),
                                (''path'', JObject [(''type'', JString ''string'')])])])]"

definition git_log_definition :: json where
  "git_log_definition =
     JObject [(''name'', JString ''git_log''),
              (''description'', JString ''Show recent git commit history.''),
              (''input_schema'', JObject [(''type'', JString ''object''),
                       (''properties'', JObject [(''max_count'', JObject [(''type'', JString ''integer''),
                                         (''minimum'', JNumber (PosInt 1)),
                                         (''maximum'', JNumber (PosInt 100))])])])]"

definition git_show_definition :: json where
  "git_show_definition =
     JObject [(''name'', JString ''git_show''),
              (''description'', JString ''Show details for a git revision.''),
              (''input_schema'', JObject [(''type'', JString ''object''),
                       (''properties'', JObject [(''revision'', JObject [(''type'', JString ''string'')])]),
                       (''required'', JArray [JString ''revision''])])]"

definition git_add_definition :: json where
  "git_add_definition =
     JObject [(''name'', JString ''git_add''),
              (''description'', JString ''Stage a file or directory for commit.''),
              (''input_schema'', JObject [(''type'', JString ''object''),
                       (''properties'', JObject [(''path'', JObject [(''type'', JString ''string'')])]),
                       (''required'', JArray [JString ''path''])])]"

definition git_commit_definition :: json where
  "git_commit_definition =
     JObject [(''name'', JString ''git_commit''),
              (''description'', JString ''Create a commit with the provided message.''),
              (''input_schema'', JObject [(''type'', JString ''object''),
                       (''properties'', JObject [(''message'', JObject [(''type'', JString ''string'')])]),
                       (''required'', JArray [JString ''message''])])]"

definition search_content_definition :: json where
  "search_content_definition =
     JObject [(''name'', JString ''search_content''),
              (''description'', JString ''Search file contents for a text query within the workspace.''),
              (''input_schema'', JObject [(''type'', JString ''object''),
                       (''properties'', JObject [(''query'', JObject [(''type'', JString ''string'')]),
                                (''path_glob'', JObject [(''type'', JString ''string'')])]),
                       (''required'', JArray [JString ''query''])])]"

definition find_files_definition :: json where
  "find_files_definition =
     JObject [(''name'', JString ''find_files''),
              (''description'', JString ''Find files by name pattern within the workspace.''),
              (''input_schema'', JObject [(''type'', JString ''object''),
                       (''properties'', JObject [(''name_glob'', JObject [(''type'', JString ''string'')])]),
                       (''required'', JArray [JString ''name_glob''])])]"

definition codebase_search_definition :: json where
  "codebase_search_definition =
     JObject [(''name'', JString ''codebase_search''),
              (''description'', JString (''Search the codebase for functions, types, and code patterns by name, ''
                      @ ''phrase, or filtered query. Supports quoted phrases plus `+required`, ''
                      @ ''`-excluded`, `path:`, `kind:`, and `lang:` filters. Returns ranked code ''
                      @ ''snippets with file paths and line numbers, and when embeddings are ''
                      @ ''configured it also performs semantic reranking backed by a persisted index ''
                      @ ''under .vex/index/. Prefer this over read_file for exploring unfamiliar code ''
                      @ ''or producing a quick repo overview.'')),
              (''input_schema'', JObject [(''type'', JString ''object''),
                       (''properties'', JObject [(''query'', JObject [(''type'', JString ''string''),
                                         (''description'', JString (''Identifier, phrase, or filtered query using quoted phrases, +required, ''
                                                 @ ''-excluded, path:, kind:, and lang: filters''))]),
                                (''max_results'', JObject [(''type'', JString ''integer''),
                                         (''description'', JString ''Maximum results to return (default 10)''),
                                         (''minimum'', JNumber (PosInt 1)),
                                         (''maximum'', JNumber (PosInt 50))])]),
                       (''required'', JArray [JString ''query''])])]"

definition run_command_definition :: json where
  "run_command_definition =
     JObject [(''name'', JString ''run_command''),
              (''description'', JString (''Run a shell command in the workspace. IMPORTANT: every invocation requires ''
                      @ ''explicit user approval before the command calls. The user must confirm or ''
                      @ ''deny via the approval overlay; no command runs without an affirmative ''
                      @ ''response. Use this only when file and search tools cannot satisfy the need. ''
                      @ ''Aliases run_shell_command, bash, call_command, and call_bash all route to ''
                      @ ''this tool.'')),
              (''input_schema'', JObject [(''type'', JString ''object''),
                       (''properties'', JObject [(''command'', JObject [(''type'', JString ''string''),
                                         (''description'', JString ''Shell command to call'')])]),
                       (''required'', JArray [JString ''command''])])]"

definition tool_definitions :: "json list" where
  "tool_definitions =
     [read_file_definition,
      write_file_definition,
      apply_patch_definition,
      edit_file_definition,
      rename_file_definition,
      list_files_definition,
      list_directory_definition,
      list_dir_definition,
      glob_files_definition,
      search_files_definition,
      search_definition,
      git_status_definition,
      git_diff_definition,
      git_log_definition,
      git_show_definition,
      git_add_definition,
      git_commit_definition,
      search_content_definition,
      find_files_definition,
      codebase_search_definition,
      run_command_definition]"

lemmas tool_definition_defs =
  read_file_definition_def
  write_file_definition_def
  apply_patch_definition_def
  edit_file_definition_def
  rename_file_definition_def
  list_files_definition_def
  list_directory_definition_def
  list_dir_definition_def
  glob_files_definition_def
  search_files_definition_def
  search_definition_def
  git_status_definition_def
  git_diff_definition_def
  git_log_definition_def
  git_show_definition_def
  git_add_definition_def
  git_commit_definition_def
  search_content_definition_def
  find_files_definition_def
  codebase_search_definition_def
  run_command_definition_def

end
