(* ===== verification/Api_Client.thy ===== *)
theory Api_Client
  imports Turn_Loop Text_Util Prefix_Manager Tool_Definitions Json "HOL-Library.Word"
begin

text \<open>
  The client of the model's API (\<open>src/api/client/mod.rs\<close>, \<open>src/api/client/tools.rs\<close>, the endpoint tests of
  \<open>src/util.rs\<close>): which protocol an endpoint speaks, the URL, the headers and the payload of a request, and what
  an error of the transport or a status becomes. The URL parser, the checks of header values, the reason phrases
  of HTTP and the identifiers are parameters. Tracing, and the headers it adds, are dropped.
\<close>

section \<open>Hints to retry\<close>

text \<open>
  Hints to retry later (\<open>src/runtime/rate_limit.rs\<close>). Floating-point operations, the regular expression for a
  body, the parser of HTTP dates with the clock, and the decoder of a body are parameters.
\<close>

datatype retry_hint_source = Header_hint | Body_hint

record retry_hint =
  rh_delay_ms :: nat
  rh_source :: retry_hint_source

record rate_env =
  re_parse :: "string \<Rightarrow> f64 option"
  re_times_1000 :: "f64 \<Rightarrow> f64"
  re_is_nan :: "f64 \<Rightarrow> bool"
  re_is_negative :: "f64 \<Rightarrow> bool"
  re_is_infinite :: "f64 \<Rightarrow> bool"
  re_to_u64 :: "f64 \<Rightarrow> nat" \<comment> \<open>\<open>value.min(u64::MAX as f64) as u64\<close>\<close>
  re_body_captures :: "string \<Rightarrow> (string \<times> string) option"
  re_until_http_date :: "string \<Rightarrow> nat option" \<comment> \<open>milliseconds, zero for a date in the past\<close>
  re_decode_body :: "string \<Rightarrow> nat option option"

text \<open>\<open>^(\d+(?:\.\d+)?)$\<close>\<close>

definition is_decimal :: "string \<Rightarrow> bool" where
  "is_decimal s =
     (let fraction = dropWhile is_digit s
      in s \<noteq> '''' \<and> is_digit (hd s)
         \<and> (fraction = '''' \<or> (hd fraction = CHR ''.'' \<and> tl fraction \<noteq> '''' \<and> list_all is_digit (tl fraction))))"

definition clamp_delay_ms :: "rate_env \<Rightarrow> f64 \<Rightarrow> nat option" where
  "clamp_delay_ms R v =
     (if re_is_nan R v \<or> re_is_negative R v then None
      else if re_is_infinite R v then Some u64_max
      else Some (re_to_u64 R v))"

definition parse_retry_after_header :: "rate_env \<Rightarrow> string \<Rightarrow> retry_hint option" where
  "parse_retry_after_header R v =
     (let trimmed = trim v
      in map_option (\<lambda>ms. \<lparr>rh_delay_ms = ms, rh_source = Header_hint\<rparr>)
           (if is_decimal trimmed
            then Option.bind (re_parse R trimmed) (\<lambda>seconds. clamp_delay_ms R (re_times_1000 R seconds))
            else map_option (min u64_max) (re_until_http_date R trimmed)))"

definition parse_retry_from_body :: "rate_env \<Rightarrow> string \<Rightarrow> retry_hint option" where
  "parse_retry_from_body R body =
     (let trimmed = trim body
      in map_option (\<lambda>ms. \<lparr>rh_delay_ms = ms, rh_source = Body_hint\<rparr>)
           (case re_decode_body R trimmed of
              Some (Some delay_ms) \<Rightarrow> Some delay_ms
            | _ \<Rightarrow>
                Option.bind (re_body_captures R trimmed) (\<lambda>(amount, unit0).
                  Option.bind (re_parse R amount) (\<lambda>v.
                    (let unit = to_ascii_lowercase unit0
                     in if starts_with unit ''ms'' \<or> starts_with unit ''milli'' then clamp_delay_ms R v
                        else clamp_delay_ms R (re_times_1000 R v))))))"

definition looks_like_rate_limit :: "rate_env \<Rightarrow> string \<Rightarrow> bool" where
  "looks_like_rate_limit R body =
     (let lower = to_ascii_lowercase body
      in contains lower ''rate limit'' \<or> contains lower ''too many requests'' \<or> contains lower ''throttl''
         \<or> re_body_captures R body \<noteq> None)"

unbundle bit_operations_syntax

section \<open>Endpoints\<close>

datatype ip_addr = IpV4 "nat list" | IpV6 "16 word list"

record parsed_url =
  pu_scheme :: string
  pu_host :: "string option"

record url_lib =
  ul_parse :: "string \<Rightarrow> parsed_url option"
  ul_parse_ip :: "string \<Rightarrow> ip_addr option"
  ul_with_scheme :: "string \<Rightarrow> string \<Rightarrow> string option" \<comment> \<open>the text of the URL with another scheme\<close>
  ul_with_host :: "string \<Rightarrow> string \<Rightarrow> string option"

fun is_lan_address :: "ip_addr \<Rightarrow> bool" where
  "is_lan_address (IpV4 octets) =
     (case octets of
        a # b # rest \<Rightarrow>
          a = 10 \<or> (a = 172 \<and> 16 \<le> b \<and> b \<le> 31) \<or> (a = 192 \<and> b = 168) \<or> (a = 169 \<and> b = 254)
      | _ \<Rightarrow> False)"
| "is_lan_address (IpV6 segments) =
     (case segments of
        s # rest \<Rightarrow> s AND 0xFFC0 = 0xFE80 \<or> s AND 0xFE00 = 0xFC00
      | [] \<Rightarrow> False)"

definition is_local_host :: "url_lib \<Rightarrow> string \<Rightarrow> bool" where
  "is_local_host U host =
     (let normalized = to_ascii_lowercase (trim host)
      in normalized = ''localhost'' \<or> normalized = ''::1'' \<or> normalized = ''0.0.0.0''
         \<or> starts_with normalized ''127.''
         \<or> (case ul_parse_ip U normalized of Some ip \<Rightarrow> is_lan_address ip | None \<Rightarrow> False))"

definition is_local_endpoint_url :: "url_lib \<Rightarrow> string \<Rightarrow> bool" where
  "is_local_endpoint_url U url =
     (case ul_parse U (trim url) of
        None \<Rightarrow> False
      | Some parsed \<Rightarrow> (case pu_host parsed of Some host \<Rightarrow> is_local_host U host | None \<Rightarrow> False))"

definition preferred_plain_http_url_for_local_endpoint :: "url_lib \<Rightarrow> string \<Rightarrow> string option" where
  "preferred_plain_http_url_for_local_endpoint U url =
     (case ul_parse U (trim url) of
        None \<Rightarrow> None
      | Some parsed \<Rightarrow>
          if pu_scheme parsed \<noteq> ''https'' \<or> \<not> is_local_endpoint_url U url then None
          else ul_with_scheme U (trim url) ''http'')"

definition preferred_loopback_url_for_local_endpoint :: "url_lib \<Rightarrow> string \<Rightarrow> string option" where
  "preferred_loopback_url_for_local_endpoint U url =
     (case ul_parse U (trim url) of
        None \<Rightarrow> None
      | Some parsed \<Rightarrow>
          if pu_host parsed \<noteq> Some ''0.0.0.0'' \<or> \<not> is_local_endpoint_url U url then None
          else ul_with_host U (trim url) ''127.0.0.1'')"

section \<open>Protocols and URLs\<close>

datatype model_protocol = MessagesV1 | ChatCompat

definition configured_endpoint_protocol :: "string \<Rightarrow> model_protocol option" where
  "configured_endpoint_protocol api_url =
     (let normalized = to_ascii_lowercase (trim api_url)
      in if contains normalized ''/chat/completions'' then Some ChatCompat
         else if contains normalized ''/messages'' then Some MessagesV1
         else None)"

definition infer_api_protocol :: "string \<Rightarrow> model_protocol" where
  "infer_api_protocol api_url =
     (if contains (to_ascii_lowercase (trim api_url)) ''/chat/completions'' then ChatCompat else MessagesV1)"

abbreviation trim_end_slashes :: "string \<Rightarrow> string" where
  "trim_end_slashes \<equiv> trim_end_char (CHR ''/'')"

definition strip_end :: "string \<Rightarrow> string \<Rightarrow> string option" where
  "strip_end s tail = (if ends_with s tail then Some (take (length s - length tail) s) else None)"

definition adapt_to_chat_compat_url :: "string \<Rightarrow> string" where
  "adapt_to_chat_compat_url api_url =
     (let normalized = trim_end_slashes api_url
      in if ends_with normalized ''/chat/completions'' then normalized
         else case strip_end normalized ''/messages/v1'' of
                Some base \<Rightarrow> base @ ''/v1/chat/completions''
              | None \<Rightarrow>
         (case strip_end normalized ''/messages'' of
                Some base \<Rightarrow> base @ ''/chat/completions''
              | None \<Rightarrow>
                  if ends_with normalized ''/v1'' then normalized @ ''/chat/completions''
                  else normalized @ ''/v1/chat/completions''))"

definition adapt_to_messages_v1_url :: "string \<Rightarrow> string" where
  "adapt_to_messages_v1_url api_url =
     (let normalized = trim_end_slashes api_url
      in if ends_with normalized ''/messages'' then normalized
         else case strip_end normalized ''/messages/v1'' of
                Some base \<Rightarrow> base @ ''/v1/messages''
              | None \<Rightarrow>
         (case strip_end normalized ''/chat/completions'' of
                Some base \<Rightarrow> base @ ''/messages''
              | None \<Rightarrow>
                  if ends_with normalized ''/v1'' then normalized @ ''/messages''
                  else normalized @ ''/v1/messages''))"

text \<open>\<open>trim_end_matches\<close> with a text: every repetition at the end is removed.\<close>

function trim_end_matches :: "string \<Rightarrow> string \<Rightarrow> string" where
  "trim_end_matches pat s =
     (if pat \<noteq> '''' \<and> ends_with s pat then trim_end_matches pat (take (length s - length pat) s) else s)"
  by pat_completeness auto
termination
  by (relation "measure (\<lambda>(pat, s). length s)") (auto simp: ends_with_suffix dest!: suffix_length_le intro: diff_less)

declare trim_end_matches.simps [simp del]

definition local_endpoint_base_url :: "url_lib \<Rightarrow> string \<Rightarrow> string option" where
  "local_endpoint_base_url U api_url =
     (if is_local_endpoint_url U api_url
      then Some (trim_end_slashes (trim_end_matches ''/v1'' (trim_end_matches ''/messages''
                   (trim_end_matches ''/chat/completions'' (trim_end_slashes api_url)))))
      else None)"

section \<open>The client\<close>

record server_info =
  si_n_ctx :: nat
  si_n_batch :: nat
  si_model :: string
  si_native_protocol :: "model_protocol option"

definition server_info_default :: server_info where
  "server_info_default = \<lparr>si_n_ctx = 0, si_n_batch = 0, si_model = '''', si_native_protocol = None\<rparr>"

record api_client =
  ac_api_key :: "string option"
  ac_model :: string
  ac_supplementary_system_prompt :: "string option"
  ac_api_url :: string
  ac_explicit_protocol :: "model_protocol option"
  ac_model_protocol :: model_protocol
  ac_tool_policy :: tool_policy
  ac_model_headers :: "(string \<times> string) list"
  ac_temperature :: number
  ac_top_p :: number
  ac_max_tokens :: nat
  ac_stop_sequences :: "string list"
  ac_reasoning_budget :: nat
  ac_project_instructions :: "string option"
  ac_notes_content :: "string option"
  ac_extra_tool_definitions :: "json list"
  ac_server_info :: "server_info option"

definition context_window_tokens :: "api_client \<Rightarrow> nat" where
  "context_window_tokens c =
     (case ac_server_info c of
        Some i \<Rightarrow> if si_n_ctx i > 0 then si_n_ctx i else 8192
      | None \<Rightarrow> 8192)"

text \<open>The only mode of tool calls is the structured one.\<close>

definition supports_structured_tool_protocol :: "api_client \<Rightarrow> bool" where
  "supports_structured_tool_protocol c \<longleftrightarrow> ac_tool_policy c \<noteq> Chat_policy"

definition is_local_endpoint :: "url_lib \<Rightarrow> api_client \<Rightarrow> bool" where
  "is_local_endpoint U c = is_local_endpoint_url U (ac_api_url c)"

definition https_local_startup_warning :: "url_lib \<Rightarrow> api_client \<Rightarrow> string option" where
  "https_local_startup_warning U c =
     (if \<not> is_local_endpoint U c \<or> \<not> starts_with (to_ascii_lowercase (ac_api_url c)) ''https://'' then None
      else map_option (\<lambda>plain. ''[warning] local endpoint '' @ quoted (ac_api_url c)
              @ '' uses HTTPS; plain HTTP is required for local servers. Consider '' @ quoted plain @ ''.'')
             (preferred_plain_http_url_for_local_endpoint U (ac_api_url c)))"

definition client_set_supplementary_prompt :: "string option \<Rightarrow> api_client \<Rightarrow> api_client" where
  "client_set_supplementary_prompt prompt c =
     c\<lparr>ac_supplementary_system_prompt :=
         (case map_option trim prompt of Some p \<Rightarrow> if p = '''' then None else Some p | None \<Rightarrow> None)\<rparr>"

definition api_protocol :: "api_client \<Rightarrow> model_protocol" where
  "api_protocol c =
     (case ac_explicit_protocol c of
        Some p \<Rightarrow> p
      | None \<Rightarrow>
          (case configured_endpoint_protocol (ac_api_url c) of
             Some p \<Rightarrow> p
           | None \<Rightarrow>
               (case Option.bind (ac_server_info c) si_native_protocol of
                  Some p \<Rightarrow> p
                | None \<Rightarrow> ac_model_protocol c)))"

definition request_url :: "api_client \<Rightarrow> string" where
  "request_url c =
     (case api_protocol c of
        MessagesV1 \<Rightarrow> adapt_to_messages_v1_url (ac_api_url c)
      | ChatCompat \<Rightarrow> adapt_to_chat_compat_url (ac_api_url c))"

definition parse_u32 :: "string \<Rightarrow> nat option" where
  "parse_u32 s = (case parse_u64 s of Some n \<Rightarrow> if n < u32_modulus then Some n else None | None \<Rightarrow> None)"

definition resolve_max_tokens :: "(string \<Rightarrow> string option) \<Rightarrow> nat \<Rightarrow> nat \<Rightarrow> nat" where
  "resolve_max_tokens env default_max_tokens server_n_ctx =
     (let base = (case Option.bind (env ''VEX_MAX_TOKENS'') (\<lambda>v. parse_u32 (trim v)) of
                    Some v \<Rightarrow> v | None \<Rightarrow> default_max_tokens);
          ceiling = (if server_n_ctx > 0 then min (server_n_ctx * 3 div 4) (u32_modulus - 1) else 16384)
      in if ceiling < 128 then min base ceiling else clamp base 128 ceiling)"

section \<open>The system prompt\<close>

definition prompt_section :: "string \<Rightarrow> string \<Rightarrow> string option \<Rightarrow> string" where
  "prompt_section opening closing part =
     (case map_option trim part of
        Some t \<Rightarrow> if t = '''' then '''' else opening @ t @ closing
      | None \<Rightarrow> '''')"

definition effective_system_prompt :: "string \<Rightarrow> api_client \<Rightarrow> string" where
  "effective_system_prompt base c =
     base
     @ prompt_section ([newline, newline] @ ''---'' @ [newline] @ ''[coding prompt: start]'' @ [newline])
         ([newline] @ ''[coding prompt: end]'' @ [newline] @ ''---'') (ac_supplementary_system_prompt c)
     @ prompt_section ([newline, newline] @ ''---'' @ [newline] @ ''[project instructions: start]'' @ [newline])
         ([newline] @ ''[project instructions: end]'' @ [newline] @ ''---'') (ac_project_instructions c)
     @ prompt_section ([newline, newline] @ ''<memory>'' @ [newline]) ([newline] @ ''</memory>'') (ac_notes_content c)"

section \<open>Tools\<close>

definition tool_definitions_with_extra :: "json list \<Rightarrow> json list" where
  "tool_definitions_with_extra extra = tool_definitions @ extra"

definition tool_name :: "json \<Rightarrow> string option" where
  "tool_name t = Option.bind (json_get t ''name'') as_str"

definition tool_definitions_for_policy :: "tool_policy \<Rightarrow> json list \<Rightarrow> json list" where
  "tool_definitions_for_policy policy extra =
     (case policy of
        Full_policy \<Rightarrow> tool_definitions_with_extra extra
      | Plan_policy \<Rightarrow>
          filter (\<lambda>t. case tool_name t of Some n \<Rightarrow> is_readonly_tool n | None \<Rightarrow> False) tool_definitions @ extra
      | Chat_policy \<Rightarrow> [])"

definition json_get_or :: "json \<Rightarrow> string \<Rightarrow> json \<Rightarrow> json" where
  "json_get_or j k d = (case json_get j k of Some v \<Rightarrow> v | None \<Rightarrow> d)"

definition wrap_as_chat_compat_function :: "json \<Rightarrow> json" where
  "wrap_as_chat_compat_function tool =
     JObject
       [(''type'', JString ''function''),
        (''function'', JObject
           [(''name'', json_get_or tool ''name'' (JString '''')),
            (''description'', json_get_or tool ''description'' (JString '''')),
            (''parameters'', json_get_or tool ''input_schema'' (JObject [(''type'', JString ''object'')]))])]"

definition tool_definitions_chat_compat_for_policy :: "tool_policy \<Rightarrow> json list \<Rightarrow> json list" where
  "tool_definitions_chat_compat_for_policy policy extra =
     map wrap_as_chat_compat_function (tool_definitions_for_policy policy extra)"

definition builtin_tool_summaries :: "(string \<times> string) list" where
  "builtin_tool_summaries =
     sort_key fst
       (List.map_filter (\<lambda>t. case (tool_name t, Option.bind (json_get t ''description'') as_str) of
          (Some n, Some d) \<Rightarrow> Some (n, d) | _ \<Rightarrow> None) tool_definitions)"

definition shared_prefix_tools :: "api_client \<Rightarrow> tool_descriptor list" where
  "shared_prefix_tools c =
     (if \<not> supports_structured_tool_protocol c then []
      else List.map_filter (\<lambda>t. map_option (\<lambda>n.
             \<lparr>tld_name = n, tld_schema = json_get_or t ''input_schema'' (JObject [(''type'', JString ''object'')])\<rparr>)
             (tool_name t))
           (tool_definitions_for_policy (ac_tool_policy c) (ac_extra_tool_definitions c)))"

definition shared_prefix_fingerprint :: "prefix_env \<Rightarrow> string \<Rightarrow> api_client \<Rightarrow> string \<Rightarrow> string option" where
  "shared_prefix_fingerprint V base c workspace_context =
     (let ctx = trim workspace_context
      in if ctx = '''' then None
         else Some (fingerprint V \<lparr>spx_system_prompt = effective_system_prompt base c,
                                   spx_tools = shared_prefix_tools c, spx_workspace_context = ctx\<rparr>))"

section \<open>Messages\<close>

definition tool_input_to_json_string :: "serde \<Rightarrow> json \<Rightarrow> string" where
  "tool_input_to_json_string sj v =
     (case v of
        JString t \<Rightarrow> t
      | _ \<Rightarrow> (case to_string sj v of Some t \<Rightarrow> t | None \<Rightarrow> ''{}''))"

definition role_content :: "string \<Rightarrow> string \<Rightarrow> json" where
  "role_content role t = JObject [(''role'', JString role), (''content'', JString t)]"

fun text_of_block :: "content_block \<Rightarrow> string" where
  "text_of_block (TextContent t c) = t"
| "text_of_block _ = ''''"

fun block_call :: "serde \<Rightarrow> content_block \<Rightarrow> json option" where
  "block_call sj (ToolUseContent i n input m) =
     Some (JObject
       [(''id'', JString i), (''type'', JString ''function''),
        (''function'', JObject [(''name'', JString n), (''arguments'', JString (tool_input_to_json_string sj input))])])"
| "block_call sj _ = None"

definition assistant_value :: "serde \<Rightarrow> content_block list \<Rightarrow> json" where
  "assistant_value sj blocks =
     (let content = concat (map text_of_block blocks);
          calls = List.map_filter (block_call sj) blocks
      in JObject
           ([(''role'', JString ''assistant''), (''content'', if content = '''' then JNull else JString content)]
            @ (if calls = [] then [] else [(''tool_calls'', JArray calls)])))"

fun other_block :: "string \<Rightarrow> content_block \<Rightarrow> json option" where
  "other_block role (ToolResultContent i content e) =
     Some (JObject [(''role'', JString ''tool''), (''tool_call_id'', JString i), (''content'', JString content)])"
| "other_block role (TextContent t c) = Some (role_content role t)"
| "other_block role _ = None"

definition append_chat_compat_message :: "serde \<Rightarrow> api_message \<Rightarrow> json list" where
  "append_chat_compat_message sj msg =
     (case am_content msg of
        TextMessage t \<Rightarrow> [role_content (am_role msg) t]
      | Blocks blocks \<Rightarrow>
          if am_role msg = ''assistant'' then [assistant_value sj blocks]
          else (let values = List.map_filter (other_block (am_role msg)) blocks
                in if values = [] then [role_content (am_role msg) ''''] else values))"

definition chat_compat_messages :: "serde \<Rightarrow> api_message list \<Rightarrow> string \<Rightarrow> json list" where
  "chat_compat_messages sj messages system_prompt =
     role_content ''system'' system_prompt # concat (map (append_chat_compat_message sj) messages)"

text \<open>The serialised form of a message (\<open>derive(Serialize)\<close> with the attributes of \<open>ApiMessage\<close>).\<close>

definition opt_field :: "string \<Rightarrow> ('a \<Rightarrow> json) \<Rightarrow> 'a option \<Rightarrow> (string \<times> json) list" where
  "opt_field k f v = (case v of None \<Rightarrow> [] | Some x \<Rightarrow> [(k, f x)])"

definition metadata_value :: "tool_use_metadata \<Rightarrow> json" where
  "metadata_value m =
     JObject (opt_field ''call_type'' JString (tu_call_type m)
              @ opt_field ''choice_index'' (\<lambda>n. JNumber (PosInt n)) (tu_choice_index m))"

fun block_value :: "content_block \<Rightarrow> json" where
  "block_value (TextContent t citations) =
     JObject ([(''type'', JString ''text''), (''text'', JString t)] @ opt_field ''citations'' JArray citations)"
| "block_value (ToolUseContent i n input m) =
     JObject ([(''type'', JString ''tool_use''), (''id'', JString i), (''name'', JString n), (''input'', input)]
              @ opt_field ''metadata'' metadata_value m)"
| "block_value (ToolResultContent i content e) =
     JObject [(''type'', JString ''tool_result''), (''tool_use_id'', JString i), (''content'', JString content),
              (''is_error'', JBool e)]"
| "block_value (ThinkingContent t signature) =
     JObject [(''type'', JString ''thinking''), (''thinking'', JString t), (''signature'', JString signature)]"
| "block_value (ThinkingDataContent data) = JObject [(''type'', JString ''thinking_data''), (''data'', JString data)]"
| "block_value (ServerToolUseContent i n input) =
     JObject [(''type'', JString ''server_tool_use''), (''id'', JString i), (''name'', JString n), (''input'', input)]"
| "block_value (WebSearchToolResultContent i content) =
     JObject [(''type'', JString ''web_search_tool_result''), (''tool_use_id'', JString i), (''content'', content)]"

definition message_value :: "api_message \<Rightarrow> json" where
  "message_value m =
     JObject
       ([(''role'', JString (am_role m)),
         (''content'', case am_content m of TextMessage t \<Rightarrow> JString t | Blocks bs \<Rightarrow> JArray (map block_value bs))]
        @ opt_field ''cache_hint'' JString (am_cache_hint m))"

section \<open>The request\<close>

definition apply_local_chat_compat_stream_flags :: "(string \<times> json) list \<Rightarrow> (string \<times> json) list" where
  "apply_local_chat_compat_stream_flags p =
     AList.update ''cache_prompt'' (JBool True)
       (AList.update ''timings_per_token'' (JBool True) (AList.update ''return_progress'' (JBool True) p))"

definition json_strings :: "string list \<Rightarrow> json" where
  "json_strings ss = JArray (map JString ss)"

definition messages_v1_payload ::
  "api_client \<Rightarrow> nat \<Rightarrow> string \<Rightarrow> api_message list \<Rightarrow> (string \<times> json) list" where
  "messages_v1_payload c max_tokens system_prompt messages =
     (let p0 = [(''model'', JString (ac_model c)), (''max_tokens'', JNumber (PosInt max_tokens)),
                (''temperature'', JNumber (ac_temperature c)), (''top_p'', JNumber (ac_top_p c)),
                (''stream'', JBool True), (''system'', JString system_prompt),
                (''messages'', JArray (map message_value messages))];
          p1 = (if supports_structured_tool_protocol c
                then AList.update ''tools''
                       (JArray (tool_definitions_for_policy (ac_tool_policy c) (ac_extra_tool_definitions c)))
                       (AList.update ''tool_choice'' (JObject [(''type'', JString ''auto'')]) p0)
                else p0)
      in if ac_stop_sequences c = [] then p1
         else AList.update ''stop_sequences'' (json_strings (ac_stop_sequences c)) p1)"

definition chat_compat_request_payload ::
  "url_lib \<Rightarrow> serde \<Rightarrow> api_client \<Rightarrow> nat \<Rightarrow> string \<Rightarrow> api_message list \<Rightarrow> (string \<times> json) list" where
  "chat_compat_request_payload U sj c max_tokens system_prompt messages =
     (let local = is_local_endpoint U c;
          p0 = [(''model'', JString (ac_model c)), (''max_tokens'', JNumber (PosInt max_tokens)),
                (''temperature'', JNumber (ac_temperature c)), (''top_p'', JNumber (ac_top_p c)),
                (''stream'', JBool True),
                (''messages'', JArray (chat_compat_messages sj messages system_prompt))];
          p1 = (if local then apply_local_chat_compat_stream_flags p0 else p0);
          p2 = (if supports_structured_tool_protocol c
                then AList.update ''tools''
                       (JArray (tool_definitions_chat_compat_for_policy (ac_tool_policy c) (ac_extra_tool_definitions c)))
                       (let p = AList.update ''tool_choice'' (JString ''auto'') p1
                        in if local then AList.update ''parallel_tool_calls'' (JBool True) p else p)
                else p1);
          p3 = (if ac_stop_sequences c = [] then p2
                else AList.update ''stop'' (json_strings (ac_stop_sequences c)) p2)
      in if ac_reasoning_budget c > 0
         then AList.update ''reasoning_effort'' (JNumber (PosInt (ac_reasoning_budget c))) p3 else p3)"

text \<open>Headers under their lower-case names; to insert one replaces the values it had.\<close>

type_synonym headers = "(string \<times> string) list"

definition reserved_headers :: "string list" where
  "reserved_headers =
     [''authorization'', ''x-api-key'', ''content-type'', ''content-length'', ''host'', ''transfer-encoding'',
      ''connection'', ''keep-alive'', ''te'', ''trailer'', ''upgrade'', ''proxy-authenticate'',
      ''proxy-authorization'']"

definition is_reserved_header :: "string \<Rightarrow> bool" where
  "is_reserved_header name \<longleftrightarrow> to_ascii_lowercase name \<in> set reserved_headers"

definition base_headers :: headers where
  "base_headers =
     [(''content-type'', ''application/json''), (''accept'', ''text/event-stream''),
      (''accept-encoding'', ''identity''), (''cache-control'', ''no-store'')]"

definition add_model_header :: "string \<times> string \<Rightarrow> headers \<Rightarrow> headers" where
  "add_model_header h hs = (if is_reserved_header (fst h) then hs else AList.update (fst h) (snd h) hs)"

definition auth_header :: "(string \<Rightarrow> bool) \<Rightarrow> api_client \<Rightarrow> headers \<Rightarrow> string + headers" where
  "auth_header valid c hs =
     (case ac_api_key c of
        None \<Rightarrow> Inr hs
      | Some key \<Rightarrow>
          (case api_protocol c of
             MessagesV1 \<Rightarrow>
               if valid key then Inr (AList.update ''x-api-key'' key hs) else Inl ''invalid x-api-key header''
           | ChatCompat \<Rightarrow>
               if valid (''Bearer '' @ key) then Inr (AList.update ''authorization'' (''Bearer '' @ key) hs)
               else Inl ''invalid authorization header''))"

definition request_headers :: "(string \<Rightarrow> bool) \<Rightarrow> string \<Rightarrow> api_client \<Rightarrow> string + headers" where
  "request_headers valid rid c =
     (case auth_header valid c (fold add_model_header (ac_model_headers c) base_headers) of
        Inl e \<Rightarrow> Inl e
      | Inr hs \<Rightarrow>
          if valid rid then Inr (AList.update ''x-request-id'' rid hs)
          else Inl ''invalid x-request-id header'')"

record model_request =
  mr_url :: string
  mr_payload :: json
  mr_body :: string
  mr_headers :: headers
  mr_protocol :: model_protocol

text \<open>What \<open>create_stream\<close> hands to the stream: the request, or the error it returns.\<close>

definition build_request ::
  "url_lib \<Rightarrow> serde \<Rightarrow> (string \<Rightarrow> bool) \<Rightarrow> (string \<Rightarrow> string option) \<Rightarrow> string \<Rightarrow> string \<Rightarrow> api_client
   \<Rightarrow> api_message list \<Rightarrow> string + model_request" where
  "build_request U sj valid env base_prompt rid c messages =
     (let n_ctx = (case ac_server_info c of Some si \<Rightarrow> si_n_ctx si | None \<Rightarrow> 0);
          max_tokens = resolve_max_tokens env (ac_max_tokens c) n_ctx;
          prompt = effective_system_prompt base_prompt c;
          payload = JObject (case api_protocol c of
                               MessagesV1 \<Rightarrow> messages_v1_payload c max_tokens prompt messages
                             | ChatCompat \<Rightarrow> chat_compat_request_payload U sj c max_tokens prompt messages)
      in case request_headers valid rid c of
           Inl e \<Rightarrow> Inl e
         | Inr hs \<Rightarrow>
             (case to_string sj payload of
                None \<Rightarrow> Inl ''failed to serialize API request payload''
              | Some body \<Rightarrow>
                  Inr \<lparr>mr_url = request_url c, mr_payload = payload, mr_body = body, mr_headers = hs,
                       mr_protocol = api_protocol c\<rparr>))"

section \<open>Errors\<close>

record http_error =
  he_connect :: bool
  he_timeout :: bool
  he_status :: "nat option"
  he_message :: string

definition protocol_debug :: "model_protocol \<Rightarrow> string" where
  "protocol_debug p = (case p of MessagesV1 \<Rightarrow> ''MessagesV1'' | ChatCompat \<Rightarrow> ''ChatCompat'')"

definition local_plain_http_hint :: "url_lib \<Rightarrow> string \<Rightarrow> string" where
  "local_plain_http_hint U url =
     (case preferred_plain_http_url_for_local_endpoint U url of
        Some u \<Rightarrow> '' Try '' @ quoted u @ ''.''
      | None \<Rightarrow> '''')"

definition api_request_timeout_error :: "url_lib \<Rightarrow> string \<Rightarrow> string \<Rightarrow> string" where
  "api_request_timeout_error U url detail =
     ''API request to '' @ quoted url @ '' timed out: '' @ detail
     @ ''. The endpoint accepted the connection but did not answer before the configured timeout. ''
     @ ''For transport diagnostics, rerun with --display-internal-telemetry or set RUST_LOG=debug.''
     @ local_plain_http_hint U url"

definition protocol_check_hint :: "string \<Rightarrow> string" where
  "protocol_check_hint url =
     [newline] @ ''  detected protocol: '' @ protocol_debug (infer_api_protocol url)
     @ ''. Check: model name, protocol format (MessagesV1 vs ChatCompat), and whether the server supports streaming.''"

definition map_api_request_error :: "url_lib \<Rightarrow> (nat \<Rightarrow> string) \<Rightarrow> http_error \<Rightarrow> string \<Rightarrow> string" where
  "map_api_request_error U status_text e url =
     (let local = is_local_endpoint_url U url; msg = he_message e
      in if he_connect e \<and> local then
           ''cannot reach local API endpoint '' @ quoted url @ '': '' @ msg
           @ ''. Start your local server or update VEX_MODEL_URL. The CLI retries short-lived local startup ''
           @ ''connection failures automatically before failing. For transport diagnostics, rerun with ''
           @ ''--display-internal-telemetry or set RUST_LOG=debug.'' @ local_plain_http_hint U url
         else if he_connect e then ''cannot reach API endpoint '' @ quoted url @ '': '' @ msg
         else if he_timeout e then api_request_timeout_error U url msg
         else case he_status e of
                Some status \<Rightarrow>
                  if status = 400 \<and> local then
                    ''API endpoint '' @ quoted url @ '' returned HTTP 400 Bad Request: '' @ msg
                    @ protocol_check_hint url @ local_plain_http_hint U url
                  else ''API endpoint '' @ quoted url @ '' returned HTTP '' @ status_text status @ '': '' @ msg
              | None \<Rightarrow> ''API request to '' @ quoted url @ '' failed: '' @ msg)"

definition take_chars :: "nat \<Rightarrow> string \<Rightarrow> string" where
  "take_chars n s = concat (take n (utf8_chars s))"

definition retry_note :: "(nat \<Rightarrow> string) \<Rightarrow> rate_env \<Rightarrow> string option \<Rightarrow> string \<Rightarrow> string" where
  "retry_note seconds R retry_after body =
     (case (case Option.bind retry_after (parse_retry_after_header R) of
              Some h \<Rightarrow> Some h | None \<Rightarrow> parse_retry_from_body R body) of
        Some hint \<Rightarrow> '' Retry suggested after '' @ seconds (rh_delay_ms hint) @ ''s.''
      | None \<Rightarrow> '''')"

definition overflow_hint :: "bool \<Rightarrow> string" where
  "overflow_hint local =
     [newline] @
     (if local
      then ''  The conversation has exceeded the server's context window. ''
           @ ''Increase the server context size (e.g. --ctx-size 8192) or use /compact to reset.''
      else ''  The conversation has exceeded the endpoint's context window. ''
           @ ''Use /compact to reset the conversation.'')"

definition server_message :: "string \<Rightarrow> string" where
  "server_message body = [newline] @ ''  Server message: '' @ take_chars 300 body"

text \<open>\<open>reason\<close> is the phrase of a status, \<open>seconds\<close> prints milliseconds as seconds with one decimal.\<close>

definition map_api_status_error ::
  "url_lib \<Rightarrow> rate_env \<Rightarrow> (nat \<Rightarrow> string) \<Rightarrow> (nat \<Rightarrow> string option) \<Rightarrow> nat \<Rightarrow> string \<Rightarrow> string \<Rightarrow> string option \<Rightarrow> string" where
  "map_api_status_error U R seconds reason status body url retry_after =
     (let local = is_local_endpoint_url U url;
          start = ''API endpoint '' @ quoted url @ '' returned HTTP ''
      in if status = 429 \<or> (400 \<le> status \<and> status < 500 \<and> looks_like_rate_limit R body) then
           start @ nat_dec status @ '' (rate limited).'' @ retry_note seconds R retry_after body
           @ server_message body
         else if is_context_overflow body then
           start @ nat_dec status @ '': '' @ (case reason status of Some r \<Rightarrow> r | None \<Rightarrow> '''')
           @ overflow_hint local @ server_message body
         else if status = 400 \<and> local then
           start @ ''400 Bad Request.'' @ protocol_check_hint url @ local_plain_http_hint U url
           @ server_message body
         else
           start @ nat_dec status @ '': ''
           @ (if body = '''' then (case reason status of Some r \<Rightarrow> r | None \<Rightarrow> ''unknown error'')
              else take_chars 500 body))"

section \<open>Discovery\<close>

text \<open>What the client reads of the local server: its \<open>Server\<close> header, \<open>/props\<close> and \<open>/v1/models\<close>.\<close>

record gen_settings =
  gs_n_ctx :: nat
  gs_n_batch :: nat
  gs_model :: string

record local_server_props =
  lp_generation :: "gen_settings option"
  lp_chat_template :: "string option"
  lp_template_caps :: "(bool \<times> bool) option" \<comment> \<open>\<open>supports_tools\<close>, \<open>supports_tool_calls\<close>\<close>

definition server_header_matches :: "string option \<Rightarrow> bool" where
  "server_header_matches server =
     (case server of Some v \<Rightarrow> contains (to_ascii_lowercase v) ''llama.cpp'' | None \<Rightarrow> False)"

definition infer_native_protocol_from_props :: "string option \<Rightarrow> local_server_props \<Rightarrow> model_protocol option" where
  "infer_native_protocol_from_props server props =
     (if server_header_matches server then Some ChatCompat
      else if (case lp_chat_template props of Some t \<Rightarrow> trim t \<noteq> '''' | None \<Rightarrow> False) then Some ChatCompat
      else (case lp_template_caps props of
              Some (tools, calls) \<Rightarrow> if tools \<or> calls then Some ChatCompat else None
            | None \<Rightarrow> None))"

definition first_model :: "json \<Rightarrow> json option" where
  "first_model body =
     (case json_get body ''data'' of Some (JArray (m # ms)) \<Rightarrow> Some m | _ \<Rightarrow> None)"

definition infer_native_protocol_from_models :: "string option \<Rightarrow> json \<Rightarrow> model_protocol option" where
  "infer_native_protocol_from_models server body =
     (if server_header_matches server then Some ChatCompat
      else (case Option.bind (Option.bind (first_model body) (\<lambda>m. json_get m ''owned_by'')) as_str of
              Some owner \<Rightarrow> if to_ascii_lowercase owner = ''llamacpp'' then Some ChatCompat else None
            | None \<Rightarrow> None))"

definition info_of_props :: "string option \<Rightarrow> local_server_props \<Rightarrow> server_info option" where
  "info_of_props server props =
     (let native = infer_native_protocol_from_props server props
      in case lp_generation props of
           Some gs \<Rightarrow>
             if gs_n_ctx gs > 0 \<or> gs_model gs \<noteq> '''' \<or> native \<noteq> None
             then Some \<lparr>si_n_ctx = gs_n_ctx gs, si_n_batch = gs_n_batch gs, si_model = gs_model gs,
                        si_native_protocol = native\<rparr>
             else None
         | None \<Rightarrow>
             if native \<noteq> None then Some (server_info_default\<lparr>si_native_protocol := native\<rparr>) else None)"

definition info_of_models :: "string option \<Rightarrow> json \<Rightarrow> server_info option" where
  "info_of_models server body =
     (let model = (case Option.bind (Option.bind (first_model body) (\<lambda>m. json_get m ''id'')) as_str of
                     Some n \<Rightarrow> n | None \<Rightarrow> '''');
          native = infer_native_protocol_from_models server body
      in if model \<noteq> '''' \<or> native \<noteq> None
         then Some \<lparr>si_n_ctx = 0, si_n_batch = 0, si_model = model, si_native_protocol = native\<rparr>
         else None)"

text \<open>The answers of a server: \<open>None\<close> when a request fails, has another status or cannot be decoded. The second
  is asked only when the first gave nothing.\<close>

record 'w server_probes =
  sv_props :: "string \<Rightarrow> 'w \<Rightarrow> (string option \<times> local_server_props) option \<times> 'w"
  sv_models :: "string \<Rightarrow> 'w \<Rightarrow> (string option \<times> json) option \<times> 'w"
  sv_stream :: "string \<Rightarrow> 'w \<Rightarrow> bool \<times> 'w" \<comment> \<open>status 200 with an event stream\<close>

definition poll_server_info ::
  "url_lib \<Rightarrow> 'w server_probes \<Rightarrow> string \<Rightarrow> 'w \<Rightarrow> server_info option \<times> 'w" where
  "poll_server_info U P api_url w =
     (case local_endpoint_base_url U api_url of
        None \<Rightarrow> (None, w)
      | Some base \<Rightarrow>
          (case sv_props P (base @ ''/props'') w of
             (props, w1) \<Rightarrow>
               (case Option.bind props (\<lambda>(server, p). info_of_props server p) of
                  Some i \<Rightarrow> (Some i, w1)
                | None \<Rightarrow>
                    (case sv_models P (base @ ''/v1/models'') w1 of
                       (models, w2) \<Rightarrow> (Option.bind models (\<lambda>(server, b). info_of_models server b), w2)))))"

definition discover_protocol :: "'w server_probes \<Rightarrow> string \<Rightarrow> 'w \<Rightarrow> model_protocol option \<times> 'w" where
  "discover_protocol P base_url w =
     (let base = trim_end_slashes base_url
      in case sv_stream P (base @ ''/v1/messages'') w of
           (True, w1) \<Rightarrow> (Some MessagesV1, w1)
         | (False, w1) \<Rightarrow>
             (case sv_stream P (base @ ''/v1/chat/completions'') w1 of
                (True, w2) \<Rightarrow> (Some ChatCompat, w2)
              | (False, w2) \<Rightarrow> (None, w2)))"

definition discover_native_protocol ::
  "'w server_probes \<Rightarrow> string \<Rightarrow> model_protocol option \<Rightarrow> 'w \<Rightarrow> model_protocol option \<times> 'w" where
  "discover_native_protocol P base_url explicit w =
     (case explicit of Some p \<Rightarrow> (Some p, w) | None \<Rightarrow> discover_protocol P base_url w)"

definition populate_server_info :: "url_lib \<Rightarrow> 'w server_probes \<Rightarrow> api_client \<Rightarrow> 'w \<Rightarrow> api_client \<times> 'w" where
  "populate_server_info U P c w =
     (case local_endpoint_base_url U (ac_api_url c) of
        None \<Rightarrow> (c, w)
      | Some base \<Rightarrow>
          (case discover_native_protocol P base (ac_explicit_protocol c) w of
             (native, w1) \<Rightarrow>
               (case poll_server_info U P base w1 of
                  (Some info, w2) \<Rightarrow>
                    (c\<lparr>ac_server_info := Some (info\<lparr>si_native_protocol :=
                        (case native of Some p \<Rightarrow> Some p | None \<Rightarrow> si_native_protocol info)\<rparr>)\<rparr>, w2)
                | (None, w2) \<Rightarrow>
                    (case native of
                       Some p \<Rightarrow> (c\<lparr>ac_server_info := Some (server_info_default\<lparr>si_native_protocol := Some p\<rparr>)\<rparr>, w2)
                     | None \<Rightarrow> (c, w2)))))"

end
