(* ===== verification/Api_Client_Laws.thy ===== *)
theory Api_Client_Laws
  imports Api_Client Turn_Laws
begin

text \<open>
  Laws of the API client: the two forms of an endpoint, what a history says on the wire, which tools are offered,
  which headers a configuration can set, and that an overflow reported by the server is recognised.
\<close>

section \<open>URLs\<close>

lemma strip_end_append [simp]: "strip_end (b @ tail) tail = Some b"
  by (simp add: strip_end_def ends_with_suffix suffix_def)

lemma strip_end_None: "strip_end s tail = None \<longleftrightarrow> \<not> ends_with s tail"
  by (simp add: strip_end_def)

lemma strip_end_Some: "strip_end s tail = Some b \<longleftrightarrow> s = b @ tail"
  by (auto simp: strip_end_def ends_with_suffix suffix_def)

lemma trim_end_slashes_id: "\<not> ends_with s ''/'' \<Longrightarrow> trim_end_slashes s = s"
  by (cases s rule: rev_cases) (auto simp: trim_end_char_def ends_with_def)

lemma chat_url_cases:
  obtains b where "trim_end_slashes u = b @ ''/chat/completions''" "adapt_to_chat_compat_url u = b @ ''/chat/completions''"
      "adapt_to_messages_v1_url u = b @ ''/messages''"
  | b where "trim_end_slashes u = b @ ''/messages/v1''" "adapt_to_chat_compat_url u = b @ ''/v1/chat/completions''"
      "adapt_to_messages_v1_url u = b @ ''/v1/messages''"
  | b where "trim_end_slashes u = b @ ''/messages''" "adapt_to_chat_compat_url u = b @ ''/chat/completions''"
      "adapt_to_messages_v1_url u = b @ ''/messages''"
  | b where "adapt_to_chat_compat_url u = b @ ''/v1/chat/completions''" "adapt_to_messages_v1_url u = b @ ''/v1/messages''"
proof -
  let ?n = "trim_end_slashes u"
  consider (chat) b where "?n = b @ ''/chat/completions''" | (v1) b where "?n = b @ ''/messages/v1''"
    | (msg) b where "?n = b @ ''/messages''"
    | (other) "\<not> ends_with ?n ''/chat/completions''" "\<not> ends_with ?n ''/messages/v1''" "\<not> ends_with ?n ''/messages''"
    by (auto simp: ends_with_suffix suffix_def)
  then show thesis
  proof cases
    case chat
    then have "adapt_to_chat_compat_url u = b @ ''/chat/completions''" "adapt_to_messages_v1_url u = b @ ''/messages''"
      by (simp_all add: adapt_to_chat_compat_url_def adapt_to_messages_v1_url_def Let_def ends_with_def strip_end_def)
    with chat that(1) show thesis by blast
  next
    case v1
    then have "adapt_to_chat_compat_url u = b @ ''/v1/chat/completions''" "adapt_to_messages_v1_url u = b @ ''/v1/messages''"
      by (simp_all add: adapt_to_chat_compat_url_def adapt_to_messages_v1_url_def Let_def ends_with_def strip_end_def)
    with v1 that(2) show thesis by blast
  next
    case msg
    then have "adapt_to_chat_compat_url u = b @ ''/chat/completions''" "adapt_to_messages_v1_url u = b @ ''/messages''"
      by (simp_all add: adapt_to_chat_compat_url_def adapt_to_messages_v1_url_def Let_def ends_with_def strip_end_def)
    with msg that(3) show thesis by blast
  next
    case other
    note none = other [folded strip_end_None]
    show thesis
    proof (cases "ends_with ?n ''/v1''")
      case True
      then obtain b where "?n = b @ ''/v1''" by (auto simp: ends_with_suffix suffix_def)
      with True other none have "adapt_to_chat_compat_url u = b @ ''/v1/chat/completions''"
        "adapt_to_messages_v1_url u = b @ ''/v1/messages''"
        by (simp_all add: adapt_to_chat_compat_url_def adapt_to_messages_v1_url_def Let_def)
      with that(4) show thesis by blast
    next
      case False
      with other none have "adapt_to_chat_compat_url u = ?n @ ''/v1/chat/completions''"
        "adapt_to_messages_v1_url u = ?n @ ''/v1/messages''"
        by (simp_all add: adapt_to_chat_compat_url_def adapt_to_messages_v1_url_def Let_def)
      with that(4) show thesis by blast
    qed
  qed
qed

lemma adapt_completions:
  "adapt_to_chat_compat_url (b @ ''/chat/completions'') = b @ ''/chat/completions''"
  "adapt_to_messages_v1_url (b @ ''/chat/completions'') = b @ ''/messages''"
  by (simp_all add: adapt_to_chat_compat_url_def adapt_to_messages_v1_url_def trim_end_slashes_id Let_def ends_with_def
      strip_end_def)

lemma adapt_messages:
  "adapt_to_chat_compat_url (b @ ''/messages'') = b @ ''/chat/completions''"
  "adapt_to_messages_v1_url (b @ ''/messages'') = b @ ''/messages''"
  by (simp_all add: adapt_to_chat_compat_url_def adapt_to_messages_v1_url_def trim_end_slashes_id Let_def ends_with_def
      strip_end_def)

lemma split_v1:
  "b @ ''/v1/chat/completions'' = (b @ ''/v1'') @ ''/chat/completions''" "b @ ''/v1/messages'' = (b @ ''/v1'') @ ''/messages''"
  by simp_all

text \<open>
  The two forms of an endpoint name the same server: whichever form an endpoint is written
  in, adapting it to one protocol after the other gives what adapting it directly gives, and an adapted
  endpoint is adapted to itself.
\<close>

theorem endpoint_forms_agree:
  "adapt_to_chat_compat_url (adapt_to_messages_v1_url u) = adapt_to_chat_compat_url u
   \<and> adapt_to_messages_v1_url (adapt_to_chat_compat_url u) = adapt_to_messages_v1_url u
   \<and> adapt_to_chat_compat_url (adapt_to_chat_compat_url u) = adapt_to_chat_compat_url u
   \<and> adapt_to_messages_v1_url (adapt_to_messages_v1_url u) = adapt_to_messages_v1_url u"
  by (rule chat_url_cases [of u]) (simp_all only: split_v1 adapt_completions adapt_messages simp_thms)

text \<open>The URL parser gives the host of an IPv6 endpoint in brackets: the loopback address is not recognised, although
  the message about plain HTTP endpoints names it.\<close>

lemma ipv6_loopback_not_local:
  "ul_parse U (trim url) = Some \<lparr>pu_scheme = ''http'', pu_host = Some ''[::1]''\<rparr> \<Longrightarrow> ul_parse_ip U ''[::1]'' = None
   \<Longrightarrow> \<not> is_local_endpoint_url U url"
proof -
  assume "ul_parse U (trim url) = Some \<lparr>pu_scheme = ''http'', pu_host = Some ''[::1]''\<rparr>" "ul_parse_ip U ''[::1]'' = None"
  moreover have "to_ascii_lowercase (trim ''[::1]'') = ''[::1]''" "\<not> starts_with ''[::1]'' ''127.''" by code_simp+
  ultimately show ?thesis by (simp add: is_local_endpoint_url_def is_local_host_def Let_def)
qed

text \<open>Every name that begins with \<open>127.\<close> counts as the local machine.\<close>

lemma named_host_is_local:
  "ul_parse U (trim url) = Some \<lparr>pu_scheme = ''http'', pu_host = Some ''127.0.0.1.example.com''\<rparr>
   \<Longrightarrow> is_local_endpoint_url U url"
proof -
  assume "ul_parse U (trim url) = Some \<lparr>pu_scheme = ''http'', pu_host = Some ''127.0.0.1.example.com''\<rparr>"
  moreover have "starts_with (to_ascii_lowercase (trim ''127.0.0.1.example.com'')) ''127.''" by code_simp
  ultimately show ?thesis by (simp add: is_local_endpoint_url_def is_local_host_def Let_def)
qed

section \<open>The history on the wire\<close>

datatype wire_item = Wire_text string string | Wire_call string string string | Wire_result string string

definition text_item :: "string \<Rightarrow> string \<Rightarrow> wire_item list" where
  "text_item role t = (if t = '''' then [] else [Wire_text role t])"

text \<open>What a history says: the texts, the calls with their arguments, and the results.\<close>

fun call_item :: "serde \<Rightarrow> content_block \<Rightarrow> wire_item option" where
  "call_item sj (ToolUseContent i n input m) = Some (Wire_call i n (tool_input_to_json_string sj input))"
| "call_item sj _ = None"

fun other_item :: "string \<Rightarrow> content_block \<Rightarrow> wire_item list" where
  "other_item role (ToolResultContent i content e) = [Wire_result i content]"
| "other_item role (TextContent t c) = text_item role t"
| "other_item role _ = []"

definition history_items :: "serde \<Rightarrow> api_message \<Rightarrow> wire_item list" where
  "history_items sj msg =
     (case am_content msg of
        TextMessage t \<Rightarrow> text_item (am_role msg) t
      | Blocks blocks \<Rightarrow>
          if am_role msg = ''assistant''
          then text_item ''assistant'' (concat (map text_of_block blocks)) @ List.map_filter (call_item sj) blocks
          else concat (map (other_item (am_role msg)) blocks))"

text \<open>What a message of the chat-compatible form says.\<close>

definition str_field :: "json \<Rightarrow> string \<Rightarrow> string" where
  "str_field j k = (case Option.bind (json_get j k) as_str of Some s \<Rightarrow> s | None \<Rightarrow> '''')"

definition wire_call :: "json \<Rightarrow> wire_item" where
  "wire_call call =
     (let f = (case json_get call ''function'' of Some f \<Rightarrow> f | None \<Rightarrow> JNull)
      in Wire_call (str_field call ''id'') (str_field f ''name'') (str_field f ''arguments''))"

definition wire_of :: "json \<Rightarrow> wire_item list" where
  "wire_of j =
     (if json_get j ''tool_call_id'' \<noteq> None then [Wire_result (str_field j ''tool_call_id'') (str_field j ''content'')]
      else text_item (str_field j ''role'') (str_field j ''content'')
           @ (case json_get j ''tool_calls'' of Some (JArray calls) \<Rightarrow> map wire_call calls | _ \<Rightarrow> []))"

lemma wire_of_role_content: "wire_of (role_content role t) = text_item role t"
  by (simp add: wire_of_def role_content_def str_field_def)

lemma map_filter_Cons: "List.map_filter f (x # xs) = (case f x of None \<Rightarrow> [] | Some y \<Rightarrow> [y]) @ List.map_filter f xs"
  by (simp add: map_filter_def split: option.split)

lemma map_filter_Nil: "List.map_filter f [] = []"
  by (simp add: map_filter_def)

lemma wire_block_call:
  "map wire_call (case block_call sj b of None \<Rightarrow> [] | Some y \<Rightarrow> [y])
   = (case call_item sj b of None \<Rightarrow> [] | Some y \<Rightarrow> [y])"
  by (cases b) (simp_all add: wire_call_def str_field_def)

lemma wire_calls: "map wire_call (List.map_filter (block_call sj) blocks) = List.map_filter (call_item sj) blocks"
  by (induction blocks) (simp_all only: map_filter_Cons map_filter_Nil map_append list.map wire_block_call)

lemma wire_of_assistant:
  "wire_of (assistant_value sj blocks)
   = text_item ''assistant'' (concat (map text_of_block blocks)) @ List.map_filter (call_item sj) blocks"
proof -
  let ?calls = "List.map_filter (block_call sj) blocks" and ?t = "concat (map text_of_block blocks)"
  have "wire_of (assistant_value sj blocks) = text_item ''assistant'' ?t @ map wire_call ?calls"
    by (cases "?calls = []"; cases "?t = ''''") (simp_all add: wire_of_def assistant_value_def str_field_def text_item_def Let_def)
  then show ?thesis by (simp only: wire_calls)
qed

lemma wire_of_other:
  "concat (map wire_of (case other_block role b of None \<Rightarrow> [] | Some y \<Rightarrow> [y])) = other_item role b"
  by (cases b) (simp_all add: wire_of_role_content, simp add: wire_of_def str_field_def)

lemma wire_of_others:
  "concat (map wire_of (List.map_filter (other_block role) blocks)) = concat (map (other_item role) blocks)"
  by (induction blocks)
    (simp_all only: map_filter_Cons map_filter_Nil map_append concat_append list.map concat.simps wire_of_other)

lemma wire_of_message: "concat (map wire_of (append_chat_compat_message sj msg)) = history_items sj msg"
proof (cases "am_content msg")
  case (TextMessage t)
  then show ?thesis by (simp add: append_chat_compat_message_def history_items_def wire_of_role_content)
next
  case (Blocks blocks)
  show ?thesis
  proof (cases "am_role msg = ''assistant''")
    case True
    with Blocks show ?thesis by (simp add: append_chat_compat_message_def history_items_def wire_of_assistant)
  next
    case False
    from wire_of_others [of "am_role msg" blocks] have
      "List.map_filter (other_block (am_role msg)) blocks = [] \<Longrightarrow> concat (map (other_item (am_role msg)) blocks) = []"
      by simp
    with Blocks False wire_of_others [of "am_role msg" blocks] show ?thesis
      by (simp add: append_chat_compat_message_def history_items_def Let_def wire_of_role_content text_item_def)
  qed
qed

text \<open>
  C15 [wire_keeps_history]. The chat-compatible messages of a request say what the history says, in its order: the
  system prompt, every text, every call of the assistant with its id, name and arguments, and every result
  under the id of its call.
\<close>

theorem wire_keeps_history:
  "concat (map wire_of (chat_compat_messages sj messages system_prompt))
   = text_item ''system'' system_prompt @ concat (map (history_items sj) messages)"
proof -
  have "concat (map wire_of (concat (map (append_chat_compat_message sj) messages))) = concat (map (history_items sj) messages)"
    by (induction messages) (simp_all add: wire_of_message)
  then show ?thesis by (simp add: chat_compat_messages_def wire_of_role_content)
qed

section \<open>Tools\<close>

definition builtin_names :: "string list" where
  "builtin_names =
     [''read_file'', ''write_file'', ''apply_patch'', ''edit_file'', ''rename_file'', ''list_files'', ''list_directory'',
      ''list_dir'', ''glob_files'', ''search_files'', ''search'', ''git_status'', ''git_diff'', ''git_log'', ''git_show'',
      ''git_add'', ''git_commit'', ''search_content'', ''find_files'', ''codebase_search'', ''run_command'']"

lemma tool_names: "map tool_name tool_definitions = map Some builtin_names"
  by (simp add: tool_definitions_def tool_definition_defs tool_name_def builtin_names_def)

text \<open>Whether the conversation runs a tool under the policy of its client (\<open>execute_tool\<close>).\<close>

definition policy_runs :: "tool_policy \<Rightarrow> string \<Rightarrow> bool" where
  "policy_runs policy name \<longleftrightarrow>
     policy \<noteq> Chat_policy \<and> (policy = Plan_policy \<longrightarrow> is_readonly_tool (normalize_shell_tool_alias name))"

lemma run_command_not_alias: "n \<in> set builtin_names \<Longrightarrow> normalize_shell_tool_alias n = n"
proof -
  have "list_all (\<lambda>n. n \<in> set shell_aliases \<longrightarrow> n = ''run_command'') builtin_names" by code_simp
  then show "n \<in> set builtin_names \<Longrightarrow> normalize_shell_tool_alias n = n"
    by (auto simp: normalize_shell_tool_alias_def list_all_iff)
qed

text \<open>The names a request offers, and whether a tool was run on the way from one state to another.\<close>

definition offered :: "tool_policy \<Rightarrow> string \<Rightarrow> bool" where
  "offered policy n \<longleftrightarrow> (\<exists>t \<in> set (tool_definitions_for_policy policy []). tool_name t = Some n)"

definition tool_ran :: "string \<Rightarrow> json \<Rightarrow> 'w conversation \<Rightarrow> 'w conversation \<Rightarrow> bool" where
  "tool_ran n input s t \<longleftrightarrow>
     (\<exists>before after. cm_events t = cm_events s @ before @ Ran_tool n input # after)"

lemma offered_iff: "offered policy n \<longleftrightarrow> n \<in> set builtin_names \<and> policy_runs policy n"
proof -
  have names: "(\<exists>t \<in> set tool_definitions. tool_name t = Some n) \<longleftrightarrow> n \<in> set builtin_names" for n
  proof -
    have "(\<exists>t \<in> set tool_definitions. tool_name t = Some n) \<longleftrightarrow> Some n \<in> set (map tool_name tool_definitions)"
      unfolding set_map image_iff by (rule bex_cong [OF refl]) (rule eq_commute)
    also have "\<dots> \<longleftrightarrow> n \<in> set builtin_names"
      unfolding tool_names by (simp only: set_map inj_image_mem_iff [OF inj_Some])
    finally show ?thesis .
  qed
  show ?thesis
  proof (cases policy)
    case Full_policy
    then show ?thesis
      by (simp add: offered_def tool_definitions_for_policy_def tool_definitions_with_extra_def names policy_runs_def)
  next
    case Plan_policy
    have "(\<exists>t \<in> set (filter (\<lambda>t. case tool_name t of Some n \<Rightarrow> is_readonly_tool n | None \<Rightarrow> False) tool_definitions).
            tool_name t = Some n) \<longleftrightarrow> n \<in> set builtin_names \<and> is_readonly_tool n" for n
      using names [of n] by (auto split: option.splits)
    with Plan_policy show ?thesis
      by (auto simp: offered_def tool_definitions_for_policy_def policy_runs_def run_command_not_alias)
  next
    case Chat_policy
    then show ?thesis by (simp add: offered_def tool_definitions_for_policy_def policy_runs_def)
  qed
qed

lemma refused_tool:
  "\<not> policy_runs (te_tool_policy E) name \<Longrightarrow> \<exists>e. execute_tool E name input timeout_secs s = (Inl e, s)"
  by (auto simp: policy_runs_def execute_tool_def Let_def)

lemma grows: "log_ok (\<lambda>_ _. True) (\<lambda>_. False) s t \<Longrightarrow> \<exists>es. cm_events t = cm_events s @ es"
  by (auto simp: log_from_def)

lemma run_tool_ran: "tool_ran n input s (snd (run_tool E n input s))"
proof -
  obtain r us w where t: "te_tool E n input (cm_world s) = (r, us, w)" by (metis prod_cases3)
  let ?t = "log_event (Ran_tool n input) (s\<lparr>cm_world := w\<rparr>)"
  have "log_ok (\<lambda>_ _. True) (\<lambda>_. False) ?t (fold (emit_stream_update E) us ?t)"
    by (rule log.fold_steps) (auto simp: log_no_event)
  from grows [OF this] t show ?thesis
    by (force simp: run_tool_def tool_ran_def log_event_def)
qed

lemma tool_ran_extend:
  assumes "cm_events s1 = cm_events s @ es" and "tool_ran n input s1 t" and "cm_events t' = cm_events t @ es'"
  shows "tool_ran n input s t'"
  using assms unfolding tool_ran_def by (metis append.assoc append_Cons)

lemma allowed_tool_runs:
  assumes runs: "policy_runs (te_tool_policy E) n" and n: "normalize_shell_tool_alias n = n"
  shows "case run_all_hooks E PreTool n input k s of
      (Some e, s1) \<Rightarrow> execute_tool E n input k s = (Inl e, s1)
    | (None, s1) \<Rightarrow> tool_ran n input s (snd (execute_tool E n input k s))"
proof -
  obtain e s1 where 1: "run_all_hooks E PreTool n input k s = (e, s1)" by fastforce
  obtain r s2 where 2: "run_tool E n input s1 = (r, s2)" by fastforce
  obtain e' s3 where 3: "run_all_hooks E PostTool n input k s2 = (e', s3)" by fastforce
  note hooks = all_hooks_log [of "\<lambda>_ _. True" "\<lambda>_. False"]
  from grows [OF hooks [of s E PreTool n input k]] 1 obtain es where es: "cm_events s1 = cm_events s @ es" by auto
  from grows [OF hooks [of s2 E PostTool n input k]] 3 obtain es' where es': "cm_events s3 = cm_events s2 @ es'" by auto
  from run_tool_ran [of n input s1 E] 2 have ran: "tool_ran n input s1 s2" by simp
  have "tool_ran n input s s2" "tool_ran n input s s3"
    using tool_ran_extend [OF es ran, of _ "[]"] tool_ran_extend [OF es ran es'] by auto
  with 1 2 3 runs show ?thesis
    by (auto simp: execute_tool_def n Let_def policy_runs_def split: option.split sum.split)
qed

lemma map_filter_all: "map f xs = map Some ys \<Longrightarrow> List.map_filter f xs = ys"
  by (induction xs arbitrary: ys) (auto simp: map_filter_Nil map_filter_Cons)

text \<open>
  C14 [offered_tools_run]. The built-in tools a request offers under the policy of the client are those the
  conversation runs: a call of one that is offered runs this very tool unless a hook before it ends the call with an
  error; a call of one that is not is an error that leaves the conversation as it was, so neither the tool nor a hook
  has run. Tools of other servers, which a read-only policy offers and refuses, are outside this.
\<close>

theorem offered_tools_run:
  "list_all (\<lambda>n.
      if offered (te_tool_policy E) n
      then (case run_all_hooks E PreTool n input timeout_secs s of
              (Some e, s1) \<Rightarrow> execute_tool E n input timeout_secs s = (Inl e, s1)
            | (None, s1) \<Rightarrow> tool_ran n input s (snd (execute_tool E n input timeout_secs s)))
      else \<exists>e. execute_tool E n input timeout_secs s = (Inl e, s))
    (List.map_filter tool_name tool_definitions)"
proof -
  have names: "List.map_filter tool_name tool_definitions = builtin_names"
    by (rule map_filter_all [OF tool_names])
  show ?thesis
    unfolding names list_all_iff
  proof
    fix n assume b: "n \<in> set builtin_names"
    show "if offered (te_tool_policy E) n
      then (case run_all_hooks E PreTool n input timeout_secs s of
              (Some e, s1) \<Rightarrow> execute_tool E n input timeout_secs s = (Inl e, s1)
            | (None, s1) \<Rightarrow> tool_ran n input s (snd (execute_tool E n input timeout_secs s)))
      else \<exists>e. execute_tool E n input timeout_secs s = (Inl e, s)"
      using allowed_tool_runs [OF _ run_command_not_alias [OF b], where E = E and input = input and k = timeout_secs and s = s]
        refused_tool [where E = E and name = n and input = input and timeout_secs = timeout_secs and s = s] b
      by (simp add: offered_iff)
  qed
qed

section \<open>Headers\<close>

lemma model_headers_reserved:
  "is_reserved_header h \<Longrightarrow> map_of (fold add_model_header hs acc) h = map_of acc h"
  by (induction hs arbitrary: acc) (auto simp: add_model_header_def update_conv')

text \<open>
  The headers of the configuration never change a reserved header of a request: the
  credential of the other protocol is absent, that of the request's protocol is the key of the client, and
  the content type is JSON.
\<close>

theorem reserved_headers_protected:
  assumes "request_headers valid rid c = Inr hs"
  shows "map_of hs ''content-type'' = Some ''application/json''
    \<and> map_of hs ''x-api-key'' = (if api_protocol c = MessagesV1 then ac_api_key c else None)
    \<and> map_of hs ''authorization'' = (if api_protocol c = ChatCompat then map_option ((@) ''Bearer '') (ac_api_key c) else None)
    \<and> map_of hs ''x-request-id'' = Some rid"
proof -
  let ?m = "fold add_model_header (ac_model_headers c) base_headers"
  have r: "is_reserved_header ''content-type''" "is_reserved_header ''x-api-key''" "is_reserved_header ''authorization''"
    by code_simp+
  have m: "map_of ?m ''content-type'' = Some ''application/json''" "map_of ?m ''x-api-key'' = None"
    "map_of ?m ''authorization'' = None"
    by (simp_all only: model_headers_reserved [OF r(1)] model_headers_reserved [OF r(2)] model_headers_reserved [OF r(3)])
      (simp_all add: base_headers_def)
  from assms obtain hs1 where a: "auth_header valid c ?m = Inr hs1" "hs = AList.update ''x-request-id'' rid hs1"
    by (auto simp: request_headers_def split: sum.splits if_splits)
  show ?thesis
  proof (cases "ac_api_key c")
    case None
    with a m show ?thesis by (simp add: auth_header_def update_conv')
  next
    case (Some key)
    with a m show ?thesis
      by (cases "api_protocol c") (auto simp: auth_header_def update_conv' split: if_splits)
  qed
qed

section \<open>Limits and errors\<close>

text \<open>
  A request never asks for more tokens than three quarters of a known context window, or 16384,
  and, where that allows it, for at least 128, whatever the configuration and the environment say.
\<close>

theorem max_tokens_bounded:
  "resolve_max_tokens env default_max n_ctx \<le> (if n_ctx > 0 then n_ctx * 3 div 4 else 16384)
   \<and> (n_ctx = 0 \<or> 128 \<le> n_ctx * 3 div 4 \<longrightarrow> 128 \<le> resolve_max_tokens env default_max n_ctx)"
  by (auto simp: resolve_max_tokens_def clamp_def u32_modulus_def Let_def)


lemma lowercase_append: "to_ascii_lowercase (a @ b) = to_ascii_lowercase a @ to_ascii_lowercase b"
  by (simp add: to_ascii_lowercase_def)

lemma contains_left: "contains a p \<Longrightarrow> contains (a @ b) p"
  and contains_right: "contains b p \<Longrightarrow> contains (a @ b) p"
  by (auto simp: contains_sublist sublist_append)

text \<open>
  When a server answers that the context is exceeded, and it is not a rate limit, the
  error the client makes of the answer is recognised by the conversation as an overflow, so that it compacts
  the history and retries, however long the answer is.
\<close>

theorem overflow_is_recognised:
  assumes "is_context_overflow body" and "status \<noteq> 429"
    and "\<not> (400 \<le> status \<and> status < 500 \<and> looks_like_rate_limit R body)"
  shows "is_context_overflow (map_api_status_error U R seconds reason status body url retry_after)"
proof -
  have h: "contains (to_ascii_lowercase (overflow_hint local)) ''context window''" for local
    by (cases local; simp only: overflow_hint_def if_True if_False) code_simp+
  have o: "contains lower ''context window'' \<Longrightarrow> is_context_overflow t" if "lower = to_ascii_lowercase t" for lower t
    using that by (simp add: is_context_overflow_def Let_def)
  have c: "\<not> (status = 429 \<or> (400 \<le> status \<and> status < 500 \<and> looks_like_rate_limit R body))"
    using assms(2,3) by blast
  show ?thesis
    unfolding map_api_status_error_def Let_def if_not_P [OF c] if_P [OF assms(1)]
    by (rule o [OF refl]) (simp only: lowercase_append contains_left contains_right h)
qed

section \<open>Examples\<close>

definition demo_client :: api_client where
  "demo_client =
     \<lparr>ac_api_key = Some ''k'', ac_model = ''m'', ac_supplementary_system_prompt = None, ac_api_url = ''u'',
      ac_explicit_protocol = Some ChatCompat, ac_model_protocol = MessagesV1, ac_tool_policy = Full_policy,
      ac_model_headers = [(''x-api-key'', ''other''), (''accept'', ''text/plain'')], ac_temperature = PosInt 0,
      ac_top_p = PosInt 1, ac_max_tokens = 4096, ac_stop_sequences = [], ac_reasoning_budget = 0,
      ac_project_instructions = None, ac_notes_content = None, ac_extra_tool_definitions = [], ac_server_info = None\<rparr>"

theorem reserved_headers_protected_witness:
  "\<exists>hs. request_headers (\<lambda>v. True) ''r'' demo_client = Inr hs
    \<and> map_of hs ''x-api-key'' = None \<and> map_of hs ''authorization'' = Some ''Bearer k''"
proof -
  have "case request_headers (\<lambda>v. True) ''r'' demo_client of Inr hs \<Rightarrow> True | Inl e \<Rightarrow> False" by code_simp
  then obtain hs where r: "request_headers (\<lambda>v. True) ''r'' demo_client = Inr hs" by (auto split: sum.splits)
  have "api_protocol demo_client = ChatCompat" "ac_api_key demo_client = Some ''k''"
    by (simp_all add: api_protocol_def demo_client_def)
  with reserved_headers_protected [OF r] r show ?thesis by simp
qed

theorem max_tokens_bounded_witness:
  "128 \<le> resolve_max_tokens (\<lambda>v. None) 4 8192 \<and> resolve_max_tokens (\<lambda>v. None) 4 8192 \<le> 6144"
  using max_tokens_bounded [of "\<lambda>v. None" 4 8192] by simp

definition demo_urls :: url_lib where
  "demo_urls = \<lparr>ul_parse = (\<lambda>u. None), ul_parse_ip = (\<lambda>u. None), ul_with_scheme = (\<lambda>u s. None),
                ul_with_host = (\<lambda>u s. None)\<rparr>"

definition demo_rates :: rate_env where
  "demo_rates =
     \<lparr>re_parse = (\<lambda>s. None), re_times_1000 = (\<lambda>v. v), re_is_nan = (\<lambda>v. False), re_is_negative = (\<lambda>v. False),
      re_is_infinite = (\<lambda>v. False), re_to_u64 = (\<lambda>v. v), re_body_captures = (\<lambda>s. None),
      re_until_http_date = (\<lambda>s. None), re_decode_body = (\<lambda>s. None)\<rparr>"

theorem overflow_is_recognised_witness:
  "is_context_overflow (map_api_status_error demo_urls demo_rates nat_dec (\<lambda>s. None) 400 ''exceeds context'' ''u'' None)"
proof (rule overflow_is_recognised)
  show "is_context_overflow ''exceeds context''" by code_simp
  show "(400::nat) \<noteq> 429" by simp
  have "\<not> looks_like_rate_limit demo_rates ''exceeds context''" by code_simp
  then show "\<not> (400 \<le> (400::nat) \<and> 400 < (500::nat) \<and> looks_like_rate_limit demo_rates ''exceeds context'')"
    by simp
qed

end
