(* ===== verification/Signal_Stream.thy ===== *)
theory Signal_Stream
  imports Api_Client Stream_Laws
begin

text \<open>
  The stream of a model's answer (\<open>src/api/stream_ingress.rs\<close>, \<open>src/api/stream_ingress/non_stream.rs\<close>): the state
  that turns the chunks of the network into envelopes one by one, the retries while a local server starts,
  and the request without streaming a local server gets when it does not stream. The network is a list of
  what it will deliver; sending a request, sleeping and the delays of the backoff are parameters. Logging is
  dropped, except for the summary of a stream, which is kept in the state. A panic of the parser is \<open>None\<close>.
\<close>

section \<open>The state of a stream\<close>

datatype upstream_item = Bytes_item string | Broken_item string

record signal_stream =
  sg_upstream :: "upstream_item list"
  sg_parser :: stream_parser
  sg_pending :: "runtime_envelope list"
  sg_terminal_outcome :: "string option"
  sg_envelope_count :: nat
  sg_tool_call_starts :: nat
  sg_tool_call_completions :: nat
  sg_tool_call_failures :: nat
  sg_last_usage :: "token_usage_envelope option"
  sg_final_status :: "string option"
  sg_summary :: "string option"

definition build_signal_stream_state :: "upstream_item list \<Rightarrow> stream_parser \<Rightarrow> signal_stream" where
  "build_signal_stream_state upstream parser =
     \<lparr>sg_upstream = upstream, sg_parser = parser, sg_pending = [], sg_terminal_outcome = None,
      sg_envelope_count = 0, sg_tool_call_starts = 0, sg_tool_call_completions = 0, sg_tool_call_failures = 0,
      sg_last_usage = None, sg_final_status = None, sg_summary = None\<rparr>"

fun observe_signal :: "runtime_signal \<Rightarrow> signal_stream \<Rightarrow> signal_stream" where
  "observe_signal (ToolCallStarted i n v st r) s = s\<lparr>sg_tool_call_starts := sg_tool_call_starts s + 1\<rparr>"
| "observe_signal (ToolCallCompleted i n st out e d p) s =
     s\<lparr>sg_tool_call_completions := sg_tool_call_completions s + 1\<rparr>"
| "observe_signal (ToolCallFailed i n st out e d p) s = s\<lparr>sg_tool_call_failures := sg_tool_call_failures s + 1\<rparr>"
| "observe_signal (UsageUpdated usage) s = s\<lparr>sg_last_usage := Some usage\<rparr>"
| "observe_signal (PulseEnd status usage xs) s =
     s\<lparr>sg_final_status := Some status,
        sg_last_usage := (case usage of Some u \<Rightarrow> Some u | None \<Rightarrow> sg_last_usage s)\<rparr>"
| "observe_signal (Error_signal code message terminal) s = s\<lparr>sg_final_status := Some (''error:'' @ code)\<rparr>"
| "observe_signal _ s = s"

definition observe_envelope :: "runtime_envelope \<Rightarrow> signal_stream \<Rightarrow> signal_stream" where
  "observe_envelope e s = observe_signal (env_signal e) (s\<lparr>sg_envelope_count := sg_envelope_count s + 1\<rparr>)"

definition emit_stream_summary :: "string \<Rightarrow> signal_stream \<Rightarrow> signal_stream" where
  "emit_stream_summary outcome s = (if sg_summary s = None then s\<lparr>sg_summary := Some outcome\<rparr> else s)"

text \<open>\<open>parser.finish()\<close>\<close>

definition finish_parser :: "'z ingress_env_scheme \<Rightarrow> stream_parser \<Rightarrow> runtime_envelope list \<times> stream_parser" where
  "finish_parser E p = (case finish_stream E (sp_session p) of (es, ss) \<Rightarrow> (es, p\<lparr>sp_session := ss\<rparr>))"

definition pending_finished :: "'z ingress_env_scheme \<Rightarrow> signal_stream \<Rightarrow> signal_stream" where
  "pending_finished E s =
     (case finish_parser E (sg_parser s) of
        (es, p) \<Rightarrow> s\<lparr>sg_pending := sg_pending s @ es, sg_parser := p\<rparr>)"

text \<open>The next pending envelope, observed; none ends the stream with its summary.\<close>

definition finish_signal_stream ::
  "'z ingress_env_scheme \<Rightarrow> string \<Rightarrow> signal_stream \<Rightarrow> runtime_envelope option \<times> signal_stream" where
  "finish_signal_stream E outcome s =
     (let s1 = pending_finished E (s\<lparr>sg_terminal_outcome := Some outcome\<rparr>)
      in case sg_pending s1 of
           e # rest \<Rightarrow> (Some e, observe_envelope e (s1\<lparr>sg_pending := rest\<rparr>))
         | [] \<Rightarrow> (None, emit_stream_summary outcome s1))"

function next_stream_item ::
  "'z ingress_env_scheme \<Rightarrow> signal_stream \<Rightarrow> ((string + runtime_envelope option) \<times> signal_stream) option" where
  "next_stream_item E s =
     (case sg_pending s of
        e # rest \<Rightarrow> Some (Inr (Some e), observe_envelope e (s\<lparr>sg_pending := rest\<rparr>))
      | [] \<Rightarrow>
          (case sg_terminal_outcome s of
             Some outcome \<Rightarrow> Some (Inr None, emit_stream_summary outcome s)
           | None \<Rightarrow>
               (case sg_upstream s of
                  [] \<Rightarrow> (case finish_signal_stream E ''stream_closed'' s of (e, s1) \<Rightarrow> Some (Inr e, s1))
                | Broken_item err # us \<Rightarrow>
                    Some (Inl err, emit_stream_summary ''transport_error'' (s\<lparr>sg_upstream := us\<rparr>))
                | Bytes_item chunk # us \<Rightarrow>
                    if chunk = '''' then next_stream_item E (s\<lparr>sg_upstream := us\<rparr>)
                    else
                      (case process E chunk (sg_parser s) of
                         None \<Rightarrow> None
                       | Some (Inl err, p) \<Rightarrow>
                           Some (Inl ''invalid utf-8 sequence'', s\<lparr>sg_upstream := us, sg_parser := p\<rparr>)
                       | Some (Inr es, p) \<Rightarrow>
                           (let s1 = s\<lparr>sg_upstream := us, sg_parser := p, sg_pending := es\<rparr>
                            in next_stream_item E
                                 (if stream_terminated (sp_session p)
                                  then (pending_finished E s1)\<lparr>sg_terminal_outcome := Some ''protocol_done''\<rparr>
                                  else s1))))))"
  by pat_completeness auto
termination
  by (relation "measure (\<lambda>(E, s). length (sg_upstream s))")
    (auto simp: pending_finished_def finish_parser_def split: prod.splits)

declare next_stream_item.simps [simp del]

section \<open>Requests\<close>

record http_response =
  hr_status :: nat
  hr_content_type :: "string option"
  hr_retry_after :: "string option"
  hr_body :: "upstream_item list"
  hr_text :: string \<comment> \<open>the whole body as text, or the note that it could not be read\<close>

record 'w http_lib =
  hl_post :: "string \<Rightarrow> headers \<Rightarrow> string \<Rightarrow> 'w \<Rightarrow> (http_error + http_response) \<times> 'w"
  hl_sleep :: "nat \<Rightarrow> 'w \<Rightarrow> 'w"
  hl_delays :: "nat list" \<comment> \<open>what the backoff hands out, in milliseconds\<close>
  hl_lossy :: "string \<Rightarrow> string"
  hl_status_text :: "nat \<Rightarrow> string"
  hl_reason :: "nat \<Rightarrow> string option"
  hl_seconds :: "nat \<Rightarrow> string"

definition LOCAL_CONNECT_RETRY_INITIAL_INTERVAL :: nat where
  "LOCAL_CONNECT_RETRY_INITIAL_INTERVAL = 100"

definition should_retry_local_startup_error :: "http_error \<Rightarrow> bool" where
  "should_retry_local_startup_error e \<longleftrightarrow> he_status e = None \<and> (he_connect e \<or> he_timeout e)"

definition next_local_connect_retry_delay :: "nat list \<Rightarrow> nat \<Rightarrow> (nat \<times> nat list) option" where
  "next_local_connect_retry_delay delays attempt =
     (case delays of
        d # ds \<Rightarrow> Some (d, ds)
      | [] \<Rightarrow> if attempt = 1 then Some (LOCAL_CONNECT_RETRY_INITIAL_INTERVAL, []) else None)"

function retry_from ::
  "(nat \<Rightarrow> 'w \<Rightarrow> 'w) \<Rightarrow> ('w \<Rightarrow> (http_error + 'a) \<times> 'w) \<Rightarrow> nat \<Rightarrow> nat list \<Rightarrow> 'w \<Rightarrow> (http_error + 'a) \<times> 'w" where
  "retry_from sleep operation attempt delays w =
     (case operation w of
        (Inr r, w1) \<Rightarrow> (Inr r, w1)
      | (Inl e, w1) \<Rightarrow>
          if should_retry_local_startup_error e then
            (case next_local_connect_retry_delay delays attempt of
               None \<Rightarrow> (Inl e, w1)
             | Some (d, ds) \<Rightarrow> retry_from sleep operation (attempt + 1) ds (sleep d w1))
          else (Inl e, w1))"
  by pat_completeness auto
termination
  by (relation "measure (\<lambda>(sleep, operation, attempt, delays, w). 2 * length delays + (if attempt = 1 then 1 else 0))")
    (auto simp: next_local_connect_retry_delay_def split: list.splits if_splits)

declare retry_from.simps [simp del]

definition retry_local_connect_errors ::
  "url_lib \<Rightarrow> 'w http_lib \<Rightarrow> string \<Rightarrow> ('w \<Rightarrow> (http_error + 'a) \<times> 'w) \<Rightarrow> 'w \<Rightarrow> (http_error + 'a) \<times> 'w" where
  "retry_local_connect_errors U H url operation w =
     (if is_local_endpoint_url U url then retry_from (hl_sleep H) operation 1 (hl_delays H) w else operation w)"

definition MAX_ERROR_BODY_BYTES :: nat where
  "MAX_ERROR_BODY_BYTES = 16384"

fun read_error_bytes :: "upstream_item list \<Rightarrow> string \<Rightarrow> string + string" where
  "read_error_bytes [] body = Inr body"
| "read_error_bytes (Broken_item e # us) body =
     (if body = '''' then Inl (''<failed to read error body: '' @ e @ ''>'') else Inr body)"
| "read_error_bytes (Bytes_item chunk # us) body =
     (let remaining = MAX_ERROR_BODY_BYTES - length body
      in if remaining = 0 then Inr body
         else read_error_bytes us (body @ take (min remaining (length chunk)) chunk))"

definition read_error_body :: "(string \<Rightarrow> string) \<Rightarrow> upstream_item list \<Rightarrow> string" where
  "read_error_body lossy us = (case read_error_bytes us '''' of Inl note \<Rightarrow> note | Inr body \<Rightarrow> lossy body)"

definition is_success :: "nat \<Rightarrow> bool" where
  "is_success status \<longleftrightarrow> 200 \<le> status \<and> status < 300"

definition send_streaming_request ::
  "url_lib \<Rightarrow> rate_env \<Rightarrow> 'w http_lib \<Rightarrow> model_request \<Rightarrow> 'w \<Rightarrow> (string + http_response) \<times> 'w" where
  "send_streaming_request U R H req w =
     (case retry_local_connect_errors U H (mr_url req) (hl_post H (mr_url req) (mr_headers req) (mr_body req)) w of
        (Inl e, w1) \<Rightarrow> (Inl (map_api_request_error U (hl_status_text H) e (mr_url req)), w1)
      | (Inr response, w1) \<Rightarrow>
          if is_success (hr_status response) then (Inr response, w1)
          else (Inl (map_api_status_error U R (hl_seconds H) (hl_reason H) (hr_status response)
                       (read_error_body (hl_lossy H) (hr_body response)) (mr_url req) (hr_retry_after response)), w1))"

definition response_is_sse :: "http_response \<Rightarrow> bool" where
  "response_is_sse r = (case hr_content_type r of Some t \<Rightarrow> contains t ''text/event-stream'' | None \<Rightarrow> False)"

section \<open>Without streaming\<close>

definition non_stream_payload :: "json \<Rightarrow> json" where
  "non_stream_payload payload =
     (case payload of JObject m \<Rightarrow> JObject (AList.update ''stream'' (JBool False) m) | _ \<Rightarrow> payload)"

definition messages_v1_content_blocks :: "json \<Rightarrow> json list" where
  "messages_v1_content_blocks response =
     (case json_get response ''content'' of
        Some (JArray blocks) \<Rightarrow> blocks
      | Some (JString t) \<Rightarrow> [JObject [(''type'', JString ''text''), (''text'', JString t)]]
      | _ \<Rightarrow> [])"

definition require_chat_compat_choices :: "json \<Rightarrow> string + json list" where
  "require_chat_compat_choices response =
     (case json_get response ''choices'' of
        Some (JArray choices) \<Rightarrow>
          if choices = [] then Inl ''chat-compat fallback response contained no choices'' else Inr choices
      | _ \<Rightarrow>
          if json_get response ''error'' \<noteq> None
          then Inl ''chat-compat fallback returned an error payload instead of completion choices''
          else Inl ''chat-compat fallback response missing choices array'')"

definition json_index :: "json \<Rightarrow> nat option" where
  "json_index j = (case j of JNumber (PosInt n) \<Rightarrow> Some n | _ \<Rightarrow> None)"

definition message_start_value :: "json \<Rightarrow> json" where
  "message_start_value response =
     JObject
       [(''type'', JString ''message_start''),
        (''message'', JObject
           [(''id'', json_get_or response ''id'' (JString ''nonstream-message'')),
            (''type'', json_get_or response ''type'' (JString ''message'')),
            (''role'', json_get_or response ''role'' (JString ''assistant'')),
            (''model'', json_get_or response ''model'' (JString ''unknown'')),
            (''content'', JArray (messages_v1_content_blocks response)),
            (''stop_reason'', json_get_or response ''stop_reason'' JNull),
            (''stop_sequence'', json_get_or response ''stop_sequence'' JNull)])]"

definition block_start_value :: "nat \<times> json \<Rightarrow> json" where
  "block_start_value ib =
     JObject [(''type'', JString ''content_block_start''), (''index'', JNumber (PosInt (fst ib))),
              (''content_block'', snd ib)]"

definition message_delta_value :: "json \<Rightarrow> json" where
  "message_delta_value response =
     JObject
       [(''type'', JString ''message_delta''),
        (''delta'', JObject [(''stop_reason'', json_get_or response ''stop_reason'' JNull),
                             (''stop_sequence'', json_get_or response ''stop_sequence'' JNull)]),
        (''usage'', json_get_or response ''usage'' JNull)]"

definition copy_field :: "json \<Rightarrow> string \<Rightarrow> (string \<times> json) list" where
  "copy_field j k = (case json_get j k of Some v \<Rightarrow> [(k, v)] | None \<Rightarrow> [])"

definition choice_delta :: "json \<Rightarrow> json" where
  "choice_delta message =
     JObject
       (copy_field message ''role'' @ copy_field message ''content''
        @ (if json_get message ''reasoning_content'' \<noteq> None then copy_field message ''reasoning_content''
           else copy_field message ''thinking'')
        @ copy_field message ''refusal'' @ copy_field message ''tool_calls'')"

definition choice_value :: "nat \<times> json \<Rightarrow> json" where
  "choice_value ic =
     (case ic of (fallback_index, choice) \<Rightarrow>
        JObject
          [(''index'', JNumber (PosInt (case Option.bind (json_get choice ''index'') json_index of
                                          Some n \<Rightarrow> n | None \<Rightarrow> fallback_index))),
           (''delta'', choice_delta (json_get_or choice ''message'' JNull)),
           (''finish_reason'', json_get_or choice ''finish_reason'' JNull),
           (''logprobs'', json_get_or choice ''logprobs'' JNull)])"

definition completion_value :: "json \<Rightarrow> json list \<Rightarrow> json" where
  "completion_value response choices =
     JObject
       [(''id'', json_get_or response ''id'' JNull),
        (''object'', json_get_or response ''object'' (JString ''chat.completion'')),
        (''created'', json_get_or response ''created'' JNull),
        (''model'', json_get_or response ''model'' JNull),
        (''system_fingerprint'', json_get_or response ''system_fingerprint'' JNull),
        (''service_tier'', json_get_or response ''service_tier'' JNull),
        (''choices'', JArray (map choice_value (enumerate 0 choices))),
        (''usage'', json_get_or response ''usage'' JNull),
        (''prompt_progress'', json_get_or response ''prompt_progress'' JNull),
        (''timings'', json_get_or response ''timings'' JNull)]"

text \<open>The frames that stand for a response: their kind and payload.\<close>

definition synthetic_frames :: "model_protocol \<Rightarrow> json \<Rightarrow> string + (string \<times> json) list" where
  "synthetic_frames protocol response =
     (case protocol of
        model_protocol.MessagesV1 \<Rightarrow>
          Inr ((''message_start'', message_start_value response)
               # map (\<lambda>ib. (''content_block_start'', block_start_value ib))
                   (enumerate 0 (messages_v1_content_blocks response))
               @ [(''message_delta'', message_delta_value response)])
      | model_protocol.ChatCompat \<Rightarrow>
          map_sum id (\<lambda>choices. [('''', completion_value response choices)]) (require_chat_compat_choices response))"

text \<open>\<open>inject_synthetic_signal\<close> for each frame.\<close>

fun inject_frames ::
  "'z ingress_env_scheme \<Rightarrow> (string \<times> json) list \<Rightarrow> session
   \<Rightarrow> ((string + runtime_envelope list) \<times> session) option" where
  "inject_frames E [] ss = Some (Inr [], ss)"
| "inject_frames E ((kind, payload) # frames) ss =
     (case to_string (json_lib E) payload of
        None \<Rightarrow> Some (Inl ''failed to serialize'', ss)
      | Some t \<Rightarrow>
          (case process_sse_frame E kind t ss of
             None \<Rightarrow> None
           | Some (es, ss1) \<Rightarrow>
               (case inject_frames E frames ss1 of
                  None \<Rightarrow> None
                | Some (Inl e, ss2) \<Rightarrow> Some (Inl e, ss2)
                | Some (Inr es', ss2) \<Rightarrow> Some (Inr (es @ es'), ss2))))"

definition normalize_non_stream_response ::
  "'z ingress_env_scheme \<Rightarrow> model_protocol \<Rightarrow> string \<Rightarrow> stream_parser
   \<Rightarrow> (string + runtime_envelope list) option" where
  "normalize_non_stream_response E protocol body parser =
     (case from_str (json_lib E) body of
        None \<Rightarrow> Some (Inl ''response body was not valid JSON'')
      | Some response \<Rightarrow>
          (case synthetic_frames protocol response of
             Inl e \<Rightarrow> Some (Inl e)
           | Inr frames \<Rightarrow>
               map_option (\<lambda>(r, ss). map_sum id (\<lambda>es. es @ fst (finish_stream E ss)) r)
                 (inject_frames E frames (sp_session parser))))"

definition create_non_stream_fallback_stream ::
  "url_lib \<Rightarrow> rate_env \<Rightarrow> 'w http_lib \<Rightarrow> 'z ingress_env_scheme \<Rightarrow> stream_parser \<Rightarrow> model_request \<Rightarrow> 'w
   \<Rightarrow> ((string + runtime_envelope list) \<times> 'w) option" where
  "create_non_stream_fallback_stream U R H E parser req w =
     (let hs = AList.update ''accept'' ''application/json'' (mr_headers req);
          body = (case to_string (json_lib E) (non_stream_payload (mr_payload req)) of Some t \<Rightarrow> t | None \<Rightarrow> '''')
      in case retry_local_connect_errors U H (mr_url req) (hl_post H (mr_url req) hs body) w of
           (Inl e, w1) \<Rightarrow> Some (Inl (map_api_request_error U (hl_status_text H) e (mr_url req)), w1)
         | (Inr response, w1) \<Rightarrow>
             if \<not> is_success (hr_status response) then
               Some (Inl (map_api_status_error U R (hl_seconds H) (hl_reason H) (hr_status response) (hr_text response)
                            (mr_url req) (hr_retry_after response)), w1)
             else map_option (\<lambda>r. (map_sum (\<lambda>e. ''failed to normalize non-streaming fallback response'') id r, w1))
                    (normalize_non_stream_response E (mr_protocol req) (hr_text response) parser))"

section \<open>Opening a stream\<close>

text \<open>A stream that delivers: the first envelope and the state that delivers the rest, or the envelopes of a
  response without streaming.\<close>

datatype opened_stream = Live_stream "runtime_envelope option" signal_stream | Whole_response "runtime_envelope list"

definition open_signal_stream ::
  "url_lib \<Rightarrow> rate_env \<Rightarrow> 'w http_lib \<Rightarrow> 'z ingress_env_scheme \<Rightarrow> stream_parser \<Rightarrow> model_request \<Rightarrow> 'w
   \<Rightarrow> ((string + opened_stream) \<times> 'w) option" where
  "open_signal_stream U R H E parser req w =
     (let local = is_local_endpoint_url U (mr_url req);
          fallback = (\<lambda>w. map_option (\<lambda>(r, w1). (map_sum id Whole_response r, w1))
                            (create_non_stream_fallback_stream U R H E parser req w))
      in case send_streaming_request U R H req w of
           (Inl e, w1) \<Rightarrow> Some (Inl e, w1)
         | (Inr response, w1) \<Rightarrow>
             if local \<and> \<not> response_is_sse response then fallback w1
             else
               (case next_stream_item E (build_signal_stream_state (hr_body response) parser) of
                  None \<Rightarrow> None
                | Some (Inl e, s) \<Rightarrow> Some (Inl e, w1)
                | Some (Inr first, s) \<Rightarrow>
                    if local \<and> first = None then fallback w1 else Some (Inr (Live_stream first s), w1)))"

end
