(* ===== verification/Signal_Stream_Laws.thy ===== *)
theory Signal_Stream_Laws
  imports Signal_Stream
begin

text \<open>
  What a consumer gets from a signal stream: every envelope of the parser once and in order, whatever the
  order in which the stream is asked, and the same envelopes however the network cut the bytes.
\<close>

section \<open>Consuming a stream\<close>

text \<open>How much of a stream is left: what the network still has, whether the end was seen, what is pending.\<close>

definition stream_left :: "signal_stream \<Rightarrow> nat list" where
  "stream_left s = [length (sg_upstream s), of_bool (sg_terminal_outcome s = None), length (sg_pending s)]"

abbreviation stream_order :: "(signal_stream \<times> signal_stream) set" where
  "stream_order \<equiv> measures [\<lambda>s. length (sg_upstream s), \<lambda>s. of_bool (sg_terminal_outcome s = None),
                            \<lambda>s. length (sg_pending s)]"

lemma observe_signal_frame [simp]:
  "sg_upstream (observe_signal g s) = sg_upstream s" "sg_parser (observe_signal g s) = sg_parser s"
  "sg_pending (observe_signal g s) = sg_pending s"
  "sg_terminal_outcome (observe_signal g s) = sg_terminal_outcome s"
  "sg_envelope_count (observe_signal g s) = sg_envelope_count s"
  "sg_summary (observe_signal g s) = sg_summary s"
  by (cases g; simp)+

lemma observe_envelope_frame [simp]:
  "sg_upstream (observe_envelope e s) = sg_upstream s" "sg_parser (observe_envelope e s) = sg_parser s"
  "sg_pending (observe_envelope e s) = sg_pending s"
  "sg_terminal_outcome (observe_envelope e s) = sg_terminal_outcome s"
  "sg_envelope_count (observe_envelope e s) = Suc (sg_envelope_count s)"
  "sg_summary (observe_envelope e s) = sg_summary s"
  by (simp_all add: observe_envelope_def)

lemma emit_stream_summary_frame [simp]:
  "sg_envelope_count (emit_stream_summary x s) = sg_envelope_count s"
  "sg_upstream (emit_stream_summary x s) = sg_upstream s"
  by (simp_all add: emit_stream_summary_def)

lemma pending_finished_eq:
  "pending_finished E s =
     s\<lparr>sg_pending := sg_pending s @ fst (finish_parser E (sg_parser s)),
       sg_parser := snd (finish_parser E (sg_parser s))\<rparr>"
  by (simp add: pending_finished_def case_prod_beta)

lemma next_decreases:
  "next_stream_item E s = Some (Inr (Some e), s1) \<Longrightarrow> (s1, s) \<in> stream_order"
proof (induction E s rule: next_stream_item.induct)
  case (1 E s)
  show ?case
  proof (cases "sg_pending s")
    case (Cons p rest)
    with "1.prems" show ?thesis by (auto simp: next_stream_item.simps [of E s])
  next
    case Nil
    show ?thesis
    proof (cases "sg_terminal_outcome s")
      case (Some outcome)
      with Nil "1.prems" show ?thesis by (simp add: next_stream_item.simps [of E s])
    next
      case None
      show ?thesis
      proof (cases "sg_upstream s")
        case upstream: Nil
        with Nil None "1.prems" show ?thesis
          by (auto simp: next_stream_item.simps [of E s] finish_signal_stream_def pending_finished_eq Let_def
              split: list.splits)
      next
        case (Cons item us)
        note here = Nil None Cons
        show ?thesis
        proof (cases item)
          case (Broken_item err)
          with here "1.prems" show ?thesis by (simp add: next_stream_item.simps [of E s])
        next
          case (Bytes_item chunk)
          have shorter: "(s1, t) \<in> stream_order \<Longrightarrow> length (sg_upstream t) < length (sg_upstream s)
              \<Longrightarrow> (s1, s) \<in> stream_order" for t
            by auto
          show ?thesis
          proof (cases "chunk = ''''")
            case True
            with here Bytes_item "1.prems" "1.IH" (1) [OF here Bytes_item] show ?thesis
              by (auto intro: shorter simp: next_stream_item.simps [of E s])
          next
            case False
            with here Bytes_item "1.prems" obtain es p where
              run: "process E chunk (sg_parser s) = Some (Inr es, p)"
              by (auto simp: next_stream_item.simps [of E s] split: option.splits sum.splits prod.splits)
            define t where "t = (let s1 = s\<lparr>sg_upstream := us, sg_parser := p, sg_pending := es\<rparr>
              in if stream_terminated (sp_session p)
                 then (pending_finished E s1)\<lparr>sg_terminal_outcome := Some ''protocol_done''\<rparr> else s1)"
            from here Bytes_item False run have eq: "next_stream_item E s = next_stream_item E t"
              by (simp add: next_stream_item.simps [of E s] t_def Let_def)
            with "1.prems" "1.IH" (2) [OF here Bytes_item False run refl refl refl] have "(s1, t) \<in> stream_order"
              by (simp only: t_def Let_def)
            then show ?thesis
              by (rule shorter) (simp add: t_def Let_def pending_finished_eq here)
          qed
        qed
      qed
    qed
  qed
qed

text \<open>\<open>stream::try_unfold\<close> over \<open>next_stream_item\<close>: the envelopes, the error that ended them, the last state.\<close>

function drain ::
  "'z ingress_env_scheme \<Rightarrow> signal_stream \<Rightarrow> (runtime_envelope list \<times> string option \<times> signal_stream) option" where
  "drain E s =
     (case next_stream_item E s of
        None \<Rightarrow> None
      | Some (Inl err, s1) \<Rightarrow> Some ([], Some err, s1)
      | Some (Inr None, s1) \<Rightarrow> Some ([], None, s1)
      | Some (Inr (Some e), s1) \<Rightarrow> map_option (\<lambda>(es, r). (e # es, r)) (drain E s1))"
  by pat_completeness auto
termination
  by (relation "inv_image stream_order snd") (auto dest: next_decreases simp del: in_measures)

declare drain.simps [simp del]

text \<open>What the parser makes of the same network: the reference.\<close>

fun parser_items ::
  "'z ingress_env_scheme \<Rightarrow> upstream_item list \<Rightarrow> stream_parser \<Rightarrow> (runtime_envelope list \<times> string option) option" where
  "parser_items E [] p = Some (fst (finish_parser E p), None)"
| "parser_items E (Broken_item err # us) p = Some ([], Some err)"
| "parser_items E (Bytes_item chunk # us) p =
     (if chunk = '''' then parser_items E us p
      else case process E chunk p of
             None \<Rightarrow> None
           | Some (Inl err, p1) \<Rightarrow> Some ([], Some ''invalid utf-8 sequence'')
           | Some (Inr es, p1) \<Rightarrow>
               if stream_terminated (sp_session p1) then Some (es @ fst (finish_parser E p1), None)
               else map_option (\<lambda>(es', r). (es @ es', r)) (parser_items E us p1))"

definition stream_items ::
  "'z ingress_env_scheme \<Rightarrow> signal_stream \<Rightarrow> (runtime_envelope list \<times> string option) option" where
  "stream_items E s =
     (if sg_terminal_outcome s \<noteq> None then Some (sg_pending s, None)
      else map_option (\<lambda>(es, r). (sg_pending s @ es, r)) (parser_items E (sg_upstream s) (sg_parser s)))"

definition consumed :: "(runtime_envelope list \<times> string option \<times> signal_stream) \<Rightarrow> runtime_envelope list \<times> string option" where
  "consumed r = (case r of (es, err, s) \<Rightarrow> (es, err))"

lemma stream_items_step:
  "stream_items E s =
     (case next_stream_item E s of
        None \<Rightarrow> None
      | Some (Inl err, s1) \<Rightarrow> Some ([], Some err)
      | Some (Inr None, s1) \<Rightarrow> Some ([], None)
      | Some (Inr (Some e), s1) \<Rightarrow> map_option (\<lambda>(es, r). (e # es, r)) (stream_items E s1))"
proof (induction E s rule: next_stream_item.induct)
  case (1 E s)
  note unfold_next = next_stream_item.simps [of E s]
  show ?case
  proof (cases "sg_pending s")
    case (Cons p rest)
    then show ?thesis
      by (auto simp: unfold_next stream_items_def option.map_comp comp_def case_prod_unfold)
  next
    case Nil
    show ?thesis
    proof (cases "sg_terminal_outcome s")
      case (Some outcome)
      with Nil show ?thesis by (simp add: unfold_next stream_items_def)
    next
      case None
      show ?thesis
      proof (cases "sg_upstream s")
        case upstream: Nil
        with Nil None show ?thesis
          by (auto simp: unfold_next stream_items_def finish_signal_stream_def pending_finished_eq Let_def
              split: list.splits)
      next
        case (Cons item us)
        note here = Nil None Cons
        show ?thesis
        proof (cases item)
          case (Broken_item err)
          with here show ?thesis by (simp add: unfold_next stream_items_def)
        next
          case (Bytes_item chunk)
          show ?thesis
          proof (cases "chunk = ''''")
            case True
            with here Bytes_item "1.IH" (1) [OF here Bytes_item] show ?thesis
              by (simp add: unfold_next stream_items_def)
          next
            case False
            note IH = "1.IH" (2) [OF here Bytes_item False]
            show ?thesis
            proof (cases "process E chunk (sg_parser s)")
              case None
              with here Bytes_item False show ?thesis by (simp add: unfold_next stream_items_def)
            next
              case (Some rp)
              obtain r p where rp: "rp = (r, p)" by (cases rp)
              show ?thesis
              proof (cases r)
                case (Inl err)
                with here Bytes_item False Some rp show ?thesis by (simp add: unfold_next stream_items_def)
              next
                case (Inr es)
                note IH = IH [OF Some [unfolded rp Inr] refl refl refl]
                from here Bytes_item False Some rp Inr show ?thesis
                  by (subst unfold_next)
                     (simp add: Let_def IH [symmetric] stream_items_def pending_finished_eq option.map_comp
                       comp_def case_prod_unfold)
              qed
            qed
          qed
        qed
      qed
    qed
  qed
qed

lemma drain_items: "map_option consumed (drain E s) = stream_items E s"
proof (induction E s rule: drain.induct)
  case (1 E s)
  show ?case
  proof (cases "next_stream_item E s")
    case None
    then show ?thesis by (simp add: drain.simps [of E s] stream_items_step [of E s])
  next
    case (Some rs)
    obtain r s1 where rs: "rs = (r, s1)" by (cases rs)
    consider err where "r = Inl err" | "r = Inr None" | e where "r = Inr (Some e)"
      by (cases r) auto
    then show ?thesis
    proof cases
      case 3
      note IH = "1.IH" [OF Some rs [symmetric] 3 refl]
      show ?thesis
        by (simp add: drain.simps [of E s] stream_items_step [of E s] Some rs 3 IH [symmetric]
            option.map_comp comp_def consumed_def case_prod_unfold)
    qed (simp_all add: drain.simps [of E s] stream_items_step [of E s] Some rs consumed_def)
  qed
qed

lemma next_counts:
  "next_stream_item E s = Some (r, s1)
   \<Longrightarrow> sg_envelope_count s1 = sg_envelope_count s + (case r of Inr (Some e) \<Rightarrow> 1 | _ \<Rightarrow> 0)"
proof (induction E s rule: next_stream_item.induct)
  case (1 E s)
  note unfold_next = next_stream_item.simps [of E s]
  show ?case
  proof (cases "sg_pending s \<noteq> [] \<or> sg_terminal_outcome s \<noteq> None \<or> sg_upstream s = []")
    case True
    with "1.prems" show ?thesis
      by (auto simp: unfold_next finish_signal_stream_def pending_finished_eq Let_def split: list.splits option.splits)
  next
    case False
    then obtain item us where here: "sg_pending s = []" "sg_terminal_outcome s = None" "sg_upstream s = item # us"
      by (cases "sg_upstream s") auto
    show ?thesis
    proof (cases item)
      case (Broken_item err)
      with here "1.prems" show ?thesis by (auto simp: unfold_next)
    next
      case (Bytes_item chunk)
      show ?thesis
      proof (cases "chunk = ''''")
        case True
        with here Bytes_item "1.prems" "1.IH" (1) [OF here Bytes_item] show ?thesis
          by (simp add: unfold_next)
      next
        case False
        show ?thesis
        proof (cases "\<exists>es p. process E chunk (sg_parser s) = Some (Inr es, p)")
          case True
          then obtain es p where run: "process E chunk (sg_parser s) = Some (Inr es, p)" by blast
          from "1.IH" (2) [OF here Bytes_item False run refl refl refl] show ?thesis
            using here Bytes_item False run "1.prems" by (auto simp: unfold_next Let_def pending_finished_eq)
        next
          case broken: False
          with here Bytes_item False "1.prems" show ?thesis
            by (auto simp: unfold_next split: option.splits sum.splits prod.splits)
        qed
      qed
    qed
  qed
qed

lemma drain_counts:
  "drain E s = Some (es, err, s1) \<Longrightarrow> sg_envelope_count s1 = sg_envelope_count s + length es"
proof (induction E s arbitrary: es rule: drain.induct)
  case (1 E s)
  from "1.prems" obtain r s2 where run: "next_stream_item E s = Some (r, s2)"
    by (cases "next_stream_item E s") (auto simp: drain.simps [of E s])
  note seen = next_counts [OF run]
  consider e where "r = Inl e" | "r = Inr None" | e where "r = Inr (Some e)"
    by (cases r) auto
  then show ?case
  proof cases
    case 3
    from "1.IH" [OF run refl 3 refl] "1.prems" run 3 seen show ?thesis
      by (auto simp: drain.simps [of E s])
  qed (use "1.prems" run seen in \<open>auto simp: drain.simps [of E s]\<close>)
qed

lemma stream_items_start: "stream_items E (build_signal_stream_state us p) = parser_items E us p"
  by (simp add: stream_items_def build_signal_stream_state_def case_prod_unfold option.map_ident)

section \<open>What a consumer gets\<close>

text \<open>
  C16 [signal_stream_delivers]: consuming a signal stream one item at a time gives exactly what the parser
  makes of the network, in that order: the envelopes of each chunk, then those of finishing the parser, up
  to the end of the protocol, the end of the network or its first error; and the count in the summary of
  the stream is the number of envelopes delivered.
\<close>

theorem signal_stream_delivers:
  "map_option consumed (drain E (build_signal_stream_state us p)) = parser_items E us p
   \<and> (case drain E (build_signal_stream_state us p) of
        Some (es, err, s) \<Rightarrow> sg_envelope_count s = length es
      | None \<Rightarrow> True)"
proof -
  let ?s = "build_signal_stream_state us p"
  have "stream_items E ?s = parser_items E us p" by (rule stream_items_start)
  moreover have "sg_envelope_count ?s = 0" by (simp add: build_signal_stream_state_def)
  ultimately show ?thesis
    using drain_items [of E ?s] drain_counts [of E ?s] by (auto split: option.splits)
qed

section \<open>Chunks\<close>

lemma parsed_None_append: "parsed E n x = None \<Longrightarrow> parsed E n (x @ c) = None"
proof -
  assume none: "parsed E n x = None"
  then have "\<not> strict_prefix x UTF8_BOM" by (auto simp: parsed_def effective_def)
  from effective_append [OF this, of c] none sframes_append [of "effective x" c] show ?thesis
    by (simp add: parsed_def parse_frames_append case_prod_beta)
qed

lemma ok_Some: "ok r = Some (es, st) \<longleftrightarrow> r = Some (Inr es, st)"
  by (auto simp: ok_def split: option.splits sum.splits)

lemma ok_None: "ok r = None \<longleftrightarrow> r = None \<or> (\<exists>err st. r = Some (Inl err, st))"
  by (auto simp: ok_def split: option.splits sum.splits)

text \<open>A live stream after the bytes \<open>x\<close>, when no proper prefix of all its bytes ends the protocol.\<close>

definition ends_last :: "'z ingress_env_scheme \<Rightarrow> nat \<Rightarrow> string \<Rightarrow> bool" where
  "ends_last E n w \<longleftrightarrow>
     (\<forall>y es ss. strict_prefix y w \<longrightarrow> parsed E n y = Some (es, ss) \<longrightarrow> \<not> stream_terminated ss)"

lemma live_items:
  assumes "parsed E n x = Some (es, ss)" "after x ss st" "length (x @ concat cs) \<le> MAX_SSE_BUFFER_BYTES"
    and "ends_last E n (x @ concat cs)"
  shows "(case parsed E n (x @ concat cs) of
            None \<Rightarrow> \<forall>es'. parser_items E (map Bytes_item cs) st \<noteq> Some (es', None)
          | Some (es', ss') \<Rightarrow> \<exists>more. es' = es @ more
              \<and> parser_items E (map Bytes_item cs) st = Some (more @ fst (finish_stream E ss'), None))"
  using assms
proof (induction cs arbitrary: x es ss st)
  case Nil
  then show ?case by (simp add: finish_parser_def case_prod_beta after_def)
next
  case (Cons c cs)
  show ?case
  proof (cases "c = []")
    case True
    have all: "x @ concat (c # cs) = x @ concat cs" using True by simp
    have skip: "parser_items E (map Bytes_item (c # cs)) st = parser_items E (map Bytes_item cs) st"
      using True by simp
    from Cons.IH [OF Cons.prems(1,2) Cons.prems(3,4) [unfolded all]] show ?thesis
      by (simp only: all skip)
  next
    case False
    have len: "length (x @ c) \<le> MAX_SSE_BUFFER_BYTES" using Cons.prems(3) by simp
    note step = after_step [OF Cons.prems(1,2) len]
    show ?thesis
    proof (cases "parsed E n (x @ c)")
      case None
      with step have "ok (process E c st) = None" by simp
      then have "parser_items E (map Bytes_item (c # cs)) st \<noteq> Some (es', None)" for es'
        using False by (auto simp: ok_None)
      with parsed_None_append [OF None, of "concat cs"] show ?thesis by simp
    next
      case (Some r)
      obtain es1 ss1 where r: "r = (es1, ss1)" by (cases r)
      with step Some obtain more st1 where m: "es1 = es @ more" "process E c st = Some (Inr more, st1)"
        "after (x @ c) ss1 st1"
        by (auto simp: ok_Some)
      have session: "sp_session st1 = ss1" using m(3) by (simp add: after_def)
      show ?thesis
      proof (cases "stream_terminated ss1")
        case True
        have "\<not> strict_prefix (x @ c) (x @ concat (c # cs))"
          using Cons.prems(4) Some r True unfolding ends_last_def by blast
        then have all: "x @ concat (c # cs) = x @ c" by (auto simp: strict_prefix_def)
        from False True m session Some r show ?thesis
          by (simp only: all) (simp add: finish_parser_def case_prod_beta)
      next
        case live: False
        have ends: "ends_last E n ((x @ c) @ concat cs)" using Cons.prems(4) by simp
        have "length ((x @ c) @ concat cs) \<le> MAX_SSE_BUFFER_BYTES" using Cons.prems(3) by simp
        from Cons.IH [OF Some [unfolded r] m(3) this ends]
        show ?thesis using False live m session by (auto split: option.splits)
      qed
    qed
  qed
qed

lemma parsed_feed:
  assumes "length x \<le> MAX_SSE_BUFFER_BYTES" "parsed E n x = Some (es, ss)"
  shows "\<exists>st. feed_chunks E [x] (stream_parser_new n) = Some (Inr es, st) \<and> sp_session st = ss"
  using feed_parsed [of "[x]" E n] assms unfolding after_def by (auto simp: ok_Some)

lemma parsed_start:
  "parsed E n [] = Some ([], session_new n)" "after [] (session_new n) (stream_parser_new n)"
  by (simp_all add: parsed_def effective_def after_def stream_parser_new_def UTF8_BOM_def)

lemma drained: "drain E s = Some (es, err, t) \<Longrightarrow> stream_items E s = Some (es, err)"
  using drain_items [of E s] by (simp add: consumed_def)

lemma items_drained: "stream_items E s = Some (es, err) \<Longrightarrow> \<exists>t. drain E s = Some (es, err, t)"
  using drain_items [of E s] by (auto simp: consumed_def)


text \<open>
  What a consumer gets does not depend on how the network cuts the bytes,
  as long as the protocol does not end before the last byte: a stream that is consumed without an error
  yields the same envelopes from any other cut of its bytes, which fit the buffer of the parser.
\<close>

theorem stream_cut_invariant:
  assumes "concat cs = concat ds" and "length (concat cs) \<le> MAX_SSE_BUFFER_BYTES"
    and "\<And>x es st. strict_prefix x (concat cs) \<Longrightarrow> feed_chunks E [x] (stream_parser_new n) = Some (Inr es, st)
           \<Longrightarrow> \<not> stream_terminated (sp_session st)"
    and "drain E (build_signal_stream_state (map Bytes_item cs) (stream_parser_new n)) = Some (es, None, s)"
  shows "\<exists>t. drain E (build_signal_stream_state (map Bytes_item ds) (stream_parser_new n)) = Some (es, None, t)"
proof -
  have early: "ends_last E n ([] @ concat cs)"
    unfolding ends_last_def
  proof (intro allI impI)
    fix y es' ss'
    assume y: "strict_prefix y ([] @ concat cs)" "parsed E n y = Some (es', ss')"
    then have "length y \<le> MAX_SSE_BUFFER_BYTES"
      using assms(2) prefix_length_less [of y "concat cs"] by simp
    from parsed_feed [OF this y(2)] assms(3) y(1) show "\<not> stream_terminated ss'" by auto
  qed
  have len: "length ([] @ concat cs) \<le> MAX_SSE_BUFFER_BYTES" using assms(2) by simp
  note start = parsed_start(1) [of E n] parsed_start(2) [of n]
  from live_items [OF start len early] live_items [OF start len [unfolded assms(1)] early [unfolded assms(1)]]
  have "parser_items E (map Bytes_item ds) (stream_parser_new n) = Some (es, None)"
    using drained [OF assms(4)] assms(1) by (auto simp: stream_items_start split: option.splits)
  then show ?thesis by (intro items_drained) (simp add: stream_items_start)
qed

text \<open>A body without a line end, such as the JSON of an answer that is not streamed, is never parsed.\<close>

lemma unframed_body_silent:
  assumes "list_all (\<lambda>c. \<not> is_term c) body" "body \<noteq> []" "length body \<le> MAX_SSE_BUFFER_BYTES"
  shows "parser_items E [Bytes_item body] (stream_parser_new n) = Some ([], None)"
proof -
  have plain: "list_all (\<lambda>c. \<not> is_term c) y \<Longrightarrow> find_delim y = None" for y
    by (induction y) (simp_all add: find_delim_plain)
  have terms: "list_all (\<lambda>c. \<not> is_term c) y \<Longrightarrow> strip_terms y = y" for y
    by (cases y) simp_all
  have "list_all (\<lambda>c. \<not> is_term c) (effective body)"
    using assms(1) by (auto simp: effective_def list_all_iff dest: in_set_dropD)
  then have "fst (sframes (effective body)) = []"
    by (subst sframes.simps) (simp add: plain terms)
  then have p: "parsed E n body = Some ([], session_new n)" by (simp add: parsed_def)
  from after_step [OF parsed_start, of body E n] p assms(3) obtain st1 where
    run: "process E body (stream_parser_new n) = Some (Inr [], st1)" "after body (session_new n) st1"
    by (auto simp: ok_Some)
  from run(2) have "sp_session st1 = session_new n" by (simp add: after_def)
  with run(1) show ?thesis
    using assms(2) by (simp add: stream_terminated_def session_new_def finish_parser_def finish_stream_def)
qed

lemma sample_items:
  "\<exists>es. es \<noteq> []
     \<and> parser_items sample_ingress [Bytes_item (''data:x'' @ [newline, newline])] (stream_parser_new 1) = Some (es, None)"
  by (simp add: stream_eval_defs finish_parser_def finish_stream_def stream_terminated_def)

lemma sample_early:
  assumes "strict_prefix x (''data:x'' @ [newline, newline])"
    and "feed_chunks sample_ingress [x] (stream_parser_new 1) = Some (Inr es, st)"
  shows "\<not> stream_terminated (sp_session st)"
proof -
  obtain k where k: "k < 8" "x = take k (''data:x'' @ [newline, newline])"
    using assms(1) prefix_length_less [OF assms(1)]
    by (auto simp: strict_prefix_def prefix_def append_eq_conv_conj intro!: that [of "length x"])
  then have "k = 0 \<or> k = 1 \<or> k = 2 \<or> k = 3 \<or> k = 4 \<or> k = 5 \<or> k = 6 \<or> k = 7" by linarith
  with k(2) assms(2) show ?thesis
    by (elim disjE) (auto simp: stream_eval_defs stream_terminated_def)
qed

theorem stream_cut_invariant_witness:
  "\<exists>es s t. es \<noteq> []
     \<and> drain sample_ingress (build_signal_stream_state
         [Bytes_item (''data:x'' @ [newline, newline])] (stream_parser_new 1)) = Some (es, None, s)
     \<and> drain sample_ingress (build_signal_stream_state
         [Bytes_item ''da'', Bytes_item ''ta:x'', Bytes_item [newline, newline]] (stream_parser_new 1)) = Some (es, None, t)"
proof -
  let ?cs = "[''data:x'' @ [newline, newline]]"
  let ?ds = "[''da'', ''ta:x'', [newline, newline]]"
  obtain es where es: "es \<noteq> []" "parser_items sample_ingress (map Bytes_item ?cs) (stream_parser_new 1) = Some (es, None)"
    using sample_items by auto
  obtain s where run: "drain sample_ingress (build_signal_stream_state (map Bytes_item ?cs) (stream_parser_new 1))
      = Some (es, None, s)"
    using items_drained [OF es(2) [folded stream_items_start]] by blast
  have "concat ?cs = concat ?ds" "length (concat ?cs) \<le> MAX_SSE_BUFFER_BYTES"
    by (simp_all add: MAX_SSE_BUFFER_BYTES_def)
  moreover have "\<not> stream_terminated (sp_session st)"
    if "strict_prefix x (concat ?cs)" "feed_chunks sample_ingress [x] (stream_parser_new 1) = Some (Inr es', st)"
    for x es' st using sample_early [of x es' st] that by simp
  ultimately have "\<exists>t. drain sample_ingress
      (build_signal_stream_state (map Bytes_item ?ds) (stream_parser_new 1)) = Some (es, None, t)"
    using run by (rule stream_cut_invariant)
  with es(1) run show ?thesis by auto
qed

end
