(* ===== verification/Sandbox.thy ===== *)
theory Sandbox
  imports Validation
begin

text \<open>
  The sandboxes a command can run in (\<open>src/runtime/sandbox.rs\<close>): how each driver wraps a request, its probe,
  and the choice of a driver by the configuration, with the fallback to none. The environment variables, the
  directories that exist, the platform and the commands the probes run are parameters.
\<close>

datatype sandbox_kind = Passthrough_kind | Macos_exec_kind | Container_kind | Bubblewrap_kind

fun sandbox_kind_str :: "sandbox_kind \<Rightarrow> string" where
  "sandbox_kind_str Passthrough_kind = ''passthrough''"
| "sandbox_kind_str Macos_exec_kind = ''macos-exec''"
| "sandbox_kind_str Container_kind = ''container''"
| "sandbox_kind_str Bubblewrap_kind = ''bubblewrap''"

record sandbox_config =
  sc_kind :: sandbox_kind
  sc_profile :: "string option"
  sc_require :: bool

datatype platform = Linux_os | Mac_os | Other_os

text \<open>\<open>se_status\<close> is the run of a probe command: an error, or whether it succeeded and the text of its status.\<close>

record sandbox_env =
  se_current_dir :: "path option"
  se_is_dir :: "path \<Rightarrow> bool"
  se_is_file :: "path \<Rightarrow> bool"
  se_home_dir :: "string option"
  se_var :: "string \<Rightarrow> string option"
  se_platform :: platform
  se_status :: "string list \<Rightarrow> string + bool \<times> string"

datatype configured_sandbox =
    Passthrough_sandbox
  | Macos_exec "string option"
  | Container string
  | Bubblewrap "string list"

fun configured_kind :: "configured_sandbox \<Rightarrow> sandbox_kind" where
  "configured_kind Passthrough_sandbox = Passthrough_kind"
| "configured_kind (Macos_exec profile) = Macos_exec_kind"
| "configured_kind (Container img) = Container_kind"
| "configured_kind (Bubblewrap extra) = Bubblewrap_kind"

section \<open>The drivers\<close>

definition DEFAULT_MACOS_PROFILE :: string where
  "DEFAULT_MACOS_PROFILE =
     ''(version 1)'' @ [newline] @ ''(deny default)'' @ [newline] @ ''(allow process*)'' @ [newline]
     @ ''(allow file-read*)'' @ [newline] @ ''(allow file-write*)'' @ [newline] @ ''(allow network*)'' @ [newline]
     @ ''(allow sysctl-read)'' @ [newline] @ ''(allow mach-lookup)'' @ [newline] @ ''(allow signal)'' @ [newline]"

definition used_profile :: "string option \<Rightarrow> string option" where
  "used_profile profile = (case profile of Some p \<Rightarrow> if trim p \<noteq> '''' then Some p else None | None \<Rightarrow> None)"

definition macos_wrap :: "string option \<Rightarrow> command_request \<Rightarrow> string + command_request" where
  "macos_wrap profile req =
     Inr \<lparr>cq_program = ''sandbox-exec'',
          cq_args = (case used_profile profile of
                       Some p \<Rightarrow> [''-f'', p]
                     | None \<Rightarrow> [''-p'', DEFAULT_MACOS_PROFILE]) @ cq_program req # cq_args req,
          cq_working_dir = cq_working_dir req\<rparr>"

definition probe_status :: "sandbox_env \<Rightarrow> string list \<Rightarrow> string \<Rightarrow> string \<Rightarrow> string + unit" where
  "probe_status E command failed exited =
     (case se_status E command of
        Inl e \<Rightarrow> Inl failed
      | Inr (True, st) \<Rightarrow> Inr ()
      | Inr (False, st) \<Rightarrow> Inl (exited @ st))"

definition macos_probe :: "sandbox_env \<Rightarrow> string option \<Rightarrow> string + unit" where
  "macos_probe E profile =
     (if se_platform E = Mac_os then
        (case used_profile profile of
           Some p \<Rightarrow>
             if \<not> se_is_file E (components p)
             then Inl (''sandbox profile does not exist: '' @ p)
             else probe_status E [''sandbox-exec'', ''-p'', ''(version 1) (allow default)'', ''/usr/bin/true'']
                    ''failed to call sandbox-exec probe'' ''sandbox-exec probe exited with status ''
         | None \<Rightarrow> probe_status E [''sandbox-exec'', ''-p'', ''(version 1) (allow default)'', ''/usr/bin/true'']
                     ''failed to call sandbox-exec probe'' ''sandbox-exec probe exited with status '')
      else Inl ''sandbox-exec is only available on macOS'')"

definition no_image_error :: string where
  "no_image_error = ''container sandbox requires sandbox_profile to name the image''"

definition container_new :: "string \<Rightarrow> string + configured_sandbox" where
  "container_new img = (if trim img = '''' then Inl no_image_error else Inr (Container (trim img)))"

text \<open>The directory a command runs in.\<close>

definition host_dir :: "sandbox_env \<Rightarrow> command_request \<Rightarrow> path" where
  "host_dir E req =
     (case cq_working_dir req of
        Some d \<Rightarrow> d
      | None \<Rightarrow> (case se_current_dir E of Some d \<Rightarrow> d | None \<Rightarrow> components ''.''))"

definition container_wrap :: "sandbox_env \<Rightarrow> string \<Rightarrow> command_request \<Rightarrow> string + command_request" where
  "container_wrap E img req =
     (if trim img = '''' then Inl no_image_error
      else Inr \<lparr>cq_program = ''docker'',
                cq_args = [''run'', ''--rm'', ''-i'', ''-w'', ''/workspace'', ''-v'',
                           display_path (host_dir E req) @ '':/workspace'', img, cq_program req] @ cq_args req,
                cq_working_dir = None\<rparr>)"

definition container_probe :: "sandbox_env \<Rightarrow> string \<Rightarrow> string + unit" where
  "container_probe E img =
     (if trim img = '''' then Inl no_image_error
      else probe_status E [''docker'', ''run'', ''--rm'', img, ''true'']
             ''failed to call container probe'' ''container probe exited with status '')"

section \<open>Bubblewrap\<close>

definition bubblewrap_new :: "string option \<Rightarrow> configured_sandbox" where
  "bubblewrap_new profile = Bubblewrap (split_ws (utf8_chars (case profile of Some p \<Rightarrow> p | None \<Rightarrow> '''')) '''')"

definition SYSTEM_READ_ONLY_ROOTS :: "path list" where
  "SYSTEM_READ_ONLY_ROOTS =
     [[RootDir, Normal ''usr''], [RootDir, Normal ''lib''], [RootDir, Normal ''lib64''], [RootDir, Normal ''bin''],
      [RootDir, Normal ''sbin''], [RootDir, Normal ''etc'']]"

definition ro_bind_try :: "path \<Rightarrow> string list" where
  "ro_bind_try p = [''--ro-bind-try'', display_path p, display_path p]"

definition maybe_add :: "sandbox_env \<Rightarrow> path \<Rightarrow> path option \<Rightarrow> path list \<Rightarrow> path list" where
  "maybe_add E working_dir candidate roots =
     (case candidate of
        None \<Rightarrow> roots
      | Some p \<Rightarrow>
          if \<not> is_absolute p \<or> \<not> se_is_dir E p \<or> prefix working_dir p
             \<or> list_ex (\<lambda>root. prefix root p) SYSTEM_READ_ONLY_ROOTS \<or> list_ex (\<lambda>root. prefix root p) roots
          then roots else roots @ [p])"

text \<open>A variable, or a directory in the home directory when it is not set.\<close>

definition tool_home :: "sandbox_env \<Rightarrow> string \<Rightarrow> string \<Rightarrow> path option" where
  "tool_home E var dir =
     (case se_var E var of
        Some v \<Rightarrow> Some (components v)
      | None \<Rightarrow> map_option (\<lambda>home. join (components home) [Normal dir]) (se_home_dir E))"

definition extra_read_only_bind_roots :: "sandbox_env \<Rightarrow> path \<Rightarrow> path list" where
  "extra_read_only_bind_roots E working_dir =
     (let roots = maybe_add E working_dir (tool_home E ''RUSTUP_HOME'' ''.rustup'')
                    (maybe_add E working_dir (tool_home E ''CARGO_HOME'' ''.cargo'') [])
      in case se_var E ''PATH'' of
           None \<Rightarrow> roots
         | Some v \<Rightarrow> fold (\<lambda>entry. maybe_add E working_dir (Some (components entry))) (split_char CHR '':'' v) roots)"

definition fixed_bwrap_args :: "sandbox_env \<Rightarrow> path \<Rightarrow> string list" where
  "fixed_bwrap_args E working_dir =
     (let wd = display_path working_dir
      in [''--bind'', wd, wd, ''--chdir'', wd]
         @ concat (map ro_bind_try SYSTEM_READ_ONLY_ROOTS)
         @ concat (map ro_bind_try (extra_read_only_bind_roots E working_dir))
         @ [''--proc'', ''/proc'', ''--dev'', ''/dev'', ''--tmpfs'', ''/tmp''] @ [''--unshare-net''])"

definition bubblewrap_wrap :: "sandbox_env \<Rightarrow> string list \<Rightarrow> command_request \<Rightarrow> string + command_request" where
  "bubblewrap_wrap E extra_args req =
     Inr \<lparr>cq_program = ''bwrap'',
          cq_args = fixed_bwrap_args E (host_dir E req) @ extra_args @ [''--'', cq_program req] @ cq_args req,
          cq_working_dir = None\<rparr>"

definition bubblewrap_probe :: "sandbox_env \<Rightarrow> string + unit" where
  "bubblewrap_probe E =
     (if se_platform E = Linux_os then
        probe_status E
          [''bwrap'', ''--ro-bind'', ''/usr'', ''/usr'', ''--proc'', ''/proc'', ''--dev'', ''/dev'', ''--tmpfs'', ''/tmp'',
           ''--unshare-net'', ''--'', ''true'']
          ''failed to call bwrap probe'' ''bwrap probe exited with status ''
      else Inl ''bubblewrap (bwrap) is only available on Linux'')"

section \<open>The configured sandbox\<close>

fun sandbox_wrap :: "sandbox_env \<Rightarrow> configured_sandbox \<Rightarrow> command_request \<Rightarrow> string + command_request" where
  "sandbox_wrap E Passthrough_sandbox req = Inr req"
| "sandbox_wrap E (Macos_exec profile) req = macos_wrap profile req"
| "sandbox_wrap E (Container img) req = container_wrap E img req"
| "sandbox_wrap E (Bubblewrap extra) req = bubblewrap_wrap E extra req"

fun sandbox_probe :: "sandbox_env \<Rightarrow> configured_sandbox \<Rightarrow> string + unit" where
  "sandbox_probe E Passthrough_sandbox = Inr ()"
| "sandbox_probe E (Macos_exec profile) = macos_probe E profile"
| "sandbox_probe E (Container img) = container_probe E img"
| "sandbox_probe E (Bubblewrap extra) = bubblewrap_probe E"

definition preferred_sandbox :: "sandbox_config \<Rightarrow> string + configured_sandbox" where
  "preferred_sandbox cfg =
     (case sc_kind cfg of
        Passthrough_kind \<Rightarrow> Inr Passthrough_sandbox
      | Macos_exec_kind \<Rightarrow> Inr (Macos_exec (sc_profile cfg))
      | Container_kind \<Rightarrow> container_new (case sc_profile cfg of Some p \<Rightarrow> p | None \<Rightarrow> '''')
      | Bubblewrap_kind \<Rightarrow> Inr (bubblewrap_new (sc_profile cfg)))"

definition fallback_note :: "sandbox_kind \<Rightarrow> string" where
  "fallback_note kind =
     (case kind of
        Macos_exec_kind \<Rightarrow> '' (sandbox-exec is deprecated on modern macOS releases)''
      | Bubblewrap_kind \<Rightarrow> '' (bwrap not found or not usable on this platform)''
      | _ \<Rightarrow> '''')"

definition resolve_configured_sandbox ::
  "sandbox_env \<Rightarrow> sandbox_config \<Rightarrow> string + configured_sandbox \<times> string option" where
  "resolve_configured_sandbox E cfg =
     (if sc_require cfg \<and> sc_kind cfg = Passthrough_kind then
        Inl ''sandbox_require=true requires a non-passthrough sandbox driver''
      else case preferred_sandbox cfg of
             Inl e \<Rightarrow> Inl e
           | Inr preferred \<Rightarrow>
               (case sandbox_probe E preferred of
                  Inr _ \<Rightarrow> Inr (preferred, None)
                | Inl e \<Rightarrow>
                    if sc_require cfg then
                      Inl (''sandbox '' @ [CHR 0x27] @ sandbox_kind_str (sc_kind cfg) @ [CHR 0x27]
                           @ '' is required and no fallback is allowed'')
                    else
                      Inr (Passthrough_sandbox,
                           Some (''[sandbox] '' @ sandbox_kind_str (sc_kind cfg) @ '' unavailable''
                                 @ fallback_note (sc_kind cfg) @ '': '' @ e @ ''; falling back to passthrough''))))"

end
