(* ===== verification/Sandbox_Laws.thy ===== *)
theory Sandbox_Laws
  imports Sandbox Tool_Safety
begin

text \<open>
  What the sandboxes enforce. The command line of Bubblewrap is read back the way \<open>bwrap\<close> documents it:
  options are taken in order up to \<open>--\<close>, and a path of the sandbox shows the last mount at or above it.
\<close>

section \<open>The command line of bwrap\<close>

datatype bwrap_op =
    Bind string string
  | Ro_bind_try string string
  | Chdir string
  | Proc string
  | Dev string
  | Tmpfs string
  | Unshare_net

fun read_bwrap :: "string list \<Rightarrow> (bwrap_op list \<times> string list) option" where
  "read_bwrap (opt # rest) =
     (if opt = ''--'' then Some ([], rest)
      else if opt = ''--unshare-net'' then map_option (\<lambda>(ops, c). (Unshare_net # ops, c)) (read_bwrap rest)
      else case rest of
             [] \<Rightarrow> None
           | a # rest1 \<Rightarrow>
               if opt = ''--chdir'' then map_option (\<lambda>(ops, c). (Chdir a # ops, c)) (read_bwrap rest1)
               else if opt = ''--proc'' then map_option (\<lambda>(ops, c). (Proc a # ops, c)) (read_bwrap rest1)
               else if opt = ''--dev'' then map_option (\<lambda>(ops, c). (Dev a # ops, c)) (read_bwrap rest1)
               else if opt = ''--tmpfs'' then map_option (\<lambda>(ops, c). (Tmpfs a # ops, c)) (read_bwrap rest1)
               else (case rest1 of
                       [] \<Rightarrow> None
                     | b # rest2 \<Rightarrow>
                         if opt = ''--bind'' then map_option (\<lambda>(ops, c). (Bind a b # ops, c)) (read_bwrap rest2)
                         else if opt = ''--ro-bind-try''
                         then map_option (\<lambda>(ops, c). (Ro_bind_try a b # ops, c)) (read_bwrap rest2)
                         else None))"
| "read_bwrap [] = None"

fun mount_point :: "bwrap_op \<Rightarrow> path option" where
  "mount_point (Bind s d) = Some (components d)"
| "mount_point (Ro_bind_try s d) = Some (components d)"
| "mount_point (Proc d) = Some (components d)"
| "mount_point (Dev d) = Some (components d)"
| "mount_point (Tmpfs d) = Some (components d)"
| "mount_point _ = None"

definition covers :: "bwrap_op \<Rightarrow> path \<Rightarrow> bool" where
  "covers m p \<longleftrightarrow> (case mount_point m of Some d \<Rightarrow> prefix d p | None \<Rightarrow> False)"

text \<open>What a path of the sandbox shows: the last mount that covers it.\<close>

definition mount_at :: "bwrap_op list \<Rightarrow> path \<Rightarrow> bwrap_op option" where
  "mount_at ops p = (case filter (\<lambda>m. covers m p) (rev ops) of m # ms \<Rightarrow> Some m | [] \<Rightarrow> None)"

definition host_writable :: "bwrap_op list \<Rightarrow> path \<Rightarrow> bool" where
  "host_writable ops p \<longleftrightarrow> (case mount_at ops p of Some (Bind s d) \<Rightarrow> True | _ \<Rightarrow> False)"

section \<open>Paths and their text\<close>

text \<open>An absolute path whose components are names or dots, and names are as a text has them.\<close>

definition plain_seg :: "string \<Rightarrow> bool" where
  "plain_seg seg \<longleftrightarrow> seg \<noteq> '''' \<and> seg \<noteq> ''.'' \<and> seg \<noteq> ''..'' \<and> CHR ''/'' \<notin> set seg"

fun plain_component :: "component \<Rightarrow> bool" where
  "plain_component (Normal seg) = plain_seg seg"
| "plain_component ParentDir = True"
| "plain_component _ = False"

definition plain_path :: "path \<Rightarrow> bool" where
  "plain_path p \<longleftrightarrow> (\<exists>cs. p = RootDir # cs \<and> list_all plain_component cs)"

lemma piece_of_plain: "plain_component c \<Longrightarrow> piece_component (component_text c) = [c]"
  by (cases c) (auto simp: piece_component_def plain_seg_def)

lemma text_of_plain: "plain_component c \<Longrightarrow> CHR ''/'' \<notin> set (component_text c)"
  by (cases c) (auto simp: plain_seg_def)

lemma split_join:
  "list_all (\<lambda>t. d \<notin> set t) ts \<Longrightarrow> split_char d (join_with [d] ts) = (if ts = [] then [[]] else ts)"
proof (induction ts)
  case (Cons t ts)
  then show ?case
    by (cases ts) (auto simp: split_char_no_delim split_char_append_delim)
qed simp

lemma components_display:
  assumes "plain_path p"
  shows "components (display_path p) = p"
proof -
  obtain cs where p: "p = RootDir # cs" "list_all plain_component cs"
    using assms by (auto simp: plain_path_def)
  have "list_all (\<lambda>t. CHR ''/'' \<notin> set t) (map component_text cs)"
    using p(2) by (auto simp: list_all_iff text_of_plain)
  note split = split_join [OF this]
  have "concat (map (piece_component \<circ> component_text) cs) = cs"
    using p(2) by (induction cs) (auto simp: piece_of_plain)
  then show ?thesis
    by (auto simp: components_def display_path_def p(1) split piece_component_def)
qed

lemma plain_pieces: "list_all (\<lambda>t. CHR ''/'' \<notin> set t) ps \<Longrightarrow> list_all plain_component (concat (map piece_component ps))"
  by (induction ps) (auto simp: piece_component_def plain_seg_def)

lemma plain_components: "is_absolute (components s) \<Longrightarrow> plain_path (components s)"
proof -
  assume abs: "is_absolute (components s)"
  obtain p ps where s: "split_char CHR ''/'' s = p # ps" by (cases "split_char CHR ''/'' s") auto
  then have "list_all (\<lambda>t. CHR ''/'' \<notin> set t) ps"
    using split_char_pieces [of _ "CHR ''/''" s] by (auto simp: list_all_iff)
  with abs s plain_pieces [of ps] show ?thesis
    by (auto simp: components_def is_absolute_def plain_path_def piece_component_def split: if_splits)
qed

section \<open>What Bubblewrap leaves writable\<close>

definition ro_op :: "path \<Rightarrow> bwrap_op" where
  "ro_op p = Ro_bind_try (display_path p) (display_path p)"

text \<open>The mounts of a command, and those that lie above its working directory.\<close>

definition bwrap_plan :: "sandbox_env \<Rightarrow> path \<Rightarrow> bwrap_op list" where
  "bwrap_plan E wd =
     [Bind (display_path wd) (display_path wd), Chdir (display_path wd)]
     @ map ro_op (SYSTEM_READ_ONLY_ROOTS @ extra_read_only_bind_roots E wd)
     @ [Proc ''/proc'', Dev ''/dev'', Tmpfs ''/tmp'', Unshare_net]"

definition overlays :: "sandbox_env \<Rightarrow> path \<Rightarrow> path list" where
  "overlays E wd =
     SYSTEM_READ_ONLY_ROOTS @ extra_read_only_bind_roots E wd
     @ [[RootDir, Normal ''proc''], [RootDir, Normal ''dev''], [RootDir, Normal ''tmp'']]"

lemma read_ro:
  "read_bwrap (concat (map ro_bind_try roots) @ rest) =
     map_option (\<lambda>(ops, c). (map ro_op roots @ ops, c)) (read_bwrap rest)"
proof (induction roots)
  case Nil
  show ?case by (simp add: case_prod_unfold option.map_ident)
next
  case (Cons r roots)
  then show ?case
    by (simp add: ro_bind_try_def ro_op_def option.map_comp comp_def case_prod_unfold)
qed

lemma read_fixed: "read_bwrap (fixed_bwrap_args E wd @ ''--'' # command) = Some (bwrap_plan E wd, command)"
proof -
  have mounts: "read_bwrap ([''--proc'', ''/proc'', ''--dev'', ''/dev'', ''--tmpfs'', ''/tmp''] @ [''--unshare-net''] @ ''--'' # command)
      = Some ([Proc ''/proc'', Dev ''/dev'', Tmpfs ''/tmp'', Unshare_net], command)"
    by simp
  have "read_bwrap ([''--bind'', a, a, ''--chdir'', a] @ rest)
      = map_option (\<lambda>(ops, c). (Bind a a # Chdir a # ops, c)) (read_bwrap rest)" for a rest
    by (simp add: option.map_comp comp_def case_prod_unfold)
  then show ?thesis
    by (simp only: fixed_bwrap_args_def Let_def append_assoc read_ro mounts bwrap_plan_def)
       simp
qed

lemma mount_at_append:
  "mount_at (a @ b) p = (case mount_at b p of Some m \<Rightarrow> Some m | None \<Rightarrow> mount_at a p)"
  by (auto simp: mount_at_def split: list.splits)

lemma mount_at_None: "mount_at ops p = None \<longleftrightarrow> list_all (\<lambda>m. \<not> covers m p) ops"
proof -
  have "filter (\<lambda>m. covers m p) (rev ops) = [] \<longleftrightarrow> list_all (\<lambda>m. \<not> covers m p) ops"
    by (auto simp: filter_empty_conv list_all_iff)
  then show ?thesis by (cases "filter (\<lambda>m. covers m p) (rev ops)") (simp_all add: mount_at_def)
qed

lemma mount_at_in: "mount_at ops p = Some m \<Longrightarrow> m \<in> set ops \<and> covers m p"
proof -
  assume "mount_at ops p = Some m"
  then have "m \<in> set (filter (\<lambda>m. covers m p) (rev ops))"
    by (cases "filter (\<lambda>m. covers m p) (rev ops)") (simp_all add: mount_at_def)
  then show ?thesis by simp
qed

lemma host_writable_over:
  assumes "list_all (\<lambda>m. \<forall>s d. m \<noteq> Bind s d) b"
  shows "host_writable (a @ b) p \<longleftrightarrow> host_writable a p \<and> list_all (\<lambda>m. \<not> covers m p) b"
proof (cases "mount_at b p")
  case None
  then show ?thesis by (simp add: host_writable_def mount_at_append mount_at_None [symmetric])
next
  case (Some m)
  with assms have "\<not> host_writable (a @ b) p" "\<not> list_all (\<lambda>m. \<not> covers m p) b"
    using mount_at_in [OF Some] by (auto simp: host_writable_def mount_at_append list_all_iff split: bwrap_op.splits)
  then show ?thesis by simp
qed

lemma join_absolute: "is_absolute (join (components h) [Normal d]) \<Longrightarrow> plain_seg d \<Longrightarrow> plain_path (join (components h) [Normal d])"
  using plain_components [of h]
  by (auto simp: join_def is_absolute_def plain_path_def split: if_splits)

lemma tool_home_plain:
  "tool_home E var d = Some p \<Longrightarrow> is_absolute p \<Longrightarrow> plain_seg d \<Longrightarrow> plain_path p"
  by (auto simp: tool_home_def plain_components join_absolute split: option.splits)

lemma maybe_add_plain:
  "list_all plain_path roots \<Longrightarrow> (\<And>p. candidate = Some p \<Longrightarrow> is_absolute p \<Longrightarrow> plain_path p)
   \<Longrightarrow> list_all plain_path (maybe_add E wd candidate roots)"
  by (auto simp: maybe_add_def split: option.splits)

lemma fold_maybe_add_plain:
  "list_all plain_path roots
   \<Longrightarrow> list_all plain_path (fold (\<lambda>entry. maybe_add E wd (Some (components entry))) entries roots)"
proof (induction entries arbitrary: roots)
  case (Cons a entries)
  have "list_all plain_path (maybe_add E wd (Some (components a)) roots)"
    by (rule maybe_add_plain [OF Cons.prems]) (simp add: plain_components)
  then show ?case by (simp add: Cons.IH)
qed simp

lemma extra_roots_plain: "list_all plain_path (extra_read_only_bind_roots E wd)"
proof -
  have "plain_seg ''.cargo''" "plain_seg ''.rustup''" by (simp_all add: plain_seg_def)
  then show ?thesis
    by (auto simp: extra_read_only_bind_roots_def Let_def split: option.splits
        intro!: maybe_add_plain fold_maybe_add_plain dest: tool_home_plain)
qed

lemma system_roots_plain: "list_all plain_path SYSTEM_READ_ONLY_ROOTS"
  by (simp add: SYSTEM_READ_ONLY_ROOTS_def plain_path_def plain_seg_def)

lemma covers_ro: "plain_path r \<Longrightarrow> covers (ro_op r) p \<longleftrightarrow> prefix r p"
  by (simp add: covers_def ro_op_def components_display)

lemma special_mounts:
  "components ''/proc'' = [RootDir, Normal ''proc'']" "components ''/dev'' = [RootDir, Normal ''dev'']"
  "components ''/tmp'' = [RootDir, Normal ''tmp'']"
  by code_simp+

lemma bwrap_writes:
  assumes "plain_path wd"
  shows "host_writable (bwrap_plan E wd) p \<longleftrightarrow> prefix wd p \<and> list_all (\<lambda>r. \<not> prefix r p) (overlays E wd)"
proof -
  let ?roots = "SYSTEM_READ_ONLY_ROOTS @ extra_read_only_bind_roots E wd"
  have roots: "list_all (\<lambda>m. \<not> covers m p) (map ro_op ?roots) \<longleftrightarrow> list_all (\<lambda>r. \<not> prefix r p) ?roots"
    using system_roots_plain extra_roots_plain [of E wd]
    by (simp add: list_all_iff ball_Un) (metis covers_ro)
  have first: "host_writable [Bind (display_path wd) (display_path wd), Chdir (display_path wd)] p \<longleftrightarrow> prefix wd p"
    by (simp add: host_writable_def mount_at_def covers_def components_display [OF assms])
  have over: "list_all (\<lambda>m. \<forall>s d. m \<noteq> Bind s d) (map ro_op ?roots @ [Proc ''/proc'', Dev ''/dev'', Tmpfs ''/tmp'', Unshare_net])"
    by (auto simp: list_all_iff ro_op_def)
  have specials: "list_all (\<lambda>m. \<not> covers m p) [Proc ''/proc'', Dev ''/dev'', Tmpfs ''/tmp'', Unshare_net]
      \<longleftrightarrow> list_all (\<lambda>r. \<not> prefix r p) [[RootDir, Normal ''proc''], [RootDir, Normal ''dev''], [RootDir, Normal ''tmp'']]"
    by (simp add: covers_def special_mounts)
  show ?thesis
    using host_writable_over [OF over, of "[Bind (display_path wd) (display_path wd), Chdir (display_path wd)]" p]
    by (simp only: bwrap_plan_def overlays_def first list_all_append roots specials)
       (auto simp: list_all_append)
qed

text \<open>A working directory below \<open>/tmp\<close>, or below a directory of the search path, is hidden or read-only.\<close>

lemma working_dir_hidden:
  assumes "plain_path wd" "r \<in> set (overlays E wd)" "prefix r wd"
  shows "\<not> host_writable (bwrap_plan E wd) p"
  using assms by (auto simp: bwrap_writes list_all_iff dest: prefix_order.trans)

text \<open>
  C17 [sandbox_confines_writes]: a command wrapped by Bubblewrap without a profile runs exactly the program and
  the arguments it was given, without a network, and a path is writable on the host exactly when it lies in
  the working directory and in none of the directories that are mounted over it: the system directories, the
  tool directories of the search path, and \<open>/proc\<close>, \<open>/dev\<close> and \<open>/tmp\<close>.
\<close>

theorem sandbox_confines_writes:
  assumes "plain_path (host_dir E req)"
  shows "\<exists>args ops. sandbox_wrap E (bubblewrap_new None) req
           = Inr \<lparr>cq_program = ''bwrap'', cq_args = args, cq_working_dir = None\<rparr>
       \<and> read_bwrap args = Some (ops, cq_program req # cq_args req)
       \<and> Unshare_net \<in> set ops
       \<and> host_writable ops p = (prefix (host_dir E req) p
            \<and> list_all (\<lambda>r. \<not> prefix r p) (overlays E (host_dir E req)))"
proof (intro exI conjI)
  show "sandbox_wrap E (bubblewrap_new None) req
      = Inr \<lparr>cq_program = ''bwrap'', cq_args = fixed_bwrap_args E (host_dir E req) @ ''--'' # cq_program req # cq_args req,
             cq_working_dir = None\<rparr>"
    by (simp add: bubblewrap_new_def bubblewrap_wrap_def)
  show "read_bwrap (fixed_bwrap_args E (host_dir E req) @ ''--'' # cq_program req # cq_args req)
      = Some (bwrap_plan E (host_dir E req), cq_program req # cq_args req)"
    by (rule read_fixed)
  show "Unshare_net \<in> set (bwrap_plan E (host_dir E req))" by (simp add: bwrap_plan_def)
  show "host_writable (bwrap_plan E (host_dir E req)) p = (prefix (host_dir E req) p
            \<and> list_all (\<lambda>r. \<not> prefix r p) (overlays E (host_dir E req)))"
    using assms by (rule bwrap_writes)
qed

definition sample_sandbox_env :: sandbox_env where
  "sample_sandbox_env =
     \<lparr>se_current_dir = None, se_is_dir = (\<lambda>p. True), se_is_file = (\<lambda>p. True), se_home_dir = Some ''/home/u'',
      se_var = (\<lambda>v. if v = ''PATH'' then Some ''/usr/bin:/opt/x'' else None), se_platform = Linux_os,
      se_status = (\<lambda>c. Inr (True, ''''))\<rparr>"

definition sample_request :: command_request where
  "sample_request =
     \<lparr>cq_program = ''make'', cq_args = [''test''],
      cq_working_dir = Some [RootDir, Normal ''home'', Normal ''u'', Normal ''p'']\<rparr>"

theorem sandbox_confines_writes_witness:
  "\<exists>args ops. sandbox_wrap sample_sandbox_env (bubblewrap_new None) sample_request
         = Inr \<lparr>cq_program = ''bwrap'', cq_args = args, cq_working_dir = None\<rparr>
     \<and> read_bwrap args = Some (ops, [''make'', ''test'']) \<and> Unshare_net \<in> set ops
     \<and> host_writable ops [RootDir, Normal ''home'', Normal ''u'', Normal ''p'', Normal ''out'']"
proof -
  let ?p = "[RootDir, Normal ''home'', Normal ''u'', Normal ''p'', Normal ''out'']"
  have plain: "plain_path (host_dir sample_sandbox_env sample_request)"
    by (simp add: host_dir_def sample_request_def plain_path_def plain_seg_def)
  have inside: "prefix (host_dir sample_sandbox_env sample_request) ?p" by code_simp
  have free: "list_all (\<lambda>r. \<not> prefix r ?p) (overlays sample_sandbox_env (host_dir sample_sandbox_env sample_request))"
    by code_simp
  have "cq_program sample_request # cq_args sample_request = [''make'', ''test'']" by (simp add: sample_request_def)
  with sandbox_confines_writes [OF plain, of ?p] inside free show ?thesis by simp
qed

section \<open>The choice of a sandbox\<close>

text \<open>
  C18 [required_sandbox_is_used]: a configuration that requires a sandbox is refused or gets a driver of the
  kind it names, which is not the one that does nothing; one that does not require it and falls back to none
  always says so.
\<close>

theorem required_sandbox_is_used:
  "(case resolve_configured_sandbox E cfg of
      Inl e \<Rightarrow> True
    | Inr (sandbox, warning) \<Rightarrow>
        (if sc_require cfg then configured_kind sandbox = sc_kind cfg \<and> sandbox \<noteq> Passthrough_sandbox \<and> warning = None
         else configured_kind sandbox = sc_kind cfg \<and> warning = None \<and> sandbox_probe E sandbox = Inr ()
              \<or> sandbox = Passthrough_sandbox \<and> (\<exists>t. warning = Some t)))"
  by (auto simp: resolve_configured_sandbox_def preferred_sandbox_def container_new_def bubblewrap_new_def
      split: sum.splits sandbox_kind.splits if_splits)

end
