(* ===== verification/Memory_Notes.thy ===== *)
theory Memory_Notes
  imports Tool_Paths History
begin

text \<open>
  What the assistant remembers between sessions (\<open>src/auto_memory.rs\<close>, \<open>src/runtime/memory_candidates.rs\<close>,
  \<open>src/session_notes.rs\<close>) and the instructions of a project (\<open>src/runtime/project_instructions.rs\<close>,
  \<open>src/workspace.rs\<close>): notes extracted from a response, the store of candidates with its Markdown
  projection, and what of both is put into the prompt within a token budget. The token counter, the JSON form
  of the store, environment variables and which characters beyond ASCII are letters are parameters.
\<close>

section \<open>Writing a file safely\<close>

definition file_name :: "path \<Rightarrow> string option" where
  "file_name p = (if p = [] then None else case last p of Normal name \<Rightarrow> Some name | _ \<Rightarrow> None)"

definition write_bytes_safe :: "'d disk \<Rightarrow> path \<Rightarrow> string \<Rightarrow> string \<Rightarrow> 'd \<Rightarrow> (string + unit) \<times> 'd" where
  "write_bytes_safe D p bytes label d =
     (case parent p of
        None \<Rightarrow> (Inl (''missing parent directory for '' @ label), d)
      | Some dir \<Rightarrow>
          (case dk_create_dir_all D dir d of
             (Inl e, d1) \<Rightarrow> (Inl (''failed to create directory for '' @ label), d1)
           | (Inr _, d1) \<Rightarrow>
               (case file_name p of
                  None \<Rightarrow> (Inl (''invalid file name for '' @ label), d1)
                | Some name \<Rightarrow>
                    (let temp = join dir [Normal (name @ ''.tmp'')]
                     in case dk_write D temp bytes d1 of
                          (Inl e, d2) \<Rightarrow> (Inl (''failed to write temp '' @ label), d2)
                        | (Inr _, d2) \<Rightarrow>
                            (case dk_rename D temp p d2 of
                               (Inl e, d3) \<Rightarrow> (Inl (''failed to rename '' @ label), d3)
                             | (Inr _, d3) \<Rightarrow> (Inr (), d3))))))"

section \<open>Notes of a response\<close>

definition fence_mark :: string where
  "fence_mark = [CHR 0x60, CHR 0x60, CHR 0x60]"

definition tick_mark :: string where
  "tick_mark = [CHR 0x60]"

definition after_str :: "string \<Rightarrow> string \<Rightarrow> string option" where
  "after_str p s = (if starts_with s p then Some (drop (length p) s) else None)"

text \<open>\<open>char::is_alphanumeric\<close>; beyond ASCII it is a parameter.\<close>

definition is_alphanumeric :: "(string \<Rightarrow> bool) \<Rightarrow> string \<Rightarrow> bool" where
  "is_alphanumeric wide g =
     (case map byte_val g of
        [b] \<Rightarrow> (48 \<le> b \<and> b \<le> 57) \<or> (65 \<le> b \<and> b \<le> 90) \<or> (97 \<le> b \<and> b \<le> 122)
      | _ \<Rightarrow> wide g)"

definition strip_bullet_prefix :: "(string \<Rightarrow> bool) \<Rightarrow> string \<Rightarrow> string option" where
  "strip_bullet_prefix wide l =
     (case after_str ''- '' l of
        Some rest \<Rightarrow> Some rest
      | None \<Rightarrow>
          (case after_str ''* '' l of
             Some rest \<Rightarrow> Some rest
           | None \<Rightarrow>
               (case utf8_chars l of
                  [] \<Rightarrow> None
                | first # chars \<Rightarrow>
                    (let rest = concat chars
                     in if \<not> is_alphanumeric wide first \<and> \<not> is_ws first \<and> starts_with rest '' ''
                        then Some (trim_start rest) else None))))"

definition is_numbered :: "string \<Rightarrow> bool" where
  "is_numbered l = (case split_once l ''. '' of Some (number, rest) \<Rightarrow> list_all is_digit number | None \<Rightarrow> False)"

definition is_key_value :: "string \<Rightarrow> bool" where
  "is_key_value l \<longleftrightarrow>
     contains l '': '' \<and> \<not> starts_with l ''//''
     \<and> list_all (\<lambda>p. \<not> contains l p) [''::'', ''{'', ''}'', ''['', '']'', tick_mark, '';'']"

definition looks_structured :: "string \<Rightarrow> bool" where
  "looks_structured c \<longleftrightarrow>
     list_ex (contains c) [fence_mark, ''{'', ''}'', ''['', '']'', tick_mark, ''::'', '';'']
     \<or> list_ex (starts_with c) [''fn '', ''let '', ''pub '', ''impl '']"

text \<open>The note of a line that is not blank, if it is one.\<close>

definition note_of_line :: "(string \<Rightarrow> bool) \<Rightarrow> string \<Rightarrow> string option" where
  "note_of_line wide l =
     (let bullet = strip_bullet_prefix wide l
      in if bullet \<noteq> None \<or> is_numbered l \<or> is_key_value l then
           (let content = (case bullet of Some b \<Rightarrow> trim b | None \<Rightarrow> l)
            in if content \<noteq> '''' \<and> \<not> looks_structured content then Some content else None)
         else None)"

fun extract_lines :: "(string \<Rightarrow> bool) \<Rightarrow> nat \<Rightarrow> string list \<Rightarrow> bool \<Rightarrow> string list \<Rightarrow> string list" where
  "extract_lines wide max_notes [] in_code notes = notes"
| "extract_lines wide max_notes (l # ls) in_code notes =
     (let trimmed = trim l
      in if starts_with trimmed fence_mark then extract_lines wide max_notes ls (\<not> in_code) notes
         else if in_code \<or> trimmed = '''' then extract_lines wide max_notes ls in_code notes
         else (let notes1 = notes @ (case note_of_line wide trimmed of Some n \<Rightarrow> [n] | None \<Rightarrow> [])
               in if length notes1 \<ge> max_notes then notes1 else extract_lines wide max_notes ls in_code notes1))"

definition extract_notes_from_turn :: "(string \<Rightarrow> bool) \<Rightarrow> string \<Rightarrow> nat \<Rightarrow> string list" where
  "extract_notes_from_turn wide response max_notes =
     (if max_notes = 0 then [] else extract_lines wide max_notes (str_lines response) False [])"

definition format_auto_note :: "nat \<Rightarrow> string \<Rightarrow> string" where
  "format_auto_note timestamp_seconds note = ''['' @ nat_dec timestamp_seconds @ ''] [auto] '' @ note"

definition format_auto_notes :: "string list \<Rightarrow> nat \<Rightarrow> string list" where
  "format_auto_notes notes timestamp_seconds = map (format_auto_note timestamp_seconds) notes"

definition is_auto_note_line :: "string \<Rightarrow> bool" where
  "is_auto_note_line l =
     (case after_str ''['' (trim_start l) of
        None \<Rightarrow> False
      | Some rest \<Rightarrow>
          (case split_once rest ''] '' of
             None \<Rightarrow> False
           | Some (timestamp, tail) \<Rightarrow>
               timestamp \<noteq> '''' \<and> list_all is_digit timestamp \<and> starts_with tail ''[auto] ''))"

definition remove_auto_notes :: "'d disk \<Rightarrow> path \<Rightarrow> 'd \<Rightarrow> (string + nat) \<times> 'd" where
  "remove_auto_notes D p d =
     (if \<not> dk_exists D d p then (Inr 0, d)
      else case dk_read_to_string D d p of
             Inl e \<Rightarrow> (Inl (io_message e), d)
           | Inr content \<Rightarrow>
               (let kept = filter (\<lambda>l. \<not> is_auto_note_line l) (str_lines content);
                    removed = filter is_auto_note_line (str_lines content);
                    joined = join_with [newline] kept
                in case dk_write D p (if joined = '''' then '''' else joined @ [newline]) d of
                     (Inl e, d1) \<Rightarrow> (Inl (io_message e), d1)
                   | (Inr _, d1) \<Rightarrow> (Inr (length removed), d1)))"

section \<open>Candidates\<close>

datatype candidate_source = User_source | Feedback_source | Project_source | Reference_source

datatype candidate_status = Pending_candidate | Accepted_candidate

record memory_candidate =
  mc_source :: candidate_source
  mc_topic :: string
  mc_body :: string
  mc_status :: candidate_status
  mc_reference :: string

record candidate_store =
  cs_schema_version :: nat
  cs_candidates :: "memory_candidate list"

definition MEMORY_CANDIDATES_SCHEMA_VERSION :: nat where
  "MEMORY_CANDIDATES_SCHEMA_VERSION = 1"

definition candidate_store_new :: candidate_store where
  "candidate_store_new = \<lparr>cs_schema_version = MEMORY_CANDIDATES_SCHEMA_VERSION, cs_candidates = []\<rparr>"

definition topic_from :: "string \<Rightarrow> string" where
  "topic_from body =
     (let trimmed = trim body
      in if length (utf8_chars trimmed) \<le> 48 then trimmed
         else concat (take 48 (utf8_chars trimmed)) @ ''...'')"

definition strip_auto_note_body :: "string \<Rightarrow> string" where
  "strip_auto_note_body l =
     (let trimmed = trim_start l
      in case Option.bind (Option.bind (after_str ''['' trimmed) (\<lambda>rest. split_once rest ''] ''))
                (\<lambda>(stamp, tail). after_str ''[auto] '' tail) of
           Some body \<Rightarrow> body
         | None \<Rightarrow> trimmed)"

definition parse_auto_timestamp :: "string \<Rightarrow> string" where
  "parse_auto_timestamp l =
     (case Option.bind (after_str ''['' (trim_start l)) (\<lambda>rest. split_once rest '']'') of
        Some (timestamp, tail) \<Rightarrow> if timestamp \<noteq> '''' \<and> list_all is_digit timestamp then timestamp else ''0''
      | None \<Rightarrow> ''0'')"

definition feedback_candidate :: "string \<Rightarrow> memory_candidate" where
  "feedback_candidate l =
     (let body = strip_auto_note_body l
      in \<lparr>mc_source = Feedback_source, mc_topic = topic_from body, mc_body = body, mc_status = Pending_candidate,
          mc_reference = ''auto:'' @ parse_auto_timestamp l\<rparr>)"

definition user_candidate :: "string \<Rightarrow> string \<Rightarrow> memory_candidate" where
  "user_candidate reference body =
     \<lparr>mc_source = User_source, mc_topic = topic_from body, mc_body = body, mc_status = Accepted_candidate,
      mc_reference = reference\<rparr>"

definition migrate_line :: "string \<Rightarrow> memory_candidate option" where
  "migrate_line l =
     (let trimmed = trim l
      in if trimmed = '''' then None
         else if is_auto_note_line trimmed then Some (feedback_candidate trimmed)
         else Some (user_candidate ''memory.md'' trimmed))"

definition migrate_markdown_lines :: "string \<Rightarrow> memory_candidate list" where
  "migrate_markdown_lines content = List.map_filter migrate_line (str_lines content)"

definition render_candidate :: "memory_candidate \<Rightarrow> string" where
  "render_candidate c =
     (case mc_source c of
        Feedback_source \<Rightarrow>
          (case after_str ''auto:'' (mc_reference c) of
             Some timestamp \<Rightarrow> ''['' @ timestamp @ ''] [auto] '' @ mc_body c @ [newline]
           | None \<Rightarrow> ''[0] [auto] '' @ mc_body c @ [newline])
      | _ \<Rightarrow> mc_body c @ [newline])"

definition render_notes_markdown :: "memory_candidate list \<Rightarrow> string" where
  "render_notes_markdown cs = concat (map render_candidate cs)"

section \<open>The store\<close>

text \<open>The JSON text of a store and its reading are those of the library.\<close>

record 'd memory_env =
  my_disk :: "'d disk"
  my_encode :: "candidate_store \<Rightarrow> string"
  my_decode :: "string \<Rightarrow> candidate_store option"
  my_tokens :: "string \<Rightarrow> nat"
  my_var :: "string \<Rightarrow> string option"

definition candidates_path :: "path \<Rightarrow> path" where
  "candidates_path notes_path = with_extension ''candidates.json'' notes_path"

definition store_save :: "'d memory_env \<Rightarrow> path \<Rightarrow> candidate_store \<Rightarrow> 'd \<Rightarrow> (string + unit) \<times> 'd" where
  "store_save M p store d = write_bytes_safe (my_disk M) p (my_encode M store) ''memory candidates'' d"

definition store_load :: "'d memory_env \<Rightarrow> path \<Rightarrow> 'd \<Rightarrow> string + candidate_store" where
  "store_load M p d =
     (case dk_read_to_string (my_disk M) d p of
        Inl e \<Rightarrow> Inl (''Failed to read memory candidates: '' @ display_path p)
      | Inr content \<Rightarrow>
          (case my_decode M content of
             Some store \<Rightarrow> Inr store
           | None \<Rightarrow> Inl (''Failed to deserialize memory candidates: '' @ display_path p)))"

definition persist_store :: "'d memory_env \<Rightarrow> path \<Rightarrow> candidate_store \<Rightarrow> 'd \<Rightarrow> (string + unit) \<times> 'd" where
  "persist_store M notes_path store d =
     (case (case parent notes_path of
              Some dir \<Rightarrow> dk_create_dir_all (my_disk M) dir d
            | None \<Rightarrow> (Inr (), d)) of
        (Inl e, d1) \<Rightarrow> (Inl (io_message e), d1)
      | (Inr _, d1) \<Rightarrow>
          (case store_save M (candidates_path notes_path) store d1 of
             (Inl e, d2) \<Rightarrow> (Inl e, d2)
           | (Inr _, d2) \<Rightarrow>
               (case dk_write (my_disk M) notes_path (render_notes_markdown (cs_candidates store)) d2 of
                  (Inl e, d3) \<Rightarrow> (Inl (''Failed to write notes projection: '' @ display_path notes_path), d3)
                | (Inr _, d3) \<Rightarrow> (Inr (), d3))))"

definition load_or_migrate :: "'d memory_env \<Rightarrow> path \<Rightarrow> 'd \<Rightarrow> (string + candidate_store) \<times> 'd" where
  "load_or_migrate M notes_path d =
     (if dk_exists (my_disk M) d (candidates_path notes_path)
      then (store_load M (candidates_path notes_path) d, d)
      else if dk_exists (my_disk M) d notes_path then
        (case dk_read_to_string (my_disk M) d notes_path of
           Inl e \<Rightarrow> (Inl (io_message e), d)
         | Inr content \<Rightarrow>
             (let store = candidate_store_new\<lparr>cs_candidates := migrate_markdown_lines content\<rparr>
              in if cs_candidates store = [] then (Inr store, d)
                 else case persist_store M notes_path store d of
                        (Inl e, d1) \<Rightarrow> (Inl e, d1)
                      | (Inr _, d1) \<Rightarrow> (Inr store, d1)))
      else (Inr candidate_store_new, d))"

text \<open>Load the store, change it and save it.\<close>

definition update_store ::
  "'d memory_env \<Rightarrow> path \<Rightarrow> (candidate_store \<Rightarrow> candidate_store) \<Rightarrow> 'd \<Rightarrow> (string + candidate_store) \<times> 'd" where
  "update_store M notes_path f d =
     (case load_or_migrate M notes_path d of
        (Inl e, d1) \<Rightarrow> (Inl e, d1)
      | (Inr store, d1) \<Rightarrow>
          (case persist_store M notes_path (f store) d1 of
             (Inl e, d2) \<Rightarrow> (Inl e, d2)
           | (Inr _, d2) \<Rightarrow> (Inr store, d2)))"

definition push_candidates :: "memory_candidate list \<Rightarrow> candidate_store \<Rightarrow> candidate_store" where
  "push_candidates cs store = store\<lparr>cs_candidates := cs_candidates store @ cs\<rparr>"

definition add_user_note :: "'d memory_env \<Rightarrow> path \<Rightarrow> string \<Rightarrow> 'd \<Rightarrow> (string + unit) \<times> 'd" where
  "add_user_note M notes_path note d =
     map_prod (map_sum id (\<lambda>_. ())) id
       (update_store M notes_path (push_candidates [user_candidate ''/memory add'' note]) d)"

definition append_feedback_notes :: "'d memory_env \<Rightarrow> path \<Rightarrow> string list \<Rightarrow> 'd \<Rightarrow> (string + unit) \<times> 'd" where
  "append_feedback_notes M notes_path formatted_auto_lines d =
     map_prod (map_sum id (\<lambda>_. ())) id
       (update_store M notes_path (push_candidates (map feedback_candidate formatted_auto_lines)) d)"

definition clear_store :: "'d memory_env \<Rightarrow> path \<Rightarrow> 'd \<Rightarrow> (string + unit) \<times> 'd" where
  "clear_store M notes_path d = persist_store M notes_path candidate_store_new d"

definition drop_feedback :: "candidate_store \<Rightarrow> candidate_store" where
  "drop_feedback store = store\<lparr>cs_candidates := filter (\<lambda>c. mc_source c \<noteq> Feedback_source) (cs_candidates store)\<rparr>"

definition remove_feedback_candidates :: "'d memory_env \<Rightarrow> path \<Rightarrow> 'd \<Rightarrow> (string + nat) \<times> 'd" where
  "remove_feedback_candidates M notes_path d =
     (if \<not> dk_exists (my_disk M) d notes_path \<and> \<not> dk_exists (my_disk M) d (candidates_path notes_path)
      then (Inr 0, d)
      else map_prod (map_sum id (\<lambda>store. length (cs_candidates store) - length (cs_candidates (drop_feedback store)))) id
             (update_store M notes_path drop_feedback d))"

text \<open>The candidate a selector names: the number of a pending one, or a text in its topic or body.\<close>

definition pending_indices :: "memory_candidate list \<Rightarrow> nat list" where
  "pending_indices cs = filter (\<lambda>i. mc_status (cs ! i) = Pending_candidate) [0..<length cs]"

definition accept_target :: "memory_candidate list \<Rightarrow> string \<Rightarrow> nat option" where
  "accept_target cs selector =
     (case parse_u64 selector of
        Some number \<Rightarrow>
          if number = 0 \<or> number > length (pending_indices cs) then None
          else Some (pending_indices cs ! (number - 1))
      | None \<Rightarrow>
          (let needle = to_ascii_lowercase selector
           in List.find (\<lambda>i. contains (to_ascii_lowercase (mc_topic (cs ! i))) needle
                             \<or> contains (to_ascii_lowercase (mc_body (cs ! i))) needle) (pending_indices cs)))"

definition accept_candidate :: "candidate_store \<Rightarrow> nat \<Rightarrow> candidate_store" where
  "accept_candidate store i =
     store\<lparr>cs_candidates := (cs_candidates store)[i := (cs_candidates store ! i)\<lparr>mc_status := Accepted_candidate\<rparr>]\<rparr>"

definition accept_pending :: "'d memory_env \<Rightarrow> path \<Rightarrow> string \<Rightarrow> 'd \<Rightarrow> (string + string option) \<times> 'd" where
  "accept_pending M notes_path selector d =
     (case load_or_migrate M notes_path d of
        (Inl e, d1) \<Rightarrow> (Inl e, d1)
      | (Inr store, d1) \<Rightarrow>
          if pending_indices (cs_candidates store) = [] then (Inr None, d1)
          else (case accept_target (cs_candidates store) selector of
                  None \<Rightarrow> (Inr None, d1)
                | Some i \<Rightarrow>
                    (case persist_store M notes_path (accept_candidate store i) d1 of
                       (Inl e, d2) \<Rightarrow> (Inl e, d2)
                     | (Inr _, d2) \<Rightarrow> (Inr (Some (mc_body (cs_candidates store ! i))), d2))))"

section \<open>Notes for the prompt\<close>

fun source_priority :: "candidate_source \<Rightarrow> nat" where
  "source_priority User_source = 0"
| "source_priority Feedback_source = 1"
| "source_priority Project_source = 2"
| "source_priority Reference_source = 3"

text \<open>The loop that drops candidates from the end: what is left, reversed, and how many were dropped.\<close>

fun drop_over_budget :: "nat \<Rightarrow> (memory_candidate \<times> nat) list \<Rightarrow> nat \<Rightarrow> nat \<Rightarrow> (memory_candidate \<times> nat) list \<times> nat" where
  "drop_over_budget budget [] tokens dropped = ([], dropped)"
| "drop_over_budget budget (x # xs) tokens dropped =
     (if tokens > budget then drop_over_budget budget xs (tokens - snd x) (dropped + 1) else (x # xs, dropped))"

definition accepted_by_priority :: "(string \<Rightarrow> nat) \<Rightarrow> candidate_store \<Rightarrow> (memory_candidate \<times> nat) list" where
  "accepted_by_priority token_count store =
     sort_key (\<lambda>(c, n). source_priority (mc_source c))
       (map (\<lambda>c. (c, token_count (mc_body c)))
          (filter (\<lambda>c. mc_status c = Accepted_candidate) (cs_candidates store)))"

definition inject_accepted :: "(string \<Rightarrow> nat) \<Rightarrow> candidate_store \<Rightarrow> nat \<Rightarrow> string option \<times> string option" where
  "inject_accepted token_count store token_budget =
     (let selected = accepted_by_priority token_count store;
          (kept, dropped) = drop_over_budget token_budget (rev selected) (sum_list (map snd selected)) 0
      in if kept = [] then
           (None,
            if dropped > 0
            then Some (''[memory] notes exceed token budget (dropped '' @ nat_dec dropped
                       @ '' accepted candidate(s) above '' @ nat_dec token_budget @ '')'')
            else None)
         else
           (Some (join_with [newline] (map (mc_body \<circ> fst) (rev kept))),
            if dropped > 0
            then Some (''[memory] dropped '' @ nat_dec dropped @ '' accepted candidate(s) over token budget (''
                       @ nat_dec token_budget @ '')'')
            else None))"

definition config_root :: "'d memory_env \<Rightarrow> path option" where
  "config_root M = (case my_var M ''XDG_CONFIG_HOME'' of
      Some root \<Rightarrow> if trim root \<noteq> '''' then Some (components root) else None | None \<Rightarrow> None)"

definition home_root :: "'d memory_env \<Rightarrow> path option" where
  "home_root M = (case my_var M ''HOME'' of Some h \<Rightarrow> if h \<noteq> '''' then Some (components h) else None | None \<Rightarrow> None)"

definition resolve_notes_path_for_read :: "'d memory_env \<Rightarrow> path option \<Rightarrow> 'd \<Rightarrow> path option" where
  "resolve_notes_path_for_read M explicit_path d =
     (case explicit_path of
        Some p \<Rightarrow> Some p
      | None \<Rightarrow>
          (let xdg = map_option (\<lambda>r. join (join r [Normal ''vex'']) [Normal ''memory.md'']) (config_root M);
               home = map_option (\<lambda>h. join (join (join h [Normal ''.config'']) [Normal ''vex'']) [Normal ''memory.md''])
                        (home_root M);
               existing = (\<lambda>q. case q of Some p \<Rightarrow> if dk_exists (my_disk M) d p then Some p else None | None \<Rightarrow> None)
           in case existing xdg of Some p \<Rightarrow> Some p | None \<Rightarrow> existing home))"

definition resolve_notes_path_for_write :: "'d memory_env \<Rightarrow> path option \<Rightarrow> path option" where
  "resolve_notes_path_for_write M explicit_path =
     (case explicit_path of
        Some p \<Rightarrow> Some p
      | None \<Rightarrow>
          (case config_root M of
             Some r \<Rightarrow> Some (join (join r [Normal ''vex'']) [Normal ''memory.md''])
           | None \<Rightarrow>
               map_option (\<lambda>h. join (join (join h [Normal ''.config'']) [Normal ''vex'']) [Normal ''memory.md''])
                 (home_root M)))"

definition clear_notes_file :: "'d memory_env \<Rightarrow> path option \<Rightarrow> 'd \<Rightarrow> (string + unit) \<times> 'd" where
  "clear_notes_file M explicit_path d =
     (case (case resolve_notes_path_for_read M explicit_path d of
              Some p \<Rightarrow> Some p
            | None \<Rightarrow> resolve_notes_path_for_write M explicit_path) of
        None \<Rightarrow> (Inr (), d)
      | Some p \<Rightarrow>
          if dk_exists (my_disk M) d p \<or> dk_exists (my_disk M) d (candidates_path p)
          then clear_store M p d else (Inr (), d))"

definition resolve_notes_for_injection ::
  "'d memory_env \<Rightarrow> path option \<Rightarrow> nat \<Rightarrow> 'd \<Rightarrow> (string option \<times> string option) \<times> 'd" where
  "resolve_notes_for_injection M explicit_path token_budget d =
     (case resolve_notes_path_for_read M explicit_path d of
        None \<Rightarrow> ((None, None), d)
      | Some p \<Rightarrow>
          (case load_or_migrate M p d of
             (Inl e, d1) \<Rightarrow> ((None, None), d1)
           | (Inr store, d1) \<Rightarrow> (inject_accepted (my_tokens M) store token_budget, d1)))"

section \<open>Project instructions\<close>

record instruction_source =
  is_path :: path
  is_included :: bool
  is_estimated_tokens :: nat

record instruction_set =
  in_content :: string
  in_manifest :: "instruction_source list"

definition CANDIDATE_FILES :: "string list" where
  "CANDIDATE_FILES = [''.vex/AGENTS.md'', ''AGENTS.md'', ''.vex/PROJECT.md'']"

definition first_existing :: "(path \<Rightarrow> string option) \<Rightarrow> path \<Rightarrow> string list \<Rightarrow> (path \<times> string) option" where
  "first_existing read dir names =
     find_map (\<lambda>name. let candidate = join dir (components name)
                      in map_option (\<lambda>content. (candidate, content)) (read candidate)) names"

fun walk_down :: "path \<Rightarrow> path \<Rightarrow> path list" where
  "walk_down acc (Normal seg # cs) = (let next = join acc [Normal seg] in next # walk_down next cs)"
| "walk_down acc (CurDir # cs) = walk_down acc cs"
| "walk_down acc _ = []"

definition directories_root_to_leaf :: "path \<Rightarrow> path \<Rightarrow> path list" where
  "directories_root_to_leaf repo_root cwd =
     (if prefix repo_root cwd then repo_root # walk_down repo_root (drop (length repo_root) cwd) else [repo_root])"

fun load_sections ::
  "(path \<Rightarrow> string option) \<Rightarrow> (string \<Rightarrow> nat) \<Rightarrow> path \<Rightarrow> path list \<Rightarrow> nat \<Rightarrow> string list \<times> instruction_source list" where
  "load_sections read tokens repo_root [] remaining = ([], [])"
| "load_sections read tokens repo_root (dir # dirs) remaining =
     (case first_existing read dir CANDIDATE_FILES of
        None \<Rightarrow> load_sections read tokens repo_root dirs remaining
      | Some (p, content) \<Rightarrow>
          (let estimated = tokens content;
               included = (estimated \<le> remaining);
               (sections, manifest) = load_sections read tokens repo_root dirs
                                        (if included then remaining - estimated else remaining);
               relative = (if prefix repo_root p then drop (length repo_root) p else p)
           in (if included then content # sections else sections,
               \<lparr>is_path = relative, is_included = included, is_estimated_tokens = estimated\<rparr> # manifest)))"

definition load_hierarchical_instructions ::
  "(path \<Rightarrow> string option) \<Rightarrow> (string \<Rightarrow> nat) \<Rightarrow> path \<Rightarrow> path \<Rightarrow> nat \<Rightarrow> instruction_set" where
  "load_hierarchical_instructions read tokens repo_root cwd token_budget =
     (case load_sections read tokens repo_root (directories_root_to_leaf repo_root cwd) token_budget of
        (sections, manifest) \<Rightarrow>
          \<lparr>in_content = join_with [newline, newline] sections, in_manifest = manifest\<rparr>)"

definition included_content :: "instruction_set \<Rightarrow> string option" where
  "included_content i = (if trim (in_content i) = '''' then None else Some (in_content i))"

definition instructions_display_path :: "instruction_set \<Rightarrow> string option" where
  "instructions_display_path i =
     (let included = map (display_path \<circ> is_path) (filter is_included (in_manifest i))
      in if included = [] then None else Some (join_with ''; '' included))"

definition find_repo_root :: "(path \<Rightarrow> bool) \<Rightarrow> path \<Rightarrow> path option" where
  "find_repo_root ex start = nearest_existing_ancestor (\<lambda>p. ex (join p [Normal ''.git''])) start"

definition workspace_root :: "(path \<Rightarrow> bool) \<Rightarrow> path \<Rightarrow> path" where
  "workspace_root ex start = (case find_repo_root ex start of Some r \<Rightarrow> r | None \<Rightarrow> start)"

definition load_instructions_for_workspace ::
  "(path \<Rightarrow> bool) \<Rightarrow> (path \<Rightarrow> string option) \<Rightarrow> (string \<Rightarrow> nat) \<Rightarrow> path \<Rightarrow> nat \<Rightarrow> instruction_set" where
  "load_instructions_for_workspace ex read tokens working_dir token_budget =
     load_hierarchical_instructions read tokens (workspace_root ex working_dir) working_dir token_budget"

end
