(* ===== verification/Memory_Laws.thy ===== *)
theory Memory_Laws
  imports Memory_Notes
begin

text \<open>
  The notes and the instructions that reach the prompt: only accepted notes, by priority, within their
  budget; only instruction files of the directories from the root of the repository to the working
  directory, within theirs. And what an automatic note is read back as.
\<close>

section \<open>Notes in the prompt\<close>

abbreviation token_sum :: "(memory_candidate \<times> nat) list \<Rightarrow> nat" where
  "token_sum xs \<equiv> sum_list (map snd xs)"

lemma drop_over_budget_spec:
  "\<exists>k \<le> length xs. drop_over_budget budget (rev xs) (token_sum xs) n = (rev (take k xs), n + (length xs - k))
     \<and> token_sum (take k xs) \<le> budget \<and> (k = length xs \<or> budget < token_sum (take (Suc k) xs))"
proof (induction xs arbitrary: n rule: rev_induct)
  case (snoc x xs)
  show ?case
  proof (cases "token_sum (xs @ [x]) > budget")
    case True
    from snoc [of "Suc n"] obtain k where k: "k \<le> length xs"
      "drop_over_budget budget (rev xs) (token_sum xs) (Suc n) = (rev (take k xs), Suc n + (length xs - k))"
      "token_sum (take k xs) \<le> budget" "k = length xs \<or> budget < token_sum (take (Suc k) xs)" by blast
    then show ?thesis using True by (intro exI [of _ k]) auto
  qed (auto intro: exI [of _ "Suc (length xs)"])
qed simp

lemma accepted_by_priority_sound:
  "list_all (\<lambda>(c, n). mc_status c = Accepted_candidate \<and> n = tokens (mc_body c)
       \<and> c \<in> set (cs_candidates store)) (accepted_by_priority tokens store)"
  "sorted (map (\<lambda>(c, n). source_priority (mc_source c)) (accepted_by_priority tokens store))"
  by (auto simp: accepted_by_priority_def list_all_iff)

text \<open>
  The notes put into the prompt are accepted candidates only, the user's before
  those of feedback, project and reference, joined by line ends; they are the longest beginning of that order
  whose tokens fit the budget; and a warning is given exactly when something accepted was left out.
\<close>

theorem notes_within_budget:
  "\<exists>k \<le> length (accepted_by_priority tokens store).
     list_all (\<lambda>(c, n). mc_status c = Accepted_candidate \<and> n = tokens (mc_body c) \<and> c \<in> set (cs_candidates store))
       (accepted_by_priority tokens store)
   \<and> sorted (map (\<lambda>(c, n). source_priority (mc_source c)) (accepted_by_priority tokens store))
   \<and> fst (inject_accepted tokens store budget) =
       (if k = 0 then None
        else Some (join_with [newline] (map (mc_body \<circ> fst) (take k (accepted_by_priority tokens store)))))
   \<and> token_sum (take k (accepted_by_priority tokens store)) \<le> budget
   \<and> (if k = length (accepted_by_priority tokens store) then snd (inject_accepted tokens store budget) = None
      else budget < token_sum (take (Suc k) (accepted_by_priority tokens store))
           \<and> (\<exists>t. snd (inject_accepted tokens store budget) = Some t))"
proof -
  let ?xs = "accepted_by_priority tokens store"
  from drop_over_budget_spec [of ?xs budget 0] obtain k where k: "k \<le> length ?xs"
    "drop_over_budget budget (rev ?xs) (token_sum ?xs) 0 = (rev (take k ?xs), length ?xs - k)"
    "token_sum (take k ?xs) \<le> budget" "k = length ?xs \<or> budget < token_sum (take (Suc k) ?xs)" by auto
  have empty: "take k ?xs = [] \<longleftrightarrow> k = 0" using k(1) by auto
  have "fst (inject_accepted tokens store budget) =
       (if k = 0 then None else Some (join_with [newline] (map (mc_body \<circ> fst) (take k ?xs))))"
    using empty by (simp add: inject_accepted_def k(2) Let_def)
  moreover have "if k = length ?xs then snd (inject_accepted tokens store budget) = None
      else budget < token_sum (take (Suc k) ?xs) \<and> (\<exists>t. snd (inject_accepted tokens store budget) = Some t)"
    using k(1,4) by (auto simp: inject_accepted_def k(2) Let_def)
  ultimately show ?thesis
    using k(1,3) accepted_by_priority_sound [of tokens store] by blast
qed

section \<open>Automatic notes\<close>

lemma trim_start_bracket: "trim_start (CHR ''['' # c # s) = CHR ''['' # c # s" if "\<not> is_cont c"
proof -
  have "utf8_chars (CHR ''['' # c # s) = ''['' # utf8_chars (c # s)" using that by simp
  moreover have "\<not> is_ws ''[''" by code_simp
  ultimately have "dropWhile is_ws (utf8_chars (CHR ''['' # c # s)) = utf8_chars (CHR ''['' # c # s)" by simp
  then show ?thesis by (simp only: trim_start_def concat_utf8_chars)
qed

lemma find_str_after:
  "list_all (\<lambda>c. c \<noteq> p) a \<Longrightarrow> find_str (p # q) (a @ (p # q) @ b) = Some (length a)"
  by (induction a) auto

lemma nat_dec_is_digit: "list_all is_digit (nat_dec n)"
  by (auto simp: list_all_iff is_digit_def digit_char_val dest!: nat_dec_digits)

lemma nat_dec_some_digit: "nat_dec n \<noteq> []"
  by (subst nat_dec.simps) simp

lemma split_digits:
  assumes "list_all is_digit ds"
  shows "split_once (ds @ ''] [auto] '' @ body) ''] '' = Some (ds, ''[auto] '' @ body)"
    and "split_once (ds @ ''] [auto] '' @ body) '']'' = Some (ds, '' [auto] '' @ body)"
proof -
  have no: "list_all (\<lambda>c. c \<noteq> CHR '']'') ds"
    using assms by (auto simp: list_all_iff is_digit_def byte_val_def)
  show "split_once (ds @ ''] [auto] '' @ body) ''] '' = Some (ds, ''[auto] '' @ body)"
    using find_str_after [OF no, of "'' ''" "''[auto] '' @ body"] by (simp add: split_once_def)
  show "split_once (ds @ ''] [auto] '' @ body) '']'' = Some (ds, '' [auto] '' @ body)"
    using find_str_after [OF no, of "''''" "'' [auto] '' @ body"] by (simp add: split_once_def)
qed

lemma auto_note_parts:
  "after_str ''['' (trim_start (format_auto_note t body)) = Some (nat_dec t @ ''] [auto] '' @ body)"
proof -
  obtain c r where dec: "nat_dec t = c # r" using nat_dec_some_digit [of t] by (cases "nat_dec t") auto
  then have "\<not> is_cont c"
    using nat_dec_is_digit [of t] by (auto simp: is_digit_def is_cont_def)
  then have "trim_start (format_auto_note t body) = format_auto_note t body"
    using trim_start_bracket [of c "r @ ''] [auto] '' @ body"] by (simp add: format_auto_note_def dec)
  then show ?thesis by (simp add: after_str_def starts_with_def format_auto_note_def)
qed

text \<open>
  An automatic note, formatted with its time, is recognised as an automatic note,
  and read back with the same text and the same time, whatever the text is.
\<close>

theorem auto_note_round_trip:
  "is_auto_note_line (format_auto_note t body)
   \<and> feedback_candidate (format_auto_note t body) =
       \<lparr>mc_source = Feedback_source, mc_topic = topic_from body, mc_body = body, mc_status = Pending_candidate,
        mc_reference = ''auto:'' @ nat_dec t\<rparr>"
proof -
  note parts = auto_note_parts [of t body] split_digits [OF nat_dec_is_digit, of t body]
  have tag: "starts_with (''[auto] '' @ body) ''[auto] ''" "after_str ''[auto] '' (''[auto] '' @ body) = Some body"
    by (simp_all add: starts_with_def after_str_def)
  have "is_auto_note_line (format_auto_note t body)"
    by (simp only: is_auto_note_line_def parts option.case prod.case tag nat_dec_is_digit nat_dec_some_digit)
       simp
  moreover have "strip_auto_note_body (format_auto_note t body) = body"
    by (simp only: strip_auto_note_body_def Let_def parts Option.bind.simps prod.case tag option.case)
  moreover have "parse_auto_timestamp (format_auto_note t body) = nat_dec t"
    by (simp only: parse_auto_timestamp_def parts Option.bind.simps prod.case nat_dec_is_digit option.case)
       (simp add: nat_dec_some_digit)
  ultimately show ?thesis by (simp add: feedback_candidate_def Let_def)
qed

section \<open>Instructions\<close>

lemma walk_down_below: "d \<in> set (walk_down acc cs) \<Longrightarrow> prefix acc d"
proof (induction acc cs rule: walk_down.induct)
  case (1 acc seg cs)
  have "prefix acc (join acc [Normal seg])" by (simp add: join_def is_absolute_def)
  with 1 show ?case by (auto simp: Let_def intro: prefix_order.trans)
qed auto

lemma directories_below: "list_all (prefix repo_root) (directories_root_to_leaf repo_root cwd)"
  by (auto simp: directories_root_to_leaf_def list_all_iff dest: walk_down_below)

text \<open>The file an entry of the manifest is about, with its content.\<close>

fun found_files :: "(path \<Rightarrow> string option) \<Rightarrow> path list \<Rightarrow> (path \<times> string) list" where
  "found_files read [] = []"
| "found_files read (dir # dirs) =
     (case first_existing read dir CANDIDATE_FILES of
        Some pc \<Rightarrow> pc # found_files read dirs | None \<Rightarrow> found_files read dirs)"

lemma load_sections_spec:
  assumes "load_sections read tokens root dirs remaining = (sections, manifest)"
  shows "sum_list (map tokens sections) \<le> remaining
     \<and> length manifest = length (found_files read dirs)
     \<and> sections = map snd (map fst (filter (is_included \<circ> snd) (zip (found_files read dirs) manifest)))
     \<and> map is_estimated_tokens manifest = map (tokens \<circ> snd) (found_files read dirs)"
  using assms
proof (induction read tokens root dirs remaining arbitrary: sections manifest rule: load_sections.induct)
  case (2 read tokens repo_root dir dirs remaining)
  show ?case
  proof (cases "first_existing read dir CANDIDATE_FILES")
    case None
    with "2.prems" have "load_sections read tokens repo_root dirs remaining = (sections, manifest)" by simp
    note IH = "2.IH"(1) [OF None this]
    have same: "found_files read (dir # dirs) = found_files read dirs" by (simp add: None)
    show ?thesis unfolding same by (rule IH)
  next
    case (Some pc)
    obtain p content where pc: "pc = (p, content)" by (cases pc)
    show ?thesis
    proof (cases "tokens content \<le> remaining")
      case True
      obtain s m where rest: "load_sections read tokens repo_root dirs (remaining - tokens content) = (s, m)"
        by (cases "load_sections read tokens repo_root dirs (remaining - tokens content)")
      from "2.IH"(2) [OF Some pc [symmetric] refl refl] True rest "2.prems" Some pc show ?thesis
        by (auto simp: Let_def comp_def)
    next
      case False
      obtain s m where rest: "load_sections read tokens repo_root dirs remaining = (s, m)"
        by (cases "load_sections read tokens repo_root dirs remaining")
      from "2.IH"(2) [OF Some pc [symmetric] refl refl] False rest "2.prems" Some pc show ?thesis
        by (auto simp: Let_def comp_def)
    qed
  qed
qed simp

text \<open>
  The instructions of a project are joined from files found in directories at
  or below the root of the repository, in the order of those directories and one for each at most; the tokens
  of the files that are included fit the budget, and the manifest lists every file that was found with its size.
\<close>

theorem instructions_within_budget:
  "list_all (prefix repo_root) (directories_root_to_leaf repo_root cwd)
   \<and> length (in_manifest (load_hierarchical_instructions read tokens repo_root cwd budget))
       = length (found_files read (directories_root_to_leaf repo_root cwd))
   \<and> map is_estimated_tokens (in_manifest (load_hierarchical_instructions read tokens repo_root cwd budget))
       = map (tokens \<circ> snd) (found_files read (directories_root_to_leaf repo_root cwd))
   \<and> (\<exists>chosen. in_content (load_hierarchical_instructions read tokens repo_root cwd budget)
             = join_with [newline, newline] (map snd chosen)
         \<and> chosen = map fst (filter (is_included \<circ> snd)
             (zip (found_files read (directories_root_to_leaf repo_root cwd))
                (in_manifest (load_hierarchical_instructions read tokens repo_root cwd budget))))
         \<and> sum_list (map (tokens \<circ> snd) chosen) \<le> budget)"
proof -
  let ?dirs = "directories_root_to_leaf repo_root cwd"
  obtain sections manifest where load: "load_sections read tokens repo_root ?dirs budget = (sections, manifest)"
    by (cases "load_sections read tokens repo_root ?dirs budget")
  note spec = load_sections_spec [OF load]
  then have "sum_list (map (tokens \<circ> snd) (map fst (filter (is_included \<circ> snd) (zip (found_files read ?dirs) manifest)))) \<le> budget"
    by (metis (no_types, lifting) map_map)
  with spec directories_below show ?thesis
    by (simp add: load_hierarchical_instructions_def load)
qed

end
