(* ===== verification/Disk_Policy.thy ===== *)
theory Disk_Policy
  imports Tool_Paths History
begin

text \<open>
  Which paths the durable stores may touch (\<open>src/disk_policy.rs\<close>): only those below \<open>.vex/index\<close> and
  \<open>.vex/state\<close>, enforced, warned about or ignored. Paths are their texts; the override of the process and the
  environment variable are parameters, the warnings on the terminal are dropped.
\<close>

datatype disk_permission = Search_index | Task_state_map | Forbidden

datatype disk_policy_mode = Policy_off | Policy_warn | Policy_strict

definition backslash_to_slash :: "string \<Rightarrow> string" where
  "backslash_to_slash s = map (\<lambda>c. if c = CHR 0x5C then CHR ''/'' else c) s"

text \<open>\<open>split(pat).nth(1)\<close>: the text between the first and the second occurrence.\<close>

definition second_piece :: "string \<Rightarrow> string \<Rightarrow> string option" where
  "second_piece s pat =
     map_option (\<lambda>(a, rest). case split_once rest pat of Some (b, others) \<Rightarrow> b | None \<Rightarrow> rest) (split_once s pat)"

definition classify_vex_subpath :: "string \<Rightarrow> disk_permission" where
  "classify_vex_subpath p =
     (case second_piece (backslash_to_slash p) ''.vex/'' of
        Some after_vex \<Rightarrow>
          if starts_with after_vex ''index/'' \<or> after_vex = ''index'' then Search_index
          else if starts_with after_vex ''state/'' \<or> after_vex = ''state'' then Task_state_map
          else Forbidden
      | None \<Rightarrow> Forbidden)"

definition check_path :: "string \<Rightarrow> disk_permission" where
  "check_path p =
     (if list_ex (\<lambda>c. component_text c = ''.vex'') (components p) then classify_vex_subpath p
      else if contains p (''.vex'' @ [CHR 0x5C]) \<or> contains p ''.vex/'' then classify_vex_subpath p
      else Forbidden)"

definition forbidden_message :: "string \<Rightarrow> string" where
  "forbidden_message p = ''forbidden disk access outside .vex/index or .vex/state: '' @ p"

definition enforce_policy :: "string \<Rightarrow> disk_policy_mode \<Rightarrow> string + disk_permission" where
  "enforce_policy p mode =
     (if check_path p \<noteq> Forbidden then Inr (check_path p)
      else case mode of
             Policy_off \<Rightarrow> Inr Forbidden
           | Policy_warn \<Rightarrow> Inr Forbidden
           | Policy_strict \<Rightarrow> Inl (forbidden_message p))"

definition resolve_policy_mode :: "disk_policy_mode option \<Rightarrow> string option \<Rightarrow> disk_policy_mode" where
  "resolve_policy_mode override var =
     (case override of
        Some mode \<Rightarrow> mode
      | None \<Rightarrow>
          (case var of
             Some val \<Rightarrow>
               if to_ascii_lowercase val = ''strict'' then Policy_strict
               else if to_ascii_lowercase val = ''warn'' then Policy_warn
               else Policy_off
           | None \<Rightarrow> Policy_off))"

text \<open>\<open>assert_durable_access\<close> of \<open>src/tools/operator/policy.rs\<close>\<close>

definition assert_durable_access :: "disk_policy_mode \<Rightarrow> string \<Rightarrow> string + disk_permission" where
  "assert_durable_access mode p = enforce_policy p mode"

section \<open>What strict enforcement allows\<close>

lemma split_once_Some: "split_once s pat = Some (a, b) \<Longrightarrow> s = a @ pat @ b"
  by (auto simp: split_once_def dest: find_str_Some)

lemma strict_access:
  "enforce_policy p Policy_strict = Inr perm
   \<Longrightarrow> \<exists>a b. backslash_to_slash p = a @ ''.vex/'' @ b \<and> perm \<noteq> Forbidden
         \<and> (starts_with b ''index'' \<or> starts_with b ''state'')"
proof -
  assume ok: "enforce_policy p Policy_strict = Inr perm"
  then have "check_path p = perm" "perm \<noteq> Forbidden"
    by (auto simp: enforce_policy_def split: if_splits)
  then have perm: "classify_vex_subpath p = perm" "perm \<noteq> Forbidden"
    by (auto simp: check_path_def split: if_splits)
  then obtain a rest where s: "split_once (backslash_to_slash p) ''.vex/'' = Some (a, rest)"
    by (auto simp: classify_vex_subpath_def second_piece_def split: option.splits)
  let ?b = "case split_once rest ''.vex/'' of Some (b, others) \<Rightarrow> b | None \<Rightarrow> rest"
  have "prefix ?b rest"
    by (auto split: option.splits dest: split_once_Some)
  moreover have "prefix ''index'' ?b \<or> prefix ''state'' ?b"
    using perm s by (auto simp: classify_vex_subpath_def second_piece_def starts_with_def prefix_def
        split: if_splits)
  ultimately have "starts_with rest ''index'' \<or> starts_with rest ''state''"
    unfolding starts_with_def by (meson prefix_order.trans)
  with split_once_Some [OF s] perm(2) show ?thesis by blast
qed

text \<open>The check is one of the text only: a path that climbs out again passes.\<close>

lemma climbing_path_allowed: "enforce_policy ''.vex/state/../../.ssh/id'' Policy_strict = Inr Task_state_map"
  by code_simp

lemma other_directory_allowed: "enforce_policy ''/home/u/old.vex/state/x'' Policy_strict = Inr Task_state_map"
  by code_simp

end
