(* ===== verification/Peer_Channel.thy ===== *)
theory Peer_Channel
  imports Disk_Policy Task_State
begin

text \<open>
  The channel on which the sessions of a task write to each other (\<open>src/runtime/task_state/peer_channel.rs\<close>,
  \<open>src/app/task_facade/peer.rs\<close>): a bounded file of lines, appended under an exclusive lock and read in batches
  after a time stamp. The file is the list of its lines, or none when it does not exist. The JSON form of a
  message, the errors of locks and files, identifiers and the clock are parameters.
\<close>

definition MAX_PEER_MESSAGE_BYTES :: nat where "MAX_PEER_MESSAGE_BYTES = 4096"

definition MAX_CHANNEL_DEPTH :: nat where "MAX_CHANNEL_DEPTH = 256"

definition MAX_CHANNEL_READ_BATCH :: nat where "MAX_CHANNEL_READ_BATCH = 64"

definition MAX_CHANNEL_FILE_BYTES :: nat where "MAX_CHANNEL_FILE_BYTES = 1048576"

definition MAX_LINE_BYTES :: nat where "MAX_LINE_BYTES = 8192"

datatype append_message_error = Channel_full | Append_internal string

datatype peer_message_kind = Status_note | Correction | Question | Acknowledgement

fun peer_kind_display :: "peer_message_kind \<Rightarrow> string" where
  "peer_kind_display Status_note = ''observation''"
| "peer_kind_display Correction = ''correction''"
| "peer_kind_display Question = ''question''"
| "peer_kind_display Acknowledgement = ''acknowledgement''"

definition parse_peer_message_kind :: "string \<Rightarrow> peer_message_kind option" where
  "parse_peer_message_kind s =
     (if s \<in> set [''observation'', ''Observation'', ''status-note'', ''StatusNote''] then Some Status_note
      else if s \<in> set [''correction'', ''Correction''] then Some Correction
      else if s \<in> set [''question'', ''Question''] then Some Question
      else if s \<in> set [''acknowledgement'', ''Acknowledgement''] then Some Acknowledgement
      else None)"

record peer_message =
  pm_id :: string
  pm_sent_at :: nat
  pm_sender_id :: string
  pm_sender_agent_id :: string
  pm_recipient :: string
  pm_kind :: peer_message_kind
  pm_content :: string
  pm_parent_task_id :: string

type_synonym channel_file = "string list option"

record channel_env =
  ce_mode :: disk_policy_mode
  ce_encode :: "peer_message \<Rightarrow> string option"
  ce_decode :: "string \<Rightarrow> peer_message option"
  ce_lock_error :: "string option"
  ce_open_error :: "string option"

definition peer_message_new ::
  "string \<Rightarrow> nat \<Rightarrow> string \<Rightarrow> string \<Rightarrow> string \<Rightarrow> string \<Rightarrow> peer_message_kind \<Rightarrow> string \<Rightarrow> peer_message" where
  "peer_message_new uuid now sender_id sender_agent_id parent_task_id recipient kind content =
     \<lparr>pm_id = uuid, pm_sent_at = now, pm_sender_id = sender_id, pm_sender_agent_id = sender_agent_id,
      pm_recipient = recipient, pm_kind = kind, pm_content = content, pm_parent_task_id = parent_task_id\<rparr>"

text \<open>\<open>Path::join\<close> on texts, for a name without a leading separator\<close>

definition join_text :: "string \<Rightarrow> string \<Rightarrow> string" where
  "join_text dir name = (if dir = '''' \<or> ends_with dir ''/'' then dir @ name else dir @ ''/'' @ name)"

definition channel_path :: "string \<Rightarrow> string \<Rightarrow> string" where
  "channel_path state_dir parent_task_id = join_text state_dir (parent_task_id @ ''.channel.jsonl'')"

definition channel_lock_path :: "string \<Rightarrow> string \<Rightarrow> string" where
  "channel_lock_path state_dir parent_task_id = join_text state_dir (parent_task_id @ ''.channel.lock'')"

text \<open>The lock file, exclusive for an append and shared for a read.\<close>

definition channel_lock :: "channel_env \<Rightarrow> string \<Rightarrow> string \<Rightarrow> string + unit" where
  "channel_lock E state_dir parent_task_id =
     (case assert_durable_access (ce_mode E) state_dir of
        Inl e \<Rightarrow> Inl e
      | Inr _ \<Rightarrow>
          (case assert_durable_access (ce_mode E) (channel_lock_path state_dir parent_task_id) of
             Inl e \<Rightarrow> Inl e
           | Inr _ \<Rightarrow> (case ce_lock_error E of Some e \<Rightarrow> Inl e | None \<Rightarrow> Inr ())))"

definition count_lines :: "channel_file \<Rightarrow> nat" where
  "count_lines file =
     (case file of None \<Rightarrow> 0 | Some ls \<Rightarrow> length (filter (\<lambda>l. valid_utf8 l \<and> trim l \<noteq> '''') ls))"

definition file_bytes :: "channel_file \<Rightarrow> nat" where
  "file_bytes file = (case file of None \<Rightarrow> 0 | Some ls \<Rightarrow> sum_list (map (\<lambda>l. length l + 1) ls))"

definition append_message_inner ::
  "channel_env \<Rightarrow> string \<Rightarrow> peer_message \<Rightarrow> channel_file \<Rightarrow> (append_message_error + unit) \<times> channel_file" where
  "append_message_inner E state_dir message file =
     (case assert_durable_access (ce_mode E) (channel_path state_dir (pm_parent_task_id message)) of
        Inl e \<Rightarrow> (Inl (Append_internal e), file)
      | Inr _ \<Rightarrow>
          if count_lines file \<ge> MAX_CHANNEL_DEPTH then (Inl Channel_full, file)
          else if file_bytes file \<ge> MAX_CHANNEL_FILE_BYTES then (Inl Channel_full, file)
          else (case ce_encode E message of
                  None \<Rightarrow> (Inl (Append_internal ''failed to serialise peer message''), file)
                | Some l \<Rightarrow>
                    (case ce_open_error E of
                       Some e \<Rightarrow> (Inl (Append_internal e), file)
                     | None \<Rightarrow> (Inr (), Some ((case file of Some ls \<Rightarrow> ls | None \<Rightarrow> []) @ [l])))))"

definition append_message ::
  "channel_env \<Rightarrow> string \<Rightarrow> peer_message \<Rightarrow> channel_file \<Rightarrow> (append_message_error + unit) \<times> channel_file" where
  "append_message E state_dir message file =
     (case channel_lock E state_dir (pm_parent_task_id message) of
        Inl e \<Rightarrow> (Inl (Append_internal e), file)
      | Inr _ \<Rightarrow> append_message_inner E state_dir message file)"

definition wanted :: "nat \<Rightarrow> string option \<Rightarrow> peer_message \<Rightarrow> bool" where
  "wanted after_ms recipient_filter m \<longleftrightarrow>
     after_ms < pm_sent_at m
     \<and> (case recipient_filter of
          Some agent_id \<Rightarrow> pm_recipient m = ''*'' \<or> pm_recipient m = agent_id
        | None \<Rightarrow> True)"

fun read_lines ::
  "channel_env \<Rightarrow> nat \<Rightarrow> string option \<Rightarrow> string list \<Rightarrow> peer_message list \<Rightarrow> string + peer_message list" where
  "read_lines E after_ms flt [] results = Inr results"
| "read_lines E after_ms flt (l # ls) results =
     (if \<not> valid_utf8 l then Inl ''failed to read channel file line''
      else if length l + 1 > MAX_LINE_BYTES \<or> trim l = '''' then read_lines E after_ms flt ls results
      else (case ce_decode E (trim l) of
              None \<Rightarrow> read_lines E after_ms flt ls results
            | Some m \<Rightarrow>
                if \<not> wanted after_ms flt m then read_lines E after_ms flt ls results
                else if length results + 1 \<ge> MAX_CHANNEL_READ_BATCH then Inr (results @ [m])
                else read_lines E after_ms flt ls (results @ [m])))"

definition read_messages ::
  "channel_env \<Rightarrow> string \<Rightarrow> string \<Rightarrow> nat \<Rightarrow> string option \<Rightarrow> channel_file \<Rightarrow> string + peer_message list" where
  "read_messages E state_dir parent_task_id after_ms recipient_filter file =
     (case assert_durable_access (ce_mode E) (channel_path state_dir parent_task_id) of
        Inl e \<Rightarrow> Inl e
      | Inr _ \<Rightarrow>
          (case file of
             None \<Rightarrow> Inr []
           | Some ls \<Rightarrow>
               (case channel_lock E state_dir parent_task_id of
                  Inl e \<Rightarrow> Inl e
                | Inr _ \<Rightarrow>
                    (case ce_open_error E of
                       Some e \<Rightarrow> Inl e
                     | None \<Rightarrow> read_lines E after_ms recipient_filter ls []))))"

section \<open>Posting\<close>

datatype peer_channel_error =
    Parent_task_not_found
  | Sender_not_in_task
  | Content_too_long
  | Channel_is_full
  | Invalid_kind
  | Channel_internal string

text \<open>\<open>parent_state\<close> is the saved parent task: none, or its reading.\<close>

definition facade_post_peer_message ::
  "channel_env \<Rightarrow> string \<Rightarrow> (string + task_state) option \<Rightarrow> string \<Rightarrow> nat \<Rightarrow> string \<Rightarrow> string \<Rightarrow> string
   \<Rightarrow> string \<Rightarrow> string \<Rightarrow> channel_file \<Rightarrow> (peer_channel_error + peer_message) \<times> channel_file" where
  "facade_post_peer_message E state_dir parent_state uuid now parent_task_id sender_id recipient kind content file =
     (case parse_peer_message_kind kind of
        None \<Rightarrow> (Inl Invalid_kind, file)
      | Some k \<Rightarrow>
          if length content > MAX_PEER_MESSAGE_BYTES then (Inl Content_too_long, file)
          else (case parent_state of
                  None \<Rightarrow> (Inl Parent_task_not_found, file)
                | Some (Inl e) \<Rightarrow> (Inl (Channel_internal e), file)
                | Some (Inr state) \<Rightarrow>
                    (case List.find (\<lambda>t. stk_id t = sender_id) (ts_session_tasks state) of
                       None \<Rightarrow> (Inl Sender_not_in_task, file)
                     | Some sender_task \<Rightarrow>
                         (let message = peer_message_new uuid now sender_id (stk_agent_id sender_task)
                                          parent_task_id recipient k content
                          in case append_message E state_dir message file of
                               (Inr _, file1) \<Rightarrow> (Inr message, file1)
                             | (Inl Channel_full, file1) \<Rightarrow> (Inl Channel_is_full, file1)
                             | (Inl (Append_internal e), file1) \<Rightarrow> (Inl (Channel_internal e), file1)))))"

definition facade_read_peer_messages ::
  "channel_env \<Rightarrow> string \<Rightarrow> string \<Rightarrow> nat \<Rightarrow> string option \<Rightarrow> channel_file \<Rightarrow> string + peer_message list" where
  "facade_read_peer_messages E state_dir parent_task_id after_ms recipient_filter file =
     read_messages E state_dir parent_task_id after_ms recipient_filter file"

end
