(* ===== verification/Peer_Laws.thy ===== *)
theory Peer_Laws
  imports Peer_Channel
begin

text \<open>
  The channel as a log: what is posted is read back in order, newest batches after a time stamp, and the
  channel never holds more messages than its depth. Two ways in which a message that was accepted is missed.
\<close>

section \<open>Appends\<close>

fun append_all ::
  "channel_env \<Rightarrow> string \<Rightarrow> peer_message list \<Rightarrow> channel_file \<Rightarrow> channel_file option" where
  "append_all E dir [] ch = Some ch"
| "append_all E dir (m # ms) ch =
     (case append_message E dir m ch of
        (Inr _, ch1) \<Rightarrow> append_all E dir ms ch1
      | (Inl _, _) \<Rightarrow> None)"

definition file_lines :: "channel_file \<Rightarrow> string list" where
  "file_lines ch = (case ch of Some ls \<Rightarrow> ls | None \<Rightarrow> [])"

lemma append_message_ok:
  assumes "append_message E dir m ch = (Inr u, ch1)"
  shows "\<exists>l. ce_encode E m = Some l \<and> ch1 = Some (file_lines ch @ [l]) \<and> count_lines ch < MAX_CHANNEL_DEPTH
     \<and> channel_lock E dir (pm_parent_task_id m) = Inr () \<and> ce_open_error E = None
     \<and> (\<exists>p. assert_durable_access (ce_mode E) (channel_path dir (pm_parent_task_id m)) = Inr p)"
  using assms
  by (auto simp: append_message_def append_message_inner_def file_lines_def split: sum.splits if_splits option.splits)

lemma append_message_refused:
  "append_message E dir m ch = (Inl e, ch1) \<Longrightarrow> ch1 = ch"
  by (auto simp: append_message_def append_message_inner_def split: sum.splits if_splits option.splits)

text \<open>A message whose line can be read back.\<close>

definition readable :: "channel_env \<Rightarrow> peer_message \<Rightarrow> bool" where
  "readable E m \<longleftrightarrow>
     (case ce_encode E m of
        Some l \<Rightarrow> ce_decode E (trim l) = Some m \<and> trim l \<noteq> '''' \<and> valid_utf8 l \<and> length l < MAX_LINE_BYTES
      | None \<Rightarrow> False)"

definition line_of :: "channel_env \<Rightarrow> peer_message \<Rightarrow> string" where
  "line_of E m = the (ce_encode E m)"

lemma append_all_lines:
  "append_all E dir ms ch = Some ch1 \<Longrightarrow> list_all (readable E) ms
   \<Longrightarrow> file_lines ch1 = file_lines ch @ map (line_of E) ms
       \<and> (count_lines ch \<le> MAX_CHANNEL_DEPTH \<longrightarrow> count_lines ch1 \<le> MAX_CHANNEL_DEPTH)
       \<and> (ms \<noteq> [] \<longrightarrow> ch1 \<noteq> None)"
proof (induction ms arbitrary: ch)
  case (Cons m ms)
  obtain u ch2 where first: "append_message E dir m ch = (Inr u, ch2)" "append_all E dir ms ch2 = Some ch1"
    using Cons.prems(1) by (auto split: prod.splits sum.splits)
  from append_message_ok [OF first(1)] obtain l where l: "ce_encode E m = Some l"
    "ch2 = Some (file_lines ch @ [l])" "count_lines ch < MAX_CHANNEL_DEPTH" by blast
  have "count_lines ch2 \<le> MAX_CHANNEL_DEPTH"
    using l(2,3) by (cases ch) (auto simp: count_lines_def file_lines_def)
  with Cons.IH [OF first(2)] Cons.prems(2) l show ?case
    by (auto simp: file_lines_def line_of_def)
qed simp

section \<open>Reads\<close>

lemma read_lines_log:
  "list_all (readable E) ms \<Longrightarrow> length results < MAX_CHANNEL_READ_BATCH
   \<Longrightarrow> read_lines E after_ms flt (map (line_of E) ms) results
       = Inr (take MAX_CHANNEL_READ_BATCH (results @ filter (wanted after_ms flt) ms))"
proof (induction ms arbitrary: results)
  case (Cons m ms)
  then obtain l where l: "ce_encode E m = Some l" "ce_decode E (trim l) = Some m" "trim l \<noteq> ''''" "valid_utf8 l"
    "length l < MAX_LINE_BYTES"
    by (auto simp: readable_def split: option.splits)
  show ?case
  proof (cases "wanted after_ms flt m")
    case False
    with l Cons.IH [of results] Cons.prems show ?thesis by (simp add: line_of_def)
  next
    case True
    show ?thesis
    proof (cases "length results + 1 \<ge> MAX_CHANNEL_READ_BATCH")
      case full: True
      with Cons.prems(2) have "MAX_CHANNEL_READ_BATCH = Suc (length results)" by simp
      then have "MAX_CHANNEL_READ_BATCH - length results = 1" by simp
      with True full l show ?thesis by (simp add: line_of_def)
    next
      case False
      with True l Cons.IH [of "results @ [m]"] Cons.prems show ?thesis by (simp add: line_of_def)
    qed
  qed
qed (simp add: MAX_CHANNEL_READ_BATCH_def)

text \<open>
  C40 [peer_channel_is_log]: the channel of a task refines a log of messages. When messages were posted to an
  empty channel one after the other, all accepted and readable, then there are at most 256 of them, and a read
  after a time stamp, for all or for one agent, gives the first 64 of those that were sent later and are for
  that agent, in the order in which they were posted.
\<close>

theorem peer_channel_is_log:
  assumes "append_all E dir msgs None = Some ch" and "msgs \<noteq> []"
    and "list_all (readable E) msgs" and "list_all (\<lambda>m. pm_parent_task_id m = task) msgs"
  shows "read_messages E dir task after_ms who ch
           = Inr (take MAX_CHANNEL_READ_BATCH (filter (wanted after_ms who) msgs))
       \<and> length msgs \<le> MAX_CHANNEL_DEPTH"
proof -
  obtain m ms where msgs: "msgs = m # ms" using assms(2) by (cases msgs) auto
  with assms(1) obtain u ch1 where "append_message E dir m None = (Inr u, ch1)"
    by (auto split: prod.splits sum.splits)
  from append_message_ok [OF this] assms(4) msgs obtain p where
    open_: "channel_lock E dir task = Inr ()" "ce_open_error E = None"
      "assert_durable_access (ce_mode E) (channel_path dir task) = Inr p" by auto
  from append_all_lines [OF assms(1,3)] assms(2) obtain ls where
    ls: "ch = Some ls" "ls = map (line_of E) msgs" "count_lines ch \<le> MAX_CHANNEL_DEPTH"
    by (cases ch) (auto simp: file_lines_def count_lines_def)
  have "filter (\<lambda>l. valid_utf8 l \<and> trim l \<noteq> '''') ls = ls"
    using assms(3) unfolding ls(2) by (auto simp: filter_id_conv list_all_iff readable_def line_of_def split: option.splits)
  then have "length msgs \<le> MAX_CHANNEL_DEPTH" using ls by (simp add: count_lines_def)
  moreover have "read_lines E after_ms who ls [] = Inr (take MAX_CHANNEL_READ_BATCH (filter (wanted after_ms who) msgs))"
    using read_lines_log [OF assms(3), of "[]"] by (simp add: ls(2) MAX_CHANNEL_READ_BATCH_def)
  ultimately show ?thesis
    by (simp add: read_messages_def open_ ls(1))
qed

definition sample_message :: "nat \<Rightarrow> string \<Rightarrow> peer_message" where
  "sample_message t c = peer_message_new ''m'' t ''s'' ''agent'' ''task'' ''*'' Status_note c"

definition sample_channel :: channel_env where
  "sample_channel =
     \<lparr>ce_mode = Policy_off, ce_encode = (\<lambda>m. Some (pm_content m)),
      ce_decode = (\<lambda>l. if l = ''first'' then Some (sample_message 1 l) else Some (sample_message 2 l)),
      ce_lock_error = None, ce_open_error = None\<rparr>"

theorem peer_channel_is_log_witness:
  "\<exists>ch. append_all sample_channel ''d'' [sample_message 1 ''first'', sample_message 2 ''next''] None = Some ch
     \<and> read_messages sample_channel ''d'' ''task'' 1 None ch = Inr [sample_message 2 ''next'']"
proof -
  let ?msgs = "[sample_message 1 ''first'', sample_message 2 ''next'']"
  have run: "append_all sample_channel ''d'' ?msgs None = Some (Some [''first'', ''next''])"
    by (simp add: append_message_def append_message_inner_def channel_lock_def assert_durable_access_def
        enforce_policy_def sample_channel_def sample_message_def peer_message_new_def count_lines_def file_bytes_def
        MAX_CHANNEL_DEPTH_def MAX_CHANNEL_FILE_BYTES_def channel_path_def channel_lock_path_def
        split: if_splits)
  have "trim ''first'' = ''first''" "trim ''next'' = ''next''" "valid_utf8 ''first''" "valid_utf8 ''next''"
    by code_simp+
  then have readable: "list_all (readable sample_channel) ?msgs"
    by (simp add: readable_def sample_channel_def sample_message_def peer_message_new_def MAX_LINE_BYTES_def)
  have task: "list_all (\<lambda>m. pm_parent_task_id m = ''task'') ?msgs" by code_simp
  have "filter (wanted 1 None) ?msgs = [sample_message 2 ''next'']"
    by (simp add: wanted_def sample_message_def peer_message_new_def)
  with peer_channel_is_log [OF run _ readable task, of 1 None] run show ?thesis
    by (simp add: MAX_CHANNEL_READ_BATCH_def)
qed

section \<open>Messages that are missed\<close>

text \<open>A line over the limit is accepted, counted, and never read.\<close>

lemma oversize_line_never_read:
  "MAX_LINE_BYTES \<le> length l \<Longrightarrow> valid_utf8 l
   \<Longrightarrow> read_lines E after_ms flt (ls @ [l]) results = read_lines E after_ms flt ls results"
  by (induction ls arbitrary: results) (auto split: option.splits)

lemma oversize_line_accepted:
  assumes "append_message E dir m ch = (Inr u, ch1)" "ce_encode E m' = Some l" "m' = m\<lparr>pm_content := c\<rparr>"
  shows "\<exists>ch2. append_message E dir m' ch = (Inr (), ch2)"
  using assms by (auto simp: append_message_def append_message_inner_def split: sum.splits if_splits option.splits)

text \<open>A reader that goes on from the time of the last message of a batch misses those of the same time.\<close>

lemma same_time_missed:
  "list_all (\<lambda>m. pm_sent_at m \<le> t) msgs \<Longrightarrow> filter (wanted t who) msgs = []"
  by (auto simp: list_all_iff wanted_def filter_empty_conv)

end
