(* ===== verification/Task_Store.thy ===== *)
theory Task_Store
  imports Disk_Policy Memory_Notes Task_State "HOL-Library.AList"
begin

text \<open>
  Saved tasks (\<open>src/runtime/task_state/persist.rs\<close>, \<open>task_header.rs\<close>, \<open>header_cache.rs\<close>): saving and loading a
  task, the bounded scan for the most recent ones, and the searches that read only the headers, through a
  cache. The JSON forms, the environment and the clock are parameters. A load that never returns, because the
  repair of step ids does not end, is \<open>None\<close>.
\<close>

record task_header =
  th_id :: string
  th_modified_millis :: nat
  th_session_tasks :: "(string \<times> session_task_status) list option" \<comment> \<open>agent and life cycle state\<close>

record 'd task_store_env =
  te_disk :: "'d disk"
  te_mode :: disk_policy_mode
  te_encode :: "task_state \<Rightarrow> string"
  te_decode :: "string \<Rightarrow> task_state option"
  te_header :: "string \<Rightarrow> task_header option"
  te_var :: "string \<Rightarrow> string option"
  te_entry_millis :: "'d \<Rightarrow> path \<Rightarrow> nat option" \<comment> \<open>of a directory entry itself: a link is not followed\<close>

section \<open>Saving and loading\<close>

definition state_file_path :: "path \<Rightarrow> string \<Rightarrow> path" where
  "state_file_path dir name = join dir (components (name @ ''.json''))"

definition task_save :: "'d task_store_env \<Rightarrow> path \<Rightarrow> task_state \<Rightarrow> 'd \<Rightarrow> (string + unit) \<times> 'd" where
  "task_save T dir state d =
     (let final_path = state_file_path dir (ts_id state)
      in case assert_durable_access (te_mode T) (display_path final_path) of
           Inl e \<Rightarrow> (Inl e, d)
         | Inr _ \<Rightarrow> write_bytes_safe (te_disk T) final_path (te_encode T state) ''task state'' d)"

definition task_load :: "'d task_store_env \<Rightarrow> nat \<Rightarrow> path \<Rightarrow> string \<Rightarrow> 'd \<Rightarrow> (string + task_state) option" where
  "task_load T now dir name d =
     (let p = state_file_path dir name
      in case assert_durable_access (te_mode T) (display_path p) of
           Inl e \<Rightarrow> Some (Inl e)
         | Inr _ \<Rightarrow>
             (case dk_read_to_string (te_disk T) d p of
                Inl e \<Rightarrow> Some (Inl (''Failed to read state file: '' @ display_path p))
              | Inr content \<Rightarrow>
                  (case te_decode T content of
                     None \<Rightarrow> Some (Inl (''Failed to deserialize state file: '' @ display_path p))
                   | Some state \<Rightarrow> map_option Inr (repair_loaded now state))))"

section \<open>Where tasks are saved\<close>

definition repo_root :: "'d task_store_env \<Rightarrow> path \<Rightarrow> 'd \<Rightarrow> path" where
  "repo_root T start d = workspace_root (\<lambda>p. dk_exists (te_disk T) d p) start"

definition resolve_relative_to_workspace :: "'d task_store_env \<Rightarrow> path \<Rightarrow> path \<Rightarrow> 'd \<Rightarrow> path" where
  "resolve_relative_to_workspace T start p d = (if is_absolute p then p else join (repo_root T start d) p)"

definition state_dir_from :: "'d task_store_env \<Rightarrow> path \<Rightarrow> 'd \<Rightarrow> path" where
  "state_dir_from T working_dir d =
     (case te_var T ''VEX_STATE_DIR'' of
        Some p \<Rightarrow> resolve_relative_to_workspace T working_dir (components p) d
      | None \<Rightarrow> join (repo_root T working_dir d) (components ''.vex/state''))"

definition state_search_dirs_from :: "'d task_store_env \<Rightarrow> path \<Rightarrow> 'd \<Rightarrow> path list" where
  "state_search_dirs_from T working_dir d =
     (let dir = state_dir_from T working_dir d;
          legacy = (case te_var T ''VEX_STATE_DIR'' of
                      Some p \<Rightarrow> if is_absolute (components p) then None else Some (join working_dir (components p))
                    | None \<Rightarrow> Some (join working_dir (components ''.vex/state'')))
      in case legacy of Some l \<Rightarrow> if dir = l then [dir] else [dir, l] | None \<Rightarrow> [dir])"

section \<open>The scan\<close>

record task_state_file =
  tf_dir :: path
  tf_id :: string
  tf_modified_millis :: nat

fun replace_matching :: "('a \<Rightarrow> bool) \<Rightarrow> 'a \<Rightarrow> 'a list \<Rightarrow> 'a list" where
  "replace_matching P y [] = []"
| "replace_matching P y (x # xs) = (if P x then y # xs else x # replace_matching P y xs)"

text \<open>The index of the first least element, as \<open>min_by_key\<close> gives it.\<close>

definition min_index :: "nat list \<Rightarrow> nat" where
  "min_index ks = length (takeWhile (\<lambda>k. k \<noteq> Min (set ks)) ks)"

definition insert_bounded_state_file ::
  "nat \<Rightarrow> task_state_file \<Rightarrow> task_state_file list \<Rightarrow> task_state_file list" where
  "insert_bounded_state_file cap file selected =
     (if cap = 0 then selected
      else case List.find (\<lambda>e. tf_id e = tf_id file) selected of
             Some existing \<Rightarrow>
               if tf_modified_millis file > tf_modified_millis existing
               then replace_matching (\<lambda>e. tf_id e = tf_id file) file selected else selected
           | None \<Rightarrow>
               if length selected < cap then selected @ [file]
               else if selected = [] then selected
               else (let i = min_index (map tf_modified_millis selected)
                     in if tf_modified_millis file > tf_modified_millis (selected ! i) then selected[i := file]
                        else selected))"

definition is_working_set_filename :: "string \<Rightarrow> bool" where
  "is_working_set_filename name \<longleftrightarrow> ends_with name ''.working-set.json'' \<or> ends_with name ''.join.json''"

definition file_extension :: "string \<Rightarrow> string option" where
  "file_extension name =
     (case rfind_char CHR ''.'' name of Some i \<Rightarrow> if i = 0 then None else Some (drop (Suc i) name) | None \<Rightarrow> None)"

definition state_file_of :: "'d task_store_env \<Rightarrow> path \<Rightarrow> 'd \<Rightarrow> string \<Rightarrow> task_state_file option" where
  "state_file_of T dir d name =
     (if file_extension name \<noteq> Some ''json'' \<or> is_working_set_filename name then None
      else Some \<lparr>tf_dir = dir, tf_id = file_stem name,
                 tf_modified_millis = (case te_entry_millis T d (join dir [Normal name]) of
                    Some ms \<Rightarrow> ms | None \<Rightarrow> 0)\<rparr>)"

definition files_in_dir :: "'d task_store_env \<Rightarrow> 'd \<Rightarrow> path \<Rightarrow> task_state_file list" where
  "files_in_dir T d dir =
     (case dk_read_dir (te_disk T) d dir of
        Dir_entries entries \<Rightarrow> List.map_filter (state_file_of T dir d) (map fst entries)
      | _ \<Rightarrow> [])"

definition state_files_from_with_limit :: "'d task_store_env \<Rightarrow> path \<Rightarrow> nat \<Rightarrow> 'd \<Rightarrow> task_state_file list" where
  "state_files_from_with_limit T working_dir cap d =
     sort_key (\<lambda>f. - int (tf_modified_millis f))
       (fold (insert_bounded_state_file cap)
          (concat (map (files_in_dir T d) (state_search_dirs_from T working_dir d))) [])"

definition max_scans :: "'d task_store_env \<Rightarrow> nat" where
  "max_scans T =
     (case Option.bind (te_var T ''VEX_MAX_STARTUP_TASK_SCANS'') (\<lambda>s. parse_u64 (trim s)) of
        Some n \<Rightarrow> if n > 0 then n else 200
      | None \<Rightarrow> 200)"

definition load_from_search_dirs_from ::
  "'d task_store_env \<Rightarrow> nat \<Rightarrow> path \<Rightarrow> string \<Rightarrow> 'd \<Rightarrow> (string + task_state) option" where
  "load_from_search_dirs_from T now working_dir name d =
     (case List.find (\<lambda>f. tf_id f = name) (state_files_from_with_limit T working_dir (max_scans T) d) of
        Some file \<Rightarrow> task_load T now (tf_dir file) name d
      | None \<Rightarrow> Some (Inl (''task state '' @ [CHR 0x27] @ name @ [CHR 0x27] @ '' not found'')))"

section \<open>Headers\<close>

definition header_from_path :: "'d task_store_env \<Rightarrow> 'd \<Rightarrow> path \<Rightarrow> task_header option" where
  "header_from_path T d p =
     (case assert_durable_access (te_mode T) (display_path p) of
        Inl e \<Rightarrow> None
      | Inr _ \<Rightarrow>
          (case dk_read_to_string (te_disk T) d p of
             Inl e \<Rightarrow> None
           | Inr content \<Rightarrow> te_header T content))"

record cache_entry =
  hc_header :: task_header
  hc_fingerprint :: file_fingerprint
  hc_last_access :: nat
  hc_updated_at :: nat

record header_cache =
  hl_entries :: "(path \<times> cache_entry) list"
  hl_next_access :: nat

definition MAX_HEADER_CACHE_ENTRIES :: nat where
  "MAX_HEADER_CACHE_ENTRIES = 512"

definition header_cache_default :: header_cache where
  "header_cache_default = \<lparr>hl_entries = [], hl_next_access = 0\<rparr>"

definition cache_tick :: "header_cache \<Rightarrow> nat \<times> header_cache" where
  "cache_tick c = (let n = sat_add (hl_next_access c) 1 in (n, c\<lparr>hl_next_access := n\<rparr>))"

text \<open>The key of the entry that was used least recently, by the older task among equals.\<close>

fun lru_key :: "(path \<times> cache_entry) list \<Rightarrow> (path \<times> nat \<times> nat) option" where
  "lru_key [] = None"
| "lru_key ((p, e) # es) =
     (case lru_key es of
        None \<Rightarrow> Some (p, hc_last_access e, hc_updated_at e)
      | Some (q, a, u) \<Rightarrow>
          if a < hc_last_access e \<or> (a = hc_last_access e \<and> u < hc_updated_at e) then Some (q, a, u)
          else Some (p, hc_last_access e, hc_updated_at e))"

lemma lru_key_in: "lru_key es = Some (q, r) \<Longrightarrow> q \<in> fst ` set es"
proof (induction es arbitrary: q r rule: lru_key.induct)
  case (2 p e es)
  then show ?case by (cases "lru_key es") (auto split: prod.splits if_splits)
qed simp

lemma delete_shorter: "q \<in> fst ` set es \<Longrightarrow> length (AList.delete q es) < length es"
  by (induction es) (auto intro: le_imp_less_Suc simp: length_delete_le)

function evict_lru :: "(path \<times> cache_entry) list \<Rightarrow> (path \<times> cache_entry) list" where
  "evict_lru es =
     (if length es > MAX_HEADER_CACHE_ENTRIES then
        (case lru_key es of Some (q, a) \<Rightarrow> evict_lru (AList.delete q es) | None \<Rightarrow> es)
      else es)"
  by pat_completeness auto
termination
  by (relation "measure length") (auto intro!: delete_shorter lru_key_in)

declare evict_lru.simps [simp del]

definition read_into_cache ::
  "'d task_store_env \<Rightarrow> 'd \<Rightarrow> path \<Rightarrow> file_fingerprint \<Rightarrow> header_cache \<Rightarrow> task_header option \<times> header_cache" where
  "read_into_cache T d p fp c =
     (case header_from_path T d p of
        None \<Rightarrow> (None, c)
      | Some h \<Rightarrow>
          (let (n, c1) = cache_tick c;
               e = \<lparr>hc_header = h, hc_fingerprint = fp, hc_last_access = n, hc_updated_at = th_modified_millis h\<rparr>
           in (Some h, c1\<lparr>hl_entries := evict_lru (AList.update p e (hl_entries c1))\<rparr>)))"

definition cached_task_header ::
  "'d task_store_env \<Rightarrow> 'd \<Rightarrow> path \<Rightarrow> header_cache \<Rightarrow> task_header option \<times> header_cache" where
  "cached_task_header T d p c =
     (case dk_fingerprint (te_disk T) d p of
        None \<Rightarrow> (None, c)
      | Some fp \<Rightarrow>
          (case map_of (hl_entries c) p of
             Some e \<Rightarrow>
               if hc_fingerprint e = fp then
                 (let (n, c1) = cache_tick c
                  in (Some (hc_header e), c1\<lparr>hl_entries := AList.update p (e\<lparr>hc_last_access := n\<rparr>) (hl_entries c1)\<rparr>))
               else read_into_cache T d p fp (c\<lparr>hl_entries := AList.delete p (hl_entries c)\<rparr>)
           | None \<Rightarrow> read_into_cache T d p fp c))"

section \<open>Searches\<close>

definition task_path :: "task_state_file \<Rightarrow> path" where
  "task_path f = state_file_path (tf_dir f) (tf_id f)"

definition is_search_candidate :: "task_header \<Rightarrow> string \<Rightarrow> bool" where
  "is_search_candidate h session_task_id =
     (case th_session_tasks h of
        None \<Rightarrow> True
      | Some tasks \<Rightarrow>
          list_ex (\<lambda>(agent_id, status). starts_with session_task_id (th_id h @ ''-'' @ agent_id @ ''-'')) tasks)"

fun search_files ::
  "'d task_store_env \<Rightarrow> nat \<Rightarrow> string \<Rightarrow> 'd \<Rightarrow> task_state_file list \<Rightarrow> header_cache
   \<Rightarrow> ((string + (task_state \<times> session_task) option) \<times> header_cache) option" where
  "search_files T now session_task_id d [] c = Some (Inr None, c)"
| "search_files T now session_task_id d (f # fs) c =
     (case cached_task_header T d (task_path f) c of
        (None, c1) \<Rightarrow> search_files T now session_task_id d fs c1
      | (Some h, c1) \<Rightarrow>
          if \<not> is_search_candidate h session_task_id then search_files T now session_task_id d fs c1
          else (case task_load T now (tf_dir f) (tf_id f) d of
                  None \<Rightarrow> None
                | Some (Inl e) \<Rightarrow> Some (Inl e, c1)
                | Some (Inr state) \<Rightarrow>
                    (case List.find (\<lambda>t. stk_id t = session_task_id) (ts_session_tasks state) of
                       Some t \<Rightarrow> Some (Inr (Some (state, t)), c1)
                     | None \<Rightarrow> search_files T now session_task_id d fs c1)))"

definition find_session_task_in_saved_states ::
  "'d task_store_env \<Rightarrow> nat \<Rightarrow> path \<Rightarrow> string \<Rightarrow> 'd \<Rightarrow> header_cache
   \<Rightarrow> ((string + (task_state \<times> session_task) option) \<times> header_cache) option" where
  "find_session_task_in_saved_states T now working_dir session_task_id d c =
     search_files T now session_task_id d (state_files_from_with_limit T working_dir (max_scans T) d) c"

text \<open>The counts of live session tasks by agent.\<close>

fun count_live ::
  "'d task_store_env \<Rightarrow> 'd \<Rightarrow> task_state_file list \<Rightarrow> header_cache \<Rightarrow> (string \<Rightarrow> nat) \<Rightarrow> (string \<Rightarrow> nat) \<times> header_cache" where
  "count_live T d [] c counts = (counts, c)"
| "count_live T d (f # fs) c counts =
     (case cached_task_header T d (task_path f) c of
        (None, c1) \<Rightarrow> count_live T d fs c1 counts
      | (Some h, c1) \<Rightarrow>
          count_live T d fs c1
            (fold (\<lambda>(agent_id, status) n. if is_live status then n(agent_id := n agent_id + 1) else n)
               (case th_session_tasks h of Some tasks \<Rightarrow> tasks | None \<Rightarrow> []) counts))"

definition live_session_task_counts_from ::
  "'d task_store_env \<Rightarrow> path \<Rightarrow> 'd \<Rightarrow> header_cache \<Rightarrow> (string \<Rightarrow> nat) \<times> header_cache" where
  "live_session_task_counts_from T working_dir d c =
     count_live T d (state_files_from_with_limit T working_dir (max_scans T) d) c (\<lambda>_. 0)"

end
