(* ===== verification/Task_Store_Laws.thy ===== *)
theory Task_Store_Laws
  imports Task_Store Demo_Disk
begin

text \<open>
  The scan for saved tasks keeps the most recent ones, and the cache of headers never shows: what it answers
  is what a reading of the file would answer, as long as a changed file has another length or time.
\<close>

section \<open>The scan\<close>

text \<open>The newest of a set of files: each taken one is the newest of its identifier, and what was left out is
  not newer than anything taken, which is only allowed when there was no room.\<close>

definition newest_set :: "task_state_file set \<Rightarrow> task_state_file set \<Rightarrow> bool \<Rightarrow> bool" where
  "newest_set F S full \<longleftrightarrow>
     inj_on tf_id S \<and> S \<subseteq> F
     \<and> (\<forall>s \<in> S. \<forall>f \<in> F. tf_id f = tf_id s \<longrightarrow> tf_modified_millis f \<le> tf_modified_millis s)
     \<and> (\<forall>f \<in> F. tf_id f \<notin> tf_id ` S \<longrightarrow> full \<and> (\<forall>s \<in> S. tf_modified_millis f \<le> tf_modified_millis s))"

definition newest_selection :: "nat \<Rightarrow> task_state_file list \<Rightarrow> task_state_file list \<Rightarrow> bool" where
  "newest_selection cap files selected \<longleftrightarrow>
     distinct (map tf_id selected) \<and> length selected \<le> cap
     \<and> newest_set (set files) (set selected) (length selected = cap)"

lemma newest_swap:
  assumes N: "newest_set F S full" and x: "x \<in> S" "tf_id x = tf_id f" "tf_modified_millis x < tf_modified_millis f"
  shows "newest_set (insert f F) (insert f (S - {x})) full"
proof -
  have inj: "inj_on tf_id S" and sub: "S \<subseteq> F" using N by (simp_all add: newest_set_def)
  have dom: "tf_modified_millis g \<le> tf_modified_millis s" if "s \<in> S" "g \<in> F" "tf_id g = tf_id s" for s g
    using N that by (simp add: newest_set_def)
  have out: "full \<and> (\<forall>s \<in> S. tf_modified_millis g \<le> tf_modified_millis s)" if "g \<in> F" "tf_id g \<notin> tf_id ` S" for g
    using N that by (simp add: newest_set_def)
  have ids: "tf_id ` insert f (S - {x}) = tf_id ` S" using x by (auto intro: rev_image_eqI)
  have other: "tf_id s \<noteq> tf_id f" "tf_id f \<noteq> tf_id s" if "s \<in> S" "s \<noteq> x" for s
    using that inj_onD [OF inj, of s x] x by auto
  have upto: "tf_modified_millis g \<le> tf_modified_millis f" if "g \<in> F" "tf_id g = tf_id f" for g
    using dom [OF x(1) that(1)] that(2) x by simp
  show ?thesis
    unfolding newest_set_def ids
  proof (intro conjI ballI impI)
    show "inj_on tf_id (insert f (S - {x}))"
      using inj other by (auto simp: inj_on_def)
    show "insert f (S - {x}) \<subseteq> insert f F" using sub by auto
    fix s g
    assume s: "s \<in> insert f (S - {x})" and g: "g \<in> insert f F"
    show "tf_modified_millis g \<le> tf_modified_millis s" if "tf_id g = tf_id s"
    proof (cases "s = f")
      case True
      then show ?thesis using g that upto by auto
    next
      case False
      then show ?thesis using s g that other [of s] dom [of s g] by auto
    qed
  next
    fix g assume g: "g \<in> insert f F" "tf_id g \<notin> tf_id ` S"
    have "tf_id f \<in> tf_id ` S" using x by (auto intro: rev_image_eqI)
    with g have "g \<in> F" by auto
    then show "full" using out [OF _ g(2)] by simp
    fix s assume "s \<in> insert f (S - {x})"
    then show "tf_modified_millis g \<le> tf_modified_millis s"
      using out [OF \<open>g \<in> F\<close> g(2)] x by auto
  qed
qed

lemma newest_evict:
  assumes N: "newest_set F S True" and x: "x \<in> S" "tf_modified_millis x < tf_modified_millis f"
    and least: "\<forall>s \<in> S. tf_modified_millis x \<le> tf_modified_millis s" and fresh: "tf_id f \<notin> tf_id ` S"
  shows "newest_set (insert f F) (insert f (S - {x})) True"
proof -
  have inj: "inj_on tf_id S" and sub: "S \<subseteq> F" using N by (simp_all add: newest_set_def)
  have dom: "tf_modified_millis g \<le> tf_modified_millis s" if "s \<in> S" "g \<in> F" "tf_id g = tf_id s" for s g
    using N that by (simp add: newest_set_def)
  have out: "tf_modified_millis g \<le> tf_modified_millis s" if "g \<in> F" "tf_id g \<notin> tf_id ` S" "s \<in> S" for g s
    using N that by (simp add: newest_set_def)
  have below: "tf_modified_millis g \<le> tf_modified_millis x" if "g \<in> F" "tf_id g \<notin> tf_id ` (S - {x})" for g
  proof (cases "tf_id g = tf_id x")
    case True
    then show ?thesis using dom [OF x(1) that(1)] by simp
  next
    case False
    have "tf_id g \<notin> tf_id ` S" using that(2) False by auto
    then show ?thesis using out [OF that(1) _ x(1)] by simp
  qed
  show ?thesis
    unfolding newest_set_def
  proof (intro conjI ballI impI)
    have "tf_id f \<notin> tf_id ` (S - {x})" using fresh by auto
    then show "inj_on tf_id (insert f (S - {x}))" using inj_on_subset [OF inj, of "S - {x}"] by (simp add: image_iff)
    show "insert f (S - {x}) \<subseteq> insert f F" using sub by auto
    fix s g
    assume s: "s \<in> insert f (S - {x})" and g: "g \<in> insert f F"
    show "tf_modified_millis g \<le> tf_modified_millis s" if eq: "tf_id g = tf_id s"
    proof (cases "s = f")
      case True
      show ?thesis
      proof (cases "g = f")
        case False
        then have "g \<in> F" using g by simp
        moreover have "tf_id g \<notin> tf_id ` S" using eq True fresh by simp
        ultimately show ?thesis using out [OF _ _ x(1)] True x(2) by (metis less_imp_le_nat le_trans)
      qed (simp add: True)
    next
      case False
      then have "s \<in> S" using s by auto
      have "g \<noteq> f" using fresh eq imageI [OF \<open>s \<in> S\<close>, of tf_id] by metis
      then show ?thesis using g dom [OF \<open>s \<in> S\<close> _ eq] by simp
    qed
  next
    fix g s
    assume g: "g \<in> insert f F" "tf_id g \<notin> tf_id ` insert f (S - {x})" and s: "s \<in> insert f (S - {x})"
    then have "g \<in> F" "tf_id g \<notin> tf_id ` (S - {x})" by auto
    from below [OF this] have "tf_modified_millis g \<le> tf_modified_millis x" .
    then show "tf_modified_millis g \<le> tf_modified_millis s"
      using s x(2) least by (cases "s = f") (auto dest!: bspec)
  qed simp
qed

lemma newest_add:
  assumes N: "newest_set F S False" and fresh: "tf_id f \<notin> tf_id ` S"
  shows "newest_set (insert f F) (insert f S) full"
proof -
  have known: "tf_id g \<in> tf_id ` S" if "g \<in> F" for g using N that unfolding newest_set_def by blast
  have away: "tf_id g \<noteq> tf_id f" if "g \<in> F" for g using known [OF that] fresh by auto
  show ?thesis
    using N fresh known away unfolding newest_set_def by (auto simp: inj_on_insert)
qed

lemma newest_keep_same:
  assumes N: "newest_set F S full" and x: "x \<in> S" "tf_id x = tf_id f" "tf_modified_millis f \<le> tf_modified_millis x"
  shows "newest_set (insert f F) S full"
proof -
  have inj: "inj_on tf_id S" using N by (simp add: newest_set_def)
  have "s = x" if "s \<in> S" "tf_id f = tf_id s" for s
    using that x(2) by (intro inj_onD [OF inj _ that(1) x(1)]) simp
  then have low: "tf_modified_millis f \<le> tf_modified_millis s" if "s \<in> S" "tf_id f = tf_id s" for s
    using that x(3) by auto
  have "tf_id f \<in> tf_id ` S" using x by (auto intro: rev_image_eqI)
  with N low show ?thesis unfolding newest_set_def by auto
qed

lemma newest_keep_old:
  assumes N: "newest_set F S True" and fresh: "tf_id f \<notin> tf_id ` S"
    and low: "\<forall>s \<in> S. tf_modified_millis f \<le> tf_modified_millis s"
  shows "newest_set (insert f F) S True"
proof -
  have "tf_id f \<noteq> tf_id s" if "s \<in> S" for s using fresh that by auto
  with N low show ?thesis unfolding newest_set_def by auto
qed

section \<open>The list of the selected files\<close>

lemma find_some_set: "List.find P xs = Some x \<Longrightarrow> x \<in> set xs \<and> P x"
  by (auto simp: find_Some_iff)

lemma replace_matching_ids: "tf_id f = k \<Longrightarrow> map tf_id (replace_matching (\<lambda>e. tf_id e = k) f xs) = map tf_id xs"
  by (induction xs) auto

lemma replace_matching_set:
  "List.find (\<lambda>e. tf_id e = k) xs = Some x \<Longrightarrow> distinct (map tf_id xs)
   \<Longrightarrow> set (replace_matching (\<lambda>e. tf_id e = k) f xs) = insert f (set xs - {x})"
proof (induction xs)
  case (Cons y ys)
  show ?case
  proof (cases "tf_id y = k")
    case True
    then have "x = y" "y \<notin> set ys" using Cons.prems by auto
    then show ?thesis using True by auto
  next
    case False
    then have "x \<noteq> y" using Cons.prems(1) by (auto dest: find_some_set)
    then show ?thesis using False Cons by auto
  qed
qed simp

lemma replace_matching_length [simp]: "length (replace_matching P y xs) = length xs"
  by (induction xs) auto

lemma min_index_least:
  assumes "ks \<noteq> []"
  shows "min_index ks < length ks" "ks ! min_index ks = Min (set ks)"
proof -
  have "Min (set ks) \<in> set ks" using assms by (intro Min_in) auto
  then have "takeWhile (\<lambda>k. k \<noteq> Min (set ks)) ks \<noteq> ks"
    by (auto simp: takeWhile_eq_all_conv)
  then have "length (takeWhile (\<lambda>k. k \<noteq> Min (set ks)) ks) \<noteq> length ks"
    using takeWhile_eq_take [of "\<lambda>k. k \<noteq> Min (set ks)" ks] by fastforce
  then show l: "min_index ks < length ks"
    unfolding min_index_def using length_takeWhile_le [of "\<lambda>k. k \<noteq> Min (set ks)" ks] by linarith
  show "ks ! min_index ks = Min (set ks)"
    using nth_length_takeWhile [OF l [unfolded min_index_def]] by (simp add: min_index_def)
qed

section \<open>One file more\<close>

lemma newest_step:
  assumes N: "newest_selection cap files selected"
  shows "newest_selection cap (files @ [f]) (insert_bounded_state_file cap f selected)"
proof (cases "List.find (\<lambda>e. tf_id e = tf_id f) selected")
  case (Some x)
  have x: "x \<in> set selected" "tf_id x = tf_id f" using find_some_set [OF Some] by auto
  have d: "distinct (map tf_id selected)" "length selected \<le> cap"
    and S: "newest_set (set files) (set selected) (length selected = cap)"
    using N by (auto simp: newest_selection_def)
  have "cap \<noteq> 0" using x d by (cases selected) auto
  show ?thesis
  proof (cases "tf_modified_millis f > tf_modified_millis x")
    case True
    have "set (replace_matching (\<lambda>e. tf_id e = tf_id f) f selected) = insert f (set selected - {x})"
      by (rule replace_matching_set [OF Some d(1)])
    then show ?thesis
      using newest_swap [OF S x True] d True \<open>cap \<noteq> 0\<close>
      by (simp add: newest_selection_def insert_bounded_state_file_def Some replace_matching_ids)
  next
    case False
    then show ?thesis
      using newest_keep_same [OF S x] d \<open>cap \<noteq> 0\<close>
      by (simp add: newest_selection_def insert_bounded_state_file_def Some)
  qed
next
  case None
  have fresh: "tf_id f \<notin> tf_id ` set selected" using None by (auto simp: find_None_iff)
  have d: "distinct (map tf_id selected)" "length selected \<le> cap"
    and S: "newest_set (set files) (set selected) (length selected = cap)"
    using N by (auto simp: newest_selection_def)
  consider "cap = 0" | "cap \<noteq> 0" "length selected < cap" | "cap \<noteq> 0" "length selected = cap" "selected \<noteq> []"
    using d(2) by (cases "length selected < cap") auto
  then show ?thesis
  proof cases
    case 1
    then have "selected = []" using d by simp
    then show ?thesis using 1 by (simp add: newest_selection_def insert_bounded_state_file_def newest_set_def)
  next
    case 2
    have "newest_set (insert f (set files)) (insert f (set selected)) (Suc (length selected) = cap)"
      by (rule newest_add) (use S 2 fresh in auto)
    then show ?thesis
      using 2 d fresh by (simp add: newest_selection_def insert_bounded_state_file_def None)
  next
    case 3
    let ?i = "min_index (map tf_modified_millis selected)"
    let ?x = "selected ! ?i"
    have i: "?i < length selected" using min_index_least(1) [of "map tf_modified_millis selected"] 3 by simp
    have x: "?x \<in> set selected" using i by simp
    have "tf_modified_millis ?x = Min (tf_modified_millis ` set selected)"
      using min_index_least(2) [of "map tf_modified_millis selected"] i 3 by simp
    then have least: "\<forall>s \<in> set selected. tf_modified_millis ?x \<le> tf_modified_millis s" by simp
    have full: "newest_set (set files) (set selected) True" using S 3 by simp
    show ?thesis
    proof (cases "tf_modified_millis ?x < tf_modified_millis f")
      case True
      have "distinct selected" using d(1) by (simp add: distinct_map)
      then have upd: "set (selected[?i := f]) = insert f (set selected - {?x})"
        by (rule set_update_distinct [OF _ i])
      have "distinct (map tf_id (selected[?i := f]))"
        unfolding map_update by (rule distinct_list_update [OF d(1)]) (use fresh in auto)
      then show ?thesis
        using newest_evict [OF full x True least fresh] True 3 upd
        by (simp add: newest_selection_def insert_bounded_state_file_def None Let_def)
    next
      case False
      then have "\<forall>s \<in> set selected. tf_modified_millis f \<le> tf_modified_millis s" using least by auto
      from newest_keep_old [OF full fresh this] show ?thesis
        using False 3 d by (simp add: newest_selection_def insert_bounded_state_file_def None Let_def)
    qed
  qed
qed

text \<open>C39 [scan_keeps_newest]. The scan for saved tasks keeps at most \<open>cap\<close> files, one for each task identifier, each as
  recent as any other file of the same identifier; a task is left out only when the selection is full of files
  at least as recent. The order in which the directories list their files matters for files of the same time only.\<close>

theorem scan_keeps_newest:
  "newest_selection cap files (fold (insert_bounded_state_file cap) files [])"
proof (induction files rule: rev_induct)
  case Nil
  then show ?case by (simp add: newest_selection_def newest_set_def)
next
  case (snoc f files)
  then show ?case by (simp add: newest_step)
qed

section \<open>The header cache\<close>

lemma lru_key_some: "es \<noteq> [] \<Longrightarrow> \<exists>q r. lru_key es = Some (q, r)"
  by (cases es) (auto split: option.splits prod.splits)

lemma evict_lru_bound: "length (evict_lru es) \<le> MAX_HEADER_CACHE_ENTRIES"
proof (induction es rule: evict_lru.induct)
  case (1 es)
  show ?case
  proof (cases "length es > MAX_HEADER_CACHE_ENTRIES")
    case True
    then obtain q r where "lru_key es = Some (q, r)" using lru_key_some [of es] by fastforce
    then show ?thesis using 1 True by (subst evict_lru.simps) simp
  qed (simp add: evict_lru.simps [of es])
qed

lemma evict_lru_sub: "map_of (evict_lru es) p = Some e \<Longrightarrow> map_of es p = Some e"
proof (induction es rule: evict_lru.induct)
  case (1 es)
  show ?case
  proof (cases "length es > MAX_HEADER_CACHE_ENTRIES")
    case True
    then obtain q r where q: "lru_key es = Some (q, r)" using lru_key_some [of es] by fastforce
    then have "evict_lru es = evict_lru (AList.delete q es)"
      using True by (simp add: evict_lru.simps [of es])
    then have "map_of (AList.delete q es) p = Some e" using 1 True q by simp
    then show ?thesis by (cases "p = q") (auto simp: delete_conv')
  next
    case False
    then show ?thesis using 1 by (simp add: evict_lru.simps [of es])
  qed
qed

text \<open>What the cache holds was read from one of the disks seen so far, under the fingerprint it had there.\<close>

definition cache_faithful :: "'d task_store_env \<Rightarrow> 'd set \<Rightarrow> header_cache \<Rightarrow> bool" where
  "cache_faithful T D c \<longleftrightarrow>
     length (hl_entries c) \<le> MAX_HEADER_CACHE_ENTRIES
     \<and> (\<forall>p e. map_of (hl_entries c) p = Some e \<longrightarrow>
          (\<exists>d \<in> D. dk_fingerprint (te_disk T) d p = Some (hc_fingerprint e)
                   \<and> header_from_path T d p = Some (hc_header e)))"

text \<open>A fingerprint stands for one content: while length and time of a file stay, so does its header.\<close>

definition fingerprints_tell :: "'d task_store_env \<Rightarrow> 'd set \<Rightarrow> bool" where
  "fingerprints_tell T D \<longleftrightarrow>
     (\<forall>d \<in> D. \<forall>d' \<in> D. \<forall>p fp.
        dk_fingerprint (te_disk T) d p = Some fp \<longrightarrow> dk_fingerprint (te_disk T) d' p = Some fp
        \<longrightarrow> header_from_path T d p = header_from_path T d' p)"

definition fresh_header :: "'d task_store_env \<Rightarrow> 'd \<Rightarrow> path \<Rightarrow> task_header option" where
  "fresh_header T d p =
     (case dk_fingerprint (te_disk T) d p of None \<Rightarrow> None | Some fp \<Rightarrow> header_from_path T d p)"

lemma length_update_known:
  "map_of es p = Some e \<Longrightarrow> length (AList.update p e' es) = length es"
  by (induction es) auto

lemma read_into_cache_faithful:
  assumes C: "cache_faithful T D c" and d: "d \<in> D" and fp: "dk_fingerprint (te_disk T) d p = Some fp"
  shows "fst (read_into_cache T d p fp c) = header_from_path T d p"
    and "cache_faithful T D (snd (read_into_cache T d p fp c))"
proof -
  show "fst (read_into_cache T d p fp c) = header_from_path T d p"
    by (simp add: read_into_cache_def case_prod_unfold Let_def split: option.split)
  show "cache_faithful T D (snd (read_into_cache T d p fp c))"
  proof (cases "header_from_path T d p")
    case None
    then show ?thesis using C by (simp add: read_into_cache_def)
  next
    case (Some h)
    have now: "\<exists>d \<in> D. dk_fingerprint (te_disk T) d p = Some fp \<and> header_from_path T d p = Some h"
      using d fp Some by blast
    show ?thesis
      using C Some
      by (auto simp: read_into_cache_def cache_faithful_def cache_tick_def Let_def evict_lru_bound update_conv'
          dest!: evict_lru_sub split: if_splits)
        (use now in blast)
  qed
qed

lemma cached_header_faithful:
  assumes C: "cache_faithful T D c" and d: "d \<in> D" and tell: "fingerprints_tell T D"
  shows "fst (cached_task_header T d p c) = fresh_header T d p"
    and "cache_faithful T D (snd (cached_task_header T d p c))"
proof -
  have goal: "fst (cached_task_header T d p c) = fresh_header T d p
              \<and> cache_faithful T D (snd (cached_task_header T d p c))"
  proof (cases "dk_fingerprint (te_disk T) d p")
    case None
    then show ?thesis using C by (simp add: cached_task_header_def fresh_header_def)
  next
    case fp: (Some fp)
    show ?thesis
    proof (cases "map_of (hl_entries c) p")
      case None
      then show ?thesis
        using fp read_into_cache_faithful [OF C d fp] by (simp add: cached_task_header_def fresh_header_def)
    next
      case e: (Some e)
      then obtain d' where d': "d' \<in> D" "dk_fingerprint (te_disk T) d' p = Some (hc_fingerprint e)"
          "header_from_path T d' p = Some (hc_header e)"
        using C unfolding cache_faithful_def by blast
      show ?thesis
      proof (cases "hc_fingerprint e = fp")
        case True
        then have "header_from_path T d p = Some (hc_header e)"
          using tell d d' fp unfolding fingerprints_tell_def by metis
        then show ?thesis
          using C d fp e True
          by (auto simp: cached_task_header_def fresh_header_def cache_tick_def Let_def cache_faithful_def
              length_update_known update_conv' split: if_splits)
      next
        case False
        have "cache_faithful T D (c\<lparr>hl_entries := AList.delete p (hl_entries c)\<rparr>)"
          using C length_delete_le [of p "hl_entries c"]
          by (auto simp: cache_faithful_def delete_conv' split: if_splits)
        from read_into_cache_faithful [OF this d fp] show ?thesis
          using fp e False by (simp add: cached_task_header_def fresh_header_def)
      qed
    qed
  qed
  then show "fst (cached_task_header T d p c) = fresh_header T d p"
    and "cache_faithful T D (snd (cached_task_header T d p c))" by auto
qed

fun cached_lookups ::
  "'d task_store_env \<Rightarrow> ('d \<times> path) list \<Rightarrow> header_cache \<Rightarrow> task_header option list \<times> header_cache" where
  "cached_lookups T [] c = ([], c)"
| "cached_lookups T ((d, p) # rest) c =
     (let (h, c1) = cached_task_header T d p c; (hs, c2) = cached_lookups T rest c1 in (h # hs, c2))"

lemma cached_lookups_faithful:
  "cache_faithful T D c \<Longrightarrow> fst ` set lookups \<subseteq> D \<Longrightarrow> fingerprints_tell T D
   \<Longrightarrow> fst (cached_lookups T lookups c) = map (\<lambda>(d, p). fresh_header T d p) lookups
       \<and> cache_faithful T D (snd (cached_lookups T lookups c))"
proof (induction lookups arbitrary: c)
  case (Cons q qs)
  obtain d p where q: "q = (d, p)" by (cases q)
  have d: "d \<in> D" using Cons.prems(2) q by simp
  note step = cached_header_faithful [OF Cons.prems(1) d Cons.prems(3), of p]
  show ?case
    using Cons.IH [OF step(2)] Cons.prems step(1) by (simp add: q case_prod_unfold Let_def)
qed simp

text \<open>The header cache does not show: over any sequence of lookups on changing disks it
  answers what a reading of the file would answer each time, and it never holds more than its bound, as long
  as a file whose header changed also changed in length or modification time.\<close>

theorem header_cache_transparent:
  assumes "fingerprints_tell T (fst ` set lookups)"
  shows "fst (cached_lookups T lookups header_cache_default) = map (\<lambda>(d, p). fresh_header T d p) lookups
         \<and> length (hl_entries (snd (cached_lookups T lookups header_cache_default))) \<le> MAX_HEADER_CACHE_ENTRIES"
proof -
  have "cache_faithful T (fst ` set lookups) header_cache_default"
    by (simp add: cache_faithful_def header_cache_default_def)
  from cached_lookups_faithful [OF this subset_refl assms] show ?thesis
    by (simp add: cache_faithful_def)
qed

section \<open>An example\<close>

definition sample_task_header :: "string \<Rightarrow> task_header option" where
  "sample_task_header content = Some \<lparr>th_id = content, th_modified_millis = length content, th_session_tasks = None\<rparr>"

definition sample_task_store :: "files task_store_env" where
  "sample_task_store =
     \<lparr>te_disk = demo_disk (\<lambda>p. p), te_mode = Policy_off, te_encode = ts_id, te_decode = (\<lambda>_. None),
      te_header = sample_task_header, te_var = (\<lambda>_. None), te_entry_millis = (\<lambda>_ _. Some 0)\<rparr>"

theorem header_cache_transparent_witness:
  "fst (cached_lookups sample_task_store
          [([([], ''a'')], []), ([([], ''a'')], []), ([([], ''bb'')], [])] header_cache_default)
   = [sample_task_header ''a'', sample_task_header ''a'', sample_task_header ''bb'']"
proof -
  let ?lookups = "[([([], ''a'')], []), ([([], ''a'')], []), ([([], ''bb'')], [])] :: (files \<times> path) list"
  have "fingerprints_tell sample_task_store (fst ` set ?lookups)"
    by (auto simp: fingerprints_tell_def sample_task_store_def demo_disk_def split: if_splits)
  from header_cache_transparent [OF this] show ?thesis
    by (simp add: fresh_header_def header_from_path_def assert_durable_access_def enforce_policy_def
        sample_task_store_def demo_disk_def)
qed

end
