(* ===== verification/Transcript.thy ===== *)
theory Transcript
  imports Tool_Preview Task_Document Text_Util
begin

text \<open>
  The transcript the terminal shows (\<open>src/app/transcript_projection.rs\<close>, \<open>src/app/transcript_row.rs\<close>,
  \<open>src/status_contract.rs\<close>, \<open>src/app/layout.rs\<close>, \<open>src/app/scroll.rs\<close>): rows computed from the task document, the
  steps of the timeline, and the offsets by which the rows are scrolled.
\<close>

section \<open>Status texts\<close>

datatype tone = Success_tone | Error_tone | Progress_tone | Attention_tone

definition MAPPING_ADJACENT_SECTORS :: string where
  "MAPPING_ADJACENT_SECTORS = ''Mapping adjacent sectors...''"

definition RESPONSE_COMPLETE :: string where
  "RESPONSE_COMPLETE = ''Response complete.''"

definition WAITING_FOR_RESPONSE_LINE :: string where
  "WAITING_FOR_RESPONSE_LINE = ''[thinking] Mapping adjacent sectors...''"

definition pending_status_label :: string where
  "pending_status_label = MAPPING_ADJACENT_SECTORS"

definition completed_status_label :: string where
  "completed_status_label = RESPONSE_COMPLETE"

definition is_completed_status :: "string \<Rightarrow> bool" where
  "is_completed_status status \<longleftrightarrow> status = ''completed'' \<or> status = RESPONSE_COMPLETE"

definition is_progress_status :: "string \<Rightarrow> bool" where
  "is_progress_status status \<longleftrightarrow> status = ''running'' \<or> status = MAPPING_ADJACENT_SECTORS"

definition status_tone :: "string \<Rightarrow> tone option" where
  "status_tone status =
     (if status = ''approved'' then Some Success_tone
      else if status \<in> {''failed'', ''cancelled''} then Some Error_tone
      else if status \<in> {''awaiting approval'', ''cancellation requested''} then Some Attention_tone
      else if is_completed_status status then Some Success_tone
      else if is_progress_status status then Some Progress_tone
      else None)"

definition display_status_text :: "string \<Rightarrow> string" where
  "display_status_text status =
     (if status = ''running'' then pending_status_label
      else if status = ''completed'' then completed_status_label else status)"

section \<open>Rows\<close>

datatype transcript_row =
    User_row string
  | Assistant_row string bool \<comment> \<open>whether the text is still streaming\<close>
  | Tool_header string
  | Tool_detail string
  | Evidence_row string
  | Error_row string
  | Waiting_row string
  | Plain_row string

fun transcript_text :: "transcript_row \<Rightarrow> string" where
  "transcript_text (User_row s) = s"
| "transcript_text (Assistant_row s streaming) = s"
| "transcript_text (Tool_header s) = s"
| "transcript_text (Tool_detail s) = s"
| "transcript_text (Evidence_row s) = s"
| "transcript_text (Error_row s) = s"
| "transcript_text (Waiting_row s) = s"
| "transcript_text (Plain_row s) = s"

fun clone_with_text :: "transcript_row \<Rightarrow> string \<Rightarrow> transcript_row" where
  "clone_with_text (User_row s) t = User_row t"
| "clone_with_text (Assistant_row s streaming) t = Assistant_row t streaming"
| "clone_with_text (Tool_header s) t = Tool_header t"
| "clone_with_text (Tool_detail s) t = Tool_detail t"
| "clone_with_text (Evidence_row s) t = Evidence_row t"
| "clone_with_text (Error_row s) t = Error_row t"
| "clone_with_text (Waiting_row s) t = Waiting_row t"
| "clone_with_text (Plain_row s) t = Plain_row t"

fun to_history_string :: "transcript_row \<Rightarrow> string" where
  "to_history_string (User_row s) = ''> '' @ s"
| "to_history_string (Assistant_row s streaming) = s"
| "to_history_string (Tool_header s) = ''[tool] '' @ s"
| "to_history_string (Tool_detail s) = ''[detail] '' @ s"
| "to_history_string (Evidence_row s) = ''[evidence] '' @ s"
| "to_history_string (Error_row s) = ''[error] '' @ s"
| "to_history_string (Waiting_row s) = s"
| "to_history_string (Plain_row s) = s"

section \<open>Texts of a tool call\<close>

definition times_sign :: string where
  "times_sign = [CHR 0xC3, CHR 0x97]"

definition middle_dot :: string where
  "middle_dot = '' '' @ [CHR 0xC2, CHR 0xB7] @ '' ''"

definition ellipsis :: string where
  "ellipsis = [CHR 0xE2, CHR 0x80, CHR 0xA6]"

definition first_nonempty_line :: "string \<Rightarrow> string option" where
  "first_nonempty_line s = List.find (\<lambda>l. trim l \<noteq> '''') (map trim_end (str_lines s))"

definition transcript_preview_rows :: "string \<Rightarrow> string list" where
  "transcript_preview_rows preview = filter (\<lambda>l. trim l \<noteq> '''') (map trim_end (str_lines preview))"

fun append_preview_rows :: "string list \<Rightarrow> transcript_row list" where
  "append_preview_rows [] = []"
| "append_preview_rows (x # xs) = Tool_detail (''Input: '' @ x) # map Evidence_row xs"

definition tool_header_summary :: "string \<Rightarrow> string option \<Rightarrow> string \<Rightarrow> string" where
  "tool_header_summary name target status =
     (case target of
        Some t \<Rightarrow> if t \<noteq> '''' then name @ middle_dot @ t @ middle_dot @ status else name @ middle_dot @ status
      | None \<Rightarrow> name @ middle_dot @ status)"

definition compact_outcome_summary :: "string \<Rightarrow> string" where
  "compact_outcome_summary l =
     (let trimmed = trim l
      in if length trimmed \<le> 60 then trimmed
         else (let end0 = char_start_at_most trimmed 60;
                   end1 = (case rfind_char CHR '' '' (take end0 trimmed) of
                             Some p \<Rightarrow> if p > 30 then p else end0
                           | None \<Rightarrow> end0)
               in take end1 trimmed @ ellipsis))"

definition token_marks :: string where
  "token_marks = [CHR 0x22, CHR 0x27, CHR 0x60] @ ''()[]{},;:''"

definition trim_marks :: "string \<Rightarrow> string" where
  "trim_marks s = rev (dropWhile (\<lambda>c. c \<in> set token_marks) (rev (dropWhile (\<lambda>c. c \<in> set token_marks) s)))"

definition looks_pathish :: "string \<Rightarrow> bool" where
  "looks_pathish s \<longleftrightarrow>
     CHR ''/'' \<in> set s \<or> CHR 0x5C \<in> set s
     \<or> (case rfind_char CHR ''.'' s of Some i \<Rightarrow> 0 < i \<and> Suc i < length s | None \<Rightarrow> False)"

definition first_pathish_token :: "string \<Rightarrow> string option" where
  "first_pathish_token s =
     find_map (\<lambda>token. let candidate = trim_marks token
                       in if candidate \<noteq> '''' \<and> looks_pathish candidate then Some candidate else None)
       (split_ws (utf8_chars s) '''')"

definition tool_target_summary :: "string \<Rightarrow> string option" where
  "tool_target_summary l =
     (let trimmed = trim l; lowered = to_ascii_lowercase trimmed
      in if trimmed = '''' then None
         else find_map (\<lambda>marker. case find_str marker lowered of
                           Some i \<Rightarrow> first_pathish_token (drop (i + length marker) trimmed)
                         | None \<Rightarrow> None)
                ['' from '', '' to '', '' in '', '' at '', '' into '', '' on ''])"

datatype step_lifecycle =
    Running_step | Completed_step | Failed_step | Awaiting_step | Approved_step | User_step | Command_step

definition pending_tool_paragraph_rows :: "string \<Rightarrow> string \<Rightarrow> step_lifecycle \<Rightarrow> transcript_row list" where
  "pending_tool_paragraph_rows name input_preview lifecycle =
     (let status = (case lifecycle of
                      Awaiting_step \<Rightarrow> ''awaiting approval''
                    | Approved_step \<Rightarrow> ''approved''
                    | _ \<Rightarrow> pending_status_label)
      in Tool_header (tool_header_summary name (tool_target_summary input_preview) status)
         # append_preview_rows (transcript_preview_rows input_preview))"

definition MAX_EVIDENCE_LINES :: nat where
  "MAX_EVIDENCE_LINES = 3"

definition evidence_lines :: "string \<Rightarrow> string list" where
  "evidence_lines out =
     filter (\<lambda>l. trim l \<noteq> '''' \<and> \<not> list_all is_digit (trim l))
       (map (\<lambda>l. map (\<lambda>c. if c = CHR 0x09 then CHR '' '' else c) (trim_end l)) (str_lines out))"

definition evidence_rows :: "string \<Rightarrow> transcript_row list" where
  "evidence_rows out =
     (let nonempty = evidence_lines out
      in map Evidence_row (take MAX_EVIDENCE_LINES nonempty)
         @ (if length nonempty > MAX_EVIDENCE_LINES
            then [Evidence_row (''+'' @ nat_dec (length nonempty - MAX_EVIDENCE_LINES) @ '' more lines'')]
            else []))"

definition outcome_status :: "bool \<Rightarrow> string" where
  "outcome_status is_error = (if is_error then ''failed'' else completed_status_label)"

definition structured_preview :: "preview_env \<Rightarrow> string \<Rightarrow> json \<Rightarrow> string" where
  "structured_preview E name input = preview_tool_input E name input Structured DEFAULT_EDIT_DIFF_CONTEXT_LINES"

definition completed_header :: "preview_env \<Rightarrow> string \<Rightarrow> json \<Rightarrow> string \<Rightarrow> bool \<Rightarrow> string" where
  "completed_header E name input out is_error =
     (let first_line = (case first_nonempty_line out of Some l \<Rightarrow> l | None \<Rightarrow> outcome_status is_error);
          target = (case tool_target_summary first_line of
                      Some t \<Rightarrow> Some t
                    | None \<Rightarrow> tool_target_summary (structured_preview E name input))
      in tool_header_summary name target (outcome_status is_error))"

definition completed_tool_paragraph_rows ::
  "preview_env \<Rightarrow> string \<Rightarrow> json \<Rightarrow> string \<Rightarrow> bool \<Rightarrow> transcript_row list" where
  "completed_tool_paragraph_rows E name input out is_error =
     (let first_line = (case first_nonempty_line out of Some l \<Rightarrow> l | None \<Rightarrow> outcome_status is_error);
          input_rows = transcript_preview_rows (structured_preview E name input)
      in [Tool_header (completed_header E name input out is_error)]
         @ (if input_rows \<noteq> [] \<and> hd input_rows \<noteq> ''(no arguments)'' then append_preview_rows input_rows else [])
         @ [Tool_detail (''Result: '' @ compact_outcome_summary first_line)]
         @ evidence_rows out)"

section \<open>The rows of a turn\<close>

text \<open>The rows so far, the header of the last call and how often it was repeated.\<close>

record projection =
  pj_rows :: "transcript_row list"
  pj_header :: "string option"
  pj_repeat :: nat

definition add_rows :: "transcript_row list \<Rightarrow> projection \<Rightarrow> projection" where
  "add_rows rows pj = pj\<lparr>pj_rows := pj_rows pj @ rows\<rparr>"

definition forget_header :: "projection \<Rightarrow> projection" where
  "forget_header pj = pj\<lparr>pj_header := None, pj_repeat := 0\<rparr>"

definition assistant_rows :: "assistant_block_entry \<Rightarrow> transcript_row list" where
  "assistant_rows b =
     (let ls = str_lines (ab_content b)
      in if ab_streaming b \<and> ab_content b \<noteq> '''' \<and> \<not> ends_with (ab_content b) [newline] \<and> ls \<noteq> []
         then map (\<lambda>l. Assistant_row l False) (butlast ls) @ [Assistant_row (last ls @ ''|'') True]
         else map (\<lambda>l. Assistant_row l False) ls)"

definition is_repeat_row :: "transcript_row \<Rightarrow> bool" where
  "is_repeat_row r = (case r of Tool_detail s \<Rightarrow> starts_with s ''(repeated'' | _ \<Rightarrow> False)"

definition repeat_call :: "projection \<Rightarrow> projection" where
  "repeat_call pj =
     (let n = pj_repeat pj + 1;
          fold_line = Tool_detail (''(repeated '' @ times_sign @ nat_dec (n + 1) @ '', same call)'');
          kept = (if pj_rows pj \<noteq> [] \<and> is_repeat_row (last (pj_rows pj)) then butlast (pj_rows pj) else pj_rows pj)
      in pj\<lparr>pj_repeat := n, pj_rows := kept @ [fold_line]\<rparr>)"

definition show_call :: "string \<Rightarrow> transcript_row list \<Rightarrow> projection \<Rightarrow> projection" where
  "show_call header rows pj =
     (if pj_header pj = Some header then repeat_call pj
      else add_rows rows (pj\<lparr>pj_repeat := 0, pj_header := Some header\<rparr>))"

definition pending_lifecycle :: "tool_status \<Rightarrow> step_lifecycle" where
  "pending_lifecycle status = (if status = WaitingApproval then Awaiting_step else Running_step)"

fun project_entry :: "preview_env \<Rightarrow> (string \<Rightarrow> (string \<times> bool) option) \<Rightarrow> pulse_entry \<Rightarrow> projection \<Rightarrow> projection" where
  "project_entry E results (UserInput_entry step_id t) pj =
     forget_header (if trim t \<noteq> '''' then add_rows [User_row t] pj else pj)"
| "project_entry E results (AssistantBlock_entry step_id b) pj =
     (if ab_phase b = Thinking_phase \<and> ab_collapsed b then pj
      else (if trim (ab_content b) \<noteq> '''' then forget_header else (\<lambda>x. x)) (add_rows (assistant_rows b) pj))"
| "project_entry E results (ToolCall_entry step_id call_id name input status) pj =
     (case results call_id of
        Some (out, is_error) \<Rightarrow>
          show_call (completed_header E name input out is_error)
            (completed_tool_paragraph_rows E name input out is_error) pj
      | None \<Rightarrow>
          show_call (tool_header_summary name (tool_target_summary (structured_preview E name input)) pending_status_label)
            (pending_tool_paragraph_rows name (structured_preview E name input) (pending_lifecycle status)) pj)"
| "project_entry E results (ToolResult_entry step_id i n out e) pj = pj"
| "project_entry E results (SystemNotice_entry step_id message severity) pj =
     forget_header (add_rows [if severity = Error_severity then Error_row message else Plain_row message] pj)"
| "project_entry E results (ApprovalRequest_entry step_id a) pj = pj"
| "project_entry E results (ApprovalResolved_entry step_id c s a) pj = pj"
| "project_entry E results (CommandSession_entry step_id s) pj = pj"

fun result_pair :: "pulse_entry \<Rightarrow> (string \<times> string \<times> bool) option" where
  "result_pair (ToolResult_entry step_id call_id n out is_error) = Some (call_id, out, is_error)"
| "result_pair e = None"

text \<open>The last result of a call counts.\<close>

definition turn_results :: "pulse_entry list \<Rightarrow> string \<Rightarrow> (string \<times> bool) option" where
  "turn_results entries = map_of (rev (List.map_filter result_pair entries))"

definition append_turn_rows :: "preview_env \<Rightarrow> transcript_row list \<Rightarrow> pulse_entry list \<Rightarrow> transcript_row list" where
  "append_turn_rows E rows entries =
     pj_rows (fold (project_entry E (turn_results entries)) entries \<lparr>pj_rows = rows, pj_header = None, pj_repeat = 0\<rparr>)"

fun is_streamed_entry :: "pulse_entry \<Rightarrow> bool" where
  "is_streamed_entry (AssistantBlock_entry step_id b) = True"
| "is_streamed_entry (ToolCall_entry step_id i n v st) = True"
| "is_streamed_entry (ToolResult_entry step_id i n v e) = True"
| "is_streamed_entry e = False"

definition waiting_line :: "active_turn_document \<Rightarrow> string" where
  "waiting_line active =
     WAITING_FOR_RESPONSE_LINE
     @ (case at_prompt_progress active of
          Some progress \<Rightarrow>
            (case (pp_processed progress, pp_total progress) of
               (Some processed, Some t) \<Rightarrow> '' progress:'' @ nat_dec processed @ ''/'' @ nat_dec t
             | _ \<Rightarrow> '''')
        | None \<Rightarrow> '''')"

definition append_active_turn_rows :: "preview_env \<Rightarrow> active_turn_document \<Rightarrow> transcript_row list" where
  "append_active_turn_rows E active =
     append_turn_rows E [] (at_entries active)
     @ (if list_ex is_streamed_entry (at_entries active) then [] else [Waiting_row (waiting_line active)])"

section \<open>The rows of a document\<close>

definition compaction_row :: "context_compaction_record \<Rightarrow> transcript_row" where
  "compaction_row r = Plain_row (''[context compacted: '' @ ccr_summary r @ '']'')"

text \<open>Before the rows of a turn come the compactions up to its index, taken from the front of the records.\<close>

fun project_turns ::
  "preview_env \<Rightarrow> nat \<Rightarrow> turn_document list \<Rightarrow> context_compaction_record list \<Rightarrow> transcript_row list \<Rightarrow> transcript_row list" where
  "project_turns E i [] records rows = rows @ map compaction_row records"
| "project_turns E i (t # ts) records rows =
     project_turns E (Suc i) ts (dropWhile (\<lambda>r. ccr_turn_index r \<le> i) records)
       (append_turn_rows E (rows @ map compaction_row (takeWhile (\<lambda>r. ccr_turn_index r \<le> i) records)) (tn_entries t))"

definition project_committed_transcript_rows ::
  "preview_env \<Rightarrow> task_document \<Rightarrow> string list \<Rightarrow> transcript_row list" where
  "project_committed_transcript_rows E doc pre_session_notices =
     project_turns E 0 (td_completed_turns doc) (td_context_compaction doc) (map Plain_row pre_session_notices)"

definition project_active_transcript_rows :: "preview_env \<Rightarrow> active_turn_document option \<Rightarrow> transcript_row list" where
  "project_active_transcript_rows E active =
     (case active of Some a \<Rightarrow> append_active_turn_rows E a | None \<Rightarrow> [])"

definition project_transcript_rows :: "preview_env \<Rightarrow> task_document \<Rightarrow> string list \<Rightarrow> transcript_row list" where
  "project_transcript_rows E doc pre_session_notices =
     project_committed_transcript_rows E doc pre_session_notices
     @ project_active_transcript_rows E (td_active_pulse doc)"

fun final_content :: "pulse_entry \<Rightarrow> string option" where
  "final_content (AssistantBlock_entry step_id b) = (if ab_phase b = Final_phase then Some (ab_content b) else None)"
| "final_content e = None"

definition extract_assistant_response :: "pulse_entry list \<Rightarrow> string" where
  "extract_assistant_response entries = join_with [newline] (List.map_filter final_content entries)"

section \<open>The timeline\<close>

record task_step_view =
  sv_step_id :: nat
  sv_lifecycle :: step_lifecycle
  sv_label :: string
  sv_detail :: string
  sv_session_id :: "nat option"

text \<open>The view: the document, what the overlay says of approvals, and the places the user scrolled to.\<close>

record tui_view =
  vw_doc :: task_document
  vw_notices :: "string list"
  vw_awaiting_step :: "nat option"
  vw_approved_steps :: "nat set"
  vw_follow_mode :: bool
  vw_selected :: nat
  vw_transcript_offset :: nat
  vw_inspector_offset :: nat

definition tool_lifecycle :: "tui_view \<Rightarrow> nat \<Rightarrow> tool_status \<Rightarrow> step_lifecycle" where
  "tool_lifecycle V step_id status =
     (if vw_awaiting_step V = Some step_id then Awaiting_step
      else if step_id \<in> vw_approved_steps V then Approved_step
      else case status of
          Complete \<Rightarrow> Completed_step
        | Error_status \<Rightarrow> Failed_step
        | Cancelled_status \<Rightarrow> Failed_step
        | _ \<Rightarrow> Running_step)"

definition lifecycle_label :: "step_lifecycle \<Rightarrow> string" where
  "lifecycle_label l =
     (case l of
        Awaiting_step \<Rightarrow> ''awaiting approval''
      | Approved_step \<Rightarrow> ''approved''
      | Completed_step \<Rightarrow> ''done''
      | Failed_step \<Rightarrow> ''failed''
      | _ \<Rightarrow> pending_status_label)"

definition session_view :: "nat \<Rightarrow> command_session_document \<Rightarrow> task_step_view" where
  "session_view step_id session =
     (let status = display_status_text (cs_status session);
          pid = (case cs_pid session of Some p \<Rightarrow> nat_dec p | None \<Rightarrow> ''pending'')
      in \<lparr>sv_step_id = step_id, sv_lifecycle = Command_step,
          sv_label = cs_command session @ '': '' @ status,
          sv_detail = ''command: '' @ cs_command session @ [newline] @ ''pid: '' @ pid @ [newline] @ ''status: '' @ status,
          sv_session_id = Some step_id\<rparr>)"

fun step_view :: "preview_env \<Rightarrow> tui_view \<Rightarrow> pulse_entry \<Rightarrow> task_step_view option" where
  "step_view E V (ToolCall_entry step_id call_id name input status) =
     (let lifecycle = tool_lifecycle V step_id status
      in Some \<lparr>sv_step_id = step_id, sv_lifecycle = lifecycle,
               sv_label = name @ '': '' @ lifecycle_label lifecycle,
               sv_detail = ''Tool: '' @ name @ [newline] @ ''Input:'' @ [newline] @ pretty_text E input,
               sv_session_id = None\<rparr>)"
| "step_view E V (CommandSession_entry step_id session) = Some (session_view step_id session)"
| "step_view E V e = None"

definition input_view :: "string \<Rightarrow> task_step_view list" where
  "input_view input =
     (if trim input \<noteq> '''' then
        [\<lparr>sv_step_id = 0, sv_lifecycle = User_step,
          sv_label = (case str_lines input of l # ls \<Rightarrow> l | [] \<Rightarrow> ''''),
          sv_detail = input, sv_session_id = None\<rparr>]
      else [])"

definition task_step_views :: "preview_env \<Rightarrow> tui_view \<Rightarrow> task_step_view list" where
  "task_step_views E V =
     (case td_active_pulse (vw_doc V) of
        Some active \<Rightarrow>
          input_view (at_input active) @ List.map_filter (step_view E V) (at_entries active)
          @ map (\<lambda>(k, s). session_view (cs_session_id s) s) (at_command_sessions active)
      | None \<Rightarrow>
          (if td_completed_turns (vw_doc V) = [] then []
           else (let t = last (td_completed_turns (vw_doc V))
                 in input_view (tn_input t) @ List.map_filter (step_view E V) (tn_entries t))))"

datatype scroll_anchor = Bottom_anchor | Top_anchor

text \<open>The title, the rows and where they are anchored: a selected step of the timeline is inspected, else the
  transcript is shown.\<close>

definition task_output_view ::
  "preview_env \<Rightarrow> tui_view \<Rightarrow> string \<times> transcript_row list \<times> scroll_anchor" where
  "task_output_view E V =
     (let entries = task_step_views E V;
          transcript = (''Transcript'', project_transcript_rows E (vw_doc V) (vw_notices V), Bottom_anchor)
      in if \<not> vw_follow_mode V \<and> entries \<noteq> [] then
           (let i = min (vw_selected V) (length entries - 1); e = entries ! i
            in if sv_lifecycle e \<noteq> User_step \<and> sv_detail e \<noteq> '''' then
                 (let rows = map Plain_row (str_lines (sv_detail e))
                  in (''Inspector'' @ middle_dot @ nat_dec (i + 1) @ ''/'' @ nat_dec (length entries) @ middle_dot
                      @ sv_label e @ middle_dot @ nat_dec (length rows) @ '' rows'', rows, Top_anchor))
               else transcript)
         else transcript)"

section \<open>Scrolling\<close>

datatype scroll_action = Line_up | Line_down | Page_up nat | Page_down nat | Scroll_home | Scroll_end

definition apply_bounded_scroll :: "nat \<Rightarrow> scroll_action \<Rightarrow> nat \<Rightarrow> nat" where
  "apply_bounded_scroll offset action upper =
     (case action of
        Line_up \<Rightarrow> offset - 1
      | Line_down \<Rightarrow> min (sat_add offset 1) upper
      | Page_up step \<Rightarrow> offset - max step 1
      | Page_down step \<Rightarrow> min (sat_add offset (max step 1)) upper
      | Scroll_home \<Rightarrow> 0
      | Scroll_end \<Rightarrow> upper)"

definition auto_follow :: "tui_view \<Rightarrow> bool" where
  "auto_follow V \<longleftrightarrow> vw_transcript_offset V = 0"

definition clamp_transcript :: "nat \<Rightarrow> tui_view \<Rightarrow> tui_view" where
  "clamp_transcript total_rows V = V\<lparr>vw_transcript_offset := min (vw_transcript_offset V) (total_rows - 1)\<rparr>"

definition clamp_inspector :: "nat \<Rightarrow> tui_view \<Rightarrow> tui_view" where
  "clamp_inspector total_rows V = V\<lparr>vw_inspector_offset := min (vw_inspector_offset V) (total_rows - 1)\<rparr>"

text \<open>The number of rows on the screen is an argument: \<open>expand_rows_for_display\<close> on the rows of
  \<open>task_output_view\<close>.\<close>

definition preserve_transcript_scroll_on_growth ::
  "preview_env \<Rightarrow> (transcript_row list \<Rightarrow> nat) \<Rightarrow> nat \<Rightarrow> tui_view \<Rightarrow> tui_view" where
  "preserve_transcript_scroll_on_growth E row_count previous_rows V =
     (if vw_transcript_offset V = 0 then V
      else case task_output_view E V of (title, rows, anchor) \<Rightarrow>
        (let expanded = row_count rows;
             grown = (if anchor = Bottom_anchor \<and> expanded > previous_rows
                      then sat_add (vw_transcript_offset V) (expanded - previous_rows) else vw_transcript_offset V)
         in V\<lparr>vw_transcript_offset := min grown (expanded - 1)\<rparr>))"

definition clamp_transcript_after_mutation ::
  "preview_env \<Rightarrow> (transcript_row list \<Rightarrow> nat) \<Rightarrow> tui_view \<Rightarrow> tui_view" where
  "clamp_transcript_after_mutation E row_count V =
     (case task_output_view E V of (title, rows, anchor) \<Rightarrow>
        if anchor = Bottom_anchor then clamp_transcript (row_count rows) V else clamp_inspector (row_count rows) V)"

definition apply_timeline_scroll_action :: "scroll_action \<Rightarrow> nat \<Rightarrow> tui_view \<Rightarrow> tui_view" where
  "apply_timeline_scroll_action action total_entries V =
     (let upper = total_entries - 1; i = vw_selected V;
          (j, follow) = (case action of
              Line_up \<Rightarrow> (i - 1, False)
            | Line_down \<Rightarrow> (min (i + 1) upper, min (i + 1) upper \<ge> upper)
            | Page_up step \<Rightarrow> (i - max step 1, False)
            | Page_down step \<Rightarrow> (min (sat_add i (max step 1)) upper, min (sat_add i (max step 1)) upper \<ge> upper)
            | Scroll_home \<Rightarrow> (0, False)
            | Scroll_end \<Rightarrow> (upper, True))
      in V\<lparr>vw_selected := j, vw_follow_mode := follow, vw_inspector_offset := 0\<rparr>)"

definition scroll_transcript :: "scroll_action \<Rightarrow> nat \<Rightarrow> nat \<Rightarrow> nat" where
  "scroll_transcript action total_rows offset =
     (case action of
        Line_up \<Rightarrow> sat_add offset 1
      | Line_down \<Rightarrow> offset - 1
      | Page_up step \<Rightarrow> sat_add offset (max step 1)
      | Page_down step \<Rightarrow> offset - max step 1
      | Scroll_home \<Rightarrow> total_rows - 1
      | Scroll_end \<Rightarrow> 0)"

definition apply_output_scroll_action ::
  "preview_env \<Rightarrow> (transcript_row list \<Rightarrow> nat) \<Rightarrow> scroll_action \<Rightarrow> tui_view \<Rightarrow> tui_view" where
  "apply_output_scroll_action E row_count action V =
     (case task_output_view E V of (title, rows, anchor) \<Rightarrow>
        (let n = row_count rows
         in if anchor = Bottom_anchor
            then clamp_transcript n
                   (V\<lparr>vw_transcript_offset := scroll_transcript action n (vw_transcript_offset V)\<rparr>)
            else clamp_inspector n
                   (V\<lparr>vw_inspector_offset := apply_bounded_scroll (vw_inspector_offset V) action (n - 1)\<rparr>)))"

end
