(* ===== verification/Transcript_View.thy ===== *)
theory Transcript_View
  imports Transcript Input_Metrics
begin

text \<open>
  How transcript rows are wrapped, styled and cut to the screen (\<open>src/ui/render/transcript.rs\<close>,
  \<open>src/ui/render/markdown.rs\<close>). Lines and spans are those of the terminal library; its parser of escape sequences,
  the parser of markdown, the highlighting of code, the mixing of colours and the wrapping of words are parameters.
\<close>

datatype colour =
    Black | Red | Green | Yellow | Blue | Magenta | Cyan | Gray | Dark_gray | White | Rgb nat nat nat

datatype text_modifier = Bold | Dim | Italic

record style =
  st_fg :: "colour option"
  st_bg :: "colour option"
  st_mods :: "text_modifier set"

record span =
  sn_text :: string
  sn_style :: style

record styled_line =
  ln_style :: style
  ln_spans :: "span list"

definition plain_style :: style where
  "plain_style = \<lparr>st_fg = None, st_bg = None, st_mods = {}\<rparr>"

definition fg :: "colour \<Rightarrow> style" where
  "fg c = plain_style\<lparr>st_fg := Some c\<rparr>"

definition add_modifier :: "text_modifier \<Rightarrow> style \<Rightarrow> style" where
  "add_modifier m s = s\<lparr>st_mods := insert m (st_mods s)\<rparr>"

definition styled :: "string \<Rightarrow> style \<Rightarrow> span" where
  "styled s y = \<lparr>sn_text = s, sn_style = y\<rparr>"

definition line_of :: "span list \<Rightarrow> styled_line" where
  "line_of spans = \<lparr>ln_style = plain_style, ln_spans = spans\<rparr>"

text \<open>\<open>Line::styled\<close>: the style is that of the line, the text is cut at its line ends.\<close>

definition line_styled :: "string \<Rightarrow> style \<Rightarrow> styled_line" where
  "line_styled s y = \<lparr>ln_style = y, ln_spans = map (\<lambda>l. styled l plain_style) (str_lines s)\<rparr>"

section \<open>Markdown\<close>

datatype md_event =
    Heading_start nat
  | Heading_end
  | Emphasis_start
  | Emphasis_end
  | Strong_start
  | Strong_end
  | Code_block_start "string option" \<comment> \<open>the language of a fenced block\<close>
  | Code_block_end
  | Md_text string
  | Md_code string
  | Soft_break
  | Hard_break
  | Paragraph_end
  | Item_start
  | Item_end
  | Other_event

record palette =
  pa_h1 :: colour
  pa_h2 :: colour
  pa_h3 :: colour
  pa_bullet :: colour
  pa_inline_code :: colour
  pa_code_fallback :: colour

record view_env =
  ve_display :: display_env
  ve_markdown :: "string \<Rightarrow> md_event list"
  ve_palette :: palette
  ve_has_theme :: bool
  ve_highlight :: "string \<Rightarrow> string list \<Rightarrow> span list option list"
    \<comment> \<open>the lines of a block in a language, one result for each\<close>
  ve_ansi :: "string \<Rightarrow> span list list option"
  ve_wrap :: "nat \<Rightarrow> string \<Rightarrow> string list"

definition heading_color :: "palette \<Rightarrow> nat \<Rightarrow> colour" where
  "heading_color p level = (if level = 1 then pa_h1 p else if level = 2 then pa_h2 p else pa_h3 p)"

record markdown_state =
  md_lines :: "styled_line list"
  md_spans :: "span list"
  md_styles :: "style list"
  md_in_code :: bool
  md_lang :: string
  md_code :: string

definition markdown_start :: markdown_state where
  "markdown_start =
     \<lparr>md_lines = [], md_spans = [], md_styles = [fg White], md_in_code = False, md_lang = '''', md_code = ''''\<rparr>"

definition current_style :: "style list \<Rightarrow> style" where
  "current_style stack = (if stack = [] then plain_style else last stack)"

definition flush_line :: "markdown_state \<Rightarrow> markdown_state" where
  "flush_line st =
     (if md_spans st = [] then st
      else st\<lparr>md_lines := md_lines st @ [line_of (md_spans st)], md_spans := []\<rparr>)"

definition push_style :: "style \<Rightarrow> markdown_state \<Rightarrow> markdown_state" where
  "push_style y st = st\<lparr>md_styles := md_styles st @ [y]\<rparr>"

definition pop_style :: "markdown_state \<Rightarrow> markdown_state" where
  "pop_style st = st\<lparr>md_styles := butlast (md_styles st)\<rparr>"

definition push_span :: "span \<Rightarrow> markdown_state \<Rightarrow> markdown_state" where
  "push_span s st = st\<lparr>md_spans := md_spans st @ [s]\<rparr>"

definition highlight_code_block :: "view_env \<Rightarrow> string \<Rightarrow> string \<Rightarrow> styled_line list" where
  "highlight_code_block E lang code =
     map2 (\<lambda>source r. case r of
             Some spans \<Rightarrow> line_of spans
           | None \<Rightarrow> line_styled source (fg (pa_code_fallback (ve_palette E))))
       (str_lines code) (ve_highlight E lang (str_lines code))"

definition code_lines :: "view_env \<Rightarrow> string \<Rightarrow> string \<Rightarrow> styled_line list" where
  "code_lines E lang code =
     (if ve_has_theme E then highlight_code_block E lang code
      else map (\<lambda>l. line_of [styled l (fg (pa_code_fallback (ve_palette E)))]) (str_lines code))"

fun markdown_event :: "view_env \<Rightarrow> md_event \<Rightarrow> markdown_state \<Rightarrow> markdown_state" where
  "markdown_event E (Heading_start level) st =
     push_style (add_modifier Bold (fg (heading_color (ve_palette E) level))) (flush_line st)"
| "markdown_event E Heading_end st = flush_line (pop_style st)"
| "markdown_event E Emphasis_start st = push_style (add_modifier Italic (current_style (md_styles st))) st"
| "markdown_event E Emphasis_end st = pop_style st"
| "markdown_event E Strong_start st = push_style (add_modifier Bold (current_style (md_styles st))) st"
| "markdown_event E Strong_end st = pop_style st"
| "markdown_event E (Code_block_start lang) st =
     (flush_line st)\<lparr>md_in_code := True, md_code := '''', md_lang := (case lang of Some l \<Rightarrow> l | None \<Rightarrow> '''')\<rparr>"
| "markdown_event E Code_block_end st =
     st\<lparr>md_lines := md_lines st @ code_lines E (md_lang st) (md_code st), md_in_code := False, md_code := ''''\<rparr>"
| "markdown_event E (Md_text t) st =
     (if md_in_code st then st\<lparr>md_code := md_code st @ t\<rparr>
      else push_span (styled t (current_style (md_styles st))) st)"
| "markdown_event E (Md_code c) st =
     push_span (styled ([CHR 0x60] @ c @ [CHR 0x60]) (add_modifier Bold (fg (pa_inline_code (ve_palette E))))) st"
| "markdown_event E Soft_break st = flush_line st"
| "markdown_event E Hard_break st = flush_line st"
| "markdown_event E Paragraph_end st =
     (let st1 = flush_line st in st1\<lparr>md_lines := md_lines st1 @ [line_of []]\<rparr>)"
| "markdown_event E Item_start st = push_span (styled ''  - '' (fg (pa_bullet (ve_palette E)))) st"
| "markdown_event E Item_end st = flush_line st"
| "markdown_event E Other_event st = st"

definition markdown_to_lines :: "view_env \<Rightarrow> string \<Rightarrow> styled_line list" where
  "markdown_to_lines E input = md_lines (flush_line (fold (markdown_event E) (ve_markdown E input) markdown_start))"

definition markdown_to_inline_line :: "view_env \<Rightarrow> string \<Rightarrow> styled_line option" where
  "markdown_to_inline_line E input =
     (case filter (\<lambda>l. \<exists>s \<in> set (ln_spans l). sn_text s \<noteq> '''') (markdown_to_lines E input) of
        [l] \<Rightarrow> Some l
      | _ \<Rightarrow> None)"

section \<open>Escape sequences\<close>

definition contains_ansi_escape :: "string \<Rightarrow> bool" where
  "contains_ansi_escape s \<longleftrightarrow> CHR 0x1B \<in> set s"

definition strip_overstrike :: "string \<Rightarrow> string" where
  "strip_overstrike s =
     (if carriage_return \<notin> set s then s
      else join_with [newline] (map (\<lambda>segment. last (split_char carriage_return segment)) (split_char newline s)))"

fun collapse_lines :: "span list list \<Rightarrow> span list \<Rightarrow> span list" where
  "collapse_lines [] spans = spans"
| "collapse_lines (l # ls) spans =
     collapse_lines ls ((if spans = [] then [] else spans @ [styled '' '' plain_style]) @ l)"

definition collapse_text_to_line :: "span list list \<Rightarrow> string \<Rightarrow> style \<Rightarrow> styled_line" where
  "collapse_text_to_line ls fallback fallback_style =
     (let spans = collapse_lines ls []
      in if spans = [] then line_of [styled fallback fallback_style] else line_of spans)"

definition ansi_to_inline_line :: "view_env \<Rightarrow> string \<Rightarrow> style \<Rightarrow> styled_line" where
  "ansi_to_inline_line E s fallback_style =
     (let cleaned = strip_overstrike s
      in case ve_ansi E cleaned of
           Some parsed \<Rightarrow> collapse_text_to_line parsed cleaned fallback_style
         | None \<Rightarrow> line_of [styled cleaned fallback_style])"

definition visible_display_width :: "view_env \<Rightarrow> string \<Rightarrow> nat" where
  "visible_display_width E s =
     (if \<not> contains_ansi_escape s then display_width (ve_display E) s
      else (let cleaned = strip_overstrike s
            in case ve_ansi E cleaned of
                 Some parsed \<Rightarrow>
                   fold max (map (\<lambda>l. sum_list (map (\<lambda>p. display_width (ve_display E) (sn_text p)) l)) parsed) 0
               | None \<Rightarrow> display_width (ve_display E) cleaned))"

section \<open>What a text looks like\<close>

text \<open>The number of matches that do not overlap.\<close>

fun count_from :: "nat \<Rightarrow> string \<Rightarrow> string \<Rightarrow> nat" where
  "count_from k pat [] = 0"
| "count_from (Suc k) pat (c # cs) = count_from k pat cs"
| "count_from 0 pat (c # cs) =
     (if prefix pat (c # cs) then Suc (count_from (length pat - 1) pat cs) else count_from 0 pat cs)"

definition has_paired_marker :: "string \<Rightarrow> string \<Rightarrow> bool" where
  "has_paired_marker row marker \<longleftrightarrow> 2 \<le> count_from 0 marker row"

definition has_paired_backtick :: "string \<Rightarrow> bool" where
  "has_paired_backtick row \<longleftrightarrow> 2 \<le> length (filter (\<lambda>c. c = CHR 0x60) row)"

definition fence :: string where
  "fence = [CHR 0x60, CHR 0x60, CHR 0x60]"

definition looks_like_inline_markdown :: "string \<Rightarrow> bool" where
  "looks_like_inline_markdown row \<longleftrightarrow>
     (if contains row fence then False
      else (let n = length (takeWhile (\<lambda>c. c = CHR ''#'') row)
            in 1 \<le> n \<and> n \<le> 6 \<and> (length row = n \<or> row ! n \<in> {CHR '' '', CHR 0x09})
               \<or> has_paired_marker row ''**'' \<or> has_paired_backtick row))"

definition looks_like_json_line :: "string \<Rightarrow> bool" where
  "looks_like_json_line s \<longleftrightarrow>
     (let t = trim_start s
      in (t \<noteq> '''' \<and> hd t \<in> {CHR ''{'', CHR ''['', CHR ''}'', CHR '']''}) \<or> contains s [CHR 0x22, CHR '':''])"

definition diff_style :: "string \<Rightarrow> (colour \<times> bool) option" where
  "diff_style l =
     (if starts_with l ''+'' \<and> \<not> starts_with l ''+++'' then Some (Green, False)
      else if starts_with l ''-'' \<and> \<not> starts_with l ''---'' then Some (Red, False)
      else if starts_with l ''@@'' \<or> starts_with l ''diff --git'' \<or> starts_with l ''index ''
              \<or> starts_with l ''+++ '' \<or> starts_with l ''--- '' then Some (Cyan, True)
      else None)"

text \<open>A number, a full stop or a parenthesis, and a blank: the prefix with its width, and the rest.\<close>

definition parse_numbered_list_item :: "view_env \<Rightarrow> string \<Rightarrow> (string \<times> string \<times> nat) option" where
  "parse_numbered_list_item E l =
     (let i = length (takeWhile is_digit l)
      in if i = 0 \<or> i \<ge> length l - 1 then None
         else if (l ! i = CHR ''.'' \<or> l ! i = CHR '')'') \<and> i + 1 < length l \<and> l ! (i + 1) = CHR '' ''
         then Some (take (i + 2) l, drop (i + 2) l, display_width (ve_display E) (take (i + 2) l))
         else None)"

text \<open>A character of several bytes never makes a rule: it counts for one mark at most, but for more bytes.\<close>

definition is_horizontal_rule :: "string \<Rightarrow> bool" where
  "is_horizontal_rule l =
     (let trimmed = trim l
      in if length trimmed < 3 then False
         else if hd trimmed \<notin> {CHR ''-'', CHR ''*'', CHR ''_''} then False
         else (let marks = length (filter (\<lambda>c. c = hd trimmed) trimmed);
                   spaces = length (filter (\<lambda>c. c = CHR '' '') trimmed)
               in 3 \<le> marks \<and> marks + spaces = length trimmed))"

definition is_inline_telemetry_summary :: "string \<Rightarrow> bool" where
  "is_inline_telemetry_summary l \<longleftrightarrow> starts_with l ''['' \<and> ends_with l '']'' \<and> contains l ''total:''"

definition is_telemetry_summary :: "string \<Rightarrow> bool" where
  "is_telemetry_summary l \<longleftrightarrow>
     (let t = trim l in starts_with t ''['' \<and> ends_with t '']'' \<and> (contains t ''total:'' \<or> contains t ''ttft:''))"

definition is_structural_plain_str :: "view_env \<Rightarrow> string \<Rightarrow> bool" where
  "is_structural_plain_str E l \<longleftrightarrow>
     starts_with l ''['' \<or> starts_with l ''    '' \<or> starts_with l ''  '' \<or> starts_with l fence
     \<or> (starts_with l ''--- '' \<and> ends_with l '' ---'') \<or> is_horizontal_rule l \<or> starts_with l ''> ''
     \<or> is_telemetry_summary l \<or> is_inline_telemetry_summary l
     \<or> starts_with l ''# '' \<or> starts_with l ''## '' \<or> starts_with l ''### '' \<or> starts_with l ''- '' \<or> starts_with l ''* ''
     \<or> parse_numbered_list_item E l \<noteq> None"

fun is_structural_transcript_row :: "view_env \<Rightarrow> transcript_row \<Rightarrow> bool" where
  "is_structural_transcript_row E (Waiting_row s) = True"
| "is_structural_transcript_row E (Plain_row s) = is_structural_plain_str E s"
| "is_structural_transcript_row E r = False"

text \<open>The command and its process, of the line that reports its start.\<close>

definition parse_command_session_started :: "string \<Rightarrow> (string \<times> string option) option" where
  "parse_command_session_started l =
     (case strip_start ''[command session started'' l of
        None \<Rightarrow> None
      | Some rest \<Rightarrow>
          (case find_str ''] '' rest of
             None \<Rightarrow> None
           | Some i \<Rightarrow>
               Some (drop (i + 2) rest,
                     (case strip_start '' pid='' (take i rest) of
                        Some p \<Rightarrow> if trim p \<noteq> '''' then Some (trim p) else None
                      | None \<Rightarrow> None))))"

text \<open>\<open>split\<close> with a pattern that is not empty.\<close>

function split_str :: "string \<Rightarrow> string \<Rightarrow> string list" where
  "split_str pat s =
     (case find_str pat s of
        Some i \<Rightarrow> if pat = '''' then [s] else take i s # split_str pat (drop (i + length pat) s)
      | None \<Rightarrow> [s])"
  by pat_completeness auto
termination
  by (relation "measure (\<lambda>(pat, s). length s)") (auto dest!: find_str_bound simp flip: length_greater_0_conv)

declare split_str.simps [simp del]

definition split_tool_summary :: "string \<Rightarrow> (string list \<times> string) option" where
  "split_tool_summary s =
     (let segments = split_str middle_dot s; status = last segments; leading = butlast segments
      in if leading = [] \<or> status_tone status = None then None else Some (leading, status))"

definition tool_status_style :: "string \<Rightarrow> style" where
  "tool_status_style status =
     add_modifier Bold (fg (case status_tone status of
        Some Success_tone \<Rightarrow> Green
      | Some Error_tone \<Rightarrow> Red
      | Some Progress_tone \<Rightarrow> Magenta
      | Some Attention_tone \<Rightarrow> Yellow
      | None \<Rightarrow> White))"

section \<open>Lines\<close>

definition WAITING_MARKER :: string where "WAITING_MARKER = ''  ... ''"

definition ERROR_MARKER :: string where "ERROR_MARKER = ''  x ''"

definition TOOL_MARKER :: string where "TOOL_MARKER = ''  * ''"

definition EVIDENCE_MARKER :: string where "EVIDENCE_MARKER = ''      - ''"

definition LIST_MARKER :: string where "LIST_MARKER = ''- ''"

definition dim :: "colour \<Rightarrow> style" where
  "dim c = add_modifier Dim (fg c)"

definition bold :: "colour \<Rightarrow> style" where
  "bold c = add_modifier Bold (fg c)"

fun leading_spans :: "nat \<Rightarrow> string list \<Rightarrow> span list" where
  "leading_spans i [] = []"
| "leading_spans i (x # xs) =
     (if i > 0 then [styled middle_dot (dim Dark_gray)] else [])
     @ [styled x (if i = 0 then fg White else fg Gray)] @ leading_spans (Suc i) xs"

definition render_tool_header :: "string \<Rightarrow> styled_line" where
  "render_tool_header rest =
     line_of (styled TOOL_MARKER (bold Magenta)
       # (case split_tool_summary rest of
            Some (leading, status) \<Rightarrow>
              leading_spans 0 leading @ [styled middle_dot (dim Dark_gray), styled status (tool_status_style status)]
          | None \<Rightarrow> [styled rest (fg White)]))"

definition line_with_marker :: "string \<Rightarrow> string \<Rightarrow> style \<Rightarrow> style \<Rightarrow> styled_line" where
  "line_with_marker marker body marker_style body_style = line_of [styled marker marker_style, styled body body_style]"

definition json_char_style :: "string \<Rightarrow> style" where
  "json_char_style c =
     (if c \<noteq> '''' \<and> list_all (\<lambda>d. is_digit d \<or> d = CHR ''-'') c then fg Yellow
      else if c \<in> {''t'', ''f'', ''n''} then fg Magenta
      else dim Dark_gray)"

function json_spans :: "string list \<Rightarrow> span list" where
  "json_spans [] = []"
| "json_spans (c # cs) =
     (if c = [CHR 0x22] then
        (let body = takeWhile (\<lambda>d. d \<noteq> [CHR 0x22]) cs;
             rest = dropWhile (\<lambda>d. d \<noteq> [CHR 0x22]) cs;
             after = drop 1 rest
         in styled (c @ concat body @ concat (take 1 rest))
              (fg (if take 1 after = [[CHR '':'']] then Cyan else Green))
            # json_spans after)
      else styled c (json_char_style c) # json_spans cs)"
  by pat_completeness auto
termination
proof (relation "measure length", goal_cases)
  case (2 c cs x y z)
  then show ?case using length_dropWhile_le [of "\<lambda>d. d \<noteq> [CHR 0x22]" cs] by simp
qed auto

declare json_spans.simps [simp del]

definition lead_span :: "string \<Rightarrow> string option \<Rightarrow> span" where
  "lead_span indent marker = styled (indent @ (case marker of Some m \<Rightarrow> m | None \<Rightarrow> '''')) (dim Dark_gray)"

definition json_transcript_line :: "string \<Rightarrow> string \<Rightarrow> string option \<Rightarrow> styled_line" where
  "json_transcript_line row indent marker = line_of (lead_span indent marker # json_spans (utf8_chars row))"

definition structured_transcript_line :: "view_env \<Rightarrow> string \<Rightarrow> string \<Rightarrow> string option \<Rightarrow> styled_line" where
  "structured_transcript_line E row indent marker =
     (let trimmed = trim_start row; lead = lead_span indent marker
      in case diff_style trimmed of
           Some (c, is_bold) \<Rightarrow>
             line_of [lead, styled trimmed ((if is_bold then add_modifier Bold else (\<lambda>y. y)) (dim c))]
         | None \<Rightarrow>
             if looks_like_json_line trimmed then json_transcript_line trimmed indent marker
             else (case (if prefix ''- '' trimmed then strip_start ''- '' trimmed else strip_start ''* '' trimmed) of
                     Some rest \<Rightarrow> line_of [lead, styled LIST_MARKER (fg Yellow), styled rest (dim Gray)]
                   | None \<Rightarrow>
                       (case parse_numbered_list_item E trimmed of
                          Some (p, rest, w) \<Rightarrow> line_of [lead, styled p (fg Yellow), styled rest (dim Gray)]
                        | None \<Rightarrow> line_of [lead, styled trimmed (dim Gray)])))"

definition command_session_summary :: "string \<Rightarrow> string option \<Rightarrow> string" where
  "command_session_summary command pid =
     ''command session'' @ middle_dot @ command @ middle_dot
     @ (case pid of Some p \<Rightarrow> ''pid '' @ p @ middle_dot | None \<Rightarrow> '''') @ pending_status_label"

definition render_plain_row_dispatch :: "view_env \<Rightarrow> string \<Rightarrow> styled_line option" where
  "render_plain_row_dispatch E row =
     (case strip_start ''[approval] '' row of
        Some rest \<Rightarrow> Some (line_with_marker ''  ? '' rest (bold Yellow) (bold Yellow))
      | None \<Rightarrow>
     (case strip_start ''[approval_detail] '' row of
        Some rest \<Rightarrow> Some (line_styled (''    '' @ rest) (dim Gray))
      | None \<Rightarrow>
     (case parse_command_session_started row of
        Some (command, pid) \<Rightarrow> Some (render_tool_header (command_session_summary command pid))
      | None \<Rightarrow>
     (case strip_start ''[command session exit: '' row of
        Some rest \<Rightarrow> Some (structured_transcript_line E (''Exit: '' @ trim_end_char CHR '']'' rest) ''    '' None)
      | None \<Rightarrow>
     (if row = ''[command session cancelled]'' then
        Some (structured_transcript_line E ''Status: cancelled'' ''    '' None)
      else if row = ''[command session cancellation requested]'' then
        Some (structured_transcript_line E ''Status: cancellation requested'' ''    '' None)
      else
     (case strip_start ''[command session] error: '' row of
        Some rest \<Rightarrow> Some (line_with_marker ERROR_MARKER rest (bold Red) (bold Red))
      | None \<Rightarrow>
     (case strip_start ''[stderr] '' row of
        Some rest \<Rightarrow> Some (line_with_marker EVIDENCE_MARKER rest (dim Dark_gray) (dim Red))
      | None \<Rightarrow> None)))))))"

definition inline_text :: "view_env \<Rightarrow> string \<Rightarrow> styled_line" where
  "inline_text E s =
     (if contains_ansi_escape s then ansi_to_inline_line E s (fg White)
      else if looks_like_inline_markdown s then
        (case markdown_to_inline_line E s of
           Some l \<Rightarrow> l
         | None \<Rightarrow> line_of [styled s plain_style])
      else line_of [styled s (fg White)])"

definition render_assistant_text :: "view_env \<Rightarrow> string \<Rightarrow> styled_line" where
  "render_assistant_text E s = inline_text E s"

definition render_plain_row :: "view_env \<Rightarrow> string \<Rightarrow> styled_line" where
  "render_plain_row E row = (case render_plain_row_dispatch E row of Some l \<Rightarrow> l | None \<Rightarrow> inline_text E row)"

fun transcript_output_line :: "view_env \<Rightarrow> transcript_row \<Rightarrow> styled_line" where
  "transcript_output_line E (Waiting_row s) =
     line_of [styled WAITING_MARKER (bold Magenta), styled pending_status_label (dim Magenta)]"
| "transcript_output_line E (Error_row rest) = line_of [styled ERROR_MARKER (bold Red), styled rest (bold Red)]"
| "transcript_output_line E (Tool_header rest) = render_tool_header rest"
| "transcript_output_line E (Tool_detail rest) = structured_transcript_line E rest ''    '' None"
| "transcript_output_line E (Evidence_row rest) = structured_transcript_line E rest '''' (Some EVIDENCE_MARKER)"
| "transcript_output_line E (User_row s) = line_of [styled ''> '' (dim Dark_gray), styled s (dim Gray)]"
| "transcript_output_line E (Assistant_row s streaming) = render_assistant_text E s"
| "transcript_output_line E (Plain_row s) = render_plain_row E s"

section \<open>Wrapping\<close>

fun take_line :: "display_env \<Rightarrow> nat \<Rightarrow> nat \<Rightarrow> string list \<Rightarrow> string \<times> bool" where
  "take_line D width used [] = ('''', False)"
| "take_line D width used (c # cs) =
     (if used + de_char_width D c > width then ('''', True)
      else (case take_line D width (used + de_char_width D c) cs of (out, clipped) \<Rightarrow> (c @ out, clipped)))"

definition truncate_line :: "display_env \<Rightarrow> string \<Rightarrow> nat \<Rightarrow> string" where
  "truncate_line D input width0 =
     (let width = max width0 1
      in case take_line D width 0 (utf8_chars input) of
           (out, clipped) \<Rightarrow>
             if clipped \<and> width \<ge> 4 then truncate_to_display_width D out (width - 3) @ ''...'' else out)"

definition word_wrap_to_cols :: "view_env \<Rightarrow> string \<Rightarrow> nat \<Rightarrow> string list" where
  "word_wrap_to_cols E s cols =
     (if cols = 0 then [s]
      else if ve_wrap E cols s = [] then ['''']
      else map (\<lambda>segment. if display_width (ve_display E) segment > cols
                          then truncate_line (ve_display E) segment cols else segment)
             (ve_wrap E cols s))"

definition word_wrap_plain_row :: "view_env \<Rightarrow> string \<Rightarrow> nat \<Rightarrow> string list" where
  "word_wrap_plain_row E l cols =
     (if cols < 4 \<or> l = '''' then [l]
      else if contains_ansi_escape l then [l]
      else if visible_display_width E l \<le> cols \<or> is_structural_plain_str E l then [l]
      else word_wrap_to_cols E l cols)"

definition plain_row_prefix_width :: "view_env \<Rightarrow> string \<Rightarrow> nat" where
  "plain_row_prefix_width E l =
     (let w = display_width (ve_display E)
      in if prefix ''[approval] '' l then w ''  ? ''
         else if prefix ''[approval_detail] '' l then w ''    ''
         else if parse_command_session_started l \<noteq> None then w TOOL_MARKER
         else if prefix ''[command session exit: '' l \<or> l = ''[command session cancelled]''
                 \<or> l = ''[command session cancellation requested]'' then w ''    ''
         else if prefix ''[command session] error: '' l then w ERROR_MARKER
         else if prefix ''[stderr] '' l then w EVIDENCE_MARKER
         else 0)"

fun transcript_row_prefix_width :: "view_env \<Rightarrow> transcript_row \<Rightarrow> nat" where
  "transcript_row_prefix_width E (Tool_header s) = display_width (ve_display E) TOOL_MARKER"
| "transcript_row_prefix_width E (Tool_detail s) = display_width (ve_display E) ''    ''"
| "transcript_row_prefix_width E (Evidence_row s) = display_width (ve_display E) EVIDENCE_MARKER"
| "transcript_row_prefix_width E (Error_row s) = display_width (ve_display E) ERROR_MARKER"
| "transcript_row_prefix_width E (User_row s) = display_width (ve_display E) ''> ''"
| "transcript_row_prefix_width E (Plain_row s) = plain_row_prefix_width E s"
| "transcript_row_prefix_width E (Assistant_row s streaming) = 0"
| "transcript_row_prefix_width E (Waiting_row s) = 0"

definition transcript_row_wrap_width :: "view_env \<Rightarrow> transcript_row \<Rightarrow> nat \<Rightarrow> nat" where
  "transcript_row_wrap_width E row cols = max (cols - transcript_row_prefix_width E row) 1"

definition word_wrap_transcript_row :: "view_env \<Rightarrow> transcript_row \<Rightarrow> nat \<Rightarrow> string list" where
  "word_wrap_transcript_row E row cols =
     (let s = transcript_text row; wrap_cols = transcript_row_wrap_width E row cols
      in if (case row of Waiting_row t \<Rightarrow> True | _ \<Rightarrow> False) then [s]
         else if contains_ansi_escape s then [s]
         else if visible_display_width E s \<le> wrap_cols \<or> is_structural_transcript_row E row then [s]
         else word_wrap_plain_row E s wrap_cols)"

definition block_mark :: "string \<Rightarrow> bool" where
  "block_mark l \<longleftrightarrow> starts_with l ''[file: '' \<or> starts_with l ''[dir: ''"

definition block_name :: "string \<Rightarrow> string \<Rightarrow> string option" where
  "block_name p l =
     (case strip_start p l of
        Some r \<Rightarrow> if r \<noteq> '''' \<and> last r = CHR '']'' then Some (butlast r) else None
      | None \<Rightarrow> None)"

text \<open>The lines of an input: an attached file is shown by its name, its text is left out. The flag says whether
  the line is inside the text of a file.\<close>

fun collapse_blocks :: "bool \<Rightarrow> string list \<Rightarrow> string list" where
  "collapse_blocks in_fence [] = []"
| "collapse_blocks True (l # ls) = collapse_blocks (l \<noteq> fence) ls"
| "collapse_blocks False (l # ls) =
     (if block_mark l \<and> contains l [CHR 0xE2, CHR 0x80, CHR 0x94] \<and> ends_with l '']'' then collapse_blocks False ls
      else case (case block_name ''[file: '' l of
                   Some n \<Rightarrow> Some (''@'' @ n)
                 | None \<Rightarrow> map_option (\<lambda>n. ''@'' @ n @ ''/'') (block_name ''[dir: '' l)) of
          Some shown \<Rightarrow>
            shown # (case ls of [] \<Rightarrow> [] | m # ms \<Rightarrow> collapse_blocks (m = fence @ ''text'') ms)
        | None \<Rightarrow> l # collapse_blocks False ls)"

definition collapse_file_blocks_for_display :: "string \<Rightarrow> string" where
  "collapse_file_blocks_for_display s =
     (if \<not> contains s ''[file: '' \<and> \<not> contains s ''[dir: '' then s
      else join_with [newline] (collapse_blocks False (str_lines s)))"

definition expand_row :: "view_env \<Rightarrow> nat \<Rightarrow> transcript_row \<Rightarrow> transcript_row list" where
  "expand_row E cols row =
     (let s = transcript_text row
      in if newline \<in> set s then
           (let shown = (case row of User_row t \<Rightarrow> collapse_file_blocks_for_display s | _ \<Rightarrow> s)
            in map (clone_with_text row) (concat (map (\<lambda>sub. word_wrap_plain_row E sub cols) (split_char newline shown))))
         else map (clone_with_text row) (word_wrap_transcript_row E row cols))"

definition expand_rows_for_display :: "view_env \<Rightarrow> transcript_row list \<Rightarrow> nat \<Rightarrow> transcript_row list" where
  "expand_rows_for_display E rows cols = (if cols < 4 then rows else concat (map (expand_row E cols) rows))"

definition expanded_output_row_count :: "view_env \<Rightarrow> preview_env \<Rightarrow> nat \<Rightarrow> tui_view \<Rightarrow> nat" where
  "expanded_output_row_count E P cols V =
     (case task_output_view P V of (title, rows, anchor) \<Rightarrow> length (expand_rows_for_display E rows cols))"

section \<open>The window\<close>

definition INSPECTOR_VIEWPORT_ROWS :: nat where "INSPECTOR_VIEWPORT_ROWS = 6"

definition task_output_window_with_total :: "scroll_anchor \<Rightarrow> nat \<Rightarrow> nat \<Rightarrow> nat \<Rightarrow> nat \<times> nat" where
  "task_output_window_with_total anchor scroll_offset total_rows viewport_height =
     (if viewport_height = 0 \<or> total_rows = 0 then (0, 0)
      else case anchor of
          Bottom_anchor \<Rightarrow>
            (let offset = min scroll_offset (total_rows - viewport_height);
                 start = total_rows - sat_add viewport_height offset
             in (start, min (start + viewport_height) total_rows))
        | Top_anchor \<Rightarrow>
            (let inspector_height = max 1 (min viewport_height INSPECTOR_VIEWPORT_ROWS);
                 start = min scroll_offset (total_rows - 1)
             in (start, min (start + inspector_height) total_rows)))"

record rect =
  rx :: nat
  ry :: nat
  rw :: nat
  rh :: nat

definition task_output_render_area :: "rect \<Rightarrow> nat \<Rightarrow> rect" where
  "task_output_render_area area visible_rows =
     (if rh area = 0 \<or> visible_rows = 0 then area\<lparr>rh := 0\<rparr> else area\<lparr>rh := min visible_rows (rh area)\<rparr>)"

end
