(* ===== verification/Transcript_Laws.thy ===== *)
theory Transcript_Laws
  imports Transcript_View Task_Document_Laws
begin

text \<open>
  The transcript shows what was said: no fold of repeated calls hides a word of the user, of the assistant or of an
  error; colours add nothing to a text; and a view that was scrolled stays on its rows while new ones arrive.
\<close>

section \<open>What was said\<close>

fun is_spoken :: "transcript_row \<Rightarrow> bool" where
  "is_spoken (User_row s) = True"
| "is_spoken (Assistant_row s streaming) = True"
| "is_spoken (Error_row s) = True"
| "is_spoken r = False"

fun spoken_entry :: "pulse_entry \<Rightarrow> transcript_row list" where
  "spoken_entry (UserInput_entry step_id t) = (if trim t \<noteq> '''' then [User_row t] else [])"
| "spoken_entry (AssistantBlock_entry step_id b) =
     (if ab_phase b = Thinking_phase \<and> ab_collapsed b then [] else assistant_rows b)"
| "spoken_entry (SystemNotice_entry step_id message severity) =
     (if severity = Error_severity then [Error_row message] else [])"
| "spoken_entry e = []"

lemma spoken_assistant: "filter is_spoken (assistant_rows b) = assistant_rows b"
  by (auto simp: assistant_rows_def Let_def filter_id_conv)

lemma spoken_previews: "filter is_spoken (append_preview_rows xs) = []"
  by (cases xs) (auto simp: filter_empty_conv)

lemma preview_not_spoken: "r \<in> set (append_preview_rows xs) \<Longrightarrow> \<not> is_spoken r"
  using spoken_previews [of xs] by (simp add: filter_empty_conv)

lemma spoken_call_rows:
  "filter is_spoken (completed_tool_paragraph_rows E name input out is_error) = []"
  "filter is_spoken (pending_tool_paragraph_rows name preview lifecycle) = []"
  by (auto simp: completed_tool_paragraph_rows_def pending_tool_paragraph_rows_def evidence_rows_def Let_def
      filter_empty_conv dest: in_set_takeD preview_not_spoken)

lemma spoken_butlast:
  "xs \<noteq> [] \<Longrightarrow> is_repeat_row (last xs) \<Longrightarrow> filter is_spoken (butlast xs) = filter is_spoken xs"
  by (induction xs rule: rev_induct) (auto simp: is_repeat_row_def split: transcript_row.splits)

lemma spoken_show_call:
  "filter is_spoken rows = [] \<Longrightarrow> filter is_spoken (pj_rows (show_call header rows pj)) = filter is_spoken (pj_rows pj)"
  by (simp add: show_call_def repeat_call_def add_rows_def Let_def spoken_butlast)

lemma spoken_project_entry:
  "filter is_spoken (pj_rows (project_entry E results e pj)) = filter is_spoken (pj_rows pj) @ spoken_entry e"
  by (cases e) (auto simp: forget_header_def add_rows_def spoken_assistant spoken_show_call spoken_call_rows
      split: option.split)

lemma spoken_fold:
  "filter is_spoken (pj_rows (fold (project_entry E results) entries pj))
   = filter is_spoken (pj_rows pj) @ concat (map spoken_entry entries)"
  by (induction entries arbitrary: pj) (simp_all add: spoken_project_entry)

lemma spoken_turn:
  "filter is_spoken (append_turn_rows E rows entries) = filter is_spoken rows @ concat (map spoken_entry entries)"
  by (simp add: append_turn_rows_def spoken_fold)

lemma spoken_compactions: "filter is_spoken (map compaction_row records) = []"
  by (auto simp: filter_empty_conv compaction_row_def)

lemma spoken_turns:
  "filter is_spoken (project_turns E i turns records rows)
   = filter is_spoken rows @ concat (map (\<lambda>t. concat (map spoken_entry (tn_entries t))) turns)"
  by (induction turns arbitrary: i records rows) (simp_all add: spoken_turn spoken_compactions)

lemma concat_map_concat: "concat (map f (concat (map g ts))) = concat (map (\<lambda>t. concat (map f (g t))) ts)"
  by (induction ts) simp_all

definition document_entries :: "task_document \<Rightarrow> pulse_entry list" where
  "document_entries doc =
     concat (map tn_entries (td_completed_turns doc))
     @ (case td_active_pulse doc of Some active \<Rightarrow> at_entries active | None \<Rightarrow> [])"

text \<open>C36 [transcript_keeps_conversation]. The transcript of a document holds, in their order, every input that is not blank, every
  line of the assistant's blocks that are not folded thoughts, and every error, and nothing else of these kinds:
  no repetition of calls and no compaction hides or doubles one.\<close>

theorem transcript_keeps_conversation:
  "filter is_spoken (project_transcript_rows E doc notices) = concat (map spoken_entry (document_entries doc))"
  by (auto simp: project_transcript_rows_def project_committed_transcript_rows_def project_active_transcript_rows_def
      append_active_turn_rows_def document_entries_def spoken_turns spoken_turn filter_empty_conv concat_map_concat
      split: option.split)

text \<open>A call with the header of the one before it is folded, whatever its input and its result.\<close>

lemma same_header_hides_result:
  "pj_header pj = Some header \<Longrightarrow> show_call header rows pj = show_call header rows' pj"
  by (simp add: show_call_def)

section \<open>Colours\<close>

definition line_text :: "styled_line \<Rightarrow> string" where
  "line_text l = concat (map sn_text (ln_spans l))"

lemma line_text_of [simp]: "line_text (line_of spans) = concat (map sn_text spans)"
  by (simp add: line_text_def line_of_def)

lemma sn_text_styled [simp]: "sn_text (styled s y) = s"
  by (simp add: styled_def)

lemma json_spans_text: "concat (map sn_text (json_spans cs)) = concat cs"
proof (induction cs rule: json_spans.induct)
  case (2 c cs)
  show ?case
  proof (cases "c = [CHR 0x22]")
    case True
    let ?body = "takeWhile (\<lambda>d. d \<noteq> [CHR 0x22]) cs" and ?rest = "dropWhile (\<lambda>d. d \<noteq> [CHR 0x22]) cs"
    have "concat (map sn_text (json_spans (drop 1 ?rest))) = concat (drop 1 ?rest)"
      using 2(1) True by (simp add: Let_def)
    moreover have "concat ?body @ concat (take 1 ?rest) @ concat (drop 1 ?rest) = concat cs"
      by (metis append_take_drop_id concat_append takeWhile_dropWhile_id)
    ultimately show ?thesis by (simp add: json_spans.simps(2) True Let_def)
  next
    case False
    then show ?thesis using 2(2) by (simp add: json_spans.simps(2))
  qed
qed (simp add: json_spans.simps)

lemma join_with_snoc: "xs \<noteq> [] \<Longrightarrow> join_with sep (xs @ [y]) = join_with sep xs @ sep @ y"
  by (induction sep xs rule: join_with.induct) auto

lemma split_str_nonempty: "split_str pat s \<noteq> []"
  by (subst split_str.simps) (auto split: option.split)

lemma join_split_str: "join_with pat (split_str pat s) = s"
proof (induction pat s rule: split_str.induct)
  case (1 pat s)
  show ?case
  proof (cases "find_str pat s")
    case None
    then show ?thesis by (simp add: split_str.simps [of pat s])
  next
    case (Some i)
    show ?thesis
    proof (cases "pat = ''''")
      case True
      then have "split_str pat s = [s]" by (subst split_str.simps) (simp split: option.split)
      then show ?thesis by simp
    next
      case False
      have IH: "join_with pat (split_str pat (drop (i + length pat) s)) = drop (i + length pat) s"
        using 1 Some False by simp
      have "s = take i s @ pat @ drop (i + length pat) s" using find_str_Some [OF Some] by simp
      moreover have "join_with pat (x # xs) = x @ pat @ join_with pat xs" if "xs \<noteq> []" for x xs
        using that by (cases xs) auto
      ultimately show ?thesis
        using Some False IH split_str_nonempty by (simp add: split_str.simps [of pat s])
    qed
  qed
qed

lemma leading_spans_text:
  "xs \<noteq> [] \<Longrightarrow> concat (map sn_text (leading_spans i xs)) = (if i > 0 then middle_dot else '''') @ join_with middle_dot xs"
proof (induction xs arbitrary: i)
  case (Cons x xs)
  then show ?case by (cases xs) auto
qed simp

lemma tool_header_text: "line_text (render_tool_header rest) = TOOL_MARKER @ rest"
proof (cases "split_tool_summary rest")
  case None
  then show ?thesis by (simp add: render_tool_header_def)
next
  case (Some p)
  obtain leading status where p: "p = (leading, status)" by (cases p)
  from Some p have parts: "leading = butlast (split_str middle_dot rest)" "status = last (split_str middle_dot rest)" "leading \<noteq> []"
    by (auto simp: split_tool_summary_def Let_def split: if_splits)
  have "join_with middle_dot (leading @ [status]) = rest"
    using parts split_str_nonempty [of middle_dot rest] join_split_str [of middle_dot rest] by simp
  then show ?thesis
    using Some p parts(3) by (simp add: render_tool_header_def leading_spans_text join_with_snoc)
qed

text \<open>A list item with a star is shown with a dash.\<close>

definition dashed :: "string \<Rightarrow> string" where
  "dashed s = (if diff_style s = None \<and> \<not> looks_like_json_line s \<and> prefix ''* '' s then ''- '' @ drop 2 s else s)"

lemma numbered_item_text:
  "parse_numbered_list_item E s = Some (p, rest, w) \<Longrightarrow> p @ rest = s"
  by (auto simp: parse_numbered_list_item_def Let_def split: if_splits)

lemma dash_is_diff: "diff_style (''- '' @ s) = Some (Red, False)"
  by (simp add: diff_style_def starts_with_def)

lemma structured_text:
  "line_text (structured_transcript_line E row indent marker)
   = indent @ (case marker of Some m \<Rightarrow> m | None \<Rightarrow> '''') @ dashed (trim_start row)"
proof (cases "diff_style (trim_start row)")
  case (Some p)
  then show ?thesis
    by (cases p) (simp add: structured_transcript_line_def lead_span_def Let_def dashed_def)
next
  case None
  then have no_dash: "\<not> prefix ''- '' (trim_start row)"
    using dash_is_diff by (auto simp: prefix_def)
  show ?thesis
  proof (cases "looks_like_json_line (trim_start row)")
    case True
    then show ?thesis
      using None by (simp add: structured_transcript_line_def json_transcript_line_def json_spans_text lead_span_def
          Let_def dashed_def)
  next
    case False
    then show ?thesis
      using None no_dash
      by (auto simp: structured_transcript_line_def lead_span_def Let_def dashed_def strip_start_def LIST_MARKER_def numeral_2_eq_2
          dest!: numbered_item_text split: option.split)
  qed
qed

text \<open>The styled line of a row of a tool, of the user or of an error reads as the marker of the row and its
  text: cutting it into coloured spans, with the tokens of JSON, the parts of a header or the numbers of a list,
  loses and adds nothing, except that a starred item gets a dash.\<close>

theorem colours_keep_text:
  "line_text (transcript_output_line E (Tool_header s)) = TOOL_MARKER @ s
   \<and> line_text (transcript_output_line E (Tool_detail s)) = ''    '' @ dashed (trim_start s)
   \<and> line_text (transcript_output_line E (Evidence_row s)) = EVIDENCE_MARKER @ dashed (trim_start s)
   \<and> line_text (transcript_output_line E (User_row s)) = ''> '' @ s
   \<and> line_text (transcript_output_line E (Error_row s)) = ERROR_MARKER @ s"
  by (simp add: tool_header_text structured_text)

section \<open>Rows that are not wrapped\<close>

text \<open>An item of a list is taken for a structural row also where it is a text of the assistant: it keeps its length,
  however narrow the screen is.\<close>

lemma list_item_not_wrapped:
  "\<not> contains_ansi_escape (''- '' @ s)
   \<Longrightarrow> word_wrap_transcript_row E (Assistant_row (''- '' @ s) streaming) cols = [''- '' @ s]"
  by (simp add: word_wrap_transcript_row_def word_wrap_plain_row_def is_structural_plain_str_def starts_with_def Let_def)

text \<open>An input that has the form of an attachment loses the line after it.\<close>

lemma typed_line_hidden:
  "collapse_file_blocks_for_display (''[file: a]'' @ [newline] @ ''secret'') = ''@a''"
  by code_simp

section \<open>The window\<close>

definition window_rows :: "transcript_row list \<Rightarrow> scroll_anchor \<Rightarrow> nat \<Rightarrow> nat \<Rightarrow> transcript_row list" where
  "window_rows rows anchor offset height =
     (case task_output_window_with_total anchor offset (length rows) height of (a, b) \<Rightarrow> take (b - a) (drop a rows))"

definition visible_rows :: "view_env \<Rightarrow> preview_env \<Rightarrow> nat \<Rightarrow> nat \<Rightarrow> tui_view \<Rightarrow> transcript_row list" where
  "visible_rows E P cols height V =
     (case task_output_view P V of (title, rows, anchor) \<Rightarrow>
        window_rows (expand_rows_for_display E rows cols) anchor
          (if anchor = Bottom_anchor then vw_transcript_offset V else vw_inspector_offset V) height)"

lemma bottom_window:
  assumes "offset + height \<le> length rows" "length rows < u64_max" "0 < height"
  shows "window_rows rows Bottom_anchor offset height = take height (drop (length rows - (height + offset)) rows)"
  using assms by (auto simp: window_rows_def task_output_window_with_total_def sat_add_def Let_def min_def)

lemma task_output_view_offset [simp]:
  "task_output_view P (V\<lparr>vw_transcript_offset := n\<rparr>) = task_output_view P V"
proof -
  have "step_view P (V\<lparr>vw_transcript_offset := n\<rparr>) = step_view P V"
  proof
    show "step_view P (V\<lparr>vw_transcript_offset := n\<rparr>) e = step_view P V e" for e
      by (cases e) (simp_all add: tool_lifecycle_def)
  qed
  then have "task_step_views P (V\<lparr>vw_transcript_offset := n\<rparr>) = task_step_views P V"
    unfolding task_step_views_def Let_def by (simp split: option.split)
  then show ?thesis unfolding task_output_view_def Let_def by simp
qed

text \<open>Far enough up, the position is beyond what can be shown: scrolling down changes nothing at first.\<close>

lemma scrolled_beyond_top:
  "length rows - height \<le> offset \<Longrightarrow> window_rows rows Bottom_anchor offset height
   = window_rows rows Bottom_anchor (length rows - height) height"
  by (simp add: window_rows_def task_output_window_with_total_def min_def)

text \<open>A user who has scrolled up keeps reading the same rows while new ones arrive below.\<close>

theorem scrolled_view_kept:
  assumes view: "task_output_view P V = (title, rows, Bottom_anchor)"
    and grown: "expand_rows_for_display E rows cols = old @ new"
    and scrolled: "0 < vw_transcript_offset V" "vw_transcript_offset V + height \<le> length old" "0 < height"
    and small: "length (old @ new) < u64_max"
  shows "visible_rows E P cols height
           (preserve_transcript_scroll_on_growth P (\<lambda>rs. length (expand_rows_for_display E rs cols)) (length old) V)
         = window_rows old Bottom_anchor (vw_transcript_offset V) height"
proof -
  let ?n = "vw_transcript_offset V + length new"
  have "preserve_transcript_scroll_on_growth P (\<lambda>rs. length (expand_rows_for_display E rs cols)) (length old) V
        = V\<lparr>vw_transcript_offset := ?n\<rparr>"
    using scrolled small
    by (auto simp: preserve_transcript_scroll_on_growth_def view grown Let_def sat_add_def min_def)
  then have "visible_rows E P cols height
               (preserve_transcript_scroll_on_growth P (\<lambda>rs. length (expand_rows_for_display E rs cols)) (length old) V)
             = window_rows (old @ new) Bottom_anchor ?n height"
    by (simp add: visible_rows_def view grown)
  also have "\<dots> = take height (drop (length old - (height + vw_transcript_offset V)) (old @ new))"
    using scrolled small by (subst bottom_window) auto
  also have "\<dots> = window_rows old Bottom_anchor (vw_transcript_offset V) height"
    using scrolled small by (subst bottom_window) auto
  finally show ?thesis .
qed

section \<open>An example\<close>

definition ascii_display :: display_env where
  "ascii_display = \<lparr>de_char_width = (\<lambda>c. 1), de_graphemes = utf8_chars, de_width = (\<lambda>g. 1)\<rparr>"

definition sample_view_env :: view_env where
  "sample_view_env =
     \<lparr>ve_display = ascii_display, ve_markdown = (\<lambda>s. [Md_text s]),
      ve_palette = \<lparr>pa_h1 = White, pa_h2 = White, pa_h3 = White, pa_bullet = White, pa_inline_code = White,
                    pa_code_fallback = Gray\<rparr>,
      ve_has_theme = False, ve_highlight = (\<lambda>lang ls. []), ve_ansi = (\<lambda>s. None), ve_wrap = (\<lambda>cols s. [s])\<rparr>"

definition sample_preview_env :: preview_env where
  "sample_preview_env = \<lparr>pv_groups = (\<lambda>a b n. []), pv_pretty = (\<lambda>v. None), pv_display = (\<lambda>v. ''{}''), pv_hash = length\<rparr>"

definition sample_tui_view :: tui_view where
  "sample_tui_view =
     \<lparr>vw_doc = begin_task demo_info, vw_notices = [''a'', ''b'', ''c'', ''d''], vw_awaiting_step = None,
      vw_approved_steps = {}, vw_follow_mode = True, vw_selected = 0, vw_transcript_offset = 1, vw_inspector_offset = 0\<rparr>"

theorem scrolled_view_kept_witness:
  "visible_rows sample_view_env sample_preview_env 2 2
     (preserve_transcript_scroll_on_growth sample_preview_env
        (\<lambda>rs. length (expand_rows_for_display sample_view_env rs 2)) 3 sample_tui_view)
   = [Plain_row ''a'', Plain_row ''b'']"
proof -
  let ?rows = "map Plain_row [''a'', ''b'', ''c'', ''d'']" and ?old = "map Plain_row [''a'', ''b'', ''c'']"
  have view: "task_output_view sample_preview_env sample_tui_view = (''Transcript'', ?rows, Bottom_anchor)"
    by (simp add: task_output_view_def sample_tui_view_def project_transcript_rows_def begin_task_def
        project_committed_transcript_rows_def project_active_transcript_rows_def Let_def)
  have grown: "expand_rows_for_display sample_view_env ?rows 2 = ?old @ [Plain_row ''d'']"
    by (simp add: expand_rows_for_display_def)
  have offset: "vw_transcript_offset sample_tui_view = 1" by (simp add: sample_tui_view_def)
  have "length (?old @ [Plain_row ''d'']) < u64_max" by (simp add: u64_max_def)
  from scrolled_view_kept [OF view grown _ _ _ this, of 2] show ?thesis
    by (simp add: offset window_rows_def task_output_window_with_total_def sat_add_def u64_max_def Let_def
        numeral_2_eq_2 numeral_3_eq_3)
qed

end
