(* ===== verification/Context_Assembler.thy ===== *)
theory Context_Assembler
  imports Task_Store Turn_Loop Tool_Calls Text_Util
begin

text \<open>
  What is added to an instruction before it is sent (\<open>src/runtime/context_assembler\<close>, \<open>src/runtime/context_cache.rs\<close>,
  \<open>src/runtime/git_rollup.rs\<close>, \<open>src/runtime/git_parse.rs\<close>, \<open>src/app/inline.rs\<close>): the files it names, the files those
  refer to, the state of the repository, and the files embedded with an at sign. Files are read through a cache. The
  git library and process are parameters.
\<close>

section \<open>The cache of files\<close>

definition MAX_CACHE_ENTRIES :: nat where "MAX_CACHE_ENTRIES = 64"

definition MAX_CACHE_TOTAL_BYTES :: nat where "MAX_CACHE_TOTAL_BYTES = 2097152"

definition MAX_CACHE_FILE_BYTES :: nat where "MAX_CACHE_FILE_BYTES = 65536"

record cached_file_read =
  cr_content :: string
  cr_cache_hit :: bool

record context_cache_entry =
  ce_content :: string
  ce_fingerprint :: file_fingerprint
  ce_last_access :: nat

record context_cache =
  xc_entries :: "(path \<times> context_cache_entry) list"
  xc_total_bytes :: nat
  xc_next_access :: nat

definition context_cache_default :: context_cache where
  "context_cache_default = \<lparr>xc_entries = [], xc_total_bytes = 0, xc_next_access = 0\<rparr>"

definition next_access_tick :: "context_cache \<Rightarrow> nat \<times> context_cache" where
  "next_access_tick c = (let n = sat_add (xc_next_access c) 1 in (n, c\<lparr>xc_next_access := n\<rparr>))"

fun oldest_entry :: "(path \<times> context_cache_entry) list \<Rightarrow> (path \<times> nat) option" where
  "oldest_entry [] = None"
| "oldest_entry ((p, e) # es) =
     (case oldest_entry es of
        Some (q, a) \<Rightarrow> if a < ce_last_access e then Some (q, a) else Some (p, ce_last_access e)
      | None \<Rightarrow> Some (p, ce_last_access e))"

definition remove_entry :: "path \<Rightarrow> context_cache \<Rightarrow> context_cache" where
  "remove_entry p c =
     (case map_of (xc_entries c) p of
        Some removed \<Rightarrow>
          c\<lparr>xc_entries := AList.delete p (xc_entries c), xc_total_bytes := xc_total_bytes c - length (ce_content removed)\<rparr>
      | None \<Rightarrow> c)"

lemma oldest_entry_in: "oldest_entry es = Some (q, a) \<Longrightarrow> q \<in> fst ` set es"
proof (induction es arbitrary: q a rule: oldest_entry.induct)
  case (2 p e es)
  then show ?case by (cases "oldest_entry es") (auto split: prod.splits if_splits)
qed simp

lemma remove_entry_shorter:
  assumes "q \<in> fst ` set (xc_entries c)"
  shows "length (xc_entries (remove_entry q c)) < length (xc_entries c)"
proof -
  obtain e where "map_of (xc_entries c) q = Some e"
    using assms by (cases "map_of (xc_entries c) q") (auto simp: map_of_eq_None_iff)
  then show ?thesis using delete_shorter [OF assms] by (simp add: remove_entry_def)
qed

function evict_to_fit :: "context_cache \<Rightarrow> context_cache" where
  "evict_to_fit c =
     (if length (xc_entries c) > MAX_CACHE_ENTRIES \<or> xc_total_bytes c > MAX_CACHE_TOTAL_BYTES then
        (case oldest_entry (xc_entries c) of Some (q, a) \<Rightarrow> evict_to_fit (remove_entry q c) | None \<Rightarrow> c)
      else c)"
  by pat_completeness auto
termination
  by (relation "measure (\<lambda>c. length (xc_entries c))") (auto intro!: remove_entry_shorter oldest_entry_in)

declare evict_to_fit.simps [simp del]

definition try_read_from_cache :: "path \<Rightarrow> file_fingerprint \<Rightarrow> context_cache \<Rightarrow> string option \<times> context_cache" where
  "try_read_from_cache p fp c =
     (case map_of (xc_entries c) p of
        Some e \<Rightarrow>
          if ce_fingerprint e = fp then
            (let (n, c1) = next_access_tick c
             in (Some (ce_content e), c1\<lparr>xc_entries := AList.update p (e\<lparr>ce_last_access := n\<rparr>) (xc_entries c1)\<rparr>))
          else (None, remove_entry p c)
      | None \<Rightarrow> (None, c))"

definition insert_into_cache :: "path \<Rightarrow> file_fingerprint \<Rightarrow> string \<Rightarrow> context_cache \<Rightarrow> context_cache" where
  "insert_into_cache p fp content c =
     (let (n, c1) = next_access_tick (remove_entry p c)
      in evict_to_fit
           (c1\<lparr>xc_total_bytes := sat_add (xc_total_bytes c1) (length content),
               xc_entries := AList.update p \<lparr>ce_content = content, ce_fingerprint = fp, ce_last_access = n\<rparr> (xc_entries c1)\<rparr>))"

definition read_cached_file ::
  "'d disk \<Rightarrow> tool_operator \<Rightarrow> string \<Rightarrow> 'd \<Rightarrow> context_cache \<Rightarrow> (string + cached_file_read) \<times> context_cache" where
  "read_cached_file D oper p d c =
     (let plain = (case read_file D oper p d of
                     Inl e \<Rightarrow> Inl e
                   | Inr s \<Rightarrow> Inr \<lparr>cr_content = s, cr_cache_hit = False\<rparr>)
      in case existing_path D oper p d of
           Inl e \<Rightarrow> (Inl e, c)
         | Inr None \<Rightarrow> (plain, c)
         | Inr (Some resolved) \<Rightarrow>
             if dk_is_dir D d resolved then (plain, c)
             else (case dk_fingerprint D d resolved of
                     None \<Rightarrow> (plain, c)
                   | Some fp \<Rightarrow>
                       if fp_len fp > MAX_CACHE_FILE_BYTES then (plain, c)
                       else (case try_read_from_cache resolved fp c of
                               (Some content, c1) \<Rightarrow> (Inr \<lparr>cr_content = content, cr_cache_hit = True\<rparr>, c1)
                             | (None, c1) \<Rightarrow>
                                 (case read_file D oper p d of
                                    Inl e \<Rightarrow> (Inl e, c1)
                                  | Inr content \<Rightarrow>
                                      (Inr \<lparr>cr_content = content, cr_cache_hit = False\<rparr>,
                                       insert_into_cache resolved fp content c1)))))"

section \<open>Paths in texts\<close>

definition STANDALONE_PATH_EXTENSIONS :: "string list" where
  "STANDALONE_PATH_EXTENSIONS = [''rs'', ''toml'', ''md'', ''txt'', ''json'', ''sh'']"

definition candidate_marks :: string where
  "candidate_marks = [CHR 0x22, CHR 0x27, CHR 0x60] @ '',.;:()[]{}''"

definition trim_candidate :: "string \<Rightarrow> string" where
  "trim_candidate s =
     rev (dropWhile (\<lambda>c. c \<in> set candidate_marks) (rev (dropWhile (\<lambda>c. c \<in> set candidate_marks) s)))"

text \<open>\<open>trim_start_matches\<close> with a dot and a slash.\<close>

fun strip_dot_slash :: "string \<Rightarrow> string" where
  "strip_dot_slash (a # b # cs) = (if a = CHR ''.'' \<and> b = CHR ''/'' then strip_dot_slash cs else a # b # cs)"
| "strip_dot_slash s = s"

definition path_extension :: "string \<Rightarrow> string option" where
  "path_extension s = Option.bind (file_name (components s)) file_extension"

definition candidate_path :: "string \<Rightarrow> string option" where
  "candidate_path token =
     (let candidate = trim_candidate token; normalized = strip_dot_slash candidate
      in if candidate = '''' \<or> starts_with candidate ''/'' \<or> starts_with candidate ''-'' then None
         else if CHR ''/'' \<notin> set candidate \<and> CHR ''.'' \<notin> set candidate then None
         else if normalized = '''' \<or> is_digit (hd normalized) then None
         else if CHR ''/'' \<in> set normalized then Some normalized
         else (case map_option to_ascii_lowercase (path_extension normalized) of
                 Some ext \<Rightarrow> if ext \<in> set STANDALONE_PATH_EXTENSIONS then Some normalized else None
               | None \<Rightarrow> None))"

definition add_new :: "'a option \<Rightarrow> 'a list \<Rightarrow> 'a list" where
  "add_new x out = (case x of Some y \<Rightarrow> if y \<in> set out then out else out @ [y] | None \<Rightarrow> out)"

definition extract_candidate_paths :: "string \<Rightarrow> string list" where
  "extract_candidate_paths instruction =
     fold (\<lambda>token. add_new (candidate_path token)) (split_ws (utf8_chars instruction) '''') []"

definition before :: "string \<Rightarrow> string \<Rightarrow> string" where
  "before pat s = (case find_str pat s of Some i \<Rightarrow> take i s | None \<Rightarrow> s)"

definition strip_any :: "string list \<Rightarrow> string \<Rightarrow> string option" where
  "strip_any ps s = find_map (\<lambda>p. if prefix p s then Some (drop (length p) s) else None) ps"

definition infer_rust_use_path :: "string \<Rightarrow> path option" where
  "infer_rust_use_path l =
     (case strip_any [''use '', ''pub use ''] l of
        None \<Rightarrow> None
      | Some v \<Rightarrow>
          (let m0 = trim (trim_end_char CHR '';'' (trim (before ''//'' v)))
           in if m0 = '''' then None
              else (let m1 = (if contains m0 '' as '' then trim (before '' as '' m0) else m0);
                        m2 = (if contains m1 ''{'' then trim (before ''{'' m1) else m1);
                        m3 = trim (trim_end_char CHR '':'' m2)
                    in case strip_any [''crate::'', ''super::'', ''self::''] m3 of
                         None \<Rightarrow> None
                       | Some relative \<Rightarrow>
                           if relative = '''' then None
                           else Some (join (components ''src'') (components (replace_str relative ''::'' ''/'' @ ''.rs''))))))"

definition python_module :: "string \<Rightarrow> string option" where
  "python_module l =
     (case strip_start ''from '' l of
        Some v \<Rightarrow> (if contains v '' import '' then Some (trim (before '' import '' v)) else None)
      | None \<Rightarrow>
          (case strip_start ''import '' l of
             None \<Rightarrow> None
           | Some v \<Rightarrow>
               if contains v '' from '' \<or> CHR 0x22 \<in> set v \<or> CHR 0x27 \<in> set v then None
               else (case split_ws (utf8_chars (hd (split_char CHR '','' v))) '''' of
                       w # ws \<Rightarrow> Some (trim w)
                     | [] \<Rightarrow> None)))"

definition infer_python_import_path :: "string \<Rightarrow> path option" where
  "infer_python_import_path l =
     (case python_module l of
        None \<Rightarrow> None
      | Some m \<Rightarrow>
          if m = '''' \<or> starts_with m ''.'' then None
          else Some (components (map (\<lambda>c. if c = CHR ''.'' then CHR ''/'' else c) m @ ''.py'')))"

definition quoted_by :: "char \<Rightarrow> string \<Rightarrow> string option" where
  "quoted_by q l =
     (case dropWhile (\<lambda>c. c \<noteq> q) l of
        [] \<Rightarrow> None
      | c # rest \<Rightarrow> if q \<in> set rest then Some (takeWhile (\<lambda>c. c \<noteq> q) rest) else None)"

definition extract_quoted_specifier :: "string \<Rightarrow> string option" where
  "extract_quoted_specifier l = find_map (\<lambda>q. quoted_by q l) [CHR 0x22, CHR 0x27]"

definition infer_js_import_path :: "string \<Rightarrow> path option" where
  "infer_js_import_path l =
     (if \<not> starts_with l ''import '' \<and> \<not> starts_with l ''export '' then None
      else case extract_quoted_specifier l of
          None \<Rightarrow> None
        | Some specifier \<Rightarrow>
            (let normalized = strip_dot_slash specifier
             in if specifier = '''' \<or> starts_with specifier ''/'' \<or> starts_with specifier ''../'' then None
                else if normalized = '''' then None
                else if path_extension normalized \<noteq> None then Some (components normalized)
                else Some (components (normalized @ ''.js''))))"

definition infer_related_path_candidates :: "string \<Rightarrow> path list" where
  "infer_related_path_candidates content =
     fold (\<lambda>l out. let t = trim l
                   in add_new (infer_js_import_path t)
                        (add_new (infer_python_import_path t) (add_new (infer_rust_use_path t) out)))
       (str_lines content) []"

section \<open>The repository\<close>

record status_entry =
  se_index :: string
  se_worktree :: string
  se_path :: string

text \<open>\<open>parse_git_status\<close>: two characters, a blank and a path that is not empty.\<close>

definition parse_status_line :: "string \<Rightarrow> status_entry option" where
  "parse_status_line l =
     (case utf8_chars l of
        x # y # b # rest \<Rightarrow>
          if b = '' '' \<and> rest \<noteq> [] then Some \<lparr>se_index = x, se_worktree = y, se_path = concat rest\<rparr> else None
      | _ \<Rightarrow> None)"

definition parse_git_status :: "string \<Rightarrow> status_entry list" where
  "parse_git_status out = List.map_filter parse_status_line (str_lines out)"

record log_entry =
  lg_hash :: string
  lg_subject :: string

definition is_ascii_ws :: "char \<Rightarrow> bool" where
  "is_ascii_ws c \<longleftrightarrow> c \<in> {CHR '' '', CHR 0x09, CHR 0x0A, CHR 0x0B, CHR 0x0C, CHR 0x0D}"

definition is_hex :: "char \<Rightarrow> bool" where
  "is_hex c \<longleftrightarrow> is_digit c \<or> (byte_val CHR ''a'' \<le> byte_val c \<and> byte_val c \<le> byte_val CHR ''f'')"

text \<open>Seven to forty digits of a hash, blanks, and a subject. What follows the digits must be a blank, so they are
  all taken; the line is trimmed, so the subject starts at the first other character.\<close>

definition parse_log_line :: "string \<Rightarrow> log_entry option" where
  "parse_log_line l =
     (let hash = takeWhile is_hex l; rest = dropWhile is_hex l; subject = dropWhile is_ascii_ws rest
      in if 7 \<le> length hash \<and> length hash \<le> 40 \<and> rest \<noteq> [] \<and> is_ascii_ws (hd rest) \<and> subject \<noteq> ''''
         then Some \<lparr>lg_hash = hash, lg_subject = subject\<rparr> else None)"

definition parse_git_log_oneline :: "string \<Rightarrow> log_entry list" where
  "parse_git_log_oneline out = List.map_filter (\<lambda>l. parse_log_line (trim l)) (str_lines out)"

record name_status_entry =
  ns_status :: char
  ns_path :: string
  ns_new_path :: "string option"

text \<open>The first tab with a text before and after it divides the two paths.\<close>

fun split_paths :: "string \<Rightarrow> string \<Rightarrow> string \<times> string option" where
  "split_paths acc [] = (acc, None)"
| "split_paths acc (c # cs) =
     (if c = CHR 0x09 \<and> acc \<noteq> '''' \<and> cs \<noteq> [] then (acc, Some cs) else split_paths (acc @ [c]) cs)"

definition parse_name_status_line :: "string \<Rightarrow> name_status_entry option" where
  "parse_name_status_line l =
     (case l of
        [] \<Rightarrow> None
      | c # cs \<Rightarrow>
          (case dropWhile is_digit cs of
             t # rest \<Rightarrow>
               if c \<in> set ''AMDRTCUX'' \<and> t = CHR 0x09 \<and> rest \<noteq> '''' then
                 (case split_paths '''' rest of (p, q) \<Rightarrow> Some \<lparr>ns_status = c, ns_path = p, ns_new_path = q\<rparr>)
               else None
           | [] \<Rightarrow> None))"

definition parse_name_status :: "string \<Rightarrow> name_status_entry list" where
  "parse_name_status out = List.map_filter parse_name_status_line (str_lines out)"

datatype apply_outcome =
    Applied string
  | Conflict string
  | Rejected string
  | Already_applied string
  | Does_not_apply string
  | Binary_patch string
  | Apply_failed string

text \<open>The expressions for the lines of \<open>git apply\<close> and \<open>git diff --stat\<close>: what their first group captures, or the
  groups.\<close>

record git_patterns =
  gp_conflict :: "string \<Rightarrow> string option"
  gp_rejected :: "string \<Rightarrow> string option"
  gp_already :: "string \<Rightarrow> string option"
  gp_does_not_apply :: "string \<Rightarrow> string option"
  gp_binary :: "string \<Rightarrow> string option"
  gp_applied :: "string \<Rightarrow> string option"
  gp_stat_summary :: "string \<Rightarrow> (string option \<times> string option \<times> string option) option"
  gp_stat_line :: "string \<Rightarrow> (string \<times> string) option"

text \<open>The outcome of a line and whether it is an error.\<close>

definition apply_line :: "git_patterns \<Rightarrow> string \<Rightarrow> (apply_outcome \<times> bool) option" where
  "apply_line R l =
     (case gp_conflict R l of Some p \<Rightarrow> Some (Conflict p, True)
      | None \<Rightarrow>
     (case gp_rejected R l of Some p \<Rightarrow> Some (Rejected p, True)
      | None \<Rightarrow>
     (case gp_already R l of Some p \<Rightarrow> Some (Already_applied p, False)
      | None \<Rightarrow>
     (case gp_does_not_apply R l of Some m \<Rightarrow> Some (Does_not_apply m, True)
      | None \<Rightarrow>
     (case gp_binary R l of Some p \<Rightarrow> Some (Binary_patch p, False)
      | None \<Rightarrow>
     (case gp_applied R l of Some p \<Rightarrow> Some (Applied p, False)
      | None \<Rightarrow>
        if starts_with l ''error:'' \<or> starts_with l ''fatal:'' then Some (Apply_failed l, True) else None))))))"

definition parse_git_apply :: "git_patterns \<Rightarrow> string \<Rightarrow> apply_outcome list \<times> bool" where
  "parse_git_apply R out =
     (let found = List.map_filter (apply_line R) (filter (\<lambda>l. l \<noteq> '''') (map trim (str_lines out)))
      in (map fst found, list_ex snd found))"

record diff_stat =
  df_entries :: "(string \<times> nat) list"
  df_total_files :: nat
  df_total_insertions :: nat
  df_total_deletions :: nat

definition u32_or_0 :: "string option \<Rightarrow> nat" where
  "u32_or_0 s =
     (case Option.bind s parse_u64 of Some n \<Rightarrow> if n < u32_modulus then n else 0 | None \<Rightarrow> 0)"

definition stat_line :: "git_patterns \<Rightarrow> string \<Rightarrow> diff_stat \<Rightarrow> diff_stat" where
  "stat_line R l st =
     (case gp_stat_summary R l of
        Some (files, insertions, deletions) \<Rightarrow>
          st\<lparr>df_total_files := u32_or_0 files, df_total_insertions := u32_or_0 insertions,
             df_total_deletions := u32_or_0 deletions\<rparr>
      | None \<Rightarrow>
          (case gp_stat_line R l of
             Some (p, n) \<Rightarrow> st\<lparr>df_entries := df_entries st @ [(trim p, u32_or_0 (Some n))]\<rparr>
           | None \<Rightarrow> st))"

definition parse_diff_stat :: "git_patterns \<Rightarrow> string \<Rightarrow> diff_stat" where
  "parse_diff_stat R out =
     fold (stat_line R) (str_lines out)
       \<lparr>df_entries = [], df_total_files = 0, df_total_insertions = 0, df_total_deletions = 0\<rparr>"

record git_rollup =
  gr_status_summary :: "string option"
  gr_recent_diff :: "string option"
  gr_parsed_status :: "status_entry list option"
  gr_git_dir :: "path option"
  gr_committer_name :: "string option"
  gr_staged_paths :: "path list"

definition git_rollup_default :: git_rollup where
  "git_rollup_default =
     \<lparr>gr_status_summary = None, gr_recent_diff = None, gr_parsed_status = None, gr_git_dir = None,
      gr_committer_name = None, gr_staged_paths = []\<rparr>"

definition has_staged_changes :: "git_rollup \<Rightarrow> bool" where
  "has_staged_changes g \<longleftrightarrow> gr_staged_paths g \<noteq> []"

definition has_working_tree_changes :: "git_rollup \<Rightarrow> bool" where
  "has_working_tree_changes g \<longleftrightarrow>
     (case gr_parsed_status g of Some es \<Rightarrow> list_ex (\<lambda>e. se_worktree e \<noteq> '' '') es | None \<Rightarrow> False)"

record git_command_result =
  gc_output :: "string option"
  gc_non_git_repo :: bool
  gc_timed_out :: bool

text \<open>How a git process ended: it could not be run, it was killed, or it exited with its success, its output and its
  errors. With the ending comes whether the time was over before.\<close>

datatype git_end = Git_error string | Git_killed | Git_exited bool string string

record git_env =
  ge_process :: "string list \<Rightarrow> nat \<Rightarrow> bool \<times> git_end"
  ge_root :: "path option"
  ge_git_dir :: "path option"
  ge_user_name :: "string option"
  ge_index_paths :: "string list option" \<comment> \<open>the paths of the entries of the index that are UTF-8\<close>
  ge_var :: "string \<Rightarrow> string option"

definition no_git_result :: git_command_result where
  "no_git_result = \<lparr>gc_output = None, gc_non_git_repo = False, gc_timed_out = False\<rparr>"

definition run_git_command_blocking :: "git_end \<Rightarrow> string + git_command_result" where
  "run_git_command_blocking ending =
     (case ending of
        Git_error e \<Rightarrow> Inl e
      | Git_killed \<Rightarrow> Inr (no_git_result\<lparr>gc_timed_out := True\<rparr>)
      | Git_exited success out err \<Rightarrow>
          if success then Inr (no_git_result\<lparr>gc_output := Some (trim out)\<rparr>)
          else if contains (to_ascii_lowercase err) ''not a git repository''
          then Inr (no_git_result\<lparr>gc_non_git_repo := True\<rparr>)
          else Inr no_git_result)"

definition run_git_command_with_timeout :: "git_env \<Rightarrow> string list \<Rightarrow> nat \<Rightarrow> string + git_command_result" where
  "run_git_command_with_timeout G args timeout_ms =
     (case ge_process G args timeout_ms of (late, ending) \<Rightarrow>
        if \<not> late then run_git_command_blocking ending
        else (case run_git_command_blocking ending of
                Inr r \<Rightarrow> Inr (r\<lparr>gc_timed_out := True\<rparr>)
              | Inl e \<Rightarrow> Inr (no_git_result\<lparr>gc_timed_out := True\<rparr>)))"

definition append_annotation :: "string \<Rightarrow> string option \<Rightarrow> string option" where
  "append_annotation annotation summary =
     Some (case summary of
             Some existing \<Rightarrow> if existing \<noteq> '''' then existing @ [newline] @ annotation else annotation
           | None \<Rightarrow> annotation)"

definition timeout_note :: "string \<Rightarrow> nat \<Rightarrow> string" where
  "timeout_note command timeout_ms =
     ''[context: git '' @ command @ '' timed out after '' @ nat_dec timeout_ms @ ''ms]''"

definition limit_lines :: "string \<Rightarrow> nat \<Rightarrow> string" where
  "limit_lines s max_lines = join_with [newline] (take max_lines (str_lines s))"

definition read_staged_paths :: "git_env \<Rightarrow> path list" where
  "read_staged_paths G = (case ge_index_paths G of Some ps \<Rightarrow> map components ps | None \<Rightarrow> [])"

definition collect_git_rollup :: "git_env \<Rightarrow> nat \<Rightarrow> nat \<Rightarrow> string + git_rollup" where
  "collect_git_rollup G timeout_ms max_diff_lines =
     (if ge_root G = None then Inr git_rollup_default
      else
        (let base = git_rollup_default
                      \<lparr>gr_git_dir := ge_git_dir G, gr_committer_name := ge_user_name G, gr_staged_paths := read_staged_paths G\<rparr>
         in case run_git_command_with_timeout G [''status'', ''--short''] timeout_ms of
              Inl e \<Rightarrow> Inl e
            | Inr status \<Rightarrow>
                if gc_non_git_repo status then Inr base
                else (case run_git_command_with_timeout G [''diff'', ''HEAD''] timeout_ms of
                        Inl e \<Rightarrow> Inl e
                      | Inr diff \<Rightarrow>
                          (let s1 = (if gc_timed_out status then append_annotation (timeout_note ''status'' timeout_ms) else (\<lambda>s. s))
                                      (gc_output status);
                               s2 = (if gc_timed_out diff then append_annotation (timeout_note ''diff'' timeout_ms) else (\<lambda>s. s)) s1
                           in Inr (base\<lparr>gr_status_summary := s2,
                                        gr_recent_diff := map_option (\<lambda>v. limit_lines v max_diff_lines) (gc_output diff),
                                        gr_parsed_status := map_option parse_git_status (gc_output status)\<rparr>)))))"

definition resolve_git_timeout_ms :: "git_env \<Rightarrow> nat \<Rightarrow> nat" where
  "resolve_git_timeout_ms G default_ms =
     (case ge_var G ''VEX_CONTEXT_GIT_TIMEOUT_MS'' of
        Some v \<Rightarrow> (case parse_u64 (trim v) of Some n \<Rightarrow> n | None \<Rightarrow> default_ms)
      | None \<Rightarrow> default_ms)"

section \<open>The context\<close>

record file_rollup =
  fr_path :: path
  fr_content :: "string option"
  fr_content_limited :: bool

record assembled_context =
  ac_file_rollups :: "file_rollup list"
  ac_git :: git_rollup
  ac_has_staged_changes :: bool
  ac_has_working_tree_changes :: bool
  ac_related_paths :: "path list"
  ac_cache_hits :: nat
  ac_cache_misses :: nat

record context_assembler =
  as_max_file_bytes :: nat
  as_max_diff_lines :: nat
  as_max_related :: nat
  as_git_timeout_ms :: nat
  as_include_git_context :: bool

definition resolve_include_git_context :: "git_env \<Rightarrow> bool \<Rightarrow> bool" where
  "resolve_include_git_context G default_enabled =
     (case ge_var G ''VEX_CONTEXT_INCLUDE_GIT'' of
        Some v \<Rightarrow> if trim v \<noteq> '''' then (case parse_bool_flag v of Some b \<Rightarrow> b | None \<Rightarrow> default_enabled) else default_enabled
      | None \<Rightarrow> default_enabled)"

definition context_assembler_default :: "git_env \<Rightarrow> context_assembler" where
  "context_assembler_default G =
     \<lparr>as_max_file_bytes = 32768, as_max_diff_lines = 200, as_max_related = 3, as_git_timeout_ms = 2000,
      as_include_git_context = resolve_include_git_context G False\<rparr>"

definition with_expanded_scan :: "bool \<Rightarrow> context_assembler \<Rightarrow> context_assembler" where
  "with_expanded_scan enabled a = (if enabled then a\<lparr>as_max_related := max (as_max_related a) 8\<rparr> else a)"

definition rollup_from_read :: "path \<Rightarrow> string + cached_file_read \<Rightarrow> nat \<Rightarrow> file_rollup \<times> bool" where
  "rollup_from_read p result max_file_bytes =
     (case result of
        Inr r \<Rightarrow>
          (case truncate_head_bytes (cr_content r) max_file_bytes of (content, limited) \<Rightarrow>
             (\<lparr>fr_path = p, fr_content = Some content, fr_content_limited = limited\<rparr>, cr_cache_hit r))
      | Inl e \<Rightarrow> (\<lparr>fr_path = p, fr_content = None, fr_content_limited = False\<rparr>, False))"

record assembly =
  as_rollups :: "file_rollup list"
  as_related :: "path list"
  as_seen :: "path list"
  as_hits :: nat
  as_misses :: nat
  as_cache :: context_cache

definition add_rollup :: "file_rollup \<times> bool \<Rightarrow> context_cache \<Rightarrow> assembly \<Rightarrow> assembly" where
  "add_rollup r c st =
     (case r of (snapshot, hit) \<Rightarrow>
        st\<lparr>as_rollups := as_rollups st @ [snapshot],
           as_hits := as_hits st + (if hit then 1 else 0),
           as_misses := as_misses st + (if \<not> hit \<and> fr_content snapshot \<noteq> None then 1 else 0),
           as_cache := c\<rparr>)"

definition add_named :: "'d disk \<Rightarrow> tool_operator \<Rightarrow> nat \<Rightarrow> 'd \<Rightarrow> string \<Rightarrow> assembly \<Rightarrow> assembly" where
  "add_named D oper max_file_bytes d candidate st =
     (let p = components candidate
      in if p \<in> set (as_seen st) then st
         else (case read_cached_file D oper candidate d (as_cache st) of (r, c) \<Rightarrow>
                 add_rollup (rollup_from_read p r max_file_bytes) c (st\<lparr>as_seen := p # as_seen st\<rparr>)))"

definition candidate_text :: "path \<Rightarrow> string" where
  "candidate_text p = map (\<lambda>c. if c = backslash then CHR ''/'' else c) (display_path p)"

text \<open>A path a named file refers to; nothing more is read once there are enough.\<close>

definition add_related :: "'d disk \<Rightarrow> tool_operator \<Rightarrow> context_assembler \<Rightarrow> 'd \<Rightarrow> path \<Rightarrow> assembly \<Rightarrow> assembly" where
  "add_related D oper a d p st =
     (if length (as_related st) \<ge> as_max_related a \<or> p \<in> set (as_seen st) then st
      else (let st1 = st\<lparr>as_seen := p # as_seen st\<rparr>
            in case read_cached_file D oper (candidate_text p) d (as_cache st) of
                 (Inl e, c) \<Rightarrow> st1\<lparr>as_cache := c\<rparr>
               | (Inr r, c) \<Rightarrow>
                   (add_rollup (rollup_from_read p (Inr r) (as_max_file_bytes a)) c st1)
                     \<lparr>as_related := as_related st @ [p]\<rparr>))"

definition add_related_of :: "'d disk \<Rightarrow> tool_operator \<Rightarrow> context_assembler \<Rightarrow> 'd \<Rightarrow> file_rollup \<Rightarrow> assembly \<Rightarrow> assembly" where
  "add_related_of D oper a d snapshot st =
     (case fr_content snapshot of
        Some content \<Rightarrow> fold (add_related D oper a d) (infer_related_path_candidates content) st
      | None \<Rightarrow> st)"

definition gather_files :: "'d disk \<Rightarrow> tool_operator \<Rightarrow> context_assembler \<Rightarrow> 'd \<Rightarrow> string \<Rightarrow> context_cache \<Rightarrow> assembly" where
  "gather_files D oper a d instruction c =
     (let named = fold (add_named D oper (as_max_file_bytes a) d) (extract_candidate_paths instruction)
            \<lparr>as_rollups = [], as_related = [], as_seen = [], as_hits = 0, as_misses = 0, as_cache = c\<rparr>
      in fold (add_related_of D oper a d) (as_rollups named) named)"

definition assembled :: "assembly \<Rightarrow> git_rollup \<Rightarrow> assembled_context" where
  "assembled st g =
     \<lparr>ac_file_rollups = as_rollups st, ac_git = g, ac_has_staged_changes = has_staged_changes g,
      ac_has_working_tree_changes = has_working_tree_changes g, ac_related_paths = as_related st,
      ac_cache_hits = as_hits st, ac_cache_misses = as_misses st\<rparr>"

definition assemble ::
  "'d disk \<Rightarrow> git_env \<Rightarrow> tool_operator \<Rightarrow> context_assembler \<Rightarrow> 'd \<Rightarrow> string \<Rightarrow> context_cache
   \<Rightarrow> (string + assembled_context) \<times> context_cache" where
  "assemble D G oper a d instruction c =
     (let st = gather_files D oper a d instruction c
      in if \<not> as_include_git_context a then (Inr (assembled st git_rollup_default), as_cache st)
         else (case collect_git_rollup G (resolve_git_timeout_ms G (as_git_timeout_ms a)) (as_max_diff_lines a) of
                 Inl e \<Rightarrow> (Inl e, as_cache st)
               | Inr g \<Rightarrow> (Inr (assembled st g), as_cache st)))"

section \<open>The context as text\<close>

definition ensure_newline :: "string \<Rightarrow> string" where
  "ensure_newline s = (if ends_with s [newline] then s else s @ [newline])"

definition tick3 :: string where
  "tick3 = [CHR 0x60, CHR 0x60, CHR 0x60]"

definition fenced :: "string \<Rightarrow> string \<Rightarrow> string" where
  "fenced lang s = tick3 @ lang @ [newline] @ ensure_newline s @ tick3 @ [newline]"

definition render_file_rollup :: "nat \<Rightarrow> file_rollup \<Rightarrow> string" where
  "render_file_rollup max_file_bytes r =
     ''- '' @ display_path (fr_path r) @ [newline]
     @ (if fr_content_limited r
        then ''  [context: file excerpt limited to first '' @ nat_dec max_file_bytes @ '' bytes]'' @ [newline] else '''')
     @ fenced ''text''
         (case fr_content r of
            Some content \<Rightarrow> content
          | None \<Rightarrow> ''[context: file unreadable '' @ em_dash @ '' '' @ display_path (fr_path r) @ '']'')"

definition render_file_rollups :: "context_assembler \<Rightarrow> assembled_context \<Rightarrow> string" where
  "render_file_rollups a ctx =
     (if ac_file_rollups ctx = [] then ''[context: no file rollups]'' @ [newline]
      else ''### File rollups'' @ [newline] @ concat (map (render_file_rollup (as_max_file_bytes a)) (ac_file_rollups ctx)))"

definition render_section :: "string \<Rightarrow> string \<Rightarrow> string option \<Rightarrow> string" where
  "render_section title lang body =
     [newline] @ ''### '' @ title @ [newline]
     @ (case body of
          Some s \<Rightarrow> if trim s \<noteq> '''' then fenced lang s else ''[context: unavailable]'' @ [newline]
        | None \<Rightarrow> ''[context: unavailable]'' @ [newline])"

definition render_related :: "path list \<Rightarrow> string" where
  "render_related ps =
     (if ps = [] then ''''
      else [newline] @ ''### Related paths'' @ [newline]
           @ concat (map (\<lambda>p. ''- '' @ display_path p @ [newline]) ps))"

definition render_context :: "context_assembler \<Rightarrow> assembled_context \<Rightarrow> string" where
  "render_context a ctx =
     ''## Context'' @ [newline] @ render_file_rollups a ctx
     @ render_section ''Git status'' ''text'' (gr_status_summary (ac_git ctx))
     @ render_section ''Recent diff'' ''diff'' (gr_recent_diff (ac_git ctx))
     @ render_related (ac_related_paths ctx)"

definition render_shared_prefix :: "context_assembler \<Rightarrow> assembled_context \<Rightarrow> string" where
  "render_shared_prefix a ctx =
     ''## Shared context prefix'' @ [newline] @ render_file_rollups a ctx @ render_related (ac_related_paths ctx)"

section \<open>Files embedded in an input\<close>

definition INLINE_FILE_EMBED_MAX_BYTES :: nat where "INLINE_FILE_EMBED_MAX_BYTES = 2048"

definition format_inline_block :: "string \<Rightarrow> string \<Rightarrow> string \<Rightarrow> bool \<Rightarrow> nat option \<Rightarrow> string" where
  "format_inline_block kind p content limited byte_limit =
     ''['' @ kind @ '': '' @ p @ '']'' @ [newline] @ tick3 @ ''text'' @ [newline] @ content @ [newline] @ tick3
     @ (if limited then
          [newline] @ ''['' @ kind @ '': '' @ p @ '' '' @ em_dash
          @ (case byte_limit of
               Some n \<Rightarrow> '' excerpt limited to '' @ nat_dec n @ '' bytes]''
             | None \<Rightarrow> '' excerpt limited]'')
        else '''')"

definition format_inline_reference :: "string \<Rightarrow> string \<Rightarrow> string \<Rightarrow> string" where
  "format_inline_reference kind p detail =
     ''['' @ kind @ '': '' @ p @ '']'' @ [newline] @ tick3 @ ''text'' @ [newline] @ detail @ [newline] @ tick3"

definition inline_omitted_note :: "nat \<Rightarrow> nat \<Rightarrow> string" where
  "inline_omitted_note total_bytes total_lines =
     ''[inline file content omitted '' @ em_dash @ '' file is '' @ nat_dec total_bytes @ '' bytes across ''
     @ nat_dec total_lines
     @ '' lines; use read_file or search_files with this explicit path for targeted inspection]''"

definition inline_note :: "string \<Rightarrow> string \<Rightarrow> string \<Rightarrow> string" where
  "inline_note kind p detail = ''['' @ kind @ '': '' @ p @ '' '' @ em_dash @ '' '' @ detail @ '']''"

definition expand_inline_token :: "'d disk \<Rightarrow> tool_operator \<Rightarrow> context_assembler \<Rightarrow> 'd \<Rightarrow> string \<Rightarrow> string" where
  "expand_inline_token D oper a d token =
     (case strip_start ''@'' token of
        None \<Rightarrow> token
      | Some p \<Rightarrow>
          if p = '''' then token
          else (case existing_path D oper p d of
                  Inl e \<Rightarrow> inline_note ''file'' p e
                | Inr None \<Rightarrow> inline_note ''file'' p ''not found''
                | Inr (Some resolved) \<Rightarrow>
                    if dk_is_dir D d resolved then
                      (case list_files D oper (Some p) (as_max_related a) d of
                         Inr listing \<Rightarrow> format_inline_block ''dir'' p listing False None
                       | Inl e \<Rightarrow> inline_note ''dir'' p e)
                    else
                      (case read_file D oper p d of
                         Inl e \<Rightarrow> inline_note ''file'' p e
                       | Inr content \<Rightarrow>
                           (let embed_limit = min (as_max_file_bytes a) INLINE_FILE_EMBED_MAX_BYTES;
                                total_lines = max (length (str_lines content)) (if content = '''' then 0 else 1)
                            in if length content > embed_limit
                               then format_inline_reference ''file'' p (inline_omitted_note (length content) total_lines)
                               else (case truncate_head_bytes content embed_limit of (shown, limited) \<Rightarrow>
                                       format_inline_block ''file'' p shown limited (Some embed_limit))))))"

text \<open>The characters of the input, and the token that is being read.\<close>

fun expand_tokens :: "(string \<Rightarrow> string) \<Rightarrow> string list \<Rightarrow> string \<Rightarrow> string" where
  "expand_tokens expand [] token = (if token = '''' then '''' else expand token)"
| "expand_tokens expand (c # cs) token =
     (if is_ws c then (if token = '''' then '''' else expand token) @ c @ expand_tokens expand cs ''''
      else expand_tokens expand cs (token @ c))"

definition expand_inline_tokens_in_text ::
  "'d disk \<Rightarrow> tool_operator \<Rightarrow> context_assembler \<Rightarrow> 'd \<Rightarrow> string \<Rightarrow> string" where
  "expand_inline_tokens_in_text D oper a d input = expand_tokens (expand_inline_token D oper a d) (utf8_chars input) ''''"

text \<open>A slash command is a parameter: the word it is shown with and its arguments, when it is one of the two whose
  arguments are expanded.\<close>

definition expand_inline_file_tokens ::
  "'d disk \<Rightarrow> (string \<Rightarrow> (string \<times> string) option) \<Rightarrow> tool_operator \<Rightarrow> context_assembler \<Rightarrow> 'd \<Rightarrow> string \<Rightarrow> string" where
  "expand_inline_file_tokens D planned oper a d input =
     (if starts_with input ''/'' then
        (case planned (trim input) of
           None \<Rightarrow> input
         | Some (command, args) \<Rightarrow>
             (let expanded_args = expand_inline_tokens_in_text D oper a d args
              in if trim expanded_args = '''' then command else command @ '' '' @ expanded_args))
      else expand_inline_tokens_in_text D oper a d input)"

end
