(* ===== verification/Context_Laws.thy ===== *)
theory Context_Laws
  imports Context_Assembler Task_Store_Laws "HOL-Library.Code_Target_Nat"
begin

text \<open>
  The context of an instruction stays within its limits and names no file twice; what the cache of files answers
  was read under the fingerprint the file has now, and the cache keeps its bounds.
\<close>

section \<open>The cache\<close>

definition cached_bytes :: "(path \<times> context_cache_entry) list \<Rightarrow> nat" where
  "cached_bytes es = sum_list (map (\<lambda>(p, e). length (ce_content e)) es)"

lemma cached_bytes_simps [simp]:
  "cached_bytes [] = 0" "cached_bytes ((p, e) # es) = length (ce_content e) + cached_bytes es"
  by (simp_all add: cached_bytes_def)

lemma delete_absent: "p \<notin> fst ` set es \<Longrightarrow> AList.delete p es = es"
  by (induction es) auto

lemma cached_bytes_delete:
  "distinct (map fst es) \<Longrightarrow> map_of es p = Some e
   \<Longrightarrow> cached_bytes es = length (ce_content e) + cached_bytes (AList.delete p es)"
proof (induction es)
  case (Cons x xs)
  obtain q f where x: "x = (q, f)" by (cases x)
  show ?case
  proof (cases "q = p")
    case True
    then have "AList.delete p xs = xs" using Cons.prems(1) x by (intro delete_absent) simp
    then show ?thesis using True Cons.prems(2) x by simp
  next
    case False
    then show ?thesis using Cons x by simp
  qed
qed simp

lemma cached_bytes_touch:
  "map_of es p = Some e \<Longrightarrow> ce_content e' = ce_content e \<Longrightarrow> cached_bytes (AList.update p e' es) = cached_bytes es"
  by (induction es) auto

lemma update_fresh: "p \<notin> fst ` set es \<Longrightarrow> AList.update p e es = es @ [(p, e)]"
  by (induction es) auto

lemma cached_bytes_append [simp]: "cached_bytes (es @ fs) = cached_bytes es + cached_bytes fs"
  by (simp add: cached_bytes_def)

text \<open>The files of the disks seen so far: a cached content was read under its fingerprint from one of them.\<close>

definition cache_holds :: "'d disk \<Rightarrow> 'd set \<Rightarrow> context_cache \<Rightarrow> bool" where
  "cache_holds D ds c \<longleftrightarrow>
     distinct (map fst (xc_entries c)) \<and> xc_total_bytes c = cached_bytes (xc_entries c)
     \<and> (\<forall>p e. map_of (xc_entries c) p = Some e \<longrightarrow>
          (\<exists>d \<in> ds. dk_fingerprint D d p = Some (ce_fingerprint e) \<and> dk_read_to_string D d p = Inr (ce_content e)))"

definition cache_fits :: "context_cache \<Rightarrow> bool" where
  "cache_fits c \<longleftrightarrow> length (xc_entries c) \<le> MAX_CACHE_ENTRIES \<and> xc_total_bytes c \<le> MAX_CACHE_TOTAL_BYTES"

text \<open>A \<open>String\<close> has at most \<open>isize::MAX\<close> bytes.\<close>

definition strings_fit :: "'d disk \<Rightarrow> 'd set \<Rightarrow> bool" where
  "strings_fit D ds \<longleftrightarrow> (\<forall>d \<in> ds. \<forall>p s. dk_read_to_string D d p = Inr s \<longrightarrow> length s < 2 ^ 63)"

lemma cache_holds_mono: "cache_holds D ds c \<Longrightarrow> ds \<subseteq> ds' \<Longrightarrow> cache_holds D ds' c"
  unfolding cache_holds_def by blast

lemma remove_entry_holds:
  assumes "cache_holds D ds c"
  shows "cache_holds D ds (remove_entry p c)" "p \<notin> fst ` set (xc_entries (remove_entry p c))"
    "length (xc_entries (remove_entry p c)) \<le> length (xc_entries c)"
    "xc_total_bytes (remove_entry p c) \<le> xc_total_bytes c"
    "xc_next_access (remove_entry p c) = xc_next_access c"
proof -
  have d: "distinct (map fst (xc_entries c))" and t: "xc_total_bytes c = cached_bytes (xc_entries c)"
    using assms by (simp_all add: cache_holds_def)
  show "cache_holds D ds (remove_entry p c)"
  proof (cases "map_of (xc_entries c) p")
    case None
    then show ?thesis using assms by (simp add: remove_entry_def)
  next
    case (Some e)
    then show ?thesis
      using assms cached_bytes_delete [OF d Some] distinct_delete [OF d, of p]
      by (auto simp: remove_entry_def cache_holds_def delete_conv' split: if_splits)
  qed
  show "p \<notin> fst ` set (xc_entries (remove_entry p c))"
  proof (cases "map_of (xc_entries c) p")
    case None
    then have "remove_entry p c = c" by (simp add: remove_entry_def)
    moreover have "p \<notin> fst ` set (xc_entries c)" using None by (simp add: map_of_eq_None_iff)
    ultimately show ?thesis by simp
  next
    case (Some e)
    then show ?thesis using AList.delete_notin_dom [of p "xc_entries c"] by (simp add: remove_entry_def)
  qed
  show "length (xc_entries (remove_entry p c)) \<le> length (xc_entries c)"
    "xc_total_bytes (remove_entry p c) \<le> xc_total_bytes c"
    "xc_next_access (remove_entry p c) = xc_next_access c"
    by (auto simp: remove_entry_def length_delete_le split: option.split)
qed

lemma oldest_entry_some: "es \<noteq> [] \<Longrightarrow> \<exists>q a. oldest_entry es = Some (q, a)"
  by (cases es) (auto split: option.splits prod.splits)

lemma evict_to_fit_holds:
  "cache_holds D ds c \<Longrightarrow> cache_holds D ds (evict_to_fit c) \<and> cache_fits (evict_to_fit c)"
proof (induction c rule: evict_to_fit.induct)
  case (1 c)
  show ?case
  proof (cases "length (xc_entries c) > MAX_CACHE_ENTRIES \<or> xc_total_bytes c > MAX_CACHE_TOTAL_BYTES")
    case True
    have "xc_entries c \<noteq> []" using True 1(2) by (auto simp: cache_holds_def)
    then obtain q a where q: "oldest_entry (xc_entries c) = Some (q, a)"
      using oldest_entry_some by blast
    have "evict_to_fit c = evict_to_fit (remove_entry q c)"
      using True q by (simp add: evict_to_fit.simps [of c])
    then show ?thesis using 1(1) [OF True q refl] remove_entry_holds(1) [OF 1(2)] by simp
  next
    case False
    then show ?thesis using 1(2) by (simp add: evict_to_fit.simps [of c] cache_fits_def)
  qed
qed


lemma cache_holds_tick:
  "cache_holds D ds (c\<lparr>xc_next_access := n\<rparr>) = cache_holds D ds c"
  by (simp add: cache_holds_def)

lemma insert_into_cache_holds:
  assumes C: "cache_holds D ds c" and d: "d \<in> ds" "dk_fingerprint D d p = Some fp" "dk_read_to_string D d p = Inr s"
    and room: "xc_total_bytes c + length s < u64_max"
  shows "cache_holds D ds (insert_into_cache p fp s c)" "cache_fits (insert_into_cache p fp s c)"
proof -
  let ?c = "remove_entry p c"
  let ?e = "\<lparr>ce_content = s, ce_fingerprint = fp, ce_last_access = sat_add (xc_next_access ?c) 1\<rparr>"
  let ?new = "?c\<lparr>xc_next_access := sat_add (xc_next_access ?c) 1,
                 xc_total_bytes := sat_add (xc_total_bytes ?c) (length s),
                 xc_entries := AList.update p ?e (xc_entries ?c)\<rparr>"
  note R = remove_entry_holds [OF C, of p]
  have fits: "sat_add (xc_total_bytes ?c) (length s) = xc_total_bytes ?c + length s"
    using R(4) room by (simp add: sat_add_def)
  have "cache_holds D ds ?new"
    using R(1,2) d fits
    by (auto simp: cache_holds_def update_fresh map_of_append map_add_Some_iff)
  from evict_to_fit_holds [OF this]
  show "cache_holds D ds (insert_into_cache p fp s c)" "cache_fits (insert_into_cache p fp s c)"
    by (simp_all add: insert_into_cache_def next_access_tick_def Let_def)
qed

lemma try_read_holds:
  assumes C: "cache_holds D ds c" and F: "cache_fits c"
  shows "case try_read_from_cache p fp c of (r, c1) \<Rightarrow>
           cache_holds D ds c1 \<and> cache_fits c1
           \<and> (\<forall>s. r = Some s \<longrightarrow> (\<exists>d \<in> ds. dk_fingerprint D d p = Some fp \<and> dk_read_to_string D d p = Inr s))"
proof (cases "map_of (xc_entries c) p")
  case None
  then show ?thesis using C F by (simp add: try_read_from_cache_def)
next
  case (Some e)
  obtain d' where d': "d' \<in> ds" "dk_fingerprint D d' p = Some (ce_fingerprint e)"
      "dk_read_to_string D d' p = Inr (ce_content e)"
    using C Some unfolding cache_holds_def by blast
  show ?thesis
  proof (cases "ce_fingerprint e = fp")
    case True
    let ?e = "e\<lparr>ce_last_access := sat_add (xc_next_access c) 1\<rparr>"
    have "cached_bytes (AList.update p ?e (xc_entries c)) = cached_bytes (xc_entries c)"
      by (rule cached_bytes_touch [OF Some]) simp
    moreover have "length (AList.update p ?e (xc_entries c)) = length (xc_entries c)"
      by (rule length_update_known [OF Some])
    ultimately show ?thesis
      using C F Some True d'
      by (auto simp: try_read_from_cache_def next_access_tick_def Let_def cache_holds_def cache_fits_def
          distinct_update update_conv' split: if_splits)
  next
    case False
    then show ?thesis
      using Some F remove_entry_holds [OF C, of p]
      by (auto simp: try_read_from_cache_def cache_fits_def)
  qed
qed

lemma room_for_string: "cache_fits c \<Longrightarrow> length s < 2 ^ 63 \<Longrightarrow> xc_total_bytes c + length s < u64_max"
  by (simp add: cache_fits_def MAX_CACHE_TOTAL_BYTES_def u64_max_def)

definition plain_content :: "string + cached_file_read \<Rightarrow> string + string" where
  "plain_content r = (case r of Inl e \<Rightarrow> Inl e | Inr x \<Rightarrow> Inr (cr_content x))"

text \<open>What a read on the disk \<open>d\<close> may answer after reads on the disks \<open>ds\<close>: what the file says, or what it said when
  it last had, on one of these disks, the fingerprint it has now.\<close>

definition recent_answer ::
  "'d disk \<Rightarrow> tool_operator \<Rightarrow> 'd set \<Rightarrow> 'd \<Rightarrow> string \<Rightarrow> string + string \<Rightarrow> bool" where
  "recent_answer D oper ds d p r \<longleftrightarrow>
     r = read_file D oper p d
     \<or> (\<exists>q fp s. existing_path D oper p d = Inr (Some q) \<and> dk_fingerprint D d q = Some fp
          \<and> fp_len fp \<le> MAX_CACHE_FILE_BYTES \<and> r = Inr s
          \<and> (\<exists>d' \<in> ds. dk_fingerprint D d' q = Some fp \<and> dk_read_to_string D d' q = Inr s))"

lemma read_file_of_existing:
  "existing_path D oper p d = Inr (Some q) \<Longrightarrow> read_file D oper p d = Inr s \<Longrightarrow> dk_read_to_string D d q = Inr s"
  by (auto simp: existing_path_def read_file_def split: sum.splits if_splits)

lemma read_cached_file_holds:
  assumes C: "cache_holds D ds c" and F: "cache_fits c" and sizes: "strings_fit D {d}"
  shows "case read_cached_file D oper p d c of (r, c1) \<Rightarrow>
           cache_holds D (insert d ds) c1 \<and> cache_fits c1 \<and> recent_answer D oper ds d p (plain_content r)"
proof (cases "existing_path D oper p d")
  case (Inl e)
  then have "plain_content (Inl e) = read_file D oper p d"
    by (simp add: existing_path_def read_file_def plain_content_def split: sum.splits)
  with Inl C F show ?thesis
    by (auto simp: read_cached_file_def recent_answer_def intro: cache_holds_mono)
next
  case (Inr known)
  have C': "cache_holds D (insert d ds) c" using C by (rule cache_holds_mono) blast
  have direct: "recent_answer D oper ds d p (plain_content
      (case read_file D oper p d of Inl e \<Rightarrow> Inl e | Inr s \<Rightarrow> Inr \<lparr>cr_content = s, cr_cache_hit = False\<rparr>))"
    by (simp add: recent_answer_def plain_content_def split: sum.split)
  show ?thesis
  proof (cases "\<exists>q fp. known = Some q \<and> \<not> dk_is_dir D d q \<and> dk_fingerprint D d q = Some fp \<and> fp_len fp \<le> MAX_CACHE_FILE_BYTES")
    case False
    then show ?thesis
      using C' F Inr direct by (auto simp: read_cached_file_def Let_def not_le split: option.split)
  next
    case True
    then obtain q fp where q: "known = Some q" "\<not> dk_is_dir D d q" and fp: "dk_fingerprint D d q = Some fp"
      "fp_len fp \<le> MAX_CACHE_FILE_BYTES" by blast
    obtain r c1 where t: "try_read_from_cache q fp c = (r, c1)" by (cases "try_read_from_cache q fp c")
    have T: "cache_holds D ds c1" "cache_fits c1"
      "\<forall>s. r = Some s \<longrightarrow> (\<exists>d' \<in> ds. dk_fingerprint D d' q = Some fp \<and> dk_read_to_string D d' q = Inr s)"
      using try_read_holds [OF C F, of q fp] t by auto
    have T': "cache_holds D (insert d ds) c1" using T(1) by (rule cache_holds_mono) blast
    show ?thesis
    proof (cases r)
      case (Some s)
      then show ?thesis
        using T T' t q fp Inr by (simp add: read_cached_file_def plain_content_def Let_def recent_answer_def)
    next
      case None
      show ?thesis
      proof (cases "read_file D oper p d")
        case (Inl e)
        then show ?thesis
          using None T(2) T' t q fp Inr by (simp add: read_cached_file_def plain_content_def Let_def recent_answer_def)
      next
        case content: (Inr s)
        have s: "dk_read_to_string D d q = Inr s" using read_file_of_existing content Inr q(1) by metis
        then have "length s < 2 ^ 63" using sizes by (auto simp: strings_fit_def)
        from insert_into_cache_holds [OF T' _ fp(1) s room_for_string [OF T(2) this]]
        show ?thesis
          using None content t q fp Inr by (simp add: read_cached_file_def plain_content_def Let_def recent_answer_def)
      qed
    qed
  qed
qed

fun cached_reads ::
  "'d disk \<Rightarrow> tool_operator \<Rightarrow> ('d \<times> string) list \<Rightarrow> context_cache \<Rightarrow> (string + string) list \<times> context_cache" where
  "cached_reads D oper [] c = ([], c)"
| "cached_reads D oper ((d, p) # rest) c =
     (case read_cached_file D oper p d c of (r, c1) \<Rightarrow>
        case cached_reads D oper rest c1 of (rs, c2) \<Rightarrow> (plain_content r # rs, c2))"

text \<open>Each answer against the disks of the reads before it.\<close>

fun recent_answers ::
  "'d disk \<Rightarrow> tool_operator \<Rightarrow> 'd set \<Rightarrow> ('d \<times> string) list \<Rightarrow> (string + string) list \<Rightarrow> bool" where
  "recent_answers D oper ds [] rs \<longleftrightarrow> rs = []"
| "recent_answers D oper ds ((d, p) # rest) rs \<longleftrightarrow>
     (\<exists>r rs'. rs = r # rs' \<and> recent_answer D oper ds d p r \<and> recent_answers D oper (insert d ds) rest rs')"

lemma cached_reads_hold:
  "cache_holds D ds c \<Longrightarrow> cache_fits c \<Longrightarrow> strings_fit D (fst ` set reads)
   \<Longrightarrow> recent_answers D oper ds reads (fst (cached_reads D oper reads c))
       \<and> (\<exists>ds'. cache_holds D ds' (snd (cached_reads D oper reads c))) \<and> cache_fits (snd (cached_reads D oper reads c))"
proof (induction reads arbitrary: c ds)
  case Nil
  then show ?case by auto
next
  case (Cons x xs)
  obtain d p where x: "x = (d, p)" by (cases x)
  have sizes: "strings_fit D {d}" "strings_fit D (fst ` set xs)"
    using Cons.prems(3) by (auto simp: strings_fit_def x)
  obtain r c1 where r: "read_cached_file D oper p d c = (r, c1)" by (cases "read_cached_file D oper p d c")
  have step: "cache_holds D (insert d ds) c1" "cache_fits c1" "recent_answer D oper ds d p (plain_content r)"
    using read_cached_file_holds [OF Cons.prems(1,2) sizes(1), of oper p] r by auto
  show ?case
    using Cons.IH [OF step(1,2) sizes(2)] step(3) by (simp add: x r case_prod_unfold)
qed

text \<open>C37 [cached_reads_are_recent]. Over any sequence of reads through the cache of files, on disks that change in
  between, each answer, errors and the path guard included, is what reading the file answers now, or it is what the file
  said on the disk of an earlier read on which it had the fingerprint (length and modification time) it has now:
  the cache is as fresh as fingerprints are, and no fresher. It never holds more than 64 files or 2 MiB. A string has less
  than 2^63 bytes, as everywhere in Rust.\<close>

theorem cached_reads_are_recent:
  assumes "strings_fit D (fst ` set reads)"
  shows "recent_answers D oper {} reads (fst (cached_reads D oper reads context_cache_default))
         \<and> length (xc_entries (snd (cached_reads D oper reads context_cache_default))) \<le> MAX_CACHE_ENTRIES
         \<and> cached_bytes (xc_entries (snd (cached_reads D oper reads context_cache_default))) \<le> MAX_CACHE_TOTAL_BYTES"
proof -
  have start: "cache_holds D {} context_cache_default" "cache_fits context_cache_default"
    by (simp_all add: cache_holds_def cache_fits_def context_cache_default_def)
  show ?thesis
    using cached_reads_hold [OF start assms, of oper] by (auto simp: cache_holds_def cache_fits_def)
qed

text \<open>A write that keeps the length, within the grain of the modification time, does show: the old content is answered.\<close>

lemma same_fingerprint_answers_old:
  "fst (cached_reads (demo_disk (\<lambda>p. p)) demo_operator
     [([(demo_root @ [Normal ''a''], ''x'')], ''a''), ([(demo_root @ [Normal ''a''], ''y'')], ''a'')] context_cache_default)
   = [Inr ''x'', Inr ''x'']"
  by code_simp

section \<open>The files of the context\<close>

definition assembly_ok :: "context_assembler \<Rightarrow> assembly \<Rightarrow> bool" where
  "assembly_ok a st \<longleftrightarrow>
     distinct (map fr_path (as_rollups st)) \<and> fr_path ` set (as_rollups st) \<subseteq> set (as_seen st)
     \<and> length (as_related st) \<le> as_max_related a
     \<and> (\<forall>r \<in> set (as_rollups st). \<forall>s. fr_content r = Some s \<longrightarrow> length s \<le> as_max_file_bytes a)
     \<and> as_hits st + as_misses st = length (filter (\<lambda>r. fr_content r \<noteq> None) (as_rollups st))"

lemma head_bounded: "truncate_head_bytes s n = (t, limited) \<Longrightarrow> length t \<le> n"
  using char_start_at_most_le [of s n] by (auto simp: truncate_head_bytes_def split: if_splits)

lemma rollup_from_read_ok:
  "rollup_from_read p r n = (snapshot, hit) \<Longrightarrow>
     fr_path snapshot = p \<and> (\<forall>s. fr_content snapshot = Some s \<longrightarrow> length s \<le> n)
     \<and> (hit \<longrightarrow> fr_content snapshot \<noteq> None)"
  by (auto simp: rollup_from_read_def split: sum.splits prod.splits dest: head_bounded)

lemma add_rollup_ok:
  assumes ok: "assembly_ok a st" and fresh: "p \<notin> set (as_seen st)"
    and r: "rollup_from_read p r (as_max_file_bytes a) = (snapshot, hit)"
  shows "assembly_ok a (add_rollup (snapshot, hit) c (st\<lparr>as_seen := p # as_seen st\<rparr>))"
proof -
  note R = rollup_from_read_ok [OF r]
  have "p \<notin> fr_path ` set (as_rollups st)" using ok fresh by (auto simp: assembly_ok_def)
  then show ?thesis
    using ok R by (auto simp: assembly_ok_def add_rollup_def)
qed

lemma add_named_ok: "assembly_ok a st \<Longrightarrow> assembly_ok a (add_named D oper (as_max_file_bytes a) d candidate st)"
proof -
  assume ok: "assembly_ok a st"
  obtain r c where rc: "read_cached_file D oper candidate d (as_cache st) = (r, c)"
    by (cases "read_cached_file D oper candidate d (as_cache st)")
  obtain snapshot hit where sh: "rollup_from_read (components candidate) r (as_max_file_bytes a) = (snapshot, hit)"
    by (cases "rollup_from_read (components candidate) r (as_max_file_bytes a)")
  show ?thesis
    using ok add_rollup_ok [OF ok _ sh, of c] by (simp add: add_named_def rc sh Let_def)
qed

lemma add_related_ok: "assembly_ok a st \<Longrightarrow> assembly_ok a (add_related D oper a d p st)"
proof -
  assume ok: "assembly_ok a st"
  obtain r c where rc: "read_cached_file D oper (candidate_text p) d (as_cache st) = (r, c)"
    by (cases "read_cached_file D oper (candidate_text p) d (as_cache st)")
  show ?thesis
  proof (cases "length (as_related st) \<ge> as_max_related a \<or> p \<in> set (as_seen st)")
    case True
    then show ?thesis using ok by (simp add: add_related_def)
  next
    case False
    show ?thesis
    proof (cases r)
      case (Inl e)
      then show ?thesis
        using ok False rc by (auto simp: add_related_def assembly_ok_def Let_def)
    next
      case (Inr x)
      obtain snapshot hit where sh: "rollup_from_read p (Inr x) (as_max_file_bytes a) = (snapshot, hit)"
        by (cases "rollup_from_read p (Inr x) (as_max_file_bytes a)")
      have "assembly_ok a (add_rollup (snapshot, hit) c (st\<lparr>as_seen := p # as_seen st\<rparr>))"
        using add_rollup_ok [OF ok _ sh] False by simp
      then show ?thesis
        using False rc Inr sh by (simp add: add_related_def assembly_ok_def Let_def add_rollup_def)
    qed
  qed
qed

lemma fold_keeps: "(\<And>x st. P st \<Longrightarrow> P (f x st)) \<Longrightarrow> P st \<Longrightarrow> P (fold f xs st)"
  by (induction xs arbitrary: st) auto

text \<open>C38 [context_within_limits]. The files of an assembled context are each named once, at most \<open>max_related\<close> of them were only
  referred to, none shows more than \<open>max_file_bytes\<close> bytes, and every file that could be read counts once as a
  hit or a miss of the cache.\<close>

theorem context_within_limits:
  "assembly_ok a (gather_files D oper a d instruction c)"
proof -
  let ?start = "\<lparr>as_rollups = [], as_related = [], as_seen = [], as_hits = 0, as_misses = 0, as_cache = c\<rparr>"
  have "assembly_ok a ?start" by (simp add: assembly_ok_def)
  then have named: "assembly_ok a (fold (add_named D oper (as_max_file_bytes a) d) (extract_candidate_paths instruction) ?start)"
    by (rule fold_keeps [rotated]) (rule add_named_ok)
  have related: "assembly_ok a (add_related_of D oper a d r st)" if "assembly_ok a st" for r st
    using that by (cases "fr_content r") (auto simp: add_related_of_def intro!: fold_keeps [where P = "assembly_ok a"] add_related_ok)
  show ?thesis
    unfolding gather_files_def Let_def
    by (rule fold_keeps [where P = "assembly_ok a", OF related named])
qed

section \<open>What gets lost\<close>

text \<open>The output of git is trimmed as a whole: the first line of a status loses its leading blank, no longer has the form
  of a status line, and is dropped.\<close>

lemma first_status_line_lost:
  "run_git_command_blocking (Git_exited True ('' M a.rs'' @ [newline]) '''')
   = Inr (no_git_result\<lparr>gc_output := Some ''M a.rs''\<rparr>)"
  "parse_git_status ''M a.rs'' = []"
  by code_simp+

text \<open>Dots are trimmed from the ends of a word before its path is taken.\<close>

lemma dot_directory_missed: "extract_candidate_paths ''.github/ci.yml'' = [''github/ci.yml'']"
  by code_simp

section \<open>An example\<close>

definition sample_reads :: "(files \<times> string) list" where
  "sample_reads =
     [([([RootDir, Normal ''w'', Normal ''a''], ''x'')], ''a''), ([([RootDir, Normal ''w'', Normal ''a''], ''x'')], ''a''),
      ([([RootDir, Normal ''w'', Normal ''a''], ''yy'')], ''a'')]"

theorem cached_reads_are_recent_witness:
  "recent_answers (demo_disk (\<lambda>p. p)) demo_operator {} sample_reads
     (fst (cached_reads (demo_disk (\<lambda>p. p)) demo_operator sample_reads context_cache_default))"
proof -
  have "strings_fit (demo_disk (\<lambda>p. p)) (fst ` set sample_reads)"
    by (auto simp: strings_fit_def sample_reads_def demo_disk_def split: option.splits if_splits)
  from cached_reads_are_recent [OF this] show ?thesis by simp
qed

end
