(* ===== verification/Workspace_Walk.thy ===== *)
theory Workspace_Walk
  imports Tool_Calls Context_Assembler
begin

text \<open>
  The tools that look through the files of the workspace (\<open>src/tools/operator/core.rs\<close>,
  \<open>src/tools/operator/search.rs\<close>, \<open>src/tools/workspace_explore.rs\<close>, part of \<open>src/tools/search.rs\<close>): the walk that
  lists the visible files, with an explicit stack, and the searches over its result. The rules of \<open>.gitignore\<close>,
  globs, regular expressions, the literal matcher and the Unicode tables are parameters. The walk follows
  symbolic links, so it may not end; then it is \<open>None\<close>.
\<close>

record 'd search_env =
  sx_disk :: "'d disk"
  sx_ignore :: "'d \<Rightarrow> path \<Rightarrow> string \<Rightarrow> bool \<Rightarrow> bool" \<comment> \<open>the rules at a root: a relative path, whether it is a directory\<close>
  sx_literal :: "bool \<Rightarrow> string \<Rightarrow> string \<Rightarrow> bool" \<comment> \<open>ignoring ASCII case, the literal, the line\<close>
  sx_uppercase :: "string \<Rightarrow> bool"
  sx_lower :: "string \<Rightarrow> string"
  sx_glob :: "string \<Rightarrow> (string \<Rightarrow> bool) option"
  sx_debug :: "string \<Rightarrow> string" \<comment> \<open>the quoted form of a string in an error\<close>
  sx_escape :: "string \<Rightarrow> string"
  sx_bytes :: "'d \<Rightarrow> path \<Rightarrow> string option"
  sx_grep :: "string \<Rightarrow> 'd \<Rightarrow> path \<Rightarrow> (nat \<times> string) list option" \<comment> \<open>the pattern, the file: numbered lines\<close>
  sx_diff :: "path \<Rightarrow> path \<Rightarrow> path option"

section \<open>The order of paths\<close>

definition byte_key :: "string \<Rightarrow> nat list" where
  "byte_key s = map byte_val s"

fun component_key :: "component \<Rightarrow> nat list" where
  "component_key RootDir = [0]"
| "component_key CurDir = [1]"
| "component_key ParentDir = [2]"
| "component_key (Normal s) = 3 # byte_key s"

definition path_key :: "path \<Rightarrow> nat list list" where
  "path_key p = map component_key p"

section \<open>The walk\<close>

definition within_workspace :: "'d disk \<Rightarrow> 'd \<Rightarrow> tool_operator \<Rightarrow> path \<Rightarrow> bool" where
  "within_workspace D d oper p \<longleftrightarrow> \<not> isl (ensure_path_is_within_workspace D d oper p)"

definition walk_relative :: "tool_operator \<Rightarrow> path \<Rightarrow> string" where
  "walk_relative oper p =
     (case strip_path_prefix (op_working_dir oper) p of Some rel \<Rightarrow> path_to_repo_relative_string rel | None \<Rightarrow> '''')"

definition walk_skips :: "'d disk \<Rightarrow> 'd \<Rightarrow> tool_operator \<Rightarrow> (string \<Rightarrow> bool \<Rightarrow> bool) \<Rightarrow> path \<Rightarrow> bool" where
  "walk_skips D d oper ignored p \<longleftrightarrow>
     \<not> within_workspace D d oper p
     \<or> (walk_relative oper p \<noteq> '''' \<and> ignored (walk_relative oper p) (dk_is_dir D d p))"

text \<open>The entries of a directory that are pushed, in their order.\<close>

definition walk_entries :: "'d disk \<Rightarrow> 'd \<Rightarrow> tool_operator \<Rightarrow> path \<Rightarrow> string + path list" where
  "walk_entries D d oper p =
     (case dk_read_dir D d p of
        Read_dir_failed \<Rightarrow> Inl (''Failed to read directory '' @ display_path p)
      | Iteration_failed \<Rightarrow> Inl (''Failed to list entries in '' @ display_path p)
      | Dir_entries entries \<Rightarrow>
          Inr (filter (within_workspace D d oper)
                 (sort_key path_key (map (\<lambda>(name, is_dir). join p [Normal name]) entries))))"

partial_function (option) walk_loop ::
  "'d disk \<Rightarrow> 'd \<Rightarrow> tool_operator \<Rightarrow> (string \<Rightarrow> bool \<Rightarrow> bool) \<Rightarrow> path list \<Rightarrow> path list \<Rightarrow> (string + path list) option" where
  "walk_loop D d oper ignored stack files =
     (case stack of
        [] \<Rightarrow> Some (Inr files)
      | p # rest \<Rightarrow>
          if walk_skips D d oper ignored p then walk_loop D d oper ignored rest files
          else if dk_is_dir D d p then
            (case walk_entries D d oper p of
               Inl e \<Rightarrow> Some (Inl e)
             | Inr entries \<Rightarrow> walk_loop D d oper ignored (rev entries @ rest) files)
          else walk_loop D d oper ignored rest (files @ [p]))"

declare walk_loop.simps [code]

definition walk_workspace_files_ignoring ::
  "'d disk \<Rightarrow> tool_operator \<Rightarrow> (string \<Rightarrow> bool \<Rightarrow> bool) \<Rightarrow> path \<Rightarrow> 'd \<Rightarrow> (string + path list) option" where
  "walk_workspace_files_ignoring D oper ignored root d = walk_loop D d oper ignored [root] []"

definition walk_workspace_files ::
  "'d search_env \<Rightarrow> tool_operator \<Rightarrow> path \<Rightarrow> 'd \<Rightarrow> (string + path list) option" where
  "walk_workspace_files S oper root d =
     walk_workspace_files_ignoring (sx_disk S) oper (sx_ignore S d (op_working_dir oper)) root d"

section \<open>The literal search\<close>

definition is_ascii :: "string \<Rightarrow> bool" where
  "is_ascii s \<longleftrightarrow> list_all (\<lambda>c. byte_val c < 128) s"

definition case_sensitive :: "'d search_env \<Rightarrow> string \<Rightarrow> bool" where
  "case_sensitive S needle \<longleftrightarrow> list_ex (sx_uppercase S) (utf8_chars needle)"

definition line_matches_literal_query :: "'d search_env \<Rightarrow> string \<Rightarrow> string \<Rightarrow> bool" where
  "line_matches_literal_query S needle l =
     (if \<not> case_sensitive S needle \<and> \<not> is_ascii needle then contains (sx_lower S l) (sx_lower S needle)
      else sx_literal S (\<not> case_sensitive S needle) needle l)"

definition match_line :: "tool_operator \<Rightarrow> path \<Rightarrow> nat \<Rightarrow> string \<Rightarrow> string" where
  "match_line oper p i l = to_workspace_relative_display oper p @ '':'' @ nat_dec (i + 1) @ '':'' @ l"

text \<open>The lines of one file; the loop is left when the bound is reached.\<close>

fun search_lines ::
  "'d search_env \<Rightarrow> tool_operator \<Rightarrow> string \<Rightarrow> nat \<Rightarrow> path \<Rightarrow> nat \<Rightarrow> string list \<Rightarrow> string list \<Rightarrow> string list" where
  "search_lines S oper needle cap p i [] results = results"
| "search_lines S oper needle cap p i (l # ls) results =
     (if line_matches_literal_query S needle l then
        (let found = results @ [match_line oper p i l]
         in if length found \<ge> cap then found else search_lines S oper needle cap p (i + 1) ls found)
      else search_lines S oper needle cap p (i + 1) ls results)"

fun search_each ::
  "'d search_env \<Rightarrow> tool_operator \<Rightarrow> string \<Rightarrow> nat \<Rightarrow> 'd \<Rightarrow> path list \<Rightarrow> string list \<Rightarrow> string list" where
  "search_each S oper needle cap d [] results = results"
| "search_each S oper needle cap d (p # ps) results =
     (case dk_read_to_string (sx_disk S) d p of
        Inl e \<Rightarrow> search_each S oper needle cap d ps results
      | Inr content \<Rightarrow>
          (let found = search_lines S oper needle cap p 0 (str_lines content) results
           in if length found \<ge> cap then found else search_each S oper needle cap d ps found))"

definition search_literal ::
  "'d search_env \<Rightarrow> tool_operator \<Rightarrow> string \<Rightarrow> path \<Rightarrow> nat \<Rightarrow> 'd \<Rightarrow> (string + string) option" where
  "search_literal S oper needle root max_results d =
     map_option (\<lambda>walked. case walked of
         Inl e \<Rightarrow> Inl e
       | Inr files \<Rightarrow>
           (let results = search_each S oper needle max_results d files []
            in Inr (if results = [] then ''No matches found.'' else join_with [newline] results)))
       (walk_workspace_files S oper root d)"

definition search_files_tool ::
  "'d search_env \<Rightarrow> tool_operator \<Rightarrow> string \<Rightarrow> string option \<Rightarrow> nat \<Rightarrow> 'd \<Rightarrow> (string + string) option" where
  "search_files_tool S oper query_text p max_results d =
     (case non_empty_trimmed query_text of
        None \<Rightarrow> Some (Inl (''search_files requires a non-empty '' @ [CHR 0x27] @ ''query'' @ [CHR 0x27] @ '' field''))
      | Some needle \<Rightarrow>
          (case resolve_optional_path (sx_disk S) d oper p of
             Inl e \<Rightarrow> Some (Inl e)
           | Inr root \<Rightarrow> search_literal S oper needle root (clamp_usize 1 200 max_results) d))"

section \<open>Globs\<close>

record glob_matcher =
  gm_matcher :: "string \<Rightarrow> bool"
  gm_match_basename :: bool
  gm_requires_path_separator :: bool

definition compile_workspace_glob :: "'d search_env \<Rightarrow> string \<Rightarrow> glob_matcher option" where
  "compile_workspace_glob S pattern =
     map_option (\<lambda>g. \<lparr>gm_matcher = g, gm_match_basename = CHR ''/'' \<notin> set pattern,
                     gm_requires_path_separator = CHR ''/'' \<in> set pattern\<rparr>) (sx_glob S pattern)"

definition glob_matches :: "glob_matcher \<Rightarrow> string \<Rightarrow> bool" where
  "glob_matches g p =
     (if gm_requires_path_separator g \<and> CHR ''/'' \<notin> set p then False
      else gm_matcher g p \<or> (gm_match_basename g \<and> gm_matcher g (last (split_char CHR ''/'' p))))"

definition LIST_DIR_MAX :: nat where
  "LIST_DIR_MAX = 500"

definition GLOB_FILES_MAX :: nat where
  "GLOB_FILES_MAX = 200"

definition limited_note :: "nat \<Rightarrow> nat \<Rightarrow> string \<Rightarrow> string" where
  "limited_note shown all what =
     [newline] @ ''[results limited to first '' @ nat_dec shown @ '' of '' @ nat_dec all @ '' '' @ what @ '']''"

text \<open>The loop of \<open>list_dir\<close> over the sorted entries.\<close>

fun list_dir_entries ::
  "'d search_env \<Rightarrow> tool_operator \<Rightarrow> 'd \<Rightarrow> path \<Rightarrow> nat \<Rightarrow> (string \<times> bool option) list \<Rightarrow> string list \<Rightarrow> string + string list" where
  "list_dir_entries S oper d root cap [] out = Inr out"
| "list_dir_entries S oper d root cap ((name, kind) # es) out =
     (let p = join root [Normal name]
      in case kind of
           None \<Rightarrow> Inl (''list_dir: failed to inspect '' @ [CHR 0x27] @ display_path p @ [CHR 0x27])
         | Some is_dir \<Rightarrow>
             if root = op_working_dir oper \<and> starts_with name ''.'' then list_dir_entries S oper d root cap es out
             else if \<not> within_workspace (sx_disk S) d oper p then list_dir_entries S oper d root cap es out
             else if walk_relative oper p \<noteq> ''''
                     \<and> sx_ignore S d (op_working_dir oper) (walk_relative oper p) is_dir
             then list_dir_entries S oper d root cap es out
             else
               (let shown = out @ [to_workspace_relative_display oper p @ (if is_dir then ''/'' else '''')]
                in if length shown \<ge> cap then Inr shown else list_dir_entries S oper d root cap es shown))"

definition list_dir :: "'d search_env \<Rightarrow> tool_operator \<Rightarrow> string option \<Rightarrow> nat \<Rightarrow> 'd \<Rightarrow> string + string" where
  "list_dir S oper p max_entries d =
     (case resolve_optional_path (sx_disk S) d oper p of
        Inl e \<Rightarrow> Inl ''list_dir: invalid path''
      | Inr root \<Rightarrow>
          if \<not> dk_is_dir (sx_disk S) d root then Inr (''(not a directory: '' @ display_path root @ '')'')
          else
            (let cap = clamp_usize 1 LIST_DIR_MAX max_entries
             in case dk_read_dir (sx_disk S) d root of
                  Read_dir_failed \<Rightarrow> Inl (''list_dir: failed to read '' @ [CHR 0x27] @ display_path root @ [CHR 0x27])
                | Iteration_failed \<Rightarrow> Inl (''list_dir: error iterating '' @ [CHR 0x27] @ display_path root @ [CHR 0x27])
                | Dir_entries raw \<Rightarrow>
                    (case list_dir_entries S oper d root cap
                            (sort_key (\<lambda>(name, kind). path_key (join root [Normal name])) raw) [] of
                       Inl e \<Rightarrow> Inl e
                     | Inr entries \<Rightarrow>
                         Inr (if entries = [] then ''(empty directory)''
                              else join_with [newline] entries
                                   @ (if length entries \<ge> cap \<and> length raw > cap
                                      then limited_note cap (length raw) ''entries'' else '''')))))"

definition make_relative :: "'d search_env \<Rightarrow> path \<Rightarrow> path \<Rightarrow> path" where
  "make_relative S workspace absolute =
     (case sx_diff S absolute workspace of Some rel \<Rightarrow> rel | None \<Rightarrow> absolute)"

definition glob_files :: "'d search_env \<Rightarrow> tool_operator \<Rightarrow> string \<Rightarrow> nat \<Rightarrow> 'd \<Rightarrow> (string + string) option" where
  "glob_files S oper pattern0 max_results d =
     (let pattern = trim pattern0; cap = clamp_usize 1 GLOB_FILES_MAX max_results
      in if pattern = '''' then Some (Inr ''(glob_files requires a non-empty pattern)'')
         else case compile_workspace_glob S pattern of
                None \<Rightarrow> Some (Inr ''(no files found)'')
              | Some g \<Rightarrow>
                  map_option (\<lambda>walked. case walked of
                      Inl e \<Rightarrow> Inl ''glob_files: failed to walk workspace''
                    | Inr files \<Rightarrow>
                        (let matched = sort_key byte_key (filter (glob_matches g)
                               (map (\<lambda>p. path_to_repo_relative_string (make_relative S (op_working_dir oper) p)) files))
                         in Inr (if matched = [] then ''(no files found)''
                                 else join_with [newline] (take cap matched)
                                      @ (if length matched > cap then limited_note cap (length matched) ''matches''
                                         else ''''))))
                    (walk_workspace_files S oper (op_working_dir oper) d))"

section \<open>The search with a regular expression\<close>

record search_match =
  sm_file :: path
  sm_line_number :: nat
  sm_line_text :: string

definition is_binary_content :: "string \<Rightarrow> bool" where
  "is_binary_content bytes \<longleftrightarrow> CHR 0x00 \<in> set (take 8192 bytes)"

definition grep_search_file :: "'d search_env \<Rightarrow> string \<Rightarrow> 'd \<Rightarrow> path \<Rightarrow> (nat \<times> string) list" where
  "grep_search_file S pattern d p =
     (case sx_grep S pattern d p of
        None \<Rightarrow> []
      | Some found \<Rightarrow> map (\<lambda>(n, l). (n, trim_end_char newline l)) found)"

text \<open>The files are searched in parallel; the caller sorts what it receives, so the order here is that of
  the files.\<close>

definition parallel_search_files :: "'d search_env \<Rightarrow> path list \<Rightarrow> string \<Rightarrow> 'd \<Rightarrow> search_match list" where
  "parallel_search_files S files pattern d =
     concat (map (\<lambda>p. case sx_bytes S d p of
         None \<Rightarrow> []
       | Some bytes \<Rightarrow>
           if is_binary_content bytes then []
           else map (\<lambda>(n, l). \<lparr>sm_file = p, sm_line_number = n, sm_line_text = l\<rparr>) (grep_search_file S pattern d p))
       files)"

definition relative_candidate :: "tool_operator \<Rightarrow> path \<Rightarrow> string" where
  "relative_candidate oper p =
     (case strip_path_prefix (op_working_dir oper) p of
        Some rel \<Rightarrow> path_to_repo_relative_string rel
      | None \<Rightarrow> path_to_repo_relative_string [])"

definition search_pattern :: "'d search_env \<Rightarrow> string \<Rightarrow> string" where
  "search_pattern S needle =
     (if case_sensitive S needle then sx_escape S needle else ''(?i)'' @ sx_escape S needle)"

definition search_content ::
  "'d search_env \<Rightarrow> tool_operator \<Rightarrow> string \<Rightarrow> string option \<Rightarrow> 'd \<Rightarrow> (string + search_match list) option" where
  "search_content S oper query_text path_glob d =
     (case non_empty_trimmed query_text of
        None \<Rightarrow> Some (Inl (''search_content requires a non-empty '' @ [CHR 0x27] @ ''query'' @ [CHR 0x27] @ '' field''))
      | Some needle \<Rightarrow>
          (case (case Option.bind path_glob non_empty_trimmed of
                   None \<Rightarrow> Inr (\<lambda>_. True)
                 | Some pattern \<Rightarrow>
                     (case compile_workspace_glob S pattern of
                        Some g \<Rightarrow> Inr (glob_matches g)
                      | None \<Rightarrow> Inl (''invalid path_glob pattern: '' @ sx_debug S pattern))) of
             Inl e \<Rightarrow> Some (Inl e)
           | Inr wanted \<Rightarrow>
               map_option (\<lambda>walked. case walked of
                   Inl e \<Rightarrow> Inl e
                 | Inr files \<Rightarrow>
                     Inr (sort_key (\<lambda>m. path_key (sm_file m)) (sort_key sm_line_number
                       (parallel_search_files S (filter (wanted \<circ> relative_candidate oper) files)
                          (search_pattern S needle) d))))
                 (walk_workspace_files S oper (op_working_dir oper) d)))"

definition find_files :: "'d search_env \<Rightarrow> tool_operator \<Rightarrow> string \<Rightarrow> 'd \<Rightarrow> (string + path list) option" where
  "find_files S oper name_glob d =
     (case non_empty_trimmed name_glob of
        None \<Rightarrow> Some (Inl (''find_files requires a non-empty '' @ [CHR 0x27] @ ''name_glob'' @ [CHR 0x27] @ '' field''))
      | Some pattern \<Rightarrow>
          (case compile_workspace_glob S pattern of
             None \<Rightarrow> Some (Inl (''invalid name_glob pattern: '' @ sx_debug S pattern))
           | Some g \<Rightarrow>
               map_option (map_sum (\<lambda>e. e) (sort_key path_key \<circ> filter (glob_matches g \<circ> relative_candidate oper)))
                 (walk_workspace_files S oper (op_working_dir oper) d)))"

section \<open>The tools of the model\<close>

definition show_match :: "tool_operator \<Rightarrow> search_match \<Rightarrow> string" where
  "show_match oper m =
     to_workspace_relative_display oper (sm_file m) @ '':'' @ nat_dec (sm_line_number m) @ '': '' @ sm_line_text m"

definition or_default :: "'a \<Rightarrow> 'a option \<Rightarrow> 'a" where
  "or_default dflt x = (case x of Some v \<Rightarrow> v | None \<Rightarrow> dflt)"

text \<open>The branches of \<open>call_tool_routing_with_config\<close> for these tools; \<open>codebase\<close> is the one for
  \<open>codebase_search\<close>.\<close>

definition explore_tool ::
  "'d search_env \<Rightarrow> tool_operator \<Rightarrow> (json \<Rightarrow> (string + string) option) \<Rightarrow> string \<Rightarrow> json \<Rightarrow> 'd \<Rightarrow> (string + string) option" where
  "explore_tool S oper codebase name input d =
     (if name = ''list_dir'' then
        Some (list_dir S oper (first_tool_string input [''path'', ''dir'', ''directory''])
                (or_default 200 (first_tool_usize input [''max_entries'', ''max_results'', ''limit''])) d)
      else if name = ''glob_files'' then
        (case required_tool_string_any input name ''pattern'' [''pattern'', ''glob'', ''query''] of
           Inl e \<Rightarrow> Some (Inl e)
         | Inr pattern \<Rightarrow>
             glob_files S oper pattern (or_default 50 (first_tool_usize input [''max_results'', ''limit'', ''max_entries''])) d)
      else if name = ''search_files'' \<or> name = ''search'' then
        (case required_tool_string_any input name ''query'' [''query'', ''pattern'', ''text'', ''search'', ''needle''] of
           Inl e \<Rightarrow> Some (Inl e)
         | Inr needle \<Rightarrow>
             search_files_tool S oper needle (first_tool_string input [''path'', ''dir'', ''directory'', ''root''])
               (or_default 30 (first_tool_usize input [''max_results'', ''limit'', ''max_entries''])) d)
      else if name = ''search_content'' then
        (case required_tool_string input name ''query'' of
           Inl e \<Rightarrow> Some (Inl e)
         | Inr needle \<Rightarrow>
             map_option (map_sum (\<lambda>e. e) (\<lambda>matches. join_with [newline] (map (show_match oper) matches)))
               (search_content S oper needle (get_str input ''path_glob'') d))
      else if name = ''find_files'' then
        (case required_tool_string input name ''name_glob'' of
           Inl e \<Rightarrow> Some (Inl e)
         | Inr name_glob \<Rightarrow>
             map_option (map_sum (\<lambda>e. e) (\<lambda>files. join_with [newline] (map (to_workspace_relative_display oper) files)))
               (find_files S oper name_glob d))
      else codebase input)"

end
