(* ===== verification/Code_Search.thy ===== *)
theory Code_Search
  imports Workspace_Walk
begin

text \<open>
  The index of the code (\<open>src/tools/index.rs\<close>) and ranked search in it (\<open>src/tools/search.rs\<close>): the items of the
  source files, building and refreshing the index, parsing a query, its filters, the scores and
  the order of the results, and the merge with the results of the semantic search. The operations on \<open>f64\<close> and
  the ranking of \<open>bm25\<close> are parameters; \<open>total_cmp\<close> compares by an integer key, as the standard library
  defines it.
\<close>

section \<open>The index of the code\<close>

text \<open>
  The index of the code (\<open>src/tools/index.rs\<close>, \<open>src/state/conversation/tools/index.rs\<close>): the items of every
  source file of the workspace, built by a walk and brought up to date when a tool changes a file. The parser
  (tree-sitter) is a parameter that gives a tree of nodes; the extraction of the items from the tree is the
  program's own. The state of the process is the index, absent until it is first used.
\<close>

section \<open>Items\<close>

datatype item_kind =
  Item_function | Item_struct | Item_class | Item_interface | Item_enum | Item_impl | Item_trait | Item_module
  | Item_const | Item_static | Item_type_alias

fun item_label :: "item_kind \<Rightarrow> string" where
  "item_label Item_function = ''function''"
| "item_label Item_struct = ''struct''"
| "item_label Item_class = ''class''"
| "item_label Item_interface = ''interface''"
| "item_label Item_enum = ''enum''"
| "item_label Item_impl = ''impl''"
| "item_label Item_trait = ''trait''"
| "item_label Item_module = ''module''"
| "item_label Item_const = ''const''"
| "item_label Item_static = ''static''"
| "item_label Item_type_alias = ''type''"

record index_chunk =
  ic_path :: string
  ic_start_line :: nat
  ic_end_line :: nat
  ic_kind :: item_kind
  ic_name :: string
  ic_parent_scope :: "string option"
  ic_source :: string

datatype source_language = Lang_rust | Lang_python | Lang_typescript | Lang_tsx | Lang_javascript

text \<open>A node: its kind, the field it is of its parent, its first and last row, its text and its children.\<close>

datatype syntax_node =
  Syntax_node (nd_kind: string) (nd_field: "string option") (nd_start_row: nat) (nd_end_row: nat)
    (nd_text: "string option") (nd_children: "syntax_node list")

record 'd index_env =
  ix_search :: "'d search_env"
  ix_parse :: "source_language \<Rightarrow> string \<Rightarrow> syntax_node option"

definition child_by_field_name :: "string \<Rightarrow> syntax_node \<Rightarrow> syntax_node option" where
  "child_by_field_name field node = List.find (\<lambda>c. nd_field c = Some field) (nd_children node)"

definition node_text :: "string \<Rightarrow> syntax_node \<Rightarrow> string" where
  "node_text fallback node = (case nd_text node of Some s \<Rightarrow> s | None \<Rightarrow> fallback)"

definition extract_name :: "item_kind \<Rightarrow> syntax_node \<Rightarrow> string" where
  "extract_name kind node =
     (if kind = Item_impl then
        (case List.find (\<lambda>c. nd_kind c = ''type_identifier'' \<or> nd_kind c = ''generic_type'') (nd_children node) of
           Some c \<Rightarrow> node_text ''_'' c
         | None \<Rightarrow> ''_impl'')
      else case child_by_field_name ''name'' node of
          Some c \<Rightarrow> node_text ''_'' c
        | None \<Rightarrow>
            (case List.find (\<lambda>c. nd_kind c \<in> {''identifier'', ''type_identifier'', ''property_identifier''}) (nd_children node) of
               Some c \<Rightarrow> node_text ''_'' c
             | None \<Rightarrow> ''_''))"

definition chunk_of :: "string \<Rightarrow> syntax_node \<Rightarrow> item_kind \<Rightarrow> string \<Rightarrow> string option \<Rightarrow> index_chunk" where
  "chunk_of rel node kind name scope =
     \<lparr>ic_path = rel, ic_start_line = nd_start_row node + 1, ic_end_line = nd_end_row node + 1, ic_kind = kind,
      ic_name = name, ic_parent_scope = scope, ic_source = node_text '''' node\<rparr>"

definition rust_item_kind :: "string \<Rightarrow> item_kind option" where
  "rust_item_kind kind = map_of
     [(''function_item'', Item_function), (''struct_item'', Item_struct), (''enum_item'', Item_enum),
      (''impl_item'', Item_impl), (''trait_item'', Item_trait), (''mod_item'', Item_module),
      (''const_item'', Item_const), (''static_item'', Item_static), (''type_item'', Item_type_alias)] kind"

fun extract_rust_items :: "string \<Rightarrow> string option \<Rightarrow> syntax_node \<Rightarrow> index_chunk list" where
  "extract_rust_items rel scope (Syntax_node k f s e t children) =
     concat (map (\<lambda>child.
       case rust_item_kind (nd_kind child) of
         Some kind \<Rightarrow>
           (let name = extract_name kind child;
                nested = kind \<in> {Item_impl, Item_trait, Item_module};
                inner = (if nested then Some name else scope)
            in chunk_of rel child kind name inner # (if nested then extract_rust_items rel inner child else []))
       | None \<Rightarrow> if nd_kind child = ''declaration_list'' then extract_rust_items rel scope child else []) children)"

fun extract_python_items :: "string \<Rightarrow> string option \<Rightarrow> syntax_node \<Rightarrow> index_chunk list" where
  "extract_python_items rel scope (Syntax_node k f s e t children) =
     concat (map (\<lambda>child.
       if nd_kind child = ''class_definition'' then
         (let name = extract_name Item_class child
          in chunk_of rel child Item_class name scope # extract_python_items rel (Some name) child)
       else if nd_kind child = ''function_definition'' then
         [chunk_of rel child Item_function (extract_name Item_function child) scope]
       else extract_python_items rel scope child) children)"

definition function_valued_variable :: "syntax_node \<Rightarrow> bool" where
  "function_valued_variable node =
     (case child_by_field_name ''value'' node of
        Some v \<Rightarrow> nd_kind v \<in> {''arrow_function'', ''function'', ''function_expression''}
      | None \<Rightarrow> False)"

definition javascript_item_kind :: "syntax_node \<Rightarrow> item_kind option" where
  "javascript_item_kind node =
     (if nd_kind node \<in> {''function_declaration'', ''generator_function_declaration'', ''method_definition''}
      then Some Item_function
      else if nd_kind node = ''interface_declaration'' then Some Item_interface
      else if nd_kind node = ''type_alias_declaration'' then Some Item_type_alias
      else if nd_kind node = ''enum_declaration'' then Some Item_enum
      else if nd_kind node = ''variable_declarator'' \<and> function_valued_variable node then Some Item_function
      else None)"

fun extract_javascript_items :: "string \<Rightarrow> string option \<Rightarrow> syntax_node \<Rightarrow> index_chunk list" where
  "extract_javascript_items rel scope (Syntax_node k f s e t children) =
     concat (map (\<lambda>child.
       if nd_kind child = ''class_declaration'' then
         (let name = extract_name Item_class child
          in chunk_of rel child Item_class name scope # extract_javascript_items rel (Some name) child)
       else case javascript_item_kind child of
           Some kind \<Rightarrow> [chunk_of rel child kind (extract_name kind child) scope]
         | None \<Rightarrow> extract_javascript_items rel scope child) children)"

definition parse_source_file :: "'d index_env \<Rightarrow> string \<Rightarrow> string \<Rightarrow> source_language \<Rightarrow> index_chunk list" where
  "parse_source_file X rel source language =
     (case ix_parse X language source of
        None \<Rightarrow> []
      | Some root \<Rightarrow>
          (case language of
             Lang_rust \<Rightarrow> extract_rust_items rel None root
           | Lang_python \<Rightarrow> extract_python_items rel None root
           | _ \<Rightarrow> extract_javascript_items rel None root))"

section \<open>Building and updating\<close>

definition detect_source_language :: "path \<Rightarrow> source_language option" where
  "detect_source_language p = Option.bind (Option.bind (file_name p) file_extension) (map_of
     [(''rs'', Lang_rust), (''py'', Lang_python), (''ts'', Lang_typescript), (''tsx'', Lang_tsx),
      (''js'', Lang_javascript), (''mjs'', Lang_javascript), (''cjs'', Lang_javascript), (''jsx'', Lang_javascript)])"

definition workspace_relative :: "path \<Rightarrow> path \<Rightarrow> string" where
  "workspace_relative p root =
     path_to_repo_relative_string (case strip_path_prefix root p of Some rel \<Rightarrow> rel | None \<Rightarrow> p)"

definition is_excluded :: "string list \<Rightarrow> string \<Rightarrow> bool" where
  "is_excluded exclude rel \<longleftrightarrow> list_ex (starts_with rel) exclude"

definition file_size :: "'d disk \<Rightarrow> 'd \<Rightarrow> path \<Rightarrow> nat" where
  "file_size D d p = (case dk_fingerprint D d p of Some fp \<Rightarrow> fp_len fp | None \<Rightarrow> 0)"

text \<open>The items of one file that is not excluded or ignored.\<close>

definition index_file :: "'d index_env \<Rightarrow> nat \<Rightarrow> string \<Rightarrow> path \<Rightarrow> 'd \<Rightarrow> index_chunk list" where
  "index_file X max_file_size rel p d =
     (let D = sx_disk (ix_search X)
      in case detect_source_language p of
           None \<Rightarrow> []
         | Some language \<Rightarrow>
             if file_size D d p > max_file_size then []
             else (case dk_read_to_string D d p of
                     Inl e \<Rightarrow> []
                   | Inr source \<Rightarrow> parse_source_file X rel source language))"

definition build_index_filtered ::
  "'d index_env \<Rightarrow> path \<Rightarrow> string list \<Rightarrow> nat \<Rightarrow> 'd \<Rightarrow> index_chunk list option" where
  "build_index_filtered X root exclude max_file_size d =
     (let D = sx_disk (ix_search X)
      in map_option (\<lambda>walked. case walked of
             Inl e \<Rightarrow> []
           | Inr files \<Rightarrow>
               concat (map (\<lambda>p. let rel = workspace_relative p root
                                 in if is_excluded exclude rel then [] else index_file X max_file_size rel p d) files))
           (walk_workspace_files_ignoring D (tool_operator_new D d root) (sx_ignore (ix_search X) d root) root d))"

text \<open>\<open>strip_prefix\<close> leaves the rest of the text as it is written, only its ends are cleaned. The relative
  text that a tool was given keeps the spelling of the model inside.\<close>

definition is_blank_piece :: "string \<Rightarrow> bool" where
  "is_blank_piece p \<longleftrightarrow> p = '''' \<or> p = ''.''"

definition relative_spelling :: "string \<Rightarrow> string" where
  "relative_spelling rel =
     backslash_to_slash (join_with ''/''
       (rev (dropWhile is_blank_piece (rev (dropWhile is_blank_piece (split_char CHR ''/'' rel))))))"

definition changed_relative :: "path \<Rightarrow> string \<Rightarrow> string" where
  "changed_relative root rel =
     (if is_absolute (components rel) then workspace_relative (components rel) root else relative_spelling rel)"

definition update_index_filtered ::
  "'d index_env \<Rightarrow> path \<Rightarrow> string \<Rightarrow> string list \<Rightarrow> nat \<Rightarrow> 'd \<Rightarrow> index_chunk list \<Rightarrow> index_chunk list" where
  "update_index_filtered X root rel_path exclude max_file_size d index =
     (let p = join root (components rel_path);
          rel = changed_relative root rel_path;
          kept = filter (\<lambda>c. ic_path c \<noteq> rel) index
      in if is_excluded exclude rel then kept
         else if sx_ignore (ix_search X) d root rel (dk_is_dir (sx_disk (ix_search X)) d p) then kept
         else kept @ index_file X max_file_size rel p d)"

section \<open>The index of the process\<close>

record search_config =
  sc_enabled :: bool
  sc_auto_index :: bool
  sc_exclude :: "string list"
  sc_max_file_size :: nat

type_synonym codebase_index = "index_chunk list option"

definition build_codebase_index :: "'d index_env \<Rightarrow> path \<Rightarrow> search_config \<Rightarrow> 'd \<Rightarrow> index_chunk list option" where
  "build_codebase_index X root cfg d = build_index_filtered X root (sc_exclude cfg) (sc_max_file_size cfg) d"

text \<open>\<open>get_or_init\<close>: the index is built when it is first asked for.\<close>

definition codebase_index_of ::
  "'d index_env \<Rightarrow> path \<Rightarrow> search_config \<Rightarrow> 'd \<Rightarrow> codebase_index \<Rightarrow> (index_chunk list \<times> codebase_index) option" where
  "codebase_index_of X root cfg d st =
     (case st of
        Some chunks \<Rightarrow> Some (chunks, st)
      | None \<Rightarrow> map_option (\<lambda>chunks. (chunks, Some chunks)) (build_codebase_index X root cfg d))"

definition refresh_index ::
  "'d index_env \<Rightarrow> string \<Rightarrow> path \<Rightarrow> search_config \<Rightarrow> 'd \<Rightarrow> codebase_index \<Rightarrow> codebase_index" where
  "refresh_index X rel_path root cfg d st =
     (if \<not> sc_enabled cfg then st
      else map_option (update_index_filtered X root rel_path (sc_exclude cfg) (sc_max_file_size cfg) d) st)"

definition rebuild_codebase_index_with_config ::
  "'d index_env \<Rightarrow> path \<Rightarrow> string list \<Rightarrow> nat \<Rightarrow> 'd \<Rightarrow> (nat \<times> codebase_index) option" where
  "rebuild_codebase_index_with_config X root exclude max_file_size d =
     map_option (\<lambda>chunks. (length chunks, Some chunks)) (build_index_filtered X root exclude max_file_size d)"

definition warm_codebase_index_with_config ::
  "'d index_env \<Rightarrow> path \<Rightarrow> search_config \<Rightarrow> 'd \<Rightarrow> codebase_index \<Rightarrow> (nat option \<times> codebase_index) option" where
  "warm_codebase_index_with_config X root cfg d st =
     (if \<not> (sc_enabled cfg \<and> sc_auto_index cfg) then Some (None, st)
      else map_option (map_prod Some (\<lambda>i. i))
             (rebuild_codebase_index_with_config X root (sc_exclude cfg) (sc_max_file_size cfg) d))"

section \<open>Queries and ranking\<close>

record 'f arith =
  fa_of :: "nat \<Rightarrow> 'f"
  fa_add :: "'f \<Rightarrow> 'f \<Rightarrow> 'f"
  fa_mul :: "'f \<Rightarrow> 'f \<Rightarrow> 'f"
  fa_div :: "'f \<Rightarrow> 'f \<Rightarrow> 'f"
  fa_sqrt :: "'f \<Rightarrow> 'f"
  fa_max :: "'f \<Rightarrow> 'f \<Rightarrow> 'f"
  fa_less :: "'f \<Rightarrow> 'f \<Rightarrow> bool"
  fa_le :: "'f \<Rightarrow> 'f \<Rightarrow> bool"
  fa_key :: "'f \<Rightarrow> int"
  fa_epsilon :: 'f

section \<open>Queries\<close>

record parsed_query =
  pq_terms :: "string list"
  pq_required :: "string list"
  pq_excluded :: "string list"
  pq_paths :: "string list"
  pq_kinds :: "string list"
  pq_langs :: "string list"

definition parsed_query_default :: parsed_query where
  "parsed_query_default =
     \<lparr>pq_terms = [], pq_required = [], pq_excluded = [], pq_paths = [], pq_kinds = [], pq_langs = []\<rparr>"

text \<open>Words and quoted phrases: the characters, the current token and whether a quote is open.\<close>

fun tokenize_chars :: "string list \<Rightarrow> string \<Rightarrow> bool \<Rightarrow> string list" where
  "tokenize_chars [] current in_quotes = (if current = '''' then [] else [current])"
| "tokenize_chars (c # cs) current in_quotes =
     (if c = [CHR 0x22] then tokenize_chars cs current (\<not> in_quotes)
      else if is_ws c \<and> \<not> in_quotes then
        (if current = '''' then tokenize_chars cs '''' in_quotes else current # tokenize_chars cs '''' in_quotes)
      else tokenize_chars cs (current @ c) in_quotes)"

definition tokenize_query :: "string \<Rightarrow> string list" where
  "tokenize_query q = tokenize_chars (utf8_chars q) '''' False"

definition normalize_kind_filter :: "string \<Rightarrow> string option" where
  "normalize_kind_filter v =
     (let n = to_ascii_lowercase (trim v)
      in if n = '''' then None else if n = ''typealias'' then Some ''type'' else Some n)"

definition canonical_languages :: "(string \<times> string) list" where
  "canonical_languages =
     [(''rs'', ''rust''), (''rust'', ''rust''), (''py'', ''python''), (''python'', ''python''),
      (''ts'', ''typescript''), (''tsx'', ''typescript''), (''typescript'', ''typescript''),
      (''js'', ''javascript''), (''jsx'', ''javascript''), (''mjs'', ''javascript''), (''cjs'', ''javascript''),
      (''javascript'', ''javascript'')]"

definition normalize_lang_filter :: "string \<Rightarrow> string option" where
  "normalize_lang_filter v =
     (let n = to_ascii_lowercase (trim v)
      in if n = '''' then None
         else Some (case map_of canonical_languages n of Some l \<Rightarrow> l | None \<Rightarrow> n))"

definition add_option :: "'a option \<Rightarrow> 'a list \<Rightarrow> 'a list" where
  "add_option x xs = (case x of Some v \<Rightarrow> xs @ [v] | None \<Rightarrow> xs)"

definition non_empty :: "string \<Rightarrow> string option" where
  "non_empty s = (if s = '''' then None else Some s)"

definition normalized_term :: "string \<Rightarrow> string option" where
  "normalized_term t = non_empty (to_ascii_lowercase (trim t))"

definition parse_token :: "string \<Rightarrow> parsed_query \<Rightarrow> parsed_query" where
  "parse_token token q =
     (let t = trim token
      in if t = '''' then q
         else case strip_start ''path:'' t of
             Some v \<Rightarrow> q\<lparr>pq_paths := add_option (normalized_term v) (pq_paths q)\<rparr>
           | None \<Rightarrow>
               (case strip_start ''kind:'' t of
                  Some v \<Rightarrow> q\<lparr>pq_kinds := add_option (normalize_kind_filter v) (pq_kinds q)\<rparr>
                | None \<Rightarrow>
                    (case strip_start ''lang:'' t of
                       Some v \<Rightarrow> q\<lparr>pq_langs := add_option (normalize_lang_filter v) (pq_langs q)\<rparr>
                     | None \<Rightarrow>
                         (case strip_start ''+'' t of
                            Some v \<Rightarrow> q\<lparr>pq_required := add_option (normalized_term v) (pq_required q)\<rparr>
                          | None \<Rightarrow>
                              (case strip_start ''-'' t of
                                 Some v \<Rightarrow> q\<lparr>pq_excluded := add_option (normalized_term v) (pq_excluded q)\<rparr>
                               | None \<Rightarrow> q\<lparr>pq_terms := add_option (normalized_term t) (pq_terms q)\<rparr>)))))"

definition parse_query :: "string \<Rightarrow> parsed_query" where
  "parse_query text0 = fold parse_token (tokenize_query text0) parsed_query_default"

definition positive_query_text :: "parsed_query \<Rightarrow> string" where
  "positive_query_text q = join_with '' '' (pq_terms q @ pq_required q)"

definition has_positive_terms :: "parsed_query \<Rightarrow> bool" where
  "has_positive_terms q \<longleftrightarrow> pq_terms q \<noteq> [] \<or> pq_required q \<noteq> []"

definition is_effectively_empty :: "parsed_query \<Rightarrow> bool" where
  "is_effectively_empty q \<longleftrightarrow>
     pq_terms q = [] \<and> pq_required q = [] \<and> pq_excluded q = [] \<and> pq_paths q = [] \<and> pq_kinds q = [] \<and> pq_langs q = []"

section \<open>Matching\<close>

record chunk_fields =
  cf_name :: string
  cf_scope :: "string option"
  cf_source :: string
  cf_path :: string
  cf_kind :: string
  cf_lang :: "string option"

definition detect_chunk_language :: "string \<Rightarrow> string option" where
  "detect_chunk_language p =
     Option.bind (map_option to_ascii_lowercase (path_extension p)) (map_of
       [(''rs'', ''rust''), (''py'', ''python''), (''ts'', ''typescript''), (''tsx'', ''typescript''),
        (''js'', ''javascript''), (''jsx'', ''javascript''), (''mjs'', ''javascript''), (''cjs'', ''javascript'')])"

definition fields_of_chunk :: "index_chunk \<Rightarrow> chunk_fields" where
  "fields_of_chunk c =
     \<lparr>cf_name = to_ascii_lowercase (ic_name c), cf_scope = map_option to_ascii_lowercase (ic_parent_scope c),
      cf_source = to_ascii_lowercase (ic_source c), cf_path = to_ascii_lowercase (ic_path c),
      cf_kind = to_ascii_lowercase (item_label (ic_kind c)), cf_lang = detect_chunk_language (ic_path c)\<rparr>"

definition matches_term :: "chunk_fields \<Rightarrow> string \<Rightarrow> bool" where
  "matches_term f term0 \<longleftrightarrow>
     contains (cf_name f) term0 \<or> contains (cf_path f) term0 \<or> contains (cf_kind f) term0 \<or> contains (cf_source f) term0
     \<or> (case cf_scope f of Some s \<Rightarrow> contains s term0 | None \<Rightarrow> False)
     \<or> cf_lang f = Some term0"

definition chunk_matches_query :: "chunk_fields \<Rightarrow> parsed_query \<Rightarrow> bool" where
  "chunk_matches_query f q =
     (if pq_paths q \<noteq> [] \<and> \<not> list_ex (contains (cf_path f)) (pq_paths q) then False
      else if pq_kinds q \<noteq> [] \<and> \<not> list_ex (\<lambda>k. k = cf_kind f) (pq_kinds q) then False
      else if pq_langs q \<noteq> [] \<and> \<not> list_ex (\<lambda>l. cf_lang f = Some l) (pq_langs q) then False
      else if list_ex (matches_term f) (pq_excluded q) then False
      else \<not> list_ex (\<lambda>r. \<not> matches_term f r) (pq_required q))"

definition matches_positive_terms :: "chunk_fields \<Rightarrow> parsed_query \<Rightarrow> bool" where
  "matches_positive_terms f q =
     (if pq_required q \<noteq> [] \<and> list_ex (\<lambda>r. \<not> matches_term f r) (pq_required q) then False
      else if pq_terms q = [] then True else list_ex (matches_term f) (pq_terms q))"

section \<open>Scores\<close>

definition add_if :: "'f arith \<Rightarrow> bool \<Rightarrow> nat \<Rightarrow> 'f \<Rightarrow> 'f" where
  "add_if A b w score = (if b then fa_add A score (fa_of A w) else score)"

definition score_term :: "'f arith \<Rightarrow> chunk_fields \<Rightarrow> string \<Rightarrow> bool \<Rightarrow> 'f" where
  "score_term A f term0 required =
     (let source_match_weight = (if CHR '' '' \<in> set term0 then 8 else 5);
          exact_name_weight = (if required then 60 else 45);
          substring_name_weight = (if required then 25 else 15);
          hits = length (match_indices term0 (cf_source f));
          s1 = (if cf_name f = term0 then fa_add A (fa_of A 0) (fa_of A exact_name_weight)
                else add_if A (contains (cf_name f) term0) substring_name_weight (fa_of A 0));
          s2 = add_if A (contains (cf_path f) term0) 10 s1;
          s3 = add_if A (cf_kind f = term0) 10 s2;
          s4 = add_if A (case cf_scope f of Some s \<Rightarrow> contains s term0 | None \<Rightarrow> False) 12 s3
      in if hits > 0 then fa_add A s4 (fa_mul A (fa_of A hits) (fa_of A source_match_weight)) else s4)"

definition whole_query_score :: "'f arith \<Rightarrow> chunk_fields \<Rightarrow> string \<Rightarrow> 'f" where
  "whole_query_score A f q =
     (if q = '''' then fa_of A 0
      else
        (let s = (if cf_name f = q then fa_add A (fa_of A 0) (fa_of A 100)
                  else if contains (cf_name f) q then fa_add A (fa_of A 0) (fa_of A 50)
                  else add_if A (contains q (cf_name f) \<and> length (cf_name f) > 2) 30 (fa_of A 0))
         in add_if A (case cf_scope f of Some sc \<Rightarrow> contains sc q \<or> contains q sc | None \<Rightarrow> False) 20 s))"

definition score_chunk :: "'f arith \<Rightarrow> index_chunk \<Rightarrow> parsed_query \<Rightarrow> string \<Rightarrow> 'f" where
  "score_chunk A c q positive =
     (let f = fields_of_chunk c
      in if \<not> chunk_matches_query f q then fa_of A 0
         else
           (let s1 = whole_query_score A f (to_ascii_lowercase positive);
                s2 = fold (\<lambda>t s. fa_add A s (score_term A f t False)) (pq_terms q) s1;
                s3 = fold (\<lambda>t s. fa_add A s (score_term A f t True)) (pq_required q) s2
            in if fa_le A s3 (fa_of A 0) \<and> \<not> has_positive_terms q then fa_of A 1 else s3))"

section \<open>Results\<close>

record 'f search_result =
  sr_path :: string
  sr_start_line :: nat
  sr_end_line :: nat
  sr_kind_label :: string
  sr_name :: string
  sr_score :: 'f
  sr_snippet :: string

definition truncate_snippet :: "string \<Rightarrow> nat \<Rightarrow> string" where
  "truncate_snippet source max_lines =
     (let ls = str_lines source
      in if length ls \<le> max_lines then source
         else join_with [newline] (take max_lines ls) @ [newline] @ ''    ... ('' @ nat_dec (length ls - max_lines) @ '' more lines)'')"

definition result_of_chunk :: "index_chunk \<Rightarrow> 'f \<Rightarrow> 'f search_result" where
  "result_of_chunk c score =
     \<lparr>sr_path = ic_path c, sr_start_line = ic_start_line c, sr_end_line = ic_end_line c,
      sr_kind_label = item_label (ic_kind c), sr_name = ic_name c, sr_score = score,
      sr_snippet = truncate_snippet (ic_source c) 20\<rparr>"

definition max_results_default :: "(string \<Rightarrow> string option) \<Rightarrow> nat" where
  "max_results_default env =
     (case env_usize env ''VEX_SEARCH_MAX_RESULTS'' of Some n \<Rightarrow> if n > 0 then n else 10 | None \<Rightarrow> 10)"

definition bm25_document :: "index_chunk \<Rightarrow> string" where
  "bm25_document c = ic_name c @ '' '' @ ic_source c"

text \<open>The ranking: \<open>bm25 documents query\<close> gives positions with their weights, ten times the library's score.\<close>

definition bm25_scores ::
  "'f arith \<Rightarrow> (string list \<Rightarrow> string \<Rightarrow> (nat \<times> 'f) list) \<Rightarrow> index_chunk list \<Rightarrow> parsed_query \<Rightarrow> string \<Rightarrow> (nat \<times> 'f) list" where
  "bm25_scores A bm25 index q positive =
     (if positive = '''' then []
      else List.map_filter (\<lambda>(i, score).
          if i \<ge> length index then None
          else
            (let f = fields_of_chunk (index ! i); w = fa_mul A score (fa_of A 10)
             in if \<not> chunk_matches_query f q then None
                else if \<not> matches_positive_terms f q then None
                else if fa_less A (fa_of A 0) w then Some (i, w) else None))
        (bm25 (map bm25_document index) positive))"

definition keyword_score :: "'f arith \<Rightarrow> index_chunk list \<Rightarrow> parsed_query \<Rightarrow> string \<Rightarrow> nat \<Rightarrow> 'f option" where
  "keyword_score A index q positive i =
     (let s = score_chunk A (index ! i) q positive in if fa_less A (fa_of A 0) s then Some s else None)"

text \<open>The score of one position in the two maps together.\<close>

definition combined_score :: "'f arith \<Rightarrow> 'f option \<Rightarrow> 'f option \<Rightarrow> 'f option" where
  "combined_score A keyword weight =
     (case weight of
        None \<Rightarrow> keyword
      | Some w \<Rightarrow> Some (fa_add A (case keyword of Some s \<Rightarrow> s | None \<Rightarrow> fa_of A 0) w))"

text \<open>A later entry of a position replaces an earlier one when the scores are collected into a map.\<close>

definition ranked_chunks ::
  "'f arith \<Rightarrow> (string list \<Rightarrow> string \<Rightarrow> (nat \<times> 'f) list) \<Rightarrow> index_chunk list \<Rightarrow> parsed_query \<Rightarrow> string \<Rightarrow> ('f \<times> nat) list" where
  "ranked_chunks A bm25 index q positive =
     (let weights = map_of (rev (bm25_scores A bm25 index q positive))
      in sort_key (\<lambda>(s, i). - fa_key A s)
           (List.map_filter (\<lambda>i. map_option (\<lambda>s. (s, i)) (combined_score A (keyword_score A index q positive i) (weights i)))
              [0..<length index]))"

definition codebase_search ::
  "'f arith \<Rightarrow> (string list \<Rightarrow> string \<Rightarrow> (nat \<times> 'f) list) \<Rightarrow> (string \<Rightarrow> string option)
   \<Rightarrow> string \<Rightarrow> index_chunk list \<Rightarrow> nat option \<Rightarrow> 'f search_result list" where
  "codebase_search A bm25 env text0 index max_results =
     (let cap = or_default (max_results_default env) max_results;
          q = parse_query text0
      in if trim text0 = '''' \<or> index = [] then []
         else if is_effectively_empty q then []
         else map (\<lambda>(s, i). result_of_chunk (index ! i) s)
                (take cap (ranked_chunks A bm25 index q (positive_query_text q))))"

section \<open>Merging with semantic scores\<close>

record 'f semantic_chunk_score =
  ss_path :: string
  ss_start_line :: nat
  ss_end_line :: nat
  ss_name :: string
  ss_score :: 'f

type_synonym chunk_id = "string \<times> nat \<times> nat \<times> string"

definition search_result_id :: "'f search_result \<Rightarrow> chunk_id" where
  "search_result_id r = (sr_path r, sr_start_line r, sr_end_line r, sr_name r)"

definition chunk_id_of :: "index_chunk \<Rightarrow> chunk_id" where
  "chunk_id_of c = (ic_path c, ic_start_line c, ic_end_line c, ic_name c)"

definition semantic_id :: "'f semantic_chunk_score \<Rightarrow> chunk_id" where
  "semantic_id s = (ss_path s, ss_start_line s, ss_end_line s, ss_name s)"

definition semantic_score_weight :: "'f arith \<Rightarrow> 'f \<Rightarrow> 'f" where
  "semantic_score_weight A score = fa_mul A (fa_max A score (fa_of A 0)) (fa_of A 60)"

text \<open>The results and the map from their identities to their positions.\<close>

definition merge_one ::
  "'f arith \<Rightarrow> (chunk_id \<Rightarrow> index_chunk option) \<Rightarrow> 'f semantic_chunk_score
   \<Rightarrow> 'f search_result list \<times> (chunk_id \<Rightarrow> nat option) \<Rightarrow> 'f search_result list \<times> (chunk_id \<Rightarrow> nat option)" where
  "merge_one A lookup s st =
     (case st of (merged, positions) \<Rightarrow>
        (let w = semantic_score_weight A (ss_score s)
         in if fa_le A w (fa_of A 0) then st
            else case positions (semantic_id s) of
                Some i \<Rightarrow> (merged[i := (merged ! i)\<lparr>sr_score := fa_add A (sr_score (merged ! i)) w\<rparr>], positions)
              | None \<Rightarrow>
                  (case lookup (semantic_id s) of
                     None \<Rightarrow> st
                   | Some c \<Rightarrow> (merged @ [result_of_chunk c w], positions(semantic_id s \<mapsto> length merged)))))"

definition positions_of :: "'f search_result list \<Rightarrow> chunk_id \<Rightarrow> nat option" where
  "positions_of rs = map_of (rev (map (\<lambda>(i, r). (search_result_id r, i)) (enumerate 0 rs)))"

definition merge_search_results ::
  "'f arith \<Rightarrow> (string \<Rightarrow> string option) \<Rightarrow> index_chunk list \<Rightarrow> 'f search_result list \<Rightarrow> 'f semantic_chunk_score list
   \<Rightarrow> nat option \<Rightarrow> 'f search_result list" where
  "merge_search_results A env index structural semantic max_results =
     (let cap = or_default (max_results_default env) max_results;
          lookup = map_of (rev (map (\<lambda>c. (chunk_id_of c, c)) index))
      in if cap = 0 then []
         else take cap
           (sort_key (\<lambda>r. - fa_key A (sr_score r))
             (sort_key (\<lambda>r. byte_key (sr_path r))
               (sort_key sr_start_line
                 (fst (fold (merge_one A lookup) semantic (structural, positions_of structural)))))))"

definition format_search_result :: "nat \<times> 'f search_result \<Rightarrow> string" where
  "format_search_result ir =
     (case ir of (i, r) \<Rightarrow>
        [newline] @ nat_dec (i + 1) @ ''. ['' @ sr_kind_label r @ ''] `'' @ sr_name r @ ''` in '' @ sr_path r @ '':''
        @ nat_dec (sr_start_line r) @ ''-'' @ nat_dec (sr_end_line r) @ [newline]
        @ concat (map (\<lambda>l. ''   '' @ l @ [newline]) (str_lines (sr_snippet r))))"

definition format_search_results :: "string \<Rightarrow> 'f search_result list \<Rightarrow> string" where
  "format_search_results text0 results =
     (if results = [] then ''No results found for '' @ [CHR 0x22] @ text0 @ [CHR 0x22] @ ''.''
      else ''Found '' @ nat_dec (length results) @ '' results for '' @ [CHR 0x22] @ text0 @ [CHR 0x22] @ '':'' @ [newline]
           @ concat (map format_search_result (enumerate 0 results)))"

end
