(* ===== verification/Semantic_Index.thy ===== *)
theory Semantic_Index
  imports Code_Search Api_Client
begin

text \<open>
  Semantic search (\<open>src/tools/semantic.rs\<close>, \<open>src/tools/embed.rs\<close>): the embeddings of the items of the index are
  kept in a file with a hash of their source, and only items that are new or have changed are embedded
  again. The embedding service, the JSON form of the file, the temporary file and the order in which a hash map is
  walked are parameters. The tool \<open>codebase_search\<close> puts both searches together.
\<close>

unbundle bit_operations_syntax

section \<open>The embedding service\<close>

datatype embedding_provider = Compat_provider | Native_provider

record embedding_config =
  em_provider :: embedding_provider
  em_model :: string
  em_url :: string
  em_api_key :: "string option"
  em_batch_size :: nat

fun provider_str :: "embedding_provider \<Rightarrow> string" where
  "provider_str Compat_provider = ''compat''"
| "provider_str Native_provider = ''native''"

definition parse_provider :: "string \<Rightarrow> embedding_provider option" where
  "parse_provider raw =
     (let s = to_ascii_lowercase (trim raw)
      in if s = ''compat'' then Some Compat_provider else if s = ''native'' then Some Native_provider else None)"

definition DEFAULT_EMBED_BATCH_SIZE :: nat where
  "DEFAULT_EMBED_BATCH_SIZE = 32"

definition required_env :: "(string \<Rightarrow> string option) \<Rightarrow> string \<Rightarrow> string + string" where
  "required_env env name =
     (case env name of
        None \<Rightarrow> Inl (name @ '' must be set when embeddings are enabled'')
      | Some v \<Rightarrow>
          if trim v = '''' then Inl (name @ '' must not be empty when embeddings are enabled'') else Inr (trim v))"

definition embedding_config_from_env :: "(string \<Rightarrow> string option) \<Rightarrow> string + embedding_config option" where
  "embedding_config_from_env env =
     (case env ''VEX_EMBEDDING_PROVIDER'' of
        None \<Rightarrow> Inr None
      | Some raw \<Rightarrow>
          if trim raw = '''' then Inr None
          else (case parse_provider raw of
                  None \<Rightarrow> Inl (''unsupported VEX_EMBEDDING_PROVIDER '' @ [CHR 0x27] @ raw @ [CHR 0x27] @ ''; expected compat or native'')
                | Some provider \<Rightarrow>
                    (case required_env env ''VEX_EMBEDDING_MODEL'' of
                       Inl e \<Rightarrow> Inl e
                     | Inr model \<Rightarrow>
                         (case required_env env ''VEX_EMBEDDING_URL'' of
                            Inl e \<Rightarrow> Inl e
                          | Inr url \<Rightarrow>
                              Inr (Some
                                \<lparr>em_provider = provider, em_model = model, em_url = trim_end_slashes url,
                                 em_api_key = Option.bind (map_option trim (env ''VEX_EMBEDDING_API_KEY'')) non_empty,
                                 em_batch_size =
                                   (case env_usize env ''VEX_EMBEDDING_BATCH_SIZE'' of
                                      Some n \<Rightarrow> if n > 0 then n else DEFAULT_EMBED_BATCH_SIZE
                                    | None \<Rightarrow> DEFAULT_EMBED_BATCH_SIZE)\<rparr>)))))"

datatype 'a embed_reply =
  Not_sent | Refused string string \<comment> \<open>the status and the body\<close> | Undecodable | Reply 'a

record ('d, 'f, 'g) semantic_env =
  se_disk :: "'d disk"
  se_arith :: "'f arith"
  se_widen :: "'g \<Rightarrow> 'f"
  se_compat :: "string \<Rightarrow> string option \<Rightarrow> string \<Rightarrow> string list \<Rightarrow> 'd \<Rightarrow> ('g list \<times> nat) list embed_reply \<times> 'd"
  se_native :: "string \<Rightarrow> string \<Rightarrow> string \<Rightarrow> 'd \<Rightarrow> 'g list embed_reply \<times> 'd"

definition embed_error :: "string \<Rightarrow> 'a embed_reply \<Rightarrow> string \<Rightarrow> string" where
  "embed_error endpoint reply decode_error =
     (case reply of
        Refused status body \<Rightarrow> ''embedding request failed with '' @ status @ '': '' @ body
      | Undecodable \<Rightarrow> decode_error
      | _ \<Rightarrow> ''failed to call embedding endpoint '' @ endpoint)"

fun chunks_of :: "nat \<Rightarrow> nat \<Rightarrow> 'a list \<Rightarrow> 'a list list" where
  "chunks_of n 0 xs = []"
| "chunks_of n (Suc fuel) xs = (if xs = [] then [] else take n xs # chunks_of n fuel (drop n xs))"

text \<open>\<open>slice::chunks\<close>; the length bounds the number of pieces, as no piece is empty.\<close>

definition batches :: "nat \<Rightarrow> 'a list \<Rightarrow> 'a list list" where
  "batches n xs = chunks_of n (length xs) xs"

fun embed_compat_batches ::
  "('d, 'f, 'g) semantic_env \<Rightarrow> embedding_config \<Rightarrow> string list list \<Rightarrow> 'd \<Rightarrow> (string + 'g list list) \<times> 'd" where
  "embed_compat_batches E cfg [] d = (Inr [], d)"
| "embed_compat_batches E cfg (b # bs) d =
     (let endpoint = em_url cfg @ ''/embeddings''
      in case se_compat E endpoint (em_api_key cfg) (em_model cfg) b d of
           (Reply items, d1) \<Rightarrow>
             (case embed_compat_batches E cfg bs d1 of
                (Inl e, d2) \<Rightarrow> (Inl e, d2)
              | (Inr rest, d2) \<Rightarrow> (Inr (map fst (sort_key snd items) @ rest), d2))
         | (reply, d1) \<Rightarrow> (Inl (embed_error endpoint reply ''failed to decode embedding response''), d1))"

fun embed_native_batches ::
  "('d, 'f, 'g) semantic_env \<Rightarrow> embedding_config \<Rightarrow> string list \<Rightarrow> 'd \<Rightarrow> (string + 'g list list) \<times> 'd" where
  "embed_native_batches E cfg [] d = (Inr [], d)"
| "embed_native_batches E cfg (t # ts) d =
     (let endpoint = em_url cfg @ ''/api/embeddings''
      in case se_native E endpoint (em_model cfg) t d of
           (Reply e, d1) \<Rightarrow>
             (case embed_native_batches E cfg ts d1 of
                (Inl err, d2) \<Rightarrow> (Inl err, d2)
              | (Inr rest, d2) \<Rightarrow> (Inr (e # rest), d2))
         | (reply, d1) \<Rightarrow> (Inl (embed_error endpoint reply ''failed to decode native embedding response''), d1))"

definition embed_texts ::
  "('d, 'f, 'g) semantic_env \<Rightarrow> embedding_config \<Rightarrow> string list \<Rightarrow> 'd \<Rightarrow> (string + 'g list list) \<times> 'd" where
  "embed_texts E cfg texts d =
     (if texts = [] then (Inr [], d)
      else case em_provider cfg of
          Compat_provider \<Rightarrow> embed_compat_batches E cfg (batches (em_batch_size cfg) texts) d
        | Native_provider \<Rightarrow> embed_native_batches E cfg texts d)"

section \<open>The stored embeddings\<close>

record 'g semantic_chunk =
  pc_key :: string
  pc_path :: string
  pc_start_line :: nat
  pc_end_line :: nat
  pc_name :: string
  pc_content_hash :: "64 word"
  pc_embedding :: "'g list"

record 'g stored_index =
  pi_version :: nat
  pi_provider :: string
  pi_model :: string
  pi_chunks :: "'g semantic_chunk list"

record ('d, 'f, 'g) store_env = "('d, 'f, 'g) semantic_env" +
  so_encode :: "'g stored_index \<Rightarrow> string"
  so_decode :: "string \<Rightarrow> 'g stored_index option"
  so_tempfile :: "path \<Rightarrow> 'd \<Rightarrow> path option \<times> 'd"
  so_drop_temp :: "path \<Rightarrow> 'd \<Rightarrow> 'd"
  so_order :: "'g semantic_chunk list \<Rightarrow> 'g semantic_chunk list" \<comment> \<open>the order of the values of a hash map\<close>

definition SEMANTIC_INDEX_VERSION :: nat where
  "SEMANTIC_INDEX_VERSION = 1"

definition DEFAULT_INDEX_MAX_FILES :: nat where
  "DEFAULT_INDEX_MAX_FILES = 5000"

definition FNV_OFFSET_BASIS :: "64 word" where
  "FNV_OFFSET_BASIS = 0xcbf29ce484222325"

definition FNV_PRIME :: "64 word" where
  "FNV_PRIME = 0x100000001b3"

definition source_hash :: "string \<Rightarrow> 64 word" where
  "source_hash source = foldl (\<lambda>h c. (h XOR of_nat (byte_val c)) * FNV_PRIME) FNV_OFFSET_BASIS source"

definition chunk_key :: "index_chunk \<Rightarrow> string" where
  "chunk_key c =
     ic_path c @ '':'' @ nat_dec (ic_start_line c) @ '':'' @ nat_dec (ic_end_line c) @ '':'' @ ic_name c"

definition eligible_step ::
  "nat \<Rightarrow> index_chunk \<Rightarrow> string set \<times> index_chunk list \<Rightarrow> string set \<times> index_chunk list" where
  "eligible_step max_files c st =
     (case st of (allowed, chunks) \<Rightarrow>
        if card allowed \<ge> max_files \<and> ic_path c \<notin> allowed then st
        else (insert (ic_path c) allowed, chunks @ [c]))"

definition eligible_chunks :: "(string \<Rightarrow> string option) \<Rightarrow> index_chunk list \<Rightarrow> index_chunk list" where
  "eligible_chunks env index =
     (let max_files = (case env_usize env ''VEX_INDEX_MAX_FILES'' of
            Some n \<Rightarrow> if n > 0 then n else DEFAULT_INDEX_MAX_FILES | None \<Rightarrow> DEFAULT_INDEX_MAX_FILES)
      in snd (fold (eligible_step max_files) index ({}, [])))"

definition semantic_index_path :: "path \<Rightarrow> path" where
  "semantic_index_path root = join root [Normal ''.vex'', Normal ''index'', Normal ''semantic-codebase-index.json'']"

definition fresh_index :: "embedding_config \<Rightarrow> 'g stored_index" where
  "fresh_index cfg =
     \<lparr>pi_version = SEMANTIC_INDEX_VERSION, pi_provider = provider_str (em_provider cfg), pi_model = em_model cfg, pi_chunks = []\<rparr>"

definition load_index :: "('d, 'f, 'g) store_env \<Rightarrow> path \<Rightarrow> embedding_config \<Rightarrow> 'd \<Rightarrow> string + 'g stored_index" where
  "load_index E root cfg d =
     (case dk_read_to_string (se_disk E) d (semantic_index_path root) of
        Inl e \<Rightarrow>
          if io_not_found e then Inr (fresh_index cfg)
          else Inl (''failed to read semantic index '' @ display_path (semantic_index_path root))
      | Inr raw \<Rightarrow>
          (case so_decode E raw of
             None \<Rightarrow> Inr (fresh_index cfg)
           | Some parsed \<Rightarrow>
               if pi_version parsed \<noteq> SEMANTIC_INDEX_VERSION \<or> pi_provider parsed \<noteq> provider_str (em_provider cfg)
                  \<or> pi_model parsed \<noteq> em_model cfg
               then Inr (fresh_index cfg) else Inr parsed))"

definition save_index :: "('d, 'f, 'g) store_env \<Rightarrow> path \<Rightarrow> 'g stored_index \<Rightarrow> 'd \<Rightarrow> (string + unit) \<times> 'd" where
  "save_index E root stored d =
     (let p = semantic_index_path root
      in case parent p of
           None \<Rightarrow> (Inl (''failed to derive semantic index parent directory for '' @ display_path p), d)
         | Some dir \<Rightarrow>
             (case dk_create_dir_all (se_disk E) dir d of
                (Inl e, d1) \<Rightarrow> (Inl (''failed to create semantic index directory '' @ display_path dir), d1)
              | (Inr u, d1) \<Rightarrow>
                  (case so_tempfile E dir d1 of
                     (None, d2) \<Rightarrow> (Inl (''failed to create temp semantic index in '' @ display_path dir), d2)
                   | (Some temp, d2) \<Rightarrow>
                       (case dk_write (se_disk E) temp (so_encode E stored) d2 of
                          (Inl e, d3) \<Rightarrow> (Inl (''failed to write temp semantic index '' @ display_path temp), so_drop_temp E temp d3)
                        | (Inr v, d3) \<Rightarrow>
                            (case dk_rename (se_disk E) temp p d3 of
                               (Inl e, d4) \<Rightarrow> (Inl (''failed to replace semantic index '' @ display_path p), so_drop_temp E temp d4)
                             | (Inr w, d4) \<Rightarrow> (Inr (), so_drop_temp E temp d4))))))"

section \<open>The search\<close>

definition dot_step :: "('d, 'f, 'g) semantic_env \<Rightarrow> 'g \<times> 'g \<Rightarrow> 'f \<times> 'f \<times> 'f \<Rightarrow> 'f \<times> 'f \<times> 'f" where
  "dot_step E lr acc =
     (case lr of (l, r) \<Rightarrow> case acc of (dot, ln, rn) \<Rightarrow>
        (let A = se_arith E; a = se_widen E l; b = se_widen E r
         in (fa_add A dot (fa_mul A a b), fa_add A ln (fa_mul A a a), fa_add A rn (fa_mul A b b))))"

definition cosine_similarity :: "('d, 'f, 'g) semantic_env \<Rightarrow> 'g list \<Rightarrow> 'g list \<Rightarrow> 'f option" where
  "cosine_similarity E left right =
     (let A = se_arith E; zero = fa_of A 0
      in if left = [] \<or> right = [] \<or> length left \<noteq> length right then None
         else case fold (dot_step E) (zip left right) (zero, zero, zero) of (dot, ln, rn) \<Rightarrow>
           (let denominator = fa_mul A (fa_sqrt A ln) (fa_sqrt A rn)
            in if fa_le A denominator (fa_epsilon A) then None else Some (fa_div A dot denominator)))"

text \<open>The map of stored embeddings by key; a later one of the same key replaces an earlier one.\<close>

definition by_key :: "'g semantic_chunk list \<Rightarrow> (string \<times> 'g semantic_chunk) list" where
  "by_key chunks = fold (\<lambda>c. AList.update (pc_key c) c) chunks []"

definition is_stale :: "(string \<times> 'g semantic_chunk) list \<Rightarrow> index_chunk \<Rightarrow> bool" where
  "is_stale stored c =
     (case map_of stored (chunk_key c) of
        Some s \<Rightarrow> pc_content_hash s \<noteq> source_hash (ic_source c)
      | None \<Rightarrow> True)"

definition embedded :: "index_chunk \<Rightarrow> 'g list \<Rightarrow> 'g semantic_chunk" where
  "embedded c e =
     \<lparr>pc_key = chunk_key c, pc_path = ic_path c, pc_start_line = ic_start_line c, pc_end_line = ic_end_line c,
      pc_name = ic_name c, pc_content_hash = source_hash (ic_source c), pc_embedding = e\<rparr>"

definition insert_embedded ::
  "index_chunk \<times> 'g list \<Rightarrow> (string \<times> 'g semantic_chunk) list \<Rightarrow> (string \<times> 'g semantic_chunk) list" where
  "insert_embedded ce stored = AList.update (chunk_key (fst ce)) (embedded (fst ce) (snd ce)) stored"

text \<open>The stored embeddings without the ones of items that are gone, and whether one was dropped.\<close>

definition retain_valid ::
  "index_chunk list \<Rightarrow> (string \<times> 'g semantic_chunk) list \<Rightarrow> (string \<times> 'g semantic_chunk) list" where
  "retain_valid selected stored = filter (\<lambda>(k, c). k \<in> set (map chunk_key selected)) stored"

definition refresh_embeddings ::
  "('d, 'f, 'g) store_env \<Rightarrow> embedding_config \<Rightarrow> index_chunk list \<Rightarrow> (string \<times> 'g semantic_chunk) list \<Rightarrow> 'd
   \<Rightarrow> (string + (string \<times> 'g semantic_chunk) list \<times> bool) \<times> 'd" where
  "refresh_embeddings E cfg selected stored0 d =
     (let stored = retain_valid selected stored0;
          dirty = (length stored \<noteq> length stored0);
          missing = filter (is_stale stored) selected
      in if missing = [] then (Inr (stored, dirty), d)
         else (case embed_texts (semantic_env.truncate E) cfg (map ic_source missing) d of
                 (Inl e, d1) \<Rightarrow> (Inl e, d1)
               | (Inr es, d1) \<Rightarrow> (Inr (fold insert_embedded (zip missing es) stored, True), d1)))"

definition score_stored ::
  "('d, 'f, 'g) store_env \<Rightarrow> 'g list \<Rightarrow> 'g semantic_chunk \<Rightarrow> 'f semantic_chunk_score option" where
  "score_stored E needle c =
     map_option (\<lambda>s. \<lparr>ss_path = pc_path c, ss_start_line = pc_start_line c, ss_end_line = pc_end_line c,
                    ss_name = pc_name c, ss_score = s\<rparr>)
       (cosine_similarity (semantic_env.truncate E) needle (pc_embedding c))"

text \<open>Three times the wanted number; the product wraps in a release build.\<close>

definition semantic_cap :: "nat option \<Rightarrow> nat" where
  "semantic_cap max_results = (max (or_default 10 max_results) 1 * 3) mod 2 ^ 64"

definition rank_stored ::
  "('d, 'f, 'g) store_env \<Rightarrow> nat option \<Rightarrow> 'g list \<Rightarrow> (string \<times> 'g semantic_chunk) list \<Rightarrow> 'f semantic_chunk_score list" where
  "rank_stored E max_results needle stored =
     take (semantic_cap max_results)
       (sort_key (\<lambda>s. - fa_key (se_arith E) (ss_score s))
         (sort_key (\<lambda>s. byte_key (ss_path s))
           (sort_key ss_start_line
             (List.map_filter (score_stored E needle) (so_order E (map snd stored))))))"

definition save_if_dirty ::
  "('d, 'f, 'g) store_env \<Rightarrow> path \<Rightarrow> 'g stored_index \<Rightarrow> (string \<times> 'g semantic_chunk) list \<Rightarrow> bool \<Rightarrow> 'd
   \<Rightarrow> (string + unit) \<times> 'd" where
  "save_if_dirty E root loaded stored dirty d =
     (if dirty then save_index E root (loaded\<lparr>pi_chunks := sort_key (\<lambda>c. byte_key (pc_key c)) (map snd stored)\<rparr>) d
      else (Inr (), d))"

definition semantic_search ::
  "('d, 'f, 'g) store_env \<Rightarrow> (string \<Rightarrow> string option) \<Rightarrow> path \<Rightarrow> index_chunk list \<Rightarrow> string \<Rightarrow> embedding_config \<Rightarrow> nat option \<Rightarrow> 'd
   \<Rightarrow> (string + 'f semantic_chunk_score list) \<times> 'd" where
  "semantic_search E env root index text0 cfg max_results d =
     (if trim text0 = '''' \<or> index = [] then (Inr [], d)
      else
        (let selected = eligible_chunks env index
         in if selected = [] then (Inr [], d)
            else case load_index E root cfg d of
                Inl e \<Rightarrow> (Inl e, d)
              | Inr loaded \<Rightarrow>
                  (case refresh_embeddings E cfg selected (by_key (pi_chunks loaded)) d of
                     (Inl e, d1) \<Rightarrow> (Inl e, d1)
                   | (Inr (stored, dirty), d1) \<Rightarrow>
                       (case save_if_dirty E root loaded stored dirty d1 of
                          (Inl e, d2) \<Rightarrow> (Inl e, d2)
                        | (Inr u, d2) \<Rightarrow>
                            (case embed_texts (semantic_env.truncate E) cfg [text0] d2 of
                               (Inl e, d3) \<Rightarrow> (Inl e, d3)
                             | (Inr [], d3) \<Rightarrow> (Inr [], d3)
                             | (Inr (e # es), d3) \<Rightarrow>
                                 (Inr (rank_stored E max_results (last (e # es)) stored), d3))))))"

section \<open>The tool\<close>

text \<open>\<open>execute_codebase_search_tool\<close>: the index, both searches and the merge. The state is the disk and the
  index of the process.\<close>

definition execute_codebase_search_tool ::
  "('d, 'f, 'g) store_env \<Rightarrow> 'd index_env \<Rightarrow> (string list \<Rightarrow> string \<Rightarrow> (nat \<times> 'f) list) \<Rightarrow> (string \<Rightarrow> string option)
   \<Rightarrow> tool_operator \<Rightarrow> search_config \<Rightarrow> json \<Rightarrow> 'd \<times> codebase_index \<Rightarrow> ((string + string) \<times> 'd \<times> codebase_index) option" where
  "execute_codebase_search_tool E X bm25 env oper cfg input st =
     (case st of (d, idx0) \<Rightarrow>
        if \<not> sc_enabled cfg then Some (Inl ''codebase_search is disabled by [search].enabled=false'', st)
        else (case required_tool_string input ''codebase_search'' ''query'' of
                Inl e \<Rightarrow> Some (Inl e, st)
              | Inr needle \<Rightarrow>
                  (let max_results = get_u64 input ''max_results''
                   in map_option (\<lambda>(idx, idx1).
                        (let structural = codebase_search (se_arith E) bm25 env needle idx max_results
                         in case embedding_config_from_env env of
                              Inl e \<Rightarrow> (Inl e, d, idx1)
                            | Inr None \<Rightarrow> (Inr (format_search_results needle structural), d, idx1)
                            | Inr (Some ecfg) \<Rightarrow>
                                (case semantic_search E env (op_working_dir oper) idx needle ecfg max_results d of
                                   (Inl e, d1) \<Rightarrow> (Inl e, d1, idx1)
                                 | (Inr scores, d1) \<Rightarrow>
                                     (Inr (format_search_results needle
                                        (merge_search_results (se_arith E) env idx structural scores max_results)), d1, idx1))))
                        (codebase_index_of X (op_working_dir oper) cfg d idx0))))"

end
