(* ===== verification/Walk_Laws.thy ===== *)
theory Walk_Laws
  imports Workspace_Walk Demo_Disk
begin

text \<open>
  The walk through the workspace: with its explicit stack it is the traversal of the visible tree, it returns on
  every tree of bounded depth, and it lists only files whose directories, and which themselves, are inside the
  workspace and not ignored. The literal search gives the first matching lines of these files.
\<close>

section \<open>The traversal\<close>

fun collect_all :: "('a \<Rightarrow> 'e + 'b list) \<Rightarrow> 'a list \<Rightarrow> 'e + 'b list" where
  "collect_all f [] = Inr []"
| "collect_all f (x # xs) =
     (case f x of
        Inl e \<Rightarrow> Inl e
      | Inr a \<Rightarrow> (case collect_all f xs of Inl e \<Rightarrow> Inl e | Inr b \<Rightarrow> Inr (a @ b)))"

text \<open>The files at and below a path, last entry first, to a depth.\<close>

fun visible_files :: "'d disk \<Rightarrow> 'd \<Rightarrow> tool_operator \<Rightarrow> (string \<Rightarrow> bool \<Rightarrow> bool) \<Rightarrow> nat \<Rightarrow> path \<Rightarrow> string + path list" where
  "visible_files D d oper ignored 0 p = Inr (if walk_skips D d oper ignored p then [] else [p])"
| "visible_files D d oper ignored (Suc n) p =
     (if walk_skips D d oper ignored p then Inr []
      else if dk_is_dir D d p then
        (case walk_entries D d oper p of
           Inl e \<Rightarrow> Inl e
         | Inr entries \<Rightarrow> collect_all (visible_files D d oper ignored n) (rev entries))
      else Inr [p])"

text \<open>No directory that is entered lies deeper than \<open>n\<close>.\<close>

fun depth_within :: "'d disk \<Rightarrow> 'd \<Rightarrow> tool_operator \<Rightarrow> (string \<Rightarrow> bool \<Rightarrow> bool) \<Rightarrow> nat \<Rightarrow> path \<Rightarrow> bool" where
  "depth_within D d oper ignored 0 p \<longleftrightarrow> walk_skips D d oper ignored p \<or> \<not> dk_is_dir D d p"
| "depth_within D d oper ignored (Suc n) p \<longleftrightarrow>
     walk_skips D d oper ignored p \<or> \<not> dk_is_dir D d p
     \<or> (case walk_entries D d oper p of
          Inl e \<Rightarrow> True
        | Inr entries \<Rightarrow> list_all (depth_within D d oper ignored n) entries)"

lemma walk_loop_Nil: "walk_loop D d oper ignored [] files = Some (Inr files)"
  by (simp add: walk_loop.simps)

lemma walk_loop_Cons:
  "walk_loop D d oper ignored (p # rest) files =
     (if walk_skips D d oper ignored p then walk_loop D d oper ignored rest files
      else if dk_is_dir D d p then
        (case walk_entries D d oper p of
           Inl e \<Rightarrow> Some (Inl e)
         | Inr entries \<Rightarrow> walk_loop D d oper ignored (rev entries @ rest) files)
      else walk_loop D d oper ignored rest (files @ [p]))"
  by (subst walk_loop.simps) simp

definition walk_continues ::
  "'d disk \<Rightarrow> 'd \<Rightarrow> tool_operator \<Rightarrow> (string \<Rightarrow> bool \<Rightarrow> bool) \<Rightarrow> string + path list \<Rightarrow> path list \<Rightarrow> path list
   \<Rightarrow> (string + path list) option" where
  "walk_continues D d oper ignored found rest files =
     (case found of Inl e \<Rightarrow> Some (Inl e) | Inr a \<Rightarrow> walk_loop D d oper ignored rest (files @ a))"

lemma walk_many:
  assumes "\<forall>p \<in> set ps. \<forall>rest files.
             walk_loop D d oper ignored (p # rest) files = walk_continues D d oper ignored (f p) rest files"
  shows "walk_loop D d oper ignored (ps @ rest) files = walk_continues D d oper ignored (collect_all f ps) rest files"
  using assms
proof (induction ps arbitrary: files)
  case Nil
  then show ?case by (simp add: walk_continues_def)
next
  case (Cons p ps)
  then have "walk_loop D d oper ignored (p # ps @ rest) files = walk_continues D d oper ignored (f p) (ps @ rest) files"
    by simp
  with Cons show ?case
    by (cases "f p") (auto simp: walk_continues_def split: sum.splits)
qed

lemma walk_one:
  "depth_within D d oper ignored n p \<Longrightarrow>
   walk_loop D d oper ignored (p # rest) files
     = walk_continues D d oper ignored (visible_files D d oper ignored n p) rest files"
proof (induction n arbitrary: p rest files)
  case 0
  then show ?case by (auto simp: walk_loop_Cons walk_continues_def)
next
  case (Suc n)
  show ?case
  proof (cases "walk_skips D d oper ignored p \<or> \<not> dk_is_dir D d p")
    case True
    then show ?thesis by (auto simp: walk_loop_Cons walk_continues_def)
  next
    case False
    show ?thesis
    proof (cases "walk_entries D d oper p")
      case (Inl e)
      with False show ?thesis by (simp add: walk_loop_Cons walk_continues_def)
    next
      case (Inr entries)
      with False Suc.prems have "\<forall>q \<in> set (rev entries). depth_within D d oper ignored n q"
        by (simp add: list_all_iff)
      with Suc.IH have "walk_loop D d oper ignored (rev entries @ rest) files
          = walk_continues D d oper ignored (collect_all (visible_files D d oper ignored n) (rev entries)) rest files"
        by (intro walk_many) blast
      with False Inr show ?thesis by (simp add: walk_loop_Cons)
    qed
  qed
qed

lemma walk_returns:
  assumes "depth_within D d oper ignored n root"
  shows "walk_workspace_files_ignoring D oper ignored root d = Some (visible_files D d oper ignored n root)"
  using walk_one [OF assms, of "[]" "[]"]
  by (cases "visible_files D d oper ignored n root")
    (simp_all add: walk_workspace_files_ignoring_def walk_continues_def walk_loop_Nil)

section \<open>What is listed\<close>

text \<open>Every directory from the root down to the path is visible.\<close>

definition open_way :: "'d disk \<Rightarrow> 'd \<Rightarrow> tool_operator \<Rightarrow> (string \<Rightarrow> bool \<Rightarrow> bool) \<Rightarrow> path \<Rightarrow> path \<Rightarrow> bool" where
  "open_way D d oper ignored root p \<longleftrightarrow>
     prefix root p \<and> (\<forall>q. prefix root q \<and> strict_prefix q p \<longrightarrow> \<not> walk_skips D d oper ignored q)"

definition visible_file :: "'d disk \<Rightarrow> 'd \<Rightarrow> tool_operator \<Rightarrow> (string \<Rightarrow> bool \<Rightarrow> bool) \<Rightarrow> path \<Rightarrow> path \<Rightarrow> bool" where
  "visible_file D d oper ignored root p \<longleftrightarrow>
     open_way D d oper ignored root p \<and> \<not> walk_skips D d oper ignored p \<and> \<not> dk_is_dir D d p"

lemma join_name: "join p [Normal name] = p @ [Normal name]"
  by (simp add: join_def is_absolute_def)

lemma open_way_below:
  "open_way D d oper ignored root p \<Longrightarrow> \<not> walk_skips D d oper ignored p
   \<Longrightarrow> open_way D d oper ignored root (p @ [c])"
  by (auto simp: open_way_def strict_prefix_def prefix_snoc)

lemma walk_entries_below:
  "walk_entries D d oper p = Inr entries \<Longrightarrow> q \<in> set entries \<Longrightarrow> \<exists>name. q = p @ [Normal name]"
  by (auto simp: walk_entries_def join_name split: dir_listing.splits)

lemma walk_entries_open:
  assumes "walk_entries D d oper p = Inr entries" "open_way D d oper ignored root p" "\<not> walk_skips D d oper ignored p"
  shows "\<forall>q \<in> set entries. open_way D d oper ignored root q"
  using walk_entries_below [OF assms(1)] open_way_below [OF assms(2,3)] by metis

definition walk_invariant :: "'d disk \<Rightarrow> 'd \<Rightarrow> tool_operator \<Rightarrow> (string \<Rightarrow> bool \<Rightarrow> bool) \<Rightarrow> path \<Rightarrow> path list \<Rightarrow> path list \<Rightarrow> bool" where
  "walk_invariant D d oper ignored root stack files \<longleftrightarrow>
     (\<forall>p \<in> set stack. open_way D d oper ignored root p) \<and> (\<forall>p \<in> set files. visible_file D d oper ignored root p)"

lemma walk_invariant_step:
  assumes "walk_invariant D d oper ignored root (p # rest) files"
  shows "walk_skips D d oper ignored p \<Longrightarrow> walk_invariant D d oper ignored root rest files"
    and "\<not> walk_skips D d oper ignored p \<Longrightarrow> \<not> dk_is_dir D d p \<Longrightarrow> walk_invariant D d oper ignored root rest (files @ [p])"
    and "\<not> walk_skips D d oper ignored p \<Longrightarrow> walk_entries D d oper p = Inr entries
         \<Longrightarrow> walk_invariant D d oper ignored root (rev entries @ rest) files"
  using assms walk_entries_open [of D d oper p entries ignored root]
  by (auto simp: walk_invariant_def visible_file_def)

lemma walk_loop_visible:
  assumes "walk_loop D d oper ignored stack files = Some r"
  shows "walk_invariant D d oper ignored root stack files \<longrightarrow>
         (\<forall>out. r = Inr out \<longrightarrow> (\<forall>p \<in> set out. visible_file D d oper ignored root p))"
proof (rule walk_loop.raw_induct [where P = "\<lambda>D d oper ignored stack files r.
         walk_invariant D d oper ignored root stack files \<longrightarrow>
         (\<forall>out. r = Inr out \<longrightarrow> (\<forall>p \<in> set out. visible_file D d oper ignored root p))", OF _ assms])
  fix walk D d oper ignored stack files r
  assume IH: "\<And>D d oper ignored stack files r. walk D d oper ignored stack files = Some r \<Longrightarrow>
        walk_invariant D d oper ignored root stack files \<longrightarrow>
        (\<forall>out. r = Inr out \<longrightarrow> (\<forall>p \<in> set out. visible_file D d oper ignored root p))"
    and eq: "(case stack of
        [] \<Rightarrow> Some (Inr files)
      | p # rest \<Rightarrow>
          if walk_skips D d oper ignored p then walk D d oper ignored rest files
          else if dk_is_dir D d p then
            (case walk_entries D d oper p of
               Inl e \<Rightarrow> Some (Inl e)
             | Inr entries \<Rightarrow> walk D d oper ignored (rev entries @ rest) files)
          else walk D d oper ignored rest (files @ [p])) = Some r"
  show "walk_invariant D d oper ignored root stack files \<longrightarrow>
        (\<forall>out. r = Inr out \<longrightarrow> (\<forall>p \<in> set out. visible_file D d oper ignored root p))"
  proof
    assume inv: "walk_invariant D d oper ignored root stack files"
    show "\<forall>out. r = Inr out \<longrightarrow> (\<forall>p \<in> set out. visible_file D d oper ignored root p)"
    proof (cases stack)
      case Nil
      with eq inv show ?thesis by (auto simp: walk_invariant_def)
    next
      case (Cons p rest)
      note step = walk_invariant_step [OF inv [unfolded Cons]]
      consider "walk_skips D d oper ignored p" | "\<not> walk_skips D d oper ignored p" "\<not> dk_is_dir D d p"
        | "\<not> walk_skips D d oper ignored p" "dk_is_dir D d p" by blast
      then show ?thesis
      proof cases
        case 1
        with eq Cons have "walk D d oper ignored rest files = Some r" by simp
        from IH [OF this] step(1) [OF 1] show ?thesis by (rule mp)
      next
        case 2
        with eq Cons have "walk D d oper ignored rest (files @ [p]) = Some r" by simp
        from IH [OF this] step(2) [OF 2] show ?thesis by (rule mp)
      next
        case 3
        show ?thesis
        proof (cases "walk_entries D d oper p")
          case (Inl e)
          with 3 eq Cons show ?thesis by auto
        next
          case (Inr entries)
          with 3 eq Cons have "walk D d oper ignored (rev entries @ rest) files = Some r" by simp
          from IH [OF this] step(3) [OF 3(1) Inr] show ?thesis by (rule mp)
        qed
      qed
    qed
  qed
qed

text \<open>C8 [walk_lists_visible]. The files a walk lists are below its root, inside the workspace and not ignored,
  and so is every directory on the way: nothing is listed below an ignored directory or behind a link that leaves the
  workspace. And on every tree of bounded depth the walk, with its stack, returns the traversal of the visible tree.\<close>

theorem walk_lists_visible:
  "(\<forall>files. walk_workspace_files_ignoring D oper ignored root d = Some (Inr files) \<longrightarrow>
       (\<forall>p \<in> set files. prefix root p \<and> \<not> dk_is_dir D d p
          \<and> (\<forall>q. prefix root q \<and> prefix q p \<longrightarrow>
                 within_workspace D d oper q
                 \<and> (walk_relative oper q \<noteq> '''' \<longrightarrow> \<not> ignored (walk_relative oper q) (dk_is_dir D d q)))))
   \<and> (\<forall>n. depth_within D d oper ignored n root \<longrightarrow>
       walk_workspace_files_ignoring D oper ignored root d = Some (visible_files D d oper ignored n root))"
proof (intro conjI allI impI ballI)
  fix files p
  assume walked: "walk_workspace_files_ignoring D oper ignored root d = Some (Inr files)" and p: "p \<in> set files"
  have "walk_invariant D d oper ignored root [root] []"
    by (auto simp: walk_invariant_def open_way_def strict_prefix_def dest: prefix_order.antisym)
  with walk_loop_visible [OF walked [unfolded walk_workspace_files_ignoring_def], of root] p
  have "visible_file D d oper ignored root p" by simp
  then have vis: "prefix root p" "\<not> dk_is_dir D d p" "\<And>q. prefix root q \<Longrightarrow> prefix q p \<Longrightarrow> \<not> walk_skips D d oper ignored q"
    by (auto simp: visible_file_def open_way_def strict_prefix_def)
  then show "prefix root p" "\<not> dk_is_dir D d p" by auto
  fix q
  assume "prefix root q \<and> prefix q p"
  with vis(3) have "\<not> walk_skips D d oper ignored q" by blast
  then show "within_workspace D d oper q"
    and "walk_relative oper q \<noteq> '''' \<Longrightarrow> \<not> ignored (walk_relative oper q) (dk_is_dir D d q)"
    by (auto simp: walk_skips_def)
next
  fix n
  assume "depth_within D d oper ignored n root"
  then show "walk_workspace_files_ignoring D oper ignored root d = Some (visible_files D d oper ignored n root)"
    by (rule walk_returns)
qed

section \<open>The literal search\<close>

definition matching_lines :: "'d search_env \<Rightarrow> tool_operator \<Rightarrow> string \<Rightarrow> path \<Rightarrow> nat \<Rightarrow> string list \<Rightarrow> string list" where
  "matching_lines S oper needle p i ls =
     map (\<lambda>(k, l). match_line oper p k l)
       (filter (\<lambda>(k, l). line_matches_literal_query S needle l) (enumerate i ls))"

definition file_matches :: "'d search_env \<Rightarrow> tool_operator \<Rightarrow> string \<Rightarrow> 'd \<Rightarrow> path \<Rightarrow> string list" where
  "file_matches S oper needle d p =
     (case dk_read_to_string (sx_disk S) d p of
        Inl e \<Rightarrow> []
      | Inr content \<Rightarrow> matching_lines S oper needle p 0 (str_lines content))"

lemma search_lines_take:
  "length results < cap \<Longrightarrow>
   search_lines S oper needle cap p i ls results = take cap (results @ matching_lines S oper needle p i ls)"
proof (induction ls arbitrary: i results)
  case Nil
  then show ?case by (simp add: matching_lines_def)
next
  case (Cons l ls)
  show ?case
  proof (cases "line_matches_literal_query S needle l")
    case False
    with Cons show ?thesis by (simp add: matching_lines_def)
  next
    case True
    have step: "matching_lines S oper needle p i (l # ls)
        = match_line oper p i l # matching_lines S oper needle p (Suc i) ls"
      using True by (simp add: matching_lines_def)
    show ?thesis
    proof (cases "Suc (length results) \<ge> cap")
      case True
      with Cons.prems have "cap = Suc (length results)" by simp
      with \<open>line_matches_literal_query S needle l\<close> show ?thesis by (simp add: step)
    next
      case False
      with \<open>line_matches_literal_query S needle l\<close> Cons.IH [of "results @ [match_line oper p i l]" "Suc i"]
      show ?thesis by (simp add: step)
    qed
  qed
qed

lemma search_each_take:
  "length results < cap \<Longrightarrow>
   search_each S oper needle cap d files results
     = take cap (results @ concat (map (file_matches S oper needle d) files))"
proof (induction files arbitrary: results)
  case Nil
  then show ?case by simp
next
  case (Cons p files)
  show ?case
  proof (cases "dk_read_to_string (sx_disk S) d p")
    case (Inl e)
    with Cons show ?thesis by (simp add: file_matches_def)
  next
    case (Inr content)
    let ?found = "take cap (results @ matching_lines S oper needle p 0 (str_lines content))"
    have found: "search_lines S oper needle cap p 0 (str_lines content) results = ?found"
      by (rule search_lines_take [OF Cons.prems])
    have step: "search_each S oper needle cap d (p # files) results
        = (if length ?found \<ge> cap then ?found else search_each S oper needle cap d files ?found)"
      unfolding search_each.simps Inr sum.case Let_def found ..
    show ?thesis
    proof (cases "length ?found \<ge> cap")
      case True
      then have "search_each S oper needle cap d (p # files) results = ?found" by (simp only: step if_True)
      moreover have "cap \<le> length (results @ matching_lines S oper needle p 0 (str_lines content))"
        using True by (simp only: length_take min.bounded_iff)
      ultimately show ?thesis using Inr by (simp add: file_matches_def)
    next
      case False
      then have "?found = results @ matching_lines S oper needle p 0 (str_lines content)" by simp
      with False Cons.IH [of ?found] show ?thesis unfolding step using Inr by (simp add: file_matches_def)
    qed
  qed
qed

text \<open>The literal search, left as soon as the bound is reached, answers the first
  lines that match, at most 200, in the order of the walk, or says that there are none.\<close>

theorem search_takes_first_matches:
  assumes "resolve_optional_path (sx_disk S) d oper p = Inr root"
    and "walk_workspace_files S oper root d = Some (Inr files)"
    and "trim query_text \<noteq> ''''"
  shows "search_files_tool S oper query_text p max_results d
     = Some (Inr
         (let hits = take (min (max max_results 1) 200)
                       (concat (map (file_matches S oper (trim query_text) d) files))
          in if hits = [] then ''No matches found.'' else join_with [newline] hits))"
proof -
  have "non_empty_trimmed query_text = Some (trim query_text)"
    using assms(3) by (simp add: non_empty_trimmed_def Let_def)
  then show ?thesis
    using assms(1,2)
    by (simp add: search_files_tool_def search_literal_def clamp_usize_def search_each_take Let_def)
qed

section \<open>A small tree\<close>

text \<open>The disk of the examples with its directories listed, and a rule that ignores the directory \<open>t\<close>.\<close>

definition demo_entries :: "files \<Rightarrow> path \<Rightarrow> (string \<times> bool option) list" where
  "demo_entries d p = remdups (List.map_filter (\<lambda>(q, content).
     if prefix p q \<and> length p < length q then
       (case q ! length p of Normal name \<Rightarrow> Some (name, Some (length q > length p + 1)) | _ \<Rightarrow> None)
     else None) d)"

definition demo_tree :: "files disk" where
  "demo_tree = (demo_disk (\<lambda>p. p))\<lparr>dk_read_dir := (\<lambda>d p. Dir_entries (demo_entries d p))\<rparr>"

definition demo_ignore :: "string \<Rightarrow> bool \<Rightarrow> bool" where
  "demo_ignore rel is_dir \<longleftrightarrow> is_dir \<and> rel = ''t''"

definition demo_search :: "files search_env" where
  "demo_search =
     \<lparr>sx_disk = demo_tree, sx_ignore = (\<lambda>d root. demo_ignore), sx_literal = (\<lambda>ci needle l. contains l needle),
      sx_uppercase = (\<lambda>c. False), sx_lower = (\<lambda>s. s), sx_glob = (\<lambda>pattern. None), sx_debug = (\<lambda>s. s),
      sx_escape = (\<lambda>s. s), sx_bytes = (\<lambda>d p. map_of d p), sx_grep = (\<lambda>pattern d p. None),
      sx_diff = (\<lambda>p base. strip_path_prefix base p)\<rparr>"

definition demo_files :: files where
  "demo_files =
     [(demo_root @ [Normal ''a''], ''one'' @ [newline] @ ''two'' @ [newline] @ ''one''),
      (demo_root @ [Normal ''t'', Normal ''b''], ''one'')]"

lemma demo_depth: "depth_within demo_tree demo_files demo_operator demo_ignore 1 demo_root"
  by code_simp

lemma demo_visible:
  "visible_files demo_tree demo_files demo_operator demo_ignore 1 demo_root = Inr [demo_root @ [Normal ''a'']]"
  by code_simp

theorem walk_lists_visible_witness:
  "walk_workspace_files_ignoring demo_tree demo_operator demo_ignore demo_root demo_files
       = Some (Inr [demo_root @ [Normal ''a'']])
   \<and> within_workspace demo_tree demo_files demo_operator (demo_root @ [Normal ''a''])"
proof -
  have walked: "walk_workspace_files_ignoring demo_tree demo_operator demo_ignore demo_root demo_files
       = Some (Inr [demo_root @ [Normal ''a'']])"
    using walk_lists_visible [of demo_tree demo_operator demo_ignore demo_root demo_files] demo_depth demo_visible
    by metis
  then have "within_workspace demo_tree demo_files demo_operator (demo_root @ [Normal ''a''])"
    using walk_lists_visible [of demo_tree demo_operator demo_ignore demo_root demo_files] by simp
  with walked show ?thesis ..
qed

theorem search_takes_first_matches_witness:
  "search_files_tool demo_search demo_operator ''one'' None 1 demo_files = Some (Inr ''a:1:one'')"
proof -
  have root: "resolve_optional_path (sx_disk demo_search) demo_files demo_operator None = Inr demo_root"
    by (simp add: resolve_optional_path_def demo_operator_def)
  have walked: "walk_workspace_files demo_search demo_operator demo_root demo_files
      = Some (Inr [demo_root @ [Normal ''a'']])"
    using walk_returns [OF demo_depth] demo_visible
    by (simp add: walk_workspace_files_def demo_search_def)
  have "file_matches demo_search demo_operator (trim ''one'') demo_files (demo_root @ [Normal ''a''])
      = [''a:1:one'', ''a:3:one'']"
    by code_simp
  moreover have "trim ''one'' \<noteq> ''''" by code_simp
  ultimately show ?thesis
    using search_takes_first_matches [OF root walked, of "''one''" 1] by simp
qed

end
