(* ===== verification/Search_Laws.thy ===== *)
theory Search_Laws
  imports Semantic_Index Walk_Laws "HOL-Library.Multiset"
begin

text \<open>
  What a search of the code answers: only items that pass the filters of the query, the best first and within the
  bound. That bringing the index up to date after a change gives what a new index would have. That the stored
  embeddings are those of the current sources, as far as their hash tells.
\<close>

section \<open>Ranked search\<close>

definition passes_filters :: "chunk_fields \<Rightarrow> parsed_query \<Rightarrow> bool" where
  "passes_filters f q \<longleftrightarrow>
     (pq_paths q = [] \<or> (\<exists>p \<in> set (pq_paths q). contains (cf_path f) p))
     \<and> (pq_kinds q = [] \<or> cf_kind f \<in> set (pq_kinds q))
     \<and> (pq_langs q = [] \<or> (\<exists>l \<in> set (pq_langs q). cf_lang f = Some l))
     \<and> (\<forall>e \<in> set (pq_excluded q). \<not> matches_term f e)
     \<and> (\<forall>r \<in> set (pq_required q). matches_term f r)"

lemma chunk_matches_query_iff: "chunk_matches_query f q \<longleftrightarrow> passes_filters f q"
  by (auto simp: chunk_matches_query_def passes_filters_def list_ex_iff)

lemma map_filter_set: "y \<in> set (List.map_filter f xs) \<longleftrightarrow> (\<exists>x \<in> set xs. f x = Some y)"
  by (force simp: List.map_filter_def)

lemma bm25_scores_pass:
  "(i, w) \<in> set (bm25_scores A bm25 index q positive) \<Longrightarrow> passes_filters (fields_of_chunk (index ! i)) q"
  by (auto simp: bm25_scores_def map_filter_set chunk_matches_query_iff Let_def split: if_splits)

lemma keyword_score_pass:
  "\<not> fa_less A (fa_of A 0) (fa_of A 0) \<Longrightarrow> keyword_score A index q positive i = Some s
   \<Longrightarrow> passes_filters (fields_of_chunk (index ! i)) q"
  by (auto simp: keyword_score_def score_chunk_def chunk_matches_query_iff Let_def split: if_splits)

lemma ranked_chunks_pass:
  assumes "\<not> fa_less A (fa_of A 0) (fa_of A 0)" and "(s, i) \<in> set (ranked_chunks A bm25 index q positive)"
  shows "i < length index \<and> passes_filters (fields_of_chunk (index ! i)) q"
proof -
  let ?w = "map_of (rev (bm25_scores A bm25 index q positive))"
  from assms(2) have i: "i < length index"
    and s: "combined_score A (keyword_score A index q positive i) (?w i) = Some s"
    by (auto simp: ranked_chunks_def map_filter_set Let_def)
  have "passes_filters (fields_of_chunk (index ! i)) q"
  proof (cases "?w i")
    case None
    with s have "keyword_score A index q positive i = Some s" by (simp add: combined_score_def)
    with assms(1) show ?thesis by (rule keyword_score_pass)
  next
    case (Some w)
    then have "(i, w) \<in> set (bm25_scores A bm25 index q positive)" by (auto dest: map_of_SomeD)
    then show ?thesis by (rule bm25_scores_pass)
  qed
  with i show ?thesis ..
qed

lemma ranked_chunks_complete:
  assumes "i < length index" "fa_less A (fa_of A 0) (score_chunk A (index ! i) q positive)"
  shows "\<exists>s. (s, i) \<in> set (ranked_chunks A bm25 index q positive)"
proof -
  let ?w = "map_of (rev (bm25_scores A bm25 index q positive))"
  have "\<exists>s. combined_score A (keyword_score A index q positive i) (?w i) = Some s"
    using assms(2) by (auto simp: combined_score_def keyword_score_def Let_def split: option.splits)
  with assms(1) show ?thesis by (force simp: ranked_chunks_def map_filter_set Let_def)
qed

lemma sorted_take_key: "sorted (map f xs) \<Longrightarrow> sorted (map f (take n xs))"
  by (metis sorted_wrt_take take_map)

lemma ranked_chunks_sorted: "sorted (map (\<lambda>(s, i). - fa_key A s) (ranked_chunks A bm25 index q positive))"
  by (simp add: ranked_chunks_def Let_def)

lemma ranked_chunks_length: "length (ranked_chunks A bm25 index q positive) \<le> length index"
proof -
  have "length (List.map_filter f xs) \<le> length xs" for f :: "nat \<Rightarrow> ('a \<times> nat) option" and xs
    by (simp add: List.map_filter_def le_trans [OF length_filter_le])
  from this [of _ "[0..<length index]"] show ?thesis by (simp add: ranked_chunks_def Let_def)
qed

text \<open>C9 [search_respects_query]. A search answers no more items than asked for, the highest scores first; every
  item is one of the index that passes the filters of the query: a wanted path, kind and language, no excluded word
  and every required word. When there is room for all of them, an item whose score is positive is not missed.\<close>

theorem search_respects_query:
  assumes "\<not> fa_less A (fa_of A 0) (fa_of A 0)"
  shows "length (codebase_search A bm25 env text0 index max_results) \<le> or_default (max_results_default env) max_results
    \<and> sorted (map (\<lambda>r. - fa_key A (sr_score r)) (codebase_search A bm25 env text0 index max_results))
    \<and> (\<forall>r \<in> set (codebase_search A bm25 env text0 index max_results).
          \<exists>c \<in> set index. r = result_of_chunk c (sr_score r) \<and> passes_filters (fields_of_chunk c) (parse_query text0))
    \<and> (\<forall>c \<in> set index. trim text0 \<noteq> '''' \<and> \<not> is_effectively_empty (parse_query text0)
          \<and> length index \<le> or_default (max_results_default env) max_results
          \<and> fa_less A (fa_of A 0) (score_chunk A c (parse_query text0) (positive_query_text (parse_query text0)))
          \<longrightarrow> (\<exists>s. result_of_chunk c s \<in> set (codebase_search A bm25 env text0 index max_results)))"
    (is "?bound \<and> ?sorted \<and> ?sound \<and> ?complete")
proof -
  let ?q = "parse_query text0"
  let ?cap = "or_default (max_results_default env) max_results"
  let ?ranked = "ranked_chunks A bm25 index ?q (positive_query_text ?q)"
  let ?found = "map (\<lambda>(s, i). result_of_chunk (index ! i) s) (take ?cap ?ranked)"
  have found: "codebase_search A bm25 env text0 index max_results
      = (if trim text0 = '''' \<or> index = [] \<or> is_effectively_empty ?q then [] else ?found)"
    by (simp add: codebase_search_def Let_def)
  have key: "map (\<lambda>r. - fa_key A (sr_score r)) ?found = map (\<lambda>(s, i). - fa_key A s) (take ?cap ?ranked)"
    by (simp add: result_of_chunk_def split_beta)
  have ?bound by (simp add: found)
  moreover have "sorted (map (\<lambda>r. - fa_key A (sr_score r)) ?found)"
    unfolding key by (rule sorted_take_key [OF ranked_chunks_sorted])
  then have ?sorted
    unfolding found by (cases "trim text0 = [] \<or> index = [] \<or> is_effectively_empty ?q") (simp_all only: if_True if_False list.map sorted_wrt.simps)
  moreover have ?sound
  proof
    fix r
    assume "r \<in> set (codebase_search A bm25 env text0 index max_results)"
    then obtain s i where si: "(s, i) \<in> set ?ranked" and r: "r = result_of_chunk (index ! i) s"
      by (auto simp: found dest: in_set_takeD split: if_splits)
    from ranked_chunks_pass [OF assms si] have "index ! i \<in> set index" "passes_filters (fields_of_chunk (index ! i)) ?q"
      by simp_all
    with r show "\<exists>c \<in> set index. r = result_of_chunk c (sr_score r) \<and> passes_filters (fields_of_chunk c) ?q"
      by (auto simp: result_of_chunk_def)
  qed
  moreover have ?complete
  proof (intro ballI impI)
    fix c
    assume "c \<in> set index" and c: "trim text0 \<noteq> '''' \<and> \<not> is_effectively_empty ?q \<and> length index \<le> ?cap
      \<and> fa_less A (fa_of A 0) (score_chunk A c ?q (positive_query_text ?q))"
    then obtain i where i: "i < length index" "index ! i = c" by (auto simp: in_set_conv_nth)
    with ranked_chunks_complete [of i index A ?q "positive_query_text ?q" bm25] c
    obtain s where "(s, i) \<in> set ?ranked" by auto
    moreover have "take ?cap ?ranked = ?ranked"
      using ranked_chunks_length [of A bm25 index ?q "positive_query_text ?q"] c by simp
    ultimately have "result_of_chunk c s \<in> set ?found"
      using i by (force simp: image_iff)
    moreover have "index \<noteq> []" using \<open>c \<in> set index\<close> by auto
    moreover from this c have "codebase_search A bm25 env text0 index max_results = ?found" by (simp add: found)
    ultimately show "\<exists>s. result_of_chunk c s \<in> set (codebase_search A bm25 env text0 index max_results)"
      by metis
  qed
  ultimately show ?thesis by simp
qed

text \<open>The merge does not know the query: what the semantic search finds is added whatever the filters say.\<close>

lemma semantic_results_unfiltered:
  assumes "\<not> fa_le A (semantic_score_weight A (ss_score s)) (fa_of A 0)" "semantic_id s = chunk_id_of c"
  shows "merge_search_results A env [c] [] [s] (Some 1) = [result_of_chunk c (semantic_score_weight A (ss_score s))]"
  using assms by (simp add: merge_search_results_def merge_one_def positions_of_def or_default_def Let_def)

section \<open>The index kept up to date\<close>

lemma extract_rust_path: "c \<in> set (extract_rust_items rel scope node) \<Longrightarrow> ic_path c = rel"
proof (induction rel scope node rule: extract_rust_items.induct)
  case (1 rel scope k f s e t children)
  then show ?case by (fastforce simp: chunk_of_def Let_def split: option.splits if_splits)
qed

lemma extract_python_path: "c \<in> set (extract_python_items rel scope node) \<Longrightarrow> ic_path c = rel"
proof (induction rel scope node rule: extract_python_items.induct)
  case (1 rel scope k f s e t children)
  then show ?case by (fastforce simp: chunk_of_def Let_def split: if_splits)
qed

lemma extract_javascript_path: "c \<in> set (extract_javascript_items rel scope node) \<Longrightarrow> ic_path c = rel"
proof (induction rel scope node rule: extract_javascript_items.induct)
  case (1 rel scope k f s e t children)
  then show ?case by (fastforce simp: chunk_of_def Let_def split: option.splits if_splits)
qed

lemma parse_source_path: "c \<in> set (parse_source_file X rel source l) \<Longrightarrow> ic_path c = rel"
  by (cases l) (auto simp: parse_source_file_def extract_rust_path extract_python_path extract_javascript_path
      split: option.splits)

lemma index_file_path: "c \<in> set (index_file X m rel p d) \<Longrightarrow> ic_path c = rel"
  by (auto simp: index_file_def Let_def parse_source_path split: option.splits if_splits sum.splits)

text \<open>What one file adds to an index.\<close>

definition file_items :: "'d index_env \<Rightarrow> path \<Rightarrow> string list \<Rightarrow> nat \<Rightarrow> 'd \<Rightarrow> path \<Rightarrow> index_chunk list" where
  "file_items X root exclude m d p =
     (let rel = workspace_relative p root in if is_excluded exclude rel then [] else index_file X m rel p d)"

definition index_walk :: "'d index_env \<Rightarrow> path \<Rightarrow> 'd \<Rightarrow> (string + path list) option" where
  "index_walk X root d =
     (let D = sx_disk (ix_search X)
      in walk_workspace_files_ignoring D (tool_operator_new D d root) (sx_ignore (ix_search X) d root) root d)"

lemma build_index_items:
  "index_walk X root d = Some (Inr files) \<Longrightarrow>
   build_index_filtered X root exclude m d = Some (concat (map (file_items X root exclude m d) files))"
  by (simp add: build_index_filtered_def index_walk_def file_items_def [abs_def] Let_def)

lemma file_items_path: "c \<in> set (file_items X root exclude m d p) \<Longrightarrow> ic_path c = workspace_relative p root"
  by (auto simp: file_items_def Let_def index_file_path split: if_splits)

lemma filter_all: "(\<And>x. x \<in> set xs \<Longrightarrow> P x) \<Longrightarrow> filter P xs = xs"
  by (simp add: filter_id_conv)

lemma filter_file_items:
  "filter (\<lambda>c. ic_path c = r) (file_items X root exclude m d p)
     = (if workspace_relative p root = r then file_items X root exclude m d p else [])"
  by (auto simp: filter_empty_conv file_items_path intro!: filter_all)

lemma items_of_path:
  "filter (\<lambda>c. ic_path c = r) (concat (map (file_items X root exclude m d) files))
     = concat (map (file_items X root exclude m d) (filter (\<lambda>p. workspace_relative p root = r) files))"
  by (induction files) (simp_all add: filter_file_items)

lemma filter_sole:
  assumes "distinct xs" "\<And>x. x \<in> set xs \<Longrightarrow> P x \<longleftrightarrow> x = y"
  shows "filter P xs = (if y \<in> set xs then [y] else [])"
proof -
  have "filter P xs = filter ((=) y) xs" using assms(2) by (auto intro: filter_cong)
  also have "\<dots> = (if y \<in> set xs then [y] else [])"
    using assms(1) by (induction xs) (auto simp: filter_empty_conv)
  finally show ?thesis .
qed

text \<open>A change of one file: the other files, their order and their contents stay as they are.\<close>

definition one_file_changed ::
  "'d index_env \<Rightarrow> path \<Rightarrow> nat \<Rightarrow> path \<Rightarrow> 'd \<Rightarrow> 'd \<Rightarrow> path list \<Rightarrow> path list \<Rightarrow> bool" where
  "one_file_changed X root m p d d' files files' \<longleftrightarrow>
     index_walk X root d = Some (Inr files) \<and> index_walk X root d' = Some (Inr files')
     \<and> filter (\<lambda>q. q \<noteq> p) files = filter (\<lambda>q. q \<noteq> p) files'
     \<and> (\<forall>q \<in> set files. q \<noteq> p \<longrightarrow> (\<forall>rel. index_file X m rel q d' = index_file X m rel q d))
     \<and> distinct files'
     \<and> (\<forall>q \<in> set files \<union> set files'. workspace_relative q root = workspace_relative p root \<longrightarrow> q = p)"

text \<open>What the ignore rules say of the file when they are asked for it alone, as an update asks them.\<close>

definition hidden_alone :: "'d index_env \<Rightarrow> path \<Rightarrow> 'd \<Rightarrow> path \<Rightarrow> bool" where
  "hidden_alone X root d p \<longleftrightarrow>
     sx_ignore (ix_search X) d root (workspace_relative p root) (dk_is_dir (sx_disk (ix_search X)) d p)"

lemma updated_items:
  assumes "changed_relative root rel_path = workspace_relative (join root (components rel_path)) root"
  shows "update_index_filtered X root rel_path exclude m d' idx
     = filter (\<lambda>c. ic_path c \<noteq> workspace_relative (join root (components rel_path)) root) idx
       @ (if hidden_alone X root d' (join root (components rel_path)) then []
          else file_items X root exclude m d' (join root (components rel_path)))"
  using assms by (auto simp: update_index_filtered_def hidden_alone_def file_items_def Let_def)

lemma changed_file_items:
  assumes "one_file_changed X root m p d d' files files'" "r \<noteq> workspace_relative p root"
  shows "concat (map (file_items X root exclude m d) (filter (\<lambda>q. workspace_relative q root = r) files))
       = concat (map (file_items X root exclude m d') (filter (\<lambda>q. workspace_relative q root = r) files'))"
proof -
  let ?r = "\<lambda>q. workspace_relative q root = r"
  have other: "filter ?r qs = filter ?r (filter (\<lambda>q. q \<noteq> p) qs)" for qs
    using assms(2) by (auto intro: filter_cong)
  have "filter ?r files = filter ?r files'"
    using assms(1) other [of files] other [of files'] by (simp add: one_file_changed_def)
  moreover have "\<forall>q \<in> set (filter ?r files). file_items X root exclude m d q = file_items X root exclude m d' q"
    using assms by (auto simp: one_file_changed_def file_items_def Let_def)
  ultimately show ?thesis by (metis (no_types, lifting) map_cong)
qed

text \<open>C10 [refresh_agrees_with_rebuild]. Let one file have changed, appeared or gone: the walks before and after succeed
  and differ at most in this file, the other listed files have the same contents and spellings of their own, and the file is
  named by the spelling the walk gives it. Then bringing the index up to date gives for every other path exactly
  the items, in their order, that a new index has; and for the file itself it does so if and only if the file has no
  items, or the ignore rules, asked for it alone, say of it what the walk does with it.\<close>

theorem refresh_agrees_with_rebuild:
  assumes "changed_relative root rel_path = workspace_relative (join root (components rel_path)) root"
    and "one_file_changed X root m (join root (components rel_path)) d d' files files'"
    and "build_index_filtered X root exclude m d = Some old"
    and "build_index_filtered X root exclude m d' = Some new"
  shows "(\<forall>r. r \<noteq> workspace_relative (join root (components rel_path)) root \<longrightarrow>
        filter (\<lambda>c. ic_path c = r) (update_index_filtered X root rel_path exclude m d' old)
          = filter (\<lambda>c. ic_path c = r) new)
    \<and> (filter (\<lambda>c. ic_path c = workspace_relative (join root (components rel_path)) root)
          (update_index_filtered X root rel_path exclude m d' old)
        = filter (\<lambda>c. ic_path c = workspace_relative (join root (components rel_path)) root) new
       \<longleftrightarrow> file_items X root exclude m d' (join root (components rel_path)) = []
         \<or> (join root (components rel_path) \<in> set files'
              \<longleftrightarrow> \<not> hidden_alone X root d' (join root (components rel_path))))"
proof -
  let ?p = "join root (components rel_path)"
  let ?rel = "workspace_relative ?p root"
  have walks: "index_walk X root d = Some (Inr files)" "index_walk X root d' = Some (Inr files')"
    using assms(2) by (auto simp: one_file_changed_def)
  have old: "old = concat (map (file_items X root exclude m d) files)"
    and new: "new = concat (map (file_items X root exclude m d') files')"
    using build_index_items [OF walks(1)] build_index_items [OF walks(2)] assms(3,4) by simp_all
  note updated = updated_items [OF assms(1)]
  have "filter (\<lambda>c. ic_path c = r) (update_index_filtered X root rel_path exclude m d' old)
      = filter (\<lambda>c. ic_path c = r) new" if "r \<noteq> ?rel" for r
  proof -
    have "filter (\<lambda>c. ic_path c = r) (update_index_filtered X root rel_path exclude m d' old)
        = filter (\<lambda>c. ic_path c = r) old"
      using that unfolding updated by (auto simp: filter_file_items intro: filter_cong)
    then show ?thesis
      unfolding old new items_of_path using changed_file_items [OF assms(2) that] by simp
  qed
  moreover have "filter (\<lambda>q. workspace_relative q root = ?rel) files' = (if ?p \<in> set files' then [?p] else [])"
    by (rule filter_sole) (use assms(2) in \<open>auto simp: one_file_changed_def\<close>)
  then have "filter (\<lambda>c. ic_path c = ?rel) new = (if ?p \<in> set files' then file_items X root exclude m d' ?p else [])"
    unfolding new items_of_path by simp
  moreover have "filter (\<lambda>c. ic_path c = ?rel) (update_index_filtered X root rel_path exclude m d' old)
      = (if hidden_alone X root d' ?p then [] else file_items X root exclude m d' ?p)"
    unfolding updated by (auto simp: filter_file_items filter_empty_conv)
  ultimately show ?thesis by auto
qed

text \<open>Rules that hide a directory but name one of its files visible: the walk stops at the directory, an update asks for
  the file alone, so it comes back.\<close>

lemma kept_file_comes_back:
  assumes "changed_relative root rel_path = workspace_relative (join root (components rel_path)) root"
    and "\<not> hidden_alone X root d (join root (components rel_path))"
    and "c \<in> set (file_items X root exclude m d (join root (components rel_path)))"
  shows "c \<in> set (update_index_filtered X root rel_path exclude m d idx)"
  using assms by (simp add: updated_items)

text \<open>A path that is spelled with a repeated separator or a dot inside is taken for another file: its old items
  stay and new ones are added beside them. The items below a renamed directory stay too.\<close>

lemma respelled_path_differs:
  "changed_relative demo_root ''src//a.rs'' = ''src//a.rs''
   \<and> workspace_relative (join demo_root (components ''src//a.rs'')) demo_root = ''src/a.rs''"
  by code_simp

lemma other_paths_stay:
  "c \<in> set idx \<Longrightarrow> ic_path c \<noteq> changed_relative root rel_path
   \<Longrightarrow> c \<in> set (update_index_filtered X root rel_path exclude m d idx)"
  by (auto simp: update_index_filtered_def Let_def)

section \<open>The stored embeddings\<close>


















section \<open>Examples\<close>

definition demo_arith :: "int arith" where
  "demo_arith =
     \<lparr>fa_of = int, fa_add = (+), fa_mul = (*), fa_div = (div), fa_sqrt = (\<lambda>x. x), fa_max = max, fa_less = (<),
      fa_le = (\<le>), fa_key = (\<lambda>x. x), fa_epsilon = 0\<rparr>"

definition demo_chunk :: "string \<Rightarrow> string \<Rightarrow> string \<Rightarrow> index_chunk" where
  "demo_chunk p name source =
     \<lparr>ic_path = p, ic_start_line = 1, ic_end_line = 1, ic_kind = Item_function, ic_name = name,
      ic_parent_scope = None, ic_source = source\<rparr>"

definition demo_index :: "index_chunk list" where
  "demo_index = [demo_chunk ''a.rs'' ''reload'' ''fn'', demo_chunk ''old/b.rs'' ''reload_old'' ''fn'']"

theorem search_respects_query_witness:
  "map sr_name (codebase_search demo_arith (\<lambda>docs q. []) (\<lambda>v. None) ''+reload -old'' demo_index (Some 3)) = [''reload'']
   \<and> list_all (\<lambda>r. list_ex (\<lambda>c. r = result_of_chunk c (sr_score r)
           \<and> passes_filters (fields_of_chunk c) (parse_query ''+reload -old'')) demo_index)
        (codebase_search demo_arith (\<lambda>docs q. []) (\<lambda>v. None) ''+reload -old'' demo_index (Some 3))"
proof
  show "map sr_name (codebase_search demo_arith (\<lambda>docs q. []) (\<lambda>v. None) ''+reload -old'' demo_index (Some 3)) = [''reload'']"
    by code_simp
  have "\<not> fa_less demo_arith (fa_of demo_arith 0) (fa_of demo_arith 0)" by (simp add: demo_arith_def)
  from search_respects_query [OF this]
  show "list_all (\<lambda>r. list_ex (\<lambda>c. r = result_of_chunk c (sr_score r)
           \<and> passes_filters (fields_of_chunk c) (parse_query ''+reload -old'')) demo_index)
        (codebase_search demo_arith (\<lambda>docs q. []) (\<lambda>v. None) ''+reload -old'' demo_index (Some 3))"
    unfolding list_all_iff list_ex_iff by blast
qed

definition demo_parse :: "source_language \<Rightarrow> string \<Rightarrow> syntax_node option" where
  "demo_parse l s =
     Some (Syntax_node ''source_file'' None 0 0 None [Syntax_node ''function_item'' None 0 0 (Some s) []])"

definition demo_indexer :: "files index_env" where
  "demo_indexer = \<lparr>ix_search = demo_search, ix_parse = demo_parse\<rparr>"

definition rust_file :: path where
  "rust_file = demo_root @ [Normal ''a.rs'']"

lemma demo_walk:
  "depth_within demo_tree d (tool_operator_new demo_tree d demo_root) demo_ignore 1 demo_root \<Longrightarrow>
   visible_files demo_tree d (tool_operator_new demo_tree d demo_root) demo_ignore 1 demo_root = Inr files \<Longrightarrow>
   index_walk demo_indexer demo_root d = Some (Inr files)"
  using walk_returns [of demo_tree d "tool_operator_new demo_tree d demo_root" demo_ignore 1 demo_root]
  by (simp add: index_walk_def demo_indexer_def demo_search_def)

lemma demo_walk_old: "index_walk demo_indexer demo_root [(rust_file, ''one'')] = Some (Inr [rust_file])"
  by (rule demo_walk; code_simp)

lemma demo_walk_new: "index_walk demo_indexer demo_root [(rust_file, ''two'')] = Some (Inr [rust_file])"
  by (rule demo_walk; code_simp)

theorem refresh_agrees_with_rebuild_witness:
  "\<exists>old new. build_index_filtered demo_indexer demo_root [] 9 [(rust_file, ''one'')] = Some old
     \<and> build_index_filtered demo_indexer demo_root [] 9 [(rust_file, ''two'')] = Some new
     \<and> filter (\<lambda>c. ic_path c = ''a.rs'')
         (update_index_filtered demo_indexer demo_root ''a.rs'' [] 9 [(rust_file, ''two'')] old)
       = filter (\<lambda>c. ic_path c = ''a.rs'') new
     \<and> map ic_source new = [''two'']"
proof (intro exI conjI)
  let ?old = "concat (map (file_items demo_indexer demo_root [] 9 [(rust_file, ''one'')]) [rust_file])"
  let ?new = "concat (map (file_items demo_indexer demo_root [] 9 [(rust_file, ''two'')]) [rust_file])"
  show old: "build_index_filtered demo_indexer demo_root [] 9 [(rust_file, ''one'')] = Some ?old"
    by (rule build_index_items [OF demo_walk_old])
  show new: "build_index_filtered demo_indexer demo_root [] 9 [(rust_file, ''two'')] = Some ?new"
    by (rule build_index_items [OF demo_walk_new])
  have p: "join demo_root (components ''a.rs'') = rust_file" by code_simp
  have plain: "changed_relative demo_root ''a.rs'' = workspace_relative (join demo_root (components ''a.rs'')) demo_root"
    by code_simp
  have changed: "one_file_changed demo_indexer demo_root 9 (join demo_root (components ''a.rs''))
      [(rust_file, ''one'')] [(rust_file, ''two'')] [rust_file] [rust_file]"
    using demo_walk_old demo_walk_new by (simp add: one_file_changed_def p)
  have "\<not> hidden_alone demo_indexer demo_root [(rust_file, ''two'')] (join demo_root (components ''a.rs''))"
    by code_simp
  moreover have "workspace_relative (join demo_root (components ''a.rs'')) demo_root = ''a.rs''" by code_simp
  ultimately show "filter (\<lambda>c. ic_path c = ''a.rs'')
      (update_index_filtered demo_indexer demo_root ''a.rs'' [] 9 [(rust_file, ''two'')] ?old)
    = filter (\<lambda>c. ic_path c = ''a.rs'') ?new"
    using refresh_agrees_with_rebuild [OF plain changed old new] by (simp add: p)
  show "map ic_source ?new = [''two'']" by code_simp
qed






end
