(* ===== verification/Task_Facade.thy ===== *)
theory Task_Facade
  imports Task_Store Subtasks Workspace_Walk
begin

text \<open>
  The facade through which the terminal, the HTTP server and the command line reach saved tasks
  (\<open>src/app/task_facade.rs\<close>, \<open>agents.rs\<close>, \<open>query.rs\<close>, \<open>schedule.rs\<close>, \<open>projection.rs\<close>): lists and graphs of
  tasks, the state of one session task, delegating to an agent or a team under a lock, releasing, and the
  projections that are written after every change. The state is the disk and the header cache; the readings of the clock
  in one operation are one argument, and so are the random parts of identifiers.
\<close>

section \<open>The agents file and work trees\<close>

text \<open>
  The agents file and the leases of work trees (\<open>src/agents.rs\<close>, \<open>src/runtime/worktree_lease.rs\<close>), and the small
  language of operations they and the task facade are written in: an operation runs on a state, fails with an error
  or returns a value; one that never returns is \<open>None\<close>. The TOML decoder, the JSON form of a lease and git are
  parameters.
\<close>

section \<open>Operations\<close>

type_synonym ('s, 'e, 'a) io = "'s \<Rightarrow> (('e + 'a) \<times> 's) option"

definition io_ok :: "'a \<Rightarrow> ('s, 'e, 'a) io" where
  "io_ok a = (\<lambda>s. Some (Inr a, s))"

definition io_fail :: "'e \<Rightarrow> ('s, 'e, 'a) io" where
  "io_fail e = (\<lambda>s. Some (Inl e, s))"

definition io_bind :: "('s, 'e, 'a) io \<Rightarrow> ('a \<Rightarrow> ('s, 'e, 'b) io) \<Rightarrow> ('s, 'e, 'b) io" where
  "io_bind m f = (\<lambda>s. case m s of
       None \<Rightarrow> None
     | Some (Inl e, t) \<Rightarrow> Some (Inl e, t)
     | Some (Inr a, t) \<Rightarrow> f a t)"

definition io_then :: "('s, 'e, 'a) io \<Rightarrow> ('s, 'e, 'b) io \<Rightarrow> ('s, 'e, 'b) io" where
  "io_then m n = io_bind m (\<lambda>_. n)"

text \<open>An operation that is tried: its error is a value.\<close>

definition io_try :: "('s, 'e, 'a) io \<Rightarrow> ('s, 'f, 'e + 'a) io" where
  "io_try m = (\<lambda>s. case m s of None \<Rightarrow> None | Some (r, t) \<Rightarrow> Some (Inr r, t))"

definition io_map_error :: "('e \<Rightarrow> 'f) \<Rightarrow> ('s, 'e, 'a) io \<Rightarrow> ('s, 'f, 'a) io" where
  "io_map_error g m = io_bind (io_try m) (\<lambda>r. case r of Inl e \<Rightarrow> io_fail (g e) | Inr a \<Rightarrow> io_ok a)"

fun io_each :: "('a \<Rightarrow> ('s, 'e, 'b) io) \<Rightarrow> 'a list \<Rightarrow> ('s, 'e, 'b list) io" where
  "io_each f [] = io_ok []"
| "io_each f (x # xs) = io_bind (f x) (\<lambda>y. io_bind (io_each f xs) (\<lambda>ys. io_ok (y # ys)))"

definition io_sys :: "string \<Rightarrow> ('d \<Rightarrow> (io_error + 'a) \<times> 'd) \<Rightarrow> ('d, string, 'a) io" where
  "io_sys message f = (\<lambda>d. case f d of
       (Inl e, d1) \<Rightarrow> Some (Inl message, d1)
     | (Inr a, d1) \<Rightarrow> Some (Inr a, d1))"

definition io_step :: "('d \<Rightarrow> ('e + 'a) \<times> 'd) \<Rightarrow> ('d, 'e, 'a) io" where
  "io_step f = (\<lambda>d. Some (f d))"

definition io_read :: "('d \<Rightarrow> 'e + 'a) \<Rightarrow> ('d, 'e, 'a) io" where
  "io_read f = (\<lambda>d. Some (f d, d))"

definition io_ask :: "('d \<Rightarrow> 'a) \<Rightarrow> ('d, 'e, 'a) io" where
  "io_ask f = (\<lambda>d. Some (Inr (f d), d))"

section \<open>The agents file\<close>

record agents_config =
  agc_profiles :: "agent_profile list"
  agc_teams :: "team_definition list"

record agents_env =
  ag_toml :: "string \<Rightarrow> agents_config option"
  ag_escape :: "string \<Rightarrow> string"

definition MAX_CONFIG_NAME_LEN :: nat where
  "MAX_CONFIG_NAME_LEN = 64"

definition WINDOWS_RESERVED_DEVICE_NAMES :: "string list" where
  "WINDOWS_RESERVED_DEVICE_NAMES =
     [''CON'', ''PRN'', ''AUX'', ''NUL'', ''COM1'', ''COM2'', ''COM3'', ''COM4'', ''COM5'', ''COM6'', ''COM7'', ''COM8'',
      ''COM9'', ''LPT1'', ''LPT2'', ''LPT3'', ''LPT4'', ''LPT5'', ''LPT6'', ''LPT7'', ''LPT8'', ''LPT9'']"

definition ascii_upper :: "string \<Rightarrow> string" where
  "ascii_upper s =
     map (\<lambda>c. if 97 \<le> byte_val c \<and> byte_val c \<le> 122 then char_of (byte_val c - 32) else c) s"

text \<open>\<open>char::is_control\<close>: C0, delete and C1.\<close>

definition is_control :: "string \<Rightarrow> bool" where
  "is_control c =
     (case map byte_val c of
        [b] \<Rightarrow> b < 32 \<or> b = 127
      | [a, b] \<Rightarrow> a = 194 \<and> b < 160
      | _ \<Rightarrow> False)"

definition unsafe_marks :: string where
  "unsafe_marks = ''/'' @ [CHR 0x5C] @ '':*?'' @ [CHR 0x22] @ ''<>|''"

definition is_filesystem_safe :: "string \<Rightarrow> bool" where
  "is_filesystem_safe name \<longleftrightarrow>
     name \<noteq> '''' \<and> name \<noteq> ''.'' \<and> name \<noteq> ''..'' \<and> \<not> ends_with name '' '' \<and> \<not> ends_with name ''.''
     \<and> list_all (\<lambda>c. \<not> is_control c \<and> \<not> (length c = 1 \<and> hd c \<in> set unsafe_marks)) (utf8_chars name)
     \<and> ascii_upper (hd (split_char CHR ''.'' name)) \<notin> set WINDOWS_RESERVED_DEVICE_NAMES"

definition quoted :: "string \<Rightarrow> string" where
  "quoted s = [CHR 0x27] @ s @ [CHR 0x27]"

text \<open>The checks of a name, in their order.\<close>

definition check_name :: "agents_env \<Rightarrow> string \<Rightarrow> path \<Rightarrow> string list \<Rightarrow> string \<Rightarrow> string + unit" where
  "check_name A kind p seen name =
     (let shown = quoted (ag_escape A name); place = '' in '' @ quoted (display_path p)
      in if name = '''' then Inl (kind @ '' name must not be empty'' @ place)
         else if length name > MAX_CONFIG_NAME_LEN then
           Inl (kind @ '' name '' @ shown @ '' exceeds '' @ nat_dec MAX_CONFIG_NAME_LEN @ ''-byte limit'' @ place)
         else if \<not> is_filesystem_safe name then
           Inl (kind @ '' name '' @ shown @ '' contains characters unsafe for filesystem paths'' @ place)
         else if name \<in> set seen then Inl (''duplicate '' @ kind @ '' name '' @ shown @ place)
         else Inr ())"

fun check_agents :: "agents_env \<Rightarrow> path \<Rightarrow> string list \<Rightarrow> agent_profile list \<Rightarrow> string + unit" where
  "check_agents A p seen [] = Inr ()"
| "check_agents A p seen (a # as) =
     (case check_name A ''agent'' p seen (agp_name a) of
        Inl e \<Rightarrow> Inl e
      | Inr u \<Rightarrow> check_agents A p (agp_name a # seen) as)"

definition validate_agent_names :: "agents_env \<Rightarrow> agents_config \<Rightarrow> path \<Rightarrow> string + unit" where
  "validate_agent_names A cfg p = check_agents A p [] (agc_profiles cfg)"

fun check_members :: "agents_env \<Rightarrow> agents_config \<Rightarrow> path \<Rightarrow> string \<Rightarrow> string list \<Rightarrow> string list \<Rightarrow> string + unit" where
  "check_members A cfg p team seen [] = Inr ()"
| "check_members A cfg p team seen (name # names) =
     (if name \<in> set seen then
        Inl (''team '' @ quoted (ag_escape A team) @ '' contains duplicate member '' @ quoted (ag_escape A name)
             @ '' in '' @ quoted (display_path p))
      else if name \<notin> set (map agp_name (agc_profiles cfg)) then
        Inl (''team '' @ quoted (ag_escape A team) @ '' references unknown agent '' @ quoted (ag_escape A name)
             @ '' in '' @ quoted (display_path p) @ ''; known agents: [''
             @ join_with '', '' (map (\<lambda>a. ag_escape A (agp_name a)) (agc_profiles cfg)) @ '']'')
      else check_members A cfg p team (name # seen) names)"

fun check_teams :: "agents_env \<Rightarrow> agents_config \<Rightarrow> path \<Rightarrow> string list \<Rightarrow> team_definition list \<Rightarrow> string + unit" where
  "check_teams A cfg p seen [] = Inr ()"
| "check_teams A cfg p seen (t # ts) =
     (case check_name A ''team'' p seen (tm_name t) of
        Inl e \<Rightarrow> Inl e
      | Inr u \<Rightarrow>
          if tm_members t = [] then
            Inl (''team '' @ quoted (ag_escape A (tm_name t)) @ '' must have at least one member in '' @ quoted (display_path p))
          else (case check_members A cfg p (tm_name t) [] (tm_members t) of
                  Inl e \<Rightarrow> Inl e
                | Inr v \<Rightarrow> check_teams A cfg p (tm_name t # seen) ts))"

definition validate_team_members :: "agents_env \<Rightarrow> agents_config \<Rightarrow> path \<Rightarrow> string + unit" where
  "validate_team_members A cfg p = check_teams A cfg p [] (agc_teams cfg)"

definition MUTABLE_CAPABILITIES :: "string list" where
  "MUTABLE_CAPABILITIES = [''apply-patch'', ''run-command'', ''write-file'']"

definition section_sign :: string where
  "section_sign = [CHR 0xC2, CHR 0xA7]"

definition shared_agent_error :: "path \<Rightarrow> agent_profile \<Rightarrow> string option" where
  "shared_agent_error p a =
     (if agp_isolation a \<noteq> Shared then None
      else if agp_max_parallel_tasks a > 1 then
        Some (''agent '' @ quoted (agp_name a) @ '' uses shared isolation but max_parallel_tasks=''
              @ nat_dec (agp_max_parallel_tasks a) @ '' in '' @ quoted (display_path p)
              @ ''; shared isolation requires max_parallel_tasks=1'')
      else map_option (\<lambda>cap. ''agent '' @ quoted (agp_name a) @ '' uses shared isolation but declares mutable capability ''
              @ quoted cap @ '' in '' @ quoted (display_path p)
              @ ''; shared isolation is read-only per ADR-034 '' @ section_sign @ ''3'')
             (List.find (\<lambda>cap. cap \<in> set MUTABLE_CAPABILITIES) (agp_allowed_capabilities a)))"

definition validate_isolation_invariants :: "agents_config \<Rightarrow> path \<Rightarrow> string + unit" where
  "validate_isolation_invariants cfg p =
     (case find_map (shared_agent_error p) (agc_profiles cfg) of Some e \<Rightarrow> Inl e | None \<Rightarrow> Inr ())"

definition validate_agents :: "agents_env \<Rightarrow> agents_config \<Rightarrow> path \<Rightarrow> string + unit" where
  "validate_agents A cfg p =
     (case validate_agent_names A cfg p of
        Inl e \<Rightarrow> Inl e
      | Inr u \<Rightarrow>
          (case validate_team_members A cfg p of
             Inl e \<Rightarrow> Inl e
           | Inr v \<Rightarrow> validate_isolation_invariants cfg p))"

text \<open>From the directory upwards; the fuel is the number of components of the path.\<close>

fun find_agents_from :: "(path \<Rightarrow> bool) \<Rightarrow> nat \<Rightarrow> path \<Rightarrow> path option" where
  "find_agents_from exists_path n dir =
     (let candidate = join dir [Normal ''.vex'', Normal ''agents.toml'']
      in if exists_path candidate then Some candidate
         else case n of
             0 \<Rightarrow> None
           | Suc m \<Rightarrow> Option.bind (parent dir) (find_agents_from exists_path m))"

declare find_agents_from.simps [simp del]

definition find_agents_config :: "(path \<Rightarrow> bool) \<Rightarrow> path \<Rightarrow> path option" where
  "find_agents_config exists_path cwd = find_agents_from exists_path (length cwd) cwd"

definition load_agents_config_from_path :: "agents_env \<Rightarrow> 'd disk \<Rightarrow> path \<Rightarrow> 'd \<Rightarrow> string + agents_config option" where
  "load_agents_config_from_path A D p d =
     (case dk_read_to_string D d p of
        Inl e \<Rightarrow> if io_not_found e then Inr None else Inl (''failed to read '' @ quoted (display_path p))
      | Inr content \<Rightarrow>
          (case ag_toml A content of
             None \<Rightarrow> Inl (''invalid agents config in '' @ quoted (display_path p))
           | Some cfg \<Rightarrow> (case validate_agents A cfg p of Inl e \<Rightarrow> Inl e | Inr u \<Rightarrow> Inr (Some cfg))))"

definition load_agents_config :: "agents_env \<Rightarrow> 'd disk \<Rightarrow> path \<Rightarrow> 'd \<Rightarrow> string + agents_config option" where
  "load_agents_config A D cwd d =
     (case find_agents_config (dk_exists D d) cwd of
        Some p \<Rightarrow> load_agents_config_from_path A D p d
      | None \<Rightarrow> Inr None)"

section \<open>Leases of work trees\<close>

record worktree_lease =
  wl_task_id :: string
  wl_parent_task_id :: "string option"
  wl_path :: path
  wl_acquired_at :: nat

record 'd lease_env =
  ls_disk :: "'d disk"
  ls_worktree_add :: "path \<Rightarrow> path \<Rightarrow> 'd \<Rightarrow> bool \<times> 'd" \<comment> \<open>in a directory, the path; whether git succeeded\<close>
  ls_worktree_remove :: "path \<Rightarrow> path \<Rightarrow> 'd \<Rightarrow> bool \<times> 'd"
  ls_remove_dir_all :: "path \<Rightarrow> 'd \<Rightarrow> (io_error + unit) \<times> 'd"
  ls_remove_file :: "path \<Rightarrow> 'd \<Rightarrow> (io_error + unit) \<times> 'd"
  ls_encode :: "worktree_lease \<Rightarrow> string"
  ls_decode :: "string \<Rightarrow> worktree_lease option"

definition lease_root :: "path \<Rightarrow> path" where
  "lease_root state_dir = join state_dir [Normal ''worktrees'']"

definition metadata_root :: "path \<Rightarrow> path" where
  "metadata_root state_dir = join state_dir [Normal ''worktree-leases'']"

definition metadata_path :: "path \<Rightarrow> string \<Rightarrow> path" where
  "metadata_path state_dir task_id = join (metadata_root state_dir) (components (task_id @ ''.json''))"

definition make_dir :: "'d lease_env \<Rightarrow> path \<Rightarrow> ('d, string, unit) io" where
  "make_dir L p = io_sys (''failed to create '' @ display_path p) (dk_create_dir_all (ls_disk L) p)"

definition lease_for_task ::
  "'d lease_env \<Rightarrow> path \<Rightarrow> string \<Rightarrow> string option \<Rightarrow> nat \<Rightarrow> ('d, string, worktree_lease) io" where
  "lease_for_task L state_dir task_id parent_task_id now =
     io_then (make_dir L (lease_root state_dir))
     (io_then (make_dir L (metadata_root state_dir))
     (let p = join (lease_root state_dir) (components task_id);
          lease = \<lparr>wl_task_id = task_id, wl_parent_task_id = parent_task_id, wl_path = p, wl_acquired_at = now\<rparr>
      in io_bind (io_step (\<lambda>d. case ls_worktree_add L state_dir p d of (ok, d1) \<Rightarrow> (Inr ok, d1)))
           (\<lambda>ok. io_then (if ok then io_ok () else make_dir L p)
           (io_then (io_step (write_bytes_safe (ls_disk L) (metadata_path state_dir task_id) (ls_encode L lease) ''worktree lease''))
              (io_ok lease)))))"

definition lease_load :: "'d lease_env \<Rightarrow> path \<Rightarrow> string \<Rightarrow> ('d, string, worktree_lease) io" where
  "lease_load L state_dir task_id =
     io_read (\<lambda>d. case dk_read_to_string (ls_disk L) d (metadata_path state_dir task_id) of
         Inl e \<Rightarrow> Inl (''failed to read lease metadata for '' @ task_id)
       | Inr content \<Rightarrow> (case ls_decode L content of Some lease \<Rightarrow> Inr lease | None \<Rightarrow> Inl ''deserialize worktree lease''))"

definition lease_release :: "'d lease_env \<Rightarrow> path \<Rightarrow> string \<Rightarrow> ('d, string, unit) io" where
  "lease_release L state_dir task_id =
     io_bind (io_ask (\<lambda>d. dk_exists (ls_disk L) d (metadata_path state_dir task_id))) (\<lambda>known.
       if \<not> known then io_ok ()
       else io_bind (lease_load L state_dir task_id) (\<lambda>lease.
         io_bind (io_ask (\<lambda>d. dk_exists (ls_disk L) d (wl_path lease))) (\<lambda>there.
         io_then
           (if \<not> there then io_ok ()
            else io_bind (io_step (\<lambda>d. case ls_worktree_remove L state_dir (wl_path lease) d of (ok, d1) \<Rightarrow> (Inr ok, d1)))
                   (\<lambda>ok. if ok then io_ok ()
                         else io_sys (''failed to remove '' @ display_path (wl_path lease)) (ls_remove_dir_all L (wl_path lease))))
           (io_sys (''failed to remove lease metadata for '' @ task_id) (ls_remove_file L (metadata_path state_dir task_id))))))"

definition is_lease_file :: "string \<Rightarrow> bool" where
  "is_lease_file name \<longleftrightarrow> file_extension name = Some ''json''"

definition read_lease :: "'d lease_env \<Rightarrow> path \<Rightarrow> string \<Rightarrow> ('d, string, worktree_lease) io" where
  "read_lease L root name =
     io_read (\<lambda>d. case dk_read_to_string (ls_disk L) d (join root [Normal name]) of
         Inl e \<Rightarrow> Inl (''failed to read '' @ display_path (join root [Normal name]))
       | Inr content \<Rightarrow> (case ls_decode L content of Some lease \<Rightarrow> Inr lease | None \<Rightarrow> Inl ''deserialize worktree lease''))"

definition lease_list :: "'d lease_env \<Rightarrow> path \<Rightarrow> ('d, string, worktree_lease list) io" where
  "lease_list L state_dir =
     (let root = metadata_root state_dir
      in io_bind (io_ask (\<lambda>d. dk_exists (ls_disk L) d root)) (\<lambda>known.
           if \<not> known then io_ok []
           else io_bind (io_ask (\<lambda>d. dk_read_dir (ls_disk L) d root)) (\<lambda>listing.
             case listing of
               Dir_entries entries \<Rightarrow>
                 io_bind (io_each (read_lease L root) (filter is_lease_file (map fst entries)))
                   (\<lambda>leases. io_ok (sort_key (\<lambda>l. byte_key (wl_task_id l)) leases))
             | _ \<Rightarrow> io_fail (''failed to read '' @ display_path root))))"

section \<open>The facade\<close>

record 'd facade_state =
  fs_disk :: 'd
  fs_cache :: header_cache

record graph_rollup =
  gr_id :: string
  gr_parent_task_id :: string
  gr_agent_id :: string
  gr_lifecycle_state :: string
  gr_worktree_path :: "string option"
  gr_started_at_ms :: "nat option"
  gr_updated_at_ms :: nat
  gr_handoff_summary :: "string option"

record graph_node =
  gn_id :: string
  gn_status :: string
  gn_agent_id :: "string option"
  gn_session_tasks :: "graph_rollup list"

record todo_item =
  ti_id :: string
  ti_parent_task_id :: string
  ti_agent_id :: string
  ti_lifecycle_state :: string

record 'd facade_env =
  fe_store :: "'d task_store_env"
  fe_agents :: agents_env
  fe_lease :: "'d lease_env"
  fe_lock :: "path \<Rightarrow> 'd \<Rightarrow> (string + unit) \<times> 'd" \<comment> \<open>opening and locking a file\<close>
  fe_graph :: "nat \<Rightarrow> graph_node list \<Rightarrow> string"
  fe_todos :: "nat \<Rightarrow> todo_item list \<Rightarrow> string"

type_synonym ('d, 'e, 'a) facade = "('d facade_state, 'e, 'a) io"

abbreviation (input) facade_disk :: "'d facade_env \<Rightarrow> 'd disk" where
  "facade_disk F \<equiv> te_disk (fe_store F)"

definition io_on_disk :: "('d, 'e, 'a) io \<Rightarrow> ('d, 'e, 'a) facade" where
  "io_on_disk m = (\<lambda>s. map_option (\<lambda>(r, d). (r, s\<lparr>fs_disk := d\<rparr>)) (m (fs_disk s)))"

definition io_load :: "'d facade_env \<Rightarrow> nat \<Rightarrow> path \<Rightarrow> string \<Rightarrow> ('d, string, task_state) facade" where
  "io_load F now dir name = (\<lambda>s. map_option (\<lambda>r. (r, s)) (task_load (fe_store F) now dir name (fs_disk s)))"

definition io_save :: "'d facade_env \<Rightarrow> path \<Rightarrow> task_state \<Rightarrow> ('d, string, unit) facade" where
  "io_save F dir state = io_on_disk (io_step (task_save (fe_store F) dir state))"

definition io_find ::
  "'d facade_env \<Rightarrow> nat \<Rightarrow> path \<Rightarrow> string \<Rightarrow> ('d, string, (task_state \<times> session_task) option) facade" where
  "io_find F now wd i = (\<lambda>s. map_option (\<lambda>(r, c). (r, s\<lparr>fs_cache := c\<rparr>))
     (find_session_task_in_saved_states (fe_store F) now wd i (fs_disk s) (fs_cache s)))"

definition io_counts :: "'d facade_env \<Rightarrow> path \<Rightarrow> ('d, 'e, string \<Rightarrow> nat) facade" where
  "io_counts F wd = (\<lambda>s.
     case live_session_task_counts_from (fe_store F) wd (fs_disk s) (fs_cache s) of
       (counts, c) \<Rightarrow> Some (Inr counts, s\<lparr>fs_cache := c\<rparr>))"

definition io_state_dir :: "'d facade_env \<Rightarrow> path \<Rightarrow> ('d, 'e, path) facade" where
  "io_state_dir F wd = io_ask (\<lambda>s. state_dir_from (fe_store F) wd (fs_disk s))"

definition facade_files :: "'d facade_env \<Rightarrow> path \<Rightarrow> ('d, 'e, task_state_file list) facade" where
  "facade_files F wd = io_ask (\<lambda>s. state_files_from_with_limit (fe_store F) wd (max_scans (fe_store F)) (fs_disk s))"

section \<open>Queries\<close>

fun session_status_display :: "session_task_status \<Rightarrow> string" where
  "session_status_display Pending_task = ''pending''"
| "session_status_display Running_task = ''running''"
| "session_status_display Blocked_task = ''blocked''"
| "session_status_display Failed_task = ''failed''"
| "session_status_display Cancelled_task = ''cancelled''"
| "session_status_display Completed_task = ''completed''"

definition parse_session_task_status :: "string \<Rightarrow> session_task_status option" where
  "parse_session_task_status s = map_of
     [(''pending'', Pending_task), (''running'', Running_task), (''blocked'', Blocked_task), (''failed'', Failed_task),
      (''cancelled'', Cancelled_task), (''completed'', Completed_task)] s"

definition session_task_to_rollup :: "session_task \<Rightarrow> graph_rollup" where
  "session_task_to_rollup t =
     \<lparr>gr_id = stk_id t, gr_parent_task_id = stk_parent_task_id t, gr_agent_id = stk_agent_id t,
      gr_lifecycle_state = session_status_display (stk_lifecycle_state t), gr_worktree_path = stk_worktree_path t,
      gr_started_at_ms = stk_started_at t, gr_updated_at_ms = stk_updated_at t,
      gr_handoff_summary = stk_handoff_summary t\<rparr>"

definition todo_of_task :: "session_task \<Rightarrow> todo_item" where
  "todo_of_task t =
     \<lparr>ti_id = stk_id t, ti_parent_task_id = stk_parent_task_id t, ti_agent_id = stk_agent_id t,
      ti_lifecycle_state = session_status_display (stk_lifecycle_state t)\<rparr>"

definition live_tasks :: "task_state \<Rightarrow> session_task list" where
  "live_tasks state = filter (is_live \<circ> stk_lifecycle_state) (ts_session_tasks state)"

definition graph_node_of :: "task_state \<Rightarrow> graph_node" where
  "graph_node_of state =
     \<lparr>gn_id = ts_id state, gn_status = task_status_display (ts_status state), gn_agent_id = ts_agent_id state,
      gn_session_tasks = map session_task_to_rollup (ts_session_tasks state)\<rparr>"

record facade_task_summary =
  tsm_id :: string
  tsm_status :: string
  tsm_parent_task_id :: "string option"
  tsm_agent_id :: "string option"
  tsm_session_task_count :: nat
  tsm_live_session_task_count :: nat

definition summary_of_state :: "task_state \<Rightarrow> facade_task_summary" where
  "summary_of_state state =
     \<lparr>tsm_id = ts_id state, tsm_status = task_status_display (ts_status state),
      tsm_parent_task_id = ts_parent_task_id state, tsm_agent_id = ts_agent_id state,
      tsm_session_task_count = length (ts_session_tasks state), tsm_live_session_task_count = length (live_tasks state)\<rparr>"

text \<open>Every state file of the scan; the first that cannot be loaded is the error.\<close>

definition all_states :: "'d facade_env \<Rightarrow> nat \<Rightarrow> path \<Rightarrow> ('d, string, task_state list) facade" where
  "all_states F now wd = io_bind (facade_files F wd) (io_each (\<lambda>f. io_load F now (tf_dir f) (tf_id f)))"

definition facade_list_tasks :: "'d facade_env \<Rightarrow> nat \<Rightarrow> path \<Rightarrow> ('d, string, facade_task_summary list) facade" where
  "facade_list_tasks F now wd = io_bind (all_states F now wd) (\<lambda>states. io_ok (map summary_of_state states))"

definition facade_list_session_tasks :: "'d facade_env \<Rightarrow> nat \<Rightarrow> path \<Rightarrow> ('d, string, graph_rollup list) facade" where
  "facade_list_session_tasks F now wd =
     io_bind (all_states F now wd) (\<lambda>states. io_ok (map session_task_to_rollup (concat (map ts_session_tasks states))))"

definition facade_get_session_task ::
  "'d facade_env \<Rightarrow> nat \<Rightarrow> path \<Rightarrow> string \<Rightarrow> ('d, string, graph_rollup option) facade" where
  "facade_get_session_task F now wd i =
     io_bind (io_find F now wd i) (\<lambda>found. io_ok (map_option (session_task_to_rollup \<circ> snd) found))"

definition facade_task_graph :: "'d facade_env \<Rightarrow> nat \<Rightarrow> path \<Rightarrow> ('d, string, graph_node list) facade" where
  "facade_task_graph F now wd = io_bind (all_states F now wd) (\<lambda>states. io_ok (map graph_node_of states))"

definition facade_list_todos :: "'d facade_env \<Rightarrow> nat \<Rightarrow> path \<Rightarrow> ('d, string, todo_item list) facade" where
  "facade_list_todos F now wd =
     io_bind (all_states F now wd) (\<lambda>states. io_ok (map todo_of_task (concat (map live_tasks states))))"

section \<open>Projections\<close>

definition projections_dir :: "path \<Rightarrow> path" where
  "projections_dir state_dir = join state_dir [Normal ''projections'']"

definition io_raw :: "('d \<Rightarrow> (io_error + 'a) \<times> 'd) \<Rightarrow> ('d, string, 'a) io" where
  "io_raw f = (\<lambda>d. case f d of (Inl e, d1) \<Rightarrow> Some (Inl (io_message e), d1) | (Inr a, d1) \<Rightarrow> Some (Inr a, d1))"

text \<open>The state files that can be loaded; the others are left out.\<close>

definition readable_states :: "'d facade_env \<Rightarrow> nat \<Rightarrow> path \<Rightarrow> ('d, string, task_state list) facade" where
  "readable_states F now wd =
     io_bind (facade_files F wd) (\<lambda>files.
     io_bind (io_each (\<lambda>f. io_try (io_load F now (tf_dir f) (tf_id f))) files) (\<lambda>rs.
     io_ok (List.map_filter (\<lambda>r. case r of Inl (e :: string) \<Rightarrow> None | Inr state \<Rightarrow> Some state) rs)))"

definition write_projection_rollup :: "'d facade_env \<Rightarrow> nat \<Rightarrow> path \<Rightarrow> ('d, string, unit) facade" where
  "write_projection_rollup F now wd =
     io_bind (io_state_dir F wd) (\<lambda>state_dir.
     io_then (io_on_disk (io_raw (dk_create_dir_all (facade_disk F) (projections_dir state_dir))))
     (io_bind (readable_states F now wd) (\<lambda>states.
     io_then (io_on_disk (io_step (write_bytes_safe (facade_disk F) (join (projections_dir state_dir) [Normal ''task-graph.json''])
                (fe_graph F now (map graph_node_of states)) ''task-graph projection'')))
       (io_on_disk (io_step (write_bytes_safe (facade_disk F) (join (projections_dir state_dir) [Normal ''todos.json''])
                (fe_todos F now (map todo_of_task (concat (map live_tasks states)))) ''todos projection''))))))"

text \<open>The callers log a failure and go on.\<close>

definition try_projection :: "'d facade_env \<Rightarrow> nat \<Rightarrow> path \<Rightarrow> ('d, 'e, unit) facade" where
  "try_projection F now wd = io_bind (io_try (write_projection_rollup F now wd)) (\<lambda>r. io_ok ())"

section \<open>The state of a session task\<close>

datatype session_status_error = Session_not_found | Invalid_status | Transition_not_allowed | Status_internal string

definition facade_update_session_task_status ::
  "'d facade_env \<Rightarrow> nat \<Rightarrow> path \<Rightarrow> string \<Rightarrow> string \<Rightarrow> ('d, session_status_error, graph_rollup) facade" where
  "facade_update_session_task_status F now wd i status_str =
     (case parse_session_task_status status_str of
        None \<Rightarrow> io_fail Invalid_status
      | Some new_status \<Rightarrow>
          io_bind (io_state_dir F wd) (\<lambda>state_dir.
          io_bind (io_map_error Status_internal (io_find F now wd i)) (\<lambda>found.
            case found of
              None \<Rightarrow> io_fail Session_not_found
            | Some (owner, existing) \<Rightarrow>
                if \<not> is_live (stk_lifecycle_state existing) then io_fail Transition_not_allowed
                else
                  (let updated = snd (update_session_task_status now now now i new_status owner)
                   in io_then (io_map_error Status_internal (io_save F state_dir updated))
                        (case find_session_task i updated of
                           None \<Rightarrow> io_fail (Status_internal ''session task missing after save'')
                         | Some t \<Rightarrow> io_then (try_projection F now wd) (io_ok (session_task_to_rollup t)))))))"

definition facade_release_session_task :: "'d facade_env \<Rightarrow> nat \<Rightarrow> path \<Rightarrow> string \<Rightarrow> ('d, string, bool) facade" where
  "facade_release_session_task F now wd i =
     io_bind (io_state_dir F wd) (\<lambda>state_dir.
     io_bind (io_find F now wd i) (\<lambda>found.
       case found of
         None \<Rightarrow> io_ok False
       | Some (owner, t) \<Rightarrow>
           io_then
             (if (case find_session_task i owner of Some u \<Rightarrow> is_live (stk_lifecycle_state u) | None \<Rightarrow> False)
              then io_save F state_dir (snd (update_session_task_status now now now i Completed_task owner))
              else io_ok ())
           (io_bind (io_try (io_on_disk (lease_load (fe_lease F) state_dir i))) (\<lambda>lease.
             io_then (case lease of Inl (e :: string) \<Rightarrow> io_ok () | Inr l \<Rightarrow> io_on_disk (lease_release (fe_lease F) state_dir i))
               (io_then (try_projection F now wd) (io_ok True))))))"

record watch_rollup =
  wr_kind :: string
  wr_id :: string
  wr_parent_task_id :: "string option"
  wr_agent_id :: "string option"
  wr_status :: string
  wr_worktree_path :: "string option"

definition facade_watch_rollup :: "'d facade_env \<Rightarrow> nat \<Rightarrow> path \<Rightarrow> string \<Rightarrow> ('d, string, watch_rollup option) facade" where
  "facade_watch_rollup F now wd i = (\<lambda>s.
     case load_from_search_dirs_from (fe_store F) now wd i (fs_disk s) of
       None \<Rightarrow> None
     | Some (Inr state) \<Rightarrow>
         Some (Inr (Some \<lparr>wr_kind = ''task'', wr_id = ts_id state, wr_parent_task_id = ts_parent_task_id state,
                          wr_agent_id = ts_agent_id state, wr_status = task_status_display (ts_status state),
                          wr_worktree_path = ts_worktree_path state\<rparr>), s)
     | Some (Inl e) \<Rightarrow>
         io_bind (io_find F now wd i) (\<lambda>found. io_ok (map_option (\<lambda>(owner, t).
           \<lparr>wr_kind = ''session-task'', wr_id = stk_id t, wr_parent_task_id = Some (ts_id owner),
            wr_agent_id = Some (stk_agent_id t), wr_status = session_status_display (stk_lifecycle_state t),
            wr_worktree_path = stk_worktree_path t\<rparr>) found)) s)"

section \<open>Delegating\<close>

definition MAX_DELEGATE_PROMPT_BYTES :: nat where
  "MAX_DELEGATE_PROMPT_BYTES = 65536"

fun team_scheduler_name :: "team_scheduler \<Rightarrow> string" where
  "team_scheduler_name FanOutJoin = ''fan_out_join''"
| "team_scheduler_name Sequential = ''sequential''"

datatype delegate_error =
    Agent_not_found | Agents_config_missing | Team_not_found | Parent_task_id_required | Prompt_required
  | Concurrency_limit_reached | Prompt_too_long | Delegate_internal string

definition with_delegate_lock ::
  "'d facade_env \<Rightarrow> path \<Rightarrow> ('d, delegate_error, 'a) facade \<Rightarrow> ('d, delegate_error, 'a) facade" where
  "with_delegate_lock F state_dir operation =
     io_then (io_map_error Delegate_internal (io_on_disk (io_raw (dk_create_dir_all (facade_disk F) state_dir))))
     (io_then (io_map_error Delegate_internal
                (io_on_disk (io_step (fe_lock F (join state_dir [Normal ''.delegate-session-task.lock''])))))
        operation)"

text \<open>The work tree of a new session task of an agent that needs one.\<close>

definition leased_task ::
  "'d facade_env \<Rightarrow> nat \<Rightarrow> path \<Rightarrow> string \<Rightarrow> agent_profile \<Rightarrow> session_task \<Rightarrow> ('d, string, session_task) facade" where
  "leased_task F now state_dir parent_task_id agent t =
     (if agp_isolation agent = Worktree then
        io_bind (io_on_disk (lease_for_task (fe_lease F) state_dir (stk_id t) (Some parent_task_id) now))
          (\<lambda>lease. io_ok (t\<lparr>stk_worktree_path := Some (display_path (wl_path lease))\<rparr>))
      else io_ok t)"

definition delegate_locked ::
  "'d facade_env \<Rightarrow> nat \<Rightarrow> string \<Rightarrow> path \<Rightarrow> path \<Rightarrow> string \<Rightarrow> agent_profile \<Rightarrow> string
   \<Rightarrow> ('d, delegate_error, string \<times> string) facade" where
  "delegate_locked F now uuid wd state_dir parent_task_id agent prompt =
     io_bind (io_counts F wd) (\<lambda>counts.
       if counts (agp_name agent) \<ge> agp_max_parallel_tasks agent then io_fail Concurrency_limit_reached
       else
         io_bind (io_try (io_load F now state_dir parent_task_id)) (\<lambda>loaded.
           let owner = (case loaded of Inr state \<Rightarrow> state | Inl (e :: string) \<Rightarrow> task_state_new now parent_task_id);
               t0 = stamp_join_supersedes (ts_session_tasks owner) False
                      (session_task_new uuid now parent_task_id (agp_name agent) prompt None)
           in io_bind (io_map_error Delegate_internal (leased_task F now state_dir parent_task_id agent t0)) (\<lambda>t.
              io_bind (io_try (io_save F state_dir (add_session_task now t owner))) (\<lambda>saved.
                case saved of
                  Inl e \<Rightarrow>
                    io_then (if agp_isolation agent = Worktree
                             then io_bind (io_try (io_on_disk (lease_release (fe_lease F) state_dir (stk_id t))))
                                    (\<lambda>(r :: string + unit). io_ok ())
                             else io_ok ())
                      (io_fail (Delegate_internal e))
                | Inr u \<Rightarrow> io_then (try_projection F now wd) (io_ok (parent_task_id, stk_id t))))))"

definition read_agents :: "'d facade_env \<Rightarrow> path \<Rightarrow> ('d, delegate_error, agents_config) facade" where
  "read_agents F wd =
     io_bind (io_map_error Delegate_internal (io_read (\<lambda>s. load_agents_config (fe_agents F) (facade_disk F) wd (fs_disk s))))
       (\<lambda>cfg. case cfg of None \<Rightarrow> io_fail Agents_config_missing | Some c \<Rightarrow> io_ok c)"

definition facade_delegate_session_task ::
  "'d facade_env \<Rightarrow> nat \<Rightarrow> string \<Rightarrow> path \<Rightarrow> string option \<Rightarrow> string \<Rightarrow> string
   \<Rightarrow> ('d, delegate_error, string \<times> string) facade" where
  "facade_delegate_session_task F now uuid wd parent_task_id agent_id prompt =
     (case parent_task_id of
        None \<Rightarrow> io_fail Parent_task_id_required
      | Some owner \<Rightarrow>
          if trim owner = '''' then io_fail Parent_task_id_required
          else if length prompt > MAX_DELEGATE_PROMPT_BYTES then io_fail Prompt_too_long
          else
            io_bind (read_agents F wd) (\<lambda>cfg.
              case List.find (\<lambda>a. agp_name a = agent_id) (agc_profiles cfg) of
                None \<Rightarrow> io_fail Agent_not_found
              | Some agent \<Rightarrow>
                  io_bind (io_state_dir F wd) (\<lambda>state_dir.
                    with_delegate_lock F state_dir (delegate_locked F now uuid wd state_dir owner agent prompt))))"

section \<open>Scheduling a team\<close>

definition unknown_member :: "string \<Rightarrow> string \<Rightarrow> string" where
  "unknown_member team_name member_name =
     ''team '' @ quoted team_name @ '' references unknown agent member '' @ quoted member_name"

fun check_limits ::
  "agents_config \<Rightarrow> string \<Rightarrow> (string \<Rightarrow> nat) \<Rightarrow> string list \<Rightarrow> delegate_error + unit" where
  "check_limits cfg team_name counts [] = Inr ()"
| "check_limits cfg team_name counts (name # names) =
     (case List.find (\<lambda>a. agp_name a = name) (agc_profiles cfg) of
        None \<Rightarrow> Inl (Delegate_internal (unknown_member team_name name))
      | Some agent \<Rightarrow>
          if counts name \<ge> agp_max_parallel_tasks agent then Inl Concurrency_limit_reached
          else check_limits cfg team_name counts names)"

text \<open>The loop of \<open>SubtaskOrchestrator::schedule_team\<close>, with the leases on the disk.\<close>

fun spawn_on_disk ::
  "'d facade_env \<Rightarrow> nat \<Rightarrow> (nat \<Rightarrow> string) \<Rightarrow> path \<Rightarrow> string \<Rightarrow> agent_profile list \<Rightarrow> string \<Rightarrow> bool \<Rightarrow> string list
   \<Rightarrow> string list \<Rightarrow> task_state \<Rightarrow> ('d, string, string list \<times> task_state) facade" where
  "spawn_on_disk F now uuid state_dir owner agents prompt sequential [] ids state = io_ok (ids, state)"
| "spawn_on_disk F now uuid state_dir owner agents prompt sequential (name # names) ids state =
     (case List.find (\<lambda>a. agp_name a = name) agents of
        None \<Rightarrow> io_fail (''agent '' @ quoted name @ '' not found in provided agent list'')
      | Some agent \<Rightarrow>
          (let t0 = stamp_join_supersedes (ts_session_tasks state) sequential
                      (session_task_new (uuid (length (ts_session_tasks state))) now owner name prompt None)
           in io_bind (leased_task F now state_dir owner agent t0) (\<lambda>t.
                spawn_on_disk F now uuid state_dir owner agents prompt sequential names (ids @ [stk_id t0])
                  (add_session_task now t state))))"

definition schedule_on_disk ::
  "'d facade_env \<Rightarrow> nat \<Rightarrow> (nat \<Rightarrow> string) \<Rightarrow> path \<Rightarrow> string \<Rightarrow> team_definition \<Rightarrow> agent_profile list \<Rightarrow> string
   \<Rightarrow> ('d, string, string list) facade" where
  "schedule_on_disk F now uuid state_dir owner team agents prompt =
     (if tm_members team = [] then io_fail (''team '' @ quoted (tm_name team) @ '' has no members'')
      else
        io_bind (io_ask (\<lambda>s. dk_exists (facade_disk F) (fs_disk s) (state_file_path state_dir owner))) (\<lambda>known.
        io_bind (if known then io_load F now state_dir owner else io_ok (task_state_new now owner)) (\<lambda>state.
        io_bind (spawn_on_disk F now uuid state_dir owner agents prompt (tm_scheduler team = Sequential)
                   (case tm_scheduler team of FanOutJoin \<Rightarrow> tm_members team | Sequential \<Rightarrow> take 1 (tm_members team)) [] state)
          (\<lambda>(ids, final).
             io_then (io_on_disk (io_raw (dk_create_dir_all (facade_disk F) state_dir)))
               (io_then (io_save F state_dir final) (io_ok ids))))))"

text \<open>Slicing the members of a sequential team that has none panics; the validation of the file excludes it.\<close>

definition schedule_locked ::
  "'d facade_env \<Rightarrow> nat \<Rightarrow> (nat \<Rightarrow> string) \<Rightarrow> path \<Rightarrow> path \<Rightarrow> string \<Rightarrow> agents_config \<Rightarrow> team_definition \<Rightarrow> string
   \<Rightarrow> ('d, delegate_error, string list \<times> string) facade" where
  "schedule_locked F now uuid wd state_dir owner cfg team prompt =
     (if tm_scheduler team = Sequential \<and> tm_members team = [] then (\<lambda>s. None)
      else
        io_bind (io_counts F wd) (\<lambda>counts.
          case check_limits cfg (tm_name team) counts
                 (case tm_scheduler team of FanOutJoin \<Rightarrow> tm_members team | Sequential \<Rightarrow> take 1 (tm_members team)) of
            Inl e \<Rightarrow> io_fail e
          | Inr u \<Rightarrow>
              io_bind (io_map_error Delegate_internal
                         (schedule_on_disk F now uuid state_dir owner team (agc_profiles cfg) prompt)) (\<lambda>ids.
                io_then (try_projection F now wd) (io_ok (ids, team_scheduler_name (tm_scheduler team))))))"

definition facade_schedule_team ::
  "'d facade_env \<Rightarrow> nat \<Rightarrow> (nat \<Rightarrow> string) \<Rightarrow> path \<Rightarrow> string \<Rightarrow> string \<Rightarrow> string
   \<Rightarrow> ('d, delegate_error, string list \<times> string) facade" where
  "facade_schedule_team F now uuid wd owner team_name prompt =
     (if trim owner = '''' then io_fail Parent_task_id_required
      else if trim prompt = '''' then io_fail Prompt_required
      else if length prompt > MAX_DELEGATE_PROMPT_BYTES then io_fail Prompt_too_long
      else
        io_bind (read_agents F wd) (\<lambda>cfg.
          case List.find (\<lambda>t. tm_name t = team_name) (agc_teams cfg) of
            None \<Rightarrow> io_fail Team_not_found
          | Some team \<Rightarrow>
              io_bind (io_state_dir F wd) (\<lambda>state_dir.
                with_delegate_lock F state_dir (schedule_locked F now uuid wd state_dir owner cfg team prompt))))"

record agent_descriptor =
  ad_name :: string
  ad_profile :: string
  ad_isolation :: string
  ad_max_parallel_tasks :: nat
  ad_live_session_tasks :: nat

record team_descriptor =
  td_name :: string
  td_members :: "string list"
  td_scheduler :: string

record agents_listing =
  al_available :: bool
  al_agents :: "agent_descriptor list"
  al_teams :: "team_descriptor list"

text \<open>The names of agents are distinct, so taking a count out of the map is reading it.\<close>

definition facade_list_agents :: "'d facade_env \<Rightarrow> path \<Rightarrow> ('d, string, agents_listing) facade" where
  "facade_list_agents F wd =
     io_bind (io_read (\<lambda>s. load_agents_config (fe_agents F) (facade_disk F) wd (fs_disk s))) (\<lambda>cfg.
       case cfg of
         None \<Rightarrow> io_ok \<lparr>al_available = False, al_agents = [], al_teams = []\<rparr>
       | Some c \<Rightarrow>
           io_bind (io_counts F wd) (\<lambda>counts.
             io_ok \<lparr>al_available = True,
               al_agents = map (\<lambda>a. \<lparr>ad_name = agp_name a, ad_profile = agp_profile a,
                   ad_isolation = (case agp_isolation a of Worktree \<Rightarrow> ''worktree'' | Shared \<Rightarrow> ''shared''),
                   ad_max_parallel_tasks = agp_max_parallel_tasks a, ad_live_session_tasks = counts (agp_name a)\<rparr>)
                 (agc_profiles c),
               al_teams = map (\<lambda>t. \<lparr>td_name = tm_name t, td_members = tm_members t,
                   td_scheduler = team_scheduler_name (tm_scheduler t)\<rparr>) (agc_teams c)\<rparr>))"

end
