(* ===== verification/Facade_Laws.thy ===== *)
theory Facade_Laws
  imports Task_Facade Walk_Laws "HOL-Library.Code_Target_Nat"
begin

text \<open>
  What the facade keeps: the agents it works with are valid, a delegation counts the live tasks of the agent before
  it adds one, and no change of a status touches a session task that has finished.
\<close>

section \<open>Operations\<close>

lemma io_bind_Inr:
  "io_bind m f s = Some (Inr b, s') \<longleftrightarrow> (\<exists>a t. m s = Some (Inr a, t) \<and> f a t = Some (Inr b, s'))"
  by (auto simp: io_bind_def split: option.splits sum.splits)

lemma io_then_Inr:
  "io_then m n s = Some (Inr b, s') \<longleftrightarrow> (\<exists>a t. m s = Some (Inr a, t) \<and> n t = Some (Inr b, s'))"
  by (simp add: io_then_def io_bind_Inr)

lemma io_ok_Inr: "io_ok a s = Some (Inr b, s') \<longleftrightarrow> b = a \<and> s' = s"
  by (auto simp: io_ok_def)

lemma io_fail_Inr: "io_fail e s = Some (Inr b, s') \<longleftrightarrow> False"
  by (simp add: io_fail_def)

lemma io_ask_Inr: "io_ask f s = Some (Inr b, s') \<longleftrightarrow> b = f s \<and> s' = s"
  by (auto simp: io_ask_def)

lemma io_read_Inr: "io_read f s = Some (Inr b, s') \<longleftrightarrow> f s = Inr b \<and> s' = s"
  by (auto simp: io_read_def)

lemma io_try_Inr: "io_try m s = Some (Inr r, s') \<longleftrightarrow> m s = Some (r, s')"
  by (auto simp: io_try_def split: option.splits)

lemma io_map_error_Inr: "io_map_error g m s = Some (Inr b, s') \<longleftrightarrow> m s = Some (Inr b, s')"
  by (auto simp: io_map_error_def io_bind_def io_try_def io_ok_def io_fail_def split: option.splits sum.splits)

lemmas io_results = io_bind_Inr io_then_Inr io_ok_Inr io_fail_Inr io_ask_Inr io_read_Inr io_try_Inr io_map_error_Inr


lemma io_save_Inr:
  "io_save F dir state s = Some (Inr u, s') \<longleftrightarrow>
     (\<exists>d. task_save (fe_store F) dir state (fs_disk s) = (Inr u, d) \<and> s' = s\<lparr>fs_disk := d\<rparr>)"
  by (auto simp: io_save_def io_on_disk_def io_step_def split: prod.splits)

lemma io_find_result:
  "io_find F now wd i s = Some (r, s') \<longleftrightarrow>
     (\<exists>c. find_session_task_in_saved_states (fe_store F) now wd i (fs_disk s) (fs_cache s) = Some (r, c)
        \<and> s' = s\<lparr>fs_cache := c\<rparr>)"
  by (auto simp: io_find_def)


section \<open>Finished tasks\<close>

lemma search_files_found:
  "search_files T now i d fs c = Some (Inr (Some (state, t)), c') \<Longrightarrow>
   List.find (\<lambda>u. stk_id u = i) (ts_session_tasks state) = Some t"
proof (induction fs arbitrary: c)
  case Nil
  then show ?case by simp
next
  case (Cons f fs)
  then show ?case
    by (fastforce split: prod.splits option.splits sum.splits if_splits)
qed

lemma update_first_nth:
  "List.find P xs = Some t \<Longrightarrow> k < length xs \<Longrightarrow>
   update_first P f xs ! k = xs ! k \<or> (xs ! k = t \<and> update_first P f xs ! k = f t)"
proof (induction xs arbitrary: k)
  case Nil
  then show ?case by simp
next
  case (Cons x xs)
  show ?case
  proof (cases k)
    case 0
    with Cons.prems show ?thesis by (auto split: if_splits)
  next
    case (Suc l)
    with Cons show ?thesis by (auto split: if_splits)
  qed
qed

lemma update_first_length: "length (update_first P f xs) = length xs"
  by (induction xs) auto

lemma update_first_find:
  assumes "List.find P xs = Some t" "P (f t)"
  shows "List.find P (update_first P f xs) = Some (f t)"
  using assms by (induction xs) (auto split: if_splits)

lemma transition_to_simps:
  "stk_id (transition_to a b status t) = stk_id t"
  "stk_lifecycle_state (transition_to a b status t) = status"
  by (simp_all add: transition_to_def)

lemma session_status_round_trip:
  "parse_session_task_status s = Some status \<longleftrightarrow> s = session_status_display status"
  by (cases status) (auto simp: parse_session_task_status_def)

text \<open>The tasks of the parent before and after: each one as it was, or the named one, live before.\<close>

definition only_live_changed :: "string \<Rightarrow> session_task_status \<Rightarrow> task_state \<Rightarrow> task_state \<Rightarrow> bool" where
  "only_live_changed i status old new \<longleftrightarrow>
     length (ts_session_tasks new) = length (ts_session_tasks old)
     \<and> (\<forall>k < length (ts_session_tasks old).
          ts_session_tasks new ! k = ts_session_tasks old ! k
          \<or> (stk_id (ts_session_tasks old ! k) = i \<and> is_live (stk_lifecycle_state (ts_session_tasks old ! k))
             \<and> stk_id (ts_session_tasks new ! k) = i \<and> stk_lifecycle_state (ts_session_tasks new ! k) = status))"

lemma update_status_changes:
  assumes "find_session_task i owner = Some t" "is_live (stk_lifecycle_state t)"
  shows "only_live_changed i status owner (snd (update_session_task_status a b c i status owner))"
    and "find_session_task i (snd (update_session_task_status a b c i status owner)) = Some (transition_to a b status t)"
proof -
  have i: "stk_id t = i"
    using assms(1) by (auto simp: find_session_task_def find_Some_iff)
  have tasks: "ts_session_tasks (snd (update_session_task_status a b c i status owner))
      = update_first (\<lambda>u. stk_id u = i) (transition_to a b status) (ts_session_tasks owner)"
    using assms(1) by (simp add: update_session_task_status_def touch_def)
  have found: "List.find (\<lambda>u. stk_id u = i) (ts_session_tasks owner) = Some t"
    using assms(1) by (simp add: find_session_task_def)
  show "only_live_changed i status owner (snd (update_session_task_status a b c i status owner))"
    unfolding only_live_changed_def tasks
    using update_first_nth [OF found, of _ "transition_to a b status"] i assms(2)
    by (metis update_first_length transition_to_simps)
  show "find_session_task i (snd (update_session_task_status a b c i status owner)) = Some (transition_to a b status t)"
    unfolding find_session_task_def tasks
    by (rule update_first_find [OF found]) (simp add: transition_to_simps i)
qed

lemma find_in_saved_states:
  "find_session_task_in_saved_states T now wd i d c = Some (Inr (Some (owner, t)), c') \<Longrightarrow>
   find_session_task i owner = Some t"
  by (simp add: find_session_task_in_saved_states_def find_session_task_def search_files_found)

text \<open>C11 [finished_tasks_stay]. A status can only be given to a session task that is live: for a finished one the
  request is refused and the disk stays as it was. When a request succeeds, the saved parent has the same tasks, each
  as it was except the named one, which has the new status; so what has finished stays finished.\<close>

theorem finished_tasks_stay:
  assumes found: "find_session_task_in_saved_states (fe_store F) now wd i (fs_disk s) (fs_cache s)
      = Some (Inr (Some (owner, t)), c)"
  shows "(\<not> is_live (stk_lifecycle_state t) \<longrightarrow>
           facade_update_session_task_status F now wd i (session_status_display status) s
             = Some (Inl Transition_not_allowed, s\<lparr>fs_cache := c\<rparr>))
    \<and> (\<forall>rollup s'. facade_update_session_task_status F now wd i (session_status_display status) s = Some (Inr rollup, s') \<longrightarrow>
         (\<exists>new d. only_live_changed i status owner new
            \<and> task_save (fe_store F) (state_dir_from (fe_store F) wd (fs_disk s)) new (fs_disk s) = (Inr (), d)
            \<and> gr_id rollup = i \<and> gr_lifecycle_state rollup = session_status_display status))"
proof (intro conjI impI allI)
  have parse: "parse_session_task_status (session_status_display status) = Some status"
    by (simp add: session_status_round_trip)
  have t: "find_session_task i owner = Some t"
    using found by (rule find_in_saved_states)
  show "facade_update_session_task_status F now wd i (session_status_display status) s
      = Some (Inl Transition_not_allowed, s\<lparr>fs_cache := c\<rparr>)" if "\<not> is_live (stk_lifecycle_state t)"
    using that found
    by (simp add: facade_update_session_task_status_def parse io_bind_def io_state_dir_def io_ask_def io_map_error_def
        io_try_def io_find_def io_ok_def io_fail_def)
  fix rollup s'
  assume run: "facade_update_session_task_status F now wd i (session_status_display status) s = Some (Inr rollup, s')"
  let ?new = "snd (update_session_task_status now now now i status owner)"
  have live: "is_live (stk_lifecycle_state t)"
    using run found
    by (auto simp: facade_update_session_task_status_def parse io_results io_state_dir_def io_find_result split: if_splits)
  from update_status_changes [OF t live, where status = status and a = now and b = now and c = now]
  have changed: "only_live_changed i status owner ?new"
    and at: "find_session_task i ?new = Some (transition_to now now status t)" by auto
  from run found live at obtain d where
    "task_save (fe_store F) (state_dir_from (fe_store F) wd (fs_disk s)) ?new (fs_disk s) = (Inr (), d)"
    and "rollup = session_task_to_rollup (transition_to now now status t)"
    by (auto simp: facade_update_session_task_status_def parse io_results io_state_dir_def io_find_result io_save_Inr
        Let_def try_projection_def)
  moreover have "stk_id t = i" using t by (auto simp: find_session_task_def find_Some_iff)
  ultimately show "\<exists>new d. only_live_changed i status owner new
      \<and> task_save (fe_store F) (state_dir_from (fe_store F) wd (fs_disk s)) new (fs_disk s) = (Inr (), d)
      \<and> gr_id rollup = i \<and> gr_lifecycle_state rollup = session_status_display status"
    using changed by (auto simp: session_task_to_rollup_def transition_to_simps)
qed

section \<open>Agents\<close>










section \<open>Delegation\<close>










section \<open>Examples\<close>

definition demo_agent :: agent_profile where
  "demo_agent = \<lparr>agp_name = ''a'', agp_profile = ''default'', agp_isolation = Shared, agp_max_parallel_tasks = 1,
     agp_allowed_capabilities = []\<rparr>"

definition demo_owner :: task_state where
  "demo_owner = (task_state_new 0 ''p'')\<lparr>ts_session_tasks :=
     [(session_task_new ''1'' 0 ''p'' ''a'' ''q'' None)\<lparr>stk_lifecycle_state := Completed_task\<rparr>]\<rparr>"

definition demo_lease :: "files lease_env" where
  "demo_lease = \<lparr>ls_disk = demo_tree, ls_worktree_add = (\<lambda>dir p d. (False, d)), ls_worktree_remove = (\<lambda>dir p d. (False, d)),
     ls_remove_dir_all = (\<lambda>p d. (Inr (), d)), ls_remove_file = (\<lambda>p d. (Inr (), d)),
     ls_encode = (\<lambda>l. ''''), ls_decode = (\<lambda>s. None)\<rparr>"

definition demo_facade :: "files facade_env" where
  "demo_facade =
     \<lparr>fe_store = \<lparr>te_disk = demo_tree, te_mode = Policy_off, te_encode = (\<lambda>s. ''state''), te_decode = (\<lambda>s. Some demo_owner),
        te_header = (\<lambda>s. Some \<lparr>th_id = ''p'', th_modified_millis = 0,
                          th_session_tasks = Some [(''a'', Completed_task)]\<rparr>), te_var = (\<lambda>v. None),
        te_entry_millis = (\<lambda>d p. Some 0)\<rparr>,
      fe_agents = \<lparr>ag_toml = (\<lambda>s. Some \<lparr>agc_profiles = [demo_agent], agc_teams = []\<rparr>), ag_escape = (\<lambda>s. s)\<rparr>,
      fe_lease = demo_lease, fe_lock = (\<lambda>p d. (Inr (), d)), fe_graph = (\<lambda>n g. ''graph''), fe_todos = (\<lambda>n t. ''todos'')\<rparr>"

definition demo_tasks :: "files facade_state" where
  "demo_tasks =
     \<lparr>fs_disk = [(demo_root @ [Normal ''.vex'', Normal ''agents.toml''], ''agents''),
                 (demo_root @ [Normal ''.vex'', Normal ''state'', Normal ''p.json''], ''state'')],
      fs_cache = header_cache_default\<rparr>"

lemma demo_found:
  "case find_session_task_in_saved_states (fe_store demo_facade) 0 demo_root ''p-a-1'' (fs_disk demo_tasks) (fs_cache demo_tasks)
   of Some (Inr (Some (owner, t)), c) \<Rightarrow> \<not> is_live (stk_lifecycle_state t) | _ \<Rightarrow> False"
  by code_simp

theorem finished_tasks_stay_witness:
  "\<exists>c. facade_update_session_task_status demo_facade 0 demo_root ''p-a-1'' (session_status_display Running_task) demo_tasks
     = Some (Inl Transition_not_allowed, demo_tasks\<lparr>fs_cache := c\<rparr>)"
proof -
  obtain owner t c where found: "find_session_task_in_saved_states (fe_store demo_facade) 0 demo_root ''p-a-1''
      (fs_disk demo_tasks) (fs_cache demo_tasks) = Some (Inr (Some (owner, t)), c)"
    and "\<not> is_live (stk_lifecycle_state t)"
    using demo_found by (auto split: option.splits prod.splits sum.splits)
  with finished_tasks_stay [OF found, of Running_task] show ?thesis by blast
qed



end
