(* ===== verification/Spec2Isabelle.thy ===== *)
theory Spec2Isabelle
  imports Tool_Call_Laws Chat_Compat_Laws Stream_Laws Task_Bridge_Laws Subtask_Laws Prefix_Manager History_Laws
    Tool_Safety Tool_Edits Round_Laws Edit_Loop_Laws Editor_Laws Api_Client_Laws Signal_Stream_Laws
    Sandbox_Laws Memory_Laws Peer_Laws Task_Store_Laws Transcript_Laws Context_Laws
    Search_Laws Facade_Laws
begin

text \<open>
  A verification development for VexCoder, a coding assistant that drives a language model from the
  terminal. It follows the assistant's core: the path a model's answer takes from the bytes of the network
  to the records the assistant keeps, the conversation that asks the model again with the results of the
  tools it called, the tools themselves, and the documents in which tasks, teams and decisions are kept.

  \<^bold>\<open>The program.\<close> The network delivers a byte stream in arbitrary chunks. The stream parser
  (\<open>src/api/stream.rs\<close>, \<open>src/api/stream/sse_framing.rs\<close>) cuts it into server-sent-event frames. A frame
  that holds a runtime envelope is passed through; any other payload goes to the protocol adapter
  (\<open>src/api/stream/ingress_adapter.rs\<close>), which feeds the protocol ingress of the envelope normalizer
  (\<open>src/runtime/json_handoff/protocol_ingress.rs\<close>). The ingress runs model text through the stream text
  normaliser (\<open>src/api/stream/text_normaliser.rs\<close>), which finds tool calls written as tags, and calls the
  normalizer (\<open>src/runtime/json_handoff.rs\<close>, \<open>src/runtime/json_handoff/tool_calls.rs\<close>). The normalizer
  numbers every event and keeps the fragments of tool arguments in the delta accumulator
  (\<open>src/runtime/delta_accumulator.rs\<close>). From a trace of envelopes the derived records are computed
  (\<open>src/runtime/json_handoff/derived.rs\<close>), with the evidence of the turn (\<open>src/pulse_evidence.rs\<close>) and its
  token counts (\<open>src/usage.rs\<close>).

  The signals of the envelopes drive the conversation manager (\<open>src/state/conversation/send_message.rs\<close>): a
  message of the user opens a turn in the task document (\<open>src/runtime/task_document\<close>), the model is asked with
  the pruned and compacted history (\<open>history.rs\<close>), its signals are applied to the document and sent to the
  front end (\<open>streaming.rs\<close>), the calls it makes pass the guards (\<open>tools/validation.rs\<close>), the approval by the
  user and the hooks (\<open>tools/mod.rs\<close>), are dispatched (\<open>tools/routing.rs\<close>) to the file and git tools
  (\<open>src/tools/operator\<close>), and their results go back to the model in the next round, until it answers without
  a call or a limit ends the turn. Around it the runtime context (\<open>src/runtime/context.rs\<close>) runs the updates of a
  pulse through the text normaliser to the front end and counts the tokens, and the edit loop
  (\<open>src/runtime/edit_loop.rs\<close>) sends messages until the validation suite (\<open>src/runtime/validation.rs\<close>) passes. The
  task document is saved and restored through the task state
  (\<open>src/runtime/task_state\<close>); teams of agents are scheduled by the subtask orchestrator
  (\<open>src/app/subtask_orchestrator\<close>) and share prompt prefixes (\<open>src/runtime/multiplex_prefix.rs\<close>).

  \<^bold>\<open>The theories.\<close>
  \<^item> \<open>Prelude\<close>: saturating integers, strings as UTF-8 bytes with Rust's search, trim and split,
    keyed containers (locale \<open>keyed_map\<close>, interpreted for \<open>IndexMap\<close> and \<open>BTreeMap\<close>), emitters (locale
    \<open>emitter_law\<close>).
  \<^item> \<open>Json\<close>: \<open>serde_json::Value\<close>; the text parser and printer of the library are the parameter record
    \<open>serde\<close>. \<open>Types\<close>: the data the components exchange, token accounting.
  \<^item> The stream: \<open>Delta_Accumulator\<close>, \<open>Text_Normaliser\<close>, \<open>Evidence\<close>, \<open>Ingress_Data\<close>, \<open>Normalizer\<close> (with
    \<open>Normalizer_Laws\<close> and \<open>Tool_Call_Laws\<close>), \<open>Derived\<close>, \<open>Protocol_Ingress\<close> (with \<open>Protocol_Laws\<close> and
    \<open>Chat_Compat_Laws\<close>), \<open>Stream_Parser\<close> (with \<open>Stream_Laws\<close> and \<open>Permutations\<close>).
  \<^item> Tasks: \<open>Approval\<close> (capabilities and the policy file), \<open>Task_State\<close>, \<open>Task_Document\<close> (the condenser: every
    runtime signal on the live document; laws in \<open>Task_Document_Laws\<close>), \<open>Task_Bridge\<close> (saving and restoring;
    \<open>Task_Bridge_Laws\<close>), \<open>Working_Set\<close> and \<open>Join_Index\<close> (the sidecar records), \<open>Subtasks\<close> (teams;
    \<open>Subtask_Laws\<close>), \<open>Prefix_Manager\<close> (fingerprints and the cache, locale \<open>bounded_fifo\<close>).
  \<^item> Tools: \<open>Tool_Paths\<close> (paths and the guard \<open>resolve_path\<close>), \<open>Tool_Files\<close> (the operations of
    \<open>file_ops.rs\<close> on a state \<open>tool_world\<close> with the file system and the ledger of reads), \<open>Tool_Routing\<close>
    (arguments, classes of tools, guards), \<open>Tool_Calls\<close> (the dispatch \<open>call_tool_routing\<close>, git), \<open>Tool_Preview\<close>
    (previews and results as the model sees them); laws in \<open>Tool_Edits\<close> and \<open>Tool_Safety\<close>, an example file
    system in \<open>Demo_Disk\<close>.
  \<^item> Conversation: \<open>History\<close> (pruning, compaction, truncation; \<open>History_Laws\<close>), \<open>Conversation\<close> (the record
    \<open>conversation\<close>, fields \<open>cm_...\<close> as in \<open>ConversationManager\<close>, with its document and undo stack),
    \<open>Streaming\<close>, \<open>Tool_Rounds\<close> (approval, hooks, one call, a parallel round), \<open>Turn_Loop\<close> (\<open>turn_round\<close> is one
    pass of the loop of \<open>send_message_with_policy\<close>, \<open>turn_loop_run\<close> the loop); \<open>Turn_Steps\<close> holds the locales of
    relations kept by every step of a turn, \<open>Turn_Laws\<close> and \<open>Round_Laws\<close> the laws.
  \<^item> Runtime: \<open>Runtime_Context\<close> (forwarding, prompts, pulses on the record \<open>runtime_context\<close>), \<open>Validation\<close> (suites and
    their runs), \<open>Edit_Loop\<close> (\<open>edit_pulse\<close> is one turn of the loop, \<open>edit_loop_run\<close> the loop; \<open>Edit_Loop_Laws\<close>).
  \<^item> Client: \<open>Tool_Definitions\<close> (the schemas of \<open>src/api/client/tools.rs\<close>), \<open>Api_Client\<close> (retry hints of
    \<open>src/runtime/rate_limit.rs\<close>, endpoints, payloads, headers, errors, discovery; \<open>Api_Client_Laws\<close>), \<open>Signal_Stream\<close>
    (\<open>src/api/stream_ingress.rs\<close>: the stream of envelopes, retries, the answer without streaming; \<open>Signal_Stream_Laws\<close>).
  \<^item> Editor: \<open>Text_Util\<close> (characters of a byte sequence, \<open>src/runtime/text_util.rs\<close>),
    \<open>Input_Metrics\<close> (rows and wrapping), \<open>Editor\<close> (keys, history, undo; \<open>Editor_Laws\<close>).
  \<^item> Storage and isolation: \<open>Sandbox\<close> (\<open>src/runtime/sandbox.rs\<close>; \<open>Sandbox_Laws\<close>), \<open>Memory_Notes\<close> (notes, candidates
    and project instructions; \<open>Memory_Laws\<close>), \<open>Disk_Policy\<close>, \<open>Peer_Channel\<close> (messages between agents;
    \<open>Peer_Laws\<close>), \<open>Task_Store\<close> (\<open>persist.rs\<close>, \<open>header_cache.rs\<close>; \<open>Task_Store_Laws\<close>).
  \<^item> Screen and context: \<open>Transcript\<close> (rows of the task document, timeline, scrolling), \<open>Transcript_View\<close> (wrapping,
    styles, markdown, window of \<open>src/ui/render\<close>), laws in \<open>Transcript_Laws\<close>; \<open>Context_Assembler\<close>
    (\<open>src/runtime/context_assembler\<close>, the file cache, git, embedded files; \<open>Context_Laws\<close>).
  \<^item> Search: \<open>Workspace_Walk\<close> (the walk through the visible files and the tools over it: listing, globs, literal and
    regular searches; \<open>Walk_Laws\<close>), \<open>Code_Search\<close> (the index of the code of \<open>src/tools/index.rs\<close> and the ranked
    search of \<open>src/tools/search.rs\<close>), \<open>Semantic_Index\<close> (stored embeddings, \<open>src/tools/semantic.rs\<close>); laws in
    \<open>Search_Laws\<close>.
  \<^item> Facade: \<open>Task_Facade\<close> (the agents file, the leases of work trees and the operations of
    \<open>src/app/task_facade.rs\<close>, written with \<open>io_bind\<close> on the record \<open>facade_state\<close>); laws in \<open>Facade_Laws\<close>.

  \<^bold>\<open>What is shown.\<close>
  \<^item> Framing: the result of a stream does not depend on its chunking, for line feeds, carriage
    returns and their mixture, with or without a byte order mark; the buffer is bounded; a stream is
    either passed through or adapted.
  \<^item> Numbering: the frames of a normalizer carry increasing sequence numbers and distinct ids, across every
    operation and across the protocol ingress; only an ingress error leaves a number out.
  \<^item> Tool calls in the stream: their ids are unique in a session; the argument fragments of a streamed call are
    assembled in order; the result is reported under the id of the call, and its envelope names
    the start envelope as parent. The same for calls that come as chat-compatible deltas.
  \<^item> Text: the response text of the derived record is the streamed text; text without tags passes
    the text normaliser unchanged, and a tagged call is recognised under any chunking.
  \<^item> Accumulator and tokens: a well-formedness invariant, exact assembly up to the size limit, the memory
    watermark; the end of a turn reports the saturated totals of its usage messages.
  \<^item> Documents: the step ids of a new task increase, and those added to a restored one are above all it began
    with; grants are backed by recorded approvals, a streamed block is assembled from
    its deltas, a saved task is restored to the same evidence, the working set keeps its objective.
  \<^item> Teams: a sequential team works in order, one at a time, and never stalls while its states can be written; a join keeps the handoffs no
    later one replaces; the prefix cache refines the list of its latest insertions.
  \<^item> History: pruning and compaction keep the preserved message and the recent turns within the limits.
  \<^item> Files: what exists of an accepted path lies in the workspace through every link; whatever file tool the model
    calls, only paths the guard accepted for an argument of that call are changed (with the directories above them and
    a temporary sibling), and a git tool makes one run of git with fixed arguments; an edit replaces exactly
    one occurrence; the tests-only guard sees every path the file tool acts on.
  \<^item> Turns: every message ends, after at most four requests per round; its turn is recorded with the outcome
    it returned; a tool that needs confirmation runs only on an approval of that very call; no tool runs that the
    input or a policy forbids; every call of a round is answered in its place, under its id or the name of its tool;
    of the panics of the manager's own code in a release build, a message reaches one exactly when a turn was left open.
  \<^item> Runtime: the text shown of a block is the normalised text of its increments; an edit loop that reports success
    has run its whole suite with exit code 0 right after a turn that changed something, and every loop ends within its turns.
  \<^item> Client: the messages on the wire say what the history says; exactly the built-in tools that would run are offered;
    configured headers leave the reserved ones alone; a stream delivers what the parser makes of the network,
    whatever its cuts.
  \<^item> Editor: no key panics, texts stay well-formed, the keys refine lists of characters, undo and redo are inverse,
    the drawn lines are those the cursor is placed in.
  \<^item> Storage and isolation: the mounts a sandboxed command can write to, a required sandbox is never skipped, injected
    notes and instructions keep their budgets, a channel is the log of its messages, the scan for tasks keeps the
    most recent ones, and the header cache does not show.
  \<^item> Screen and context: the transcript keeps every word of the conversation in order, colours keep the text of a
    line, a scrolled view stays on its rows; the files of a context stay within the limits, and the cache of files
    answers what reading them would, or what they said when they had the length and the time they have now.
  \<^item> Search: the walk is the traversal of the visible tree, returns on every tree of bounded depth and lists only files
    that are inside the workspace and not ignored; the results of a search pass the filters of its query; an index
    brought up to date after a change of one file is the one a new build gives, exactly as far as the ignore rules say of
    the file alone what the walk does with it; the stored embeddings are those of the current sources, as far as their
    hash and their key tell.
  \<^item> Facade: a session task that has finished keeps its status, and no delegation, which counts under its lock, takes an agent
    above its limit.
  \<^item> Some theorems and lemmas describe inputs on which the code does not do what it means to: a panic on
    \<open><function=x</function>\<close>, a JSON call that is lost when its opening tag ends a chunk, the usage
    and the tool call of a message that itself starts the turn, the repair of step ids that does not
    end when the largest id is repeated, the temporary sibling of a patch that leaves the workspace through a
    link (\<open>patch_follows_temp_link\<close>), a link without target that passes the path guard
    (\<open>dangling_link_accepted\<close>), an ignored file that comes back into the index (\<open>kept_file_comes_back\<close>), a change that
    the file cache does not see (\<open>same_fingerprint_answers_old\<close>), and an increment of text that is taken for a
    repetition (\<open>increment_lost\<close>).

  \<^bold>\<open>Modelling decisions.\<close> Every operation is a function on an explicit state. Machine integers are
  natural numbers with saturation and wrap-around written out. A panic of the source is \<open>None\<close>, an \<open>Err\<close>
  is the left side of a sum. Loops are recursive functions with a termination proof; the two loops
  that may not end, \<open>skip_seen\<close> of \<open>Evidence\<close> and \<open>walk_loop\<close> of \<open>Workspace_Walk\<close> (it follows links, which can
  make a cycle), are partial functions whose result \<open>None\<close> is not returning, and the theorems show when they
  return. There is no fuel: the loop of a turn ends because each pass counts a
  round, uses one of three retries, or starts the final answer (at most 64 rounds by the clamp of
  \<open>resolve_max_tool_rounds\<close>).

  Code outside the repository is a parameter: clocks, identifiers, the JSON text functions, hashes
  and the decoders generated by \<open>derive(Deserialize)\<close> (\<open>runtime_env\<close>, \<open>ingress_env\<close>, \<open>policy_env\<close>,
  \<open>orchestrator_env\<close>, \<open>prefix_env\<close>, \<open>preview_env\<close>, \<open>validation_env\<close>,
  \<open>display_env\<close>, \<open>url_lib\<close>, \<open>rate_env\<close>, \<open>http_lib\<close>, \<open>server_probes\<close>, \<open>sandbox_env\<close>, \<open>memory_env\<close>, \<open>channel_env\<close>,
  \<open>task_store_env\<close>, \<open>view_env\<close>, \<open>git_env\<close>, \<open>git_patterns\<close>, \<open>search_env\<close>,
  \<open>index_env\<close>, \<open>arith\<close>, \<open>semantic_env\<close>, \<open>store_env\<close>, \<open>agents_env\<close>, \<open>lease_env\<close>, \<open>facade_env\<close>), the file system
  (\<open>disk\<close>), the git process (\<open>tool_env\<close>, whose \<open>tv_query\<close> also stands, in the dispatch, for the branches of the search
  tools; the tools themselves are in \<open>Workspace_Walk\<close> and \<open>Semantic_Index\<close>), and in \<open>turn_env\<close> the model,
  the user who approves, the processes of hooks and HTTP, which act on
  a world \<open>cm_world\<close> that only they look into. The log \<open>cm_events\<close> of the conversation records, in order, what the
  manager does to that world. No lemma assumes of a parameter what it concludes. The calls of a parallel round
  are run in their order.

  \<^bold>\<open>Not modelled.\<close> Drawing to the terminal and its modal windows, the HTTP server, the sockets below the client, OAuth and
  key storage,   configuration files, the command line, the runner of shell commands and MCP: input and output with no contract
  that a model without the outside could state. Of the facade, polling a join and the envelope of a working set.
  Logging, tracing spans and warnings on the standard
  error stream are dropped.
\<close>

end
